(* ===== verification/Prelude.thy ===== *)
theory Prelude
  imports Main
begin

text \<open>
  What the components of the web client share: the part of JavaScript's string, array and
  comparison library the sources use, and the generic lemmas the component proofs rest on.

  A JavaScript string is modelled as a list of characters, one character per UTF-16 code unit
  below 256 (Latin-1). White space, letter case, percent encoding and lengths are those of the
  language on that range. Literals outside it (an em dash, an ellipsis) only ever appear in
  rendered text and are written as named constants.
\<close>

named_theorems view_defs \<open>definitions of rendering functions\<close>
named_theorems step_defs \<open>definitions of state transitions\<close>

type_synonym jstring = string

section \<open>Strings\<close>

definition js_ws :: "char \<Rightarrow> bool" where
  "js_ws c \<longleftrightarrow> (of_char c :: nat) \<in> set [9, 10, 11, 12, 13, 32, 160]"

definition js_trim :: "jstring \<Rightarrow> jstring" where
  "js_trim s = rev (dropWhile js_ws (rev (dropWhile js_ws s)))"

definition lower_char :: "char \<Rightarrow> char" where
  "lower_char c = (let n = (of_char c :: nat) in
     if (65 \<le> n \<and> n \<le> 90) \<or> (192 \<le> n \<and> n \<le> 222 \<and> n \<noteq> 215) then char_of (n + 32) else c)"

definition js_lower :: "jstring \<Rightarrow> jstring" where
  "js_lower s = map lower_char s"

definition starts_with :: "jstring \<Rightarrow> jstring \<Rightarrow> bool" where
  "starts_with s p \<longleftrightarrow> take (length p) s = p"

definition ends_with :: "jstring \<Rightarrow> jstring \<Rightarrow> bool" where
  "ends_with s p \<longleftrightarrow> length p \<le> length s \<and> drop (length s - length p) s = p"

fun js_includes :: "jstring \<Rightarrow> jstring \<Rightarrow> bool" where
  "js_includes [] p = (p = [])"
| "js_includes (c # cs) p = (starts_with (c # cs) p \<or> js_includes cs p)"

text \<open>\<open>s.split(/[..]+/)\<close>: the pieces between maximal runs of separator characters.\<close>

function split_runs :: "(char \<Rightarrow> bool) \<Rightarrow> jstring \<Rightarrow> jstring list" where
  "split_runs p s =
     (let w = takeWhile (\<lambda>c. \<not> p c) s; r = dropWhile (\<lambda>c. \<not> p c) s in
      if r = [] then [w] else w # split_runs p (dropWhile p r))"
  by pat_completeness auto
termination
proof (relation "measure (\<lambda>(p, s). length s)"; clarsimp)
  fix p :: "char \<Rightarrow> bool" and s :: jstring and x
  assume x: "x \<in> set s" "p x"
  define r where "r = dropWhile (\<lambda>c. \<not> p c) s"
  have "r \<noteq> []" unfolding r_def using x by auto
  then obtain c cs where r: "r = c # cs" by (cases r) auto
  moreover have "p c"
    using hd_dropWhile [of "\<lambda>c. \<not> p c" s] \<open>r \<noteq> []\<close> r unfolding r_def by auto
  moreover have "length r \<le> length s" unfolding r_def by (rule length_dropWhile_le)
  ultimately have "length (dropWhile p r) < length s"
    using length_dropWhile_le [of p cs] by simp
  then show "length (dropWhile p (dropWhile (\<lambda>c. \<not> p c) s)) < length s" by (simp add: r_def)
qed

declare split_runs.simps [simp del]

text \<open>\<open>.filter(Boolean)\<close> on an array of strings keeps the non-empty ones.\<close>

definition tokens :: "(char \<Rightarrow> bool) \<Rightarrow> jstring \<Rightarrow> jstring list" where
  "tokens p s = filter (\<lambda>w. w \<noteq> []) (split_runs p s)"

fun js_join :: "jstring \<Rightarrow> jstring list \<Rightarrow> jstring" where
  "js_join sep [] = []"
| "js_join sep [x] = x"
| "js_join sep (x # y # zs) = x @ sep @ js_join sep (y # zs)"

text \<open>\<open>s.split(c)\<close> for a one-character separator: every occurrence separates.\<close>

fun split_on :: "char \<Rightarrow> jstring \<Rightarrow> jstring list" where
  "split_on c [] = [[]]"
| "split_on c (x # xs) = (if x = c then [] # split_on c xs
     else (case split_on c xs of [] \<Rightarrow> [[x]] | w # ws \<Rightarrow> (x # w) # ws))"

definition ws_or_comma :: "char \<Rightarrow> bool" where
  "ws_or_comma c \<longleftrightarrow> js_ws c \<or> c = CHR '',''"

text \<open>\<open>a || b\<close> on strings: the empty string is falsy.\<close>

definition or_else :: "jstring \<Rightarrow> jstring \<Rightarrow> jstring" where
  "or_else a b = (if a = [] then b else a)"

text \<open>\<open>a ?? b\<close>: the second operand for null and undefined.\<close>

definition nullish :: "'a option \<Rightarrow> 'a \<Rightarrow> 'a" where
  "nullish a b = (case a of None \<Rightarrow> b | Some x \<Rightarrow> x)"

text \<open>Glyphs outside Latin-1 that appear in rendered text only, as their UTF-8 bytes.\<close>

definition emdash :: jstring where
  "emdash = [CHR 0xE2, CHR 0x80, CHR 0x94]"

definition endash :: jstring where
  "endash = [CHR 0xE2, CHR 0x80, CHR 0x93]"

definition ellipsis :: jstring where
  "ellipsis = [CHR 0xE2, CHR 0x80, CHR 0xA6]"

definition middot :: jstring where
  "middot = [CHR 0xB7]"

definition rarrow :: jstring where
  "rarrow = [CHR 0xE2, CHR 0x86, CHR 0x92]"

text \<open>Rendered text given by its UTF-16 code units: those outside Latin-1 become their UTF-8 bytes.\<close>

definition unit_text :: "nat \<Rightarrow> jstring" where
  "unit_text n = (if n < 256 then [char_of n]
     else if n < 2048 then [char_of (192 + n div 64), char_of (128 + n mod 64)]
     else [char_of (224 + n div 4096), char_of (128 + n div 64 mod 64), char_of (128 + n mod 64)])"

definition uni :: "nat list \<Rightarrow> jstring" where
  "uni ns = concat (map unit_text ns)"

section \<open>Numbers as text\<close>

fun show_nat :: "nat \<Rightarrow> jstring" where
  "show_nat n = (if n < 10 then [char_of (48 + n)] else show_nat (n div 10) @ [char_of (48 + n mod 10)])"

declare show_nat.simps [simp del]

definition show_int :: "int \<Rightarrow> jstring" where
  "show_int i = (if i < 0 then CHR ''-'' # show_nat (nat (- i)) else show_nat (nat i))"

section \<open>Percent encoding\<close>

definition hex_digit :: "nat \<Rightarrow> char" where
  "hex_digit n = (if n < 10 then char_of (48 + n) else char_of (55 + n))"

definition pct_byte :: "nat \<Rightarrow> jstring" where
  "pct_byte n = [CHR ''%'', hex_digit (n div 16), hex_digit (n mod 16)]"

definition is_alnum :: "char \<Rightarrow> bool" where
  "is_alnum c \<longleftrightarrow> (let n = (of_char c :: nat) in
     (48 \<le> n \<and> n \<le> 57) \<or> (65 \<le> n \<and> n \<le> 90) \<or> (97 \<le> n \<and> n \<le> 122))"

text \<open>The UTF-8 bytes of one Latin-1 code unit, percent-encoded.\<close>

definition pct_char :: "char \<Rightarrow> jstring" where
  "pct_char c = (let n = (of_char c :: nat) in
     if n < 128 then pct_byte n else pct_byte (192 + n div 64) @ pct_byte (128 + n mod 64))"

definition uri_unreserved :: "char \<Rightarrow> bool" where
  "uri_unreserved c \<longleftrightarrow> is_alnum c \<or> c \<in> set ''-_.!~*()'' \<or> c = CHR 0x27"

definition encodeURIComponent :: "jstring \<Rightarrow> jstring" where
  "encodeURIComponent s = concat (map (\<lambda>c. if uri_unreserved c then [c] else pct_char c) s)"

text \<open>\<open>URLSearchParams.toString()\<close>: form encoding, where a space is written as a plus.\<close>

definition form_encode :: "jstring \<Rightarrow> jstring" where
  "form_encode s = concat (map (\<lambda>c. if is_alnum c \<or> c \<in> set ''*-._'' then [c]
     else if c = CHR '' '' then [CHR ''+''] else pct_char c) s)"

definition url_search_params :: "(jstring \<times> jstring) list \<Rightarrow> jstring" where
  "url_search_params ps = js_join ''&'' (map (\<lambda>(k, v). form_encode k @ ''='' @ form_encode v) ps)"

section \<open>Arrays\<close>

definition remove_nth :: "nat \<Rightarrow> 'a list \<Rightarrow> 'a list" where
  "remove_nth i xs = take i xs @ drop (Suc i) xs"

text \<open>
  \<open>Array.prototype.sort\<close> with a comparator: a stable sort. For a comparator that is a total
  preorder the stable result is unique, and insertion from the right computes it.
\<close>

fun insert_by :: "('a \<Rightarrow> 'a \<Rightarrow> bool) \<Rightarrow> 'a \<Rightarrow> 'a list \<Rightarrow> 'a list" where
  "insert_by le x [] = [x]"
| "insert_by le x (y # ys) = (if le x y then x # y # ys else y # insert_by le x ys)"

definition js_sort :: "('a \<Rightarrow> 'a \<Rightarrow> bool) \<Rightarrow> 'a list \<Rightarrow> 'a list" where
  "js_sort le xs = foldr (insert_by le) xs []"

section \<open>Requests that a newer one aborts\<close>

text \<open>
  A request in flight is what it asks for and whether its signal is aborted. An effect with an
  \<open>AbortController\<close> aborts the request of its previous run before it sends the next one.
\<close>

definition abort_requests :: "('a \<times> bool) list \<Rightarrow> ('a \<times> bool) list" where
  "abort_requests xs = map (\<lambda>(p, a). (p, True)) xs"

definition live_requests :: "('a \<times> bool) list \<Rightarrow> ('a \<times> bool) list" where
  "live_requests xs = filter (\<lambda>(p, a). \<not> a) xs"

text \<open>At most one request is not aborted, and it asks for \<open>p\<close>.\<close>

definition latest_ok :: "'a \<Rightarrow> ('a \<times> bool) list \<Rightarrow> bool" where
  "latest_ok p xs \<longleftrightarrow> length (live_requests xs) \<le> 1 \<and> (\<forall>(q, a) \<in> set xs. \<not> a \<longrightarrow> q = p)"

section \<open>Lemmas on strings\<close>

lemma js_trim_Nil [simp]: "js_trim [] = []"
  by (simp add: js_trim_def)

lemma js_trim_id: "s = [] \<or> (\<not> js_ws (hd s) \<and> \<not> js_ws (last s)) \<Longrightarrow> js_trim s = s"
proof (cases s)
  case (Cons c cs)
  assume a: "s = [] \<or> (\<not> js_ws (hd s) \<and> \<not> js_ws (last s))"
  then have "dropWhile js_ws s = s" using Cons by simp
  moreover have "dropWhile js_ws (rev s) = rev s"
    using a Cons by (metis dropWhile_eq_self_iff hd_rev list.discI)
  ultimately show ?thesis by (simp add: js_trim_def)
qed simp

lemma js_trim_ends: "js_trim s \<noteq> [] \<Longrightarrow> \<not> js_ws (hd (js_trim s)) \<and> \<not> js_ws (last (js_trim s))"
proof -
  assume ne: "js_trim s \<noteq> []"
  define d where "d = dropWhile js_ws s"
  define e where "e = dropWhile js_ws (rev d)"
  have t: "js_trim s = rev e" by (simp add: js_trim_def d_def e_def)
  have e: "e \<noteq> []" using ne t by simp
  have l: "\<not> js_ws (last (rev e))"
    using e hd_dropWhile [of js_ws "rev d"] by (simp add: last_rev e_def)
  have "d \<noteq> []" using e by (auto simp: e_def)
  then have hd: "\<not> js_ws (hd d)" unfolding d_def by (rule hd_dropWhile)
  obtain pre where "rev d = pre @ e"
    using takeWhile_dropWhile_id [of js_ws "rev d"] by (metis e_def)
  then have "d = rev e @ rev pre" by (metis rev_append rev_rev_ident)
  then have "hd (rev e) = hd d" using e by simp
  with hd l t show ?thesis by simp
qed

lemma js_trim_idem [simp]: "js_trim (js_trim s) = js_trim s"
  using js_trim_id js_trim_ends by blast

lemma ends_with_append [simp]: "ends_with (s @ p) p"
  by (simp add: ends_with_def)

lemma ends_with_iff: "ends_with s p \<longleftrightarrow> (\<exists>q. s = q @ p)"
  by (auto simp: ends_with_def) (metis append_take_drop_id)

lemma js_includes_iff: "js_includes s p \<longleftrightarrow> (\<exists>a b. s = a @ p @ b)"
proof (induction s)
  case (Cons c cs)
  have "starts_with (c # cs) p \<longleftrightarrow> (\<exists>b. c # cs = p @ b)"
    by (auto simp: starts_with_def) (metis append_take_drop_id)
  moreover have "(\<exists>a b. c # cs = a @ p @ b) \<longleftrightarrow> (\<exists>b. c # cs = p @ b) \<or> (\<exists>a b. cs = a @ p @ b)"
    by (auto simp: Cons_eq_append_conv)
  ultimately show ?case using Cons.IH by simp
qed auto

lemma js_includes_Nil [simp]: "js_includes s []"
  by (cases s) (simp_all add: starts_with_def)

lemma or_else_Nil [simp]: "or_else [] b = b"
  by (simp add: or_else_def)

lemma or_else_ne [simp]: "a \<noteq> [] \<Longrightarrow> or_else a b = a"
  by (simp add: or_else_def)

lemma nullish_simps [simp]: "nullish None b = b" "nullish (Some a) b = a"
  by (simp_all add: nullish_def)

lemma split_runs_unfold:
  "\<exists>w r. (\<forall>c \<in> set w. \<not> p c) \<and>
     (split_runs p s = [w] \<or> split_runs p s = w # split_runs p r \<and> length r < length s)"
proof -
  let ?w = "takeWhile (\<lambda>c. \<not> p c) s" and ?r = "dropWhile (\<lambda>c. \<not> p c) s"
  have w: "\<forall>c \<in> set ?w. \<not> p c" by (auto dest: set_takeWhileD)
  have eq: "split_runs p s = (if ?r = [] then [?w] else ?w # split_runs p (dropWhile p ?r))"
    by (subst split_runs.simps) (simp only: Let_def)
  show ?thesis
  proof (cases ?r)
    case Nil
    then show ?thesis using w eq by (metis)
  next
    case (Cons c cs)
    then have "p c" using hd_dropWhile [of "\<lambda>c. \<not> p c" s] by simp
    then have "length (dropWhile p ?r) \<le> length cs" using Cons length_dropWhile_le [of p cs] by simp
    moreover have "length cs < length s"
      using Cons length_dropWhile_le [of "\<lambda>c. \<not> p c" s] by simp
    ultimately have "length (dropWhile p ?r) < length s" by (rule le_less_trans)
    moreover have "split_runs p s = ?w # split_runs p (dropWhile p ?r)"
      using eq Cons by (metis list.discI)
    ultimately show ?thesis using w by blast
  qed
qed

lemma split_runs_no_sep: "\<forall>w \<in> set (split_runs p s). \<forall>c \<in> set w. \<not> p c"
proof (induction s rule: length_induct)
  case (1 s)
  obtain w r where w: "\<forall>c \<in> set w. \<not> p c"
    and d: "split_runs p s = [w] \<or> split_runs p s = w # split_runs p r \<and> length r < length s"
    using split_runs_unfold by blast
  from d show ?case
  proof
    assume "split_runs p s = w # split_runs p r \<and> length r < length s"
    then show ?thesis using "1.IH" w by (metis set_ConsD)
  qed (use w in simp)
qed

lemma tokens_wf: "w \<in> set (tokens p s) \<Longrightarrow> w \<noteq> [] \<and> (\<forall>c \<in> set w. \<not> p c)"
  using split_runs_no_sep by (auto simp: tokens_def)

lemma split_runs_step:
  assumes "\<forall>c \<in> set w. \<not> p c" and "sep \<noteq> []" and "\<forall>c \<in> set sep. p c"
    and "rest = [] \<or> \<not> p (hd rest)"
  shows "split_runs p (w @ sep @ rest) = w # split_runs p rest"
proof -
  have tw: "takeWhile (\<lambda>c. \<not> p c) (w @ sep @ rest) = w"
    using assms by (cases sep) auto
  have dw: "dropWhile (\<lambda>c. \<not> p c) (w @ sep @ rest) = sep @ rest"
    using assms by (cases sep) auto
  have "dropWhile p (sep @ rest) = rest"
    using assms(3,4) by (cases rest) auto
  then show ?thesis
    using assms(2) by (subst split_runs.simps) (simp add: tw dw Let_def)
qed

lemma split_runs_single: "\<forall>c \<in> set w. \<not> p c \<Longrightarrow> split_runs p w = [w]"
  by (subst split_runs.simps) (simp add: Let_def)

lemma hd_js_join: "x \<noteq> [] \<Longrightarrow> hd (js_join sep (x # xs)) = hd x"
  by (cases xs) auto

text \<open>Joining words with a separator and splitting the result again gives the words back.\<close>

lemma tokens_join:
  assumes "sep \<noteq> []" and "\<forall>c \<in> set sep. p c"
    and "\<forall>w \<in> set ws. w \<noteq> [] \<and> (\<forall>c \<in> set w. \<not> p c)"
  shows "tokens p (js_join sep ws) = ws"
  using assms(3)
proof (induction ws rule: induct_list012)
  case 1
  then show ?case by (subst tokens_def, subst split_runs.simps) simp
next
  case (2 x)
  then show ?case by (simp add: tokens_def split_runs_single)
next
  case (3 x y zs)
  have "js_join sep (y # zs) = [] \<or> \<not> p (hd (js_join sep (y # zs)))"
    using "3.prems" by (auto simp: hd_js_join)
  then have "split_runs p (js_join sep (x # y # zs)) = x # split_runs p (js_join sep (y # zs))"
    using "3.prems" assms(1,2) by (simp add: split_runs_step)
  then show ?case using "3.IH"(2) "3.prems" by (simp add: tokens_def)
qed

lemma split_on_ne [simp]: "split_on c s \<noteq> []"
  by (induction s) (auto split: list.split)

lemma split_on_plain: "c \<notin> set w \<Longrightarrow> split_on c w = [w]"
  by (induction w) auto

lemma split_on_append: "c \<notin> set w \<Longrightarrow> split_on c (w @ c # rest) = w # split_on c rest"
  by (induction w) auto

lemma split_on_no_sep: "w \<in> set (split_on c s) \<Longrightarrow> c \<notin> set w"
proof (induction s arbitrary: w)
  case (Cons x xs)
  then show ?case by (cases "split_on c xs") (auto split: if_splits)
qed simp

lemma set_js_trim: "set (js_trim s) \<subseteq> set s"
  by (auto simp: js_trim_def dest!: set_dropWhileD)

lemma js_trim_space: "js_trim (CHR '' '' # w) = js_trim w"
  by (simp add: js_trim_def js_ws_def)

text \<open>Entries without a comma or outer white space survive being joined and split again.\<close>

lemma split_on_join:
  assumes "\<forall>w \<in> set ws. w \<noteq> [] \<and> js_trim w = w \<and> CHR '','' \<notin> set w"
  shows "filter (\<lambda>w. w \<noteq> []) (map js_trim (split_on CHR '','' (js_join '', '' ws))) = ws"
  using assms
proof (induction ws rule: induct_list012)
  case (3 x y zs)
  have y: "split_on CHR '','' (CHR '' '' # js_join '', '' (y # zs)) =
      (CHR '' '' # hd (split_on CHR '','' (js_join '', '' (y # zs)))) # tl (split_on CHR '','' (js_join '', '' (y # zs)))"
    by (cases "split_on CHR '','' (js_join '', '' (y # zs))") simp_all
  have "map js_trim (split_on CHR '','' (CHR '' '' # js_join '', '' (y # zs))) =
      map js_trim (split_on CHR '','' (js_join '', '' (y # zs)))"
    unfolding y by (cases "split_on CHR '','' (js_join '', '' (y # zs))") (simp_all add: js_trim_space)
  then show ?case using 3 by (simp add: split_on_append)
qed (simp_all add: split_on_plain)

section \<open>Lemmas on arrays\<close>

lemma set_remove_nth: "set (remove_nth i xs) \<subseteq> set xs"
  by (auto simp: remove_nth_def dest: in_set_takeD in_set_dropD)

lemma length_remove_nth: "i < length xs \<Longrightarrow> length (remove_nth i xs) = length xs - 1"
  by (auto simp: remove_nth_def)

lemma remove_nth_single [simp]: "remove_nth 0 [x] = []"
  by (simp add: remove_nth_def)

lemma remove_nth_Nil [simp]: "remove_nth i [] = []"
  by (simp add: remove_nth_def)

lemma set_insert_by [simp]: "set (insert_by le x xs) = insert x (set xs)"
  by (induction xs) auto

lemma set_js_sort [simp]: "set (js_sort le xs) = set xs"
  by (induction xs) (auto simp: js_sort_def)

lemma length_insert_by [simp]: "length (insert_by le x xs) = Suc (length xs)"
  by (induction xs) auto

lemma length_js_sort [simp]: "length (js_sort le xs) = length xs"
  by (induction xs) (auto simp: js_sort_def)

lemma distinct_insert_by:
  "distinct (map f (insert_by le x xs)) \<longleftrightarrow> f x \<notin> f ` set xs \<and> distinct (map f xs)"
  by (induction xs) auto

lemma distinct_js_sort: "distinct (map f (js_sort le xs)) \<longleftrightarrow> distinct (map f xs)"
proof (induction xs)
  case (Cons x xs)
  have "js_sort le (x # xs) = insert_by le x (js_sort le xs)" by (simp add: js_sort_def)
  then show ?case using Cons.IH by (simp add: distinct_insert_by)
qed (simp add: js_sort_def)

lemma sorted_insert_by:
  assumes "\<And>a b. le a b \<or> le b a" and "\<And>a b c. le a b \<Longrightarrow> le b c \<Longrightarrow> le a c"
  shows "sorted_wrt le xs \<Longrightarrow> sorted_wrt le (insert_by le x xs)"
proof (induction xs)
  case (Cons y ys)
  then show ?case using assms(1) [of x y] assms(2) by auto
qed simp

lemma sorted_js_sort:
  assumes "\<And>a b. le a b \<or> le b a" and "\<And>a b c. le a b \<Longrightarrow> le b c \<Longrightarrow> le a c"
  shows "sorted_wrt le (js_sort le xs)"
proof (induction xs)
  case (Cons x xs)
  have "js_sort le (x # xs) = insert_by le x (js_sort le xs)" by (simp add: js_sort_def)
  then show ?case using sorted_insert_by [of le, OF assms] Cons.IH by simp
qed (simp add: js_sort_def)

section \<open>Lemmas on requests in flight\<close>

lemma filter_remove_nth_le: "length (filter P (remove_nth i xs)) \<le> length (filter P xs)"
proof -
  have "filter P xs = filter P (take i xs) @ filter P (drop i xs)" by (simp flip: filter_append)
  moreover have "length (filter P (drop (Suc i) xs)) \<le> length (filter P (drop i xs))"
  proof (cases "i < length xs")
    case True
    then show ?thesis by (simp flip: Cons_nth_drop_Suc)
  qed simp
  ultimately show ?thesis by (simp add: remove_nth_def)
qed

lemma live_requests_abort [simp]: "live_requests (abort_requests xs) = []"
  by (induction xs) (auto simp: live_requests_def abort_requests_def)

lemma live_requests_append [simp]: "live_requests (xs @ ys) = live_requests xs @ live_requests ys"
  by (simp add: live_requests_def)

lemma live_requests_single [simp]: "live_requests [(p, False)] = [(p, False)]" "live_requests [(p, True)] = []"
  by (simp_all add: live_requests_def)

lemma latest_ok_Nil [simp]: "latest_ok p []"
  by (simp add: latest_ok_def live_requests_def)

lemma latest_ok_single [simp]: "latest_ok p [(p, a)]"
  by (cases a) (simp_all add: latest_ok_def)

lemma abort_requests_aborted: "(q, a) \<in> set (abort_requests xs) \<Longrightarrow> a"
  by (auto simp: abort_requests_def)

lemma latest_ok_abort [simp]: "latest_ok p (abort_requests xs)"
  by (auto simp: latest_ok_def dest: abort_requests_aborted)

lemma latest_ok_effect [simp]: "latest_ok p (abort_requests xs @ [(p, False)])"
  by (auto simp: latest_ok_def dest: abort_requests_aborted)

lemma latest_ok_remove: "latest_ok p xs \<Longrightarrow> latest_ok p (remove_nth i xs)"
  using filter_remove_nth_le [of "\<lambda>(p, a). \<not> a" i xs] set_remove_nth [of i xs]
  by (auto simp: latest_ok_def live_requests_def)

lemma latest_ok_single_live: "latest_ok p xs \<Longrightarrow> length (live_requests xs) \<le> 1"
  by (simp add: latest_ok_def)

lemma latest_ok_nth:
  assumes "latest_ok p xs" "i < length xs" "\<not> snd (xs ! i)"
  shows "fst (xs ! i) = p"
proof -
  have "(fst (xs ! i), snd (xs ! i)) \<in> set xs" using nth_mem [OF assms(2)] by simp
  then show ?thesis using assms(1,3) unfolding latest_ok_def by blast
qed

end
