(* ===== verification/Js_Number.thy ===== *)
theory Js_Number
  imports Prelude Complex_Main
begin

text \<open>
  JavaScript numbers: IEEE-754 binary64 values (NaN, the infinities, and the finite values as
  rationals; the two zeros are not distinguished, the sources never divide by zero or print
  one), rounding to nearest even, \<open>Number(string)\<close>, \<open>Number.isInteger\<close> and
  \<open>toFixed(2)\<close>. Used by the forms that turn typed text into request fields and by the
  pages that print durations.
\<close>

datatype jsnum = NaN | Inf bool | Fin rat

section \<open>Rounding to binary64\<close>

fun ilog2 :: "nat \<Rightarrow> nat" where
  "ilog2 n = (if n < 2 then 0 else Suc (ilog2 (n div 2)))"

declare ilog2.simps [simp del]

definition pow2 :: "int \<Rightarrow> rat" where
  "pow2 k = (if 0 \<le> k then 2 ^ nat k else 1 / 2 ^ nat (- k))"

definition floor_log2 :: "rat \<Rightarrow> int" where
  "floor_log2 r = (let (n, d) = quotient_of r; k = int (ilog2 (nat n)) - int (ilog2 (nat d))
     in if pow2 k \<le> r then k else k - 1)"

definition round_half_even :: "rat \<Rightarrow> int" where
  "round_half_even r = (let f = \<lfloor>r\<rfloor>; d = r - of_int f in
     if d < 1 / 2 then f else if 1 / 2 < d then f + 1 else if even f then f else f + 1)"

definition fl_pos :: "rat \<Rightarrow> rat" where
  "fl_pos r = (let e = max (- 1074) (floor_log2 r - 52)
     in of_int (round_half_even (r / pow2 e)) * pow2 e)"

definition fl :: "rat \<Rightarrow> rat" where
  "fl r = (if r = 0 then 0 else if r < 0 then - fl_pos (- r) else fl_pos r)"

definition to_double :: "rat \<Rightarrow> jsnum" where
  "to_double r = (let x = fl r in
     if pow2 1024 \<le> x then Inf False else if x \<le> - pow2 1024 then Inf True else Fin x)"

section \<open>Number(string)\<close>

definition is_digit :: "char \<Rightarrow> bool" where
  "is_digit c \<longleftrightarrow> 48 \<le> (of_char c :: nat) \<and> (of_char c :: nat) \<le> 57"

definition digits_val :: "nat \<Rightarrow> (char \<Rightarrow> nat) \<Rightarrow> jstring \<Rightarrow> nat" where
  "digits_val base val s = foldl (\<lambda>a c. a * base + val c) 0 s"

definition dec_val :: "char \<Rightarrow> nat" where
  "dec_val c = of_char c - 48"

text \<open>The digit of a hexadecimal, octal or binary literal, \<open>None\<close> for another character.\<close>

definition radix_val :: "nat \<Rightarrow> char \<Rightarrow> nat option" where
  "radix_val base c = (let n = (of_char c :: nat);
     v = (if 48 \<le> n \<and> n \<le> 57 then n - 48 else if 97 \<le> n \<and> n \<le> 102 then n - 87
          else if 65 \<le> n \<and> n \<le> 70 then n - 55 else base)
     in if v < base then Some v else None)"

definition radix_literal :: "nat \<Rightarrow> jstring \<Rightarrow> jsnum" where
  "radix_literal base s = (if s \<noteq> [] \<and> list_all (\<lambda>c. radix_val base c \<noteq> None) s
     then to_double (of_nat (digits_val base (\<lambda>c. nullish (radix_val base c) 0) s)) else NaN)"

definition exponent :: "jstring \<Rightarrow> int option" where
  "exponent s = (case s of
      [] \<Rightarrow> Some 0
    | c # r \<Rightarrow> if c \<in> set ''eE'' then
        (let (neg, ds) = (case r of d # r' \<Rightarrow> if d = CHR ''-'' then (True, r')
                            else if d = CHR ''+'' then (False, r') else (False, r) | [] \<Rightarrow> (False, []))
         in if ds \<noteq> [] \<and> list_all is_digit ds
            then Some ((if neg then - 1 else 1) * int (digits_val 10 dec_val ds)) else None)
      else None)"

definition pow10 :: "int \<Rightarrow> rat" where
  "pow10 k = (if 0 \<le> k then 10 ^ nat k else 1 / 10 ^ nat (- k))"

text \<open>An unsigned decimal literal: its exact value, \<open>None\<close> if it is none.\<close>

definition decimal_literal :: "jstring \<Rightarrow> rat option" where
  "decimal_literal s =
     (let ip = takeWhile is_digit s; r1 = dropWhile is_digit s;
          (fp, r2) = (case r1 of c # r \<Rightarrow> if c = CHR ''.'' then (takeWhile is_digit r, dropWhile is_digit r)
                        else ([], r1) | [] \<Rightarrow> ([], []))
      in if ip = [] \<and> fp = [] then None
         else map_option (\<lambda>e. of_nat (digits_val 10 dec_val (ip @ fp)) * pow10 (e - int (length fp)))
                (exponent r2))"

definition signed_literal :: "bool \<Rightarrow> jstring \<Rightarrow> jsnum" where
  "signed_literal neg s = (if s = ''Infinity'' then Inf neg
     else case decimal_literal s of None \<Rightarrow> NaN | Some v \<Rightarrow> to_double (if neg then - v else v))"

definition js_Number :: "jstring \<Rightarrow> jsnum" where
  "js_Number str = (let s = js_trim str in
     case s of
       [] \<Rightarrow> Fin 0
     | [c] \<Rightarrow> signed_literal False s
     | c # d # r \<Rightarrow>
         if c = CHR ''0'' \<and> d \<in> set ''xX'' then radix_literal 16 r
         else if c = CHR ''0'' \<and> d \<in> set ''oO'' then radix_literal 8 r
         else if c = CHR ''0'' \<and> d \<in> set ''bB'' then radix_literal 2 r
         else if c = CHR ''-'' then signed_literal True (d # r)
         else if c = CHR ''+'' then signed_literal False (d # r)
         else signed_literal False s)"

definition is_integer :: "jsnum \<Rightarrow> bool" where
  "is_integer x \<longleftrightarrow> (case x of Fin r \<Rightarrow> snd (quotient_of r) = 1 | _ \<Rightarrow> False)"

text \<open>\<open>a < b\<close> and \<open>a > b\<close> against an integer constant: false for NaN.\<close>

fun num_less :: "jsnum \<Rightarrow> int \<Rightarrow> bool" where
  "num_less NaN k = False"
| "num_less (Inf neg) k = neg"
| "num_less (Fin r) k = (r < of_int k)"

fun num_greater :: "jsnum \<Rightarrow> int \<Rightarrow> bool" where
  "num_greater NaN k = False"
| "num_greater (Inf neg) k = (\<not> neg)"
| "num_greater (Fin r) k = (of_int k < r)"

definition int_of :: "jsnum \<Rightarrow> int" where
  "int_of x = (case x of Fin r \<Rightarrow> \<lfloor>r\<rfloor> | _ \<Rightarrow> 0)"

section \<open>Printing and rounding\<close>

text \<open>
  \<open>x.toFixed(k)\<close> for a number below \<open>1e21\<close> and \<open>k > 0\<close>: the sign is taken off first, then the
  nearest multiple of \<open>10^-k\<close>, the larger one on a tie.
\<close>

definition pad_zeros :: "nat \<Rightarrow> jstring \<Rightarrow> jstring" where
  "pad_zeros k s = replicate (k - length s) (CHR ''0'') @ s"

definition to_fixed :: "nat \<Rightarrow> rat \<Rightarrow> jstring" where
  "to_fixed k x = (let n = nat \<lfloor>\<bar>x\<bar> * 10 ^ k + 1 / 2\<rfloor>;
     body = show_nat (n div 10 ^ k) @ ''.'' @ pad_zeros k (show_nat (n mod 10 ^ k))
     in if x < 0 then CHR ''-'' # body else body)"

text \<open>\<open>Math.round\<close>: the nearest integer, the larger one on a tie.\<close>

definition math_round :: "rat \<Rightarrow> int" where
  "math_round x = \<lfloor>x + 1 / 2\<rfloor>"

section \<open>Integers are exact\<close>

lemma is_integer_int_of:
  assumes "is_integer x"
  shows "x = Fin (of_int (int_of x))"
proof (cases x)
  case (Fin r)
  then have "quotient_of r = (fst (quotient_of r), 1)"
    using assms by (simp add: is_integer_def prod_eq_iff)
  then have "r = of_int (fst (quotient_of r))"
    using quotient_of_div by fastforce
  then obtain k where "r = of_int k" by blast
  then show ?thesis using Fin by (simp add: int_of_def)
qed (use assms in \<open>simp_all add: is_integer_def\<close>)

lemma num_bounds_int:
  assumes "is_integer x" and "\<not> num_less x lo" and "\<not> num_greater x hi"
  shows "lo \<le> int_of x \<and> int_of x \<le> hi"
proof -
  have x: "x = Fin (of_int (int_of x))" using assms(1) by (rule is_integer_int_of)
  have "\<not> of_int (int_of x) < (of_int lo :: rat)"
    using assms(2) by (subst (asm) x) simp
  moreover have "\<not> (of_int hi :: rat) < of_int (int_of x)"
    using assms(3) by (subst (asm) x) simp
  ultimately show ?thesis by simp
qed

lemma ilog2_bound: "0 < n \<Longrightarrow> n < 2 ^ Suc (ilog2 n)"
proof (induction n rule: ilog2.induct)
  case (1 n)
  show ?case
  proof (cases "n < 2")
    case False
    then have "n div 2 < 2 ^ Suc (ilog2 (n div 2))" using "1.IH" by simp
    then have "n < 2 * 2 ^ Suc (ilog2 (n div 2))" by (simp add: div_less_iff_less_mult mult.commute)
    then show ?thesis using False by (subst ilog2.simps) simp
  next
    case True
    then have "n = 1" using "1.prems" by simp
    then show ?thesis by (simp add: ilog2.simps)
  qed
qed

lemma ilog2_lower: "0 < n \<Longrightarrow> 2 ^ ilog2 n \<le> n"
proof (induction n rule: ilog2.induct)
  case (1 n)
  show ?case
  proof (cases "n < 2")
    case True
    then show ?thesis using "1.prems" by (subst ilog2.simps) simp
  next
    case False
    then have "2 ^ ilog2 (n div 2) \<le> n div 2" using "1.IH" by simp
    then have "2 * 2 ^ ilog2 (n div 2) \<le> n" by linarith
    then show ?thesis using False by (subst ilog2.simps) simp
  qed
qed

lemma ilog2_1 [simp]: "ilog2 (Suc 0) = 0"
  by (subst ilog2.simps) simp

lemma round_half_even_of_int [simp]: "round_half_even (of_int k) = k"
  by (simp add: round_half_even_def)

text \<open>Integers below \<open>2 ^ 53\<close> are binary64 values: rounding leaves them alone.\<close>

lemma fl_pos_int:
  assumes "0 < n" and "n < 2 ^ 53"
  shows "fl_pos (of_nat n) = of_nat n"
proof -
  have q: "quotient_of (of_nat n) = (int n, 1)"
    using quotient_of_int [of "int n"] by simp
  have "(2 ^ ilog2 n :: nat) \<le> n" using assms(1) by (rule ilog2_lower)
  then have "pow2 (int (ilog2 n)) \<le> of_nat n"
    by (simp add: pow2_def)
  then have fl: "floor_log2 (of_nat n) = int (ilog2 n)"
    by (simp add: floor_log2_def q)
  have "(2::nat) ^ ilog2 n < 2 ^ 53"
    using ilog2_lower [OF assms(1)] assms(2) by linarith
  then have "ilog2 n < 53" by (rule power_less_imp_less_exp [rotated]) simp
  then have e: "max (- 1074) (int (ilog2 n) - 52) = - int (52 - ilog2 n)" by simp
  have p: "pow2 (- int k) = 1 / 2 ^ k" for k by (simp add: pow2_def)
  have "of_nat n / pow2 (- int (52 - ilog2 n)) = of_int (int n * 2 ^ (52 - ilog2 n))"
    by (simp add: p)
  then have "round_half_even (of_nat n / pow2 (- int (52 - ilog2 n))) = int n * 2 ^ (52 - ilog2 n)"
    by (simp only: round_half_even_of_int)
  then show ?thesis
    by (simp add: fl_pos_def Let_def fl e) (simp add: p)
qed

lemma to_double_nat: "n < 2 ^ 53 \<Longrightarrow> to_double (of_nat n) = Fin (of_nat n)"
proof -
  assume n: "n < 2 ^ 53"
  have "(of_nat n :: rat) < of_nat (2 ^ 53)" using n by (simp only: of_nat_less_iff)
  also have "of_nat (2 ^ 53) < pow2 1024" by (simp add: pow2_def)
  finally have "(of_nat n :: rat) < pow2 1024" .
  moreover have "(0 :: rat) < pow2 1024" by (simp add: pow2_def)
  moreover have "fl (of_nat n) = of_nat n" using n fl_pos_int [of n] by (cases "n = 0") (simp_all add: fl_def)
  moreover have "- pow2 1024 < (of_nat n :: rat)"
    using \<open>0 < pow2 1024\<close> by (meson less_le_trans neg_less_0_iff_less of_nat_0_le_iff)
  ultimately show ?thesis by (simp add: to_double_def Let_def not_le)
qed

section \<open>Printing a number and reading it back\<close>

lemma of_char_digit: "n < 10 \<Longrightarrow> (of_char (char_of (48 + n) :: char) :: nat) = 48 + n"
  by simp

lemma show_nat_digits: "c \<in> set (show_nat n) \<Longrightarrow> is_digit c"
proof (induction n arbitrary: c rule: show_nat.induct)
  case (1 n)
  show ?case
  proof (cases "n < 10")
    case True
    then have "c = char_of (48 + n)" using "1.prems" by (simp add: show_nat.simps [of n])
    then show ?thesis using of_char_digit [OF True] True by (simp add: is_digit_def del: of_char_of)
  next
    case False
    then have "c \<in> set (show_nat (n div 10)) \<or> c = char_of (48 + n mod 10)"
      using "1.prems" by (auto simp: show_nat.simps [of n])
    then show ?thesis
    proof
      assume "c = char_of (48 + n mod 10)"
      then show ?thesis using of_char_digit [of "n mod 10"] by (simp add: is_digit_def del: of_char_of)
    qed (use "1.IH" [OF False] in blast)
  qed
qed

lemma show_nat_ne [simp]: "show_nat n \<noteq> []"
  by (simp add: show_nat.simps [of n])

lemma digits_val_snoc: "digits_val b v (s @ [c]) = digits_val b v s * b + v c"
  by (simp add: digits_val_def)

lemma digits_val_show_nat: "digits_val 10 dec_val (show_nat n) = n"
proof (induction n rule: show_nat.induct)
  case (1 n)
  show ?case
  proof (cases "n < 10")
    case True
    then show ?thesis using of_char_digit [OF True]
      by (simp add: show_nat.simps [of n] digits_val_def dec_val_def del: of_char_of)
  next
    case False
    have "dec_val (char_of (48 + n mod 10)) = n mod 10"
      using of_char_digit [of "n mod 10"] by (simp add: dec_val_def del: of_char_of)
    moreover have "show_nat n = show_nat (n div 10) @ [char_of (48 + n mod 10)]"
      using False by (simp add: show_nat.simps [of n])
    ultimately show ?thesis using "1.IH" [OF False] by (simp only: digits_val_snoc) presburger
  qed
qed

lemma digit_not_ws: "is_digit c \<Longrightarrow> \<not> js_ws c"
  by (auto simp: is_digit_def js_ws_def)

lemma trim_show_nat [simp]: "js_trim (show_nat n) = show_nat n"
  by (rule js_trim_id) (metis digit_not_ws hd_in_set last_in_set show_nat_digits show_nat_ne)

lemma signed_literal_digits:
  assumes "w \<noteq> []" and all: "\<forall>c \<in> set w. is_digit c"
  shows "signed_literal False w = to_double (of_nat (digits_val 10 dec_val w))"
proof -
  have tw: "takeWhile is_digit w = w" and dw: "dropWhile is_digit w = []"
    using all by (simp_all add: takeWhile_eq_all_conv)
  have "decimal_literal w = Some (of_nat (digits_val 10 dec_val w))"
    using assms(1) by (simp add: decimal_literal_def exponent_def pow10_def Let_def tw dw)
  moreover have "w \<noteq> ''Infinity''"
  proof
    assume "w = ''Infinity''"
    then have "is_digit (CHR ''I'')" using all by simp
    then show False by (simp add: is_digit_def)
  qed
  ultimately show ?thesis by (simp add: signed_literal_def)
qed

text \<open>\<open>Number(s)\<close> on a string of decimal digits.\<close>

lemma js_Number_digits:
  assumes "js_trim v = w" "w \<noteq> []" and all: "\<forall>x \<in> set w. is_digit x"
  shows "js_Number v = to_double (of_nat (digits_val 10 dec_val w))"
proof -
  have lit: "signed_literal False w = to_double (of_nat (digits_val 10 dec_val w))"
    using assms(2,3) by (rule signed_literal_digits)
  show ?thesis
  proof (cases w)
    case (Cons c cs)
    show ?thesis
    proof (cases cs)
      case Nil
      then show ?thesis using Cons lit assms(1) by (simp add: js_Number_def Let_def)
    next
      case (Cons d r)
      then have w: "w = c # d # r" using \<open>w = c # cs\<close> by simp
      have cd: "is_digit c" "is_digit d" using all w by auto
      have "d \<notin> set ''xXoObB''" "c \<notin> set ''-+''"
        using cd by (auto simp: is_digit_def)
      then show ?thesis using w lit assms(1) by (auto simp: js_Number_def Let_def)
    qed
  qed (use assms(2) in simp)
qed

lemma js_Number_show_nat:
  assumes "n < 2 ^ 53"
  shows "js_Number (show_nat n) = Fin (of_nat n)"
  using js_Number_digits [OF trim_show_nat show_nat_ne, of n] show_nat_digits assms
  by (simp add: digits_val_show_nat to_double_nat)

text \<open>Rounding keeps the sign, so a string of digits never reads as a negative number.\<close>

lemma pow2_pos: "0 < pow2 k"
  by (simp add: pow2_def)

lemma fl_nonneg: "0 \<le> r \<Longrightarrow> 0 \<le> fl r"
proof -
  assume r: "0 \<le> r"
  have "0 \<le> round_half_even x" if "0 \<le> x" for x :: rat
    using that by (auto simp: round_half_even_def Let_def)
  then have "0 \<le> fl_pos r"
    using r pow2_pos by (simp add: fl_pos_def Let_def less_imp_le)
  then show ?thesis using r by (simp add: fl_def)
qed

lemma digits_not_negative:
  assumes "js_trim v \<noteq> []" "\<forall>x \<in> set (js_trim v). is_digit x"
  shows "\<not> num_less (js_Number v) 0"
proof -
  have "0 \<le> fl (of_nat (digits_val 10 dec_val (js_trim v)))" by (simp add: fl_nonneg)
  moreover have "0 < pow2 1024" by (rule pow2_pos)
  ultimately show ?thesis
    using js_Number_digits [OF refl assms] by (auto simp: to_double_def Let_def)
qed

lemma js_Number_show_int: "0 \<le> i \<Longrightarrow> i < 2 ^ 53 \<Longrightarrow> js_Number (show_int i) = Fin (of_int i)"
  using js_Number_show_nat [of "nat i"] by (simp add: show_int_def nat_less_iff)

lemma trim_show_int: "0 \<le> i \<Longrightarrow> js_trim (show_int i) \<noteq> []"
  by (simp add: show_int_def)

lemma is_integer_of_int [simp]: "is_integer (Fin (of_int i))"
  by (simp add: is_integer_def)

lemma int_of_Fin [simp]: "int_of (Fin (of_int i)) = i"
  by (simp add: int_of_def)

end
