(* ===== verification/Api.thy ===== *)
theory Api
  imports Js_Number
begin

text \<open>
  The management API client: \<open>web/src/api.ts\<close> and the \<open>web/src/api-*.ts\<close> modules.
  \<open>fetch\<close> is the browser; the model is what the client hands to it (method, path, headers,
  body) and what the client makes of its answer. \<open>csrfToken\<close>, the module's only state, is
  the field of a session record. A server answer that is cast with \<open>request<T>\<close> is taken to
  have the declared type, as the sources take it; the error envelope, which the sources check at
  run time, is decoded from arbitrary JSON.
\<close>

section \<open>JSON and thrown values\<close>

datatype json =
    JNull
  | JBool bool
  | JNum rat
  | JStr jstring
  | JArr "json list"
  | JObj "(jstring \<times> json) list"

record field_error =
  fe_field :: jstring
  fe_message :: jstring

text \<open>
  What a promise can reject with: an \<open>APIError\<close>, another instance of \<open>Error\<close>
  (network failure, abort, syntax or type error, with the engine's message), or a value that is
  no \<open>Error\<close> at all.
\<close>

datatype exn =
    APIError nat jstring "json list" jstring
  | OtherError jstring
  | NotAnError

text \<open>\<open>e instanceof Error ? e.message : fallback\<close>\<close>

definition error_text :: "exn \<Rightarrow> jstring \<Rightarrow> jstring" where
  "error_text e fallback = (case e of APIError st m fs c \<Rightarrow> m | OtherError m \<Rightarrow> m | NotAnError \<Rightarrow> fallback)"

type_synonym 'a result = "exn + 'a"

section \<open>Requests\<close>

record http_request =
  rq_path :: jstring
  rq_method :: jstring
  rq_headers :: "(jstring \<times> jstring) list"
  rq_body :: "json option"

record http_response =
  rs_status :: nat
  rs_json :: "json option"

definition response_ok :: "http_response \<Rightarrow> bool" where
  "response_ok r \<longleftrightarrow> 200 \<le> rs_status r \<and> rs_status r \<le> 299"

text \<open>The arguments of one \<open>request(path, signal, method, options)\<close>.\<close>

record call =
  c_path :: jstring
  c_method :: jstring
  c_body :: "json option"
  c_revision :: "int option"

definition get_call :: "jstring \<Rightarrow> call" where
  "get_call p = \<lparr>c_path = p, c_method = ''GET'', c_body = None, c_revision = None\<rparr>"

definition send_call :: "jstring \<Rightarrow> jstring \<Rightarrow> json option \<Rightarrow> call" where
  "send_call p m b = \<lparr>c_path = p, c_method = m, c_body = b, c_revision = None\<rparr>"

definition is_write :: "call \<Rightarrow> bool" where
  "is_write c \<longleftrightarrow> \<not> (c_method c = ''GET'' \<or> c_method c = ''HEAD'')"

definition quoted :: "jstring \<Rightarrow> jstring" where
  "quoted s = CHR 0x22 # s @ [CHR 0x22]"

definition request_init :: "jstring \<Rightarrow> call \<Rightarrow> http_request" where
  "request_init csrf c = \<lparr>
     rq_path = c_path c,
     rq_method = c_method c,
     rq_headers =
       [(''Content-Type'', ''application/json'')]
       @ (case c_revision c of None \<Rightarrow> [] | Some r \<Rightarrow> [(''If-Match'', quoted (show_int r))])
       @ (if c_method c = ''GET'' \<or> c_method c = ''HEAD'' \<or> csrf = [] then []
          else [(''X-CSRF-Token'', csrf)]),
     rq_body = c_body c\<rparr>"

text \<open>Property access on a parsed value: \<open>Inl ()\<close> for the type error on null.\<close>

definition get_prop :: "json \<Rightarrow> jstring \<Rightarrow> unit + json option" where
  "get_prop v k = (case v of JNull \<Rightarrow> Inl () | JObj ps \<Rightarrow> Inr (map_of ps k) | _ \<Rightarrow> Inr None)"

text \<open>\<open>v?.k\<close>: undefined where \<open>v\<close> is null or undefined.\<close>

definition opt_prop :: "json option \<Rightarrow> jstring \<Rightarrow> json option" where
  "opt_prop v k = (case v of None \<Rightarrow> None | Some JNull \<Rightarrow> None | Some (JObj ps) \<Rightarrow> map_of ps k | _ \<Rightarrow> None)"

definition default_message :: "nat \<Rightarrow> jstring" where
  "default_message st = ''Management API returned HTTP '' @ show_nat st"

definition error_of_response :: "http_response \<Rightarrow> exn" where
  "error_of_response r = (let d = default_message (rs_status r) in
     case rs_json r of
       None \<Rightarrow> APIError (rs_status r) d [] []
     | Some v \<Rightarrow> (case get_prop v ''error'' of
         Inl _ \<Rightarrow> APIError (rs_status r) d [] []
       | Inr e \<Rightarrow> APIError (rs_status r)
           (case opt_prop e ''message'' of Some (JStr m) \<Rightarrow> m | _ \<Rightarrow> d)
           (case opt_prop e ''fields'' of Some (JArr fs) \<Rightarrow> fs | _ \<Rightarrow> [])
           (case opt_prop e ''code'' of Some (JStr c) \<Rightarrow> c | _ \<Rightarrow> [])))"

text \<open>
  The end of \<open>request\<close>: the thrown value, or \<open>body.data\<close> (\<open>None\<close>: undefined).
  The engine's own messages for a body that is not JSON and for a null body are arguments.
\<close>

definition request_result :: "jstring \<Rightarrow> jstring \<Rightarrow> http_response \<Rightarrow> json option result" where
  "request_result not_json null_body r =
     (if \<not> response_ok r then Inl (error_of_response r)
      else case rs_json r of
        None \<Rightarrow> Inl (OtherError not_json)
      | Some v \<Rightarrow> (case get_prop v ''data'' of Inl _ \<Rightarrow> Inl (OtherError null_body) | Inr d \<Rightarrow> Inr d))"

section \<open>Session\<close>

datatype role = Viewer | Operator | Admin

record auth_user =
  au_username :: jstring
  au_role :: role
  au_csrf_token :: jstring
  au_language :: "jstring option"
  au_theme :: "jstring option"

record session =
  csrfToken :: jstring

definition setCSRFToken :: "jstring \<Rightarrow> session \<Rightarrow> session" where
  "setCSRFToken tok s = s\<lparr>csrfToken := tok\<rparr>"

definition authenticate_call :: "jstring \<Rightarrow> jstring \<Rightarrow> call" where
  "authenticate_call username password =
     send_call ''/api/v1/auth/login'' ''POST''
       (Some (JObj [(''username'', JStr username), (''password'', JStr password)]))"

definition currentUser_call :: call where
  "currentUser_call = get_call ''/api/v1/auth/me''"

text \<open>\<open>authenticate\<close> and \<open>currentUser\<close> store the token of the user the server returned.\<close>

definition user_loaded :: "auth_user result \<Rightarrow> session \<Rightarrow> session" where
  "user_loaded res s = (case res of Inl e \<Rightarrow> s | Inr u \<Rightarrow> setCSRFToken (au_csrf_token u) s)"

definition logout_call :: call where
  "logout_call = send_call ''/api/v1/auth/logout'' ''POST'' None"

definition logged_out :: "unit result \<Rightarrow> session \<Rightarrow> session" where
  "logged_out res s = (case res of Inl e \<Rightarrow> s | Inr _ \<Rightarrow> setCSRFToken [] s)"

section \<open>Preferences, settings, backup\<close>

record preferences =
  pf_language :: jstring
  pf_theme :: jstring

definition preferences_json :: "preferences \<Rightarrow> json" where
  "preferences_json p = JObj [(''language'', JStr (pf_language p)), (''theme'', JStr (pf_theme p))]"

definition loadPreferences_call :: call where
  "loadPreferences_call = get_call ''/api/v1/preferences''"

definition savePreferences_call :: "preferences \<Rightarrow> call" where
  "savePreferences_call p = send_call ''/api/v1/preferences'' ''PUT'' (Some (preferences_json p))"

record rate_limit_settings =
  rl_enabled :: bool
  rl_global_qps :: jsnum
  rl_client_qps :: jsnum
  rl_burst :: jsnum

text \<open>\<open>JSON.stringify\<close> writes a number that is not finite as null.\<close>

fun json_num :: "jsnum \<Rightarrow> json" where
  "json_num (Fin r) = JNum r"
| "json_num _ = JNull"

definition saveRateLimitSettings_call :: "rate_limit_settings \<Rightarrow> call" where
  "saveRateLimitSettings_call s = send_call ''/api/v1/settings/rate-limit'' ''PUT''
     (Some (JObj [(''enabled'', JBool (rl_enabled s)), (''global_qps'', json_num (rl_global_qps s)),
        (''client_qps'', json_num (rl_client_qps s)), (''rate_limit_burst'', json_num (rl_burst s))]))"

definition loadRateLimitSettings_call :: call where
  "loadRateLimitSettings_call = get_call ''/api/v1/settings/rate-limit''"

definition loadRateLimitStatus_call :: call where
  "loadRateLimitStatus_call = get_call ''/api/v1/settings/rate-limit/status''"

text \<open>
  The two backup uploads call \<open>fetch\<close> themselves: the token is sent even when it is empty.
\<close>

definition downloadEncryptedBackup_init :: "jstring \<Rightarrow> jstring \<Rightarrow> http_request" where
  "downloadEncryptedBackup_init csrf passphrase = \<lparr>
     rq_path = ''/api/v1/backup/create'', rq_method = ''POST'',
     rq_headers = [(''Content-Type'', ''application/json''), (''X-CSRF-Token'', csrf)],
     rq_body = Some (JObj [(''passphrase'', JStr passphrase)])\<rparr>"

text \<open>
  \<open>body.error?.message ?? fallback\<close>, with the parsed body replaced by an empty object where
  it is not JSON; a null body is the engine's type error. The message has the declared type: a
  message that is not a string counts as missing here, while the source would show it converted to one.
\<close>

definition backup_error :: "jstring \<Rightarrow> jstring \<Rightarrow> http_response \<Rightarrow> exn" where
  "backup_error null_body fallback r =
     (case get_prop (nullish (rs_json r) (JObj [])) ''error'' of
        Inl _ \<Rightarrow> OtherError null_body
      | Inr e \<Rightarrow> APIError (rs_status r)
          (case opt_prop e ''message'' of Some (JStr m) \<Rightarrow> m | _ \<Rightarrow> fallback @ '' ('' @ show_nat (rs_status r) @ '')'') [] [])"

definition downloadEncryptedBackup_result :: "jstring \<Rightarrow> http_response \<Rightarrow> http_response result" where
  "downloadEncryptedBackup_result null_body r =
     (if response_ok r then Inr r else Inl (backup_error null_body ''Backup failed'' r))"

fun json_truthy :: "json option \<Rightarrow> bool" where
  "json_truthy None = False"
| "json_truthy (Some JNull) = False"
| "json_truthy (Some (JBool b)) = b"
| "json_truthy (Some (JNum n)) = (n \<noteq> 0)"
| "json_truthy (Some (JStr s)) = (s \<noteq> [])"
| "json_truthy (Some (JArr xs)) = True"
| "json_truthy (Some (JObj ps)) = True"

datatype form_part = PartText jstring jstring | PartFile jstring jstring

text \<open>The parts of the upload in order: the passphrase must precede the file.\<close>

definition inspectBackup_parts :: "jstring \<Rightarrow> form_part list" where
  "inspectBackup_parts passphrase =
     [PartText ''passphrase'' passphrase, PartFile ''bundle'' ''backup.vdns'']"

definition inspectBackup_result :: "jstring \<Rightarrow> http_response \<Rightarrow> json option result" where
  "inspectBackup_result null_body r =
     (case get_prop (nullish (rs_json r) (JObj [])) ''data'' of
        Inl _ \<Rightarrow> (if response_ok r then Inl (OtherError null_body)
                   else Inl (backup_error null_body ''Backup inspection failed'' r))
      | Inr d \<Rightarrow> if \<not> response_ok r \<or> \<not> json_truthy d
                 then Inl (backup_error null_body ''Backup inspection failed'' r) else Inr d)"

definition scheduleRestore_call :: "jstring \<Rightarrow> call" where
  "scheduleRestore_call tok = send_call ''/api/v1/backup/restore'' ''POST''
     (Some (JObj [(''token'', JStr tok), (''confirm'', JBool True)]))"

definition loadRestoreState_call :: call where
  "loadRestoreState_call = get_call ''/api/v1/backup/restore''"

section \<open>Updates\<close>

definition loadUpdateStatus_call :: call where
  "loadUpdateStatus_call = get_call ''/api/v1/update/status''"

definition loadUpdateHistory_call :: call where
  "loadUpdateHistory_call = get_call ''/api/v1/update/history''"

definition checkForUpdates_call :: call where
  "checkForUpdates_call = get_call ''/api/v1/update/check''"

definition requestUpdate_call :: call where
  "requestUpdate_call = send_call ''/api/v1/update/request'' ''POST'' (Some (JObj [(''action'', JStr ''update'')]))"

end
