(* ===== verification/Api_Resources.thy ===== *)
theory Api_Resources
  imports Api
begin

text \<open>
  The resource modules of the API client: the data types the pages work on and the request each
  exported function makes, for \<open>api.ts\<close> (snapshot, events, query log), \<open>api-clients.ts\<close>,
  \<open>api-rewrites.ts\<close>, \<open>api-forwarding.ts\<close>, \<open>api-policies.ts\<close>,
  \<open>api-webhooks.ts\<close> and \<open>api-search.ts\<close>. Identifiers and counters
  are integers, time stamps the strings the server sends.
\<close>

definition json_int :: "int \<Rightarrow> json" where
  "json_int i = JNum (of_int i)"

definition json_strs :: "jstring list \<Rightarrow> json" where
  "json_strs xs = JArr (map JStr xs)"

section \<open>The dashboard snapshot\<close>

datatype cluster_role = Standalone | Primary | Replica

record version_info =
  vi_version :: jstring
  vi_commit :: jstring
  vi_built :: jstring

record status =
  st_ready :: bool
  st_uptime_seconds :: int
  st_dns_listen :: "jstring list"
  st_version :: version_info
  st_capabilities :: "jstring list"
  st_cluster_role :: "cluster_role option"

record stats =
  sx_queries_total :: int
  sx_blocked_queries :: int
  sx_queries_per_second :: rat
  sx_cache_hit_rate :: rat

record cache_info =
  ca_entries :: int
  ca_capacity :: int
  ca_hits :: int
  ca_misses :: int

record query_log_config =
  ql_enabled :: bool
  ql_retention :: int
  ql_max_rows :: int
  ql_queue_size :: int

record dns_config =
  dc_listen :: "jstring list"
  dc_upstreams :: "jstring list"
  dc_allowed_clients :: "jstring list"
  dc_timeout :: int
  dc_retries :: int
  dc_max_concurrent :: int

text \<open>The pages read \<open>config.query_log?.enabled\<close>: an older server may leave it out.\<close>

record config =
  cf_query_log :: "query_log_config option"
  cf_dns :: dns_config
  cf_cache_max_entries :: int
  cf_cache_upstream_ttl :: int
  cf_http_listen :: jstring
  cf_http_web_dir :: jstring
  cf_http_allowed_hosts :: "jstring list"
  cf_log_level :: jstring

record snapshot =
  sn_status :: status
  sn_stats :: stats
  sn_cache :: cache_info
  sn_config :: config
  sn_checked :: jstring

datatype snapshot_part = PStatus status | PStats stats | PCache cache_info | PConfig config

definition loadSnapshot_calls :: "call list" where
  "loadSnapshot_calls = map get_call
     [''/api/v1/status'', ''/api/v1/stats'', ''/api/v1/cache'', ''/api/v1/config'']"

text \<open>
  \<open>Promise.all\<close> over the four requests: it rejects with the first rejection to arrive and
  resolves once all four have arrived. The list holds the arrivals in order.
\<close>

fun first_rejection :: "'a result list \<Rightarrow> exn option" where
  "first_rejection [] = None"
| "first_rejection (Inl e # rs) = Some e"
| "first_rejection (Inr x # rs) = first_rejection rs"

definition part_of :: "(snapshot_part \<Rightarrow> 'a option) \<Rightarrow> snapshot_part result list \<Rightarrow> 'a option" where
  "part_of f rs = (case List.map_filter (\<lambda>r. case r of Inl e \<Rightarrow> None | Inr p \<Rightarrow> f p) rs of
     [] \<Rightarrow> None | x # _ \<Rightarrow> Some x)"

definition loadSnapshot_outcome :: "jstring \<Rightarrow> snapshot_part result list \<Rightarrow> snapshot result option" where
  "loadSnapshot_outcome now rs = (case first_rejection rs of
      Some e \<Rightarrow> Some (Inl e)
    | None \<Rightarrow> (case (part_of (\<lambda>p. case p of PStatus x \<Rightarrow> Some x | _ \<Rightarrow> None) rs,
                    part_of (\<lambda>p. case p of PStats x \<Rightarrow> Some x | _ \<Rightarrow> None) rs,
                    part_of (\<lambda>p. case p of PCache x \<Rightarrow> Some x | _ \<Rightarrow> None) rs,
                    part_of (\<lambda>p. case p of PConfig x \<Rightarrow> Some x | _ \<Rightarrow> None) rs) of
        (Some a, Some b, Some c, Some d) \<Rightarrow>
          Some (Inr \<lparr>sn_status = a, sn_stats = b, sn_cache = c, sn_config = d, sn_checked = now\<rparr>)
      | _ \<Rightarrow> None))"

section \<open>Events and query history\<close>

datatype severity = Info | Warning | Critical

record system_event =
  ev_id :: int
  ev_severity :: severity
  ev_title :: jstring
  ev_message :: jstring
  ev_link :: jstring
  ev_occurred_at :: jstring
  ev_repeat_count :: int
  ev_read :: bool

record system_event_page =
  ep_events :: "system_event list"
  ep_unread_count :: int

record query_log_entry =
  qe_id :: int
  qe_upstream :: jstring
  qe_cache_hit :: bool
  qe_occurred_at :: jstring
  qe_client_ip :: jstring
  qe_domain :: jstring
  qe_type :: jstring
  qe_rcode :: jstring
  qe_duration :: int
  qe_source :: jstring
  qe_client_name :: "jstring option"

section \<open>Blocklists\<close>

record blocklist_source =
  bs_id :: int
  bs_name :: jstring
  bs_url :: jstring
  bs_enabled :: bool
  bs_last_updated_at :: "jstring option"
  bs_last_error :: jstring
  bs_domains :: "jstring list option"
  bs_domain_count :: "int option"
  bs_update_interval :: "int option"
  bs_last_attempt_at :: "jstring option"
  bs_consecutive_failures :: "int option"
  bs_next_update_at :: "jstring option"

section \<open>Clients\<close>

record client =
  cl_id :: int
  cl_name :: jstring
  cl_addresses :: "jstring list"
  cl_group :: jstring
  cl_description :: jstring
  cl_enabled :: bool

record activity =
  ac_queries :: int
  ac_last_seen :: "jstring option"

record client_view = client +
  cv_activity :: "activity option"

record client_activity =
  ca_client_ip :: jstring
  ca_queries :: int
  ca_last_seen :: jstring

record client_list =
  cli_clients :: "client_view list"
  cli_unnamed :: "client_activity list"

record client_input =
  ci_name :: jstring
  ci_addresses :: "jstring list"
  ci_group :: jstring
  ci_description :: jstring
  ci_enabled :: bool

definition client_input_json :: "client_input \<Rightarrow> json" where
  "client_input_json i = JObj [(''name'', JStr (ci_name i)), (''addresses'', json_strs (ci_addresses i)),
     (''group'', JStr (ci_group i)), (''description'', JStr (ci_description i)), (''enabled'', JBool (ci_enabled i))]"

definition loadClients_call :: call where
  "loadClients_call = get_call ''/api/v1/clients''"

definition createClient_call :: "client_input \<Rightarrow> call" where
  "createClient_call i = send_call ''/api/v1/clients'' ''POST'' (Some (client_input_json i))"

definition updateClient_call :: "int \<Rightarrow> client_input \<Rightarrow> call" where
  "updateClient_call n i = send_call (''/api/v1/clients/'' @ show_int n) ''PUT'' (Some (client_input_json i))"

definition deleteClient_call :: "int \<Rightarrow> call" where
  "deleteClient_call n = send_call (''/api/v1/clients/'' @ show_int n) ''DELETE'' None"

section \<open>Rewrites\<close>

datatype rewrite_type = RW_A | RW_AAAA | RW_CNAME

fun rewrite_type_name :: "rewrite_type \<Rightarrow> jstring" where
  "rewrite_type_name RW_A = ''A''"
| "rewrite_type_name RW_AAAA = ''AAAA''"
| "rewrite_type_name RW_CNAME = ''CNAME''"

record rewrite_input =
  ri_name :: jstring
  ri_type :: rewrite_type
  ri_value :: jstring
  ri_enabled :: bool
  ri_description :: jstring

record rewrite_status =
  rs_id :: int
  rs_input :: rewrite_input
  rs_blocked_by :: "jstring option"
  rs_overrides_zone :: "jstring option"

definition rewrite_input_json :: "rewrite_input \<Rightarrow> json" where
  "rewrite_input_json i = JObj [(''name'', JStr (ri_name i)), (''type'', JStr (rewrite_type_name (ri_type i))),
     (''value'', JStr (ri_value i)), (''enabled'', JBool (ri_enabled i)), (''description'', JStr (ri_description i))]"

definition loadRewrites_call :: call where
  "loadRewrites_call = get_call ''/api/v1/rewrites''"

definition createRewrite_call :: "rewrite_input \<Rightarrow> call" where
  "createRewrite_call i = send_call ''/api/v1/rewrites'' ''POST'' (Some (rewrite_input_json i))"

definition updateRewrite_call :: "int \<Rightarrow> rewrite_input \<Rightarrow> call" where
  "updateRewrite_call n i = send_call (''/api/v1/rewrites/'' @ show_int n) ''PUT'' (Some (rewrite_input_json i))"

definition deleteRewrite_call :: "int \<Rightarrow> call" where
  "deleteRewrite_call n = send_call (''/api/v1/rewrites/'' @ show_int n) ''DELETE'' None"

section \<open>Forwarding\<close>

record upstream_status =
  us_address :: jstring
  us_state :: jstring
  us_consecutive_failures :: int
  us_latency_milliseconds :: rat

record forward_rule_input =
  fi_domain :: jstring
  fi_upstreams :: "jstring list"
  fi_enabled :: bool
  fi_description :: jstring

record forward_rule_status =
  fr_id :: int
  fr_domain :: jstring
  fr_upstreams :: "jstring list"
  fr_enabled :: bool
  fr_description :: jstring
  fr_health :: "upstream_status list"

record forward_test_result =
  ft_name :: jstring
  ft_type :: jstring
  ft_rcode :: "jstring option"
  ft_answers :: "jstring list"
  ft_upstream :: "jstring option"
  ft_duration_ms :: rat
  ft_error :: "jstring option"

definition forward_rule_json :: "forward_rule_input \<Rightarrow> json" where
  "forward_rule_json i = JObj [(''domain'', JStr (fi_domain i)), (''upstreams'', json_strs (fi_upstreams i)),
     (''enabled'', JBool (fi_enabled i)), (''description'', JStr (fi_description i))]"

definition loadForwardRules_call :: call where
  "loadForwardRules_call = get_call ''/api/v1/forwarding''"

definition createForwardRule_call :: "forward_rule_input \<Rightarrow> call" where
  "createForwardRule_call i = send_call ''/api/v1/forwarding'' ''POST'' (Some (forward_rule_json i))"

definition updateForwardRule_call :: "int \<Rightarrow> forward_rule_input \<Rightarrow> call" where
  "updateForwardRule_call n i = send_call (''/api/v1/forwarding/'' @ show_int n) ''PUT'' (Some (forward_rule_json i))"

definition deleteForwardRule_call :: "int \<Rightarrow> call" where
  "deleteForwardRule_call n = send_call (''/api/v1/forwarding/'' @ show_int n) ''DELETE'' None"

definition testForwardRule_call :: "int \<Rightarrow> jstring \<Rightarrow> jstring \<Rightarrow> call" where
  "testForwardRule_call n name ty = send_call (''/api/v1/forwarding/'' @ show_int n @ ''/test'') ''POST''
     (Some (JObj [(''name'', JStr name), (''type'', JStr ty)]))"

section \<open>Policies\<close>

datatype policy_mode = PM_default | PM_disabled | PM_custom

fun policy_mode_name :: "policy_mode \<Rightarrow> jstring" where
  "policy_mode_name PM_default = ''default''"
| "policy_mode_name PM_disabled = ''disabled''"
| "policy_mode_name PM_custom = ''custom''"

record policy_input =
  py_client_id :: int
  py_mode :: policy_mode
  py_blocklists :: "int list"
  py_allow :: "jstring list"
  py_block :: "jstring list"
  py_enabled :: bool

text \<open>A policy is an input with an identifier.\<close>

record policy = policy_input +
  pol_id :: int

record effective_policy =
  ef_client :: "client option"
  ef_policy :: "policy option"
  ef_mode :: policy_mode

definition policy_input_json :: "policy_input \<Rightarrow> json" where
  "policy_input_json i = JObj [(''client_id'', json_int (py_client_id i)), (''mode'', JStr (policy_mode_name (py_mode i))),
     (''blocklists'', JArr (map json_int (py_blocklists i))), (''allow'', json_strs (py_allow i)),
     (''block'', json_strs (py_block i)), (''enabled'', JBool (py_enabled i))]"

definition loadPolicies_call :: call where
  "loadPolicies_call = get_call ''/api/v1/policies''"

definition createPolicy_call :: "policy_input \<Rightarrow> call" where
  "createPolicy_call i = send_call ''/api/v1/policies'' ''POST'' (Some (policy_input_json i))"

definition updatePolicy_call :: "int \<Rightarrow> policy_input \<Rightarrow> call" where
  "updatePolicy_call n i = send_call (''/api/v1/policies/'' @ show_int n) ''PUT'' (Some (policy_input_json i))"

definition deletePolicy_call :: "int \<Rightarrow> call" where
  "deletePolicy_call n = send_call (''/api/v1/policies/'' @ show_int n) ''DELETE'' None"

definition effectivePolicy_call :: "jstring \<Rightarrow> call" where
  "effectivePolicy_call ip = get_call (''/api/v1/policies/effective?ip='' @ encodeURIComponent ip)"

section \<open>Webhooks\<close>

fun severity_name :: "severity \<Rightarrow> jstring" where
  "severity_name Info = ''info''"
| "severity_name Warning = ''warning''"
| "severity_name Critical = ''critical''"

record webhook =
  wk_id :: int
  wk_name :: jstring
  wk_url :: jstring
  wk_events :: "jstring list"
  wk_min_severity :: severity
  wk_allow_private :: bool
  wk_enabled :: bool
  wk_has_token :: bool
  wk_last_delivery_at :: "jstring option"
  wk_last_status :: jstring
  wk_last_error :: jstring
  wk_consecutive_failures :: int

text \<open>\<open>token\<close>: absent keeps the stored one, the empty string removes it.\<close>

record webhook_input =
  wi_name :: jstring
  wi_url :: jstring
  wi_events :: "jstring list"
  wi_min_severity :: severity
  wi_allow_private :: bool
  wi_enabled :: bool
  wi_token :: "jstring option"

record webhook_test_result =
  wt_ok :: bool
  wt_error :: jstring
  wt_webhook :: webhook

definition webhook_input_json :: "webhook_input \<Rightarrow> json" where
  "webhook_input_json i = JObj ([(''name'', JStr (wi_name i)), (''url'', JStr (wi_url i)), (''events'', json_strs (wi_events i)),
     (''min_severity'', JStr (severity_name (wi_min_severity i))), (''allow_private'', JBool (wi_allow_private i)),
     (''enabled'', JBool (wi_enabled i))] @ (case wi_token i of None \<Rightarrow> [] | Some v \<Rightarrow> [(''token'', JStr v)]))"

definition loadWebhooks_call :: call where
  "loadWebhooks_call = get_call ''/api/v1/webhooks''"

definition loadEventTypes_call :: call where
  "loadEventTypes_call = get_call ''/api/v1/webhooks/event-types''"

definition createWebhook_call :: "webhook_input \<Rightarrow> call" where
  "createWebhook_call i = send_call ''/api/v1/webhooks'' ''POST'' (Some (webhook_input_json i))"

definition updateWebhook_call :: "int \<Rightarrow> webhook_input \<Rightarrow> call" where
  "updateWebhook_call n i = send_call (''/api/v1/webhooks/'' @ show_int n) ''PUT'' (Some (webhook_input_json i))"

definition deleteWebhook_call :: "int \<Rightarrow> call" where
  "deleteWebhook_call n = send_call (''/api/v1/webhooks/'' @ show_int n) ''DELETE'' None"

definition testWebhook_call :: "int \<Rightarrow> call" where
  "testWebhook_call n = send_call (''/api/v1/webhooks/'' @ show_int n @ ''/test'') ''POST'' None"

section \<open>Search\<close>

datatype search_kind = SK_zone | SK_record | SK_client | SK_rewrite | SK_forwarding | SK_blocklist

fun search_kind_name :: "search_kind \<Rightarrow> jstring" where
  "search_kind_name SK_zone = ''zone''"
| "search_kind_name SK_record = ''record''"
| "search_kind_name SK_client = ''client''"
| "search_kind_name SK_rewrite = ''rewrite''"
| "search_kind_name SK_forwarding = ''forwarding''"
| "search_kind_name SK_blocklist = ''blocklist''"

record search_result =
  sr_kind :: search_kind
  sr_title :: jstring
  sr_subtitle :: "jstring option"
  sr_link :: jstring

definition searchResources_call :: "jstring \<Rightarrow> call" where
  "searchResources_call q = get_call (''/api/v1/search?q='' @ encodeURIComponent q)"

section \<open>What a request carries\<close>

lemmas call_defs = get_call_def send_call_def is_write_def

lemma request_init_headers:
  "map_of (rq_headers (request_init csrf c)) ''X-CSRF-Token'' = (if is_write c \<and> csrf \<noteq> [] then Some csrf else None)"
  "map_of (rq_headers (request_init csrf c)) ''If-Match'' = map_option (\<lambda>r. quoted (show_int r)) (c_revision c)"
  "map_of (rq_headers (request_init csrf c)) ''Content-Type'' = Some ''application/json''"
  by (auto simp: request_init_def is_write_def split: option.splits)

text \<open>
  Percent encoding leaves no character that separates a path, a query or a fragment.
\<close>

lemma hex_digit_alnum: "n < 16 \<Longrightarrow> is_alnum (hex_digit n)"
  by (auto simp: hex_digit_def is_alnum_def Let_def)

lemma pct_byte_chars: "n < 256 \<Longrightarrow> c \<in> set (pct_byte n) \<Longrightarrow> c = CHR ''%'' \<or> is_alnum c"
  by (auto simp: pct_byte_def hex_digit_alnum)

lemma pct_char_chars: "c \<in> set (pct_char x) \<Longrightarrow> c = CHR ''%'' \<or> is_alnum c"
proof -
  assume c: "c \<in> set (pct_char x)"
  have x: "(of_char x :: nat) < 256" by (rule nat_of_char_less_256)
  then have "192 + of_char x div 64 < (256 :: nat)" "128 + of_char x mod 64 < (256 :: nat)" by linarith+
  moreover have "c \<in> set (pct_byte (of_char x)) \<or> c \<in> set (pct_byte (192 + of_char x div 64)) \<or>
      c \<in> set (pct_byte (128 + of_char x mod 64))"
    using c by (auto simp: pct_char_def Let_def split: if_splits)
  ultimately show ?thesis using x pct_byte_chars by blast
qed

lemma encodeURIComponent_chars:
  "c \<in> set (encodeURIComponent s) \<Longrightarrow> c = CHR ''%'' \<or> uri_unreserved c"
  by (auto simp: encodeURIComponent_def uri_unreserved_def dest!: pct_char_chars split: if_splits)

lemma encodeURIComponent_no_sep:
  "c \<in> set ''/?#&=+ '' \<Longrightarrow> c \<notin> set (encodeURIComponent s)"
  using encodeURIComponent_chars [of c s] by (auto simp: uri_unreserved_def is_alnum_def)

end
