(* ===== verification/Dom.thy ===== *)
theory Dom
  imports Prelude Complex_Main
begin

text \<open>
  The rendered page. A component's JSX is a function from its props and state to a list of
  nodes; an event handler is an attribute that carries the message the handler stands for, and
  the component's update function says what the handler does. The theory gives the tree, which
  of its handlers a user can trigger (HTML's rules for disabled controls, disabled fieldsets and
  form submission) and how a child component's tree is embedded in its parent's.

  An attribute that React drops because its value is undefined is simply absent. A form is
  submitted through a submit button that is not disabled: every form of the client has one, and
  pressing Enter in a field triggers the form's default button, so a disabled one blocks it.
\<close>

datatype tag =
    T_a | T_Link | T_NavLink | T_article | T_button | T_caption | T_code | T_dd | T_details | T_div | T_dl | T_dt
  | T_fieldset | T_footer | T_form | T_h1 | T_h2 | T_h3 | T_header | T_i | T_img | T_input
  | T_kbd | T_label | T_legend | T_li | T_main | T_nav | T_ol | T_option | T_p | T_pre | T_section | T_select | T_small
  | T_span | T_strong | T_summary | T_table | T_tbody | T_td | T_textarea | T_th | T_thead
  | T_time | T_tr | T_ul | T_provider | T_svg | T_path | T_polyline | T_rect | T_g | T_circle | T_line

text \<open>
  \<open>OnConfirm q m\<close> is a click handler of the form \<open>if (window.confirm(q)) m\<close>: it fires
  \<open>m\<close> when the user accepts the question. \<open>OnKeys ks m\<close> is a key handler that reacts to the
  keys \<open>ks\<close>, \<open>OnToggle\<close> that of a details element, which is told whether it is open now, and
  \<open>OnFile\<close> that of a file input, which is told the chosen file, if any. \<open>OnPointer\<close> is a handler
  of mouse moves that measures the element: it is told its width and the pointer's distance from its left edge.
\<close>

datatype 'm attr =
    A jstring jstring
  | AN jstring int
  | AB jstring bool
  | Disabled bool
  | OnClick 'm
  | OnConfirm jstring 'm
  | OnMouseMove 'm
  | OnMouseLeave 'm
  | OnPointer "rat \<Rightarrow> rat \<Rightarrow> 'm"
  | OnChange "jstring \<Rightarrow> 'm"
  | OnCheck "bool \<Rightarrow> 'm"
  | OnKeys "jstring list" 'm
  | OnToggle "bool \<Rightarrow> 'm"
  | OnFile "jstring option \<Rightarrow> 'm"
  | OnSubmit 'm

datatype 'm node =
    El tag "'m attr list" "'m node list"
  | Txt jstring
  | Icon jstring int

datatype 'm handler = Fire 'm | Confirmed jstring 'm | Typed "jstring \<Rightarrow> 'm" | Checked "bool \<Rightarrow> 'm" | Picked "jstring option \<Rightarrow> 'm"
  | Pointed "rat \<Rightarrow> rat \<Rightarrow> 'm"

abbreviation Cls :: "jstring \<Rightarrow> 'm attr" where
  "Cls c \<equiv> A ''className'' c"

abbreviation Flag :: "jstring \<Rightarrow> 'm attr" where
  "Flag a \<equiv> AB a True"

text \<open>\<open>{cond && <X />}\<close> and \<open>attr={value ?? undefined}\<close>.\<close>

definition render_if :: "bool \<Rightarrow> 'm node list \<Rightarrow> 'm node list" where
  "render_if c ns = (if c then ns else [])"

definition attr_if :: "bool \<Rightarrow> 'm attr \<Rightarrow> 'm attr list" where
  "attr_if c a = (if c then [a] else [])"

lemma render_if_simps [simp]: "render_if True ns = ns" "render_if False ns = []"
  by (simp_all add: render_if_def)

lemma attr_if_simps [simp]: "attr_if True a = [a]" "attr_if False a = []"
  by (simp_all add: attr_if_def)

section \<open>What a user can trigger\<close>

fun disabling :: "'m attr \<Rightarrow> bool" where
  "disabling (Disabled b) = b"
| "disabling _ = False"

definition is_disabled :: "'m attr list \<Rightarrow> bool" where
  "is_disabled as \<longleftrightarrow> list_ex disabling as"

fun is_control :: "tag \<Rightarrow> bool" where
  "is_control T_button = True"
| "is_control T_input = True"
| "is_control T_select = True"
| "is_control T_textarea = True"
| "is_control _ = False"

fun not_submit :: "'m attr \<Rightarrow> bool" where
  "not_submit (A n v) = (n = ''type'' \<and> v \<noteq> ''submit'')"
| "not_submit _ = False"

text \<open>A button without a \<open>type\<close> is a submit button.\<close>

definition is_submit :: "tag \<Rightarrow> 'm attr list \<Rightarrow> bool" where
  "is_submit t as \<longleftrightarrow> t = T_button \<and> \<not> list_ex not_submit as"

definition blocked_below :: "bool \<Rightarrow> tag \<Rightarrow> 'm attr list \<Rightarrow> bool" where
  "blocked_below d t as \<longleftrightarrow> d \<or> t = T_fieldset \<and> is_disabled as"

definition live :: "bool \<Rightarrow> tag \<Rightarrow> 'm attr list \<Rightarrow> bool" where
  "live d t as \<longleftrightarrow> \<not> (is_control t \<and> (d \<or> is_disabled as))"

fun attr_handlers :: "'m attr \<Rightarrow> 'm handler list" where
  "attr_handlers (OnClick m) = [Fire m]"
| "attr_handlers (OnConfirm q m) = [Confirmed q m]"
| "attr_handlers (OnMouseMove m) = [Fire m]"
| "attr_handlers (OnMouseLeave m) = [Fire m]"
| "attr_handlers (OnPointer f) = [Pointed f]"
| "attr_handlers (OnChange f) = [Typed f]"
| "attr_handlers (OnCheck f) = [Checked f]"
| "attr_handlers (OnKeys ks m) = (if ks = [] then [] else [Fire m])"
| "attr_handlers (OnToggle f) = [Checked f]"
| "attr_handlers (OnFile f) = [Picked f]"
| "attr_handlers _ = []"

fun submit_handlers :: "'m attr \<Rightarrow> 'm handler list" where
  "submit_handlers (OnSubmit m) = [Fire m]"
| "submit_handlers _ = []"

fun can_submit :: "bool \<Rightarrow> 'm node \<Rightarrow> bool" where
  "can_submit d (El t as ns) =
     (is_submit t as \<and> live d t as \<or> list_ex (can_submit (blocked_below d t as)) ns)"
| "can_submit d _ = False"

fun handlers :: "bool \<Rightarrow> 'm node \<Rightarrow> 'm handler list" where
  "handlers d (El t as ns) =
     (if live d t as then concat (map attr_handlers as) else [])
     @ (if list_ex (can_submit (blocked_below d t as)) ns then concat (map submit_handlers as) else [])
     @ concat (map (handlers (blocked_below d t as)) ns)"
| "handlers d _ = []"

fun emits :: "'m handler \<Rightarrow> 'm set" where
  "emits (Fire m) = {m}"
| "emits (Confirmed q m) = {m}"
| "emits (Typed f) = range f"
| "emits (Checked f) = range f"
| "emits (Picked f) = range f"
| "emits (Pointed f) = (\<Union>w. range (f w))"

definition fires :: "'m node list \<Rightarrow> 'm set" where
  "fires ns = (\<Union>n \<in> set ns. \<Union>h \<in> set (handlers False n). emits h)"

section \<open>Every triggerable message satisfies a predicate\<close>

fun attr_ok :: "('m \<Rightarrow> bool) \<Rightarrow> 'm attr \<Rightarrow> bool" where
  "attr_ok P (OnClick m) = P m"
| "attr_ok P (OnConfirm q m) = P m"
| "attr_ok P (OnMouseMove m) = P m"
| "attr_ok P (OnMouseLeave m) = P m"
| "attr_ok P (OnPointer f) = (\<forall>w x. P (f w x))"
| "attr_ok P (OnChange f) = (\<forall>v. P (f v))"
| "attr_ok P (OnCheck f) = (\<forall>v. P (f v))"
| "attr_ok P (OnKeys ks m) = (ks \<noteq> [] \<longrightarrow> P m)"
| "attr_ok P (OnToggle f) = (\<forall>v. P (f v))"
| "attr_ok P (OnFile f) = (\<forall>v. P (f v))"
| "attr_ok P _ = True"

fun submit_ok :: "('m \<Rightarrow> bool) \<Rightarrow> 'm attr \<Rightarrow> bool" where
  "submit_ok P (OnSubmit m) = P m"
| "submit_ok P _ = True"

fun node_ok :: "('m \<Rightarrow> bool) \<Rightarrow> bool \<Rightarrow> 'm node \<Rightarrow> bool" where
  "node_ok P d (El t as ns) \<longleftrightarrow>
     (live d t as \<longrightarrow> list_all (attr_ok P) as) \<and>
     (list_ex (can_submit (blocked_below d t as)) ns \<longrightarrow> list_all (submit_ok P) as) \<and>
     list_all (node_ok P (blocked_below d t as)) ns"
| "node_ok P d (Txt s) \<longleftrightarrow> True"
| "node_ok P d (Icon s i) \<longleftrightarrow> True"

definition nodes_ok :: "('m \<Rightarrow> bool) \<Rightarrow> 'm node list \<Rightarrow> bool" where
  "nodes_ok P ns \<longleftrightarrow> list_all (node_ok P False) ns"

lemma attr_ok_iff: "attr_ok P a \<longleftrightarrow> (\<forall>h \<in> set (attr_handlers a). \<forall>m \<in> emits h. P m)"
  by (cases a) auto

lemma submit_ok_iff: "submit_ok P a \<longleftrightarrow> (\<forall>h \<in> set (submit_handlers a). \<forall>m \<in> emits h. P m)"
  by (cases a) auto

lemma node_ok_iff: "node_ok P d n \<longleftrightarrow> (\<forall>h \<in> set (handlers d n). \<forall>m \<in> emits h. P m)"
proof (induction n arbitrary: d)
  case (El t as ns)
  then have "list_all (node_ok P (blocked_below d t as)) ns \<longleftrightarrow>
      (\<forall>n \<in> set ns. \<forall>h \<in> set (handlers (blocked_below d t as) n). \<forall>m \<in> emits h. P m)"
    by (auto simp: list_all_iff)
  then show ?case
    by (auto simp: list_all_iff attr_ok_iff submit_ok_iff)
qed simp_all

lemma nodes_ok_iff: "nodes_ok P ns \<longleftrightarrow> (\<forall>m \<in> fires ns. P m)"
  by (auto simp: nodes_ok_def list_all_iff node_ok_iff fires_def)

lemma nodes_okD: "nodes_ok P ns \<Longrightarrow> m \<in> fires ns \<Longrightarrow> P m"
  by (simp add: nodes_ok_iff)

lemma nodes_ok_simps [simp]:
  "nodes_ok P [] \<longleftrightarrow> True"
  "nodes_ok P (n # ns) \<longleftrightarrow> node_ok P False n \<and> nodes_ok P ns"
  "nodes_ok P (ns @ ms) \<longleftrightarrow> nodes_ok P ns \<and> nodes_ok P ms"
  by (simp_all add: nodes_ok_def)

lemma list_all_node_ok [simp]: "list_all (node_ok P False) ns \<longleftrightarrow> nodes_ok P ns"
  by (simp add: nodes_ok_def)

lemma nodes_ok_render_if [simp]: "nodes_ok P (render_if c ns) \<longleftrightarrow> (c \<longrightarrow> nodes_ok P ns)"
  by (simp add: render_if_def)

lemma list_all_render_if [simp]:
  "list_all (node_ok P d) (render_if c ns) \<longleftrightarrow> (c \<longrightarrow> list_all (node_ok P d) ns)"
  by (simp add: render_if_def)

lemma list_all_attr_if [simp]: "list_all (attr_ok P) (attr_if c a) \<longleftrightarrow> (c \<longrightarrow> attr_ok P a)"
  by (simp add: attr_if_def)

lemma list_all_submit_attr_if [simp]: "list_all (submit_ok P) (attr_if c a) \<longleftrightarrow> (c \<longrightarrow> submit_ok P a)"
  by (simp add: attr_if_def)

lemma list_ex_render_if [simp]: "list_ex P (render_if c ns) \<longleftrightarrow> c \<and> list_ex P ns"
  by (simp add: render_if_def)

lemma list_ex_attr_if [simp]: "list_ex P (attr_if c a) \<longleftrightarrow> c \<and> P a"
  by (simp add: attr_if_def)

text \<open>Text and icons carry no handler, so a tree without handlers is harmless.\<close>

lemma node_ok_mono: "node_ok P d n \<Longrightarrow> (\<And>m. P m \<Longrightarrow> Q m) \<Longrightarrow> node_ok Q d n"
  by (auto simp: node_ok_iff)

section \<open>Embedding a child component\<close>

lemma disabling_map [simp]: "disabling (map_attr f a) = disabling a"
  by (cases a) auto

lemma not_submit_map [simp]: "not_submit (map_attr f a) = not_submit a"
  by (cases a) auto

lemma list_ex_comp: "list_ex P (map g xs) = list_ex (\<lambda>x. P (g x)) xs"
  by (simp add: list_ex_iff)

lemma is_disabled_map [simp]: "is_disabled (map (map_attr f) as) = is_disabled as"
  by (simp add: is_disabled_def list_ex_comp)

lemma is_submit_map [simp]: "is_submit t (map (map_attr f) as) = is_submit t as"
  by (simp add: is_submit_def list_ex_comp)

lemma blocked_below_map [simp]: "blocked_below d t (map (map_attr f) as) = blocked_below d t as"
  by (simp add: blocked_below_def)

lemma live_map [simp]: "live d t (map (map_attr f) as) = live d t as"
  by (simp add: live_def)

lemma can_submit_map [simp]: "can_submit d (map_node f n) = can_submit d n"
proof (induction n arbitrary: d)
  case (El t as ns)
  then show ?case by (simp add: list_ex_comp) (simp add: list_ex_iff)
qed simp_all

lemma attr_ok_map: "attr_ok P (map_attr f a) = attr_ok (\<lambda>m. P (f m)) a"
  by (cases a) auto

lemma submit_ok_map: "submit_ok P (map_attr f a) = submit_ok (\<lambda>m. P (f m)) a"
  by (cases a) auto

lemma node_ok_map [simp]: "node_ok P d (map_node f n) = node_ok (\<lambda>m. P (f m)) d n"
proof (induction n arbitrary: d)
  case (El t as ns)
  then show ?case
    by (simp add: list_ex_comp attr_ok_map submit_ok_map list.pred_map comp_def)
      (simp add: list_all_iff)
qed simp_all

lemma list_all_map_iff: "list_all P (map g xs) \<longleftrightarrow> (\<forall>x \<in> set xs. P (g x))"
  by (simp add: list_all_iff)

lemma nodes_ok_map [simp]: "nodes_ok P (map g xs) \<longleftrightarrow> (\<forall>x \<in> set xs. node_ok P False (g x))"
  by (simp add: nodes_ok_def list_all_map_iff)

lemma list_ex_map_iff: "list_ex P (map g xs) \<longleftrightarrow> (\<exists>x \<in> set xs. P (g x))"
  by (simp add: list_ex_iff)

lemmas dom_simps = list_all_map_iff list_ex_map_iff live_def blocked_below_def is_disabled_def is_submit_def

end
