(* ===== verification/Components.thy ===== *)
theory Components
  imports Dom Js_Number
begin

text \<open>
  The presentational components: \<open>components/tone.ts\<close>, \<open>Badge.tsx\<close>,
  \<open>EmptyState.tsx\<close> and \<open>Stat.tsx\<close>.
\<close>

text \<open>
  What the runtime prints in the current language: \<open>n.toLocaleString(language)\<close> and
  \<open>new Date(x).toLocaleString(language)\<close>.
\<close>

record formats =
  fm_number :: "int \<Rightarrow> jstring"
  fm_date :: "jstring \<Rightarrow> jstring"

datatype badge_tone = Tone_neutral | Tone_success | Tone_warning | Tone_danger | Tone_info | Tone_brand

fun tone_name :: "badge_tone \<Rightarrow> jstring" where
  "tone_name Tone_neutral = ''neutral''"
| "tone_name Tone_success = ''success''"
| "tone_name Tone_warning = ''warning''"
| "tone_name Tone_danger = ''danger''"
| "tone_name Tone_info = ''info''"
| "tone_name Tone_brand = ''brand''"

definition toneFor :: "jstring option \<Rightarrow> badge_tone" where
  "toneFor state = (case state of
      None \<Rightarrow> Tone_neutral
    | Some s \<Rightarrow>
       (if s \<in> set [''healthy'', ''completed'', ''success'', ''active'', ''verified'', ''valid''] then Tone_success
        else if s \<in> set [''degraded'', ''rolled_back'', ''warning'', ''stale''] then Tone_warning
        else if s \<in> set [''failed'', ''failure'', ''unavailable'', ''unreachable'', ''critical'', ''error''] then Tone_danger
        else if s = ''info'' then Tone_info else Tone_neutral))"

definition Badge :: "badge_tone \<Rightarrow> bool \<Rightarrow> 'm node list \<Rightarrow> 'm node" where
  [view_defs]: "Badge tone plain children =
     El T_span [Cls (''badge '' @ tone_name tone @ (if plain then '' plain'' else ''''))] children"

text \<open>\<open>icon\<close>, \<open>children\<close> and \<open>action\<close> are absent as the empty list.\<close>

definition EmptyState :: "'m node list \<Rightarrow> jstring \<Rightarrow> 'm node list \<Rightarrow> 'm node list \<Rightarrow> bool \<Rightarrow> 'm node" where
  [view_defs]: "EmptyState icon title children action small =
     El T_div [Cls (''empty-state'' @ (if small then '' compact'' else ''''))]
       (render_if (icon \<noteq> []) [El T_span [Cls ''empty-icon'', A ''aria-hidden'' ''true''] icon]
        @ [El T_h3 [] [Txt title]]
        @ render_if (children \<noteq> []) [El T_p [] children]
        @ action)"

definition Loading :: "'m node list \<Rightarrow> 'm node" where
  [view_defs]: "Loading children =
     El T_div [Cls ''loading-state'', A ''role'' ''status'']
       ([El T_span [Cls ''spinner'', A ''aria-hidden'' ''true''] []] @ children)"

datatype stat_tone = Stat_neutral | Stat_info | Stat_danger | Stat_success | Stat_warning

fun stat_tone_name :: "stat_tone \<Rightarrow> jstring" where
  "stat_tone_name Stat_neutral = ''neutral''"
| "stat_tone_name Stat_info = ''info''"
| "stat_tone_name Stat_danger = ''danger''"
| "stat_tone_name Stat_success = ''success''"
| "stat_tone_name Stat_warning = ''warning''"

text \<open>
  The bar's width in percent, rounded as every product of numbers is, is \<open>Math.max(0, Math.min(1, progress)) * 100\<close>; the text of a
  width is left to the argument \<open>pct\<close>, which prints a number as JavaScript does.
\<close>

definition stat_width :: "rat \<Rightarrow> rat" where
  "stat_width progress = fl (max 0 (min 1 progress) * 100)"

definition Stat ::
  "(rat \<Rightarrow> jstring) \<Rightarrow> jstring \<Rightarrow> jstring \<Rightarrow> jstring option \<Rightarrow> jstring option \<Rightarrow> rat option \<Rightarrow> stat_tone \<Rightarrow> 'm node" where
  [view_defs]: "Stat pct label v note aside progress tone =
     El T_article [Cls (''stat tone-'' @ stat_tone_name tone)]
       ([El T_div [Cls ''stat-heading'']
          ([El T_span [] [Txt label]]
           @ render_if (nullish aside [] \<noteq> []) [El T_span [Cls ''stat-aside''] [Txt (nullish aside [])]]),
         El T_strong [] [Txt v]]
        @ render_if (nullish note [] \<noteq> []) [El T_small [] [Txt (nullish note [])]]
        @ (case progress of None \<Rightarrow> [] | Some p \<Rightarrow>
            [El T_div [Cls ''stat-bar'', A ''aria-hidden'' ''true'']
               [El T_span [A ''style.width'' (pct (stat_width p) @ ''%'')] []]]))"

end
