(* ===== verification/Ui.thy ===== *)
theory Ui
  imports Dom
begin

text \<open>
  A mounted component as a state machine: the user triggers one of the handlers of the page as
  it is rendered now, or the environment moves (a response arrives, a timer fires, an effect
  runs). JavaScript runs each handler and each continuation to completion, and React renders
  before the next discrete event, so a step is one handler or one continuation.

  The locales are the contracts the pages are held to: an invariant of every reachable state,
  at most one change request in flight, and no change request at all in a read-only session.
\<close>

inductive ui_step ::
  "('s \<Rightarrow> 'm node list) \<Rightarrow> ('m \<Rightarrow> 's \<Rightarrow> 's) \<Rightarrow> ('s \<Rightarrow> 's \<Rightarrow> bool) \<Rightarrow> 's \<Rightarrow> 's \<Rightarrow> bool"
  for view update env where
  user: "m \<in> fires (view s) \<Longrightarrow> ui_step view update env s (update m s)"
| environment: "env s s' \<Longrightarrow> ui_step view update env s s'"

inductive ui_reach ::
  "('s \<Rightarrow> bool) \<Rightarrow> ('s \<Rightarrow> 'm node list) \<Rightarrow> ('m \<Rightarrow> 's \<Rightarrow> 's) \<Rightarrow> ('s \<Rightarrow> 's \<Rightarrow> bool) \<Rightarrow> 's \<Rightarrow> bool"
  for init view update env where
  mounted: "init s \<Longrightarrow> ui_reach init view update env s"
| stepped: "ui_reach init view update env s \<Longrightarrow> ui_step view update env s s' \<Longrightarrow>
    ui_reach init view update env s'"

inductive_cases ui_stepE [elim!]: "ui_step view update env s s'"

locale page_machine =
  fixes init :: "'s \<Rightarrow> bool" and view :: "'s \<Rightarrow> 'm node list" and update :: "'m \<Rightarrow> 's \<Rightarrow> 's"
    and env :: "'s \<Rightarrow> 's \<Rightarrow> bool" and inv :: "'s \<Rightarrow> bool"
  assumes init_inv: "init s \<Longrightarrow> inv s"
    and user_inv: "inv s \<Longrightarrow> m \<in> fires (view s) \<Longrightarrow> inv (update m s)"
    and env_inv: "inv s \<Longrightarrow> env s s' \<Longrightarrow> inv s'"
begin

lemma step_inv: "inv s \<Longrightarrow> ui_step view update env s s' \<Longrightarrow> inv s'"
  by (auto intro: user_inv env_inv)

lemma reach_inv: "ui_reach init view update env s \<Longrightarrow> inv s"
  by (induction rule: ui_reach.induct) (auto intro: init_inv user_inv env_inv)

end

text \<open>Every change request that is sent is in flight until it settles. A page is quiet when it never sends one.\<close>

definition page_quiet ::
  "('s \<Rightarrow> bool) \<Rightarrow> ('s \<Rightarrow> 'm node list) \<Rightarrow> ('m \<Rightarrow> 's \<Rightarrow> 's) \<Rightarrow> ('s \<Rightarrow> 's \<Rightarrow> bool) \<Rightarrow> ('s \<Rightarrow> 'w list) \<Rightarrow> bool" where
  "page_quiet init view update env writes \<longleftrightarrow> (\<forall>s. ui_reach init view update env s \<longrightarrow> writes s = [])"

locale single_flight_page = page_machine +
  fixes writes :: "'a \<Rightarrow> 'w list"
  assumes inv_single: "inv s \<Longrightarrow> length (writes s) \<le> 1"
begin

lemma reach_single: "ui_reach init view update env s \<Longrightarrow> length (writes s) \<le> 1"
  by (rule inv_single [OF reach_inv])

end

locale read_only_page = page_machine +
  fixes writes :: "'a \<Rightarrow> 'w list"
  assumes inv_none: "inv s \<Longrightarrow> writes s = []"
begin

lemma reach_none: "ui_reach init view update env s \<Longrightarrow> writes s = []"
  by (rule inv_none [OF reach_inv])

lemma is_quiet: "page_quiet init view update env writes"
  unfolding page_quiet_def using reach_none by blast

lemma step_none:
  "ui_reach init view update env s \<Longrightarrow> ui_step view update env s s' \<Longrightarrow> writes s' = []"
  by (rule inv_none [OF step_inv [OF reach_inv]])

end

text \<open>A read-only page is in particular single-flight.\<close>

sublocale read_only_page \<subseteq> quiet: single_flight_page init view update env inv writes
  by unfold_locales (simp add: inv_none)

section \<open>The lock that a busy flag implements\<close>

text \<open>
  The abstract specification of a page that makes one change at a time: a lock that is free or held by
  a change. A page refines it when every step adds at most one change to those in flight, or takes one
  away: then a change never displaces another.
\<close>

datatype 'w lock = Free | Held 'w

inductive lock_step :: "'w lock \<Rightarrow> 'w lock \<Rightarrow> bool" where
  stutter: "lock_step l l"
| acquire: "lock_step Free (Held w)"
| release: "lock_step (Held w) Free"

inductive_simps lock_step_simps: "lock_step Free l" "lock_step (Held w) l"

definition lock_of :: "'w list \<Rightarrow> 'w lock" where
  "lock_of ws = (case ws of [] \<Rightarrow> Free | w # _ \<Rightarrow> Held w)"

definition one_change :: "'w list \<Rightarrow> 'w list \<Rightarrow> bool" where
  "one_change xs ys \<longleftrightarrow> ys = xs \<or> (\<exists>w. ys = xs @ [w]) \<or> (\<exists>i < length xs. ys = remove_nth i xs)"

lemma one_change_intros [intro, simp]:
  "one_change xs xs" "one_change xs (xs @ [w])" "i < length xs \<Longrightarrow> one_change xs (remove_nth i xs)"
  by (auto simp: one_change_def)

lemma one_change_short: "length xs \<le> 1 \<Longrightarrow> ys = xs \<or> ys = [] \<Longrightarrow> one_change xs ys"
  by (cases xs) (auto simp: one_change_def remove_nth_def)

lemma one_change_lock:
  assumes "one_change xs ys" "length xs \<le> 1" "length ys \<le> 1"
  shows "lock_step (lock_of xs) (lock_of ys)"
proof (cases xs)
  case Nil
  then show ?thesis by (cases ys) (auto simp: lock_of_def intro: lock_step.intros)
next
  case (Cons w ws)
  then have "xs = [w]" using assms(2) by simp
  then show ?thesis using assms(1,3) by (auto simp: one_change_def lock_of_def intro: lock_step.intros)
qed

definition page_locked ::
  "('s \<Rightarrow> bool) \<Rightarrow> ('s \<Rightarrow> 'm node list) \<Rightarrow> ('m \<Rightarrow> 's \<Rightarrow> 's) \<Rightarrow> ('s \<Rightarrow> 's \<Rightarrow> bool) \<Rightarrow> ('s \<Rightarrow> 'w list) \<Rightarrow> bool" where
  "page_locked init view update env writes \<longleftrightarrow> (\<forall>s s'. ui_reach init view update env s \<longrightarrow> ui_step view update env s s' \<longrightarrow>
     length (writes s) \<le> 1 \<and> lock_step (lock_of (writes s)) (lock_of (writes s')))"

locale locked_page = single_flight_page +
  assumes user_change: "inv s \<Longrightarrow> m \<in> fires (view s) \<Longrightarrow> one_change (writes s) (writes (update m s))"
    and env_change: "inv s \<Longrightarrow> env s s' \<Longrightarrow> one_change (writes s) (writes s')"
begin

lemma step_change: "inv s \<Longrightarrow> ui_step view update env s s' \<Longrightarrow> one_change (writes s) (writes s')"
  by (auto intro: user_change env_change)

lemma refines_lock:
  assumes "ui_reach init view update env s" "ui_step view update env s s'"
  shows "lock_step (lock_of (writes s)) (lock_of (writes s'))"
  using step_change [OF reach_inv [OF assms(1)] assms(2)] reach_single [OF assms(1)] reach_single [OF ui_reach.stepped [OF assms]]
  by (rule one_change_lock)

lemma is_locked: "page_locked init view update env writes"
  unfolding page_locked_def by (intro allI impI conjI; rule reach_single refines_lock; assumption)

end

end
