(* ===== verification/Command_Palette.thy ===== *)
theory Command_Palette
  imports Api_Resources Components Ui
begin

text \<open>
  \<open>components/CommandPalette.tsx\<close>: the modal dialog that filters pages and actions locally and
  searches resources on the server after a pause. What choosing an option does (\<open>run\<close>) is a
  value of the type \<open>'r\<close>, so that it can be inspected.
\<close>

section \<open>Items and matching\<close>

record 'r palette_item =
  pi_id :: jstring
  pi_label :: jstring
  pi_hint :: "jstring option"
  pi_icon :: "jstring \<times> int"
  pi_keywords :: "jstring option"
  pi_run :: 'r

record 'r palette_option = "'r palette_item" +
  po_group :: jstring

fun KIND_ICONS :: "search_kind \<Rightarrow> jstring \<times> int" where
  "KIND_ICONS SK_zone = (''Globe2'', 16)"
| "KIND_ICONS SK_record = (''FileText'', 16)"
| "KIND_ICONS SK_client = (''MonitorSmartphone'', 16)"
| "KIND_ICONS SK_rewrite = (''Replace'', 16)"
| "KIND_ICONS SK_forwarding = (''RouteIcon'', 16)"
| "KIND_ICONS SK_blocklist = (''Ban'', 16)"

definition DEBOUNCE_MS :: nat where
  "DEBOUNCE_MS = 200"

definition haystack :: "jstring option list \<Rightarrow> jstring" where
  "haystack vals = js_lower (js_join '' '' (filter (\<lambda>v. v \<noteq> []) (map (\<lambda>v. nullish v []) vals)))"

definition palette_matches :: "jstring \<Rightarrow> jstring option list \<Rightarrow> bool" where
  "palette_matches query vals = list_all (\<lambda>word. js_includes (haystack vals) word) (tokens js_ws (js_lower query))"

section \<open>State\<close>

text \<open>
  \<open>pl_timer\<close> is the query whose debounce timer is running; a search in flight carries its query
  and the flag of its abort controller.
\<close>

record palette =
  pl_query :: jstring
  pl_active :: nat
  pl_remote :: "(jstring \<times> search_result list) option"
  pl_loading :: bool
  pl_timer :: "jstring option"
  pl_searches :: "(jstring \<times> bool) list"

definition palette_initial :: palette where
  "palette_initial = \<lparr>pl_query = [], pl_active = 0, pl_remote = None, pl_loading = False, pl_timer = None, pl_searches = []\<rparr>"

definition trimmed :: "palette \<Rightarrow> jstring" where
  "trimmed s = js_trim (pl_query s)"

text \<open>
  The search effect, which runs when the trimmed query changes: the clean-up of the previous run
  aborts its search and clears its timer; a query of two characters or more starts a new timer.
\<close>

definition search_effect :: "palette \<Rightarrow> palette" where
  "search_effect s = (let s1 = s\<lparr>pl_searches := map (\<lambda>(q, a). (q, True)) (pl_searches s), pl_timer := None\<rparr>
     in if length (trimmed s1) < 2 then s1 else s1\<lparr>pl_timer := Some (trimmed s1)\<rparr>)"

definition palette_setQuery :: "jstring \<Rightarrow> palette \<Rightarrow> palette" where
  "palette_setQuery v s = (let s1 = s\<lparr>pl_query := v, pl_active := 0\<rparr>
     in if trimmed s1 = trimmed s then s1 else search_effect s1)"

definition palette_timer :: "palette \<Rightarrow> palette" where
  "palette_timer s = (case pl_timer s of
      None \<Rightarrow> s
    | Some q \<Rightarrow> s\<lparr>pl_timer := None, pl_loading := True, pl_searches := pl_searches s @ [(q, False)]\<rparr>)"

definition search_settled :: "nat \<Rightarrow> search_result list result \<Rightarrow> palette \<Rightarrow> palette" where
  "search_settled i res s =
     (let (q, aborted) = pl_searches s ! i; s0 = s\<lparr>pl_searches := remove_nth i (pl_searches s)\<rparr>;
          s1 = (case res of
             Inr results \<Rightarrow> s0\<lparr>pl_remote := Some (q, results)\<rparr>
           | Inl e \<Rightarrow> if aborted then s0 else s0\<lparr>pl_remote := Some (q, [])\<rparr>)
      in if aborted then s1 else s1\<lparr>pl_loading := False\<rparr>)"

section \<open>Options\<close>

definition local_options :: "jstring \<Rightarrow> jstring \<Rightarrow> 'r palette_item list \<Rightarrow> 'r palette_option list" where
  "local_options q grp items =
     map (\<lambda>p. palette_item.extend p \<lparr>po_group = grp\<rparr>)
       (filter (\<lambda>p. q = [] \<or> palette_matches q [Some (pi_label p), pi_keywords p]) items)"

definition result_option :: "(jstring \<Rightarrow> jstring) \<Rightarrow> (jstring \<Rightarrow> 'r) \<Rightarrow> nat \<times> search_result \<Rightarrow> 'r palette_option" where
  "result_option t navigate ir = (case ir of (i, r) \<Rightarrow>
     \<lparr>pi_id = ''result-'' @ show_nat i, pi_label = sr_title r, pi_hint = sr_subtitle r,
      pi_icon = KIND_ICONS (sr_kind r), pi_keywords = None, pi_run = navigate (sr_link r),
      po_group = t (''palette.kind_'' @ search_kind_name (sr_kind r))\<rparr>)"

definition remote_results :: "palette \<Rightarrow> search_result list" where
  "remote_results s = (case pl_remote s of
      None \<Rightarrow> []
    | Some (q, rs) \<Rightarrow> if 2 \<le> length (trimmed s) \<and> q = trimmed s then rs else [])"

definition palette_options ::
  "(jstring \<Rightarrow> jstring) \<Rightarrow> (jstring \<Rightarrow> 'r) \<Rightarrow> 'r palette_item list \<Rightarrow> 'r palette_item list \<Rightarrow> palette \<Rightarrow> 'r palette_option list" where
  "palette_options t navigate pages actions s =
     local_options (trimmed s) (t ''palette.pages'') pages
     @ local_options (trimmed s) (t ''palette.actions'') actions
     @ map (result_option t navigate) (enumerate 0 (remote_results s))"

definition current :: "nat \<Rightarrow> palette \<Rightarrow> nat" where
  "current n s = min (pl_active s) (max (n - 1) 0)"

definition searching :: "palette \<Rightarrow> bool" where
  "searching s \<longleftrightarrow> pl_loading s \<or>
     2 \<le> length (trimmed s) \<and> (case pl_remote s of None \<Rightarrow> True | Some (q, rs) \<Rightarrow> q \<noteq> trimmed s)"

section \<open>Keyboard and mouse\<close>

datatype key = ArrowDown | ArrowUp | Home | End | Enter | Escape | Tab | OtherKey

text \<open>What a handler does besides changing state, in order.\<close>

datatype 'r palette_effect = PreventDefault | StopPropagation | Close | Run 'r

definition palette_choose :: "'r palette_option option \<Rightarrow> 'r palette_effect list" where
  "palette_choose sel = (case sel of None \<Rightarrow> [] | Some p \<Rightarrow> [Close, Run (pi_run p)])"

definition nth_option :: "'a list \<Rightarrow> nat \<Rightarrow> 'a option" where
  "nth_option xs i = (if i < length xs then Some (xs ! i) else None)"

fun onKeyDown :: "'r palette_option list \<Rightarrow> key \<Rightarrow> palette \<Rightarrow> palette \<times> 'r palette_effect list" where
  "onKeyDown opts ArrowDown s =
     (s\<lparr>pl_active := (current (length opts) s + 1) mod max (length opts) 1\<rparr>, [PreventDefault])"
| "onKeyDown opts ArrowUp s =
     (s\<lparr>pl_active := nat ((int (current (length opts) s) - 1 + int (length opts)) mod int (max (length opts) 1))\<rparr>, [PreventDefault])"
| "onKeyDown opts Home s = (s\<lparr>pl_active := 0\<rparr>, [PreventDefault])"
| "onKeyDown opts End s = (s\<lparr>pl_active := max (length opts - 1) 0\<rparr>, [PreventDefault])"
| "onKeyDown opts Enter s = (s, PreventDefault # palette_choose (nth_option opts (current (length opts) s)))"
| "onKeyDown opts Escape s = (s, [PreventDefault, StopPropagation, Close])"
| "onKeyDown opts Tab s = (s, [PreventDefault])"
| "onKeyDown opts OtherKey s = (s, [])"

datatype palette_msg = Pal_Query jstring | Pal_Hover nat | Pal_Choose nat | Pal_Backdrop

fun palette_update :: "palette_msg \<Rightarrow> palette \<Rightarrow> palette" where
  "palette_update (Pal_Query v) s = palette_setQuery v s"
| "palette_update (Pal_Hover i) s = s\<lparr>pl_active := i\<rparr>"
| "palette_update (Pal_Choose i) s = s"
| "palette_update Pal_Backdrop s = s"

section \<open>Rendering\<close>

text \<open>The group headings: a heading is shown where the group differs from the previous option's.\<close>

fun headings :: "jstring \<Rightarrow> 'r palette_option list \<Rightarrow> jstring list" where
  "headings lastGroup [] = []"
| "headings lastGroup (p # ps) = (if po_group p \<noteq> lastGroup then po_group p else []) # headings (po_group p) ps"

definition palette_row :: "jstring \<Rightarrow> nat \<Rightarrow> nat \<Rightarrow> jstring \<Rightarrow> 'r palette_option \<Rightarrow> palette_msg node" where
  [view_defs]: "palette_row listId cur index heading p =
     El T_li [A ''key'' (po_group p @ ''-'' @ pi_id p), A ''role'' ''presentation'']
       (render_if (heading \<noteq> []) [El T_div [Cls ''palette-group'', A ''role'' ''presentation''] [Txt heading]]
        @ [El T_div [A ''id'' (listId @ ''-'' @ show_nat index), A ''role'' ''option'', AB ''aria-selected'' (index = cur),
               Cls ''palette-option'', OnMouseMove (Pal_Hover index), OnClick (Pal_Choose index)]
             ([El T_span [Cls ''palette-icon'', A ''aria-hidden'' ''true''] [Icon (fst (pi_icon p)) (snd (pi_icon p))],
               El T_span [Cls ''palette-text'']
                 ([El T_span [] [Txt (pi_label p)]]
                  @ render_if (nullish (pi_hint p) [] \<noteq> []) [El T_small [] [Txt (nullish (pi_hint p) [])]])]
              @ render_if (index = cur) [Icon ''CornerDownLeft'' 14])])"

definition palette_input :: "(jstring \<Rightarrow> jstring) \<Rightarrow> jstring \<Rightarrow> nat \<Rightarrow> palette \<Rightarrow> palette_msg node" where
  [view_defs]: "palette_input t listId n s =
     El T_div [Cls ''palette-input'']
       ([Icon ''Search'' 18,
         El T_input ([A ''role'' ''combobox'', A ''aria-expanded'' ''true'', A ''aria-controls'' listId, A ''aria-autocomplete'' ''list'']
            @ attr_if (0 < n) (A ''aria-activedescendant'' (listId @ ''-'' @ show_nat (current n s)))
            @ [A ''aria-label'' (t ''palette.placeholder''), A ''placeholder'' (t ''palette.placeholder''),
               A ''value'' (pl_query s), OnChange Pal_Query, AB ''spellCheck'' False, A ''autoComplete'' ''off'']) []]
        @ render_if (searching s) [Icon ''Loader2'' 16]
        @ [El T_kbd [] [Txt ''Esc'']])"

text \<open>The dialog; \<open>up\<close> and \<open>down\<close> are the two arrow glyphs of the footer.\<close>

definition palette_view ::
  "(jstring \<Rightarrow> jstring) \<Rightarrow> jstring \<Rightarrow> jstring \<Rightarrow> jstring \<Rightarrow> 'r palette_option list \<Rightarrow> palette \<Rightarrow> palette_msg node list" where
  [view_defs]: "palette_view t listId up down opts s =
     (let cur = current (length opts) s in
      [El T_div [Cls ''palette-backdrop'', OnClick Pal_Backdrop]
        [El T_div [Cls ''palette'', A ''role'' ''dialog'', A ''aria-modal'' ''true'', A ''aria-label'' (t ''palette.title'')]
          ([palette_input t listId (length opts) s,
            El T_ul [Cls ''palette-list'', A ''id'' listId, A ''role'' ''listbox'', A ''aria-label'' (t ''palette.results'')]
              (map (\<lambda>(i, h, p). palette_row listId cur i h p) (enumerate 0 (zip (headings [] opts) opts)))]
           @ render_if (opts = [] \<and> \<not> searching s) [El T_p [Cls ''palette-empty'', A ''role'' ''status''] [Txt (t ''palette.no_results'')]]
           @ [El T_p [Cls ''palette-footer'', A ''aria-hidden'' ''true'']
               [El T_span [] [El T_kbd [] [Txt up], El T_kbd [] [Txt down], Txt '' '', Txt (t ''palette.navigate'')],
                El T_span [] [El T_kbd [] [Txt ''Enter''], Txt '' '', Txt (t ''palette.open'')],
                El T_span [] [El T_kbd [] [Txt ''Ctrl''], Txt ''+'', El T_kbd [] [Txt ''K''], Txt '' '', Txt (t ''palette.toggle'')]]])]])"

definition CommandPalette ::
  "bool \<Rightarrow> (jstring \<Rightarrow> jstring) \<Rightarrow> jstring \<Rightarrow> jstring \<Rightarrow> jstring \<Rightarrow> 'r palette_option list \<Rightarrow> palette \<Rightarrow> palette_msg node list" where
  [view_defs]: "CommandPalette opened t listId up down opts s = (if \<not> opened then [] else palette_view t listId up down opts s)"

section \<open>The highlighted option\<close>

lemma current_less: "0 < n \<Longrightarrow> current n s < n"
  by (auto simp: current_def)

lemma current_0 [simp]: "current 0 s = 0"
  by (simp add: current_def)

lemma current_active: "pl_active s < n \<Longrightarrow> current n s = pl_active s"
  by (auto simp: current_def)

lemma key_active_less:
  assumes "opts \<noteq> []" "k \<in> {ArrowDown, ArrowUp, Home, End}"
  shows "pl_active (fst (onKeyDown opts k s)) < length opts"
proof -
  have n: "0 < length opts" "max (length opts) 1 = length opts" using assms(1) by (cases opts; simp)+
  have "(int c - 1 + int (length opts)) mod int (length opts) < int (length opts)" for c
    using n by simp
  moreover have "0 \<le> (int c - 1 + int (length opts)) mod int (length opts)" for c
    using n by simp
  ultimately have "nat ((int c - 1 + int (length opts)) mod int (length opts)) < length opts" for c
    by (metis nat_less_iff)
  then show ?thesis using assms(2) n by auto
qed

lemma current_down:
  assumes "opts \<noteq> []"
  shows "current (length opts) (fst (onKeyDown opts ArrowDown s)) = (current (length opts) s + 1) mod length opts"
proof -
  have "max (length opts) 1 = length opts" using assms by (cases opts) auto
  then show ?thesis using key_active_less [OF assms, of ArrowDown s] by (simp add: current_active)
qed

lemma current_up:
  assumes "opts \<noteq> []"
  shows "current (length opts) (fst (onKeyDown opts ArrowUp s)) =
    nat ((int (current (length opts) s) - 1 + int (length opts)) mod int (length opts))"
proof -
  have "max (length opts) 1 = length opts" using assms by (cases opts) auto
  then show ?thesis using key_active_less [OF assms, of ArrowUp s] by (simp add: current_active)
qed

lemma arrow_index:
  assumes "0 < n" "c < n"
  shows "nat ((int ((c + 1) mod n) - 1 + int n) mod int n) = c"
proof -
  have "(int ((c + 1) mod n) - 1 + int n) mod int n = (int c + 1 - 1 + int n) mod int n"
    by (simp add: zmod_int mod_simps)
  also have "\<dots> = int c" using assms by simp
  finally show ?thesis by simp
qed

lemma arrow_index':
  assumes "0 < n" "c < n"
  shows "(nat ((int c - 1 + int n) mod int n) + 1) mod n = c"
proof -
  have nn: "0 \<le> (int c - 1 + int n) mod int n" using assms by simp
  have "int ((nat ((int c - 1 + int n) mod int n) + 1) mod n) = ((int c - 1 + int n) mod int n + 1) mod int n"
    using nn by (simp add: zmod_int add.commute)
  also have "\<dots> = (int c - 1 + int n + 1) mod int n" by (simp add: mod_simps)
  also have "\<dots> = int c" using assms by simp
  finally show ?thesis by simp
qed

lemma local_options_iff:
  "p \<in> set (local_options q grp items) \<longleftrightarrow>
     (\<exists>i \<in> set items. p = palette_item.extend i \<lparr>po_group = grp\<rparr> \<and> (q = [] \<or> palette_matches q [Some (pi_label i), pi_keywords i]))"
  by (auto simp: local_options_def)

end
