(* ===== verification/Snapshot.thy ===== *)
theory Snapshot
  imports Api_Resources Components Ui
begin

text \<open>
  The two polling components: \<open>useSnapshot.ts\<close> and \<open>OnboardingChecklist.tsx\<close>. Each
  runs an effect that polls, re-arms a timer when a poll settles, and aborts on clean-up. A poll
  in flight is the flag of its abort controller.
\<close>

section \<open>The polling contract\<close>

text \<open>
  Exactly one of two things is true of a mounted poller at any moment: one live poll is in flight,
  or the timer that starts the next one is armed. So polling neither stops nor doubles.
\<close>

definition live_polls :: "bool list \<Rightarrow> nat" where
  "live_polls ps = length (filter (\<lambda>aborted. \<not> aborted) ps)"

definition one_poll :: "bool list \<Rightarrow> bool \<Rightarrow> bool" where
  "one_poll ps timer \<longleftrightarrow> live_polls ps = (if timer then 0 else 1)"

definition abort_all :: "bool list \<Rightarrow> bool list" where
  "abort_all ps = map (\<lambda>_. True) ps"

lemma live_polls_abort [simp]: "live_polls (abort_all ps) = 0"
  by (simp add: live_polls_def abort_all_def)

lemma live_polls_append [simp]: "live_polls (ps @ qs) = live_polls ps + live_polls qs"
  by (simp add: live_polls_def)

lemma live_polls_simps [simp]: "live_polls [] = 0" "live_polls (a # ps) = (if a then 0 else 1) + live_polls ps"
  by (simp_all add: live_polls_def)

lemma live_polls_remove:
  "i < length ps \<Longrightarrow> live_polls ps = (if ps ! i then 0 else 1) + live_polls (remove_nth i ps)"
  by (subst id_take_nth_drop [of i ps]) (auto simp: remove_nth_def)

locale poller =
  fixes polls :: "'s \<Rightarrow> bool list" and timer :: "'s \<Rightarrow> bool"
    and restart :: "'s \<Rightarrow> 's" and tick :: "'s \<Rightarrow> 's" and settled :: "nat \<Rightarrow> 'r \<Rightarrow> 's \<Rightarrow> 's"
  assumes restart_polls: "polls (restart s) = abort_all (polls s) @ [False]" "\<not> timer (restart s)"
    and tick_polls: "polls (tick s) = polls s @ [False]" "\<not> timer (tick s)"
    and settled_polls: "i < length (polls s) \<Longrightarrow> polls (settled i r s) = remove_nth i (polls s)"
    and settled_timer: "i < length (polls s) \<Longrightarrow> timer (settled i r s) = (timer s \<or> \<not> polls s ! i)"
begin

lemma restart_one: "one_poll (polls (restart s)) (timer (restart s))"
  by (simp add: one_poll_def restart_polls)

lemma tick_one: "one_poll (polls s) (timer s) \<Longrightarrow> timer s \<Longrightarrow> one_poll (polls (tick s)) (timer (tick s))"
  by (simp add: one_poll_def tick_polls)

lemma settled_one:
  "one_poll (polls s) (timer s) \<Longrightarrow> i < length (polls s) \<Longrightarrow> one_poll (polls (settled i r s)) (timer (settled i r s))"
  using live_polls_remove [of i "polls s"]
  by (auto simp: one_poll_def settled_polls settled_timer split: if_splits)

end

section \<open>useSnapshot\<close>

record snap =
  sp_data :: "snapshot option"
  sp_error :: jstring
  sp_revision :: nat
  sp_history :: "rat list"
  sp_polls :: "bool list"
  sp_timer :: bool

text \<open>\<open>v.slice(-29)\<close>: at most the last 29 elements.\<close>

definition slice_last :: "nat \<Rightarrow> 'a list \<Rightarrow> 'a list" where
  "slice_last n xs = drop (length xs - n) xs"

definition snap_initial :: snap where
  "snap_initial = \<lparr>sp_data = None, sp_error = [], sp_revision = 0, sp_history = [], sp_polls = [], sp_timer = False\<rparr>"

text \<open>
  Clean-up of the previous effect (abort, clear the timer), then the new effect's first poll.
  The effect runs at mount and whenever the revision or the translation function changes.
\<close>

definition snap_effect :: "snap \<Rightarrow> snap" where
  "snap_effect s = s\<lparr>sp_polls := abort_all (sp_polls s) @ [False], sp_timer := False\<rparr>"

definition snap_refresh :: "snap \<Rightarrow> snap" where
  "snap_refresh s = snap_effect (s\<lparr>sp_revision := sp_revision s + 1\<rparr>)"

definition snap_tick :: "snap \<Rightarrow> snap" where
  "snap_tick s = s\<lparr>sp_timer := False, sp_polls := sp_polls s @ [False]\<rparr>"

definition snap_settled :: "(jstring \<Rightarrow> jstring) \<Rightarrow> nat \<Rightarrow> snapshot result \<Rightarrow> snap \<Rightarrow> snap" where
  "snap_settled t i res s =
     (let aborted = sp_polls s ! i; s0 = s\<lparr>sp_polls := remove_nth i (sp_polls s)\<rparr> in
      if aborted then s0
      else (case res of
          Inr next_data \<Rightarrow> s0\<lparr>sp_data := Some next_data, sp_error := [],
             sp_history := slice_last 29 (sp_history s0) @ [sx_queries_per_second (sn_stats next_data)]\<rparr>
        | Inl e \<Rightarrow> s0\<lparr>sp_error := error_text e (t ''app.error.reach_server'')\<rparr>)\<lparr>sp_timer := True\<rparr>)"

definition snap_unmount :: "snap \<Rightarrow> snap" where
  "snap_unmount s = s\<lparr>sp_polls := abort_all (sp_polls s), sp_timer := False\<rparr>"

datatype snap_event = Snap_Refresh | Snap_Language | Snap_Tick | Snap_Settled nat "snapshot result"

fun snap_step :: "(jstring \<Rightarrow> jstring) \<Rightarrow> snap_event \<Rightarrow> snap \<Rightarrow> snap" where
  "snap_step t Snap_Refresh s = snap_refresh s"
| "snap_step t Snap_Language s = snap_effect s"
| "snap_step t Snap_Tick s = (if sp_timer s then snap_tick s else s)"
| "snap_step t (Snap_Settled i r) s = (if i < length (sp_polls s) then snap_settled t i r s else s)"

definition snap_run :: "(jstring \<Rightarrow> jstring) \<Rightarrow> snap_event list \<Rightarrow> snap" where
  "snap_run t es = fold (snap_step t) es (snap_effect snap_initial)"

text \<open>The rates the server reported to polls that were not aborted, in order of arrival.\<close>

fun observed :: "(jstring \<Rightarrow> jstring) \<Rightarrow> snap_event list \<Rightarrow> snap \<Rightarrow> rat list" where
  "observed t [] s = []"
| "observed t (e # es) s =
     (case e of Snap_Settled i (Inr x) \<Rightarrow>
          if i < length (sp_polls s) \<and> \<not> sp_polls s ! i then [sx_queries_per_second (sn_stats x)] else []
      | _ \<Rightarrow> []) @ observed t es (snap_step t e s)"

section \<open>OnboardingChecklist\<close>

record onboarding_status =
  os_first_run :: bool
  os_user_count :: int
  os_config_ready :: bool

record checklist_item =
  it_id :: jstring
  it_title :: jstring
  it_description :: jstring
  it_completed :: bool

definition DISMISS_KEY :: jstring where
  "DISMISS_KEY = ''velora_onboarding_dismissed''"

text \<open>Local storage: absent, throwing, or the stored value of the key.\<close>

datatype storage = No_Storage | Broken_Storage | Storage "jstring option"

definition readDismissed :: "storage \<Rightarrow> bool" where
  "readDismissed st = (case st of Storage v \<Rightarrow> v = Some ''true'' | _ \<Rightarrow> False)"

record onboarding =
  ob_status :: "onboarding_status option"
  ob_snapshot :: "snapshot option"
  ob_dismissed :: bool
  ob_storage :: storage
  ob_polls :: "bool list"
  ob_timer :: bool

definition onboarding_initial :: "storage \<Rightarrow> onboarding" where
  "onboarding_initial st = \<lparr>ob_status = None, ob_snapshot = None, ob_dismissed = readDismissed st,
     ob_storage = st, ob_polls = [], ob_timer = False\<rparr>"

definition onboarding_effect :: "onboarding \<Rightarrow> onboarding" where
  "onboarding_effect s = s\<lparr>ob_polls := abort_all (ob_polls s) @ [False], ob_timer := False\<rparr>"

definition onboarding_tick :: "onboarding \<Rightarrow> onboarding" where
  "onboarding_tick s = s\<lparr>ob_timer := False, ob_polls := ob_polls s @ [False]\<rparr>"

text \<open>The status may be undefined: the response is not checked before \<open>d.data\<close> is read.\<close>

definition onboarding_settled ::
  "nat \<Rightarrow> (onboarding_status option \<times> snapshot) result \<Rightarrow> onboarding \<Rightarrow> onboarding" where
  "onboarding_settled i res s =
     (let aborted = ob_polls s ! i; s0 = s\<lparr>ob_polls := remove_nth i (ob_polls s)\<rparr> in
      if aborted then s0
      else (case res of
          Inr (st, sn) \<Rightarrow> s0\<lparr>ob_status := st, ob_snapshot := Some sn\<rparr>
        | Inl e \<Rightarrow> s0)\<lparr>ob_timer := True\<rparr>)"

text \<open>A storage that throws leaves the dismissal to this session.\<close>

definition handleDismiss :: "onboarding \<Rightarrow> onboarding" where
  "handleDismiss s = s\<lparr>ob_storage := (case ob_storage s of Storage v \<Rightarrow> Storage (Some ''true'') | x \<Rightarrow> x),
     ob_dismissed := True\<rparr>"

definition checklist_items :: "(jstring \<Rightarrow> jstring) \<Rightarrow> onboarding_status \<Rightarrow> snapshot \<Rightarrow> checklist_item list" where
  "checklist_items t st sn =
     [\<lparr>it_id = ''credentials'', it_title = t ''onboarding.change_credentials'',
       it_description = t ''onboarding.change_credentials_text'', it_completed = (1 < os_user_count st)\<rparr>,
      \<lparr>it_id = ''dns_config'', it_title = t ''onboarding.review_dns'',
       it_description = t ''onboarding.review_dns_text'', it_completed = (dc_upstreams (cf_dns (sn_config sn)) \<noteq> [])\<rparr>,
      \<lparr>it_id = ''client_restriction'', it_title = t ''onboarding.restrict_clients'',
       it_description = t ''onboarding.restrict_clients_text'',
       it_completed = (dc_allowed_clients (cf_dns (sn_config sn)) \<noteq> [])\<rparr>,
      \<lparr>it_id = ''database'', it_title = t ''onboarding.verify_db'',
       it_description = t ''onboarding.verify_db_text'', it_completed = True\<rparr>,
      \<lparr>it_id = ''updates'', it_title = t ''onboarding.update_policy'',
       it_description = t ''onboarding.update_policy_text'', it_completed = False\<rparr>]"

definition completed_count :: "checklist_item list \<Rightarrow> nat" where
  "completed_count items = length (filter it_completed items)"

datatype onboarding_msg = Dismiss

definition checklist_row :: "checklist_item \<Rightarrow> onboarding_msg node" where
  [view_defs]: "checklist_row item =
     El T_li (A ''key'' (it_id item) # attr_if (it_completed item) (Cls ''done''))
       [if it_completed item then Icon ''CheckCircle2'' 18 else Icon ''Circle'' 18,
        El T_div [] [El T_strong [] [Txt (it_title item)], El T_p [] [Txt (it_description item)]]]"

definition onboarding_view ::
  "(jstring \<Rightarrow> jstring) \<Rightarrow> (rat \<Rightarrow> jstring) \<Rightarrow> onboarding \<Rightarrow> onboarding_msg node list" where
  [view_defs]: "onboarding_view t pct s = (case (ob_status s, ob_snapshot s) of
      (Some st, Some sn) \<Rightarrow>
        if \<not> os_first_run st \<or> ob_dismissed s then [] else
        (let items = checklist_items t st sn; n = completed_count items in
         [El T_section [Cls ''panel onboarding'', A ''aria-labelledby'' ''onboarding-title'']
            [El T_div [Cls ''panel-heading'']
               [El T_div [] [El T_h2 [A ''id'' ''onboarding-title''] [Txt (t ''onboarding.welcome'')],
                             El T_p [] [Txt (t ''onboarding.complete_steps'')]],
                El T_div [Cls ''button-group'']
                  [El T_span [Cls ''progress-inline'']
                     [El T_span [Cls ''progress'', A ''role'' ''progressbar'', AN ''aria-valuemin'' 0,
                          AN ''aria-valuemax'' (int (length items)), AN ''aria-valuenow'' (int n),
                          A ''aria-labelledby'' ''onboarding-title'']
                        [El T_span [A ''style.width'' (pct (fl (fl (of_nat n / of_nat (length items)) * 100)) @ ''%'')] []],
                      Txt (show_nat n), Txt ''/'', Txt (show_nat (length items))],
                   El T_button [Cls ''button small'', OnClick Dismiss] [Txt (t ''onboarding.dismiss'')]]],
             El T_ul [Cls ''checklist''] (map checklist_row items)]])
    | _ \<Rightarrow> [])"

section \<open>Both components keep the contract\<close>

interpretation snap: poller sp_polls sp_timer snap_effect snap_tick "snap_settled t" for t
  by unfold_locales
    (auto simp: snap_effect_def snap_tick_def snap_settled_def Let_def split: sum.splits)

interpretation onb: poller ob_polls ob_timer onboarding_effect onboarding_tick onboarding_settled
  by unfold_locales
    (auto simp: onboarding_effect_def onboarding_tick_def onboarding_settled_def Let_def split: sum.splits prod.splits)

lemma snap_step_one_poll:
  "one_poll (sp_polls s) (sp_timer s) \<Longrightarrow> one_poll (sp_polls (snap_step t e s)) (sp_timer (snap_step t e s))"
  by (cases e)
    (auto simp: snap_refresh_def intro: snap.restart_one snap.tick_one snap.settled_one)

lemma fold_snap_one_poll:
  "one_poll (sp_polls s) (sp_timer s) \<Longrightarrow>
     one_poll (sp_polls (fold (snap_step t) es s)) (sp_timer (fold (snap_step t) es s))"
  by (induction es arbitrary: s) (simp_all add: snap_step_one_poll)

section \<open>The history is a window of the last thirty samples\<close>

lemma slice_last_snoc: "slice_last (Suc n) (xs @ [x]) = slice_last n xs @ [x]"
  by (simp add: slice_last_def Suc_diff_le)

lemma slice_last_slice: "m \<le> n \<Longrightarrow> slice_last m (slice_last n xs) = slice_last m xs"
  by (cases "n \<le> length xs") (simp_all add: slice_last_def)

lemma snap_step_history:
  "sp_history s = slice_last 30 ys \<Longrightarrow>
     sp_history (snap_step t e s) = slice_last 30 (ys @ observed t [e] s)"
  by (cases e) (auto simp: snap_refresh_def snap_effect_def snap_tick_def snap_settled_def Let_def
      slice_last_slice slice_last_snoc [of 29, simplified] split: sum.splits)

lemma observed_Cons: "observed t (e # es) s = observed t [e] s @ observed t es (snap_step t e s)"
  by simp

lemma fold_snap_history:
  "sp_history s = slice_last 30 ys \<Longrightarrow>
     sp_history (fold (snap_step t) es s) = slice_last 30 (ys @ observed t es s)"
proof (induction es arbitrary: s ys)
  case (Cons e es)
  have "sp_history (snap_step t e s) = slice_last 30 (ys @ observed t [e] s)"
    using Cons.prems by (rule snap_step_history)
  then have "sp_history (fold (snap_step t) es (snap_step t e s)) =
      slice_last 30 ((ys @ observed t [e] s) @ observed t es (snap_step t e s))"
    by (rule Cons.IH)
  then show ?case by (simp only: fold_simps observed_Cons [of t e es s] append_assoc o_apply)
qed simp

end
