(* ===== verification/I18n.thy ===== *)
theory I18n
  imports Api_Resources
begin

text \<open>
  Language and theme: \<open>i18n/index.ts\<close>, \<open>i18n-context.ts\<close>, \<open>theme.ts\<close>,
  \<open>theme-context.ts\<close> and \<open>LanguageProvider.tsx\<close>. The ten translation tables are the
  argument \<open>dictionaries\<close> of \<open>translate\<close>; the browser (local storage, the media query,
  the document) is a host record whose capabilities the sources test before use.
\<close>

section \<open>Languages\<close>

datatype language = En | De | Es | PtBR | Nl | Pl | Cs | Sv | Ja | Ko

definition SUPPORTED_LANGUAGES :: "language list" where
  "SUPPORTED_LANGUAGES = [En, De, Es, PtBR, Nl, Pl, Cs, Sv, Ja, Ko]"

definition DEFAULT_LANGUAGE :: language where
  "DEFAULT_LANGUAGE = En"

fun language_code :: "language \<Rightarrow> jstring" where
  "language_code En = ''en''"
| "language_code De = ''de''"
| "language_code Es = ''es''"
| "language_code PtBR = ''pt-BR''"
| "language_code Nl = ''nl''"
| "language_code Pl = ''pl''"
| "language_code Cs = ''cs''"
| "language_code Sv = ''sv''"
| "language_code Ja = ''ja''"
| "language_code Ko = ''ko''"

type_synonym dictionary = "jstring \<rightharpoonup> jstring"

text \<open>\<open>dict[key] ?? en[key] ?? key\<close>\<close>

definition translate :: "(language \<Rightarrow> dictionary) \<Rightarrow> language \<Rightarrow> jstring \<Rightarrow> jstring" where
  "translate dictionaries language key = nullish (dictionaries language key) (nullish (dictionaries En key) key)"

definition makeT :: "(language \<Rightarrow> dictionary) \<Rightarrow> language \<Rightarrow> jstring \<Rightarrow> jstring" where
  "makeT dictionaries language = (\<lambda>key. translate dictionaries language key)"

text \<open>The native names as UTF-16 code units, most of them outside Latin-1.\<close>

definition units :: "jstring \<Rightarrow> nat list" where
  "units s = map of_char s"

definition languageName :: "language \<Rightarrow> nat list" where
  "languageName l = (case l of
      De \<Rightarrow> units ''Deutsch''
    | Es \<Rightarrow> units ''Espa'' @ [0xF1] @ units ''ol''
    | PtBR \<Rightarrow> units ''Portugu'' @ [0xEA] @ units ''s (Brasil)''
    | Nl \<Rightarrow> units ''Nederlands''
    | Pl \<Rightarrow> units ''Polski''
    | Cs \<Rightarrow> [0x10C] @ units ''e'' @ [0x161] @ units ''tina''
    | Sv \<Rightarrow> units ''Svenska''
    | Ja \<Rightarrow> [0x65E5, 0x672C, 0x8A9E]
    | Ko \<Rightarrow> [0xD55C, 0xAD6D, 0xC5B4]
    | _ \<Rightarrow> units ''English'')"

definition normalizeLanguage :: "jstring option \<Rightarrow> language" where
  "normalizeLanguage language = (case language of
      None \<Rightarrow> DEFAULT_LANGUAGE
    | Some c \<Rightarrow> (case find (\<lambda>l. language_code l = c) SUPPORTED_LANGUAGES of
        Some l \<Rightarrow> l | None \<Rightarrow> DEFAULT_LANGUAGE))"

section \<open>Themes\<close>

datatype theme = Light | Dark | Auto

definition SUPPORTED_THEMES :: "theme list" where
  "SUPPORTED_THEMES = [Light, Dark, Auto]"

definition DEFAULT_THEME :: theme where
  "DEFAULT_THEME = Auto"

fun theme_code :: "theme \<Rightarrow> jstring" where
  "theme_code Light = ''light''"
| "theme_code Dark = ''dark''"
| "theme_code Auto = ''auto''"

definition normalizeTheme :: "jstring option \<Rightarrow> theme" where
  "normalizeTheme thm = (case thm of
      None \<Rightarrow> DEFAULT_THEME
    | Some c \<Rightarrow> (case find (\<lambda>x. theme_code x = c) SUPPORTED_THEMES of
        Some x \<Rightarrow> x | None \<Rightarrow> DEFAULT_THEME))"

text \<open>What the browser offers, and the operating system's colour scheme.\<close>

record host =
  has_storage :: bool
  has_window :: bool
  has_matchMedia :: bool
  has_document :: bool
  prefers_dark :: bool

definition resolveTheme :: "host \<Rightarrow> theme \<Rightarrow> theme" where
  "resolveTheme h thm = (if thm = Auto
     then (if has_window h \<and> has_matchMedia h \<and> prefers_dark h then Dark else Light) else thm)"

fun themeLabel :: "theme \<Rightarrow> jstring" where
  "themeLabel Light = ''Light''"
| "themeLabel Dark = ''Dark''"
| "themeLabel Auto = ''Auto''"

section \<open>The provider\<close>

record provider =
  pv_language :: language
  pv_theme :: theme
  pv_stored_language :: "jstring option"
  pv_stored_theme :: "jstring option"
  pv_html_lang :: jstring
  pv_html_theme :: "theme option"
  pv_follow :: bool
  pv_loading :: bool
  pv_saves :: "preferences list"

text \<open>The two lazy state initialisers.\<close>

definition initial_language :: "host \<Rightarrow> jstring option \<Rightarrow> language" where
  "initial_language h stored = (if has_storage h then normalizeLanguage stored else DEFAULT_LANGUAGE)"

definition initial_theme :: "host \<Rightarrow> jstring option \<Rightarrow> theme" where
  "initial_theme h stored = (if has_storage h then normalizeTheme stored else DEFAULT_THEME)"

definition applyTheme :: "host \<Rightarrow> theme \<Rightarrow> provider \<Rightarrow> provider" where
  "applyTheme h thm s = (if has_document h then s\<lparr>pv_html_theme := Some (resolveTheme h thm)\<rparr> else s)"

definition language_effect :: "provider \<Rightarrow> provider" where
  "language_effect s = s\<lparr>pv_html_lang := language_code (pv_language s)\<rparr>"

text \<open>
  Running the theme effect: the previous run's clean-up has removed its listener; a new one is
  added only for \<open>auto\<close> and only where the browser has media queries.
\<close>

definition theme_effect :: "host \<Rightarrow> provider \<Rightarrow> provider" where
  "theme_effect h s = (applyTheme h (pv_theme s) s)\<lparr>pv_follow := (pv_theme s = Auto \<and> has_matchMedia h)\<rparr>"

text \<open>After a render, an effect runs when what it depends on has changed.\<close>

definition run_effects :: "host \<Rightarrow> provider \<Rightarrow> provider \<Rightarrow> provider" where
  "run_effects h old s =
     (let s1 = (if pv_language s \<noteq> pv_language old then language_effect s else s)
      in if pv_theme s \<noteq> pv_theme old then theme_effect h s1 else s1)"

definition provider_mount :: "host \<Rightarrow> jstring option \<Rightarrow> jstring option \<Rightarrow> provider" where
  "provider_mount h stored_language stored_theme = theme_effect h (language_effect
     \<lparr>pv_language = initial_language h stored_language, pv_theme = initial_theme h stored_theme,
      pv_stored_language = stored_language, pv_stored_theme = stored_theme,
      pv_html_lang = [], pv_html_theme = None, pv_follow = False, pv_loading = True, pv_saves = []\<rparr>)"

definition store_language :: "host \<Rightarrow> language \<Rightarrow> provider \<Rightarrow> provider" where
  "store_language h l s = (if has_storage h then s\<lparr>pv_stored_language := Some (language_code l)\<rparr> else s)"

definition store_theme :: "host \<Rightarrow> theme \<Rightarrow> provider \<Rightarrow> provider" where
  "store_theme h x s = (if has_storage h then s\<lparr>pv_stored_theme := Some (theme_code x)\<rparr> else s)"

definition preferences_loaded :: "host \<Rightarrow> preferences result \<Rightarrow> provider \<Rightarrow> provider" where
  "preferences_loaded h res s = (let s0 = s\<lparr>pv_loading := False\<rparr> in case res of
      Inl e \<Rightarrow> s0
    | Inr prefs \<Rightarrow>
        (let nextLanguage = normalizeLanguage (Some (pf_language prefs));
             nextTheme = normalizeTheme (Some (pf_theme prefs));
             s1 = s0\<lparr>pv_language := nextLanguage, pv_theme := nextTheme\<rparr>
         in run_effects h s0 (store_theme h nextTheme (store_language h nextLanguage s1))))"

definition current_preferences :: "provider \<Rightarrow> preferences" where
  "current_preferences s = \<lparr>pf_language = language_code (pv_language s), pf_theme = theme_code (pv_theme s)\<rparr>"

definition setLanguage :: "host \<Rightarrow> language \<Rightarrow> provider \<Rightarrow> provider" where
  "setLanguage h l s = (let s1 = store_language h l (s\<lparr>pv_language := l\<rparr>)
     in run_effects h s (s1\<lparr>pv_saves := pv_saves s1 @ [\<lparr>pf_language = language_code l, pf_theme = theme_code (pv_theme s1)\<rparr>]\<rparr>))"

definition setTheme :: "host \<Rightarrow> theme \<Rightarrow> provider \<Rightarrow> provider" where
  "setTheme h x s = (let s1 = store_theme h x (s\<lparr>pv_theme := x\<rparr>)
     in run_effects h s (s1\<lparr>pv_saves := pv_saves s1 @ [\<lparr>pf_language = language_code (pv_language s1), pf_theme = theme_code x\<rparr>]\<rparr>))"

text \<open>The media query's \<open>change\<close> event, heard only while the listener is registered.\<close>

definition os_theme_changed :: "host \<Rightarrow> provider \<Rightarrow> provider" where
  "os_theme_changed h s = (if pv_follow s then applyTheme h Auto s else s)"

datatype provider_event =
    Pref_Loaded "preferences result"
  | Set_Language language
  | Set_Theme theme
  | Os_Changed bool

fun provider_step :: "provider_event \<Rightarrow> host \<times> provider \<Rightarrow> host \<times> provider" where
  "provider_step (Pref_Loaded r) (h, s) = (h, preferences_loaded h r s)"
| "provider_step (Set_Language l) (h, s) = (h, setLanguage h l s)"
| "provider_step (Set_Theme x) (h, s) = (h, setTheme h x s)"
| "provider_step (Os_Changed dark) (h, s) =
     (let h' = h\<lparr>prefers_dark := dark\<rparr> in (h', os_theme_changed h' s))"

definition provider_run :: "provider_event list \<Rightarrow> host \<times> provider \<Rightarrow> host \<times> provider" where
  "provider_run es hs = fold provider_step es hs"

text \<open>
  What the provider promises of the document and of local storage: the page's language and colour
  scheme are the chosen ones, live for \<open>auto\<close>, and whatever was stored reloads as the state.
\<close>

definition provider_ok :: "host \<times> provider \<Rightarrow> bool" where
  "provider_ok hs \<longleftrightarrow> (case hs of (h, s) \<Rightarrow>
     pv_html_lang s = language_code (pv_language s) \<and>
     (has_document h \<longrightarrow> pv_html_theme s = Some (resolveTheme h (pv_theme s))) \<and>
     (pv_follow s \<longleftrightarrow> pv_theme s = Auto \<and> has_matchMedia h) \<and>
     initial_language h (pv_stored_language s) = (if has_storage h then pv_language s else DEFAULT_LANGUAGE) \<and>
     initial_theme h (pv_stored_theme s) = (if has_storage h then pv_theme s else DEFAULT_THEME))"

section \<open>Normalisation\<close>

lemma normalizeLanguage_code [simp]: "normalizeLanguage (Some (language_code l)) = l"
  by (cases l) (simp_all add: normalizeLanguage_def SUPPORTED_LANGUAGES_def)

lemma normalizeTheme_code [simp]: "normalizeTheme (Some (theme_code x)) = x"
  by (cases x) (simp_all add: normalizeTheme_def SUPPORTED_THEMES_def)

lemma language_code_inj: "language_code a = language_code b \<Longrightarrow> a = b"
  by (metis normalizeLanguage_code)

lemma languages_complete: "l \<in> set SUPPORTED_LANGUAGES"
  by (cases l) (simp_all add: SUPPORTED_LANGUAGES_def)

lemma normalizeLanguage_unknown:
  "(\<forall>l. language_code l \<noteq> c) \<Longrightarrow> normalizeLanguage (Some c) = DEFAULT_LANGUAGE"
  by (simp add: normalizeLanguage_def find_None_iff split: option.splits) (metis find_Some_iff)

section \<open>Every step keeps the promise\<close>

lemmas provider_defs = run_effects_def theme_effect_def language_effect_def applyTheme_def
  store_language_def store_theme_def initial_language_def initial_theme_def

lemma provider_ok_mount: "provider_ok (h, provider_mount h sl st)"
  by (simp add: provider_ok_def provider_mount_def provider_defs)

lemma provider_ok_effects:
  assumes "provider_ok (h, old)"
    and "pv_html_lang s = pv_html_lang old" and "pv_html_theme s = pv_html_theme old"
    and "pv_follow s = pv_follow old"
    and "has_storage h \<Longrightarrow> normalizeLanguage (pv_stored_language s) = pv_language s"
    and "has_storage h \<Longrightarrow> normalizeTheme (pv_stored_theme s) = pv_theme s"
  shows "provider_ok (h, run_effects h old s)"
  using assms by (auto simp: provider_ok_def provider_defs Let_def)

lemma provider_ok_stored:
  "provider_ok (h, s) \<Longrightarrow> has_storage h \<Longrightarrow>
     normalizeLanguage (pv_stored_language s) = pv_language s \<and> normalizeTheme (pv_stored_theme s) = pv_theme s"
  by (simp add: provider_ok_def provider_defs)

lemma preferences_loaded_ok: "provider_ok (h, s) \<Longrightarrow> provider_ok (h, preferences_loaded h r s)"
proof (cases r)
  case (Inl e)
  assume "provider_ok (h, s)"
  then show ?thesis using Inl by (simp add: preferences_loaded_def provider_ok_def)
next
  case (Inr p)
  assume "provider_ok (h, s)"
  then have "provider_ok (h, s\<lparr>pv_loading := False\<rparr>)" by (simp add: provider_ok_def)
  then show ?thesis using Inr
    by (simp add: preferences_loaded_def Let_def)
      (rule provider_ok_effects; simp add: store_language_def store_theme_def)
qed

lemma setLanguage_ok: "provider_ok (h, s) \<Longrightarrow> provider_ok (h, setLanguage h l s)"
  unfolding setLanguage_def Let_def
  by (rule provider_ok_effects) (auto simp: store_language_def dest: provider_ok_stored)

lemma setTheme_ok: "provider_ok (h, s) \<Longrightarrow> provider_ok (h, setTheme h x s)"
  unfolding setTheme_def Let_def
  by (rule provider_ok_effects) (auto simp: store_theme_def dest: provider_ok_stored)

text \<open>
  A change of the operating system's scheme is heard by the listener; without it the resolved
  theme does not depend on the scheme.
\<close>

lemma os_theme_changed_ok:
  assumes "provider_ok (h, s)"
  shows "provider_ok (h\<lparr>prefers_dark := d\<rparr>, os_theme_changed (h\<lparr>prefers_dark := d\<rparr>) s)"
  using assms by (auto simp: provider_ok_def os_theme_changed_def provider_defs resolveTheme_def)

lemma provider_step_ok: "provider_ok hs \<Longrightarrow> provider_ok (provider_step e hs)"
  by (cases hs; cases e)
    (simp_all add: preferences_loaded_ok setLanguage_ok setTheme_ok os_theme_changed_ok Let_def)

lemma provider_run_ok: "provider_ok hs \<Longrightarrow> provider_ok (provider_run es hs)"
  unfolding provider_run_def by (induction es arbitrary: hs) (simp_all add: provider_step_ok)

lemma run_effects_frame [simp]:
  "pv_language (run_effects h old s) = pv_language s" "pv_saves (run_effects h old s) = pv_saves s"
  by (auto simp: run_effects_def theme_effect_def language_effect_def applyTheme_def Let_def)

lemma setLanguage_saves:
  "pv_saves (setLanguage h l s) = pv_saves s @ [\<lparr>pf_language = language_code l, pf_theme = theme_code (pv_theme s)\<rparr>]"
  by (simp add: setLanguage_def store_language_def Let_def)

lemma preferences_loaded_frame:
  "pv_language (preferences_loaded h (Inr p) s) = normalizeLanguage (Some (pf_language p))"
  "pv_saves (preferences_loaded h r s) = pv_saves s"
  by (simp_all add: preferences_loaded_def store_language_def store_theme_def Let_def split: sum.split)

lemma provider_mount_saves [simp]: "pv_saves (provider_mount h sl st) = []"
  by (simp add: provider_mount_def theme_effect_def applyTheme_def language_effect_def)

end
