(* ===== verification/App_Shell.thy ===== *)
theory App_Shell
  imports Command_Palette Snapshot I18n
begin

text \<open>
  \<open>App.tsx\<close>: navigation, routing, what each role is offered, the command palette's pages and
  actions, the keyboard handling of the menus and the frame around the routed page. The routed
  page itself is an argument of the rendering; \<open>route_page\<close> is the element the router would
  mount, with the props that restrict it. Path matching is the router library's
  (\<open>rmatch\<close>); focus is tracked as the element it was moved to.
\<close>

section \<open>Navigation data\<close>

record nav_item =
  ni_to :: jstring
  ni_key :: jstring
  ni_icon :: "jstring \<times> int"
  ni_adminOnly :: bool

datatype nav_entry = NavItem nav_item | NavGroup jstring "nav_item list"

definition item :: "jstring \<Rightarrow> jstring \<Rightarrow> jstring \<Rightarrow> int \<Rightarrow> nav_item" where
  "item dest key icon px = \<lparr>ni_to = dest, ni_key = key, ni_icon = (icon, px), ni_adminOnly = False\<rparr>"

definition admin_item :: "jstring \<Rightarrow> jstring \<Rightarrow> jstring \<Rightarrow> int \<Rightarrow> nav_item" where
  "admin_item dest key icon px = \<lparr>ni_to = dest, ni_key = key, ni_icon = (icon, px), ni_adminOnly = True\<rparr>"

definition NAV :: "nav_entry list" where
  "NAV =
    [NavItem (item ''/'' ''overview'' ''LayoutDashboard'' 17),
     NavItem (item ''/queries'' ''queries'' ''ScrollText'' 17),
     NavItem (item ''/analytics'' ''analytics'' ''BarChart3'' 17),
     NavGroup ''app.nav.group_dns''
       [item ''/zones'' ''zones'' ''Globe2'' 16,
        item ''/blocklists'' ''blocklists'' ''ShieldBan'' 16,
        item ''/policies'' ''policies'' ''ShieldCheck'' 16,
        item ''/rewrites'' ''rewrites'' ''Replace'' 16,
        item ''/forwarding'' ''forwarding'' ''RouteIcon'' 16,
        item ''/cache'' ''cache'' ''Database'' 16],
     NavGroup ''app.nav.group_network''
       [item ''/clients'' ''clients'' ''MonitorSmartphone'' 16,
        item ''/dhcp'' ''dhcp'' ''Network'' 16,
        item ''/cluster'' ''cluster'' ''Server'' 16],
     NavGroup ''app.nav.group_system''
       [item ''/settings'' ''settings'' ''Settings2'' 16,
        item ''/updates'' ''updates'' ''Download'' 16,
        item ''/backup'' ''backup'' ''HardDrive'' 16,
        item ''/diagnostics'' ''diagnostics'' ''Stethoscope'' 16,
        item ''/events'' ''events'' ''Bell'' 16,
        admin_item ''/webhooks'' ''webhooks'' ''WebhookIcon'' 16,
        admin_item ''/audit'' ''audit'' ''ClipboardList'' 16]]"

definition GROUP_ICONS :: "(jstring \<times> jstring \<times> int) list" where
  "GROUP_ICONS = [(''app.nav.group_dns'', ''Globe2'', 17), (''app.nav.group_network'', ''Network'', 17),
     (''app.nav.group_system'', ''Settings2'', 17)]"

definition ROUTE_KEYS :: "(jstring \<times> jstring) list" where
  "ROUTE_KEYS =
    [(''/'', ''overview''), (''/events'', ''events''), (''/zones'', ''zones''), (''/queries'', ''queries''),
     (''/analytics'', ''analytics''), (''/blocklists'', ''blocklists''), (''/forwarding'', ''forwarding''),
     (''/rewrites'', ''rewrites''), (''/clients'', ''clients''), (''/policies'', ''policies''), (''/cache'', ''cache''),
     (''/settings'', ''settings''), (''/updates'', ''updates''), (''/backup'', ''backup''), (''/dhcp'', ''dhcp''),
     (''/cluster'', ''cluster''), (''/diagnostics'', ''diagnostics''), (''/audit'', ''audit''), (''/webhooks'', ''webhooks'')]"

definition SELF_REFRESHING :: "jstring list" where
  "SELF_REFRESHING = [''/zones'', ''/queries'', ''/blocklists'', ''/forwarding'', ''/rewrites'', ''/clients'',
     ''/policies'', ''/webhooks'', ''/analytics'', ''/updates'', ''/cluster'']"

section \<open>Roles\<close>

definition has_role :: "role \<Rightarrow> auth_user option \<Rightarrow> bool" where
  "has_role r user \<longleftrightarrow> map_option au_role user = Some r"

definition app_readOnly :: "auth_user option \<Rightarrow> bool" where
  "app_readOnly user \<longleftrightarrow> has_role Viewer user"

definition app_replica :: "snapshot option \<Rightarrow> bool" where
  "app_replica d \<longleftrightarrow> (case d of None \<Rightarrow> False | Some x \<Rightarrow> st_cluster_role (sn_status x) = Some Replica)"

definition visible_items :: "auth_user option \<Rightarrow> nav_item list \<Rightarrow> nav_item list" where
  "visible_items user items = filter (\<lambda>i. \<not> ni_adminOnly i \<or> has_role Admin user) items"

section \<open>The palette's pages and actions\<close>

datatype action = Navigate jstring | Choose_Theme theme | Sign_Out

definition palette_page :: "(jstring \<Rightarrow> jstring) \<Rightarrow> nav_item \<Rightarrow> jstring \<Rightarrow> action palette_item" where
  "palette_page t i grp = \<lparr>pi_id = ''page-'' @ ni_to i, pi_label = t (''app.nav.'' @ ni_key i),
     pi_hint = (if grp = [] then None else Some grp), pi_icon = ni_icon i,
     pi_keywords = Some (t (''app.title.'' @ ni_key i) @ '' '' @ grp), pi_run = Navigate (ni_to i)\<rparr>"

fun entry_pages :: "(jstring \<Rightarrow> jstring) \<Rightarrow> auth_user option \<Rightarrow> nav_entry \<Rightarrow> (nav_item \<times> jstring) list" where
  "entry_pages t user (NavItem i) = [(i, [])]"
| "entry_pages t user (NavGroup label items) = map (\<lambda>i. (i, t label)) (visible_items user items)"

definition palettePages :: "(jstring \<Rightarrow> jstring) \<Rightarrow> auth_user option \<Rightarrow> action palette_item list" where
  "palettePages t user = map (\<lambda>(i, grp). palette_page t i grp) (concat (map (entry_pages t user) NAV))"

definition simple_action :: "jstring \<Rightarrow> jstring \<Rightarrow> jstring \<Rightarrow> action \<Rightarrow> action palette_item" where
  "simple_action ident label icon run = \<lparr>pi_id = ident, pi_label = label, pi_hint = None, pi_icon = (icon, 16),
     pi_keywords = None, pi_run = run\<rparr>"

definition paletteActions :: "(jstring \<Rightarrow> jstring) \<Rightarrow> auth_user option \<Rightarrow> bool \<Rightarrow> action palette_item list" where
  "paletteActions t user dark =
     [simple_action ''theme'' (if dark then t ''app.theme_to_light'' else t ''app.theme_to_dark'')
        (if dark then ''Sun'' else ''Moon'') (Choose_Theme (if dark then Light else Dark))]
     @ (if \<not> app_readOnly user \<and> user \<noteq> None
        then [simple_action ''add-client'' (t ''palette.add_client'') ''MonitorSmartphone'' (Navigate ''/clients?new=1'')] else [])
     @ (if has_role Admin user then [simple_action ''backup'' (t ''palette.create_backup'') ''HardDrive'' (Navigate ''/backup'')] else [])
     @ [simple_action ''updates'' (t ''updates.check'') ''Download'' (Navigate ''/updates'')]
     @ (if user \<noteq> None then [simple_action ''sign-out'' (t ''app.sign_out'') ''LogOut'' Sign_Out] else [])"

section \<open>Routes\<close>

datatype route_page =
    R_Dashboard bool bool
  | R_Events
  | R_Cache bool
  | R_Zones bool
  | R_Queries bool
  | R_Blocklists bool
  | R_Policies bool
  | R_Clients bool bool
  | R_Rewrites bool
  | R_Forwarding bool
  | R_Settings
  | R_Updates bool
  | R_Backup bool bool
  | R_DHCP bool
  | R_Cluster bool
  | R_Diagnostics
  | R_Audit
  | R_Analytics bool
  | R_Webhooks
  | R_NotFound

definition query_logging :: "snapshot \<Rightarrow> bool" where
  "query_logging d = nullish (map_option ql_enabled (cf_query_log (sn_config d))) False"

definition routes :: "auth_user option \<Rightarrow> snapshot \<Rightarrow> (jstring \<times> route_page) list" where
  "routes user d = (let ro = app_readOnly user; admin = has_role Admin user in
    [(''/'', R_Dashboard (\<not> admin) (query_logging d)),
     (''/events'', R_Events),
     (''/cache'', R_Cache ro),
     (''/zones'', R_Zones (ro \<or> app_replica (Some d))),
     (''/queries'', R_Queries (query_logging d)),
     (''/blocklists'', R_Blocklists ro),
     (''/policies'', R_Policies ro),
     (''/clients'', R_Clients ro (query_logging d)),
     (''/rewrites'', R_Rewrites ro),
     (''/forwarding'', R_Forwarding ro),
     (''/settings'', R_Settings),
     (''/updates'', R_Updates ro),
     (''/backup'', R_Backup ro admin),
     (''/dhcp'', R_DHCP ro),
     (''/cluster'', R_Cluster admin),
     (''/diagnostics'', R_Diagnostics),
     (''/audit'', R_Audit),
     (''/analytics'', R_Analytics (query_logging d)),
     (''/webhooks'', R_Webhooks)])"

definition route :: "(jstring \<Rightarrow> jstring \<Rightarrow> bool) \<Rightarrow> auth_user option \<Rightarrow> snapshot \<Rightarrow> jstring \<Rightarrow> route_page" where
  "route rmatch user d pathname =
     (case find (\<lambda>(p, el). rmatch p pathname) (routes user d) of Some (p, el) \<Rightarrow> el | None \<Rightarrow> R_NotFound)"

definition routeKey :: "jstring \<Rightarrow> jstring" where
  "routeKey pathname = nullish (map_of ROUTE_KEYS pathname) ''overview''"

section \<open>State and handlers\<close>

datatype focus =
    F_Elsewhere
  | F_Heading
  | F_MenuButton
  | F_NavElement nat
  | F_Toggle jstring
  | F_Link jstring nat

record app =
  ap_snap :: snap
  ap_paletteOpen :: bool
  ap_palette :: palette
  ap_unreadEvents :: int
  ap_menuOpen :: bool
  ap_openGroup :: "jstring option"
  ap_pathname :: jstring
  ap_firstRoute :: bool
  ap_focus :: focus

text \<open>
  The effect on the path: the first route keeps the focus where it is, every later one moves it
  to the page heading.
\<close>

definition heading_effect :: "app \<Rightarrow> app" where
  "heading_effect s = (if ap_firstRoute s then s\<lparr>ap_firstRoute := False\<rparr> else s\<lparr>ap_focus := F_Heading\<rparr>)"

definition app_mount :: "jstring \<Rightarrow> app" where
  "app_mount path = heading_effect \<lparr>ap_snap = snap_effect snap_initial, ap_paletteOpen = False, ap_palette = palette_initial,
     ap_unreadEvents = 0, ap_menuOpen = False, ap_openGroup = None, ap_pathname = path, ap_firstRoute = True,
     ap_focus = F_Elsewhere\<rparr>"

definition events_settled :: "system_event_page result \<Rightarrow> app \<Rightarrow> app" where
  "events_settled res s = (case res of Inr p \<Rightarrow> s\<lparr>ap_unreadEvents := ep_unread_count p\<rparr> | Inl e \<Rightarrow> s\<lparr>ap_unreadEvents := 0\<rparr>)"

definition app_navigate :: "jstring \<Rightarrow> app \<Rightarrow> app" where
  "app_navigate path s = (if path = ap_pathname s then s else heading_effect (s\<lparr>ap_pathname := path\<rparr>))"

text \<open>The window listeners of an open dropdown.\<close>

definition group_key :: "key \<Rightarrow> app \<Rightarrow> app" where
  "group_key k s = (if ap_openGroup s \<noteq> None \<and> k = Escape then s\<lparr>ap_openGroup := None\<rparr> else s)"

definition group_pointer :: "bool \<Rightarrow> app \<Rightarrow> app" where
  "group_pointer inside_nav s = (if ap_openGroup s \<noteq> None \<and> \<not> inside_nav then s\<lparr>ap_openGroup := None\<rparr> else s)"

text \<open>
  The focus trap of the mobile menu over \<open>n\<close> focusable elements (the menu button first):
  the element focused instead of the browser's default, if any. \<open>idx\<close> is \<open>indexOf\<close>, so
  \<open>-1\<close> where the focus is outside.
\<close>

definition trap_tab :: "bool \<Rightarrow> nat \<Rightarrow> int \<Rightarrow> nat option" where
  "trap_tab shift n idx = (if n = 0 then None
     else if shift \<and> idx \<le> 0 then Some (n - 1)
     else if \<not> shift \<and> idx = int n - 1 then Some 0 else None)"

definition focus_of_index :: "nat \<Rightarrow> focus" where
  "focus_of_index i = (if i = 0 then F_MenuButton else F_NavElement (i - 1))"

definition menu_key :: "key \<Rightarrow> bool \<Rightarrow> nat \<Rightarrow> int \<Rightarrow> app \<Rightarrow> app" where
  "menu_key k shift n idx s = (if \<not> ap_menuOpen s then s
     else if k = Escape then s\<lparr>ap_menuOpen := False, ap_focus := F_MenuButton\<rparr>
     else if k \<noteq> Tab then s
     else (case trap_tab shift n idx of None \<Rightarrow> s | Some j \<Rightarrow> s\<lparr>ap_focus := focus_of_index j\<rparr>))"

text \<open>
  \<open>menuKeys\<close>, the menu-button pattern of the dropdowns: \<open>n\<close> links, \<open>idx\<close> the focused
  one or \<open>-1\<close>. \<open>focusAt i\<close> wraps around and does nothing in an empty menu.
\<close>

definition focusAt :: "jstring \<Rightarrow> nat \<Rightarrow> int \<Rightarrow> app \<Rightarrow> app" where
  "focusAt label n i s = (if n = 0 then s else s\<lparr>ap_focus := F_Link label (nat ((i + int n) mod int n))\<rparr>)"

definition menuKeys :: "jstring \<Rightarrow> nat \<Rightarrow> int \<Rightarrow> key \<Rightarrow> app \<Rightarrow> app \<times> action palette_effect list" where
  "menuKeys label n idx k s = (case k of
      ArrowDown \<Rightarrow> (if ap_openGroup s \<noteq> Some label
         then s\<lparr>ap_openGroup := Some label, ap_focus := F_Link label 0\<rparr> else focusAt label n (idx + 1) s, [PreventDefault])
    | ArrowUp \<Rightarrow> (if 0 \<le> idx then focusAt label n (idx - 1) s else s, [PreventDefault])
    | Home \<Rightarrow> if 0 \<le> idx then (focusAt label n 0 s, [PreventDefault]) else (s, [])
    | End \<Rightarrow> if 0 \<le> idx then (focusAt label n (int n - 1) s, [PreventDefault]) else (s, [])
    | Escape \<Rightarrow> if ap_openGroup s = Some label
         then (s\<lparr>ap_openGroup := None, ap_focus := F_Toggle label\<rparr>, [PreventDefault, StopPropagation]) else (s, [])
    | _ \<Rightarrow> (s, []))"

text \<open>Ctrl+K or Cmd+K from anywhere; the dialog is mounted afresh each time it opens.\<close>

definition set_palette :: "bool \<Rightarrow> app \<Rightarrow> app" where
  "set_palette b s = (if b = ap_paletteOpen s then s
     else s\<lparr>ap_paletteOpen := b, ap_palette := palette_initial\<rparr>)"

definition palette_shortcut :: "bool \<Rightarrow> bool \<Rightarrow> bool \<Rightarrow> jstring \<Rightarrow> app \<Rightarrow> app" where
  "palette_shortcut ctrl meta alt k s =
     (if (ctrl \<or> meta) \<and> \<not> alt \<and> js_lower k = ''k'' then set_palette (\<not> ap_paletteOpen s) s else s)"

definition closeNav :: "app \<Rightarrow> app" where
  "closeNav s = s\<lparr>ap_openGroup := None, ap_menuOpen := False\<rparr>"

definition toggle_group :: "jstring \<Rightarrow> app \<Rightarrow> app" where
  "toggle_group label s = s\<lparr>ap_openGroup := (if ap_openGroup s = Some label then None else Some label)\<rparr>"

definition group_blur :: "jstring \<Rightarrow> bool \<Rightarrow> app \<Rightarrow> app" where
  "group_blur label still_inside s = (if \<not> ap_menuOpen s \<and> \<not> still_inside \<and> ap_openGroup s = Some label
     then s\<lparr>ap_openGroup := None\<rparr> else s)"

section \<open>Rendering\<close>

datatype 'p app_msg =
    App_Palette palette_msg
  | App_OpenPalette
  | App_CloseNav
  | App_SetTheme theme
  | App_SignOut
  | App_ToggleMenu
  | App_ToggleGroup jstring
  | App_Refresh
  | App_Page 'p

text \<open>\<open>label.split(".").pop()\<close>\<close>

definition last_segment :: "jstring \<Rightarrow> jstring" where
  "last_segment s = rev (takeWhile (\<lambda>c. c \<noteq> CHR ''.'') (rev s))"

definition menuId :: "jstring \<Rightarrow> jstring" where
  "menuId label = ''menu-'' @ last_segment label"

definition connection :: "(jstring \<Rightarrow> jstring) \<Rightarrow> snap \<Rightarrow> jstring \<times> jstring" where
  "connection t s = (if sp_error s \<noteq> [] then (''offline'', t ''app.connection_lost'')
     else if (case sp_data s of None \<Rightarrow> False | Some d \<Rightarrow> st_ready (sn_status d)) then ('''', t ''app.resolver_online'')
     else (''pending'', t ''app.connecting''))"

definition event_badge :: "int \<Rightarrow> 'p app_msg node list" where
  [view_defs]: "event_badge n = render_if (0 < n) [El T_span [Cls ''event-count''] [Txt (show_int n)]]"

fun role_name :: "role \<Rightarrow> jstring" where
  "role_name Viewer = ''viewer''"
| "role_name Operator = ''operator''"
| "role_name Admin = ''admin''"

definition app_header :: "(jstring \<Rightarrow> jstring) \<Rightarrow> auth_user option \<Rightarrow> bool \<Rightarrow> app \<Rightarrow> 'p app_msg node" where
  [view_defs]: "app_header t user dark s =
     (let (cls, label) = connection t (ap_snap s); theme_text = (if dark then t ''app.theme_to_light'' else t ''app.theme_to_dark'') in
      El T_header [Cls ''header''] [El T_div [Cls ''container header-inner'']
       [El T_a [Cls ''app-brand'', A ''href'' ''/'']
          [El T_img [A ''src'' ''/favicon.svg'', A ''width'' ''28'', A ''height'' ''28'', A ''alt'' ''''] [],
           El T_span [] [Txt ''Velora '', El T_span [] [Txt ''DNS'']]],
        El T_div [Cls ''header-right'']
          [El T_span [Cls (''connection '' @ cls), A ''title'' label]
             [El T_i [Cls ''dot''] [], El T_span [Cls ''connection-label''] [Txt label]],
           El T_button [Cls ''icon-button palette-button'', OnClick App_OpenPalette, A ''aria-label'' (t ''palette.open_button''),
               A ''aria-keyshortcuts'' ''Control+K Meta+K'', A ''aria-haspopup'' ''dialog'',
               A ''title'' (t ''palette.open_button'' @ '' (Ctrl+K)'')]
             [Icon ''Search'' 18],
           El T_NavLink [A ''to'' ''/events'', Cls ''icon-button event-entry'',
               A ''aria-label'' (t ''app.nav.events'' @ '': '' @ show_int (ap_unreadEvents s) @ '' '' @ t ''events.unread''), OnClick App_CloseNav]
             (Icon ''Bell'' 18 # event_badge (ap_unreadEvents s)),
           El T_button [Cls ''icon-button'', OnClick (App_SetTheme (if dark then Light else Dark)), A ''aria-label'' theme_text, A ''title'' theme_text]
             [if dark then Icon ''Sun'' 18 else Icon ''Moon'' 18],
           El T_div [Cls ''header-user'']
             ((case user of None \<Rightarrow> [] | Some u \<Rightarrow>
                [El T_div [Cls ''header-user-name'', A ''title'' (t ''app.signed_in_as'' @ '' '' @ au_username u)]
                   [El T_strong [] [Txt (au_username u)], El T_span [] [Txt (role_name (au_role u))]]])
              @ [El T_button [Cls ''button small signout'', OnClick App_SignOut, A ''title'' (t ''app.sign_out'')]
                   [Icon ''LogOut'' 15, El T_span [Cls ''label''] [Txt (t ''app.sign_out'')]]]),
           El T_button [Cls ''icon-button menu-button'', OnClick App_ToggleMenu,
               A ''aria-label'' (if ap_menuOpen s then t ''app.menu_close'' else t ''app.menu_open''),
               A ''aria-controls'' ''main-nav'', AB ''aria-expanded'' (ap_menuOpen s)]
             [if ap_menuOpen s then Icon ''X'' 20 else Icon ''Menu'' 20]]]])"

definition nav_link :: "(jstring \<Rightarrow> jstring) \<Rightarrow> app \<Rightarrow> nav_item \<Rightarrow> 'p app_msg node" where
  [view_defs]: "nav_link t s i =
     El T_li [A ''key'' (ni_to i)]
       [El T_NavLink [A ''to'' (ni_to i), OnClick App_CloseNav]
          ([Icon (fst (ni_icon i)) (snd (ni_icon i)), Txt (t (''app.nav.'' @ ni_key i))]
           @ render_if (ni_key i = ''events'') (event_badge (ap_unreadEvents s)))]"

fun nav_entry_view :: "(jstring \<Rightarrow> jstring) \<Rightarrow> auth_user option \<Rightarrow> app \<Rightarrow> nav_entry \<Rightarrow> 'p app_msg node" where
  "nav_entry_view t user s (NavItem i) =
     El T_li [A ''key'' (ni_to i)]
       [El T_NavLink [A ''to'' (ni_to i), AB ''end'' (ni_to i = ''/''), Cls ''nav-tab'', OnClick App_CloseNav]
          [Icon (fst (ni_icon i)) (snd (ni_icon i)), Txt (t (''app.nav.'' @ ni_key i))]]"
| "nav_entry_view t user s (NavGroup label items) =
     (let shown = visible_items user items;
          active = list_ex (\<lambda>i. ni_to i = ap_pathname s) shown;
          opened = (ap_openGroup s = Some label \<or> ap_menuOpen s);
          icon = nullish (map_of GROUP_ICONS label) ('''', 0)
      in El T_li [A ''key'' label]
        ([El T_button [Cls (''nav-tab group-toggle'' @ (if active then '' active'' else '''')), AB ''aria-expanded'' opened,
             A ''aria-controls'' (menuId label), OnClick (App_ToggleGroup label)]
            [Icon (fst icon) (snd icon), Txt (t label), Icon ''ChevronDown'' 14]]
         @ render_if opened [El T_ul [Cls ''dropdown-menu'', A ''id'' (menuId label)] (map (nav_link t s) shown)]))"

definition app_nav :: "(jstring \<Rightarrow> jstring) \<Rightarrow> auth_user option \<Rightarrow> app \<Rightarrow> 'p app_msg node" where
  [view_defs]: "app_nav t user s =
     El T_nav [A ''id'' ''main-nav'', Cls (''navbar'' @ (if ap_menuOpen s then '' open'' else '''')), A ''aria-label'' (t ''app.nav.main'')]
       [El T_div [Cls ''container''] [El T_ul [Cls ''nav-tabs''] (map (nav_entry_view t user s) NAV)]]"

definition page_heading :: "(jstring \<Rightarrow> jstring) \<Rightarrow> app \<Rightarrow> 'p app_msg node" where
  [view_defs]: "page_heading t s =
     (let k = routeKey (ap_pathname s) in
      El T_div [Cls ''page-heading'']
        ([El T_div [] [El T_h1 [AN ''tabIndex'' (- 1)] [Txt (t (''app.title.'' @ k))],
            El T_p [] [Txt (if k = ''overview'' then t ''app.subtitle.overview'' else t (''app.subtitle.'' @ k))]]]
         @ render_if (ap_pathname s \<notin> set SELF_REFRESHING)
            [El T_div [Cls ''page-actions'']
               [El T_button [Cls ''button'', OnClick App_Refresh, A ''aria-label'' (t ''app.refresh'')]
                  [Icon ''RefreshCw'' 15, El T_span [Cls ''label''] [Txt (t ''app.refresh'')]]]]))"

definition READONLY_PATHS :: "jstring list" where
  "READONLY_PATHS = [''/zones'', ''/blocklists'', ''/cache'', ''/forwarding'', ''/rewrites'', ''/clients'', ''/policies'']"

definition app_notices :: "(jstring \<Rightarrow> jstring) \<Rightarrow> (jstring \<Rightarrow> jstring) \<Rightarrow> auth_user option \<Rightarrow> app \<Rightarrow> 'p app_msg node list" where
  [view_defs]: "app_notices t time user s =
     render_if (sp_error (ap_snap s) \<noteq> [])
       [El T_div [Cls ''notice error'', A ''role'' ''alert'']
          [Txt (sp_error (ap_snap s)), Txt ''. '',
           Txt (case sp_data (ap_snap s) of
              Some d \<Rightarrow> t ''app.error.showing_last'' @ '' '' @ time (sn_checked d) @ ''.''
            | None \<Rightarrow> t ''app.error.check_server'')]]
     @ render_if (app_replica (sp_data (ap_snap s)) \<and> ap_pathname s = ''/zones'')
       [El T_div [Cls ''notice info'', A ''role'' ''status''] [Txt (t ''cluster.zones_read_only'')]]
     @ render_if (app_readOnly user \<and> ap_pathname s \<in> set READONLY_PATHS)
       [El T_div [Cls ''notice info'', A ''role'' ''status''] [Txt (t ''app.viewer_readonly'')]]
     @ render_if (sp_data (ap_snap s) = None \<and> sp_error (ap_snap s) = [])
       [El T_section [Cls ''panel''] [Loading [Txt (t ''app.connecting_panel'')]]]"

definition app_footer :: "(jstring \<Rightarrow> jstring) \<Rightarrow> (jstring \<Rightarrow> jstring) \<Rightarrow> app \<Rightarrow> 'p app_msg node" where
  [view_defs]: "app_footer t time s =
     El T_footer []
       ([El T_span [] [Txt (t ''app.footer.independent'')]]
        @ (case sp_data (ap_snap s) of None \<Rightarrow> [] | Some d \<Rightarrow>
            render_if (vi_version (st_version (sn_status d)) \<noteq> [])
              [El T_span [Cls ''running-version'', A ''data-testid'' ''running-version'']
                 [Txt ''Velora DNS '', Txt (vi_version (st_version (sn_status d)))]])
        @ [El T_span [] [Txt (case sp_data (ap_snap s) of
              Some d \<Rightarrow> t ''app.footer.last_updated'' @ '' '' @ time (sn_checked d)
            | None \<Rightarrow> t ''app.footer.waiting'')]])"

text \<open>
  The whole frame. \<open>page\<close> renders the element the router mounts; \<open>time\<close> prints a time of
  day in the host's locale.
\<close>

definition app_view ::
  "(jstring \<Rightarrow> jstring) \<Rightarrow> (jstring \<Rightarrow> jstring) \<Rightarrow> (jstring \<Rightarrow> jstring \<Rightarrow> bool) \<Rightarrow> (route_page \<Rightarrow> 'p node list)
   \<Rightarrow> auth_user option \<Rightarrow> bool \<Rightarrow> app \<Rightarrow> 'p app_msg node list" where
  [view_defs]: "app_view t time rmatch page user dark s =
     [El T_div [Cls ''app'']
       ([El T_a [Cls ''skip-link'', A ''href'' ''#main''] [Txt (t ''app.skip_to_content'')],
         app_header t user dark s,
         app_nav t user s]
        @ map (map_node App_Palette) (CommandPalette (ap_paletteOpen s) t ''palette'' ''up'' ''down''
            (palette_options t Navigate (palettePages t user) (paletteActions t user dark) (ap_palette s)) (ap_palette s))
        @ [El T_main [A ''id'' ''main'', Cls ''container'']
             ([page_heading t s] @ app_notices t time user s
              @ (case sp_data (ap_snap s) of None \<Rightarrow> [] | Some d \<Rightarrow>
                  [El T_div [Cls ''page-view'', A ''key'' (ap_pathname s)]
                     (map (map_node App_Page) (page (route rmatch user d (ap_pathname s))))])
              @ [app_footer t time s])])]"

section \<open>Navigation, titles and routes agree\<close>

fun entry_items :: "nav_entry \<Rightarrow> nav_item list" where
  "entry_items (NavItem i) = [i]"
| "entry_items (NavGroup label items) = items"

definition nav_items :: "nav_item list" where
  "nav_items = concat (map entry_items NAV)"

lemma route_paths: "map fst (routes user d) = map fst (routes None e)"
  by (simp add: routes_def Let_def)

lemma nav_targets_routed: "list_all (\<lambda>i. ni_to i \<in> set (map fst (routes user d))) nav_items"
  by (simp add: nav_items_def NAV_def item_def admin_item_def routes_def Let_def)

lemma nav_targets_titled: "list_all (\<lambda>i. map_of ROUTE_KEYS (ni_to i) = Some (ni_key i)) nav_items"
  by code_simp

lemma routes_titled: "set (map fst (routes user d)) = set (map fst ROUTE_KEYS)"
  by (rule subset_antisym; simp add: routes_def ROUTE_KEYS_def Let_def)

lemma routes_distinct: "distinct (map fst (routes user d))"
  by (simp add: routes_def Let_def)

lemma self_refreshing_routed: "set SELF_REFRESHING \<subseteq> set (map fst (routes user d))"
  by (simp add: routes_def SELF_REFRESHING_def Let_def)

lemma find_map_of: "find (\<lambda>(p, el). p = x) xs = (case map_of xs x of None \<Rightarrow> None | Some y \<Rightarrow> Some (x, y))"
  by (induction xs) auto

text \<open>With a router that matches the static paths literally, a page is what its path is listed with.\<close>

lemma route_literal:
  assumes "\<And>p. p \<in> set (map fst (routes user d)) \<Longrightarrow> rmatch p x \<longleftrightarrow> p = x"
  shows "route rmatch user d x = nullish (map_of (routes user d) x) R_NotFound"
proof -
  have "find (\<lambda>(p, el). rmatch p x) (routes user d) = find (\<lambda>(p, el). p = x) (routes user d)"
    using assms by (intro find_cong) (auto simp: image_iff split: prod.split, force+)
  then show ?thesis by (auto simp: route_def find_map_of split: option.split)
qed

section \<open>What a role is offered\<close>

text \<open>The props that allow a page to change something are off.\<close>

fun write_props_off :: "route_page \<Rightarrow> bool" where
  "write_props_off (R_Dashboard ro q) = ro"
| "write_props_off (R_Cache ro) = ro"
| "write_props_off (R_Zones ro) = ro"
| "write_props_off (R_Blocklists ro) = ro"
| "write_props_off (R_Policies ro) = ro"
| "write_props_off (R_Clients ro q) = ro"
| "write_props_off (R_Rewrites ro) = ro"
| "write_props_off (R_Forwarding ro) = ro"
| "write_props_off (R_Updates ro) = ro"
| "write_props_off (R_Backup ro create) = (ro \<and> \<not> create)"
| "write_props_off (R_DHCP ro) = ro"
| "write_props_off (R_Cluster manage) = (\<not> manage)"
| "write_props_off _ = True"

lemma route_in: "route rmatch user d x \<in> insert R_NotFound (set (map snd (routes user d)))"
proof (cases "find (\<lambda>(p, el). rmatch p x) (routes user d)")
  case (Some pe)
  then have "pe \<in> set (routes user d)" unfolding find_Some_iff by (metis nth_mem)
  then show ?thesis using Some by (auto simp: route_def image_iff split: prod.split intro!: bexI [of _ pe])
qed (simp add: route_def)

lemma viewer_routes: "app_readOnly user \<Longrightarrow> list_all write_props_off (map snd (routes user d))"
  by (auto simp: routes_def app_readOnly_def has_role_def Let_def)

lemma viewer_route: "app_readOnly user \<Longrightarrow> write_props_off (route rmatch user d x)"
  using viewer_routes [of user d] route_in [of rmatch user d x] by (auto simp: list_all_iff)

lemma replica_route: "app_replica (Some d) \<Longrightarrow> route rmatch user d x = R_Zones ro \<Longrightarrow> ro"
  using route_in [of rmatch user d x] by (auto simp: routes_def Let_def)

lemma visible_items_admin: "has_role Admin user \<Longrightarrow> visible_items user items = items"
  by (simp add: visible_items_def)

lemma visible_items_other: "\<not> has_role Admin user \<Longrightarrow> i \<in> set (visible_items user items) \<Longrightarrow> \<not> ni_adminOnly i"
  by (simp add: visible_items_def)

lemma palettePages_targets:
  "map pi_run (palettePages t user) =
     map (\<lambda>i. Navigate (ni_to i)) (filter (\<lambda>i. \<not> ni_adminOnly i \<or> has_role Admin user) nav_items)"
  by (simp add: palettePages_def palette_page_def nav_items_def NAV_def visible_items_def comp_def case_prod_unfold item_def)

lemma viewer_actions:
  "app_readOnly user \<Longrightarrow> a \<in> set (paletteActions t user dark) \<Longrightarrow>
     pi_run a \<in> {Choose_Theme Light, Choose_Theme Dark, Navigate ''/updates'', Sign_Out}"
  by (cases dark) (auto simp: paletteActions_def simple_action_def app_readOnly_def has_role_def)

section \<open>Roles are ordered\<close>

text \<open>Viewer, operator, administrator: each role can do what the ones below it can.\<close>

fun role_rank :: "role \<Rightarrow> nat" where
  "role_rank Viewer = 0"
| "role_rank Operator = 1"
| "role_rank Admin = 2"

instantiation role :: linorder
begin

definition less_eq_role :: "role \<Rightarrow> role \<Rightarrow> bool" where
  "less_eq_role a b \<longleftrightarrow> role_rank a \<le> role_rank b"

definition less_role :: "role \<Rightarrow> role \<Rightarrow> bool" where
  "less_role a b \<longleftrightarrow> role_rank a < role_rank b"

instance
proof
  show "x = y" if "x \<le> y" "y \<le> x" for x y :: role
    using that by (cases x; cases y) (simp_all add: less_eq_role_def)
qed (auto simp: less_eq_role_def less_role_def)

end

lemma role_le_admin: "Admin \<le> r \<longleftrightarrow> r = Admin"
  by (cases r) (simp_all add: less_eq_role_def)

lemma role_le_viewer: "r \<le> Viewer \<longleftrightarrow> r = Viewer"
  by (cases r) (simp_all add: less_eq_role_def)

lemma role_mono:
  assumes "au_role u \<le> au_role v"
  shows "has_role Admin (Some u) \<Longrightarrow> has_role Admin (Some v)" "app_readOnly (Some v) \<Longrightarrow> app_readOnly (Some u)"
  using assms by (auto simp: has_role_def app_readOnly_def role_le_admin role_le_viewer)

lemma routes_mono:
  assumes "au_role u \<le> au_role v"
  shows "list_all2 (\<lambda>(p, a) (q, b). p = q \<and> (write_props_off b \<longrightarrow> write_props_off a)) (routes (Some u) d) (routes (Some v) d)"
  using role_mono [OF assms] by (auto simp: routes_def Let_def)

lemma find_list_all2:
  "list_all2 R xs ys \<Longrightarrow> (\<And>x y. R x y \<Longrightarrow> P x \<longleftrightarrow> P y) \<Longrightarrow> rel_option R (find P xs) (find P ys)"
  by (induction rule: list_all2_induct) auto

lemma route_mono:
  assumes "au_role u \<le> au_role v" "write_props_off (route rmatch (Some v) d x)"
  shows "write_props_off (route rmatch (Some u) d x)"
proof -
  have "rel_option (\<lambda>(p, a) (q, b). p = q \<and> (write_props_off b \<longrightarrow> write_props_off a))
      (find (\<lambda>(p, el). rmatch p x) (routes (Some u) d)) (find (\<lambda>(p, el). rmatch p x) (routes (Some v) d))"
    by (rule find_list_all2 [OF routes_mono [OF assms(1)]]) auto
  then show ?thesis using assms(2) by (auto simp: route_def option_rel_Some1 option_rel_Some2 split: option.splits)
qed

lemma paletteActions_mono:
  assumes "au_role u \<le> au_role v"
  shows "set (paletteActions t (Some u) dark) \<subseteq> set (paletteActions t (Some v) dark)"
  using role_mono [OF assms] by (auto simp: paletteActions_def)

lemma palettePages_mono:
  assumes "au_role u \<le> au_role v"
  shows "set (palettePages t (Some u)) \<subseteq> set (palettePages t (Some v))"
proof -
  have "set (entry_pages t (Some u) e) \<subseteq> set (entry_pages t (Some v) e)" for e
    using role_mono(1) [OF assms] by (cases e) (auto simp: visible_items_def)
  then show ?thesis unfolding palettePages_def by fastforce
qed

section \<open>Keyboard focus\<close>

lemma trap_tab_range: "trap_tab shift n idx = Some j \<Longrightarrow> j < n"
  by (auto simp: trap_tab_def split: if_splits)

text \<open>
  Where focus goes on Tab inside the trap: to the neighbour, which the browser reaches by itself,
  or around the corner.
\<close>

definition tab_target :: "bool \<Rightarrow> nat \<Rightarrow> nat \<Rightarrow> nat" where
  "tab_target shift n i = (case trap_tab shift n (int i) of Some j \<Rightarrow> j | None \<Rightarrow> if shift then i - 1 else i + 1)"

lemma tab_target_mod: "i < n \<Longrightarrow> tab_target shift n i = (if shift then (i + n - 1) mod n else (i + 1) mod n)"
  by (cases i) (auto simp: tab_target_def trap_tab_def mod_if split: if_splits)

lemma focusAt_in_range: "0 < n \<Longrightarrow> \<exists>j < n. ap_focus (focusAt label n i s) = F_Link label j"
  by (auto simp: focusAt_def nat_less_iff)

lemma menuKeys_down:
  "ap_openGroup s = Some label \<Longrightarrow> i < n \<Longrightarrow>
     ap_focus (fst (menuKeys label n (int i) ArrowDown s)) = F_Link label ((i + 1) mod n)"
  by (auto simp: menuKeys_def focusAt_def nat_mod_distrib nat_add_distrib)

lemma menuKeys_up:
  "i < n \<Longrightarrow> ap_focus (fst (menuKeys label n (int i) ArrowUp s)) = F_Link label ((i + n - 1) mod n)"
proof -
  assume i: "i < n"
  then have "int i - 1 + int n = int (i + n - 1)" by linarith
  then have "nat ((int i - 1 + int n) mod int n) = (i + n - 1) mod n" by (metis nat_int zmod_int)
  then show ?thesis using i by (simp add: menuKeys_def focusAt_def)
qed

lemma menuKeys_escape:
  "ap_openGroup s = Some label \<Longrightarrow> ap_openGroup (fst (menuKeys label n idx Escape s)) = None \<and>
     ap_focus (fst (menuKeys label n idx Escape s)) = F_Toggle label"
  by (simp add: menuKeys_def)

end
