(* ===== verification/Auth_Gate.thy ===== *)
theory Auth_Gate
  imports Api Components Ui
begin

text \<open>
  \<open>AuthGate.tsx\<close>: the application is rendered only for a user the server has confirmed,
  either by the cookie check at start or by the sign-in form. The session's CSRF token is set by
  the API client when a user is loaded.
\<close>

record gate =
  ag_user :: "auth_user option"
  ag_checking :: bool
  ag_submitting :: bool
  ag_error :: jstring
  ag_session :: session
  ag_username_field :: jstring
  ag_password_field :: jstring
  ag_logins :: "(jstring \<times> jstring) list"

definition gate_mount :: "session \<Rightarrow> gate" where
  "gate_mount ses = \<lparr>ag_user = None, ag_checking = True, ag_submitting = False, ag_error = [],
     ag_session = ses, ag_username_field = [], ag_password_field = [], ag_logins = []\<rparr>"

text \<open>\<open>currentUser().then(setUser).catch(() => {}).finally(() => setChecking(false))\<close>\<close>

definition checked :: "auth_user result \<Rightarrow> gate \<Rightarrow> gate" where
  "checked res g =
     (let g1 = g\<lparr>ag_session := user_loaded res (ag_session g)\<rparr>;
          g2 = (case res of Inl e \<Rightarrow> g1 | Inr u \<Rightarrow> g1\<lparr>ag_user := Some u\<rparr>)
      in g2\<lparr>ag_checking := False\<rparr>)"

text \<open>
  \<open>Login\<close> is the submit handler. The two inputs are uncontrolled: the browser keeps what is
  typed (the other two messages) and \<open>FormData\<close> reads it at submission.
\<close>

datatype gate_msg = Login | Type_Username jstring | Type_Password jstring

text \<open>The synchronous part of \<open>login\<close>: up to the awaited request.\<close>

fun login :: "gate_msg \<Rightarrow> gate \<Rightarrow> gate" where
  "login Login g =
     g\<lparr>ag_error := [], ag_submitting := True,
       ag_logins := ag_logins g @ [(ag_username_field g, ag_password_field g)]\<rparr>"
| "login (Type_Username v) g = g\<lparr>ag_username_field := v\<rparr>"
| "login (Type_Password v) g = g\<lparr>ag_password_field := v\<rparr>"

text \<open>
  The continuation: \<open>setUser\<close>, or the error's message (only an \<open>APIError\<close>'s own
  message is shown), and \<open>setSubmitting(false)\<close> in both cases.
\<close>

definition login_error :: "(jstring \<Rightarrow> jstring) \<Rightarrow> exn \<Rightarrow> jstring" where
  "login_error t e = (case e of APIError st m fs c \<Rightarrow> m | _ \<Rightarrow> t ''auth.sign_in_failed'')"

definition login_settled :: "(jstring \<Rightarrow> jstring) \<Rightarrow> nat \<Rightarrow> auth_user result \<Rightarrow> gate \<Rightarrow> gate" where
  "login_settled t i res g =
     (let g1 = g\<lparr>ag_session := user_loaded res (ag_session g), ag_logins := remove_nth i (ag_logins g)\<rparr>;
          g2 = (case res of Inl e \<Rightarrow> g1\<lparr>ag_error := login_error t e\<rparr> | Inr u \<Rightarrow> g1\<lparr>ag_user := Some u\<rparr>)
      in g2\<lparr>ag_submitting := False\<rparr>)"

definition gate_form :: "(jstring \<Rightarrow> jstring) \<Rightarrow> gate \<Rightarrow> gate_msg node" where
  [view_defs]: "gate_form t g =
     El T_form [Cls ''auth-card'', OnSubmit Login]
       [El T_h1 [] [Txt (t ''auth.sign_in_title'')],
        El T_div [Cls ''auth-body'']
          (render_if (ag_error g \<noteq> [])
             [El T_div [Cls ''notice error'', A ''role'' ''alert''] [Icon ''AlertCircle'' 16, Txt (ag_error g)]]
           @ [El T_label [] [Txt (t ''auth.username''),
                El T_input [A ''name'' ''username'', A ''autoComplete'' ''username'', OnChange Type_Username, Flag ''required'', Flag ''autoFocus''] []],
              El T_label [] [Txt (t ''auth.password''),
                El T_input [A ''name'' ''password'', A ''type'' ''password'', A ''autoComplete'' ''current-password'', OnChange Type_Password, Flag ''required''] []],
              El T_button [Cls ''button primary'', A ''type'' ''submit'', Disabled (ag_submitting g)] [Txt (t ''auth.sign_in'')]])]"

definition gate_view ::
  "(jstring \<Rightarrow> jstring) \<Rightarrow> (auth_user \<Rightarrow> gate_msg node list) \<Rightarrow> gate \<Rightarrow> gate_msg node list" where
  [view_defs]: "gate_view t children g =
     (if ag_checking g then [El T_main [Cls ''auth-shell''] [El T_div [Cls ''auth-card''] [Loading [Txt (t ''auth.checking'')]]]]
      else case ag_user g of
        None \<Rightarrow> [El T_main [Cls ''auth-shell'']
          [El T_span [Cls ''auth-brand'']
             [El T_img [A ''src'' ''/favicon.svg'', A ''width'' ''36'', A ''height'' ''36'', A ''alt'' ''''] [],
              El T_span [] [Txt ''Velora '', El T_span [] [Txt ''DNS'']]],
           gate_form t g]]
      | Some u \<Rightarrow> [El T_provider [A ''context'' ''AuthUserContext''] (children u)])"

section \<open>The gate as a machine\<close>

text \<open>The application behind the gate is a tree of its own; here it is any tree without handlers.\<close>

inductive gate_env :: "(jstring \<Rightarrow> jstring) \<Rightarrow> gate \<Rightarrow> gate \<Rightarrow> bool" for t where
  check_done: "ag_checking g \<Longrightarrow> gate_env t g (checked res g)"
| login_done: "i < length (ag_logins g) \<Longrightarrow> gate_env t g (login_settled t i res g)"

definition gate_inv :: "gate \<Rightarrow> bool" where
  "gate_inv g \<longleftrightarrow>
     length (ag_logins g) \<le> 1 \<and> (ag_logins g \<noteq> [] \<longrightarrow> ag_submitting g \<and> \<not> ag_checking g) \<and>
     (ag_checking g \<longrightarrow> ag_user g = None) \<and>
     (\<forall>u. ag_user g = Some u \<longrightarrow> csrfToken (ag_session g) = au_csrf_token u \<and> ag_logins g = [])"

lemma login_fires:
  "m \<in> fires (gate_view t (\<lambda>u. []) g) \<Longrightarrow>
     (m = Login \<longrightarrow> \<not> ag_submitting g) \<and> \<not> ag_checking g \<and> ag_user g = None"
proof -
  have "nodes_ok (\<lambda>m. (m = Login \<longrightarrow> \<not> ag_submitting g) \<and> \<not> ag_checking g \<and> ag_user g = None)
      (gate_view t (\<lambda>u. []) g)"
    by (cases "ag_user g") (auto simp: view_defs dom_simps)
  then show "m \<in> fires (gate_view t (\<lambda>u. []) g) \<Longrightarrow> ?thesis"
    by (rule nodes_okD)
qed

lemma gate_inv_checked: "gate_inv g \<Longrightarrow> ag_checking g \<Longrightarrow> gate_inv (checked res g)"
  by (cases res) (auto simp: gate_inv_def checked_def user_loaded_def setCSRFToken_def Let_def)

lemma gate_inv_settled: "gate_inv g \<Longrightarrow> i < length (ag_logins g) \<Longrightarrow> gate_inv (login_settled t i res g)"
proof (cases "ag_logins g")
  case (Cons x xs)
  assume "gate_inv g" "i < length (ag_logins g)"
  then have "xs = []" "i = 0" using Cons by (auto simp: gate_inv_def)
  then show ?thesis using \<open>gate_inv g\<close> Cons
    by (cases res) (auto simp: gate_inv_def login_settled_def user_loaded_def setCSRFToken_def Let_def)
qed simp

lemma gate_user_inv:
  "gate_inv g \<Longrightarrow> m \<in> fires (gate_view t (\<lambda>u. []) g) \<Longrightarrow> gate_inv (login m g)"
  by (drule login_fires, cases m) (auto simp: gate_inv_def)

interpretation gate: single_flight_page
  "\<lambda>g. \<exists>ses. g = gate_mount ses" "\<lambda>g. gate_view t (\<lambda>u. []) g" login "gate_env t" gate_inv ag_logins
  for t
proof unfold_locales
  show "gate_inv g" if "\<exists>ses. g = gate_mount ses" for g
    using that by (auto simp: gate_mount_def gate_inv_def)
  show "gate_inv (login m g)" if "gate_inv g" "m \<in> fires (gate_view t (\<lambda>u. []) g)" for g m
    using that by (rule gate_user_inv)
  show "gate_inv g'" if "gate_inv g" "gate_env t g g'" for g g'
    using that(2,1) by cases (simp_all add: gate_inv_checked gate_inv_settled)
  show "length (ag_logins g) \<le> 1" if "gate_inv g" for g
    using that by (simp add: gate_inv_def)
qed

end
