(* ===== verification/App_Frame.thy ===== *)
theory App_Frame
  imports App_Shell Auth_Gate
begin

text \<open>
  \<open>App.tsx\<close> as a whole: the frame of theory \<open>App_Shell\<close> together with what it shares with the rest of the
  program, namely the signed-in user and the session of the API client, the language and theme of the provider,
  the snapshot poll, the unread count refreshed every ten seconds, the document title, the router's location
  and the actions of the palette. \<open>dict\<close> holds the translation tables.
\<close>

record frame =
  ax_app :: app
  ax_user :: "auth_user option"
  ax_session :: session
  ax_prefs :: "host \<times> provider"
  ax_search :: jstring
  ax_title :: jstring
  ax_interval :: bool
  ax_eventLoads :: nat
  ax_logouts :: nat
  ax_reloads :: nat

definition ax_t :: "(language \<Rightarrow> dictionary) \<Rightarrow> frame \<Rightarrow> jstring \<Rightarrow> jstring" where
  "ax_t dict s = makeT dict (pv_language (snd (ax_prefs s)))"

definition dark_theme :: "frame \<Rightarrow> bool" where
  "dark_theme s \<longleftrightarrow> resolveTheme (fst (ax_prefs s)) (pv_theme (snd (ax_prefs s))) = Dark"

definition on_app :: "(app \<Rightarrow> app) \<Rightarrow> frame \<Rightarrow> frame" where
  "on_app f s = s\<lparr>ax_app := f (ax_app s)\<rparr>"

section \<open>Effects\<close>

definition refreshEvents :: "frame \<Rightarrow> frame" where
  "refreshEvents s = s\<lparr>ax_eventLoads := ax_eventLoads s + 1\<rparr>"

definition events_answered :: "system_event_page result \<Rightarrow> frame \<Rightarrow> frame" where
  "events_answered res s = on_app (events_settled res) (s\<lparr>ax_eventLoads := ax_eventLoads s - 1\<rparr>)"

definition events_effect :: "frame \<Rightarrow> frame" where
  "events_effect s = (if ax_user s = None then s else (refreshEvents s)\<lparr>ax_interval := True\<rparr>)"

definition events_interval :: "frame \<Rightarrow> frame" where
  "events_interval s = (if ax_interval s then refreshEvents s else s)"

definition page_title :: "(jstring \<Rightarrow> jstring) \<Rightarrow> jstring \<Rightarrow> jstring" where
  "page_title t pathname = t (''app.title.'' @ routeKey pathname)"

definition title_effect :: "(language \<Rightarrow> dictionary) \<Rightarrow> frame \<Rightarrow> frame" where
  "title_effect dict s = s\<lparr>ax_title := ''Velora DNS '' @ middot @ '' '' @ page_title (ax_t dict s) (ap_pathname (ax_app s))\<rparr>"

text \<open>
  A step of the provider. A new language is a new translation function: the snapshot effect runs again, and
  so does the title's when the title has changed.
\<close>

definition frame_prefs :: "(language \<Rightarrow> dictionary) \<Rightarrow> provider_event \<Rightarrow> frame \<Rightarrow> frame" where
  "frame_prefs dict e s = (let s1 = s\<lparr>ax_prefs := provider_step e (ax_prefs s)\<rparr> in
     if pv_language (snd (ax_prefs s1)) = pv_language (snd (ax_prefs s)) then s1
     else title_effect dict (on_app (ap_snap_update snap_effect) s1))"

definition frame_mount :: "(language \<Rightarrow> dictionary) \<Rightarrow> auth_user option \<Rightarrow> session \<Rightarrow> host \<times> provider \<Rightarrow> jstring \<Rightarrow> jstring \<Rightarrow> frame" where
  "frame_mount dict user ses hp pathname search = title_effect dict (events_effect
     \<lparr>ax_app = app_mount pathname, ax_user = user, ax_session = ses, ax_prefs = hp, ax_search = search, ax_title = [], ax_interval = False,
      ax_eventLoads = 0, ax_logouts = 0, ax_reloads = 0\<rparr>)"

section \<open>Actions\<close>

text \<open>\<open>navigate(to)\<close>: the router splits the target into the path and the query.\<close>

definition navigate :: "(language \<Rightarrow> dictionary) \<Rightarrow> jstring \<Rightarrow> frame \<Rightarrow> frame" where
  "navigate dict to s = title_effect dict (on_app (app_navigate (takeWhile (\<lambda>c. c \<noteq> CHR ''?'') to))
     (s\<lparr>ax_search := dropWhile (\<lambda>c. c \<noteq> CHR ''?'') to\<rparr>))"

definition signOut :: "frame \<Rightarrow> frame" where
  "signOut s = s\<lparr>ax_logouts := ax_logouts s + 1\<rparr>"

text \<open>The page is reloaded once the server has ended the session; a failed request leaves everything as it is.\<close>

definition logout_settled :: "unit result \<Rightarrow> frame \<Rightarrow> frame" where
  "logout_settled res s = (let s1 = s\<lparr>ax_logouts := ax_logouts s - 1, ax_session := logged_out res (ax_session s)\<rparr> in
     case res of Inr _ \<Rightarrow> s1\<lparr>ax_reloads := ax_reloads s1 + 1\<rparr> | Inl e \<Rightarrow> s1)"

fun run_action :: "(language \<Rightarrow> dictionary) \<Rightarrow> action \<Rightarrow> frame \<Rightarrow> frame" where
  "run_action dict (Navigate to) s = navigate dict to s"
| "run_action dict (Choose_Theme x) s = frame_prefs dict (Set_Theme x) s"
| "run_action dict Sign_Out s = signOut s"

fun palette_effect_run :: "(language \<Rightarrow> dictionary) \<Rightarrow> action palette_effect \<Rightarrow> frame \<Rightarrow> frame" where
  "palette_effect_run dict PreventDefault s = s"
| "palette_effect_run dict StopPropagation s = s"
| "palette_effect_run dict Close s = on_app (set_palette False) s"
| "palette_effect_run dict (Run a) s = run_action dict a s"

definition frame_options :: "(language \<Rightarrow> dictionary) \<Rightarrow> frame \<Rightarrow> action palette_option list" where
  "frame_options dict s = palette_options (ax_t dict s) Navigate (palettePages (ax_t dict s) (ax_user s))
     (paletteActions (ax_t dict s) (ax_user s) (dark_theme s)) (ap_palette (ax_app s))"

definition palette_key :: "(language \<Rightarrow> dictionary) \<Rightarrow> key \<Rightarrow> frame \<Rightarrow> frame" where
  "palette_key dict k s = (case onKeyDown (frame_options dict s) k (ap_palette (ax_app s)) of
     (p, es) \<Rightarrow> fold (palette_effect_run dict) es (on_app (ap_palette_update (\<lambda>_. p)) s))"

fun palette_click :: "(language \<Rightarrow> dictionary) \<Rightarrow> palette_msg \<Rightarrow> frame \<Rightarrow> frame" where
  "palette_click dict (Pal_Choose i) s = fold (palette_effect_run dict) (palette_choose (nth_option (frame_options dict s) i)) s"
| "palette_click dict Pal_Backdrop s = palette_effect_run dict Close s"
| "palette_click dict m s = on_app (ap_palette_update (palette_update m)) s"

text \<open>Opening the mobile menu moves the focus to the first element after the menu button.\<close>

definition toggle_menu :: "app \<Rightarrow> app" where
  "toggle_menu s = (if ap_menuOpen s then s\<lparr>ap_menuOpen := False\<rparr> else s\<lparr>ap_menuOpen := True, ap_focus := F_NavElement 0\<rparr>)"

fun frame_update :: "(language \<Rightarrow> dictionary) \<Rightarrow> 'p app_msg \<Rightarrow> frame \<Rightarrow> frame" where
  "frame_update dict (App_Palette m) s = palette_click dict m s"
| "frame_update dict App_OpenPalette s = on_app (set_palette True) s"
| "frame_update dict App_CloseNav s = on_app closeNav s"
| "frame_update dict (App_SetTheme x) s = frame_prefs dict (Set_Theme x) s"
| "frame_update dict App_SignOut s = signOut s"
| "frame_update dict App_ToggleMenu s = on_app toggle_menu s"
| "frame_update dict (App_ToggleGroup label) s = on_app (toggle_group label) s"
| "frame_update dict App_Refresh s = on_app (ap_snap_update snap_refresh) s"
| "frame_update dict (App_Page p) s = s"

definition frame_view ::
  "(language \<Rightarrow> dictionary) \<Rightarrow> (jstring \<Rightarrow> jstring) \<Rightarrow> (jstring \<Rightarrow> jstring \<Rightarrow> bool) \<Rightarrow> (route_page \<Rightarrow> 'p node list) \<Rightarrow> frame \<Rightarrow> 'p app_msg node list" where
  "frame_view dict time rmatch page s = app_view (ax_t dict s) time rmatch page (ax_user s) (dark_theme s) (ax_app s)"

text \<open>
  The environment: links and the browser's own navigation, the listeners on the window, timers and answers.
  The pages ask for a refresh of the events (\<open>EventCenter\<close>) and of the snapshot (\<open>Dashboard\<close>,
  \<open>CachePage\<close>, \<open>UpdateCenter\<close>).
\<close>

inductive frame_env :: "(language \<Rightarrow> dictionary) \<Rightarrow> frame \<Rightarrow> frame \<Rightarrow> bool" for dict where
  link_followed: "frame_env dict s (navigate dict to s)"
| palette_key_pressed: "ap_paletteOpen (ax_app s) \<Longrightarrow> frame_env dict s (palette_key dict k s)"
| shortcut: "frame_env dict s (on_app (palette_shortcut ctrl meta alt k) s)"
| group_key_pressed: "frame_env dict s (on_app (group_key k') s)"
| pointer_pressed: "frame_env dict s (on_app (group_pointer inside) s)"
| menu_key_pressed: "frame_env dict s (on_app (menu_key k' shift n idx) s)"
| dropdown_key_pressed: "frame_env dict s (on_app (\<lambda>a. fst (menuKeys label n idx k' a)) s)"
| focus_left: "frame_env dict s (on_app (group_blur label inside) s)"
| preferences_moved: "frame_env dict s (frame_prefs dict e s)"
| interval_fires: "frame_env dict s (events_interval s)"
| events_asked: "frame_env dict s (refreshEvents s)"
| events_done: "0 < ax_eventLoads s \<Longrightarrow> frame_env dict s (events_answered ev s)"
| logout_done: "0 < ax_logouts s \<Longrightarrow> frame_env dict s (logout_settled out s)"
| snapshot_asked: "frame_env dict s (on_app (ap_snap_update snap_refresh) s)"
| snapshot_ticks: "sp_timer (ap_snap (ax_app s)) \<Longrightarrow> frame_env dict s (on_app (ap_snap_update snap_tick) s)"
| snapshot_done: "i < length (sp_polls (ap_snap (ax_app s))) \<Longrightarrow>
    frame_env dict s (on_app (ap_snap_update (snap_settled (ax_t dict s) i res)) s)"
| search_timer: "frame_env dict s (on_app (ap_palette_update palette_timer) s)"
| search_done: "i < length (pl_searches (ap_palette (ax_app s))) \<Longrightarrow>
    frame_env dict s (on_app (ap_palette_update (search_settled i found)) s)"

section \<open>Invariant\<close>

text \<open>
  The title is that of the current path in the current language; the unread count is refreshed for a signed-in
  user and for nobody else; the snapshot is polled without a gap; the document follows the preferences; the page
  is reloaded only after the server has ended the session.
\<close>

definition frame_inv :: "(language \<Rightarrow> dictionary) \<Rightarrow> frame \<Rightarrow> bool" where
  "frame_inv dict s \<longleftrightarrow>
     ax_title s = ''Velora DNS '' @ middot @ '' '' @ page_title (ax_t dict s) (ap_pathname (ax_app s)) \<and>
     (ax_interval s \<longleftrightarrow> ax_user s \<noteq> None) \<and> one_poll (sp_polls (ap_snap (ax_app s))) (sp_timer (ap_snap (ax_app s))) \<and>
     provider_ok (ax_prefs s) \<and> (0 < ax_reloads s \<longrightarrow> csrfToken (ax_session s) = [])"

lemma ax_t_cong [simp]: "ax_t dict (s\<lparr>ax_title := x\<rparr>) = ax_t dict s" "ax_t dict (on_app f s) = ax_t dict s"
  "ax_t dict (s\<lparr>ax_search := x\<rparr>) = ax_t dict s" "ax_t dict (s\<lparr>ax_eventLoads := n\<rparr>) = ax_t dict s"
  "ax_t dict (s\<lparr>ax_interval := b\<rparr>) = ax_t dict s" "ax_t dict (s\<lparr>ax_logouts := n\<rparr>) = ax_t dict s"
  "ax_t dict (s\<lparr>ax_session := ses\<rparr>) = ax_t dict s" "ax_t dict (s\<lparr>ax_reloads := n\<rparr>) = ax_t dict s"
  by (simp_all add: ax_t_def on_app_def)

lemma on_app_frame [simp]:
  "ax_app (on_app f s) = f (ax_app s)" "ax_user (on_app f s) = ax_user s" "ax_session (on_app f s) = ax_session s"
  "ax_prefs (on_app f s) = ax_prefs s" "ax_title (on_app f s) = ax_title s" "ax_interval (on_app f s) = ax_interval s"
  "ax_reloads (on_app f s) = ax_reloads s"
  by (simp_all add: on_app_def)

text \<open>The handlers of the frame itself leave the path and the poll alone.\<close>

definition frame_local :: "(app \<Rightarrow> app) \<Rightarrow> bool" where
  "frame_local f \<longleftrightarrow> (\<forall>a. ap_pathname (f a) = ap_pathname a \<and> ap_snap (f a) = ap_snap a)"

lemma frame_inv_local: "frame_local f \<Longrightarrow> frame_inv dict s \<Longrightarrow> frame_inv dict (on_app f s)"
  by (simp add: frame_inv_def frame_local_def)

lemma frame_local_handlers:
  "frame_local (set_palette b)" "frame_local closeNav" "frame_local toggle_menu" "frame_local (toggle_group label)"
  "frame_local (palette_shortcut ctrl meta alt v)" "frame_local (group_key k)" "frame_local (group_pointer inside)"
  "frame_local (menu_key k shift n idx)" "frame_local (\<lambda>a. fst (menuKeys label n idx k a))" "frame_local (group_blur label inside)"
  "frame_local (ap_palette_update g)" "frame_local (events_settled ev)"
  by (auto simp: frame_local_def set_palette_def closeNav_def toggle_menu_def toggle_group_def palette_shortcut_def group_key_def
      group_pointer_def menu_key_def menuKeys_def focusAt_def group_blur_def events_settled_def split: option.split key.split sum.split)

lemma app_navigate_frame: "ap_snap (app_navigate p a) = ap_snap a" "ap_pathname (app_navigate p a) = p"
  by (simp_all add: app_navigate_def heading_effect_def)

lemma frame_inv_navigate: "frame_inv dict s \<Longrightarrow> frame_inv dict (navigate dict to s)"
  by (simp add: frame_inv_def navigate_def title_effect_def app_navigate_frame)

lemma frame_inv_prefs:
  assumes "frame_inv dict s"
  shows "frame_inv dict (frame_prefs dict e s)"
proof -
  have ok: "provider_ok (provider_step e (ax_prefs s))" using assms by (simp add: frame_inv_def provider_step_ok)
  show ?thesis
  proof (cases "pv_language (snd (provider_step e (ax_prefs s))) = pv_language (snd (ax_prefs s))")
    case True
    then show ?thesis using assms ok by (simp add: frame_inv_def frame_prefs_def ax_t_def Let_def)
  next
    case False
    then show ?thesis using assms ok snap.restart_one by (simp add: frame_inv_def frame_prefs_def title_effect_def Let_def)
  qed
qed

lemma frame_inv_events:
  "frame_inv dict s \<Longrightarrow> frame_inv dict (refreshEvents s)" "frame_inv dict s \<Longrightarrow> frame_inv dict (events_interval s)"
  "frame_inv dict s \<Longrightarrow> frame_inv dict (signOut s)"
  by (simp_all add: frame_inv_def refreshEvents_def events_interval_def signOut_def ax_t_def)

lemma frame_inv_loads: "frame_inv dict (s\<lparr>ax_eventLoads := n\<rparr>) = frame_inv dict s"
  by (simp add: frame_inv_def)

lemma frame_inv_logout: "frame_inv dict s \<Longrightarrow> frame_inv dict (logout_settled out s)"
  by (auto simp: frame_inv_def logout_settled_def logged_out_def setCSRFToken_def Let_def split: sum.split)

lemma frame_inv_snap:
  assumes "frame_inv dict s" "one_poll (sp_polls (f (ap_snap (ax_app s)))) (sp_timer (f (ap_snap (ax_app s))))"
  shows "frame_inv dict (on_app (ap_snap_update f) s)"
  using assms by (simp add: frame_inv_def)

lemma frame_inv_refresh: "frame_inv dict s \<Longrightarrow> frame_inv dict (on_app (ap_snap_update snap_refresh) s)"
  by (rule frame_inv_snap) (simp_all add: snap_refresh_def snap.restart_one)

lemma frame_inv_action: "frame_inv dict s \<Longrightarrow> frame_inv dict (run_action dict a s)"
  by (cases a) (simp_all add: frame_inv_navigate frame_inv_prefs frame_inv_events)

lemma frame_inv_effects: "frame_inv dict s \<Longrightarrow> frame_inv dict (fold (palette_effect_run dict) es s)"
proof (induction es arbitrary: s)
  case (Cons e es)
  then show ?case by (cases e) (auto intro!: Cons.IH simp: frame_inv_action frame_inv_local frame_local_handlers)
qed simp

lemma frame_inv_key: "frame_inv dict s \<Longrightarrow> frame_inv dict (palette_key dict k s)"
  by (auto simp: palette_key_def intro!: frame_inv_effects frame_inv_local frame_local_handlers split: prod.split)

lemma frame_inv_click: "frame_inv dict s \<Longrightarrow> frame_inv dict (palette_click dict m s)"
  by (cases m) (auto intro!: frame_inv_effects frame_inv_local frame_local_handlers)

lemma frame_inv_update: "frame_inv dict s \<Longrightarrow> frame_inv dict (frame_update dict m s)"
  by (cases m) (auto intro: frame_inv_local frame_local_handlers frame_inv_click frame_inv_prefs frame_inv_events frame_inv_refresh)

lemma frame_inv_env: "frame_inv dict s \<Longrightarrow> frame_env dict s s' \<Longrightarrow> frame_inv dict s'"
proof (erule frame_env.cases; hypsubst)
  assume "frame_inv dict s" "sp_timer (ap_snap (ax_app s))"
  then show "frame_inv dict (on_app (ap_snap_update snap_tick) s)"
    by (intro frame_inv_snap snap.tick_one) (simp_all add: frame_inv_def)
next
  fix i res assume "frame_inv dict s" "i < length (sp_polls (ap_snap (ax_app s)))"
  then show "frame_inv dict (on_app (ap_snap_update (snap_settled (ax_t dict s) i res)) s)"
    by (intro frame_inv_snap snap.settled_one) (simp_all add: frame_inv_def)
qed (simp_all add: frame_inv_navigate frame_inv_key frame_inv_prefs frame_inv_events frame_inv_logout frame_inv_refresh
    events_answered_def frame_inv_loads frame_inv_local frame_local_handlers)

lemma frame_mount_inv: "provider_ok hp \<Longrightarrow> frame_inv dict (frame_mount dict user ses hp pathname search)"
  using snap.restart_one [of snap_initial]
  by (simp add: frame_inv_def frame_mount_def title_effect_def events_effect_def refreshEvents_def app_mount_def heading_effect_def ax_t_def)

interpretation frame: page_machine
  "\<lambda>s. \<exists>user ses hp pathname search. provider_ok hp \<and> s = frame_mount dict user ses hp pathname search" "frame_view dict time rmatch page"
  "frame_update dict" "frame_env dict" "frame_inv dict" for dict time rmatch page
  by unfold_locales (auto simp: frame_mount_inv frame_inv_update frame_inv_env)

section \<open>Running an option\<close>

lemma palette_enter_frame:
  assumes "frame_options dict s \<noteq> []"
  shows "palette_key dict Enter s = run_action dict (pi_run (frame_options dict s ! current (length (frame_options dict s)) (ap_palette (ax_app s))))
     (on_app (set_palette False) s)"
  using assms current_less [of "length (frame_options dict s)" "ap_palette (ax_app s)"]
  by (simp add: palette_key_def nth_option_def palette_choose_def on_app_def)

lemma run_action_palette: "ap_paletteOpen (ax_app (run_action dict a s)) = ap_paletteOpen (ax_app s)"
  by (cases a) (simp_all add: navigate_def title_effect_def app_navigate_def heading_effect_def frame_prefs_def signOut_def Let_def)

lemma set_palette_closes: "\<not> ap_paletteOpen (set_palette False a)" "ap_pathname (set_palette b a) = ap_pathname a"
  by (simp_all add: set_palette_def)

end
