(* ===== verification/Api_Admin.thy ===== *)
theory Api_Admin
  imports Api_Resources
begin

text \<open>
  The rest of the API client: cache entries, updates, configuration and backups of \<open>api.ts\<close>, and the
  modules \<open>api-dhcp.ts\<close>, \<open>api-cluster.ts\<close>, \<open>api-explain.ts\<close> and \<open>api-analytics.ts\<close>.
  Optional members of an answer are options; a list the server may send as null goes through
  \<open>?? []\<close>.
\<close>

section \<open>Cache entries\<close>

record cache_entry =
  ce_name :: jstring
  ce_type :: jstring
  ce_rcode :: jstring
  ce_answers :: "jstring list"
  ce_remaining_ttl :: int

record cache_entry_page =
  cep_entries :: "cache_entry list"
  cep_total :: int

section \<open>Query rankings\<close>

record query_ranking =
  qr_value :: jstring
  qr_count :: int
  qr_name :: "jstring option"

record query_summary =
  qs_window_start :: jstring
  qs_window_end :: jstring
  qs_total :: int
  qs_blocked :: int
  qs_top_domains :: "query_ranking list"
  qs_top_clients :: "query_ranking list"

section \<open>Updates\<close>

record update_status =
  us_state :: jstring
  us_installed :: jstring
  us_from_version :: "jstring option"
  us_to_version :: "jstring option"
  us_channel :: "jstring option"
  us_started_at :: "jstring option"
  us_last_completed :: "jstring option"
  us_updating :: bool
  us_error :: "jstring option"
  us_rollback_used :: "bool option"
  us_readiness_ok :: "bool option"

record update_check =
  uk_installed_version :: jstring
  uk_latest_version :: jstring
  uk_update_available :: bool
  uk_channel :: jstring
  uk_release_date :: "jstring option"
  uk_release_notes :: "jstring option"
  uk_architecture :: jstring
  uk_download_size :: "int option"

record update_entry =
  ue_id :: jstring
  ue_started_at :: jstring
  ue_completed_at :: "jstring option"
  ue_from_version :: jstring
  ue_to_version :: jstring
  ue_channel :: "jstring option"
  ue_state :: jstring
  ue_error :: "jstring option"
  ue_readiness_ok :: bool
  ue_rollback_used :: bool
  ue_deployment_mode :: jstring

section \<open>Configuration\<close>

record config_check =
  ck_valid :: bool
  ck_errors :: "field_error list"
  ck_restart_required :: "jstring list"

definition query_log_config_json :: "query_log_config \<Rightarrow> json" where
  "query_log_config_json q = JObj [(''enabled'', JBool (ql_enabled q)), (''retention'', json_int (ql_retention q)),
     (''max_rows'', json_int (ql_max_rows q)), (''queue_size'', json_int (ql_queue_size q))]"

definition dns_config_json :: "dns_config \<Rightarrow> json" where
  "dns_config_json d = JObj [(''listen'', json_strs (dc_listen d)), (''upstreams'', json_strs (dc_upstreams d)),
     (''allowed_clients'', json_strs (dc_allowed_clients d)), (''timeout'', json_int (dc_timeout d)),
     (''retries'', json_int (dc_retries d)), (''max_concurrent'', json_int (dc_max_concurrent d))]"

definition config_json :: "config \<Rightarrow> json" where
  "config_json c = JObj
     ((case cf_query_log c of None \<Rightarrow> [] | Some q \<Rightarrow> [(''query_log'', query_log_config_json q)])
      @ [(''dns'', dns_config_json (cf_dns c)),
         (''cache'', JObj [(''max_entries'', json_int (cf_cache_max_entries c)), (''upstream_ttl'', json_int (cf_cache_upstream_ttl c))]),
         (''http'', JObj [(''listen'', JStr (cf_http_listen c)), (''web_dir'', JStr (cf_http_web_dir c)),
            (''allowed_hosts'', json_strs (cf_http_allowed_hosts c))]),
         (''log_level'', JStr (cf_log_level c))])"

definition validateConfig_call :: "config \<Rightarrow> call" where
  "validateConfig_call c = send_call ''/api/v1/config/validate'' ''POST'' (Some (config_json c))"

definition saveConfig_call :: "config \<Rightarrow> call" where
  "saveConfig_call c = send_call ''/api/v1/config'' ''PUT'' (Some (config_json c))"

record rate_limit_status =
  rs_enabled :: bool
  rs_rejected_total :: jsnum
  rs_last_rejected_at :: "jstring option"

section \<open>Backups\<close>

record backup_metadata =
  bm_format_version :: int
  bm_velora_version :: jstring
  bm_created_at :: jstring
  bm_schema_version :: int
  bm_components :: "jstring list"

record backup_summary =
  bu_zones :: int
  bu_records :: int
  bu_blocklists :: int
  bu_clients :: int
  bu_rewrites :: int
  bu_forward_rules :: int
  bu_users :: int
  bu_dns_listen :: "jstring list"
  bu_upstreams :: "jstring list"
  bu_http_listen :: jstring
  bu_current_version :: jstring
  bu_current_schema :: int
  bu_warnings :: "jstring list"

record backup_inspection =
  bi_token :: jstring
  bi_expires_at :: jstring
  bi_metadata :: backup_metadata
  bi_summary :: backup_summary

datatype restore_outcome = RO_pending | RO_applied | RO_completed | RO_rolled_back | RO_failed

fun restore_outcome_name :: "restore_outcome \<Rightarrow> jstring" where
  "restore_outcome_name RO_pending = ''pending''"
| "restore_outcome_name RO_applied = ''applied''"
| "restore_outcome_name RO_completed = ''completed''"
| "restore_outcome_name RO_rolled_back = ''rolled_back''"
| "restore_outcome_name RO_failed = ''failed''"

text \<open>\<open>state?.metadata\<close> is checked at run time: an older server may leave it out.\<close>

record restore_state =
  re_state :: restore_outcome
  re_metadata :: "backup_metadata option"
  re_safety_copy :: "jstring option"
  re_error :: "jstring option"
  re_updated_at :: jstring

section \<open>DHCP\<close>

record dhcp_pool_input =
  dp_name :: jstring
  dp_interface :: jstring
  dp_subnet :: jstring
  dp_gateway :: jstring
  dp_dns_servers :: "jstring list"
  dp_lease_seconds :: jsnum
  dp_enabled :: bool

record dhcp_pool = dhcp_pool_input +
  dp_id :: int
  dp_created_at :: jstring
  dp_updated_at :: jstring

record dhcp_reservation_input =
  dr_mac_address :: jstring
  dr_ip_address :: jstring
  dr_hostname :: jstring

record dhcp_reservation = dhcp_reservation_input +
  dr_id :: int
  dr_pool_id :: int

record dhcp_lease =
  dl_id :: int
  dl_pool_id :: int
  dl_mac_address :: jstring
  dl_ip_address :: jstring
  dl_hostname :: jstring
  dl_client_id :: jstring
  dl_expires_at :: jstring
  dl_status :: jstring
  dl_created_at :: jstring

definition pool_input_json :: "('z) dhcp_pool_input_scheme \<Rightarrow> json" where
  "pool_input_json p = JObj [(''name'', JStr (dp_name p)), (''interface'', JStr (dp_interface p)),
     (''subnet'', JStr (dp_subnet p)), (''gateway'', JStr (dp_gateway p)), (''dns_servers'', json_strs (dp_dns_servers p)),
     (''lease_seconds'', json_num (dp_lease_seconds p)), (''enabled'', JBool (dp_enabled p))]"

definition loadPools_call :: call where
  "loadPools_call = get_call ''/api/v1/dhcp/pools''"

text \<open>\<open>(await request(..)) ?? []\<close>\<close>

definition or_empty :: "'a list option result \<Rightarrow> 'a list result" where
  "or_empty res = map_sum id (\<lambda>x. nullish x []) res"

definition createPool_call :: "dhcp_pool_input \<Rightarrow> call" where
  "createPool_call p = send_call ''/api/v1/dhcp/pools'' ''POST'' (Some (pool_input_json p))"

definition deletePool_call :: "int \<Rightarrow> call" where
  "deletePool_call n = send_call (''/api/v1/dhcp/pools/'' @ show_int n) ''DELETE'' None"

definition loadReservations_call :: "int \<Rightarrow> call" where
  "loadReservations_call n = get_call (''/api/v1/dhcp/pools/'' @ show_int n @ ''/reservations'')"

definition createReservation_call :: "int \<Rightarrow> dhcp_reservation_input \<Rightarrow> call" where
  "createReservation_call n r = send_call (''/api/v1/dhcp/pools/'' @ show_int n @ ''/reservations'') ''POST''
     (Some (JObj [(''mac_address'', JStr (dr_mac_address r)), (''ip_address'', JStr (dr_ip_address r)),
        (''hostname'', JStr (dr_hostname r))]))"

definition deleteReservation_call :: "int \<Rightarrow> call" where
  "deleteReservation_call n = send_call (''/api/v1/dhcp/reservations/'' @ show_int n) ''DELETE'' None"

definition loadLeases_call :: call where
  "loadLeases_call = get_call ''/api/v1/dhcp/leases''"

definition deleteLease_call :: "int \<Rightarrow> call" where
  "deleteLease_call n = send_call (''/api/v1/dhcp/leases/'' @ show_int n) ''DELETE'' None"

section \<open>Cluster\<close>

record cluster_node =
  cn_id :: jstring
  cn_name :: jstring
  cn_address :: jstring
  cn_capabilities :: "jstring list"
  cn_version :: jstring
  cn_status :: jstring
  cn_last_seen_at :: jstring

record config_version =
  cv_version :: int
  cv_config_hash :: jstring
  cv_applied_by :: jstring
  cv_applied_at :: jstring

definition loadClusterNodes_call :: call where
  "loadClusterNodes_call = get_call ''/api/v1/cluster/nodes''"

definition deleteClusterNode_call :: "jstring \<Rightarrow> call" where
  "deleteClusterNode_call n = send_call (''/api/v1/cluster/nodes/'' @ n) ''DELETE'' None"

definition loadConfigVersions_call :: "nat \<Rightarrow> call" where
  "loadConfigVersions_call limit = get_call (''/api/v1/cluster/config-versions?limit='' @ show_nat limit)"

fun cluster_role_name :: "cluster_role \<Rightarrow> jstring" where
  "cluster_role_name Standalone = ''standalone''"
| "cluster_role_name Primary = ''primary''"
| "cluster_role_name Replica = ''replica''"

datatype member_status = MS_in_sync | MS_behind | MS_stale | MS_error | MS_never_synced

fun member_status_name :: "member_status \<Rightarrow> jstring" where
  "member_status_name MS_in_sync = ''in_sync''"
| "member_status_name MS_behind = ''behind''"
| "member_status_name MS_stale = ''stale''"
| "member_status_name MS_error = ''error''"
| "member_status_name MS_never_synced = ''never_synced''"

record cluster_state =
  ct_role :: cluster_role
  ct_cluster_id :: jstring
  ct_node_id :: jstring
  ct_node_name :: jstring
  ct_advertised_url :: jstring
  ct_primary_url :: jstring
  ct_allow_insecure :: bool
  ct_created_at :: "jstring option"
  ct_last_sync_at :: "jstring option"
  ct_last_sync_error :: jstring
  ct_applied_revision :: jstring

record cluster_member =
  cm_node_id :: jstring
  cm_name :: jstring
  cm_address :: jstring
  cm_version :: jstring
  cm_joined_at :: jstring
  cm_last_seen_at :: "jstring option"
  cm_applied_revision :: jstring
  cm_last_error :: jstring
  cm_status :: member_status

record cluster_overview =
  co_state :: cluster_state
  co_revision :: jstring
  co_members :: "cluster_member list"
  co_zones_read_only :: bool
  co_protocol :: int
  co_version :: jstring
  co_replicated_zones :: int

record create_cluster =
  cc_name :: jstring
  cc_advertised_url :: jstring
  cc_allow_insecure :: bool
  cc_skip_check :: bool

record join_cluster =
  cj_primary_url :: jstring
  cj_token :: jstring
  cj_name :: jstring
  cj_allow_insecure :: bool

record join_token =
  jt_token :: jstring
  jt_expires_at :: jstring

definition loadClusterOverview_call :: call where
  "loadClusterOverview_call = get_call ''/api/v1/cluster/overview''"

definition createCluster_call :: "create_cluster \<Rightarrow> call" where
  "createCluster_call b = send_call ''/api/v1/cluster/create'' ''POST''
     (Some (JObj [(''name'', JStr (cc_name b)), (''advertised_url'', JStr (cc_advertised_url b)),
        (''allow_insecure'', JBool (cc_allow_insecure b)), (''skip_check'', JBool (cc_skip_check b))]))"

definition issueJoinToken_call :: call where
  "issueJoinToken_call = send_call ''/api/v1/cluster/join-tokens'' ''POST'' None"

definition joinCluster_call :: "join_cluster \<Rightarrow> call" where
  "joinCluster_call b = send_call ''/api/v1/cluster/connect'' ''POST''
     (Some (JObj [(''primary_url'', JStr (cj_primary_url b)), (''token'', JStr (cj_token b)),
        (''name'', JStr (cj_name b)), (''allow_insecure'', JBool (cj_allow_insecure b))]))"

definition syncCluster_call :: call where
  "syncCluster_call = send_call ''/api/v1/cluster/sync'' ''POST'' None"

definition removeClusterMember_call :: "jstring \<Rightarrow> call" where
  "removeClusterMember_call n = send_call (''/api/v1/cluster/members/'' @ encodeURIComponent n) ''DELETE'' None"

definition leaveCluster_call :: call where
  "leaveCluster_call = send_call ''/api/v1/cluster/leave'' ''POST'' None"

definition dissolveCluster_call :: call where
  "dissolveCluster_call = send_call ''/api/v1/cluster/dissolve'' ''POST'' None"

section \<open>Answer explanation\<close>

definition EXPLAIN_TYPES :: "jstring list" where
  "EXPLAIN_TYPES = [''A'', ''AAAA'', ''CNAME'', ''TXT'', ''MX'', ''NS'', ''PTR'', ''SOA'']"

record explain_rule =
  xr_id :: "int option"
  xr_name :: jstring
  xr_detail :: "jstring option"

datatype filter_scope = Scope_global | Scope_client_policy

record explain_filter =
  xf_scope :: filter_scope
  xf_client :: "jstring option"
  xf_mode :: "jstring option"
  xf_matches :: "explain_rule list option"
  xf_allowed_by :: "explain_rule list option"

text \<open>Stages and sources only ever become parts of translation keys.\<close>

record explain_step =
  xs_stage :: jstring
  xs_result :: jstring
  xs_rules :: "explain_rule list option"
  xs_filter :: "explain_filter option"
  xs_remaining_ttl :: "int option"
  xs_depth :: int

record answer_explanation =
  xa_name :: jstring
  xa_type :: jstring
  xa_client :: "jstring option"
  xa_source :: jstring
  xa_winner :: explain_step
  xa_rcode :: "jstring option"
  xa_answers :: "jstring list"
  xa_steps :: "explain_step list"

definition explainAnswer_call :: "jstring \<Rightarrow> jstring \<Rightarrow> jstring option \<Rightarrow> call" where
  "explainAnswer_call name type client = send_call ''/api/v1/diagnostics/explain'' ''POST''
     (Some (JObj ([(''name'', JStr name), (''type'', JStr type)]
        @ (case client of None \<Rightarrow> [] | Some c \<Rightarrow> [(''client'', JStr c)]))))"

section \<open>Analytics\<close>

datatype analytics_range = R_1h | R_24h | R_7d | R_30d

fun range_name :: "analytics_range \<Rightarrow> jstring" where
  "range_name R_1h = ''1h''"
| "range_name R_24h = ''24h''"
| "range_name R_7d = ''7d''"
| "range_name R_30d = ''30d''"

record analytics_bucket =
  ab_start :: jstring
  ab_total :: int
  ab_blocked :: int
  ab_cached :: int
  ab_failed :: int
  ab_average_ms :: rat

record upstream_usage =
  uu_address :: jstring
  uu_queries :: int
  uu_failed :: int
  uu_average_ms :: rat

record analytics =
  an_range :: analytics_range
  an_window_start :: jstring
  an_window_end :: jstring
  an_bucket_seconds :: int
  an_history_start :: "jstring option"
  an_totals :: analytics_bucket
  an_series :: "analytics_bucket list"
  an_query_types :: "query_ranking list"
  an_response_codes :: "query_ranking list"
  an_sources :: "query_ranking list"
  an_upstreams :: "upstream_usage list"
  an_top_blocked :: "query_ranking list"

definition loadAnalytics_call :: "analytics_range \<Rightarrow> call" where
  "loadAnalytics_call r = get_call (''/api/v1/analytics?range='' @ range_name r)"

end
