(* ===== verification/Requests.thy ===== *)
theory Requests
  imports Api_Admin Ui
begin

text \<open>
  The type of the requests: every call goes to the versioned API, with one of the methods the server
  knows, a path and a query in the characters a URL may have there, and no body or revision on a read. The
  locale carries it from the calls that the handlers build to the requests in flight of every reachable
  state.
\<close>

definition url_char :: "char \<Rightarrow> bool" where
  "url_char c \<longleftrightarrow> uri_unreserved c \<or> c \<in> set ''%/?=&+''"

definition wf_path :: "jstring \<Rightarrow> bool" where
  "wf_path p \<longleftrightarrow> take 8 p = ''/api/v1/'' \<and> list_all url_char p"

definition wf_call :: "call \<Rightarrow> bool" where
  "wf_call c \<longleftrightarrow> wf_path (c_path c) \<and> c_method c \<in> {''GET'', ''POST'', ''PUT'', ''DELETE''} \<and>
     (c_method c = ''GET'' \<longrightarrow> c_body c = None \<and> c_revision c = None)"

section \<open>Paths\<close>

lemma url_char_digit: "is_digit c \<Longrightarrow> url_char c"
  by (auto simp: url_char_def uri_unreserved_def is_digit_def is_alnum_def Let_def)

lemma path_show_nat [simp]: "list_all url_char (show_nat n)"
  by (auto simp: list_all_iff intro: url_char_digit show_nat_digits)

lemma url_char_lit [simp]:
  "url_char CHR ''/''" "url_char CHR ''?''" "url_char CHR ''=''" "url_char CHR ''&''" "url_char CHR ''-''"
  by (simp_all add: url_char_def uri_unreserved_def)

lemma path_show_int [simp]: "list_all url_char (show_int i)"
  by (simp add: show_int_def)

lemma path_encoded [simp]: "list_all url_char (encodeURIComponent s)"
  using encodeURIComponent_chars by (fastforce simp: list_all_iff url_char_def)

lemma path_form_encoded [simp]: "list_all url_char (form_encode s)"
  using pct_char_chars
  by (fastforce simp: list_all_iff url_char_def uri_unreserved_def form_encode_def split: if_splits)

lemma path_join: "list_all url_char sep \<Longrightarrow> list_all (list_all url_char) ps \<Longrightarrow> list_all url_char (js_join sep ps)"
  by (induction sep ps rule: js_join.induct) simp_all

lemma path_params [simp]: "list_all url_char (url_search_params ps)"
proof -
  have "list_all (list_all url_char) (map (\<lambda>(k, v). form_encode k @ ''='' @ form_encode v) ps)"
    by (induction ps) auto
  then show ?thesis unfolding url_search_params_def by (intro path_join) simp_all
qed

lemma path_letters [simp]: "is_alnum c \<Longrightarrow> url_char c"
  by (simp add: url_char_def uri_unreserved_def)

text \<open>A path that starts with a literal, checked character by character.\<close>

lemma wf_path_append: "wf_path p \<Longrightarrow> list_all url_char q \<Longrightarrow> wf_path (p @ q)"
  by (auto simp: wf_path_def dest: arg_cong [where f = length])

lemma wf_calls:
  "wf_call (get_call p) \<longleftrightarrow> wf_path p"
  "wf_call (send_call p m b) \<longleftrightarrow> wf_path p \<and> (m = ''POST'' \<or> m = ''PUT'' \<or> m = ''DELETE'' \<or> m = ''GET'' \<and> b = None)"
  by (auto simp: wf_call_def get_call_def send_call_def)

lemma wf_path_api:
  "wf_path (CHR ''/'' # CHR ''a'' # CHR ''p'' # CHR ''i'' # CHR ''/'' # CHR ''v'' # CHR ''1'' # CHR ''/'' # p) \<longleftrightarrow> list_all url_char p"
  by (simp add: wf_path_def) (simp add: url_char_def uri_unreserved_def is_alnum_def)

lemmas wf_request = wf_calls wf_path_api is_alnum_def

section \<open>Pages\<close>

definition sends_typed :: "call list \<Rightarrow> call list \<Rightarrow> bool" where
  "sends_typed xs ys \<longleftrightarrow> set ys \<subseteq> set xs \<union> Collect wf_call"

lemma sends_typed_refl [simp]: "sends_typed xs xs"
  by (simp add: sends_typed_def)

lemma sends_typed_append [simp]: "wf_call c \<Longrightarrow> sends_typed xs (xs @ [c])"
  by (auto simp: sends_typed_def)

lemma sends_typed_subset: "set ys \<subseteq> set xs \<Longrightarrow> sends_typed xs ys"
  by (auto simp: sends_typed_def)

lemma sends_typed_remove [simp]: "sends_typed (map f xs) (map f (remove_nth i xs))" "sends_typed ys (remove_nth i ys)"
  using set_remove_nth [of i xs] set_remove_nth [of i ys] by (auto intro!: sends_typed_subset imageI simp: subset_iff)

definition page_typed ::
  "('s \<Rightarrow> bool) \<Rightarrow> ('s \<Rightarrow> 'm node list) \<Rightarrow> ('m \<Rightarrow> 's \<Rightarrow> 's) \<Rightarrow> ('s \<Rightarrow> 's \<Rightarrow> bool) \<Rightarrow> ('s \<Rightarrow> call list) \<Rightarrow> bool" where
  "page_typed init view update env calls \<longleftrightarrow> (\<forall>s. ui_reach init view update env s \<longrightarrow> list_all wf_call (calls s))"

locale typed_page =
  fixes init :: "'s \<Rightarrow> bool" and view :: "'s \<Rightarrow> 'm node list" and update :: "'m \<Rightarrow> 's \<Rightarrow> 's"
    and env :: "'s \<Rightarrow> 's \<Rightarrow> bool" and calls :: "'s \<Rightarrow> call list"
  assumes init_calls: "init s \<Longrightarrow> list_all wf_call (calls s)"
    and user_calls: "m \<in> fires (view s) \<Longrightarrow> sends_typed (calls s) (calls (update m s))"
    and env_calls: "env s s' \<Longrightarrow> sends_typed (calls s) (calls s')"

sublocale typed_page \<subseteq> typed: page_machine init view update env "\<lambda>s. list_all wf_call (calls s)"
proof unfold_locales
  show "list_all wf_call (calls (update m s))" if "list_all wf_call (calls s)" "m \<in> fires (view s)" for s m
    using that(1) user_calls [OF that(2)] by (auto simp: sends_typed_def list_all_iff)
  show "list_all wf_call (calls s')" if "list_all wf_call (calls s)" "env s s'" for s s'
    using that(1) env_calls [OF that(2)] by (auto simp: sends_typed_def list_all_iff)
qed (rule init_calls)

context typed_page
begin

lemma reach_typed: "ui_reach init view update env s \<Longrightarrow> list_all wf_call (calls s)"
  by (rule typed.reach_inv)

lemma is_typed: "page_typed init view update env calls"
  unfolding page_typed_def using reach_typed by blast

end

end
