(* ===== verification/Zone_Types.thy ===== *)
theory Zone_Types
  imports Api_Resources
begin

text \<open>
  \<open>zones/types.ts\<close>: zones, records and the display name of a record's owner; and the request
  each change of \<open>zones/useZones.ts\<close> makes.
\<close>

datatype record_type = RT_A | RT_AAAA | RT_CNAME | RT_TXT | RT_MX | RT_NS | RT_PTR

definition recordTypes :: "record_type list" where
  "recordTypes = [RT_A, RT_AAAA, RT_CNAME, RT_TXT, RT_MX, RT_NS, RT_PTR]"

fun record_type_name :: "record_type \<Rightarrow> jstring" where
  "record_type_name RT_A = ''A''"
| "record_type_name RT_AAAA = ''AAAA''"
| "record_type_name RT_CNAME = ''CNAME''"
| "record_type_name RT_TXT = ''TXT''"
| "record_type_name RT_MX = ''MX''"
| "record_type_name RT_NS = ''NS''"
| "record_type_name RT_PTR = ''PTR''"

definition record_type_of :: "jstring \<Rightarrow> record_type option" where
  "record_type_of v = find (\<lambda>ty. record_type_name ty = v) recordTypes"

record zone_record =
  zr_id :: int
  zr_name :: jstring
  zr_type :: record_type
  zr_ttl :: int
  zr_value :: jstring
  zr_priority :: int

record zone =
  zn_id :: int
  zn_name :: jstring
  zn_primary_ns :: jstring
  zn_contact :: jstring
  zn_revision :: int
  zn_records :: "zone_record list"

record record_input =
  ni_name :: jstring
  ni_type :: record_type
  ni_ttl :: int
  ni_value :: jstring
  ni_priority :: int

record zone_input =
  zi_name :: jstring
  zi_primary_ns :: "jstring option"
  zi_contact :: "jstring option"

definition ownerName :: "jstring \<Rightarrow> jstring \<Rightarrow> jstring" where
  "ownerName name zone =
     (if name = zone then ''@''
      else if ends_with name (''.'' @ zone) then take (length name - length zone - 1) name
      else name)"

definition record_input_json :: "record_input \<Rightarrow> json" where
  "record_input_json i = JObj [(''name'', JStr (ni_name i)), (''type'', JStr (record_type_name (ni_type i))),
     (''ttl'', json_int (ni_ttl i)), (''value'', JStr (ni_value i)), (''priority'', json_int (ni_priority i))]"

text \<open>\<open>JSON.stringify\<close> leaves out a field that is undefined.\<close>

definition zone_input_json :: "zone_input \<Rightarrow> json" where
  "zone_input_json i = JObj ([(''name'', JStr (zi_name i))]
     @ (case zi_primary_ns i of None \<Rightarrow> [] | Some v \<Rightarrow> [(''primary_ns'', JStr v)])
     @ (case zi_contact i of None \<Rightarrow> [] | Some v \<Rightarrow> [(''contact'', JStr v)]))"

text \<open>
  A change in flight, with what its continuation has captured. The number is the instance of the
  form that submitted it.
\<close>

datatype zone_op =
    Op_Create zone_input nat
  | Op_Save zone record_input "zone_record option" nat
  | Op_Remove zone "zone_record option"

fun zone_op_call :: "zone_op \<Rightarrow> call" where
  "zone_op_call (Op_Create i k) =
     \<lparr>c_path = ''/api/v1/zones'', c_method = ''POST'', c_body = Some (zone_input_json i), c_revision = None\<rparr>"
| "zone_op_call (Op_Save z i r k) =
     \<lparr>c_path = ''/api/v1/zones/'' @ show_int (zn_id z) @ ''/records''
        @ (case r of None \<Rightarrow> '''' | Some x \<Rightarrow> ''/'' @ show_int (zr_id x)),
      c_method = (case r of None \<Rightarrow> ''POST'' | Some x \<Rightarrow> ''PUT''),
      c_body = Some (record_input_json i), c_revision = Some (zn_revision z)\<rparr>"
| "zone_op_call (Op_Remove z r) =
     \<lparr>c_path = ''/api/v1/zones/'' @ show_int (zn_id z)
        @ (case r of None \<Rightarrow> '''' | Some x \<Rightarrow> ''/records/'' @ show_int (zr_id x)),
      c_method = ''DELETE'', c_body = None, c_revision = Some (zn_revision z)\<rparr>"

text \<open>The name a record with the displayed owner has in the zone.\<close>

definition full_name :: "jstring \<Rightarrow> jstring \<Rightarrow> jstring" where
  "full_name owner zone = (if owner = ''@'' then zone else owner @ ''.'' @ zone)"

definition in_zone :: "jstring \<Rightarrow> jstring \<Rightarrow> bool" where
  "in_zone name zone \<longleftrightarrow> name = zone \<or> ends_with name (''.'' @ zone)"

lemma ownerName_below: "ownerName (q @ ''.'' @ zone) zone = q"
proof -
  have "q @ ''.'' @ zone \<noteq> zone"
  proof
    assume "q @ ''.'' @ zone = zone"
    then have "length (q @ ''.'' @ zone) = length zone" by (rule arg_cong)
    then show False by simp
  qed
  moreover have "ends_with (q @ ''.'' @ zone) (''.'' @ zone)" by (rule ends_with_append)
  ultimately show ?thesis by (simp add: ownerName_def)
qed

lemma ownerName_apex [simp]: "ownerName zone zone = ''@''"
  by (simp add: ownerName_def)

lemma ownerName_outside: "\<not> in_zone name zone \<Longrightarrow> ownerName name zone = name"
  by (simp add: ownerName_def in_zone_def)

lemma full_name_ownerName:
  assumes "in_zone name zone" "name \<noteq> ''@.'' @ zone"
  shows "full_name (ownerName name zone) zone = name"
proof (cases "name = zone")
  case False
  then obtain q where q: "name = q @ ''.'' @ zone" using assms(1) by (auto simp: in_zone_def ends_with_iff)
  then have "q \<noteq> ''@''" using assms(2) by auto
  then show ?thesis unfolding q ownerName_below by (simp add: full_name_def)
qed (simp add: full_name_def)

lemma zone_op_is_write: "is_write (zone_op_call op)"
  by (cases op) (auto simp: is_write_def split: option.splits)

end
