(* ===== verification/Use_Zones.thy ===== *)
theory Use_Zones
  imports Zone_Types Snapshot
begin

text \<open>
  \<open>zones/useZones.ts\<close>: the list of zones, its loads (each with the flag of its abort
  controller) and its changes. \<open>collate a b\<close> is \<open>a.localeCompare(b) <= 0\<close>, the host's
  collation.
\<close>

record use_zones =
  uz_zones :: "zone list option"
  uz_error :: jstring
  uz_loading :: bool
  uz_busy :: bool
  uz_revision :: nat
  uz_active :: bool
  uz_loads :: "bool list"
  uz_ops :: "zone_op list"

definition uz_initial :: use_zones where
  "uz_initial = \<lparr>uz_zones = None, uz_error = [], uz_loading = False, uz_busy = False, uz_revision = 0,
     uz_active = True, uz_loads = [], uz_ops = []\<rparr>"

text \<open>
  The load effect: the previous run is aborted, and the microtask that follows sets the loading
  flag and sends the request. Microtasks run before any other event, so the two are one step; a
  run that is aborted before its microtask (strict mode mounts twice) does nothing.
\<close>

definition uz_effect :: "use_zones \<Rightarrow> use_zones" where
  "uz_effect s = s\<lparr>uz_loads := abort_all (uz_loads s) @ [False], uz_loading := True\<rparr>"

definition uz_reload :: "use_zones \<Rightarrow> use_zones" where
  "uz_reload s = uz_effect (s\<lparr>uz_loading := True, uz_revision := uz_revision s + 1\<rparr>)"

definition uz_load_settled :: "(jstring \<Rightarrow> jstring) \<Rightarrow> nat \<Rightarrow> zone list result \<Rightarrow> use_zones \<Rightarrow> use_zones" where
  "uz_load_settled t i res s =
     (let aborted = uz_loads s ! i; s0 = s\<lparr>uz_loads := remove_nth i (uz_loads s)\<rparr> in
      if aborted then s0
      else (case res of
          Inr d \<Rightarrow> s0\<lparr>uz_zones := Some d, uz_error := []\<rparr>
        | Inl e \<Rightarrow> s0\<lparr>uz_error := error_text e (t ''zones.load_failed'')\<rparr>)\<lparr>uz_loading := False\<rparr>)"

definition by_name :: "(jstring \<Rightarrow> jstring \<Rightarrow> bool) \<Rightarrow> zone \<Rightarrow> zone \<Rightarrow> bool" where
  "by_name collate a b \<longleftrightarrow> collate (zn_name a) (zn_name b)"

definition publish_list :: "(jstring \<Rightarrow> jstring \<Rightarrow> bool) \<Rightarrow> zone \<Rightarrow> zone list option \<Rightarrow> zone list" where
  "publish_list collate z current =
     js_sort (by_name collate) (filter (\<lambda>x. zn_id x \<noteq> zn_id z) (nullish current []) @ [z])"

definition publish :: "(jstring \<Rightarrow> jstring \<Rightarrow> bool) \<Rightarrow> zone \<Rightarrow> use_zones \<Rightarrow> use_zones" where
  "publish collate z s =
     (if uz_active s then s\<lparr>uz_zones := Some (publish_list collate z (uz_zones s))\<rparr> else s)"

text \<open>\<open>mutate\<close> up to the awaited request.\<close>

definition uz_start :: "zone_op \<Rightarrow> use_zones \<Rightarrow> use_zones" where
  "uz_start op s = s\<lparr>uz_busy := True, uz_ops := uz_ops s @ [op]\<rparr>"

text \<open>
  The continuation of \<open>create\<close>, \<open>saveRecord\<close> and \<open>remove\<close>. The server answers a
  change of records with the updated zone; the answer to a zone's removal is not used.
\<close>

definition uz_commit :: "(jstring \<Rightarrow> jstring \<Rightarrow> bool) \<Rightarrow> zone_op \<Rightarrow> zone \<Rightarrow> use_zones \<Rightarrow> use_zones" where
  "uz_commit collate op z s = (case op of
      Op_Create i k \<Rightarrow> publish collate z s
    | Op_Save zn i r k \<Rightarrow> publish collate z s
    | Op_Remove zn (Some r) \<Rightarrow> publish collate z s
    | Op_Remove zn None \<Rightarrow>
        (if uz_active s then s\<lparr>uz_zones := Some (filter (\<lambda>x. zn_id x \<noteq> zn_id zn) (nullish (uz_zones s) []))\<rparr> else s))"

definition uz_settled :: "(jstring \<Rightarrow> jstring \<Rightarrow> bool) \<Rightarrow> nat \<Rightarrow> zone result \<Rightarrow> use_zones \<Rightarrow> use_zones" where
  "uz_settled collate i res s =
     (let op = uz_ops s ! i; s0 = s\<lparr>uz_ops := remove_nth i (uz_ops s)\<rparr>;
          s1 = (case res of Inl e \<Rightarrow> s0 | Inr z \<Rightarrow> uz_commit collate op z s0)
      in if uz_active s1 then s1\<lparr>uz_busy := False\<rparr> else s1)"

definition uz_unmount :: "use_zones \<Rightarrow> use_zones" where
  "uz_unmount s = s\<lparr>uz_active := False, uz_loads := abort_all (uz_loads s)\<rparr>"

section \<open>Publishing a zone\<close>

lemma publish_list_set:
  "set (publish_list collate z current) = insert z {x \<in> set (nullish current []). zn_id x \<noteq> zn_id z}"
  by (auto simp: publish_list_def)

lemma publish_list_distinct:
  "distinct (map zn_id (nullish current [])) \<Longrightarrow> distinct (map zn_id (publish_list collate z current))"
  unfolding publish_list_def distinct_js_sort by (auto simp: distinct_map inj_on_def)

lemma publish_list_sorted:
  assumes "\<And>a b. collate a b \<or> collate b a" and "\<And>a b c. collate a b \<Longrightarrow> collate b c \<Longrightarrow> collate a c"
  shows "sorted_wrt (by_name collate) (publish_list collate z current)"
  unfolding publish_list_def by (rule sorted_js_sort) (use assms in \<open>auto simp: by_name_def\<close>)

section \<open>Frame facts\<close>

lemma publish_frame [simp]:
  "uz_error (publish c z s) = uz_error s" "uz_loading (publish c z s) = uz_loading s"
  "uz_busy (publish c z s) = uz_busy s" "uz_active (publish c z s) = uz_active s"
  "uz_loads (publish c z s) = uz_loads s" "uz_ops (publish c z s) = uz_ops s"
  by (simp_all add: publish_def)

lemma commit_frame [simp]:
  "uz_error (uz_commit c op z s) = uz_error s" "uz_loading (uz_commit c op z s) = uz_loading s"
  "uz_busy (uz_commit c op z s) = uz_busy s" "uz_active (uz_commit c op z s) = uz_active s"
  "uz_loads (uz_commit c op z s) = uz_loads s" "uz_ops (uz_commit c op z s) = uz_ops s"
  by (auto simp: uz_commit_def split: zone_op.splits option.splits)

lemma settled_frame [simp]:
  "uz_error (uz_settled c i r s) = uz_error s" "uz_loading (uz_settled c i r s) = uz_loading s"
  "uz_active (uz_settled c i r s) = uz_active s" "uz_loads (uz_settled c i r s) = uz_loads s"
  "uz_ops (uz_settled c i r s) = remove_nth i (uz_ops s)"
  "uz_busy (uz_settled c i r s) = (uz_busy s \<and> \<not> uz_active s)"
  by (auto simp: uz_settled_def Let_def split: sum.splits)

end
