(* ===== verification/Zone_Forms.thy ===== *)
theory Zone_Forms
  imports Use_Zones
begin

text \<open>
  The zone page's child components: \<open>zones/ZoneForm.tsx\<close>, \<open>zones/RecordForm.tsx\<close> and
  \<open>zones/RecordTable.tsx\<close>. A form's state is one mounted instance, numbered so that a
  continuation can tell whether the instance that submitted is still mounted.
\<close>

section \<open>ZoneForm\<close>

record zone_form =
  zf_inst :: nat
  zf_name :: jstring
  zf_primary :: jstring
  zf_contact :: jstring
  zf_error :: jstring

definition zone_form_init :: "nat \<Rightarrow> zone_form" where
  "zone_form_init k = \<lparr>zf_inst = k, zf_name = [], zf_primary = [], zf_contact = [], zf_error = []\<rparr>"

datatype zone_form_msg = ZF_Name jstring | ZF_Primary jstring | ZF_Contact jstring | ZF_Submit | ZF_Cancel

text \<open>\<open>primary || undefined\<close>\<close>

definition or_undefined :: "jstring \<Rightarrow> jstring option" where
  "or_undefined s = (if s = [] then None else Some s)"

definition zone_form_input :: "zone_form \<Rightarrow> zone_input" where
  "zone_form_input f = \<lparr>zi_name = zf_name f, zi_primary_ns = or_undefined (zf_primary f),
     zi_contact = or_undefined (zf_contact f)\<rparr>"

definition zone_form_failed :: "(jstring \<Rightarrow> jstring) \<Rightarrow> exn \<Rightarrow> zone_form \<Rightarrow> zone_form" where
  "zone_form_failed t e f = f\<lparr>zf_error := error_text e (t ''zones.create_failed'')\<rparr>"

definition zone_form_view :: "(jstring \<Rightarrow> jstring) \<Rightarrow> bool \<Rightarrow> zone_form \<Rightarrow> zone_form_msg node" where
  [view_defs]: "zone_form_view t busy f =
     El T_form [Cls ''zone-form'', A ''aria-label'' (t ''zones.create_zone_aria''), OnSubmit ZF_Submit]
       [El T_h3 [] [Txt (t ''zones.create_title'')],
        El T_p [] [Txt (t ''zones.create_text'')],
        El T_fieldset [Disabled busy]
          ([El T_label [] [Txt (t ''zones.zone_name''),
              El T_input [A ''value'' (zf_name f), OnChange ZF_Name, Flag ''required'', Flag ''autoFocus'',
                AN ''maxLength'' 253, A ''placeholder'' ''home.arpa'', A ''autoComplete'' ''off''] []],
            El T_details []
              [El T_summary [] [Txt (t ''zones.authority_settings'')],
               El T_div [Cls ''form-grid'']
                 [El T_label [] [Txt (t ''zones.primary_nameserver''),
                    El T_input [A ''value'' (zf_primary f), OnChange ZF_Primary, A ''placeholder'' ''ns.home.arpa'',
                      AN ''maxLength'' 253] []],
                  El T_label [] [Txt (t ''zones.contact_mailbox''),
                    El T_input [A ''value'' (zf_contact f), OnChange ZF_Contact, A ''placeholder'' ''hostmaster.home.arpa'',
                      AN ''maxLength'' 253] []]]]]
           @ render_if (zf_error f \<noteq> []) [El T_p [Cls ''notice error'', A ''role'' ''alert''] [Txt (zf_error f)]]
           @ [El T_div [Cls ''form-actions'']
                [El T_button [Cls ''button primary'', A ''type'' ''submit'']
                   [Txt (if busy then t ''zones.creating'' else t ''zones.create_zone'')],
                 El T_button [Cls ''button'', A ''type'' ''button'', OnClick ZF_Cancel] [Txt (t ''zones.cancel'')]]])]"

section \<open>RecordForm\<close>

record record_form =
  rf_inst :: nat
  rf_key :: "int \<times> int option"
  rf_name :: jstring
  rf_type :: record_type
  rf_ttl :: jstring
  rf_value :: jstring
  rf_priority :: jstring
  rf_error :: jstring

text \<open>The instance key: the zone's identifier and the record's, if one is edited.\<close>

definition form_key :: "zone \<Rightarrow> zone_record option \<Rightarrow> int \<times> int option" where
  "form_key z r = (zn_id z, map_option zr_id r)"

definition record_form_init :: "nat \<Rightarrow> zone \<Rightarrow> zone_record option \<Rightarrow> record_form" where
  "record_form_init k z r = \<lparr>rf_inst = k, rf_key = form_key z r,
     rf_name = (case r of None \<Rightarrow> [] | Some x \<Rightarrow> ownerName (zr_name x) (zn_name z)),
     rf_type = nullish (map_option zr_type r) RT_A,
     rf_ttl = show_int (nullish (map_option zr_ttl r) 300),
     rf_value = nullish (map_option zr_value r) [],
     rf_priority = show_int (nullish (map_option zr_priority r) 10),
     rf_error = []\<rparr>"

datatype record_form_msg =
    RF_Name jstring | RF_Type jstring | RF_TTL jstring | RF_Value jstring | RF_Priority jstring
  | RF_Submit | RF_Cancel

text \<open>The field updates; the type menu offers the seven record types only.\<close>

fun record_form_edit :: "record_form_msg \<Rightarrow> record_form \<Rightarrow> record_form" where
  "record_form_edit (RF_Name v) f = f\<lparr>rf_name := v\<rparr>"
| "record_form_edit (RF_Type v) f = (case record_type_of v of None \<Rightarrow> f | Some ty \<Rightarrow> f\<lparr>rf_type := ty\<rparr>)"
| "record_form_edit (RF_TTL v) f = f\<lparr>rf_ttl := v\<rparr>"
| "record_form_edit (RF_Value v) f = f\<lparr>rf_value := v\<rparr>"
| "record_form_edit (RF_Priority v) f = f\<lparr>rf_priority := v\<rparr>"
| "record_form_edit RF_Submit f = f"
| "record_form_edit RF_Cancel f = f"

fun zone_form_edit :: "zone_form_msg \<Rightarrow> zone_form \<Rightarrow> zone_form" where
  "zone_form_edit (ZF_Name v) f = f\<lparr>zf_name := v\<rparr>"
| "zone_form_edit (ZF_Primary v) f = f\<lparr>zf_primary := v\<rparr>"
| "zone_form_edit (ZF_Contact v) f = f\<lparr>zf_contact := v\<rparr>"
| "zone_form_edit ZF_Submit f = f"
| "zone_form_edit ZF_Cancel f = f"

text \<open>The guard of \<open>submit\<close>, in the source's order.\<close>

definition record_form_invalid :: "record_form \<Rightarrow> bool" where
  "record_form_invalid f \<longleftrightarrow>
     (let lifetime = js_Number (rf_ttl f);
          preference = (if rf_type f = RT_MX then js_Number (rf_priority f) else Fin 0)
      in js_trim (rf_ttl f) = [] \<or> (rf_type f = RT_MX \<and> js_trim (rf_priority f) = []) \<or>
         \<not> is_integer lifetime \<or> num_less lifetime 0 \<or> num_greater lifetime 86400 \<or>
         \<not> is_integer preference \<or> num_less preference 0 \<or> num_greater preference 65535)"

definition record_form_submit :: "record_form \<Rightarrow> record_input option" where
  "record_form_submit f =
     (if record_form_invalid f then None
      else Some \<lparr>ni_name = or_else (rf_name f) ''@'', ni_type = rf_type f, ni_ttl = int_of (js_Number (rf_ttl f)),
        ni_value = rf_value f,
        ni_priority = (if rf_type f = RT_MX then int_of (js_Number (rf_priority f)) else 0)\<rparr>)"

definition record_form_failed :: "(jstring \<Rightarrow> jstring) \<Rightarrow> exn \<Rightarrow> record_form \<Rightarrow> record_form" where
  "record_form_failed t e f = f\<lparr>rf_error := (case e of
      APIError st m fs c \<Rightarrow> if st = 412 then t ''zones.record_conflict'' else m
    | _ \<Rightarrow> error_text e (t ''zones.save_failed''))\<rparr>"

definition valueLabel :: "(jstring \<Rightarrow> jstring) \<Rightarrow> record_type \<Rightarrow> jstring" where
  "valueLabel t ty = (if ty = RT_A then t ''zones.ipv4_address''
     else if ty = RT_AAAA then t ''zones.ipv6_address''
     else if ty = RT_TXT then t ''zones.text_value'' else t ''zones.target_hostname'')"

definition record_form_fields :: "(jstring \<Rightarrow> jstring) \<Rightarrow> record_form \<Rightarrow> record_form_msg node list" where
  [view_defs]: "record_form_fields t f =
     [El T_label [] [Txt (t ''zones.record_name''),
        El T_input [A ''value'' (rf_name f), OnChange RF_Name, A ''placeholder'' (t ''zones.router_or_at''),
          Flag ''autoFocus'', AN ''maxLength'' 253, A ''autoComplete'' ''off''] [],
        El T_small [] [Txt (t ''zones.relative_name_hint'')]],
      El T_label [] [Txt (t ''zones.record_type''),
        El T_select [A ''value'' (record_type_name (rf_type f)), OnChange RF_Type]
          (map (\<lambda>ty. El T_option [A ''key'' (record_type_name ty)] [Txt (record_type_name ty)]) recordTypes)],
      El T_label [] [Txt (t ''zones.ttl_seconds''),
        El T_input [A ''type'' ''number'', AN ''min'' 0, AN ''max'' 86400, Flag ''required'',
          A ''value'' (rf_ttl f), OnChange RF_TTL] []]]
     @ render_if (rf_type f = RT_MX)
        [El T_label [] [Txt (t ''zones.priority''),
           El T_input [A ''type'' ''number'', AN ''min'' 0, AN ''max'' 65535, Flag ''required'',
             A ''value'' (rf_priority f), OnChange RF_Priority] []]]"

definition record_form_value :: "(jstring \<Rightarrow> jstring) \<Rightarrow> record_form \<Rightarrow> record_form_msg node" where
  [view_defs]: "record_form_value t f =
     El T_label [] [Txt (valueLabel t (rf_type f)),
       (if rf_type f = RT_TXT
        then El T_textarea [A ''value'' (rf_value f), OnChange RF_Value, AN ''maxLength'' 2048, AN ''rows'' 3] []
        else El T_input [Flag ''required'', A ''value'' (rf_value f), OnChange RF_Value, AN ''maxLength'' 253,
          A ''autoComplete'' ''off'',
          A ''placeholder'' (if rf_type f = RT_A then ''192.168.1.1''
            else if rf_type f = RT_AAAA then ''2001:db8::1'' else ''host.home.arpa'')] [])]"

definition record_form_view ::
  "(jstring \<Rightarrow> jstring) \<Rightarrow> zone \<Rightarrow> zone_record option \<Rightarrow> bool \<Rightarrow> record_form \<Rightarrow> record_form_msg node" where
  [view_defs]: "record_form_view t z r busy f =
     El T_form [Cls ''zone-form'', OnSubmit RF_Submit,
         A ''aria-label'' (if r \<noteq> None then t ''zones.record_form_edit_aria'' else t ''zones.record_form_add_aria'')]
       [El T_div [Cls ''form-heading''] [El T_div []
          [El T_h3 [] [Txt (if r \<noteq> None then t ''zones.edit_record'' else t ''zones.add_record_form'')],
           El T_p [] [Txt (t ''zones.changes_apply''), Txt '' '', Txt (zn_name z), Txt ''.'']]],
        El T_fieldset [Disabled busy]
          ([El T_div [Cls ''form-grid''] (record_form_fields t f),
            record_form_value t f]
           @ render_if (rf_error f \<noteq> []) [El T_p [Cls ''notice error'', A ''role'' ''alert''] [Txt (rf_error f)]]
           @ [El T_div [Cls ''form-actions'']
                [El T_button [Cls ''button primary'', A ''type'' ''submit'']
                   [Txt (if busy then t ''zones.saving'' else t ''zones.save_record'')],
                 El T_button [Cls ''button'', A ''type'' ''button'', OnClick RF_Cancel] [Txt (t ''zones.cancel'')]]])]"

section \<open>RecordTable\<close>

definition record_row ::
  "(jstring \<Rightarrow> jstring) \<Rightarrow> zone \<Rightarrow> bool \<Rightarrow> (zone_record \<Rightarrow> 'm) \<Rightarrow> (zone_record \<Rightarrow> 'm) \<Rightarrow> zone_record \<Rightarrow> 'm node" where
  [view_defs]: "record_row t z dis edit remove r =
     (let owner = ownerName (zr_name r) (zn_name z); ty = record_type_name (zr_type r) in
      El T_tr [A ''key'' (show_int (zr_id r))]
        [El T_td [] [El T_code [] [Txt owner]],
         El T_td [] [El T_span [Cls (''record-type type-'' @ ty)] [Txt ty]],
         El T_td [Cls ''record-value''] [El T_code []
           [Txt (if zr_type r = RT_MX then show_int (zr_priority r) @ '' '' else ''''),
            Txt (or_else (zr_value r) [CHR 0x22, CHR 0x22])]],
         El T_td [] [Txt (show_int (zr_ttl r)), Txt ''s''],
         El T_td [] [El T_div [Cls ''record-actions'']
           [El T_button [Cls ''icon-button'', Disabled dis, OnClick (edit r),
                A ''aria-label'' (t ''zones.edit_aria'' @ '' '' @ owner @ '' '' @ ty @ '' '' @ t ''zones.record_word'')]
              [Icon ''Pencil'' 14],
            El T_button [Cls ''icon-button danger-icon'', Disabled dis, OnClick (remove r),
                A ''aria-label'' (t ''zones.delete_aria'' @ '' '' @ owner @ '' '' @ ty @ '' '' @ t ''zones.record_word'')]
              [Icon ''Trash2'' 14]]]])"

definition RecordTable ::
  "(jstring \<Rightarrow> jstring) \<Rightarrow> zone \<Rightarrow> bool \<Rightarrow> (zone_record \<Rightarrow> 'm) \<Rightarrow> (zone_record \<Rightarrow> 'm) \<Rightarrow> 'm node" where
  [view_defs]: "RecordTable t z dis edit remove =
     (if zn_records z = [] then
        El T_div [Cls ''zone-empty'']
          [El T_h3 [] [Txt (t ''zones.no_records_title'')], El T_p [] [Txt (t ''zones.no_records_text'')]]
      else El T_div [Cls ''table-wrap'']
        [El T_table [Cls ''records-table'']
           [El T_caption [Cls ''sr-only''] [Txt (t ''zones.records_aria''), Txt '' '', Txt (zn_name z)],
            El T_thead [] [El T_tr []
              [El T_th [] [Txt (t ''zones.col_name'')], El T_th [] [Txt (t ''zones.col_type'')],
               El T_th [] [Txt (t ''zones.col_value'')], El T_th [] [Txt (t ''zones.col_ttl'')],
               El T_th [] [El T_span [Cls ''sr-only''] [Txt (t ''zones.col_actions'')]]]],
            El T_tbody [] (map (record_row t z dis edit remove) (zn_records z))]])"

section \<open>What the record form sends\<close>

lemma record_form_submit_bounds:
  assumes "record_form_submit f = Some i"
  shows "0 \<le> ni_ttl i \<and> ni_ttl i \<le> 86400 \<and> 0 \<le> ni_priority i \<and> ni_priority i \<le> 65535 \<and>
    (ni_type i \<noteq> RT_MX \<longrightarrow> ni_priority i = 0) \<and> ni_name i \<noteq> [] \<and> ni_type i = rf_type f \<and> ni_value i = rf_value f"
proof -
  from assms have valid: "\<not> record_form_invalid f"
    and i: "i = \<lparr>ni_name = or_else (rf_name f) ''@'', ni_type = rf_type f, ni_ttl = int_of (js_Number (rf_ttl f)),
        ni_value = rf_value f, ni_priority = (if rf_type f = RT_MX then int_of (js_Number (rf_priority f)) else 0)\<rparr>"
    by (auto simp: record_form_submit_def split: if_splits)
  have "0 \<le> int_of (js_Number (rf_ttl f)) \<and> int_of (js_Number (rf_ttl f)) \<le> 86400"
    using valid by (intro num_bounds_int) (auto simp: record_form_invalid_def Let_def)
  moreover have "rf_type f = RT_MX \<Longrightarrow>
      0 \<le> int_of (js_Number (rf_priority f)) \<and> int_of (js_Number (rf_priority f)) \<le> 65535"
    using valid by (intro num_bounds_int) (auto simp: record_form_invalid_def Let_def)
  ultimately show ?thesis unfolding i by (auto simp: or_else_def)
qed

text \<open>Opening a stored record in the form and submitting it unchanged sends the record back.\<close>

lemma record_form_init_submit:
  assumes "0 \<le> zr_ttl r" "zr_ttl r \<le> 86400" "0 \<le> zr_priority r" "zr_priority r \<le> 65535"
    and "zr_type r \<noteq> RT_MX \<longrightarrow> zr_priority r = 0" and "ownerName (zr_name r) (zn_name z) \<noteq> []"
  shows "record_form_submit (record_form_init k z (Some r)) =
    Some \<lparr>ni_name = ownerName (zr_name r) (zn_name z), ni_type = zr_type r, ni_ttl = zr_ttl r,
      ni_value = zr_value r, ni_priority = zr_priority r\<rparr>"
proof -
  have n: "js_Number (show_int (zr_ttl r)) = Fin (of_int (zr_ttl r))"
    "js_Number (show_int (zr_priority r)) = Fin (of_int (zr_priority r))"
    using assms by (auto intro!: js_Number_show_int)
  have "is_integer (Fin 0)" using is_integer_of_int [of 0] by simp
  then have "\<not> record_form_invalid (record_form_init k z (Some r))"
    using assms by (simp add: record_form_invalid_def record_form_init_def n trim_show_int Let_def not_less)
  then show ?thesis using assms by (simp add: record_form_submit_def record_form_init_def n)
qed

end
