(* ===== verification/Zones_Page.thy ===== *)
theory Zones_Page
  imports Zone_Forms
begin

text \<open>
  \<open>pages/Zones.tsx\<close>: selecting, creating and deleting zones and editing records. The state
  holds the \<open>useZones\<close> hook, the page's own state and the mounted instances of the two child
  forms; after every handler and every continuation the forms are mounted, kept or dropped the
  way the rendered tree demands.
\<close>

record zones_page =
  zp_hook :: use_zones
  zp_selectedID :: "jsnum option"
  zp_creating :: bool
  zp_editor :: "(zone \<times> zone_record option) option"
  zp_deleting :: "(zone \<times> zone_record option) option"
  zp_query :: jstring
  zp_message :: jstring
  zp_actionError :: jstring
  zp_zform :: "zone_form option"
  zp_rform :: "record_form option"
  zp_mounts :: nat

text \<open>\<open>Number(params.get("zone")) || null\<close>\<close>

definition initial_selection :: "jstring option \<Rightarrow> jsnum option" where
  "initial_selection p = (let n = (case p of None \<Rightarrow> Fin 0 | Some s \<Rightarrow> js_Number s)
     in if n = NaN \<or> n = Fin 0 then None else Some n)"

definition zones_mount :: "jstring option \<Rightarrow> zones_page" where
  "zones_mount p = \<lparr>zp_hook = uz_effect uz_initial, zp_selectedID = initial_selection p, zp_creating = False,
     zp_editor = None, zp_deleting = None, zp_query = [], zp_message = [], zp_actionError = [],
     zp_zform = None, zp_rform = None, zp_mounts = 0\<rparr>"

definition zone_matches :: "jstring \<Rightarrow> zone \<Rightarrow> bool" where
  "zone_matches q z \<longleftrightarrow> js_includes (js_lower (zn_name z)) (js_lower (js_trim q))"

definition filteredZones :: "zones_page \<Rightarrow> zone list option" where
  "filteredZones s = map_option (filter (zone_matches (zp_query s))) (uz_zones (zp_hook s))"

definition id_number :: "int \<Rightarrow> jsnum" where
  "id_number i = Fin (of_int i)"

definition selected :: "zones_page \<Rightarrow> zone option" where
  "selected s = (case filteredZones s of
      None \<Rightarrow> None
    | Some zs \<Rightarrow> (case find (\<lambda>z. Some (id_number (zn_id z)) = zp_selectedID s) zs of
        Some z \<Rightarrow> Some z
      | None \<Rightarrow> (case zs of [] \<Rightarrow> None | z # _ \<Rightarrow> Some z)))"

definition zones_disabled :: "bool \<Rightarrow> zones_page \<Rightarrow> bool" where
  "zones_disabled readOnly s \<longleftrightarrow>
     readOnly \<or> uz_busy (zp_hook s) \<or> uz_loading (zp_hook s) \<or> uz_error (zp_hook s) \<noteq> []"

section \<open>Mounting the forms\<close>

definition sync_zform :: "zones_page \<Rightarrow> zones_page" where
  "sync_zform s = (if zp_creating s then
      (case zp_zform s of
         Some f \<Rightarrow> s
       | None \<Rightarrow> s\<lparr>zp_zform := Some (zone_form_init (zp_mounts s)), zp_mounts := zp_mounts s + 1\<rparr>)
    else s\<lparr>zp_zform := None\<rparr>)"

definition sync_rform :: "zones_page \<Rightarrow> zones_page" where
  "sync_rform s = (case (selected s, zp_editor s) of
      (Some v, Some (z, r)) \<Rightarrow>
        (case zp_rform s of
           Some f \<Rightarrow> if rf_key f = form_key z r then s
             else s\<lparr>zp_rform := Some (record_form_init (zp_mounts s) z r), zp_mounts := zp_mounts s + 1\<rparr>
         | None \<Rightarrow> s\<lparr>zp_rform := Some (record_form_init (zp_mounts s) z r), zp_mounts := zp_mounts s + 1\<rparr>)
    | _ \<Rightarrow> s\<lparr>zp_rform := None\<rparr>)"

definition sync_forms :: "zones_page \<Rightarrow> zones_page" where
  "sync_forms s = sync_rform (sync_zform s)"

section \<open>Handlers\<close>

datatype zones_msg =
    Z_Reload
  | Z_Add
  | Z_CreateFirst
  | Z_ZForm zone_form_msg
  | Z_Query jstring
  | Z_Select zone
  | Z_AddRecord zone
  | Z_DeleteZone zone
  | Z_Remove
  | Z_CancelDelete
  | Z_RForm record_form_msg
  | Z_Edit zone zone_record
  | Z_DeleteRecord zone zone_record

definition zones_select :: "zone \<Rightarrow> zones_page \<Rightarrow> zones_page" where
  "zones_select z s = s\<lparr>zp_selectedID := Some (id_number (zn_id z)), zp_editor := None, zp_deleting := None,
     zp_message := [], zp_actionError := []\<rparr>"

definition zones_remove :: "zones_page \<Rightarrow> zones_page" where
  "zones_remove s = (case zp_deleting s of
      None \<Rightarrow> s
    | Some (z, r) \<Rightarrow> s\<lparr>zp_actionError := [], zp_hook := uz_start (Op_Remove z r) (zp_hook s)\<rparr>)"

definition zones_zform :: "zone_form_msg \<Rightarrow> zones_page \<Rightarrow> zones_page" where
  "zones_zform m s = (case zp_zform s of
      None \<Rightarrow> s
    | Some f \<Rightarrow> (case m of
        ZF_Submit \<Rightarrow> s\<lparr>zp_zform := Some (f\<lparr>zf_error := []\<rparr>),
          zp_hook := uz_start (Op_Create (zone_form_input f) (zf_inst f)) (zp_hook s)\<rparr>
      | ZF_Cancel \<Rightarrow> s\<lparr>zp_creating := False\<rparr>
      | _ \<Rightarrow> s\<lparr>zp_zform := Some (zone_form_edit m f)\<rparr>))"

definition zones_rform :: "(jstring \<Rightarrow> jstring) \<Rightarrow> record_form_msg \<Rightarrow> zones_page \<Rightarrow> zones_page" where
  "zones_rform t m s = (case (zp_rform s, zp_editor s) of
      (Some f, Some (z, r)) \<Rightarrow> (case m of
        RF_Submit \<Rightarrow> (case record_form_submit f of
            None \<Rightarrow> s\<lparr>zp_rform := Some (f\<lparr>rf_error := t ''zones.invalid_ttl''\<rparr>)\<rparr>
          | Some i \<Rightarrow> s\<lparr>zp_rform := Some (f\<lparr>rf_error := []\<rparr>),
              zp_hook := uz_start (Op_Save z i r (rf_inst f)) (zp_hook s)\<rparr>)
      | RF_Cancel \<Rightarrow> s\<lparr>zp_editor := None\<rparr>
      | _ \<Rightarrow> s\<lparr>zp_rform := Some (record_form_edit m f)\<rparr>)
    | _ \<Rightarrow> s)"

fun zones_handle :: "(jstring \<Rightarrow> jstring) \<Rightarrow> zones_msg \<Rightarrow> zones_page \<Rightarrow> zones_page" where
  "zones_handle t Z_Reload s =
     s\<lparr>zp_hook := uz_reload (zp_hook s), zp_deleting := None, zp_actionError := [], zp_message := []\<rparr>"
| "zones_handle t Z_Add s = s\<lparr>zp_creating := True, zp_editor := None, zp_deleting := None\<rparr>"
| "zones_handle t Z_CreateFirst s = s\<lparr>zp_creating := True\<rparr>"
| "zones_handle t (Z_ZForm m) s = zones_zform m s"
| "zones_handle t (Z_Query v) s = s\<lparr>zp_query := v, zp_editor := None, zp_deleting := None\<rparr>"
| "zones_handle t (Z_Select z) s = zones_select z s"
| "zones_handle t (Z_AddRecord z) s = s\<lparr>zp_editor := Some (z, None), zp_deleting := None, zp_actionError := []\<rparr>"
| "zones_handle t (Z_DeleteZone z) s = s\<lparr>zp_deleting := Some (z, None), zp_actionError := []\<rparr>"
| "zones_handle t Z_Remove s = zones_remove s"
| "zones_handle t Z_CancelDelete s = s\<lparr>zp_deleting := None\<rparr>"
| "zones_handle t (Z_RForm m) s = zones_rform t m s"
| "zones_handle t (Z_Edit z r) s = s\<lparr>zp_editor := Some (z, Some r), zp_deleting := None, zp_actionError := []\<rparr>"
| "zones_handle t (Z_DeleteRecord z r) s = s\<lparr>zp_deleting := Some (z, Some r), zp_actionError := []\<rparr>"

definition zones_update :: "(jstring \<Rightarrow> jstring) \<Rightarrow> zones_msg \<Rightarrow> zones_page \<Rightarrow> zones_page" where
  "zones_update t m s = sync_forms (zones_handle t m s)"

section \<open>Continuations\<close>

definition zones_load_settled :: "(jstring \<Rightarrow> jstring) \<Rightarrow> nat \<Rightarrow> zone list result \<Rightarrow> zones_page \<Rightarrow> zones_page" where
  "zones_load_settled t i res s = sync_forms (s\<lparr>zp_hook := uz_load_settled t i res (zp_hook s)\<rparr>)"

definition zones_succeeded :: "(jstring \<Rightarrow> jstring) \<Rightarrow> zone_op \<Rightarrow> zone \<Rightarrow> zones_page \<Rightarrow> zones_page" where
  "zones_succeeded t op z s = (case op of
      Op_Create i k \<Rightarrow> s\<lparr>zp_selectedID := Some (id_number (zn_id z)), zp_creating := False,
         zp_message := t ''zones.zone_created''\<rparr>
    | Op_Save zn i r k \<Rightarrow> s\<lparr>zp_editor := None, zp_message := t ''zones.record_saved''\<rparr>
    | Op_Remove zn r \<Rightarrow> s\<lparr>zp_message := t (if r \<noteq> None then ''zones.record_deleted'' else ''zones.zone_deleted''),
         zp_deleting := None\<rparr>)"

text \<open>A form's error is set on the instance that submitted, if it is still mounted.\<close>

definition zones_failed :: "(jstring \<Rightarrow> jstring) \<Rightarrow> zone_op \<Rightarrow> exn \<Rightarrow> zones_page \<Rightarrow> zones_page" where
  "zones_failed t op e s = (case op of
      Op_Create i k \<Rightarrow> s\<lparr>zp_zform := map_option (\<lambda>f. if zf_inst f = k then zone_form_failed t e f else f) (zp_zform s)\<rparr>
    | Op_Save zn i r k \<Rightarrow> s\<lparr>zp_rform := map_option (\<lambda>f. if rf_inst f = k then record_form_failed t e f else f) (zp_rform s)\<rparr>
    | Op_Remove zn r \<Rightarrow> s\<lparr>zp_actionError := error_text e (t ''zones.delete_failed'')\<rparr>)"

definition zones_settled ::
  "(jstring \<Rightarrow> jstring \<Rightarrow> bool) \<Rightarrow> (jstring \<Rightarrow> jstring) \<Rightarrow> nat \<Rightarrow> zone result \<Rightarrow> zones_page \<Rightarrow> zones_page" where
  "zones_settled collate t i res s =
     (let op = uz_ops (zp_hook s) ! i; s1 = s\<lparr>zp_hook := uz_settled collate i res (zp_hook s)\<rparr>
      in sync_forms (case res of Inl e \<Rightarrow> zones_failed t op e s1 | Inr z \<Rightarrow> zones_succeeded t op z s1))"

text \<open>The load effect runs again when the language changes.\<close>

definition zones_language :: "zones_page \<Rightarrow> zones_page" where
  "zones_language s = s\<lparr>zp_hook := uz_effect (zp_hook s)\<rparr>"

section \<open>Rendering\<close>

definition zones_toolbar :: "(jstring \<Rightarrow> jstring) \<Rightarrow> bool \<Rightarrow> zones_page \<Rightarrow> zones_msg node" where
  [view_defs]: "zones_toolbar t ro s =
     El T_div [Cls ''zones-toolbar'']
       [El T_span [Cls ''zone-count'']
          [Txt (case uz_zones (zp_hook s) of
             Some zs \<Rightarrow> show_nat (length zs) @ '' '' @ t (if length zs = 1 then ''zones.count_one'' else ''zones.count'')
           | None \<Rightarrow> t ''zones.local_authority'')],
        El T_div []
          [El T_button [Cls ''button'',
               Disabled (uz_busy (zp_hook s) \<or> uz_loading (zp_hook s) \<or> zp_editor s \<noteq> None \<or> zp_creating s),
               OnClick Z_Reload]
             [Icon ''RefreshCw'' 15, Txt (t ''zones.reload'')],
           El T_button [Cls ''button primary'', Disabled (zones_disabled ro s), OnClick Z_Add]
             [Icon ''Plus'' 15, Txt (t ''zones.add_zone'')]]]"

definition zones_notices :: "(jstring \<Rightarrow> jstring) \<Rightarrow> zones_page \<Rightarrow> zones_msg node list" where
  [view_defs]: "zones_notices t s =
     render_if (uz_error (zp_hook s) \<noteq> [])
       [El T_div [Cls ''notice error'', A ''role'' ''alert'']
          [Txt (uz_error (zp_hook s)), Txt ''. '',
           Txt (if uz_zones (zp_hook s) \<noteq> None then t ''zones.error_stale'' else t ''zones.error_retry'')]]
     @ render_if (zp_message s \<noteq> []) [El T_div [Cls ''notice success'', A ''role'' ''status''] [Txt (zp_message s)]]
     @ render_if (zp_actionError s \<noteq> [])
       [El T_div [Cls ''notice error'', A ''role'' ''alert'']
          [Txt (zp_actionError s), Txt ''. '', Txt (t ''zones.reload_before_retry'')]]"

definition zones_creating :: "(jstring \<Rightarrow> jstring) \<Rightarrow> bool \<Rightarrow> zones_page \<Rightarrow> zones_msg node list" where
  [view_defs]: "zones_creating t ro s = (case (zp_creating s, zp_zform s) of
      (True, Some f) \<Rightarrow> [El T_section [Cls ''panel form-panel'']
         [map_node Z_ZForm (zone_form_view t (zones_disabled ro s) f)]]
    | _ \<Rightarrow> [])"

definition zones_empty :: "(jstring \<Rightarrow> jstring) \<Rightarrow> bool \<Rightarrow> zones_page \<Rightarrow> zones_msg node list" where
  [view_defs]: "zones_empty t ro s =
     render_if (uz_zones (zp_hook s) = None \<and> uz_error (zp_hook s) = [])
       [El T_section [Cls ''panel''] [Loading [Txt (t ''zones.loading'')]]]
     @ render_if (uz_zones (zp_hook s) = Some [] \<and> \<not> zp_creating s)
       [El T_section [Cls ''panel zone-empty large'']
          [Icon ''Globe2'' 32, El T_h2 [] [Txt (t ''zones.empty_title'')], El T_p [] [Txt (t ''zones.empty_text'')],
           El T_button [Cls ''button primary'', Disabled (zones_disabled ro s), OnClick Z_CreateFirst]
             [Icon ''Plus'' 15, Txt (t ''zones.create_first'')]]]"

definition zone_button :: "(jstring \<Rightarrow> jstring) \<Rightarrow> zones_page \<Rightarrow> zone \<Rightarrow> zones_msg node" where
  [view_defs]: "zone_button t s z =
     El T_button ([A ''key'' (show_int (zn_id z)), Disabled (uz_busy (zp_hook s))]
         @ attr_if (map_option zn_id (selected s) = Some (zn_id z)) (A ''aria-current'' ''true'')
         @ [OnClick (Z_Select z)])
       [Icon ''Globe2'' 17,
        El T_span [] [El T_strong [] [Txt (zn_name z)],
          El T_small [] [Txt (show_nat (length (zn_records z))), Txt '' '', Txt (t ''zones.records_custom'')]]]"

definition zones_list :: "(jstring \<Rightarrow> jstring) \<Rightarrow> zones_page \<Rightarrow> zones_msg node" where
  [view_defs]: "zones_list t s =
     El T_section [Cls ''panel zone-list'']
       ([El T_label [Cls ''zone-search'']
           [Icon ''Search'' 15, El T_span [Cls ''sr-only''] [Txt (t ''zones.filter_aria'')],
            El T_input [A ''value'' (zp_query s), OnChange Z_Query, A ''placeholder'' (t ''zones.filter_placeholder'')] []],
         El T_nav [A ''aria-label'' (t ''zones.nav_aria'')] (map (zone_button t s) (nullish (filteredZones s) []))]
        @ render_if (filteredZones s = Some []) [El T_p [Cls ''padded''] [Txt (t ''zones.no_matching'')]])"

definition zone_heading :: "(jstring \<Rightarrow> jstring) \<Rightarrow> bool \<Rightarrow> zones_page \<Rightarrow> zone \<Rightarrow> zones_msg node list" where
  [view_defs]: "zone_heading t ro s z =
     [El T_div [Cls ''panel-heading'']
        [El T_div []
           [El T_span [Cls ''eyebrow''] [Txt (t ''zones.authoritative_eyebrow'')],
            El T_h2 [] [Txt (zn_name z)],
            El T_p [] [Txt (t ''zones.revision''), Txt '' '', Txt (show_int (zn_revision z)), Txt [CHR '' '', CHR 0xB7, CHR '' ''],
              Txt (show_nat (length (zn_records z))), Txt '' '', Txt (t ''zones.records_custom'')]],
         El T_div [Cls ''zone-detail-actions'']
           [El T_button [Cls ''button'', Disabled (zones_disabled ro s \<or> zp_editor s \<noteq> None), OnClick (Z_AddRecord z)]
              [Icon ''Plus'' 14, Txt (t ''zones.add_record'')],
            El T_button [Cls ''icon-button danger-icon'', Disabled (zones_disabled ro s \<or> zp_editor s \<noteq> None),
                A ''aria-label'' (t ''zones.delete_zone_aria''), OnClick (Z_DeleteZone z)]
              [Icon ''Trash2'' 17]]],
      El T_div [Cls ''zone-authority'']
        [El T_span [] [Txt (t ''zones.primary_ns''), Txt '' '', El T_code [] [Txt (zn_primary_ns z)]],
         El T_span [] [Txt (t ''zones.contact''), Txt '' '', El T_code [] [Txt (zn_contact z)]]]]"

definition zone_confirm :: "(jstring \<Rightarrow> jstring) \<Rightarrow> bool \<Rightarrow> zones_page \<Rightarrow> zone \<times> zone_record option \<Rightarrow> zones_msg node" where
  [view_defs]: "zone_confirm t ro s d = (case d of (z, r) \<Rightarrow>
     El T_div [Cls ''notice zone-confirm'', A ''role'' ''alert'']
       [El T_p [] (case r of
           Some x \<Rightarrow> [Txt (t ''zones.delete_record_confirm''), Txt '' '', El T_strong [] [Txt (zr_name x)], Txt '' ('',
              Txt (record_type_name (zr_type x)), Txt '')?'']
         | None \<Rightarrow> [Txt (t ''zones.delete_zone_confirm''), Txt '' '', El T_strong [] [Txt (zn_name z)], Txt '' '',
              Txt (show_nat (length (zn_records z))), Txt '' '', Txt (t ''zones.delete_zone_confirm2'')]),
        El T_div [Cls ''form-actions'']
          [El T_button [Cls ''button danger'', Disabled (zones_disabled ro s), OnClick Z_Remove]
             [Txt (if uz_busy (zp_hook s) then t ''zones.deleting''
                else if r \<noteq> None then t ''zones.delete_record_perm'' else t ''zones.delete_zone_perm'')],
           El T_button [Cls ''button'', Disabled (uz_busy (zp_hook s)), OnClick Z_CancelDelete]
             [Txt (t ''zones.cancel_deletion'')]]])"

definition zones_editor :: "(jstring \<Rightarrow> jstring) \<Rightarrow> bool \<Rightarrow> zones_page \<Rightarrow> zones_msg node list" where
  [view_defs]: "zones_editor t ro s = (case (zp_editor s, zp_rform s) of
      (Some (z, r), Some f) \<Rightarrow> [map_node Z_RForm (record_form_view t z r (zones_disabled ro s) f)]
    | _ \<Rightarrow> [])"

definition zone_detail :: "(jstring \<Rightarrow> jstring) \<Rightarrow> bool \<Rightarrow> zones_page \<Rightarrow> zone \<Rightarrow> zones_msg node" where
  [view_defs]: "zone_detail t ro s z =
     El T_section [Cls ''panel zone-detail'']
       (zone_heading t ro s z
        @ (case zp_deleting s of None \<Rightarrow> [] | Some d \<Rightarrow> [zone_confirm t ro s d])
        @ zones_editor t ro s
        @ [RecordTable t z (zones_disabled ro s \<or> zp_editor s \<noteq> None) (Z_Edit z) (Z_DeleteRecord z),
           El T_p [Cls ''panel-footnote''] [Txt (t ''zones.footnote'')]])"

definition zones_view :: "(jstring \<Rightarrow> jstring) \<Rightarrow> bool \<Rightarrow> zones_page \<Rightarrow> zones_msg node list" where
  [view_defs]: "zones_view t ro s =
     [zones_toolbar t ro s] @ zones_notices t s @ zones_creating t ro s @ zones_empty t ro s
     @ render_if (nullish (uz_zones (zp_hook s)) [] \<noteq> [])
        [El T_div [Cls ''zones-layout'']
           (zones_list t s # (case selected s of None \<Rightarrow> [] | Some z \<Rightarrow> [zone_detail t ro s z]))]"

section \<open>Which handlers send a change\<close>

fun starts_write :: "zones_msg \<Rightarrow> bool" where
  "starts_write (Z_ZForm ZF_Submit) = True"
| "starts_write (Z_RForm RF_Submit) = True"
| "starts_write Z_Remove = True"
| "starts_write _ = False"

lemma sync_zform_frame [simp]:
  "zp_hook (sync_zform s) = zp_hook s" "zp_editor (sync_zform s) = zp_editor s"
  "zp_deleting (sync_zform s) = zp_deleting s" "zp_creating (sync_zform s) = zp_creating s"
  "zp_selectedID (sync_zform s) = zp_selectedID s" "zp_query (sync_zform s) = zp_query s"
  "zp_message (sync_zform s) = zp_message s" "zp_actionError (sync_zform s) = zp_actionError s"
  "zp_rform (sync_zform s) = zp_rform s"
  by (simp_all add: sync_zform_def split: option.split)

lemma sync_rform_frame [simp]:
  "zp_hook (sync_rform s) = zp_hook s" "zp_editor (sync_rform s) = zp_editor s"
  "zp_deleting (sync_rform s) = zp_deleting s" "zp_creating (sync_rform s) = zp_creating s"
  "zp_selectedID (sync_rform s) = zp_selectedID s" "zp_query (sync_rform s) = zp_query s"
  "zp_message (sync_rform s) = zp_message s" "zp_actionError (sync_rform s) = zp_actionError s"
  "zp_zform (sync_rform s) = zp_zform s"
  by (simp_all add: sync_rform_def split: option.split)

lemma sync_forms_frame [simp]:
  "zp_hook (sync_forms s) = zp_hook s" "zp_editor (sync_forms s) = zp_editor s"
  "zp_deleting (sync_forms s) = zp_deleting s" "zp_creating (sync_forms s) = zp_creating s"
  "zp_selectedID (sync_forms s) = zp_selectedID s" "zp_query (sync_forms s) = zp_query s"
  "zp_message (sync_forms s) = zp_message s" "zp_actionError (sync_forms s) = zp_actionError s"
  by (simp_all add: sync_forms_def)

text \<open>Only three handlers send a change, and each sends one.\<close>

lemma zform_hook:
  "zp_hook (zones_zform m s) = zp_hook s \<or>
     m = ZF_Submit \<and> (\<exists>i k. zp_hook (zones_zform m s) = uz_start (Op_Create i k) (zp_hook s))"
  by (cases m) (auto simp: zones_zform_def split: option.splits)

lemma rform_hook:
  "zp_hook (zones_rform t m s) = zp_hook s \<or>
     m = RF_Submit \<and> (\<exists>z i r k. zp_editor s = Some (z, r) \<and> (\<exists>f. zp_rform s = Some f \<and> record_form_submit f = Some i) \<and>
       zp_hook (zones_rform t m s) = uz_start (Op_Save z i r k) (zp_hook s))"
  by (cases m) (auto simp: zones_rform_def split: option.splits)

lemma remove_hook:
  "zp_hook (zones_remove s) = zp_hook s \<or>
     (\<exists>z r. zp_deleting s = Some (z, r) \<and> zp_hook (zones_remove s) = uz_start (Op_Remove z r) (zp_hook s))"
  by (auto simp: zones_remove_def split: option.splits)

lemma handle_hook:
  "zp_hook (zones_update t m s) = zp_hook s \<or>
   m = Z_Reload \<and> zp_hook (zones_update t m s) = uz_reload (zp_hook s) \<or>
   starts_write m \<and> (\<exists>op. zp_hook (zones_update t m s) = uz_start op (zp_hook s))"
proof (cases m)
  case (Z_ZForm x)
  then show ?thesis using zform_hook [of x s] by (auto simp: zones_update_def)
next
  case (Z_RForm x)
  then show ?thesis using rform_hook [of t x s] by (auto simp: zones_update_def)
next
  case Z_Remove
  then show ?thesis using remove_hook [of s] by (auto simp: zones_update_def)
qed (simp_all add: zones_update_def zones_select_def)

section \<open>What the rendered page lets a user trigger\<close>

definition zones_guard :: "bool \<Rightarrow> zones_page \<Rightarrow> zones_msg \<Rightarrow> bool" where
  "zones_guard ro s m \<longleftrightarrow> (starts_write m \<longrightarrow> \<not> zones_disabled ro s) \<and>
     (m = Z_Reload \<longrightarrow> \<not> uz_busy (zp_hook s) \<and> \<not> uz_loading (zp_hook s))"

lemma zone_form_view_ok: "node_ok P d (zone_form_view t busy f) \<longleftrightarrow>
    (\<not> (d \<or> busy) \<longrightarrow> P ZF_Submit \<and> P ZF_Cancel \<and> (\<forall>v. P (ZF_Name v)) \<and> (\<forall>v. P (ZF_Primary v)) \<and> (\<forall>v. P (ZF_Contact v)))"
  by (auto simp: view_defs dom_simps)

lemma record_form_view_ok: "node_ok P d (record_form_view t z r busy f) \<longleftrightarrow>
    (\<not> (d \<or> busy) \<longrightarrow> P RF_Submit \<and> P RF_Cancel \<and> (\<forall>v. P (RF_Name v)) \<and> (\<forall>v. P (RF_Type v)) \<and>
       (\<forall>v. P (RF_TTL v)) \<and> (\<forall>v. P (RF_Value v)) \<and> (rf_type f = RT_MX \<longrightarrow> (\<forall>v. P (RF_Priority v))))"
  by (auto simp: view_defs dom_simps)

lemma RecordTable_ok: "(\<And>r. P (edit r) \<and> P (remove r)) \<Longrightarrow> node_ok P d (RecordTable t z dis edit remove)"
  by (auto simp: view_defs dom_simps Let_def)

lemma zone_detail_ok: "node_ok (zones_guard ro s) False (zone_detail t ro s z)"
proof -
  have table: "node_ok (zones_guard ro s) d (RecordTable t z dis (Z_Edit z) (Z_DeleteRecord z))" for d dis
    by (rule RecordTable_ok) (simp add: zones_guard_def)
  have head: "nodes_ok (zones_guard ro s) (zone_heading t ro s z)"
    by (simp add: zone_heading_def dom_simps zones_guard_def)
  have confirm: "node_ok (zones_guard ro s) False (zone_confirm t ro s d)" for d
    by (cases d) (auto simp: zone_confirm_def dom_simps zones_guard_def split: option.split)
  have ed: "nodes_ok (zones_guard ro s) (zones_editor t ro s)"
    by (auto simp: zones_editor_def record_form_view_ok zones_guard_def split: option.split)
  show ?thesis
    using table head confirm ed by (auto simp: zone_detail_def dom_simps split: option.split)
qed

lemma zones_view_ok: "nodes_ok (zones_guard ro s) (zones_view t ro s)"
proof -
  have toolbar: "node_ok (zones_guard ro s) False (zones_toolbar t ro s)"
    by (simp add: zones_toolbar_def dom_simps zones_guard_def)
  have notices: "nodes_ok (zones_guard ro s) (zones_notices t s)"
    by (simp add: zones_notices_def dom_simps)
  have creating: "nodes_ok (zones_guard ro s) (zones_creating t ro s)"
    by (auto simp: zones_creating_def zone_form_view_ok zones_guard_def dom_simps split: option.split bool.split)
  have empty: "nodes_ok (zones_guard ro s) (zones_empty t ro s)"
    by (simp add: zones_empty_def Loading_def dom_simps zones_guard_def)
  have zlist: "node_ok (zones_guard ro s) False (zones_list t s)"
    by (simp add: zones_list_def zone_button_def dom_simps zones_guard_def)
  show ?thesis
    using toolbar notices creating empty zlist zone_detail_ok
    by (auto simp: zones_view_def dom_simps split: option.split)
qed

lemma zones_fired: "m \<in> fires (zones_view t ro s) \<Longrightarrow> zones_guard ro s m"
  by (rule nodes_okD [OF zones_view_ok])

section \<open>The page as a machine\<close>

text \<open>
  Responses arrive in any order. A change of language, which runs the load effect again, may come at any
  moment, so a load can be in flight beside a change; a user cannot bring that about.
\<close>

inductive zones_env :: "(jstring \<Rightarrow> jstring \<Rightarrow> bool) \<Rightarrow> (jstring \<Rightarrow> jstring) \<Rightarrow> zones_page \<Rightarrow> zones_page \<Rightarrow> bool"
  for collate t where
  load_done: "i < length (uz_loads (zp_hook s)) \<Longrightarrow> zones_env collate t s (zones_load_settled t i res s)"
| op_done: "i < length (uz_ops (zp_hook s)) \<Longrightarrow> zones_env collate t s (zones_settled collate t i res s)"
| language_changed: "zones_env collate t s (zones_language s)"

definition hook_inv :: "use_zones \<Rightarrow> bool" where
  "hook_inv h \<longleftrightarrow> uz_active h \<and> length (uz_ops h) \<le> 1 \<and> (uz_busy h \<longleftrightarrow> uz_ops h \<noteq> []) \<and>
     (0 < live_polls (uz_loads h) \<longrightarrow> uz_loading h) \<and> live_polls (uz_loads h) \<le> 1"

definition zones_inv :: "zones_page \<Rightarrow> bool" where
  "zones_inv s \<longleftrightarrow> hook_inv (zp_hook s)"

lemma hook_inv_load:
  assumes "hook_inv h" "i < length (uz_loads h)"
  shows "hook_inv (uz_load_settled t i res h)"
proof -
  have "live_polls (uz_loads h) = (if uz_loads h ! i then 0 else 1) + live_polls (remove_nth i (uz_loads h))"
    using assms(2) by (rule live_polls_remove)
  then show ?thesis using assms(1)
    by (cases res) (auto simp: hook_inv_def uz_load_settled_def Let_def split: if_splits)
qed

lemma hook_inv_effect: "hook_inv h \<Longrightarrow> hook_inv (uz_effect h)"
  by (simp add: hook_inv_def uz_effect_def)

lemma hook_inv_settled:
  assumes "hook_inv h" "i < length (uz_ops h)"
  shows "hook_inv (uz_settled collate i res h)"
proof -
  have "i = 0" "\<exists>op. uz_ops h = [op]"
    using assms by (cases "uz_ops h"; force simp: hook_inv_def)+
  then show ?thesis using assms(1) by (auto simp: hook_inv_def)
qed

lemma zones_settled_hook: "zp_hook (zones_settled collate t i res s) = uz_settled collate i res (zp_hook s)"
  by (auto simp: zones_settled_def zones_failed_def zones_succeeded_def Let_def split: sum.split zone_op.split)

lemma zones_env_inv: "zones_inv s \<Longrightarrow> zones_env collate t s s' \<Longrightarrow> zones_inv s'"
  by (erule zones_env.cases)
    (simp_all add: zones_inv_def zones_load_settled_def hook_inv_load zones_settled_hook hook_inv_settled zones_language_def hook_inv_effect)

lemma zones_user_inv: "zones_inv s \<Longrightarrow> m \<in> fires (zones_view t ro s) \<Longrightarrow> zones_inv (zones_update t m s)"
  using handle_hook [of t m s] zones_fired [of m t ro s]
  by (auto simp: zones_inv_def zones_guard_def zones_disabled_def hook_inv_def uz_reload_def uz_effect_def uz_start_def)

lemma zones_user_change: "one_change (uz_ops (zp_hook s)) (uz_ops (zp_hook (zones_update t m s)))"
  using handle_hook [of t m s] by (auto simp: uz_reload_def uz_effect_def uz_start_def)

lemma zones_env_change: "zones_env collate t s s' \<Longrightarrow> one_change (uz_ops (zp_hook s)) (uz_ops (zp_hook s'))"
  by (erule zones_env.cases; hypsubst)
    (auto simp: zones_load_settled_def uz_load_settled_def zones_settled_hook zones_language_def uz_effect_def Let_def split: sum.split)

text \<open>A user starts a change only while no other change and no load is in flight.\<close>

lemma zones_user_alone:
  assumes "zones_inv s" "m \<in> fires (zones_view t ro s)" "uz_ops (zp_hook (zones_update t m s)) \<noteq> uz_ops (zp_hook s)"
  shows "uz_ops (zp_hook s) = [] \<and> live_polls (uz_loads (zp_hook s)) = 0"
  using assms handle_hook [of t m s] zones_fired [OF assms(2)]
  by (auto simp: zones_inv_def hook_inv_def zones_guard_def zones_disabled_def uz_reload_def uz_effect_def)

interpretation zones: locked_page
  "\<lambda>s. \<exists>p. s = zones_mount p" "zones_view t ro" "zones_update t" "zones_env collate t" zones_inv
  "\<lambda>s. uz_ops (zp_hook s)" for t ro collate
proof unfold_locales
  show "zones_inv s" if "\<exists>p. s = zones_mount p" for s
    using that by (auto simp: zones_mount_def zones_inv_def hook_inv_def uz_effect_def uz_initial_def abort_all_def)
  show "length (uz_ops (zp_hook s)) \<le> 1" if "zones_inv s" for s
    using that by (simp add: zones_inv_def hook_inv_def)
qed (blast intro: zones_user_inv zones_env_inv zones_user_change zones_env_change)+

text \<open>For a viewer or on a cluster replica the same page never sends a change.\<close>

interpretation zones_ro: read_only_page
  "\<lambda>s. \<exists>p. s = zones_mount p" "zones_view t True" "zones_update t" "zones_env collate t"
  "\<lambda>s. uz_ops (zp_hook s) = []" "\<lambda>s. uz_ops (zp_hook s)" for t collate
proof unfold_locales
  show "uz_ops (zp_hook s) = []" if "\<exists>p. s = zones_mount p" for s
    using that by (auto simp: zones_mount_def uz_effect_def uz_initial_def)
  show "uz_ops (zp_hook (zones_update t m s)) = []"
    if "uz_ops (zp_hook s) = []" "m \<in> fires (zones_view t True s)" for s m
    using that handle_hook [of t m s] zones_fired [of m t True s]
    by (auto simp: zones_guard_def zones_disabled_def uz_reload_def uz_effect_def)
  show "uz_ops (zp_hook s') = []" if "uz_ops (zp_hook s) = []" "zones_env collate t s s'" for s s'
    using that(2,1) by cases (auto simp: zones_load_settled_def uz_load_settled_def zones_language_def uz_effect_def Let_def split: sum.split)
qed

end
