(* ===== verification/Crud.thy ===== *)
theory Crud
  imports Api_Resources Components Snapshot
begin

text \<open>
  The shape that the resource pages share (\<open>Clients.tsx\<close>, \<open>Rewrites.tsx\<close>): a
  \<open>load\<close> that may carry an abort signal, a \<open>run\<close> that sends one change and then
  reloads, a \<open>busy\<close> flag, an editor. Each page instantiates the definitions with its own
  texts, data and editor; the lemmas about what can be in flight are proved here once.
\<close>

text \<open>
  A change in flight: the request, the notice shown when it succeeds, and whether the caller is
  \<open>save\<close>, which closes the editor when \<open>run\<close> returns true.
\<close>

datatype run = RunCall (run_call: call) (run_success: jstring) (run_closes: bool)

text \<open>
  A load in flight: its signal (\<open>None\<close>: called without one) and the \<open>run\<close> that awaits
  it, if any.
\<close>

datatype load = LoadCall (load_signal: "bool option") (load_run: "run option")

record ('d, 'e) crud =
  cr_data :: "'d option"
  cr_error :: jstring
  cr_notice :: jstring
  cr_busy :: bool
  cr_editor :: "'e option"
  cr_timer :: bool
  cr_loads :: "load list"
  cr_runs :: "run list"

definition crud_mount :: "'e option \<Rightarrow> ('d, 'e) crud" where
  "crud_mount e = \<lparr>cr_data = None, cr_error = [], cr_notice = [], cr_busy = False, cr_editor = e, cr_timer = True,
     cr_loads = [], cr_runs = []\<rparr>"

definition crud_load :: "bool option \<Rightarrow> ('d, 'e, 'z) crud_scheme \<Rightarrow> ('d, 'e, 'z) crud_scheme" where
  "crud_load sig s = s\<lparr>cr_loads := cr_loads s @ [LoadCall sig None]\<rparr>"

text \<open>The zero-delay timer of the load effect.\<close>

definition crud_timer :: "('d, 'e, 'z) crud_scheme \<Rightarrow> ('d, 'e, 'z) crud_scheme" where
  "crud_timer s = (if cr_timer s then crud_load (Some False) (s\<lparr>cr_timer := False\<rparr>) else s)"

fun abort_load :: "load \<Rightarrow> load" where
  "abort_load (LoadCall sig k) = LoadCall (map_option (\<lambda>_. True) sig) k"

text \<open>The effect runs again when the translation function changes: abort, then a new timer.\<close>

definition crud_language :: "('d, 'e, 'z) crud_scheme \<Rightarrow> ('d, 'e, 'z) crud_scheme" where
  "crud_language s = s\<lparr>cr_loads := map abort_load (cr_loads s), cr_timer := True\<rparr>"

definition crud_finish :: "run option \<Rightarrow> ('d, 'e, 'z) crud_scheme \<Rightarrow> ('d, 'e, 'z) crud_scheme" where
  "crud_finish k s = (case k of
      None \<Rightarrow> s
    | Some r \<Rightarrow> (let s1 = s\<lparr>cr_busy := False\<rparr> in if run_closes r then s1\<lparr>cr_editor := None\<rparr> else s1))"

definition crud_load_settled :: "jstring \<Rightarrow> nat \<Rightarrow> 'd result \<Rightarrow> ('d, 'e, 'z) crud_scheme \<Rightarrow> ('d, 'e, 'z) crud_scheme" where
  "crud_load_settled failed i res s =
     (let ld = cr_loads s ! i; s0 = s\<lparr>cr_loads := remove_nth i (cr_loads s)\<rparr>;
          s1 = (if load_signal ld = Some True then s0
                else case res of
                  Inr d \<Rightarrow> s0\<lparr>cr_data := Some d, cr_error := []\<rparr>
                | Inl e \<Rightarrow> s0\<lparr>cr_error := error_text e failed\<rparr>)
      in crud_finish (load_run ld) s1)"

definition crud_run :: "run \<Rightarrow> ('d, 'e, 'z) crud_scheme \<Rightarrow> ('d, 'e, 'z) crud_scheme" where
  "crud_run r s = s\<lparr>cr_busy := True, cr_error := [], cr_notice := [], cr_runs := cr_runs s @ [r]\<rparr>"

definition crud_run_settled :: "jstring \<Rightarrow> nat \<Rightarrow> unit result \<Rightarrow> ('d, 'e, 'z) crud_scheme \<Rightarrow> ('d, 'e, 'z) crud_scheme" where
  "crud_run_settled failed i res s =
     (let r = cr_runs s ! i; s0 = s\<lparr>cr_runs := remove_nth i (cr_runs s)\<rparr> in case res of
        Inr _ \<Rightarrow> s0\<lparr>cr_notice := run_success r, cr_loads := cr_loads s0 @ [LoadCall None (Some r)]\<rparr>
      | Inl e \<Rightarrow> s0\<lparr>cr_error := error_text e failed, cr_busy := False\<rparr>)"

text \<open>Responses and timers, in any order.\<close>

inductive crud_env :: "jstring \<Rightarrow> jstring \<Rightarrow> ('d, 'e, 'z) crud_scheme \<Rightarrow> ('d, 'e, 'z) crud_scheme \<Rightarrow> bool" for load_failed save_failed where
  timer_fires: "crud_env load_failed save_failed s (crud_timer s)"
| language_changes: "crud_env load_failed save_failed s (crud_language s)"
| load_done: "i < length (cr_loads s) \<Longrightarrow> crud_env load_failed save_failed s (crud_load_settled load_failed i res s)"
| run_done: "i < length (cr_runs s) \<Longrightarrow> crud_env load_failed save_failed s (crud_run_settled save_failed i res s)"

text \<open>The error and the notice, rendered alike by the pages.\<close>

definition crud_notices :: "('d, 'e, 'z) crud_scheme \<Rightarrow> 'm node list" where
  [view_defs]: "crud_notices s =
     render_if (cr_error s \<noteq> []) [El T_div [Cls ''notice error'', A ''role'' ''alert''] [Txt (cr_error s)]]
     @ render_if (cr_notice s \<noteq> []) [El T_div [Cls ''notice success'', A ''role'' ''status''] [Txt (cr_notice s)]]"

lemma crud_notices_ok: "nodes_ok P (crud_notices s)"
  by (simp add: crud_notices_def dom_simps)

section \<open>What can be in flight\<close>

text \<open>The runs that have not returned: their change or the reload they await is in flight.\<close>

definition open_runs :: "('d, 'e, 'z) crud_scheme \<Rightarrow> run list" where
  "open_runs s = cr_runs s @ List.map_filter load_run (cr_loads s)"

definition crud_inv :: "('d, 'e, 'z) crud_scheme \<Rightarrow> bool" where
  "crud_inv s \<longleftrightarrow> length (open_runs s) = (if cr_busy s then 1 else 0) \<and>
     (\<forall>ld \<in> set (cr_loads s). load_run ld \<noteq> None \<longrightarrow> load_signal ld = None)"

lemma crud_inv_single: "crud_inv s \<Longrightarrow> length (open_runs s) \<le> 1"
  by (simp add: crud_inv_def)

lemma map_filter_append [simp]: "List.map_filter f (xs @ ys) = List.map_filter f xs @ List.map_filter f ys"
  by (simp add: List.map_filter_def)

lemma map_filter_Cons' [simp]:
  "List.map_filter f (x # xs) = (case f x of None \<Rightarrow> [] | Some y \<Rightarrow> [y]) @ List.map_filter f xs"
  by (simp add: List.map_filter_def split: option.split)

lemma map_filter_remove:
  "i < length xs \<Longrightarrow> length (List.map_filter f xs) =
     (case f (xs ! i) of None \<Rightarrow> 0 | Some y \<Rightarrow> 1) + length (List.map_filter f (remove_nth i xs))"
  by (subst id_take_nth_drop [of i xs]) (auto simp: remove_nth_def split: option.split)

lemma load_run_abort [simp]: "load_run (abort_load ld) = load_run ld"
  by (cases ld) simp

lemma map_filter_abort [simp]: "List.map_filter load_run (map abort_load xs) = List.map_filter load_run xs"
  by (induction xs) (simp_all split: option.split)

lemma crud_inv_mount: "crud_inv (crud_mount e)"
  by (simp add: crud_inv_def crud_mount_def open_runs_def)

lemma crud_inv_load: "crud_inv s \<Longrightarrow> crud_inv (crud_load sig s)"
  by (auto simp: crud_inv_def crud_load_def open_runs_def)

lemma crud_inv_timer: "crud_inv s \<Longrightarrow> crud_inv (crud_timer s)"
  by (auto simp: crud_inv_def crud_load_def crud_timer_def open_runs_def)

lemma abort_load_signal: "load_signal (abort_load ld) = None \<longleftrightarrow> load_signal ld = None"
  by (cases ld) simp

lemma crud_inv_language: "crud_inv s \<Longrightarrow> crud_inv (crud_language s)"
  by (auto simp: crud_inv_def crud_language_def open_runs_def abort_load_signal)

lemma crud_inv_run: "crud_inv s \<Longrightarrow> \<not> cr_busy s \<Longrightarrow> crud_inv (crud_run r s)"
  by (auto simp: crud_inv_def crud_run_def open_runs_def)

lemma crud_inv_editor [simp]: "crud_inv (s\<lparr>cr_editor := e\<rparr>) = crud_inv s"
  by (simp add: crud_inv_def open_runs_def)

lemma crud_inv_notice [simp]: "crud_inv (s\<lparr>cr_notice := e\<rparr>) = crud_inv s"
  by (simp add: crud_inv_def open_runs_def)

lemma crud_inv_error [simp]: "crud_inv (s\<lparr>cr_error := x\<rparr>) = crud_inv s"
  by (simp add: crud_inv_def open_runs_def)

lemma crud_finish_frame [simp]:
  "cr_loads (crud_finish k s) = cr_loads s" "cr_runs (crud_finish k s) = cr_runs s"
  "cr_busy (crud_finish k s) = (cr_busy s \<and> k = None)"
  by (auto simp: crud_finish_def Let_def split: option.split)

lemma crud_load_settled_frame:
  "cr_loads (crud_load_settled f i res s) = remove_nth i (cr_loads s)"
  "cr_runs (crud_load_settled f i res s) = cr_runs s"
  "cr_busy (crud_load_settled f i res s) = (cr_busy s \<and> load_run (cr_loads s ! i) = None)"
  by (auto simp: crud_load_settled_def Let_def split: sum.split)

lemma crud_inv_load_settled: "crud_inv s \<Longrightarrow> i < length (cr_loads s) \<Longrightarrow> crud_inv (crud_load_settled f i res s)"
  using map_filter_remove [of i "cr_loads s" load_run] set_remove_nth [of i "cr_loads s"]
  by (auto simp: crud_inv_def open_runs_def crud_load_settled_frame split: option.splits if_splits)

lemma crud_inv_run_settled: "crud_inv s \<Longrightarrow> i < length (cr_runs s) \<Longrightarrow> crud_inv (crud_run_settled f i res s)"
  using length_remove_nth [of i "cr_runs s"]
  by (cases res) (auto simp: crud_inv_def open_runs_def crud_run_settled_def Let_def split: if_splits)

lemma crud_inv_env: "crud_inv s \<Longrightarrow> crud_env lf sf s s' \<Longrightarrow> crud_inv s'"
  by (erule crud_env.cases)
    (simp_all add: crud_inv_timer crud_inv_language crud_inv_load_settled crud_inv_run_settled)

text \<open>An answer ends the change in flight or goes on with it; a handler starts one when there is none.\<close>

lemma open_runs_fields [simp]:
  "open_runs (s\<lparr>cr_editor := e\<rparr>) = open_runs s" "open_runs (s\<lparr>cr_notice := x\<rparr>) = open_runs s"
  "open_runs (s\<lparr>cr_error := x\<rparr>) = open_runs s"
  by (simp_all add: open_runs_def)

lemma crud_timer_open [simp]: "open_runs (crud_timer s) = open_runs s" "open_runs (crud_load sig s) = open_runs s"
  by (simp_all add: open_runs_def crud_timer_def crud_load_def)

lemma crud_load_settled_change:
  assumes "crud_inv s" "i < length (cr_loads s)"
  shows "one_change (open_runs s) (open_runs (crud_load_settled f i res s))"
proof (cases "load_run (cr_loads s ! i)")
  case None
  then have "List.map_filter load_run (remove_nth i (cr_loads s)) = List.map_filter load_run (cr_loads s)"
    using arg_cong [OF id_take_nth_drop [OF assms(2)], of "List.map_filter load_run"] by (simp add: remove_nth_def)
  then show ?thesis by (simp add: open_runs_def crud_load_settled_frame)
next
  case (Some r)
  then have "open_runs (crud_load_settled f i res s) = []"
    using assms map_filter_remove [of i "cr_loads s" load_run]
    by (auto simp: crud_inv_def open_runs_def crud_load_settled_frame split: if_splits)
  then show ?thesis using crud_inv_single [OF assms(1)] by (intro one_change_short) simp_all
qed

lemma crud_run_settled_change:
  assumes "crud_inv s" "i < length (cr_runs s)"
  shows "one_change (open_runs s) (open_runs (crud_run_settled f i res s))"
proof -
  obtain r where "cr_runs s = [r]" "List.map_filter load_run (cr_loads s) = []"
    using assms by (cases "cr_runs s") (auto simp: crud_inv_def open_runs_def split: if_splits)
  then show ?thesis
    using assms(2)
    by (intro one_change_short) (auto simp: open_runs_def crud_run_settled_def remove_nth_def Let_def split: sum.split)
qed

lemma crud_env_change: "crud_inv s \<Longrightarrow> crud_env lf sf s s' \<Longrightarrow> one_change (open_runs s) (open_runs s')"
  by (erule crud_env.cases; hypsubst)
    (simp_all add: crud_load_settled_change crud_run_settled_change, simp add: open_runs_def crud_language_def)

lemma crud_run_change: "crud_inv s \<Longrightarrow> \<not> cr_busy s \<Longrightarrow> one_change (open_runs s) (open_runs (crud_run r s))"
  using one_change_intros(2) [of "[]" r] by (simp add: crud_inv_def open_runs_def crud_run_def)

text \<open>Nothing is being changed and no editor is open, the only state a viewer can see.\<close>

definition crud_idle :: "('d, 'e, 'z) crud_scheme \<Rightarrow> bool" where
  "crud_idle s \<longleftrightarrow> cr_runs s = [] \<and> cr_editor s = None"

lemma crud_idle_notices [simp]:
  "crud_idle (s\<lparr>cr_error := x\<rparr>) = crud_idle s" "crud_idle (s\<lparr>cr_notice := x\<rparr>) = crud_idle s"
  by (simp_all add: crud_idle_def)

lemma crud_env_no_runs: "cr_runs s = [] \<Longrightarrow> crud_env lf sf s s' \<Longrightarrow> cr_runs s' = []"
  by (erule crud_env.cases)
    (simp_all add: crud_timer_def crud_load_def crud_language_def crud_load_settled_frame)

lemma crud_load_settled_editor:
  "cr_editor (crud_load_settled f i res s) = cr_editor s \<or> cr_editor (crud_load_settled f i res s) = None"
  by (auto simp: crud_load_settled_def crud_finish_def Let_def split: sum.split option.split)

lemma crud_env_editor_none: "cr_editor s = None \<Longrightarrow> crud_env lf sf s s' \<Longrightarrow> cr_editor s' = None"
proof (erule crud_env.cases)
  fix s0 i res
  assume e: "cr_editor s = None" and eq: "s = s0" "s' = crud_load_settled lf i res s0"
  show "cr_editor s' = None" using crud_load_settled_editor [of lf i res s0] e eq by auto
qed (auto simp: crud_timer_def crud_load_def crud_language_def crud_run_settled_def Let_def split: sum.split)

lemma crud_env_idle: "crud_env lf sf s s' \<Longrightarrow> crud_idle s \<Longrightarrow> crud_idle s'"
  unfolding crud_idle_def by (blast intro: crud_env_no_runs crud_env_editor_none)

text \<open>
  The contract of a page built on this core, with what it has to show about its own handlers: an
  enabled handler that starts a change does so only while nothing is busy, and in a read-only
  session neither a change nor an open editor can come about. A page may add steps of its own to
  the environment as long as they keep both.
\<close>

locale crud_client =
  fixes init :: "bool \<Rightarrow> ('d, 'e, 'z) crud_scheme \<Rightarrow> bool"
    and view :: "bool \<Rightarrow> ('d, 'e, 'z) crud_scheme \<Rightarrow> 'm node list"
    and update :: "'m \<Rightarrow> ('d, 'e, 'z) crud_scheme \<Rightarrow> ('d, 'e, 'z) crud_scheme"
    and env :: "('d, 'e, 'z) crud_scheme \<Rightarrow> ('d, 'e, 'z) crud_scheme \<Rightarrow> bool"
  assumes mounted: "init ro s \<Longrightarrow> crud_inv s"
    and mounted_ro: "init True s \<Longrightarrow> crud_idle s"
    and handled: "m \<in> fires (view ro s) \<Longrightarrow> crud_inv s \<Longrightarrow> crud_inv (update m s)"
    and handled_ro: "m \<in> fires (view True s) \<Longrightarrow> crud_idle s \<Longrightarrow> crud_idle (update m s)"
    and handled_change: "m \<in> fires (view ro s) \<Longrightarrow> crud_inv s \<Longrightarrow> one_change (open_runs s) (open_runs (update m s))"
    and settled: "env s s' \<Longrightarrow> crud_inv s \<Longrightarrow> crud_inv s'"
    and settled_change: "env s s' \<Longrightarrow> crud_inv s \<Longrightarrow> one_change (open_runs s) (open_runs s')"
    and settled_ro: "env s s' \<Longrightarrow> crud_idle s \<Longrightarrow> crud_idle s'"

sublocale crud_client \<subseteq> flight: locked_page "init ro" "view ro" update env crud_inv open_runs for ro
  by unfold_locales (blast intro: mounted handled settled handled_change settled_change crud_inv_single)+

sublocale crud_client \<subseteq> viewer: read_only_page "init True" "view True" update env crud_idle cr_runs
proof unfold_locales
  show "cr_runs s = []" if "crud_idle s" for s
    using that by (simp add: crud_idle_def)
qed (blast intro: mounted_ro handled_ro settled_ro)+

context crud_client
begin

lemma busy_flight:
  "ui_reach (init ro) (view ro) update env s \<Longrightarrow> length (open_runs s) = (if cr_busy s then 1 else 0)"
  using flight.reach_inv [of ro s] by (simp add: crud_inv_def)

lemma viewer_idle:
  "ui_reach (init True) (view True) update env s \<Longrightarrow> cr_runs s = [] \<and> cr_editor s = None"
  using viewer.reach_inv [of s] by (simp add: crud_idle_def)

end

end
