(* ===== verification/Clients_Page.thy ===== *)
theory Clients_Page
  imports Crud
begin

text \<open>
  \<open>pages/Clients.tsx\<close>: naming the clients of the network. The page is an instance of the
  load-and-run core; the editor's text field of addresses is turned into the list the API takes.
  The effect that scrolls the highlighted row into view has no state and is left out.
\<close>

record client_editor =
  ed_id :: "int option"
  ed_name :: jstring
  ed_addresses :: jstring
  ed_group :: jstring
  ed_description :: jstring
  ed_enabled :: bool

definition client_blank :: client_editor where
  "client_blank = \<lparr>ed_id = None, ed_name = [], ed_addresses = [], ed_group = [], ed_description = [], ed_enabled = True\<rparr>"

type_synonym clients_page = "(client_list, client_editor) crud"

text \<open>\<open>?new=1\<close> opens the add form.\<close>

definition clients_mount :: "bool \<Rightarrow> jstring option \<Rightarrow> clients_page" where
  "clients_mount readOnly new_param =
     crud_mount (if new_param = Some ''1'' \<and> \<not> readOnly then Some client_blank else None)"

definition toInput :: "client_editor \<Rightarrow> client_input" where
  "toInput f = \<lparr>ci_name = js_trim (ed_name f), ci_addresses = tokens ws_or_comma (ed_addresses f),
     ci_group = js_trim (ed_group f), ci_description = js_trim (ed_description f), ci_enabled = ed_enabled f\<rparr>"

definition inputOf :: "client_view \<Rightarrow> client_input" where
  "inputOf c = \<lparr>ci_name = cl_name c, ci_addresses = cl_addresses c, ci_group = cl_group c,
     ci_description = cl_description c, ci_enabled = cl_enabled c\<rparr>"

definition client_edit_form :: "client_view \<Rightarrow> client_editor" where
  "client_edit_form c = \<lparr>ed_id = Some (cl_id c), ed_name = cl_name c, ed_addresses = js_join '', '' (cl_addresses c),
     ed_group = cl_group c, ed_description = cl_description c, ed_enabled = cl_enabled c\<rparr>"

datatype clients_msg =
    CL_Reload
  | CL_Add
  | CL_Name jstring
  | CL_Addresses jstring
  | CL_Group jstring
  | CL_Description jstring
  | CL_Enabled bool
  | CL_Submit
  | CL_Cancel
  | CL_Toggle client_view
  | CL_Edit client_view
  | CL_Delete client_view
  | CL_NameIt client_activity

definition client_save_call :: "client_editor \<Rightarrow> call" where
  "client_save_call f = (case ed_id f of
      None \<Rightarrow> createClient_call (toInput f)
    | Some n \<Rightarrow> updateClient_call n (toInput f))"

definition clients_save :: "(jstring \<Rightarrow> jstring) \<Rightarrow> clients_page \<Rightarrow> clients_page" where
  "clients_save t s = (case cr_editor s of
      None \<Rightarrow> s
    | Some f \<Rightarrow> crud_run (RunCall (client_save_call f) (t ''clients.saved'') True) s)"

fun clients_update :: "(jstring \<Rightarrow> jstring) \<Rightarrow> clients_msg \<Rightarrow> clients_page \<Rightarrow> clients_page" where
  "clients_update t CL_Reload s = crud_load None s"
| "clients_update t CL_Add s = s\<lparr>cr_editor := Some client_blank, cr_notice := []\<rparr>"
| "clients_update t (CL_Name v) s = s\<lparr>cr_editor := map_option (ed_name_update (\<lambda>_. v)) (cr_editor s)\<rparr>"
| "clients_update t (CL_Addresses v) s = s\<lparr>cr_editor := map_option (ed_addresses_update (\<lambda>_. v)) (cr_editor s)\<rparr>"
| "clients_update t (CL_Group v) s = s\<lparr>cr_editor := map_option (ed_group_update (\<lambda>_. v)) (cr_editor s)\<rparr>"
| "clients_update t (CL_Description v) s = s\<lparr>cr_editor := map_option (ed_description_update (\<lambda>_. v)) (cr_editor s)\<rparr>"
| "clients_update t (CL_Enabled b) s = s\<lparr>cr_editor := map_option (ed_enabled_update (\<lambda>_. b)) (cr_editor s)\<rparr>"
| "clients_update t CL_Submit s = clients_save t s"
| "clients_update t CL_Cancel s = s\<lparr>cr_editor := None\<rparr>"
| "clients_update t (CL_Toggle c) s =
     crud_run (RunCall (updateClient_call (cl_id c) ((inputOf c)\<lparr>ci_enabled := \<not> cl_enabled c\<rparr>)) [] False) s"
| "clients_update t (CL_Edit c) s = s\<lparr>cr_editor := Some (client_edit_form c), cr_notice := []\<rparr>"
| "clients_update t (CL_Delete c) s = crud_run (RunCall (deleteClient_call (cl_id c)) [] False) s"
| "clients_update t (CL_NameIt a) s = s\<lparr>cr_editor := Some (client_blank\<lparr>ed_addresses := ca_client_ip a\<rparr>)\<rparr>"

section \<open>Rendering\<close>

definition clients_toolbar :: "(jstring \<Rightarrow> jstring) \<Rightarrow> bool \<Rightarrow> clients_page \<Rightarrow> clients_msg node" where
  [view_defs]: "clients_toolbar t ro s =
     El T_div [Cls ''zones-toolbar'']
       [El T_span [Cls ''zone-count'']
          [Txt (case cr_data s of Some d \<Rightarrow> show_nat (length (cli_clients d)) @ '' '' @ t ''clients.count'' | None \<Rightarrow> [])],
        El T_div []
          [El T_button [Cls ''button'', Disabled (cr_busy s), OnClick CL_Reload]
             [Icon ''RefreshCw'' 15, Txt (t ''blocklists.reload'')],
           El T_button [Cls ''button primary'', Disabled (cr_busy s \<or> ro \<or> cr_editor s \<noteq> None), OnClick CL_Add]
             [Icon ''Plus'' 15, Txt (t ''clients.add'')]]]"

definition client_fields :: "(jstring \<Rightarrow> jstring) \<Rightarrow> client_editor \<Rightarrow> clients_msg node" where
  [view_defs]: "client_fields t f =
     El T_div [Cls ''form-grid client-grid'']
       [El T_label []
          [Txt (t ''clients.name''),
           El T_input [A ''value'' (ed_name f), OnChange CL_Name, A ''placeholder'' ''Living Room TV'', AN ''maxLength'' 80,
             Flag ''required'', Flag ''autoFocus''] []],
        El T_label []
          [Txt (t ''clients.addresses''),
           El T_input [A ''value'' (ed_addresses f), OnChange CL_Addresses, A ''placeholder'' ''192.168.1.20, 2001:db8::20'',
             AB ''spellCheck'' False, A ''autoComplete'' ''off'', Flag ''required''] [],
           El T_small [] [Txt (t ''clients.addresses_hint'')]],
        El T_label []
          [Txt (t ''clients.group''),
           El T_input [A ''value'' (ed_group f), OnChange CL_Group, A ''placeholder'' ''Media'', AN ''maxLength'' 60] []],
        El T_label []
          [Txt (t ''clients.description''),
           El T_input [A ''value'' (ed_description f), OnChange CL_Description, AN ''maxLength'' 200] []]]"

definition client_form :: "(jstring \<Rightarrow> jstring) \<Rightarrow> bool \<Rightarrow> client_editor \<Rightarrow> clients_msg node" where
  [view_defs]: "client_form t busy f =
     (let title = t (if ed_id f = None then ''clients.add_title'' else ''clients.edit_title'') in
      El T_section [Cls ''panel form-panel'']
        [El T_form [Cls ''zone-form'', A ''aria-label'' title, OnSubmit CL_Submit]
           [El T_div [] [El T_h3 [] [Txt title], El T_p [] [Txt (t ''clients.form_hint'')]],
            El T_fieldset [Disabled busy]
              [client_fields t f,
               El T_label [Cls ''check-field'']
                 [El T_input [A ''type'' ''checkbox'', AB ''checked'' (ed_enabled f), OnCheck CL_Enabled] [],
                  Txt (t ''clients.enabled'')],
               El T_div [Cls ''form-actions'']
                 [El T_button [Cls ''button primary'', A ''type'' ''submit''] [Txt (t ''clients.save'')],
                  El T_button [Cls ''button'', A ''type'' ''button'', OnClick CL_Cancel] [Txt (t ''forwarding.cancel'')]]]]])"

text \<open>The link to the query log is offered for a client with one address that is not a subnet.\<close>

definition single_address :: "client_view \<Rightarrow> jstring" where
  "single_address c = (case cl_addresses c of
      [a] \<Rightarrow> if js_includes a ''/'' then [] else a
    | _ \<Rightarrow> [])"

definition client_activity_cell :: "(jstring \<Rightarrow> jstring) \<Rightarrow> formats \<Rightarrow> client_view \<Rightarrow> clients_msg node list" where
  [view_defs]: "client_activity_cell t fm c = (case cv_activity c of
      None \<Rightarrow> [Txt emdash]
    | Some a \<Rightarrow>
       (if ac_queries a = 0 then [Txt (t ''clients.no_activity'')]
        else [El T_span [Cls ''num''] [Txt (fm_number fm (ac_queries a))], Txt '' '', Txt (t ''clients.queries'')]
          @ render_if (nullish (ac_last_seen a) [] \<noteq> [])
             [El T_small [] [Txt (t ''clients.last_seen''), Txt '': '', Txt (fm_date fm (nullish (ac_last_seen a) []))]]
          @ render_if (single_address c \<noteq> [])
             [El T_small [] [El T_Link [A ''to'' (''/queries?client='' @ encodeURIComponent (single_address c))]
                [Txt (t ''clients.view_queries'')]]]))"

definition client_row ::
  "(jstring \<Rightarrow> jstring) \<Rightarrow> formats \<Rightarrow> bool \<Rightarrow> jstring \<Rightarrow> clients_page \<Rightarrow> client_view \<Rightarrow> clients_msg node" where
  [view_defs]: "client_row t fm ro highlight s c =
     El T_tr ([A ''key'' (show_int (cl_id c)), A ''id'' (''client-'' @ encodeURIComponent (cl_name c))]
         @ attr_if (cl_name c = highlight) (Cls ''selected''))
       [El T_td []
          [El T_span [Cls ''endpoint'']
             [El T_button [Cls ''switch'', A ''role'' ''switch'', AB ''aria-checked'' (cl_enabled c),
                A ''aria-label'' (t ''clients.toggle'' @ '': '' @ cl_name c), Disabled (cr_busy s \<or> ro), OnClick (CL_Toggle c)] [],
              El T_span []
                (El T_strong [] [Txt (cl_name c)]
                 # render_if (cl_group c \<noteq> []) [El T_small [] [Icon ''Tag'' 11, Txt '' '', Txt (cl_group c)]])]],
        El T_td [Cls ''wrap''] (map (\<lambda>a. El T_div [A ''key'' a] [El T_code [] [Txt a]]) (cl_addresses c)),
        El T_td [Cls ''cell-muted''] (client_activity_cell t fm c),
        El T_td [Cls ''wrap cell-muted''] [Txt (or_else (cl_description c) emdash)],
        El T_td []
          [El T_div [Cls ''table-actions'']
             [El T_button [Cls ''icon-button'', Disabled (cr_busy s \<or> ro \<or> cr_editor s \<noteq> None), A ''title'' (t ''clients.edit''),
                A ''aria-label'' (t ''clients.edit'' @ '' '' @ cl_name c), OnClick (CL_Edit c)] [Icon ''Pencil'' 15],
              El T_button [Cls ''icon-button danger-icon'', Disabled (cr_busy s \<or> ro), A ''title'' (t ''clients.delete''),
                A ''aria-label'' (t ''clients.delete'' @ '' '' @ cl_name c),
                OnConfirm (t ''clients.delete_confirm'' @ '' '' @ cl_name c @ ''?'') (CL_Delete c)] [Icon ''Trash2'' 15]]]]"

definition clients_table ::
  "(jstring \<Rightarrow> jstring) \<Rightarrow> formats \<Rightarrow> bool \<Rightarrow> jstring \<Rightarrow> clients_page \<Rightarrow> client_view list \<Rightarrow> clients_msg node" where
  [view_defs]: "clients_table t fm ro highlight s cs =
     El T_section [Cls ''panel'']
       [El T_div [Cls ''table-wrap'']
          [El T_table []
             [El T_caption [Cls ''sr-only''] [Txt (t ''app.title.clients'')],
              El T_thead [] [El T_tr []
                [El T_th [] [Txt (t ''clients.name'')], El T_th [] [Txt (t ''clients.addresses'')],
                 El T_th [] [Txt (t ''clients.activity'')], El T_th [] [Txt (t ''clients.description'')],
                 El T_th [] [El T_span [Cls ''sr-only''] [Txt (t ''zones.col_actions'')]]]],
              El T_tbody [] (map (client_row t fm ro highlight s) cs)]]]"

definition unnamed_row :: "(jstring \<Rightarrow> jstring) \<Rightarrow> formats \<Rightarrow> bool \<Rightarrow> clients_page \<Rightarrow> client_activity \<Rightarrow> clients_msg node" where
  [view_defs]: "unnamed_row t fm ro s a =
     El T_tr [A ''key'' (ca_client_ip a)]
       [El T_td [] [El T_code [] [Txt (ca_client_ip a)]],
        El T_td [Cls ''num mono''] [Txt (fm_number fm (ca_queries a))],
        El T_td [Cls ''cell-muted''] [Txt (fm_date fm (ca_last_seen a))],
        El T_td []
          [El T_div [Cls ''table-actions'']
             [El T_button [Cls ''button small'', Disabled (cr_busy s \<or> ro \<or> cr_editor s \<noteq> None), OnClick (CL_NameIt a)]
                [Icon ''Plus'' 14, Txt (t ''clients.name_it'')]]]]"

definition unnamed_table :: "(jstring \<Rightarrow> jstring) \<Rightarrow> formats \<Rightarrow> bool \<Rightarrow> clients_page \<Rightarrow> client_activity list \<Rightarrow> clients_msg node" where
  [view_defs]: "unnamed_table t fm ro s us =
     El T_section [Cls ''panel'']
       [El T_div [Cls ''panel-heading'']
          [El T_div [] [El T_h2 [] [Txt (t ''clients.unnamed_title'')], El T_p [] [Txt (t ''clients.unnamed_text'')]]],
        El T_div [Cls ''table-wrap'']
          [El T_table []
             [El T_thead [] [El T_tr []
                [El T_th [] [Txt (t ''querylog.col_client'')], El T_th [Cls ''num''] [Txt (t ''clients.queries'')],
                 El T_th [] [Txt (t ''clients.last_seen'')],
                 El T_th [] [El T_span [Cls ''sr-only''] [Txt (t ''zones.col_actions'')]]]],
              El T_tbody [] (map (unnamed_row t fm ro s) us)]]]"

definition clients_view ::
  "(jstring \<Rightarrow> jstring) \<Rightarrow> formats \<Rightarrow> jstring \<Rightarrow> bool \<Rightarrow> bool \<Rightarrow> clients_page \<Rightarrow> clients_msg node list" where
  [view_defs]: "clients_view t fm highlight queryLogging ro s =
     [clients_toolbar t ro s] @ crud_notices s
     @ (case cr_editor s of None \<Rightarrow> [] | Some f \<Rightarrow> [client_form t (cr_busy s) f])
     @ render_if (\<not> queryLogging) [El T_div [Cls ''notice info'', A ''role'' ''status''] [Txt (t ''clients.logging_off'')]]
     @ [El T_div [Cls ''stack'']
         (render_if (cr_data s = None \<and> cr_error s = [])
            [El T_section [Cls ''panel''] [Loading [Txt (t ''app.connecting_panel'')]]]
          @ render_if (map_option cli_clients (cr_data s) = Some [])
            [El T_section [Cls ''panel'']
               [EmptyState [Icon ''MonitorSmartphone'' 22] (t ''clients.empty_title'') [Txt (t ''clients.empty_text'')] [] False]]
          @ (case cr_data s of None \<Rightarrow> [] | Some d \<Rightarrow>
              render_if (cli_clients d \<noteq> []) [clients_table t fm ro highlight s (cli_clients d)]
              @ render_if (cli_unnamed d \<noteq> []) [unnamed_table t fm ro s (cli_unnamed d)]))]"

section \<open>Lemmas\<close>

definition clients_guard :: "bool \<Rightarrow> clients_page \<Rightarrow> clients_msg \<Rightarrow> bool" where
  "clients_guard ro s m = (case m of
      CL_Reload \<Rightarrow> \<not> cr_busy s
    | CL_Submit \<Rightarrow> \<not> cr_busy s \<and> cr_editor s \<noteq> None
    | CL_Toggle c \<Rightarrow> \<not> cr_busy s \<and> \<not> ro
    | CL_Delete c \<Rightarrow> \<not> cr_busy s \<and> \<not> ro
    | CL_Add \<Rightarrow> \<not> ro | CL_Edit c \<Rightarrow> \<not> ro | CL_NameIt a \<Rightarrow> \<not> ro
    | _ \<Rightarrow> cr_editor s \<noteq> None)"

lemma client_form_ok:
  "node_ok P d (client_form t busy f) \<longleftrightarrow>
    (\<not> (d \<or> busy) \<longrightarrow> P CL_Submit \<and> P CL_Cancel \<and> (\<forall>v. P (CL_Name v)) \<and> (\<forall>v. P (CL_Addresses v)) \<and>
       (\<forall>v. P (CL_Group v)) \<and> (\<forall>v. P (CL_Description v)) \<and> (\<forall>b. P (CL_Enabled b)))"
  by (auto simp: client_form_def client_fields_def dom_simps Let_def)

lemma clients_table_ok: "node_ok (clients_guard ro s) False (clients_table t fm ro highlight s cs)"
proof -
  have "node_ok (clients_guard ro s) False (client_row t fm ro highlight s c)" for c
    by (auto simp: client_row_def client_activity_cell_def dom_simps clients_guard_def render_if_def split: option.split)
  then show ?thesis by (simp add: clients_table_def dom_simps)
qed

lemma unnamed_table_ok: "node_ok (clients_guard ro s) False (unnamed_table t fm ro s us)"
  by (simp add: unnamed_table_def unnamed_row_def dom_simps clients_guard_def)

lemma clients_view_ok: "nodes_ok (clients_guard ro s) (clients_view t fm highlight ql ro s)"
proof -
  have toolbar: "node_ok (clients_guard ro s) False (clients_toolbar t ro s)"
    by (simp add: clients_toolbar_def dom_simps clients_guard_def)
  have editor: "nodes_ok (clients_guard ro s) (case cr_editor s of None \<Rightarrow> [] | Some f \<Rightarrow> [client_form t (cr_busy s) f])"
    by (auto simp: client_form_ok clients_guard_def split: option.split)
  show ?thesis
    using toolbar editor clients_table_ok unnamed_table_ok crud_notices_ok
    by (auto simp: clients_view_def Loading_def EmptyState_def dom_simps split: option.split)
qed

lemma clients_fired: "m \<in> fires (clients_view t fm highlight ql ro s) \<Longrightarrow> clients_guard ro s m"
  by (rule nodes_okD [OF clients_view_ok])

lemma clients_update_inv: "clients_guard ro s m \<Longrightarrow> crud_inv s \<Longrightarrow> crud_inv (clients_update t m s)"
  by (cases m) (auto simp: clients_guard_def clients_save_def crud_inv_load crud_inv_run
      split: option.split)

lemma clients_update_change:
  "clients_guard ro s m \<Longrightarrow> crud_inv s \<Longrightarrow> one_change (open_runs s) (open_runs (clients_update t m s))"
  by (cases m) (auto simp: clients_guard_def clients_save_def crud_run_change split: option.split)

lemma clients_update_ro: "clients_guard True s m \<Longrightarrow> crud_idle s \<Longrightarrow> crud_idle (clients_update t m s)"
  by (cases m) (auto simp: clients_guard_def crud_load_def crud_idle_def)

interpretation clients: crud_client
  "\<lambda>ro s. \<exists>n. s = clients_mount ro n" "clients_view t fm highlight ql" "clients_update t"
  "crud_env (t ''clients.load_failed'') (t ''clients.save_failed'')" for t fm highlight ql
proof unfold_locales
  show "crud_inv s" if "\<exists>n. s = clients_mount ro n" for ro s
    using that by (auto simp: clients_mount_def crud_inv_mount)
  show "crud_idle s" if "\<exists>n. s = clients_mount True n" for s
    using that by (auto simp: clients_mount_def crud_mount_def crud_idle_def)
qed (blast intro: clients_update_inv clients_fired clients_update_ro crud_inv_env crud_env_idle clients_update_change crud_env_change)+

text \<open>Editing a client and saving the form unchanged sends the client back as it was.\<close>

lemma toInput_edit_form:
  assumes "\<forall>a \<in> set (cl_addresses c). a \<noteq> [] \<and> (\<forall>x \<in> set a. \<not> ws_or_comma x)"
    and "js_trim (cl_name c) = cl_name c" "js_trim (cl_group c) = cl_group c" "js_trim (cl_description c) = cl_description c"
  shows "toInput (client_edit_form c) = inputOf c"
proof -
  have "tokens ws_or_comma (js_join '', '' (cl_addresses c)) = cl_addresses c"
    using assms(1) by (intro tokens_join) (auto simp: ws_or_comma_def js_ws_def)
  then show ?thesis using assms(2-4) by (simp add: toInput_def client_edit_form_def inputOf_def)
qed

lemma toInput_addresses: "a \<in> set (ci_addresses (toInput f)) \<Longrightarrow> a \<noteq> [] \<and> (\<forall>x \<in> set a. \<not> ws_or_comma x)"
  by (auto simp: toInput_def dest: tokens_wf)

end
