(* ===== verification/Rewrites_Page.thy ===== *)
theory Rewrites_Page
  imports Crud
begin

text \<open>
  \<open>pages/Rewrites.tsx\<close>: DNS rewrites. Beside the load-and-run core the page keeps the text of
  its search field.
\<close>

definition TYPES :: "rewrite_type list" where
  "TYPES = [RW_A, RW_AAAA, RW_CNAME]"

fun PLACEHOLDERS :: "rewrite_type \<Rightarrow> jstring" where
  "PLACEHOLDERS RW_A = ''192.168.1.20''"
| "PLACEHOLDERS RW_AAAA = ''2001:db8::20''"
| "PLACEHOLDERS RW_CNAME = ''nas.home''"

record rewrite_editor =
  re_id :: "int option"
  re_input :: rewrite_input

record rewrites_page = "(rewrite_status list, rewrite_editor) crud" +
  rw_filter :: jstring

definition rewrites_mount :: "jstring option \<Rightarrow> rewrites_page" where
  "rewrites_mount q = crud.extend (crud_mount None) \<lparr>rw_filter = nullish q []\<rparr>"

definition rewrite_needle :: "jstring \<Rightarrow> jstring" where
  "rewrite_needle v = js_lower (js_trim v)"

definition rewrite_matches :: "jstring \<Rightarrow> rewrite_status \<Rightarrow> bool" where
  "rewrite_matches needle r \<longleftrightarrow>
     js_includes (ri_name (rs_input r)) needle \<or> js_includes (js_lower (ri_value (rs_input r))) needle"

definition rewrites_visible :: "rewrites_page \<Rightarrow> rewrite_status list option" where
  "rewrites_visible s = (let needle = rewrite_needle (rw_filter s) in
     if cr_data s = None \<or> needle = [] then cr_data s
     else map_option (filter (rewrite_matches needle)) (cr_data s))"

definition rewrite_blank :: rewrite_editor where
  "rewrite_blank = \<lparr>re_id = None,
     re_input = \<lparr>ri_name = [], ri_type = RW_A, ri_value = [], ri_enabled = True, ri_description = []\<rparr>\<rparr>"

text \<open>A rule is an input with an id and two annotations, so \<open>fromRule\<close> is the projection.\<close>

definition fromRule :: "rewrite_status \<Rightarrow> rewrite_input" where
  "fromRule r = rs_input r"

definition rewrite_body :: "rewrite_input \<Rightarrow> rewrite_input" where
  "rewrite_body i = i\<lparr>ri_name := js_trim (ri_name i), ri_value := js_trim (ri_value i),
     ri_description := js_trim (ri_description i)\<rparr>"

definition rewrite_save_call :: "rewrite_editor \<Rightarrow> call" where
  "rewrite_save_call e = (case re_id e of
      None \<Rightarrow> createRewrite_call (rewrite_body (re_input e))
    | Some n \<Rightarrow> updateRewrite_call n (rewrite_body (re_input e)))"

datatype rewrites_msg =
    RW_Reload
  | RW_Add
  | RW_Name jstring
  | RW_Type jstring
  | RW_Value jstring
  | RW_Description jstring
  | RW_Enabled bool
  | RW_Submit
  | RW_Cancel
  | RW_Filter jstring
  | RW_Toggle rewrite_status
  | RW_Edit rewrite_status
  | RW_Delete rewrite_status

definition rewrites_save :: "(jstring \<Rightarrow> jstring) \<Rightarrow> rewrites_page \<Rightarrow> rewrites_page" where
  "rewrites_save t s = (case cr_editor s of
      None \<Rightarrow> s
    | Some e \<Rightarrow> crud_run (RunCall (rewrite_save_call e) (t ''rewrites.saved'') True) s)"

definition edit_rewrite :: "(rewrite_input \<Rightarrow> rewrite_input) \<Rightarrow> rewrites_page \<Rightarrow> rewrites_page" where
  "edit_rewrite f s = s\<lparr>cr_editor := map_option (re_input_update f) (cr_editor s)\<rparr>"

text \<open>The type menu offers the three types only.\<close>

definition rewrite_type_of :: "jstring \<Rightarrow> rewrite_type option" where
  "rewrite_type_of v = find (\<lambda>ty. rewrite_type_name ty = v) TYPES"

fun rewrites_update :: "(jstring \<Rightarrow> jstring) \<Rightarrow> rewrites_msg \<Rightarrow> rewrites_page \<Rightarrow> rewrites_page" where
  "rewrites_update t RW_Reload s = crud_load None s"
| "rewrites_update t RW_Add s = s\<lparr>cr_editor := Some rewrite_blank, cr_notice := []\<rparr>"
| "rewrites_update t (RW_Name v) s = edit_rewrite (ri_name_update (\<lambda>_. v)) s"
| "rewrites_update t (RW_Type v) s =
     (case rewrite_type_of v of None \<Rightarrow> s | Some ty \<Rightarrow> edit_rewrite (ri_type_update (\<lambda>_. ty)) s)"
| "rewrites_update t (RW_Value v) s = edit_rewrite (ri_value_update (\<lambda>_. v)) s"
| "rewrites_update t (RW_Description v) s = edit_rewrite (ri_description_update (\<lambda>_. v)) s"
| "rewrites_update t (RW_Enabled b) s = edit_rewrite (ri_enabled_update (\<lambda>_. b)) s"
| "rewrites_update t RW_Submit s = rewrites_save t s"
| "rewrites_update t RW_Cancel s = s\<lparr>cr_editor := None\<rparr>"
| "rewrites_update t (RW_Filter v) s = s\<lparr>rw_filter := v\<rparr>"
| "rewrites_update t (RW_Toggle r) s =
     crud_run (RunCall (updateRewrite_call (rs_id r) ((fromRule r)\<lparr>ri_enabled := \<not> ri_enabled (rs_input r)\<rparr>)) [] False) s"
| "rewrites_update t (RW_Edit r) s = s\<lparr>cr_editor := Some \<lparr>re_id = Some (rs_id r), re_input = fromRule r\<rparr>, cr_notice := []\<rparr>"
| "rewrites_update t (RW_Delete r) s = crud_run (RunCall (deleteRewrite_call (rs_id r)) [] False) s"

section \<open>Rendering\<close>

definition rewrites_toolbar :: "(jstring \<Rightarrow> jstring) \<Rightarrow> bool \<Rightarrow> rewrites_page \<Rightarrow> rewrites_msg node" where
  [view_defs]: "rewrites_toolbar t ro s =
     El T_div [Cls ''zones-toolbar'']
       [El T_span [Cls ''zone-count'']
          [Txt (case cr_data s of Some rs \<Rightarrow> show_nat (length rs) @ '' '' @ t ''rewrites.count'' | None \<Rightarrow> [])],
        El T_div []
          [El T_button [Cls ''button'', Disabled (cr_busy s), OnClick RW_Reload]
             [Icon ''RefreshCw'' 15, Txt (t ''blocklists.reload'')],
           El T_button [Cls ''button primary'', Disabled (cr_busy s \<or> ro \<or> cr_editor s \<noteq> None), OnClick RW_Add]
             [Icon ''Plus'' 15, Txt (t ''rewrites.add'')]]]"

definition rewrite_fields :: "(jstring \<Rightarrow> jstring) \<Rightarrow> rewrite_input \<Rightarrow> rewrites_msg node" where
  [view_defs]: "rewrite_fields t i =
     El T_div [Cls ''form-grid rewrite-grid'']
       [El T_label []
          [Txt (t ''rewrites.name''),
           El T_input [A ''value'' (ri_name i), OnChange RW_Name, A ''placeholder'' ''nas.home'', AN ''maxLength'' 255,
             A ''autoComplete'' ''off'', Flag ''required'', Flag ''autoFocus''] []],
        El T_label []
          [Txt (t ''rewrites.type''),
           El T_select [A ''value'' (rewrite_type_name (ri_type i)), OnChange RW_Type]
             (map (\<lambda>ty. El T_option [A ''key'' (rewrite_type_name ty)] [Txt (rewrite_type_name ty)]) TYPES)],
        El T_label []
          [Txt (t ''rewrites.value''),
           El T_input [A ''value'' (ri_value i), OnChange RW_Value, A ''placeholder'' (PLACEHOLDERS (ri_type i)),
             AN ''maxLength'' 253, A ''autoComplete'' ''off'', AB ''spellCheck'' False, Flag ''required''] [],
           El T_small [] [Txt (t (''rewrites.value_hint_'' @ rewrite_type_name (ri_type i)))]],
        El T_label []
          [Txt (t ''rewrites.description''),
           El T_input [A ''value'' (ri_description i), OnChange RW_Description, AN ''maxLength'' 200] []]]"

definition rewrite_form :: "(jstring \<Rightarrow> jstring) \<Rightarrow> bool \<Rightarrow> rewrite_editor \<Rightarrow> rewrites_msg node" where
  [view_defs]: "rewrite_form t busy e =
     (let title = t (if re_id e = None then ''rewrites.add_title'' else ''rewrites.edit_title'') in
      El T_section [Cls ''panel form-panel'']
        [El T_form [Cls ''zone-form'', A ''aria-label'' title, OnSubmit RW_Submit]
           [El T_div [] [El T_h3 [] [Txt title], El T_p [] [Txt (t ''rewrites.form_hint'')]],
            El T_fieldset [Disabled busy]
              [rewrite_fields t (re_input e),
               El T_label [Cls ''check-field'']
                 [El T_input [A ''type'' ''checkbox'', AB ''checked'' (ri_enabled (re_input e)), OnCheck RW_Enabled] [],
                  Txt (t ''rewrites.enabled'')],
               El T_div [Cls ''form-actions'']
                 [El T_button [Cls ''button primary'', A ''type'' ''submit''] [Txt (t ''rewrites.save'')],
                  El T_button [Cls ''button'', A ''type'' ''button'', OnClick RW_Cancel] [Txt (t ''forwarding.cancel'')]]]]])"

definition rewrite_row :: "(jstring \<Rightarrow> jstring) \<Rightarrow> bool \<Rightarrow> rewrites_page \<Rightarrow> rewrite_status \<Rightarrow> rewrites_msg node" where
  [view_defs]: "rewrite_row t ro s r =
     (let i = rs_input r; what = ri_name i @ '' '' @ rewrite_type_name (ri_type i) in
      El T_tr [A ''key'' (show_int (rs_id r))]
       [El T_td []
          [El T_span [Cls ''endpoint'']
             [El T_button [Cls ''switch'', A ''role'' ''switch'', AB ''aria-checked'' (ri_enabled i),
                A ''aria-label'' (t ''rewrites.toggle'' @ '' '' @ what), Disabled (cr_busy s \<or> ro), OnClick (RW_Toggle r)] [],
              El T_code [] [Txt (ri_name i)]]],
        El T_td [] [El T_span [Cls ''record-type''] [Txt (rewrite_type_name (ri_type i))]],
        El T_td [Cls ''record-value''] [El T_code [] [Txt (ri_value i)]],
        El T_td [Cls ''wrap'']
          (render_if (nullish (rs_blocked_by r) [] \<noteq> []) [Badge Tone_danger False [Txt (t ''rewrites.blocked_hint'')]]
           @ render_if (nullish (rs_overrides_zone r) [] \<noteq> [])
              [Badge Tone_info False [Txt (t ''rewrites.overrides_hint''), Txt '': '', Txt (nullish (rs_overrides_zone r) [])]]
           @ render_if (ri_description i \<noteq> []) [El T_small [Cls ''cell-muted''] [Txt (ri_description i)]]),
        El T_td []
          [El T_div [Cls ''table-actions'']
             [El T_button [Cls ''icon-button'', Disabled (cr_busy s \<or> ro \<or> cr_editor s \<noteq> None), A ''title'' (t ''rewrites.edit''),
                A ''aria-label'' (t ''rewrites.edit'' @ '' '' @ what), OnClick (RW_Edit r)] [Icon ''Pencil'' 15],
              El T_button [Cls ''icon-button danger-icon'', Disabled (cr_busy s \<or> ro), A ''title'' (t ''rewrites.delete''),
                A ''aria-label'' (t ''rewrites.delete'' @ '' '' @ what),
                OnConfirm (t ''rewrites.delete_confirm'' @ [CHR 0x0A] @ what @ '' '' @ ri_value i) (RW_Delete r)]
                [Icon ''Trash2'' 15]]]])"

definition rewrites_table :: "(jstring \<Rightarrow> jstring) \<Rightarrow> bool \<Rightarrow> rewrites_page \<Rightarrow> rewrites_msg node" where
  [view_defs]: "rewrites_table t ro s =
     El T_section [Cls ''panel'']
       [El T_div [Cls ''zone-form'', A ''role'' ''search'']
          [El T_label [Cls ''zone-search rewrite-search'']
             [Icon ''Search'' 15, El T_span [Cls ''sr-only''] [Txt (t ''rewrites.search'')],
              El T_input [A ''type'' ''search'', A ''value'' (rw_filter s), OnChange RW_Filter,
                A ''placeholder'' (t ''rewrites.search''), A ''autoComplete'' ''off''] []]],
        El T_div [Cls ''table-wrap'']
          [El T_table [Cls ''records-table'']
             [El T_caption [Cls ''sr-only''] [Txt (t ''app.title.rewrites'')],
              El T_thead [] [El T_tr []
                [El T_th [] [Txt (t ''rewrites.name'')], El T_th [] [Txt (t ''rewrites.type'')],
                 El T_th [] [Txt (t ''rewrites.value'')], El T_th [] [Txt (t ''rewrites.col_notes'')],
                 El T_th [] [El T_span [Cls ''sr-only''] [Txt (t ''zones.col_actions'')]]]],
              El T_tbody [] (map (rewrite_row t ro s) (nullish (rewrites_visible s) []))]]]"

definition rewrites_view :: "(jstring \<Rightarrow> jstring) \<Rightarrow> bool \<Rightarrow> rewrites_page \<Rightarrow> rewrites_msg node list" where
  [view_defs]: "rewrites_view t ro s =
     [rewrites_toolbar t ro s] @ crud_notices s
     @ (case cr_editor s of None \<Rightarrow> [] | Some e \<Rightarrow> [rewrite_form t (cr_busy s) e])
     @ render_if (cr_data s = None \<and> cr_error s = [])
         [El T_section [Cls ''panel''] [Loading [Txt (t ''app.connecting_panel'')]]]
     @ render_if (cr_data s = Some [])
         [El T_section [Cls ''panel'']
            [EmptyState [Icon ''Replace'' 22] (t ''rewrites.empty_title'') [Txt (t ''rewrites.empty_text'')] [] False]]
     @ render_if (nullish (cr_data s) [] \<noteq> []) [rewrites_table t ro s]"

section \<open>Lemmas\<close>

definition rewrites_guard :: "bool \<Rightarrow> rewrites_page \<Rightarrow> rewrites_msg \<Rightarrow> bool" where
  "rewrites_guard ro s m = (case m of
      RW_Reload \<Rightarrow> \<not> cr_busy s
    | RW_Submit \<Rightarrow> \<not> cr_busy s \<and> cr_editor s \<noteq> None
    | RW_Toggle r \<Rightarrow> \<not> cr_busy s \<and> \<not> ro
    | RW_Delete r \<Rightarrow> \<not> cr_busy s \<and> \<not> ro
    | RW_Add \<Rightarrow> \<not> ro | RW_Edit r \<Rightarrow> \<not> ro
    | RW_Filter v \<Rightarrow> True
    | _ \<Rightarrow> cr_editor s \<noteq> None)"

lemma rewrite_form_ok:
  "node_ok P d (rewrite_form t busy e) \<longleftrightarrow>
    (\<not> (d \<or> busy) \<longrightarrow> P RW_Submit \<and> P RW_Cancel \<and> (\<forall>v. P (RW_Name v)) \<and> (\<forall>v. P (RW_Type v)) \<and>
       (\<forall>v. P (RW_Value v)) \<and> (\<forall>v. P (RW_Description v)) \<and> (\<forall>b. P (RW_Enabled b)))"
  by (auto simp: rewrite_form_def rewrite_fields_def dom_simps Let_def)

lemma rewrites_table_ok: "node_ok (rewrites_guard ro s) False (rewrites_table t ro s)"
proof -
  have "node_ok (rewrites_guard ro s) False (rewrite_row t ro s r)" for r
    by (auto simp: rewrite_row_def Badge_def dom_simps rewrites_guard_def Let_def)
  then show ?thesis by (simp add: rewrites_table_def dom_simps rewrites_guard_def)
qed

lemma rewrites_view_ok: "nodes_ok (rewrites_guard ro s) (rewrites_view t ro s)"
proof -
  have toolbar: "node_ok (rewrites_guard ro s) False (rewrites_toolbar t ro s)"
    by (simp add: rewrites_toolbar_def dom_simps rewrites_guard_def)
  have editor: "nodes_ok (rewrites_guard ro s) (case cr_editor s of None \<Rightarrow> [] | Some f \<Rightarrow> [rewrite_form t (cr_busy s) f])"
    by (auto simp: rewrite_form_ok rewrites_guard_def split: option.split)
  show ?thesis
    using toolbar editor rewrites_table_ok crud_notices_ok
    by (auto simp: rewrites_view_def Loading_def EmptyState_def dom_simps split: option.split)
qed

lemma rewrites_fired: "m \<in> fires (rewrites_view t ro s) \<Longrightarrow> rewrites_guard ro s m"
  by (rule nodes_okD [OF rewrites_view_ok])

lemma crud_inv_filter [simp]: "crud_inv (s\<lparr>rw_filter := v\<rparr>) = crud_inv s"
  by (simp add: crud_inv_def open_runs_def)

lemma rewrites_update_inv: "rewrites_guard ro s m \<Longrightarrow> crud_inv s \<Longrightarrow> crud_inv (rewrites_update t m s)"
  by (cases m) (auto simp: rewrites_guard_def rewrites_save_def edit_rewrite_def crud_inv_load crud_inv_run split: option.split)

lemma open_runs_filter [simp]: "open_runs (s\<lparr>rw_filter := v\<rparr>) = open_runs s"
  by (simp add: open_runs_def)

lemma rewrites_update_change:
  "rewrites_guard ro s m \<Longrightarrow> crud_inv s \<Longrightarrow> one_change (open_runs s) (open_runs (rewrites_update t m s))"
  by (cases m) (auto simp: rewrites_guard_def rewrites_save_def edit_rewrite_def crud_run_change split: option.split)

lemma rewrites_update_ro: "rewrites_guard True s m \<Longrightarrow> crud_idle s \<Longrightarrow> crud_idle (rewrites_update t m s)"
  by (cases m) (auto simp: rewrites_guard_def crud_load_def crud_idle_def)

interpretation rules: crud_client
  "\<lambda>ro s. \<exists>q. s = rewrites_mount q" "rewrites_view t" "rewrites_update t"
  "crud_env (t ''rewrites.load_failed'') (t ''rewrites.save_failed'')" for t
proof unfold_locales
  show "crud_inv s" if "\<exists>q. s = rewrites_mount q" for ro :: bool and s
    using that by (auto simp: rewrites_mount_def crud_mount_def crud.defs crud_inv_def open_runs_def)
  show "crud_idle s" if "\<exists>q. s = rewrites_mount q" for s
    using that by (auto simp: rewrites_mount_def crud_mount_def crud.defs crud_idle_def)
qed (blast intro: rewrites_update_inv rewrites_fired rewrites_update_ro crud_inv_env crud_env_idle rewrites_update_change crud_env_change)+

text \<open>Saving an unchanged rule sends it as it is when its texts are trimmed already.\<close>

lemma rewrite_body_idem [simp]: "rewrite_body (rewrite_body i) = rewrite_body i"
  by (simp add: rewrite_body_def)

lemma rewrite_body_id:
  "js_trim (ri_name i) = ri_name i \<Longrightarrow> js_trim (ri_value i) = ri_value i \<Longrightarrow>
     js_trim (ri_description i) = ri_description i \<Longrightarrow> rewrite_body i = i"
  by (simp add: rewrite_body_def)

text \<open>The filter shows a sublist of the loaded rules, in their order, and everything when it is blank.\<close>

lemma rewrites_visible_sublist:
  "rewrites_visible s = Some vs \<Longrightarrow> \<exists>rs. cr_data s = Some rs \<and>
     vs = filter (\<lambda>r. rewrite_needle (rw_filter s) = [] \<or> rewrite_matches (rewrite_needle (rw_filter s)) r) rs"
  by (auto simp: rewrites_visible_def Let_def split: if_splits)

end
