(* ===== verification/Policies_Page.thy ===== *)
theory Policies_Page
  imports Crud
begin

text \<open>
  \<open>pages/Policies.tsx\<close>: filtering policies per client. The page is built on the load-and-run
  core; its load gathers three answers with \<open>Promise.all\<close>, which is one result here. Beside
  the core it keeps the address to look up and the effective policy found for it.
\<close>

record policy_data =
  pd_policies :: "policy list"
  pd_clients :: "client_view list"
  pd_sources :: "blocklist_source list"

record policy_editor =
  pe_id :: "int option"
  pe_clientID :: int
  pe_mode :: policy_mode
  pe_blocklists :: "int list"
  pe_allow :: jstring
  pe_block :: jstring
  pe_enabled :: bool

record policies_page = "(policy_data, policy_editor) crud" +
  pp_lookup :: jstring
  pp_effective :: "effective_policy option"
  pp_checks :: "jstring list"

definition policies_mount :: policies_page where
  "policies_mount = crud.extend (crud_mount None) \<lparr>pp_lookup = [], pp_effective = None, pp_checks = []\<rparr>"

text \<open>Clients and sources start empty and are set together with the policies.\<close>

definition policy_clients :: "policies_page \<Rightarrow> client_view list" where
  "policy_clients s = nullish (map_option pd_clients (cr_data s)) []"

definition policy_sources :: "policies_page \<Rightarrow> blocklist_source list" where
  "policy_sources s = nullish (map_option pd_sources (cr_data s)) []"

fun MODE_BADGE :: "policy_mode \<Rightarrow> jstring" where
  "MODE_BADGE PM_default = ''badge''"
| "MODE_BADGE PM_disabled = ''badge warning''"
| "MODE_BADGE PM_custom = ''badge info''"

text \<open>Splitting on white space and commas leaves nothing for \<open>trim\<close> to remove.\<close>

definition domains :: "jstring \<Rightarrow> jstring list" where
  "domains v = filter (\<lambda>w. w \<noteq> []) (map js_trim (split_runs ws_or_comma v))"

definition policy_toInput :: "policy_editor \<Rightarrow> policy_input" where
  "policy_toInput f = \<lparr>py_client_id = pe_clientID f, py_mode = pe_mode f,
     py_blocklists = (if pe_mode f = PM_custom then pe_blocklists f else []),
     py_allow = (if pe_mode f = PM_custom then domains (pe_allow f) else []),
     py_block = (if pe_mode f = PM_custom then domains (pe_block f) else []),
     py_enabled = pe_enabled f\<rparr>"

definition policy_inputOf :: "policy \<Rightarrow> policy_input" where
  "policy_inputOf p = policy_input.truncate p"

definition policy_edit_form :: "policy \<Rightarrow> policy_editor" where
  "policy_edit_form p = \<lparr>pe_id = Some (pol_id p), pe_clientID = py_client_id p, pe_mode = py_mode p,
     pe_blocklists = py_blocklists p, pe_allow = js_join [CHR 0x0A] (py_allow p), pe_block = js_join [CHR 0x0A] (py_block p),
     pe_enabled = py_enabled p\<rparr>"

section \<open>Derived values\<close>

definition clientName :: "policies_page \<Rightarrow> int \<Rightarrow> jstring" where
  "clientName s n = (case find (\<lambda>c. cl_id c = n) (policy_clients s) of Some c \<Rightarrow> cl_name c | None \<Rightarrow> CHR ''#'' # show_int n)"

definition sourceName :: "policies_page \<Rightarrow> int \<Rightarrow> jstring" where
  "sourceName s n = (case find (\<lambda>b. bs_id b = n) (policy_sources s) of Some b \<Rightarrow> bs_name b | None \<Rightarrow> CHR ''#'' # show_int n)"

text \<open>\<open>policies?.some(...)\<close>\<close>

definition has_policy :: "policies_page \<Rightarrow> client_view \<Rightarrow> bool" where
  "has_policy s c \<longleftrightarrow> (case cr_data s of None \<Rightarrow> False | Some d \<Rightarrow> list_ex (\<lambda>p. py_client_id p = cl_id c) (pd_policies d))"

definition available :: "policies_page \<Rightarrow> client_view list" where
  "available s = filter (\<lambda>c. map_option pe_clientID (cr_editor s) = Some (cl_id c) \<or> \<not> has_policy s c) (policy_clients s)"

definition policy_summary :: "(jstring \<Rightarrow> jstring) \<Rightarrow> policies_page \<Rightarrow> policy \<Rightarrow> jstring" where
  "policy_summary t s p = (case py_mode p of
      PM_disabled \<Rightarrow> t ''policies.summary_disabled''
    | PM_default \<Rightarrow> t ''policies.summary_default''
    | PM_custom \<Rightarrow> js_join [CHR '' '', CHR 0xB7, CHR '' '']
        ([if py_blocklists p \<noteq> [] then js_join '', '' (map (sourceName s) (py_blocklists p)) else t ''policies.no_lists'']
         @ (if py_block p \<noteq> [] then [CHR ''+'' # show_nat (length (py_block p)) @ '' '' @ t ''policies.blocked_short''] else [])
         @ (if py_allow p \<noteq> [] then [show_nat (length (py_allow p)) @ '' '' @ t ''policies.allowed_short''] else [])))"

section \<open>Handlers\<close>

datatype policies_msg =
    PO_Lookup jstring
  | PO_Check
  | PO_Reload
  | PO_New
  | PO_Client jstring
  | PO_Mode jstring
  | PO_Source int bool
  | PO_Block jstring
  | PO_Allow jstring
  | PO_Enabled bool
  | PO_Submit
  | PO_Cancel
  | PO_Toggle policy
  | PO_Edit policy
  | PO_Delete policy

definition startNew :: "policies_page \<Rightarrow> policies_page" where
  "startNew s = s\<lparr>cr_editor := Some \<lparr>pe_id = None,
       pe_clientID = (case find (\<lambda>c. \<not> has_policy s c) (policy_clients s) of Some c \<Rightarrow> cl_id c | None \<Rightarrow> 0),
       pe_mode = PM_custom, pe_blocklists = [], pe_allow = [], pe_block = [], pe_enabled = True\<rparr>, cr_notice := []\<rparr>"

text \<open>The synchronous part of \<open>check\<close> and its continuation.\<close>

definition policy_check :: "policies_page \<Rightarrow> policies_page" where
  "policy_check s = s\<lparr>cr_error := [], pp_checks := pp_checks s @ [js_trim (pp_lookup s)]\<rparr>"

definition policy_check_settled :: "(jstring \<Rightarrow> jstring) \<Rightarrow> nat \<Rightarrow> effective_policy result \<Rightarrow> policies_page \<Rightarrow> policies_page" where
  "policy_check_settled t i res s = (let s0 = s\<lparr>pp_checks := remove_nth i (pp_checks s)\<rparr> in case res of
      Inr e \<Rightarrow> s0\<lparr>pp_effective := Some e\<rparr>
    | Inl e \<Rightarrow> s0\<lparr>pp_effective := None, cr_error := error_text e (t ''policies.load_failed'')\<rparr>)"

text \<open>After a successful change \<open>run\<close> also drops the effective policy, before it reloads.\<close>

definition policy_run_settled :: "jstring \<Rightarrow> nat \<Rightarrow> unit result \<Rightarrow> policies_page \<Rightarrow> policies_page" where
  "policy_run_settled failed i res s = (let s1 = crud_run_settled failed i res s in
     case res of Inr _ \<Rightarrow> s1\<lparr>pp_effective := None\<rparr> | Inl e \<Rightarrow> s1)"

definition policy_save_call :: "policy_editor \<Rightarrow> call" where
  "policy_save_call f = (case pe_id f of
      None \<Rightarrow> createPolicy_call (policy_toInput f)
    | Some n \<Rightarrow> updatePolicy_call n (policy_toInput f))"

definition policy_save :: "(jstring \<Rightarrow> jstring) \<Rightarrow> policies_page \<Rightarrow> policies_page" where
  "policy_save t s = (case cr_editor s of
      None \<Rightarrow> s
    | Some f \<Rightarrow> crud_run (RunCall (policy_save_call f) (t ''policies.saved'') True) s)"

definition edit_policy :: "(policy_editor \<Rightarrow> policy_editor) \<Rightarrow> policies_page \<Rightarrow> policies_page" where
  "edit_policy f s = s\<lparr>cr_editor := map_option f (cr_editor s)\<rparr>"

definition policy_mode_of :: "jstring \<Rightarrow> policy_mode option" where
  "policy_mode_of v = find (\<lambda>m. policy_mode_name m = v) [PM_custom, PM_disabled, PM_default]"

text \<open>The menus offer the available clients and the three modes only.\<close>

fun policies_update :: "(jstring \<Rightarrow> jstring) \<Rightarrow> policies_msg \<Rightarrow> policies_page \<Rightarrow> policies_page" where
  "policies_update t (PO_Lookup v) s = s\<lparr>pp_lookup := v\<rparr>"
| "policies_update t PO_Check s = policy_check s"
| "policies_update t PO_Reload s = crud_load None s"
| "policies_update t PO_New s = startNew s"
| "policies_update t (PO_Client v) s = (case find (\<lambda>c. show_int (cl_id c) = v) (available s) of
      None \<Rightarrow> s | Some c \<Rightarrow> edit_policy (pe_clientID_update (\<lambda>_. cl_id c)) s)"
| "policies_update t (PO_Mode v) s = (case policy_mode_of v of None \<Rightarrow> s | Some m \<Rightarrow> edit_policy (pe_mode_update (\<lambda>_. m)) s)"
| "policies_update t (PO_Source n on) s =
     edit_policy (pe_blocklists_update (\<lambda>ids. if on then ids @ [n] else filter (\<lambda>x. x \<noteq> n) ids)) s"
| "policies_update t (PO_Block v) s = edit_policy (pe_block_update (\<lambda>_. v)) s"
| "policies_update t (PO_Allow v) s = edit_policy (pe_allow_update (\<lambda>_. v)) s"
| "policies_update t (PO_Enabled b) s = edit_policy (pe_enabled_update (\<lambda>_. b)) s"
| "policies_update t PO_Submit s = policy_save t s"
| "policies_update t PO_Cancel s = s\<lparr>cr_editor := None\<rparr>"
| "policies_update t (PO_Toggle p) s =
     crud_run (RunCall (updatePolicy_call (pol_id p) ((policy_inputOf p)\<lparr>py_enabled := \<not> py_enabled p\<rparr>)) [] False) s"
| "policies_update t (PO_Edit p) s = s\<lparr>cr_editor := Some (policy_edit_form p), cr_notice := []\<rparr>"
| "policies_update t (PO_Delete p) s = crud_run (RunCall (deletePolicy_call (pol_id p)) [] False) s"

section \<open>Rendering\<close>

definition policies_toolbar :: "(jstring \<Rightarrow> jstring) \<Rightarrow> bool \<Rightarrow> policies_page \<Rightarrow> policies_msg node" where
  [view_defs]: "policies_toolbar t ro s =
     El T_div [Cls ''zones-toolbar'']
       [El T_form [Cls ''policy-lookup'', A ''role'' ''search'', OnSubmit PO_Check]
          [El T_label [Cls ''sr-only'', A ''htmlFor'' ''policy-lookup''] [Txt (t ''policies.lookup'')],
           El T_input [A ''id'' ''policy-lookup'', A ''value'' (pp_lookup s), OnChange PO_Lookup, A ''placeholder'' ''192.168.1.40'',
             AB ''spellCheck'' False, A ''autoComplete'' ''off'', Flag ''required''] [],
           El T_button [Cls ''button'', A ''type'' ''submit''] [Icon ''Search'' 15, Txt (t ''policies.lookup'')]],
        El T_div []
          [El T_button [Cls ''button'', Disabled (cr_busy s), OnClick PO_Reload]
             [Icon ''RefreshCw'' 15, Txt (t ''blocklists.reload'')],
           El T_button [Cls ''button primary'', Disabled (cr_busy s \<or> ro \<or> cr_editor s \<noteq> None \<or> policy_clients s = []), OnClick PO_New]
             [Icon ''Plus'' 15, Txt (t ''policies.add'')]]]"

definition effective_notice :: "(jstring \<Rightarrow> jstring) \<Rightarrow> jstring \<Rightarrow> effective_policy \<Rightarrow> policies_msg node" where
  [view_defs]: "effective_notice t lookup e =
     El T_div [Cls ''notice info'', A ''role'' ''status'']
       (case ef_client e of
          Some c \<Rightarrow>
            [El T_strong [] [Txt (js_trim lookup)], Txt ('' '' @ rarrow @ '' ''), Txt (cl_name c), Txt '': '',
             El T_span [Cls (MODE_BADGE (ef_mode e))] [Txt (t (''policies.mode_'' @ policy_mode_name (ef_mode e)))]]
            @ render_if (ef_policy e = None) [Txt '' '', Txt (t ''policies.no_policy'')]
        | None \<Rightarrow> [El T_strong [] [Txt (js_trim lookup)], Txt '' '', Txt (t ''policies.unknown_address'')])"

definition policy_fields :: "(jstring \<Rightarrow> jstring) \<Rightarrow> policies_page \<Rightarrow> policy_editor \<Rightarrow> policies_msg node" where
  [view_defs]: "policy_fields t s f =
     El T_div [Cls ''form-grid policy-grid'']
       [El T_label []
          [Txt (t ''policies.client''),
           El T_select [A ''value'' (show_int (pe_clientID f)), OnChange PO_Client, Flag ''required'']
             (map (\<lambda>c. El T_option [A ''key'' (show_int (cl_id c)), A ''value'' (show_int (cl_id c))] [Txt (cl_name c)]) (available s))],
        El T_label []
          [Txt (t ''policies.mode''),
           El T_select [A ''value'' (policy_mode_name (pe_mode f)), OnChange PO_Mode]
             [El T_option [A ''value'' ''custom''] [Txt (t ''policies.mode_custom'')],
              El T_option [A ''value'' ''disabled''] [Txt (t ''policies.mode_disabled'')],
              El T_option [A ''value'' ''default''] [Txt (t ''policies.mode_default'')]],
           El T_small [] [Txt (t (''policies.mode_'' @ policy_mode_name (pe_mode f) @ ''_hint''))]]]"

definition source_field :: "(jstring \<Rightarrow> jstring) \<Rightarrow> policy_editor \<Rightarrow> blocklist_source \<Rightarrow> policies_msg node" where
  [view_defs]: "source_field t f b =
     El T_label [A ''key'' (show_int (bs_id b)), Cls ''check-field'']
       ([El T_input [A ''type'' ''checkbox'', AB ''checked'' (bs_id b \<in> set (pe_blocklists f)), OnCheck (PO_Source (bs_id b))] [],
         Txt (bs_name b)]
        @ render_if (\<not> bs_enabled b) [El T_small [] [Txt ''('', Txt (t ''policies.globally_off''), Txt '')'']])"

definition policy_custom :: "(jstring \<Rightarrow> jstring) \<Rightarrow> policies_page \<Rightarrow> policy_editor \<Rightarrow> policies_msg node list" where
  [view_defs]: "policy_custom t s f =
     [El T_fieldset [Cls ''policy-lists'']
        ([El T_legend [] [Txt (t ''policies.blocklists'')]]
         @ render_if (policy_sources s = []) [El T_small [] [Txt (t ''policies.no_sources'')]]
         @ map (source_field t f) (policy_sources s)),
      El T_div [Cls ''form-grid policy-grid'']
        [El T_label []
           [Txt (t ''policies.block''),
            El T_textarea [AN ''rows'' 4, A ''value'' (pe_block f), OnChange PO_Block, A ''placeholder'' ''games.example'', AB ''spellCheck'' False] [],
            El T_small [] [Txt (t ''policies.domains_hint'')]],
         El T_label []
           [Txt (t ''policies.allow''),
            El T_textarea [AN ''rows'' 4, A ''value'' (pe_allow f), OnChange PO_Allow, A ''placeholder'' ''school.example'', AB ''spellCheck'' False] [],
            El T_small [] [Txt (t ''policies.allow_hint'')]]]]"

definition policy_form :: "(jstring \<Rightarrow> jstring) \<Rightarrow> policies_page \<Rightarrow> policy_editor \<Rightarrow> policies_msg node" where
  [view_defs]: "policy_form t s f =
     (let title = t (if pe_id f = None then ''policies.add_title'' else ''policies.edit_title'') in
      El T_section [Cls ''panel form-panel'']
        [El T_form [Cls ''zone-form'', A ''aria-label'' title, OnSubmit PO_Submit]
           [El T_div [] [El T_h3 [] [Txt title], El T_p [] [Txt (t ''policies.form_hint'')]],
            El T_fieldset [Disabled (cr_busy s)]
              ([policy_fields t s f]
               @ render_if (pe_mode f = PM_custom) (policy_custom t s f)
               @ [El T_label [Cls ''check-field'']
                    [El T_input [A ''type'' ''checkbox'', AB ''checked'' (pe_enabled f), OnCheck PO_Enabled] [], Txt (t ''policies.enabled'')],
                  El T_div [Cls ''form-actions'']
                    [El T_button [Cls ''button primary'', A ''type'' ''submit'', Disabled (pe_clientID f = 0)] [Txt (t ''policies.save'')],
                     El T_button [Cls ''button'', A ''type'' ''button'', OnClick PO_Cancel] [Txt (t ''forwarding.cancel'')]]])]])"

definition policy_row :: "(jstring \<Rightarrow> jstring) \<Rightarrow> bool \<Rightarrow> policies_page \<Rightarrow> policy \<Rightarrow> policies_msg node" where
  [view_defs]: "policy_row t ro s p =
     (let name = clientName s (py_client_id p) in
      El T_tr [A ''key'' (show_int (pol_id p))]
       [El T_td []
          [El T_span [Cls ''endpoint'']
             [El T_button [Cls ''switch'', A ''role'' ''switch'', AB ''aria-checked'' (py_enabled p),
                A ''aria-label'' (t ''policies.toggle'' @ '': '' @ name), Disabled (cr_busy s \<or> ro), OnClick (PO_Toggle p)] [],
              El T_Link [A ''to'' (''/clients?name='' @ encodeURIComponent name)] [El T_strong [] [Txt name]]]],
        El T_td []
          [El T_span [Cls (if py_enabled p then MODE_BADGE (py_mode p) else ''badge'')]
             [Txt (if py_enabled p then t (''policies.mode_'' @ policy_mode_name (py_mode p)) else t ''policies.paused'')]],
        El T_td [Cls ''wrap cell-muted''] [Txt (policy_summary t s p)],
        El T_td []
          [El T_div [Cls ''table-actions'']
             [El T_button [Cls ''icon-button'', Disabled (cr_busy s \<or> ro \<or> cr_editor s \<noteq> None), A ''title'' (t ''policies.edit''),
                A ''aria-label'' (t ''policies.edit'' @ '' '' @ name), OnClick (PO_Edit p)] [Icon ''Pencil'' 15],
              El T_button [Cls ''icon-button danger-icon'', Disabled (cr_busy s \<or> ro), A ''title'' (t ''policies.delete''),
                A ''aria-label'' (t ''policies.delete'' @ '' '' @ name),
                OnConfirm (t ''policies.delete_confirm'' @ '' '' @ name @ ''?'') (PO_Delete p)] [Icon ''Trash2'' 15]]]])"

definition policies_table :: "(jstring \<Rightarrow> jstring) \<Rightarrow> bool \<Rightarrow> policies_page \<Rightarrow> policy list \<Rightarrow> policies_msg node" where
  [view_defs]: "policies_table t ro s ps =
     El T_section [Cls ''panel'']
       [El T_div [Cls ''table-wrap'']
          [El T_table []
             [El T_caption [Cls ''sr-only''] [Txt (t ''app.title.policies'')],
              El T_thead [] [El T_tr []
                [El T_th [] [Txt (t ''policies.client'')], El T_th [] [Txt (t ''policies.mode'')],
                 El T_th [] [Txt (t ''policies.details'')],
                 El T_th [] [El T_span [Cls ''sr-only''] [Txt (t ''zones.col_actions'')]]]],
              El T_tbody [] (map (policy_row t ro s) ps)]]]"

definition policies_empty :: "(jstring \<Rightarrow> jstring) \<Rightarrow> policies_page \<Rightarrow> policies_msg node" where
  [view_defs]: "policies_empty t s =
     El T_section [Cls ''panel'']
       [EmptyState [Icon ''ShieldCheck'' 22] (t ''policies.empty_title'')
          (if policy_clients s = [] then [Txt (t ''policies.need_clients''), Txt '' '', El T_Link [A ''to'' ''/clients''] [Txt (t ''app.nav.clients'')]]
           else [Txt (t ''policies.empty_text'')]) [] False]"

definition policies_view :: "(jstring \<Rightarrow> jstring) \<Rightarrow> bool \<Rightarrow> policies_page \<Rightarrow> policies_msg node list" where
  [view_defs]: "policies_view t ro s =
     [policies_toolbar t ro s]
     @ (case pp_effective s of None \<Rightarrow> [] | Some e \<Rightarrow> [effective_notice t (pp_lookup s) e])
     @ crud_notices s
     @ (case cr_editor s of None \<Rightarrow> [] | Some f \<Rightarrow> [policy_form t s f])
     @ [El T_div [Cls ''stack'']
         (render_if (cr_data s = None \<and> cr_error s = [])
            [El T_section [Cls ''panel''] [Loading [Txt (t ''app.connecting_panel'')]]]
          @ render_if (map_option pd_policies (cr_data s) = Some []) [policies_empty t s]
          @ (case cr_data s of None \<Rightarrow> [] | Some d \<Rightarrow>
              render_if (pd_policies d \<noteq> []) [policies_table t ro s (pd_policies d)]))]"

section \<open>What a user can trigger\<close>

definition policies_guard :: "bool \<Rightarrow> policies_page \<Rightarrow> policies_msg \<Rightarrow> bool" where
  "policies_guard ro s m = (case m of
      PO_Lookup v \<Rightarrow> True | PO_Check \<Rightarrow> True
    | PO_Reload \<Rightarrow> \<not> cr_busy s
    | PO_Submit \<Rightarrow> \<not> cr_busy s \<and> (\<exists>f. cr_editor s = Some f \<and> pe_clientID f \<noteq> 0)
    | PO_Toggle r \<Rightarrow> \<not> cr_busy s \<and> \<not> ro
    | PO_Delete r \<Rightarrow> \<not> cr_busy s \<and> \<not> ro
    | PO_New \<Rightarrow> \<not> ro | PO_Edit r \<Rightarrow> \<not> ro
    | _ \<Rightarrow> cr_editor s \<noteq> None)"

lemma policy_custom_ok:
  "list_all (node_ok P d) (policy_custom t s f) \<longleftrightarrow>
     (\<not> d \<longrightarrow> (\<forall>v. P (PO_Block v)) \<and> (\<forall>v. P (PO_Allow v)) \<and> (\<forall>b \<in> set (policy_sources s). \<forall>v. P (PO_Source (bs_id b) v)))"
  "list_ex (can_submit d) (policy_custom t s f) = False"
  by (auto simp: policy_custom_def source_field_def dom_simps)

lemma policy_form_ok:
  "node_ok P False (policy_form t s f) \<longleftrightarrow>
    (\<not> cr_busy s \<longrightarrow> (pe_clientID f \<noteq> 0 \<longrightarrow> P PO_Submit) \<and> P PO_Cancel \<and> (\<forall>v. P (PO_Client v)) \<and> (\<forall>v. P (PO_Mode v)) \<and>
       (\<forall>b. P (PO_Enabled b)) \<and> (pe_mode f = PM_custom \<longrightarrow> list_all (node_ok P False) (policy_custom t s f)))"
  by (auto simp: policy_form_def policy_fields_def policy_custom_ok dom_simps Let_def)

lemma policies_table_ok: "node_ok (policies_guard ro s) False (policies_table t ro s ps)"
proof -
  have "node_ok (policies_guard ro s) False (policy_row t ro s p)" for p
    by (auto simp: policy_row_def dom_simps policies_guard_def Let_def)
  then show ?thesis by (simp add: policies_table_def dom_simps)
qed

lemma policies_view_ok: "nodes_ok (policies_guard ro s) (policies_view t ro s)"
proof -
  have toolbar: "node_ok (policies_guard ro s) False (policies_toolbar t ro s)"
    by (simp add: policies_toolbar_def dom_simps policies_guard_def)
  have eff: "node_ok (policies_guard ro s) False (effective_notice t l e)" for l e
    by (auto simp: effective_notice_def dom_simps split: option.split)
  have editor: "nodes_ok (policies_guard ro s) (case cr_editor s of None \<Rightarrow> [] | Some f \<Rightarrow> [policy_form t s f])"
    by (auto simp: policy_form_ok policy_custom_ok policies_guard_def split: option.split)
  have none: "node_ok (policies_guard ro s) False (policies_empty t s)"
    by (simp add: policies_empty_def EmptyState_def dom_simps)
  show ?thesis
    using toolbar eff editor none policies_table_ok crud_notices_ok
    by (auto simp: policies_view_def Loading_def dom_simps split: option.split)
qed

lemma policies_fired: "m \<in> fires (policies_view t ro s) \<Longrightarrow> policies_guard ro s m"
  by (rule nodes_okD [OF policies_view_ok])

section \<open>The page as a machine\<close>

inductive policies_env :: "(jstring \<Rightarrow> jstring) \<Rightarrow> policies_page \<Rightarrow> policies_page \<Rightarrow> bool" for t where
  timer_fires: "policies_env t s (crud_timer s)"
| language_changes: "policies_env t s (crud_language s)"
| load_done: "i < length (cr_loads s) \<Longrightarrow> policies_env t s (crud_load_settled (t ''policies.load_failed'') i res s)"
| run_done: "i < length (cr_runs s) \<Longrightarrow> policies_env t s (policy_run_settled (t ''policies.save_failed'') i res s)"
| check_done: "i < length (pp_checks s) \<Longrightarrow> policies_env t s (policy_check_settled t i res s)"

lemma crud_inv_policy_fields [simp]:
  "crud_inv (s\<lparr>pp_lookup := v\<rparr>) = crud_inv s" "crud_inv (s\<lparr>pp_effective := e\<rparr>) = crud_inv s"
  "crud_inv (s\<lparr>pp_checks := c\<rparr>) = crud_inv s"
  "crud_idle (s\<lparr>pp_lookup := v\<rparr>) = crud_idle s" "crud_idle (s\<lparr>pp_effective := e\<rparr>) = crud_idle s"
  "crud_idle (s\<lparr>pp_checks := c\<rparr>) = crud_idle s"
  by (simp_all add: crud_inv_def crud_idle_def open_runs_def)

lemma open_runs_policy_fields [simp]:
  "open_runs (s\<lparr>pp_lookup := v\<rparr>) = open_runs s" "open_runs (s\<lparr>pp_effective := e\<rparr>) = open_runs s"
  "open_runs (s\<lparr>pp_checks := c\<rparr>) = open_runs s"
  by (simp_all add: open_runs_def)

lemma policies_env_core:
  assumes "policies_env t s s'"
  shows "\<exists>s1. (s1 = s \<or> crud_env (t ''policies.load_failed'') (t ''policies.save_failed'') s s1) \<and>
    crud_inv s' = crud_inv s1 \<and> crud_idle s' = crud_idle s1 \<and> open_runs s' = open_runs s1"
  using assms
proof cases
  case (run_done i res)
  then show ?thesis
    by (intro exI [of _ "crud_run_settled (t ''policies.save_failed'') i res s"])
      (auto intro: crud_env.run_done simp: policy_run_settled_def Let_def split: sum.split)
next
  case (check_done i res)
  then show ?thesis by (intro exI [of _ s]) (auto simp: policy_check_settled_def Let_def split: sum.split)
qed (blast intro: crud_env.intros)+

lemma policies_env_inv: "policies_env t s s' \<Longrightarrow> crud_inv s \<Longrightarrow> crud_inv s'"
  using policies_env_core crud_inv_env by metis

lemma policies_env_idle: "policies_env t s s' \<Longrightarrow> crud_idle s \<Longrightarrow> crud_idle s'"
  using policies_env_core crud_env_idle by metis

lemma policies_env_change: "policies_env t s s' \<Longrightarrow> crud_inv s \<Longrightarrow> one_change (open_runs s) (open_runs s')"
  using policies_env_core crud_env_change one_change_intros(1) by metis

lemma policies_update_change:
  "policies_guard ro s m \<Longrightarrow> crud_inv s \<Longrightarrow> one_change (open_runs s) (open_runs (policies_update t m s))"
  by (cases m) (auto simp: policies_guard_def policy_save_def policy_check_def startNew_def edit_policy_def crud_run_change
      split: option.split)

lemma policies_update_inv: "policies_guard ro s m \<Longrightarrow> crud_inv s \<Longrightarrow> crud_inv (policies_update t m s)"
  by (cases m) (auto simp: policies_guard_def policy_save_def policy_check_def startNew_def edit_policy_def crud_inv_load crud_inv_run
      split: option.split)

lemma policies_update_ro: "policies_guard True s m \<Longrightarrow> crud_idle s \<Longrightarrow> crud_idle (policies_update t m s)"
  by (cases m) (auto simp: policies_guard_def crud_load_def policy_check_def crud_idle_def)

interpretation policies: crud_client
  "\<lambda>ro s. s = policies_mount" "policies_view t" "policies_update t" "policies_env t" for t
proof unfold_locales
  show "crud_inv s" if "s = policies_mount" for ro :: bool and s
    using that by (simp add: policies_mount_def crud_mount_def crud.defs crud_inv_def open_runs_def)
  show "crud_idle s" if "s = policies_mount" for s
    using that by (simp add: policies_mount_def crud_mount_def crud.defs crud_idle_def)
qed (blast intro: policies_update_inv policies_fired policies_update_ro policies_env_inv policies_env_idle policies_update_change policies_env_change)+

section \<open>Forms\<close>

lemma js_trim_no_ws: "\<forall>c \<in> set w. \<not> js_ws c \<Longrightarrow> js_trim w = w"
  by (rule js_trim_id) (cases "w = []"; simp)

lemma domains_tokens: "domains v = tokens ws_or_comma v"
proof -
  have "map js_trim (split_runs ws_or_comma v) = split_runs ws_or_comma v"
    using split_runs_no_sep [of ws_or_comma v] by (intro map_idI js_trim_no_ws) (auto simp: ws_or_comma_def)
  then show ?thesis by (simp add: domains_def tokens_def)
qed

lemma domains_lines:
  "\<forall>w \<in> set ws. w \<noteq> [] \<and> (\<forall>c \<in> set w. \<not> ws_or_comma c) \<Longrightarrow> domains (js_join [CHR 0x0A] ws) = ws"
  unfolding domains_tokens by (rule tokens_join) (auto simp: ws_or_comma_def js_ws_def)

lemma policy_edit_roundtrip:
  assumes "py_mode p = PM_custom"
    and "\<forall>w \<in> set (py_allow p) \<union> set (py_block p). w \<noteq> [] \<and> (\<forall>c \<in> set w. \<not> ws_or_comma c)"
  shows "policy_toInput (policy_edit_form p) = policy_inputOf p"
proof -
  have "domains (js_join [CHR 0x0A] (py_allow p)) = py_allow p" "domains (js_join [CHR 0x0A] (py_block p)) = py_block p"
    by (rule domains_lines; use assms(2) in blast)+
  then show ?thesis
    using assms(1) by (simp add: policy_toInput_def policy_edit_form_def policy_inputOf_def policy_input.defs)
qed

text \<open>A new policy starts on a client that has none.\<close>

lemma startNew_free:
  "cr_editor (startNew s) = Some f \<Longrightarrow> pe_clientID f \<noteq> 0 \<Longrightarrow>
     \<exists>c \<in> set (policy_clients s). pe_clientID f = cl_id c \<and> \<not> has_policy s c"
  by (auto simp: startNew_def find_Some_iff split: option.splits)

end
