(* ===== verification/Webhooks_Page.thy ===== *)
theory Webhooks_Page
  imports Crud
begin

text \<open>
  \<open>pages/Webhooks.tsx\<close>: where events are delivered to. The page is for administrators and has
  no read-only form. Its load gathers the hooks and the event types; a test is a run whose outcome
  is announced after the reload.
\<close>

record webhook_data =
  wd_hooks :: "webhook list"
  wd_types :: "jstring list"

text \<open>\<open>we_token = None\<close> keeps the stored token.\<close>

record webhook_editor =
  we_id :: "int option"
  we_name :: jstring
  we_url :: jstring
  we_events :: "jstring list"
  we_minSeverity :: severity
  we_allowPrivate :: bool
  we_enabled :: bool
  we_hasToken :: bool
  we_token :: "jstring option"

definition webhook_blank :: webhook_editor where
  "webhook_blank = \<lparr>we_id = None, we_name = [], we_url = [], we_events = [], we_minSeverity = Info, we_allowPrivate = False,
     we_enabled = True, we_hasToken = False, we_token = Some []\<rparr>"

text \<open>The announcement that follows the reload of a test: an error or a notice.\<close>

record webhooks_page = "(webhook_data, webhook_editor) crud" +
  wh_outcome :: "(jstring + jstring) option"

definition webhooks_mount :: webhooks_page where
  "webhooks_mount = crud.extend (crud_mount None) \<lparr>wh_outcome = None\<rparr>"

definition webhook_inputOf :: "webhook \<Rightarrow> webhook_input" where
  "webhook_inputOf h = \<lparr>wi_name = wk_name h, wi_url = wk_url h, wi_events = wk_events h, wi_min_severity = wk_min_severity h,
     wi_allow_private = wk_allow_private h, wi_enabled = wk_enabled h, wi_token = None\<rparr>"

definition webhook_toInput :: "webhook_editor \<Rightarrow> webhook_input" where
  "webhook_toInput f = \<lparr>wi_name = js_trim (we_name f), wi_url = js_trim (we_url f), wi_events = we_events f,
     wi_min_severity = we_minSeverity f, wi_allow_private = we_allowPrivate f, wi_enabled = we_enabled f,
     wi_token = map_option js_trim (we_token f)\<rparr>"

definition webhook_edit_form :: "webhook \<Rightarrow> webhook_editor" where
  "webhook_edit_form h = \<lparr>we_id = Some (wk_id h), we_name = wk_name h, we_url = wk_url h, we_events = wk_events h,
     we_minSeverity = wk_min_severity h, we_allowPrivate = wk_allow_private h, we_enabled = wk_enabled h,
     we_hasToken = wk_has_token h, we_token = (if wk_has_token h then None else Some [])\<rparr>"

section \<open>Handlers\<close>

datatype webhooks_msg =
    WH_Reload
  | WH_Add
  | WH_Name jstring
  | WH_Url jstring
  | WH_Severity jstring
  | WH_ChangeToken
  | WH_Token jstring
  | WH_Event jstring bool
  | WH_AllowPrivate bool
  | WH_Enabled bool
  | WH_Submit
  | WH_Cancel
  | WH_Toggle webhook
  | WH_Test webhook
  | WH_Edit webhook
  | WH_Delete webhook

definition webhook_save_call :: "webhook_editor \<Rightarrow> call" where
  "webhook_save_call f = (case we_id f of
      None \<Rightarrow> createWebhook_call (webhook_toInput f)
    | Some n \<Rightarrow> updateWebhook_call n (webhook_toInput f))"

definition webhook_save :: "(jstring \<Rightarrow> jstring) \<Rightarrow> webhooks_page \<Rightarrow> webhooks_page" where
  "webhook_save t s = (case cr_editor s of
      None \<Rightarrow> s
    | Some f \<Rightarrow> crud_run (RunCall (webhook_save_call f) (t ''webhooks.saved'') True) s)"

text \<open>\<open>sendTest\<close> up to its request: it sets and clears what \<open>run\<close> does.\<close>

definition test_run :: "webhook \<Rightarrow> run" where
  "test_run h = RunCall (testWebhook_call (wk_id h)) [] False"

definition sendTest :: "webhook \<Rightarrow> webhooks_page \<Rightarrow> webhooks_page" where
  "sendTest h s = crud_run (test_run h) s"

definition test_message :: "(jstring \<Rightarrow> jstring) \<Rightarrow> webhook \<Rightarrow> webhook_test_result \<Rightarrow> jstring + jstring" where
  "test_message t h r =
     (if wt_ok r then Inr (t ''webhooks.test_ok'' @ '' '' @ wk_name h @ '' ('' @ wk_last_status (wt_webhook r) @ '')'')
      else Inl (t ''webhooks.test_failed'' @ '' '' @ wk_name h @ '': '' @ wt_error r))"

text \<open>Its continuations: after the request, and after the awaited reload.\<close>

definition webhook_test_settled ::
  "(jstring \<Rightarrow> jstring) \<Rightarrow> webhook \<Rightarrow> nat \<Rightarrow> webhook_test_result result \<Rightarrow> webhooks_page \<Rightarrow> webhooks_page" where
  "webhook_test_settled t h i res s =
     (let s0 = s\<lparr>cr_runs := remove_nth i (cr_runs s)\<rparr> in case res of
        Inr r \<Rightarrow> s0\<lparr>wh_outcome := Some (test_message t h r), cr_loads := cr_loads s0 @ [LoadCall None (Some (test_run h))]\<rparr>
      | Inl e \<Rightarrow> s0\<lparr>cr_error := error_text e (t ''webhooks.test_failed''), cr_busy := False\<rparr>)"

definition announce :: "webhooks_page \<Rightarrow> webhooks_page" where
  "announce s = (case wh_outcome s of
      None \<Rightarrow> s
    | Some (Inr m) \<Rightarrow> s\<lparr>cr_notice := m, wh_outcome := None\<rparr>
    | Some (Inl m) \<Rightarrow> s\<lparr>cr_error := m, wh_outcome := None\<rparr>)"

definition webhook_load_settled :: "(jstring \<Rightarrow> jstring) \<Rightarrow> nat \<Rightarrow> webhook_data result \<Rightarrow> webhooks_page \<Rightarrow> webhooks_page" where
  "webhook_load_settled t i res s =
     (let s1 = crud_load_settled (t ''webhooks.load_failed'') i res s
      in if load_run (cr_loads s ! i) \<noteq> None then announce s1 else s1)"

definition edit_webhook :: "(webhook_editor \<Rightarrow> webhook_editor) \<Rightarrow> webhooks_page \<Rightarrow> webhooks_page" where
  "edit_webhook f s = s\<lparr>cr_editor := map_option f (cr_editor s)\<rparr>"

definition severity_of :: "jstring \<Rightarrow> severity option" where
  "severity_of v = find (\<lambda>x. severity_name x = v) [Info, Warning, Critical]"

definition toggleEvent :: "jstring \<Rightarrow> bool \<Rightarrow> jstring list \<Rightarrow> jstring list" where
  "toggleEvent ty on evs = (if on then evs @ [ty] else filter (\<lambda>x. x \<noteq> ty) evs)"

fun webhooks_update :: "(jstring \<Rightarrow> jstring) \<Rightarrow> webhooks_msg \<Rightarrow> webhooks_page \<Rightarrow> webhooks_page" where
  "webhooks_update t WH_Reload s = crud_load None s"
| "webhooks_update t WH_Add s = s\<lparr>cr_editor := Some webhook_blank, cr_notice := []\<rparr>"
| "webhooks_update t (WH_Name v) s = edit_webhook (we_name_update (\<lambda>_. v)) s"
| "webhooks_update t (WH_Url v) s = edit_webhook (we_url_update (\<lambda>_. v)) s"
| "webhooks_update t (WH_Severity v) s = (case severity_of v of None \<Rightarrow> s | Some x \<Rightarrow> edit_webhook (we_minSeverity_update (\<lambda>_. x)) s)"
| "webhooks_update t WH_ChangeToken s = edit_webhook (we_token_update (\<lambda>_. Some [])) s"
| "webhooks_update t (WH_Token v) s = edit_webhook (we_token_update (\<lambda>_. Some v)) s"
| "webhooks_update t (WH_Event ty on) s = edit_webhook (we_events_update (toggleEvent ty on)) s"
| "webhooks_update t (WH_AllowPrivate b) s = edit_webhook (we_allowPrivate_update (\<lambda>_. b)) s"
| "webhooks_update t (WH_Enabled b) s = edit_webhook (we_enabled_update (\<lambda>_. b)) s"
| "webhooks_update t WH_Submit s = webhook_save t s"
| "webhooks_update t WH_Cancel s = s\<lparr>cr_editor := None\<rparr>"
| "webhooks_update t (WH_Toggle h) s =
     crud_run (RunCall (updateWebhook_call (wk_id h) ((webhook_inputOf h)\<lparr>wi_enabled := \<not> wk_enabled h\<rparr>)) [] False) s"
| "webhooks_update t (WH_Test h) s = sendTest h s"
| "webhooks_update t (WH_Edit h) s = s\<lparr>cr_editor := Some (webhook_edit_form h), cr_notice := []\<rparr>"
| "webhooks_update t (WH_Delete h) s = crud_run (RunCall (deleteWebhook_call (wk_id h)) [] False) s"

section \<open>Rendering\<close>

definition times_sign :: jstring where
  "times_sign = [CHR 0xD7]"

definition webhook_status :: "(jstring \<Rightarrow> jstring) \<Rightarrow> formats \<Rightarrow> webhook \<Rightarrow> webhooks_msg node list" where
  [view_defs]: "webhook_status t fm h =
     (let tm = nullish (wk_last_delivery_at h) [] in
      if tm = [] then [El T_span [Cls ''cell-muted''] [Txt (t ''webhooks.never'')]]
      else if 0 < wk_consecutive_failures h then
        [El T_span [Cls ''badge danger''] [Txt (t ''webhooks.failing''), Txt ('' '' @ times_sign), Txt (show_int (wk_consecutive_failures h))],
         El T_small [Cls ''cell-muted'', A ''title'' (wk_last_error h)] [Txt (wk_last_error h)],
         El T_small [Cls ''cell-muted''] [Txt (fm_date fm tm)]]
      else [El T_span [Cls ''badge success''] [Txt (wk_last_status h)], El T_small [Cls ''cell-muted''] [Txt (fm_date fm tm)]])"

definition webhooks_toolbar :: "(jstring \<Rightarrow> jstring) \<Rightarrow> webhooks_page \<Rightarrow> webhooks_msg node" where
  [view_defs]: "webhooks_toolbar t s =
     El T_div [Cls ''zones-toolbar'']
       [El T_span [Cls ''zone-count'']
          [Txt (case cr_data s of Some d \<Rightarrow> show_nat (length (wd_hooks d)) @ '' '' @ t ''webhooks.count'' | None \<Rightarrow> [])],
        El T_div []
          [El T_button [Cls ''button'', Disabled (cr_busy s), OnClick WH_Reload]
             [Icon ''RefreshCw'' 15, Txt (t ''blocklists.reload'')],
           El T_button [Cls ''button primary'', Disabled (cr_busy s \<or> cr_editor s \<noteq> None), OnClick WH_Add]
             [Icon ''Plus'' 15, Txt (t ''webhooks.add'')]]]"

definition webhook_token :: "(jstring \<Rightarrow> jstring) \<Rightarrow> webhook_editor \<Rightarrow> webhooks_msg node" where
  [view_defs]: "webhook_token t f =
     El T_label []
       [Txt (t ''webhooks.token''),
        (case we_token f of
           None \<Rightarrow> El T_span [Cls ''token-kept'']
             [El T_span [Cls ''cell-muted''] [Txt (t ''webhooks.token_stored'')],
              El T_button [A ''type'' ''button'', Cls ''button small'', OnClick WH_ChangeToken] [Txt (t ''webhooks.token_change'')]]
         | Some v \<Rightarrow> El T_input [A ''type'' ''password'', A ''value'' v, OnChange WH_Token, A ''autoComplete'' ''new-password'',
             AB ''spellCheck'' False, A ''placeholder'' (if we_hasToken f then t ''webhooks.token_remove_hint'' else [])] []),
        El T_small [] [Txt (t ''webhooks.token_hint'')]]"

definition webhook_fields :: "(jstring \<Rightarrow> jstring) \<Rightarrow> webhook_editor \<Rightarrow> webhooks_msg node" where
  [view_defs]: "webhook_fields t f =
     El T_div [Cls ''form-grid webhook-grid'']
       [El T_label []
          [Txt (t ''webhooks.name''),
           El T_input [A ''value'' (we_name f), OnChange WH_Name, A ''placeholder'' ''Home Assistant'', AN ''maxLength'' 80,
             Flag ''required'', Flag ''autoFocus''] []],
        El T_label []
          [Txt (t ''webhooks.url''),
           El T_input [A ''type'' ''url'', A ''value'' (we_url f), OnChange WH_Url, A ''placeholder'' ''https://hooks.example.com/velora'',
             AB ''spellCheck'' False, A ''autoComplete'' ''off'', Flag ''required''] []],
        El T_label []
          [Txt (t ''webhooks.min_severity''),
           El T_select [A ''value'' (severity_name (we_minSeverity f)), OnChange WH_Severity]
             [El T_option [A ''value'' ''info''] [Txt (t ''webhooks.severity_info'')],
              El T_option [A ''value'' ''warning''] [Txt (t ''webhooks.severity_warning'')],
              El T_option [A ''value'' ''critical''] [Txt (t ''webhooks.severity_critical'')]]],
        webhook_token t f]"

definition webhook_events :: "(jstring \<Rightarrow> jstring) \<Rightarrow> jstring list \<Rightarrow> webhook_editor \<Rightarrow> webhooks_msg node" where
  [view_defs]: "webhook_events t types f =
     El T_fieldset [Cls ''policy-lists'']
       ([El T_legend [] [Txt (t ''webhooks.events'')], El T_small [Cls ''events-hint''] [Txt (t ''webhooks.events_hint'')]]
        @ map (\<lambda>ty. El T_label [A ''key'' ty, Cls ''check-field'']
            [El T_input [A ''type'' ''checkbox'', AB ''checked'' (ty \<in> set (we_events f)), OnCheck (WH_Event ty)] [],
             El T_code [] [Txt ty]]) types)"

definition webhook_form :: "(jstring \<Rightarrow> jstring) \<Rightarrow> bool \<Rightarrow> jstring list \<Rightarrow> webhook_editor \<Rightarrow> webhooks_msg node" where
  [view_defs]: "webhook_form t busy types f =
     (let title = t (if we_id f = None then ''webhooks.add_title'' else ''webhooks.edit_title'') in
      El T_section [Cls ''panel form-panel'']
        [El T_form [Cls ''zone-form'', A ''aria-label'' title, OnSubmit WH_Submit]
           [El T_div [] [El T_h3 [] [Txt title], El T_p [] [Txt (t ''webhooks.form_hint'')]],
            El T_fieldset [Disabled busy]
              [webhook_fields t f,
               webhook_events t types f,
               El T_label [Cls ''check-field'']
                 [El T_input [A ''type'' ''checkbox'', AB ''checked'' (we_allowPrivate f), OnCheck WH_AllowPrivate] [],
                  Txt (t ''webhooks.allow_private'')],
               El T_label [Cls ''check-field'']
                 [El T_input [A ''type'' ''checkbox'', AB ''checked'' (we_enabled f), OnCheck WH_Enabled] [], Txt (t ''webhooks.enabled'')],
               El T_div [Cls ''form-actions'']
                 [El T_button [Cls ''button primary'', A ''type'' ''submit''] [Txt (t ''webhooks.save'')],
                  El T_button [Cls ''button'', A ''type'' ''button'', OnClick WH_Cancel] [Txt (t ''forwarding.cancel'')]]]]])"

definition webhook_row :: "(jstring \<Rightarrow> jstring) \<Rightarrow> formats \<Rightarrow> webhooks_page \<Rightarrow> webhook \<Rightarrow> webhooks_msg node" where
  [view_defs]: "webhook_row t fm s h =
     El T_tr [A ''key'' (show_int (wk_id h))]
       [El T_td []
          [El T_span [Cls ''endpoint'']
             [El T_button [Cls ''switch'', A ''role'' ''switch'', AB ''aria-checked'' (wk_enabled h),
                A ''aria-label'' (t ''webhooks.toggle'' @ '': '' @ wk_name h), Disabled (cr_busy s), OnClick (WH_Toggle h)] [],
              El T_span [] [El T_strong [] [Txt (wk_name h)], El T_small [Cls ''webhook-url''] [El T_code [] [Txt (wk_url h)]]]]],
        El T_td [Cls ''wrap cell-muted'']
          ([Txt (if wk_events h = [] then t ''webhooks.all_events'' else js_join '', '' (wk_events h))]
           @ render_if (wk_min_severity h \<noteq> Info)
              [El T_small [] [Txt (t ''webhooks.min_severity''), Txt '': '', Txt (t (''webhooks.severity_'' @ severity_name (wk_min_severity h)))]]),
        El T_td [Cls ''webhook-status''] (webhook_status t fm h),
        El T_td []
          [El T_div [Cls ''table-actions'']
             [El T_button [Cls ''icon-button'', Disabled (cr_busy s), A ''title'' (t ''webhooks.test''),
                A ''aria-label'' (t ''webhooks.test'' @ '' '' @ wk_name h), OnClick (WH_Test h)] [Icon ''Send'' 15],
              El T_button [Cls ''icon-button'', Disabled (cr_busy s \<or> cr_editor s \<noteq> None), A ''title'' (t ''webhooks.edit''),
                A ''aria-label'' (t ''webhooks.edit'' @ '' '' @ wk_name h), OnClick (WH_Edit h)] [Icon ''Pencil'' 15],
              El T_button [Cls ''icon-button danger-icon'', Disabled (cr_busy s), A ''title'' (t ''webhooks.delete''),
                A ''aria-label'' (t ''webhooks.delete'' @ '' '' @ wk_name h),
                OnConfirm (t ''webhooks.delete_confirm'' @ '' '' @ wk_name h @ ''?'') (WH_Delete h)] [Icon ''Trash2'' 15]]]]"

definition webhooks_table :: "(jstring \<Rightarrow> jstring) \<Rightarrow> formats \<Rightarrow> webhooks_page \<Rightarrow> webhook list \<Rightarrow> webhooks_msg node" where
  [view_defs]: "webhooks_table t fm s hs =
     El T_section [Cls ''panel'']
       [El T_div [Cls ''table-wrap'']
          [El T_table []
             [El T_caption [Cls ''sr-only''] [Txt (t ''app.title.webhooks'')],
              El T_thead [] [El T_tr []
                [El T_th [] [Txt (t ''webhooks.name'')], El T_th [] [Txt (t ''webhooks.events'')],
                 El T_th [] [Txt (t ''webhooks.last_delivery'')],
                 El T_th [] [El T_span [Cls ''sr-only''] [Txt (t ''zones.col_actions'')]]]],
              El T_tbody [] (map (webhook_row t fm s) hs)]]]"

definition webhooks_view :: "(jstring \<Rightarrow> jstring) \<Rightarrow> formats \<Rightarrow> webhooks_page \<Rightarrow> webhooks_msg node list" where
  [view_defs]: "webhooks_view t fm s =
     [webhooks_toolbar t s] @ crud_notices s
     @ (case cr_editor s of None \<Rightarrow> []
        | Some f \<Rightarrow> [webhook_form t (cr_busy s) (nullish (map_option wd_types (cr_data s)) []) f])
     @ [El T_div [Cls ''stack'']
         (render_if (cr_data s = None \<and> cr_error s = [])
            [El T_section [Cls ''panel''] [Loading [Txt (t ''app.connecting_panel'')]]]
          @ render_if (map_option wd_hooks (cr_data s) = Some [])
            [El T_section [Cls ''panel'']
               [EmptyState [Icon ''WebhookIcon'' 22] (t ''webhooks.empty_title'') [Txt (t ''webhooks.empty_text'')] [] False]]
          @ (case cr_data s of None \<Rightarrow> [] | Some d \<Rightarrow>
              render_if (wd_hooks d \<noteq> []) [webhooks_table t fm s (wd_hooks d)]))]"

section \<open>What a user can trigger\<close>

definition webhooks_guard :: "webhooks_page \<Rightarrow> webhooks_msg \<Rightarrow> bool" where
  "webhooks_guard s m = (case m of
      WH_Reload \<Rightarrow> \<not> cr_busy s
    | WH_Submit \<Rightarrow> \<not> cr_busy s
    | WH_Toggle r \<Rightarrow> \<not> cr_busy s
    | WH_Test r \<Rightarrow> \<not> cr_busy s
    | WH_Delete r \<Rightarrow> \<not> cr_busy s
    | _ \<Rightarrow> True)"

lemma webhook_form_ok:
  assumes "\<not> busy \<Longrightarrow> P WH_Submit" "\<And>m. m \<notin> {WH_Submit} \<Longrightarrow> (\<forall>h. m \<noteq> WH_Toggle h \<and> m \<noteq> WH_Test h \<and> m \<noteq> WH_Delete h) \<Longrightarrow> m \<noteq> WH_Reload \<Longrightarrow> P m"
  shows "node_ok P False (webhook_form t busy types f)"
  using assms by (auto simp: webhook_form_def webhook_fields_def webhook_token_def webhook_events_def dom_simps Let_def split: option.split)

lemma webhooks_table_ok: "node_ok (webhooks_guard s) False (webhooks_table t fm s hs)"
proof -
  have "list_all (node_ok P d) (webhook_status t fm h)" for P d h
    by (auto simp: webhook_status_def dom_simps Let_def)
  then have "node_ok (webhooks_guard s) False (webhook_row t fm s h)" for h
    by (simp add: webhook_row_def dom_simps webhooks_guard_def)
  then show ?thesis by (simp add: webhooks_table_def dom_simps)
qed

lemma webhooks_view_ok: "nodes_ok (webhooks_guard s) (webhooks_view t fm s)"
proof -
  have toolbar: "node_ok (webhooks_guard s) False (webhooks_toolbar t s)"
    by (simp add: webhooks_toolbar_def dom_simps webhooks_guard_def)
  have editor: "node_ok (webhooks_guard s) False (webhook_form t (cr_busy s) types f)" for types f
    by (rule webhook_form_ok) (auto simp: webhooks_guard_def split: webhooks_msg.split)
  show ?thesis
    using toolbar editor webhooks_table_ok crud_notices_ok
    by (auto simp: webhooks_view_def Loading_def EmptyState_def dom_simps split: option.split)
qed

lemma webhooks_fired: "m \<in> fires (webhooks_view t fm s) \<Longrightarrow> webhooks_guard s m"
  by (rule nodes_okD [OF webhooks_view_ok])

section \<open>The page as a machine\<close>

inductive webhooks_env :: "(jstring \<Rightarrow> jstring) \<Rightarrow> webhooks_page \<Rightarrow> webhooks_page \<Rightarrow> bool" for t where
  timer_fires: "webhooks_env t s (crud_timer s)"
| language_changes: "webhooks_env t s (crud_language s)"
| load_done: "i < length (cr_loads s) \<Longrightarrow> webhooks_env t s (webhook_load_settled t i res s)"
| run_done: "i < length (cr_runs s) \<Longrightarrow> cr_runs s ! i \<notin> range test_run \<Longrightarrow>
    webhooks_env t s (crud_run_settled (t ''webhooks.save_failed'') i res s)"
| test_done: "i < length (cr_runs s) \<Longrightarrow> cr_runs s ! i = test_run h \<Longrightarrow> webhooks_env t s (webhook_test_settled t h i res s)"

lemma crud_inv_outcome [simp]: "crud_inv (s\<lparr>wh_outcome := v\<rparr>) = crud_inv s"
  by (simp add: crud_inv_def open_runs_def)

lemma announce_inv [simp]: "crud_inv (announce s) = crud_inv s"
  by (auto simp: announce_def split: option.split sum.split)

lemma webhook_test_inv: "crud_inv s \<Longrightarrow> i < length (cr_runs s) \<Longrightarrow> crud_inv (webhook_test_settled t h i res s)"
  using length_remove_nth [of i "cr_runs s"]
  by (cases res) (auto simp: crud_inv_def open_runs_def webhook_test_settled_def Let_def split: if_splits)

lemma webhooks_env_inv: "webhooks_env t s s' \<Longrightarrow> crud_inv s \<Longrightarrow> crud_inv s'"
  by (erule webhooks_env.cases; hypsubst)
    (simp_all add: crud_inv_timer crud_inv_language webhook_load_settled_def Let_def crud_inv_load_settled crud_inv_run_settled webhook_test_inv)

lemma open_runs_outcome [simp]: "open_runs (s\<lparr>wh_outcome := v\<rparr>) = open_runs s"
  by (simp add: open_runs_def)

lemma announce_open [simp]: "open_runs (announce s) = open_runs s"
  by (auto simp: announce_def split: option.split sum.split)

lemma webhook_test_change:
  "crud_inv s \<Longrightarrow> i < length (cr_runs s) \<Longrightarrow> cr_runs s ! i = test_run h \<Longrightarrow>
     one_change (open_runs s) (open_runs (webhook_test_settled t h i res s))"
  using crud_run_settled_change [of s i "t ''webhooks.test_failed''" "map_sum id (\<lambda>_. ()) res"]
  by (cases res) (simp_all add: webhook_test_settled_def crud_run_settled_def open_runs_def Let_def)

lemma webhooks_env_change: "webhooks_env t s s' \<Longrightarrow> crud_inv s \<Longrightarrow> one_change (open_runs s) (open_runs s')"
  by (erule webhooks_env.cases; hypsubst)
    (simp_all add: webhook_load_settled_def Let_def crud_load_settled_change crud_run_settled_change webhook_test_change,
     simp add: open_runs_def crud_language_def)

lemma webhooks_update_change:
  "webhooks_guard s m \<Longrightarrow> crud_inv s \<Longrightarrow> one_change (open_runs s) (open_runs (webhooks_update t m s))"
  by (cases m) (auto simp: webhooks_guard_def webhook_save_def sendTest_def edit_webhook_def crud_run_change split: option.split)

lemma webhooks_update_inv: "webhooks_guard s m \<Longrightarrow> crud_inv s \<Longrightarrow> crud_inv (webhooks_update t m s)"
  by (cases m) (auto simp: webhooks_guard_def webhook_save_def sendTest_def edit_webhook_def crud_inv_load crud_inv_run split: option.split)

interpretation webhooks: locked_page
  "\<lambda>s. s = webhooks_mount" "webhooks_view t fm" "webhooks_update t" "webhooks_env t" crud_inv open_runs for t fm
proof unfold_locales
  show "crud_inv s" if "s = webhooks_mount" for s
    using that by (simp add: webhooks_mount_def crud_mount_def crud.defs crud_inv_def open_runs_def)
qed (blast intro: webhooks_update_inv webhooks_fired webhooks_env_inv crud_inv_single webhooks_update_change webhooks_env_change)+

text \<open>Saving an unchanged form leaves the stored token alone and sends the rest as it is.\<close>

lemma webhook_edit_roundtrip:
  "js_trim (wk_name h) = wk_name h \<Longrightarrow> js_trim (wk_url h) = wk_url h \<Longrightarrow>
     webhook_toInput (webhook_edit_form h) = (webhook_inputOf h)\<lparr>wi_token := (if wk_has_token h then None else Some [])\<rparr>"
  by (simp add: webhook_toInput_def webhook_edit_form_def webhook_inputOf_def)

lemma webhook_token_field:
  "wi_token i = None \<longleftrightarrow> map_of (case webhook_input_json i of JObj ps \<Rightarrow> ps | _ \<Rightarrow> []) ''token'' = None"
  by (auto simp: webhook_input_json_def split: option.split)

end
