(* ===== verification/Forwarding_Page.thy ===== *)
theory Forwarding_Page
  imports Api_Resources Components Snapshot
begin

text \<open>
  \<open>pages/Forwarding.tsx\<close>: conditional forwarding rules. Unlike the other resource pages it
  polls every 15 seconds, has a separate handler for each change and a panel that tests a rule.
\<close>

definition TEST_TYPES :: "jstring list" where
  "TEST_TYPES = [''A'', ''AAAA'', ''CNAME'', ''MX'', ''NS'', ''PTR'', ''SOA'', ''TXT'']"

record forward_editor =
  fe_id :: "int option"
  fe_domain :: jstring
  fe_upstreams :: jstring
  fe_description :: jstring
  fe_enabled :: bool

definition emptyForm :: forward_editor where
  "emptyForm = \<lparr>fe_id = None, fe_domain = [], fe_upstreams = [], fe_description = [], fe_enabled = True\<rparr>"

record forward_testing =
  tg_rule :: forward_rule_status
  tg_name :: jstring
  tg_type :: jstring

text \<open>
  What is in flight: a change or a test, and the loads. A load carries its abort signal, if it was
  given one, and whether a handler awaits it. \<open>remove\<close> compares with the \<open>testing\<close> of
  the render its click came from, so that comparison is part of the pending operation.
\<close>

datatype forward_op =
    FwdSave call
  | FwdToggle call
  | FwdRemove call bool
  | is_FwdTest: FwdTest call

fun forward_op_call :: "forward_op \<Rightarrow> call" where
  "forward_op_call (FwdSave c) = c"
| "forward_op_call (FwdToggle c) = c"
| "forward_op_call (FwdRemove c b) = c"
| "forward_op_call (FwdTest c) = c"

datatype forward_load = FwdLoad (fl_signal: "bool option") (fl_awaited: bool)

record forwarding_page =
  fw_rules :: "forward_rule_status list option"
  fw_error :: jstring
  fw_notice :: jstring
  fw_busy :: bool
  fw_editor :: "forward_editor option"
  fw_testing :: "forward_testing option"
  fw_testResult :: "forward_test_result option"
  fw_initial :: bool
  fw_loads :: "forward_load list"
  fw_ops :: "forward_op list"

definition forwarding_mount :: forwarding_page where
  "forwarding_mount = \<lparr>fw_rules = None, fw_error = [], fw_notice = [], fw_busy = False, fw_editor = None, fw_testing = None,
     fw_testResult = None, fw_initial = True, fw_loads = [], fw_ops = []\<rparr>"

definition fwd_load :: "bool option \<Rightarrow> bool \<Rightarrow> forwarding_page \<Rightarrow> forwarding_page" where
  "fwd_load sig awaited s = s\<lparr>fw_loads := fw_loads s @ [FwdLoad sig awaited]\<rparr>"

text \<open>The zero-delay timer, the interval, and the effect's cleanup and rerun on a change of language.\<close>

definition fwd_timer :: "forwarding_page \<Rightarrow> forwarding_page" where
  "fwd_timer s = (if fw_initial s then fwd_load (Some False) False (s\<lparr>fw_initial := False\<rparr>) else s)"

definition fwd_tick :: "forwarding_page \<Rightarrow> forwarding_page" where
  "fwd_tick s = fwd_load (Some False) False s"

fun fwd_abort :: "forward_load \<Rightarrow> forward_load" where
  "fwd_abort (FwdLoad sig a) = FwdLoad (map_option (\<lambda>_. True) sig) a"

definition fwd_language :: "forwarding_page \<Rightarrow> forwarding_page" where
  "fwd_language s = s\<lparr>fw_loads := map fwd_abort (fw_loads s), fw_initial := True\<rparr>"

definition fwd_load_settled ::
  "(jstring \<Rightarrow> jstring) \<Rightarrow> nat \<Rightarrow> forward_rule_status list result \<Rightarrow> forwarding_page \<Rightarrow> forwarding_page" where
  "fwd_load_settled t i res s =
     (let ld = fw_loads s ! i; s0 = s\<lparr>fw_loads := remove_nth i (fw_loads s)\<rparr>;
          s1 = (if fl_signal ld = Some True then s0
                else case res of
                  Inr rs \<Rightarrow> s0\<lparr>fw_rules := Some rs, fw_error := []\<rparr>
                | Inl e \<Rightarrow> s0\<lparr>fw_error := error_text e (t ''forwarding.load_failed'')\<rparr>)
      in if fl_awaited ld then s1\<lparr>fw_busy := False\<rparr> else s1)"

section \<open>Handlers\<close>

definition forward_input :: "forward_editor \<Rightarrow> forward_rule_input" where
  "forward_input f = \<lparr>fi_domain = js_trim (fe_domain f), fi_upstreams = tokens ws_or_comma (fe_upstreams f),
     fi_enabled = fe_enabled f, fi_description = js_trim (fe_description f)\<rparr>"

definition fwd_save :: "forwarding_page \<Rightarrow> forwarding_page" where
  "fwd_save s = (case fw_editor s of
      None \<Rightarrow> s
    | Some f \<Rightarrow> s\<lparr>fw_busy := True, fw_error := [], fw_notice := [],
        fw_ops := fw_ops s @ [FwdSave (case fe_id f of
            None \<Rightarrow> createForwardRule_call (forward_input f)
          | Some n \<Rightarrow> updateForwardRule_call n (forward_input f))]\<rparr>)"

definition toggle_input :: "forward_rule_status \<Rightarrow> forward_rule_input" where
  "toggle_input r = \<lparr>fi_domain = fr_domain r, fi_upstreams = fr_upstreams r, fi_enabled = (\<not> fr_enabled r),
     fi_description = fr_description r\<rparr>"

definition fwd_toggle :: "forward_rule_status \<Rightarrow> forwarding_page \<Rightarrow> forwarding_page" where
  "fwd_toggle r s = s\<lparr>fw_busy := True, fw_error := [],
     fw_ops := fw_ops s @ [FwdToggle (updateForwardRule_call (fr_id r) (toggle_input r))]\<rparr>"

definition fwd_remove :: "forward_rule_status \<Rightarrow> forwarding_page \<Rightarrow> forwarding_page" where
  "fwd_remove r s = s\<lparr>fw_busy := True, fw_error := [],
     fw_ops := fw_ops s @ [FwdRemove (deleteForwardRule_call (fr_id r))
       (map_option (\<lambda>g. fr_id (tg_rule g)) (fw_testing s) = Some (fr_id r))]\<rparr>"

definition runTest :: "forwarding_page \<Rightarrow> forwarding_page" where
  "runTest s = (case fw_testing s of
      None \<Rightarrow> s
    | Some g \<Rightarrow> s\<lparr>fw_busy := True, fw_testResult := None, fw_error := [],
        fw_ops := fw_ops s @ [FwdTest (testForwardRule_call (fr_id (tg_rule g)) (js_trim (tg_name g)) (tg_type g))]\<rparr>)"

definition forward_edit_form :: "forward_rule_status \<Rightarrow> forward_editor" where
  "forward_edit_form r = \<lparr>fe_id = Some (fr_id r), fe_domain = fr_domain r, fe_upstreams = js_join '', '' (fr_upstreams r),
     fe_description = fr_description r, fe_enabled = fr_enabled r\<rparr>"

text \<open>The continuations of the handlers, once the request they sent has settled.\<close>

definition fwd_op_failed :: "(jstring \<Rightarrow> jstring) \<Rightarrow> exn \<Rightarrow> forwarding_page \<Rightarrow> forwarding_page" where
  "fwd_op_failed t e s = s\<lparr>fw_error := error_text e (t ''forwarding.save_failed''), fw_busy := False\<rparr>"

fun fwd_op_done :: "(jstring \<Rightarrow> jstring) \<Rightarrow> forward_op \<Rightarrow> forwarding_page \<Rightarrow> forwarding_page" where
  "fwd_op_done t (FwdSave c) s = fwd_load None True (s\<lparr>fw_editor := None, fw_notice := t ''forwarding.saved''\<rparr>)"
| "fwd_op_done t (FwdToggle c) s = fwd_load None True s"
| "fwd_op_done t (FwdRemove c tested) s = fwd_load None True (if tested then s\<lparr>fw_testing := None\<rparr> else s)"
| "fwd_op_done t (FwdTest c) s = s"

definition fwd_op_settled :: "(jstring \<Rightarrow> jstring) \<Rightarrow> nat \<Rightarrow> unit result \<Rightarrow> forwarding_page \<Rightarrow> forwarding_page" where
  "fwd_op_settled t i res s =
     (let op = fw_ops s ! i; s0 = s\<lparr>fw_ops := remove_nth i (fw_ops s)\<rparr>
      in case res of Inl e \<Rightarrow> fwd_op_failed t e s0 | Inr _ \<Rightarrow> fwd_op_done t op s0)"

definition fwd_test_settled :: "(jstring \<Rightarrow> jstring) \<Rightarrow> nat \<Rightarrow> forward_test_result result \<Rightarrow> forwarding_page \<Rightarrow> forwarding_page" where
  "fwd_test_settled t i res s =
     (let s0 = s\<lparr>fw_ops := remove_nth i (fw_ops s)\<rparr>
      in case res of Inl e \<Rightarrow> fwd_op_failed t e s0 | Inr r \<Rightarrow> s0\<lparr>fw_testResult := Some r, fw_busy := False\<rparr>)"

datatype forwarding_msg =
    FW_Reload
  | FW_Add
  | FW_Domain jstring
  | FW_Upstreams jstring
  | FW_Description jstring
  | FW_Enabled bool
  | FW_Submit
  | FW_Cancel
  | FW_TestName jstring
  | FW_TestType jstring
  | FW_RunTest
  | FW_CancelTest
  | FW_Toggle forward_rule_status
  | FW_Test forward_rule_status
  | FW_Edit forward_rule_status
  | FW_Remove forward_rule_status

fun forwarding_update :: "forwarding_msg \<Rightarrow> forwarding_page \<Rightarrow> forwarding_page" where
  "forwarding_update FW_Reload s = fwd_load None False s"
| "forwarding_update FW_Add s = s\<lparr>fw_editor := Some emptyForm, fw_notice := []\<rparr>"
| "forwarding_update (FW_Domain v) s = s\<lparr>fw_editor := map_option (fe_domain_update (\<lambda>_. v)) (fw_editor s)\<rparr>"
| "forwarding_update (FW_Upstreams v) s = s\<lparr>fw_editor := map_option (fe_upstreams_update (\<lambda>_. v)) (fw_editor s)\<rparr>"
| "forwarding_update (FW_Description v) s = s\<lparr>fw_editor := map_option (fe_description_update (\<lambda>_. v)) (fw_editor s)\<rparr>"
| "forwarding_update (FW_Enabled b) s = s\<lparr>fw_editor := map_option (fe_enabled_update (\<lambda>_. b)) (fw_editor s)\<rparr>"
| "forwarding_update FW_Submit s = fwd_save s"
| "forwarding_update FW_Cancel s = s\<lparr>fw_editor := None\<rparr>"
| "forwarding_update (FW_TestName v) s = s\<lparr>fw_testing := map_option (tg_name_update (\<lambda>_. v)) (fw_testing s)\<rparr>"
| "forwarding_update (FW_TestType v) s = s\<lparr>fw_testing := map_option (tg_type_update (\<lambda>_. v)) (fw_testing s)\<rparr>"
| "forwarding_update FW_RunTest s = runTest s"
| "forwarding_update FW_CancelTest s = s\<lparr>fw_testing := None\<rparr>"
| "forwarding_update (FW_Toggle r) s = fwd_toggle r s"
| "forwarding_update (FW_Test r) s =
     s\<lparr>fw_testing := Some \<lparr>tg_rule = r, tg_name = fr_domain r, tg_type = ''A''\<rparr>, fw_testResult := None\<rparr>"
| "forwarding_update (FW_Edit r) s = s\<lparr>fw_editor := Some (forward_edit_form r), fw_notice := []\<rparr>"
| "forwarding_update (FW_Remove r) s = fwd_remove r s"

section \<open>Rendering\<close>

definition forwarding_toolbar :: "(jstring \<Rightarrow> jstring) \<Rightarrow> bool \<Rightarrow> forwarding_page \<Rightarrow> forwarding_msg node" where
  [view_defs]: "forwarding_toolbar t ro s =
     El T_div [Cls ''zones-toolbar'']
       [El T_span [Cls ''zone-count'']
          [Txt (case fw_rules s of Some rs \<Rightarrow> show_nat (length rs) @ '' '' @ t ''forwarding.count'' | None \<Rightarrow> [])],
        El T_div []
          [El T_button [Cls ''button'', Disabled (fw_busy s), OnClick FW_Reload]
             [Icon ''RefreshCw'' 15, Txt (t ''blocklists.reload'')],
           El T_button [Cls ''button primary'', Disabled (fw_busy s \<or> ro \<or> fw_editor s \<noteq> None), OnClick FW_Add]
             [Icon ''Plus'' 15, Txt (t ''forwarding.add'')]]]"

definition forwarding_notices :: "forwarding_page \<Rightarrow> forwarding_msg node list" where
  [view_defs]: "forwarding_notices s =
     render_if (fw_error s \<noteq> []) [El T_div [Cls ''notice error'', A ''role'' ''alert''] [Txt (fw_error s)]]
     @ render_if (fw_notice s \<noteq> []) [El T_div [Cls ''notice success'', A ''role'' ''status''] [Txt (fw_notice s)]]"

definition forward_fields :: "(jstring \<Rightarrow> jstring) \<Rightarrow> forward_editor \<Rightarrow> forwarding_msg node" where
  [view_defs]: "forward_fields t f =
     El T_div [Cls ''form-grid forward-grid'']
       [El T_label []
          [Txt (t ''forwarding.domain''),
           El T_input [A ''value'' (fe_domain f), OnChange FW_Domain, A ''placeholder'' ''corp.example'', AN ''maxLength'' 253,
             A ''autoComplete'' ''off'', Flag ''required'', Flag ''autoFocus''] []],
        El T_label []
          [Txt (t ''forwarding.upstreams''),
           El T_input [A ''value'' (fe_upstreams f), OnChange FW_Upstreams, A ''placeholder'' ''10.0.0.10, 10.0.0.11:53'',
             A ''autoComplete'' ''off'', AB ''spellCheck'' False, Flag ''required''] [],
           El T_small [] [Txt (t ''forwarding.upstreams_hint'')]],
        El T_label []
          [Txt (t ''forwarding.description''),
           El T_input [A ''value'' (fe_description f), OnChange FW_Description, AN ''maxLength'' 200] []]]"

definition forward_form :: "(jstring \<Rightarrow> jstring) \<Rightarrow> bool \<Rightarrow> forward_editor \<Rightarrow> forwarding_msg node" where
  [view_defs]: "forward_form t busy f =
     (let title = t (if fe_id f = None then ''forwarding.add_title'' else ''forwarding.edit_title'') in
      El T_section [Cls ''panel form-panel'']
        [El T_form [Cls ''zone-form'', A ''aria-label'' title, OnSubmit FW_Submit]
           [El T_div [] [El T_h3 [] [Txt title], El T_p [] [Txt (t ''forwarding.form_hint'')]],
            El T_fieldset [Disabled busy]
              [forward_fields t f,
               El T_label [Cls ''check-field'']
                 [El T_input [A ''type'' ''checkbox'', AB ''checked'' (fe_enabled f), OnCheck FW_Enabled] [],
                  Txt (t ''forwarding.enabled'')],
               El T_div [Cls ''form-actions'']
                 [El T_button [Cls ''button primary'', A ''type'' ''submit''] [Txt (t ''forwarding.save'')],
                  El T_button [Cls ''button'', A ''type'' ''button'', OnClick FW_Cancel] [Txt (t ''forwarding.cancel'')]]]]])"

definition test_outcome :: "(jstring \<Rightarrow> jstring) \<Rightarrow> forward_test_result \<Rightarrow> forwarding_msg node" where
  [view_defs]: "test_outcome t r =
     (let err = nullish (ft_error r) [] in
      El T_div [Cls (''notice '' @ (if err \<noteq> [] then ''error'' else ''success'')), A ''role'' ''status'']
        [El T_div []
           ([El T_strong [] [Txt (ft_name r), Txt '' '', Txt (ft_type r), Txt ('' '' @ rarrow @ '' ''),
               Txt (if err \<noteq> [] then err else nullish (ft_rcode r) [])]]
            @ render_if (err = [])
               [El T_div [] [Txt (t ''forwarding.test_via''), Txt '' '', El T_code [] [Txt (nullish (ft_upstream r) [])],
                  Txt [CHR '' '', CHR 0xB7, CHR '' ''], Txt (to_fixed 1 (ft_duration_ms r)), Txt '' ms'']]
            @ render_if (err = [])
               (if ft_answers r \<noteq> [] then map (\<lambda>a. El T_div [] [El T_code [] [Txt a]]) (ft_answers r)
                else [El T_div [] [Txt (t ''forwarding.no_answers'')]]))])"

definition test_form :: "(jstring \<Rightarrow> jstring) \<Rightarrow> bool \<Rightarrow> forward_testing \<Rightarrow> forward_test_result option \<Rightarrow> forwarding_msg node" where
  [view_defs]: "test_form t busy g result =
     El T_section [Cls ''panel form-panel'']
       [El T_form [Cls ''zone-form'', A ''aria-label'' (t ''forwarding.test_title''), OnSubmit FW_RunTest]
          ([El T_div []
              [El T_h3 [] [Txt (t ''forwarding.test_title''), Txt '': '', El T_code [] [Txt (fr_domain (tg_rule g))]],
               El T_p [] [Txt (t ''forwarding.test_hint'')]],
            El T_fieldset [Disabled busy]
              [El T_div [Cls ''form-grid cache-filters'']
                 [El T_label []
                    [Txt (t ''forwarding.test_name''),
                     El T_input [A ''value'' (tg_name g), OnChange FW_TestName, AN ''maxLength'' 253, A ''autoComplete'' ''off''] []],
                  El T_label []
                    [Txt (t ''forwarding.test_type''),
                     El T_select [A ''value'' (tg_type g), OnChange FW_TestType]
                       (map (\<lambda>ty. El T_option [A ''key'' ty] [Txt ty]) TEST_TYPES)]],
               El T_div [Cls ''form-actions'']
                 [El T_button [Cls ''button primary'', A ''type'' ''submit'']
                    [Icon ''FlaskConical'' 15, Txt (t ''forwarding.run_test'')],
                  El T_button [Cls ''button'', A ''type'' ''button'', OnClick FW_CancelTest] [Txt (t ''forwarding.cancel'')]]]]
           @ (case result of None \<Rightarrow> [] | Some r \<Rightarrow> [test_outcome t r]))]"

definition health_cell :: "(jstring \<Rightarrow> jstring) \<Rightarrow> forward_rule_status \<Rightarrow> forwarding_msg node list" where
  [view_defs]: "health_cell t r =
     (if \<not> fr_enabled r then [El T_span [Cls ''status-text neutral''] [Txt (t ''forwarding.disabled'')]]
      else map (\<lambda>h. El T_div [A ''key'' (us_address h)]
        ([El T_span [Cls (''status-text '' @ tone_name (toneFor (Some (us_state h))))]
            [Txt (t (''dashboard.upstream_'' @ us_state h))]]
         @ render_if (us_state h = ''healthy'')
            [El T_span [Cls ''latency''] [Txt (show_int (math_round (us_latency_milliseconds h))), Txt '' ms'']])) (fr_health r))"

definition forward_row :: "(jstring \<Rightarrow> jstring) \<Rightarrow> bool \<Rightarrow> forwarding_page \<Rightarrow> forward_rule_status \<Rightarrow> forwarding_msg node" where
  [view_defs]: "forward_row t ro s r =
     El T_tr [A ''key'' (show_int (fr_id r))]
       [El T_td []
          [El T_span [Cls ''endpoint'']
             [El T_button [Cls ''switch'', A ''role'' ''switch'', AB ''aria-checked'' (fr_enabled r),
                A ''aria-label'' (t ''forwarding.toggle'' @ '' '' @ fr_domain r), Disabled (fw_busy s \<or> ro), OnClick (FW_Toggle r)] [],
              El T_code [] [Txt (fr_domain r)]]],
        El T_td [Cls ''wrap''] (map (\<lambda>u. El T_div [A ''key'' u] [El T_code [] [Txt u]]) (fr_upstreams r)),
        El T_td [Cls ''wrap''] (health_cell t r),
        El T_td [Cls ''wrap cell-muted''] [Txt (or_else (fr_description r) emdash)],
        El T_td []
          [El T_div [Cls ''table-actions'']
             [El T_button [Cls ''icon-button'', Disabled (fw_busy s \<or> ro), A ''title'' (t ''forwarding.test''),
                A ''aria-label'' (t ''forwarding.test'' @ '' '' @ fr_domain r), OnClick (FW_Test r)] [Icon ''FlaskConical'' 15],
              El T_button [Cls ''icon-button'', Disabled (fw_busy s \<or> ro \<or> fw_editor s \<noteq> None), A ''title'' (t ''forwarding.edit''),
                A ''aria-label'' (t ''forwarding.edit'' @ '' '' @ fr_domain r), OnClick (FW_Edit r)] [Icon ''Pencil'' 15],
              El T_button [Cls ''icon-button danger-icon'', Disabled (fw_busy s \<or> ro), A ''title'' (t ''forwarding.delete''),
                A ''aria-label'' (t ''forwarding.delete'' @ '' '' @ fr_domain r),
                OnConfirm (t ''forwarding.delete_confirm'' @ '' '' @ fr_domain r @ ''?'') (FW_Remove r)] [Icon ''Trash2'' 15]]]]"

definition forwarding_table :: "(jstring \<Rightarrow> jstring) \<Rightarrow> bool \<Rightarrow> forwarding_page \<Rightarrow> forward_rule_status list \<Rightarrow> forwarding_msg node" where
  [view_defs]: "forwarding_table t ro s rs =
     El T_section [Cls ''panel'']
       [El T_div [Cls ''table-wrap'']
          [El T_table []
             [El T_caption [Cls ''sr-only''] [Txt (t ''app.title.forwarding'')],
              El T_thead [] [El T_tr []
                [El T_th [] [Txt (t ''forwarding.domain'')], El T_th [] [Txt (t ''forwarding.upstreams'')],
                 El T_th [] [Txt (t ''forwarding.col_status'')], El T_th [] [Txt (t ''forwarding.description'')],
                 El T_th [] [El T_span [Cls ''sr-only''] [Txt (t ''zones.col_actions'')]]]],
              El T_tbody [] (map (forward_row t ro s) rs)]]]"

definition forwarding_view :: "(jstring \<Rightarrow> jstring) \<Rightarrow> bool \<Rightarrow> forwarding_page \<Rightarrow> forwarding_msg node list" where
  [view_defs]: "forwarding_view t ro s =
     [forwarding_toolbar t ro s] @ forwarding_notices s
     @ (case fw_editor s of None \<Rightarrow> [] | Some f \<Rightarrow> [forward_form t (fw_busy s) f])
     @ (case fw_testing s of None \<Rightarrow> [] | Some g \<Rightarrow> [test_form t (fw_busy s) g (fw_testResult s)])
     @ render_if (fw_rules s = None \<and> fw_error s = [])
         [El T_section [Cls ''panel''] [Loading [Txt (t ''app.connecting_panel'')]]]
     @ render_if (fw_rules s = Some [])
         [El T_section [Cls ''panel'']
            [EmptyState [Icon ''Route'' 22] (t ''forwarding.empty_title'') [Txt (t ''forwarding.empty_text'')] [] False]]
     @ (case fw_rules s of None \<Rightarrow> [] | Some rs \<Rightarrow> render_if (rs \<noteq> []) [forwarding_table t ro s rs])"

section \<open>What a user can trigger\<close>

definition forwarding_guard :: "bool \<Rightarrow> forwarding_page \<Rightarrow> forwarding_msg \<Rightarrow> bool" where
  "forwarding_guard ro s m = (case m of
      FW_Reload \<Rightarrow> \<not> fw_busy s
    | FW_Toggle r \<Rightarrow> \<not> fw_busy s \<and> \<not> ro
    | FW_Remove r \<Rightarrow> \<not> fw_busy s \<and> \<not> ro
    | FW_Test r \<Rightarrow> \<not> fw_busy s \<and> \<not> ro
    | FW_Add \<Rightarrow> \<not> ro | FW_Edit r \<Rightarrow> \<not> ro
    | FW_TestName v \<Rightarrow> \<not> fw_busy s \<and> fw_testing s \<noteq> None
    | FW_TestType v \<Rightarrow> \<not> fw_busy s \<and> fw_testing s \<noteq> None
    | FW_RunTest \<Rightarrow> \<not> fw_busy s \<and> fw_testing s \<noteq> None
    | FW_CancelTest \<Rightarrow> \<not> fw_busy s \<and> fw_testing s \<noteq> None
    | _ \<Rightarrow> \<not> fw_busy s \<and> fw_editor s \<noteq> None)"

lemma forward_form_ok:
  "node_ok P d (forward_form t busy f) \<longleftrightarrow>
    (\<not> (d \<or> busy) \<longrightarrow> P FW_Submit \<and> P FW_Cancel \<and> (\<forall>v. P (FW_Domain v)) \<and> (\<forall>v. P (FW_Upstreams v)) \<and>
       (\<forall>v. P (FW_Description v)) \<and> (\<forall>b. P (FW_Enabled b)))"
  by (auto simp: forward_form_def forward_fields_def dom_simps Let_def)

lemma test_outcome_ok [simp]: "node_ok P d (test_outcome t r)" "can_submit d (test_outcome t r) = False"
  by (auto simp: test_outcome_def dom_simps Let_def render_if_def list_ex_iff)

lemma test_form_ok:
  "node_ok P d (test_form t busy g result) \<longleftrightarrow>
    (\<not> (d \<or> busy) \<longrightarrow> P FW_RunTest \<and> P FW_CancelTest \<and> (\<forall>v. P (FW_TestName v)) \<and> (\<forall>v. P (FW_TestType v)))"
  by (auto simp: test_form_def dom_simps split: option.split)

lemma forwarding_table_ok: "node_ok (forwarding_guard ro s) False (forwarding_table t ro s rs)"
proof -
  have health: "list_all (node_ok P d) (health_cell t r)" for P d r
    by (auto simp: health_cell_def dom_simps)
  have "node_ok (forwarding_guard ro s) False (forward_row t ro s r)" for r
    using health by (simp add: forward_row_def dom_simps forwarding_guard_def)
  then show ?thesis by (simp add: forwarding_table_def dom_simps)
qed

lemma forwarding_view_ok: "nodes_ok (forwarding_guard ro s) (forwarding_view t ro s)"
proof -
  have toolbar: "node_ok (forwarding_guard ro s) False (forwarding_toolbar t ro s)"
    by (simp add: forwarding_toolbar_def dom_simps forwarding_guard_def)
  have notices: "nodes_ok (forwarding_guard ro s) (forwarding_notices s)"
    by (simp add: forwarding_notices_def dom_simps)
  have editor: "nodes_ok (forwarding_guard ro s) (case fw_editor s of None \<Rightarrow> [] | Some f \<Rightarrow> [forward_form t (fw_busy s) f])"
    by (auto simp: forward_form_ok forwarding_guard_def split: option.split)
  have testing: "nodes_ok (forwarding_guard ro s)
      (case fw_testing s of None \<Rightarrow> [] | Some g \<Rightarrow> [test_form t (fw_busy s) g (fw_testResult s)])"
    by (auto simp: test_form_ok forwarding_guard_def split: option.split)
  show ?thesis
    using toolbar notices editor testing forwarding_table_ok
    by (auto simp: forwarding_view_def Loading_def EmptyState_def dom_simps split: option.split)
qed

lemma forwarding_fired: "m \<in> fires (forwarding_view t ro s) \<Longrightarrow> forwarding_guard ro s m"
  by (rule nodes_okD [OF forwarding_view_ok])

section \<open>The page as a machine\<close>

inductive forwarding_env :: "(jstring \<Rightarrow> jstring) \<Rightarrow> forwarding_page \<Rightarrow> forwarding_page \<Rightarrow> bool" for t where
  timer_fires: "forwarding_env t s (fwd_timer s)"
| interval_fires: "forwarding_env t s (fwd_tick s)"
| language_changes: "forwarding_env t s (fwd_language s)"
| load_done: "i < length (fw_loads s) \<Longrightarrow> forwarding_env t s (fwd_load_settled t i res s)"
| op_done: "i < length (fw_ops s) \<Longrightarrow> \<not> is_FwdTest (fw_ops s ! i) \<Longrightarrow> forwarding_env t s (fwd_op_settled t i res s)"
| test_done: "i < length (fw_ops s) \<Longrightarrow> is_FwdTest (fw_ops s ! i) \<Longrightarrow> forwarding_env t s (fwd_test_settled t i res s)"

text \<open>A handler is running while its request or the load it awaits is in flight.\<close>

definition awaited :: "forward_load list \<Rightarrow> nat" where
  "awaited xs = length (filter fl_awaited xs)"

definition forwarding_inv :: "forwarding_page \<Rightarrow> bool" where
  "forwarding_inv s \<longleftrightarrow> length (fw_ops s) + awaited (fw_loads s) = (if fw_busy s then 1 else 0)"

lemma awaited_simps [simp]: "awaited [] = 0" "awaited (xs @ [ld]) = awaited xs + (if fl_awaited ld then 1 else 0)"
  by (simp_all add: awaited_def)

lemma awaited_abort [simp]: "awaited (map fwd_abort xs) = awaited xs"
proof -
  have "fl_awaited (fwd_abort x) = fl_awaited x" for x by (cases x) simp
  then show ?thesis by (simp add: awaited_def filter_map comp_def)
qed

lemma awaited_remove: "i < length xs \<Longrightarrow> awaited xs = (if fl_awaited (xs ! i) then 1 else 0) + awaited (remove_nth i xs)"
  by (subst id_take_nth_drop [of i xs]) (auto simp: remove_nth_def awaited_def)

lemma fwd_load_settled_frame:
  "fw_loads (fwd_load_settled t i res s) = remove_nth i (fw_loads s)" "fw_ops (fwd_load_settled t i res s) = fw_ops s"
  "fw_busy (fwd_load_settled t i res s) = (fw_busy s \<and> \<not> fl_awaited (fw_loads s ! i))"
  "fw_editor (fwd_load_settled t i res s) = fw_editor s" "fw_testing (fwd_load_settled t i res s) = fw_testing s"
  by (auto simp: fwd_load_settled_def Let_def split: sum.split)

lemma forwarding_inv_op:
  assumes "forwarding_inv s" "i < length (fw_ops s)"
  shows "fw_busy s" "remove_nth i (fw_ops s) = []" "awaited (fw_loads s) = 0"
proof -
  have "length (fw_ops s) = 1" "fw_busy s" "awaited (fw_loads s) = 0"
    using assms by (auto simp: forwarding_inv_def split: if_splits)
  then show "fw_busy s" "awaited (fw_loads s) = 0" "remove_nth i (fw_ops s) = []"
    using length_remove_nth [OF assms(2)] by auto
qed

lemma forwarding_inv_load_settled:
  "forwarding_inv s \<Longrightarrow> i < length (fw_loads s) \<Longrightarrow> forwarding_inv (fwd_load_settled t i res s)"
  using awaited_remove [of i "fw_loads s"] by (auto simp: forwarding_inv_def fwd_load_settled_frame split: if_splits)

lemma forwarding_inv_op_settled:
  assumes "forwarding_inv s" "i < length (fw_ops s)" "\<not> is_FwdTest (fw_ops s ! i)"
  shows "forwarding_inv (fwd_op_settled t i res s)"
  using forwarding_inv_op [OF assms(1,2)] assms(3)
  by (cases res; cases "fw_ops s ! i")
    (simp_all add: forwarding_inv_def fwd_op_settled_def fwd_op_failed_def fwd_load_def Let_def)

lemma forwarding_inv_test_settled:
  assumes "forwarding_inv s" "i < length (fw_ops s)"
  shows "forwarding_inv (fwd_test_settled t i res s)"
  using forwarding_inv_op [OF assms]
  by (cases res) (simp_all add: forwarding_inv_def fwd_test_settled_def fwd_op_failed_def Let_def)

lemma forwarding_inv_timers:
  "forwarding_inv (fwd_timer s) = forwarding_inv s" "forwarding_inv (fwd_tick s) = forwarding_inv s"
  "forwarding_inv (fwd_language s) = forwarding_inv s"
  by (simp_all add: forwarding_inv_def fwd_timer_def fwd_tick_def fwd_language_def fwd_load_def)

lemma forwarding_env_inv: "forwarding_inv s \<Longrightarrow> forwarding_env t s s' \<Longrightarrow> forwarding_inv s'"
  by (erule forwarding_env.cases; hypsubst;
      simp add: forwarding_inv_timers forwarding_inv_load_settled forwarding_inv_op_settled forwarding_inv_test_settled)

lemma forwarding_update_inv: "forwarding_guard ro s m \<Longrightarrow> forwarding_inv s \<Longrightarrow> forwarding_inv (forwarding_update m s)"
  by (cases m) (auto simp: forwarding_guard_def forwarding_inv_def fwd_load_def fwd_save_def fwd_toggle_def fwd_remove_def
      runTest_def split: option.split)

lemma forwarding_update_change: "one_change (fw_ops s) (fw_ops (forwarding_update m s))"
  by (cases m) (auto simp: fwd_load_def fwd_save_def fwd_toggle_def fwd_remove_def runTest_def split: option.split)

lemma forwarding_env_change: "forwarding_env t s s' \<Longrightarrow> one_change (fw_ops s) (fw_ops s')"
proof (erule forwarding_env.cases; hypsubst)
  fix i and res :: "unit result" assume "i < length (fw_ops s)"
  then show "one_change (fw_ops s) (fw_ops (fwd_op_settled t i res s))"
    by (cases res; cases "fw_ops s ! i") (auto simp: fwd_op_settled_def fwd_op_failed_def fwd_load_def Let_def)
qed (auto simp: fwd_timer_def fwd_tick_def fwd_language_def fwd_load_def fwd_load_settled_def fwd_test_settled_def fwd_op_failed_def
    Let_def split: sum.split)

interpretation forwarding: locked_page
  "\<lambda>s. s = forwarding_mount" "forwarding_view t ro" forwarding_update "forwarding_env t" forwarding_inv fw_ops for t ro
proof unfold_locales
  show "length (fw_ops s) \<le> 1" if "forwarding_inv s" for s
    using that by (auto simp: forwarding_inv_def split: if_splits)
  show "forwarding_inv s" if "s = forwarding_mount" for s
    using that by (simp add: forwarding_inv_def forwarding_mount_def)
qed (blast intro: forwarding_update_inv forwarding_env_inv forwarding_fired forwarding_update_change forwarding_env_change)+

text \<open>A viewer can neither change nor test a rule.\<close>

definition forwarding_idle :: "forwarding_page \<Rightarrow> bool" where
  "forwarding_idle s \<longleftrightarrow> fw_ops s = [] \<and> fw_editor s = None \<and> fw_testing s = None"

lemma forwarding_idle_update: "forwarding_idle s \<Longrightarrow> forwarding_guard True s m \<Longrightarrow> forwarding_idle (forwarding_update m s)"
  by (cases m) (auto simp: forwarding_guard_def forwarding_idle_def fwd_load_def)

lemma forwarding_idle_steps:
  "forwarding_idle (fwd_timer s) = forwarding_idle s" "forwarding_idle (fwd_tick s) = forwarding_idle s"
  "forwarding_idle (fwd_language s) = forwarding_idle s"
  "forwarding_idle (fwd_load_settled t i res s) = forwarding_idle s"
  by (simp_all add: forwarding_idle_def fwd_timer_def fwd_tick_def fwd_language_def fwd_load_def fwd_load_settled_frame)

lemma forwarding_idle_no_op: "forwarding_idle s \<Longrightarrow> \<not> i < length (fw_ops s)"
  by (simp add: forwarding_idle_def)

lemma forwarding_idle_env: "forwarding_idle s \<Longrightarrow> forwarding_env t s s' \<Longrightarrow> forwarding_idle s'"
  by (erule forwarding_env.cases; hypsubst; simp add: forwarding_idle_steps forwarding_idle_no_op)

interpretation forwarding_ro: read_only_page
  "\<lambda>s. s = forwarding_mount" "forwarding_view t True" forwarding_update "forwarding_env t" forwarding_idle fw_ops for t
proof unfold_locales
  show "forwarding_idle s" if "s = forwarding_mount" for s
    using that by (simp add: forwarding_idle_def forwarding_mount_def)
  show "forwarding_idle (forwarding_update m s)"
    if "forwarding_idle s" "m \<in> fires (forwarding_view t True s)" for s m
    using that(1) forwarding_fired [OF that(2)] by (rule forwarding_idle_update)
  show "forwarding_idle s'" if "forwarding_idle s" "forwarding_env t s s'" for s s'
    using that by (rule forwarding_idle_env)
  show "fw_ops s = []" if "forwarding_idle s" for s
    using that by (simp add: forwarding_idle_def)
qed

text \<open>Editing a rule and saving the form unchanged sends the rule as it is.\<close>

lemma forward_input_edit_form:
  assumes "\<forall>u \<in> set (fr_upstreams r). u \<noteq> [] \<and> (\<forall>x \<in> set u. \<not> ws_or_comma x)"
    and "js_trim (fr_domain r) = fr_domain r" "js_trim (fr_description r) = fr_description r"
  shows "forward_input (forward_edit_form r) = (toggle_input r)\<lparr>fi_enabled := fr_enabled r\<rparr>"
proof -
  have "tokens ws_or_comma (js_join '', '' (fr_upstreams r)) = fr_upstreams r"
    using assms(1) by (intro tokens_join) (auto simp: ws_or_comma_def js_ws_def)
  then show ?thesis using assms(2,3) by (simp add: forward_input_def forward_edit_form_def toggle_input_def)
qed

end
