(* ===== verification/Blocklists_Page.thy ===== *)
theory Blocklists_Page
  imports Api_Resources Components Snapshot
begin

text \<open>
  \<open>pages/Blocklists.tsx\<close>: the sources of blocked domains. Every change has its own handler with
  its own error text; all of them set \<open>busy\<close> to what they work on, reload the list when the
  request has succeeded and clear \<open>busy\<close> at the end. Opening the editor of a local list is a
  request of its own that does not set \<open>busy\<close>.
\<close>

definition SCHEDULES :: "(int \<times> jstring) list" where
  "SCHEDULES = [(0, ''blocklists.manual''), (3600, ''blocklists.every_1h''), (6 * 3600, ''blocklists.every_6h''),
     (12 * 3600, ''blocklists.every_12h''), (24 * 3600, ''blocklists.every_24h''), (7 * 24 * 3600, ''blocklists.every_7d'')]"

datatype bl_busy = BusyNew | BusyOn int

text \<open>A change in flight.\<close>

datatype bl_op =
    BlAdd call
  | BlToggle call
  | BlSchedule call
  | BlRefresh call
  | BlDelete call
  | BlContent call

fun bl_op_call :: "bl_op \<Rightarrow> call" where
  "bl_op_call (BlAdd c) = c"
| "bl_op_call (BlToggle c) = c"
| "bl_op_call (BlSchedule c) = c"
| "bl_op_call (BlRefresh c) = c"
| "bl_op_call (BlDelete c) = c"
| "bl_op_call (BlContent c) = c"

text \<open>
  A load in flight: the effect's carries the negation of its \<open>active\<close> flag, the function
  \<open>load\<close> has none and may be awaited by a handler.
\<close>

datatype bl_load = BlLoad (bl_inactive: "bool option") (bl_awaited: bool)

record blocklists_page =
  bl_sources :: "blocklist_source list option"
  bl_name :: jstring
  bl_url :: jstring
  bl_schedule :: int
  bl_adding :: bool
  bl_busy :: "bl_busy option"
  bl_error :: jstring
  bl_editing :: "int option"
  bl_editContent :: jstring
  bl_confirmDelete :: "int option"
  bl_loads :: "bl_load list"
  bl_ops :: "bl_op list"
  bl_edits :: "int list"

text \<open>The effect: the previous run becomes inactive, a new load starts.\<close>

definition bl_effect :: "blocklists_page \<Rightarrow> blocklists_page" where
  "bl_effect s = s\<lparr>bl_loads := map (\<lambda>ld. BlLoad (map_option (\<lambda>_. True) (bl_inactive ld)) (bl_awaited ld)) (bl_loads s)
     @ [BlLoad (Some False) False]\<rparr>"

definition blocklists_mount :: blocklists_page where
  "blocklists_mount = bl_effect \<lparr>bl_sources = None, bl_name = [], bl_url = [], bl_schedule = 24 * 3600, bl_adding = False,
     bl_busy = None, bl_error = [], bl_editing = None, bl_editContent = [], bl_confirmDelete = None, bl_loads = [], bl_ops = [],
     bl_edits = []\<rparr>"

definition bl_load_start :: "bool \<Rightarrow> blocklists_page \<Rightarrow> blocklists_page" where
  "bl_load_start awaited s = s\<lparr>bl_error := [], bl_loads := bl_loads s @ [BlLoad None awaited]\<rparr>"

definition bl_load_settled :: "(jstring \<Rightarrow> jstring) \<Rightarrow> nat \<Rightarrow> blocklist_source list result \<Rightarrow> blocklists_page \<Rightarrow> blocklists_page" where
  "bl_load_settled t i res s =
     (let ld = bl_loads s ! i; s0 = s\<lparr>bl_loads := remove_nth i (bl_loads s)\<rparr>;
          s1 = (if bl_inactive ld = Some True then s0
                else case res of
                  Inr bs \<Rightarrow> (if bl_inactive ld = None then s0\<lparr>bl_sources := Some bs\<rparr> else s0\<lparr>bl_sources := Some bs, bl_error := []\<rparr>)
                | Inl e \<Rightarrow> s0\<lparr>bl_error := error_text e (t ''blocklists.load_failed'')\<rparr>)
      in if bl_awaited ld then s1\<lparr>bl_busy := None\<rparr> else s1)"

section \<open>Handlers\<close>

definition bl_path :: "int \<Rightarrow> jstring" where
  "bl_path n = ''/api/v1/blocklists/'' @ show_int n"

definition bl_start :: "bl_busy \<Rightarrow> bl_op \<Rightarrow> blocklists_page \<Rightarrow> blocklists_page" where
  "bl_start b op s = s\<lparr>bl_busy := Some b, bl_error := [], bl_ops := bl_ops s @ [op]\<rparr>"

definition bl_add :: "blocklists_page \<Rightarrow> blocklists_page" where
  "bl_add s = bl_start BusyNew (BlAdd (send_call ''/api/v1/blocklists'' ''POST''
     (Some (JObj [(''name'', JStr (bl_name s)), (''url'', JStr (bl_url s)),
        (''update_interval'', json_int (if js_trim (bl_url s) \<noteq> [] then bl_schedule s else 0))])))) s"

definition toggleEnabled :: "int \<Rightarrow> bool \<Rightarrow> blocklists_page \<Rightarrow> blocklists_page" where
  "toggleEnabled n currentEnabled s =
     bl_start (BusyOn n) (BlToggle (send_call (bl_path n) ''PUT'' (Some (JObj [(''enabled'', JBool (\<not> currentEnabled))])))) s"

definition changeSchedule :: "int \<Rightarrow> int \<Rightarrow> blocklists_page \<Rightarrow> blocklists_page" where
  "changeSchedule n seconds s =
     bl_start (BusyOn n) (BlSchedule (send_call (bl_path n) ''PUT'' (Some (JObj [(''update_interval'', json_int seconds)])))) s"

definition bl_refresh :: "int \<Rightarrow> blocklists_page \<Rightarrow> blocklists_page" where
  "bl_refresh n s = bl_start (BusyOn n) (BlRefresh (send_call (bl_path n @ ''/update'') ''POST'' None)) s"

definition deleteSource :: "int \<Rightarrow> blocklists_page \<Rightarrow> blocklists_page" where
  "deleteSource n s = bl_start (BusyOn n) (BlDelete (send_call (bl_path n) ''DELETE'' None)) s"

definition saveContent :: "int \<Rightarrow> blocklists_page \<Rightarrow> blocklists_page" where
  "saveContent n s = bl_start (BusyOn n) (BlContent (send_call (bl_path n @ ''/content'') ''PUT''
     (Some (JObj [(''content'', JStr (bl_editContent s))])))) s"

definition startEditing :: "int \<Rightarrow> blocklists_page \<Rightarrow> blocklists_page" where
  "startEditing n s = s\<lparr>bl_error := [], bl_edits := bl_edits s @ [n]\<rparr>"

definition startEditing_settled :: "(jstring \<Rightarrow> jstring) \<Rightarrow> nat \<Rightarrow> blocklist_source result \<Rightarrow> blocklists_page \<Rightarrow> blocklists_page" where
  "startEditing_settled t i res s =
     (let n = bl_edits s ! i; s0 = s\<lparr>bl_edits := remove_nth i (bl_edits s)\<rparr> in case res of
        Inr b \<Rightarrow> s0\<lparr>bl_editContent := js_join [CHR 0x0A] (nullish (bs_domains b) []), bl_editing := Some n\<rparr>
      | Inl e \<Rightarrow> s0\<lparr>bl_error := error_text e (t ''blocklists.load_failed'')\<rparr>)"

fun bl_failure_key :: "bl_op \<Rightarrow> jstring" where
  "bl_failure_key (BlAdd c) = ''blocklists.add_failed''"
| "bl_failure_key (BlToggle c) = ''blocklists.toggle_failed''"
| "bl_failure_key (BlSchedule c) = ''blocklists.schedule_failed''"
| "bl_failure_key (BlRefresh c) = ''blocklists.update_failed_msg''"
| "bl_failure_key (BlDelete c) = ''blocklists.delete_failed''"
| "bl_failure_key (BlContent c) = ''blocklists.content_save_failed''"

fun bl_succeeded :: "bl_op \<Rightarrow> blocklists_page \<Rightarrow> blocklists_page" where
  "bl_succeeded (BlAdd c) s = s\<lparr>bl_name := [], bl_url := [], bl_adding := False\<rparr>"
| "bl_succeeded (BlDelete c) s = s\<lparr>bl_confirmDelete := None\<rparr>"
| "bl_succeeded (BlContent c) s = s\<lparr>bl_editing := None\<rparr>"
| "bl_succeeded (BlToggle c) s = s"
| "bl_succeeded (BlSchedule c) s = s"
| "bl_succeeded (BlRefresh c) s = s"

definition bl_op_settled :: "(jstring \<Rightarrow> jstring) \<Rightarrow> nat \<Rightarrow> unit result \<Rightarrow> blocklists_page \<Rightarrow> blocklists_page" where
  "bl_op_settled t i res s =
     (let op = bl_ops s ! i; s0 = s\<lparr>bl_ops := remove_nth i (bl_ops s)\<rparr> in case res of
        Inr _ \<Rightarrow> bl_load_start True (bl_succeeded op s0)
      | Inl e \<Rightarrow> s0\<lparr>bl_error := error_text e (t (bl_failure_key op)), bl_busy := None\<rparr>)"

datatype blocklists_msg =
    BL_Reload
  | BL_Add
  | BL_Name jstring
  | BL_Url jstring
  | BL_Schedule jstring
  | BL_SubmitAdd
  | BL_CancelAdd
  | BL_Content jstring
  | BL_SubmitContent int
  | BL_CancelEdit
  | BL_Toggle blocklist_source
  | BL_ChangeSchedule int jstring
  | BL_ConfirmDelete int
  | BL_AskDelete int
  | BL_CancelDelete
  | BL_Edit int
  | BL_Refresh int

text \<open>The menus offer the listed schedules only.\<close>

definition schedule_of :: "jstring \<Rightarrow> int option" where
  "schedule_of v = map_option fst (find (\<lambda>o'. show_int (fst o') = v) SCHEDULES)"

fun blocklists_update :: "blocklists_msg \<Rightarrow> blocklists_page \<Rightarrow> blocklists_page" where
  "blocklists_update BL_Reload s = bl_load_start False s"
| "blocklists_update BL_Add s = s\<lparr>bl_adding := True\<rparr>"
| "blocklists_update (BL_Name v) s = s\<lparr>bl_name := v\<rparr>"
| "blocklists_update (BL_Url v) s = s\<lparr>bl_url := v\<rparr>"
| "blocklists_update (BL_Schedule v) s = (case schedule_of v of None \<Rightarrow> s | Some n \<Rightarrow> s\<lparr>bl_schedule := n\<rparr>)"
| "blocklists_update BL_SubmitAdd s = bl_add s"
| "blocklists_update BL_CancelAdd s = s\<lparr>bl_adding := False\<rparr>"
| "blocklists_update (BL_Content v) s = s\<lparr>bl_editContent := v\<rparr>"
| "blocklists_update (BL_SubmitContent n) s = saveContent n s"
| "blocklists_update BL_CancelEdit s = s\<lparr>bl_editing := None\<rparr>"
| "blocklists_update (BL_Toggle b) s = toggleEnabled (bs_id b) (bs_enabled b) s"
| "blocklists_update (BL_ChangeSchedule n v) s = (case schedule_of v of None \<Rightarrow> s | Some k \<Rightarrow> changeSchedule n k s)"
| "blocklists_update (BL_ConfirmDelete n) s = deleteSource n s"
| "blocklists_update (BL_AskDelete n) s = s\<lparr>bl_confirmDelete := Some n\<rparr>"
| "blocklists_update BL_CancelDelete s = s\<lparr>bl_confirmDelete := None\<rparr>"
| "blocklists_update (BL_Edit n) s = startEditing n s"
| "blocklists_update (BL_Refresh n) s = bl_refresh n s"

section \<open>Rendering\<close>

definition blocklists_toolbar :: "(jstring \<Rightarrow> jstring) \<Rightarrow> bool \<Rightarrow> blocklists_page \<Rightarrow> blocklists_msg node" where
  [view_defs]: "blocklists_toolbar t ro s =
     El T_div [Cls ''zones-toolbar'']
       [El T_span [Cls ''zone-count'']
          [Txt (case bl_sources s of
             Some bs \<Rightarrow> show_nat (length bs) @ '' '' @ (if length bs = 1 then t ''blocklists.count_one'' else t ''blocklists.count'')
           | None \<Rightarrow> t ''blocklists.sources_label'')],
        El T_div []
          [El T_button [Cls ''button'', OnClick BL_Reload, Disabled (bl_busy s \<noteq> None)]
             [Icon ''RefreshCw'' 15, Txt (t ''blocklists.reload'')],
           El T_button [Cls ''button primary'', OnClick BL_Add, Disabled (bl_busy s \<noteq> None \<or> ro)]
             [Icon ''Plus'' 15, Txt (t ''blocklists.add_source'')]]]"

definition schedule_options :: "(jstring \<Rightarrow> jstring) \<Rightarrow> blocklists_msg node list" where
  [view_defs]: "schedule_options t =
     map (\<lambda>(n, k). El T_option [A ''key'' (show_int n), A ''value'' (show_int n)] [Txt (t k)]) SCHEDULES"

definition blocklist_add_form :: "(jstring \<Rightarrow> jstring) \<Rightarrow> blocklists_page \<Rightarrow> blocklists_msg node" where
  [view_defs]: "blocklist_add_form t s =
     El T_section [Cls ''panel form-panel'']
       [El T_form [Cls ''zone-form'', A ''aria-label'' (t ''blocklists.add_aria''), OnSubmit BL_SubmitAdd]
          [El T_div [] [El T_h3 [] [Txt (t ''blocklists.add_title'')], El T_p [] [Txt (t ''blocklists.add_text'')]],
           El T_fieldset [Disabled (bl_busy s \<noteq> None)]
             [El T_div [Cls ''form-grid source-grid'']
                [El T_label []
                   [Txt (t ''blocklists.name''),
                    El T_input [Flag ''required'', A ''value'' (bl_name s), OnChange BL_Name, A ''placeholder'' (t ''blocklists.community_hosts'')] []],
                 El T_label []
                   [Txt (t ''blocklists.source_url''),
                    El T_input [Flag ''required'', A ''type'' ''url'', A ''value'' (bl_url s), OnChange BL_Url,
                      A ''placeholder'' ''https://example.org/hosts.txt''] []],
                 El T_label []
                   [Txt (t ''blocklists.schedule''),
                    El T_select [A ''value'' (show_int (bl_schedule s)), OnChange BL_Schedule] (schedule_options t)]],
              El T_div [Cls ''form-actions'']
                [El T_button [Cls ''button primary'']
                   [Txt (if bl_busy s = Some BusyNew then t ''blocklists.adding'' else t ''blocklists.add_source'')],
                 El T_button [A ''type'' ''button'', Cls ''button'', OnClick BL_CancelAdd] [Txt (t ''blocklists.cancel'')]]]]]"

definition blocklist_edit_form :: "(jstring \<Rightarrow> jstring) \<Rightarrow> blocklists_page \<Rightarrow> int \<Rightarrow> blocklists_msg node" where
  [view_defs]: "blocklist_edit_form t s n =
     El T_section [Cls ''panel form-panel'']
       [El T_form [Cls ''zone-form'', A ''aria-label'' (t ''blocklists.edit_content_aria''), OnSubmit (BL_SubmitContent n)]
          [El T_div [] [El T_h3 [] [Txt (t ''blocklists.edit_content_title'')], El T_p [] [Txt (t ''blocklists.edit_content_text'')]],
           El T_fieldset [Disabled (bl_busy s \<noteq> None)]
             [El T_label []
                [Txt (t ''blocklists.domains_label''),
                 El T_textarea [A ''value'' (bl_editContent s), OnChange BL_Content, AN ''rows'' 12,
                   A ''placeholder'' (''0.0.0.0 ads.example.com'' @ [CHR 0x0A] @ ''tracker.example.com'')] []],
              El T_div [Cls ''form-actions'']
                [El T_button [Cls ''button primary'']
                   [Txt (if bl_busy s = Some (BusyOn n) then t ''blocklists.saving'' else t ''blocklists.save'')],
                 El T_button [A ''type'' ''button'', Cls ''button'', OnClick BL_CancelEdit] [Txt (t ''blocklists.cancel'')]]]]]"

definition blocklist_state :: "(jstring \<Rightarrow> jstring) \<Rightarrow> blocklist_source \<Rightarrow> blocklists_msg node" where
  [view_defs]: "blocklist_state t b =
     (if bs_last_error b \<noteq> [] then El T_span [A ''title'' (bs_last_error b)] [Badge Tone_danger False [Txt (t ''blocklists.update_failed'')]]
      else if bs_url b \<noteq> [] \<and> nullish (bs_last_updated_at b) [] = [] then Badge Tone_warning False [Txt (t ''blocklists.never_updated'')]
      else if bs_enabled b then Badge Tone_success False [Txt (t ''blocklists.active'')]
      else Badge Tone_neutral False [Txt (t ''blocklists.disabled'')])"

definition domain_total :: "blocklist_source \<Rightarrow> int" where
  "domain_total b = nullish (bs_domain_count b) (nullish (map_option (\<lambda>ds. int (length ds)) (bs_domains b)) 0)"

text \<open>\<open>date\<close> prints a date in the host's locale; \<open>due\<close> says whether it has passed.\<close>

definition blocklist_times ::
  "(jstring \<Rightarrow> jstring) \<Rightarrow> (jstring \<Rightarrow> jstring) \<Rightarrow> (jstring \<Rightarrow> bool) \<Rightarrow> blocklist_source \<Rightarrow> blocklists_msg node list" where
  [view_defs]: "blocklist_times t date due b =
     [El T_td [Cls ''cell-muted'']
        ([Txt (if nullish (bs_last_updated_at b) [] \<noteq> [] then date (nullish (bs_last_updated_at b) []) else t ''blocklists.never'')]
         @ render_if (0 < nullish (bs_consecutive_failures b) 0)
            [El T_small [Cls ''danger''] [Txt (show_int (nullish (bs_consecutive_failures b) 0)), Txt '' '', Txt (t ''blocklists.retry_count'')]]),
      El T_td [Cls ''cell-muted'']
        [Txt (let n = nullish (bs_next_update_at b) [] in
           if n \<noteq> [] then (if due n then t ''blocklists.due_now'' else date n) else emdash)]]"

definition blocklist_actions :: "(jstring \<Rightarrow> jstring) \<Rightarrow> bool \<Rightarrow> blocklists_page \<Rightarrow> blocklist_source \<Rightarrow> blocklists_msg node" where
  [view_defs]: "blocklist_actions t ro s b =
     (let off = (bl_busy s \<noteq> None \<or> ro); working = (bl_busy s = Some (BusyOn (bs_id b))) in
      El T_div [Cls ''blocklist-actions'']
       (if bl_confirmDelete s = Some (bs_id b) then
          [El T_button [Cls ''button danger small'', Disabled (bl_busy s \<noteq> None), OnClick (BL_ConfirmDelete (bs_id b))]
             [Txt (t ''blocklists.confirm_delete'')],
           El T_button [Cls ''button ghost small'', OnClick BL_CancelDelete] [Txt (t ''blocklists.cancel'')]]
        else
          render_if (bs_url b = [])
            [El T_button [Cls ''icon-button'', A ''title'' (t ''blocklists.edit_content''), A ''aria-label'' (t ''blocklists.edit_content''),
               Disabled off, OnClick (BL_Edit (bs_id b))] [Icon ''Pencil'' 15]]
          @ [El T_button [Cls ''icon-button'', A ''title'' (t ''blocklists.update''),
               A ''aria-label'' (if working then t ''blocklists.updating'' else t ''blocklists.update''),
               Disabled off, OnClick (BL_Refresh (bs_id b))] [Icon ''RefreshCw'' 15],
             El T_button [Cls ''icon-button danger-icon'', A ''title'' (t ''blocklists.delete''), A ''aria-label'' (t ''blocklists.delete''),
               Disabled off, OnClick (BL_AskDelete (bs_id b))] [Icon ''Trash2'' 15]]))"

definition blocklist_row ::
  "(jstring \<Rightarrow> jstring) \<Rightarrow> formats \<Rightarrow> (jstring \<Rightarrow> jstring) \<Rightarrow> (jstring \<Rightarrow> bool) \<Rightarrow> bool \<Rightarrow> blocklists_page \<Rightarrow> blocklist_source \<Rightarrow> blocklists_msg node" where
  [view_defs]: "blocklist_row t fm date due ro s b =
     (let switch = (if bs_enabled b then t ''blocklists.disable'' else t ''blocklists.enable'') in
      El T_tr [A ''key'' (show_int (bs_id b))]
       ([El T_td []
           [El T_span [Cls ''endpoint'']
              [El T_button [Cls ''switch'', A ''role'' ''switch'', AB ''aria-checked'' (bs_enabled b),
                 A ''aria-label'' (switch @ '': '' @ bs_name b), A ''title'' switch, Disabled (bl_busy s \<noteq> None \<or> ro), OnClick (BL_Toggle b)] [],
               El T_strong [] [Txt (bs_name b)]]],
         El T_td [Cls ''record-value'']
           [if bs_url b \<noteq> [] then El T_code [] [Txt (bs_url b)] else Badge Tone_neutral True [Txt (t ''blocklists.local'')]],
         El T_td [Cls ''num mono''] [Txt (fm_number fm (domain_total b))],
         El T_td [] [blocklist_state t b],
         El T_td []
           [if bs_url b \<noteq> [] then
              El T_select [Cls ''inline-select'', A ''aria-label'' (t ''blocklists.schedule_for'' @ '' '' @ bs_name b),
                A ''value'' (show_int (nullish (bs_update_interval b) 0)), Disabled (bl_busy s \<noteq> None \<or> ro),
                OnChange (BL_ChangeSchedule (bs_id b))] (schedule_options t)
            else El T_span [Cls ''cell-muted''] [Txt emdash]]]
        @ blocklist_times t date due b
        @ [El T_td [] [blocklist_actions t ro s b]]))"

definition blocklists_table ::
  "(jstring \<Rightarrow> jstring) \<Rightarrow> formats \<Rightarrow> (jstring \<Rightarrow> jstring) \<Rightarrow> (jstring \<Rightarrow> bool) \<Rightarrow> bool \<Rightarrow> blocklists_page \<Rightarrow> blocklist_source list \<Rightarrow> blocklists_msg node" where
  [view_defs]: "blocklists_table t fm date due ro s bs =
     El T_section [Cls ''panel'']
       [El T_div [Cls ''table-wrap'']
          [El T_table [Cls ''records-table'']
             [El T_caption [Cls ''sr-only''] [Txt (t ''blocklists.caption'')],
              El T_thead [] [El T_tr []
                [El T_th [] [Txt (t ''blocklists.name'')], El T_th [] [Txt (t ''blocklists.col_source'')],
                 El T_th [Cls ''num''] [Txt (t ''blocklists.col_domains'')], El T_th [] [Txt (t ''blocklists.col_status'')],
                 El T_th [] [Txt (t ''blocklists.schedule'')], El T_th [] [Txt (t ''blocklists.col_last_update'')],
                 El T_th [] [Txt (t ''blocklists.col_next_update'')],
                 El T_th [] [El T_span [Cls ''sr-only''] [Txt (t ''zones.col_actions'')]]]],
              El T_tbody [] (map (blocklist_row t fm date due ro s) bs)]]]"

definition blocklists_view ::
  "(jstring \<Rightarrow> jstring) \<Rightarrow> formats \<Rightarrow> (jstring \<Rightarrow> jstring) \<Rightarrow> (jstring \<Rightarrow> bool) \<Rightarrow> bool \<Rightarrow> blocklists_page \<Rightarrow> blocklists_msg node list" where
  [view_defs]: "blocklists_view t fm date due ro s =
     [blocklists_toolbar t ro s]
     @ render_if (bl_error s \<noteq> []) [El T_div [Cls ''notice error'', A ''role'' ''alert''] [Txt (bl_error s)]]
     @ render_if (bl_adding s) [blocklist_add_form t s]
     @ (case bl_editing s of None \<Rightarrow> [] | Some n \<Rightarrow> [blocklist_edit_form t s n])
     @ (case bl_sources s of
          None \<Rightarrow> [El T_section [Cls ''panel''] [Loading [Txt (t ''blocklists.loading'')]]]
        | Some [] \<Rightarrow> [El T_section [Cls ''panel'']
            [EmptyState [Icon ''ShieldBan'' 22] (t ''blocklists.empty_title'') [Txt (t ''blocklists.empty_text'')] [] False]]
        | Some bs \<Rightarrow> [blocklists_table t fm date due ro s bs])"

section \<open>What a user can trigger\<close>

definition blocklists_guard :: "bool \<Rightarrow> blocklists_page \<Rightarrow> blocklists_msg \<Rightarrow> bool" where
  "blocklists_guard ro s m = (case m of
      BL_Reload \<Rightarrow> bl_busy s = None
    | BL_Add \<Rightarrow> \<not> ro
    | BL_SubmitAdd \<Rightarrow> bl_busy s = None \<and> bl_adding s
    | BL_SubmitContent n \<Rightarrow> bl_busy s = None \<and> bl_editing s = Some n
    | BL_Toggle b \<Rightarrow> bl_busy s = None \<and> \<not> ro
    | BL_ChangeSchedule n v \<Rightarrow> bl_busy s = None \<and> \<not> ro
    | BL_ConfirmDelete n \<Rightarrow> bl_busy s = None \<and> bl_confirmDelete s = Some n
    | BL_AskDelete n \<Rightarrow> \<not> ro
    | BL_Edit n \<Rightarrow> \<not> ro
    | BL_Refresh n \<Rightarrow> bl_busy s = None \<and> \<not> ro
    | _ \<Rightarrow> True)"

lemma schedule_options_ok [simp]: "list_all (node_ok P d) (schedule_options t)" "list_ex (can_submit d) (schedule_options t) = False"
  by (auto simp: schedule_options_def SCHEDULES_def dom_simps)

lemma blocklist_forms_ok:
  "bl_adding s \<Longrightarrow> node_ok (blocklists_guard ro s) False (blocklist_add_form t s)"
  "bl_editing s = Some n \<Longrightarrow> node_ok (blocklists_guard ro s) False (blocklist_edit_form t s n)"
  by (auto simp: blocklist_add_form_def blocklist_edit_form_def dom_simps blocklists_guard_def)

lemma blocklist_row_ok: "node_ok (blocklists_guard ro s) False (blocklist_row t fm date due ro s b)"
proof -
  have actions: "node_ok (blocklists_guard ro s) False (blocklist_actions t ro s b)"
    by (simp add: blocklist_actions_def Let_def dom_simps blocklists_guard_def)
  have state: "node_ok P d (blocklist_state t b)" for P d
    by (simp add: blocklist_state_def Badge_def dom_simps)
  have times: "list_all (node_ok P d) (blocklist_times t date due b)" for P d
    by (simp add: blocklist_times_def dom_simps)
  show ?thesis
    using actions state times by (simp add: blocklist_row_def Let_def Badge_def dom_simps blocklists_guard_def)
qed

lemma blocklists_view_ok: "nodes_ok (blocklists_guard ro s) (blocklists_view t fm date due ro s)"
proof -
  have toolbar: "node_ok (blocklists_guard ro s) False (blocklists_toolbar t ro s)"
    by (simp add: blocklists_toolbar_def dom_simps blocklists_guard_def)
  have table: "node_ok (blocklists_guard ro s) False (blocklists_table t fm date due ro s bs)" for bs
    using blocklist_row_ok by (simp add: blocklists_table_def dom_simps)
  show ?thesis
    using toolbar table blocklist_forms_ok
    by (auto simp: blocklists_view_def Loading_def EmptyState_def dom_simps split: option.split list.split)
qed

lemma blocklists_fired: "m \<in> fires (blocklists_view t fm date due ro s) \<Longrightarrow> blocklists_guard ro s m"
  by (rule nodes_okD [OF blocklists_view_ok])

section \<open>The page as a machine\<close>

inductive blocklists_env :: "(jstring \<Rightarrow> jstring) \<Rightarrow> blocklists_page \<Rightarrow> blocklists_page \<Rightarrow> bool" for t where
  language_changes: "blocklists_env t s (bl_effect s)"
| load_done: "i < length (bl_loads s) \<Longrightarrow> blocklists_env t s (bl_load_settled t i res s)"
| op_done: "i < length (bl_ops s) \<Longrightarrow> blocklists_env t s (bl_op_settled t i res s)"
| edit_done: "i < length (bl_edits s) \<Longrightarrow> blocklists_env t s (startEditing_settled t i res s)"

definition bl_awaits :: "bl_load list \<Rightarrow> nat" where
  "bl_awaits xs = length (filter bl_awaited xs)"

definition blocklists_inv :: "blocklists_page \<Rightarrow> bool" where
  "blocklists_inv s \<longleftrightarrow> length (bl_ops s) + bl_awaits (bl_loads s) = (if bl_busy s = None then 0 else 1)"

lemma bl_awaits_simps [simp]:
  "bl_awaits [] = 0" "bl_awaits [ld] = (if bl_awaited ld then 1 else 0)" "bl_awaits (xs @ [ld]) = bl_awaits xs + (if bl_awaited ld then 1 else 0)"
  "bl_awaits (map (\<lambda>ld. BlLoad (f ld) (bl_awaited ld)) xs) = bl_awaits xs"
  by (simp_all add: bl_awaits_def filter_map comp_def)

lemma bl_awaits_remove: "i < length xs \<Longrightarrow> bl_awaits xs = (if bl_awaited (xs ! i) then 1 else 0) + bl_awaits (remove_nth i xs)"
  by (subst id_take_nth_drop [of i xs]) (auto simp: remove_nth_def bl_awaits_def)

lemma bl_succeeded_frame [simp]:
  "bl_ops (bl_succeeded op s) = bl_ops s" "bl_loads (bl_succeeded op s) = bl_loads s" "bl_busy (bl_succeeded op s) = bl_busy s"
  by (cases op; simp)+

lemma bl_load_settled_frame:
  "bl_loads (bl_load_settled t i res s) = remove_nth i (bl_loads s)" "bl_ops (bl_load_settled t i res s) = bl_ops s"
  "bl_busy (bl_load_settled t i res s) = (if bl_awaited (bl_loads s ! i) then None else bl_busy s)"
  "bl_editing (bl_load_settled t i res s) = bl_editing s" "bl_adding (bl_load_settled t i res s) = bl_adding s"
  "bl_confirmDelete (bl_load_settled t i res s) = bl_confirmDelete s" "bl_edits (bl_load_settled t i res s) = bl_edits s"
  by (auto simp: bl_load_settled_def Let_def split: sum.split)

lemma blocklists_inv_load: "blocklists_inv s \<Longrightarrow> i < length (bl_loads s) \<Longrightarrow> blocklists_inv (bl_load_settled t i res s)"
  using bl_awaits_remove [of i "bl_loads s"] by (auto simp: blocklists_inv_def bl_load_settled_frame split: if_splits)

lemma blocklists_inv_op:
  assumes "blocklists_inv s" "i < length (bl_ops s)"
  shows "blocklists_inv (bl_op_settled t i res s)"
proof -
  have "length (bl_ops s) = 1" "bl_busy s \<noteq> None" "bl_awaits (bl_loads s) = 0"
    using assms by (auto simp: blocklists_inv_def split: if_splits)
  moreover have "length (remove_nth i (bl_ops s)) = length (bl_ops s) - 1" using assms(2) by (rule length_remove_nth)
  ultimately show ?thesis
    by (cases res) (auto simp: blocklists_inv_def bl_op_settled_def bl_load_start_def Let_def)
qed

lemma blocklists_inv_edit: "blocklists_inv s \<Longrightarrow> blocklists_inv (startEditing_settled t i res s)"
  by (cases res) (simp_all add: blocklists_inv_def startEditing_settled_def Let_def)

lemma blocklists_inv_effect: "blocklists_inv s \<Longrightarrow> blocklists_inv (bl_effect s)"
  by (simp add: blocklists_inv_def bl_effect_def)

lemma blocklists_env_inv: "blocklists_inv s \<Longrightarrow> blocklists_env t s s' \<Longrightarrow> blocklists_inv s'"
  by (erule blocklists_env.cases; hypsubst;
      simp add: blocklists_inv_effect blocklists_inv_load blocklists_inv_op blocklists_inv_edit)

lemmas bl_handler_defs = bl_add_def toggleEnabled_def changeSchedule_def bl_refresh_def deleteSource_def saveContent_def
  startEditing_def bl_start_def bl_load_start_def

lemma blocklists_update_inv: "blocklists_guard ro s m \<Longrightarrow> blocklists_inv s \<Longrightarrow> blocklists_inv (blocklists_update m s)"
  by (cases m) (auto simp: blocklists_guard_def blocklists_inv_def bl_handler_defs split: option.split)

lemma blocklists_update_change: "one_change (bl_ops s) (bl_ops (blocklists_update m s))"
  by (cases m) (auto simp: bl_handler_defs split: option.split)

lemma blocklists_env_change: "blocklists_env t s s' \<Longrightarrow> one_change (bl_ops s) (bl_ops s')"
proof (erule blocklists_env.cases; hypsubst)
  fix i res assume "i < length (bl_ops s)"
  then show "one_change (bl_ops s) (bl_ops (bl_op_settled t i res s))"
    by (cases res; cases "bl_ops s ! i") (auto simp: bl_op_settled_def bl_load_start_def Let_def)
qed (auto simp: bl_effect_def bl_load_settled_def startEditing_settled_def Let_def split: sum.split)

interpretation blocklists: locked_page
  "\<lambda>s. s = blocklists_mount" "blocklists_view t fm date due ro" blocklists_update "blocklists_env t" blocklists_inv bl_ops
  for t fm date due ro
proof unfold_locales
  show "blocklists_inv s" if "s = blocklists_mount" for s
    using that by (simp add: blocklists_mount_def blocklists_inv_def bl_effect_def)
  show "length (bl_ops s) \<le> 1" if "blocklists_inv s" for s
    using that by (auto simp: blocklists_inv_def split: if_splits)
qed (blast intro: blocklists_update_inv blocklists_env_inv blocklists_fired blocklists_update_change blocklists_env_change)+

text \<open>The only state a viewer can see: no change, no form and no question.\<close>

definition blocklists_idle :: "blocklists_page \<Rightarrow> bool" where
  "blocklists_idle s \<longleftrightarrow> bl_ops s = [] \<and> \<not> bl_adding s \<and> bl_editing s = None \<and> bl_confirmDelete s = None \<and> bl_edits s = []"

lemma blocklists_update_idle: "blocklists_idle s \<Longrightarrow> blocklists_guard True s m \<Longrightarrow> blocklists_idle (blocklists_update m s)"
  by (cases m) (simp_all add: blocklists_guard_def blocklists_idle_def bl_handler_defs split: option.split)

lemma blocklists_idle_steps:
  "blocklists_idle (bl_effect s) = blocklists_idle s" "blocklists_idle (bl_load_settled t i res s) = blocklists_idle s"
  by (simp_all add: blocklists_idle_def bl_effect_def bl_load_settled_frame)

lemma blocklists_idle_none: "blocklists_idle s \<Longrightarrow> \<not> i < length (bl_ops s)" "blocklists_idle s \<Longrightarrow> \<not> i < length (bl_edits s)"
  by (simp_all add: blocklists_idle_def)

lemma blocklists_env_idle: "blocklists_idle s \<Longrightarrow> blocklists_env t s s' \<Longrightarrow> blocklists_idle s'"
  by (erule blocklists_env.cases; hypsubst; simp add: blocklists_idle_steps blocklists_idle_none)

interpretation blocklists_ro: read_only_page
  "\<lambda>s. s = blocklists_mount" "blocklists_view t fm date due True" blocklists_update "blocklists_env t" blocklists_idle bl_ops
  for t fm date due
proof unfold_locales
  show "blocklists_idle s" if "s = blocklists_mount" for s
    using that by (simp add: blocklists_mount_def blocklists_idle_def bl_effect_def)
  show "blocklists_idle (blocklists_update m s)"
    if "blocklists_idle s" "m \<in> fires (blocklists_view t fm date due True s)" for s m
    using that(1) blocklists_fired [OF that(2)] by (rule blocklists_update_idle)
  show "blocklists_idle s'" if "blocklists_idle s" "blocklists_env t s s'" for s s'
    using that by (rule blocklists_env_idle)
  show "bl_ops s = []" if "blocklists_idle s" for s
    using that by (simp add: blocklists_idle_def)
qed

end
