(* ===== verification/Cache_Page.thy ===== *)
theory Cache_Page
  imports Api_Admin Components Snapshot
begin

text \<open>
  \<open>pages/CachePage.tsx\<close>: the entries of the cache with a debounced search and pages of 100, clearing
  the cache and dropping single names. The snapshot that the frame polls is a prop and part of the state
  here, since a new one (its \<open>checked\<close> is a new date) runs the load effect again.
\<close>

definition RECORD_TYPES_CACHE :: "jstring list" where
  "RECORD_TYPES_CACHE = [''A'', ''AAAA'', ''CNAME'', ''MX'', ''NS'', ''PTR'', ''SOA'', ''TXT'']"

definition PAGE_SIZE :: int where
  "PAGE_SIZE = 100"

text \<open>A change in flight; the one that \<open>submitDomain\<close> awaits clears the field when it succeeds.\<close>

datatype cache_op =
    FlushOp
  | InvalidateOp jstring jstring bool bool

fun cache_op_call :: "cache_op \<Rightarrow> call" where
  "cache_op_call FlushOp = send_call ''/api/v1/cache'' ''DELETE'' None"
| "cache_op_call (InvalidateOp name type subdomains submitted) = send_call ''/api/v1/cache/invalidate'' ''POST''
     (Some (JObj [(''name'', JStr name), (''type'', JStr type), (''include_subdomains'', JBool subdomains)]))"

datatype cache_message = CM_success jstring | CM_error jstring

record cache_page =
  cp_data :: snapshot
  cp_busy :: bool
  cp_message :: "cache_message option"
  cp_offset :: int
  cp_revision :: nat
  cp_entryPage :: "cache_entry_page option"
  cp_entryError :: jstring
  cp_search :: jstring
  cp_typeFilter :: jstring
  cp_filter :: "jstring \<times> jstring"
  cp_domain :: jstring
  cp_includeSubdomains :: bool
  cp_timer :: bool
  cp_loads :: "(jstring \<times> bool) list"
  cp_ops :: "cache_op list"
  cp_refreshes :: nat

definition entries_path :: "int \<Rightarrow> jstring \<times> jstring \<Rightarrow> jstring" where
  "entries_path offset f = ''/api/v1/cache/entries?'' @ url_search_params
     ([(''limit'', show_int PAGE_SIZE), (''offset'', show_int offset)]
      @ (if fst f \<noteq> [] then [(''domain'', fst f)] else [])
      @ (if snd f \<noteq> [] then [(''type'', snd f)] else []))"

text \<open>
  The load effect runs after every change of the offset, the revision, the filter object, the snapshot
  or the language: it aborts the previous request and asks for the current page.
\<close>

definition cache_effect :: "cache_page \<Rightarrow> cache_page" where
  "cache_effect s = s\<lparr>cp_loads := abort_requests (cp_loads s) @ [(entries_path (cp_offset s) (cp_filter s), False)]\<rparr>"

definition cache_mount :: "snapshot \<Rightarrow> cache_page" where
  "cache_mount d = cache_effect \<lparr>cp_data = d, cp_busy = False, cp_message = None, cp_offset = 0, cp_revision = 0,
     cp_entryPage = None, cp_entryError = [], cp_search = [], cp_typeFilter = [], cp_filter = ([], []), cp_domain = [],
     cp_includeSubdomains = True, cp_timer = True, cp_loads = [], cp_ops = [], cp_refreshes = 0\<rparr>"

definition cache_snapshot :: "snapshot \<Rightarrow> cache_page \<Rightarrow> cache_page" where
  "cache_snapshot d s = cache_effect (s\<lparr>cp_data := d\<rparr>)"

text \<open>The debounce timer: restarted when the search text or the type changes.\<close>

definition set_search :: "jstring \<Rightarrow> cache_page \<Rightarrow> cache_page" where
  "set_search v s = s\<lparr>cp_search := v, cp_timer := (cp_timer s \<or> v \<noteq> cp_search s)\<rparr>"

definition set_typeFilter :: "jstring \<Rightarrow> cache_page \<Rightarrow> cache_page" where
  "set_typeFilter v s = s\<lparr>cp_typeFilter := v, cp_timer := (cp_timer s \<or> v \<noteq> cp_typeFilter s)\<rparr>"

definition cache_timer :: "cache_page \<Rightarrow> cache_page" where
  "cache_timer s = (if cp_timer s then
     cache_effect (s\<lparr>cp_timer := False, cp_offset := 0, cp_filter := (js_trim (cp_search s), cp_typeFilter s)\<rparr>) else s)"

definition cache_load_settled :: "(jstring \<Rightarrow> jstring) \<Rightarrow> nat \<Rightarrow> cache_entry_page result \<Rightarrow> cache_page \<Rightarrow> cache_page" where
  "cache_load_settled t i res s =
     (let aborted = snd (cp_loads s ! i); s0 = s\<lparr>cp_loads := remove_nth i (cp_loads s)\<rparr> in
      if aborted then s0
      else case res of
        Inr p \<Rightarrow> s0\<lparr>cp_entryPage := Some p, cp_entryError := []\<rparr>
      | Inl e \<Rightarrow> s0\<lparr>cp_entryError := error_text e (t ''cache.entries_load_failed'')\<rparr>)"

section \<open>Changes\<close>

definition afterChange :: "cache_page \<Rightarrow> cache_page" where
  "afterChange s = cache_effect (s\<lparr>cp_revision := cp_revision s + 1, cp_refreshes := cp_refreshes s + 1\<rparr>)"

definition cache_start :: "cache_op \<Rightarrow> cache_page \<Rightarrow> cache_page" where
  "cache_start op s = s\<lparr>cp_busy := True, cp_message := None, cp_ops := cp_ops s @ [op]\<rparr>"

definition submitDomain :: "cache_page \<Rightarrow> cache_page" where
  "submitDomain s = cache_start (InvalidateOp (js_trim (cp_domain s)) [] (cp_includeSubdomains s) True) s"

text \<open>The answer carries the number of removed entries; the answer to a flush carries nothing of use.\<close>

fun cache_succeeded :: "(jstring \<Rightarrow> jstring) \<Rightarrow> cache_op \<Rightarrow> int \<Rightarrow> cache_page \<Rightarrow> cache_page" where
  "cache_succeeded t FlushOp n s =
     (afterChange (s\<lparr>cp_message := Some (CM_success (t ''cache.cleared'')), cp_offset := 0\<rparr>))\<lparr>cp_busy := False\<rparr>"
| "cache_succeeded t (InvalidateOp name type subdomains submitted) n s =
     (let s1 = (afterChange (s\<lparr>cp_message := Some (CM_success (t ''cache.removed_entries'' @ '': '' @ show_int n))\<rparr>))\<lparr>cp_busy := False\<rparr>
      in if submitted then s1\<lparr>cp_domain := []\<rparr> else s1)"

fun cache_failure_key :: "cache_op \<Rightarrow> jstring" where
  "cache_failure_key FlushOp = ''cache.flush_failed''"
| "cache_failure_key (InvalidateOp name type subdomains submitted) = ''cache.invalidate_failed''"

definition cache_op_settled :: "(jstring \<Rightarrow> jstring) \<Rightarrow> nat \<Rightarrow> int result \<Rightarrow> cache_page \<Rightarrow> cache_page" where
  "cache_op_settled t i res s =
     (let op = cp_ops s ! i; s0 = s\<lparr>cp_ops := remove_nth i (cp_ops s)\<rparr> in case res of
        Inr n \<Rightarrow> cache_succeeded t op n s0
      | Inl e \<Rightarrow> s0\<lparr>cp_message := Some (CM_error (error_text e (t (cache_failure_key op)))), cp_busy := False\<rparr>)"

datatype cache_msg =
    CP_Flush
  | CP_Submit
  | CP_Domain jstring
  | CP_Subdomains bool
  | CP_Search jstring
  | CP_Type jstring
  | CP_Remove cache_entry
  | CP_Previous
  | CP_Next

fun cache_update :: "cache_msg \<Rightarrow> cache_page \<Rightarrow> cache_page" where
  "cache_update CP_Flush s = cache_start FlushOp s"
| "cache_update CP_Submit s = submitDomain s"
| "cache_update (CP_Domain v) s = s\<lparr>cp_domain := v\<rparr>"
| "cache_update (CP_Subdomains b) s = s\<lparr>cp_includeSubdomains := b\<rparr>"
| "cache_update (CP_Search v) s = set_search v s"
| "cache_update (CP_Type v) s = set_typeFilter v s"
| "cache_update (CP_Remove e) s = cache_start (InvalidateOp (ce_name e) (ce_type e) False False) s"
| "cache_update CP_Previous s = cache_effect (s\<lparr>cp_offset := max 0 (cp_offset s - PAGE_SIZE)\<rparr>)"
| "cache_update CP_Next s = cache_effect (s\<lparr>cp_offset := cp_offset s + PAGE_SIZE\<rparr>)"

section \<open>Rendering\<close>

text \<open>\<open>pct\<close> prints the width of the capacity bar.\<close>

definition cache_stats :: "(jstring \<Rightarrow> jstring) \<Rightarrow> formats \<Rightarrow> (rat \<Rightarrow> jstring) \<Rightarrow> cache_info \<Rightarrow> cache_msg node" where
  [view_defs]: "cache_stats t fm pct c =
     El T_div [Cls ''stats'']
       [Stat pct (t ''cache.live_entries'') (fm_number fm (ca_entries c))
          (Some (t ''cache.capacity'' @ '': '' @ fm_number fm (ca_capacity c))) None
          (Some (fl (of_int (ca_entries c) / of_int (max 1 (ca_capacity c))))) Stat_info,
        Stat pct (t ''cache.hits'') (fm_number fm (ca_hits c)) (Some (t ''cache.since_startup'')) None None Stat_success,
        Stat pct (t ''cache.misses'') (fm_number fm (ca_misses c)) (Some (t ''cache.includes_uncacheable'')) None None Stat_warning]"

definition cache_notice :: "cache_message \<Rightarrow> cache_msg node" where
  [view_defs]: "cache_notice m = (case m of
      CM_success x \<Rightarrow> El T_div [Cls ''notice success'', A ''role'' ''status''] [Txt x]
    | CM_error x \<Rightarrow> El T_div [Cls ''notice error'', A ''role'' ''alert''] [Txt x])"

definition flush_panel :: "(jstring \<Rightarrow> jstring) \<Rightarrow> bool \<Rightarrow> cache_page \<Rightarrow> cache_msg node" where
  [view_defs]: "flush_panel t ro s =
     El T_section [Cls ''panel'']
       [El T_div [Cls ''panel-heading'']
          [El T_div [] [El T_h2 [] [Txt (t ''cache.memory_cache'')], El T_p [] [Txt (t ''cache.description'')]]],
        El T_div [Cls ''panel-body stack-sm'']
          [El T_p [Cls ''field-hint''] [Txt (t ''cache.clear_description'')],
           El T_div []
             [El T_button [Cls ''button outline-danger'', Disabled (cp_busy s \<or> ro), OnConfirm (t ''cache.flush_confirm'') CP_Flush]
                [Icon ''Eraser'' 15, Txt (if cp_busy s then t ''cache.clearing'' else t ''cache.clear'')]]]]"

definition invalidate_panel :: "(jstring \<Rightarrow> jstring) \<Rightarrow> bool \<Rightarrow> cache_page \<Rightarrow> cache_msg node" where
  [view_defs]: "invalidate_panel t ro s =
     El T_section [Cls ''panel'']
       [El T_div [Cls ''panel-heading'']
          [El T_div [] [El T_h2 [] [Txt (t ''cache.invalidate_title'')], El T_p [] [Txt (t ''cache.invalidate_text'')]]],
        El T_form [Cls ''panel-body stack-sm'', OnSubmit CP_Submit]
          [El T_fieldset [Disabled (cp_busy s \<or> ro), Cls ''stack-sm'']
             [El T_label [Cls ''field'']
                [Txt (t ''cache.domain''),
                 El T_input [A ''value'' (cp_domain s), OnChange CP_Domain, A ''placeholder'' (t ''cache.search_placeholder''),
                   AN ''maxLength'' 253, A ''autoComplete'' ''off'', Flag ''required''] []],
              El T_label [Cls ''check-field'']
                [El T_input [A ''type'' ''checkbox'', AB ''checked'' (cp_includeSubdomains s), OnCheck CP_Subdomains] [],
                 Txt (t ''cache.include_subdomains'')],
              El T_div [] [El T_button [Cls ''button'', A ''type'' ''submit''] [Txt (t ''cache.invalidate'')]]]]]"

definition cache_filters :: "(jstring \<Rightarrow> jstring) \<Rightarrow> cache_page \<Rightarrow> cache_msg node" where
  [view_defs]: "cache_filters t s =
     El T_div [Cls ''zone-form'', A ''role'' ''search'']
       [El T_div [Cls ''form-grid cache-filters'']
          [El T_label []
             [Txt (t ''cache.search_label''),
              El T_input [A ''type'' ''search'', A ''value'' (cp_search s), OnChange CP_Search,
                A ''placeholder'' (t ''cache.search_placeholder''), AN ''maxLength'' 253, A ''autoComplete'' ''off''] []],
           El T_label []
             [Txt (t ''cache.entry_type''),
              El T_select [A ''value'' (cp_typeFilter s), OnChange CP_Type]
                (El T_option [A ''value'' ''''] [Txt (t ''cache.all_types'')]
                 # map (\<lambda>x. El T_option [A ''key'' x] [Txt x]) RECORD_TYPES_CACHE)]]]"

definition cache_row :: "(jstring \<Rightarrow> jstring) \<Rightarrow> bool \<Rightarrow> cache_page \<Rightarrow> nat \<times> cache_entry \<Rightarrow> cache_msg node" where
  [view_defs]: "cache_row t ro s x = (case x of (index, e) \<Rightarrow>
     El T_tr [A ''key'' (ce_name e @ ''-'' @ ce_type e @ ''-'' @ show_nat index)]
       [El T_td [] [El T_code [] [Txt (ce_name e)]],
        El T_td [] [El T_span [Cls ''record-type''] [Txt (ce_type e)]],
        El T_td [Cls ''mono cell-muted''] [Txt (show_int (ce_remaining_ttl e)), Txt '' '', Txt (t ''cache.seconds'')],
        El T_td [] [El T_span [Cls (if ce_rcode e = ''NOERROR'' then ''cell-muted'' else ''danger'')] [Txt (ce_rcode e)]],
        El T_td [Cls ''cache-answer'']
          (if ce_answers e \<noteq> [] then map (\<lambda>(i, a). El T_code [A ''key'' (show_nat i)] [Txt a]) (List.enumerate 0 (ce_answers e))
           else [El T_span [Cls ''cell-muted''] [Txt emdash]]),
        El T_td []
          [El T_div [Cls ''table-actions'']
             [El T_button [Cls ''icon-button danger-icon'', Disabled (cp_busy s \<or> ro), OnClick (CP_Remove e),
                A ''aria-label'' (t ''cache.remove_entry'' @ '': '' @ ce_name e @ '' '' @ ce_type e),
                A ''title'' (t ''cache.remove_entry'')] [Icon ''Trash2'' 15]]]])"

definition range_label :: "int \<Rightarrow> int \<Rightarrow> jstring" where
  "range_label offset amount = show_int (offset + 1) @ endash @ show_int (min (offset + PAGE_SIZE) amount) @ '' / '' @ show_int amount"

definition cache_pagination :: "(jstring \<Rightarrow> jstring) \<Rightarrow> cache_page \<Rightarrow> int \<Rightarrow> cache_msg node" where
  [view_defs]: "cache_pagination t s amount =
     El T_div [Cls ''cache-pagination'']
       [El T_span [] [Txt (range_label (cp_offset s) amount)],
        El T_div [Cls ''form-actions'']
          [El T_button [Cls ''button small'', Disabled (cp_offset s = 0), OnClick CP_Previous] [Txt (t ''cache.previous'')],
           El T_button [Cls ''button small'', Disabled (cp_offset s + PAGE_SIZE \<ge> amount), OnClick CP_Next] [Txt (t ''cache.next'')]]]"

definition cache_table :: "(jstring \<Rightarrow> jstring) \<Rightarrow> bool \<Rightarrow> cache_page \<Rightarrow> cache_entry_page \<Rightarrow> cache_msg node list" where
  [view_defs]: "cache_table t ro s p =
     [El T_p [Cls ''cache-scroll-hint''] [Txt (t ''cache.entries_scroll_hint'')],
      El T_div [Cls ''table-wrap'']
        [El T_table [Cls ''cache-entries-table'']
           [El T_caption [Cls ''sr-only''] [Txt (t ''cache.entries_title'')],
            El T_thead [] [El T_tr []
              [El T_th [] [Txt (t ''cache.entry_name'')], El T_th [] [Txt (t ''cache.entry_type'')],
               El T_th [] [Txt (t ''cache.entry_ttl'')], El T_th [] [Txt (t ''cache.entry_status'')],
               El T_th [] [Txt (t ''cache.entry_answer'')],
               El T_th [] [El T_span [Cls ''sr-only''] [Txt (t ''zones.col_actions'')]]]],
            El T_tbody [] (map (cache_row t ro s) (List.enumerate 0 (cep_entries p)))]],
      cache_pagination t s (cep_total p)]"

definition cache_entries_panel :: "(jstring \<Rightarrow> jstring) \<Rightarrow> formats \<Rightarrow> bool \<Rightarrow> cache_page \<Rightarrow> cache_msg node" where
  [view_defs]: "cache_entries_panel t fm ro s =
     (let filtering = fst (cp_filter s) \<noteq> [] \<or> snd (cp_filter s) \<noteq> [] in
      El T_section [Cls ''panel'']
       ([El T_div [Cls ''panel-heading'']
           [El T_div [] [El T_h2 [] [Txt (t ''cache.entries_title'')], El T_p [] [Txt (t ''cache.entries_description'')]],
            El T_span [Cls ''subtle-badge'']
              [Txt (fm_number fm (nullish (map_option cep_total (cp_entryPage s)) (ca_entries (sn_cache (cp_data s)))))]],
         cache_filters t s]
        @ render_if (cp_entryError s \<noteq> []) [El T_p [Cls ''notice error'', A ''role'' ''alert''] [Txt (cp_entryError s)]]
        @ render_if (cp_entryPage s = None \<and> cp_entryError s = []) [Loading [Txt (t ''cache.entries_loading'')]]
        @ (case cp_entryPage s of None \<Rightarrow> [] | Some p \<Rightarrow>
             render_if (cep_total p = 0)
               [EmptyState (if filtering then [] else [Icon ''Database'' 22])
                  (if filtering then t ''cache.no_matches'' else t ''cache.entries_empty'') [] [] True]
             @ render_if (cep_total p > 0) (cache_table t ro s p))))"

definition cache_view :: "(jstring \<Rightarrow> jstring) \<Rightarrow> formats \<Rightarrow> (rat \<Rightarrow> jstring) \<Rightarrow> bool \<Rightarrow> cache_page \<Rightarrow> cache_msg node list" where
  [view_defs]: "cache_view t fm pct ro s =
     [El T_div [Cls ''stack'']
        ([cache_stats t fm pct (sn_cache (cp_data s))]
         @ (case cp_message s of None \<Rightarrow> [] | Some m \<Rightarrow> [cache_notice m])
         @ [El T_div [Cls ''grid-2''] [flush_panel t ro s, invalidate_panel t ro s],
            cache_entries_panel t fm ro s])]"

section \<open>What the page lets a user trigger\<close>

definition cache_guard :: "bool \<Rightarrow> cache_page \<Rightarrow> cache_msg \<Rightarrow> bool" where
  "cache_guard ro s m = (case m of
      CP_Flush \<Rightarrow> \<not> cp_busy s \<and> \<not> ro
    | CP_Submit \<Rightarrow> \<not> cp_busy s \<and> \<not> ro
    | CP_Remove e \<Rightarrow> \<not> cp_busy s \<and> \<not> ro
    | CP_Previous \<Rightarrow> cp_offset s \<noteq> 0
    | CP_Next \<Rightarrow> (\<exists>p. cp_entryPage s = Some p \<and> cp_offset s + PAGE_SIZE < cep_total p)
    | _ \<Rightarrow> True)"

lemma cache_row_ok: "node_ok (cache_guard ro s) False (cache_row t ro s x)"
  by (cases x) (auto simp: cache_row_def cache_guard_def dom_simps)

lemma cache_table_ok: "cp_entryPage s = Some p \<Longrightarrow> nodes_ok (cache_guard ro s) (cache_table t ro s p)"
  using cache_row_ok by (auto simp: cache_table_def cache_pagination_def cache_guard_def dom_simps)

lemma cache_panel_ok: "node_ok (cache_guard ro s) False (cache_entries_panel t fm ro s)"
  using cache_table_ok
  by (auto simp: cache_entries_panel_def cache_filters_def Loading_def EmptyState_def cache_guard_def dom_simps Let_def
      split: option.split)

lemma cache_view_ok: "nodes_ok (cache_guard ro s) (cache_view t fm pct ro s)"
  using cache_panel_ok
  by (auto simp: cache_view_def cache_stats_def Stat_def cache_notice_def flush_panel_def invalidate_panel_def cache_guard_def
      dom_simps split: option.split cache_message.split)

lemmas cache_fired = nodes_okD [OF cache_view_ok]

section \<open>The page as a machine\<close>

inductive cache_env :: "(jstring \<Rightarrow> jstring) \<Rightarrow> cache_page \<Rightarrow> cache_page \<Rightarrow> bool" for t where
  snapshot_polled: "cache_env t s (cache_snapshot d s)"
| timer_fires: "cache_env t s (cache_timer s)"
| language_changes: "cache_env t s (cache_effect s)"
| load_done: "i < length (cp_loads s) \<Longrightarrow> cache_env t s (cache_load_settled t i res s)"
| op_done: "i < length (cp_ops s) \<Longrightarrow> cache_env t s (cache_op_settled t i res s)"

text \<open>
  The only request that is not aborted asks for the current page of the current filter, the filter is
  the one typed in unless the debounce timer is running, the offset is that of a page, and a change is
  in flight exactly while the page is busy.
\<close>

definition cache_inv :: "cache_page \<Rightarrow> bool" where
  "cache_inv s \<longleftrightarrow> latest_ok (entries_path (cp_offset s) (cp_filter s)) (cp_loads s) \<and>
     (cp_timer s \<or> cp_filter s = (js_trim (cp_search s), cp_typeFilter s)) \<and>
     cp_offset s \<ge> 0 \<and> PAGE_SIZE dvd cp_offset s \<and> length (cp_ops s) = (if cp_busy s then 1 else 0)"

lemma cache_inv_effect:
  "cache_inv (cache_effect s) \<longleftrightarrow> (cp_timer s \<or> cp_filter s = (js_trim (cp_search s), cp_typeFilter s)) \<and>
     cp_offset s \<ge> 0 \<and> PAGE_SIZE dvd cp_offset s \<and> length (cp_ops s) = (if cp_busy s then 1 else 0)"
  by (simp add: cache_inv_def cache_effect_def)

lemma cache_load_settled_frame:
  "cp_loads (cache_load_settled t i res s) = remove_nth i (cp_loads s)" "cp_ops (cache_load_settled t i res s) = cp_ops s"
  "cp_offset (cache_load_settled t i res s) = cp_offset s" "cp_filter (cache_load_settled t i res s) = cp_filter s"
  "cp_timer (cache_load_settled t i res s) = cp_timer s" "cp_search (cache_load_settled t i res s) = cp_search s"
  "cp_typeFilter (cache_load_settled t i res s) = cp_typeFilter s" "cp_busy (cache_load_settled t i res s) = cp_busy s"
  by (auto simp: cache_load_settled_def Let_def split: sum.split)

lemma cache_inv_load: "cache_inv s \<Longrightarrow> cache_inv (cache_load_settled t i res s)"
  by (simp add: cache_inv_def cache_load_settled_frame latest_ok_remove)

lemma cache_inv_op: "cache_inv s \<Longrightarrow> i < length (cp_ops s) \<Longrightarrow> cache_inv (cache_op_settled t i res s)"
  using length_remove_nth [of i "cp_ops s"]
  by (cases res; cases "cp_ops s ! i")
    (auto simp: cache_op_settled_def afterChange_def cache_effect_def cache_inv_def Let_def split: if_splits)

lemma cache_env_inv: "cache_inv s \<Longrightarrow> cache_env t s s' \<Longrightarrow> cache_inv s'"
  by (erule cache_env.cases; hypsubst)
    (auto simp: cache_snapshot_def cache_timer_def cache_inv_effect cache_inv_load cache_inv_op, auto simp: cache_inv_def)

lemma cache_update_inv: "cache_inv s \<Longrightarrow> cache_guard ro s m \<Longrightarrow> cache_inv (cache_update m s)"
proof (cases m)
  case CP_Previous
  assume "cache_inv s" "cache_guard ro s m"
  then obtain k where "cp_offset s = PAGE_SIZE * k" by (auto simp: cache_inv_def)
  then have "max 0 (cp_offset s - PAGE_SIZE) = PAGE_SIZE * max 0 (k - 1)" by (simp add: PAGE_SIZE_def max_def)
  moreover have "0 \<le> PAGE_SIZE * max 0 (k - 1)" by (simp add: PAGE_SIZE_def)
  ultimately show ?thesis using CP_Previous \<open>cache_inv s\<close> by (simp add: cache_inv_effect) (auto simp: cache_inv_def)
next
  case CP_Next
  assume "cache_inv s"
  then show ?thesis using CP_Next by (simp add: cache_inv_effect) (auto simp: cache_inv_def PAGE_SIZE_def)
qed (auto simp: cache_guard_def cache_inv_def cache_start_def submitDomain_def set_search_def set_typeFilter_def)

lemma cache_env_change: "cache_env t s s' \<Longrightarrow> one_change (cp_ops s) (cp_ops s')"
proof (erule cache_env.cases; hypsubst)
  fix i res assume "i < length (cp_ops s)"
  then show "one_change (cp_ops s) (cp_ops (cache_op_settled t i res s))"
    by (cases res; cases "cp_ops s ! i") (auto simp: cache_op_settled_def afterChange_def cache_effect_def Let_def)
qed (auto simp: cache_snapshot_def cache_timer_def cache_effect_def cache_load_settled_frame)

lemma cache_update_change: "one_change (cp_ops s) (cp_ops (cache_update m s))"
  by (cases m) (auto simp: cache_start_def submitDomain_def set_search_def set_typeFilter_def cache_effect_def)

interpretation cache: locked_page
  "\<lambda>s. \<exists>d. s = cache_mount d" "cache_view t fm pct ro" cache_update "cache_env t" cache_inv cp_ops for t fm pct ro
proof unfold_locales
  show "cache_inv s" if "\<exists>d. s = cache_mount d" for s
    using that by (auto simp: cache_mount_def cache_inv_effect)
  show "length (cp_ops s) \<le> 1" if "cache_inv s" for s
    using that by (auto simp: cache_inv_def)
qed (blast intro: cache_update_inv cache_env_inv cache_fired cache_update_change cache_env_change)+

interpretation cache_ro: read_only_page
  "\<lambda>s. \<exists>d. s = cache_mount d" "cache_view t fm pct True" cache_update "cache_env t" "\<lambda>s. cp_ops s = []" cp_ops for t fm pct
proof unfold_locales
  show "cp_ops s = []" if "\<exists>d. s = cache_mount d" for s
    using that by (auto simp: cache_mount_def cache_effect_def)
  show "cp_ops (cache_update m s) = []" if "cp_ops s = []" "m \<in> fires (cache_view t fm pct True s)" for s m
    using that(1) cache_fired [OF that(2)]
    by (cases m) (simp_all add: cache_guard_def cache_effect_def set_search_def set_typeFilter_def)
  show "cp_ops s' = []" if "cp_ops s = []" "cache_env t s s'" for s s'
    using that(2,1) by cases (auto simp: cache_snapshot_def cache_timer_def cache_effect_def cache_load_settled_frame)
qed

text \<open>An answer changes the page shown only when it answers the request for the current page.\<close>

lemma cache_shows_current:
  assumes "cache_inv s" "i < length (cp_loads s)"
    and "cp_entryPage (cache_load_settled t i res s) \<noteq> cp_entryPage s"
  shows "fst (cp_loads s ! i) = entries_path (cp_offset s) (cp_filter s)"
proof -
  have "\<not> snd (cp_loads s ! i)"
    using assms(3) by (auto simp: cache_load_settled_def Let_def split: if_splits)
  with assms(1,2) show ?thesis by (simp add: cache_inv_def latest_ok_nth)
qed

end
