(* ===== verification/DHCP_Page.thy ===== *)
theory DHCP_Page
  imports Api_Admin Components Snapshot
begin

text \<open>
  \<open>pages/DHCP.tsx\<close>: address pools, their reservations and the leases. Nothing is aborted here; the
  two effects keep an \<open>active\<close> flag each, and \<open>refresh\<close> carries the pool that was selected when the
  handler that called it was rendered. There is no busy flag.
\<close>

record new_pool =
  np_name :: jstring
  np_interface :: jstring
  np_subnet :: jstring
  np_gateway :: jstring
  np_dns_servers :: "jstring list"
  np_lease_seconds :: jsnum

definition blank_pool :: new_pool where
  "blank_pool = \<lparr>np_name = [], np_interface = ''eth0'', np_subnet = [], np_gateway = [], np_dns_servers = [''1.1.1.1''],
     np_lease_seconds = Fin 86400\<rparr>"

definition blank_reservation :: dhcp_reservation_input where
  "blank_reservation = \<lparr>dr_mac_address = [], dr_ip_address = [], dr_hostname = []\<rparr>"

text \<open>A selected pool as a condition: null and zero are falsy.\<close>

definition truthy_id :: "int option \<Rightarrow> bool" where
  "truthy_id sel \<longleftrightarrow> sel \<noteq> None \<and> sel \<noteq> Some 0"

text \<open>A change in flight, with the selected pool its handler has captured.\<close>

datatype dhcp_op =
    CreatePoolOp call "int option"
  | DeletePoolOp int "int option"
  | CreateReservationOp call "int option"
  | DeleteReservationOp int "int option"
  | DeleteLeaseOp int "int option"

fun dhcp_op_call :: "dhcp_op \<Rightarrow> call" where
  "dhcp_op_call (CreatePoolOp c sel) = c"
| "dhcp_op_call (DeletePoolOp n sel) = deletePool_call n"
| "dhcp_op_call (CreateReservationOp c sel) = c"
| "dhcp_op_call (DeleteReservationOp n sel) = deleteReservation_call n"
| "dhcp_op_call (DeleteLeaseOp n sel) = deleteLease_call n"

text \<open>A running \<open>refresh\<close>: waiting for pools and leases, then for the reservations of the pool.\<close>

datatype dhcp_refresh = RefreshLists "int option" | RefreshReservations int

record dhcp_page =
  dh_pools :: "dhcp_pool list"
  dh_leases :: "dhcp_lease list"
  dh_reservations :: "dhcp_reservation list"
  dh_selectedPool :: "int option"
  dh_loading :: bool
  dh_error :: jstring
  dh_showCreatePool :: bool
  dh_newPool :: new_pool
  dh_newReservation :: dhcp_reservation_input
  dh_listLoads :: "bool list"
  dh_reservationLoads :: "(int \<times> bool) list"
  dh_refreshes :: "dhcp_refresh list"
  dh_ops :: "dhcp_op list"

definition lists_effect :: "dhcp_page \<Rightarrow> dhcp_page" where
  "lists_effect s = s\<lparr>dh_listLoads := map (\<lambda>_. True) (dh_listLoads s) @ [False]\<rparr>"

definition reservations_effect :: "dhcp_page \<Rightarrow> dhcp_page" where
  "reservations_effect s = s\<lparr>dh_reservationLoads := abort_requests (dh_reservationLoads s)
     @ (if truthy_id (dh_selectedPool s) then [(the (dh_selectedPool s), False)] else [])\<rparr>"

definition dhcp_mount :: dhcp_page where
  "dhcp_mount = reservations_effect (lists_effect \<lparr>dh_pools = [], dh_leases = [], dh_reservations = [], dh_selectedPool = None,
     dh_loading = True, dh_error = [], dh_showCreatePool = False, dh_newPool = blank_pool, dh_newReservation = blank_reservation,
     dh_listLoads = [], dh_reservationLoads = [], dh_refreshes = [], dh_ops = []\<rparr>)"

definition dhcp_language :: "dhcp_page \<Rightarrow> dhcp_page" where
  "dhcp_language s = reservations_effect (lists_effect s)"

definition setSelectedPool :: "int option \<Rightarrow> dhcp_page \<Rightarrow> dhcp_page" where
  "setSelectedPool v s = (if v = dh_selectedPool s then s else reservations_effect (s\<lparr>dh_selectedPool := v\<rparr>))"

definition lists_settled :: "(jstring \<Rightarrow> jstring) \<Rightarrow> nat \<Rightarrow> (dhcp_pool list \<times> dhcp_lease list) result \<Rightarrow> dhcp_page \<Rightarrow> dhcp_page" where
  "lists_settled t i res s =
     (let inactive = dh_listLoads s ! i; s0 = s\<lparr>dh_listLoads := remove_nth i (dh_listLoads s)\<rparr> in
      if inactive then s0
      else case res of
        Inr (p, l) \<Rightarrow> s0\<lparr>dh_pools := p, dh_leases := l, dh_error := [], dh_loading := False\<rparr>
      | Inl e \<Rightarrow> s0\<lparr>dh_error := error_text e (t ''dhcp.load_failed''), dh_loading := False\<rparr>)"

definition reservations_settled :: "(jstring \<Rightarrow> jstring) \<Rightarrow> nat \<Rightarrow> dhcp_reservation list result \<Rightarrow> dhcp_page \<Rightarrow> dhcp_page" where
  "reservations_settled t i res s =
     (let inactive = snd (dh_reservationLoads s ! i);
          s0 = s\<lparr>dh_reservationLoads := remove_nth i (dh_reservationLoads s)\<rparr> in
      if inactive then s0
      else case res of
        Inr r \<Rightarrow> s0\<lparr>dh_reservations := r\<rparr>
      | Inl e \<Rightarrow> s0\<lparr>dh_error := error_text e (t ''dhcp.load_failed'')\<rparr>)"

section \<open>Refreshing\<close>

definition dhcp_refresh_start :: "int option \<Rightarrow> dhcp_page \<Rightarrow> dhcp_page" where
  "dhcp_refresh_start sel s = s\<lparr>dh_refreshes := dh_refreshes s @ [RefreshLists sel]\<rparr>"

definition refresh_failed :: "(jstring \<Rightarrow> jstring) \<Rightarrow> exn \<Rightarrow> dhcp_page \<Rightarrow> dhcp_page" where
  "refresh_failed t e s = s\<lparr>dh_error := error_text e (t ''dhcp.load_failed''), dh_loading := False\<rparr>"

text \<open>The answer to the phase a refresh is in: pools and leases, or reservations.\<close>

datatype refresh_answer =
    ListsAnswer "(dhcp_pool list \<times> dhcp_lease list) result"
  | ReservationsAnswer "dhcp_reservation list result"

fun refresh_step :: "(jstring \<Rightarrow> jstring) \<Rightarrow> dhcp_refresh \<Rightarrow> refresh_answer \<Rightarrow> dhcp_page \<Rightarrow> dhcp_page" where
  "refresh_step t (RefreshLists sel) (ListsAnswer (Inl e)) s = refresh_failed t e s"
| "refresh_step t (RefreshLists sel) (ListsAnswer (Inr (p, l))) s =
     (let s1 = s\<lparr>dh_pools := p, dh_leases := l\<rparr> in
      if truthy_id sel then s1\<lparr>dh_refreshes := dh_refreshes s1 @ [RefreshReservations (the sel)]\<rparr>
      else s1\<lparr>dh_error := [], dh_loading := False\<rparr>)"
| "refresh_step t (RefreshReservations n) (ReservationsAnswer (Inl e)) s = refresh_failed t e s"
| "refresh_step t (RefreshReservations n) (ReservationsAnswer (Inr r)) s =
     s\<lparr>dh_reservations := r, dh_error := [], dh_loading := False\<rparr>"
| "refresh_step t _ _ s = s"

fun answers_phase :: "dhcp_refresh \<Rightarrow> refresh_answer \<Rightarrow> bool" where
  "answers_phase (RefreshLists sel) (ListsAnswer res) = True"
| "answers_phase (RefreshReservations n) (ReservationsAnswer res) = True"
| "answers_phase _ _ = False"

definition refresh_settled :: "(jstring \<Rightarrow> jstring) \<Rightarrow> nat \<Rightarrow> refresh_answer \<Rightarrow> dhcp_page \<Rightarrow> dhcp_page" where
  "refresh_settled t i ans s = refresh_step t (dh_refreshes s ! i) ans (s\<lparr>dh_refreshes := remove_nth i (dh_refreshes s)\<rparr>)"

section \<open>Changes\<close>

definition pool_input :: "new_pool \<Rightarrow> dhcp_pool_input" where
  "pool_input p = \<lparr>dp_name = np_name p, dp_interface = np_interface p, dp_subnet = np_subnet p, dp_gateway = np_gateway p,
     dp_dns_servers = filter (\<lambda>x. x \<noteq> []) (np_dns_servers p), dp_lease_seconds = np_lease_seconds p, dp_enabled = True\<rparr>"

definition dhcp_start :: "dhcp_op \<Rightarrow> dhcp_page \<Rightarrow> dhcp_page" where
  "dhcp_start op s = s\<lparr>dh_ops := dh_ops s @ [op]\<rparr>"

definition handleCreatePool :: "dhcp_page \<Rightarrow> dhcp_page" where
  "handleCreatePool s = dhcp_start (CreatePoolOp (createPool_call (pool_input (dh_newPool s))) (dh_selectedPool s)) s"

definition handleDeletePool :: "int \<Rightarrow> dhcp_page \<Rightarrow> dhcp_page" where
  "handleDeletePool n s = dhcp_start (DeletePoolOp n (dh_selectedPool s)) s"

definition handleCreateReservation :: "dhcp_page \<Rightarrow> dhcp_page" where
  "handleCreateReservation s = (if \<not> truthy_id (dh_selectedPool s) then s
     else dhcp_start (CreateReservationOp (createReservation_call (the (dh_selectedPool s)) (dh_newReservation s)) (dh_selectedPool s)) s)"

definition handleDeleteReservation :: "int \<Rightarrow> dhcp_page \<Rightarrow> dhcp_page" where
  "handleDeleteReservation n s = dhcp_start (DeleteReservationOp n (dh_selectedPool s)) s"

definition handleDeleteLease :: "int \<Rightarrow> dhcp_page \<Rightarrow> dhcp_page" where
  "handleDeleteLease n s = dhcp_start (DeleteLeaseOp n (dh_selectedPool s)) s"

fun dhcp_succeeded :: "dhcp_op \<Rightarrow> dhcp_page \<Rightarrow> dhcp_page" where
  "dhcp_succeeded (CreatePoolOp c sel) s = dhcp_refresh_start sel (s\<lparr>dh_showCreatePool := False, dh_newPool := blank_pool\<rparr>)"
| "dhcp_succeeded (DeletePoolOp n sel) s =
     dhcp_refresh_start (if sel = Some n then None else sel) (if sel = Some n then setSelectedPool None s else s)"
| "dhcp_succeeded (CreateReservationOp c sel) s = dhcp_refresh_start sel (s\<lparr>dh_newReservation := blank_reservation\<rparr>)"
| "dhcp_succeeded (DeleteReservationOp n sel) s = dhcp_refresh_start sel s"
| "dhcp_succeeded (DeleteLeaseOp n sel) s = dhcp_refresh_start sel s"

fun dhcp_failure_key :: "dhcp_op \<Rightarrow> jstring" where
  "dhcp_failure_key (CreatePoolOp c sel) = ''dhcp.create_pool_failed''"
| "dhcp_failure_key (DeletePoolOp n sel) = ''dhcp.delete_pool_failed''"
| "dhcp_failure_key (CreateReservationOp c sel) = ''dhcp.create_reservation_failed''"
| "dhcp_failure_key (DeleteReservationOp n sel) = ''dhcp.delete_reservation_failed''"
| "dhcp_failure_key (DeleteLeaseOp n sel) = ''dhcp.delete_lease_failed''"

definition dhcp_op_settled :: "(jstring \<Rightarrow> jstring) \<Rightarrow> nat \<Rightarrow> unit result \<Rightarrow> dhcp_page \<Rightarrow> dhcp_page" where
  "dhcp_op_settled t i res s =
     (let op = dh_ops s ! i; s0 = s\<lparr>dh_ops := remove_nth i (dh_ops s)\<rparr> in case res of
        Inr _ \<Rightarrow> dhcp_succeeded op s0
      | Inl e \<Rightarrow> s0\<lparr>dh_error := error_text e (t (dhcp_failure_key op))\<rparr>)"

datatype dhcp_msg =
    DH_Refresh
  | DH_ToggleCreate
  | DH_CancelCreate
  | DH_Pool "new_pool \<Rightarrow> new_pool"
  | DH_SubmitPool
  | DH_Select int
  | DH_DeletePool int
  | DH_Reservation "dhcp_reservation_input \<Rightarrow> dhcp_reservation_input"
  | DH_SubmitReservation
  | DH_DeleteReservation int
  | DH_DeleteLease int

fun dhcp_update :: "dhcp_msg \<Rightarrow> dhcp_page \<Rightarrow> dhcp_page" where
  "dhcp_update DH_Refresh s = dhcp_refresh_start (dh_selectedPool s) s"
| "dhcp_update DH_ToggleCreate s = s\<lparr>dh_showCreatePool := \<not> dh_showCreatePool s\<rparr>"
| "dhcp_update DH_CancelCreate s = s\<lparr>dh_showCreatePool := False\<rparr>"
| "dhcp_update (DH_Pool f) s = s\<lparr>dh_newPool := f (dh_newPool s)\<rparr>"
| "dhcp_update DH_SubmitPool s = handleCreatePool s"
| "dhcp_update (DH_Select n) s = setSelectedPool (Some n) s"
| "dhcp_update (DH_DeletePool n) s = handleDeletePool n s"
| "dhcp_update (DH_Reservation f) s = s\<lparr>dh_newReservation := f (dh_newReservation s)\<rparr>"
| "dhcp_update DH_SubmitReservation s = handleCreateReservation s"
| "dhcp_update (DH_DeleteReservation n) s = handleDeleteReservation n s"
| "dhcp_update (DH_DeleteLease n) s = handleDeleteLease n s"

section \<open>Rendering\<close>

text \<open>The milliseconds until a lease expires; \<open>left\<close> computes them from the time stamp and the clock.\<close>

definition formatExpiry :: "(jstring \<Rightarrow> jstring) \<Rightarrow> int \<Rightarrow> jstring" where
  "formatExpiry t diff = (if diff \<le> 0 then t ''dhcp.expired''
     else let hours = diff div 3600000; mins = diff mod 3600000 div 60000 in
       if hours \<ge> 24 then show_int (hours div 24) @ ''d '' @ show_int (hours mod 24) @ ''h''
       else show_int hours @ ''h '' @ show_int mins @ ''m'')"

definition poolReservations :: "dhcp_page \<Rightarrow> dhcp_reservation list" where
  "poolReservations s = filter (\<lambda>r. Some (dr_pool_id r) = dh_selectedPool s) (dh_reservations s)"

definition activeLeases :: "dhcp_page \<Rightarrow> dhcp_lease list" where
  "activeLeases s = filter (\<lambda>l. dl_status l = ''active'') (dh_leases s)"

definition dhcp_field :: "jstring \<Rightarrow> jstring \<Rightarrow> (jstring \<Rightarrow> dhcp_msg) \<Rightarrow> jstring \<Rightarrow> dhcp_msg node" where
  [view_defs]: "dhcp_field label v change hint =
     El T_label [] [Txt label, El T_input ([A ''value'' v, OnChange change] @ attr_if (hint \<noteq> []) (A ''placeholder'' hint)) []]"

text \<open>\<open>num\<close> prints a number as JavaScript does.\<close>

definition pool_form :: "(jstring \<Rightarrow> jstring) \<Rightarrow> (jsnum \<Rightarrow> jstring) \<Rightarrow> new_pool \<Rightarrow> dhcp_msg node" where
  [view_defs]: "pool_form t num p =
     El T_form [Cls ''zone-form'', OnSubmit DH_SubmitPool]
       [El T_div [Cls ''form-grid'']
          [dhcp_field (t ''dhcp.pool_name'') (np_name p) (\<lambda>v. DH_Pool (np_name_update (\<lambda>_. v))) ''lan'',
           dhcp_field (t ''dhcp.interface'') (np_interface p) (\<lambda>v. DH_Pool (np_interface_update (\<lambda>_. v))) [],
           dhcp_field (t ''dhcp.subnet_cidr'') (np_subnet p) (\<lambda>v. DH_Pool (np_subnet_update (\<lambda>_. v))) ''192.168.1.0/24'',
           dhcp_field (t ''dhcp.gateway'') (np_gateway p) (\<lambda>v. DH_Pool (np_gateway_update (\<lambda>_. v))) ''192.168.1.1'',
           dhcp_field (t ''dhcp.dns_servers'') (js_join '', '' (np_dns_servers p))
             (\<lambda>v. DH_Pool (np_dns_servers_update (\<lambda>_. map js_trim (split_on CHR '','' v)))) ''1.1.1.1, 8.8.8.8'',
           El T_label []
             [Txt (t ''dhcp.lease_seconds''),
              El T_input [A ''type'' ''number'', A ''value'' (num (np_lease_seconds p)),
                OnChange (\<lambda>v. DH_Pool (np_lease_seconds_update (\<lambda>_. js_Number v)))] []]],
        El T_div [Cls ''form-actions'']
          [El T_button [Cls ''button primary'', A ''type'' ''submit''] [Txt (t ''dhcp.create'')],
           El T_button [Cls ''button'', A ''type'' ''button'', OnClick DH_CancelCreate] [Txt (t ''zones.cancel'')]]]"

definition pool_row :: "(jstring \<Rightarrow> jstring) \<Rightarrow> bool \<Rightarrow> dhcp_page \<Rightarrow> dhcp_pool \<Rightarrow> dhcp_msg node" where
  [view_defs]: "pool_row t ro s p =
     El T_tr [A ''key'' (show_int (dp_id p)), Cls (''clickable'' @ (if dh_selectedPool s = Some (dp_id p) then '' selected'' else '''')),
        OnClick (DH_Select (dp_id p)), AN ''tabIndex'' 0, OnKeys [''Enter'', '' ''] (DH_Select (dp_id p))]
       [El T_td [] [El T_strong [] [Txt (dp_name p)], El T_small [] [Txt (dp_interface p)]],
        El T_td [] [El T_code [] [Txt (dp_subnet p)]],
        El T_td [] [El T_code [] [Txt (dp_gateway p)]],
        El T_td [Cls ''num mono''] [Txt (show_nat (length (filter (\<lambda>l. dl_pool_id l = dp_id p) (activeLeases s))))],
        El T_td [] [El T_div [Cls ''table-actions'']
          (render_if (\<not> ro)
             [El T_button [Cls ''icon-button danger-icon'', A ''aria-label'' (t ''zones.delete_aria'' @ '' '' @ dp_name p),
                OnConfirm (t ''dhcp.confirm_delete_pool'') (DH_DeletePool (dp_id p))] [Icon ''Trash2'' 15]])]]"

definition pools_panel :: "(jstring \<Rightarrow> jstring) \<Rightarrow> (jsnum \<Rightarrow> jstring) \<Rightarrow> bool \<Rightarrow> dhcp_page \<Rightarrow> dhcp_msg node" where
  [view_defs]: "pools_panel t num ro s =
     El T_section [Cls ''panel'']
       ([El T_div [Cls ''panel-heading'']
           [El T_div [] [El T_h2 [] [Txt (t ''dhcp.pools'')]],
            El T_div [Cls ''button-group'']
              ([El T_button [Cls ''icon-button'', OnClick DH_Refresh, A ''aria-label'' (t ''app.refresh''), A ''title'' (t ''app.refresh'')]
                  [Icon ''RefreshCw'' 16]]
               @ render_if (\<not> ro)
                  [El T_button [Cls ''button primary'', OnClick DH_ToggleCreate] [Icon ''Plus'' 15, Txt (t ''dhcp.add_pool'')]])]]
        @ render_if (dh_showCreatePool s) [pool_form t num (dh_newPool s)]
        @ [if dh_pools s = [] then EmptyState [Icon ''Network'' 22] (t ''dhcp.no_pools'') [] [] True
           else El T_div [Cls ''table-wrap''] [El T_table []
             [El T_thead [] [El T_tr []
                [El T_th [] [Txt (t ''dhcp.name'')], El T_th [] [Txt (t ''dhcp.subnet'')], El T_th [] [Txt (t ''dhcp.gateway'')],
                 El T_th [Cls ''num''] [Txt (t ''dhcp.leases_label'')],
                 El T_th [] [El T_span [Cls ''sr-only''] [Txt (t ''zones.col_actions'')]]]],
              El T_tbody [] (map (pool_row t ro s) (dh_pools s))]]])"

definition reservation_form :: "(jstring \<Rightarrow> jstring) \<Rightarrow> dhcp_reservation_input \<Rightarrow> dhcp_msg node" where
  [view_defs]: "reservation_form t r =
     El T_form [Cls ''zone-form'', OnSubmit DH_SubmitReservation]
       [El T_div [Cls ''form-grid'']
          [dhcp_field (t ''dhcp.mac_address'') (dr_mac_address r) (\<lambda>v. DH_Reservation (dr_mac_address_update (\<lambda>_. v))) ''aa:bb:cc:dd:ee:ff'',
           dhcp_field (t ''dhcp.ip_address'') (dr_ip_address r) (\<lambda>v. DH_Reservation (dr_ip_address_update (\<lambda>_. v))) ''192.168.1.100'',
           dhcp_field (t ''dhcp.hostname'') (dr_hostname r) (\<lambda>v. DH_Reservation (dr_hostname_update (\<lambda>_. v))) ''printer''],
        El T_div [Cls ''form-actions'']
          [El T_button [Cls ''button primary'', A ''type'' ''submit''] [Icon ''Plus'' 15, Txt (t ''dhcp.add'')]]]"

definition name_or_dash :: "jstring \<Rightarrow> dhcp_msg node" where
  [view_defs]: "name_or_dash h = (if h \<noteq> [] then Txt h else El T_span [Cls ''cell-muted''] [Txt emdash])"

definition delete_button :: "(jstring \<Rightarrow> jstring) \<Rightarrow> bool \<Rightarrow> jstring \<Rightarrow> dhcp_msg \<Rightarrow> dhcp_msg node" where
  [view_defs]: "delete_button t ro what m =
     El T_div [Cls ''table-actions'']
       (render_if (\<not> ro)
          [El T_button [Cls ''icon-button danger-icon'', A ''aria-label'' (t ''zones.delete_aria'' @ '' '' @ what), OnClick m]
             [Icon ''Trash2'' 15]])"

definition reservation_row :: "(jstring \<Rightarrow> jstring) \<Rightarrow> bool \<Rightarrow> dhcp_reservation \<Rightarrow> dhcp_msg node" where
  [view_defs]: "reservation_row t ro r =
     El T_tr [A ''key'' (show_int (dr_id r))]
       [El T_td [] [El T_code [] [Txt (dr_mac_address r)]],
        El T_td [] [El T_code [] [Txt (dr_ip_address r)]],
        El T_td [] [name_or_dash (dr_hostname r)],
        El T_td [] [delete_button t ro (dr_mac_address r) (DH_DeleteReservation (dr_id r))]]"

definition reservations_panel :: "(jstring \<Rightarrow> jstring) \<Rightarrow> bool \<Rightarrow> dhcp_page \<Rightarrow> dhcp_msg node" where
  [view_defs]: "reservations_panel t ro s =
     El T_section [Cls ''panel'']
       ([El T_div [Cls ''panel-heading'']
           [El T_div []
              (El T_h2 [] [Txt (t ''dhcp.reservations'')]
               # (case find (\<lambda>p. Some (dp_id p) = dh_selectedPool s) (dh_pools s) of
                    None \<Rightarrow> []
                  | Some p \<Rightarrow> [El T_p [] [Txt (dp_name p), Txt ('' '' @ middot @ '' ''), Txt (dp_subnet p)]]))]]
        @ render_if (\<not> ro) [reservation_form t (dh_newReservation s)]
        @ render_if (poolReservations s \<noteq> [])
            [El T_div [Cls ''table-wrap''] [El T_table []
               [El T_thead [] [El T_tr []
                  [El T_th [] [Txt (t ''dhcp.mac_address'')], El T_th [] [Txt (t ''dhcp.ip_address'')],
                   El T_th [] [Txt (t ''dhcp.hostname'')],
                   El T_th [] [El T_span [Cls ''sr-only''] [Txt (t ''zones.col_actions'')]]]],
                El T_tbody [] (map (reservation_row t ro) (poolReservations s))]]])"

definition lease_row :: "(jstring \<Rightarrow> jstring) \<Rightarrow> (jstring \<Rightarrow> int) \<Rightarrow> bool \<Rightarrow> dhcp_lease \<Rightarrow> dhcp_msg node" where
  [view_defs]: "lease_row t left ro l =
     El T_tr [A ''key'' (show_int (dl_id l))]
       [El T_td [] [El T_code [] [Txt (dl_mac_address l)]],
        El T_td [] [El T_code [] [Txt (dl_ip_address l)]],
        El T_td [] [name_or_dash (dl_hostname l)],
        El T_td [Cls ''cell-muted''] [Txt (formatExpiry t (left (dl_expires_at l)))],
        El T_td [] [delete_button t ro (dl_ip_address l) (DH_DeleteLease (dl_id l))]]"

definition leases_panel :: "(jstring \<Rightarrow> jstring) \<Rightarrow> (jstring \<Rightarrow> int) \<Rightarrow> bool \<Rightarrow> dhcp_page \<Rightarrow> dhcp_msg node" where
  [view_defs]: "leases_panel t left ro s =
     El T_section [Cls ''panel'']
       [El T_div [Cls ''panel-heading'']
          [El T_div [] [El T_h2 [] [Txt (t ''dhcp.active_leases'')]],
           El T_span [Cls ''subtle-badge''] [Txt (show_nat (length (activeLeases s)))]],
        (if activeLeases s = [] then EmptyState [] (t ''dhcp.no_leases'') [] [] True
         else El T_div [Cls ''table-wrap''] [El T_table []
           [El T_thead [] [El T_tr []
              [El T_th [] [Txt (t ''dhcp.mac_address'')], El T_th [] [Txt (t ''dhcp.ip_address'')], El T_th [] [Txt (t ''dhcp.hostname'')],
               El T_th [] [Txt (t ''dhcp.expires'')],
               El T_th [] [El T_span [Cls ''sr-only''] [Txt (t ''zones.col_actions'')]]]],
            El T_tbody [] (map (lease_row t left ro) (activeLeases s))]])]"

text \<open>A selected pool with the number zero renders as that number: \<open>{selectedPool && ..}\<close>.\<close>

definition dhcp_view :: "(jstring \<Rightarrow> jstring) \<Rightarrow> (jsnum \<Rightarrow> jstring) \<Rightarrow> (jstring \<Rightarrow> int) \<Rightarrow> bool \<Rightarrow> dhcp_page \<Rightarrow> dhcp_msg node list" where
  [view_defs]: "dhcp_view t num left ro s =
     (if dh_loading s then [El T_section [Cls ''panel''] [Loading [Txt (t ''dhcp.loading'')]]]
      else [El T_div [Cls ''stack'']
        (render_if (dh_error s \<noteq> []) [El T_div [Cls ''notice error'', A ''role'' ''alert''] [Txt (dh_error s)]]
         @ [pools_panel t num ro s]
         @ render_if (truthy_id (dh_selectedPool s)) [reservations_panel t ro s]
         @ render_if (dh_selectedPool s = Some 0) [Txt ''0'']
         @ [leases_panel t left ro s])])"

section \<open>The page as a machine\<close>

inductive dhcp_env :: "(jstring \<Rightarrow> jstring) \<Rightarrow> dhcp_page \<Rightarrow> dhcp_page \<Rightarrow> bool" for t where
  language_changes: "dhcp_env t s (dhcp_language s)"
| lists_done: "i < length (dh_listLoads s) \<Longrightarrow> dhcp_env t s (lists_settled t i res s)"
| reservations_done: "i < length (dh_reservationLoads s) \<Longrightarrow> dhcp_env t s (reservations_settled t i rs s)"
| refresh_done: "i < length (dh_refreshes s) \<Longrightarrow> answers_phase (dh_refreshes s ! i) ans \<Longrightarrow> dhcp_env t s (refresh_settled t i ans s)"
| op_done: "i < length (dh_ops s) \<Longrightarrow> dhcp_env t s (dhcp_op_settled t i u s)"

text \<open>What the page lets a user trigger: a viewer only selects, refreshes and leaves the form.\<close>

definition dhcp_guard :: "bool \<Rightarrow> dhcp_page \<Rightarrow> dhcp_msg \<Rightarrow> bool" where
  "dhcp_guard ro s m = (case m of
      DH_ToggleCreate \<Rightarrow> \<not> ro
    | DH_Pool f \<Rightarrow> dh_showCreatePool s
    | DH_SubmitPool \<Rightarrow> dh_showCreatePool s
    | DH_DeletePool n \<Rightarrow> \<not> ro
    | DH_Reservation f \<Rightarrow> \<not> ro \<and> truthy_id (dh_selectedPool s)
    | DH_SubmitReservation \<Rightarrow> \<not> ro \<and> truthy_id (dh_selectedPool s)
    | DH_DeleteReservation n \<Rightarrow> \<not> ro
    | DH_DeleteLease n \<Rightarrow> \<not> ro
    | _ \<Rightarrow> True)"

lemma pools_panel_ok: "node_ok (dhcp_guard ro s) False (pools_panel t num ro s)"
  by (simp add: pools_panel_def pool_form_def dhcp_field_def pool_row_def EmptyState_def dhcp_guard_def dom_simps)

lemma reservations_panel_ok: "truthy_id (dh_selectedPool s) \<Longrightarrow> node_ok (dhcp_guard ro s) False (reservations_panel t ro s)"
  by (simp add: reservations_panel_def reservation_form_def dhcp_field_def reservation_row_def name_or_dash_def delete_button_def
      dhcp_guard_def dom_simps split: option.split)

lemma leases_panel_ok: "node_ok (dhcp_guard ro s) False (leases_panel t left ro s)"
  by (simp add: leases_panel_def lease_row_def name_or_dash_def delete_button_def EmptyState_def dhcp_guard_def dom_simps)

lemma dhcp_view_ok: "nodes_ok (dhcp_guard ro s) (dhcp_view t num left ro s)"
  using pools_panel_ok reservations_panel_ok leases_panel_ok by (simp add: dhcp_view_def Loading_def dom_simps)

lemmas dhcp_fired = nodes_okD [OF dhcp_view_ok]

text \<open>In a viewer's session no change is in flight and the form is closed.\<close>

definition dhcp_idle :: "dhcp_page \<Rightarrow> bool" where
  "dhcp_idle s \<longleftrightarrow> dh_ops s = [] \<and> \<not> dh_showCreatePool s"

lemma reservations_effect_frame [simp]:
  "dh_ops (reservations_effect s) = dh_ops s" "dh_showCreatePool (reservations_effect s) = dh_showCreatePool s"
  "dh_selectedPool (reservations_effect s) = dh_selectedPool s" "dh_reservations (reservations_effect s) = dh_reservations s"
  "dh_refreshes (reservations_effect s) = dh_refreshes s"
  by (simp_all add: reservations_effect_def)

lemma setSelectedPool_frame [simp]:
  "dh_ops (setSelectedPool v s) = dh_ops s" "dh_showCreatePool (setSelectedPool v s) = dh_showCreatePool s"
  "dh_selectedPool (setSelectedPool v s) = v" "dh_reservations (setSelectedPool v s) = dh_reservations s"
  "dh_refreshes (setSelectedPool v s) = dh_refreshes s"
  by (simp_all add: setSelectedPool_def)

lemma refresh_step_frame:
  "dh_ops (refresh_step t r ans s) = dh_ops s" "dh_showCreatePool (refresh_step t r ans s) = dh_showCreatePool s"
  "dh_selectedPool (refresh_step t r ans s) = dh_selectedPool s"
  by (cases "(t, r, ans, s)" rule: refresh_step.cases; simp add: refresh_failed_def Let_def)+

lemma dhcp_idle_settled:
  "dhcp_idle (lists_settled t i res s) = dhcp_idle s" "dhcp_idle (reservations_settled t i rs s) = dhcp_idle s"
  "dhcp_idle (refresh_settled t i ans s) = dhcp_idle s" "dhcp_idle (dhcp_language s) = dhcp_idle s"
  by (auto simp: dhcp_idle_def lists_settled_def reservations_settled_def refresh_settled_def refresh_step_frame dhcp_language_def
      lists_effect_def Let_def split: sum.split)

lemma dhcp_idle_no_op: "dhcp_idle s \<Longrightarrow> \<not> i < length (dh_ops s)"
  by (simp add: dhcp_idle_def)

lemma dhcp_env_idle: "dhcp_idle s \<Longrightarrow> dhcp_env t s s' \<Longrightarrow> dhcp_idle s'"
  by (erule dhcp_env.cases; hypsubst; simp add: dhcp_idle_settled dhcp_idle_no_op)

lemma dhcp_update_idle: "dhcp_idle s \<Longrightarrow> dhcp_guard True s m \<Longrightarrow> dhcp_idle (dhcp_update m s)"
  by (cases m) (simp_all add: dhcp_guard_def dhcp_idle_def dhcp_refresh_start_def)

interpretation dhcp_ro: read_only_page
  "\<lambda>s. s = dhcp_mount" "dhcp_view t num left True" dhcp_update "dhcp_env t" dhcp_idle dh_ops for t num left
proof unfold_locales
  show "dhcp_idle s" if "s = dhcp_mount" for s
    using that by (simp add: dhcp_idle_def dhcp_mount_def lists_effect_def)
  show "dhcp_idle (dhcp_update m s)" if "dhcp_idle s" "m \<in> fires (dhcp_view t num left True s)" for s m
    using that(1) dhcp_fired [OF that(2)] by (rule dhcp_update_idle)
  show "dhcp_idle s'" if "dhcp_idle s" "dhcp_env t s s'" for s s'
    using that by (rule dhcp_env_idle)
  show "dh_ops s = []" if "dhcp_idle s" for s
    using that by (simp add: dhcp_idle_def)
qed

end
