(* ===== verification/Cluster_Page.thy ===== *)
theory Cluster_Page
  imports Api_Admin Components Snapshot
begin

text \<open>
  \<open>pages/Cluster.tsx\<close>: creating, joining, leaving and dissolving a cluster. \<open>load\<close> runs once with a
  signal and then every 15 seconds without one; \<open>run\<close> sends one action, shows the overview it answers
  with and guards the buttons with \<open>busy\<close>. The forms of \<open>StandaloneSetup\<close> are a component of their
  own: their fields live as long as the node is standalone and start afresh the next time it is.
\<close>

fun STATUS_TONE :: "member_status \<Rightarrow> badge_tone" where
  "STATUS_TONE MS_in_sync = Tone_success"
| "STATUS_TONE MS_behind = Tone_info"
| "STATUS_TONE MS_never_synced = Tone_warning"
| "STATUS_TONE MS_stale = Tone_danger"
| "STATUS_TONE MS_error = Tone_danger"

datatype cluster_action =
    CA_create create_cluster
  | CA_join join_cluster
  | CA_token
  | CA_remove jstring
  | CA_dissolve
  | CA_sync
  | CA_leave

fun cluster_action_call :: "cluster_action \<Rightarrow> call" where
  "cluster_action_call (CA_create b) = createCluster_call b"
| "cluster_action_call (CA_join b) = joinCluster_call b"
| "cluster_action_call CA_token = issueJoinToken_call"
| "cluster_action_call (CA_remove n) = removeClusterMember_call n"
| "cluster_action_call CA_dissolve = dissolveCluster_call"
| "cluster_action_call CA_sync = syncCluster_call"
| "cluster_action_call CA_leave = leaveCluster_call"

text \<open>The notice of a successful action.\<close>

fun cluster_success :: "(jstring \<Rightarrow> jstring) \<Rightarrow> cluster_action \<Rightarrow> jstring" where
  "cluster_success t (CA_create b) = t ''cluster.created''"
| "cluster_success t (CA_join b) = t ''cluster.joined''"
| "cluster_success t CA_token = []"
| "cluster_success t (CA_remove n) = t ''cluster.removed''"
| "cluster_success t CA_dissolve = t ''cluster.dissolved''"
| "cluster_success t CA_sync = []"
| "cluster_success t CA_leave = t ''cluster.left''"

record cluster_page =
  cz_overview :: "cluster_overview option"
  cz_versions :: "config_version list"
  cz_error :: jstring
  cz_notice :: jstring
  cz_busy :: bool
  cz_token :: "join_token option"
  cz_copied :: bool
  cz_create :: create_cluster
  cz_join :: join_cluster
  cz_origin :: jstring
  cz_timer :: bool
  cz_loads :: "bool option list"
  cz_runs :: "cluster_action list"
  cz_copies :: nat

definition create_initial :: "jstring \<Rightarrow> create_cluster" where
  "create_initial origin = \<lparr>cc_name = [], cc_advertised_url = origin, cc_allow_insecure = starts_with origin ''http:'', cc_skip_check = False\<rparr>"

definition join_initial :: join_cluster where
  "join_initial = \<lparr>cj_primary_url = [], cj_token = [], cj_name = [], cj_allow_insecure = False\<rparr>"

definition cluster_mount :: "jstring \<Rightarrow> cluster_page" where
  "cluster_mount origin = \<lparr>cz_overview = None, cz_versions = [], cz_error = [], cz_notice = [], cz_busy = False, cz_token = None,
     cz_copied = False, cz_create = create_initial origin, cz_join = join_initial, cz_origin = origin, cz_timer = True,
     cz_loads = [], cz_runs = [], cz_copies = 0\<rparr>"

definition shows_setup :: "cluster_page \<Rightarrow> bool" where
  "shows_setup s \<longleftrightarrow> (case cz_overview s of None \<Rightarrow> False | Some ov \<Rightarrow> ct_role (co_state ov) = Standalone)"

text \<open>A new overview; the setup forms are mounted afresh when they were not on the page before.\<close>

definition set_overview :: "cluster_overview \<Rightarrow> cluster_page \<Rightarrow> cluster_page" where
  "set_overview ov s = (let s1 = s\<lparr>cz_overview := Some ov\<rparr> in
     if shows_setup s1 \<and> \<not> shows_setup s then s1\<lparr>cz_create := create_initial (cz_origin s), cz_join := join_initial\<rparr> else s1)"

text \<open>\<open>Promise.all([overview, versions.catch(() => [])])\<close>\<close>

definition cluster_load_outcome ::
  "cluster_overview result \<Rightarrow> config_version list option result \<Rightarrow> (cluster_overview \<times> config_version list) result" where
  "cluster_load_outcome ov vs = (case ov of
      Inl e \<Rightarrow> Inl e
    | Inr x \<Rightarrow> Inr (x, case or_empty vs of Inl e \<Rightarrow> [] | Inr v \<Rightarrow> v))"

definition cluster_load :: "bool option \<Rightarrow> cluster_page \<Rightarrow> cluster_page" where
  "cluster_load sig s = s\<lparr>cz_loads := cz_loads s @ [sig]\<rparr>"

definition cluster_timer :: "cluster_page \<Rightarrow> cluster_page" where
  "cluster_timer s = (if cz_timer s then cluster_load (Some False) (s\<lparr>cz_timer := False\<rparr>) else s)"

definition cluster_language :: "cluster_page \<Rightarrow> cluster_page" where
  "cluster_language s = s\<lparr>cz_loads := map (map_option (\<lambda>_. True)) (cz_loads s), cz_timer := True\<rparr>"

definition cluster_load_settled ::
  "(jstring \<Rightarrow> jstring) \<Rightarrow> nat \<Rightarrow> (cluster_overview \<times> config_version list) result \<Rightarrow> cluster_page \<Rightarrow> cluster_page" where
  "cluster_load_settled t i res s =
     (let sig = cz_loads s ! i; s0 = s\<lparr>cz_loads := remove_nth i (cz_loads s)\<rparr> in
      if sig = Some True then s0
      else case res of
        Inr (ov, vs) \<Rightarrow> (set_overview ov s0)\<lparr>cz_versions := vs, cz_error := []\<rparr>
      | Inl e \<Rightarrow> s0\<lparr>cz_error := error_text e (t ''cluster.load_failed'')\<rparr>)"

definition cluster_run :: "cluster_action \<Rightarrow> cluster_page \<Rightarrow> cluster_page" where
  "cluster_run a s = s\<lparr>cz_busy := True, cz_error := [], cz_notice := [], cz_runs := cz_runs s @ [a]\<rparr>"

text \<open>An answer: a join token for \<open>CA_token\<close>, the new overview for every other action.\<close>

datatype cluster_answer = Ans_overview cluster_overview | Ans_token join_token

fun answers_action :: "cluster_action \<Rightarrow> cluster_answer result \<Rightarrow> bool" where
  "answers_action a (Inl e) = True"
| "answers_action a (Inr (Ans_token k)) = (a = CA_token)"
| "answers_action a (Inr (Ans_overview ov)) = (a \<noteq> CA_token)"

definition cluster_run_settled :: "(jstring \<Rightarrow> jstring) \<Rightarrow> nat \<Rightarrow> cluster_answer result \<Rightarrow> cluster_page \<Rightarrow> cluster_page" where
  "cluster_run_settled t i res s =
     (let a = cz_runs s ! i; s0 = s\<lparr>cz_runs := remove_nth i (cz_runs s)\<rparr> in case res of
        Inl e \<Rightarrow> s0\<lparr>cz_error := error_text e (t ''cluster.action_failed''), cz_busy := False\<rparr>
      | Inr (Ans_token k) \<Rightarrow> s0\<lparr>cz_token := Some k, cz_copied := False, cz_notice := cluster_success t a, cz_busy := False\<rparr>
      | Inr (Ans_overview ov) \<Rightarrow> (set_overview ov s0)\<lparr>cz_notice := cluster_success t a, cz_busy := False\<rparr>)"

text \<open>Copying the token: the clipboard answers later, whatever token is shown by then.\<close>

definition copy_done :: "cluster_page \<Rightarrow> cluster_page" where
  "copy_done s = s\<lparr>cz_copies := cz_copies s - 1, cz_copied := True\<rparr>"

datatype cluster_msg =
    CZ_Reload
  | CZ_Token
  | CZ_Copy
  | CZ_TokenDone
  | CZ_Remove cluster_member
  | CZ_Dissolve
  | CZ_Sync
  | CZ_Leave
  | CZ_EditCreate "create_cluster \<Rightarrow> create_cluster"
  | CZ_EditJoin "join_cluster \<Rightarrow> join_cluster"
  | CZ_SubmitCreate
  | CZ_SubmitJoin

text \<open>\<open>CZ_SubmitJoin\<close> is the submission of the form with the question answered by yes.\<close>

fun cluster_update :: "cluster_msg \<Rightarrow> cluster_page \<Rightarrow> cluster_page" where
  "cluster_update CZ_Reload s = cluster_load None s"
| "cluster_update CZ_Token s = cluster_run CA_token s"
| "cluster_update CZ_Copy s = s\<lparr>cz_copies := cz_copies s + 1\<rparr>"
| "cluster_update CZ_TokenDone s = s\<lparr>cz_token := None\<rparr>"
| "cluster_update (CZ_Remove m) s = cluster_run (CA_remove (cm_node_id m)) s"
| "cluster_update CZ_Dissolve s = cluster_run CA_dissolve s"
| "cluster_update CZ_Sync s = cluster_run CA_sync s"
| "cluster_update CZ_Leave s = cluster_run CA_leave s"
| "cluster_update (CZ_EditCreate f) s = s\<lparr>cz_create := f (cz_create s)\<rparr>"
| "cluster_update (CZ_EditJoin f) s = s\<lparr>cz_join := f (cz_join s)\<rparr>"
| "cluster_update CZ_SubmitCreate s = cluster_run (CA_create (cz_create s)) s"
| "cluster_update CZ_SubmitJoin s = cluster_run (CA_join (cz_join s)) s"

section \<open>Rendering\<close>

definition when_text :: "(jstring \<Rightarrow> jstring) \<Rightarrow> formats \<Rightarrow> jstring option \<Rightarrow> jstring" where
  "when_text t fm v = (if nullish v [] \<noteq> [] then fm_date fm (nullish v []) else t ''cluster.never'')"

definition cluster_toolbar :: "(jstring \<Rightarrow> jstring) \<Rightarrow> bool \<Rightarrow> cluster_state \<Rightarrow> cluster_msg node" where
  [view_defs]: "cluster_toolbar t busy st =
     El T_div [Cls ''zones-toolbar'']
       [El T_span [Cls ''zone-count'']
          (Txt (t (''cluster.role_'' @ cluster_role_name (ct_role st)))
           # render_if (ct_node_name st \<noteq> []) [Txt ('' '' @ middot @ '' '' @ ct_node_name st)]),
        El T_div [] [El T_button [Cls ''button'', Disabled busy, OnClick CZ_Reload] [Icon ''RefreshCw'' 15, Txt (t ''blocklists.reload'')]]]"

definition cluster_stats :: "(jstring \<Rightarrow> jstring) \<Rightarrow> formats \<Rightarrow> (rat \<Rightarrow> jstring) \<Rightarrow> cluster_overview \<Rightarrow> cluster_msg node" where
  [view_defs]: "cluster_stats t fm pct ov =
     (let st = co_state ov; in_sync = length (filter (\<lambda>m. cm_status m = MS_in_sync) (co_members ov)) in
      El T_div [Cls ''stats'']
       ([Stat pct (t ''cluster.role'') (t (''cluster.role_'' @ cluster_role_name (ct_role st)))
           (Some (if ct_role st = Primary then ct_advertised_url st else ct_primary_url st)) None None Stat_info]
        @ render_if (ct_role st = Primary)
            [Stat pct (t ''cluster.replicas'') (show_nat (length (co_members ov)))
               (Some (show_nat in_sync @ '' '' @ t ''cluster.in_sync_count'')) None None
               (if in_sync = length (co_members ov) then Stat_success else Stat_warning)]
        @ [Stat pct (t ''cluster.revision'') (or_else (co_revision ov) emdash)
             (Some (show_int (co_replicated_zones ov) @ '' '' @ t ''cluster.zones_replicated'')) None None Stat_neutral]
        @ render_if (ct_role st = Replica)
            [Stat pct (t ''cluster.last_sync'') (when_text t fm (ct_last_sync_at st))
               (Some (if ct_last_sync_error st \<noteq> [] then t ''cluster.sync_failed'' else t ''cluster.sync_ok'')) None None
               (if ct_last_sync_error st \<noteq> [] then Stat_danger else Stat_success)]))"

text \<open>\<open>clock\<close> prints the time of day.\<close>

definition token_panel :: "(jstring \<Rightarrow> jstring) \<Rightarrow> (jstring \<Rightarrow> jstring) \<Rightarrow> jstring \<Rightarrow> bool \<Rightarrow> join_token \<Rightarrow> cluster_msg node" where
  [view_defs]: "token_panel t clock url copied k =
     El T_div [Cls ''panel-body''] [El T_div [Cls ''notice info join-token'', A ''role'' ''status'']
       [Icon ''KeyRound'' 16,
        El T_div []
          [El T_strong [] [Txt (t ''cluster.token_title'')],
           El T_p [] [Txt (t ''cluster.token_steps'')],
           El T_dl [Cls ''restore-facts'']
             [El T_dt [] [Txt (t ''cluster.primary_url'')], El T_dd [] [El T_code [] [Txt url]],
              El T_dt [] [Txt (t ''cluster.join_token'')], El T_dd [] [El T_code [Cls ''token-value''] [Txt (jt_token k)]]],
           El T_p [] [Txt (t ''cluster.token_expires''), Txt '' '', Txt (clock (jt_expires_at k)), Txt ''. '', Txt (t ''cluster.token_once'')],
           El T_div [Cls ''form-actions'']
             [El T_button [Cls ''button small'', OnClick CZ_Copy]
                [if copied then Icon ''Check'' 14 else Icon ''Copy'' 14,
                 Txt (if copied then t ''cluster.copied'' else t ''cluster.copy_token'')],
              El T_button [Cls ''button small'', OnClick CZ_TokenDone] [Txt (t ''cluster.token_done'')]]]]]"

definition MemberRow :: "(jstring \<Rightarrow> jstring) \<Rightarrow> formats \<Rightarrow> bool \<Rightarrow> bool \<Rightarrow> cluster_member \<Rightarrow> cluster_msg node" where
  [view_defs]: "MemberRow t fm canManage busy m =
     El T_tr [A ''key'' (cm_node_id m)]
       [El T_td []
          [El T_strong [] [Txt (cm_name m)],
           El T_small [Cls ''cell-muted block''] [Txt (or_else (cm_address m) (cm_node_id m))]],
        El T_td [Cls ''wrap'']
          (Badge (STATUS_TONE (cm_status m)) False [Txt (t (''cluster.status_'' @ member_status_name (cm_status m)))]
           # render_if (cm_last_error m \<noteq> []) [El T_span [Cls ''error-text''] [Txt (cm_last_error m)]]),
        El T_td [Cls ''mono''] [Txt (or_else (cm_version m) emdash)],
        El T_td [Cls ''cell-muted''] [Txt (when_text t fm (cm_last_seen_at m))],
        El T_td []
          (render_if canManage
             [El T_div [Cls ''table-actions'']
                [El T_button [Cls ''icon-button danger-icon'', Disabled busy, A ''title'' (t ''cluster.remove''),
                   A ''aria-label'' (t ''cluster.remove'' @ '' '' @ cm_name m),
                   OnConfirm (t ''cluster.remove_confirm'' @ '' '' @ cm_name m @ ''?'') (CZ_Remove m)] [Icon ''Trash2'' 15]]])]"

definition members_panel ::
  "(jstring \<Rightarrow> jstring) \<Rightarrow> formats \<Rightarrow> (jstring \<Rightarrow> jstring) \<Rightarrow> bool \<Rightarrow> cluster_page \<Rightarrow> cluster_overview \<Rightarrow> cluster_msg node" where
  [view_defs]: "members_panel t fm clock canManage s ov =
     El T_section [Cls ''panel'']
       ([El T_div [Cls ''panel-heading'']
           ([El T_div [] [El T_h2 [] [Txt (t ''cluster.members'')], El T_p [] [Txt (t ''cluster.members_hint'')]]]
            @ render_if canManage
               [El T_button [Cls ''button primary'', Disabled (cz_busy s), OnClick CZ_Token] [Icon ''Plus'' 15, Txt (t ''cluster.add_node'')]])]
        @ (case cz_token s of None \<Rightarrow> [] | Some k \<Rightarrow> [token_panel t clock (ct_advertised_url (co_state ov)) (cz_copied s) k])
        @ [if co_members ov = [] then EmptyState [Icon ''Server'' 22] (t ''cluster.no_members'') [Txt (t ''cluster.no_members_text'')] [] True
           else El T_div [Cls ''table-wrap''] [El T_table []
             [El T_caption [Cls ''sr-only''] [Txt (t ''cluster.members'')],
              El T_thead [] [El T_tr []
                [El T_th [] [Txt (t ''cluster.name'')], El T_th [] [Txt (t ''cluster.status'')], El T_th [] [Txt (t ''cluster.version'')],
                 El T_th [] [Txt (t ''cluster.last_seen'')],
                 El T_th [] [El T_span [Cls ''sr-only''] [Txt (t ''zones.col_actions'')]]]],
              El T_tbody [] (map (MemberRow t fm canManage (cz_busy s)) (co_members ov))]]])"

definition dissolve_panel :: "(jstring \<Rightarrow> jstring) \<Rightarrow> bool \<Rightarrow> cluster_msg node" where
  [view_defs]: "dissolve_panel t busy =
     El T_section [Cls ''panel danger-zone''] [El T_div [Cls ''panel-heading'']
       [El T_div [] [El T_h2 [] [Txt (t ''cluster.dissolve'')], El T_p [] [Txt (t ''cluster.dissolve_hint'')]],
        El T_button [Cls ''button outline-danger'', Disabled busy, OnConfirm (t ''cluster.dissolve_confirm'') CZ_Dissolve]
          [Icon ''Unplug'' 15, Txt (t ''cluster.dissolve'')]]]"

definition replica_panel :: "(jstring \<Rightarrow> jstring) \<Rightarrow> bool \<Rightarrow> bool \<Rightarrow> cluster_state \<Rightarrow> cluster_msg node" where
  [view_defs]: "replica_panel t canManage busy st =
     El T_section [Cls ''panel'']
       [El T_div [Cls ''panel-heading'']
          ([El T_div [] [El T_h2 [] [Txt (t ''cluster.replica_title'')], El T_p [] [Txt (t ''cluster.replica_hint'')]]]
           @ render_if canManage
              [El T_div [Cls ''button-group'']
                 [El T_button [Cls ''button'', Disabled busy, OnClick CZ_Sync] [Icon ''RefreshCw'' 15, Txt (t ''cluster.sync_now'')],
                  El T_button [Cls ''button outline-danger'', Disabled busy, OnConfirm (t ''cluster.leave_confirm'') CZ_Leave]
                    [Icon ''LogOut'' 15, Txt (t ''cluster.leave'')]]]),
        El T_div [Cls ''panel-body stack-sm'']
          [if ct_last_sync_error st \<noteq> [] then El T_div [Cls ''notice error'', A ''role'' ''alert''] [Txt (ct_last_sync_error st)]
           else El T_div [Cls ''notice success'', A ''role'' ''status''] [Txt (t ''cluster.replica_ok'')],
           El T_dl [Cls ''restore-facts'']
             [El T_dt [] [Txt (t ''cluster.primary_url'')], El T_dd [] [El T_code [] [Txt (ct_primary_url st)]],
              El T_dt [] [Txt (t ''cluster.cluster_id'')], El T_dd [] [El T_code [] [Txt (ct_cluster_id st)]],
              El T_dt [] [Txt (t ''cluster.node_id'')], El T_dd [] [El T_code [] [Txt (ct_node_id st)]]]]]"

definition check_field :: "jstring \<Rightarrow> bool \<Rightarrow> (bool \<Rightarrow> cluster_msg) \<Rightarrow> cluster_msg node" where
  [view_defs]: "check_field label b change =
     El T_label [Cls ''check-field''] [El T_input [A ''type'' ''checkbox'', AB ''checked'' b, OnCheck change] [], Txt label]"

definition create_form :: "(jstring \<Rightarrow> jstring) \<Rightarrow> bool \<Rightarrow> create_cluster \<Rightarrow> cluster_msg node" where
  [view_defs]: "create_form t busy c =
     El T_form [Cls ''zone-form'', A ''aria-label'' (t ''cluster.create_title''), OnSubmit CZ_SubmitCreate]
       [El T_div [] [El T_h3 [] [Txt (t ''cluster.create_title'')], El T_p [] [Txt (t ''cluster.create_hint'')]],
        El T_fieldset [Disabled busy]
          [El T_label []
             [Txt (t ''cluster.node_name''),
              El T_input [A ''value'' (cc_name c), OnChange (\<lambda>v. CZ_EditCreate (cc_name_update (\<lambda>_. v))), A ''placeholder'' ''dns1'',
                AN ''maxLength'' 64, Flag ''required''] []],
           El T_label []
             [Txt (t ''cluster.advertised_url''),
              El T_input [A ''type'' ''url'', A ''value'' (cc_advertised_url c),
                OnChange (\<lambda>v. CZ_EditCreate (cc_advertised_url_update (\<lambda>_. v))), A ''placeholder'' ''https://dns1.example.lan'',
                AB ''spellCheck'' False, Flag ''required''] [],
              El T_small [] [Txt (t ''cluster.advertised_hint'')]],
           check_field (t ''cluster.allow_http'') (cc_allow_insecure c) (\<lambda>b. CZ_EditCreate (cc_allow_insecure_update (\<lambda>_. b))),
           check_field (t ''cluster.skip_check'') (cc_skip_check c) (\<lambda>b. CZ_EditCreate (cc_skip_check_update (\<lambda>_. b))),
           El T_div [Cls ''form-actions'']
             [El T_button [Cls ''button primary'', A ''type'' ''submit''] [Icon ''Server'' 15, Txt (t ''cluster.create'')]]]]"

definition join_form :: "(jstring \<Rightarrow> jstring) \<Rightarrow> bool \<Rightarrow> join_cluster \<Rightarrow> cluster_msg node" where
  [view_defs]: "join_form t busy j =
     El T_form [Cls ''zone-form'', A ''aria-label'' (t ''cluster.join_title''), OnSubmit CZ_SubmitJoin]
       [El T_div [] [El T_h3 [] [Txt (t ''cluster.join_title'')], El T_p [] [Txt (t ''cluster.join_hint'')]],
        El T_fieldset [Disabled busy]
          [El T_label []
             [Txt (t ''cluster.primary_url''),
              El T_input [A ''type'' ''url'', A ''value'' (cj_primary_url j), OnChange (\<lambda>v. CZ_EditJoin (cj_primary_url_update (\<lambda>_. v))),
                A ''placeholder'' ''https://dns1.example.lan'', AB ''spellCheck'' False, Flag ''required''] []],
           El T_label []
             [Txt (t ''cluster.join_token''),
              El T_input [A ''value'' (cj_token j), OnChange (\<lambda>v. CZ_EditJoin (cj_token_update (\<lambda>_. v))),
                A ''placeholder'' (''vjt_'' @ ellipsis), AB ''spellCheck'' False, A ''autoComplete'' ''off'', Flag ''required''] []],
           El T_label []
             [Txt (t ''cluster.node_name''),
              El T_input [A ''value'' (cj_name j), OnChange (\<lambda>v. CZ_EditJoin (cj_name_update (\<lambda>_. v))), A ''placeholder'' ''dns2'',
                AN ''maxLength'' 64, Flag ''required''] []],
           check_field (t ''cluster.allow_http'') (cj_allow_insecure j) (\<lambda>b. CZ_EditJoin (cj_allow_insecure_update (\<lambda>_. b))),
           El T_p [Cls ''notice warning''] [Txt (t ''cluster.join_warning'')],
           El T_div [Cls ''form-actions'']
             [El T_button [Cls ''button'', A ''type'' ''submit''] [Icon ''Network'' 15, Txt (t ''cluster.join'')]]]]"

definition StandaloneSetup :: "(jstring \<Rightarrow> jstring) \<Rightarrow> bool \<Rightarrow> cluster_page \<Rightarrow> cluster_msg node list" where
  [view_defs]: "StandaloneSetup t canManage s =
     (if \<not> canManage
      then [El T_section [Cls ''panel'']
        [EmptyState [Icon ''Network'' 22] (t ''cluster.standalone_title'') [Txt (t ''cluster.standalone_viewer'')] [] False]]
      else [El T_div [Cls ''notice info'', A ''role'' ''note''] [Txt (t ''cluster.scope_note'')],
        El T_div [Cls ''grid-2'']
          [El T_section [Cls ''panel''] [create_form t (cz_busy s) (cz_create s)],
           El T_section [Cls ''panel''] [join_form t (cz_busy s) (cz_join s)]]])"

definition version_row :: "formats \<Rightarrow> config_version \<Rightarrow> cluster_msg node" where
  [view_defs]: "version_row fm v =
     El T_tr [A ''key'' (show_int (cv_version v))]
       [El T_td [Cls ''mono''] [Txt (show_int (cv_version v))],
        El T_td [] [El T_code [] [Txt (take 12 (cv_config_hash v))]],
        El T_td [] [Txt (cv_applied_by v)],
        El T_td [Cls ''cell-muted''] [Txt (fm_date fm (cv_applied_at v))]]"

definition versions_panel :: "(jstring \<Rightarrow> jstring) \<Rightarrow> formats \<Rightarrow> config_version list \<Rightarrow> cluster_msg node" where
  [view_defs]: "versions_panel t fm vs =
     El T_details [Cls ''panel cli-restore'']
       [El T_summary [Cls ''panel-body''] [Txt (t ''cluster.config_history'')],
        (if vs = [] then EmptyState [] (t ''cluster.no_versions'') [] [] True
         else El T_div [Cls ''table-wrap''] [El T_table []
           [El T_thead [] [El T_tr []
              [El T_th [] [Txt (t ''cluster.version'')], El T_th [] [Txt (t ''cluster.hash'')], El T_th [] [Txt (t ''cluster.applied_by'')],
               El T_th [] [Txt (t ''cluster.applied_at'')]]],
            El T_tbody [] (map (version_row fm) vs)]])]"

definition cluster_view ::
  "(jstring \<Rightarrow> jstring) \<Rightarrow> formats \<Rightarrow> (rat \<Rightarrow> jstring) \<Rightarrow> (jstring \<Rightarrow> jstring) \<Rightarrow> bool \<Rightarrow> cluster_page \<Rightarrow> cluster_msg node list" where
  [view_defs]: "cluster_view t fm pct clock canManage s = (case cz_overview s of
      None \<Rightarrow> [El T_section [Cls ''panel'']
        [if cz_error s \<noteq> [] then El T_div [Cls ''notice error'', A ''role'' ''alert''] [Txt (cz_error s)]
         else Loading [Txt (t ''cluster.loading'')]]]
    | Some ov \<Rightarrow> (let st = co_state ov in
       [El T_div [Cls ''stack'']
         ([cluster_toolbar t (cz_busy s) st]
          @ render_if (cz_error s \<noteq> []) [El T_div [Cls ''notice error'', A ''role'' ''alert''] [Txt (cz_error s)]]
          @ render_if (cz_notice s \<noteq> []) [El T_div [Cls ''notice success'', A ''role'' ''status''] [Txt (cz_notice s)]]
          @ render_if (ct_role st \<noteq> Standalone) [cluster_stats t fm pct ov]
          @ render_if (ct_role st = Standalone) (StandaloneSetup t canManage s)
          @ render_if (ct_role st = Primary)
              (members_panel t fm clock canManage s ov # render_if canManage [dissolve_panel t (cz_busy s)])
          @ render_if (ct_role st = Replica) [replica_panel t canManage (cz_busy s) st]
          @ [versions_panel t fm (cz_versions s)])]))"

section \<open>What the page lets a user trigger\<close>

definition cluster_guard :: "bool \<Rightarrow> cluster_page \<Rightarrow> cluster_msg \<Rightarrow> bool" where
  "cluster_guard canManage s m = (case m of
      CZ_Reload \<Rightarrow> \<not> cz_busy s
    | CZ_Copy \<Rightarrow> cz_token s \<noteq> None
    | CZ_TokenDone \<Rightarrow> True
    | _ \<Rightarrow> canManage \<and> \<not> cz_busy s)"

lemma cluster_forms_ok: "nodes_ok (cluster_guard canManage s) (StandaloneSetup t canManage s)"
  by (simp add: StandaloneSetup_def create_form_def join_form_def check_field_def EmptyState_def cluster_guard_def dom_simps)

lemma members_panel_ok: "node_ok (cluster_guard canManage s) False (members_panel t fm clock canManage s ov)"
  by (simp add: members_panel_def token_panel_def MemberRow_def Badge_def EmptyState_def cluster_guard_def dom_simps split: option.split)

lemma cluster_parts_ok:
  "node_ok (cluster_guard canManage s) False (cluster_toolbar t (cz_busy s) st)"
  "node_ok (cluster_guard canManage s) False (cluster_stats t fm pct ov)"
  "canManage \<Longrightarrow> node_ok (cluster_guard canManage s) False (dissolve_panel t (cz_busy s))"
  "node_ok (cluster_guard canManage s) False (replica_panel t canManage (cz_busy s) st)"
  "node_ok (cluster_guard canManage s) False (versions_panel t fm vs)"
  by (auto simp: cluster_toolbar_def cluster_stats_def Stat_def dissolve_panel_def replica_panel_def versions_panel_def version_row_def
      EmptyState_def cluster_guard_def dom_simps Let_def)

lemma cluster_view_ok: "nodes_ok (cluster_guard canManage s) (cluster_view t fm pct clock canManage s)"
  using cluster_forms_ok members_panel_ok cluster_parts_ok
  by (simp add: cluster_view_def Loading_def dom_simps Let_def split: option.split)

lemmas cluster_fired = nodes_okD [OF cluster_view_ok]

section \<open>The page as a machine\<close>

inductive cluster_env :: "(jstring \<Rightarrow> jstring) \<Rightarrow> cluster_page \<Rightarrow> cluster_page \<Rightarrow> bool" for t where
  timer_fires: "cluster_env t s (cluster_timer s)"
| interval_ticks: "cluster_env t s (cluster_load None s)"
| language_changes: "cluster_env t s (cluster_language s)"
| load_done: "i < length (cz_loads s) \<Longrightarrow> cluster_env t s (cluster_load_settled t i res s)"
| run_done: "i < length (cz_runs s) \<Longrightarrow> answers_action (cz_runs s ! i) ans \<Longrightarrow> cluster_env t s (cluster_run_settled t i ans s)"
| copied: "0 < cz_copies s \<Longrightarrow> cluster_env t s (copy_done s)"

definition cluster_inv :: "cluster_page \<Rightarrow> bool" where
  "cluster_inv s \<longleftrightarrow> length (cz_runs s) = (if cz_busy s then 1 else 0)"

lemma set_overview_frame [simp]:
  "cz_runs (set_overview ov s) = cz_runs s" "cz_busy (set_overview ov s) = cz_busy s" "cz_token (set_overview ov s) = cz_token s"
  "cz_overview (set_overview ov s) = Some ov"
  by (simp_all add: set_overview_def Let_def)

lemma cluster_load_settled_frame:
  "cz_runs (cluster_load_settled t i res s) = cz_runs s" "cz_busy (cluster_load_settled t i res s) = cz_busy s"
  "cz_token (cluster_load_settled t i res s) = cz_token s"
  by (auto simp: cluster_load_settled_def Let_def split: sum.split)

lemma cluster_run_settled_frame:
  "cz_runs (cluster_run_settled t i ans s) = remove_nth i (cz_runs s)" "\<not> cz_busy (cluster_run_settled t i ans s)"
  by (auto simp: cluster_run_settled_def Let_def split: sum.split cluster_answer.split)

lemma cluster_inv_run_settled: "cluster_inv s \<Longrightarrow> i < length (cz_runs s) \<Longrightarrow> cluster_inv (cluster_run_settled t i ans s)"
  using length_remove_nth [of i "cz_runs s"]
  by (auto simp: cluster_inv_def cluster_run_settled_frame split: if_splits)

lemma cluster_inv_steps:
  "cluster_inv s \<Longrightarrow> cluster_inv (cluster_load sig s)" "cluster_inv s \<Longrightarrow> cluster_inv (cluster_timer s)"
  "cluster_inv s \<Longrightarrow> cluster_inv (cluster_language s)" "cluster_inv s \<Longrightarrow> cluster_inv (cluster_load_settled t i res s)"
  "cluster_inv s \<Longrightarrow> cluster_inv (copy_done s)"
  by (auto simp: cluster_inv_def cluster_load_def cluster_timer_def cluster_language_def cluster_load_settled_frame copy_done_def)

lemma cluster_env_inv: "cluster_inv s \<Longrightarrow> cluster_env t s s' \<Longrightarrow> cluster_inv s'"
  by (erule cluster_env.cases; hypsubst; simp add: cluster_inv_steps cluster_inv_run_settled)

lemma cluster_update_inv: "cluster_inv s \<Longrightarrow> cluster_guard canManage s m \<Longrightarrow> cluster_inv (cluster_update m s)"
  by (cases m) (simp_all add: cluster_guard_def cluster_inv_def cluster_run_def cluster_load_def)

lemma cluster_env_change: "cluster_env t s s' \<Longrightarrow> one_change (cz_runs s) (cz_runs s')"
  by (erule cluster_env.cases; hypsubst)
    (auto simp: cluster_run_settled_frame cluster_load_def cluster_timer_def cluster_language_def cluster_load_settled_frame copy_done_def)

lemma cluster_update_change: "one_change (cz_runs s) (cz_runs (cluster_update m s))"
  by (cases m) (auto simp: cluster_run_def cluster_load_def)

interpretation cluster: locked_page
  "\<lambda>s. \<exists>u. s = cluster_mount u" "cluster_view t fm pct clock canManage" cluster_update "cluster_env t" cluster_inv cz_runs
  for t fm pct clock canManage
proof unfold_locales
  show "cluster_inv s" if "\<exists>u. s = cluster_mount u" for s
    using that by (auto simp: cluster_mount_def cluster_inv_def)
  show "length (cz_runs s) \<le> 1" if "cluster_inv s" for s
    using that by (simp add: cluster_inv_def)
qed (blast intro: cluster_update_inv cluster_env_inv cluster_fired cluster_update_change cluster_env_change)+

text \<open>Without the right to manage nothing is sent and no token is ever shown.\<close>

definition cluster_idle :: "cluster_page \<Rightarrow> bool" where
  "cluster_idle s \<longleftrightarrow> cz_runs s = [] \<and> cz_token s = None"

lemma cluster_idle_steps:
  "cluster_idle (cluster_load sig s) = cluster_idle s" "cluster_idle (cluster_timer s) = cluster_idle s"
  "cluster_idle (cluster_language s) = cluster_idle s" "cluster_idle (cluster_load_settled t i res s) = cluster_idle s"
  "cluster_idle (copy_done s) = cluster_idle s" "cluster_idle s \<Longrightarrow> \<not> i < length (cz_runs s)"
  by (simp_all add: cluster_idle_def cluster_load_def cluster_timer_def cluster_language_def cluster_load_settled_frame copy_done_def)

lemma cluster_env_idle: "cluster_idle s \<Longrightarrow> cluster_env t s s' \<Longrightarrow> cluster_idle s'"
  by (erule cluster_env.cases; hypsubst; simp add: cluster_idle_steps)

lemma cluster_update_idle: "cluster_idle s \<Longrightarrow> cluster_guard False s m \<Longrightarrow> cluster_idle (cluster_update m s)"
  by (cases m) (simp_all add: cluster_guard_def cluster_idle_def cluster_load_def)

interpretation cluster_ro: read_only_page
  "\<lambda>s. \<exists>u. s = cluster_mount u" "cluster_view t fm pct clock False" cluster_update "cluster_env t" cluster_idle cz_runs
  for t fm pct clock
proof unfold_locales
  show "cluster_idle s" if "\<exists>u. s = cluster_mount u" for s
    using that by (auto simp: cluster_mount_def cluster_idle_def)
  show "cluster_idle (cluster_update m s)" if "cluster_idle s" "m \<in> fires (cluster_view t fm pct clock False s)" for s m
    using that(1) cluster_fired [OF that(2)] by (rule cluster_update_idle)
  show "cluster_idle s'" if "cluster_idle s" "cluster_env t s s'" for s s'
    using that by (rule cluster_env_idle)
  show "cz_runs s = []" if "cluster_idle s" for s
    using that by (simp add: cluster_idle_def)
qed

end
