(* ===== verification/Settings_Page.thy ===== *)
theory Settings_Page
  imports Api_Admin I18n Components Snapshot
begin

text \<open>
  \<open>pages/Settings.tsx\<close>: language and theme, the server configuration with its check and its field
  errors, and the rate limit with its counter of rejected queries. The page is modelled together with
  the provider of language and theme it writes to (\<open>I18n\<close>): a new language changes \<open>t\<close>, which runs the
  effect that loads the rate limit again. The snapshot is a prop that changes while the page is mounted;
  the form is filled from the first one.
\<close>

section \<open>The form\<close>

record config_form =
  cg_dns_listen :: jstring
  cg_dns_upstreams :: jstring
  cg_dns_allowed_clients :: jstring
  cg_cache_upstream_ttl :: jstring
  cg_http_listen :: jstring
  cg_http_allowed_hosts :: jstring
  cg_query_log_enabled :: bool
  cg_log_level :: jstring

datatype FormKey =
    K_dns_listen | K_dns_upstreams | K_dns_allowed_clients | K_cache_upstream_ttl
  | K_http_listen | K_http_allowed_hosts | K_query_log_enabled | K_log_level

fun key_name :: "FormKey \<Rightarrow> jstring" where
  "key_name K_dns_listen = ''dns_listen''"
| "key_name K_dns_upstreams = ''dns_upstreams''"
| "key_name K_dns_allowed_clients = ''dns_allowed_clients''"
| "key_name K_cache_upstream_ttl = ''cache_upstream_ttl''"
| "key_name K_http_listen = ''http_listen''"
| "key_name K_http_allowed_hosts = ''http_allowed_hosts''"
| "key_name K_query_log_enabled = ''query_log_enabled''"
| "key_name K_log_level = ''log_level''"

definition FIELD_KEYS :: "(jstring \<times> FormKey) list" where
  "FIELD_KEYS = [(''dns.listen'', K_dns_listen), (''dns.upstreams'', K_dns_upstreams),
     (''dns.allowed_clients'', K_dns_allowed_clients), (''cache.upstream_ttl'', K_cache_upstream_ttl),
     (''http.listen'', K_http_listen), (''http.allowed_hosts'', K_http_allowed_hosts),
     (''query_log.enabled'', K_query_log_enabled), (''log_level'', K_log_level)]"

text \<open>
  The defaults of the sources (\<open>?? [..]\<close>) are for members that the declared type always has. The
  member \<open>query_log\<close> is read without \<open>?.\<close> here: where the server left it out rendering fails
  (\<open>None\<close>).
\<close>

definition initial_form :: "config \<Rightarrow> config_form option" where
  "initial_form c = (case cf_query_log c of None \<Rightarrow> None | Some q \<Rightarrow> Some \<lparr>
     cg_dns_listen = js_join '', '' (dc_listen (cf_dns c)),
     cg_dns_upstreams = js_join '', '' (dc_upstreams (cf_dns c)),
     cg_dns_allowed_clients = js_join '', '' (dc_allowed_clients (cf_dns c)),
     cg_cache_upstream_ttl = show_int (cf_cache_upstream_ttl c),
     cg_http_listen = cf_http_listen c,
     cg_http_allowed_hosts = js_join '', '' (cf_http_allowed_hosts c),
     cg_query_log_enabled = ql_enabled q,
     cg_log_level = cf_log_level c\<rparr>)"

fun set_field :: "FormKey \<Rightarrow> jstring \<Rightarrow> config_form \<Rightarrow> config_form" where
  "set_field K_dns_listen v f = f\<lparr>cg_dns_listen := v\<rparr>"
| "set_field K_dns_upstreams v f = f\<lparr>cg_dns_upstreams := v\<rparr>"
| "set_field K_dns_allowed_clients v f = f\<lparr>cg_dns_allowed_clients := v\<rparr>"
| "set_field K_cache_upstream_ttl v f = f\<lparr>cg_cache_upstream_ttl := v\<rparr>"
| "set_field K_http_listen v f = f\<lparr>cg_http_listen := v\<rparr>"
| "set_field K_http_allowed_hosts v f = f\<lparr>cg_http_allowed_hosts := v\<rparr>"
| "set_field K_query_log_enabled v f = f"
| "set_field K_log_level v f = f\<lparr>cg_log_level := v\<rparr>"

definition parseList :: "jstring \<Rightarrow> jstring list" where
  "parseList v = filter (\<lambda>w. w \<noteq> []) (map js_trim (split_on CHR '','' v))"

definition ttl_invalid :: "jstring \<Rightarrow> bool" where
  "ttl_invalid v \<longleftrightarrow> (let ttl = js_Number v; w = js_trim v in
     \<not> (w \<noteq> [] \<and> list_all is_digit w) \<or> \<not> is_integer ttl \<or> num_greater ttl 604800)"

definition buildConfig :: "config \<Rightarrow> config_form \<Rightarrow> config option" where
  "buildConfig c f = (if ttl_invalid (cg_cache_upstream_ttl f) then None else Some (c\<lparr>
     cf_dns := (cf_dns c)\<lparr>dc_listen := parseList (cg_dns_listen f), dc_upstreams := parseList (cg_dns_upstreams f),
       dc_allowed_clients := parseList (cg_dns_allowed_clients f)\<rparr>,
     cf_cache_upstream_ttl := int_of (js_Number (cg_cache_upstream_ttl f)),
     cf_http_listen := cg_http_listen f,
     cf_http_allowed_hosts := parseList (cg_http_allowed_hosts f),
     cf_query_log := map_option (\<lambda>q. q\<lparr>ql_enabled := cg_query_log_enabled f\<rparr>) (cf_query_log c),
     cf_log_level := cg_log_level f\<rparr>))"

section \<open>Field errors\<close>

text \<open>
  The regular expression of the sources: one or more of \<open>a-z\<close>, underscore and dot, then nothing or an
  index in brackets. The result is the path and the digits of the index. Names that \<open>FIELD_KEYS\<close> inherits from
  its prototype are taken as absent, like the other paths without an input.
\<close>

definition path_char :: "char \<Rightarrow> bool" where
  "path_char c \<longleftrightarrow> (let n = (of_char c :: nat) in 97 \<le> n \<and> n \<le> 122) \<or> c = CHR ''_'' \<or> c = CHR ''.''"

definition match_field :: "jstring \<Rightarrow> (jstring \<times> jstring option) option" where
  "match_field s = (let p = takeWhile path_char s; r = dropWhile path_char s in
     if p = [] then None
     else if r = [] then Some (p, None)
     else let ds = butlast (tl r) in
       if hd r = CHR ''['' \<and> tl r \<noteq> [] \<and> last r = CHR '']'' \<and> ds \<noteq> [] \<and> list_all is_digit ds then Some (p, Some ds) else None)"

text \<open>Entries are numbered from 1 (exact for indexes below \<open>2 ^ 53\<close>).\<close>

definition field_text :: "jstring \<Rightarrow> jstring option \<Rightarrow> jstring \<Rightarrow> jstring" where
  "field_text entryLabel index message = (case index of
      None \<Rightarrow> message
    | Some ds \<Rightarrow> entryLabel @ '' '' @ show_nat (digits_val 10 dec_val ds + 1) @ '': '' @ message)"

type_synonym field_errors = "FormKey \<rightharpoonup> jstring list"

fun groupFieldErrors_step :: "jstring \<Rightarrow> field_error \<Rightarrow> field_errors \<Rightarrow> field_errors" where
  "groupFieldErrors_step entryLabel item out = (case match_field (fe_field item) of
      None \<Rightarrow> out
    | Some (p, index) \<Rightarrow> (case map_of FIELD_KEYS p of
        None \<Rightarrow> out
      | Some key \<Rightarrow> out(key \<mapsto> nullish (out key) [] @ [field_text entryLabel index (fe_message item)])))"

definition groupFieldErrors :: "field_error list \<Rightarrow> jstring \<Rightarrow> field_errors" where
  "groupFieldErrors items entryLabel = fold (groupFieldErrors_step entryLabel) items Map.empty"

text \<open>
  The fields of an \<open>APIError\<close> come from the envelope unchecked; the declared type says that each has a
  field and a message, and entries of another shape are outside the model.
\<close>

definition json_field_error :: "json \<Rightarrow> field_error option" where
  "json_field_error j = (case (opt_prop (Some j) ''field'', opt_prop (Some j) ''message'') of
      (Some (JStr f), Some (JStr m)) \<Rightarrow> Some \<lparr>fe_field = f, fe_message = m\<rparr>
    | _ \<Rightarrow> None)"

definition error_fields :: "exn \<Rightarrow> json list" where
  "error_fields e = (case e of APIError st m fs c \<Rightarrow> fs | _ \<Rightarrow> [])"

definition error_code :: "exn \<Rightarrow> jstring" where
  "error_code e = (case e of APIError st m fs c \<Rightarrow> c | _ \<Rightarrow> [])"

section \<open>State\<close>

datatype settings_op = SaveConfig config | CheckConfig config

fun op_config :: "settings_op \<Rightarrow> config" where
  "op_config (SaveConfig c) = c"
| "op_config (CheckConfig c) = c"

fun settings_op_call :: "settings_op \<Rightarrow> call" where
  "settings_op_call (SaveConfig c) = saveConfig_call c"
| "settings_op_call (CheckConfig c) = validateConfig_call c"

datatype settings_message = SM_success jstring | SM_error jstring

record settings =
  sg_data :: snapshot
  sg_prefs :: "host \<times> provider"
  sg_form :: config_form
  sg_saving :: bool
  sg_message :: "settings_message option"
  sg_fieldErrors :: field_errors
  sg_rateLimit :: "rate_limit_settings option"
  sg_loadingRateLimit :: bool
  sg_rateLimitError :: jstring
  sg_rateLimitSaved :: bool
  sg_rateLimitStatus :: "rate_limit_status option"
  sg_rateLoads :: "bool list"
  sg_polls :: "bool list"
  sg_timer :: bool
  sg_ops :: "settings_op list"
  sg_rateSaves :: "rate_limit_settings list"

definition sg_language :: "settings \<Rightarrow> language" where
  "sg_language s = pv_language (snd (sg_prefs s))"

definition rate_effect :: "settings \<Rightarrow> settings" where
  "rate_effect s = s\<lparr>sg_rateLoads := abort_all (sg_rateLoads s) @ [False]\<rparr>"

definition status_effect :: "settings \<Rightarrow> settings" where
  "status_effect s = s\<lparr>sg_polls := abort_all (sg_polls s) @ [False], sg_timer := False\<rparr>"

definition settings_mount :: "snapshot \<Rightarrow> host \<times> provider \<Rightarrow> settings option" where
  "settings_mount d hp = map_option (\<lambda>f. status_effect (rate_effect \<lparr>sg_data = d, sg_prefs = hp, sg_form = f, sg_saving = False,
     sg_message = None, sg_fieldErrors = Map.empty, sg_rateLimit = None, sg_loadingRateLimit = True, sg_rateLimitError = [],
     sg_rateLimitSaved = False, sg_rateLimitStatus = None, sg_rateLoads = [], sg_polls = [], sg_timer = False, sg_ops = [],
     sg_rateSaves = []\<rparr>)) (initial_form (sn_config d))"

definition settings_prefs :: "provider_event \<Rightarrow> settings \<Rightarrow> settings" where
  "settings_prefs e s = (let s1 = s\<lparr>sg_prefs := provider_step e (sg_prefs s)\<rparr> in
     if sg_language s1 = sg_language s then s1 else rate_effect s1)"

section \<open>The rate limit\<close>

definition rate_load_settled :: "(jstring \<Rightarrow> jstring) \<Rightarrow> nat \<Rightarrow> rate_limit_settings result \<Rightarrow> settings \<Rightarrow> settings" where
  "rate_load_settled t i res s =
     (let aborted = sg_rateLoads s ! i; s0 = s\<lparr>sg_rateLoads := remove_nth i (sg_rateLoads s)\<rparr> in
      if aborted then s0
      else (case res of
          Inr r \<Rightarrow> s0\<lparr>sg_rateLimit := Some r, sg_rateLimitError := []\<rparr>
        | Inl e \<Rightarrow> s0\<lparr>sg_rateLimitError := error_text e (t ''settings.rate_limit_load_failed'')\<rparr>)\<lparr>sg_loadingRateLimit := False\<rparr>)"

definition status_tick :: "settings \<Rightarrow> settings" where
  "status_tick s = s\<lparr>sg_timer := False, sg_polls := sg_polls s @ [False]\<rparr>"

fun is_finite :: "jsnum \<Rightarrow> bool" where
  "is_finite (Fin r) = True"
| "is_finite _ = False"

definition status_settled :: "nat \<Rightarrow> rate_limit_status result \<Rightarrow> settings \<Rightarrow> settings" where
  "status_settled i res s =
     (let aborted = sg_polls s ! i; s0 = s\<lparr>sg_polls := remove_nth i (sg_polls s)\<rparr> in
      if aborted then s0
      else (case res of
          Inr st \<Rightarrow> if is_finite (rs_rejected_total st) then s0\<lparr>sg_rateLimitStatus := Some st\<rparr> else s0
        | Inl e \<Rightarrow> s0\<lparr>sg_rateLimitStatus := None\<rparr>)\<lparr>sg_timer := True\<rparr>)"

text \<open>\<open>n || 1\<close>: zero and NaN are falsy.\<close>

fun num_or :: "jsnum \<Rightarrow> jsnum \<Rightarrow> jsnum" where
  "num_or NaN d = d"
| "num_or (Inf b) d = Inf b"
| "num_or (Fin r) d = (if r = 0 then d else Fin r)"

definition rate_payload :: "rate_limit_settings \<Rightarrow> rate_limit_settings" where
  "rate_payload r = r\<lparr>rl_global_qps := num_or (rl_global_qps r) (Fin 1), rl_client_qps := num_or (rl_client_qps r) (Fin 1),
     rl_burst := num_or (rl_burst r) (Fin 1)\<rparr>"

definition saveRateLimit :: "settings \<Rightarrow> settings" where
  "saveRateLimit s = (case sg_rateLimit s of None \<Rightarrow> s
    | Some r \<Rightarrow> s\<lparr>sg_rateLimitError := [], sg_rateLimitSaved := False, sg_rateSaves := sg_rateSaves s @ [rate_payload r]\<rparr>)"

definition rate_save_settled :: "(jstring \<Rightarrow> jstring) \<Rightarrow> nat \<Rightarrow> rate_limit_settings result \<Rightarrow> settings \<Rightarrow> settings" where
  "rate_save_settled t i res s = (let s0 = s\<lparr>sg_rateSaves := remove_nth i (sg_rateSaves s)\<rparr> in case res of
      Inr r \<Rightarrow> s0\<lparr>sg_rateLimit := Some r, sg_rateLimitSaved := True\<rparr>
    | Inl e \<Rightarrow> s0\<lparr>sg_rateLimitError := error_text e (t ''settings.rate_limit_save_failed'')\<rparr>)"

text \<open>\<open>e.target.value === "" ? 0 : Number(e.target.value)\<close>\<close>

definition rate_number :: "jstring \<Rightarrow> jsnum" where
  "rate_number v = (if v = [] then Fin 0 else js_Number v)"

section \<open>The configuration\<close>

definition handleChange :: "FormKey \<Rightarrow> (config_form \<Rightarrow> config_form) \<Rightarrow> settings \<Rightarrow> settings" where
  "handleChange key g s = s\<lparr>sg_form := g (sg_form s), sg_message := None, sg_fieldErrors := (sg_fieldErrors s)(key := None)\<rparr>"

text \<open>\<open>handleSave\<close> and \<open>handleCheck\<close> up to their request, which \<open>mk\<close> builds from the candidate.\<close>

definition submit_config :: "(jstring \<Rightarrow> jstring) \<Rightarrow> (config \<Rightarrow> settings_op) \<Rightarrow> settings \<Rightarrow> settings" where
  "submit_config t mk s = (case buildConfig (sn_config (sg_data s)) (sg_form s) of
      None \<Rightarrow> s\<lparr>sg_message := Some (SM_error (t ''settings.cache_ttl_invalid'')),
        sg_fieldErrors := [K_cache_upstream_ttl \<mapsto> [t ''settings.cache_ttl_invalid'']]\<rparr>
    | Some c \<Rightarrow> s\<lparr>sg_saving := True, sg_message := None, sg_fieldErrors := Map.empty, sg_ops := sg_ops s @ [mk c]\<rparr>)"

definition handleSave :: "(jstring \<Rightarrow> jstring) \<Rightarrow> settings \<Rightarrow> settings" where
  "handleSave t s = submit_config t SaveConfig s"

definition handleCheck :: "(jstring \<Rightarrow> jstring) \<Rightarrow> settings \<Rightarrow> settings" where
  "handleCheck t s = submit_config t CheckConfig s"

definition showFieldErrors :: "(jstring \<Rightarrow> jstring) \<Rightarrow> field_error list \<Rightarrow> settings \<Rightarrow> settings" where
  "showFieldErrors t items s = s\<lparr>sg_fieldErrors := groupFieldErrors items (t ''settings.entry'')\<rparr>"

definition save_settled :: "(jstring \<Rightarrow> jstring) \<Rightarrow> unit result \<Rightarrow> settings \<Rightarrow> settings" where
  "save_settled t res s = (case res of
      Inr _ \<Rightarrow> s\<lparr>sg_message := Some (SM_success (t ''settings.save_success''))\<rparr>
    | Inl e \<Rightarrow> if error_fields e \<noteq> []
        then (showFieldErrors t (List.map_filter json_field_error (error_fields e)) s)\<lparr>sg_message := Some (SM_error
          (if error_code e = ''config_requires_restart'' then t ''settings.restart_required'' else t ''settings.fix_fields''))\<rparr>
        else s\<lparr>sg_message := Some (SM_error (error_text e (t ''settings.save_failed'')))\<rparr>)"

definition check_config_settled :: "(jstring \<Rightarrow> jstring) \<Rightarrow> config_check result \<Rightarrow> settings \<Rightarrow> settings" where
  "check_config_settled t res s = (case res of
      Inr k \<Rightarrow> if ck_valid k then s\<lparr>sg_message := Some (SM_success (t ''settings.check_ok''))\<rparr>
        else if ck_errors k \<noteq> [] then (showFieldErrors t (ck_errors k) s)\<lparr>sg_message := Some (SM_error (t ''settings.fix_fields''))\<rparr>
        else (showFieldErrors t (map (\<lambda>f. \<lparr>fe_field = f, fe_message = t ''settings.restart_field''\<rparr>) (ck_restart_required k)) s)
          \<lparr>sg_message := Some (SM_error (t ''settings.restart_required''))\<rparr>
    | Inl e \<Rightarrow> s\<lparr>sg_message := Some (SM_error (error_text e (t ''settings.save_failed'')))\<rparr>)"

text \<open>The answer to the save carries nothing of use, that to the check the verdict.\<close>

definition settings_op_settled ::
  "(jstring \<Rightarrow> jstring) \<Rightarrow> nat \<Rightarrow> config_check result \<Rightarrow> settings \<Rightarrow> settings" where
  "settings_op_settled t i res s =
     (let op = sg_ops s ! i; s0 = s\<lparr>sg_ops := remove_nth i (sg_ops s)\<rparr> in
      (case op of SaveConfig c \<Rightarrow> save_settled t (map_sum id (\<lambda>_. ()) res) s0 | CheckConfig c \<Rightarrow> check_config_settled t res s0)
        \<lparr>sg_saving := False\<rparr>)"

datatype settings_msg =
    ST_Language language
  | ST_Theme theme
  | ST_Field FormKey jstring
  | ST_QueryLog bool
  | ST_Check
  | ST_Save
  | ST_RateEnabled bool
  | ST_RateGlobal jstring
  | ST_RateClient jstring
  | ST_RateBurst jstring
  | ST_RateSave

definition edit_rate :: "(rate_limit_settings \<Rightarrow> rate_limit_settings) \<Rightarrow> settings \<Rightarrow> settings" where
  "edit_rate g s = s\<lparr>sg_rateLimit := map_option g (sg_rateLimit s)\<rparr>"

fun settings_update :: "(language \<Rightarrow> dictionary) \<Rightarrow> settings_msg \<Rightarrow> settings \<Rightarrow> settings" where
  "settings_update dict (ST_Language l) s = settings_prefs (Set_Language l) s"
| "settings_update dict (ST_Theme x) s = settings_prefs (Set_Theme x) s"
| "settings_update dict (ST_Field k v) s = handleChange k (set_field k v) s"
| "settings_update dict (ST_QueryLog b) s = handleChange K_query_log_enabled (cg_query_log_enabled_update (\<lambda>_. b)) s"
| "settings_update dict ST_Check s = handleCheck (makeT dict (sg_language s)) s"
| "settings_update dict ST_Save s = handleSave (makeT dict (sg_language s)) s"
| "settings_update dict (ST_RateEnabled b) s = edit_rate (rl_enabled_update (\<lambda>_. b)) s"
| "settings_update dict (ST_RateGlobal v) s = edit_rate (rl_global_qps_update (\<lambda>_. rate_number v)) s"
| "settings_update dict (ST_RateClient v) s = edit_rate (rl_client_qps_update (\<lambda>_. rate_number v)) s"
| "settings_update dict (ST_RateBurst v) s = edit_rate (rl_burst_update (\<lambda>_. rate_number v)) s"
| "settings_update dict ST_RateSave s = saveRateLimit s"

section \<open>Rendering\<close>

text \<open>The options of the two selects are the supported values, so that their codes can be read back.\<close>

definition preferences_panel :: "(jstring \<Rightarrow> jstring) \<Rightarrow> settings \<Rightarrow> settings_msg node" where
  [view_defs]: "preferences_panel t s =
     El T_section [Cls ''panel'']
       [El T_div [Cls ''settings-card'']
          [El T_div [Cls ''settings-card-intro'']
             [El T_h3 [] [Txt (t ''settings.preferences'')], El T_p [] [Txt (t ''settings.theme_hint'')]],
           El T_div [Cls ''settings-preferences'']
             [El T_label []
                [Txt (t ''settings.language''),
                 El T_select [A ''value'' (language_code (sg_language s)), OnChange (\<lambda>v. ST_Language (normalizeLanguage (Some v)))]
                   (map (\<lambda>l. El T_option [A ''key'' (language_code l), A ''value'' (language_code l)]
                      [Txt (uni (languageName l))]) SUPPORTED_LANGUAGES)],
              El T_label []
                [Txt (t ''settings.theme''),
                 El T_select [A ''value'' (theme_code (pv_theme (snd (sg_prefs s)))), OnChange (\<lambda>v. ST_Theme (normalizeTheme (Some v)))]
                   (map (\<lambda>x. El T_option [A ''key'' (theme_code x), A ''value'' (theme_code x)]
                      [Txt (t (''settings.theme_'' @ theme_code x))]) SUPPORTED_THEMES)]]]]"

definition errorsFor :: "settings \<Rightarrow> FormKey \<Rightarrow> settings_msg node list" where
  [view_defs]: "errorsFor s key = (case sg_fieldErrors s key of
      None \<Rightarrow> []
    | Some ms \<Rightarrow> if ms = [] then []
        else [El T_span [Cls ''field-error'', A ''id'' (''error-'' @ key_name key)] (map (\<lambda>x. El T_span [A ''key'' x] [Txt x]) ms)])"

definition invalidProps :: "settings \<Rightarrow> FormKey \<Rightarrow> settings_msg attr list" where
  [view_defs]: "invalidProps s key = (if nullish (sg_fieldErrors s key) [] = [] then []
     else [AB ''aria-invalid'' True, A ''aria-describedby'' (''error-'' @ key_name key)])"

definition settings_field :: "settings \<Rightarrow> FormKey \<Rightarrow> jstring \<Rightarrow> jstring \<Rightarrow> jstring \<Rightarrow> jstring \<Rightarrow> settings_msg node" where
  [view_defs]: "settings_field s key v label placeholder hint =
     El T_label [Cls ''field'']
       ([El T_span [] [Txt label],
         El T_input ([A ''type'' ''text'', A ''value'' v, OnChange (ST_Field key), A ''placeholder'' placeholder, AB ''spellCheck'' False]
           @ invalidProps s key) []]
        @ errorsFor s key @ [El T_small [] [Txt hint]])"

definition settings_card :: "jstring \<Rightarrow> settings_msg node list \<Rightarrow> settings_msg node" where
  [view_defs]: "settings_card title body =
     El T_div [Cls ''settings-card''] [El T_div [Cls ''settings-card-intro''] [El T_h3 [] [Txt title]], El T_div [Cls ''settings-fields''] body]"

definition ttl_field :: "(jstring \<Rightarrow> jstring) \<Rightarrow> settings \<Rightarrow> settings_msg node" where
  [view_defs]: "ttl_field t s =
     El T_label [Cls ''field'']
       ([El T_span [] [Txt (t ''settings.cache_ttl_label'')],
         El T_input ([A ''type'' ''number'', AN ''min'' 0, AN ''max'' 604800, AN ''step'' 1, A ''value'' (cg_cache_upstream_ttl (sg_form s)),
           OnChange (ST_Field K_cache_upstream_ttl)] @ invalidProps s K_cache_upstream_ttl) []]
        @ errorsFor s K_cache_upstream_ttl @ [El T_small [] [Txt (t ''settings.cache_ttl_hint'')]])"

definition logLevelOptions :: "jstring list" where
  "logLevelOptions = [''debug'', ''info'', ''warn'', ''error'']"

definition logging_fields :: "(jstring \<Rightarrow> jstring) \<Rightarrow> settings \<Rightarrow> settings_msg node list" where
  [view_defs]: "logging_fields t s =
     [El T_label [Cls ''check-field'']
        [El T_input [A ''type'' ''checkbox'', AB ''checked'' (cg_query_log_enabled (sg_form s)), OnCheck ST_QueryLog] [],
         El T_span [] [Txt (t ''settings.enable_query_log'')]],
      El T_label [Cls ''field'']
        ([El T_span [] [Txt (t ''settings.log_level'')],
          El T_select ([A ''value'' (cg_log_level (sg_form s)), OnChange (ST_Field K_log_level)] @ invalidProps s K_log_level)
            (map (\<lambda>l. El T_option [A ''key'' l, A ''value'' l] [Txt l]) logLevelOptions)]
         @ errorsFor s K_log_level)]"

definition settings_notice :: "settings_message \<Rightarrow> settings_msg node" where
  [view_defs]: "settings_notice m = (case m of
      SM_error x \<Rightarrow> El T_div [Cls ''notice error'', A ''role'' ''alert''] [Icon ''AlertCircle'' 16, Txt x]
    | SM_success x \<Rightarrow> El T_div [Cls ''notice success'', A ''role'' ''alert''] [Icon ''CheckCircle'' 16, Txt x])"

definition save_bar :: "(jstring \<Rightarrow> jstring) \<Rightarrow> settings \<Rightarrow> settings_msg node" where
  [view_defs]: "save_bar t s =
     El T_div [Cls ''save-bar'']
       ((case sg_message s of None \<Rightarrow> [] | Some m \<Rightarrow> [settings_notice m])
        @ [El T_button [Cls ''button'', OnClick ST_Check, Disabled (sg_saving s)] [Icon ''ListChecks'' 15, Txt (t ''settings.check'')],
           El T_button [Cls ''button primary'', OnClick ST_Save, Disabled (sg_saving s)]
             [Icon ''Save'' 15, Txt (if sg_saving s then t ''settings.saving'' else t ''settings.save_configuration'')]])"

definition configuration_panel :: "(jstring \<Rightarrow> jstring) \<Rightarrow> settings \<Rightarrow> settings_msg node" where
  [view_defs]: "configuration_panel t s =
     (let f = sg_form s in
      El T_section [Cls ''panel'']
       [El T_div [Cls ''panel-heading'']
          [El T_div [] [El T_h2 [] [Txt (t ''settings.server_configuration'')], El T_p [] [Txt (t ''settings.edit_hint'')]]],
        settings_card (t ''settings.dns_section'')
          [settings_field s K_dns_listen (cg_dns_listen f) (t ''settings.dns_listen_label'') ''127.0.0.1:53, [::1]:53'' (t ''settings.dns_listen_warning''),
           settings_field s K_dns_upstreams (cg_dns_upstreams f) (t ''settings.upstreams_label'') ''1.1.1.1:53, 9.9.9.9:53'' (t ''settings.upstreams_hint''),
           settings_field s K_dns_allowed_clients (cg_dns_allowed_clients f) (t ''settings.allowed_clients_label'') ''127.0.0.0/8, ::1/128''
             (t ''settings.allowed_clients_hint'')],
        settings_card (t ''settings.cache_section'') [ttl_field t s],
        settings_card (t ''settings.web_section'')
          [settings_field s K_http_listen (cg_http_listen f) (t ''settings.web_listen_label'') ''127.0.0.1:8080'' (t ''settings.web_listen_warning''),
           settings_field s K_http_allowed_hosts (cg_http_allowed_hosts f) (t ''settings.allowed_hosts_label'') ''localhost, 127.0.0.1, ::1''
             (t ''settings.allowed_hosts_hint'')],
        settings_card (t ''settings.logging_section'') (logging_fields t s),
        save_bar t s])"

text \<open>
  \<open>num\<close> prints a number as JavaScript does, \<open>lnum\<close> and \<open>ldate\<close> in the current language.
\<close>

definition rate_input :: "(jsnum \<Rightarrow> jstring) \<Rightarrow> jstring \<Rightarrow> jsnum \<Rightarrow> (jstring \<Rightarrow> settings_msg) \<Rightarrow> settings_msg node" where
  [view_defs]: "rate_input num label n change =
     El T_label []
       [Txt label,
        El T_input [A ''type'' ''number'', AN ''min'' 1, AN ''max'' 100000,
          A ''value'' (if n = Fin 0 \<or> n = NaN then [] else num n), OnChange change] []]"

definition rate_fieldset :: "(jstring \<Rightarrow> jstring) \<Rightarrow> (jsnum \<Rightarrow> jstring) \<Rightarrow> settings \<Rightarrow> rate_limit_settings \<Rightarrow> settings_msg node" where
  [view_defs]: "rate_fieldset t num s r =
     El T_fieldset [Cls ''rate-limit-fieldset'']
       [El T_div [Cls ''panel-body'']
          [El T_div [Cls ''rate-limit-grid'']
             [El T_label [Cls ''check-row'']
                [El T_input [A ''type'' ''checkbox'', AB ''checked'' (rl_enabled r), OnCheck ST_RateEnabled] [],
                 Txt (t ''settings.rate_limit_enabled'')],
              rate_input num (t ''settings.rate_limit_global_qps'') (rl_global_qps r) ST_RateGlobal,
              rate_input num (t ''settings.rate_limit_client_qps'') (rl_client_qps r) ST_RateClient,
              rate_input num (t ''settings.rate_limit_burst'') (rl_burst r) ST_RateBurst]],
        El T_div [Cls ''save-bar'']
          (render_if (sg_rateLimitError s \<noteq> []) [El T_p [Cls ''notice error'', A ''role'' ''alert''] [Txt (sg_rateLimitError s)]]
           @ render_if (sg_rateLimitSaved s) [El T_p [Cls ''notice success'', A ''role'' ''status''] [Txt (t ''settings.rate_limit_saved'')]]
           @ [El T_button [Cls ''button primary'', OnClick ST_RateSave] [Txt (t ''settings.save'')]])]"

definition rate_badge ::
  "(jstring \<Rightarrow> jstring) \<Rightarrow> (jsnum \<Rightarrow> jstring) \<Rightarrow> (jstring \<Rightarrow> jstring) \<Rightarrow> rate_limit_status \<Rightarrow> settings_msg node" where
  [view_defs]: "rate_badge t lnum ldate st =
     El T_p [A ''role'' ''status'', Cls ''subtle-badge'']
       ([Txt (t ''settings.rate_limit_rejected_total''), Txt '': '', Txt (lnum (rs_rejected_total st))]
        @ (case rs_last_rejected_at st of None \<Rightarrow> [] | Some x \<Rightarrow> render_if (x \<noteq> [])
             [Txt ('' '' @ middot @ '' ''), Txt (t ''settings.rate_limit_last_rejected''), Txt '': '', Txt (ldate x)]))"

definition rate_panel ::
  "(jstring \<Rightarrow> jstring) \<Rightarrow> (jsnum \<Rightarrow> jstring) \<Rightarrow> (jsnum \<Rightarrow> jstring) \<Rightarrow> (jstring \<Rightarrow> jstring) \<Rightarrow> settings \<Rightarrow> settings_msg node" where
  [view_defs]: "rate_panel t num lnum ldate s =
     El T_section [Cls ''panel'']
       ([El T_div [Cls ''panel-heading'']
           ([El T_div [] [El T_h2 [] [Txt (t ''settings.rate_limiting'')], El T_p [] [Txt (t ''settings.rate_limit_hint'')]]]
            @ (case sg_rateLimitStatus s of None \<Rightarrow> [] | Some st \<Rightarrow> [rate_badge t lnum ldate st]))]
        @ (if sg_loadingRateLimit s then [Loading [Txt (t ''settings.rate_limit_loading'')]]
           else (case sg_rateLimit s of
               Some r \<Rightarrow> [rate_fieldset t num s r]
             | None \<Rightarrow> render_if (sg_rateLimitError s \<noteq> [])
                 [El T_p [Cls ''notice error'', A ''role'' ''alert''] [Txt (sg_rateLimitError s)]])))"

definition settings_view ::
  "(language \<Rightarrow> dictionary) \<Rightarrow> (jsnum \<Rightarrow> jstring) \<Rightarrow> (language \<Rightarrow> jsnum \<Rightarrow> jstring) \<Rightarrow> (language \<Rightarrow> jstring \<Rightarrow> jstring) \<Rightarrow>
   settings \<Rightarrow> settings_msg node list" where
  [view_defs]: "settings_view dict num lnum ldate s =
     (let t = makeT dict (sg_language s) in
      [El T_div [Cls ''settings-layout'']
         [preferences_panel t s, configuration_panel t s, rate_panel t num (lnum (sg_language s)) (ldate (sg_language s)) s]])"

section \<open>The page as a machine\<close>

text \<open>
  A continuation uses the translation of the render that started it, so an answer may speak an older
  language. The prop \<open>data\<close> always has the member \<open>query_log\<close> on this page.
\<close>

inductive settings_env :: "(language \<Rightarrow> dictionary) \<Rightarrow> settings \<Rightarrow> settings \<Rightarrow> bool" for dict where
  snapshot_polled: "cf_query_log (sn_config d) \<noteq> None \<Longrightarrow> settings_env dict s (s\<lparr>sg_data := d\<rparr>)"
| provider_moves: "settings_env dict s (settings_prefs e s)"
| rate_loaded: "i < length (sg_rateLoads s) \<Longrightarrow> settings_env dict s (rate_load_settled (makeT dict l) i res s)"
| timer_fires: "sg_timer s \<Longrightarrow> settings_env dict s (status_tick s)"
| status_polled: "i < length (sg_polls s) \<Longrightarrow> settings_env dict s (status_settled i st s)"
| rate_saved: "i < length (sg_rateSaves s) \<Longrightarrow> settings_env dict s (rate_save_settled (makeT dict l) i res s)"
| op_done: "i < length (sg_ops s) \<Longrightarrow> settings_env dict s (settings_op_settled (makeT dict l) i verdict s)"

section \<open>What the form sends\<close>

text \<open>A list entry that survives being shown in the form.\<close>

definition clean_entry :: "jstring \<Rightarrow> bool" where
  "clean_entry w \<longleftrightarrow> w \<noteq> [] \<and> js_trim w = w \<and> CHR '','' \<notin> set w"

text \<open>The four lists of a configuration. The address of the web interface is one text and is sent as it is typed.\<close>

definition config_lists :: "config \<Rightarrow> jstring list list" where
  "config_lists c = [dc_listen (cf_dns c), dc_upstreams (cf_dns c), dc_allowed_clients (cf_dns c), cf_http_allowed_hosts c]"

definition sendable :: "config \<Rightarrow> bool" where
  "sendable c \<longleftrightarrow> 0 \<le> cf_cache_upstream_ttl c \<and> cf_cache_upstream_ttl c \<le> 604800 \<and>
     (\<forall>ws \<in> set (config_lists c). \<forall>w \<in> set ws. clean_entry w)"

lemma parseList_clean: "w \<in> set (parseList v) \<Longrightarrow> clean_entry w"
proof -
  assume "w \<in> set (parseList v)"
  then obtain x where x: "x \<in> set (split_on CHR '','' v)" "w = js_trim x" "w \<noteq> []" by (auto simp: parseList_def)
  then show ?thesis using split_on_no_sep [OF x(1)] set_js_trim [of x] by (auto simp: clean_entry_def)
qed

lemma buildConfig_sendable: "buildConfig c f = Some c' \<Longrightarrow> sendable c'"
proof -
  assume b: "buildConfig c f = Some c'"
  let ?v = "cg_cache_upstream_ttl f"
  have ok: "\<not> ttl_invalid ?v" using b by (auto simp: buildConfig_def split: if_splits)
  then have "0 \<le> int_of (js_Number ?v) \<and> int_of (js_Number ?v) \<le> 604800"
    by (intro num_bounds_int digits_not_negative) (auto simp: ttl_invalid_def Let_def list_all_iff)
  then show ?thesis
    using b parseList_clean by (auto simp: buildConfig_def sendable_def config_lists_def split: if_splits)
qed

lemma ttl_show_int: "0 \<le> n \<Longrightarrow> n \<le> 604800 \<Longrightarrow> \<not> ttl_invalid (show_int n)"
  using js_Number_show_int [of n] show_nat_digits [of _ "nat n"]
  by (auto simp: ttl_invalid_def show_int_def list_all_iff)

lemma buildConfig_initial:
  assumes "sendable c" "initial_form c = Some f"
  shows "buildConfig c f = Some c"
proof -
  obtain q where q: "cf_query_log c = Some q" using assms(2) by (auto simp: initial_form_def split: option.splits)
  have ws: "parseList (js_join '', '' ws) = ws" if "ws \<in> set (config_lists c)" for ws
    unfolding parseList_def using assms(1) that by (intro split_on_join) (auto simp: sendable_def clean_entry_def)
  have lists: "parseList (js_join '', '' (dc_listen (cf_dns c))) = dc_listen (cf_dns c)"
    "parseList (js_join '', '' (dc_upstreams (cf_dns c))) = dc_upstreams (cf_dns c)"
    "parseList (js_join '', '' (dc_allowed_clients (cf_dns c))) = dc_allowed_clients (cf_dns c)"
    "parseList (js_join '', '' (cf_http_allowed_hosts c)) = cf_http_allowed_hosts c"
    by (rule ws, simp add: config_lists_def)+
  have "int_of (js_Number (show_int (cf_cache_upstream_ttl c))) = cf_cache_upstream_ttl c"
    using assms(1) js_Number_show_int [of "cf_cache_upstream_ttl c"] by (simp add: sendable_def)
  moreover have "\<not> ttl_invalid (show_int (cf_cache_upstream_ttl c))"
    using assms(1) by (simp add: sendable_def ttl_show_int)
  ultimately show ?thesis using assms(2) q lists by (auto simp: initial_form_def buildConfig_def)
qed

text \<open>The messages of one input, in the order of the answer.\<close>

definition field_message :: "jstring \<Rightarrow> FormKey \<Rightarrow> field_error \<Rightarrow> jstring option" where
  "field_message entryLabel key item = (case match_field (fe_field item) of
      None \<Rightarrow> None
    | Some (p, index) \<Rightarrow> if map_of FIELD_KEYS p = Some key then Some (field_text entryLabel index (fe_message item)) else None)"

lemma group_fold:
  "nullish (fold (groupFieldErrors_step entryLabel) items out key) [] =
     nullish (out key) [] @ List.map_filter (field_message entryLabel key) items \<and>
   (fold (groupFieldErrors_step entryLabel) items out key = None \<longleftrightarrow>
     out key = None \<and> List.map_filter (field_message entryLabel key) items = [])"
  by (induction items arbitrary: out)
    (auto simp: field_message_def split: option.splits prod.splits)

lemma groupFieldErrors_at:
  "groupFieldErrors items entryLabel key =
     (let ms = List.map_filter (field_message entryLabel key) items in if ms = [] then None else Some ms)"
  using group_fold [of entryLabel items Map.empty key]
  by (cases "groupFieldErrors items entryLabel key") (auto simp: groupFieldErrors_def Let_def)

section \<open>Invariant\<close>

interpretation rate_status: poller sg_polls sg_timer status_effect status_tick status_settled
  by unfold_locales (auto simp: status_effect_def status_tick_def status_settled_def Let_def split: sum.split)

definition settings_guard :: "settings \<Rightarrow> settings_msg \<Rightarrow> bool" where
  "settings_guard s m \<longleftrightarrow> (m = ST_Check \<or> m = ST_Save \<longrightarrow> \<not> sg_saving s)"

lemma errorsFor_ok: "list_all (node_ok P d) (errorsFor s key)"
  by (auto simp: errorsFor_def list_all_map_iff split: option.split)

lemma invalidProps_ok: "list_all (attr_ok P) (invalidProps s key)"
  "list_all (submit_ok P) (invalidProps s key)" "\<not> list_ex disabling (invalidProps s key)"
  by (simp_all add: invalidProps_def)

lemmas settings_parts = errorsFor_ok invalidProps_ok

lemma settings_field_ok: "node_ok (settings_guard s) d (settings_field s' key v label placeholder hint)"
  using settings_parts by (auto simp: settings_field_def settings_guard_def live_def blocked_below_def)

lemma ttl_field_ok: "node_ok (settings_guard s) d (ttl_field t s')"
  using settings_parts by (auto simp: ttl_field_def settings_guard_def live_def blocked_below_def)

lemma logging_fields_ok: "list_all (node_ok (settings_guard s) d) (logging_fields t s')"
  using settings_parts
  by (auto simp: logging_fields_def settings_guard_def live_def blocked_below_def list_all_map_iff)

lemma save_bar_ok: "node_ok (settings_guard s) False (save_bar t s)"
  by (auto simp: save_bar_def settings_notice_def settings_guard_def dom_simps split: option.split settings_message.split)

lemma configuration_ok: "node_ok (settings_guard s) False (configuration_panel t s)"
  using settings_field_ok ttl_field_ok logging_fields_ok [of s False t s] save_bar_ok
  by (simp add: configuration_panel_def settings_card_def Let_def live_def blocked_below_def)

lemma preferences_ok: "node_ok (settings_guard s) False (preferences_panel t s)"
  by (simp add: preferences_panel_def settings_guard_def dom_simps)

lemma rate_panel_ok: "node_ok (settings_guard s) False (rate_panel t num lnum ldate s)"
  by (auto simp: rate_panel_def rate_fieldset_def rate_badge_def rate_input_def Loading_def settings_guard_def dom_simps split: option.split)

lemma settings_view_ok: "nodes_ok (settings_guard s) (settings_view dict num lnum ldate s)"
  using configuration_ok preferences_ok rate_panel_ok by (simp add: settings_view_def Let_def live_def blocked_below_def)

lemmas settings_fired = nodes_okD [OF settings_view_ok]

text \<open>Conversely the buttons work while nothing is being saved.\<close>

lemma settings_save_fires:
  assumes "\<not> sg_saving s"
  shows "ST_Save \<in> fires (settings_view dict num lnum ldate s)"
proof -
  have "Fire ST_Save \<in> set (handlers False (save_bar t s))" for t
    using assms by (simp add: save_bar_def dom_simps)
  then have "Fire ST_Save \<in> set (handlers False (configuration_panel t s))" for t
    by (simp add: configuration_panel_def Let_def blocked_below_def)
  then have "Fire ST_Save \<in> set (handlers False n)" if "n \<in> set (settings_view dict num lnum ldate s)" for n
    using that by (simp add: settings_view_def Let_def blocked_below_def)
  then show ?thesis by (auto simp: fires_def settings_view_def Let_def intro!: bexI [of _ "Fire ST_Save"])
qed

text \<open>A form that is saved unchanged sends the configuration it shows.\<close>

lemma settings_save_unchanged:
  assumes "settings_mount d hp = Some s" "sendable (sn_config d)"
  shows "sg_ops (settings_update dict ST_Save s) = [SaveConfig (sn_config d)]"
proof -
  have "sg_data s = d" "initial_form (sn_config d) = Some (sg_form s)" "sg_ops s = []"
    using assms(1) by (auto simp: settings_mount_def status_effect_def rate_effect_def)
  then show ?thesis using buildConfig_initial [OF assms(2)] by (simp add: handleSave_def submit_config_def)
qed

text \<open>
  The counter is polled without a gap; the rate limit is loading only while a load will answer; a save
  or a check is in flight exactly while the buttons are disabled, and what it sends is sendable.
\<close>

definition settings_inv :: "settings \<Rightarrow> bool" where
  "settings_inv s \<longleftrightarrow> one_poll (sg_polls s) (sg_timer s) \<and>
     live_polls (sg_rateLoads s) \<le> 1 \<and> (sg_loadingRateLimit s \<longrightarrow> live_polls (sg_rateLoads s) = 1) \<and>
     length (sg_ops s) = (if sg_saving s then 1 else 0) \<and> (\<forall>op \<in> set (sg_ops s). sendable (op_config op))"


lemma settings_op_frame:
  "sg_polls (settings_op_settled t i v s) = sg_polls s" "sg_timer (settings_op_settled t i v s) = sg_timer s"
  "sg_rateLoads (settings_op_settled t i v s) = sg_rateLoads s" "sg_loadingRateLimit (settings_op_settled t i v s) = sg_loadingRateLimit s"
  "sg_ops (settings_op_settled t i v s) = remove_nth i (sg_ops s)" "sg_saving (settings_op_settled t i v s) = False"
  by (simp_all add: settings_op_settled_def save_settled_def check_config_settled_def showFieldErrors_def Let_def
      split: settings_op.split sum.split)

lemma settings_inv_op: "settings_inv s \<Longrightarrow> i < length (sg_ops s) \<Longrightarrow> settings_inv (settings_op_settled t i v s)"
  using length_remove_nth [of i "sg_ops s"]
  by (auto simp: settings_inv_def settings_op_frame split: if_splits)

lemma settings_inv_load: "settings_inv s \<Longrightarrow> i < length (sg_rateLoads s) \<Longrightarrow> settings_inv (rate_load_settled t i res s)"
  using live_polls_remove [of i "sg_rateLoads s"]
  by (auto simp: settings_inv_def rate_load_settled_def Let_def split: sum.split)

lemma settings_inv_prefs: "settings_inv s \<Longrightarrow> settings_inv (settings_prefs e s)"
  by (simp add: settings_inv_def settings_prefs_def rate_effect_def sg_language_def Let_def)

lemma settings_env_inv: "settings_inv s \<Longrightarrow> settings_env dict s s' \<Longrightarrow> settings_inv s'"
proof (erule settings_env.cases; hypsubst)
  fix i st
  assume "settings_inv s" "i < length (sg_polls s)"
  then show "settings_inv (status_settled i st s)"
    using rate_status.settled_one [of s i st]
    by (auto simp: settings_inv_def status_settled_def Let_def split: sum.split)
next
  assume "settings_inv s" "sg_timer s"
  then show "settings_inv (status_tick s)"
    using rate_status.tick_one [of s] by (simp add: settings_inv_def status_tick_def)
next
  fix i t and res :: "rate_limit_settings result"
  assume "settings_inv s"
  then show "settings_inv (rate_save_settled (makeT dict t) i res s)"
    by (auto simp: settings_inv_def rate_save_settled_def Let_def split: sum.split)
qed (simp_all add: settings_inv_op settings_inv_load settings_inv_prefs, simp add: settings_inv_def)

lemma submit_config_inv:
  assumes "settings_inv s" "\<not> sg_saving s" "\<And>c. op_config (mk c) = c"
  shows "settings_inv (submit_config t mk s)"
  using assms buildConfig_sendable [of "sn_config (sg_data s)" "sg_form s"]
  by (auto simp: settings_inv_def submit_config_def split: option.split)

lemma settings_update_inv: "settings_inv s \<Longrightarrow> settings_guard s m \<Longrightarrow> settings_inv (settings_update dict m s)"
proof (cases m)
  case ST_RateSave
  assume "settings_inv s"
  then show ?thesis using ST_RateSave by (auto simp: settings_inv_def saveRateLimit_def split: option.split)
qed (auto simp: settings_guard_def handleSave_def handleCheck_def settings_inv_prefs intro!: submit_config_inv,
    auto simp: settings_inv_def handleChange_def edit_rate_def)

lemma settings_mount_inv: "settings_mount d hp = Some s \<Longrightarrow> settings_inv s"
  by (auto simp: settings_mount_def settings_inv_def status_effect_def rate_effect_def one_poll_def)

lemma settings_env_change: "settings_env dict s s' \<Longrightarrow> one_change (sg_ops s) (sg_ops s')"
  by (erule settings_env.cases; hypsubst)
    (auto simp: settings_op_frame settings_prefs_def rate_effect_def rate_load_settled_def status_tick_def status_settled_def
      rate_save_settled_def Let_def split: sum.split)

lemma settings_update_change: "one_change (sg_ops s) (sg_ops (settings_update dict m s))"
  by (cases m)
    (auto simp: settings_prefs_def rate_effect_def handleChange_def handleCheck_def handleSave_def submit_config_def edit_rate_def
      saveRateLimit_def Let_def split: option.split)

interpretation settings: locked_page
  "\<lambda>s. \<exists>d hp. settings_mount d hp = Some s" "settings_view dict num lnum ldate" "settings_update dict" "settings_env dict" settings_inv sg_ops
  for dict num lnum ldate
proof unfold_locales
  show "length (sg_ops s) \<le> 1" if "settings_inv s" for s
    using that by (auto simp: settings_inv_def)
qed (blast intro: settings_mount_inv settings_update_inv settings_env_inv settings_fired settings_update_change settings_env_change)+

end
