(* ===== verification/Query_Log.thy ===== *)
theory Query_Log
  imports Api_Resources Components Snapshot
begin

text \<open>
  \<open>pages/QueryLog.tsx\<close>: filtering and paging through the query log. Each change of the filter
  aborts the load of the previous one; a load is the path it asked for and its abort flag.
\<close>

record log_draft =
  ld_domain :: jstring
  ld_client :: jstring
  ld_type :: jstring
  ld_source :: jstring

record log_filter = log_draft +
  lf_before :: jstring
  lf_revision :: nat

definition log_empty :: log_draft where
  "log_empty = \<lparr>ld_domain = [], ld_client = [], ld_type = [], ld_source = []\<rparr>"

definition SOURCES :: "jstring list" where
  "SOURCES = [''cache'', ''local'', ''upstream'', ''blocked'', ''refused'', ''overload'']"

definition SOURCE_TONES :: "(jstring \<times> badge_tone) list" where
  "SOURCE_TONES = [(''cache'', Tone_info), (''local'', Tone_brand), (''upstream'', Tone_neutral), (''blocked'', Tone_danger),
     (''refused'', Tone_warning), (''overload'', Tone_warning)]"

definition QUERY_TYPES :: "jstring list" where
  "QUERY_TYPES = [''A'', ''AAAA'', ''CNAME'', ''TXT'', ''MX'', ''NS'', ''PTR'', ''SOA'']"

definition query_path :: "log_filter \<Rightarrow> jstring" where
  "query_path f = ''/api/v1/queries?'' @ url_search_params
     [(''domain'', ld_domain f), (''client'', ld_client f), (''type'', ld_type f), (''source'', ld_source f),
      (''before'', lf_before f), (''limit'', ''100'')]"

record query_log =
  ql_entries :: "query_log_entry list option"
  ql_draft :: log_draft
  ql_filter :: log_filter
  ql_loading :: bool
  ql_error :: jstring
  ql_loads :: "(jstring \<times> bool) list"

text \<open>The effect: abort what runs, then ask for the current filter when the log is enabled.\<close>

definition query_log_effect :: "bool \<Rightarrow> query_log \<Rightarrow> query_log" where
  "query_log_effect on s = (let s1 = s\<lparr>ql_loads := abort_requests (ql_loads s)\<rparr> in
     if on then s1\<lparr>ql_loads := ql_loads s1 @ [(query_path (ql_filter s1), False)]\<rparr> else s1)"

definition to_filter :: "log_draft \<Rightarrow> jstring \<Rightarrow> nat \<Rightarrow> log_filter" where
  "to_filter d before revision = log_draft.extend d \<lparr>lf_before = before, lf_revision = revision\<rparr>"

definition query_log_mount :: "bool \<Rightarrow> jstring option \<Rightarrow> query_log" where
  "query_log_mount on client = (let d = log_empty\<lparr>ld_client := nullish client []\<rparr> in
     query_log_effect on \<lparr>ql_entries = None, ql_draft = d, ql_filter = to_filter d [] 0, ql_loading = True, ql_error = [],
       ql_loads = []\<rparr>)"

definition query_log_settled :: "(jstring \<Rightarrow> jstring) \<Rightarrow> nat \<Rightarrow> query_log_entry list result \<Rightarrow> query_log \<Rightarrow> query_log" where
  "query_log_settled t i res s =
     (let (p, aborted) = ql_loads s ! i; s0 = s\<lparr>ql_loads := remove_nth i (ql_loads s)\<rparr> in
      if aborted then s0
      else case res of
        Inr es \<Rightarrow> s0\<lparr>ql_entries := Some es, ql_error := [], ql_loading := False\<rparr>
      | Inl e \<Rightarrow> s0\<lparr>ql_error := error_text e (t ''querylog.load_failed''), ql_loading := False\<rparr>)"

section \<open>Handlers\<close>

definition set_filter :: "log_filter \<Rightarrow> query_log \<Rightarrow> query_log" where
  "set_filter f s = query_log_effect True (s\<lparr>ql_loading := True, ql_filter := f\<rparr>)"

definition query_log_apply :: "query_log \<Rightarrow> query_log" where
  "query_log_apply s = set_filter (to_filter (ql_draft s) [] (lf_revision (ql_filter s) + 1)) s"

definition show_blocked :: "query_log \<Rightarrow> query_log" where
  "show_blocked s = (let blocked = log_empty\<lparr>ld_source := ''blocked''\<rparr> in
     set_filter (to_filter blocked [] (lf_revision (ql_filter s) + 1)) (s\<lparr>ql_draft := blocked\<rparr>))"

definition older :: "query_log_entry list \<Rightarrow> query_log \<Rightarrow> query_log" where
  "older es s = set_filter ((ql_filter s)\<lparr>lf_before := show_int (qe_id (last es)), lf_revision := lf_revision (ql_filter s) + 1\<rparr>) s"

datatype query_log_msg =
    QL_Refresh
  | QL_Submit
  | QL_Blocked
  | QL_Older "query_log_entry list"
  | QL_Domain jstring
  | QL_Client jstring
  | QL_Type jstring
  | QL_Source jstring

fun query_log_update :: "query_log_msg \<Rightarrow> query_log \<Rightarrow> query_log" where
  "query_log_update QL_Refresh s = query_log_apply s"
| "query_log_update QL_Submit s = query_log_apply s"
| "query_log_update QL_Blocked s = show_blocked s"
| "query_log_update (QL_Older es) s = older es s"
| "query_log_update (QL_Domain v) s = s\<lparr>ql_draft := (ql_draft s)\<lparr>ld_domain := v\<rparr>\<rparr>"
| "query_log_update (QL_Client v) s = s\<lparr>ql_draft := (ql_draft s)\<lparr>ld_client := v\<rparr>\<rparr>"
| "query_log_update (QL_Type v) s = s\<lparr>ql_draft := (ql_draft s)\<lparr>ld_type := v\<rparr>\<rparr>"
| "query_log_update (QL_Source v) s = s\<lparr>ql_draft := (ql_draft s)\<lparr>ld_source := v\<rparr>\<rparr>"

section \<open>Rendering\<close>

definition log_unavailable :: "(jstring \<Rightarrow> jstring) \<Rightarrow> query_log_msg node" where
  [view_defs]: "log_unavailable t =
     El T_section [Cls ''panel'', A ''role'' ''status'']
       [EmptyState [Icon ''EyeOff'' 22] (t ''querylog.unavailable_title'') [Txt (t ''querylog.unavailable_text'')] [] False]"

definition log_toolbar :: "(jstring \<Rightarrow> jstring) \<Rightarrow> query_log \<Rightarrow> query_log_msg node" where
  [view_defs]: "log_toolbar t s =
     El T_div [Cls ''zones-toolbar'']
       [El T_span [Cls ''zone-count''] [Txt (t ''querylog.up_to_100'')],
        El T_button [Cls ''button'', Disabled (ql_loading s), OnClick QL_Refresh]
          [Icon ''RefreshCw'' 15, Txt (t ''querylog.refresh'')]]"

definition log_menu :: "jstring \<Rightarrow> jstring \<Rightarrow> (jstring \<Rightarrow> query_log_msg) \<Rightarrow> jstring \<Rightarrow> jstring list \<Rightarrow> query_log_msg node" where
  [view_defs]: "log_menu label v change all_text options =
     El T_label []
       [Txt label,
        El T_select [A ''aria-label'' label, A ''value'' v, OnChange change]
          (El T_option [A ''value'' ''''] [Txt all_text] # map (\<lambda>x. El T_option [A ''key'' x] [Txt x]) options)]"

definition log_form :: "(jstring \<Rightarrow> jstring) \<Rightarrow> query_log \<Rightarrow> query_log_msg node" where
  [view_defs]: "log_form t s =
     (let d = ql_draft s in
      El T_section [Cls ''panel form-panel'']
       [El T_form [Cls ''zone-form'', A ''aria-label'' (t ''querylog.filters_aria''), OnSubmit QL_Submit]
          [El T_div [Cls ''form-grid filters'']
             [El T_label []
                [Txt (t ''querylog.domain''),
                 El T_input [AN ''maxLength'' 253, A ''value'' (ld_domain d), OnChange QL_Domain,
                   A ''placeholder'' (t ''querylog.contains_example'')] []],
              El T_label []
                [Txt (t ''querylog.client_ip''),
                 El T_input [A ''value'' (ld_client d), OnChange QL_Client, A ''placeholder'' (t ''querylog.exact_ip'')] []],
              log_menu (t ''querylog.query_type'') (ld_type d) QL_Type (t ''querylog.all_types'') QUERY_TYPES,
              log_menu (t ''querylog.source'') (ld_source d) QL_Source (t ''querylog.all_sources'') SOURCES],
           El T_div [Cls ''form-actions'']
             [El T_button [Cls ''button primary'', Disabled (ql_loading s)] [Icon ''Filter'' 15, Txt (t ''querylog.apply_filters'')],
              El T_button [Cls ''button'', A ''type'' ''button'', Disabled (ql_loading s), OnClick QL_Blocked]
                [Icon ''ShieldBan'' 15, Txt (t ''querylog.show_blocked'')]]]])"

definition log_row :: "(jstring \<Rightarrow> jstring) \<Rightarrow> query_log_entry \<Rightarrow> query_log_msg node" where
  [view_defs]: "log_row date e =
     El T_tr [A ''key'' (show_int (qe_id e))]
       [El T_td [Cls ''cell-muted''] [Txt (date (qe_occurred_at e))],
        El T_td []
          (if nullish (qe_client_name e) [] \<noteq> [] then
             [El T_Link [A ''to'' (''/clients?name='' @ encodeURIComponent (nullish (qe_client_name e) []))]
                [Txt (nullish (qe_client_name e) [])],
              El T_small [] [El T_code [] [Txt (qe_client_ip e)]]]
           else [El T_code [] [Txt (qe_client_ip e)]]),
        El T_td [Cls ''record-value''] [El T_code [] [Txt (qe_domain e)]],
        El T_td [] [El T_span [Cls (''record-type type-'' @ qe_type e)] [Txt (qe_type e)]],
        El T_td (attr_if (qe_upstream e \<noteq> []) (A ''title'' (qe_upstream e)))
          [Badge (nullish (map_of SOURCE_TONES (qe_source e)) Tone_neutral) False [Txt (qe_source e)]],
        El T_td [] [El T_span [Cls (if qe_rcode e = ''NOERROR'' then ''cell-muted'' else ''danger'')] [Txt (qe_rcode e)]],
        El T_td [Cls ''num mono''] [Txt (to_fixed 2 (fl (of_int (qe_duration e) / 1000000))), Txt '' ms'']]"

definition log_table :: "(jstring \<Rightarrow> jstring) \<Rightarrow> (jstring \<Rightarrow> jstring) \<Rightarrow> query_log \<Rightarrow> query_log_entry list \<Rightarrow> query_log_msg node" where
  [view_defs]: "log_table t date s es =
     El T_section [Cls ''panel'']
       ([El T_div [Cls ''table-wrap'']
          [El T_table [Cls ''records-table'']
             [El T_caption [Cls ''sr-only''] [Txt (t ''querylog.caption'')],
              El T_thead [] [El T_tr []
                [El T_th [] [Txt (t ''querylog.col_timestamp'')], El T_th [] [Txt (t ''querylog.col_client'')],
                 El T_th [] [Txt (t ''querylog.col_domain'')], El T_th [] [Txt (t ''querylog.col_type'')],
                 El T_th [] [Txt (t ''querylog.col_source'')], El T_th [] [Txt (t ''querylog.col_response'')],
                 El T_th [Cls ''num''] [Txt (t ''querylog.col_latency'')]]],
              El T_tbody [] (map (log_row date) es)]]]
        @ render_if (length es = 100)
          [El T_div [Cls ''panel-footer'']
             [El T_span [] [],
              El T_button [Cls ''button'', Disabled (ql_loading s), OnClick (QL_Older es)] [Txt (t ''querylog.older'')]]])"

definition query_log_view :: "(jstring \<Rightarrow> jstring) \<Rightarrow> (jstring \<Rightarrow> jstring) \<Rightarrow> bool \<Rightarrow> query_log \<Rightarrow> query_log_msg node list" where
  [view_defs]: "query_log_view t date on s =
     (if \<not> on then [log_unavailable t]
      else [log_toolbar t s, log_form t s]
        @ render_if (ql_error s \<noteq> [])
           [El T_div [Cls ''notice error'', A ''role'' ''alert''] [Txt (ql_error s), Txt ''. '', Txt (t ''querylog.error_stale'')]]
        @ render_if (ql_loading s) [El T_section [Cls ''panel form-panel''] [Loading [Txt (t ''querylog.loading'')]]]
        @ render_if (ql_entries s = Some [] \<and> ql_error s = [] \<and> \<not> ql_loading s)
           [El T_section [Cls ''panel'']
              [EmptyState [Icon ''SearchX'' 22] (t ''querylog.no_matches'') [Txt (t ''querylog.no_matches_text'')] [] False]]
        @ (case ql_entries s of None \<Rightarrow> [] | Some es \<Rightarrow> render_if (es \<noteq> []) [log_table t date s es]))"

section \<open>The page as a machine\<close>

inductive query_log_env :: "(jstring \<Rightarrow> jstring) \<Rightarrow> bool \<Rightarrow> query_log \<Rightarrow> query_log \<Rightarrow> bool" for t on where
  settled: "i < length (ql_loads s) \<Longrightarrow> query_log_env t on s (query_log_settled t i res s)"
| language_changes: "query_log_env t on s (query_log_effect on s)"

text \<open>Only the newest load is not aborted, and it is for the current filter.\<close>

definition query_log_inv :: "query_log \<Rightarrow> bool" where
  "query_log_inv s \<longleftrightarrow> latest_ok (query_path (ql_filter s)) (ql_loads s)"

lemma query_log_inv_effect: "query_log_inv (query_log_effect on s)"
  by (simp add: query_log_inv_def query_log_effect_def Let_def)

lemma query_log_settled_frame:
  "ql_loads (query_log_settled t i res s) = remove_nth i (ql_loads s)"
  "ql_filter (query_log_settled t i res s) = ql_filter s"
  by (auto simp: query_log_settled_def Let_def split: prod.split sum.split)

lemma query_log_inv_settled: "query_log_inv s \<Longrightarrow> query_log_inv (query_log_settled t i res s)"
  by (simp add: query_log_inv_def query_log_settled_frame latest_ok_remove)

lemma query_log_inv_update: "query_log_inv s \<Longrightarrow> query_log_inv (query_log_update m s)"
  by (cases m) (simp_all add: query_log_apply_def show_blocked_def older_def set_filter_def query_log_inv_effect Let_def,
    simp_all add: query_log_inv_def)

interpretation query_log: single_flight_page
  "\<lambda>s. \<exists>c. s = query_log_mount on c" "query_log_view t date on" query_log_update "query_log_env t on"
  query_log_inv "\<lambda>s. live_requests (ql_loads s)" for t date on
proof unfold_locales
  show "query_log_inv s" if "\<exists>c. s = query_log_mount on c" for s
    using that by (auto simp: query_log_mount_def Let_def query_log_inv_effect)
  show "query_log_inv s'" if "query_log_inv s" "query_log_env t on s s'" for s s'
    using that(2,1) by cases (simp_all add: query_log_inv_settled query_log_inv_effect)
  show "length (live_requests (ql_loads s)) \<le> 1" if "query_log_inv s" for s
    using that unfolding query_log_inv_def by (rule latest_ok_single_live)
qed (rule query_log_inv_update)

lemma query_log_shows_current:
  assumes "query_log_inv s" "i < length (ql_loads s)"
    and "ql_entries (query_log_settled t i res s) \<noteq> ql_entries s"
  shows "fst (ql_loads s ! i) = query_path (ql_filter s)"
proof -
  have "\<not> snd (ql_loads s ! i)"
    using assms(3) by (cases "ql_loads s ! i") (auto simp: query_log_settled_def split: if_splits)
  with assms(1,2) show ?thesis by (simp add: query_log_inv_def latest_ok_nth)
qed

text \<open>The next page keeps the filter and asks for what is older than the last row shown.\<close>

lemma older_request:
  "last (ql_loads (older es s)) = (query_path ((ql_filter s)\<lparr>lf_before := show_int (qe_id (last es))\<rparr>), False)"
  by (simp add: older_def set_filter_def query_log_effect_def query_path_def Let_def)

lemma older_offered:
  "QL_Older es \<in> fires (query_log_view t date on s) \<Longrightarrow> ql_entries s = Some es \<and> length es = 100 \<and> \<not> ql_loading s"
proof -
  let ?P = "\<lambda>m. \<forall>es. m = QL_Older es \<longrightarrow> ql_entries s = Some es \<and> length es = 100 \<and> \<not> ql_loading s"
  have row: "node_ok ?P False (log_row date e)" for e
    by (simp add: log_row_def Badge_def dom_simps)
  have "nodes_ok ?P (query_log_view t date on s)"
    using row by (auto simp: query_log_view_def log_unavailable_def log_toolbar_def log_form_def log_menu_def log_table_def
        Loading_def EmptyState_def dom_simps Let_def split: option.split)
  then show "QL_Older es \<in> fires (query_log_view t date on s) \<Longrightarrow> ?thesis"
    using nodes_okD by fastforce
qed

end
