(* ===== verification/Audit_Log.thy ===== *)
theory Audit_Log
  imports Api_Admin Components Snapshot
begin

text \<open>
  \<open>pages/AuditLog.tsx\<close>: the audit trail with its filters and a button for older entries. A load in flight
  is the filter and the entry before which it asks; no load is ever cancelled.
\<close>

record audit_event =
  ae_id :: int
  ae_occurred_at :: jstring
  ae_actor :: jstring
  ae_role :: jstring
  ae_action :: jstring
  ae_target :: jstring
  ae_result :: jstring
  ae_status_code :: int

record audit_filters =
  af_actor :: jstring
  af_action :: jstring
  af_result :: jstring

record audit_log =
  al_events :: "audit_event list"
  al_actor :: jstring
  al_action :: jstring
  al_result :: jstring
  al_filters :: audit_filters
  al_error :: jstring
  al_loading :: bool
  al_more :: bool
  al_timer :: bool
  al_loads :: "(audit_filters \<times> int) list"

definition audit_path :: "audit_filters \<Rightarrow> int \<Rightarrow> jstring" where
  "audit_path f before = ''/api/v1/audit?'' @ url_search_params
     ([(''limit'', ''50'')]
      @ (if af_actor f \<noteq> [] then [(''actor'', af_actor f)] else [])
      @ (if af_action f \<noteq> [] then [(''action'', af_action f)] else [])
      @ (if af_result f \<noteq> [] then [(''result'', af_result f)] else [])
      @ (if before \<noteq> 0 then [(''before'', show_int before)] else []))"

definition audit_mount :: audit_log where
  "audit_mount = \<lparr>al_events = [], al_actor = [], al_action = [], al_result = [],
     al_filters = \<lparr>af_actor = [], af_action = [], af_result = []\<rparr>, al_error = [], al_loading = False, al_more = False,
     al_timer = True, al_loads = []\<rparr>"

definition audit_load :: "int \<Rightarrow> audit_log \<Rightarrow> audit_log" where
  "audit_load before s = s\<lparr>al_loading := True, al_loads := al_loads s @ [(al_filters s, before)]\<rparr>"

text \<open>The zero-delay timer of the effect; a new filter object or language starts it again.\<close>

definition audit_timer :: "audit_log \<Rightarrow> audit_log" where
  "audit_timer s = (if al_timer s then audit_load 0 (s\<lparr>al_timer := False\<rparr>) else s)"

definition audit_language :: "audit_log \<Rightarrow> audit_log" where
  "audit_language s = s\<lparr>al_timer := True\<rparr>"

definition audit_submit :: "audit_log \<Rightarrow> audit_log" where
  "audit_submit s = s\<lparr>al_filters := \<lparr>af_actor = js_trim (al_actor s), af_action = js_trim (al_action s), af_result = al_result s\<rparr>,
     al_timer := True\<rparr>"

definition audit_settled :: "(jstring \<Rightarrow> jstring) \<Rightarrow> nat \<Rightarrow> audit_event list result \<Rightarrow> audit_log \<Rightarrow> audit_log" where
  "audit_settled t i res s =
     (let before = snd (al_loads s ! i); s0 = s\<lparr>al_loads := remove_nth i (al_loads s)\<rparr> in case res of
        Inr es \<Rightarrow> s0\<lparr>al_events := (if before \<noteq> 0 then al_events s0 @ es else es), al_more := (length es = 50), al_error := [],
           al_loading := False\<rparr>
      | Inl e \<Rightarrow> s0\<lparr>al_error := error_text e (t ''audit.load_failed''), al_loading := False\<rparr>)"

datatype audit_msg = AL_Actor jstring | AL_Action jstring | AL_Result jstring | AL_Submit | AL_More int

fun audit_update :: "audit_msg \<Rightarrow> audit_log \<Rightarrow> audit_log" where
  "audit_update (AL_Actor v) s = s\<lparr>al_actor := v\<rparr>"
| "audit_update (AL_Action v) s = s\<lparr>al_action := v\<rparr>"
| "audit_update (AL_Result v) s = s\<lparr>al_result := v\<rparr>"
| "audit_update AL_Submit s = audit_submit s"
| "audit_update (AL_More n) s = audit_load n s"

section \<open>Rendering\<close>

definition audit_result_text :: "(jstring \<Rightarrow> jstring) \<Rightarrow> audit_event \<Rightarrow> jstring" where
  "audit_result_text t e = js_trim
     ((if ae_result e = ''success'' \<or> ae_result e = ''failure'' then t (''audit.'' @ ae_result e) else ae_result e) @ '' ''
      @ (if ae_status_code e \<noteq> 0 then show_int (ae_status_code e) else []))"

definition audit_row :: "(jstring \<Rightarrow> jstring) \<Rightarrow> (jstring \<Rightarrow> jstring) \<Rightarrow> audit_event \<Rightarrow> audit_msg node" where
  [view_defs]: "audit_row t date e =
     El T_tr [A ''key'' (show_int (ae_id e))]
       [El T_td [Cls ''cell-muted''] [Txt (date (ae_occurred_at e))],
        El T_td [] [Txt (ae_actor e), Txt '' ('', Txt (or_else (ae_role e) emdash), Txt '')''],
        El T_td [] [El T_code [] [Txt (ae_action e)]],
        El T_td [Cls ''wrap''] [El T_code [] [Txt (ae_target e)]],
        El T_td [] [Badge (toneFor (Some (ae_result e))) False [Txt (audit_result_text t e)]]]"

definition audit_form :: "(jstring \<Rightarrow> jstring) \<Rightarrow> audit_log \<Rightarrow> audit_msg node" where
  [view_defs]: "audit_form t s =
     El T_form [OnSubmit AL_Submit, Cls ''zone-form audit-filters'']
       [El T_div [Cls ''form-grid filters'']
          [El T_label [] [Txt (t ''audit.actor''), El T_input [A ''value'' (al_actor s), OnChange AL_Actor] []],
           El T_label [] [Txt (t ''audit.action''), El T_input [A ''value'' (al_action s), OnChange AL_Action] []],
           El T_label []
             [Txt (t ''audit.result''),
              El T_select [A ''value'' (al_result s), OnChange AL_Result]
                [El T_option [A ''value'' ''''] [Txt (t ''audit.all'')],
                 El T_option [A ''value'' ''success''] [Txt (t ''audit.success'')],
                 El T_option [A ''value'' ''failure''] [Txt (t ''audit.failure'')]]],
           El T_div [Cls ''filter-submit'']
             [El T_button [Cls ''button primary'', A ''type'' ''submit''] [Icon ''Filter'' 15, Txt (t ''audit.filter'')]]]]"

text \<open>The button for older entries reads the last entry; with no entry that read would throw.\<close>

definition audit_view :: "(jstring \<Rightarrow> jstring) \<Rightarrow> (jstring \<Rightarrow> jstring) \<Rightarrow> audit_log \<Rightarrow> audit_msg node list" where
  [view_defs]: "audit_view t date s =
     [El T_section [Cls ''panel'']
        ([El T_div [Cls ''panel-heading'']
            [El T_div [] [El T_h2 [] [Txt (t ''audit.title'')], El T_p [] [Txt (t ''audit.hint'')]]],
          audit_form t s]
         @ render_if (al_error s \<noteq> []) [El T_div [Cls ''notice error'', A ''role'' ''alert''] [Txt (al_error s)]]
         @ render_if (al_events s \<noteq> [])
             [El T_div [Cls ''table-wrap''] [El T_table []
                [El T_thead [] [El T_tr []
                   [El T_th [] [Txt (t ''audit.time'')], El T_th [] [Txt (t ''audit.actor'')], El T_th [] [Txt (t ''audit.action'')],
                    El T_th [] [Txt (t ''audit.target'')], El T_th [] [Txt (t ''audit.result'')]]],
                 El T_tbody [] (map (audit_row t date) (al_events s))]]]
         @ render_if (al_events s = [] \<and> \<not> al_loading s) [EmptyState [Icon ''ClipboardList'' 22] (t ''audit.empty'') [] [] True]
         @ render_if (al_more s)
             [El T_div [Cls ''panel-footer'']
                [El T_span [] [],
                 El T_button [Cls ''button'', Disabled (al_loading s), OnClick (AL_More (ae_id (last (al_events s))))]
                   [Txt (t ''audit.more'')]]])]"

section \<open>The page as a machine\<close>

inductive audit_env :: "(jstring \<Rightarrow> jstring) \<Rightarrow> audit_log \<Rightarrow> audit_log \<Rightarrow> bool" for t where
  timer_fires: "audit_env t s (audit_timer s)"
| language_changes: "audit_env t s (audit_language s)"
| load_done: "i < length (al_loads s) \<Longrightarrow> audit_env t s (audit_settled t i res s)"

text \<open>The button for older entries is shown with entries only, so reading the last one never fails.\<close>

definition audit_inv :: "audit_log \<Rightarrow> bool" where
  "audit_inv s \<longleftrightarrow> (al_more s \<longrightarrow> al_events s \<noteq> [])"

lemma audit_env_inv: "audit_inv s \<Longrightarrow> audit_env t s s' \<Longrightarrow> audit_inv s'"
  by (erule audit_env.cases; hypsubst)
    (auto simp: audit_inv_def audit_timer_def audit_load_def audit_language_def audit_settled_def Let_def split: sum.split)

lemma audit_update_inv: "audit_inv s \<Longrightarrow> audit_inv (audit_update m s)"
  by (cases m) (simp_all add: audit_inv_def audit_submit_def audit_load_def)

interpretation audit: page_machine
  "\<lambda>s. s = audit_mount" "audit_view t date" audit_update "audit_env t" audit_inv for t date
proof unfold_locales
  show "audit_inv s" if "s = audit_mount" for s
    using that by (simp add: audit_mount_def audit_inv_def)
qed (blast intro: audit_update_inv audit_env_inv)+

end
