(* ===== verification/Event_Center.thy ===== *)
theory Event_Center
  imports Api_Admin Components Snapshot
begin

text \<open>
  \<open>pages/EventCenter.tsx\<close>: the latest 100 events, reloaded every ten seconds and after one is marked as
  read. Loads carry no signal; the clean-up of the effect clears its timers only. \<open>onRead\<close>, which refreshes
  the frame's counter, is counted.
\<close>

record event_center =
  ec_page :: "system_event_page option"
  ec_error :: jstring
  ec_initial :: bool
  ec_loads :: "bool list"
  ec_marks :: "int list"
  ec_onReads :: nat

definition events_mount :: event_center where
  "events_mount = \<lparr>ec_page = None, ec_error = [], ec_initial = True, ec_loads = [], ec_marks = [], ec_onReads = 0\<rparr>"

text \<open>A load in flight says whether \<open>markRead\<close> awaits it.\<close>

definition events_load :: "bool \<Rightarrow> event_center \<Rightarrow> event_center" where
  "events_load awaited s = s\<lparr>ec_loads := ec_loads s @ [awaited]\<rparr>"

definition events_initial :: "event_center \<Rightarrow> event_center" where
  "events_initial s = (if ec_initial s then events_load False (s\<lparr>ec_initial := False\<rparr>) else s)"

definition events_language :: "event_center \<Rightarrow> event_center" where
  "events_language s = s\<lparr>ec_initial := True\<rparr>"

definition events_load_settled :: "(jstring \<Rightarrow> jstring) \<Rightarrow> nat \<Rightarrow> system_event_page result \<Rightarrow> event_center \<Rightarrow> event_center" where
  "events_load_settled t i res s =
     (let awaited = ec_loads s ! i; s0 = s\<lparr>ec_loads := remove_nth i (ec_loads s)\<rparr>;
          s1 = (case res of Inr p \<Rightarrow> s0\<lparr>ec_page := Some p, ec_error := []\<rparr>
                | Inl e \<Rightarrow> s0\<lparr>ec_error := error_text e (t ''events.load_failed'')\<rparr>)
      in if awaited then s1\<lparr>ec_onReads := ec_onReads s1 + 1\<rparr> else s1)"

definition markRead_call :: "int \<Rightarrow> call" where
  "markRead_call n = send_call (''/api/v1/events/'' @ show_int n @ ''/read'') ''POST'' None"

definition markRead :: "int \<Rightarrow> event_center \<Rightarrow> event_center" where
  "markRead n s = s\<lparr>ec_marks := ec_marks s @ [n]\<rparr>"

definition mark_settled :: "(jstring \<Rightarrow> jstring) \<Rightarrow> nat \<Rightarrow> unit result \<Rightarrow> event_center \<Rightarrow> event_center" where
  "mark_settled t i res s = (let s0 = s\<lparr>ec_marks := remove_nth i (ec_marks s)\<rparr> in case res of
      Inr _ \<Rightarrow> events_load True s0
    | Inl e \<Rightarrow> s0\<lparr>ec_error := error_text e (t ''events.load_failed'')\<rparr>)"

datatype events_msg = EC_Read int

fun events_update :: "events_msg \<Rightarrow> event_center \<Rightarrow> event_center" where
  "events_update (EC_Read n) s = markRead n s"

section \<open>Rendering\<close>

fun severity_icon :: "severity \<Rightarrow> events_msg node" where
  "severity_icon Info = Icon ''Info'' 17"
| "severity_icon Warning = Icon ''AlertTriangle'' 17"
| "severity_icon Critical = Icon ''AlertOctagon'' 17"

fun severity_tone :: "severity \<Rightarrow> badge_tone" where
  "severity_tone Critical = Tone_danger"
| "severity_tone Warning = Tone_warning"
| "severity_tone Info = Tone_info"

definition event_article :: "(jstring \<Rightarrow> jstring) \<Rightarrow> formats \<Rightarrow> system_event \<Rightarrow> events_msg node" where
  [view_defs]: "event_article t fm e =
     El T_article [Cls (''system-event event-'' @ severity_name (ev_severity e) @ (if ev_read e then '' is-read'' else '''')),
         A ''key'' (show_int (ev_id e))]
       [El T_span [Cls ''event-icon'', A ''aria-hidden'' ''true''] [severity_icon (ev_severity e)],
        El T_div [Cls ''system-event-heading'']
          [El T_strong [] [Txt (ev_title e)],
           Badge (severity_tone (ev_severity e)) True
             [El T_span [Cls ''event-severity''] [Txt (t (''events.'' @ severity_name (ev_severity e)))]],
           El T_time [A ''dateTime'' (ev_occurred_at e)] [Txt (fm_date fm (ev_occurred_at e))]],
        El T_p [] [Txt (ev_message e)],
        El T_div [Cls ''system-event-actions'']
          (render_if (1 < ev_repeat_count e) [El T_span [] [Txt (t ''events.repeated''), Txt '': '', Txt (show_int (ev_repeat_count e))]]
           @ render_if (ev_link e \<noteq> []) [El T_Link [A ''to'' (ev_link e)] [Txt (t ''events.open'')]]
           @ render_if (\<not> ev_read e)
               [El T_button [Cls ''button small'', OnClick (EC_Read (ev_id e))] [Icon ''Check'' 14, Txt (t ''events.mark_read'')]])]"

definition events_view :: "(jstring \<Rightarrow> jstring) \<Rightarrow> formats \<Rightarrow> event_center \<Rightarrow> events_msg node list" where
  [view_defs]: "events_view t fm s =
     [El T_section [Cls ''panel'']
        (render_if (ec_error s \<noteq> []) [El T_div [Cls ''notice error'', A ''role'' ''alert''] [Txt (ec_error s)]]
         @ render_if (ec_page s = None \<and> ec_error s = []) [Loading [Txt (t ''app.connecting'')]]
         @ (case ec_page s of None \<Rightarrow> [] | Some p \<Rightarrow>
              if ep_events p = [] then [EmptyState [Icon ''BellOff'' 22] (t ''events.empty'') [] [] False]
              else [El T_div [Cls ''event-list''] (map (event_article t fm) (ep_events p))]))]"

section \<open>The page as a machine\<close>

inductive events_env :: "(jstring \<Rightarrow> jstring) \<Rightarrow> event_center \<Rightarrow> event_center \<Rightarrow> bool" for t where
  initial_fires: "events_env t s (events_initial s)"
| interval_ticks: "events_env t s (events_load False s)"
| language_changes: "events_env t s (events_language s)"
| load_done: "i < length (ec_loads s) \<Longrightarrow> events_env t s (events_load_settled t i res s)"
| mark_done: "i < length (ec_marks s) \<Longrightarrow> events_env t s (mark_settled t i u s)"

lemma severity_icon_ok: "node_ok P False (severity_icon v)"
  by (cases v) (simp_all add: dom_simps)

text \<open>Only events that are shown and unread can be marked.\<close>

lemma events_offered:
  "EC_Read n \<in> fires (events_view t fm s) \<Longrightarrow>
     \<exists>p e. ec_page s = Some p \<and> e \<in> set (ep_events p) \<and> ev_id e = n \<and> \<not> ev_read e"
proof -
  let ?P = "\<lambda>m. \<forall>n. m = EC_Read n \<longrightarrow> (\<exists>p e. ec_page s = Some p \<and> e \<in> set (ep_events p) \<and> ev_id e = n \<and> \<not> ev_read e)"
  have "nodes_ok ?P (events_view t fm s)"
    by (auto simp: events_view_def event_article_def Badge_def Loading_def EmptyState_def severity_icon_ok dom_simps split: option.split)
  then show "EC_Read n \<in> fires (events_view t fm s) \<Longrightarrow> ?thesis" using nodes_okD by fastforce
qed

end
