(* ===== verification/Diagnostics_Page.thy ===== *)
theory Diagnostics_Page
  imports Api_Admin Components Snapshot
begin

text \<open>
  \<open>pages/Diagnostics.tsx\<close> with its child \<open>pages/AnswerExplainer.tsx\<close>: the server's self-report and the
  explanation of a DNS answer step by step.
\<close>

section \<open>Answer explanation\<close>

definition explain_tones :: "(jstring \<times> badge_tone) list" where
  "explain_tones = [(''answered'', Tone_success), (''hit'', Tone_success), (''allowed'', Tone_success), (''blocked'', Tone_danger),
     (''error'', Tone_danger), (''would_forward'', Tone_info)]"

definition explain_tone :: "jstring \<Rightarrow> badge_tone" where
  "explain_tone r = nullish (map_of explain_tones r) Tone_neutral"

definition ruleLabel :: "explain_rule \<Rightarrow> jstring" where
  "ruleLabel r = (if nullish (xr_id r) 0 \<noteq> 0 then xr_name r @ '' (#'' @ show_int (nullish (xr_id r) 0) @ '')'' else xr_name r)
     @ (if nullish (xr_detail r) [] \<noteq> [] then '' '' @ middot @ '' '' @ nullish (xr_detail r) [] else [])"

record explainer =
  ex_name :: jstring
  ex_type :: jstring
  ex_client :: jstring
  ex_busy :: bool
  ex_error :: jstring
  ex_result :: "answer_explanation option"
  ex_calls :: "call list"

definition explainer_mount :: explainer where
  "explainer_mount = \<lparr>ex_name = [], ex_type = ''A'', ex_client = [], ex_busy = False, ex_error = [], ex_result = None, ex_calls = []\<rparr>"

definition explain_submit :: "explainer \<Rightarrow> explainer" where
  "explain_submit s = s\<lparr>ex_busy := True, ex_error := [], ex_calls := ex_calls s @
     [explainAnswer_call (js_trim (ex_name s)) (ex_type s) (if js_trim (ex_client s) = [] then None else Some (js_trim (ex_client s)))]\<rparr>"

definition explain_settled :: "(jstring \<Rightarrow> jstring) \<Rightarrow> nat \<Rightarrow> answer_explanation result \<Rightarrow> explainer \<Rightarrow> explainer" where
  "explain_settled t i res s = (let s0 = s\<lparr>ex_calls := remove_nth i (ex_calls s), ex_busy := False\<rparr> in case res of
      Inr a \<Rightarrow> s0\<lparr>ex_result := Some a\<rparr>
    | Inl e \<Rightarrow> s0\<lparr>ex_result := None, ex_error := error_text e (t ''explain.failed'')\<rparr>)"

datatype explain_msg = EX_Name jstring | EX_Type jstring | EX_Client jstring | EX_Submit

fun explain_update :: "explain_msg \<Rightarrow> explainer \<Rightarrow> explainer" where
  "explain_update (EX_Name v) s = s\<lparr>ex_name := v\<rparr>"
| "explain_update (EX_Type v) s = s\<lparr>ex_type := v\<rparr>"
| "explain_update (EX_Client v) s = s\<lparr>ex_client := v\<rparr>"
| "explain_update EX_Submit s = explain_submit s"

definition filter_details :: "(jstring \<Rightarrow> jstring) \<Rightarrow> explain_filter \<Rightarrow> explain_msg node" where
  [view_defs]: "filter_details t f =
     El T_div [Cls ''cell-muted'']
       ([Txt (if xf_scope f = Scope_client_policy
           then t ''explain.scope.client_policy'' @ '': '' @ nullish (xf_client f) [] @ '' ('' @ nullish (xf_mode f) [] @ '')''
           else t ''explain.scope.global'')]
        @ map (\<lambda>r. Txt ('' '' @ middot @ '' '' @ t ''explain.matches'' @ '': '' @ ruleLabel r)) (nullish (xf_matches f) [])
        @ map (\<lambda>r. Txt ('' '' @ middot @ '' '' @ t ''explain.allowed_by'' @ '': '' @ ruleLabel r)) (nullish (xf_allowed_by f) []))"

definition StepDetails :: "(jstring \<Rightarrow> jstring) \<Rightarrow> explain_step \<Rightarrow> explain_msg node list" where
  [view_defs]: "StepDetails t x =
     map (\<lambda>r. El T_div [A ''key'' (ruleLabel r), Cls ''cell-muted''] [Txt (ruleLabel r)]) (nullish (xs_rules x) [])
     @ (case xs_filter x of None \<Rightarrow> [] | Some f \<Rightarrow> [filter_details t f])
     @ (case xs_remaining_ttl x of None \<Rightarrow> [] | Some n \<Rightarrow>
          [El T_div [Cls ''cell-muted''] [Txt (t ''explain.ttl''), Txt '': '', Txt (show_int n), Txt '' s'']])
     @ render_if (xs_result x = ''would_forward'') [El T_div [Cls ''cell-muted''] [Txt (t ''explain.not_contacted'')]]"

definition hook_arrow :: jstring where
  "hook_arrow = [CHR 0xE2, CHR 0x86, CHR 0xB3]"

definition explain_row :: "(jstring \<Rightarrow> jstring) \<Rightarrow> nat \<times> explain_step \<Rightarrow> explain_msg node" where
  [view_defs]: "explain_row t y = (case y of (index, x) \<Rightarrow>
     El T_tr [A ''key'' (show_nat index)]
       [El T_td [] [El T_strong []
          [Txt (if 0 < xs_depth x then hook_arrow @ '' '' @ t ''explain.cname_target'' @ '' '' @ middot @ '' '' else []),
           Txt (t (''explain.stage.'' @ xs_stage x))]],
        El T_td [] [Badge (explain_tone (xs_result x)) False [Txt (t (''explain.result.'' @ xs_result x))]],
        El T_td [Cls ''wrap''] (StepDetails t x)])"

definition explain_result :: "(jstring \<Rightarrow> jstring) \<Rightarrow> answer_explanation \<Rightarrow> explain_msg node" where
  [view_defs]: "explain_result t a =
     El T_div [Cls ''panel-body'', A ''role'' ''region'', A ''aria-label'' (t ''explain.result'')]
       [El T_p [A ''role'' ''status'', Cls ''diagnostic-summary'']
          [Badge (explain_tone (xs_result (xa_winner a))) False [Txt (t (''explain.source.'' @ xa_source a))],
           El T_strong [] [Txt (t ''explain.winner''), Txt '': '', Txt (t (''explain.stage.'' @ xs_stage (xa_winner a)))]],
        El T_p [Cls ''cell-muted'']
          [Txt (xa_name a), Txt '' '', Txt (xa_type a),
           Txt (if nullish (xa_client a) [] \<noteq> [] then '' '' @ middot @ '' '' @ nullish (xa_client a) [] else []),
           Txt (if nullish (xa_rcode a) [] \<noteq> [] then '' '' @ middot @ '' '' @ nullish (xa_rcode a) [] else [])],
        (if xa_answers a \<noteq> []
         then El T_ul [A ''aria-label'' (t ''explain.answers'')] (map (\<lambda>x. El T_li [A ''key'' x] [El T_code [] [Txt x]]) (xa_answers a))
         else El T_p [Cls ''cell-muted''] [Txt (t ''explain.no_answers'')]),
        El T_div [Cls ''table-wrap''] [El T_table []
          [El T_caption [Cls ''sr-only''] [Txt (t ''explain.steps'')],
           El T_thead [] [El T_tr [] [El T_th [] [Txt (t ''explain.step'')], El T_th [] [Txt (t ''explain.outcome'')],
             El T_th [] [Txt (t ''explain.detail'')]]],
           El T_tbody [] (map (explain_row t) (List.enumerate 0 (xa_steps a)))]]]"

definition explain_form :: "(jstring \<Rightarrow> jstring) \<Rightarrow> explainer \<Rightarrow> explain_msg node" where
  [view_defs]: "explain_form t s =
     El T_form [Cls ''zone-form'', A ''aria-label'' (t ''explain.title''), OnSubmit EX_Submit]
       [El T_fieldset [Disabled (ex_busy s)]
          [El T_div [Cls ''form-grid forward-grid'']
             [El T_label []
                [Txt (t ''explain.name''),
                 El T_input [A ''value'' (ex_name s), OnChange EX_Name, A ''placeholder'' ''nas.home'', AN ''maxLength'' 253,
                   A ''autoComplete'' ''off'', AB ''spellCheck'' False, Flag ''required''] []],
              El T_label []
                [Txt (t ''explain.type''),
                 El T_select [A ''value'' (ex_type s), OnChange EX_Type] (map (\<lambda>x. El T_option [A ''key'' x] [Txt x]) EXPLAIN_TYPES)],
              El T_label []
                [Txt (t ''explain.client''),
                 El T_input [A ''value'' (ex_client s), OnChange EX_Client, A ''placeholder'' ''192.168.1.40'', AN ''maxLength'' 45,
                   A ''autoComplete'' ''off'', AB ''spellCheck'' False] [],
                 El T_small [] [Txt (t ''explain.client_hint'')]]],
           El T_button [Cls ''button primary'', A ''type'' ''submit'']
             [Icon ''Search'' 15, Txt (if ex_busy s then t ''explain.running'' else t ''explain.submit'')]]]"

definition explainer_view :: "(jstring \<Rightarrow> jstring) \<Rightarrow> explainer \<Rightarrow> explain_msg node list" where
  [view_defs]: "explainer_view t s =
     [El T_section [Cls ''panel'']
        ([El T_div [Cls ''panel-heading'']
            [El T_div [] [El T_h2 [] [Txt (t ''explain.title'')], El T_p [] [Txt (t ''explain.hint'')]]],
          explain_form t s]
         @ render_if (ex_error s \<noteq> []) [El T_div [Cls ''notice error'', A ''role'' ''alert''] [Txt (ex_error s)]]
         @ (case ex_result s of None \<Rightarrow> [] | Some a \<Rightarrow> [explain_result t a]))]"

inductive explainer_env :: "(jstring \<Rightarrow> jstring) \<Rightarrow> explainer \<Rightarrow> explainer \<Rightarrow> bool" for t where
  answered: "i < length (ex_calls s) \<Longrightarrow> explainer_env t s (explain_settled t i res s)"

lemma explainer_view_ok: "nodes_ok (\<lambda>m. \<not> ex_busy s) (explainer_view t s)"
  by (auto simp: explainer_view_def explain_form_def explain_result_def explain_row_def StepDetails_def filter_details_def Badge_def
      dom_simps split: option.split)

lemmas explainer_fired = nodes_okD [OF explainer_view_ok]

definition explainer_inv :: "explainer \<Rightarrow> bool" where
  "explainer_inv s \<longleftrightarrow> length (ex_calls s) = (if ex_busy s then 1 else 0)"

lemma explainer_env_inv: "explainer_inv s \<Longrightarrow> explainer_env t s s' \<Longrightarrow> explainer_inv s'"
  by (erule explainer_env.cases; hypsubst)
    (auto simp: explainer_inv_def explain_settled_def Let_def length_Suc_conv split: sum.split if_splits)

lemma explainer_update_inv: "explainer_inv s \<Longrightarrow> \<not> ex_busy s \<Longrightarrow> explainer_inv (explain_update m s)"
  by (cases m) (simp_all add: explainer_inv_def explain_submit_def)

interpretation explainer: locked_page
  "\<lambda>s. s = explainer_mount" "explainer_view t" explain_update "explainer_env t" explainer_inv ex_calls for t
proof unfold_locales
  show "explainer_inv s" if "s = explainer_mount" for s
    using that by (simp add: explainer_mount_def explainer_inv_def)
  show "length (ex_calls s) \<le> 1" if "explainer_inv s" for s
    using that by (auto simp: explainer_inv_def)
  show "explainer_inv (explain_update m s)" if "explainer_inv s" "m \<in> fires (explainer_view t s)" for s m
    using that(1) explainer_fired [OF that(2)] by (rule explainer_update_inv)
  show "one_change (ex_calls s) (ex_calls (explain_update m s))" for s m
    by (cases m) (simp_all add: explain_submit_def)
  show "one_change (ex_calls s) (ex_calls s')" if "explainer_env t s s'" for s s'
    using that by cases (auto simp: explain_settled_def Let_def split: sum.split)
qed (rule explainer_env_inv)

section \<open>Diagnostics\<close>

datatype health = Healthy | Degraded | Failing

fun health_name :: "health \<Rightarrow> jstring" where
  "health_name Healthy = ''healthy''"
| "health_name Degraded = ''degraded''"
| "health_name Failing = ''failed''"

record diagnostic_component =
  dk_name :: jstring
  dk_state :: health
  dk_detail :: jstring

record diagnostic_report =
  dg_generated_at :: jstring
  dg_version :: version_info
  dg_os :: jstring
  dg_architecture :: jstring
  dg_uptime_seconds :: int
  dg_state :: health
  dg_components :: "diagnostic_component list"
  dg_upstream_count :: int
  dg_query_log_enabled :: bool

text \<open>The explainer is on the page with the report; a download is the name of the file.\<close>

record diagnostics =
  di_report :: "diagnostic_report option"
  di_error :: jstring
  di_loads :: "bool list"
  di_downloads :: "jstring list"
  di_explainer :: explainer

definition diagnostics_effect :: "diagnostics \<Rightarrow> diagnostics" where
  "diagnostics_effect s = s\<lparr>di_loads := abort_all (di_loads s) @ [False]\<rparr>"

definition diagnostics_mount :: diagnostics where
  "diagnostics_mount = diagnostics_effect \<lparr>di_report = None, di_error = [], di_loads = [], di_downloads = [], di_explainer = explainer_mount\<rparr>"

definition diagnostics_settled :: "(jstring \<Rightarrow> jstring) \<Rightarrow> nat \<Rightarrow> diagnostic_report result \<Rightarrow> diagnostics \<Rightarrow> diagnostics" where
  "diagnostics_settled t i res s =
     (let aborted = di_loads s ! i; s0 = s\<lparr>di_loads := remove_nth i (di_loads s)\<rparr> in
      if aborted then s0
      else case res of
        Inr r \<Rightarrow> s0\<lparr>di_report := Some r\<rparr>
      | Inl e \<Rightarrow> s0\<lparr>di_error := error_text e (t ''diagnostics.load_failed'')\<rparr>)"

definition diagnostics_download :: "diagnostics \<Rightarrow> diagnostics" where
  "diagnostics_download s = (if di_report s = None then s else s\<lparr>di_downloads := di_downloads s @ [''velora-diagnostics.json'']\<rparr>)"

datatype diagnostics_msg = DI_Download | DI_Explain explain_msg

fun diagnostics_update :: "diagnostics_msg \<Rightarrow> diagnostics \<Rightarrow> diagnostics" where
  "diagnostics_update DI_Download s = diagnostics_download s"
| "diagnostics_update (DI_Explain m) s = s\<lparr>di_explainer := explain_update m (di_explainer s)\<rparr>"

definition component_row :: "(jstring \<Rightarrow> jstring) \<Rightarrow> diagnostic_component \<Rightarrow> diagnostics_msg node" where
  [view_defs]: "component_row t c =
     El T_tr [A ''key'' (dk_name c)]
       [El T_td [] [El T_strong [Cls ''capitalize''] [Txt (map (\<lambda>x. if x = CHR ''_'' then CHR '' '' else x) (dk_name c))]],
        El T_td [] [Badge (toneFor (Some (health_name (dk_state c)))) False [Txt (t (''diagnostics.state.'' @ health_name (dk_state c)))]],
        El T_td [Cls ''wrap cell-muted''] [Txt (dk_detail c)]]"

definition report_summary :: "(jstring \<Rightarrow> jstring) \<Rightarrow> diagnostic_report \<Rightarrow> diagnostics_msg node" where
  [view_defs]: "report_summary t r =
     El T_div [Cls ''version-hero'']
       [El T_span [Cls (''version-icon '' @ (if dg_state r = Healthy then ''success'' else if dg_state r = Failing then ''danger'' else '''')),
            A ''aria-hidden'' ''true''] [Icon ''Activity'' 22],
        El T_div []
          [El T_p [A ''role'' ''status'', Cls ''diagnostic-summary'']
             [Badge (toneFor (Some (health_name (dg_state r)))) False [Txt (t (''diagnostics.state.'' @ health_name (dg_state r)))],
              El T_strong [] [Txt ''Velora DNS '', Txt (vi_version (dg_version r))]],
           El T_span []
             [Txt (t ''diagnostics.upstreams''), Txt '': '', Txt (show_int (dg_upstream_count r)), Txt ('' '' @ middot @ '' ''), Txt (dg_os r),
              Txt ''/'', Txt (dg_architecture r), Txt ('' '' @ middot @ '' ''), Txt (show_int (dg_uptime_seconds r div 3600)), Txt ''h '',
              Txt (show_int (dg_uptime_seconds r div 60 mod 60)), Txt ''m'']]]"

definition diagnostics_view :: "(jstring \<Rightarrow> jstring) \<Rightarrow> diagnostics \<Rightarrow> diagnostics_msg node list" where
  [view_defs]: "diagnostics_view t s =
     (if di_error s \<noteq> [] then [El T_div [Cls ''notice error'', A ''role'' ''alert''] [Txt (di_error s)]]
      else case di_report s of
        None \<Rightarrow> [El T_section [Cls ''panel''] [Loading [Txt (t ''diagnostics.loading'')]]]
      | Some r \<Rightarrow> [El T_div [Cls ''stack'']
          ([El T_section [Cls ''panel'']
              [El T_div [Cls ''panel-heading'']
                 [El T_div [] [El T_h2 [] [Txt (t ''diagnostics.title'')], El T_p [] [Txt (t ''diagnostics.report_hint'')]],
                  El T_button [Cls ''button'', OnClick DI_Download] [Icon ''Download'' 15, Txt (t ''diagnostics.download'')]],
               El T_div [Cls ''panel-body''] [report_summary t r],
               El T_div [Cls ''table-wrap''] [El T_table []
                 [El T_thead [] [El T_tr [] [El T_th [] [Txt (t ''diagnostics.component'')], El T_th [] [Txt (t ''diagnostics.state'')],
                    El T_th [] [Txt (t ''diagnostics.detail'')]]],
                  El T_tbody [] (map (component_row t) (dg_components r))]]]]
           @ map (map_node DI_Explain) (explainer_view t (di_explainer s)))])"

inductive diagnostics_env :: "(jstring \<Rightarrow> jstring) \<Rightarrow> diagnostics \<Rightarrow> diagnostics \<Rightarrow> bool" for t where
  language_changes: "diagnostics_env t s (diagnostics_effect s)"
| load_done: "i < length (di_loads s) \<Longrightarrow> diagnostics_env t s (diagnostics_settled t i res s)"
| explainer_moves: "explainer_env t (di_explainer s) x \<Longrightarrow> diagnostics_env t s (s\<lparr>di_explainer := x\<rparr>)"

text \<open>Once a load has failed the page shows that error for good.\<close>

lemma diagnostics_error_kept:
  "diagnostics_env t s s' \<Longrightarrow> di_error s \<noteq> [] \<Longrightarrow> (\<And>x. error_text x (t ''diagnostics.load_failed'') \<noteq> []) \<Longrightarrow> di_error s' \<noteq> []"
  by (erule diagnostics_env.cases; hypsubst)
    (auto simp: diagnostics_effect_def diagnostics_settled_def Let_def split: sum.split)

end
