(* ===== verification/Charts.thy ===== *)
theory Charts
  imports Js_Number
begin

text \<open>
  The numbers behind the charts of \<open>pages/Dashboard.tsx\<close> and \<open>pages/Analytics.tsx\<close>: the ceiling of an
  axis (the same function in both files), its labels, percentages, and the points of a line. Every
  arithmetic operation of the sources is rounded to double precision.
\<close>

section \<open>Decimal logarithm\<close>

text \<open>\<open>Math.floor(Math.log10(x))\<close> for a positive number, as the exact value.\<close>

fun dec_digits :: "nat \<Rightarrow> nat" where
  "dec_digits n = (if n < 10 then 1 else Suc (dec_digits (n div 10)))"

declare dec_digits.simps [simp del]

text \<open>\<open>Math.floor(Math.log10(r))\<close>, exactly; the source rounds the logarithm to a double first.\<close>

definition floor_log10 :: "rat \<Rightarrow> int" where
  "floor_log10 r = (let (n, d) = quotient_of r; k = int (dec_digits (nat n)) - int (dec_digits (nat d))
     in if pow10 k \<le> r then k else k - 1)"

section \<open>The ceiling of an axis\<close>

definition niceCeiling :: "rat \<Rightarrow> rat" where
  "niceCeiling v = (if v \<le> 0 then 1
     else let magnitude = fl (pow10 (floor_log10 v));
              step = nullish (find (\<lambda>m. fl (m * magnitude) \<ge> v) [1, 2, 5, 10]) 10
          in fl (step * magnitude))"

text \<open>\<open>Math.max(...xs, 0)\<close> and \<open>Math.max(...xs)\<close>, which is minus infinity (\<open>None\<close>) for no numbers.\<close>

definition max0 :: "rat list \<Rightarrow> rat" where
  "max0 xs = fold max xs 0"

definition max_list :: "rat list \<Rightarrow> rat option" where
  "max_list xs = (case xs of [] \<Rightarrow> None | y # ys \<Rightarrow> Some (fold max ys y))"

definition nice_max :: "rat list \<Rightarrow> rat" where
  "nice_max xs = (case max_list xs of None \<Rightarrow> 1 | Some m \<Rightarrow> niceCeiling m)"

definition strip_dot_zero :: "jstring \<Rightarrow> jstring" where
  "strip_dot_zero s = (if ends_with s ''.0'' then take (length s - 2) s else s)"

definition formatAxis :: "rat \<Rightarrow> jstring" where
  "formatAxis v = (if v \<ge> 10 then show_int (math_round v) else strip_dot_zero (to_fixed 1 v))"

section \<open>The line of samples\<close>

text \<open>The height of a value on a chart of height 200.\<close>

definition chart_y :: "rat \<Rightarrow> rat \<Rightarrow> rat" where
  "chart_y ceil v = fl (200 - fl (fl (v / ceil) * 200))"

definition chart_samples :: "rat list \<Rightarrow> rat list" where
  "chart_samples history = (case history of [v] \<Rightarrow> [v, v] | _ \<Rightarrow> history)"

definition chart_coords :: "rat list \<Rightarrow> (rat \<times> rat) list" where
  "chart_coords history = (let samples = chart_samples history; ceil = niceCeiling (max0 history) in
     map (\<lambda>(i, v). (fl (fl (of_nat i / max 1 (of_nat (length samples) - 1)) * 600), chart_y ceil v)) (List.enumerate 0 samples))"

definition point_text :: "rat \<times> rat \<Rightarrow> jstring" where
  "point_text p = to_fixed 1 (fst p) @ '','' @ to_fixed 1 (snd p)"

definition chart_line :: "(rat \<times> rat) list \<Rightarrow> jstring" where
  "chart_line coords = js_join '' '' (map point_text coords)"

definition chart_area :: "(rat \<times> rat) list \<Rightarrow> jstring" where
  "chart_area coords = (if coords = [] then []
     else ''M0,200 L'' @ js_join '' L'' (map point_text coords) @ '' L600,200 Z'')"

section \<open>Shares\<close>

text \<open>\<open>(value * 100).toFixed(1)\<close> with a percent sign, and the share of a whole in percent.\<close>

definition percent_text :: "rat \<Rightarrow> jstring" where
  "percent_text v = to_fixed 1 (fl (v * 100)) @ ''%''"

definition share_percent :: "int \<Rightarrow> int \<Rightarrow> rat" where
  "share_percent part whole = (if whole > 0 then fl (fl (of_int part / of_int whole) * 100) else 0)"

section \<open>Rounding keeps bounds\<close>

lemma quotient_power_bounds:
  fixes r :: rat and c :: nat
  assumes "0 < r" "quotient_of r = (n, d)" "c ^ a \<le> nat n" "nat n < c ^ Suc a" "c ^ b \<le> nat d" "nat d < c ^ Suc b"
  shows "of_nat c ^ a / of_nat c ^ Suc b \<le> r \<and> r < of_nat c ^ Suc a / of_nat c ^ b"
proof -
  have d: "0 < d" using assms(2) by (rule quotient_of_denom_pos)
  have r: "r = of_int n / of_int d" using assms(2) by (rule quotient_of_div)
  then have n: "0 < n" using assms(1) d by (simp add: zero_less_divide_iff)
  have c: "0 < c" using assms(4) by (cases c) auto
  have "of_nat (c ^ a) \<le> (of_nat (nat n) :: rat)" "of_nat (nat n) < (of_nat (c ^ Suc a) :: rat)"
    "of_nat (c ^ b) \<le> (of_nat (nat d) :: rat)" "of_nat (nat d) < (of_nat (c ^ Suc b) :: rat)"
    using assms(3-6) by (simp_all only: of_nat_le_iff of_nat_less_iff)
  then have "of_nat c ^ a \<le> (of_int n :: rat)" "of_int n < (of_nat c ^ Suc a :: rat)"
    "of_nat c ^ b \<le> (of_int d :: rat)" "of_int d < (of_nat c ^ Suc b :: rat)"
    using n d by simp_all
  then have "of_nat c ^ a / of_nat c ^ Suc b \<le> (of_int n / of_int d :: rat)"
    "of_int n / of_int d < (of_nat c ^ Suc a / of_nat c ^ b :: rat)"
    using n d c by (intro frac_le frac_less; simp)+
  then show ?thesis by (simp only: r)
qed

lemma pow2_diff: "pow2 (int i - int j) = 2 ^ i / 2 ^ j"
  by (cases "j \<le> i") (simp_all add: pow2_def power_diff nat_diff_distrib)

lemma floor_log2_bounds:
  assumes "0 < r"
  shows "pow2 (floor_log2 r) \<le> r \<and> r < pow2 (floor_log2 r + 1)"
proof -
  obtain n d where q: "quotient_of r = (n, d)" by (cases "quotient_of r")
  have d: "0 < d" using q by (rule quotient_of_denom_pos)
  have n: "0 < n" using assms d quotient_of_div [OF q] by (simp add: zero_less_divide_iff)
  let ?a = "ilog2 (nat n)" and ?b = "ilog2 (nat d)"
  have "of_nat 2 ^ ?a / of_nat 2 ^ Suc ?b \<le> r \<and> r < of_nat 2 ^ Suc ?a / of_nat 2 ^ ?b"
    using n d by (intro quotient_power_bounds [OF assms q] ilog2_lower ilog2_bound) simp_all
  moreover have "pow2 (int ?a - int ?b - 1) = 2 ^ ?a / 2 ^ Suc ?b" "pow2 (int ?a - int ?b + 1) = 2 ^ Suc ?a / 2 ^ ?b"
    using pow2_diff [of ?a "Suc ?b"] pow2_diff [of "Suc ?a" ?b] by (simp_all add: algebra_simps)
  ultimately show ?thesis by (simp add: floor_log2_def q Let_def not_le)
qed

lemma pow2_mono: "i \<le> j \<Longrightarrow> pow2 i \<le> pow2 j"
proof -
  assume "i \<le> j"
  then have "0 \<le> i + \<bar>i\<bar>" "0 \<le> j + \<bar>i\<bar>" by arith+
  then have "pow2 i = pow2 (int (nat (i + \<bar>i\<bar>)) - int (nat \<bar>i\<bar>))" "pow2 j = pow2 (int (nat (j + \<bar>i\<bar>)) - int (nat \<bar>i\<bar>))"
    by simp_all
  moreover have "(2 :: rat) ^ nat (i + \<bar>i\<bar>) \<le> 2 ^ nat (j + \<bar>i\<bar>)" using \<open>i \<le> j\<close> by (intro power_increasing) auto
  ultimately show ?thesis by (simp only: pow2_diff) (simp add: divide_right_mono)
qed

lemma round_half_even_eq:
  assumes "\<bar>x - of_int m\<bar> < 1 / 2"
  shows "round_half_even x = m"
proof -
  have "\<lfloor>x\<rfloor> = m \<or> \<lfloor>x\<rfloor> = m - 1" using assms by linarith
  then show ?thesis
  proof
    assume f: "\<lfloor>x\<rfloor> = m"
    then have "x - of_int m < 1 / 2" using assms by linarith
    then show ?thesis by (simp add: round_half_even_def f)
  next
    assume f: "\<lfloor>x\<rfloor> = m - 1"
    then have "1 / 2 < x - of_int (m - 1)" using assms by linarith
    then show ?thesis by (simp add: round_half_even_def f)
  qed
qed

text \<open>The value of a rounding, from the binade of the number and the nearest mantissa.\<close>

lemma fl_value:
  assumes "pow2 k \<le> r" "r < pow2 (k + 1)" "- 1022 \<le> k" "\<bar>r / pow2 (k - 52) - of_int m\<bar> < 1 / 2"
  shows "fl r = of_int m * pow2 (k - 52)"
proof -
  have r: "0 < r" using assms(1) pow2_pos [of k] by linarith
  note b = floor_log2_bounds [OF r]
  have "floor_log2 r = k"
  proof (rule antisym)
    show "floor_log2 r \<le> k" using b assms(2) pow2_mono [of "k + 1" "floor_log2 r"] by (rule_tac ccontr) simp
    show "k \<le> floor_log2 r" using b assms(1) pow2_mono [of "floor_log2 r + 1" k] by (rule_tac ccontr) simp
  qed
  moreover have "round_half_even (r / pow2 (k - 52)) = m"
    using assms(4) by (rule round_half_even_eq)
  ultimately show ?thesis using r assms(3) by (simp add: fl_def fl_pos_def Let_def max_def)
qed

lemma round_half_even_le: "x \<le> of_int m \<Longrightarrow> round_half_even x \<le> m"
proof -
  assume x: "x \<le> of_int m"
  then have f: "\<lfloor>x\<rfloor> \<le> m" by (simp add: floor_le_iff)
  show ?thesis
  proof (cases "\<lfloor>x\<rfloor> = m")
    case True
    then have "x = of_int m" using x by linarith
    then show ?thesis by simp
  next
    case False
    then have "\<lfloor>x\<rfloor> + 1 \<le> m" using f by simp
    then show ?thesis by (auto simp: round_half_even_def Let_def)
  qed
qed

text \<open>A number at most a natural number below \<open>2 ^ 53\<close> rounds to one.\<close>

lemma fl_le_nat:
  assumes "0 \<le> r" "r \<le> of_nat n" "n < 2 ^ 53"
  shows "fl r \<le> of_nat n"
proof (cases "r = 0")
  case False
  then have r: "0 < r" using assms(1) by simp
  define e where "e = max (- 1074) (floor_log2 r - 52)"
  have "pow2 (floor_log2 r) < 2 ^ 53"
  proof -
    have "of_nat n < (of_nat (2 ^ 53) :: rat)" using assms(3) by (simp only: of_nat_less_iff)
    then show ?thesis using floor_log2_bounds [OF r] assms(2) by simp
  qed
  then have "floor_log2 r \<le> 52"
  proof (rule contrapos_pp)
    assume "\<not> floor_log2 r \<le> 52"
    then have "53 \<le> nat (floor_log2 r)" "0 \<le> floor_log2 r" by simp_all
    then have "(2 :: rat) ^ 53 \<le> pow2 (floor_log2 r)" using power_increasing [of 53 "nat (floor_log2 r)" "2 :: rat"] by (simp add: pow2_def)
    then show "\<not> pow2 (floor_log2 r) < 2 ^ 53" by simp
  qed
  define k where "k = nat (- e)"
  have "e = - int k" using \<open>floor_log2 r \<le> 52\<close> by (simp add: k_def e_def)
  then have pe: "pow2 e = 1 / 2 ^ k" by (simp add: pow2_def)
  have "r / pow2 e \<le> of_int (int n * 2 ^ k)" using assms(2) by (simp add: pe)
  then have "round_half_even (r / pow2 e) \<le> int n * 2 ^ k" by (rule round_half_even_le)
  then have "of_int (round_half_even (r / pow2 e)) \<le> (of_int (int n * 2 ^ k) :: rat)" by (simp only: of_int_le_iff)
  then have "of_int (round_half_even (r / pow2 e)) * pow2 e \<le> of_nat n" by (simp add: pe pos_divide_le_eq)
  then show ?thesis using r by (simp add: fl_def fl_pos_def Let_def e_def)
qed (simp add: fl_def)

text \<open>A value between zero and the ceiling is drawn inside the chart.\<close>

lemma chart_y_bounds:
  assumes "0 \<le> v" "v \<le> ceil" "0 < ceil"
  shows "0 \<le> chart_y ceil v \<and> chart_y ceil v \<le> 200"
proof -
  have 1: "0 \<le> fl (v / ceil)" "fl (v / ceil) \<le> 1"
    using assms fl_le_nat [of "v / ceil" 1] by (simp_all add: fl_nonneg)
  then have 2: "0 \<le> fl (fl (v / ceil) * 200)" "fl (fl (v / ceil) * 200) \<le> 200"
    using fl_le_nat [of "fl (v / ceil) * 200" 200] by (simp_all add: fl_nonneg)
  then show ?thesis using fl_le_nat [of "200 - fl (fl (v / ceil) * 200)" 200] by (simp add: chart_y_def fl_nonneg)
qed

lemma fold_max_ge: "(x \<in> set xs \<longrightarrow> x \<le> fold max xs a) \<and> a \<le> fold max xs (a :: rat)"
proof (induction xs arbitrary: a)
  case (Cons y ys)
  have "y \<le> max y a" "a \<le> max y a" by simp_all
  moreover have "max y a \<le> fold max ys (max y a)" using Cons.IH by blast
  ultimately show ?case using Cons.IH [of "max y a"] by (auto intro: order_trans)
qed simp

lemma max0_cases: "max0 xs = 0 \<or> max0 xs \<in> set xs"
proof -
  have "fold max xs a = a \<or> fold max xs a \<in> set xs" for a :: rat
    by (induction xs arbitrary: a) (auto simp: max_def)
  then show ?thesis by (simp add: max0_def)
qed

lemma max0_ge: "v \<in> set xs \<Longrightarrow> v \<le> max0 xs"
  using fold_max_ge by (auto simp: max0_def)


section \<open>The ceiling is a ceiling\<close>

lemma dec_digits_bounds: "0 < n \<Longrightarrow> 10 ^ (dec_digits n - 1) \<le> n \<and> n < 10 ^ dec_digits n \<and> 0 < dec_digits n"
proof (induction n rule: dec_digits.induct)
  case (1 n)
  show ?case
  proof (cases "n < 10")
    case True
    then show ?thesis using "1.prems" by (simp add: dec_digits.simps [of n])
  next
    case False
    then have ih: "10 ^ (dec_digits (n div 10) - 1) \<le> n div 10" "n div 10 < 10 ^ dec_digits (n div 10)" "0 < dec_digits (n div 10)"
      using "1.IH" by simp_all
    obtain k where k: "dec_digits (n div 10) = Suc k" using ih(3) by (cases "dec_digits (n div 10)") simp_all
    have "10 * 10 ^ k \<le> n" "n < 10 * 10 ^ Suc k" using ih(1,2) unfolding k by (simp_all add: div_less_iff_less_mult)
    then show ?thesis using False k by (simp add: dec_digits.simps [of n])
  qed
qed

lemma pow10_diff: "pow10 (int i - int j) = 10 ^ i / 10 ^ j"
  by (cases "j \<le> i") (simp_all add: pow10_def power_diff nat_diff_distrib)

lemma floor_log10_bounds:
  assumes "0 < r"
  shows "pow10 (floor_log10 r) \<le> r \<and> r < pow10 (floor_log10 r + 1)"
proof -
  obtain n d where q: "quotient_of r = (n, d)" by (cases "quotient_of r")
  have d: "0 < d" using q by (rule quotient_of_denom_pos)
  have n: "0 < n" using assms d quotient_of_div [OF q] by (simp add: zero_less_divide_iff)
  obtain a where a: "dec_digits (nat n) = Suc a" "10 ^ a \<le> nat n" "nat n < 10 ^ Suc a"
    using dec_digits_bounds [of "nat n"] n by (cases "dec_digits (nat n)") simp_all
  obtain b where b: "dec_digits (nat d) = Suc b" "10 ^ b \<le> nat d" "nat d < 10 ^ Suc b"
    using dec_digits_bounds [of "nat d"] d by (cases "dec_digits (nat d)") simp_all
  have "of_nat 10 ^ a / of_nat 10 ^ Suc b \<le> r \<and> r < of_nat 10 ^ Suc a / of_nat 10 ^ b"
    using assms q a(2,3) b(2,3) by (rule quotient_power_bounds)
  moreover have "pow10 (int a - int b - 1) = 10 ^ a / 10 ^ Suc b" "pow10 (int a - int b + 1) = 10 ^ Suc a / 10 ^ b"
    using pow10_diff [of a "Suc b"] pow10_diff [of "Suc a" b] by (simp_all add: algebra_simps)
  ultimately show ?thesis by (simp add: floor_log10_def q a(1) b(1) Let_def not_le)
qed

lemma pow10_mono: "i \<le> j \<Longrightarrow> pow10 i \<le> pow10 j"
proof -
  assume "i \<le> j"
  then have "0 \<le> i + \<bar>i\<bar>" "0 \<le> j + \<bar>i\<bar>" by arith+
  then have "pow10 i = pow10 (int (nat (i + \<bar>i\<bar>)) - int (nat \<bar>i\<bar>))" "pow10 j = pow10 (int (nat (j + \<bar>i\<bar>)) - int (nat \<bar>i\<bar>))"
    by simp_all
  moreover have "(10 :: rat) ^ nat (i + \<bar>i\<bar>) \<le> 10 ^ nat (j + \<bar>i\<bar>)" using \<open>i \<le> j\<close> by (intro power_increasing) auto
  ultimately show ?thesis by (simp only: pow10_diff) (simp add: divide_right_mono)
qed

lemma fl_nat: "n < 2 ^ 53 \<Longrightarrow> fl (of_nat n) = of_nat n"
  using fl_pos_int [of n] by (cases "n = 0") (simp_all add: fl_def)

text \<open>One decimal digit more than the value needs: exact above 1, by computation down to a ten-thousandth.\<close>

lemma ten_magnitudes_small:
  "1 \<le> fl (10 * fl (1 / 10))" "1 / 10 \<le> fl (10 * fl (1 / 100))" "1 / 100 \<le> fl (10 * fl (1 / 1000))" "1 / 1000 \<le> fl (10 * fl (1 / 10000))"
proof -
  have a1: "fl (1 / 10) = of_int 7205759403792794 * pow2 (-4 - 52)" by (rule fl_value) (simp_all add: pow2_def)
  have b1: "fl (10 * (of_int 7205759403792794 * pow2 (-4 - 52))) = of_int 4503599627370496 * pow2 (0 - 52)"
    by (rule fl_value) (simp_all add: pow2_def)
  show "1 \<le> fl (10 * fl (1 / 10))" by (simp only: a1 b1) (simp add: pow2_def)
  have a2: "fl (1 / 100) = of_int 5764607523034235 * pow2 (-7 - 52)" by (rule fl_value) (simp_all add: pow2_def)
  have b2: "fl (10 * (of_int 5764607523034235 * pow2 (-7 - 52))) = of_int 7205759403792794 * pow2 (-4 - 52)"
    by (rule fl_value) (simp_all add: pow2_def)
  show "1 / 10 \<le> fl (10 * fl (1 / 100))" by (simp only: a2 b2) (simp add: pow2_def)
  have a3: "fl (1 / 1000) = of_int 4611686018427388 * pow2 (-10 - 52)" by (rule fl_value) (simp_all add: pow2_def)
  have b3: "fl (10 * (of_int 4611686018427388 * pow2 (-10 - 52))) = of_int 5764607523034235 * pow2 (-7 - 52)"
    by (rule fl_value) (simp_all add: pow2_def)
  show "1 / 100 \<le> fl (10 * fl (1 / 1000))" by (simp only: a3 b3) (simp add: pow2_def)
  have a4: "fl (1 / 10000) = of_int 7378697629483821 * pow2 (-14 - 52)" by (rule fl_value) (simp_all add: pow2_def)
  have b4: "fl (10 * (of_int 7378697629483821 * pow2 (-14 - 52))) = of_int 4611686018427388 * pow2 (-10 - 52)"
    by (rule fl_value) (simp_all add: pow2_def)
  show "1 / 1000 \<le> fl (10 * fl (1 / 10000))" by (simp only: a4 b4) (simp add: pow2_def)
qed

lemma ten_magnitudes:
  assumes "1 / 10000 \<le> v" "v < 10 ^ 15"
  shows "v \<le> fl (10 * fl (pow10 (floor_log10 v)))"
proof -
  define k where "k = floor_log10 v"
  have b: "pow10 k \<le> v" "v < pow10 (k + 1)" using floor_log10_bounds [of v] assms(1) by (simp_all add: k_def)
  have k1: "k < 15" using b(1) assms(2) pow10_mono [of 15 k] by (rule_tac ccontr) (simp add: pow10_def)
  have "pow10 (- 4) < pow10 (k + 1)" using b(2) assms(1) by (simp add: pow10_def)
  then have k0: "- 5 < k" using pow10_mono [of "k + 1" "- 4"] by (rule_tac ccontr) simp
  show ?thesis
  proof (cases "0 \<le> k")
    case True
    define m where "m = nat k"
    have m: "m < 15" "k = int m" using True k1 by (simp_all add: m_def)
    have le: "10 ^ Suc m \<le> (10 ^ 15 :: nat)" using m(1) by (intro power_increasing) simp_all
    then have "fl (of_nat (10 ^ m)) = of_nat (10 ^ m)" "fl (of_nat (10 ^ Suc m)) = of_nat (10 ^ Suc m)"
      by (intro fl_nat; simp)+
    then have "fl (10 * fl (pow10 k)) = 10 ^ Suc m" by (simp add: m(2) pow10_def)
    also have "\<dots> = pow10 (k + 1)" by (simp add: m(2) pow10_def nat_add_distrib)
    finally show ?thesis using b(2) by (simp add: k_def)
  next
    case False
    then have "k = - 1 \<or> k = - 2 \<or> k = - 3 \<or> k = - 4" using k0 by presburger
    then have "pow10 (k + 1) \<le> fl (10 * fl (pow10 k))" using ten_magnitudes_small by (elim disjE) (simp_all add: pow10_def)
    then show ?thesis using b(2) by (simp add: k_def)
  qed
qed

lemma niceCeiling_ge:
  assumes "v \<le> 0 \<or> 1 / 10000 \<le> v" "v < 10 ^ 15"
  shows "v \<le> niceCeiling v \<and> 0 < niceCeiling v"
proof (cases "v \<le> 0")
  case False
  then have "v \<le> fl (10 * fl (pow10 (floor_log10 v)))" using assms by (intro ten_magnitudes) auto
  then show ?thesis using False by (auto simp: niceCeiling_def Let_def)
qed (simp add: niceCeiling_def)

text \<open>The line of the dashboard stays inside its box.\<close>

lemma chart_coords_inside:
  assumes "\<forall>v \<in> set history. 0 \<le> v \<and> v < 10 ^ 15" "max0 history = 0 \<or> 1 / 10000 \<le> max0 history" "max0 history < 10 ^ 15"
    and "(x, y) \<in> set (chart_coords history)"
  shows "0 \<le> x \<and> x \<le> 600 \<and> 0 \<le> y \<and> y \<le> 200"
proof -
  let ?s = "chart_samples history"
  obtain i v where iv: "i < length ?s" "v = ?s ! i" "y = chart_y (niceCeiling (max0 history)) v"
    "x = fl (fl (of_nat i / max 1 (of_nat (length ?s) - 1)) * 600)"
    using assms(4) by (auto simp: chart_coords_def Let_def in_set_enumerate_eq)
  have "v \<in> set history"
    using nth_mem [OF iv(1)] iv(2) by (auto simp: chart_samples_def split: list.splits)
  then have "0 \<le> y \<and> y \<le> 200"
    using iv(3) assms(1-3) niceCeiling_ge [of "max0 history"] max0_ge [of v history] chart_y_bounds [of v "niceCeiling (max0 history)"] by auto
  moreover have "of_nat i \<le> max 1 (of_nat (length ?s) - 1 :: rat)"
    using iv(1) by (cases "length ?s") (auto simp: le_max_iff_disj)
  then have "of_nat i / max 1 (of_nat (length ?s) - 1 :: rat) \<le> 1" by (auto simp: divide_le_eq_1 less_max_iff_disj)
  then have "0 \<le> fl (of_nat i / max 1 (of_nat (length ?s) - 1)) \<and> fl (of_nat i / max 1 (of_nat (length ?s) - 1)) \<le> 1"
    using fl_le_nat [of "of_nat i / max 1 (of_nat (length ?s) - 1)" 1] by (simp add: fl_nonneg)
  then have "0 \<le> x \<and> x \<le> 600"
    using iv(4) fl_le_nat [of "fl (of_nat i / max 1 (of_nat (length ?s) - 1)) * 600" 600] by (simp add: fl_nonneg)
  ultimately show ?thesis by blast
qed

end
