(* ===== verification/Dashboard_Page.thy ===== *)
theory Dashboard_Page
  imports Api_Admin Charts Components Snapshot
begin

text \<open>
  \<open>pages/Dashboard.tsx\<close>: counters, the chart of recent samples, rankings of the last day, the health of
  the upstream servers, and the reset of the statistics. The onboarding checklist (\<open>Snapshot\<close>) is mounted
  inside and part of the state. The snapshot, the samples and the logging switch are props that change while
  the page is mounted; every snapshot carries a new date, so it runs the effect that loads the rankings.
\<close>

datatype upstream_state = US_unknown | US_healthy | US_degraded | US_unavailable

fun upstream_state_name :: "upstream_state \<Rightarrow> jstring" where
  "upstream_state_name US_unknown = ''unknown''"
| "upstream_state_name US_healthy = ''healthy''"
| "upstream_state_name US_degraded = ''degraded''"
| "upstream_state_name US_unavailable = ''unavailable''"

record upstream_health =
  uh_address :: jstring
  uh_state :: upstream_state
  uh_consecutive_failures :: int
  uh_latency_milliseconds :: rat

record dashboard =
  db_data :: snapshot
  db_history :: "rat list"
  db_logging :: bool
  db_onboarding :: onboarding
  db_querySummary :: "query_summary option"
  db_summaryError :: jstring
  db_upstreamHealth :: "upstream_health list"
  db_resetError :: jstring
  db_resetting :: bool
  db_polls :: "bool list"
  db_timer :: bool
  db_loads :: "bool list"
  db_resets :: "call list"
  db_refreshes :: nat

definition health_effect :: "dashboard \<Rightarrow> dashboard" where
  "health_effect s = s\<lparr>db_polls := abort_all (db_polls s) @ [False], db_timer := False\<rparr>"

definition summary_effect :: "dashboard \<Rightarrow> dashboard" where
  "summary_effect s = s\<lparr>db_loads := abort_all (db_loads s) @ (if db_logging s then [False] else [])\<rparr>"

definition summary_call :: call where
  "summary_call = get_call ''/api/v1/query-stats?window=24h&limit=10''"

definition health_call :: call where
  "health_call = get_call ''/api/v1/upstreams/health''"

definition dashboard_mount :: "snapshot \<Rightarrow> rat list \<Rightarrow> bool \<Rightarrow> storage \<Rightarrow> dashboard" where
  "dashboard_mount d history logging st = summary_effect (health_effect \<lparr>db_data = d, db_history = history, db_logging = logging,
     db_onboarding = onboarding_effect (onboarding_initial st), db_querySummary = None, db_summaryError = [], db_upstreamHealth = [],
     db_resetError = [], db_resetting = False, db_polls = [], db_timer = False, db_loads = [], db_resets = [], db_refreshes = 0\<rparr>)"

definition dashboard_props :: "snapshot \<Rightarrow> rat list \<Rightarrow> bool \<Rightarrow> dashboard \<Rightarrow> dashboard" where
  "dashboard_props d history logging s = summary_effect (s\<lparr>db_data := d, db_history := history, db_logging := logging\<rparr>)"

definition health_tick :: "dashboard \<Rightarrow> dashboard" where
  "health_tick s = s\<lparr>db_timer := False, db_polls := db_polls s @ [False]\<rparr>"

text \<open>The answer is checked to be an array (\<open>None\<close>: it is not).\<close>

definition health_settled :: "nat \<Rightarrow> upstream_health list option result \<Rightarrow> dashboard \<Rightarrow> dashboard" where
  "health_settled i res s =
     (let aborted = db_polls s ! i; s0 = s\<lparr>db_polls := remove_nth i (db_polls s)\<rparr> in
      if aborted then s0
      else (case res of
          Inr (Some hs) \<Rightarrow> s0\<lparr>db_upstreamHealth := hs\<rparr>
        | Inr None \<Rightarrow> s0
        | Inl e \<Rightarrow> s0\<lparr>db_upstreamHealth := []\<rparr>)\<lparr>db_timer := True\<rparr>)"

definition summary_settled :: "(jstring \<Rightarrow> jstring) \<Rightarrow> nat \<Rightarrow> query_summary result \<Rightarrow> dashboard \<Rightarrow> dashboard" where
  "summary_settled t i res s =
     (let aborted = db_loads s ! i; s0 = s\<lparr>db_loads := remove_nth i (db_loads s)\<rparr> in
      if aborted then s0
      else case res of
          Inr q \<Rightarrow> s0\<lparr>db_querySummary := Some q, db_summaryError := []\<rparr>
        | Inl e \<Rightarrow> s0\<lparr>db_summaryError := error_text e (t ''dashboard.stats_load_failed'')\<rparr>)"

definition reset_call :: call where
  "reset_call = send_call ''/api/v1/stats/reset'' ''POST'' None"

definition resetStatistics :: "dashboard \<Rightarrow> dashboard" where
  "resetStatistics s = s\<lparr>db_resetting := True, db_resetError := [], db_resets := db_resets s @ [reset_call]\<rparr>"

definition reset_settled :: "(jstring \<Rightarrow> jstring) \<Rightarrow> nat \<Rightarrow> unit result \<Rightarrow> dashboard \<Rightarrow> dashboard" where
  "reset_settled t i res s = (let s0 = s\<lparr>db_resets := remove_nth i (db_resets s)\<rparr> in
     (case res of
        Inr _ \<Rightarrow> s0\<lparr>db_refreshes := db_refreshes s0 + 1\<rparr>
      | Inl e \<Rightarrow> s0\<lparr>db_resetError := error_text e (t ''dashboard.reset_failed'')\<rparr>)\<lparr>db_resetting := False\<rparr>)"

datatype dashboard_msg = DB_Reset | DB_Onboarding onboarding_msg

fun dashboard_update :: "dashboard_msg \<Rightarrow> dashboard \<Rightarrow> dashboard" where
  "dashboard_update DB_Reset s = resetStatistics s"
| "dashboard_update (DB_Onboarding Dismiss) s = s\<lparr>db_onboarding := handleDismiss (db_onboarding s)\<rparr>"

section \<open>Rendering\<close>

definition uptime_text :: "int \<Rightarrow> jstring" where
  "uptime_text seconds = (let hours = seconds div 3600 in
     if hours \<ge> 48 then show_int (hours div 24) @ ''d '' @ show_int (hours mod 24) @ ''h''
     else show_int hours @ ''h '' @ show_int (seconds div 60 mod 60) @ ''m'')"

definition blocked_share :: "stats \<Rightarrow> rat" where
  "blocked_share x = (if sx_queries_total x > 0 then fl (of_int (sx_blocked_queries x) / of_int (sx_queries_total x)) else 0)"

text \<open>\<open>dbl\<close> prints a number as JavaScript does.\<close>

definition dashboard_stats :: "(jstring \<Rightarrow> jstring) \<Rightarrow> formats \<Rightarrow> (rat \<Rightarrow> jstring) \<Rightarrow> snapshot \<Rightarrow> dashboard_msg node" where
  [view_defs]: "dashboard_stats t fm dbl d =
     (let x = sn_stats d; share = blocked_share x in
      El T_div [Cls ''stats'']
        [Stat dbl (t ''dashboard.total_queries'') (fm_number fm (sx_queries_total x)) (Some (t ''dashboard.since_start'')) None None Stat_info,
         Stat dbl (t ''dashboard.blocked'') (fm_number fm (sx_blocked_queries x))
           (Some (percent_text share @ '' '' @ t ''dashboard.of_all_queries'')) (Some (percent_text share)) (Some share) Stat_danger,
         Stat dbl (t ''dashboard.cache_hit_rate'') (percent_text (sx_cache_hit_rate x))
           (Some (fm_number fm (ca_hits (sn_cache d)) @ '' '' @ t ''dashboard.answers_from_memory'')) None (Some (sx_cache_hit_rate x)) Stat_success,
         Stat dbl (t ''dashboard.qps'') (to_fixed 2 (sx_queries_per_second x)) (Some (t ''dashboard.rolling_avg'')) None None Stat_warning])"

definition activity_panel :: "(jstring \<Rightarrow> jstring) \<Rightarrow> rat list \<Rightarrow> dashboard_msg node" where
  [view_defs]: "activity_panel t history =
     (let ceil = niceCeiling (max0 history); coords = chart_coords history; line = chart_line coords; area = chart_area coords in
      El T_section [Cls ''panel'']
        [El T_div [Cls ''panel-heading'']
           [El T_h2 [] [Txt (t ''dashboard.query_activity'')], El T_span [Cls ''subtle-badge''] [Txt (t ''dashboard.refresh_5s'')]],
         El T_div [Cls ''chart-wrap'']
           ([El T_div [Cls ''chart-axis'', A ''aria-hidden'' ''true'']
               [El T_span [] [Txt (formatAxis ceil)], El T_span [] [Txt (formatAxis (fl (ceil / 2)))], El T_span [] [Txt ''0'']],
             El T_svg [Cls ''chart'', A ''viewBox'' ''0 0 600 200'', A ''preserveAspectRatio'' ''none'', A ''role'' ''img'',
                 A ''aria-label'' (t ''dashboard.chart_aria'')]
               ([El T_path [A ''d'' ''M0 0.5H600 M0 100H600 M0 199.5H600'', Cls ''chart-grid''] []]
                @ render_if (area \<noteq> []) [El T_path [A ''d'' area, Cls ''chart-area''] []]
                @ render_if (line \<noteq> []) [El T_polyline [A ''points'' line, Cls ''chart-line''] []])]
            @ render_if (length history < 2) [El T_div [Cls ''chart-empty''] [Txt (t ''dashboard.collecting_samples'')]]),
         El T_div [Cls ''chart-footer'']
           [El T_span [] [Txt (t ''dashboard.session_samples''), Txt ('' '' @ middot @ '' ''), Txt (show_nat (length history)), Txt '' / 30''],
            El T_span [] [Txt (t ''dashboard.now'')]]])"

definition kv_row :: "jstring \<Rightarrow> jstring list \<Rightarrow> dashboard_msg node" where
  [view_defs]: "kv_row label texts = El T_tr [] [El T_td [] [Txt label], El T_td [] (map Txt texts)]"

definition general_panel :: "(jstring \<Rightarrow> jstring) \<Rightarrow> formats \<Rightarrow> bool \<Rightarrow> bool \<Rightarrow> dashboard \<Rightarrow> dashboard_msg node" where
  [view_defs]: "general_panel t fm ro has_refresh s =
     (let c = sn_cache (db_data s) in
      El T_section [Cls ''panel'']
        [El T_div [Cls ''panel-heading'']
           ([El T_h2 [] [Txt (t ''dashboard.general_statistics'')]]
            @ render_if (\<not> ro \<and> has_refresh)
                [El T_button [Cls ''button small'', Disabled (db_resetting s), OnConfirm (t ''dashboard.reset_confirm'') DB_Reset]
                   [Icon ''RotateCcw'' 14, Txt (t ''dashboard.reset_statistics'')]]),
         El T_table [Cls ''kv-table'']
           [El T_tbody []
              [kv_row (t ''dashboard.uptime'') [uptime_text (st_uptime_seconds (sn_status (db_data s)))],
               kv_row (t ''cache.live_entries'') [fm_number fm (ca_entries c), '' / '', fm_number fm (ca_capacity c)],
               kv_row (t ''cache.hits'') [fm_number fm (ca_hits c)],
               kv_row (t ''cache.misses'') [fm_number fm (ca_misses c)],
               kv_row (t ''dashboard.upstream_servers'') [show_nat (length (dc_upstreams (cf_dns (sn_config (db_data s)))))],
               kv_row (t ''dashboard.query_logging'') [if db_logging s then t ''dashboard.enabled'' else t ''dashboard.disabled'']]]])"

text \<open>The whole that a count is a share of: at least one, the total, and every count.\<close>

definition ranking_denominator :: "int option \<Rightarrow> query_ranking list \<Rightarrow> int" where
  "ranking_denominator amount values = fold max (map qr_count values) (max 1 (nullish amount 0))"

definition ranking_share :: "int \<Rightarrow> query_ranking \<Rightarrow> rat" where
  "ranking_share denominator item = fl (of_int (qr_count item) / of_int denominator)"

definition ranking_row :: "formats \<Rightarrow> (rat \<Rightarrow> jstring) \<Rightarrow> int \<Rightarrow> query_ranking \<Rightarrow> dashboard_msg node" where
  [view_defs]: "ranking_row fm dbl denominator item =
     (let share = ranking_share denominator item in
      El T_tr [A ''key'' (qr_value item)]
        [El T_td [Cls ''wrap'']
           (if nullish (qr_name item) [] \<noteq> []
            then [Txt (nullish (qr_name item) []), El T_small [] [El T_code [] [Txt (qr_value item)]]]
            else [El T_code [] [Txt (qr_value item)]]),
         El T_td []
           [El T_div [Cls ''share'']
              [El T_strong [] [Txt (fm_number fm (qr_count item))],
               El T_span [Cls ''share-bar'', A ''aria-hidden'' ''true''] [El T_span [A ''style.width'' (dbl (fl (share * 100)) @ ''%'')] []],
               El T_span [Cls ''share-pct''] [Txt (percent_text share)]]]])"

definition RankingPanel ::
  "(jstring \<Rightarrow> jstring) \<Rightarrow> formats \<Rightarrow> (rat \<Rightarrow> jstring) \<Rightarrow> jstring \<Rightarrow> jstring \<Rightarrow> query_ranking list option \<Rightarrow> int option \<Rightarrow> bool \<Rightarrow> jstring \<Rightarrow>
   dashboard_msg node" where
  [view_defs]: "RankingPanel t fm dbl title column values amount enabled err =
     El T_section [Cls ''panel'']
       [El T_div [Cls ''panel-heading'']
          [El T_div [] [El T_h2 [] [Txt title], El T_p [] [Txt (t ''dashboard.retained_last_24h'')]]],
        if \<not> enabled then El T_p [Cls ''notice''] [Txt (t ''dashboard.unavailable_no_logging'')]
        else if err \<noteq> [] then El T_p [Cls ''notice error'', A ''role'' ''alert''] [Txt err]
        else (case values of
            None \<Rightarrow> Loading [Txt (t ''dashboard.loading_stats'')]
          | Some vs \<Rightarrow> if vs = [] then EmptyState [] (t ''dashboard.no_retained'') [] [] True
              else El T_div [Cls ''table-wrap'']
                [El T_table []
                   [El T_thead [] [El T_tr [] [El T_th [] [Txt column], El T_th [Cls ''num''] [Txt (t ''dashboard.requests'')]]],
                    El T_tbody [] (map (ranking_row fm dbl (ranking_denominator amount vs)) vs)]])]"

definition healthFor :: "dashboard \<Rightarrow> jstring \<Rightarrow> upstream_health option" where
  "healthFor s address = find (\<lambda>h. uh_address h = address) (db_upstreamHealth s)"

definition shown_upstreams :: "dashboard \<Rightarrow> jstring list" where
  "shown_upstreams s = (if db_upstreamHealth s \<noteq> [] then map uh_address (db_upstreamHealth s) else dc_upstreams (cf_dns (sn_config (db_data s))))"

definition upstream_row :: "(jstring \<Rightarrow> jstring) \<Rightarrow> (rat \<Rightarrow> jstring) \<Rightarrow> dashboard \<Rightarrow> nat \<times> jstring \<Rightarrow> dashboard_msg node" where
  [view_defs]: "upstream_row t dbl s x = (case x of (i, upstream) \<Rightarrow>
     (let health = healthFor s upstream; state = (case health of None \<Rightarrow> US_unknown | Some h \<Rightarrow> uh_state h) in
      El T_tr [A ''key'' upstream]
        [El T_td [] [El T_code [] [Txt upstream]],
         El T_td [] [Txt (if i = 0 then t ''dashboard.primary'' else t ''dashboard.fallback'' @ '' '' @ show_nat i)],
         El T_td [] [Txt (dbl (fl (of_int (dc_timeout (cf_dns (sn_config (db_data s)))) / 1000000000))), Txt ''s''],
         El T_td []
           ([El T_span [Cls (''status-text '' @ tone_name (toneFor (Some (upstream_state_name state))))]
               [Txt (t (''dashboard.upstream_'' @ upstream_state_name state))]]
            @ (case health of None \<Rightarrow> [] | Some h \<Rightarrow> render_if (state = US_healthy)
                 [El T_span [Cls ''latency''] [Txt (show_int (math_round (uh_latency_milliseconds h))), Txt '' ms'']]))]))"

definition upstreams_panel :: "(jstring \<Rightarrow> jstring) \<Rightarrow> (rat \<Rightarrow> jstring) \<Rightarrow> dashboard \<Rightarrow> dashboard_msg node" where
  [view_defs]: "upstreams_panel t dbl s =
     El T_section [Cls ''panel'']
       [El T_div [Cls ''panel-heading'']
          [El T_div [] [El T_h2 [] [Txt (t ''dashboard.upstream_resolvers'')], El T_p [] [Txt (t ''dashboard.ordered_failover'')]]],
        El T_div [Cls ''table-wrap'']
          [El T_table []
             [El T_thead [] [El T_tr []
                [El T_th [] [Txt (t ''dashboard.endpoint'')], El T_th [] [Txt (t ''dashboard.priority'')],
                 El T_th [] [Txt (t ''dashboard.attempt_timeout'')], El T_th [] [Txt (t ''dashboard.health'')]]],
              El T_tbody [] (map (upstream_row t dbl s) (List.enumerate 0 (shown_upstreams s)))]],
        El T_p [Cls ''panel-footnote''] [Txt (t ''dashboard.config_shown'')]]"

definition dashboard_view ::
  "(jstring \<Rightarrow> jstring) \<Rightarrow> formats \<Rightarrow> (rat \<Rightarrow> jstring) \<Rightarrow> bool \<Rightarrow> bool \<Rightarrow> dashboard \<Rightarrow> dashboard_msg node list" where
  [view_defs]: "dashboard_view t fm dbl ro has_refresh s =
     [El T_div [Cls ''stack'']
        (map (map_node DB_Onboarding) (onboarding_view t dbl (db_onboarding s))
         @ render_if (db_resetError s \<noteq> []) [El T_div [Cls ''notice error'', A ''role'' ''alert''] [Txt (db_resetError s)]]
         @ [dashboard_stats t fm dbl (db_data s),
            El T_div [Cls ''grid-main-side''] [activity_panel t (db_history s), general_panel t fm ro has_refresh s],
            El T_div [Cls ''grid-2'']
              [RankingPanel t fm dbl (t ''dashboard.top_clients'') (t ''dashboard.client'') (map_option qs_top_clients (db_querySummary s))
                 (map_option qs_total (db_querySummary s)) (db_logging s) (db_summaryError s),
               RankingPanel t fm dbl (t ''dashboard.top_domains'') (t ''dashboard.domain'') (map_option qs_top_domains (db_querySummary s))
                 (map_option qs_total (db_querySummary s)) (db_logging s) (db_summaryError s)],
            upstreams_panel t dbl s])]"

section \<open>What the page lets a user trigger\<close>

definition dashboard_guard :: "bool \<Rightarrow> dashboard \<Rightarrow> dashboard_msg \<Rightarrow> bool" where
  "dashboard_guard ro s m \<longleftrightarrow> (m = DB_Reset \<longrightarrow> \<not> ro \<and> \<not> db_resetting s)"

lemma Stat_ok: "node_ok P d (Stat dbl label v note aside progress tone)"
  by (auto simp: Stat_def dom_simps split: option.split)

lemma onboarding_ok: "node_ok (\<lambda>m. dashboard_guard ro s (DB_Onboarding m)) False n"
  by (simp add: dashboard_guard_def node_ok_iff)

lemma RankingPanel_ok: "node_ok P False (RankingPanel t fm dbl title column vs amount enabled err)"
  by (auto simp: RankingPanel_def ranking_row_def Loading_def EmptyState_def dom_simps Let_def split: option.split)

lemma general_ok: "node_ok (dashboard_guard ro s) False (general_panel t fm ro has_refresh s)"
  by (auto simp: general_panel_def kv_row_def dashboard_guard_def dom_simps Let_def)

lemma activity_ok: "node_ok P False (activity_panel t history)"
  by (auto simp: activity_panel_def dom_simps Let_def)

lemma upstreams_ok: "node_ok P False (upstreams_panel t dbl s)"
  by (auto simp: upstreams_panel_def upstream_row_def dom_simps Let_def split: option.split prod.split)

lemma dashboard_view_ok: "nodes_ok (dashboard_guard ro s) (dashboard_view t fm dbl ro has_refresh s)"
  using onboarding_ok RankingPanel_ok general_ok activity_ok upstreams_ok
  by (simp add: dashboard_view_def dashboard_stats_def Stat_ok live_def blocked_below_def Let_def)


lemmas dashboard_fired = nodes_okD [OF dashboard_view_ok]

section \<open>The page as a machine\<close>

inductive dashboard_env :: "(jstring \<Rightarrow> jstring) \<Rightarrow> dashboard \<Rightarrow> dashboard \<Rightarrow> bool" for t where
  props_change: "dashboard_env t s (dashboard_props d history logging s)"
| language_changes: "dashboard_env t s (summary_effect s)"
| timer_fires: "db_timer s \<Longrightarrow> dashboard_env t s (health_tick s)"
| health_polled: "i < length (db_polls s) \<Longrightarrow> dashboard_env t s (health_settled i hs s)"
| summary_loaded: "i < length (db_loads s) \<Longrightarrow> dashboard_env t s (summary_settled t i q s)"
| reset_done: "i < length (db_resets s) \<Longrightarrow> dashboard_env t s (reset_settled t i u s)"
| checklist_ticks: "ob_timer (db_onboarding s) \<Longrightarrow> dashboard_env t s (s\<lparr>db_onboarding := onboarding_tick (db_onboarding s)\<rparr>)"
| checklist_polled: "i < length (ob_polls (db_onboarding s)) \<Longrightarrow>
    dashboard_env t s (s\<lparr>db_onboarding := onboarding_settled i r (db_onboarding s)\<rparr>)"

interpretation health: poller db_polls db_timer health_effect health_tick health_settled
  by unfold_locales (auto simp: health_effect_def health_tick_def health_settled_def Let_def split: sum.split option.split)

text \<open>
  Both pollers of the page go on without a gap, at most one load of the rankings is not aborted and none
  while logging is off, and a reset is in flight exactly while its button is disabled.
\<close>

definition dashboard_inv :: "dashboard \<Rightarrow> bool" where
  "dashboard_inv s \<longleftrightarrow> one_poll (db_polls s) (db_timer s) \<and>
     one_poll (ob_polls (db_onboarding s)) (ob_timer (db_onboarding s)) \<and>
     live_polls (db_loads s) \<le> (if db_logging s then 1 else 0) \<and>
     length (db_resets s) = (if db_resetting s then 1 else 0)"

lemma dashboard_inv_effect:
  "dashboard_inv (summary_effect s) \<longleftrightarrow> one_poll (db_polls s) (db_timer s) \<and>
     one_poll (ob_polls (db_onboarding s)) (ob_timer (db_onboarding s)) \<and> length (db_resets s) = (if db_resetting s then 1 else 0)"
  by (simp add: dashboard_inv_def summary_effect_def)

lemma dashboard_env_inv: "dashboard_inv s \<Longrightarrow> dashboard_env t s s' \<Longrightarrow> dashboard_inv s'"
proof (erule dashboard_env.cases; hypsubst)
  fix d history logging assume "dashboard_inv s"
  then show "dashboard_inv (dashboard_props d history logging s)"
    by (simp add: dashboard_props_def dashboard_inv_effect) (auto simp: dashboard_inv_def)
next
  assume "dashboard_inv s"
  then show "dashboard_inv (summary_effect s)" by (simp add: dashboard_inv_effect) (auto simp: dashboard_inv_def)
next
  assume "dashboard_inv s" "db_timer s"
  then show "dashboard_inv (health_tick s)" using health.tick_one [of s] by (auto simp: dashboard_inv_def health_tick_def)
next
  fix i hs assume "dashboard_inv s" "i < length (db_polls s)"
  then show "dashboard_inv (health_settled i hs s)" using health.settled_one [of s i hs]
    by (auto simp: dashboard_inv_def health_settled_def Let_def split: sum.split option.split)
next
  fix i q assume "dashboard_inv s" "i < length (db_loads s)"
  then show "dashboard_inv (summary_settled t i q s)" using live_polls_remove [of i "db_loads s"]
    by (auto simp: dashboard_inv_def summary_settled_def Let_def split: sum.split if_splits)
next
  fix i u assume "dashboard_inv s" "i < length (db_resets s)"
  then show "dashboard_inv (reset_settled t i u s)" using length_remove_nth [of i "db_resets s"]
    by (auto simp: dashboard_inv_def reset_settled_def Let_def split: sum.split if_splits)
next
  assume "dashboard_inv s" "ob_timer (db_onboarding s)"
  then show "dashboard_inv (s\<lparr>db_onboarding := onboarding_tick (db_onboarding s)\<rparr>)"
    using onb.tick_one by (simp add: dashboard_inv_def)
next
  fix i r assume "dashboard_inv s" "i < length (ob_polls (db_onboarding s))"
  then show "dashboard_inv (s\<lparr>db_onboarding := onboarding_settled i r (db_onboarding s)\<rparr>)"
    using onb.settled_one by (simp add: dashboard_inv_def)
qed

lemma dashboard_update_inv: "dashboard_inv s \<Longrightarrow> dashboard_guard ro s m \<Longrightarrow> dashboard_inv (dashboard_update m s)"
proof (cases m)
  case (DB_Onboarding x)
  assume "dashboard_inv s"
  then show ?thesis using DB_Onboarding by (cases x) (simp add: dashboard_inv_def handleDismiss_def)
qed (auto simp: dashboard_inv_def dashboard_guard_def resetStatistics_def)

lemma dashboard_mount_inv: "dashboard_inv (dashboard_mount d history logging st)"
  using onb.restart_one by (simp add: dashboard_mount_def dashboard_inv_effect health_effect_def one_poll_def)

lemma dashboard_env_change: "dashboard_env t s s' \<Longrightarrow> one_change (db_resets s) (db_resets s')"
  by (erule dashboard_env.cases; hypsubst)
    (auto simp: dashboard_props_def summary_effect_def health_tick_def health_settled_def summary_settled_def reset_settled_def
      Let_def split: sum.split option.split)

lemma dashboard_update_change: "one_change (db_resets s) (db_resets (dashboard_update m s))"
  by (cases "(m, s)" rule: dashboard_update.cases) (auto simp: resetStatistics_def)

interpretation dashboard: locked_page
  "\<lambda>s. \<exists>d history logging st. s = dashboard_mount d history logging st" "dashboard_view t fm dbl ro has_refresh" dashboard_update
  "dashboard_env t" dashboard_inv db_resets for t fm dbl ro has_refresh
proof unfold_locales
  show "dashboard_inv s" if "\<exists>d history logging st. s = dashboard_mount d history logging st" for s
    using that dashboard_mount_inv by blast
  show "length (db_resets s) \<le> 1" if "dashboard_inv s" for s
    using that by (auto simp: dashboard_inv_def)
qed (blast intro: dashboard_update_inv dashboard_env_inv dashboard_fired dashboard_update_change dashboard_env_change)+

interpretation dashboard_ro: read_only_page
  "\<lambda>s. \<exists>d history logging st. s = dashboard_mount d history logging st" "dashboard_view t fm dbl True has_refresh" dashboard_update
  "dashboard_env t" "\<lambda>s. db_resets s = []" db_resets for t fm dbl has_refresh
proof unfold_locales
  show "db_resets s = []" if "\<exists>d history logging st. s = dashboard_mount d history logging st" for s
    using that by (auto simp: dashboard_mount_def summary_effect_def health_effect_def)
  show "db_resets (dashboard_update m s) = []" if "db_resets s = []" "m \<in> fires (dashboard_view t fm dbl True has_refresh s)" for s m
    using that(1) dashboard_fired [OF that(2)] by (cases "(m, s)" rule: dashboard_update.cases) (simp_all add: dashboard_guard_def)
  show "db_resets s' = []" if "db_resets s = []" "dashboard_env t s s'" for s s'
    using that(2,1) by cases (auto simp: dashboard_props_def summary_effect_def health_tick_def health_settled_def summary_settled_def
        Let_def split: sum.split option.split)
qed

section \<open>Rankings\<close>

lemma fold_max_int_ge: "(x \<in> set xs \<longrightarrow> x \<le> fold max xs a) \<and> a \<le> fold max xs (a :: int)"
proof (induction xs arbitrary: a)
  case (Cons y ys)
  have "max y a \<le> fold max ys (max y a)" using Cons.IH by blast
  then show ?case using Cons.IH [of "max y a"] by auto
qed simp

text \<open>No bar of a ranking is wider than its track.\<close>

lemma ranking_share_bounds:
  assumes "item \<in> set items" "0 \<le> qr_count item"
  shows "0 \<le> ranking_share (ranking_denominator amount items) item \<and> ranking_share (ranking_denominator amount items) item \<le> 1"
proof -
  let ?d = "ranking_denominator amount items"
  have "1 \<le> ?d" "qr_count item \<le> ?d"
    using assms(1) fold_max_int_ge [of "qr_count item" "map qr_count items" "max 1 (nullish amount 0)"]
    by (auto simp: ranking_denominator_def)
  then have "0 \<le> of_int (qr_count item) / (of_int ?d :: rat)" "of_int (qr_count item) / (of_int ?d :: rat) \<le> 1"
    using assms(2) by simp_all
  then show ?thesis using fl_le_nat [of "of_int (qr_count item) / of_int ?d" 1] by (simp add: ranking_share_def fl_nonneg)
qed

end
