(* ===== verification/Analytics_Page.thy ===== *)
theory Analytics_Page
  imports Api_Admin Charts Components Ui
begin

text \<open>
  \<open>pages/Analytics.tsx\<close>: aggregates of the query log for a range, with two bucketed charts that keep a bucket
  selected by mouse or keyboard. The state of the charts is part of the page's; it lives as long as they are
  on the page. Indexing past the end of the series gives undefined in the sources and reading a member of
  that throws, so rendering is partial here: \<open>None\<close> is a render that throws.
\<close>

definition RANGES :: "analytics_range list" where
  "RANGES = [R_1h, R_24h, R_7d, R_30d]"

datatype chart = Query_chart | Latency_chart

record analytics_page =
  ay_logging :: bool
  ay_range :: analytics_range
  ay_data :: "analytics option"
  ay_summary :: "query_summary option"
  ay_error :: jstring
  ay_loading :: bool
  ay_active :: "chart \<Rightarrow> int option"
  ay_timer :: bool
  ay_loads :: "(analytics_range \<times> bool option) list"

text \<open>A load carries the signal of the effect that started it (aborted or not), or none.\<close>

definition analytics_effect :: "analytics_page \<Rightarrow> analytics_page" where
  "analytics_effect s = s\<lparr>ay_loads := map (\<lambda>(r, sig). (r, map_option (\<lambda>_. True) sig)) (ay_loads s), ay_timer := ay_logging s\<rparr>"

definition analytics_mount :: "bool \<Rightarrow> analytics_page" where
  "analytics_mount logging = analytics_effect \<lparr>ay_logging = logging, ay_range = R_24h, ay_data = None, ay_summary = None,
     ay_error = [], ay_loading = False, ay_active = (\<lambda>_. None), ay_timer = False, ay_loads = []\<rparr>"

definition analytics_calls :: "analytics_range \<Rightarrow> call list" where
  "analytics_calls r = [loadAnalytics_call r, get_call (''/api/v1/query-stats?window='' @ range_name r @ ''&limit=10'')]"

definition analytics_load :: "bool option \<Rightarrow> analytics_page \<Rightarrow> analytics_page" where
  "analytics_load sig s = s\<lparr>ay_loading := True, ay_loads := ay_loads s @ [(ay_range s, sig)]\<rparr>"

definition analytics_timer :: "analytics_page \<Rightarrow> analytics_page" where
  "analytics_timer s = (if ay_timer s then analytics_load (Some False) (s\<lparr>ay_timer := False\<rparr>) else s)"

text \<open>The charts are on the page when logging is on and there are queries to show; otherwise they lose their state.\<close>

definition shows_charts :: "analytics_page \<Rightarrow> bool" where
  "shows_charts s \<longleftrightarrow> ay_logging s \<and> (case ay_data s of None \<Rightarrow> False | Some d \<Rightarrow> ab_total (an_totals d) \<noteq> 0)"

definition sync_charts :: "analytics_page \<Rightarrow> analytics_page" where
  "sync_charts s = (if shows_charts s then s else s\<lparr>ay_active := (\<lambda>_. None)\<rparr>)"

definition analytics_settled ::
  "(jstring \<Rightarrow> jstring) \<Rightarrow> nat \<Rightarrow> (analytics \<times> query_summary) result \<Rightarrow> analytics_page \<Rightarrow> analytics_page" where
  "analytics_settled t i res s =
     (let sig = snd (ay_loads s ! i); s0 = s\<lparr>ay_loads := remove_nth i (ay_loads s)\<rparr> in
      if sig = Some True then s0
      else sync_charts ((case res of
          Inr (d, q) \<Rightarrow> s0\<lparr>ay_data := Some d, ay_summary := Some q, ay_error := []\<rparr>
        | Inl e \<Rightarrow> s0\<lparr>ay_error := error_text e (t ''analytics.load_failed'')\<rparr>)\<lparr>ay_loading := False\<rparr>))"

definition setRange :: "analytics_range \<Rightarrow> analytics_page \<Rightarrow> analytics_page" where
  "setRange r s = (if r = ay_range s then s else analytics_effect (s\<lparr>ay_range := r\<rparr>))"

definition analytics_logging :: "bool \<Rightarrow> analytics_page \<Rightarrow> analytics_page" where
  "analytics_logging logging s = (if logging = ay_logging s then s else sync_charts (analytics_effect (s\<lparr>ay_logging := logging\<rparr>)))"

section \<open>The selected bucket\<close>

definition clamp_index :: "int \<Rightarrow> int \<Rightarrow> int" where
  "clamp_index n i = max 0 (min (n - 1) i)"

definition series_length :: "analytics_page \<Rightarrow> int" where
  "series_length s = (case ay_data s of None \<Rightarrow> 0 | Some d \<Rightarrow> int (length (an_series d)))"

definition onMove :: "int \<Rightarrow> rat \<Rightarrow> rat \<Rightarrow> int option \<Rightarrow> int option" where
  "onMove n width x active = (if width = 0 then active else Some (clamp_index n \<lfloor>fl (fl (x / width) * of_int n)\<rfloor>))"

definition onKey :: "int \<Rightarrow> bool \<Rightarrow> int option \<Rightarrow> int option" where
  "onKey n left active = (let from = nullish active (n - 1) in Some (clamp_index n (from + (if left then - 1 else 1))))"

definition set_active :: "chart \<Rightarrow> (int option \<Rightarrow> int option) \<Rightarrow> analytics_page \<Rightarrow> analytics_page" where
  "set_active c f s = s\<lparr>ay_active := (ay_active s)(c := f (ay_active s c))\<rparr>"

datatype analytics_msg =
    AY_Range analytics_range
  | AY_Reload
  | AY_Move chart rat rat
  | AY_Leave chart
  | AY_Key chart bool

fun analytics_update :: "analytics_msg \<Rightarrow> analytics_page \<Rightarrow> analytics_page" where
  "analytics_update (AY_Range r) s = setRange r s"
| "analytics_update AY_Reload s = analytics_load None s"
| "analytics_update (AY_Move c width x) s = set_active c (onMove (series_length s) width x) s"
| "analytics_update (AY_Leave c) s = set_active c (\<lambda>_. None) s"
| "analytics_update (AY_Key c left) s = set_active c (onKey (series_length s) left) s"

section \<open>Rendering\<close>

text \<open>\<open>xs[i]\<close>: undefined outside the array.\<close>

definition js_nth :: "'a list \<Rightarrow> int \<Rightarrow> 'a option" where
  "js_nth xs i = (if 0 \<le> i \<and> i < int (length xs) then Some (xs ! nat i) else None)"

text \<open>What the runtime prints: dates by day, by weekday and by time, and numbers.\<close>

record analytics_formats = formats +
  fm_day :: "jstring \<Rightarrow> jstring"
  fm_weekday :: "jstring \<Rightarrow> jstring"
  fm_time :: "jstring \<Rightarrow> jstring"
  fm_rat :: "rat \<Rightarrow> jstring"
  fm_dbl :: "rat \<Rightarrow> jstring"
  fm_later :: "jstring \<Rightarrow> jstring \<Rightarrow> bool"

definition bucketLabel :: "analytics_formats \<Rightarrow> jstring \<Rightarrow> int \<Rightarrow> analytics_range \<Rightarrow> jstring" where
  "bucketLabel fm start seconds rng = (if seconds \<ge> 86400 then fm_day fm start
     else if rng = R_7d then fm_weekday fm start else fm_time fm start)"

definition ms_or_dash :: "rat \<Rightarrow> jstring" where
  "ms_or_dash x = (if x \<noteq> 0 then to_fixed 1 x @ '' ms'' else emdash)"

definition analytics_stats :: "(jstring \<Rightarrow> jstring) \<Rightarrow> analytics_formats \<Rightarrow> analytics_range \<Rightarrow> analytics_bucket \<Rightarrow> analytics_msg node" where
  [view_defs]: "analytics_stats t fm rng x =
     El T_div [Cls ''stats'']
       [Stat (fm_dbl fm) (t ''analytics.queries'') (fm_number fm (ab_total x)) (Some (t (''analytics.range_'' @ range_name rng))) None None Stat_info,
        Stat (fm_dbl fm) (t ''analytics.blocked'') (fm_number fm (ab_blocked x)) None
          (Some (to_fixed 1 (share_percent (ab_blocked x) (ab_total x)) @ ''%'')) (Some (fl (share_percent (ab_blocked x) (ab_total x) / 100))) Stat_danger,
        Stat (fm_dbl fm) (t ''analytics.cached'') (to_fixed 1 (share_percent (ab_cached x) (ab_total x)) @ ''%'')
          (Some (fm_number fm (ab_cached x) @ '' '' @ t ''analytics.answers'')) None None Stat_success,
        Stat (fm_dbl fm) (t ''analytics.avg_upstream'') (ms_or_dash (ab_average_ms x)) (Some (fm_number fm (ab_failed x) @ '' SERVFAIL'')) None None
          (if ab_failed x > 0 then Stat_warning else Stat_neutral)]"

definition chart_svg ::
  "jstring \<Rightarrow> chart \<Rightarrow> int \<Rightarrow> jstring \<Rightarrow> analytics_msg node list \<Rightarrow> analytics_msg node" where
  [view_defs]: "chart_svg cls c width label body =
     El T_svg [Cls cls, A ''viewBox'' (''0 0 '' @ show_int width @ '' 200''), A ''preserveAspectRatio'' ''none'', A ''role'' ''img'', AN ''tabIndex'' 0,
         A ''aria-label'' label, OnPointer (AY_Move c), OnMouseLeave (AY_Leave c), OnKeys [''ArrowLeft''] (AY_Key c True), OnKeys [''ArrowRight''] (AY_Key c False)]
       (El T_path [A ''d'' (''M0 0.5H'' @ show_int width @ '' M0 100H'' @ show_int width @ '' M0 199.5H'' @ show_int width), Cls ''chart-grid''] [] # body)"

definition bar_heights :: "rat \<Rightarrow> analytics_bucket \<Rightarrow> rat \<times> rat" where
  "bar_heights ceil b = (fl (fl (of_int (ab_total b - ab_blocked b) / ceil) * 200), fl (fl (of_int (ab_blocked b) / ceil) * 200))"

definition chart_bar :: "analytics_formats \<Rightarrow> rat \<Rightarrow> int option \<Rightarrow> nat \<times> analytics_bucket \<Rightarrow> analytics_msg node" where
  [view_defs]: "chart_bar fm ceil active x = (case x of (i, b) \<Rightarrow> case bar_heights ceil b of (allowed, blocked) \<Rightarrow>
     El T_g ([A ''key'' (ab_start b)] @ attr_if (active = Some (int i)) (Cls ''active''))
       [El T_rect [Cls ''bar-hit'', AN ''x'' (int i * 10), AN ''y'' 0, AN ''width'' 10, AN ''height'' 200] [],
        El T_rect [Cls ''bar-allowed'', AN ''x'' (int i * 10 + 1), A ''y'' (fm_dbl fm (fl (fl (200 - allowed) - blocked))), AN ''width'' 8,
          A ''height'' (fm_dbl fm allowed)] [],
        El T_rect [Cls ''bar-blocked'', AN ''x'' (int i * 10 + 1), A ''y'' (fm_dbl fm (fl (200 - blocked))), AN ''width'' 8,
          A ''height'' (fm_dbl fm blocked)] []])"

definition chart_axis :: "jstring \<Rightarrow> jstring \<Rightarrow> analytics_msg node" where
  [view_defs]: "chart_axis high half =
     El T_div [Cls ''chart-axis'', A ''aria-hidden'' ''true''] [El T_span [] [Txt high], El T_span [] [Txt half], El T_span [] [Txt ''0'']]"

text \<open>The first, the middle and the last bucket, all of which must exist.\<close>

definition chart_ticks :: "'a list \<Rightarrow> (nat \<times> 'a) list option" where
  "chart_ticks series = (case series of [] \<Rightarrow> None
    | _ \<Rightarrow> Some (map (\<lambda>i. (i, series ! i)) [0, length series div 2, length series - 1]))"

definition ticks_node :: "(analytics_bucket \<Rightarrow> jstring) \<Rightarrow> (nat \<times> analytics_bucket) list \<Rightarrow> analytics_msg node" where
  [view_defs]: "ticks_node label ticks =
     El T_div [Cls ''chart-ticks'', A ''aria-hidden'' ''true''] (map (\<lambda>(i, b). El T_span [A ''key'' (show_nat i)] [Txt (label b)]) ticks)"

definition shown_bucket :: "int option \<Rightarrow> analytics_bucket list \<Rightarrow> analytics_bucket option" where
  "shown_bucket active series = js_nth series (nullish active (int (length series) - 1))"

definition bucket_row :: "analytics_formats \<Rightarrow> (analytics_bucket \<Rightarrow> jstring) \<Rightarrow> analytics_bucket \<Rightarrow> analytics_msg node" where
  [view_defs]: "bucket_row fm label b =
     El T_tr [A ''key'' (ab_start b)]
       ([El T_td [] [Txt (label b)]]
        @ map (\<lambda>x. El T_td [Cls ''num mono''] [Txt x])
            [fm_number fm (ab_total b), fm_number fm (ab_blocked b), fm_number fm (ab_cached b), fm_number fm (ab_failed b),
             if ab_average_ms b \<noteq> 0 then to_fixed 1 (ab_average_ms b) else emdash])"

definition buckets_table :: "(jstring \<Rightarrow> jstring) \<Rightarrow> analytics_formats \<Rightarrow> (analytics_bucket \<Rightarrow> jstring) \<Rightarrow> analytics_bucket list \<Rightarrow> analytics_msg node" where
  [view_defs]: "buckets_table t fm label series =
     El T_details [Cls ''chart-table'']
       [El T_summary [] [Txt (t ''analytics.show_table'')],
        El T_div [Cls ''table-wrap'']
          [El T_table []
             [El T_thead [] [El T_tr []
                ([El T_th [] [Txt (t ''analytics.time'')]]
                 @ map (\<lambda>x. El T_th [Cls ''num''] [Txt x])
                     [t ''analytics.queries'', t ''analytics.blocked'', t ''analytics.cached'', ''SERVFAIL'', t ''analytics.avg_time''])],
              El T_tbody [] (map (bucket_row fm label) (filter (\<lambda>b. ab_total b > 0) series))]]]"

definition QueryChart ::
  "(jstring \<Rightarrow> jstring) \<Rightarrow> analytics_formats \<Rightarrow> analytics_range \<Rightarrow> int option \<Rightarrow> analytics \<Rightarrow> analytics_msg node option" where
  [view_defs]: "QueryChart t fm rng active d =
     (let series = an_series d; ceil = nice_max (map (\<lambda>b. of_int (ab_total b)) series);
          label = (\<lambda>b. bucketLabel fm (ab_start b) (an_bucket_seconds d) rng) in
      case (chart_ticks series, shown_bucket active series) of
        (Some ticks, Some shown) \<Rightarrow> Some (El T_section [Cls ''panel'']
          [El T_div [Cls ''panel-heading'']
             [El T_div [] [El T_h2 [] [Txt (t ''analytics.over_time'')], El T_p [] [Txt (t ''analytics.over_time_hint'')]],
              El T_div [Cls ''chart-legend'', A ''aria-hidden'' ''true'']
                [El T_span [] [El T_i [Cls ''swatch allowed''] [], Txt '' '', Txt (t ''analytics.allowed'')],
                 El T_span [] [El T_i [Cls ''swatch blocked''] [], Txt '' '', Txt (t ''analytics.blocked'')]]],
           El T_div [Cls ''chart-wrap'']
             [chart_axis (fm_rat fm ceil) (fm_rat fm (fl (ceil / 2))),
              chart_svg ''chart bars'' Query_chart (int (length series) * 10) (t ''analytics.chart_aria'')
                (map (chart_bar fm ceil active) (List.enumerate 0 series))],
           ticks_node label ticks,
           El T_p [Cls ''chart-detail'', A ''aria-live'' ''polite'']
             [El T_strong [] [Txt (label shown)],
              El T_span [] [Txt (t ''analytics.queries''), Txt '': '', Txt (fm_number fm (ab_total shown))],
              El T_span [] [Txt (t ''analytics.blocked''), Txt '': '', Txt (fm_number fm (ab_blocked shown))],
              El T_span [] [Txt (t ''analytics.cached''), Txt '': '', Txt (fm_number fm (ab_cached shown))],
              El T_span [] [Txt ''SERVFAIL: '', Txt (fm_number fm (ab_failed shown))]],
           buckets_table t fm label series])
      | _ \<Rightarrow> None)"

text \<open>The runs of buckets with upstream traffic, each the list of its points.\<close>

definition latency_point :: "rat \<Rightarrow> nat \<Rightarrow> analytics_bucket \<Rightarrow> jstring" where
  "latency_point ceil i b = show_nat (i * 10 + 5) @ '','' @ to_fixed 1 (chart_y ceil (ab_average_ms b))"

fun latency_segments :: "rat \<Rightarrow> nat \<Rightarrow> jstring list \<Rightarrow> analytics_bucket list \<Rightarrow> jstring list list" where
  "latency_segments ceil i current [] = (if current \<noteq> [] then [current] else [])"
| "latency_segments ceil i current (b # bs) =
     (if ab_average_ms b > 0 then latency_segments ceil (Suc i) (current @ [latency_point ceil i b]) bs
      else if current \<noteq> [] then current # latency_segments ceil (Suc i) [] bs
      else latency_segments ceil (Suc i) current bs)"

definition segment_node :: "jstring list \<Rightarrow> analytics_msg node" where
  [view_defs]: "segment_node points = (case points of
      [p] \<Rightarrow> El T_circle [A ''key'' p, Cls ''chart-dot'', A ''cx'' (split_on CHR '','' p ! 0), A ''cy'' (split_on CHR '','' p ! 1), AN ''r'' 3] []
    | _ \<Rightarrow> El T_polyline [A ''key'' (hd points), A ''points'' (js_join '' '' points), Cls ''chart-line''] [])"

definition LatencyChart ::
  "(jstring \<Rightarrow> jstring) \<Rightarrow> analytics_formats \<Rightarrow> analytics_range \<Rightarrow> int option \<Rightarrow> analytics \<Rightarrow> analytics_msg node option" where
  [view_defs]: "LatencyChart t fm rng active d =
     (let series = an_series d; ceil = nice_max (map ab_average_ms series);
          label = (\<lambda>b. bucketLabel fm (ab_start b) (an_bucket_seconds d) rng) in
      case (chart_ticks series, shown_bucket active series) of
        (Some ticks, Some shown) \<Rightarrow> Some (El T_section [Cls ''panel'']
          [El T_div [Cls ''panel-heading'']
             [El T_div [] [El T_h2 [] [Txt (t ''analytics.latency'')], El T_p [] [Txt (t ''analytics.latency_hint'')]]],
           El T_div [Cls ''chart-wrap'']
             [chart_axis (fm_rat fm ceil @ '' ms'') (fm_rat fm (fl (ceil / 2))),
              chart_svg ''chart'' Latency_chart (int (length series) * 10) (t ''analytics.latency_aria'')
                (map segment_node (latency_segments ceil 0 [] series)
                 @ (case active of None \<Rightarrow> [] | Some i \<Rightarrow>
                      [El T_line [Cls ''chart-cursor'', AN ''x1'' (i * 10 + 5), AN ''x2'' (i * 10 + 5), AN ''y1'' 0, AN ''y2'' 200] []]))],
           ticks_node label ticks,
           El T_p [Cls ''chart-detail'', A ''aria-live'' ''polite'']
             [El T_strong [] [Txt (label shown)],
              El T_span [] [Txt (t ''analytics.avg_time''), Txt '': '', Txt (ms_or_dash (ab_average_ms shown))]]])
      | _ \<Rightarrow> None)"

definition breakdown_row :: "analytics_formats \<Rightarrow> bool \<Rightarrow> int \<Rightarrow> query_ranking \<Rightarrow> analytics_msg node" where
  [view_defs]: "breakdown_row fm plain denominator item =
     (let share = fl (of_int (qr_count item) / of_int denominator) in
      El T_tr [A ''key'' (qr_value item)]
        [El T_td [Cls ''wrap'']
           (if nullish (qr_name item) [] \<noteq> []
            then [Txt (nullish (qr_name item) []), Txt '' '', El T_small [] [El T_code [] [Txt (qr_value item)]]]
            else if plain then [Txt (qr_value item)] else [El T_code [] [Txt (qr_value item)]]),
         El T_td []
           [El T_div [Cls ''share'']
              [El T_strong [] [Txt (fm_number fm (qr_count item))],
               El T_span [Cls ''share-bar'', A ''aria-hidden'' ''true''] [El T_span [A ''style.width'' (fm_dbl fm (fl (min 1 share * 100)) @ ''%'')] []],
               El T_span [Cls ''share-pct''] [Txt (percent_text share)]]]])"

definition Breakdown ::
  "(jstring \<Rightarrow> jstring) \<Rightarrow> analytics_formats \<Rightarrow> jstring \<Rightarrow> query_ranking list \<Rightarrow> int \<Rightarrow> jstring option \<Rightarrow> bool \<Rightarrow> analytics_msg node" where
  [view_defs]: "Breakdown t fm title items amount none plain =
     El T_section [Cls ''panel'']
       [El T_div [Cls ''panel-heading''] [El T_div [] [El T_h2 [] [Txt title]]],
        if items = [] then EmptyState [] (nullish none (t ''dashboard.no_retained'')) [] [] True
        else El T_div [Cls ''table-wrap''] [El T_table [] [El T_tbody [] (map (breakdown_row fm plain (max 1 amount)) items)]]]"

definition breakdowns :: "(jstring \<Rightarrow> jstring) \<Rightarrow> analytics_formats \<Rightarrow> query_summary option \<Rightarrow> analytics \<Rightarrow> analytics_msg node" where
  [view_defs]: "breakdowns t fm summary d =
     (let x = an_totals d in
      El T_div [Cls ''grid-2'']
        ([Breakdown t fm (t ''analytics.query_types'') (an_query_types d) (ab_total x) None False,
          Breakdown t fm (t ''analytics.sources'') (map (\<lambda>r. r\<lparr>qr_value := t (''analytics.source_'' @ qr_value r)\<rparr>) (an_sources d)) (ab_total x) None True,
          Breakdown t fm (t ''analytics.response_codes'') (an_response_codes d) (ab_total x) None False,
          Breakdown t fm (t ''analytics.top_blocked'') (an_top_blocked d) (ab_blocked x) (Some (t ''analytics.nothing_blocked'')) False]
         @ (case summary of None \<Rightarrow> [] | Some q \<Rightarrow>
              [Breakdown t fm (t ''dashboard.top_domains'') (qs_top_domains q) (qs_total q) None False,
               Breakdown t fm (t ''dashboard.top_clients'') (qs_top_clients q) (qs_total q) None False])))"

definition usage_row :: "analytics_formats \<Rightarrow> upstream_usage \<Rightarrow> analytics_msg node" where
  [view_defs]: "usage_row fm u =
     El T_tr [A ''key'' (uu_address u)]
       [El T_td [] [El T_code [] [Txt (uu_address u)]],
        El T_td [Cls ''num mono''] [Txt (fm_number fm (uu_queries u))],
        El T_td [Cls (''num mono'' @ (if uu_failed u \<noteq> 0 then '' text-danger'' else ''''))]
          [Txt (fm_number fm (uu_failed u)), Txt '' '', El T_small [] [Txt ''('', Txt (to_fixed 1 (share_percent (uu_failed u) (uu_queries u))), Txt ''%)'']],
        El T_td [Cls ''num mono''] [Txt (ms_or_dash (uu_average_ms u))]]"

definition usage_panel :: "(jstring \<Rightarrow> jstring) \<Rightarrow> analytics_formats \<Rightarrow> upstream_usage list \<Rightarrow> analytics_msg node" where
  [view_defs]: "usage_panel t fm us =
     El T_section [Cls ''panel'']
       [El T_div [Cls ''panel-heading''] [El T_div [] [El T_h2 [] [Txt (t ''analytics.upstreams'')], El T_p [] [Txt (t ''analytics.upstreams_hint'')]]],
        if us = [] then EmptyState [] (t ''analytics.no_upstream'') [] [] True
        else El T_div [Cls ''table-wrap'']
          [El T_table []
             [El T_thead [] [El T_tr []
                [El T_th [] [Txt (t ''dashboard.endpoint'')], El T_th [Cls ''num''] [Txt (t ''analytics.queries'')],
                 El T_th [Cls ''num''] [Txt (t ''analytics.failures'')], El T_th [Cls ''num''] [Txt (t ''analytics.avg_time'')]]],
              El T_tbody [] (map (usage_row fm) us)]]]"

definition analytics_toolbar :: "(jstring \<Rightarrow> jstring) \<Rightarrow> analytics_page \<Rightarrow> analytics_msg node" where
  [view_defs]: "analytics_toolbar t s =
     El T_div [Cls ''zones-toolbar analytics-toolbar'']
       [El T_div [Cls ''segmented'', A ''role'' ''group'', A ''aria-label'' (t ''analytics.range'')]
          (map (\<lambda>r. El T_button [A ''key'' (range_name r), A ''type'' ''button'', AB ''aria-pressed'' (ay_range s = r), OnClick (AY_Range r)]
             [Txt (t (''analytics.range_'' @ range_name r))]) RANGES),
        El T_button [Cls ''button'', Disabled (ay_loading s), OnClick AY_Reload] [Icon ''RefreshCw'' 15, Txt (t ''blocklists.reload'')]]"

definition limited_history :: "(jstring \<Rightarrow> jstring) \<Rightarrow> analytics_formats \<Rightarrow> analytics option \<Rightarrow> analytics_msg node list" where
  [view_defs]: "limited_history t fm data = (case data of None \<Rightarrow> [] | Some d \<Rightarrow> (case an_history_start d of None \<Rightarrow> []
    | Some h \<Rightarrow> render_if (h \<noteq> [] \<and> fm_later fm h (an_window_start d))
        [El T_div [Cls ''notice info'', A ''role'' ''status''] [Txt (t ''analytics.history_limited''), Txt '' '', Txt (fm_date fm h), Txt ''.'']]))"

definition analytics_body :: "(jstring \<Rightarrow> jstring) \<Rightarrow> analytics_formats \<Rightarrow> analytics_page \<Rightarrow> analytics \<Rightarrow> analytics_msg node list option" where
  [view_defs]: "analytics_body t fm s d =
     (if ab_total (an_totals d) = 0
      then Some [analytics_stats t fm (ay_range s) (an_totals d),
             El T_section [Cls ''panel''] [EmptyState [Icon ''BarChart3'' 22] (t ''analytics.empty_title'') [Txt (t ''analytics.empty_text'')] [] False]]
      else (case (QueryChart t fm (ay_range s) (ay_active s Query_chart) d, LatencyChart t fm (ay_range s) (ay_active s Latency_chart) d) of
          (Some q, Some l) \<Rightarrow> Some [analytics_stats t fm (ay_range s) (an_totals d), q, l, breakdowns t fm (ay_summary s) d, usage_panel t fm (an_upstreams d)]
        | _ \<Rightarrow> None))"

definition analytics_view :: "(jstring \<Rightarrow> jstring) \<Rightarrow> analytics_formats \<Rightarrow> analytics_page \<Rightarrow> analytics_msg node list option" where
  [view_defs]: "analytics_view t fm s =
     (if \<not> ay_logging s
      then Some [El T_section [Cls ''panel'']
             [EmptyState [Icon ''BarChart3'' 22] (t ''analytics.logging_off_title'')
                [Txt (t ''analytics.logging_off_text''), Txt '' '', El T_Link [A ''to'' ''/settings''] [Txt (t ''app.nav.settings'')]] [] False]]
      else map_option (\<lambda>body. [El T_div [Cls ''stack'']
             ([analytics_toolbar t s]
              @ render_if (ay_error s \<noteq> []) [El T_div [Cls ''notice error'', A ''role'' ''alert''] [Txt (ay_error s)]]
              @ limited_history t fm (ay_data s)
              @ render_if (ay_data s = None \<and> ay_error s = []) [El T_section [Cls ''panel''] [Loading [Txt (t ''app.connecting_panel'')]]]
              @ body)])
             (case ay_data s of None \<Rightarrow> Some [] | Some d \<Rightarrow> analytics_body t fm s d))"

text \<open>A render that throws takes the page away: nothing is left to trigger.\<close>

definition analytics_screen :: "(jstring \<Rightarrow> jstring) \<Rightarrow> analytics_formats \<Rightarrow> analytics_page \<Rightarrow> analytics_msg node list" where
  "analytics_screen t fm s = nullish (analytics_view t fm s) []"

section \<open>The page as a machine\<close>

inductive analytics_env :: "(jstring \<Rightarrow> jstring) \<Rightarrow> analytics_page \<Rightarrow> analytics_page \<Rightarrow> bool" for t where
  timer_fires: "analytics_env t s (analytics_timer s)"
| language_changes: "analytics_env t s (analytics_effect s)"
| logging_changes: "analytics_env t s (analytics_logging logging s)"
| load_done: "i < length (ay_loads s) \<Longrightarrow> analytics_env t s (analytics_settled t i res s)"

text \<open>The loads of the effect that are not aborted.\<close>

definition signalled :: "(analytics_range \<times> bool option) list \<Rightarrow> (analytics_range \<times> bool option) list" where
  "signalled ls = filter (\<lambda>x. snd x = Some False) ls"

lemma signalled_simps [simp]:
  "signalled [] = []" "signalled (ls @ ms) = signalled ls @ signalled ms"
  "signalled ((r, sig) # ls) = (if sig = Some False then [(r, sig)] else []) @ signalled ls"
  "signalled (map (\<lambda>(r, sig). (r, map_option (\<lambda>_. True) sig)) ls) = []"
  by (auto simp: signalled_def filter_empty_conv)

lemma signalled_remove: "length (signalled (remove_nth i ls)) \<le> length (signalled ls)" "set (signalled (remove_nth i ls)) \<subseteq> set (signalled ls)"
  using filter_remove_nth_le [of _ i ls] set_remove_nth [of i ls] by (auto simp: signalled_def)

text \<open>
  Of the loads that the effect started at most one is not aborted, it asks for the range that is
  selected, and none is while the timer that starts the next one runs; a selected bucket is not negative.
\<close>

definition analytics_inv :: "analytics_page \<Rightarrow> bool" where
  "analytics_inv s \<longleftrightarrow> length (signalled (ay_loads s)) \<le> (if ay_timer s then 0 else 1) \<and>
     (\<forall>x \<in> set (signalled (ay_loads s)). fst x = ay_range s) \<and> (\<not> ay_logging s \<longrightarrow> \<not> ay_timer s \<and> signalled (ay_loads s) = []) \<and>
     (\<forall>c i. ay_active s c = Some i \<longrightarrow> 0 \<le> i)"

lemma analytics_inv_effect: "analytics_inv (analytics_effect s) \<longleftrightarrow> (\<forall>c i. ay_active s c = Some i \<longrightarrow> 0 \<le> i)"
  by (simp add: analytics_inv_def analytics_effect_def)

lemma analytics_inv_sync: "analytics_inv s \<Longrightarrow> analytics_inv (sync_charts s)"
  by (auto simp: analytics_inv_def sync_charts_def)

lemma analytics_inv_loads:
  assumes "analytics_inv s" "ay_loads s' = remove_nth i (ay_loads s)" "ay_timer s' = ay_timer s" "ay_range s' = ay_range s"
    "ay_logging s' = ay_logging s" "ay_active s' = ay_active s"
  shows "analytics_inv s'"
  using assms signalled_remove [of i "ay_loads s"] unfolding analytics_inv_def by (auto simp: subset_iff)

lemma analytics_settled_inv: "analytics_inv s \<Longrightarrow> analytics_inv (analytics_settled t i res s)"
  by (auto simp: analytics_settled_def Let_def intro!: analytics_inv_sync analytics_inv_loads [of s _ i] split: sum.split)

lemma analytics_env_inv: "analytics_inv s \<Longrightarrow> analytics_env t s s' \<Longrightarrow> analytics_inv s'"
proof (erule analytics_env.cases; hypsubst)
  assume "analytics_inv s"
  then show "analytics_inv (analytics_timer s)" by (auto simp: analytics_timer_def analytics_load_def analytics_inv_def)
  show "analytics_inv (analytics_effect s)" using \<open>analytics_inv s\<close> by (simp add: analytics_inv_effect) (simp add: analytics_inv_def)
next
  fix logging assume "analytics_inv s"
  then show "analytics_inv (analytics_logging logging s)"
    by (auto simp: analytics_logging_def analytics_inv_effect intro!: analytics_inv_sync) (auto simp: analytics_inv_def)
qed (rule analytics_settled_inv)

lemma clamp_index_bounds: "0 \<le> clamp_index n i \<and> (0 < n \<longrightarrow> clamp_index n i < n)"
  by (auto simp: clamp_index_def)

lemma analytics_update_inv: "analytics_inv s \<Longrightarrow> analytics_inv (analytics_update m s)"
proof (cases m)
  case (AY_Range r)
  assume "analytics_inv s"
  then show ?thesis using AY_Range by (auto simp: setRange_def analytics_inv_effect) (auto simp: analytics_inv_def)
qed (use clamp_index_bounds in \<open>auto simp: analytics_load_def set_active_def onMove_def onKey_def Let_def analytics_inv_def\<close>)

interpretation analytics: page_machine
  "\<lambda>s. \<exists>logging. s = analytics_mount logging" "analytics_screen t fm" analytics_update "analytics_env t" analytics_inv for t fm
proof unfold_locales
  show "analytics_inv s" if "\<exists>logging. s = analytics_mount logging" for s
    using that by (auto simp: analytics_mount_def analytics_inv_effect)
qed (blast intro: analytics_update_inv analytics_env_inv)+

section \<open>When rendering is total\<close>

lemma all_charts: "(\<forall>c i. f c = Some i \<longrightarrow> P i) \<longleftrightarrow>
    (case f Query_chart of None \<Rightarrow> True | Some i \<Rightarrow> P i) \<and> (case f Latency_chart of None \<Rightarrow> True | Some i \<Rightarrow> P i)"
proof
  assume p: "(case f Query_chart of None \<Rightarrow> True | Some i \<Rightarrow> P i) \<and> (case f Latency_chart of None \<Rightarrow> True | Some i \<Rightarrow> P i)"
  show "\<forall>c i. f c = Some i \<longrightarrow> P i"
  proof (intro allI)
    fix c i show "f c = Some i \<longrightarrow> P i" using p by (cases c) (auto split: option.splits)
  qed
qed (simp split: option.split)

lemma chart_ticks_Some: "chart_ticks series = None \<longleftrightarrow> series = []"
  by (simp add: chart_ticks_def split: list.split)

lemma charts_Some:
  "QueryChart t fm rng a d = None \<longleftrightarrow> an_series d = [] \<or> shown_bucket a (an_series d) = None"
  "LatencyChart t fm rng a d = None \<longleftrightarrow> an_series d = [] \<or> shown_bucket a (an_series d) = None"
  using chart_ticks_Some [of "an_series d"]
  by (cases "chart_ticks (an_series d)"; cases "shown_bucket a (an_series d)"; simp add: QueryChart_def LatencyChart_def Let_def)+

lemma shown_bucket_Some:
  "series \<noteq> [] \<Longrightarrow> shown_bucket active series \<noteq> None \<longleftrightarrow> (case active of None \<Rightarrow> True | Some i \<Rightarrow> 0 \<le> i \<and> i < int (length series))"
  by (auto simp: shown_bucket_def js_nth_def Suc_le_eq split: option.split)

text \<open>The page renders unless a bucket is selected that the series no longer has, or the series is empty.\<close>

lemma analytics_view_Some:
  "analytics_view t fm s \<noteq> None \<longleftrightarrow> (shows_charts s \<longrightarrow> (\<exists>d. ay_data s = Some d \<and> an_series d \<noteq> [] \<and>
     (\<forall>c i. ay_active s c = Some i \<longrightarrow> 0 \<le> i \<and> i < int (length (an_series d)))))"
proof (cases "ay_data s")
  case (Some d)
  show ?thesis
  proof (cases "an_series d = []")
    case True
    then show ?thesis using Some charts_Some [of t fm "ay_range s" _ d]
      by (simp add: analytics_view_def analytics_body_def shows_charts_def)
  next
    case False
    note sh = shown_bucket_Some [OF False]
    have "analytics_body t fm s d = None \<longleftrightarrow> ab_total (an_totals d) \<noteq> 0 \<and>
        (shown_bucket (ay_active s Query_chart) (an_series d) = None \<or> shown_bucket (ay_active s Latency_chart) (an_series d) = None)"
      using False charts_Some(1) [of t fm "ay_range s" "ay_active s Query_chart" d] charts_Some(2) [of t fm "ay_range s" "ay_active s Latency_chart" d]
      by (cases "QueryChart t fm (ay_range s) (ay_active s Query_chart) d"; cases "LatencyChart t fm (ay_range s) (ay_active s Latency_chart) d")
        (simp_all add: analytics_body_def)
    then have "analytics_body t fm s d \<noteq> None \<longleftrightarrow> (ab_total (an_totals d) \<noteq> 0 \<longrightarrow>
        (\<forall>c i. ay_active s c = Some i \<longrightarrow> 0 \<le> i \<and> i < int (length (an_series d))))"
      unfolding all_charts using sh [of "ay_active s Query_chart"] sh [of "ay_active s Latency_chart"] by argo
    then show ?thesis using Some False by (simp add: analytics_view_def shows_charts_def)
  qed
qed (simp add: analytics_view_def shows_charts_def)

section \<open>Segments\<close>

text \<open>The points of the latency line are those of the buckets with traffic, in order, and no segment is empty.\<close>

fun latency_points :: "rat \<Rightarrow> nat \<Rightarrow> analytics_bucket list \<Rightarrow> jstring list" where
  "latency_points ceil i [] = []"
| "latency_points ceil i (b # bs) = (if ab_average_ms b > 0 then [latency_point ceil i b] else []) @ latency_points ceil (Suc i) bs"

lemma latency_segments_concat: "concat (latency_segments ceil i current bs) = current @ latency_points ceil i bs"
  by (induction ceil i current bs rule: latency_segments.induct) auto

lemma latency_segments_nonempty: "seg \<in> set (latency_segments ceil i current bs) \<Longrightarrow> seg \<noteq> []"
  by (induction ceil i current bs rule: latency_segments.induct) (auto split: if_splits)

text \<open>A reload by hand is not aborted when another range is chosen: its answer, arriving last, puts the data of the old
  range under the new one.\<close>

lemma reload_not_aborted:
  assumes "ay_logging s" "ay_loads s = []" "r \<noteq> ay_range s"
  shows "let s1 = analytics_timer (analytics_update (AY_Range r) (analytics_update AY_Reload s));
      s2 = analytics_settled t 0 (Inr (old, q)) (analytics_settled t 1 (Inr (new, q)) s1)
    in map fst (ay_loads s1) = [ay_range s, r] \<and> ay_range s2 = r \<and> ay_data s2 = Some old \<and> ay_loads s2 = []"
  using assms
  by (auto simp: analytics_settled_def analytics_timer_def analytics_load_def setRange_def analytics_effect_def sync_charts_def remove_nth_def Let_def)

end
