(* ===== verification/Page_Requests.thy ===== *)
theory Page_Requests
  imports Requests Zones_Page Clients_Page Rewrites_Page Policies_Page Webhooks_Page Forwarding_Page Blocklists_Page Cache_Page
    DHCP_Page Cluster_Page Settings_Page Query_Log Audit_Log Event_Center Diagnostics_Page Dashboard_Page Analytics_Page
begin

text \<open>
  The requests that the exported API functions build are well-formed, and so are the changes in flight of
  every reachable state of every page that makes changes.
\<close>

section \<open>Calls\<close>

lemma wf_zone_op: "wf_call (zone_op_call op)"
  by (cases op) (auto simp: wf_call_def wf_path_api is_alnum_def split: option.split)

lemma wf_client_calls:
  "wf_call (createClient_call c)" "wf_call (updateClient_call n c)" "wf_call (deleteClient_call n)" "wf_call (client_save_call f)"
  by (simp_all add: createClient_call_def updateClient_call_def deleteClient_call_def client_save_call_def wf_request split: option.split)

lemma wf_rewrite_calls:
  "wf_call (createRewrite_call r)" "wf_call (updateRewrite_call n r)" "wf_call (deleteRewrite_call n)" "wf_call (rewrite_save_call e)"
  by (simp_all add: createRewrite_call_def updateRewrite_call_def deleteRewrite_call_def rewrite_save_call_def wf_request split: option.split)

lemma wf_policy_calls:
  "wf_call (createPolicy_call p)" "wf_call (updatePolicy_call n p)" "wf_call (deletePolicy_call n)" "wf_call (policy_save_call e)"
  by (simp_all add: createPolicy_call_def updatePolicy_call_def deletePolicy_call_def policy_save_call_def wf_request split: option.split)

lemma wf_webhook_calls:
  "wf_call (createWebhook_call h)" "wf_call (updateWebhook_call n h)" "wf_call (deleteWebhook_call n)" "wf_call (testWebhook_call n)"
  "wf_call (webhook_save_call e)"
  by (simp_all add: createWebhook_call_def updateWebhook_call_def deleteWebhook_call_def testWebhook_call_def webhook_save_call_def
      wf_request split: option.split)

lemma wf_forward_calls:
  "wf_call (createForwardRule_call i)" "wf_call (updateForwardRule_call n i)" "wf_call (deleteForwardRule_call n)"
  "wf_call (testForwardRule_call n name ty)"
  by (simp_all add: createForwardRule_call_def updateForwardRule_call_def deleteForwardRule_call_def testForwardRule_call_def wf_request)

lemma wf_dhcp_calls:
  "wf_call (createPool_call p)" "wf_call (deletePool_call n)" "wf_call (createReservation_call n r)" "wf_call (deleteReservation_call n)"
  "wf_call (deleteLease_call n)"
  by (simp_all add: createPool_call_def deletePool_call_def createReservation_call_def deleteReservation_call_def deleteLease_call_def wf_request)

lemma wf_cache_op: "wf_call (cache_op_call op)"
  by (cases op) (simp_all add: wf_request)

lemma wf_cluster_action: "wf_call (cluster_action_call a)"
  by (cases a) (simp_all add: createCluster_call_def joinCluster_call_def issueJoinToken_call_def removeClusterMember_call_def
      dissolveCluster_call_def syncCluster_call_def leaveCluster_call_def wf_request)

lemma wf_settings_op: "wf_call (settings_op_call op)"
  by (cases op) (simp_all add: saveConfig_call_def validateConfig_call_def wf_request)

lemma wf_explain: "wf_call (explainAnswer_call name ty client)"
  by (simp add: explainAnswer_call_def wf_request)

text \<open>What the pages ask for: the texts a user typed are encoded.\<close>

lemma wf_reads:
  "wf_call (get_call (query_path qf))" "wf_call (get_call (audit_path af before))" "wf_call (get_call (entries_path off cf))"
  "wf_call (searchResources_call q)" "wf_call (effectivePolicy_call ip)" "list_all wf_call (analytics_calls r)"
  by (simp_all add: query_path_def audit_path_def entries_path_def searchResources_call_def effectivePolicy_call_def analytics_calls_def
      loadAnalytics_call_def wf_request)
    (cases r; simp add: is_alnum_def)+

section \<open>Pages\<close>

text \<open>A page whose changes are all well-formed, whatever their arguments.\<close>

lemma sends_typed_all: "(\<And>op. wf_call (f op)) \<Longrightarrow> sends_typed xs (map f ops)" "(\<And>op. wf_call (f op)) \<Longrightarrow> list_all wf_call (map f ops)"
  by (auto simp: sends_typed_def list_all_iff)

lemma sends_typed_wf: "list_all wf_call ys \<Longrightarrow> sends_typed xs ys"
  by (auto simp: sends_typed_def list_all_iff)

interpretation zones_typed: typed_page
  "\<lambda>s. \<exists>p. s = zones_mount p" "zones_view t ro" "zones_update t" "zones_env collate t" "\<lambda>s. map zone_op_call (uz_ops (zp_hook s))"
  for t ro collate
  by unfold_locales (simp_all add: sends_typed_all wf_zone_op)

interpretation cache_typed: typed_page
  "\<lambda>s. \<exists>d. s = cache_mount d" "cache_view t fm pct ro" cache_update "cache_env t" "\<lambda>s. map cache_op_call (cp_ops s)" for t fm pct ro
  by unfold_locales (simp_all add: sends_typed_all wf_cache_op)

interpretation cluster_typed: typed_page
  "\<lambda>s. \<exists>u. s = cluster_mount u" "cluster_view t fm pct clock canManage" cluster_update "cluster_env t"
  "\<lambda>s. map cluster_action_call (cz_runs s)" for t fm pct clock canManage
  by unfold_locales (simp_all add: sends_typed_all wf_cluster_action)

text \<open>The settings page saves the configuration, the rate limit and, through the provider, the preferences.\<close>

definition settings_calls :: "settings \<Rightarrow> call list" where
  "settings_calls s = map settings_op_call (sg_ops s) @ map saveRateLimitSettings_call (sg_rateSaves s)
     @ map savePreferences_call (pv_saves (snd (sg_prefs s)))"

lemma wf_settings_calls: "list_all wf_call (settings_calls s)"
  by (simp add: settings_calls_def list_all_map_iff wf_settings_op saveRateLimitSettings_call_def savePreferences_call_def wf_request)

interpretation settings_typed: typed_page
  "\<lambda>s. \<exists>d hp. settings_mount d hp = Some s" "settings_view dict num lnum ldate" "settings_update dict" "settings_env dict"
  settings_calls for dict num lnum ldate
  by unfold_locales (simp_all add: sends_typed_wf wf_settings_calls)

interpretation events_typed: typed_page
  "\<lambda>s. s = events_mount" "events_view t fm" events_update "events_env t" "\<lambda>s. map markRead_call (ec_marks s)" for t fm
  by unfold_locales (simp_all add: sends_typed_all markRead_call_def wf_request)

interpretation dashboard_typed: typed_page
  "\<lambda>s. \<exists>d history log st. s = dashboard_mount d history log st" "dashboard_view t fm dbl ro has_refresh" dashboard_update
  "dashboard_env t" db_resets for t fm dbl ro has_refresh
proof unfold_locales
  show "sends_typed (db_resets s) (db_resets (dashboard_update m s))" for s m
    by (cases "(m, s)" rule: dashboard_update.cases) (simp_all add: resetStatistics_def reset_call_def wf_request)
  show "sends_typed (db_resets s) (db_resets s')" if "dashboard_env t s s'" for s s'
    using that by cases (auto simp: dashboard_props_def summary_effect_def health_tick_def health_settled_def summary_settled_def
        reset_settled_def Let_def split: sum.split option.split)
qed (auto simp: dashboard_mount_def summary_effect_def health_effect_def)

text \<open>The pages on the load-and-run core: answers only take changes away.\<close>

lemma typed_crud_env: "crud_env lf sf s s' \<Longrightarrow> sends_typed (map run_call (cr_runs s)) (map run_call (cr_runs s'))"
  by (erule crud_env.cases; hypsubst)
    (auto simp: crud_timer_def crud_load_def crud_language_def crud_load_settled_frame crud_run_settled_def Let_def split: sum.split)

interpretation clients_typed: typed_page
  "\<lambda>s. \<exists>n. s = clients_mount ro n" "clients_view t fm highlight ql ro" "clients_update t"
  "crud_env (t ''clients.load_failed'') (t ''clients.save_failed'')" "\<lambda>s. map run_call (cr_runs s)" for t fm highlight ql ro
proof unfold_locales
  show "sends_typed (map run_call (cr_runs s)) (map run_call (cr_runs (clients_update t m s)))" for s m
    by (cases m) (auto simp: crud_load_def crud_run_def clients_save_def wf_client_calls split: option.split)
qed (auto simp: clients_mount_def crud_mount_def intro: typed_crud_env)

interpretation rewrites_typed: typed_page
  "\<lambda>s. \<exists>q. s = rewrites_mount q" "rewrites_view t ro" "rewrites_update t"
  "crud_env (t ''rewrites.load_failed'') (t ''rewrites.save_failed'')" "\<lambda>s. map run_call (cr_runs s)" for t ro
proof unfold_locales
  show "sends_typed (map run_call (cr_runs s)) (map run_call (cr_runs (rewrites_update t m s)))" for s m
    by (cases m) (auto simp: crud_load_def crud_run_def rewrites_save_def edit_rewrite_def wf_rewrite_calls split: option.split)
qed (auto simp: rewrites_mount_def crud_mount_def crud.defs intro: typed_crud_env)

interpretation policies_typed: typed_page
  "\<lambda>s. s = policies_mount" "policies_view t ro" "policies_update t" "policies_env t" "\<lambda>s. map run_call (cr_runs s)" for t ro
proof unfold_locales
  show "sends_typed (map run_call (cr_runs s)) (map run_call (cr_runs (policies_update t m s)))" for s m
    by (cases m) (auto simp: crud_load_def crud_run_def policy_save_def edit_policy_def policy_check_def startNew_def wf_policy_calls
        split: option.split)
  show "sends_typed (map run_call (cr_runs s)) (map run_call (cr_runs s'))" if "policies_env t s s'" for s s'
    using that by cases (auto simp: crud_timer_def crud_load_def crud_language_def crud_load_settled_frame policy_run_settled_def
        crud_run_settled_def policy_check_settled_def Let_def split: sum.split)
qed (simp add: policies_mount_def crud_mount_def crud.defs)

interpretation webhooks_typed: typed_page
  "\<lambda>s. s = webhooks_mount" "webhooks_view t fm" "webhooks_update t" "webhooks_env t" "\<lambda>s. map run_call (cr_runs s)" for t fm
proof unfold_locales
  have announce: "cr_runs (announce s) = cr_runs s" for s
    by (simp add: announce_def split: option.split sum.split)
  show "sends_typed (map run_call (cr_runs s)) (map run_call (cr_runs (webhooks_update t m s)))" for s m
    by (cases m) (auto simp: crud_load_def crud_run_def webhook_save_def edit_webhook_def sendTest_def test_run_def wf_webhook_calls
        split: option.split)
  show "sends_typed (map run_call (cr_runs s)) (map run_call (cr_runs s'))" if "webhooks_env t s s'" for s s'
    using that by cases (auto simp: crud_timer_def crud_load_def crud_language_def crud_load_settled_frame webhook_load_settled_def
        crud_run_settled_def webhook_test_settled_def announce Let_def split: sum.split)
qed (simp add: webhooks_mount_def crud_mount_def crud.defs)

interpretation forwarding_typed: typed_page
  "\<lambda>s. s = forwarding_mount" "forwarding_view t ro" forwarding_update "forwarding_env t" "\<lambda>s. map forward_op_call (fw_ops s)" for t ro
proof unfold_locales
  show "sends_typed (map forward_op_call (fw_ops s)) (map forward_op_call (fw_ops (forwarding_update m s)))" for s m
    by (cases m) (auto simp: fwd_load_def fwd_save_def fwd_toggle_def fwd_remove_def runTest_def wf_forward_calls split: option.split)
  show "sends_typed (map forward_op_call (fw_ops s)) (map forward_op_call (fw_ops s'))" if "forwarding_env t s s'" for s s'
    using that
  proof cases
    case (op_done i res)
    then show ?thesis
      by (cases "fw_ops s ! i") (auto simp: fwd_op_settled_def fwd_op_failed_def fwd_load_def Let_def split: sum.split)
  qed (auto simp: fwd_timer_def fwd_tick_def fwd_language_def fwd_load_def fwd_load_settled_def fwd_test_settled_def fwd_op_failed_def
      Let_def split: sum.split)
qed (simp add: forwarding_mount_def)

interpretation blocklists_typed: typed_page
  "\<lambda>s. s = blocklists_mount" "blocklists_view t fm date due ro" blocklists_update "blocklists_env t" "\<lambda>s. map bl_op_call (bl_ops s)"
  for t fm date due ro
proof unfold_locales
  show "sends_typed (map bl_op_call (bl_ops s)) (map bl_op_call (bl_ops (blocklists_update m s)))" for s m
    by (cases m) (auto simp: bl_load_start_def bl_add_def bl_start_def saveContent_def toggleEnabled_def changeSchedule_def deleteSource_def
        startEditing_def bl_refresh_def bl_path_def wf_request split: option.split)
  show "sends_typed (map bl_op_call (bl_ops s)) (map bl_op_call (bl_ops s'))" if "blocklists_env t s s'" for s s'
    using that
  proof cases
    case (op_done i res)
    then show ?thesis
      by (cases "bl_ops s ! i") (auto simp: bl_op_settled_def bl_load_start_def Let_def split: sum.split)
  qed (auto simp: bl_effect_def bl_load_settled_def startEditing_settled_def Let_def split: sum.split)
qed (simp add: blocklists_mount_def bl_effect_def)

lemma refresh_step_ops: "dh_ops (refresh_step t r ans s) = dh_ops s"
  by (induction t r ans s rule: refresh_step.induct) (simp_all add: refresh_failed_def Let_def)

interpretation dhcp_typed: typed_page
  "\<lambda>s. s = dhcp_mount" "dhcp_view t num left ro" dhcp_update "dhcp_env t" "\<lambda>s. map dhcp_op_call (dh_ops s)" for t num left ro
proof unfold_locales
  show "sends_typed (map dhcp_op_call (dh_ops s)) (map dhcp_op_call (dh_ops (dhcp_update m s)))" for s m
    by (cases m) (auto simp: dhcp_refresh_start_def handleCreatePool_def dhcp_start_def setSelectedPool_def reservations_effect_def
        handleDeletePool_def handleCreateReservation_def handleDeleteReservation_def handleDeleteLease_def wf_dhcp_calls)
  show "sends_typed (map dhcp_op_call (dh_ops s)) (map dhcp_op_call (dh_ops s'))" if "dhcp_env t s s'" for s s'
    using that
  proof cases
    case (op_done i u)
    then show ?thesis
      by (cases "dh_ops s ! i")
        (auto simp: dhcp_op_settled_def dhcp_refresh_start_def setSelectedPool_def reservations_effect_def Let_def split: sum.split)
  qed (auto simp: dhcp_language_def reservations_effect_def lists_effect_def lists_settled_def reservations_settled_def refresh_settled_def
      refresh_step_ops Let_def split: sum.split)
qed (simp add: dhcp_mount_def reservations_effect_def lists_effect_def)

interpretation explainer_typed: typed_page
  "\<lambda>s. s = explainer_mount" "explainer_view t" explain_update "explainer_env t" ex_calls for t
proof unfold_locales
  show "sends_typed (ex_calls s) (ex_calls (explain_update m s))" for s m
    by (cases m) (auto simp: explain_submit_def wf_explain)
  show "sends_typed (ex_calls s) (ex_calls s')" if "explainer_env t s s'" for s s'
    using that by cases (auto simp: explain_settled_def Let_def split: sum.split)
qed (simp add: explainer_mount_def)

end
