(* ===== verification/Phase_Poller.thy ===== *)
theory Phase_Poller
  imports Snapshot
begin

text \<open>
  Polling that belongs to a phase of a page (\<open>UpdateCenter.tsx\<close> while an update runs,
  \<open>RestorePanel.tsx\<close> while the server restarts): the effect on the phase cancels what the previous run
  left and arms a timer only in a polling phase; each answer either arms the timer again or leaves the
  phase. The contract says that polling goes on exactly as long as the phase does.
\<close>

definition gated_poll :: "bool \<Rightarrow> bool list \<Rightarrow> bool \<Rightarrow> bool" where
  "gated_poll polling ps timer \<longleftrightarrow> live_polls ps = (if polling \<and> \<not> timer then 1 else 0) \<and> (timer \<longrightarrow> polling)"

locale phase_poller =
  fixes polls :: "'s \<Rightarrow> bool list" and timer :: "'s \<Rightarrow> bool" and polling :: "'s \<Rightarrow> bool"
    and restart :: "'s \<Rightarrow> 's" and tick :: "'s \<Rightarrow> 's" and settled :: "nat \<Rightarrow> 'r \<Rightarrow> 's \<Rightarrow> 's"
  assumes restart: "live_polls (polls (restart s)) = 0" "timer (restart s) = polling (restart s)"
    and tick: "polls (tick s) = polls s @ [False]" "\<not> timer (tick s)" "polling (tick s) = polling s"
    and cancelled: "i < length (polls s) \<Longrightarrow> polls s ! i \<Longrightarrow>
      polls (settled i r s) = remove_nth i (polls s) \<and> timer (settled i r s) = timer s \<and> polling (settled i r s) = polling s"
    and answered: "i < length (polls s) \<Longrightarrow> \<not> polls s ! i \<Longrightarrow> polling s \<Longrightarrow> \<not> timer s \<Longrightarrow>
      live_polls (polls (settled i r s)) \<le> live_polls (remove_nth i (polls s)) \<and> timer (settled i r s) = polling (settled i r s)"
begin

definition ok :: "'s \<Rightarrow> bool" where
  "ok s \<longleftrightarrow> gated_poll (polling s) (polls s) (timer s)"

lemma ok_restart: "ok (restart s)"
  by (simp add: ok_def gated_poll_def restart)

lemma ok_tick: "ok s \<Longrightarrow> timer s \<Longrightarrow> ok (tick s)"
  by (simp add: ok_def gated_poll_def tick)

lemma ok_settled: "ok s \<Longrightarrow> i < length (polls s) \<Longrightarrow> ok (settled i r s)"
  using live_polls_remove [of i "polls s"] cancelled [of i s r] answered [of i s r]
  by (cases "polls s ! i") (auto simp: ok_def gated_poll_def split: if_splits)

end

end
