(* ===== verification/Update_Center.thy ===== *)
theory Update_Center
  imports Api_Admin Phase_Poller
begin

text \<open>
  \<open>pages/UpdateCenter.tsx\<close>: checking for an update, starting it and following it while the server
  restarts. The three refs are fields of the state, and so is the clock in milliseconds, which the
  environment advances; \<open>time\<close> reads a time stamp (\<open>None\<close> for an invalid date, with which no comparison
  holds).
\<close>

datatype update_phase =
  Idle | Checking | Up_to_date | Available | Starting | Updating | Completed | Failed

fun phase_name :: "update_phase \<Rightarrow> jstring" where
  "phase_name Idle = ''idle''"
| "phase_name Checking = ''checking''"
| "phase_name Up_to_date = ''up_to_date''"
| "phase_name Available = ''available''"
| "phase_name Starting = ''starting''"
| "phase_name Updating = ''updating''"
| "phase_name Completed = ''completed''"
| "phase_name Failed = ''failed''"

definition STEPS :: "jstring list" where
  "STEPS = [''downloading'', ''verifying'', ''installing'', ''readiness'']"

definition START_TIMEOUT_MS :: int where
  "START_TIMEOUT_MS = 30000"

record update_center =
  uc_status :: "update_status option"
  uc_check :: "update_check option"
  uc_phase :: update_phase
  uc_error :: jstring
  uc_loading :: bool
  uc_reconnecting :: bool
  uc_history :: "update_entry list option"
  uc_notified :: bool
  uc_sawUpdate :: bool
  uc_startedAt :: int
  uc_initialLoads :: "bool list"
  uc_polls :: "bool list"
  uc_timer :: bool
  uc_checks :: nat
  uc_requests :: "bool list"
  uc_historyLoads :: nat
  uc_updatedCalls :: nat
  uc_reloads :: nat
  uc_now :: int

definition polling_phase :: "update_phase \<Rightarrow> bool" where
  "polling_phase p \<longleftrightarrow> p = Starting \<or> p = Updating"

abbreviation uc_polling :: "update_center \<Rightarrow> bool" where
  "uc_polling s \<equiv> polling_phase (uc_phase s)"

text \<open>The effect on the phase: its clean-up cancels the poll and clears the timer.\<close>

definition poll_effect :: "update_center \<Rightarrow> update_center" where
  "poll_effect s = s\<lparr>uc_polls := abort_all (uc_polls s), uc_timer := uc_polling s\<rparr>"

definition setPhase :: "update_phase \<Rightarrow> update_center \<Rightarrow> update_center" where
  "setPhase p s = (if p = uc_phase s then s else poll_effect (s\<lparr>uc_phase := p\<rparr>))"

definition initial_effect :: "update_center \<Rightarrow> update_center" where
  "initial_effect s = s\<lparr>uc_initialLoads := abort_all (uc_initialLoads s) @ [False]\<rparr>"

definition update_mount :: "int \<Rightarrow> update_center" where
  "update_mount clock = poll_effect (initial_effect \<lparr>uc_status = None, uc_check = None, uc_phase = Idle, uc_error = [], uc_loading = True,
     uc_reconnecting = False, uc_history = None, uc_notified = False, uc_sawUpdate = False, uc_startedAt = 0, uc_initialLoads = [],
     uc_polls = [], uc_timer = False, uc_checks = 0, uc_requests = [], uc_historyLoads = 0, uc_updatedCalls = 0, uc_reloads = 0,
     uc_now = clock\<rparr>)"

definition update_language :: "update_center \<Rightarrow> update_center" where
  "update_language s = poll_effect (initial_effect s)"

definition initial_settled :: "(jstring \<Rightarrow> jstring) \<Rightarrow> nat \<Rightarrow> update_status result \<Rightarrow> update_center \<Rightarrow> update_center" where
  "initial_settled t i res s =
     (let aborted = uc_initialLoads s ! i; s0 = s\<lparr>uc_initialLoads := remove_nth i (uc_initialLoads s)\<rparr> in
      if aborted then s0
      else (case res of
          Inr st \<Rightarrow> (let s1 = s0\<lparr>uc_status := Some st\<rparr> in
             if us_updating st then setPhase Updating (s1\<lparr>uc_sawUpdate := True\<rparr>) else s1)
        | Inl e \<Rightarrow> s0\<lparr>uc_error := error_text e (t ''updates.load_failed'')\<rparr>)\<lparr>uc_loading := False\<rparr>)"

definition poll_tick :: "update_center \<Rightarrow> update_center" where
  "poll_tick s = s\<lparr>uc_timer := False, uc_polls := uc_polls s @ [False]\<rparr>"

definition finishedSinceRequest :: "(jstring \<Rightarrow> int option) \<Rightarrow> int \<Rightarrow> update_status \<Rightarrow> bool" where
  "finishedSinceRequest time started st =
     (case us_last_completed st of None \<Rightarrow> False
      | Some x \<Rightarrow> x \<noteq> [] \<and> (case time x of None \<Rightarrow> False | Some ms \<Rightarrow> ms \<ge> started))"

text \<open>One answer to a poll that is not cancelled: leave the phase, or arm the timer for the next poll.\<close>

definition poll_answer ::
  "(jstring \<Rightarrow> jstring) \<Rightarrow> (jstring \<Rightarrow> int option) \<Rightarrow> update_status \<Rightarrow> update_center \<Rightarrow> update_center" where
  "poll_answer t time st s =
     (let s1 = s\<lparr>uc_reconnecting := False, uc_status := Some st\<rparr> in
      if us_updating st then (setPhase Updating (s1\<lparr>uc_sawUpdate := True\<rparr>))\<lparr>uc_timer := True\<rparr>
      else if \<not> uc_sawUpdate s \<and> \<not> finishedSinceRequest time (uc_startedAt s) st then
        (if uc_now s - uc_startedAt s > START_TIMEOUT_MS then setPhase Failed (s1\<lparr>uc_error := t ''updates.not_started''\<rparr>)
         else s1\<lparr>uc_timer := True\<rparr>)
      else if us_state st = ''completed'' then
        (let s2 = setPhase Completed s1 in
         if uc_notified s then s2 else s2\<lparr>uc_notified := True, uc_updatedCalls := uc_updatedCalls s2 + 1\<rparr>)
      else if us_state st = ''failed'' \<or> us_state st = ''rolled_back'' then setPhase Failed s1
      else setPhase Idle s1)"

definition poll_settled ::
  "(jstring \<Rightarrow> jstring) \<Rightarrow> (jstring \<Rightarrow> int option) \<Rightarrow> nat \<Rightarrow> update_status result \<Rightarrow> update_center \<Rightarrow> update_center" where
  "poll_settled t time i r s =
     (let cancelled = uc_polls s ! i; s0 = s\<lparr>uc_polls := remove_nth i (uc_polls s)\<rparr> in
      if cancelled then s0
      else case r of
        Inr st \<Rightarrow> poll_answer t time st s0
      | Inl e \<Rightarrow> s0\<lparr>uc_reconnecting := True, uc_timer := True\<rparr>)"

section \<open>Handlers\<close>

definition runCheck :: "update_center \<Rightarrow> update_center" where
  "runCheck s = (setPhase Checking s)\<lparr>uc_error := [], uc_checks := uc_checks s + 1\<rparr>"

definition check_settled :: "(jstring \<Rightarrow> jstring) \<Rightarrow> update_check result \<Rightarrow> update_center \<Rightarrow> update_center" where
  "check_settled t res s = (let s0 = s\<lparr>uc_checks := uc_checks s - 1\<rparr> in case res of
      Inr c \<Rightarrow> setPhase (if uk_update_available c then Available else Up_to_date) (s0\<lparr>uc_check := Some c\<rparr>)
    | Inl e \<Rightarrow> setPhase Idle (s0\<lparr>uc_error := error_text e (t ''updates.load_failed'')\<rparr>))"

text \<open>The request carries whether the check that its handler has seen reported an update.\<close>

definition startUpdate :: "update_center \<Rightarrow> update_center" where
  "startUpdate s = setPhase Starting (s\<lparr>uc_error := [], uc_notified := False, uc_sawUpdate := False, uc_startedAt := uc_now s,
     uc_requests := uc_requests s @ [case uc_check s of None \<Rightarrow> False | Some c \<Rightarrow> uk_update_available c]\<rparr>)"

definition request_settled :: "(jstring \<Rightarrow> jstring) \<Rightarrow> nat \<Rightarrow> unit result \<Rightarrow> update_center \<Rightarrow> update_center" where
  "request_settled t i res s =
     (let offered = uc_requests s ! i; s0 = s\<lparr>uc_requests := remove_nth i (uc_requests s)\<rparr> in case res of
        Inr _ \<Rightarrow> s0
      | Inl e \<Rightarrow> setPhase (if offered then Available else Idle) (s0\<lparr>uc_error := error_text e (t ''updates.request_failed'')\<rparr>))"

definition toggleHistory :: "bool \<Rightarrow> update_center \<Rightarrow> update_center" where
  "toggleHistory opened s = (if opened \<and> uc_history s = None then s\<lparr>uc_historyLoads := uc_historyLoads s + 1\<rparr> else s)"

definition history_settled :: "update_entry list result \<Rightarrow> update_center \<Rightarrow> update_center" where
  "history_settled res s = s\<lparr>uc_historyLoads := uc_historyLoads s - 1,
     uc_history := Some (case res of Inl e \<Rightarrow> [] | Inr h \<Rightarrow> h)\<rparr>"

datatype update_msg = UC_Check | UC_Start | UC_Reload | UC_History bool

fun update_update :: "update_msg \<Rightarrow> update_center \<Rightarrow> update_center" where
  "update_update UC_Check s = runCheck s"
| "update_update UC_Start s = startUpdate s"
| "update_update UC_Reload s = s\<lparr>uc_reloads := uc_reloads s + 1\<rparr>"
| "update_update (UC_History b) s = toggleHistory b s"

section \<open>Rendering\<close>

definition stateLabel :: "(jstring \<Rightarrow> jstring) \<Rightarrow> jstring \<Rightarrow> jstring" where
  "stateLabel t st = (let k = ''updates.state_'' @ st in if t k = k then st else t k)"

definition uc_busy :: "update_phase \<Rightarrow> bool" where
  "uc_busy p \<longleftrightarrow> p = Checking \<or> p = Starting \<or> p = Updating"

definition installed_version :: "update_center \<Rightarrow> jstring" where
  "installed_version s = or_else (nullish (map_option us_installed (uc_status s)) [])
     (or_else (nullish (map_option uk_installed_version (uc_check s)) []) emdash)"

text \<open>\<open>indexOf\<close>: the first position, or -1.\<close>

fun index_of :: "'a \<Rightarrow> 'a list \<Rightarrow> int" where
  "index_of x [] = -1"
| "index_of x (y # ys) = (if x = y then 0 else let i = index_of x ys in if i < 0 then -1 else i + 1)"

definition currentStep :: "update_center \<Rightarrow> int" where
  "currentStep s = (case uc_status s of None \<Rightarrow> -1 | Some st \<Rightarrow> index_of (us_state st) STEPS)"

definition check_mark :: jstring where
  "check_mark = [CHR 0xE2, CHR 0x9C, CHR 0x93]"

definition black_circle :: jstring where
  "black_circle = [CHR 0xE2, CHR 0x97, CHR 0x8F]"

definition white_circle :: jstring where
  "white_circle = [CHR 0xE2, CHR 0x97, CHR 0x8B]"

definition updater_icon :: "update_phase \<Rightarrow> update_msg node" where
  [view_defs]: "updater_icon p =
     El T_span [Cls (''updater-icon '' @ phase_name p), A ''aria-hidden'' ''true'']
       [if p = Completed \<or> p = Up_to_date then Icon ''CheckCircle2'' 28
        else if p = Failed then Icon ''XCircle'' 28
        else if uc_busy p then Icon ''Loader2'' 28 else Icon ''Download'' 28]"

definition updater_title :: "(jstring \<Rightarrow> jstring) \<Rightarrow> update_center \<Rightarrow> jstring" where
  "updater_title t s = (case uc_phase s of
      Idle \<Rightarrow> t ''updates.check_prompt''
    | Checking \<Rightarrow> t ''updates.checking''
    | Up_to_date \<Rightarrow> t ''updates.up_to_date''
    | Available \<Rightarrow> t ''updates.available'' @ '': '' @ nullish (map_option uk_latest_version (uc_check s)) ''undefined''
    | Starting \<Rightarrow> t ''updates.starting''
    | Updating \<Rightarrow> (let v = nullish (Option.bind (uc_status s) us_to_version) [] in
        if v \<noteq> [] then t ''updates.updating_to'' @ '' '' @ v else t ''updates.in_progress'')
    | Completed \<Rightarrow> t ''updates.completed_to'' @ '' '' @ nullish (map_option us_installed (uc_status s)) []
    | Failed \<Rightarrow> t ''updates.failed_title'')"

text \<open>\<open>day\<close> prints a date without the time.\<close>

definition check_meta :: "(jstring \<Rightarrow> jstring) \<Rightarrow> (jstring \<Rightarrow> jstring) \<Rightarrow> update_check \<Rightarrow> update_msg node" where
  [view_defs]: "check_meta t day c =
     El T_p [Cls ''updater-meta'']
       ([Txt (uk_channel c), Txt ('' '' @ middot @ '' ''), Txt (uk_architecture c)]
        @ render_if (nullish (uk_release_date c) [] \<noteq> [])
            [Txt ('' '' @ middot @ '' '' @ t ''updates.release_date'' @ '' '' @ day (nullish (uk_release_date c) []))]
        @ render_if (nullish (uk_download_size c) 0 \<noteq> 0)
            [Txt ('' '' @ middot @ '' '' @ to_fixed 1 (fl (fl (of_int (nullish (uk_download_size c) 0) / 1024) / 1024)) @ '' MiB'')])"

definition updater_actions :: "(jstring \<Rightarrow> jstring) \<Rightarrow> bool \<Rightarrow> update_phase \<Rightarrow> update_msg node" where
  [view_defs]: "updater_actions t ro p =
     El T_div [Cls ''updater-actions'']
       (render_if (p = Idle \<or> p = Checking \<or> p = Up_to_date \<or> p = Failed)
          [El T_button [Cls (''button'' @ (if p = Up_to_date then '''' else '' primary'')), OnClick UC_Check, Disabled (uc_busy p)]
             [Icon ''RefreshCw'' 15, Txt (if p = Failed then t ''updates.check_again'' else t ''updates.check'')]]
        @ render_if (p = Available \<and> \<not> ro)
          [El T_button [Cls ''button primary'', OnClick UC_Start] [Icon ''Download'' 15, Txt (t ''updates.update_now'')]]
        @ render_if (p = Completed)
          [El T_button [Cls ''button primary'', OnClick UC_Reload] [Icon ''RotateCcw'' 15, Txt (t ''updates.reload'')]])"

definition update_step_item :: "(jstring \<Rightarrow> jstring) \<Rightarrow> int \<Rightarrow> nat \<times> jstring \<Rightarrow> update_msg node" where
  [view_defs]: "update_step_item t cur x = (case x of (index, step) \<Rightarrow>
     El T_li [A ''key'' step, Cls (if int index < cur then ''done'' else if int index = cur then ''current'' else '''')]
       [Txt (if int index < cur then check_mark else if int index = cur then black_circle else white_circle), Txt '' '',
        Txt (stateLabel t step)])"

definition updater_progress :: "(jstring \<Rightarrow> jstring) \<Rightarrow> update_center \<Rightarrow> update_msg node" where
  [view_defs]: "updater_progress t s =
     El T_div [Cls ''updater-progress'']
       [El T_ol [Cls ''update-steps'', A ''aria-label'' (t ''updates.progress'')]
          (map (update_step_item t (currentStep s)) (List.enumerate 0 STEPS)),
        El T_p [Cls ''updater-meta'', A ''role'' ''status'']
          [Txt (if uc_reconnecting s then t ''updates.reconnecting'' else t ''updates.keep_open'')]]"

definition updater_notices :: "(jstring \<Rightarrow> jstring) \<Rightarrow> update_center \<Rightarrow> update_msg node list" where
  [view_defs]: "updater_notices t s =
     render_if (uc_phase s = Completed)
       [El T_div [Cls ''notice success updater-notice'', A ''role'' ''status''] [Txt (t ''updates.completed_text'')]]
     @ render_if (uc_phase s = Failed)
       [El T_div [Cls ''notice error updater-notice'', A ''role'' ''alert'']
          (Txt (or_else (nullish (Option.bind (uc_status s) us_error) []) (t ''updates.failed_text''))
           # render_if (nullish (Option.bind (uc_status s) us_rollback_used) False)
              [Txt '' '', Txt (if nullish (Option.bind (uc_status s) us_readiness_ok) False then t ''updates.rollback_recovered''
                 else t ''updates.rollback_used'')])]
     @ render_if (uc_error s \<noteq> []) [El T_div [Cls ''notice error updater-notice'', A ''role'' ''alert''] [Txt (uc_error s)]]"

definition history_row :: "(jstring \<Rightarrow> jstring) \<Rightarrow> formats \<Rightarrow> update_entry \<Rightarrow> update_msg node" where
  [view_defs]: "history_row t fm e =
     El T_tr [A ''key'' (ue_id e)]
       [El T_td [Cls ''mono''] [Txt (ue_to_version e)],
        El T_td [Cls ''mono cell-muted''] [Txt (ue_from_version e)],
        El T_td [Cls ''wrap'']
          (Badge (toneFor (Some (ue_state e))) False [Txt (stateLabel t (ue_state e))]
           # render_if (nullish (ue_error e) [] \<noteq> []) [El T_span [Cls ''error-text''] [Txt (nullish (ue_error e) [])]]),
        El T_td [Cls ''cell-muted''] [Txt (fm_date fm (ue_started_at e))]]"

definition updater_history :: "(jstring \<Rightarrow> jstring) \<Rightarrow> formats \<Rightarrow> update_entry list option \<Rightarrow> update_msg node" where
  [view_defs]: "updater_history t fm h =
     El T_details [Cls ''panel updater-history'', OnToggle UC_History]
       [El T_summary [] [Icon ''History'' 15, Txt '' '', Txt (t ''updates.history'')],
        (case h of
           None \<Rightarrow> Loading [Txt (t ''updates.loading'')]
         | Some es \<Rightarrow> if es = [] then EmptyState [] (t ''updates.no_history'') [] [] True
             else El T_div [Cls ''table-wrap''] [El T_table []
               [El T_thead [] [El T_tr []
                  [El T_th [] [Txt (t ''updates.col_to'')], El T_th [] [Txt (t ''updates.col_from'')],
                   El T_th [] [Txt (t ''updates.col_state'')], El T_th [] [Txt (t ''updates.col_started'')]]],
                El T_tbody [] (map (history_row t fm) es)]])]"

definition update_view :: "(jstring \<Rightarrow> jstring) \<Rightarrow> formats \<Rightarrow> (jstring \<Rightarrow> jstring) \<Rightarrow> bool \<Rightarrow> update_center \<Rightarrow> update_msg node list" where
  [view_defs]: "update_view t fm day ro s =
     (if uc_loading s then [El T_section [Cls ''panel''] [Loading [Txt (t ''updates.loading'')]]]
      else [El T_div [Cls ''stack'']
       [El T_section [Cls ''panel updater'']
          ([El T_div [Cls ''updater-body'']
              [updater_icon (uc_phase s),
               El T_div [Cls ''updater-text'']
                 ([El T_p [Cls ''updater-version''] [Txt ''Velora DNS '', El T_strong [] [Txt (installed_version s)]],
                   El T_h2 [A ''aria-live'' ''polite''] [Txt (updater_title t s)]]
                  @ (case uc_check s of None \<Rightarrow> [] | Some c \<Rightarrow>
                      render_if (uc_phase s = Available) [check_meta t day c]
                      @ render_if (uc_phase s = Up_to_date)
                          [El T_p [Cls ''updater-meta''] [Txt (uk_channel c), Txt ('' '' @ middot @ '' ''), Txt (uk_architecture c)]])),
               updater_actions t ro (uc_phase s)]]
           @ render_if (uc_phase s = Available \<and> nullish (Option.bind (uc_check s) uk_release_notes) [] \<noteq> [])
               [El T_p [Cls ''release-notes updater-notes''] [Txt (nullish (Option.bind (uc_check s) uk_release_notes) [])]]
           @ render_if (uc_phase s = Available \<and> ro)
               [El T_div [Cls ''notice info updater-notice'', A ''role'' ''status''] [Txt (t ''updates.viewer_readonly'')]]
           @ render_if (polling_phase (uc_phase s)) [updater_progress t s]
           @ updater_notices t s),
        updater_history t fm (uc_history s)]])"

section \<open>What the page lets a user trigger\<close>

definition update_guard :: "bool \<Rightarrow> update_center \<Rightarrow> update_msg \<Rightarrow> bool" where
  "update_guard ro s m = (case m of
      UC_Check \<Rightarrow> uc_phase s = Idle \<or> uc_phase s = Up_to_date \<or> uc_phase s = Failed
    | UC_Start \<Rightarrow> uc_phase s = Available \<and> \<not> ro
    | UC_Reload \<Rightarrow> uc_phase s = Completed
    | UC_History b \<Rightarrow> True)"

lemma update_parts_ok:
  "node_ok (update_guard ro s) False (updater_actions t ro (uc_phase s))"
  "node_ok (update_guard ro s) False (updater_progress t s)"
  "nodes_ok (update_guard ro s) (updater_notices t s)"
  "node_ok (update_guard ro s) False (updater_history t fm h)"
  "node_ok (update_guard ro s) False (check_meta t day c)"
  by (auto simp: updater_actions_def updater_progress_def update_step_item_def updater_notices_def updater_history_def history_row_def
      check_meta_def Loading_def EmptyState_def Badge_def update_guard_def uc_busy_def dom_simps split: option.split)

lemma update_view_ok: "nodes_ok (update_guard ro s) (update_view t fm day ro s)"
  using update_parts_ok
  by (auto simp: update_view_def updater_icon_def Loading_def dom_simps split: option.split)

lemmas update_fired = nodes_okD [OF update_view_ok]

section \<open>The page as a machine\<close>

inductive update_env :: "(jstring \<Rightarrow> jstring) \<Rightarrow> (jstring \<Rightarrow> int option) \<Rightarrow> update_center \<Rightarrow> update_center \<Rightarrow> bool" for t time where
  language_changes: "update_env t time s (update_language s)"
| initial_done: "i < length (uc_initialLoads s) \<Longrightarrow> update_env t time s (initial_settled t i res s)"
| timer_fires: "uc_timer s \<Longrightarrow> update_env t time s (poll_tick s)"
| poll_done: "i < length (uc_polls s) \<Longrightarrow> update_env t time s (poll_settled t time i pr s)"
| clock_advances: "uc_now s \<le> clock \<Longrightarrow> update_env t time s (s\<lparr>uc_now := clock\<rparr>)"
| check_done: "0 < uc_checks s \<Longrightarrow> update_env t time s (check_settled t chk s)"
| request_done: "i < length (uc_requests s) \<Longrightarrow> update_env t time s (request_settled t i u s)"
| history_done: "0 < uc_historyLoads s \<Longrightarrow> update_env t time s (history_settled h s)"

lemma poll_effect_frame [simp]:
  "uc_phase (poll_effect s) = uc_phase s" "uc_timer (poll_effect s) = uc_polling s" "live_polls (uc_polls (poll_effect s)) = 0"
  "uc_requests (poll_effect s) = uc_requests s" "uc_check (poll_effect s) = uc_check s"
  by (simp_all add: poll_effect_def)

lemma setPhase_frame [simp]:
  "uc_phase (setPhase p s) = p" "uc_requests (setPhase p s) = uc_requests s" "uc_check (setPhase p s) = uc_check s"
  "live_polls (uc_polls (setPhase p s)) \<le> live_polls (uc_polls s)"
  by (simp_all add: setPhase_def)

lemma setPhase_changed: "p \<noteq> uc_phase s \<Longrightarrow> uc_timer (setPhase p s) = polling_phase p" "p \<noteq> uc_phase s \<Longrightarrow> live_polls (uc_polls (setPhase p s)) = 0"
  by (simp_all add: setPhase_def)


interpretation update_poll: phase_poller uc_polls uc_timer uc_polling poll_effect poll_tick "poll_settled t time" for t time
proof unfold_locales
  fix i s r
  assume i: "i < length (uc_polls s)" "\<not> uc_polls s ! i" and p: "uc_polling s" "\<not> uc_timer s"
  show "live_polls (uc_polls (poll_settled t time i r s)) \<le> live_polls (remove_nth i (uc_polls s)) \<and>
      uc_timer (poll_settled t time i r s) = uc_polling (poll_settled t time i r s)"
    using i p
    by (cases r)
      (auto simp: poll_settled_def poll_answer_def setPhase_def poll_effect_def polling_phase_def Let_def)
qed (auto simp: poll_tick_def poll_settled_def Let_def)

text \<open>Polling goes on exactly while an update is starting or running, and an update is offered only with a check that found one.\<close>

definition update_inv :: "update_center \<Rightarrow> bool" where
  "update_inv s \<longleftrightarrow> gated_poll (uc_polling s) (uc_polls s) (uc_timer s)"

lemma update_inv_setPhase: "update_inv s \<Longrightarrow> update_inv (setPhase p s)"
  by (simp add: update_inv_def setPhase_def gated_poll_def)

lemma update_inv_cong:
  "uc_phase s' = uc_phase s \<Longrightarrow> uc_polls s' = uc_polls s \<Longrightarrow> uc_timer s' = uc_timer s \<Longrightarrow> update_inv s' = update_inv s"
  by (simp add: update_inv_def)

lemma update_inv_fields [simp]:
  "update_inv (s\<lparr>uc_status := a\<rparr>) = update_inv s" "update_inv (s\<lparr>uc_check := b\<rparr>) = update_inv s"
  "update_inv (s\<lparr>uc_error := c\<rparr>) = update_inv s" "update_inv (s\<lparr>uc_loading := d\<rparr>) = update_inv s"
  "update_inv (s\<lparr>uc_history := f\<rparr>) = update_inv s" "update_inv (s\<lparr>uc_notified := g\<rparr>) = update_inv s"
  "update_inv (s\<lparr>uc_sawUpdate := g\<rparr>) = update_inv s" "update_inv (s\<lparr>uc_startedAt := k\<rparr>) = update_inv s"
  "update_inv (s\<lparr>uc_initialLoads := l\<rparr>) = update_inv s" "update_inv (s\<lparr>uc_checks := n\<rparr>) = update_inv s"
  "update_inv (s\<lparr>uc_requests := l\<rparr>) = update_inv s" "update_inv (s\<lparr>uc_historyLoads := n\<rparr>) = update_inv s"
  "update_inv (s\<lparr>uc_reloads := n\<rparr>) = update_inv s" "update_inv (s\<lparr>uc_now := k\<rparr>) = update_inv s"
  by (simp_all add: update_inv_def)

lemma update_inv_effect: "update_inv (poll_effect s)"
  by (simp add: update_inv_def gated_poll_def)

lemma update_inv_steps:
  "update_inv s \<Longrightarrow> update_inv (initial_settled t i res s)" "update_inv s \<Longrightarrow> update_inv (check_settled t chk s)"
  "update_inv s \<Longrightarrow> update_inv (request_settled t i u s)" "update_inv s \<Longrightarrow> update_inv (history_settled h s)"
  by (auto simp: initial_settled_def check_settled_def request_settled_def history_settled_def Let_def
      intro!: update_inv_setPhase split: sum.split)

lemma update_inv_poll:
  "update_inv s \<Longrightarrow> uc_timer s \<Longrightarrow> update_inv (poll_tick s)"
  "update_inv s \<Longrightarrow> i < length (uc_polls s) \<Longrightarrow> update_inv (poll_settled t time i res s)"
  using update_poll.ok_tick [of s] update_poll.ok_settled [of s i]
  unfolding update_inv_def update_poll.ok_def by blast+

lemma update_env_inv: "update_inv s \<Longrightarrow> update_env t time s s' \<Longrightarrow> update_inv s'"
  by (erule update_env.cases; hypsubst; simp add: update_inv_steps update_inv_poll update_language_def update_inv_effect)

lemma update_update_inv: "update_inv s \<Longrightarrow> update_inv (update_update m s)"
  by (cases m) (auto simp: runCheck_def startUpdate_def toggleHistory_def intro!: update_inv_setPhase)

interpretation update_center: page_machine
  "\<lambda>s. \<exists>c. s = update_mount c" "update_view t fm day ro" update_update "update_env t time" update_inv
  for t fm day ro time
proof unfold_locales
  show "update_inv s" if "\<exists>c. s = update_mount c" for s
    using that by (auto simp: update_mount_def update_inv_effect)
qed (blast intro: update_update_inv update_env_inv)+

text \<open>
  Rounds of the poll: the timer fires at a given time and the server answers. Once it does not report a running
  update, an answer ends the polling unless the update may still start, and that only for half a minute.
\<close>

fun poll_rounds ::
  "(jstring \<Rightarrow> jstring) \<Rightarrow> (jstring \<Rightarrow> int option) \<Rightarrow> (int \<times> update_status) list \<Rightarrow> update_center \<Rightarrow> update_center" where
  "poll_rounds t time [] s = s"
| "poll_rounds t time ((clock, st) # rounds) s = (if uc_timer s
     then poll_rounds t time rounds (poll_settled t time (length (uc_polls s)) (Inr st) (poll_tick (s\<lparr>uc_now := clock\<rparr>))) else s)"

lemma poll_rounds_idle: "\<not> uc_timer s \<Longrightarrow> poll_rounds t time rounds s = s"
  by (cases rounds) auto

lemma poll_round:
  assumes "uc_polling s" "\<not> us_updating st"
    and s': "s' = poll_settled t time (length (uc_polls s)) (Inr st) (poll_tick (s\<lparr>uc_now := clock\<rparr>))"
  shows "uc_phase s' \<in> {Completed, Failed, Idle} \<and> \<not> uc_timer s' \<or>
    uc_polling s' \<and> uc_timer s' \<and> uc_startedAt s' = uc_startedAt s \<and> clock - uc_startedAt s \<le> START_TIMEOUT_MS"
  using assms(1,2) unfolding s'
  by (auto simp: poll_settled_def poll_tick_def poll_answer_def setPhase_def poll_effect_def polling_phase_def Let_def)

lemma poll_rounds_end:
  assumes "uc_polling s" "uc_timer s" "r \<in> set rounds" "START_TIMEOUT_MS < fst r - uc_startedAt s"
    and "\<And>r. r \<in> set rounds \<Longrightarrow> \<not> us_updating (snd r)"
  shows "uc_phase (poll_rounds t time rounds s) \<in> {Completed, Failed, Idle} \<and> \<not> uc_timer (poll_rounds t time rounds s)"
  using assms
proof (induction rounds arbitrary: s)
  case (Cons x rounds)
  obtain clock st where x: "x = (clock, st)" by (cases x)
  let ?s = "poll_settled t time (length (uc_polls s)) (Inr st) (poll_tick (s\<lparr>uc_now := clock\<rparr>))"
  have run: "poll_rounds t time (x # rounds) s = poll_rounds t time rounds ?s" using Cons.prems(2) x by simp
  have "\<not> us_updating st" using Cons.prems(5) [of x] x by simp
  from poll_round [OF Cons.prems(1) this refl, of t time clock] show ?case
  proof (elim disjE conjE)
    assume "\<not> uc_timer ?s" "uc_phase ?s \<in> {Completed, Failed, Idle}"
    then show ?thesis unfolding run by (simp add: poll_rounds_idle)
  next
    assume go: "uc_polling ?s" "uc_timer ?s" "uc_startedAt ?s = uc_startedAt s" "clock - uc_startedAt s \<le> START_TIMEOUT_MS"
    then have "r \<in> set rounds" using Cons.prems(3,4) x by auto
    then show ?thesis unfolding run using go Cons.prems(4,5) by (intro Cons.IH) simp_all
  qed
qed simp

text \<open>A viewer never requests an update.\<close>

lemma update_requests_frame:
  "uc_requests (initial_settled t i res s) = uc_requests s" "uc_requests (check_settled t chk s) = uc_requests s"
  "uc_requests (history_settled h s) = uc_requests s" "uc_requests (poll_tick s) = uc_requests s"
  "uc_requests (poll_settled t time i pr s) = uc_requests s" "uc_requests (update_language s) = uc_requests s"
  by (auto simp: initial_settled_def check_settled_def history_settled_def poll_tick_def poll_settled_def poll_answer_def
      update_language_def initial_effect_def Let_def split: sum.split)

interpretation update_ro: read_only_page
  "\<lambda>s. \<exists>c. s = update_mount c" "update_view t fm day True" update_update "update_env t time" "\<lambda>s. uc_requests s = []" uc_requests
  for t fm day time
proof unfold_locales
  show "uc_requests s = []" if "\<exists>c. s = update_mount c" for s
    using that by (auto simp: update_mount_def initial_effect_def)
  show "uc_requests (update_update m s) = []" if "uc_requests s = []" "m \<in> fires (update_view t fm day True s)" for s m
    using that(1) update_fired [OF that(2)] by (cases m) (simp_all add: update_guard_def runCheck_def toggleHistory_def)
  show "uc_requests s' = []" if "uc_requests s = []" "update_env t time s s'" for s s'
    using that(2,1) by cases (simp_all add: update_requests_frame)
qed

end
