(* ===== verification/Restore_Panel.thy ===== *)
theory Restore_Panel
  imports Api_Admin Phase_Poller
begin

text \<open>
  \<open>pages/RestorePanel.tsx\<close>: a backup is uploaded and inspected, confirmed, scheduled, and the outcome is
  awaited while the server restarts. The clock in milliseconds is part of the state; \<open>time\<close> reads a time
  stamp.
\<close>

datatype restore_phase = RIdle | Inspecting | Inspected | Scheduling | Restarting | Signed_out | Finished

record restore_panel =
  rp_file :: "jstring option"
  rp_passphrase :: jstring
  rp_phase :: restore_phase
  rp_inspection :: "backup_inspection option"
  rp_confirmed :: bool
  rp_error :: jstring
  rp_result :: "restore_state option"
  rp_scheduledAt :: int
  rp_initialLoads :: "bool list"
  rp_polls :: "bool list"
  rp_timer :: bool
  rp_inspects :: "(jstring \<times> jstring) list"
  rp_schedules :: "jstring list"
  rp_reloads :: nat
  rp_now :: int

abbreviation rp_polling :: "restore_panel \<Rightarrow> bool" where
  "rp_polling s \<equiv> rp_phase s = Restarting"

definition restore_effect :: "restore_panel \<Rightarrow> restore_panel" where
  "restore_effect s = s\<lparr>rp_polls := abort_all (rp_polls s), rp_timer := rp_polling s\<rparr>"

definition restore_setPhase :: "restore_phase \<Rightarrow> restore_panel \<Rightarrow> restore_panel" where
  "restore_setPhase p s = (if p = rp_phase s then s else restore_effect (s\<lparr>rp_phase := p\<rparr>))"

definition restore_mount :: "int \<Rightarrow> restore_panel" where
  "restore_mount clock = \<lparr>rp_file = None, rp_passphrase = [], rp_phase = RIdle, rp_inspection = None, rp_confirmed = False,
     rp_error = [], rp_result = None, rp_scheduledAt = 0, rp_initialLoads = [False], rp_polls = [], rp_timer = False,
     rp_inspects = [], rp_schedules = [], rp_reloads = 0, rp_now = clock\<rparr>"

text \<open>The outcome of the most recent restore, if there is one. A failed load is ignored.\<close>

definition restore_initial_settled :: "nat \<Rightarrow> restore_state option result \<Rightarrow> restore_panel \<Rightarrow> restore_panel" where
  "restore_initial_settled i res s =
     (let aborted = rp_initialLoads s ! i; s0 = s\<lparr>rp_initialLoads := remove_nth i (rp_initialLoads s)\<rparr> in
      case res of
        Inr (Some st) \<Rightarrow> (if \<not> aborted \<and> re_metadata st \<noteq> None \<and> re_state st \<noteq> RO_pending then s0\<lparr>rp_result := Some st\<rparr> else s0)
      | _ \<Rightarrow> s0)"

definition restore_tick :: "restore_panel \<Rightarrow> restore_panel" where
  "restore_tick s = s\<lparr>rp_timer := False, rp_polls := rp_polls s @ [False]\<rparr>"

definition restore_fresh :: "(jstring \<Rightarrow> int option) \<Rightarrow> int \<Rightarrow> restore_state \<Rightarrow> bool" where
  "restore_fresh time scheduled st = (case time (re_updated_at st) of None \<Rightarrow> False | Some ms \<Rightarrow> ms \<ge> scheduled - 5000)"

definition restore_done :: "restore_outcome \<Rightarrow> bool" where
  "restore_done r \<longleftrightarrow> r = RO_completed \<or> r = RO_rolled_back \<or> r = RO_failed"

definition unauthorized :: "exn \<Rightarrow> bool" where
  "unauthorized e \<longleftrightarrow> (case e of APIError st m fs c \<Rightarrow> st = 401 | _ \<Rightarrow> False)"

definition restore_poll_settled ::
  "(jstring \<Rightarrow> int option) \<Rightarrow> nat \<Rightarrow> restore_state option result \<Rightarrow> restore_panel \<Rightarrow> restore_panel" where
  "restore_poll_settled time i res s =
     (let cancelled = rp_polls s ! i; s0 = s\<lparr>rp_polls := remove_nth i (rp_polls s)\<rparr> in
      if cancelled then s0
      else case res of
        Inr (Some st) \<Rightarrow> (if restore_fresh time (rp_scheduledAt s) st \<and> restore_done (re_state st)
           then restore_setPhase Finished (s0\<lparr>rp_result := Some st\<rparr>) else s0\<lparr>rp_timer := True\<rparr>)
      | Inr None \<Rightarrow> s0\<lparr>rp_timer := True\<rparr>
      | Inl e \<Rightarrow> if unauthorized e then restore_setPhase Signed_out s0 else s0\<lparr>rp_timer := True\<rparr>)"

section \<open>Handlers\<close>

definition inspect :: "restore_panel \<Rightarrow> restore_panel" where
  "inspect s = (case rp_file s of None \<Rightarrow> s
    | Some f \<Rightarrow> restore_setPhase Inspecting (s\<lparr>rp_error := [], rp_inspection := None, rp_confirmed := False,
        rp_inspects := rp_inspects s @ [(f, rp_passphrase s)]\<rparr>))"

definition inspect_settled :: "(jstring \<Rightarrow> jstring) \<Rightarrow> nat \<Rightarrow> backup_inspection result \<Rightarrow> restore_panel \<Rightarrow> restore_panel" where
  "inspect_settled t i res s = (let s0 = s\<lparr>rp_inspects := remove_nth i (rp_inspects s)\<rparr> in case res of
      Inr b \<Rightarrow> restore_setPhase Inspected (s0\<lparr>rp_inspection := Some b\<rparr>)
    | Inl e \<Rightarrow> restore_setPhase RIdle (s0\<lparr>rp_error := error_text e (t ''restore.inspect_failed'')\<rparr>))"

definition restore :: "restore_panel \<Rightarrow> restore_panel" where
  "restore s = (case rp_inspection s of None \<Rightarrow> s
    | Some b \<Rightarrow> restore_setPhase Scheduling (s\<lparr>rp_error := [], rp_scheduledAt := rp_now s, rp_schedules := rp_schedules s @ [bi_token b]\<rparr>))"

text \<open>The answer to the schedule request carries the state: a server without a supervisor leaves it pending.\<close>

definition schedule_settled :: "(jstring \<Rightarrow> jstring) \<Rightarrow> nat \<Rightarrow> jstring result \<Rightarrow> restore_panel \<Rightarrow> restore_panel" where
  "schedule_settled t i res s = (let s0 = s\<lparr>rp_schedules := remove_nth i (rp_schedules s)\<rparr> in case res of
      Inr st \<Rightarrow> (let s1 = restore_setPhase (if st = ''pending'' then Finished else Restarting) (s0\<lparr>rp_passphrase := [], rp_result := None\<rparr>)
         in if st = ''pending'' then s1\<lparr>rp_error := t ''restore.manual_restart''\<rparr> else s1)
    | Inl e \<Rightarrow> restore_setPhase Inspected (s0\<lparr>rp_error := error_text e (t ''restore.schedule_failed'')\<rparr>))"

definition restore_reset :: "restore_panel \<Rightarrow> restore_panel" where
  "restore_reset s = restore_setPhase RIdle (s\<lparr>rp_inspection := None, rp_file := None, rp_confirmed := False\<rparr>)"

datatype restore_msg =
    RP_File "jstring option"
  | RP_Passphrase jstring
  | RP_Inspect
  | RP_Confirm bool
  | RP_Restore
  | RP_Reset
  | RP_Reload

fun restore_update :: "restore_msg \<Rightarrow> restore_panel \<Rightarrow> restore_panel" where
  "restore_update (RP_File f) s = s\<lparr>rp_file := f\<rparr>"
| "restore_update (RP_Passphrase v) s = s\<lparr>rp_passphrase := v\<rparr>"
| "restore_update RP_Inspect s = inspect s"
| "restore_update (RP_Confirm b) s = s\<lparr>rp_confirmed := b\<rparr>"
| "restore_update RP_Restore s = restore s"
| "restore_update RP_Reset s = restore_reset s"
| "restore_update RP_Reload s = s\<lparr>rp_reloads := rp_reloads s + 1\<rparr>"

section \<open>Rendering\<close>

text \<open>A result without metadata is never shown: the only states stored have it, or come from the poll of a restore just
  scheduled, whose state the server sends in full.\<close>

definition restore_result :: "(jstring \<Rightarrow> jstring) \<Rightarrow> formats \<Rightarrow> restore_state \<Rightarrow> restore_msg node" where
  [view_defs]: "restore_result t fm st =
     El T_div [Cls (''notice '' @ (if re_state st = RO_completed then ''success'' else ''error'')), A ''role'' ''status'']
       [if re_state st = RO_completed then Icon ''CheckCircle'' 16 else Icon ''XCircle'' 16,
        El T_span []
          ([El T_strong [] [Txt (t (''restore.state_'' @ restore_outcome_name (re_state st)))], Txt '' '', Txt (t ''restore.backup_from''), Txt '' '']
           @ (case re_metadata st of None \<Rightarrow> [] | Some m \<Rightarrow>
                [Txt (fm_date fm (bm_created_at m)), Txt '' ('', Txt (bm_velora_version m), Txt '')''])
           @ [Txt ('' '' @ middot @ '' ''), Txt (fm_date fm (re_updated_at st))]
           @ render_if (nullish (re_error st) [] \<noteq> []) [El T_span [Cls ''restore-error''] [Txt (nullish (re_error st) [])]]
           @ render_if (nullish (re_safety_copy st) [] \<noteq> [])
               [El T_small [Cls ''restore-safety'']
                  [Txt (t ''restore.safety_copy''), Txt '' '', El T_code [] [Txt (nullish (re_safety_copy st) [])]]])]"

definition restore_form :: "(jstring \<Rightarrow> jstring) \<Rightarrow> restore_panel \<Rightarrow> restore_msg node" where
  [view_defs]: "restore_form t s =
     El T_form [Cls ''restore-form'', OnSubmit RP_Inspect]
       [El T_label [Cls ''field'']
          [El T_span [] [Txt (t ''restore.file'')],
           El T_input [A ''type'' ''file'', A ''accept'' ''.vdns,application/octet-stream'', OnFile RP_File] []],
        El T_label [Cls ''field'']
          [El T_span [] [Txt (t ''restore.passphrase'')],
           El T_input [A ''type'' ''password'', A ''autoComplete'' ''off'', A ''value'' (rp_passphrase s), OnChange RP_Passphrase,
             AN ''minLength'' 12, Flag ''required''] []],
        El T_button [Cls ''button'', A ''type'' ''submit'',
            Disabled (rp_phase s = Inspecting \<or> rp_file s = None \<or> length (rp_passphrase s) < 12)]
          [if rp_phase s = Inspecting then Icon ''Loader2'' 15 else Icon ''FileSearch'' 15,
           Txt (if rp_phase s = Inspecting then t ''restore.inspecting'' else t ''restore.inspect'')]]"

definition restore_contents :: "(jstring \<Rightarrow> jstring) \<Rightarrow> backup_summary \<Rightarrow> jstring" where
  "restore_contents t b = js_join ('' '' @ middot @ '' '') (map (\<lambda>(n, l). show_int n @ '' '' @ l)
     [(bu_zones b, t ''restore.zones''), (bu_records b, t ''restore.records''), (bu_blocklists b, t ''restore.blocklists''),
      (bu_rewrites b, t ''restore.rewrites''), (bu_forward_rules b, t ''restore.forward_rules''), (bu_clients b, t ''restore.clients''),
      (bu_users b, t ''restore.users'')])"

definition restore_review :: "(jstring \<Rightarrow> jstring) \<Rightarrow> formats \<Rightarrow> restore_panel \<Rightarrow> backup_inspection \<Rightarrow> restore_msg node" where
  [view_defs]: "restore_review t fm s b =
     (let m = bi_metadata b; u = bi_summary b in
      El T_div [Cls ''restore-review'']
       ([El T_h3 [] [Txt (t ''restore.review_title'')],
         El T_dl [Cls ''restore-facts'']
           [El T_dt [] [Txt (t ''restore.created'')], El T_dd [] [Txt (fm_date fm (bm_created_at m))],
            El T_dt [] [Txt (t ''restore.version'')],
            El T_dd [] [El T_code [] [Txt (bm_velora_version m)], Txt ('' '' @ rarrow @ '' ''), El T_code [] [Txt (bu_current_version u)]],
            El T_dt [] [Txt (t ''restore.schema'')],
            El T_dd [] [Txt (show_int (bm_schema_version m)), Txt ('' '' @ rarrow @ '' ''), Txt (show_int (bu_current_schema u))],
            El T_dt [] [Txt (t ''restore.contents'')], El T_dd [] [Txt (restore_contents t u)],
            El T_dt [] [Txt (t ''restore.listeners'')],
            El T_dd [] [El T_code [] [Txt (js_join '', '' (bu_dns_listen u))], Txt ('' '' @ middot @ '' ''), Txt (t ''restore.web''), Txt '' '',
              El T_code [] [Txt (bu_http_listen u)]]]]
        @ map (\<lambda>w. El T_p [A ''key'' w, Cls ''notice warning''] [Icon ''AlertTriangle'' 15, Txt '' '', Txt w]) (bu_warnings u)
        @ [El T_label [Cls ''check-field'']
             [El T_input [A ''type'' ''checkbox'', AB ''checked'' (rp_confirmed s), OnCheck RP_Confirm] [],
              El T_span [] [Txt (t ''restore.confirm'')]],
           El T_div [Cls ''form-actions'']
             [El T_button [Cls ''button danger'', Disabled (\<not> rp_confirmed s \<or> rp_phase s = Scheduling), OnClick RP_Restore]
                [Icon ''Upload'' 15, Txt (t ''restore.restore'')],
              El T_button [Cls ''button'', A ''type'' ''button'', OnClick RP_Reset, Disabled (rp_phase s = Scheduling)]
                [Txt (t ''forwarding.cancel'')]]]))"

definition restore_view :: "(jstring \<Rightarrow> jstring) \<Rightarrow> formats \<Rightarrow> restore_panel \<Rightarrow> restore_msg node list" where
  [view_defs]: "restore_view t fm s =
     [El T_section [Cls ''panel restore-panel'']
        [El T_div [Cls ''panel-heading'']
           [El T_div [] [El T_h2 [] [Txt (t ''restore.title'')], El T_p [] [Txt (t ''restore.hint'')]]],
         El T_div [Cls ''panel-body stack-sm'']
           ((case rp_result s of None \<Rightarrow> [] | Some st \<Rightarrow> render_if (rp_phase s \<noteq> Restarting) [restore_result t fm st])
            @ render_if (rp_phase s = RIdle \<or> rp_phase s = Inspecting) [restore_form t s]
            @ (case rp_inspection s of None \<Rightarrow> []
               | Some b \<Rightarrow> render_if (rp_phase s = Inspected \<or> rp_phase s = Scheduling) [restore_review t fm s b])
            @ render_if (rp_phase s = Restarting)
               [El T_div [Cls ''notice info'', A ''role'' ''status''] [Icon ''Loader2'' 16, Txt '' '', Txt (t ''restore.restarting'')]]
            @ render_if (rp_phase s = Signed_out)
               [El T_div [Cls ''notice success'', A ''role'' ''status'']
                  [Icon ''CheckCircle'' 16, Txt '' '', Txt (t ''restore.signed_out''),
                   El T_button [Cls ''button small'', OnClick RP_Reload] [Icon ''RotateCcw'' 14, Txt '' '', Txt (t ''updates.reload'')]]]
            @ render_if (rp_phase s = Finished) [El T_button [Cls ''button'', OnClick RP_Reset] [Txt (t ''restore.again'')]]
            @ render_if (rp_error s \<noteq> []) [El T_div [Cls ''notice error'', A ''role'' ''alert''] [Txt (rp_error s)]])]]"

section \<open>What the panel lets a user trigger\<close>

definition restore_guard :: "restore_panel \<Rightarrow> restore_msg \<Rightarrow> bool" where
  "restore_guard s m = (case m of
      RP_File f \<Rightarrow> rp_phase s = RIdle \<or> rp_phase s = Inspecting
    | RP_Passphrase v \<Rightarrow> rp_phase s = RIdle \<or> rp_phase s = Inspecting
    | RP_Inspect \<Rightarrow> rp_phase s = RIdle \<and> rp_file s \<noteq> None \<and> 12 \<le> length (rp_passphrase s)
    | RP_Confirm b \<Rightarrow> (rp_phase s = Inspected \<or> rp_phase s = Scheduling) \<and> rp_inspection s \<noteq> None
    | RP_Restore \<Rightarrow> rp_phase s = Inspected \<and> rp_confirmed s \<and> rp_inspection s \<noteq> None
    | RP_Reset \<Rightarrow> rp_phase s = Inspected \<or> rp_phase s = Finished
    | RP_Reload \<Rightarrow> rp_phase s = Signed_out)"

lemma restore_form_ok: "rp_phase s = RIdle \<or> rp_phase s = Inspecting \<Longrightarrow> node_ok (restore_guard s) False (restore_form t s)"
  by (auto simp: restore_form_def restore_guard_def dom_simps)

lemma restore_review_ok:
  "rp_phase s = Inspected \<or> rp_phase s = Scheduling \<Longrightarrow> rp_inspection s = Some b \<Longrightarrow> node_ok (restore_guard s) False (restore_review t fm s b)"
  by (auto simp: restore_review_def restore_guard_def dom_simps Let_def)

lemma restore_result_ok: "node_ok P False (restore_result t fm st)"
  by (simp add: restore_result_def dom_simps split: option.split)

lemma restore_view_ok: "nodes_ok (restore_guard s) (restore_view t fm s)"
  using restore_form_ok [of s t] restore_review_ok [of s _ t fm] restore_result_ok [of "restore_guard s" t fm]
  by (simp add: restore_view_def restore_guard_def dom_simps split: option.split)

lemmas restore_fired = nodes_okD [OF restore_view_ok]

section \<open>The panel as a machine\<close>

inductive restore_env :: "(jstring \<Rightarrow> jstring) \<Rightarrow> (jstring \<Rightarrow> int option) \<Rightarrow> restore_panel \<Rightarrow> restore_panel \<Rightarrow> bool" for t time where
  initial_done: "i < length (rp_initialLoads s) \<Longrightarrow> restore_env t time s (restore_initial_settled i res s)"
| timer_fires: "rp_timer s \<Longrightarrow> restore_env t time s (restore_tick s)"
| poll_done: "i < length (rp_polls s) \<Longrightarrow> restore_env t time s (restore_poll_settled time i res s)"
| inspect_done: "i < length (rp_inspects s) \<Longrightarrow> restore_env t time s (inspect_settled t i ins s)"
| schedule_done: "i < length (rp_schedules s) \<Longrightarrow> restore_env t time s (schedule_settled t i sch s)"
| clock_advances: "rp_now s \<le> clock \<Longrightarrow> restore_env t time s (s\<lparr>rp_now := clock\<rparr>)"

interpretation restore_poll: phase_poller rp_polls rp_timer rp_polling restore_effect restore_tick "restore_poll_settled time" for time
proof unfold_locales
  fix i s r
  assume "i < length (rp_polls s)" "\<not> rp_polls s ! i" "rp_polling s" "\<not> rp_timer s"
  then show "live_polls (rp_polls (restore_poll_settled time i r s)) \<le> live_polls (remove_nth i (rp_polls s)) \<and>
      rp_timer (restore_poll_settled time i r s) = rp_polling (restore_poll_settled time i r s)"
    by (auto simp: restore_poll_settled_def restore_setPhase_def restore_effect_def Let_def split: sum.split option.split)
qed (auto simp: restore_effect_def restore_tick_def restore_poll_settled_def Let_def)

text \<open>
  What holds of every reachable state: one upload is in flight exactly while the panel inspects, one
  restore request exactly while it schedules, and that request carries the token of the inspection on
  display; a confirmation never outlives the inspection it was given for; polling goes on exactly while the server restarts.
\<close>

definition restore_inv :: "restore_panel \<Rightarrow> bool" where
  "restore_inv s \<longleftrightarrow> length (rp_inspects s) = (if rp_phase s = Inspecting then 1 else 0) \<and>
     (if rp_phase s = Scheduling then \<exists>b. rp_inspection s = Some b \<and> rp_schedules s = [bi_token b] else rp_schedules s = []) \<and>
     (rp_phase s = Inspected \<longrightarrow> rp_inspection s \<noteq> None) \<and>
     (rp_phase s = RIdle \<or> rp_phase s = Inspecting \<longrightarrow> \<not> rp_confirmed s) \<and>
     gated_poll (rp_polling s) (rp_polls s) (rp_timer s)"

lemma restore_setPhase_frame [simp]:
  "rp_phase (restore_setPhase p s) = p" "rp_inspects (restore_setPhase p s) = rp_inspects s"
  "rp_schedules (restore_setPhase p s) = rp_schedules s" "rp_inspection (restore_setPhase p s) = rp_inspection s"
  "rp_confirmed (restore_setPhase p s) = rp_confirmed s"
  by (simp_all add: restore_setPhase_def restore_effect_def)

lemma restore_inv_poll:
  assumes "restore_inv s" "i < length (rp_polls s)"
  shows "restore_inv (restore_poll_settled time i res s)"
proof -
  have "restore_poll.ok (restore_poll_settled time i res s)"
    using assms by (intro restore_poll.ok_settled) (simp_all add: restore_inv_def restore_poll.ok_def)
  moreover have "\<not> rp_polls s ! i \<Longrightarrow> rp_phase s = Restarting"
    using assms live_polls_remove [of i "rp_polls s"] by (auto simp: restore_inv_def gated_poll_def split: if_splits)
  ultimately show ?thesis
    using assms(1)
    by (auto simp: restore_inv_def restore_poll.ok_def restore_poll_settled_def Let_def split: sum.split option.split if_splits)
qed

lemma restore_inv_tick: "restore_inv s \<Longrightarrow> rp_timer s \<Longrightarrow> restore_inv (restore_tick s)"
  using restore_poll.ok_tick [of s] by (auto simp: restore_inv_def restore_poll.ok_def restore_tick_def)

lemma restore_inv_inspected:
  assumes "restore_inv s" "i < length (rp_inspects s)"
  shows "restore_inv (inspect_settled t i ins s)"
proof -
  have p: "rp_phase s = Inspecting" using assms by (auto simp: restore_inv_def split: if_splits)
  have "length (remove_nth i (rp_inspects s)) = 0"
    using assms p length_remove_nth [of i "rp_inspects s"] by (auto simp: restore_inv_def)
  then show ?thesis using assms(1) p
    by (cases ins) (auto simp: restore_inv_def inspect_settled_def Let_def restore_setPhase_def restore_effect_def gated_poll_def)
qed

lemma restore_inv_scheduled:
  assumes "restore_inv s" "i < length (rp_schedules s)"
  shows "restore_inv (schedule_settled t i sch s)"
proof -
  have p: "rp_phase s = Scheduling" using assms by (auto simp: restore_inv_def split: if_splits)
  have "remove_nth i (rp_schedules s) = []"
    using assms p length_remove_nth [of i "rp_schedules s"] by (auto simp: restore_inv_def)
  then show ?thesis using assms(1) p
    by (cases sch) (auto simp: restore_inv_def schedule_settled_def Let_def restore_setPhase_def restore_effect_def gated_poll_def)
qed

lemma restore_env_inv: "restore_inv s \<Longrightarrow> restore_env t time s s' \<Longrightarrow> restore_inv s'"
proof (erule restore_env.cases; hypsubst)
  fix s0 i res
  assume "restore_inv s0"
  then show "restore_inv (restore_initial_settled i res s0)"
    by (auto simp: restore_inv_def restore_initial_settled_def Let_def split: sum.split option.split)
next
  fix s0 clock
  assume "restore_inv s0"
  then show "restore_inv (s0\<lparr>rp_now := clock\<rparr>)" by (simp add: restore_inv_def)
qed (auto intro: restore_inv_poll restore_inv_tick restore_inv_inspected restore_inv_scheduled)

lemma restore_update_inv: "restore_inv s \<Longrightarrow> restore_guard s m \<Longrightarrow> restore_inv (restore_update m s)"
  by (cases m)
    (auto simp: restore_guard_def restore_inv_def inspect_def restore_def restore_reset_def restore_setPhase_def restore_effect_def
      gated_poll_def split: option.split)

lemma restore_update_change: "one_change (rp_schedules s) (rp_schedules (restore_update m s))"
  by (cases m) (auto simp: inspect_def restore_def restore_reset_def split: option.split)

lemma restore_env_change: "restore_env t time s s' \<Longrightarrow> one_change (rp_schedules s) (rp_schedules s')"
  by (erule restore_env.cases; hypsubst)
    (auto simp: restore_initial_settled_def restore_tick_def restore_poll_settled_def inspect_settled_def schedule_settled_def Let_def
      split: sum.split option.split)

lemma restore_update_uploads: "one_change (rp_inspects s) (rp_inspects (restore_update m s))"
  by (cases m) (auto simp: inspect_def restore_def restore_reset_def split: option.split)

lemma restore_env_uploads: "restore_env t time s s' \<Longrightarrow> one_change (rp_inspects s) (rp_inspects s')"
  by (erule restore_env.cases; hypsubst)
    (auto simp: restore_initial_settled_def restore_tick_def restore_poll_settled_def inspect_settled_def schedule_settled_def Let_def
      split: sum.split option.split)

text \<open>No answer and no timer schedules a restore.\<close>

lemma restore_env_schedules: "restore_env t time s s' \<Longrightarrow> length (rp_schedules s') \<le> length (rp_schedules s)"
  by (erule restore_env.cases; hypsubst)
    (auto simp: restore_initial_settled_def restore_tick_def restore_poll_settled_def inspect_settled_def schedule_settled_def remove_nth_def
      Let_def split: sum.split option.split)

interpretation restore_panel: locked_page
  "\<lambda>s. \<exists>c. s = restore_mount c" "restore_view t fm" restore_update "restore_env t time" restore_inv rp_schedules for t fm time
proof unfold_locales
  show "restore_inv s" if "\<exists>c. s = restore_mount c" for s
    using that by (auto simp: restore_mount_def restore_inv_def gated_poll_def)
  show "length (rp_schedules s) \<le> 1" if "restore_inv s" for s
    using that by (auto simp: restore_inv_def split: if_splits)
qed (blast intro: restore_update_inv restore_env_inv restore_fired restore_update_change restore_env_change)+

end
