(* ===== verification/Backup_Page.thy ===== *)
theory Backup_Page
  imports Restore_Panel
begin

text \<open>
  \<open>pages/BackupAssistant.tsx\<close>: creating an encrypted backup, its status, verifying a backup file, and
  the restore panel, a child that is mounted while the administrator may use it and the server supports
  it. The download that follows a created backup is the name of the saved file.
\<close>

record backup_status =
  bk_supported :: bool
  bk_last_backup_time :: "jstring option"
  bk_last_backup_size :: "int option"
  bk_backup_age :: "jstring option"
  bk_verification_state :: jstring
  bk_database_path :: jstring

record backup_verification =
  bv_valid :: bool
  bv_schema_version :: int
  bv_record_count :: int
  bv_error :: "jstring option"

record backup_page =
  ba_status :: "backup_status option"
  ba_loading :: bool
  ba_error :: "jstring option"
  ba_verifyPath :: jstring
  ba_verifying :: bool
  ba_verificationResult :: "backup_verification option"
  ba_passphrase :: jstring
  ba_creating :: bool
  ba_createError :: jstring
  ba_loads :: "bool list"
  ba_verifies :: "call list"
  ba_creates :: "jstring list"
  ba_downloads :: "jstring list"
  ba_restore :: "restore_panel option"
  ba_now :: int

definition backup_effect :: "backup_page \<Rightarrow> backup_page" where
  "backup_effect s = s\<lparr>ba_loads := abort_all (ba_loads s) @ [False]\<rparr>"

definition backup_mount :: "int \<Rightarrow> backup_page" where
  "backup_mount clock = backup_effect \<lparr>ba_status = None, ba_loading = True, ba_error = None, ba_verifyPath = [], ba_verifying = False,
     ba_verificationResult = None, ba_passphrase = [], ba_creating = False, ba_createError = [], ba_loads = [], ba_verifies = [],
     ba_creates = [], ba_downloads = [], ba_restore = None, ba_now = clock\<rparr>"

definition can_restore :: "bool \<Rightarrow> backup_page \<Rightarrow> bool" where
  "can_restore canCreate s \<longleftrightarrow> canCreate \<and> \<not> ba_loading s \<and> (case ba_status s of None \<Rightarrow> False | Some st \<Rightarrow> bk_supported st)"

text \<open>Rendering mounts and unmounts the restore panel.\<close>

definition sync_restore :: "bool \<Rightarrow> backup_page \<Rightarrow> backup_page" where
  "sync_restore canCreate s = s\<lparr>ba_restore := (if can_restore canCreate s
     then Some (nullish (ba_restore s) (restore_mount (ba_now s))) else None)\<rparr>"

text \<open>The \<open>finally\<close> clears \<open>loading\<close> whether or not the request was aborted.\<close>

definition backup_load_settled :: "(jstring \<Rightarrow> jstring) \<Rightarrow> bool \<Rightarrow> nat \<Rightarrow> backup_status result \<Rightarrow> backup_page \<Rightarrow> backup_page" where
  "backup_load_settled t canCreate i res s =
     (let aborted = ba_loads s ! i; s0 = s\<lparr>ba_loads := remove_nth i (ba_loads s)\<rparr>;
          s1 = (if aborted then s0 else case res of
              Inr st \<Rightarrow> s0\<lparr>ba_status := Some st, ba_error := None\<rparr>
            | Inl e \<Rightarrow> s0\<lparr>ba_error := Some (error_text e (t ''backup.load_failed''))\<rparr>)
      in sync_restore canCreate (s1\<lparr>ba_loading := False\<rparr>))"

definition createBackup :: "backup_page \<Rightarrow> backup_page" where
  "createBackup s = s\<lparr>ba_creating := True, ba_createError := [], ba_creates := ba_creates s @ [ba_passphrase s]\<rparr>"

text \<open>\<open>today\<close> is the date in ISO format.\<close>

definition backup_name :: "jstring \<Rightarrow> jstring" where
  "backup_name today = ''velora-backup-'' @ take 10 today @ ''.vdns''"

definition create_settled :: "(jstring \<Rightarrow> jstring) \<Rightarrow> nat \<Rightarrow> jstring \<Rightarrow> unit result \<Rightarrow> backup_page \<Rightarrow> backup_page" where
  "create_settled t i today res s = (let s0 = s\<lparr>ba_creates := remove_nth i (ba_creates s)\<rparr> in case res of
      Inr _ \<Rightarrow> s0\<lparr>ba_downloads := ba_downloads s0 @ [backup_name today], ba_passphrase := [], ba_creating := False\<rparr>
    | Inl e \<Rightarrow> s0\<lparr>ba_createError := error_text e (t ''backup.create_failed''), ba_creating := False\<rparr>)"

definition handleVerify :: "backup_page \<Rightarrow> backup_page" where
  "handleVerify s = (if js_trim (ba_verifyPath s) = [] then s
     else s\<lparr>ba_verifying := True, ba_verificationResult := None,
       ba_verifies := ba_verifies s @ [send_call ''/api/v1/backup/verify'' ''POST'' (Some (JObj [(''path'', JStr (ba_verifyPath s))]))]\<rparr>)"

definition verify_settled :: "(jstring \<Rightarrow> jstring) \<Rightarrow> nat \<Rightarrow> backup_verification result \<Rightarrow> backup_page \<Rightarrow> backup_page" where
  "verify_settled t i res s = (let s0 = s\<lparr>ba_verifies := remove_nth i (ba_verifies s)\<rparr> in
     s0\<lparr>ba_verificationResult := Some (case res of
          Inr v \<Rightarrow> v
        | Inl e \<Rightarrow> \<lparr>bv_valid = False, bv_schema_version = 0, bv_record_count = 0, bv_error = Some (error_text e (t ''backup.verify_failed''))\<rparr>),
        ba_verifying := False\<rparr>)"

datatype backup_msg =
    BA_Passphrase jstring
  | BA_Create
  | BA_Path jstring
  | BA_Verify
  | BA_Restore restore_msg

fun backup_update :: "backup_msg \<Rightarrow> backup_page \<Rightarrow> backup_page" where
  "backup_update (BA_Passphrase v) s = s\<lparr>ba_passphrase := v\<rparr>"
| "backup_update BA_Create s = createBackup s"
| "backup_update (BA_Path v) s = s\<lparr>ba_verifyPath := v\<rparr>"
| "backup_update BA_Verify s = handleVerify s"
| "backup_update (BA_Restore m) s = s\<lparr>ba_restore := map_option (restore_update m) (ba_restore s)\<rparr>"

section \<open>Rendering\<close>

definition statusLabel :: "(jstring \<Rightarrow> jstring) \<Rightarrow> jstring \<Rightarrow> jstring" where
  "statusLabel t st = (let k = ''backup.state_'' @ st in if t k = k then st else t k)"

definition create_panel :: "(jstring \<Rightarrow> jstring) \<Rightarrow> bool \<Rightarrow> backup_page \<Rightarrow> backup_msg node" where
  [view_defs]: "create_panel t canCreate s =
     El T_section [Cls ''panel backup-create-panel'']
       [El T_div [Cls ''panel-heading'']
          [El T_div [] [El T_h2 [] [Txt (t ''backup.create_title'')], El T_p [] [Txt (t ''backup.create_hint'')]]],
        El T_div [Cls ''panel-body'']
          ((case ba_status s of None \<Rightarrow> [] | Some st \<Rightarrow>
              render_if (canCreate \<and> \<not> bk_supported st) [El T_p [Cls ''notice''] [Txt (t ''backup.sqlite_only'')]]
              @ render_if (canCreate \<and> bk_supported st)
                 [El T_div [Cls ''inline-form'']
                    [El T_div [Cls ''field'']
                       [El T_label [A ''htmlFor'' ''backup-passphrase''] [Txt (t ''backup.passphrase'')],
                        El T_input [A ''id'' ''backup-passphrase'', A ''type'' ''password'', A ''autoComplete'' ''new-password'',
                          A ''value'' (ba_passphrase s), OnChange BA_Passphrase] []],
                     El T_button [Cls ''button primary'', Disabled (ba_creating s \<or> length (ba_passphrase s) < 12), OnClick BA_Create]
                       [Icon ''Download'' 15, Txt (if ba_creating s then t ''backup.creating'' else t ''backup.create'')]]])
           @ render_if (ba_createError s \<noteq> []) [El T_div [Cls ''notice error'', A ''role'' ''alert''] [Txt (ba_createError s)]])]"

text \<open>\<open>date\<close> prints a date in the host's locale.\<close>

definition status_rows :: "(jstring \<Rightarrow> jstring) \<Rightarrow> (jstring \<Rightarrow> jstring) \<Rightarrow> backup_status \<Rightarrow> backup_msg node" where
  [view_defs]: "status_rows t date st =
     El T_div [Cls ''status-rows'']
       [El T_div [Cls ''status-row'']
          [Icon ''Database'' 17, El T_span [Cls ''value''] [Txt (t ''backup.database''), Txt '' '', El T_code [] [Txt (bk_database_path st)]]],
        (if nullish (bk_last_backup_time st) [] \<noteq> []
         then El T_div [Cls ''status-row ok'']
           [Icon ''CheckCircle'' 17,
            El T_span [Cls ''value'']
              ([Txt (t ''backup.last_backup''), Txt '' '', Txt (date (nullish (bk_last_backup_time st) []))]
               @ render_if (nullish (bk_backup_age st) [] \<noteq> []) [Txt ('' ('' @ nullish (bk_backup_age st) [] @ '')'')])]
         else El T_div [Cls ''status-row warn'']
           [Icon ''AlertTriangle'' 17, El T_span [Cls ''value''] [Txt (t ''backup.no_backup'')]]),
        El T_div [Cls ''status-row'']
          [Icon ''Clock'' 17,
           El T_span [Cls ''value'']
             [Txt (t ''backup.verification_state''), Txt '' '',
              Badge (toneFor (Some (bk_verification_state st))) False [Txt (statusLabel t (bk_verification_state st))]]]]"

definition status_panel :: "(jstring \<Rightarrow> jstring) \<Rightarrow> (jstring \<Rightarrow> jstring) \<Rightarrow> backup_page \<Rightarrow> backup_msg node" where
  [view_defs]: "status_panel t date s =
     El T_section [Cls ''panel'']
       [El T_div [Cls ''panel-heading''] [El T_div [] [El T_h2 [] [Txt (t ''backup.status_title'')]]],
        El T_div [Cls ''panel-body'']
          ((case ba_error s of None \<Rightarrow> [] | Some e \<Rightarrow> render_if (e \<noteq> []) [El T_div [Cls ''notice error'', A ''role'' ''alert''] [Txt e]])
           @ (case ba_status s of None \<Rightarrow> [] | Some st \<Rightarrow> [status_rows t date st]))]"

definition verification_card :: "(jstring \<Rightarrow> jstring) \<Rightarrow> backup_verification \<Rightarrow> backup_msg node" where
  [view_defs]: "verification_card t v =
     El T_div [Cls (''result-card '' @ (if bv_valid v then ''valid'' else ''invalid''))]
       [if bv_valid v then Icon ''CheckCircle'' 18 else Icon ''XCircle'' 18,
        El T_div []
          [El T_strong [] [Txt (if bv_valid v then t ''backup.valid'' else t ''backup.invalid'')],
           El T_p [] [Txt (if bv_valid v then t ''backup.schema_version'' @ '' '' @ show_int (bv_schema_version v) @ '' '' @ middot @ '' ''
              @ t ''backup.records'' @ '' '' @ show_int (bv_record_count v) else nullish (bv_error v) [])]]]"

definition verify_panel :: "(jstring \<Rightarrow> jstring) \<Rightarrow> bool \<Rightarrow> backup_page \<Rightarrow> backup_msg node" where
  [view_defs]: "verify_panel t ro s =
     El T_section [Cls ''panel'']
       [El T_div [Cls ''panel-heading'']
          [El T_div [] [El T_h2 [] [Txt (t ''backup.verify_title'')], El T_p [] [Txt (t ''backup.verify_text'')]]],
        El T_div [Cls ''panel-body'']
          ([if ro then El T_div [Cls ''notice info'', A ''role'' ''status''] [Txt (t ''backup.viewer_readonly'')]
            else El T_div []
              [El T_div [Cls ''backup-file-label'']
                 [El T_label [A ''htmlFor'' ''backup-file-name''] [Txt (t ''backup.file_name'')],
                  El T_div [Cls ''backup-file-controls'']
                    [El T_input [A ''id'' ''backup-file-name'', A ''type'' ''text'', A ''placeholder'' ''backup.db'',
                       A ''value'' (ba_verifyPath s), OnChange BA_Path] [],
                     El T_button [Cls ''button'', OnClick BA_Verify, Disabled (ba_verifying s \<or> js_trim (ba_verifyPath s) = [])]
                       [Txt (if ba_verifying s then t ''backup.verifying'' else t ''backup.verify'')]]],
               El T_p [Cls ''backup-file-hint''] [Txt (t ''backup.file_hint'')]]]
           @ (case ba_verificationResult s of None \<Rightarrow> [] | Some v \<Rightarrow> [verification_card t v]))]"

text \<open>The command recipes. A newline, the quotes and the backslash of the shell commands.\<close>

definition nl :: jstring where "nl = [CHR 0x0A]"
definition dq :: jstring where "dq = [CHR 0x22]"
definition sq :: jstring where "sq = [CHR 0x27]"
definition bslash :: jstring where "bslash = [CHR 0x5C]"

definition restore_commands :: jstring where
  "restore_commands = ''sudo systemctl stop velora-dns'' @ nl
     @ ''read -rsp '' @ sq @ ''Backup passphrase: '' @ sq @ '' VELORA_BACKUP_PASSPHRASE; export VELORA_BACKUP_PASSPHRASE'' @ nl
     @ ''sudo -E velora-dns -restore-backup ./velora-backup.vdns -config /etc/velora/config.yaml -restore-database /var/lib/velora/velora.db'' @ nl
     @ ''sudo systemctl start velora-dns''"

definition native_recipe :: "(jstring \<Rightarrow> jstring) \<Rightarrow> jstring" where
  "native_recipe t = ''# '' @ t ''backup.step_stop_service'' @ nl @ ''sudo systemctl stop velora-dns'' @ nl @ nl
     @ ''# '' @ t ''backup.step_create_backup'' @ nl
     @ ''sqlite3 /var/lib/velora/velora.db '' @ dq @ ''.backup /var/lib/velora/backup-$(date +%Y%m%d).db'' @ dq @ nl @ nl
     @ ''# '' @ t ''backup.step_restart_service'' @ nl @ ''sudo systemctl start velora-dns''"

definition docker_recipe :: "(jstring \<Rightarrow> jstring) \<Rightarrow> jstring" where
  "docker_recipe t = ''# '' @ t ''backup.step_stop_container'' @ nl @ ''docker compose stop velora'' @ nl @ nl
     @ ''# '' @ t ''backup.step_backup_volume'' @ nl
     @ ''docker run --rm -v velora-dns_velora-data:/data -v $(pwd):/backup '' @ bslash @ nl
     @ ''  alpine tar czf /backup/velora-data-$(date +%Y%m%d).tar.gz -C /data .'' @ nl @ nl
     @ ''# '' @ t ''backup.step_restart_container'' @ nl @ ''docker compose start velora''"

definition online_recipe :: "(jstring \<Rightarrow> jstring) \<Rightarrow> jstring" where
  "online_recipe t = ''# '' @ t ''backup.step_online_backup'' @ nl
     @ ''sqlite3 /var/lib/velora/velora.db '' @ bslash @ nl @ ''  '' @ dq @ ''.backup /var/lib/velora/online-backup.db'' @ dq"

definition recipe :: "jstring \<Rightarrow> jstring \<Rightarrow> backup_msg node" where
  [view_defs]: "recipe title code =
     El T_div [Cls ''recipe''] [El T_h3 [] [Txt title], El T_pre [Cls ''code-block''] [Txt code]]"

definition instructions_panel :: "(jstring \<Rightarrow> jstring) \<Rightarrow> backup_msg node" where
  [view_defs]: "instructions_panel t =
     El T_section [Cls ''panel''] [El T_details [Cls ''panel-body cli-restore'']
       [El T_summary [] [Txt (t ''backup.instructions'')],
        El T_p [] [Txt (t ''backup.restore_hint'')],
        El T_pre [Cls ''backup-restore-command''] [Txt restore_commands],
        El T_details [Cls ''recipes'']
          [El T_summary [] [Txt (t ''backup.native''), Txt ('' '' @ middot @ '' ''), Txt (t ''backup.docker''), Txt ('' '' @ middot @ '' ''),
             Txt (t ''backup.online'')],
           recipe (t ''backup.native'') (native_recipe t),
           recipe (t ''backup.docker'') (docker_recipe t),
           recipe (t ''backup.online'') (online_recipe t)]]]"

definition backup_view ::
  "(jstring \<Rightarrow> jstring) \<Rightarrow> formats \<Rightarrow> (jstring \<Rightarrow> jstring) \<Rightarrow> bool \<Rightarrow> bool \<Rightarrow> backup_page \<Rightarrow> backup_msg node list" where
  [view_defs]: "backup_view t fm date ro canCreate s =
     (if ba_loading s then [El T_section [Cls ''panel''] [Loading [Txt (t ''backup.loading'')]]]
      else [El T_div [Cls ''stack'']
        ([El T_div [Cls ''grid-2''] [create_panel t canCreate s, status_panel t date s], verify_panel t ro s]
         @ (if can_restore canCreate s then (case ba_restore s of None \<Rightarrow> [] | Some r \<Rightarrow> map (map_node BA_Restore) (restore_view t fm r)) else [])
         @ [instructions_panel t])])"

section \<open>What the page lets a user trigger\<close>

definition backup_guard :: "bool \<Rightarrow> bool \<Rightarrow> backup_page \<Rightarrow> backup_msg \<Rightarrow> bool" where
  "backup_guard ro canCreate s m = (case m of
      BA_Passphrase v \<Rightarrow> canCreate
    | BA_Create \<Rightarrow> canCreate \<and> \<not> ba_creating s \<and> 12 \<le> length (ba_passphrase s)
    | BA_Path v \<Rightarrow> \<not> ro
    | BA_Verify \<Rightarrow> \<not> ro \<and> \<not> ba_verifying s \<and> js_trim (ba_verifyPath s) \<noteq> []
    | BA_Restore r \<Rightarrow> canCreate \<and> (\<exists>p. ba_restore s = Some p \<and> restore_guard p r))"

lemma backup_parts_ok:
  "node_ok (backup_guard ro canCreate s) False (create_panel t canCreate s)"
  "node_ok (backup_guard ro canCreate s) False (status_panel t date s)"
  "node_ok (backup_guard ro canCreate s) False (verify_panel t ro s)"
  "node_ok (backup_guard ro canCreate s) False (instructions_panel t)"
  by (auto simp: create_panel_def status_panel_def status_rows_def verify_panel_def verification_card_def instructions_panel_def
      recipe_def Badge_def backup_guard_def dom_simps split: option.split)

lemma backup_restore_ok:
  assumes "can_restore canCreate s" "ba_restore s = Some r"
  shows "nodes_ok (backup_guard ro canCreate s) (map (map_node BA_Restore) (restore_view t fm r))"
proof -
  have "\<forall>n \<in> set (restore_view t fm r). node_ok (restore_guard r) False n"
    using restore_view_ok [of r t fm] by (simp add: nodes_ok_iff node_ok_iff fires_def)
  moreover have "backup_guard ro canCreate s (BA_Restore m)" if "restore_guard r m" for m
    using assms that by (simp add: backup_guard_def can_restore_def)
  ultimately show ?thesis by (auto intro: node_ok_mono)
qed

lemma backup_view_ok: "nodes_ok (backup_guard ro canCreate s) (backup_view t fm date ro canCreate s)"
  using backup_parts_ok backup_restore_ok [of canCreate s _ ro t fm]
  by (auto simp: backup_view_def Loading_def dom_simps split: option.split)

lemmas backup_fired = nodes_okD [OF backup_view_ok]

section \<open>The page as a machine\<close>

inductive backup_env ::
  "(jstring \<Rightarrow> jstring) \<Rightarrow> (jstring \<Rightarrow> int option) \<Rightarrow> bool \<Rightarrow> backup_page \<Rightarrow> backup_page \<Rightarrow> bool" for t time canCreate where
  language_changes: "backup_env t time canCreate s (backup_effect s)"
| load_done: "i < length (ba_loads s) \<Longrightarrow> backup_env t time canCreate s (backup_load_settled t canCreate i res s)"
| create_done: "i < length (ba_creates s) \<Longrightarrow> backup_env t time canCreate s (create_settled t i today u s)"
| verify_done: "i < length (ba_verifies s) \<Longrightarrow> backup_env t time canCreate s (verify_settled t i v s)"
| restore_moves: "ba_restore s = Some r \<Longrightarrow> restore_env t time r r' \<Longrightarrow> backup_env t time canCreate s (s\<lparr>ba_restore := Some r'\<rparr>)"
| clock_advances: "ba_now s \<le> clock \<Longrightarrow> backup_env t time canCreate s (s\<lparr>ba_now := clock\<rparr>)"

text \<open>
  One creation is in flight exactly while the page says so, likewise one verification, and every state of
  the restore panel is one it can reach on its own.
\<close>

definition backup_inv :: "backup_page \<Rightarrow> bool" where
  "backup_inv s \<longleftrightarrow> length (ba_creates s) = (if ba_creating s then 1 else 0) \<and>
     length (ba_verifies s) = (if ba_verifying s then 1 else 0) \<and>
     (case ba_restore s of None \<Rightarrow> True | Some r \<Rightarrow> restore_inv r)"

lemma restore_mount_inv: "restore_inv (restore_mount c)"
  by (simp add: restore_mount_def restore_inv_def gated_poll_def)

lemma sync_restore_inv: "backup_inv s \<Longrightarrow> backup_inv (sync_restore canCreate s)"
  by (auto simp: backup_inv_def sync_restore_def restore_mount_inv split: option.splits)

lemma backup_load_inv: "backup_inv s \<Longrightarrow> backup_inv (backup_load_settled t canCreate i res s)"
  unfolding backup_load_settled_def Let_def
  by (rule sync_restore_inv) (auto simp: backup_inv_def split: sum.split option.splits)

lemma backup_inv_frame:
  "backup_inv (backup_effect s) = backup_inv s" "backup_inv (s\<lparr>ba_now := clock\<rparr>) = backup_inv s"
  by (simp_all add: backup_inv_def backup_effect_def)

lemma backup_env_inv: "backup_inv s \<Longrightarrow> backup_env t time canCreate s s' \<Longrightarrow> backup_inv s'"
proof (erule backup_env.cases; hypsubst)
  fix s i today u
  assume "backup_inv s" "i < length (ba_creates s)"
  then show "backup_inv (create_settled t i today u s)"
    using length_remove_nth [of i "ba_creates s"] by (cases u) (auto simp: backup_inv_def create_settled_def Let_def split: if_splits)
next
  fix s i v
  assume "backup_inv s" "i < length (ba_verifies s)"
  then show "backup_inv (verify_settled t i v s)"
    using length_remove_nth [of i "ba_verifies s"] by (auto simp: backup_inv_def verify_settled_def Let_def split: if_splits)
next
  fix s r r'
  assume "backup_inv s" "ba_restore s = Some r" "restore_env t time r r'"
  then show "backup_inv (s\<lparr>ba_restore := Some r'\<rparr>)"
    using restore_env_inv [of r t time r'] by (auto simp: backup_inv_def)
qed (simp_all add: backup_load_inv backup_inv_frame)

lemma backup_update_inv: "backup_inv s \<Longrightarrow> backup_guard ro canCreate s m \<Longrightarrow> backup_inv (backup_update m s)"
  using restore_update_inv
  by (cases m) (auto simp: backup_guard_def backup_inv_def createBackup_def handleVerify_def split: option.splits)

lemma backup_update_change: "one_change (ba_creates s) (ba_creates (backup_update m s))"
  by (cases m) (auto simp: createBackup_def handleVerify_def split: option.split)

lemma backup_env_change: "backup_env t time canCreate s s' \<Longrightarrow> one_change (ba_creates s) (ba_creates s')"
  by (erule backup_env.cases; hypsubst)
    (auto simp: backup_effect_def backup_load_settled_def sync_restore_def create_settled_def verify_settled_def Let_def
      split: sum.split option.split)

interpretation backup: locked_page
  "\<lambda>s. \<exists>c. s = backup_mount c" "backup_view t fm date ro canCreate" backup_update "backup_env t time canCreate" backup_inv ba_creates
  for t fm date ro canCreate time
proof unfold_locales
  show "backup_inv s" if "\<exists>c. s = backup_mount c" for s
    using that by (auto simp: backup_mount_def backup_effect_def backup_inv_def)
  show "length (ba_creates s) \<le> 1" if "backup_inv s" for s
    using that by (auto simp: backup_inv_def)
qed (blast intro: backup_update_inv backup_env_inv backup_fired backup_update_change backup_env_change)+

text \<open>
  The page has four busy flags and each has a lock of its own: creating, verifying, and in the restore
  panel on display the upload of a bundle and the scheduling of a restore.
\<close>

definition panel_uploads :: "backup_page \<Rightarrow> (jstring \<times> jstring) list" where
  "panel_uploads s = (case ba_restore s of None \<Rightarrow> [] | Some r \<Rightarrow> rp_inspects r)"

definition panel_schedules :: "backup_page \<Rightarrow> jstring list" where
  "panel_schedules s = (case ba_restore s of None \<Rightarrow> [] | Some r \<Rightarrow> rp_schedules r)"

lemma restore_inv_short: "restore_inv r \<Longrightarrow> length (rp_inspects r) \<le> 1 \<and> length (rp_schedules r) \<le> 1"
  by (auto simp: restore_inv_def split: if_splits)

lemma panel_short: "backup_inv s \<Longrightarrow> length (panel_uploads s) \<le> 1" "backup_inv s \<Longrightarrow> length (panel_schedules s) \<le> 1"
  using restore_inv_short by (auto simp: backup_inv_def panel_uploads_def panel_schedules_def split: option.splits)

lemma panel_update_change:
  "one_change (panel_uploads s) (panel_uploads (backup_update m s))"
  "one_change (panel_schedules s) (panel_schedules (backup_update m s))"
  "one_change (ba_verifies s) (ba_verifies (backup_update m s))"
  by (cases m; auto simp: panel_uploads_def panel_schedules_def createBackup_def handleVerify_def restore_update_change
      restore_update_uploads split: option.split)+

lemma panel_sync:
  "panel_uploads (sync_restore canCreate s) = panel_uploads s \<or> panel_uploads (sync_restore canCreate s) = []"
  "panel_schedules (sync_restore canCreate s) = panel_schedules s \<or> panel_schedules (sync_restore canCreate s) = []"
  by (auto simp: panel_uploads_def panel_schedules_def sync_restore_def restore_mount_def split: option.split)

lemma panel_load:
  "\<exists>s0. ba_restore s0 = ba_restore s \<and> backup_load_settled t canCreate i res s = sync_restore canCreate s0"
  unfolding backup_load_settled_def Let_def by (intro exI conjI) (auto split: sum.split)

lemma panel_of_restore: "ba_restore s = ba_restore s' \<Longrightarrow> panel_uploads s = panel_uploads s' \<and> panel_schedules s = panel_schedules s'"
  by (simp add: panel_uploads_def panel_schedules_def)

lemma panel_load_change:
  assumes "backup_inv s"
  shows "one_change (panel_uploads s) (panel_uploads (backup_load_settled t canCreate i res s)) \<and>
    one_change (panel_schedules s) (panel_schedules (backup_load_settled t canCreate i res s))"
proof -
  obtain s0 where s0: "ba_restore s0 = ba_restore s" "backup_load_settled t canCreate i res s = sync_restore canCreate s0"
    using panel_load by blast
  show ?thesis
    using panel_sync [of canCreate s0] panel_short [OF assms] panel_of_restore [OF s0(1)] by (auto simp: s0(2) intro: one_change_short)
qed

lemma panel_env_change:
  assumes "backup_inv s" "backup_env t time canCreate s s'"
  shows "one_change (panel_uploads s) (panel_uploads s') \<and> one_change (panel_schedules s) (panel_schedules s')"
  using assms(2)
proof cases
  case (load_done i res)
  then show ?thesis using panel_load_change [OF assms(1)] by simp
next
  case (restore_moves r r')
  then show ?thesis
    using restore_env_change restore_env_uploads by (simp add: panel_uploads_def panel_schedules_def)
qed (auto simp: panel_uploads_def panel_schedules_def backup_effect_def create_settled_def verify_settled_def Let_def split: sum.split)

lemma verify_env_change: "backup_env t time canCreate s s' \<Longrightarrow> one_change (ba_verifies s) (ba_verifies s')"
  by (erule backup_env.cases; hypsubst)
    (auto simp: backup_effect_def backup_load_settled_def sync_restore_def create_settled_def verify_settled_def Let_def
      split: sum.split option.split)

interpretation verifying: locked_page
  "\<lambda>s. \<exists>c. s = backup_mount c" "backup_view t fm date ro canCreate" backup_update "backup_env t time canCreate" backup_inv ba_verifies
  for t fm date ro canCreate time
proof unfold_locales
  show "length (ba_verifies s) \<le> 1" if "backup_inv s" for s
    using that by (auto simp: backup_inv_def)
qed (simp_all add: panel_update_change verify_env_change)

interpretation uploading: locked_page
  "\<lambda>s. \<exists>c. s = backup_mount c" "backup_view t fm date ro canCreate" backup_update "backup_env t time canCreate" backup_inv panel_uploads
  for t fm date ro canCreate time
  by unfold_locales (simp_all add: panel_short [simplified] panel_update_change panel_env_change)

interpretation scheduling: locked_page
  "\<lambda>s. \<exists>c. s = backup_mount c" "backup_view t fm date ro canCreate" backup_update "backup_env t time canCreate" backup_inv panel_schedules
  for t fm date ro canCreate time
  by unfold_locales (simp_all add: panel_short [simplified] panel_update_change panel_env_change)

text \<open>Who may not create backups neither creates nor restores one.\<close>

definition backup_idle :: "backup_page \<Rightarrow> bool" where
  "backup_idle s \<longleftrightarrow> ba_creates s = [] \<and> ba_restore s = None"

lemma backup_env_idle: "backup_idle s \<Longrightarrow> backup_env t time False s s' \<Longrightarrow> backup_idle s'"
  by (erule backup_env.cases; hypsubst)
    (auto simp: backup_idle_def backup_effect_def backup_load_settled_def sync_restore_def can_restore_def verify_settled_def Let_def
      split: sum.split)

lemma backup_update_idle: "backup_idle s \<Longrightarrow> backup_guard ro False s m \<Longrightarrow> backup_idle (backup_update m s)"
  by (cases m) (auto simp: backup_guard_def backup_idle_def handleVerify_def)

interpretation backup_ro: read_only_page
  "\<lambda>s. \<exists>c. s = backup_mount c" "backup_view t fm date ro False" backup_update "backup_env t time False" backup_idle ba_creates
  for t fm date ro time
proof unfold_locales
  show "backup_idle s" if "\<exists>c. s = backup_mount c" for s
    using that by (auto simp: backup_mount_def backup_effect_def backup_idle_def)
  show "backup_idle (backup_update m s)" if "backup_idle s" "m \<in> fires (backup_view t fm date ro False s)" for s m
    using that(1) backup_fired [OF that(2)] by (rule backup_update_idle)
  show "backup_idle s'" if "backup_idle s" "backup_env t time False s s'" for s s'
    using that by (rule backup_env_idle)
  show "ba_creates s = []" if "backup_idle s" for s
    using that by (simp add: backup_idle_def)
qed

text \<open>A viewer does not verify one either: none of the requests of the page and its restore panel is sent.\<close>

definition backup_requests :: "backup_page \<Rightarrow> jstring list" where
  "backup_requests s = ba_creates s @ map c_path (ba_verifies s) @ (case ba_restore s of None \<Rightarrow> [] | Some r \<Rightarrow> rp_schedules r @ map fst (rp_inspects r))"

interpretation backup_viewer: read_only_page
  "\<lambda>s. \<exists>c. s = backup_mount c" "backup_view t fm date True False" backup_update "backup_env t time False"
  "\<lambda>s. backup_idle s \<and> ba_verifies s = []" backup_requests for t fm date time
proof unfold_locales
  show "backup_idle s \<and> ba_verifies s = []" if "\<exists>c. s = backup_mount c" for s
    using that by (auto simp: backup_mount_def backup_effect_def backup_idle_def)
  show "backup_idle (backup_update m s) \<and> ba_verifies (backup_update m s) = []"
    if "backup_idle s \<and> ba_verifies s = []" "m \<in> fires (backup_view t fm date True False s)" for s m
    using that(1) backup_fired [OF that(2)] by (cases m) (auto simp: backup_guard_def backup_idle_def)
  show "backup_idle s' \<and> ba_verifies s' = []" if "backup_idle s \<and> ba_verifies s = []" "backup_env t time False s s'" for s s'
    using backup_env_idle [of s t time s'] that
    by (auto elim!: backup_env.cases
        simp: backup_effect_def backup_load_settled_def sync_restore_def create_settled_def verify_settled_def Let_def split: sum.split option.split)
  show "backup_requests s = []" if "backup_idle s \<and> ba_verifies s = []" for s
    using that by (simp add: backup_requests_def backup_idle_def)
qed

end
