(* ===== verification/Routed_Pages.thy ===== *)
theory Routed_Pages
  imports App_Frame Page_Requests Update_Center Backup_Page
begin

text \<open>
  The pages behind the routes of \<open>App.tsx\<close>: for the element that the router mounts, with the properties it
  gets there, what the machine of that page guarantees. The contracts of theory \<open>Ui\<close> and theory
  \<open>Requests\<close> hold of every page for which the sources provide for them; the pages without a restriction
  (\<open>Settings\<close>, \<open>Webhooks\<close>, \<open>EventCenter\<close>) leave it to the server to refuse a change.
\<close>

section \<open>Restricted pages send nothing\<close>

fun route_quiet :: "route_page \<Rightarrow> bool" where
  "route_quiet (R_Dashboard ro logging) \<longleftrightarrow> (\<forall>t fm dbl has_refresh. page_quiet (\<lambda>s. \<exists>d history log st. s = dashboard_mount d history log st)
     (dashboard_view t fm dbl ro has_refresh) dashboard_update (dashboard_env t) db_resets)"
| "route_quiet (R_Cache ro) \<longleftrightarrow> (\<forall>t fm pct. page_quiet (\<lambda>s. \<exists>d. s = cache_mount d) (cache_view t fm pct ro) cache_update (cache_env t) cp_ops)"
| "route_quiet (R_Zones ro) \<longleftrightarrow> (\<forall>t collate. page_quiet (\<lambda>s. \<exists>p. s = zones_mount p) (zones_view t ro) (zones_update t) (zones_env collate t)
     (\<lambda>s. uz_ops (zp_hook s)))"
| "route_quiet (R_Blocklists ro) \<longleftrightarrow> (\<forall>t fm date due. page_quiet (\<lambda>s. s = blocklists_mount) (blocklists_view t fm date due ro)
     blocklists_update (blocklists_env t) bl_ops)"
| "route_quiet (R_Policies ro) \<longleftrightarrow> (\<forall>t. page_quiet (\<lambda>s. s = policies_mount) (policies_view t ro) (policies_update t) (policies_env t) cr_runs)"
| "route_quiet (R_Clients ro ql) \<longleftrightarrow> (\<forall>t fm highlight. page_quiet (\<lambda>s. \<exists>n. s = clients_mount ro n) (clients_view t fm highlight ql ro)
     (clients_update t) (crud_env (t ''clients.load_failed'') (t ''clients.save_failed'')) cr_runs)"
| "route_quiet (R_Rewrites ro) \<longleftrightarrow> (\<forall>t. page_quiet (\<lambda>s. \<exists>q. s = rewrites_mount q) (rewrites_view t ro) (rewrites_update t)
     (crud_env (t ''rewrites.load_failed'') (t ''rewrites.save_failed'')) cr_runs)"
| "route_quiet (R_Forwarding ro) \<longleftrightarrow> (\<forall>t. page_quiet (\<lambda>s. s = forwarding_mount) (forwarding_view t ro) forwarding_update (forwarding_env t) fw_ops)"
| "route_quiet (R_Updates ro) \<longleftrightarrow> (\<forall>t fm day time. page_quiet (\<lambda>s. \<exists>c. s = update_mount c) (update_view t fm day ro) update_update
     (update_env t time) uc_requests)"
| "route_quiet (R_Backup ro create) \<longleftrightarrow> (\<forall>t fm date time. page_quiet (\<lambda>s. \<exists>c. s = backup_mount c) (backup_view t fm date ro create)
     backup_update (backup_env t time create) backup_requests)"
| "route_quiet (R_DHCP ro) \<longleftrightarrow> (\<forall>t num left. page_quiet (\<lambda>s. s = dhcp_mount) (dhcp_view t num left ro) dhcp_update (dhcp_env t) dh_ops)"
| "route_quiet (R_Cluster manage) \<longleftrightarrow> (\<forall>t fm pct clock. page_quiet (\<lambda>s. \<exists>u. s = cluster_mount u) (cluster_view t fm pct clock manage)
     cluster_update (cluster_env t) cz_runs)"
| "route_quiet _ \<longleftrightarrow> True"

lemmas quiet_pages = dashboard_ro.is_quiet cache_ro.is_quiet zones_ro.is_quiet blocklists_ro.is_quiet policies.viewer.is_quiet
  clients.viewer.is_quiet rules.viewer.is_quiet forwarding_ro.is_quiet update_ro.is_quiet backup_viewer.is_quiet dhcp_ro.is_quiet cluster_ro.is_quiet

lemma restricted_quiet: "write_props_off r \<Longrightarrow> route_quiet r"
  by (cases r) (simp_all add: quiet_pages)

section \<open>Changes one at a time\<close>

text \<open>
  For each busy flag of a page, the changes made while it is set refine the lock of theory \<open>Ui\<close>. A page
  with several flags has one lock for each. The rate limit on the settings page, \<open>UpdateCenter\<close>, \<open>DHCP\<close> and
  \<open>EventCenter\<close> have no such flag, and the pages for queries, audit and analytics make no change.
\<close>

fun route_locked :: "route_page \<Rightarrow> bool" where
  "route_locked (R_Dashboard ro logging) \<longleftrightarrow> (\<forall>t fm dbl has_refresh. page_locked (\<lambda>s. \<exists>d history log st. s = dashboard_mount d history log st)
     (dashboard_view t fm dbl ro has_refresh) dashboard_update (dashboard_env t) db_resets)"
| "route_locked (R_Cache ro) \<longleftrightarrow> (\<forall>t fm pct. page_locked (\<lambda>s. \<exists>d. s = cache_mount d) (cache_view t fm pct ro) cache_update (cache_env t) cp_ops)"
| "route_locked (R_Zones ro) \<longleftrightarrow> (\<forall>t collate. page_locked (\<lambda>s. \<exists>p. s = zones_mount p) (zones_view t ro) (zones_update t) (zones_env collate t)
     (\<lambda>s. uz_ops (zp_hook s)))"
| "route_locked (R_Blocklists ro) \<longleftrightarrow> (\<forall>t fm date due. page_locked (\<lambda>s. s = blocklists_mount) (blocklists_view t fm date due ro)
     blocklists_update (blocklists_env t) bl_ops)"
| "route_locked (R_Policies ro) \<longleftrightarrow> (\<forall>t. page_locked (\<lambda>s. s = policies_mount) (policies_view t ro) (policies_update t) (policies_env t) open_runs)"
| "route_locked (R_Clients ro ql) \<longleftrightarrow> (\<forall>t fm highlight. page_locked (\<lambda>s. \<exists>n. s = clients_mount ro n) (clients_view t fm highlight ql ro)
     (clients_update t) (crud_env (t ''clients.load_failed'') (t ''clients.save_failed'')) open_runs)"
| "route_locked (R_Rewrites ro) \<longleftrightarrow> (\<forall>t. page_locked (\<lambda>s. \<exists>q. s = rewrites_mount q) (rewrites_view t ro) (rewrites_update t)
     (crud_env (t ''rewrites.load_failed'') (t ''rewrites.save_failed'')) open_runs)"
| "route_locked (R_Forwarding ro) \<longleftrightarrow> (\<forall>t. page_locked (\<lambda>s. s = forwarding_mount) (forwarding_view t ro) forwarding_update (forwarding_env t) fw_ops)"
| "route_locked R_Settings \<longleftrightarrow> (\<forall>dict num lnum ldate. page_locked (\<lambda>s. \<exists>d hp. settings_mount d hp = Some s)
     (settings_view dict num lnum ldate) (settings_update dict) (settings_env dict) sg_ops)"
| "route_locked (R_Backup ro create) \<longleftrightarrow> (\<forall>t fm date time.
     page_locked (\<lambda>s. \<exists>c. s = backup_mount c) (backup_view t fm date ro create) backup_update (backup_env t time create) ba_creates \<and>
     page_locked (\<lambda>s. \<exists>c. s = backup_mount c) (backup_view t fm date ro create) backup_update (backup_env t time create) ba_verifies \<and>
     page_locked (\<lambda>s. \<exists>c. s = backup_mount c) (backup_view t fm date ro create) backup_update (backup_env t time create) panel_uploads \<and>
     page_locked (\<lambda>s. \<exists>c. s = backup_mount c) (backup_view t fm date ro create) backup_update (backup_env t time create) panel_schedules)"
| "route_locked (R_Cluster manage) \<longleftrightarrow> (\<forall>t fm pct clock. page_locked (\<lambda>s. \<exists>u. s = cluster_mount u) (cluster_view t fm pct clock manage)
     cluster_update (cluster_env t) cz_runs)"
| "route_locked R_Diagnostics \<longleftrightarrow> (\<forall>t. page_locked (\<lambda>s. s = explainer_mount) (explainer_view t) explain_update (explainer_env t) ex_calls)"
| "route_locked R_Webhooks \<longleftrightarrow> (\<forall>t fm. page_locked (\<lambda>s. s = webhooks_mount) (webhooks_view t fm) (webhooks_update t) (webhooks_env t) open_runs)"
| "route_locked _ \<longleftrightarrow> True"

lemmas locked_pages = dashboard.is_locked cache.is_locked zones.is_locked blocklists.is_locked policies.flight.is_locked
  clients.flight.is_locked rules.flight.is_locked forwarding.is_locked settings.is_locked backup.is_locked verifying.is_locked
  uploading.is_locked scheduling.is_locked cluster.is_locked
  explainer.is_locked webhooks.is_locked

lemma all_locked: "route_locked r"
  by (cases r) (simp_all add: locked_pages del: split_paired_Ex)

section \<open>Requests are well-formed\<close>

text \<open>
  The requests of the update page. The history is loaded and a check is made with a read; one request starts
  the update.
\<close>

definition update_calls :: "update_center \<Rightarrow> call list" where
  "update_calls s = map (\<lambda>_. requestUpdate_call) (uc_requests s) @ replicate (uc_checks s) checkForUpdates_call
     @ replicate (uc_historyLoads s) loadUpdateHistory_call"

text \<open>
  The requests of the backup page and its restore panel that have a JSON body; the token of the first is
  the session's. (The bundle is uploaded as a multipart form.)
\<close>

definition request_call :: "http_request \<Rightarrow> call" where
  "request_call r = \<lparr>c_path = rq_path r, c_method = rq_method r, c_body = rq_body r, c_revision = None\<rparr>"

definition backup_calls :: "jstring \<Rightarrow> backup_page \<Rightarrow> call list" where
  "backup_calls csrf s = map (\<lambda>x. request_call (downloadEncryptedBackup_init csrf x)) (ba_creates s) @ ba_verifies s
     @ map scheduleRestore_call (panel_schedules s)"

lemma wf_update_calls: "list_all wf_call (update_calls s)"
  by (auto simp: update_calls_def list_all_iff requestUpdate_call_def checkForUpdates_call_def loadUpdateHistory_call_def wf_request)

lemma wf_create: "wf_call (request_call (downloadEncryptedBackup_init csrf x))"
  by (simp add: wf_call_def request_call_def downloadEncryptedBackup_init_def wf_path_api is_alnum_def)

lemma wf_schedule: "wf_call (scheduleRestore_call tok)"
  by (simp add: scheduleRestore_call_def wf_request)

text \<open>Creating and scheduling build well-formed requests from any argument, so only the verifications matter.\<close>

lemma sends_backup: "sends_typed (ba_verifies s) (ba_verifies s') \<Longrightarrow> sends_typed (backup_calls csrf s) (backup_calls csrf s')"
  by (auto simp: sends_typed_def backup_calls_def wf_create wf_schedule)

interpretation update_typed: typed_page
  "\<lambda>s. \<exists>c. s = update_mount c" "update_view t fm day ro" update_update "update_env t time" update_calls for t fm day ro time
  by unfold_locales (simp_all add: sends_typed_wf wf_update_calls)

interpretation backup_typed: typed_page
  "\<lambda>s. \<exists>c. s = backup_mount c" "backup_view t fm date ro create" backup_update "backup_env t time create" "backup_calls csrf"
  for t fm date ro create time csrf
proof unfold_locales
  show "sends_typed (backup_calls csrf s) (backup_calls csrf (backup_update m s))" for s m
    by (rule sends_backup) (cases m; simp add: createBackup_def handleVerify_def wf_request)
  show "sends_typed (backup_calls csrf s) (backup_calls csrf s')" if "backup_env t time create s s'" for s s'
    using that by (intro sends_backup, cases) (auto simp: backup_effect_def backup_load_settled_def sync_restore_def create_settled_def
        verify_settled_def Let_def split: sum.split option.split)
qed (auto simp: backup_mount_def backup_effect_def backup_calls_def panel_schedules_def)

fun route_typed :: "route_page \<Rightarrow> bool" where
  "route_typed (R_Dashboard ro logging) \<longleftrightarrow> (\<forall>t fm dbl has_refresh. page_typed (\<lambda>s. \<exists>d history log st. s = dashboard_mount d history log st)
     (dashboard_view t fm dbl ro has_refresh) dashboard_update (dashboard_env t) db_resets)"
| "route_typed R_Events \<longleftrightarrow> (\<forall>t fm. page_typed (\<lambda>s. s = events_mount) (events_view t fm) events_update (events_env t)
     (\<lambda>s. map markRead_call (ec_marks s)))"
| "route_typed (R_Cache ro) \<longleftrightarrow> (\<forall>t fm pct. page_typed (\<lambda>s. \<exists>d. s = cache_mount d) (cache_view t fm pct ro) cache_update (cache_env t)
     (\<lambda>s. map cache_op_call (cp_ops s)))"
| "route_typed (R_Zones ro) \<longleftrightarrow> (\<forall>t collate. page_typed (\<lambda>s. \<exists>p. s = zones_mount p) (zones_view t ro) (zones_update t) (zones_env collate t)
     (\<lambda>s. map zone_op_call (uz_ops (zp_hook s))))"
| "route_typed (R_Blocklists ro) \<longleftrightarrow> (\<forall>t fm date due. page_typed (\<lambda>s. s = blocklists_mount) (blocklists_view t fm date due ro)
     blocklists_update (blocklists_env t) (\<lambda>s. map bl_op_call (bl_ops s)))"
| "route_typed (R_Policies ro) \<longleftrightarrow> (\<forall>t. page_typed (\<lambda>s. s = policies_mount) (policies_view t ro) (policies_update t) (policies_env t)
     (\<lambda>s. map run_call (cr_runs s)))"
| "route_typed (R_Clients ro ql) \<longleftrightarrow> (\<forall>t fm highlight. page_typed (\<lambda>s. \<exists>n. s = clients_mount ro n) (clients_view t fm highlight ql ro)
     (clients_update t) (crud_env (t ''clients.load_failed'') (t ''clients.save_failed'')) (\<lambda>s. map run_call (cr_runs s)))"
| "route_typed (R_Rewrites ro) \<longleftrightarrow> (\<forall>t. page_typed (\<lambda>s. \<exists>q. s = rewrites_mount q) (rewrites_view t ro) (rewrites_update t)
     (crud_env (t ''rewrites.load_failed'') (t ''rewrites.save_failed'')) (\<lambda>s. map run_call (cr_runs s)))"
| "route_typed (R_Forwarding ro) \<longleftrightarrow> (\<forall>t. page_typed (\<lambda>s. s = forwarding_mount) (forwarding_view t ro) forwarding_update (forwarding_env t)
     (\<lambda>s. map forward_op_call (fw_ops s)))"
| "route_typed R_Settings \<longleftrightarrow> (\<forall>dict num lnum ldate. page_typed (\<lambda>s. \<exists>d hp. settings_mount d hp = Some s)
     (settings_view dict num lnum ldate) (settings_update dict) (settings_env dict) settings_calls)"
| "route_typed (R_Updates ro) \<longleftrightarrow> (\<forall>t fm day time. page_typed (\<lambda>s. \<exists>c. s = update_mount c) (update_view t fm day ro) update_update
     (update_env t time) update_calls)"
| "route_typed (R_Backup ro create) \<longleftrightarrow> (\<forall>t fm date time csrf. page_typed (\<lambda>s. \<exists>c. s = backup_mount c) (backup_view t fm date ro create)
     backup_update (backup_env t time create) (backup_calls csrf))"
| "route_typed (R_DHCP ro) \<longleftrightarrow> (\<forall>t num left. page_typed (\<lambda>s. s = dhcp_mount) (dhcp_view t num left ro) dhcp_update (dhcp_env t)
     (\<lambda>s. map dhcp_op_call (dh_ops s)))"
| "route_typed (R_Cluster manage) \<longleftrightarrow> (\<forall>t fm pct clock. page_typed (\<lambda>s. \<exists>u. s = cluster_mount u) (cluster_view t fm pct clock manage)
     cluster_update (cluster_env t) (\<lambda>s. map cluster_action_call (cz_runs s)))"
| "route_typed R_Diagnostics \<longleftrightarrow> (\<forall>t. page_typed (\<lambda>s. s = explainer_mount) (explainer_view t) explain_update (explainer_env t) ex_calls)"
| "route_typed R_Webhooks \<longleftrightarrow> (\<forall>t fm. page_typed (\<lambda>s. s = webhooks_mount) (webhooks_view t fm) (webhooks_update t) (webhooks_env t)
     (\<lambda>s. map run_call (cr_runs s)))"
| "route_typed (R_Queries logging) \<longleftrightarrow> True"
| "route_typed R_Audit \<longleftrightarrow> True"
| "route_typed (R_Analytics logging) \<longleftrightarrow> True"
| "route_typed R_NotFound \<longleftrightarrow> True"

lemmas typed_pages = dashboard_typed.is_typed events_typed.is_typed update_typed.is_typed backup_typed.is_typed
  cache_typed.is_typed zones_typed.is_typed blocklists_typed.is_typed policies_typed.is_typed clients_typed.is_typed
  rewrites_typed.is_typed forwarding_typed.is_typed settings_typed.is_typed dhcp_typed.is_typed cluster_typed.is_typed
  explainer_typed.is_typed webhooks_typed.is_typed

lemma all_typed: "route_typed r"
  by (cases r) (simp_all add: typed_pages del: split_paired_Ex)

end
