(* ===== verification/Zone_Properties.thy ===== *)
theory Zone_Properties
  imports Zones_Page
begin

text \<open>
  The zones page: who may change what, what a form sends, what a refusal leaves, and the order of answers.
\<close>

section \<open>Zones\<close>

text \<open>C1: On the zones page of a viewer or of a cluster replica (\<open>readOnly\<close>), no sequence of user
  actions and server answers ever puts a change request in flight.\<close>

theorem zones_readonly_never_writes:
  assumes "ui_reach (\<lambda>s. \<exists>p. s = zones_mount p) (zones_view t True) (zones_update t) (zones_env collate t) s"
  shows "uz_ops (zp_hook s) = []"
  using assms by (rule zones_ro.reach_none)

definition demo_record :: zone_record where
  "demo_record = \<lparr>zr_id = 1, zr_name = ''www.home.arpa'', zr_type = RT_A, zr_ttl = 300, zr_value = ''192.168.1.1'', zr_priority = 0\<rparr>"

definition demo_zone :: zone where
  "demo_zone = \<lparr>zn_id = 7, zn_name = ''home.arpa'', zn_primary_ns = ''ns.home.arpa'', zn_contact = ''hostmaster.home.arpa'',
     zn_revision = 3, zn_records = [demo_record]\<rparr>"

definition demo_loaded :: zones_page where
  "demo_loaded = zones_load_settled id 0 (Inr [demo_zone]) (zones_mount None)"

lemma demo_loaded_reach: "ui_reach (\<lambda>s. \<exists>p. s = zones_mount p) (zones_view id ro) (zones_update id) (zones_env collate id) demo_loaded"
  unfolding demo_loaded_def
  by (rule ui_reach.stepped [OF ui_reach.mounted], blast, rule ui_step.environment, rule zones_env.load_done)
    (simp add: zones_mount_def uz_effect_def uz_initial_def)

theorem zones_readonly_never_writes_witness:
  "ui_reach (\<lambda>s. \<exists>p. s = zones_mount p) (zones_view id True) (zones_update id) (zones_env (\<lambda>a b. True) id) demo_loaded \<and>
   uz_zones (zp_hook demo_loaded) = Some [demo_zone] \<and> uz_ops (zp_hook demo_loaded) = []"
  using demo_loaded_reach [of True "\<lambda>a b. True"] zones_readonly_never_writes [OF demo_loaded_reach [of True "\<lambda>a b. True"]]
  by (simp add: demo_loaded_def zones_load_settled_def uz_load_settled_def zones_mount_def uz_effect_def uz_initial_def abort_all_def)

text \<open>C2: In every reachable state of the zones page at most one change request is in flight, at most one
  load that has not been aborted is, and a user can start a change only while neither is in flight.\<close>

theorem zones_single_flight:
  assumes "ui_reach (\<lambda>s. \<exists>p. s = zones_mount p) (zones_view t ro) (zones_update t) (zones_env collate t) s"
  shows "length (uz_ops (zp_hook s)) \<le> 1 \<and> live_polls (uz_loads (zp_hook s)) \<le> 1 \<and>
    (\<forall>m \<in> fires (zones_view t ro s). uz_ops (zp_hook (zones_update t m s)) \<noteq> uz_ops (zp_hook s) \<longrightarrow>
       uz_ops (zp_hook s) = [] \<and> live_polls (uz_loads (zp_hook s)) = 0)"
  using zones.reach_inv [OF assms] zones_user_alone [OF zones.reach_inv [OF assms]] by (auto simp: zones_inv_def hook_inv_def)

theorem zones_single_flight_witness:
  "length (uz_ops (zp_hook demo_loaded)) \<le> 1 \<and> live_polls (uz_loads (zp_hook demo_loaded)) \<le> 1"
  using zones_single_flight [OF demo_loaded_reach [of False "\<lambda>a b. True"]] by blast

text \<open>C3: A change of records and the removal of a zone or a record carry the revision of the zone as
  it was edited in \<open>If-Match\<close> and creating a zone carries none, so that the server can refuse a
  change to a zone that has moved on; every change carries the session's CSRF token.\<close>

theorem zone_change_headers:
  "map_of (rq_headers (request_init csrf (zone_op_call op))) ''If-Match'' = (case op of
       Op_Create i k \<Rightarrow> None
     | Op_Save z i r k \<Rightarrow> Some (quoted (show_int (zn_revision z)))
     | Op_Remove z r \<Rightarrow> Some (quoted (show_int (zn_revision z)))) \<and>
   map_of (rq_headers (request_init csrf (zone_op_call op))) ''X-CSRF-Token'' = (if csrf = [] then None else Some csrf)"
  using zone_op_is_write [of op] by (cases op) (simp_all add: request_init_headers)

text \<open>C4: Submitting the record form sends at most one request, and only a valid one: the time to live is
  an integer from 0 to 86400 and the preference one from 0 to 65535 (0 unless the type is MX). Otherwise
  nothing is sent, the form says so and keeps what was typed.\<close>

theorem record_submit_checked:
  assumes "zp_rform s = Some f" "zp_editor s = Some (z, r)"
  shows "case record_form_submit f of
     None \<Rightarrow> zones_rform t RF_Submit s = s\<lparr>zp_rform := Some (f\<lparr>rf_error := t ''zones.invalid_ttl''\<rparr>)\<rparr>
   | Some i \<Rightarrow> uz_ops (zp_hook (zones_rform t RF_Submit s)) = uz_ops (zp_hook s) @ [Op_Save z i r (rf_inst f)] \<and>
       0 \<le> ni_ttl i \<and> ni_ttl i \<le> 86400 \<and> 0 \<le> ni_priority i \<and> ni_priority i \<le> 65535 \<and>
       (ni_type i \<noteq> RT_MX \<longrightarrow> ni_priority i = 0) \<and> ni_name i \<noteq> [] \<and> ni_type i = rf_type f \<and> ni_value i = rf_value f"
  using assms record_form_submit_bounds [of f]
  by (auto simp: zones_rform_def uz_start_def split: option.split)

definition demo_editing :: zones_page where
  "demo_editing = zones_update id (Z_Edit demo_zone demo_record) demo_loaded"

lemma demo_editing_form:
  "zp_editor demo_editing = Some (demo_zone, Some demo_record)"
  "zp_rform demo_editing = Some (record_form_init 0 demo_zone (Some demo_record))"
proof -
  have sel: "selected (demo_loaded\<lparr>zp_editor := e, zp_deleting := d, zp_actionError := a\<rparr>) = Some demo_zone" for e d a
    by (simp add: selected_def filteredZones_def demo_loaded_def zones_load_settled_def uz_load_settled_def zones_mount_def
        uz_effect_def uz_initial_def abort_all_def initial_selection_def sync_forms_def sync_rform_def sync_zform_def zone_matches_def js_lower_def)
  then show "zp_editor demo_editing = Some (demo_zone, Some demo_record)"
    "zp_rform demo_editing = Some (record_form_init 0 demo_zone (Some demo_record))"
    by (simp_all add: demo_editing_def zones_update_def)
      (simp_all add: sync_forms_def sync_rform_def sync_zform_def demo_loaded_def zones_load_settled_def uz_load_settled_def
        zones_mount_def uz_effect_def uz_initial_def selected_def filteredZones_def abort_all_def zone_matches_def
        initial_selection_def js_lower_def)
qed

theorem record_submit_checked_witness:
  "case record_form_submit (record_form_init 0 demo_zone (Some demo_record)) of
     None \<Rightarrow> True
   | Some i \<Rightarrow> uz_ops (zp_hook (zones_rform id RF_Submit demo_editing)) =
       uz_ops (zp_hook demo_editing) @ [Op_Save demo_zone i (Some demo_record) 0]"
  using record_submit_checked [OF demo_editing_form(2,1), of id]
  by (auto simp: record_form_init_def split: option.splits)

lemma integer_in_range:
  "(\<exists>n. x = Fin (of_int n) \<and> 0 \<le> n \<and> n \<le> k) \<longleftrightarrow> is_integer x \<and> \<not> num_less x 0 \<and> \<not> num_greater x k"
proof
  assume x: "is_integer x \<and> \<not> num_less x 0 \<and> \<not> num_greater x k"
  then have "0 \<le> int_of x \<and> int_of x \<le> k" by (intro num_bounds_int) simp_all
  then show "\<exists>n. x = Fin (of_int n) \<and> 0 \<le> n \<and> n \<le> k"
    using x is_integer_int_of by blast
qed (auto simp: not_less)

text \<open>C5: What the record form accepts, exactly: non-blank text that JavaScript reads as an integer in range,
  for the time to live always and for the preference when the type is MX.\<close>

theorem record_form_accepts:
  "record_form_submit f \<noteq> None \<longleftrightarrow>
     js_trim (rf_ttl f) \<noteq> [] \<and> (\<exists>n. js_Number (rf_ttl f) = Fin (of_int n) \<and> 0 \<le> n \<and> n \<le> 86400) \<and>
     (rf_type f = RT_MX \<longrightarrow> js_trim (rf_priority f) \<noteq> [] \<and>
       (\<exists>n. js_Number (rf_priority f) = Fin (of_int n) \<and> 0 \<le> n \<and> n \<le> 65535))"
proof (cases "rf_type f = RT_MX")
  case True
  then show ?thesis
    unfolding integer_in_range by (simp add: record_form_submit_def record_form_invalid_def Let_def) blast
next
  case False
  then show ?thesis
    unfolding integer_in_range
    by (simp add: record_form_submit_def record_form_invalid_def Let_def is_integer_of_int [of 0, simplified])
qed

theorem record_form_accepts_witness:
  "rf_type (record_form_init 0 demo_zone None) = RT_A \<and> record_form_submit (record_form_init 0 demo_zone None) \<noteq> None"
  unfolding record_form_accepts
  using js_Number_show_int [of 300] trim_show_int [of 300]
  by (auto simp: record_form_init_def intro: exI [of _ 300])

text \<open>C6: Opening the editor on a record and submitting it unchanged sends the record back exactly: the
  name relative to the zone, completed with the zone, is the record's own, and type, time to live, value
  and preference are the same.\<close>

theorem record_edit_roundtrip:
  assumes "0 \<le> zr_ttl r" "zr_ttl r \<le> 86400" "0 \<le> zr_priority r" "zr_priority r \<le> 65535"
    and "zr_type r \<noteq> RT_MX \<longrightarrow> zr_priority r = 0"
    and "in_zone (zr_name r) (zn_name z)" "zr_name r \<noteq> ''@.'' @ zn_name z" "ownerName (zr_name r) (zn_name z) \<noteq> []"
  shows "\<exists>i. record_form_submit (record_form_init k z (Some r)) = Some i \<and>
    full_name (ni_name i) (zn_name z) = zr_name r \<and> ni_type i = zr_type r \<and> ni_ttl i = zr_ttl r \<and>
    ni_value i = zr_value r \<and> ni_priority i = zr_priority r"
  using assms by (simp add: record_form_init_submit full_name_ownerName)

theorem record_edit_roundtrip_witness:
  "\<exists>i. record_form_submit (record_form_init 0 demo_zone (Some demo_record)) = Some i \<and>
    full_name (ni_name i) (zn_name demo_zone) = ''www.home.arpa'' \<and> ni_ttl i = 300"
proof -
  have "in_zone (zr_name demo_record) (zn_name demo_zone)" "ownerName (zr_name demo_record) (zn_name demo_zone) \<noteq> []"
    by (simp_all add: in_zone_def demo_record_def demo_zone_def ends_with_def ownerName_def)
  then show ?thesis
    using record_edit_roundtrip [of demo_record demo_zone 0] by (auto simp: demo_record_def demo_zone_def)
qed

text \<open>C7: Publishing a zone that the server returned keeps every other zone, has the zone once, in its new
  form, and leaves the list ordered by name under the host's collation, which is total and transitive.\<close>

theorem publish_updates_list:
  assumes "\<And>a b. collate a b \<or> collate b a" and "\<And>a b c. collate a b \<Longrightarrow> collate b c \<Longrightarrow> collate a c"
    and "uz_active s" and "distinct (map zn_id (nullish (uz_zones s) []))"
  shows "\<exists>zs. uz_zones (publish collate z s) = Some zs \<and>
    set zs = insert z {x \<in> set (nullish (uz_zones s) []). zn_id x \<noteq> zn_id z} \<and> distinct (map zn_id zs) \<and>
    sorted_wrt (by_name collate) zs"
  using assms by (simp add: publish_def publish_list_set publish_list_distinct publish_list_sorted)

definition demo_collate :: "jstring \<Rightarrow> jstring \<Rightarrow> bool" where
  "demo_collate a b \<longleftrightarrow> length a \<le> length b"

theorem publish_updates_list_witness:
  "\<exists>zs. uz_zones (publish demo_collate demo_zone uz_initial) = Some zs \<and> set zs = {demo_zone} \<and>
     sorted_wrt (by_name demo_collate) zs"
proof -
  have "\<exists>zs. uz_zones (publish demo_collate demo_zone uz_initial) = Some zs \<and>
      set zs = insert demo_zone {x \<in> set (nullish (uz_zones uz_initial) []). zn_id x \<noteq> zn_id demo_zone} \<and>
      distinct (map zn_id zs) \<and> sorted_wrt (by_name demo_collate) zs"
    by (rule publish_updates_list) (auto simp: demo_collate_def uz_initial_def)
  then show ?thesis by (auto simp: uz_initial_def)
qed

lemma selected_cong:
  "uz_zones (zp_hook a) = uz_zones (zp_hook b) \<Longrightarrow> zp_query a = zp_query b \<Longrightarrow> zp_selectedID a = zp_selectedID b \<Longrightarrow>
     selected a = selected b"
  unfolding selected_def filteredZones_def by (simp only:)

text \<open>C8: When the server refuses a record the editor stays open on the same record with every field as it was typed; the form shows the
  conflict text for status 412, the server's own message for any other status, and the error's text otherwise; the
  list of zones is as it was and the page is no longer busy.\<close>

theorem record_save_refused:
  assumes "uz_ops (zp_hook s) ! i = Op_Save z inp r (rf_inst f)" "uz_active (zp_hook s)"
    and "zp_editor s = Some (z, r)" "zp_rform s = Some f" "rf_key f = form_key z r" "selected s \<noteq> None"
  shows "let s' = zones_settled collate t i (Inl e) s in
    zp_editor s' = Some (z, r) \<and> uz_zones (zp_hook s') = uz_zones (zp_hook s) \<and> \<not> uz_busy (zp_hook s') \<and>
    (\<exists>f'. zp_rform s' = Some f' \<and> rf_name f' = rf_name f \<and> rf_type f' = rf_type f \<and> rf_ttl f' = rf_ttl f \<and>
       rf_value f' = rf_value f \<and> rf_priority f' = rf_priority f \<and> rf_key f' = rf_key f \<and> rf_inst f' = rf_inst f \<and>
       rf_error f' = (case e of
           APIError st m fs c \<Rightarrow> if st = 412 then t ''zones.record_conflict'' else m
         | OtherError m \<Rightarrow> m
         | NotAnError \<Rightarrow> t ''zones.save_failed''))"
proof -
  let ?s1 = "zones_failed t (Op_Save z inp r (rf_inst f)) e (s\<lparr>zp_hook := uz_settled collate i (Inl e) (zp_hook s)\<rparr>)"
  have zs: "uz_zones (uz_settled collate i (Inl e) h) = uz_zones h" for h
    by (simp add: uz_settled_def Let_def)
  have key: "rf_key (record_form_failed t e f) = form_key z r"
    using assms(5) by (simp add: record_form_failed_def split: exn.split)
  have sel: "selected (sync_zform ?s1) = selected s"
    using zs by (intro selected_cong) (simp_all add: zones_failed_def)
  have "zp_rform (sync_forms ?s1) = Some (record_form_failed t e f)"
    using assms(3-6) sel key by (auto simp: sync_forms_def sync_rform_def zones_failed_def)
  moreover have "rf_error (record_form_failed t e f) = (case e of
      APIError st m fs c \<Rightarrow> if st = 412 then t ''zones.record_conflict'' else m | OtherError m \<Rightarrow> m | NotAnError \<Rightarrow> t ''zones.save_failed'')"
    by (simp add: record_form_failed_def error_text_def split: exn.split)
  ultimately show ?thesis
    using assms(1-3) zs by (simp add: zones_settled_def Let_def zones_failed_def) (simp add: record_form_failed_def)
qed

definition demo_saving :: zones_page where
  "demo_saving = demo_editing\<lparr>zp_hook := uz_start (Op_Save demo_zone
     \<lparr>ni_name = ''www'', ni_type = RT_A, ni_ttl = 300, ni_value = ''192.168.1.1'', ni_priority = 0\<rparr> (Some demo_record) 0)
     (zp_hook demo_editing)\<rparr>"

lemma demo_editing_hook: "zp_hook demo_editing = zp_hook demo_loaded" "uz_ops (zp_hook demo_loaded) = []" "uz_active (zp_hook demo_loaded)"
  "uz_zones (zp_hook demo_loaded) = Some [demo_zone]" "zp_query demo_editing = []"
  by (simp_all add: demo_editing_def zones_update_def)
    (simp_all add: demo_loaded_def zones_load_settled_def uz_load_settled_def zones_mount_def uz_effect_def uz_initial_def abort_all_def)

theorem record_save_refused_witness:
  "let s' = zones_settled demo_collate id 0 (Inl (APIError 412 ''stale'' [] [])) demo_saving in
     zp_editor s' = Some (demo_zone, Some demo_record) \<and>
     map_option rf_error (zp_rform s') = Some ''zones.record_conflict'' \<and> map_option rf_name (zp_rform s') = Some ''www'' \<and>
     map_option rf_value (zp_rform s') = Some ''192.168.1.1'' \<and> \<not> uz_busy (zp_hook s')"
proof -
  have "selected demo_saving \<noteq> None"
    by (simp add: selected_def filteredZones_def demo_saving_def demo_editing_hook uz_start_def zone_matches_def js_lower_def)
  moreover have "rf_key (record_form_init 0 demo_zone (Some demo_record)) = form_key demo_zone (Some demo_record)"
    "rf_inst (record_form_init 0 demo_zone (Some demo_record)) = 0"
    by (simp_all add: record_form_init_def)
  moreover have "rf_name (record_form_init 0 demo_zone (Some demo_record)) = ''www''"
    "rf_value (record_form_init 0 demo_zone (Some demo_record)) = ''192.168.1.1''"
    by (simp_all add: record_form_init_def demo_zone_def demo_record_def ownerName_def ends_with_def)
  ultimately show ?thesis
    using record_save_refused [of demo_saving 0 demo_zone _ "Some demo_record" "record_form_init 0 demo_zone (Some demo_record)"
        demo_collate id "APIError 412 ''stale'' [] []"]
    by (auto simp: demo_saving_def demo_editing_hook demo_editing_form uz_start_def Let_def)
qed

text \<open>Answers, one after another, to loads older than the newest one in flight.\<close>

definition older_answers :: "(jstring \<Rightarrow> jstring) \<Rightarrow> (nat \<times> zone list result) list \<Rightarrow> zones_page \<Rightarrow> zones_page" where
  "older_answers t = fold (\<lambda>(i, res) s. if Suc i < length (uz_loads (zp_hook s)) then zones_load_settled t i res s else s)"

lemma older_aborted:
  assumes "uz_loads h = abort_all ls @ [False]" "Suc i < length (uz_loads h)"
  shows "\<exists>ks. uz_load_settled t i res h = h\<lparr>uz_loads := abort_all ks @ [False]\<rparr>"
proof
  show "uz_load_settled t i res h = h\<lparr>uz_loads := abort_all (remove_nth i ls) @ [False]\<rparr>"
    using assms by (simp add: uz_load_settled_def abort_all_def nth_append remove_nth_def take_map drop_map Let_def)
qed

lemma older_answers_ignored:
  assumes "uz_loads (zp_hook s) = abort_all ls @ [False]"
  shows "\<exists>ks. zp_hook (older_answers t xs s) = (zp_hook s)\<lparr>uz_loads := abort_all ks @ [False]\<rparr>"
  using assms
proof (induction xs arbitrary: s ls)
  case Nil
  have "zp_hook s = (zp_hook s)\<lparr>uz_loads := uz_loads (zp_hook s)\<rparr>" by simp
  then show ?case using Nil by (simp only: older_answers_def fold_simps id_apply) metis
next
  case (Cons x xs)
  obtain i res where x: "x = (i, res)" by (cases x)
  show ?case
  proof (cases "Suc i < length (uz_loads (zp_hook s))")
    case True
    obtain ks where ks: "uz_load_settled t i res (zp_hook s) = (zp_hook s)\<lparr>uz_loads := abort_all ks @ [False]\<rparr>"
      using older_aborted [OF Cons.prems True] by blast
    then have hook: "zp_hook (zones_load_settled t i res s) = (zp_hook s)\<lparr>uz_loads := abort_all ks @ [False]\<rparr>"
      by (simp add: zones_load_settled_def)
    then show ?thesis using Cons.IH [of "zones_load_settled t i res s" ks] True x by (simp add: older_answers_def)
  next
    case False
    then show ?thesis using Cons x by (simp add: older_answers_def)
  qed
qed

text \<open>C9: When the zones are loaded again, by \<open>Reload\<close> or by a change of language while an earlier load is still in flight, the answers to the earlier
  loads change nothing, however many there are and in whatever order they arrive, and the answer to the new load is
  the one that is shown.\<close>

theorem zones_stale_load_ignored:
  assumes "ui_reach (\<lambda>s. \<exists>p. s = zones_mount p) (zones_view t ro) (zones_update t) (zones_env collate t) s"
    and "s1 = zones_language s \<or> Z_Reload \<in> fires (zones_view t ro s) \<and> s1 = zones_update t Z_Reload s"
  shows "let s2 = older_answers t answers s1; s3 = zones_load_settled t (length (uz_loads (zp_hook s2)) - 1) (Inr zs) s2 in
    uz_zones (zp_hook s2) = uz_zones (zp_hook s) \<and> uz_error (zp_hook s2) = uz_error (zp_hook s) \<and> uz_loading (zp_hook s2) \<and>
    uz_ops (zp_hook s2) = uz_ops (zp_hook s) \<and> live_polls (uz_loads (zp_hook s2)) = 1 \<and>
    uz_zones (zp_hook s3) = Some zs \<and> uz_error (zp_hook s3) = [] \<and> \<not> uz_loading (zp_hook s3)"
proof -
  have s1: "uz_loads (zp_hook s1) = abort_all (uz_loads (zp_hook s)) @ [False]" "uz_loading (zp_hook s1)"
    "uz_zones (zp_hook s1) = uz_zones (zp_hook s)" "uz_error (zp_hook s1) = uz_error (zp_hook s)" "uz_ops (zp_hook s1) = uz_ops (zp_hook s)"
    using assms(2) by (auto simp: zones_language_def zones_update_def uz_reload_def uz_effect_def)
  then obtain ks where ks: "zp_hook (older_answers t answers s1) = (zp_hook s1)\<lparr>uz_loads := abort_all ks @ [False]\<rparr>"
    using older_answers_ignored by blast
  then show ?thesis using s1 by (simp add: zones_load_settled_def uz_load_settled_def Let_def nth_append)
qed

text \<open>Two loads in flight: the language changes before the first answer, which arrives late.\<close>

theorem zones_stale_load_ignored_witness:
  "let s2 = older_answers id [(0, Inr [demo_zone])] (zones_language (zones_mount None)) in
     length (uz_loads (zp_hook (zones_language (zones_mount None)))) = 2 \<and> length (uz_loads (zp_hook s2)) = 1 \<and>
     uz_zones (zp_hook s2) = None \<and> uz_zones (zp_hook (zones_load_settled id 0 (Inr []) s2)) = Some []"
proof -
  have "ui_reach (\<lambda>s. \<exists>p. s = zones_mount p) (zones_view id False) (zones_update id) (zones_env demo_collate id) (zones_mount None)"
    by (rule ui_reach.mounted) blast
  from zones_stale_load_ignored [OF this, of "zones_language (zones_mount None)" "[(0, Inr [demo_zone])]" "[]"]
  show ?thesis
    by (simp add: Let_def older_answers_def zones_load_settled_def uz_load_settled_def zones_language_def zones_mount_def uz_effect_def
        uz_initial_def abort_all_def remove_nth_def)
qed

end
