(* ===== verification/Sample_Data.thy ===== *)
theory Sample_Data
  imports Api_Admin Components I18n
begin

text \<open>
  Sample users, a snapshot and number formats, the concrete inputs at which the properties are instantiated.
\<close>

definition demo_user :: auth_user where
  "demo_user = \<lparr>au_username = ''ada'', au_role = Admin, au_csrf_token = ''tok'', au_language = None, au_theme = None\<rparr>"

definition demo_viewer :: auth_user where
  "demo_viewer = demo_user\<lparr>au_role := Viewer\<rparr>"

definition demo_snapshot :: snapshot where
  "demo_snapshot = \<lparr>
     sn_status = \<lparr>st_ready = True, st_uptime_seconds = 60, st_dns_listen = [], st_version = \<lparr>vi_version = ''1.0'', vi_commit = [], vi_built = []\<rparr>,
       st_capabilities = [], st_cluster_role = Some Replica\<rparr>,
     sn_stats = \<lparr>sx_queries_total = 0, sx_blocked_queries = 0, sx_queries_per_second = 0, sx_cache_hit_rate = 0\<rparr>,
     sn_cache = \<lparr>ca_entries = 0, ca_capacity = 1000, ca_hits = 0, ca_misses = 0\<rparr>,
     sn_config = \<lparr>cf_query_log = Some \<lparr>ql_enabled = True, ql_retention = 7, ql_max_rows = 1000, ql_queue_size = 100\<rparr>,
       cf_dns = \<lparr>dc_listen = [''127.0.0.1:53''], dc_upstreams = [''1.1.1.1:53'', ''9.9.9.9:53''], dc_allowed_clients = [], dc_timeout = 2, dc_retries = 1, dc_max_concurrent = 100\<rparr>,
       cf_cache_max_entries = 1000, cf_cache_upstream_ttl = 300, cf_http_listen = [], cf_http_web_dir = [],
       cf_http_allowed_hosts = [], cf_log_level = ''info''\<rparr>,
     sn_checked = []\<rparr>"

definition demo_summary :: backup_summary where
  "demo_summary = \<lparr>bu_zones = 1, bu_records = 2, bu_blocklists = 0, bu_clients = 0, bu_rewrites = 0, bu_forward_rules = 0, bu_users = 1,
     bu_dns_listen = [], bu_upstreams = [], bu_http_listen = [], bu_current_version = ''1.0'', bu_current_schema = 1, bu_warnings = []\<rparr>"

definition demo_host :: host where
  "demo_host = \<lparr>has_storage = True, has_window = True, has_matchMedia = True, has_document = True, prefers_dark = False\<rparr>"

definition demo_dict :: "language \<Rightarrow> dictionary" where
  "demo_dict l = Map.empty"

definition demo_formats :: formats where
  "demo_formats = \<lparr>fm_number = show_int, fm_date = id\<rparr>"

end
