(* ===== verification/Session_Properties.thy ===== *)
theory Session_Properties
  imports Auth_Gate I18n Snapshot Sample_Data
begin

text \<open>
  The API client, the sign-in gate, language and theme, and the snapshot poll.
\<close>

section \<open>API client\<close>

text \<open>
  The server's error envelope, as it is written: the members of the answer and of its error that the client
  does not read, then the code, the message and the fields that the error has.
\<close>

definition member :: "jstring \<Rightarrow> json option \<Rightarrow> (jstring \<times> json) list" where
  "member k v = (case v of None \<Rightarrow> [] | Some x \<Rightarrow> [(k, x)])"

definition error_envelope ::
  "(jstring \<times> json) list \<Rightarrow> (jstring \<times> json) list \<Rightarrow> jstring option \<Rightarrow> jstring option \<Rightarrow> json list option \<Rightarrow> json" where
  "error_envelope outer inner c m fs = JObj (outer @ [(''error'', JObj (inner @ member ''code'' (map_option JStr c)
     @ member ''message'' (map_option JStr m) @ member ''fields'' (map_option JArr fs)))])"

lemma map_of_member [simp]: "map_of (member k v) k' = (if k' = k then v else None)"
  by (simp add: member_def split: option.split)

lemma map_of_foreign: "k \<notin> fst ` set ps \<Longrightarrow> map_of ps k = None"
  by (simp add: map_of_eq_None_iff)

lemma get_prop_foreign:
  assumes "\<And>ps. v = JObj ps \<Longrightarrow> k \<notin> fst ` set ps"
  shows "get_prop v k = Inl () \<or> get_prop v k = Inr None"
  using assms by (cases v) (simp_all add: get_prop_def map_of_foreign)

text \<open>C13: \<open>request\<close> reads back the envelopes the server writes. On a status outside 200 to 299 it throws an error with
  the status and with the message, the fields and the code of the envelope, whatever other members the answer
  and its error have; what the envelope leaves out is \<open>Management API returned HTTP\<close> with the status for the
  message, no field and no code, and so is everything when the answer has no error or is not JSON. On a status
  from 200 to 299 it returns the data member of the answer and throws the engine's syntax error when the answer
  is not JSON.\<close>

theorem request_decodes:
  assumes "\<not> (200 \<le> st \<and> st \<le> 299)" "200 \<le> ok" "ok \<le> 299"
    "''error'' \<notin> fst ` set outer" "''data'' \<notin> fst ` set outer"
    "fst ` set inner \<inter> {''code'', ''message'', ''fields''} = {}"
    "\<And>ps. other = JObj ps \<Longrightarrow> ''error'' \<notin> fst ` set ps"
  shows "request_result not_json null_body \<lparr>rs_status = st, rs_json = Some (error_envelope outer inner c m fs)\<rparr> =
      Inl (APIError st (case m of None \<Rightarrow> ''Management API returned HTTP '' @ show_nat st | Some x \<Rightarrow> x)
        (case fs of None \<Rightarrow> [] | Some x \<Rightarrow> x) (case c of None \<Rightarrow> [] | Some x \<Rightarrow> x)) \<and>
    request_result not_json null_body \<lparr>rs_status = st, rs_json = Some other\<rparr> =
      Inl (APIError st (''Management API returned HTTP '' @ show_nat st) [] []) \<and>
    request_result not_json null_body \<lparr>rs_status = st, rs_json = None\<rparr> =
      Inl (APIError st (''Management API returned HTTP '' @ show_nat st) [] []) \<and>
    request_result not_json null_body \<lparr>rs_status = ok, rs_json = Some (JObj (outer @ (''data'', d) # rest))\<rparr> =
      Inr (Some d) \<and>
    request_result not_json null_body \<lparr>rs_status = ok, rs_json = None\<rparr> = Inl (OtherError not_json)"
  using assms get_prop_foreign [of other "''error''"]
  by (auto simp: request_result_def response_ok_def error_of_response_def error_envelope_def default_message_def
      get_prop_def opt_prop_def map_add_def map_of_foreign Let_def split: option.split)

theorem request_decodes_witness:
  "request_result ''bad'' ''null'' \<lparr>rs_status = 409, rs_json = Some (JObj [(''version'', JNull),
       (''error'', JObj [(''trace'', JNull), (''code'', JStr ''revision_conflict'')])])\<rparr> =
     Inl (APIError 409 ''Management API returned HTTP 409'' [] ''revision_conflict'') \<and>
   request_result ''bad'' ''null'' \<lparr>rs_status = 409, rs_json = Some (JStr ''busy'')\<rparr> =
     Inl (APIError 409 ''Management API returned HTTP 409'' [] []) \<and>
   request_result ''bad'' ''null'' \<lparr>rs_status = 204, rs_json = Some (JObj [(''version'', JNull), (''data'', JStr ''x'')])\<rparr> =
     Inr (Some (JStr ''x''))"
proof -
  have msg: "''Management API returned HTTP '' @ show_nat 409 = ''Management API returned HTTP 409''"
    by code_simp
  show ?thesis
    using request_decodes [of 409 204 "[(''version'', JNull)]" "[(''trace'', JNull)]" "JStr ''busy''" "''bad''" "''null''"
        "Some ''revision_conflict''" None None "JStr ''x''" "[]", unfolded msg]
    by (simp add: error_envelope_def member_def)
qed

text \<open>C14: A response outside 200 to 299 never succeeds, whatever JSON its body is: the promise is rejected
  with an \<open>APIError\<close> that carries the status.\<close>

theorem request_failure_typed:
  assumes "\<not> (200 \<le> rs_status r \<and> rs_status r \<le> 299)"
  shows "\<exists>m fs c. request_result not_json null_body r = Inl (APIError (rs_status r) m fs c)"
  using assms
  by (auto simp: request_result_def response_ok_def error_of_response_def Let_def split: option.split sum.split)

theorem request_failure_typed_witness:
  "\<exists>m fs c. request_result [] [] \<lparr>rs_status = 503, rs_json = Some JNull\<rparr> = Inl (APIError 503 m fs c)"
  using request_failure_typed [of "\<lparr>rs_status = 503, rs_json = Some JNull\<rparr>" "[]" "[]"] by simp

section \<open>Sign-in\<close>

text \<open>C15: A user becomes the signed-in user only through a server answer that names that user: the cookie check
  at start or the answer to a sign-in.\<close>

theorem gate_user_from_server:
  assumes "ui_step (gate_view t (\<lambda>u. [])) login (gate_env t) g g'" "ag_user g' = Some u" "ag_user g \<noteq> Some u"
  shows "g' = checked (Inr u) g \<or> (\<exists>i < length (ag_logins g). g' = login_settled t i (Inr u) g)"
  using assms
proof (cases rule: ui_step.cases)
  case (user m)
  then show ?thesis using assms by (cases m) auto
next
  case environment
  then show ?thesis
  proof (cases rule: gate_env.cases)
    case (check_done res)
    then show ?thesis using assms by (cases res) (auto simp: checked_def Let_def)
  next
    case (login_done i res)
    then show ?thesis using assms by (cases res) (auto simp: login_settled_def Let_def)
  qed
qed

lemma demo_gate_step:
  "ui_step (gate_view t (\<lambda>u. [])) login (gate_env t) (gate_mount ses) (checked (Inr demo_user) (gate_mount ses))"
  by (rule ui_step.environment, rule gate_env.check_done) (simp add: gate_mount_def)

theorem gate_user_from_server_witness:
  "ag_user (checked (Inr demo_user) (gate_mount \<lparr>csrfToken = []\<rparr>)) = Some demo_user \<and>
   (checked (Inr demo_user) (gate_mount \<lparr>csrfToken = []\<rparr>) = checked (Inr demo_user) (gate_mount \<lparr>csrfToken = []\<rparr>) \<or>
    (\<exists>i < 0. checked (Inr demo_user) (gate_mount \<lparr>csrfToken = []\<rparr>) =
       login_settled id i (Inr demo_user) (gate_mount \<lparr>csrfToken = []\<rparr>)))"
  using gate_user_from_server [OF demo_gate_step [of id "\<lparr>csrfToken = []\<rparr>"], of demo_user]
  by (simp add: checked_def gate_mount_def)

text \<open>C16: In every reachable state the application is rendered for the signed-in user only, with the API client
  holding that user's CSRF token, and for nobody while the session is being checked; at most one sign-in is
  in flight.\<close>

theorem gate_renders_for_user:
  assumes "ui_reach (\<lambda>g. \<exists>ses. g = gate_mount ses) (gate_view t (\<lambda>u. [])) login (gate_env t) g"
  shows "length (ag_logins g) \<le> 1 \<and> (case ag_user g of
      None \<Rightarrow> gate_view t children g = gate_view t (\<lambda>u. []) g
    | Some u \<Rightarrow> gate_view t children g = [El T_provider [A ''context'' ''AuthUserContext''] (children u)] \<and>
        csrfToken (ag_session g) = au_csrf_token u)"
  using gate.reach_inv [OF assms] by (auto simp: gate_inv_def gate_view_def split: option.split)

theorem gate_renders_for_user_witness:
  "let g = checked (Inr demo_user) (gate_mount \<lparr>csrfToken = []\<rparr>) in
     gate_view id (\<lambda>u. [Txt (au_username u)]) g = [El T_provider [A ''context'' ''AuthUserContext''] [Txt ''ada'']] \<and>
     csrfToken (ag_session g) = ''tok''"
proof -
  have "ui_reach (\<lambda>g. \<exists>ses. g = gate_mount ses) (gate_view id (\<lambda>u. [])) login (gate_env id)
      (checked (Inr demo_user) (gate_mount \<lparr>csrfToken = []\<rparr>))"
    by (rule ui_reach.stepped [OF ui_reach.mounted demo_gate_step]) blast
  from gate_renders_for_user [OF this, of "\<lambda>u. [Txt (au_username u)]"] show ?thesis
    by (simp add: checked_def gate_mount_def demo_user_def Let_def)
qed

section \<open>Language and theme\<close>

text \<open>C18: Whatever the order in which preferences arrive, the user chooses and the operating system switches its
  colour scheme, the document has the chosen language and the resolved theme, the system's scheme is followed
  exactly while the theme is \<open>auto\<close>, and a reload starts from the stored choice.\<close>

theorem provider_document_follows: "provider_ok (provider_run es (h, provider_mount h sl st))"
  by (rule provider_run_ok) (rule provider_ok_mount)

text \<open>C19: Preferences that arrive after the user has already chosen replace the choice: the page goes back to the
  language the server had before, while the request that saves the choice has been sent.\<close>

theorem late_preferences_override:
  "let s = snd (provider_run [Set_Language l, Pref_Loaded (Inr p)] (h, provider_mount h sl st)) in
     pv_language s = normalizeLanguage (Some (pf_language p)) \<and> map pf_language (pv_saves s) = [language_code l]"
  by (simp add: provider_run_def preferences_loaded_frame setLanguage_saves Let_def)

section \<open>Polling\<close>

text \<open>C20: Whatever the order of refreshes, timer ticks, language changes and answers, exactly one of two things holds:
  one poll that has not been aborted is in flight, or the timer of the next one is armed. Polling neither
  stops nor doubles.\<close>

theorem snapshot_polls_once: "one_poll (sp_polls (snap_run t es)) (sp_timer (snap_run t es))"
  unfolding snap_run_def by (rule fold_snap_one_poll) (rule snap.restart_one)

text \<open>C21: The history of query rates is the last thirty rates reported to polls that were not aborted, in order of
  arrival.\<close>

theorem snapshot_history: "sp_history (snap_run t es) = slice_last 30 (observed t es (snap_effect snap_initial))"
  using fold_snap_history [of "snap_effect snap_initial" "[]" t es]
  by (simp add: snap_run_def snap_effect_def snap_initial_def slice_last_def)

end
