(* ===== verification/Program.thy ===== *)
theory Program
  imports App_Frame
begin

text \<open>
  \<open>main.tsx\<close>: the router, the provider of language and theme, the gate and, behind it, the application. React
  mounts the application when the gate has a user, with that user, the session of the API client and the
  preferences and the location of that moment. \<open>BrowserRouter\<close> and \<open>StrictMode\<close> add no state of their own
  to what is modelled.
\<close>

record program =
  pr_gate :: gate
  pr_prefs :: "host \<times> provider"
  pr_pathname :: jstring
  pr_search :: jstring
  pr_app :: "frame option"

definition program_mount :: "session \<Rightarrow> host \<times> provider \<Rightarrow> jstring \<Rightarrow> jstring \<Rightarrow> program" where
  "program_mount ses hp pathname search =
     \<lparr>pr_gate = gate_mount ses, pr_prefs = hp, pr_pathname = pathname, pr_search = search, pr_app = None\<rparr>"

definition program_t :: "(language \<Rightarrow> dictionary) \<Rightarrow> program \<Rightarrow> jstring \<Rightarrow> jstring" where
  "program_t dict s = makeT dict (pv_language (snd (pr_prefs s)))"

text \<open>The gate renders its children as soon as it has a user.\<close>

definition enter :: "(language \<Rightarrow> dictionary) \<Rightarrow> program \<Rightarrow> program" where
  "enter dict s = (if ag_checking (pr_gate s) then s else case ag_user (pr_gate s) of
      None \<Rightarrow> s
    | Some u \<Rightarrow> s\<lparr>pr_app := Some (frame_mount dict (Some u) (ag_session (pr_gate s)) (pr_prefs s) (pr_pathname s) (pr_search s))\<rparr>)"

text \<open>
  The steps. A change of the preferences reaches the application through its own step; once the application is
  mounted the gate has nothing left to wait for (\<open>gate_done\<close> below).
\<close>

inductive program_step ::
  "(language \<Rightarrow> dictionary) \<Rightarrow> (jstring \<Rightarrow> jstring) \<Rightarrow> (jstring \<Rightarrow> jstring \<Rightarrow> bool) \<Rightarrow> (route_page \<Rightarrow> 'p node list) \<Rightarrow> program \<Rightarrow> program \<Rightarrow> bool"
  for dict time rmatch page where
  gate_moves: "pr_app s = None \<Longrightarrow> ui_step (gate_view (program_t dict s) (\<lambda>u. [])) login (gate_env (program_t dict s)) (pr_gate s) g \<Longrightarrow>
    program_step dict time rmatch page s (enter dict (s\<lparr>pr_gate := g\<rparr>))"
| prefs_move: "pr_app s = None \<Longrightarrow> program_step dict time rmatch page s (s\<lparr>pr_prefs := provider_step e (pr_prefs s)\<rparr>)"
| app_moves: "pr_app s = Some f \<Longrightarrow> ui_step (frame_view dict time rmatch page) (frame_update dict) (frame_env dict) f f' \<Longrightarrow>
    program_step dict time rmatch page s (s\<lparr>pr_app := Some f'\<rparr>)"

inductive program_reach ::
  "(language \<Rightarrow> dictionary) \<Rightarrow> (jstring \<Rightarrow> jstring) \<Rightarrow> (jstring \<Rightarrow> jstring \<Rightarrow> bool) \<Rightarrow> (route_page \<Rightarrow> 'p node list) \<Rightarrow> program \<Rightarrow> bool"
  for dict time rmatch page where
  started: "provider_ok hp \<Longrightarrow> program_reach dict time rmatch page (program_mount ses hp pathname search)"
| moved_on: "program_reach dict time rmatch page s \<Longrightarrow> program_step dict time rmatch page s s' \<Longrightarrow> program_reach dict time rmatch page s'"

text \<open>No check and no sign-in is in flight once there is a user.\<close>

lemma gate_done: "gate_inv g \<Longrightarrow> ag_user g \<noteq> None \<Longrightarrow> \<not> gate_env t g g' \<and> fires (gate_view t (\<lambda>u. []) g) = {}"
  using login_fires [of _ t g] by (auto simp: gate_inv_def elim: gate_env.cases)

section \<open>Who is signed in\<close>

text \<open>Only the end of the session changes what the application knows of the user and the token.\<close>

definition frame_who :: "frame \<Rightarrow> auth_user option \<times> session \<times> nat" where
  "frame_who f = (ax_user f, ax_session f, ax_reloads f)"

lemma who_parts [simp]:
  "frame_who (on_app g f) = frame_who f" "frame_who (f\<lparr>ax_title := x\<rparr>) = frame_who f" "frame_who (f\<lparr>ax_search := x\<rparr>) = frame_who f"
  "frame_who (f\<lparr>ax_eventLoads := n\<rparr>) = frame_who f" "frame_who (f\<lparr>ax_logouts := n\<rparr>) = frame_who f" "frame_who (f\<lparr>ax_prefs := hp\<rparr>) = frame_who f"
  by (simp_all add: frame_who_def)

lemma who_effects [simp]:
  "frame_who (title_effect dict f) = frame_who f" "frame_who (navigate dict x f) = frame_who f" "frame_who (frame_prefs dict e f) = frame_who f"
  "frame_who (refreshEvents f) = frame_who f" "frame_who (events_interval f) = frame_who f" "frame_who (signOut f) = frame_who f"
  by (simp_all add: title_effect_def navigate_def frame_prefs_def refreshEvents_def events_interval_def signOut_def Let_def)

lemma who_action [simp]: "frame_who (run_action dict a f) = frame_who f"
  by (cases a) simp_all

lemma who_palette [simp]: "frame_who (fold (palette_effect_run dict) es f) = frame_who f"
proof (induction es arbitrary: f)
  case (Cons e es)
  then show ?case by (cases e) simp_all
qed simp

lemma who_keys [simp]: "frame_who (palette_key dict k f) = frame_who f" "frame_who (palette_click dict m f) = frame_who f"
  by (simp add: palette_key_def split: prod.split) (cases m; simp)

lemma who_update [simp]: "frame_who (frame_update dict m f) = frame_who f"
  by (cases m) simp_all

definition frame_for :: "auth_user \<Rightarrow> frame \<Rightarrow> bool" where
  "frame_for u f \<longleftrightarrow> (case frame_who f of (user, ses, reloads) \<Rightarrow>
     user = Some u \<and> csrfToken ses = (if reloads = 0 then au_csrf_token u else []))"

lemma frame_for_env: "frame_for u f \<Longrightarrow> frame_env dict f f' \<Longrightarrow> frame_for u f'"
proof (erule frame_env.cases; hypsubst)
  fix out assume "frame_for u f" "0 < ax_logouts f"
  then show "frame_for u (logout_settled out f)"
    by (auto simp: frame_for_def frame_who_def logout_settled_def logged_out_def setCSRFToken_def Let_def split: sum.split)
qed (simp_all add: frame_for_def events_answered_def)

lemma frame_for_update: "frame_for u (frame_update dict m f) = frame_for u f"
  by (simp add: frame_for_def)

lemma frame_for_step:
  "frame_for u f \<Longrightarrow> ui_step (frame_view dict time rmatch page) (frame_update dict) (frame_env dict) f f' \<Longrightarrow> frame_for u f'"
  by (erule ui_stepE) (simp_all add: frame_for_update frame_for_env)

section \<open>Invariant\<close>

definition program_inv :: "(language \<Rightarrow> dictionary) \<Rightarrow> program \<Rightarrow> bool" where
  "program_inv dict s \<longleftrightarrow> gate_inv (pr_gate s) \<and> provider_ok (pr_prefs s) \<and>
     (case pr_app s of None \<Rightarrow> ag_user (pr_gate s) = None
      | Some f \<Rightarrow> frame_inv dict f \<and> (\<exists>u. ag_user (pr_gate s) = Some u \<and> frame_for u f))"

lemma program_mount_inv: "provider_ok hp \<Longrightarrow> program_inv dict (program_mount ses hp pathname search)"
  by (simp add: program_inv_def program_mount_def gate_mount_def gate_inv_def)

lemma frame_for_mount: "csrfToken ses = au_csrf_token u \<Longrightarrow> frame_for u (frame_mount dict (Some u) ses hp pathname search)"
  by (simp add: frame_for_def frame_who_def frame_mount_def title_effect_def events_effect_def refreshEvents_def)

lemma program_inv_enter:
  assumes "gate_inv (pr_gate s)" "provider_ok (pr_prefs s)" "pr_app s = None"
  shows "program_inv dict (enter dict s)"
proof (cases "ag_user (pr_gate s)")
  case None
  then show ?thesis using assms by (simp add: program_inv_def enter_def)
next
  case (Some u)
  then have "csrfToken (ag_session (pr_gate s)) = au_csrf_token u" "\<not> ag_checking (pr_gate s)"
    using assms(1) by (auto simp: gate_inv_def)
  then show ?thesis using assms Some by (simp add: program_inv_def enter_def frame_mount_inv frame_for_mount)
qed

lemma program_step_inv:
  assumes "program_step dict time rmatch page s s'" "program_inv dict s"
  shows "program_inv dict s'"
  using assms
proof (induction rule: program_step.induct)
  case (gate_moves s g)
  have "gate_inv (pr_gate s)" "provider_ok (pr_prefs s)" using gate_moves.prems by (simp_all add: program_inv_def)
  then have "gate_inv g" using gate.step_inv [OF _ gate_moves.hyps(2)] by simp
  with \<open>provider_ok (pr_prefs s)\<close> gate_moves.hyps(1) show ?case by (intro program_inv_enter) simp_all
next
  case (prefs_move s e)
  then show ?case by (simp add: program_inv_def provider_step_ok)
next
  case (app_moves s f f')
  then obtain u where "frame_inv dict f" "frame_for u f" "ag_user (pr_gate s) = Some u" by (auto simp: program_inv_def)
  then have "frame_inv dict f'" "frame_for u f'"
    using frame.step_inv [OF _ app_moves.hyps(2)] frame_for_step [OF _ app_moves.hyps(2)] by simp_all
  then show ?case using app_moves.prems \<open>ag_user (pr_gate s) = Some u\<close> by (simp add: program_inv_def)
qed

lemma program_reach_inv: "program_reach dict time rmatch page s \<Longrightarrow> program_inv dict s"
  by (induction rule: program_reach.induct) (auto intro: program_mount_inv program_step_inv)

end
