(* ===== verification/Scroll_Regions.thy ===== *)
theory Scroll_Regions
  imports Prelude
begin

text \<open>
  \<open>scroll-regions.ts\<close>: wrappers of tables that overflow become labelled, focusable regions.
  A wrapper is its measured sizes, the three attributes the function writes, and the trimmed text
  of its caption; \<open>tabIndex\<close> reads \<open>-1\<close> on a div without the attribute. The observers
  only decide when \<open>update_regions\<close> runs again.
\<close>

record wrapper =
  wr_scrollWidth :: int
  wr_clientWidth :: int
  wr_caption :: "jstring option"
  wr_tabindex :: "int option"
  wr_role :: "jstring option"
  wr_label :: "jstring option"

definition tabIndex :: "wrapper \<Rightarrow> int" where
  "tabIndex w = nullish (wr_tabindex w) (- 1)"

definition scrollable :: "wrapper \<Rightarrow> bool" where
  "scrollable w \<longleftrightarrow> wr_clientWidth w + 1 < wr_scrollWidth w"

definition region_label :: "jstring \<Rightarrow> wrapper \<Rightarrow> jstring" where
  "region_label label w = (case map_option js_trim (wr_caption w) of
      Some (c # cs) \<Rightarrow> (c # cs) @ '' ('' @ label @ '')''
    | _ \<Rightarrow> label)"

definition update_region :: "jstring \<Rightarrow> wrapper \<Rightarrow> wrapper" where
  "update_region label w =
     (if scrollable w \<and> tabIndex w \<noteq> 0 then
        w\<lparr>wr_tabindex := Some 0, wr_role := Some ''region'', wr_label := Some (region_label label w)\<rparr>
      else if \<not> scrollable w \<and> wr_role w = Some ''region'' then
        w\<lparr>wr_tabindex := None, wr_role := None, wr_label := None\<rparr>
      else w)"

definition update_regions :: "jstring \<Rightarrow> wrapper list \<Rightarrow> wrapper list" where
  "update_regions label = map (update_region label)"

text \<open>
  A wrapper whose three attributes only this function writes is either plain or a region; React
  renders it plain.
\<close>

definition plain_wrapper :: "wrapper \<Rightarrow> bool" where
  "plain_wrapper w \<longleftrightarrow> wr_tabindex w = None \<and> wr_role w = None \<and> wr_label w = None"

definition region_wrapper :: "wrapper \<Rightarrow> bool" where
  "region_wrapper w \<longleftrightarrow> wr_tabindex w = Some 0 \<and> wr_role w = Some ''region'' \<and> wr_label w \<noteq> None"

lemma update_region_sizes [simp]:
  "scrollable (update_region label w) = scrollable w" "wr_caption (update_region label w) = wr_caption w"
  by (simp_all add: update_region_def scrollable_def)

lemma update_region_kind:
  "plain_wrapper w \<or> region_wrapper w \<Longrightarrow>
     if scrollable w then region_wrapper (update_region label w) else plain_wrapper (update_region label w)"
  by (auto simp: update_region_def plain_wrapper_def region_wrapper_def tabIndex_def)

lemma update_region_fixed:
  "plain_wrapper w \<or> region_wrapper w \<Longrightarrow> update_region l' (update_region l w) = update_region l w"
  using update_region_kind [of w l]
  by (auto simp: update_region_def [of l' "update_region l w"] plain_wrapper_def region_wrapper_def tabIndex_def
      split: if_splits)

lemma update_region_label:
  "plain_wrapper w \<Longrightarrow> scrollable w \<Longrightarrow> wr_label (update_region label w) = Some (region_label label w)"
  by (simp add: update_region_def plain_wrapper_def tabIndex_def)

end
