(* ===== verification/Shell_Properties.thy ===== *)
theory Shell_Properties
  imports Program Scroll_Regions Sample_Data
begin

text \<open>
  The program as a whole and the frame of the application: command palette, navigation, roles, keyboard and scroll
  regions.
\<close>

section \<open>Command palette\<close>




definition demo_mounted :: frame where
  "demo_mounted = frame_mount demo_dict (Some demo_user) \<lparr>csrfToken = ''tok''\<rparr> (demo_host, provider_mount demo_host None None) ''/'' []"




text \<open>The answers to searches in flight, in any order.\<close>

fun answered :: "(nat \<times> search_result list result) list \<Rightarrow> palette \<Rightarrow> palette" where
  "answered [] s = s"
| "answered ((i, res) # rest) s = answered rest (if i < length (pl_searches s) then search_settled i res s else s)"

text \<open>Every node of a rendered tree.\<close>

fun subnodes :: "'m node \<Rightarrow> 'm node list" where
  "subnodes (El g attrs ns) = El g attrs ns # concat (map subnodes ns)"
| "subnodes n = [n]"

definition abandoned :: "palette \<Rightarrow> bool" where
  "abandoned s \<longleftrightarrow> pl_loading s \<and> pl_timer s = None \<and> length (trimmed s) < 2 \<and> list_all snd (pl_searches s)"

lemma abandoned_settled: "abandoned s \<Longrightarrow> i < length (pl_searches s) \<Longrightarrow> abandoned (search_settled i res s)"
proof -
  assume s: "abandoned s" "i < length (pl_searches s)"
  then have "snd (pl_searches s ! i)" by (simp add: abandoned_def list_all_length)
  then obtain q where "pl_searches s ! i = (q, True)" by (cases "pl_searches s ! i") simp
  then show ?thesis
    using s set_remove_nth [of i "pl_searches s"]
    by (auto simp: abandoned_def search_settled_def trimmed_def list_all_iff Let_def split: sum.split)
qed

lemma abandoned_answered: "abandoned s \<Longrightarrow> abandoned (answered rest s)"
  by (induction rest s rule: answered.induct) (auto simp: abandoned_settled)

lemma shortened_abandons:
  assumes "2 \<le> length (js_trim q)" "js_trim q \<noteq> trimmed s" "length (js_trim v) < 2"
  shows "abandoned (palette_setQuery v (palette_timer (palette_setQuery q s)))"
  using assms
  by (auto simp: abandoned_def palette_setQuery_def palette_timer_def search_effect_def trimmed_def list_all_iff Let_def split: prod.split)

text \<open>C32: A search that is abandoned while it runs leaves the palette searching. From any state of the palette let a query of two
  characters or more start its search and then be shortened below two: whatever answers arrive, in whatever order, no search is
  in flight that has not been aborted, no timer is armed, and yet the spinner is shown, and an empty list of options is not announced.\<close>

theorem palette_search_stuck:
  assumes "2 \<le> length (js_trim q)" "js_trim q \<noteq> trimmed s0" "length (js_trim v) < 2"
  shows "let s = answered rest (palette_setQuery v (palette_timer (palette_setQuery q s0))) in
    list_all snd (pl_searches s) \<and> pl_timer s = None \<and> length (trimmed s) < 2 \<and>
    Icon ''Loader2'' 16 \<in> set (concat (map subnodes (CommandPalette True t listId up down opts s))) \<and>
    (\<forall>g attrs ns. El g attrs ns \<in> set (concat (map subnodes (CommandPalette True t listId up down [] s))) \<longrightarrow> A ''role'' ''status'' \<notin> set attrs)"
proof -
  let ?s = "answered rest (palette_setQuery v (palette_timer (palette_setQuery q s0)))"
  have "abandoned ?s" by (intro abandoned_answered shortened_abandons assms)
  then have s: "list_all snd (pl_searches ?s)" "pl_timer ?s = None" "length (trimmed ?s) < 2" "searching ?s"
    by (simp_all add: abandoned_def searching_def)
  then show ?thesis
    by (auto simp: CommandPalette_def palette_view_def palette_input_def render_if_def attr_if_def Let_def)
qed

theorem palette_search_stuck_witness:
  "Icon ''Loader2'' 16 \<in> set (concat (map subnodes (CommandPalette True id ''l'' [] [] ([] :: unit palette_option list)
     (answered [(0, Inr [])] (palette_setQuery ''a'' (palette_timer (palette_setQuery ''ab'' palette_initial)))))))"
proof -
  have "2 \<le> length (js_trim ''ab'')" "js_trim ''ab'' \<noteq> trimmed palette_initial" "length (js_trim ''a'') < 2"
    by (simp_all add: js_trim_def js_ws_def trimmed_def palette_initial_def)
  from palette_search_stuck [OF this, of "[(0, Inr [])]" id "''l''" "[]" "[]" "[]"] show ?thesis
    unfolding Let_def by (elim conjE)
qed

section \<open>The program\<close>

text \<open>C17: In every reachable state of the program, from the gate to the application behind it: the application is mounted exactly when the gate
  has a user, and for that user; requests carry that user's token until the server has ended the session, and only then
  the page is reloaded; the document title is that of the current path in the current language; the unread count is
  refreshed; the snapshot is polled without a gap and without doubling; the document follows the preferences.\<close>

theorem program_consistent:
  assumes "program_reach dict time rmatch page s"
  shows "case pr_app s of
      None \<Rightarrow> ag_user (pr_gate s) = None
    | Some f \<Rightarrow> \<exists>u. ag_user (pr_gate s) = Some u \<and> ax_user f = Some u \<and>
        csrfToken (ax_session f) = (if ax_reloads f = 0 then au_csrf_token u else []) \<and>
        ax_title f = ''Velora DNS '' @ middot @ '' '' @ page_title (ax_t dict f) (ap_pathname (ax_app f)) \<and> ax_interval f \<and>
        one_poll (sp_polls (ap_snap (ax_app f))) (sp_timer (ap_snap (ax_app f))) \<and> provider_ok (ax_prefs f)"
proof (cases "pr_app s")
  case None
  then show ?thesis using program_reach_inv [OF assms] by (simp add: program_inv_def)
next
  case (Some f)
  then obtain u where "ag_user (pr_gate s) = Some u" "frame_for u f" "frame_inv dict f"
    using program_reach_inv [OF assms] by (auto simp: program_inv_def)
  then show ?thesis using Some by (simp add: frame_inv_def frame_for_def frame_who_def)
qed

definition demo_program :: program where
  "demo_program = program_mount \<lparr>csrfToken = []\<rparr> (demo_host, provider_mount demo_host None None) ''/'' []"

lemma demo_entered:
  "pr_app (enter demo_dict (demo_program\<lparr>pr_gate := checked (Inr demo_user) (pr_gate demo_program)\<rparr>)) = Some demo_mounted"
  by (simp add: demo_program_def program_mount_def enter_def checked_def gate_mount_def user_loaded_def setCSRFToken_def demo_user_def demo_mounted_def Let_def)

theorem program_consistent_witness:
  "ax_title (navigate demo_dict ''/clients?new=1'' demo_mounted) = ''Velora DNS '' @ middot @ '' app.title.clients''"
proof -
  let ?s = "enter demo_dict (demo_program\<lparr>pr_gate := checked (Inr demo_user) (pr_gate demo_program)\<rparr>)"
  have "program_reach demo_dict id (=) (\<lambda>r. [] :: unit node list) demo_program"
    unfolding demo_program_def by (intro program_reach.started provider_ok_mount)
  then have "program_reach demo_dict id (=) (\<lambda>r. [] :: unit node list) ?s"
    by (rule program_reach.moved_on)
      (intro program_step.gate_moves ui_step.environment gate_env.check_done;
       simp add: demo_program_def program_mount_def gate_mount_def)
  then have "program_reach demo_dict id (=) (\<lambda>r. [] :: unit node list) (?s\<lparr>pr_app := Some (navigate demo_dict ''/clients?new=1'' demo_mounted)\<rparr>)"
    by (rule program_reach.moved_on) (rule program_step.app_moves [OF demo_entered], rule ui_step.environment, rule frame_env.link_followed)
  from program_consistent [OF this] show ?thesis
    by (simp add: navigate_def title_effect_def app_navigate_frame page_title_def routeKey_def ROUTE_KEYS_def ax_t_def makeT_def translate_def demo_dict_def)
qed

section \<open>Navigation and roles\<close>

text \<open>C33: Every entry of the navigation leads to a routed page and has the title key of its path, the routed paths are
  exactly the titled ones, and none is listed twice.\<close>

theorem navigation_agrees:
  "list_all (\<lambda>i. ni_to i \<in> set (map fst (routes user d)) \<and> map_of ROUTE_KEYS (ni_to i) = Some (ni_key i)) nav_items \<and>
   set (map fst (routes user d)) = set (map fst ROUTE_KEYS) \<and> distinct (map fst (routes user d))"
  using nav_targets_routed [of user d] nav_targets_titled routes_titled [of user d] routes_distinct [of user d]
  by (simp add: list_all_iff)

text \<open>C35: Privileges grow with the role, in the order viewer, operator, administrator: a page that may write for a user may
  write for every user of a higher role, and the palette offers the higher role all it offers the lower one.\<close>

theorem privileges_monotone:
  assumes "au_role u \<le> au_role v"
  shows "(write_props_off (route rmatch (Some v) d path) \<longrightarrow> write_props_off (route rmatch (Some u) d path)) \<and>
    set (palettePages t (Some u)) \<subseteq> set (palettePages t (Some v)) \<and>
    set (paletteActions t (Some u) dark) \<subseteq> set (paletteActions t (Some v) dark)"
  using route_mono [OF assms] palettePages_mono [OF assms] paletteActions_mono [OF assms] by blast

theorem privileges_monotone_witness:
  "set (paletteActions id (Some demo_viewer) True) \<subseteq> set (paletteActions id (Some demo_user) True)"
  using privileges_monotone [of demo_viewer demo_user "\<lambda>p x. p = x" demo_snapshot "''/''" id True]
  by (simp add: demo_viewer_def demo_user_def less_eq_role_def)

text \<open>C36: In the open mobile menu Tab and Shift+Tab go around the focusable elements and never leave them, and in an open
  dropdown the arrow keys go around its links.\<close>

theorem keyboard_stays_inside:
  assumes "i < n"
  shows "tab_target shift n i = (if shift then (i + n - 1) mod n else (i + 1) mod n) \<and>
    ap_focus (fst (menuKeys label n (int i) ArrowUp s)) = F_Link label ((i + n - 1) mod n) \<and>
    ap_focus (fst (menuKeys label n (int i) ArrowDown (s\<lparr>ap_openGroup := Some label\<rparr>))) = F_Link label ((i + 1) mod n)"
  using assms tab_target_mod [of i n shift] menuKeys_up [of i n label s]
    menuKeys_down [of "s\<lparr>ap_openGroup := Some label\<rparr>" label i n] by simp

theorem keyboard_stays_inside_witness:
  "tab_target False 3 2 = 0 \<and> ap_focus (fst (menuKeys ''dns'' 6 0 ArrowUp (app_mount ''/''))) = F_Link ''dns'' 5"
  using keyboard_stays_inside [of 2 3 False] keyboard_stays_inside [of 0 6 False "''dns''" "app_mount ''/''"] by simp

section \<open>Scroll regions\<close>

definition demo_wrapper :: wrapper where
  "demo_wrapper = \<lparr>wr_scrollWidth = 900, wr_clientWidth = 320, wr_caption = Some ''Zones'', wr_tabindex = None, wr_role = None,
     wr_label = None\<rparr>"

text \<open>C40: A wrapper that is a region already keeps its label when the language changes: the update with the new label leaves
  the text of the old one.\<close>

theorem scroll_label_not_translated:
  assumes "plain_wrapper w" "scrollable w"
  shows "wr_label (update_region new_label (update_region old_label w)) = Some (region_label old_label w)"
  using assms by (simp add: update_region_fixed update_region_label)

theorem scroll_label_not_translated_witness:
  "wr_label (update_region ''scrollbar'' (update_region ''scrollable'' demo_wrapper)) = Some ''Zones (scrollable)''"
  using scroll_label_not_translated [of demo_wrapper "''scrollbar''" "''scrollable''"]
  by (simp add: demo_wrapper_def plain_wrapper_def scrollable_def region_label_def js_trim_def js_ws_def)

end
