(* ===== verification/Page_Properties.thy ===== *)
theory Page_Properties
  imports Sample_Data Clients_Page Forwarding_Page Query_Log Cache_Page Settings_Page Update_Center Restore_Panel Dashboard_Page Analytics_Page
begin

text \<open>
  The pages other than the zones page.
\<close>

section \<open>Resource pages\<close>

definition demo_client :: client_view where
  "demo_client = \<lparr>cl_id = 4, cl_name = ''TV'', cl_addresses = [''192.168.1.20'', ''2001:db8::20''], cl_group = ''Media'',
     cl_description = [], cl_enabled = True, cv_activity = None\<rparr>"

text \<open>C27: Editing a client and saving the form as it is sends the client's own data, when its texts are trimmed and its
  addresses are non-empty words; and the address list of any form that is sent has only such words.\<close>

theorem client_edit_roundtrip:
  assumes "\<forall>a \<in> set (cl_addresses c). a \<noteq> [] \<and> (\<forall>x \<in> set a. \<not> ws_or_comma x)"
    and "js_trim (cl_name c) = cl_name c" "js_trim (cl_group c) = cl_group c" "js_trim (cl_description c) = cl_description c"
  shows "client_save_call (client_edit_form c) = updateClient_call (cl_id c) (inputOf c) \<and>
    (\<forall>f. \<forall>a \<in> set (ci_addresses (toInput f)). a \<noteq> [] \<and> (\<forall>x \<in> set a. \<not> ws_or_comma x))"
  using toInput_edit_form [OF assms] toInput_addresses
  by (simp add: client_save_call_def) (simp add: client_edit_form_def)

theorem client_edit_roundtrip_witness:
  "client_save_call (client_edit_form demo_client) = updateClient_call 4 (inputOf demo_client)"
  using client_edit_roundtrip [of demo_client] by (simp add: demo_client_def ws_or_comma_def js_ws_def js_trim_def)

section \<open>Query log\<close>

text \<open>A step of the query log that changes the rows is the successful answer to a request that was not aborted.\<close>

lemma query_log_rows_change:
  assumes "ui_step (query_log_view t date on) query_log_update (query_log_env t on) s s'" "ql_entries s' \<noteq> ql_entries s"
  shows "\<exists>i es. i < length (ql_loads s) \<and> \<not> snd (ql_loads s ! i) \<and> s' = query_log_settled t i (Inr es) s"
proof (rule ui_stepE [OF assms(1)])
  fix m assume "s' = query_log_update m s"
  then show ?thesis using assms(2)
    by (cases m) (auto simp: query_log_apply_def show_blocked_def older_def set_filter_def query_log_effect_def Let_def)
next
  assume "query_log_env t on s s'"
  then show ?thesis using assms(2)
  proof cases
    case (settled i res)
    have "\<not> snd (ql_loads s ! i)" "\<exists>es. res = Inr es"
      using settled assms(2) by (auto simp: query_log_settled_def Let_def split: prod.splits if_splits sum.splits)
    then show ?thesis using settled by blast
  qed (auto simp: query_log_effect_def Let_def split: if_splits)
qed

text \<open>C29: In every reachable state of the query log at most one request in flight has not been aborted, and it is the one for the current
  filter. Nothing but a successful answer to it changes the rows: they become that answer's, the error is cleared and the page is no longer
  loading. When it fails the rows stay as they were, below the error; an answer to an aborted request changes nothing. (Until the answer
  arrives, and after a failure, the rows are those of an earlier filter.)\<close>

theorem query_log_shows_filter:
  assumes "ui_reach (\<lambda>s. \<exists>c. s = query_log_mount on c) (query_log_view t date on) query_log_update (query_log_env t on) s"
    and "ui_step (query_log_view t date on) query_log_update (query_log_env t on) s s'"
  shows "length (live_requests (ql_loads s)) \<le> 1 \<and>
    (ql_entries s' = ql_entries s \<or>
      (\<exists>i es. i < length (ql_loads s) \<and> ql_loads s ! i = (query_path (ql_filter s), False) \<and> s' = query_log_settled t i (Inr es) s)) \<and>
    (\<forall>i < length (ql_loads s). \<forall>res. let r = query_log_settled t i res s in
      if snd (ql_loads s ! i) then ql_entries r = ql_entries s \<and> ql_error r = ql_error s \<and> ql_loading r = ql_loading s
      else fst (ql_loads s ! i) = query_path (ql_filter s) \<and> \<not> ql_loading r \<and> (case res of
          Inr es \<Rightarrow> ql_entries r = Some es \<and> ql_error r = []
        | Inl e \<Rightarrow> ql_entries r = ql_entries s \<and> ql_error r = error_text e (t ''querylog.load_failed'')))"
proof (intro conjI allI impI)
  have inv: "query_log_inv s" by (rule query_log.reach_inv [OF assms(1)])
  have live: "fst (ql_loads s ! i) = query_path (ql_filter s)" if "i < length (ql_loads s)" "\<not> snd (ql_loads s ! i)" for i
    using inv that by (simp add: query_log_inv_def latest_ok_nth)
  show "length (live_requests (ql_loads s)) \<le> 1" by (rule query_log.reach_single [OF assms(1)])
  show "ql_entries s' = ql_entries s \<or>
      (\<exists>i es. i < length (ql_loads s) \<and> ql_loads s ! i = (query_path (ql_filter s), False) \<and> s' = query_log_settled t i (Inr es) s)"
    using query_log_rows_change [OF assms(2)] live by (metis (full_types) prod.collapse)
  fix i res assume "i < length (ql_loads s)"
  with live [of i] show "let r = query_log_settled t i res s in
      if snd (ql_loads s ! i) then ql_entries r = ql_entries s \<and> ql_error r = ql_error s \<and> ql_loading r = ql_loading s
      else fst (ql_loads s ! i) = query_path (ql_filter s) \<and> \<not> ql_loading r \<and> (case res of
          Inr es \<Rightarrow> ql_entries r = Some es \<and> ql_error r = []
        | Inl e \<Rightarrow> ql_entries r = ql_entries s \<and> ql_error r = error_text e (t ''querylog.load_failed''))"
    by (auto simp: query_log_settled_def Let_def split: prod.split sum.split)
qed

theorem query_log_shows_filter_witness:
  "(\<exists>i es. i < length (ql_loads (query_log_mount True None)) \<and>
      ql_loads (query_log_mount True None) ! i = (query_path (ql_filter (query_log_mount True None)), False) \<and>
      query_log_settled id 0 (Inr []) (query_log_mount True None) = query_log_settled id i (Inr es) (query_log_mount True None)) \<and>
   ql_entries (query_log_settled id 0 (Inr []) (query_log_mount True None)) = Some []"
proof -
  let ?s = "query_log_mount True None" and ?s' = "query_log_settled id 0 (Inr []) (query_log_mount True None)"
  have r: "ui_reach (\<lambda>s. \<exists>c. s = query_log_mount True c) (query_log_view id id True) query_log_update (query_log_env id True) ?s"
    by (rule ui_reach.mounted) blast
  have "ui_step (query_log_view id id True) query_log_update (query_log_env id True) ?s ?s'"
    by (intro ui_step.environment query_log_env.settled) (simp add: query_log_mount_def query_log_effect_def abort_requests_def Let_def)
  from query_log_shows_filter [OF r this] have "ql_entries ?s' = ql_entries ?s \<or>
      (\<exists>i es. i < length (ql_loads ?s) \<and> ql_loads ?s ! i = (query_path (ql_filter ?s), False) \<and> ?s' = query_log_settled id i (Inr es) ?s)"
    by (elim conjE)
  moreover have "ql_entries ?s = None" "ql_entries ?s' = Some []"
    by (simp_all add: query_log_mount_def query_log_effect_def query_log_settled_def abort_requests_def Let_def)
  ultimately show ?thesis by simp
qed

section \<open>Cache\<close>

text \<open>C30: In every reachable state of the cache page an answer changes the rows only when it answers the request for the page and the
  filter that are current; the offset is that of a page, and unless the debounce timer runs the filter is the one typed in.\<close>

theorem cache_shows_page:
  assumes "ui_reach (\<lambda>s. \<exists>d. s = cache_mount d) (cache_view t fm pct ro) cache_update (cache_env t) s"
    and "i < length (cp_loads s)" "cp_entryPage (cache_load_settled t i res s) \<noteq> cp_entryPage s"
  shows "fst (cp_loads s ! i) = entries_path (cp_offset s) (cp_filter s) \<and> 0 \<le> cp_offset s \<and> PAGE_SIZE dvd cp_offset s \<and>
    (cp_timer s \<or> cp_filter s = (js_trim (cp_search s), cp_typeFilter s))"
  using cache.reach_inv [OF assms(1)] cache_shows_current [OF cache.reach_inv [OF assms(1)] assms(2,3)]
  by (auto simp: cache_inv_def)

theorem cache_shows_page_witness:
  "fst (cp_loads (cache_mount demo_snapshot) ! 0) = entries_path 0 ([], [])"
proof -
  let ?p = "\<lparr>cep_entries = [], cep_total = 0\<rparr>"
  have "ui_reach (\<lambda>s. \<exists>d. s = cache_mount d) (cache_view id demo_formats (\<lambda>x. []) False) cache_update (cache_env id) (cache_mount demo_snapshot)"
    by (rule ui_reach.mounted) blast
  moreover have "0 < length (cp_loads (cache_mount demo_snapshot))"
    "cp_entryPage (cache_load_settled id 0 (Inr ?p) (cache_mount demo_snapshot)) \<noteq> cp_entryPage (cache_mount demo_snapshot)"
    by (simp_all add: cache_mount_def cache_effect_def cache_load_settled_def abort_requests_def Let_def)
  ultimately show ?thesis
    using cache_shows_page [of id demo_formats "\<lambda>x. []" False "cache_mount demo_snapshot" 0 "Inr ?p"]
    by (simp add: cache_mount_def cache_effect_def)
qed

section \<open>Updates and restore\<close>

text \<open>C22: Polling for an update ends: once the server answers and no longer reports a running update, sixteen polls at the intervals of
  the timers (half a second after the request, then every two seconds) are enough, whatever they answer otherwise. The page then shows
  success, failure or its start, and no timer is armed.\<close>

theorem update_polling_ends:
  assumes "uc_polling s" "uc_timer s" "16 \<le> length rounds"
    and "\<forall>i < length rounds. uc_startedAt s + 500 + 2000 * int i \<le> fst (rounds ! i) \<and> \<not> us_updating (snd (rounds ! i))"
  shows "uc_phase (poll_rounds t time rounds s) \<in> {Completed, Failed, Idle} \<and> \<not> uc_timer (poll_rounds t time rounds s)"
proof (rule poll_rounds_end [OF assms(1,2)])
  show "rounds ! 15 \<in> set rounds" using assms(3) by simp
  show "START_TIMEOUT_MS < fst (rounds ! 15) - uc_startedAt s"
    using assms(3) assms(4) [rule_format, of 15] by (simp add: START_TIMEOUT_MS_def)
  show "\<not> us_updating (snd r)" if "r \<in> set rounds" for r
    using that assms(4) by (auto simp: in_set_conv_nth)
qed

definition demo_status :: update_status where
  "demo_status = \<lparr>us_state = ''completed'', us_installed = ''1.0'', us_from_version = None, us_to_version = None, us_channel = None,
     us_started_at = None, us_last_completed = None, us_updating = False, us_error = None, us_rollback_used = None, us_readiness_ok = None\<rparr>"

definition demo_starting :: update_center where
  "demo_starting = startUpdate (update_mount 0)"

theorem update_polling_ends_witness:
  "\<not> uc_timer (poll_rounds id (\<lambda>x. None) (map (\<lambda>i. (500 + 2000 * int i, demo_status)) [0..<16]) demo_starting)"
  using update_polling_ends [of demo_starting "map (\<lambda>i. (500 + 2000 * int i, demo_status)) [0..<16]" id "\<lambda>x. None"]
  by (simp add: demo_starting_def startUpdate_def setPhase_def poll_effect_def update_mount_def initial_effect_def polling_phase_def
      demo_status_def nth_append)

text \<open>C23: A restore is scheduled only by the user, for the backup that was inspected and is on display, and after it was confirmed: the
  request carries that inspection's token.\<close>

theorem restore_confirmed:
  assumes "ui_step (restore_view t fm) restore_update (restore_env t time) s s'" "length (rp_schedules s) < length (rp_schedules s')"
  shows "\<exists>b. rp_inspection s = Some b \<and> rp_confirmed s \<and> rp_phase s = Inspected \<and> s' = restore_update RP_Restore s \<and>
    rp_schedules s' = rp_schedules s @ [bi_token b]"
proof (rule ui_stepE [OF assms(1)])
  fix m assume m: "s' = restore_update m s" "m \<in> fires (restore_view t fm s)"
  then have "m = RP_Restore" using assms(2) by (cases m) (auto simp: inspect_def restore_reset_def split: option.splits)
  then show ?thesis using m restore_fired [OF m(2)] by (auto simp: restore_guard_def restore_def)
next
  assume "restore_env t time s s'"
  then show ?thesis using restore_env_schedules [of t time s s'] assms(2) by simp
qed

definition demo_inspection :: backup_inspection where
  "demo_inspection = \<lparr>bi_token = ''tok-1'', bi_expires_at = [],
     bi_metadata = \<lparr>bm_format_version = 1, bm_velora_version = ''1.0'', bm_created_at = [], bm_schema_version = 1, bm_components = []\<rparr>,
     bi_summary = demo_summary\<rparr>"

definition demo_reviewed :: restore_panel where
  "demo_reviewed = (restore_mount 0)\<lparr>rp_phase := Inspected, rp_inspection := Some demo_inspection, rp_confirmed := True\<rparr>"

lemma demo_restore_step:
  "ui_step (restore_view id demo_formats) restore_update (restore_env id (\<lambda>x. None)) demo_reviewed (restore_update RP_Restore demo_reviewed)"
proof (rule ui_step.user)
  have "Fire RP_Restore \<in> set (handlers False (restore_review id demo_formats demo_reviewed demo_inspection))"
    by (simp add: restore_review_def demo_reviewed_def live_def blocked_below_def is_disabled_def Let_def)
  then show "RP_Restore \<in> fires (restore_view id demo_formats demo_reviewed)"
    by (simp add: fires_def restore_view_def demo_reviewed_def live_def blocked_below_def is_disabled_def)
      (rule disjI2, rule disjI1, rule bexI [of _ "Fire RP_Restore"], simp_all)
qed

theorem restore_confirmed_witness:
  "rp_confirmed demo_reviewed \<and> rp_schedules (restore_update RP_Restore demo_reviewed) = [''tok-1'']"
  using restore_confirmed [OF demo_restore_step]
  by (simp add: demo_reviewed_def restore_mount_def restore_def demo_inspection_def)

section \<open>Settings\<close>

lemma settings_sends_listen:
  "sg_ops (settings_update dict m s) = sg_ops s @ [op] \<Longrightarrow> cf_http_listen (op_config op) = cg_http_listen (sg_form s)"
  by (cases m) (auto simp: settings_prefs_def rate_effect_def handleChange_def handleCheck_def handleSave_def submit_config_def edit_rate_def
      saveRateLimit_def buildConfig_def Let_def split: option.splits if_splits)

text \<open>C24: Whatever a user types, in every reachable state of the settings page what is being checked or saved is a configuration whose
  time to live is between 0 and 604800 and whose four lists (the addresses of the DNS server, the upstreams, the allowed clients and the
  allowed hosts) only have entries that are trimmed, not empty and without a comma; it is the only one in flight and the page says that it
  is saving. The address of the web interface is sent as it was typed.\<close>

theorem settings_sends_valid:
  assumes "ui_reach (\<lambda>s. \<exists>d hp. settings_mount d hp = Some s) (settings_view dict num lnum ldate) (settings_update dict) (settings_env dict) s"
    and "op \<in> set (sg_ops s)"
  shows "let c = op_config op in 0 \<le> cf_cache_upstream_ttl c \<and> cf_cache_upstream_ttl c \<le> 604800 \<and>
    (\<forall>w \<in> set (dc_listen (cf_dns c)) \<union> set (dc_upstreams (cf_dns c)) \<union> set (dc_allowed_clients (cf_dns c)) \<union> set (cf_http_allowed_hosts c).
       w \<noteq> [] \<and> js_trim w = w \<and> CHR '','' \<notin> set w) \<and>
    sg_ops s = [op] \<and> sg_saving s \<and>
    (\<forall>m s0. sg_ops (settings_update dict m s0) = sg_ops s0 @ [op] \<longrightarrow> cf_http_listen c = cg_http_listen (sg_form s0))"
  using settings.reach_inv [OF assms(1)] assms(2) settings_sends_listen
  by (auto simp: settings_inv_def sendable_def config_lists_def clean_entry_def length_Suc_conv Let_def split: if_splits)

definition demo_settings :: settings where
  "demo_settings = the (settings_mount demo_snapshot (demo_host, provider_mount demo_host None None))"

lemma demo_settings_mount: "settings_mount demo_snapshot (demo_host, provider_mount demo_host None None) = Some demo_settings"
  by (simp add: demo_settings_def settings_mount_def initial_form_def demo_snapshot_def)

lemma demo_sendable: "sendable (sn_config demo_snapshot)"
  by (simp add: sendable_def config_lists_def clean_entry_def demo_snapshot_def js_trim_def js_ws_def)

lemma demo_saved_reach:
  "ui_reach (\<lambda>s. \<exists>d hp. settings_mount d hp = Some s) (settings_view dict num lnum ldate) (settings_update dict) (settings_env dict)
     (settings_update dict ST_Save demo_settings)"
proof (rule ui_reach.stepped [OF ui_reach.mounted ui_step.user])
  show "\<exists>d hp. settings_mount d hp = Some demo_settings" using demo_settings_mount by blast
  have "\<not> sg_saving demo_settings"
    by (simp add: demo_settings_def settings_mount_def initial_form_def demo_snapshot_def status_effect_def rate_effect_def)
  then show "ST_Save \<in> fires (settings_view dict num lnum ldate demo_settings)" by (rule settings_save_fires)
qed

theorem settings_sends_valid_witness:
  "0 \<le> cf_cache_upstream_ttl (sn_config demo_snapshot) \<and> sg_saving (settings_update demo_dict ST_Save demo_settings)"
  using settings_sends_valid [OF demo_saved_reach [of demo_dict "\<lambda>x. []" "\<lambda>l x. []" "\<lambda>l x. []"],
      of "SaveConfig (sn_config demo_snapshot)"] settings_save_unchanged [OF demo_settings_mount demo_sendable, of demo_dict]
  by (simp add: Let_def)

text \<open>C25: Opening the settings and saving them unchanged sends the configuration of the server exactly, when its own values pass the
  checks of the form.\<close>

theorem settings_edit_roundtrip:
  assumes "settings_mount d hp = Some s" "sendable (sn_config d)"
  shows "sg_ops (settings_update dict ST_Save s) = [SaveConfig (sn_config d)]"
  using assms by (rule settings_save_unchanged)

theorem settings_edit_roundtrip_witness:
  "sg_ops (settings_update demo_dict ST_Save demo_settings) = [SaveConfig (sn_config demo_snapshot)]"
  using demo_settings_mount demo_sendable by (rule settings_edit_roundtrip)

text \<open>How the server names a member of the configuration, and how it writes an error there: the entries of a list with their index.\<close>

fun api_path :: "FormKey \<Rightarrow> jstring" where
  "api_path K_dns_listen = ''dns.listen''"
| "api_path K_dns_upstreams = ''dns.upstreams''"
| "api_path K_dns_allowed_clients = ''dns.allowed_clients''"
| "api_path K_cache_upstream_ttl = ''cache.upstream_ttl''"
| "api_path K_http_listen = ''http.listen''"
| "api_path K_http_allowed_hosts = ''http.allowed_hosts''"
| "api_path K_query_log_enabled = ''query_log.enabled''"
| "api_path K_log_level = ''log_level''"

fun written_error :: "jstring \<times> nat option \<times> jstring \<Rightarrow> field_error" where
  "written_error (path, None, msg) = \<lparr>fe_field = path, fe_message = msg\<rparr>"
| "written_error (path, Some n, msg) = \<lparr>fe_field = path @ ''['' @ show_nat n @ '']'', fe_message = msg\<rparr>"

definition path_text :: "jstring \<Rightarrow> bool" where
  "path_text p \<longleftrightarrow> p \<noteq> [] \<and> set p \<subseteq> set ''abcdefghijklmnopqrstuvwxyz_.''"

lemma path_text_chars: "path_text p \<Longrightarrow> p \<noteq> [] \<and> list_all path_char p"
  by (auto simp: path_text_def list_all_iff path_char_def)

lemma match_written:
  assumes "path_text p"
  shows "match_field p = Some (p, None)" "match_field (p @ ''['' @ show_nat n @ '']'') = Some (p, Some (show_nat n))"
proof -
  have p: "p \<noteq> []" "\<And>c. c \<in> set p \<Longrightarrow> path_char c" "\<not> path_char CHR ''[''"
    using path_text_chars [OF assms] by (auto simp: list_all_iff path_char_def)
  then have plain: "takeWhile path_char p = p" "dropWhile path_char p = []"
    by simp_all
  then show "match_field p = Some (p, None)" by (simp add: match_field_def Let_def p(1) del: takeWhile_eq_all_conv dropWhile_eq_Nil_conv)
  have indexed: "takeWhile path_char (p @ CHR ''['' # q) = p" "dropWhile path_char (p @ CHR ''['' # q) = CHR ''['' # q" for q
    using p by (simp_all add: takeWhile_append dropWhile_append)
  show "match_field (p @ ''['' @ show_nat n @ '']'') = Some (p, Some (show_nat n))"
    using show_nat_digits by (simp add: match_field_def Let_def indexed p(1) list_all_iff)
qed

lemma api_path_key: "map_of FIELD_KEYS p = Some key \<longleftrightarrow> p = api_path key"
  by (cases key) (auto simp: FIELD_KEYS_def)

lemma field_message_written:
  "path_text p \<Longrightarrow> field_message entryLabel key (written_error (p, index, msg)) =
     (if p = api_path key then Some (case index of None \<Rightarrow> msg | Some n \<Rightarrow> entryLabel @ '' '' @ show_nat (n + 1) @ '': '' @ msg) else None)"
  by (cases index) (simp_all add: field_message_def match_written [simplified] api_path_key field_text_def digits_val_show_nat)

lemma nonempty_texts: "(if ms = [] then None else Some ms) = (case ms of [] \<Rightarrow> None | x # xs \<Rightarrow> Some (x # xs))"
  by (cases ms) simp_all

text \<open>C26: The field errors of the server are read back as it writes them. Under the key of an input are the messages of the errors whose
  path is the one of that input, in their order, and of no other; the message of an entry of a list is preceded by the label and the number of
  the entry counted from 1. An error of a path without an input is dropped, and an input without an error has no entry.\<close>

theorem settings_errors_grouped:
  assumes "\<forall>(path, index, msg) \<in> set errs. path_text path"
  shows "groupFieldErrors (map written_error errs) entryLabel key =
    (case [(case index of None \<Rightarrow> msg | Some n \<Rightarrow> entryLabel @ '' '' @ show_nat (n + 1) @ '': '' @ msg).
        (path, index, msg) \<leftarrow> errs, path = api_path key] of [] \<Rightarrow> None | texts \<Rightarrow> Some texts)"
proof -
  have "List.map_filter (field_message entryLabel key) (map written_error errs) =
      [(case index of None \<Rightarrow> msg | Some n \<Rightarrow> entryLabel @ '' '' @ show_nat (n + 1) @ '': '' @ msg).
        (path, index, msg) \<leftarrow> errs, path = api_path key]"
    using assms by (induction errs) (auto simp: field_message_written split: option.split if_splits)
  then show ?thesis by (simp only: groupFieldErrors_at Let_def nonempty_texts)
qed

theorem settings_errors_grouped_witness:
  "groupFieldErrors (map written_error [(''dns.upstreams'', Some 1, ''no port''), (''dns.cache'', None, ''unknown''), (''dns.upstreams'', None, ''too many'')])
     ''Entry'' K_dns_upstreams = Some [''Entry 2: no port'', ''too many'']"
proof -
  have two: "show_nat (Suc (Suc 0)) = ''2''" by code_simp
  show ?thesis
    using settings_errors_grouped [of "[(''dns.upstreams'', Some 1, ''no port''), (''dns.cache'', None, ''unknown''), (''dns.upstreams'', None, ''too many'')]"
        "''Entry''" K_dns_upstreams]
    by (simp add: path_text_def two)
qed

section \<open>Charts\<close>

text \<open>C37: A bucket that is selected in a chart stays selected when another range is chosen; if the new range has too few buckets, rendering
  its answer reads a bucket that does not exist and throws.\<close>

theorem analytics_throws:
  assumes "shows_charts s" "ay_active s c = Some i" "r \<noteq> ay_range s"
    and "ab_total (an_totals d) \<noteq> 0" "int (length (an_series d)) \<le> i"
  shows "analytics_view t fm (analytics_settled t (length (ay_loads s)) (Inr (d, q)) (analytics_timer (analytics_update (AY_Range r) s))) = None"
proof -
  let ?s = "analytics_settled t (length (ay_loads s)) (Inr (d, q)) (analytics_timer (analytics_update (AY_Range r) s))"
  have on: "ay_logging s" using assms(1) by (simp add: shows_charts_def)
  have s: "shows_charts ?s" "ay_data ?s = Some d" "ay_active ?s c = Some i"
    using on assms(2-4)
    by (auto simp: analytics_settled_def analytics_timer_def analytics_load_def setRange_def analytics_effect_def sync_charts_def shows_charts_def
        nth_append Let_def)
  then have "\<not> (\<forall>c i. ay_active ?s c = Some i \<longrightarrow> 0 \<le> i \<and> i < int (length (an_series d)))"
    using assms(5) by (metis linorder_not_less)
  then show ?thesis using analytics_view_Some [of t fm ?s] s(1,2) by auto
qed

definition demo_bucket :: "int \<Rightarrow> analytics_bucket" where
  "demo_bucket n = \<lparr>ab_start = [], ab_total = n, ab_blocked = 0, ab_cached = 0, ab_failed = 0, ab_average_ms = 0\<rparr>"

definition demo_analytics :: "nat \<Rightarrow> analytics" where
  "demo_analytics n = \<lparr>an_range = R_24h, an_window_start = [], an_window_end = [], an_bucket_seconds = 3600, an_history_start = None,
     an_totals = demo_bucket 5, an_series = replicate n (demo_bucket 1), an_query_types = [], an_response_codes = [], an_sources = [],
     an_upstreams = [], an_top_blocked = []\<rparr>"

definition demo_ranking :: query_summary where
  "demo_ranking = \<lparr>qs_window_start = [], qs_window_end = [], qs_total = 5, qs_blocked = 0, qs_top_domains = [], qs_top_clients = []\<rparr>"

definition demo_analytics_formats :: analytics_formats where
  "demo_analytics_formats = formats.extend demo_formats \<lparr>fm_day = id, fm_weekday = id, fm_time = id, fm_rat = to_fixed 0, fm_dbl = to_fixed 1,
     fm_later = (\<lambda>a b. False)\<rparr>"

definition demo_week :: analytics_page where
  "demo_week = analytics_update (AY_Key Query_chart True)
     ((analytics_mount True)\<lparr>ay_range := R_7d, ay_data := Some (demo_analytics 168), ay_timer := False\<rparr>)"

theorem analytics_throws_witness:
  "analytics_view id demo_analytics_formats (analytics_settled id 0 (Inr (demo_analytics 24, demo_ranking)) (analytics_timer (analytics_update (AY_Range R_24h) demo_week))) = None"
  using analytics_throws [of demo_week Query_chart 166 R_24h "demo_analytics 24" id demo_analytics_formats demo_ranking]
  by (simp add: demo_week_def demo_analytics_def demo_bucket_def analytics_mount_def analytics_effect_def shows_charts_def set_active_def
      onKey_def clamp_index_def series_length_def Let_def)

text \<open>C39: Every point of the dashboard's query rate line lies in its box of 600 by 200, in double precision: the scale is at least the
  largest rate, for rates that are zero or between a ten-thousandth and ten to the fifteenth.\<close>

theorem chart_inside:
  assumes "\<forall>v \<in> set history. v = 0 \<or> 1 / 10000 \<le> v \<and> v < 10 ^ 15" "(x, y) \<in> set (chart_coords history)"
  shows "0 \<le> x \<and> x \<le> 600 \<and> 0 \<le> y \<and> y \<le> 200"
proof (rule chart_coords_inside [OF _ _ _ assms(2)])
  show "\<forall>v \<in> set history. 0 \<le> v \<and> v < 10 ^ 15" using assms(1) by fastforce
  show "max0 history = 0 \<or> 1 / 10000 \<le> max0 history" "max0 history < 10 ^ 15" using assms(1) max0_cases [of history] by auto
qed

theorem chart_inside_witness: "0 \<le> snd (hd (chart_coords [3, 5])) \<and> snd (hd (chart_coords [3, 5])) \<le> 200"
proof -
  have "hd (chart_coords [3, 5]) \<in> set (chart_coords [3, 5])" by (simp add: chart_coords_def chart_samples_def Let_def)
  then show ?thesis using chart_inside [of "[3, 5]" "fst (hd (chart_coords [3, 5]))" "snd (hd (chart_coords [3, 5]))"] by simp
qed

end
