(* ===== verification/Texts.thy ===== *)
theory Texts
  imports Prelude
begin

text \<open>
  The translation tables of \<open>i18n/*.ts\<close> are object literals from keys to texts. A table is kept as the list of
  its entries in the order of the source; a key that occurs twice has the text of its last entry. What an object
  inherits (\<open>toString\<close> and the like) is left out: every key that the sources look up has a dot. The
  theories \<open>Texts_En\<close> to \<open>Texts_Ko\<close> hold the ten tables, each in eight parts.
\<close>

type_synonym text_table = "(jstring \<times> jstring) list"

definition object_literal :: "text_table \<Rightarrow> jstring \<rightharpoonup> jstring" where
  "object_literal xs = map_of (rev xs)"

lemma dom_object_literal: "dom (object_literal xs) = set (map fst xs)"
  by (simp add: object_literal_def dom_map_of_conv_image_fst)

lemma object_literal_entry: "object_literal xs k = Some v \<Longrightarrow> (k, v) \<in> set xs"
  unfolding object_literal_def by (drule map_of_SomeD) simp

section \<open>Groups of keys\<close>

text \<open>The entries of a table whose key starts with a prefix.\<close>

definition with_prefix :: "jstring \<Rightarrow> text_table \<Rightarrow> text_table" where
  "with_prefix p xs = filter (\<lambda>x. take (length p) (fst x) = p) xs"

text \<open>Equations that evaluate a group in one pass over a table, without a case distinction per entry.\<close>

fun has_prefix :: "jstring \<Rightarrow> jstring \<Rightarrow> bool" where
  "has_prefix [] k = True"
| "has_prefix (a # p) (b # k) = (if a = b then has_prefix p k else False)"
| "has_prefix (a # p) [] = False"

definition cons_if :: "bool \<Rightarrow> 'a \<Rightarrow> 'a list \<Rightarrow> 'a list" where
  "cons_if b x xs = (if b then x # xs else xs)"

lemma has_prefix_take: "has_prefix p k = (take (length p) k = p)"
  by (induction p k rule: has_prefix.induct) auto

lemma cons_if_eval: "cons_if True x xs = x # xs" "cons_if False x xs = xs"
  by (simp_all add: cons_if_def)

lemma with_prefix_eval:
  "with_prefix p [] = []"
  "with_prefix p ((k, v) # xs) = cons_if (has_prefix p k) (k, v) (with_prefix p xs)"
  "with_prefix p (xs @ ys) = with_prefix p xs @ with_prefix p ys"
  by (simp_all add: with_prefix_def cons_if_def has_prefix_take)

lemmas group_eval = cons_if_eval with_prefix_eval has_prefix.simps char.inject simp_thms if_True if_False

lemma with_prefix_entry: "(p @ k, v) \<in> set xs \<Longrightarrow> (p @ k, v) \<in> set (with_prefix p xs)"
  by (simp add: with_prefix_def)

text \<open>Different keys of a group whose texts are pairwise different have different texts.\<close>

lemma group_inject:
  assumes "distinct (map snd (with_prefix p xs))" "object_literal xs (p @ j) = Some v" "object_literal xs (p @ k) = Some v"
  shows "j = k"
proof -
  have "(p @ j, v) \<in> set (with_prefix p xs)" "(p @ k, v) \<in> set (with_prefix p xs)"
    using assms(2,3) by (auto intro: with_prefix_entry object_literal_entry)
  with assms(1) have "(p @ j, v) = (p @ k, v)"
    by (metis inj_onD snd_conv distinct_map)
  then show ?thesis by simp
qed

section \<open>Tables in a different order\<close>

text \<open>An element moved forward from position \<open>b\<close> to position \<open>a\<close>.\<close>

definition moved :: "nat \<Rightarrow> nat \<Rightarrow> 'a list \<Rightarrow> 'a list" where
  "moved b a xs = take a xs @ xs ! b # take (b - a) (drop a xs) @ drop (Suc b) xs"

lemma set_moved:
  assumes "a \<le> b" "b < length xs"
  shows "set (moved b a xs) = set xs"
proof -
  have "xs = take a xs @ take (b - a) (drop a xs) @ xs ! b # drop (Suc b) xs"
    using assms by (metis append_assoc append_take_drop_id id_take_nth_drop le_add_diff_inverse take_add)
  then have "set xs = set (take a xs) \<union> set (take (b - a) (drop a xs)) \<union> insert (xs ! b) (set (drop (Suc b) xs))"
    by (metis Un_assoc list.simps(15) set_append)
  then show ?thesis by (auto simp: moved_def)
qed

lemma set_inserted: "set (take n xs @ x # drop n xs) = insert x (set xs)"
proof -
  have "set xs = set (take n xs) \<union> set (drop n xs)" by (metis append_take_drop_id set_append)
  then show ?thesis by auto
qed

lemma set_replaced: "E = insert r (N - {r}) \<Longrightarrow> r \<in> N \<Longrightarrow> E = N"
  by blast

text \<open>The keys of a table but for some, evaluated the same way.\<close>

definition without :: "jstring list \<Rightarrow> jstring list \<Rightarrow> jstring list" where
  "without gone ks = filter (\<lambda>k. k \<notin> set gone) ks"

fun same_text :: "jstring \<Rightarrow> jstring \<Rightarrow> bool" where
  "same_text [] [] = True"
| "same_text (a # p) (b # q) = (if a = b then same_text p q else False)"
| "same_text p q = False"

fun listed :: "jstring \<Rightarrow> jstring list \<Rightarrow> bool" where
  "listed k [] = False"
| "listed k (x # xs) = (same_text k x \<or> listed k xs)"

lemma same_text_eq: "same_text p q = (p = q)"
  by (induction p q rule: same_text.induct) auto

lemma listed_set: "listed k xs = (k \<in> set xs)"
  by (induction xs) (auto simp: same_text_eq)

lemma set_without: "set (without gone ks) = set ks - set gone"
  by (auto simp: without_def)

lemma without_eval:
  "without gone [] = []" "without gone (k # ks) = cons_if (\<not> listed k gone) k (without gone ks)"
  by (simp_all add: without_def listed_set cons_if_def)

lemmas key_eval = list.map fst_conv
lemmas gone_eval = key_eval without_eval cons_if_eval listed.simps same_text.simps char.inject simp_thms if_True if_False

end
