(* ===== verification/Texts_De.thy ===== *)
theory Texts_De
  imports Texts
begin

text \<open>The German table, \<open>i18n/de.ts\<close>.\<close>

definition dict_de_1 :: text_table where
  \<open>dict_de_1 = [
     (''app.skip_to_content'', ''Zum Inhalt springen''),
     (''app.workspace_label'', ''ARBEITSBEREICH''),
     (''app.nav.events'', ''Ereignisse''),
     (''app.title.events'', ''Ereignisse''),
     (''events.unread'', ''ungelesen''),
     (''events.empty'', ''Noch keine Systemereignisse.''),
     (''events.load_failed'', ''Systemereignisse konnten nicht geladen werden''),
     (''events.mark_read'', ''Als gelesen markieren''),
     (''events.repeated'', ''Wiederholt''),
     (''events.open'', uni [0xD6] @ ''ffnen''),
     (''events.info'', ''Info''),
     (''events.warning'', ''Warnung''),
     (''events.critical'', ''Kritisch''),
     (''app.nav.main'', ''Hauptnavigation''),
     (''app.nav.overview'', uni [0xDC] @ ''bersicht''),
     (''app.nav.zones'', ''Lokale Zonen''),
     (''app.nav.queries'', ''Abfrageprotokoll''),
     (''app.nav.blocklists'', ''Blocklisten''),
     (''app.nav.cache'', ''DNS-Cache''),
     (''app.nav.settings'', ''Einstellungen''),
     (''app.nav.updates'', ''Updates''),
     (''app.nav.backup'', ''Backup''),
     (''app.sign_out'', ''Abmelden''),
     (''app.nav.audit'', ''Auditprotokoll''),
     (''app.title.audit'', ''Auditprotokoll''),
     (''app.nav.diagnostics'', ''Diagnose''),
     (''app.title.diagnostics'', ''Diagnose''),
     (''app.local_resolver'', ''Lokaler Resolver''),
     (''app.self_hosted_foundation'', ''Self-hosted '' @ uni [0xB7] @ '' Foundation''),
     (''app.private_by_default'', ''Standardm'' @ uni [0xE4, 0xDF] @ ''ig privat''),
     (''app.privacy.query_retention'', ''Das Abfrageprotokoll hat eine begrenzte Speicherdauer.''),
     (''app.privacy.no_query_history'', ''Es wird kein Abfrageverlauf erfasst.''),
     (''app.github_repo'', ''GitHub-Repository''),
     (''app.connecting'', ''Verbinde'' @ uni [0x2026]),
     (''app.workspace'', ''Arbeitsbereich''),
     (''app.connection_lost'', ''Verbindung verloren''),
     (''app.resolver_online'', ''Resolver online''),
     (''app.title.overview'', ''Netzwerk'' @ uni [0xFC] @ ''bersicht''),
     (''app.title.zones'', ''Lokale Zonen''),
     (''app.title.queries'', ''Abfrageprotokoll''),
     (''app.title.blocklists'', ''Blocklisten''),
     (''app.title.cache'', ''DNS-Cache''),
     (''app.title.settings'', ''Einstellungen''),
     (''app.title.updates'', ''Updates''),
     (''app.title.backup'', ''Backup & Wiederherstellung''),
     (''app.eyebrow'', ''IHR NETZWERK AUF EINEN BLICK''),
     (''app.subtitle.overview'', ''Ein klarer Blick auf Ihre DNS, von Anfrage bis Antwort.''),
     (''app.subtitle.default'', ''Pr'' @ uni [0xFC] @ ''fen und verwalten Sie Ihre Resolver-Grundlage.''),
     (''app.refresh'', ''Aktualisieren''),
     (''app.error.showing_last'', ''Zeige den letzten erfolgreichen Stand von''),
     (''app.error.check_server'', ''Pr'' @ uni [0xFC] @ ''fen Sie, ob der Velora-Server l'' @ uni [0xE4] @ ''uft.''),
     (''app.error.reach_server'', ''Server nicht erreichbar''),
     (''app.viewer_readonly'', ''Sie sind als Betrachter angemeldet. Verwaltungsaktionen sind schreibgesch'' @ uni [0xFC] @ ''tzt.''),
     (''app.connecting_panel'', ''Verbinde mit Ihrem Resolver'' @ uni [0x2026]),
     (''app.not_found'', ''Seite nicht gefunden.''),
     (''app.footer.independent'', ''Velora DNS '' @ uni [0xB7] @ '' Unabh'' @ uni [0xE4] @ ''ngig. Self-hosted.''),
     (''app.footer.last_updated'', ''Zuletzt aktualisiert''),
     (''app.footer.waiting'', ''Warte auf Server''),
     (''diagnostics.title'', ''Systemzustand''),
     (''diagnostics.report_hint'', ''Der Download enth'' @ uni [0xE4] @ ''lt Komponentenstatus und Build-Informationen, aber keine Geheimnisse oder Abfrageprotokolle.''),
     (''diagnostics.download'', ''Bericht herunterladen''),
     (''diagnostics.loading'', ''Diagnose wird geladen'' @ uni [0x2026]),
     (''diagnostics.load_failed'', ''Diagnose konnte nicht geladen werden''),
     (''diagnostics.upstreams'', ''Upstreams''),
     (''diagnostics.component'', ''Komponente''),
     (''diagnostics.state'', ''Status''),
     (''diagnostics.detail'', ''Details''),
     (''diagnostics.state.healthy'', ''Gesund''),
     (''diagnostics.state.degraded'', ''Eingeschr'' @ uni [0xE4] @ ''nkt''),
     (''diagnostics.state.failed'', ''Ausgefallen''),
     (''explain.title'', ''Warum kam diese Antwort zustande?''),
     (''explain.hint'', ''Probelauf des Resolvers f'' @ uni [0xFC] @ ''r einen Namen. Es wird nichts beim Upstream angefragt, protokolliert, zwischengespeichert oder gez'' @ uni [0xE4] @ ''hlt.''),
     (''explain.name'', ''Name''),
     (''explain.type'', ''Eintragstyp''),
     (''explain.client'', ''Client-Adresse (optional)''),
     (''explain.client_hint'', ''Wendet die Filterrichtlinie dieses Clients an.''),
     (''explain.submit'', ''Erkl'' @ uni [0xE4] @ ''ren''),
     (''explain.running'', ''Wird erkl'' @ uni [0xE4] @ ''rt'' @ uni [0x2026]),
     (''explain.failed'', ''Diese Abfrage konnte nicht erkl'' @ uni [0xE4] @ ''rt werden''),
     (''explain.result'', ''Erkl'' @ uni [0xE4] @ ''rung''),
     (''explain.winner'', ''Entscheidende Stufe''),
     (''explain.answers'', ''Antwort''),
     (''explain.no_answers'', ''Keine Antwortdatens'' @ uni [0xE4] @ ''tze: Die Antwort k'' @ uni [0xE4] @ ''me von einem Upstream-Resolver, der nicht angefragt wird.''),
     (''explain.steps'', ''Gepr'' @ uni [0xFC] @ ''fte Stufen''),
     (''explain.step'', ''Stufe''),
     (''explain.outcome'', ''Ergebnis''),
     (''explain.detail'', ''Details''),
     (''explain.cname_target'', ''CNAME-Ziel''),
     (''explain.ttl'', ''Verbleibende TTL''),
     (''explain.matches'', ''Treffer''),
     (''explain.allowed_by'', ''Erlaubt durch''),
     (''explain.not_contacted'', ''Es wurde kein Upstream angefragt.''),
     (''explain.scope.global'', ''Globale Filterung''),
     (''explain.scope.client_policy'', ''Client-Richtlinie''),
     (''explain.stage.filter'', ''Blockliste oder Client-Richtlinie''),
     (''explain.stage.rewrite'', ''DNS-Rewrite''),
     (''explain.stage.zone'', ''Lokale Zone''),
     (''explain.stage.cache'', ''Cache''),
     (''explain.stage.forwarding'', ''Regel f'' @ uni [0xFC] @ ''r bedingte Weiterleitung''),
     (''explain.stage.upstream'', ''Globale Upstream-Resolver''),
     (''explain.stage.refused'', ''Abgelehnt''),
     (''explain.result.passed'', ''Durchgelassen''),
     (''explain.result.allowed'', ''Erlaubt''),
     (''explain.result.blocked'', ''Blockiert''),
     (''explain.result.no_match'', ''Kein Treffer''),
     (''explain.result.answered'', ''Beantwortet''),
     (''explain.result.miss'', ''Nicht im Cache''),
     (''explain.result.hit'', ''Treffer''),
     (''explain.result.refused'', ''Abgelehnt''),
     (''explain.result.would_forward'', ''W'' @ uni [0xFC] @ ''rde weitergeleitet''),
     (''explain.result.error'', ''Fehler''),
     (''explain.source.local'', ''Lokale Antwort''),
     (''explain.source.cache'', ''Cache''),
     (''explain.source.blocked'', ''Blockiert''),
     (''explain.source.upstream'', ''Upstream''),
     (''explain.source.refused'', ''Abgelehnt''),
     (''audit.title'', ''Verwaltungs-Auditprotokoll''),
     (''audit.hint'', ''Verwaltungsaktionen werden 90 Tage gespeichert. Geheimnisse und Anfrageinhalte sind ausgeschlossen.''),
     (''audit.actor'', ''Akteur'')]\<close>

definition dict_de_2 :: text_table where
  \<open>dict_de_2 = [
     (''audit.action'', ''Aktion''),
     (''audit.result'', ''Ergebnis''),
     (''audit.all'', ''Alle''),
     (''audit.success'', ''Erfolg''),
     (''audit.failure'', ''Fehler''),
     (''audit.filter'', ''Filtern''),
     (''audit.time'', ''Zeit''),
     (''audit.target'', ''Ziel''),
     (''audit.empty'', ''Keine Auditereignisse gefunden.''),
     (''audit.more'', ''Mehr laden''),
     (''audit.load_failed'', ''Auditereignisse konnten nicht geladen werden''),
     (''auth.checking'', ''Sitzung wird gepr'' @ uni [0xFC] @ ''ft'' @ uni [0x2026]),
     (''auth.sign_in_title'', ''Bei Velora DNS anmelden''),
     (''auth.username'', ''Benutzername''),
     (''auth.password'', ''Passwort''),
     (''auth.sign_in'', ''Anmelden''),
     (''auth.sign_in_failed'', ''Anmeldung fehlgeschlagen''),
     (''settings.server_configuration'', ''Serverkonfiguration''),
     (''settings.language'', ''Sprache''),
     (''settings.theme'', ''Farbschema''),
     (''settings.theme_light'', ''Hell''),
     (''settings.theme_dark'', ''Dunkel''),
     (''settings.theme_auto'', ''Automatisch''),
     (''settings.theme_hint'', ''Auto folgt dem hellen oder dunklen Farbschema Ihres Betriebssystems.''),
     (''settings.log_level'', ''Log-Level''),
     (''settings.rate_limiting'', ''Ratenbegrenzung''),
     (''settings.rate_limit_hint'', ''Die Ratenbegrenzung ist standardm'' @ uni [0xE4, 0xDF] @ ''ig deaktiviert. Aktivieren Sie sie, um den Resolver vor Quell-Floods und hohen Abfrageraten zu sch'' @ uni [0xFC] @ ''tzen.''),
     (''settings.rate_limit_enabled'', ''Ratenbegrenzung aktivieren''),
     (''settings.rate_limit_global_qps'', ''Globale Abfragen pro Sekunde''),
     (''settings.rate_limit_client_qps'', ''Abfragen pro Sekunde pro Client''),
     (''settings.rate_limit_burst'', ''Burst-Erlaubnis''),
     (''settings.rate_limit_rejected_total'', ''Abgewiesene Anfragen''),
     (''settings.rate_limit_last_rejected'', ''Letzte Abweisung''),
     (''settings.save'', ''Speichern''),
     (''settings.rate_limit_load_failed'', ''Ratenbegrenzungs-Einstellungen konnten nicht geladen werden''),
     (''settings.rate_limit_save_failed'', ''Ratenbegrenzungs-Einstellungen konnten nicht gespeichert werden''),
     (''settings.rate_limit_saved'', ''Ratenbegrenzungs-Einstellungen gespeichert.''),
     (''settings.rate_limit_loading'', ''Ratenbegrenzungs-Einstellungen werden geladen'' @ uni [0x2026]),
     (''settings.edit_hint'', ''Diese Einstellungen entsprechen den Optionen des Quickstart-Installers. Einige '' @ uni [0xC4] @ ''nderungen erfordern einen Neustart; die Cache-TTL gilt sofort.''),
     (''settings.dns_section'', ''DNS-Einstellungen''),
     (''settings.cache_section'', ''DNS-Cache''),
     (''settings.cache_ttl_label'', ''Cache-TTL f'' @ uni [0xFC] @ ''r Upstream-Antworten (Sekunden)''),
     (''settings.cache_ttl_hint'', ''86400 Sekunden = 24 Stunden. Bereich: 0'' @ uni [0x2013] @ ''604800 Sekunden; 0 verwendet die urspr'' @ uni [0xFC] @ ''ngliche Upstream-TTL. '' @ uni [0xC4] @ ''nderungen beim Upstream k'' @ uni [0xF6] @ ''nnen entsprechend verz'' @ uni [0xF6] @ ''gert sichtbar werden. Eine '' @ uni [0xC4] @ ''nderung leert bestehende Cache-Eintr'' @ uni [0xE4] @ ''ge. Antworten mit TTL 0 und signierte DNSSEC-Antworten behalten ihre urspr'' @ uni [0xFC] @ ''ngliche TTL.''),
     (''settings.cache_ttl_invalid'', ''Geben Sie eine ganze Zahl zwischen 0 und 604800 Sekunden ein.''),
     (''settings.dns_listen_label'', ''DNS-Listen-Adressen (kommagetrennt)''),
     (''settings.dns_listen_warning'', ''Warnung: 0.0.0.0 macht DNS in Ihrem Netzwerk verf'' @ uni [0xFC] @ ''gbar. Stellen Sie sicher, dass die Firewall nur vertrauensw'' @ uni [0xFC] @ ''rdige Clients zul'' @ uni [0xE4] @ ''sst.''),
     (''settings.upstreams_label'', ''Upstream-DNS-Server (kommagetrennt)''),
     (''settings.upstreams_hint'', ''Format: IP:PORT (z. B. 1.1.1.1:53). DoH-Upstreams verwenden https://host/dns-query''),
     (''settings.allowed_clients_label'', ''Erlaubte Client-Netzwerke (kommagetrennte CIDRs)''),
     (''settings.allowed_clients_hint'', ''Nur diese Netzwerke d'' @ uni [0xFC] @ ''rfen den Resolver abfragen. Beispiel: 192.168.1.0/24, 10.0.0.0/8''),
     (''settings.web_section'', ''Web-UI-Einstellungen''),
     (''settings.web_listen_label'', ''Web-UI-Listen-Adresse (IP:Port)''),
     (''settings.web_listen_warning'', ''Warnung: 0.0.0.0 macht die Web-UI in Ihrem Netzwerk verf'' @ uni [0xFC] @ ''gbar. Verwenden Sie eine Firewall oder Authentifizierung.''),
     (''settings.allowed_hosts_label'', ''Erlaubte Hosts (kommagetrennt)''),
     (''settings.allowed_hosts_hint'', ''Host-Header, die auf die Verwaltungs-API zugreifen d'' @ uni [0xFC] @ ''rfen. Verwenden Sie *, um alle zuzulassen (im LAN nicht empfohlen).''),
     (''settings.logging_section'', ''Protokollierung & Sonstiges''),
     (''settings.enable_query_log'', ''Abfrageprotokoll aktivieren''),
     (''settings.save_configuration'', ''Konfiguration speichern''),
     (''settings.saving'', ''Wird gespeichert'' @ uni [0x2026]),
     (''settings.save_success'', ''Konfiguration gespeichert und angewendet.''),
     (''settings.save_failed'', ''Konfiguration konnte nicht gespeichert werden''),
     (''dashboard.total_queries'', ''Abfragen gesamt''),
     (''dashboard.since_start'', ''Seit dem letzten Statistik-Reset''),
     (''dashboard.reset_statistics'', ''Statistiken zur'' @ uni [0xFC] @ ''cksetzen''),
     (''dashboard.reset_confirm'', ''Alle Anfrage-, Cache- und Ratenlimit-Z'' @ uni [0xE4] @ ''hler zur'' @ uni [0xFC] @ ''cksetzen? Dies kann nicht r'' @ uni [0xFC] @ ''ckg'' @ uni [0xE4] @ ''ngig gemacht werden.''),
     (''dashboard.reset_failed'', ''Statistiken konnten nicht zur'' @ uni [0xFC] @ ''ckgesetzt werden''),
     (''dashboard.qps'', ''Abfragen / Sekunde''),
     (''dashboard.rolling_avg'', ''Gleitender 60-Sekunden-Durchschnitt''),
     (''dashboard.cache_hit_rate'', ''Cache-Trefferquote''),
     (''dashboard.answers_from_memory'', ''Antworten aus dem Speicher''),
     (''dashboard.uptime'', ''Betriebszeit''),
     (''dashboard.process_lifetime'', ''Aktuelle Prozesslaufzeit''),
     (''dashboard.top_domains'', ''Top-Domains''),
     (''dashboard.top_clients'', ''Top-Clients''),
     (''dashboard.query_activity'', ''Abfrageaktivit'' @ uni [0xE4] @ ''t''),
     (''dashboard.live_samples'', ''Live-Beispiele von Ihrem Resolver''),
     (''dashboard.refresh_5s'', ''5s-Aktualisierung''),
     (''dashboard.queries_per_sec'', ''Abfragen / Sek.''),
     (''dashboard.chart_aria'', ''Abfragerate w'' @ uni [0xE4] @ ''hrend dieser Browsersitzung''),
     (''dashboard.session_samples'', ''Sitzungsbeispiele''),
     (''dashboard.now'', ''Jetzt''),
     (''dashboard.upstream_resolvers'', ''Upstream-Resolver''),
     (''dashboard.ordered_failover'', ''Geordneter Failover mit TCP-Fallback''),
     (''dashboard.endpoint'', ''Endpunkt''),
     (''dashboard.health'', ''Zustand''),
     (''dashboard.upstream_unknown'', ''Unbekannt''),
     (''dashboard.upstream_healthy'', ''Gesund''),
     (''dashboard.upstream_degraded'', ''Eingeschr'' @ uni [0xE4] @ ''nkt''),
     (''dashboard.upstream_unavailable'', ''Nicht verf'' @ uni [0xFC] @ ''gbar''),
     (''dashboard.priority'', ''Priorit'' @ uni [0xE4] @ ''t''),
     (''dashboard.attempt_timeout'', ''Antwort-Timeout''),
     (''dashboard.primary'', ''Prim'' @ uni [0xE4] @ ''r''),
     (''dashboard.fallback'', ''Fallback''),
     (''dashboard.config_shown'', ''Konfiguration angezeigt. Erreichbarkeit wird bei jeder Abfrage gepr'' @ uni [0xFC] @ ''ft.''),
     (''dashboard.retained_last_24h'', ''Gespeicherte Abfragen der letzten 24 Stunden''),
     (''dashboard.unavailable_no_logging'', ''Nicht verf'' @ uni [0xFC] @ ''gbar, solange das Abfrageprotokoll deaktiviert ist.''),
     (''dashboard.loading_stats'', ''Abfragestatistiken werden geladen'' @ uni [0x2026]),
     (''dashboard.stats_load_failed'', ''Abfragestatistiken konnten nicht geladen werden''),
     (''dashboard.no_retained'', ''Keine gespeicherten Abfragen in diesem Zeitraum.''),
     (''cache.live_entries'', ''Live-Eintr'' @ uni [0xE4] @ ''ge''),
     (''cache.capacity'', ''Kapazit'' @ uni [0xE4] @ ''t''),
     (''cache.hits'', ''Cache-Treffer''),
     (''cache.since_startup'', ''Seit dem Prozessstart''),
     (''cache.misses'', ''Cache-Fehltreffer''),
     (''cache.includes_uncacheable'', ''Inklusive nicht cachebarer Anfragen''),
     (''cache.memory_cache'', ''Speicher-Cache''),
     (''cache.description'', ''Positive Upstream-Antworten verwenden die konfigurierte Cache-TTL. Antworten mit TTL 0, signierte DNSSEC-Antworten und negative Antworten behalten ihre urspr'' @ uni [0xFC] @ ''nglichen Regeln. Bei voller Kapazit'' @ uni [0xE4] @ ''t werden die am l'' @ uni [0xE4] @ ''ngsten nicht verwendeten Eintr'' @ uni [0xE4] @ ''ge entfernt. Cache-Inhalte werden nie in SQLite gespeichert.''),
     (''cache.clear_description'', ''Das Leeren des Caches entfernt alle aktuellen Antworten. Die Treffer- und Fehltreffer-Z'' @ uni [0xE4] @ ''hler f'' @ uni [0xFC] @ ''r die Laufzeit bleiben erhalten.''),
     (''cache.clearing'', ''Wird geleert'' @ uni [0x2026]),
     (''cache.clear'', ''Cache leeren''),
     (''cache.cleared'', ''Cache geleert. Lokale Zonen bleiben aktiv; andere Abfragen verwenden die Upstream-Resolver.''),
     (''cache.flush_failed'', ''Cache leeren fehlgeschlagen''),
     (''cache.entries_title'', ''DNS-Cache-Eintr'' @ uni [0xE4] @ ''ge''),
     (''cache.entries_description'', ''Aktuelle Antworten, zuletzt verwendete zuerst.''),
     (''cache.entries_loading'', ''Cache-Eintr'' @ uni [0xE4] @ ''ge werden geladen'' @ uni [0x2026]),
     (''cache.entries_load_failed'', ''Cache-Eintr'' @ uni [0xE4] @ ''ge konnten nicht geladen werden''),
     (''cache.entries_empty'', ''Der Cache ist leer.''),
     (''cache.entries_scroll_hint'', ''Seitlich scrollen, um alle Spalten zu sehen.''),
     (''cache.entry_name'', ''Name'')]\<close>

definition dict_de_3 :: text_table where
  \<open>dict_de_3 = [
     (''cache.entry_type'', ''Typ''),
     (''cache.entry_answer'', ''Antwort''),
     (''cache.entry_status'', ''Status''),
     (''cache.entry_ttl'', ''Rest-TTL''),
     (''cache.seconds'', ''s''),
     (''cache.previous'', ''Zur'' @ uni [0xFC] @ ''ck''),
     (''cache.next'', ''Weiter''),
     (''querylog.unavailable_title'', ''Abfrageverlauf nicht verf'' @ uni [0xFC] @ ''gbar''),
     (''querylog.unavailable_text'', ''Aktivieren Sie das Abfrageprotokoll, um zuk'' @ uni [0xFC] @ ''nftige DNS-Aktivit'' @ uni [0xE4] @ ''ten zu erfassen und zu pr'' @ uni [0xFC] @ ''fen.''),
     (''querylog.up_to_100'', ''Bis zu 100 gespeicherte Antworten pro Seite''),
     (''querylog.refresh'', ''Abfragen aktualisieren''),
     (''querylog.filters_aria'', ''Abfragefilter''),
     (''querylog.domain'', ''Domain''),
     (''querylog.contains_example'', ''Enth'' @ uni [0xE4] @ ''lt example.com''),
     (''querylog.client_ip'', ''Client-IP''),
     (''querylog.exact_ip'', ''Exakte IP-Adresse''),
     (''querylog.query_type'', ''Abfragetyp''),
     (''querylog.all_types'', ''Alle Typen''),
     (''querylog.source'', ''Quelle''),
     (''querylog.all_sources'', ''Alle Quellen''),
     (''querylog.apply_filters'', ''Filter anwenden''),
     (''querylog.show_blocked'', ''Blockierte Abfragen anzeigen''),
     (''querylog.error_stale'', ''Fr'' @ uni [0xFC] @ ''here Ergebnisse sind m'' @ uni [0xF6] @ ''glicherweise veraltet.''),
     (''querylog.loading'', ''Abfrageprotokoll wird geladen'' @ uni [0x2026]),
     (''querylog.no_matches'', ''Keine passenden Abfragen''),
     (''querylog.no_matches_text'', ''Versuchen Sie andere Filter oder erzeugen Sie DNS-Verkehr bei aktiviertem Protokoll.''),
     (''querylog.caption'', ''DNS-Abfrageprotokoll''),
     (''querylog.col_timestamp'', ''Zeitstempel''),
     (''querylog.col_client'', ''Client''),
     (''querylog.col_domain'', ''Domain''),
     (''querylog.col_type'', ''Typ''),
     (''querylog.col_source'', ''Quelle''),
     (''querylog.col_response'', ''Antwort''),
     (''querylog.col_latency'', ''Latenz''),
     (''querylog.older'', uni [0xC4] @ ''ltere Abfragen''),
     (''querylog.load_failed'', ''Abfrageprotokoll konnte nicht geladen werden''),
     (''blocklists.count'', ''externe Quellen''),
     (''blocklists.count_one'', ''externe Quelle''),
     (''blocklists.sources_label'', ''DNS-Policy-Quellen''),
     (''blocklists.reload'', ''Neu laden''),
     (''blocklists.add_source'', ''Quelle hinzuf'' @ uni [0xFC] @ ''gen''),
     (''blocklists.add_aria'', ''Blocklisten-Quelle hinzuf'' @ uni [0xFC] @ ''gen''),
     (''blocklists.add_title'', ''Externe Blockliste hinzuf'' @ uni [0xFC] @ ''gen''),
     (''blocklists.add_text'', ''Es werden nur '' @ uni [0xF6] @ ''ffentliche HTTP(S)-Quellen akzeptiert. Fehlgeschlagene Aktualisierungen halten bisherige DNS-Regeln aktiv.''),
     (''blocklists.name'', ''Name''),
     (''blocklists.source_url'', ''Quell-URL''),
     (''blocklists.community_hosts'', ''Community-Hosts''),
     (''blocklists.adding'', ''Wird hinzugef'' @ uni [0xFC] @ ''gt'' @ uni [0x2026]),
     (''blocklists.cancel'', ''Abbrechen''),
     (''blocklists.loading'', ''Blocklisten-Quellen werden geladen'' @ uni [0x2026]),
     (''blocklists.empty_title'', ''Keine externen Blocklisten''),
     (''blocklists.empty_text'', ''F'' @ uni [0xFC] @ ''gen Sie eine vertrauensw'' @ uni [0xFC] @ ''rdige '' @ uni [0xF6] @ ''ffentliche Hosts- oder Domain-Liste hinzu, um DNS-Blocking anzuwenden.''),
     (''blocklists.caption'', ''Externe Blocklisten-Quellen''),
     (''blocklists.col_source'', ''Quelle''),
     (''blocklists.col_status'', ''Status''),
     (''blocklists.col_last_update'', ''Letzte Aktualisierung''),
     (''blocklists.update_failed'', ''Aktualisierung fehlgeschlagen''),
     (''blocklists.active'', ''AKTIV''),
     (''blocklists.disabled'', ''DEAKTIVIERT''),
     (''blocklists.never'', ''Nie''),
     (''blocklists.updating'', ''Wird aktualisiert'' @ uni [0x2026]),
     (''blocklists.update'', ''Aktualisieren''),
     (''blocklists.load_failed'', ''Blocklisten konnten nicht geladen werden''),
     (''blocklists.add_failed'', ''Quelle konnte nicht hinzugef'' @ uni [0xFC] @ ''gt werden''),
     (''blocklists.update_failed_msg'', ''Quelle konnte nicht aktualisiert werden''),
     (''blocklists.col_domains'', ''Domains''),
     (''blocklists.local'', ''Lokal''),
     (''blocklists.enable'', ''Aktivieren''),
     (''blocklists.disable'', ''Deaktivieren''),
     (''blocklists.toggle_failed'', ''Quelle konnte nicht umgeschaltet werden''),
     (''blocklists.edit_content'', ''Inhalt bearbeiten''),
     (''blocklists.edit_content_aria'', ''Blocklisten-Inhalt bearbeiten''),
     (''blocklists.edit_content_title'', ''Blocklisten-Domains bearbeiten''),
     (''blocklists.edit_content_text'', ''Geben Sie eine Domain pro Zeile ein. Zeilen, die mit 0.0.0.0 beginnen oder ein Kommentar sind, werden als Host-Eintr'' @ uni [0xE4] @ ''ge behandelt.''),
     (''blocklists.domains_label'', ''Domains''),
     (''blocklists.saving'', ''Wird gespeichert'' @ uni [0x2026]),
     (''blocklists.save'', ''Speichern''),
     (''blocklists.content_save_failed'', ''Inhalt konnte nicht gespeichert werden''),
     (''blocklists.delete'', ''L'' @ uni [0xF6] @ ''schen''),
     (''blocklists.confirm_delete'', ''Best'' @ uni [0xE4] @ ''tigen''),
     (''blocklists.delete_failed'', ''Quelle konnte nicht gel'' @ uni [0xF6] @ ''scht werden''),
     (''zones.count'', ''lokale Zonen''),
     (''zones.count_one'', ''lokale Zone''),
     (''zones.local_authority'', ''Lokale Autorit'' @ uni [0xE4] @ ''t''),
     (''zones.reload'', ''Zonen neu laden''),
     (''zones.add_zone'', ''Zone hinzuf'' @ uni [0xFC] @ ''gen''),
     (''zones.error_stale'', ''Zeige die zuletzt geladenen Zonen. Vor '' @ uni [0xC4] @ ''nderungen neu laden.''),
     (''zones.error_retry'', ''Zum erneuten Versuch neu laden.''),
     (''zones.reload_before_retry'', ''Vor dem erneuten Versuch Zonen neu laden.''),
     (''zones.loading'', ''Lokale Zonen werden geladen'' @ uni [0x2026]),
     (''zones.empty_title'', ''Geben Sie Ihrem Netzwerk vertraute Namen''),
     (''zones.empty_text'', ''Erstellen Sie eine Zone wie home.arpa und f'' @ uni [0xFC] @ ''gen Sie dann Eintr'' @ uni [0xE4] @ ''ge f'' @ uni [0xFC] @ ''r Router, Dienste und Ger'' @ uni [0xE4] @ ''te hinzu.''),
     (''zones.create_first'', ''Erste Zone erstellen''),
     (''zones.filter_aria'', ''Zonen filtern''),
     (''zones.filter_placeholder'', ''Zone finden'' @ uni [0x2026]),
     (''zones.nav_aria'', ''Lokale Zonen''),
     (''zones.records_custom'', ''benutzerdefinierte Eintr'' @ uni [0xE4] @ ''ge''),
     (''zones.no_matching'', ''Keine passenden Zonen.''),
     (''zones.authoritative_eyebrow'', ''AUTORITATIVE ZONE''),
     (''zones.revision'', ''Revision''),
     (''zones.add_record'', ''Eintrag hinzuf'' @ uni [0xFC] @ ''gen''),
     (''zones.delete_zone_aria'', ''Zone l'' @ uni [0xF6] @ ''schen''),
     (''zones.primary_ns'', ''Prim'' @ uni [0xE4] @ ''rer NS''),
     (''zones.contact'', ''Kontakt''),
     (''zones.delete_record_confirm'', ''Eintrag l'' @ uni [0xF6] @ ''schen''),
     (''zones.delete_zone_confirm'', ''und alle''),
     (''zones.delete_zone_confirm2'', ''Eintr'' @ uni [0xE4] @ ''ge? Dies kann nicht r'' @ uni [0xFC] @ ''ckg'' @ uni [0xE4] @ ''ngig gemacht werden.''),
     (''zones.deleting'', ''Wird gel'' @ uni [0xF6] @ ''scht'' @ uni [0x2026]),
     (''zones.delete_record_perm'', ''Eintrag endg'' @ uni [0xFC] @ ''ltig l'' @ uni [0xF6] @ ''schen''),
     (''zones.delete_zone_perm'', ''Zone endg'' @ uni [0xFC] @ ''ltig l'' @ uni [0xF6] @ ''schen''),
     (''zones.cancel_deletion'', ''L'' @ uni [0xF6] @ ''schen abbrechen''),
     (''zones.record_saved'', ''Eintrag gespeichert. DNS-'' @ uni [0xC4] @ ''nderungen sind aktiv.''),
     (''zones.record_deleted'', ''Eintrag gel'' @ uni [0xF6] @ ''scht. DNS-'' @ uni [0xC4] @ ''nderungen sind aktiv.''),
     (''zones.zone_deleted'', ''Zone und ihre Eintr'' @ uni [0xE4] @ ''ge wurden gel'' @ uni [0xF6] @ ''scht.''),
     (''zones.zone_created'', ''Zone erstellt. F'' @ uni [0xFC] @ ''gen Sie Eintr'' @ uni [0xE4] @ ''ge hinzu, um sie zu nutzen.''),
     (''zones.delete_failed'', ''L'' @ uni [0xF6] @ ''schen fehlgeschlagen''),
     (''zones.footnote'', ''Lokale Antworten haben Vorrang vor der Weiterleitung. Ger'' @ uni [0xE4] @ ''te behalten fr'' @ uni [0xFC] @ ''here Antworten, bis ihre TTL abl'' @ uni [0xE4] @ ''uft.''),
     (''zones.record_form_edit_aria'', ''DNS-Eintrag bearbeiten''),
     (''zones.record_form_add_aria'', ''DNS-Eintrag hinzuf'' @ uni [0xFC] @ ''gen'')]\<close>

definition dict_de_4 :: text_table where
  \<open>dict_de_4 = [
     (''zones.edit_record'', ''Eintrag bearbeiten''),
     (''zones.add_record_form'', ''Eintrag hinzuf'' @ uni [0xFC] @ ''gen''),
     (''zones.changes_apply'', uni [0xC4] @ ''nderungen gelten f'' @ uni [0xFC] @ ''r''),
     (''zones.record_name'', ''Eintragsname''),
     (''zones.router_or_at'', ''router oder @''),
     (''zones.relative_name_hint'', ''Relativer Name, @ f'' @ uni [0xFC] @ ''r die Zone, oder ein absoluter Name mit Punkt am Ende.''),
     (''zones.record_type'', ''Eintragstyp''),
     (''zones.ttl_seconds'', ''TTL (Sekunden)''),
     (''zones.priority'', ''Priorit'' @ uni [0xE4] @ ''t''),
     (''zones.ipv4_address'', ''IPv4-Adresse''),
     (''zones.ipv6_address'', ''IPv6-Adresse''),
     (''zones.text_value'', ''Textwert''),
     (''zones.target_hostname'', ''Ziel-Hostname''),
     (''zones.invalid_ttl'', ''G'' @ uni [0xFC] @ ''ltige TTL- und Priorit'' @ uni [0xE4] @ ''tswerte eingeben.''),
     (''zones.record_conflict'', ''Diese Zone wurde woanders ge'' @ uni [0xE4] @ ''ndert. Ihr Entwurf bleibt unver'' @ uni [0xE4] @ ''ndert. Schlie'' @ uni [0xDF] @ ''en Sie das Formular und laden Sie die Zonen neu, bevor Sie es erneut versuchen.''),
     (''zones.save_failed'', ''Eintrag konnte nicht gespeichert werden''),
     (''zones.saving'', ''Wird gespeichert'' @ uni [0x2026]),
     (''zones.save_record'', ''Eintrag speichern''),
     (''zones.cancel'', ''Abbrechen''),
     (''zones.no_records_title'', ''Noch keine benutzerdefinierten Eintr'' @ uni [0xE4] @ ''ge''),
     (''zones.no_records_text'', ''F'' @ uni [0xFC] @ ''gen Sie Ihren ersten Eintrag hinzu. SOA und Fallback-APEX-NS werden automatisch verwaltet.''),
     (''zones.records_aria'', ''DNS-Eintr'' @ uni [0xE4] @ ''ge f'' @ uni [0xFC] @ ''r''),
     (''zones.col_name'', ''Name''),
     (''zones.col_type'', ''Typ''),
     (''zones.col_value'', ''Wert''),
     (''zones.col_ttl'', ''TTL''),
     (''zones.col_actions'', ''Aktionen''),
     (''zones.edit_aria'', ''Bearbeiten''),
     (''zones.delete_aria'', ''L'' @ uni [0xF6] @ ''schen''),
     (''zones.record_word'', ''Eintrag''),
     (''zones.create_zone_aria'', ''DNS-Zone erstellen''),
     (''zones.create_title'', ''Lokale Zone erstellen''),
     (''zones.create_text'', ''Velora wird f'' @ uni [0xFC] @ ''r diese Zone antworten und unbekannte Namen in Ihrem Netzwerk halten.''),
     (''zones.zone_name'', ''Zonenname''),
     (''zones.authority_settings'', ''Autorit'' @ uni [0xE4] @ ''ts-Einstellungen''),
     (''zones.primary_nameserver'', ''Prim'' @ uni [0xE4] @ ''rer Nameserver''),
     (''zones.contact_mailbox'', ''Kontakt (DNS-Mailbox)''),
     (''zones.creating'', ''Wird erstellt'' @ uni [0x2026]),
     (''zones.create_zone'', ''Zone erstellen''),
     (''zones.create_failed'', ''Zone konnte nicht erstellt werden''),
     (''zones.load_failed'', ''Zonen konnten nicht geladen werden''),
     (''updates.loading'', ''Update-Status wird geladen...''),
     (''updates.viewer_readonly'', ''Sie sind als Betrachter angemeldet. Update-Anfragen sind schreibgesch'' @ uni [0xFC] @ ''tzt.''),
     (''updates.in_progress'', ''Update l'' @ uni [0xE4] @ ''uft...''),
     (''updates.history'', ''Update-Verlauf''),
     (''updates.no_history'', ''Noch keine Updates aufgezeichnet.''),
     (''updates.col_from'', ''Von''),
     (''updates.col_to'', ''Zu''),
     (''updates.col_state'', ''Status''),
     (''updates.col_started'', ''Gestartet''),
     (''updates.state_idle'', ''Bereit''),
     (''updates.state_downloading'', ''Wird heruntergeladen''),
     (''updates.state_verifying'', ''Wird gepr'' @ uni [0xFC] @ ''ft''),
     (''updates.state_installing'', ''Wird installiert''),
     (''updates.state_readiness'', ''Wartet auf Betriebsbereitschaft''),
     (''updates.state_completed'', ''Abgeschlossen''),
     (''updates.state_rolled_back'', ''Zur'' @ uni [0xFC] @ ''ckgerollt''),
     (''updates.state_failed'', ''Fehlgeschlagen''),
     (''updates.load_failed'', ''Update-Status konnte nicht geladen werden''),
     (''updates.request_failed'', ''Update konnte nicht angefordert werden''),
     (''updates.check'', ''Nach Updates suchen''),
     (''updates.available'', ''Update verf'' @ uni [0xFC] @ ''gbar''),
     (''updates.up_to_date'', ''Das System ist aktuell.''),
     (''updates.release_date'', ''Ver'' @ uni [0xF6] @ ''ffentlicht''),
     (''updates.progress'', ''Update-Fortschritt''),
     (''updates.rollback_used'', ''Die vorherige Version wurde wiederhergestellt.''),
     (''updates.rollback_recovered'', ''Die vorherige Version wurde wiederhergestellt und ist fehlerfrei.''),
     (''backup.sqlite_only'', ''Der verschl'' @ uni [0xFC] @ ''sselte Export unterst'' @ uni [0xFC] @ ''tzt derzeit nur SQLite-Installationen.''),
     (''backup.create_title'', ''Verschl'' @ uni [0xFC] @ ''sseltes Backup''),
     (''backup.create_hint'', ''Versioniertes Backup von Konfiguration und dauerhaftem Zustand herunterladen. Passwort sicher aufbewahren.''),
     (''backup.passphrase'', ''Passwort''),
     (''backup.creating'', ''Wird erstellt'' @ uni [0x2026]),
     (''backup.create'', ''Erstellen und herunterladen''),
     (''backup.create_failed'', ''Backup konnte nicht erstellt werden''),
     (''backup.restore_hint'', ''Ein verschl'' @ uni [0xFC] @ ''sseltes Bundle bei gestopptem Dienst wiederherstellen. Der Befehl bewahrt eine Sicherheitskopie der bisherigen Installation auf.''),
     (''backup.loading'', ''Backup-Status wird geladen...''),
     (''backup.status_title'', ''Backup-Status''),
     (''backup.database'', ''Datenbank:''),
     (''backup.last_backup'', ''Letztes Backup:''),
     (''backup.no_backup'', ''Noch kein Backup aufgezeichnet''),
     (''backup.verification_state'', ''Verifizierungsstatus:''),
     (''backup.state_unknown'', ''Unbekannt''),
     (''backup.state_unverified'', ''Nicht verifiziert''),
     (''backup.state_verified'', ''Verifiziert''),
     (''backup.verify_title'', ''Backup verifizieren''),
     (''backup.verify_text'', ''Legen Sie eine Kopie des Backups neben der Server-Datenbank ab, um ihre Integrit'' @ uni [0xE4] @ ''t zu pr'' @ uni [0xFC] @ ''fen.''),
     (''backup.file_name'', ''Name der Backup-Datei''),
     (''backup.file_hint'', ''Legen Sie das Backup auf dem Velora-Server neben der Datenbank ab. Hier wird nur der Dateiname verwendet; Browser-Dateien und andere Verzeichnisse k'' @ uni [0xF6] @ ''nnen nicht gepr'' @ uni [0xFC] @ ''ft werden.''),
     (''backup.viewer_readonly'', ''Sie sind als Betrachter angemeldet. Backup-Verifizierung ist schreibgesch'' @ uni [0xFC] @ ''tzt.''),
     (''backup.verifying'', ''Wird verifiziert...''),
     (''backup.verify'', ''Verifizieren''),
     (''backup.valid'', ''Backup ist g'' @ uni [0xFC] @ ''ltig''),
     (''backup.invalid'', ''Backup ist ung'' @ uni [0xFC] @ ''ltig''),
     (''backup.schema_version'', ''Schema-Version:''),
     (''backup.records'', ''Eintr'' @ uni [0xE4] @ ''ge:''),
     (''backup.instructions'', ''Wiederherstellung '' @ uni [0xFC] @ ''ber die Kommandozeile''),
     (''backup.native'', ''Direkte Installation''),
     (''backup.docker'', ''Docker Compose''),
     (''backup.online'', ''Online-Backup (SQLite)''),
     (''backup.load_failed'', ''Backup-Status konnte nicht geladen werden''),
     (''backup.verify_failed'', ''Verifizierung fehlgeschlagen''),
     (''backup.step_stop_service'', ''Dienst stoppen''),
     (''backup.step_create_backup'', ''Konsistentes Backup erstellen''),
     (''backup.step_restart_service'', ''Dienst neu starten''),
     (''backup.step_stop_container'', ''Container stoppen''),
     (''backup.step_backup_volume'', ''Volume sichern''),
     (''backup.step_restart_container'', ''Container neu starten''),
     (''backup.step_online_backup'', ''SQLite-Backup-API f'' @ uni [0xFC] @ ''r ein konsistentes Online-Backup verwenden''),
     (''onboarding.welcome'', ''Willkommen bei Velora DNS''),
     (''onboarding.complete_steps'', ''F'' @ uni [0xFC] @ ''hren Sie diese Schritte aus, um Ihre Installation zu sichern''),
     (''onboarding.dismiss'', ''Ausblenden''),
     (''onboarding.change_credentials'', ''Bootstrap-Anmeldedaten '' @ uni [0xE4] @ ''ndern''),
     (''onboarding.change_credentials_text'', ''Das Standard-Admin-Passwort sollte nach der ersten Anmeldung ge'' @ uni [0xE4] @ ''ndert werden.''),
     (''onboarding.review_dns'', ''DNS-Konfiguration pr'' @ uni [0xFC] @ ''fen''),
     (''onboarding.review_dns_text'', ''Stellen Sie sicher, dass Upstream-Server und erlaubte Clients korrekt f'' @ uni [0xFC] @ ''r Ihr Netzwerk konfiguriert sind.''),
     (''onboarding.restrict_clients'', ''Client-Zugriff einschr'' @ uni [0xE4] @ ''nken''),
     (''onboarding.restrict_clients_text'', ''Konfigurieren Sie allowed_clients-CIDRs, um zu begrenzen, welche Netzwerke Ihren Resolver nutzen k'' @ uni [0xF6] @ ''nnen.''),
     (''onboarding.verify_db'', ''Datenbankspeicher pr'' @ uni [0xFC] @ ''fen''),
     (''onboarding.verify_db_text'', ''Stellen Sie sicher, dass der Datenbankpfad auf zuverl'' @ uni [0xE4] @ ''ssigem Speicher mit ausreichend Platz liegt.'')]\<close>

definition dict_de_5 :: text_table where
  \<open>dict_de_5 = [
     (''onboarding.update_policy'', ''Update-Richtlinie konfigurieren''),
     (''onboarding.update_policy_text'', ''Pr'' @ uni [0xFC] @ ''fen Sie das Update-Center, um zu verstehen, wie Sie Ihre Installation aktuell halten.''),
     (''app.nav.dhcp'', ''DHCP''),
     (''app.title.dhcp'', ''DHCP-Server''),
     (''dhcp.loading'', ''DHCP-Daten laden'' @ uni [0x2026]),
     (''dhcp.load_failed'', ''DHCP-Daten konnten nicht geladen werden''),
     (''dhcp.create_pool_failed'', ''Pool konnte nicht erstellt werden''),
     (''dhcp.delete_pool_failed'', ''Pool konnte nicht gel'' @ uni [0xF6] @ ''scht werden''),
     (''dhcp.create_reservation_failed'', ''Reservierung konnte nicht erstellt werden''),
     (''dhcp.delete_reservation_failed'', ''Reservierung konnte nicht gel'' @ uni [0xF6] @ ''scht werden''),
     (''dhcp.delete_lease_failed'', ''Lease konnte nicht gel'' @ uni [0xF6] @ ''scht werden''),
     (''dhcp.pools'', ''DHCP-Pools''),
     (''dhcp.add_pool'', ''Pool hinzuf'' @ uni [0xFC] @ ''gen''),
     (''dhcp.pool_name'', ''Poolname''),
     (''dhcp.interface'', ''Schnittstelle''),
     (''dhcp.subnet_cidr'', ''Subnetz (CIDR)''),
     (''dhcp.subnet'', ''Subnetz''),
     (''dhcp.gateway'', ''Gateway''),
     (''dhcp.dns_servers'', ''DNS-Server''),
     (''dhcp.lease_seconds'', ''Lease-Dauer (Sekunden)''),
     (''dhcp.leases_label'', ''Leases''),
     (''dhcp.create'', ''Erstellen''),
     (''dhcp.no_pools'', ''Keine DHCP-Pools konfiguriert. Erstellen Sie einen, um Leases zu verteilen.''),
     (''dhcp.reservations'', ''Statische Reservierungen''),
     (''dhcp.mac_address'', ''MAC-Adresse''),
     (''dhcp.ip_address'', ''IP-Adresse''),
     (''dhcp.hostname'', ''Hostname''),
     (''dhcp.add'', ''Hinzuf'' @ uni [0xFC] @ ''gen''),
     (''dhcp.active_leases'', ''Aktive Leases''),
     (''dhcp.expires'', ''L'' @ uni [0xE4] @ ''uft ab''),
     (''dhcp.no_leases'', ''Keine aktiven Leases.''),
     (''dhcp.expired'', ''Abgelaufen''),
     (''dhcp.confirm_delete_pool'', ''Diesen Pool und alle seine Reservierungen l'' @ uni [0xF6] @ ''schen?''),
     (''dhcp.name'', ''Name''),
     (''app.nav.cluster'', ''Cluster''),
     (''app.title.cluster'', ''Cluster-'' @ uni [0xDC] @ ''bersicht''),
     (''cluster.loading'', ''Cluster-Daten laden'' @ uni [0x2026]),
     (''cluster.load_failed'', ''Cluster-Daten konnten nicht geladen werden''),
     (''cluster.name'', ''Name''),
     (''cluster.status'', ''Status''),
     (''cluster.version'', ''Version''),
     (''cluster.last_seen'', ''Zuletzt gesehen''),
     (''cluster.config_history'', ''Konfigurationsverlauf''),
     (''cluster.no_versions'', ''Keine Konfigurationsversionen aufgezeichnet.''),
     (''cluster.hash'', ''Hash''),
     (''cluster.applied_by'', ''Angewendet von''),
     (''cluster.applied_at'', ''Angewendet am''),
     (''app.nav.group_dns'', ''DNS''),
     (''app.nav.group_network'', ''Netzwerk''),
     (''app.nav.group_system'', ''System''),
     (''app.menu_open'', ''Navigation '' @ uni [0xF6] @ ''ffnen''),
     (''app.menu_close'', ''Navigation schlie'' @ uni [0xDF] @ ''en''),
     (''app.theme_to_dark'', ''Zum dunklen Design wechseln''),
     (''app.theme_to_light'', ''Zum hellen Design wechseln''),
     (''app.signed_in_as'', ''Angemeldet als''),
     (''app.subtitle.zones'', ''Autoritative Namen f'' @ uni [0xFC] @ ''r Ger'' @ uni [0xE4] @ ''te und Dienste in Ihrem Netzwerk.''),
     (''app.subtitle.queries'', ''Aktuelle Abfragen, die dieser Resolver beantwortet hat.''),
     (''app.subtitle.blocklists'', ''Domainlisten, die als blockiert beantwortet werden.''),
     (''app.subtitle.cache'', ''Antworten im Speicher, um wiederholte Abfragen zu beschleunigen.''),
     (''app.subtitle.settings'', ''Resolver, Weboberfl'' @ uni [0xE4] @ ''che und pers'' @ uni [0xF6] @ ''nliche Einstellungen.''),
     (''app.subtitle.updates'', ''Installierte Version, verf'' @ uni [0xFC] @ ''gbare Releases und Update-Verlauf.''),
     (''app.subtitle.backup'', ''Verschl'' @ uni [0xFC] @ ''sselte Backups erstellen und vorhandene pr'' @ uni [0xFC] @ ''fen.''),
     (''app.subtitle.dhcp'', ''Adresspools, Reservierungen und aktive Leases.''),
     (''app.subtitle.cluster'', ''Lokale Zonen auf mehreren Velora-DNS-Servern identisch halten.''),
     (''app.subtitle.diagnostics'', ''Zustand der Komponenten und ein teilbarer Supportbericht.''),
     (''app.subtitle.events'', ''Dinge, die Ihre Aufmerksamkeit erfordern.''),
     (''app.subtitle.audit'', ''Wer hat was wann ge'' @ uni [0xE4] @ ''ndert.''),
     (''settings.preferences'', ''Pers'' @ uni [0xF6] @ ''nliche Einstellungen''),
     (''dashboard.general_statistics'', ''Allgemeine Statistik''),
     (''dashboard.blocked'', ''Durch Filter blockiert''),
     (''dashboard.of_all_queries'', ''aller Anfragen''),
     (''dashboard.query_logging'', ''Abfrageprotokoll''),
     (''dashboard.enabled'', ''Aktiviert''),
     (''dashboard.disabled'', ''Deaktiviert''),
     (''dashboard.requests'', ''Anfragen''),
     (''dashboard.domain'', ''Domain''),
     (''dashboard.client'', ''Client''),
     (''dashboard.upstream_servers'', ''Upstream-Server''),
     (''dashboard.collecting_samples'', ''Messwerte werden gesammelt'' @ uni [0x2026]),
     (''cache.search_label'', ''Nach Name suchen''),
     (''cache.search_placeholder'', ''example.org''),
     (''cache.all_types'', ''Alle Typen''),
     (''cache.remove_entry'', ''Aus dem Cache entfernen''),
     (''cache.invalidate_title'', ''Domain invalidieren''),
     (''cache.invalidate_text'', ''Gecachte Antworten f'' @ uni [0xFC] @ ''r einen Namen entfernen, ohne den gesamten Cache zu leeren.''),
     (''cache.domain'', ''Domain''),
     (''cache.include_subdomains'', ''Subdomains einschlie'' @ uni [0xDF] @ ''en''),
     (''cache.invalidate'', ''Invalidieren''),
     (''cache.removed_entries'', ''Entfernte Cache-Eintr'' @ uni [0xE4] @ ''ge''),
     (''cache.invalidate_failed'', ''Invalidierung fehlgeschlagen''),
     (''cache.flush_confirm'', ''Alle gecachten Antworten l'' @ uni [0xF6] @ ''schen? Die Z'' @ uni [0xE4] @ ''hler f'' @ uni [0xFC] @ ''r Treffer und Fehlschl'' @ uni [0xE4] @ ''ge bleiben erhalten.''),
     (''cache.no_matches'', ''Keine Cache-Eintr'' @ uni [0xE4] @ ''ge passen zu diesem Filter.''),
     (''blocklists.schedule'', ''Aktualisierungsplan''),
     (''blocklists.schedule_for'', ''Aktualisierungsplan f'' @ uni [0xFC] @ ''r''),
     (''blocklists.manual'', ''Manuell''),
     (''blocklists.every_1h'', ''St'' @ uni [0xFC] @ ''ndlich''),
     (''blocklists.every_6h'', ''Alle 6 Stunden''),
     (''blocklists.every_12h'', ''Alle 12 Stunden''),
     (''blocklists.every_24h'', ''T'' @ uni [0xE4] @ ''glich''),
     (''blocklists.every_7d'', ''W'' @ uni [0xF6] @ ''chentlich''),
     (''blocklists.col_next_update'', ''N'' @ uni [0xE4] @ ''chste Aktualisierung''),
     (''blocklists.due_now'', ''Jetzt f'' @ uni [0xE4] @ ''llig''),
     (''blocklists.never_updated'', ''Nie aktualisiert''),
     (''blocklists.retry_count'', ''fehlgeschlagene Versuche''),
     (''blocklists.schedule_failed'', ''Plan konnte nicht ge'' @ uni [0xE4] @ ''ndert werden''),
     (''app.nav.forwarding'', ''Bedingte Weiterleitung''),
     (''app.title.forwarding'', ''Bedingte Weiterleitung''),
     (''app.subtitle.forwarding'', ''Anfragen f'' @ uni [0xFC] @ ''r ausgew'' @ uni [0xE4] @ ''hlte Domains an eigene Resolver senden.''),
     (''forwarding.count'', ''Weiterleitungsregeln''),
     (''forwarding.add'', ''Regel hinzuf'' @ uni [0xFC] @ ''gen''),
     (''forwarding.add_title'', ''Neue Weiterleitungsregel''),
     (''forwarding.edit_title'', ''Weiterleitungsregel bearbeiten''),
     (''forwarding.form_hint'', ''Die Regel gilt auch f'' @ uni [0xFC] @ ''r alle Namen unterhalb der Domain. Die spezifischste aktive Regel gewinnt.''),
     (''forwarding.domain'', ''Domain''),
     (''forwarding.upstreams'', ''Resolver''),
     (''forwarding.upstreams_hint'', ''1'' @ uni [0x2013] @ ''4 Adressen als IP oder IP:Port, durch Kommas getrennt. Ohne Angabe wird Port 53 verwendet.''),
     (''forwarding.description'', ''Beschreibung''),
     (''forwarding.enabled'', ''Aktiviert''),
     (''forwarding.save'', ''Regel speichern'')]\<close>

definition dict_de_6 :: text_table where
  \<open>dict_de_6 = [
     (''forwarding.cancel'', ''Abbrechen''),
     (''forwarding.empty_title'', ''Keine Weiterleitungsregeln''),
     (''forwarding.empty_text'', ''Alle Anfragen nutzen die globalen Upstream-Resolver. F'' @ uni [0xFC] @ ''ge eine Regel hinzu, um eine Domain wie corp.example '' @ uni [0xFC] @ ''ber einen internen DNS-Server aufzul'' @ uni [0xF6] @ ''sen.''),
     (''forwarding.col_status'', ''Status''),
     (''forwarding.test'', ''Testen''),
     (''forwarding.test_title'', ''Regel testen''),
     (''forwarding.test_hint'', ''Sendet eine Anfrage nur '' @ uni [0xFC] @ ''ber die Resolver dieser Regel, ohne Cache.''),
     (''forwarding.test_name'', ''Name''),
     (''forwarding.test_type'', ''Typ''),
     (''forwarding.run_test'', ''Test ausf'' @ uni [0xFC] @ ''hren''),
     (''forwarding.test_via'', uni [0xFC] @ ''ber''),
     (''forwarding.no_answers'', ''Keine Antwortdatens'' @ uni [0xE4] @ ''tze''),
     (''forwarding.edit'', ''Bearbeiten''),
     (''forwarding.delete'', ''L'' @ uni [0xF6] @ ''schen''),
     (''forwarding.delete_confirm'', ''Weiterleitungsregel l'' @ uni [0xF6] @ ''schen f'' @ uni [0xFC] @ ''r''),
     (''forwarding.toggle'', ''Regel aktivieren oder deaktivieren f'' @ uni [0xFC] @ ''r''),
     (''forwarding.load_failed'', ''Weiterleitungsregeln konnten nicht geladen werden''),
     (''forwarding.save_failed'', ''Regel konnte nicht gespeichert werden''),
     (''forwarding.saved'', ''Weiterleitungsregel gespeichert. Gecachte Antworten der Domain wurden entfernt.''),
     (''forwarding.disabled'', ''Deaktiviert''),
     (''app.nav.rewrites'', ''DNS-Umschreibungen''),
     (''app.title.rewrites'', ''DNS-Umschreibungen''),
     (''app.subtitle.rewrites'', ''Ausgew'' @ uni [0xE4] @ ''hlte Namen mit festen Adressen oder Aliasen beantworten.''),
     (''rewrites.count'', ''Umschreibungen''),
     (''rewrites.add'', ''Umschreibung hinzuf'' @ uni [0xFC] @ ''gen''),
     (''rewrites.add_title'', ''Neue Umschreibung''),
     (''rewrites.edit_title'', ''Umschreibung bearbeiten''),
     (''rewrites.form_hint'', ''Mit *.parent werden alle Namen unter einer Domain erfasst. Exakte Namen haben Vorrang vor Platzhaltern.''),
     (''rewrites.name'', ''Name''),
     (''rewrites.type'', ''Typ''),
     (''rewrites.value'', ''Antwort''),
     (''rewrites.value_hint_A'', ''IPv4-Adresse''),
     (''rewrites.value_hint_AAAA'', ''IPv6-Adresse''),
     (''rewrites.value_hint_CNAME'', ''Zielhostname, wird normal aufgel'' @ uni [0xF6] @ ''st''),
     (''rewrites.description'', ''Beschreibung''),
     (''rewrites.enabled'', ''Aktiviert''),
     (''rewrites.save'', ''Umschreibung speichern''),
     (''rewrites.empty_title'', ''Keine DNS-Umschreibungen''),
     (''rewrites.empty_text'', ''Einen Namen wie nas.home ohne Zone einer Adresse zuordnen.''),
     (''rewrites.col_notes'', ''Hinweise''),
     (''rewrites.blocked_hint'', ''Wird zuerst von einer Sperrliste blockiert''),
     (''rewrites.overrides_hint'', uni [0xDC] @ ''berschreibt lokale Zone''),
     (''rewrites.edit'', ''Bearbeiten''),
     (''rewrites.delete'', ''L'' @ uni [0xF6] @ ''schen''),
     (''rewrites.delete_confirm'', ''Diese Umschreibung l'' @ uni [0xF6] @ ''schen?''),
     (''rewrites.toggle'', ''Umschreibung aktivieren oder deaktivieren f'' @ uni [0xFC] @ ''r''),
     (''rewrites.search'', ''Umschreibungen filtern''),
     (''rewrites.load_failed'', ''Umschreibungen konnten nicht geladen werden''),
     (''rewrites.save_failed'', ''Umschreibung konnte nicht gespeichert werden''),
     (''rewrites.saved'', ''Umschreibung gespeichert und angewendet.''),
     (''app.nav.clients'', ''Clients''),
     (''app.title.clients'', ''Clients und Ger'' @ uni [0xE4] @ ''te''),
     (''app.subtitle.clients'', ''Adressen und Netzen Namen geben, die '' @ uni [0xFC] @ ''berall in Velora erscheinen.''),
     (''clients.count'', ''Clients''),
     (''clients.add'', ''Client hinzuf'' @ uni [0xFC] @ ''gen''),
     (''clients.add_title'', ''Neuer Client''),
     (''clients.edit_title'', ''Client bearbeiten''),
     (''clients.form_hint'', ''Bei '' @ uni [0xFC] @ ''berlappenden Netzen gewinnt das spezifischste. Gib DHCP-Ger'' @ uni [0xE4] @ ''ten vor der Benennung eine feste Adresse.''),
     (''clients.name'', ''Name''),
     (''clients.addresses'', ''Adressen''),
     (''clients.addresses_hint'', ''IP-Adressen oder CIDR-Netze, durch Kommas getrennt.''),
     (''clients.group'', ''Gruppe''),
     (''clients.description'', ''Beschreibung''),
     (''clients.enabled'', ''Aktiviert''),
     (''clients.save'', ''Client speichern''),
     (''clients.activity'', ''Letzte 24 Stunden''),
     (''clients.queries'', ''Anfragen''),
     (''clients.last_seen'', ''Zuletzt gesehen''),
     (''clients.no_activity'', ''Keine Anfragen''),
     (''clients.view_queries'', ''Anfragen anzeigen''),
     (''clients.empty_title'', ''Keine benannten Clients''),
     (''clients.empty_text'', ''Benenne Ger'' @ uni [0xE4] @ ''te wie einen Fernseher oder Home Assistant, damit sie im Abfrageprotokoll leicht erkennbar sind.''),
     (''clients.unnamed_title'', ''K'' @ uni [0xFC] @ ''rzlich gesehen, ohne Namen''),
     (''clients.unnamed_text'', ''Aktivste Adressen der letzten 24 Stunden ohne passenden Client.''),
     (''clients.name_it'', ''Ger'' @ uni [0xE4] @ ''t benennen''),
     (''clients.edit'', ''Bearbeiten''),
     (''clients.delete'', ''L'' @ uni [0xF6] @ ''schen''),
     (''clients.delete_confirm'', ''Client l'' @ uni [0xF6] @ ''schen''),
     (''clients.toggle'', ''Client aktivieren oder deaktivieren''),
     (''clients.load_failed'', ''Clients konnten nicht geladen werden''),
     (''clients.save_failed'', ''Client konnte nicht gespeichert werden''),
     (''clients.saved'', ''Client gespeichert.''),
     (''clients.logging_off'', ''Aktiviere das Abfrageprotokoll, um Client-Aktivit'' @ uni [0xE4] @ ''t zu sehen.''),
     (''app.nav.policies'', ''Client-Richtlinien''),
     (''app.title.policies'', ''Filterrichtlinien pro Client''),
     (''app.subtitle.policies'', ''Legen Sie fest, wie Blockierung f'' @ uni [0xFC] @ ''r einzelne Clients gilt.''),
     (''policies.load_failed'', ''Richtlinien konnten nicht geladen werden.''),
     (''policies.save_failed'', ''Die Richtlinie konnte nicht gespeichert werden.''),
     (''policies.saved'', ''Richtlinie gespeichert.''),
     (''policies.lookup'', ''Adresse pr'' @ uni [0xFC] @ ''fen''),
     (''policies.add'', ''Richtlinie hinzuf'' @ uni [0xFC] @ ''gen''),
     (''policies.add_title'', ''Neue Richtlinie''),
     (''policies.edit_title'', ''Richtlinie bearbeiten''),
     (''policies.form_hint'', ''Das spezifischste Client-Netz entscheidet, welche Richtlinie f'' @ uni [0xFC] @ ''r eine Adresse gilt.''),
     (''policies.client'', ''Client''),
     (''policies.mode'', ''Filterung''),
     (''policies.mode_default'', ''Global''),
     (''policies.mode_disabled'', ''Keine Filterung''),
     (''policies.mode_custom'', ''Eigene''),
     (''policies.mode_default_hint'', ''Dieselben Block- und Erlaubnislisten wie alle anderen.''),
     (''policies.mode_disabled_hint'', ''F'' @ uni [0xFC] @ ''r diesen Client wird nichts blockiert.''),
     (''policies.mode_custom_hint'', ''Nur die gew'' @ uni [0xE4] @ ''hlten Blocklisten plus eigene Domains.''),
     (''policies.blocklists'', ''Blocklisten''),
     (''policies.no_sources'', ''Noch keine Blocklisten.''),
     (''policies.globally_off'', ''global aus''),
     (''policies.block'', ''Zus'' @ uni [0xE4] @ ''tzlich blockieren''),
     (''policies.allow'', ''Immer erlauben''),
     (''policies.domains_hint'', ''Eine Domain pro Zeile; Subdomains sind eingeschlossen.''),
     (''policies.allow_hint'', ''Hat f'' @ uni [0xFC] @ ''r diesen Client Vorrang vor allen Blocklisten.''),
     (''policies.enabled'', ''Richtlinie aktiv''),
     (''policies.save'', ''Richtlinie speichern''),
     (''policies.empty_title'', ''Keine Client-Richtlinien''),
     (''policies.empty_text'', ''Alle Clients verwenden die globalen Blocklisten. F'' @ uni [0xFC] @ ''gen Sie eine Richtlinie hinzu, um ein Ger'' @ uni [0xE4] @ ''t strenger, lockerer oder gar nicht zu filtern.''),
     (''policies.need_clients'', ''Richtlinien gelten f'' @ uni [0xFC] @ ''r benannte Clients. Benennen Sie zuerst ein Ger'' @ uni [0xE4] @ ''t:''),
     (''policies.details'', ''Details''),
     (''policies.summary_disabled'', ''Alle Anfragen werden ungefiltert beantwortet''),
     (''policies.summary_default'', ''Verwendet die globalen Blocklisten''),
     (''policies.no_lists'', ''Keine Blocklisten''),
     (''policies.blocked_short'', ''blockiert'')]\<close>

definition dict_de_7 :: text_table where
  \<open>dict_de_7 = [
     (''policies.allowed_short'', ''erlaubt''),
     (''policies.paused'', ''Pausiert''),
     (''policies.toggle'', ''Richtlinie aktiv''),
     (''policies.edit'', ''Richtlinie bearbeiten''),
     (''policies.delete'', ''Richtlinie l'' @ uni [0xF6] @ ''schen''),
     (''policies.delete_confirm'', ''Richtlinie entfernen f'' @ uni [0xFC] @ ''r''),
     (''policies.no_policy'', ''(keine Richtlinie, globale Filterung)''),
     (''policies.unknown_address'', ''geh'' @ uni [0xF6] @ ''rt zu keinem Client und nutzt die globale Filterung.''),
     (''app.nav.webhooks'', ''Webhooks''),
     (''app.title.webhooks'', ''Webhook-Benachrichtigungen''),
     (''app.subtitle.webhooks'', ''Wichtige Ereignisse an andere Systeme senden.''),
     (''webhooks.load_failed'', ''Webhooks konnten nicht geladen werden.''),
     (''webhooks.save_failed'', ''Der Webhook konnte nicht gespeichert werden.''),
     (''webhooks.saved'', ''Webhook gespeichert.''),
     (''webhooks.count'', ''Webhooks''),
     (''webhooks.add'', ''Webhook hinzuf'' @ uni [0xFC] @ ''gen''),
     (''webhooks.add_title'', ''Neuer Webhook''),
     (''webhooks.edit_title'', ''Webhook bearbeiten''),
     (''webhooks.form_hint'', ''Velora sendet f'' @ uni [0xFC] @ ''r jedes passende Ereignis eine JSON-POST-Anfrage. Die Zustellung l'' @ uni [0xE4] @ ''uft im Hintergrund und verz'' @ uni [0xF6] @ ''gert keine DNS-Antworten.''),
     (''webhooks.name'', ''Name''),
     (''webhooks.url'', ''URL''),
     (''webhooks.min_severity'', ''Mindestschweregrad''),
     (''webhooks.severity_info'', ''Info''),
     (''webhooks.severity_warning'', ''Warnung''),
     (''webhooks.severity_critical'', ''Kritisch''),
     (''webhooks.token'', ''Bearer-Token''),
     (''webhooks.token_hint'', ''Optional. Wird als Authorization-Header gesendet und nie wieder angezeigt.''),
     (''webhooks.token_stored'', ''Token gespeichert''),
     (''webhooks.token_change'', uni [0xC4] @ ''ndern''),
     (''webhooks.token_remove_hint'', ''Leer lassen, um das Token zu entfernen''),
     (''webhooks.events'', ''Ereignisse''),
     (''webhooks.events_hint'', ''Nichts ausw'' @ uni [0xE4] @ ''hlen, um alle Ereignistypen zu erhalten.''),
     (''webhooks.all_events'', ''Alle Ereignisse''),
     (''webhooks.allow_private'', ''Ziel im privaten Netz erlauben (z. B. Home Assistant im LAN)''),
     (''webhooks.enabled'', ''Webhook aktiv''),
     (''webhooks.save'', ''Webhook speichern''),
     (''webhooks.empty_title'', ''Keine Webhooks''),
     (''webhooks.empty_text'', ''F'' @ uni [0xFC] @ ''gen Sie einen Webhook hinzu, um bei Upstream-Ausf'' @ uni [0xE4] @ ''llen, fehlgeschlagenen Blocklisten-Updates oder Backups benachrichtigt zu werden.''),
     (''webhooks.last_delivery'', ''Letzte Zustellung''),
     (''webhooks.never'', ''Noch nichts gesendet''),
     (''webhooks.failing'', ''Fehlerhaft''),
     (''webhooks.toggle'', ''Webhook aktiv''),
     (''webhooks.test'', ''Test senden''),
     (''webhooks.test_ok'', ''Test zugestellt an''),
     (''webhooks.test_failed'', ''Test fehlgeschlagen f'' @ uni [0xFC] @ ''r''),
     (''webhooks.edit'', ''Webhook bearbeiten''),
     (''webhooks.delete'', ''Webhook l'' @ uni [0xF6] @ ''schen''),
     (''webhooks.delete_confirm'', ''Webhook l'' @ uni [0xF6] @ ''schen:''),
     (''app.nav.analytics'', ''Analysen''),
     (''app.title.analytics'', ''Analysen''),
     (''app.subtitle.analytics'', ''DNS-Aktivit'' @ uni [0xE4] @ ''t und Resolver-Leistung aus dem gespeicherten Abfrageverlauf.''),
     (''analytics.load_failed'', ''Analysen konnten nicht geladen werden.''),
     (''analytics.logging_off_title'', ''Abfrageprotokoll ist aus''),
     (''analytics.logging_off_text'', ''Analysen basieren auf dem gespeicherten Abfrageverlauf. Aktivieren Sie das Abfrageprotokoll:''),
     (''analytics.range'', ''Zeitraum''),
     (''analytics.range_1h'', ''1 Stunde''),
     (''analytics.range_24h'', ''24 Stunden''),
     (''analytics.range_7d'', ''7 Tage''),
     (''analytics.range_30d'', ''30 Tage''),
     (''analytics.history_limited'', ''Der Abfrageverlauf reicht nur zur'' @ uni [0xFC] @ ''ck bis''),
     (''analytics.queries'', ''Anfragen''),
     (''analytics.blocked'', ''Blockiert''),
     (''analytics.allowed'', ''Erlaubt''),
     (''analytics.cached'', ''Cache-Antworten''),
     (''analytics.answers'', ''Antworten''),
     (''analytics.avg_upstream'', uni [0xD8] @ '' Upstream-Zeit''),
     (''analytics.empty_title'', ''Keine Anfragen in diesem Zeitraum''),
     (''analytics.empty_text'', ''W'' @ uni [0xE4] @ ''hlen Sie einen l'' @ uni [0xE4] @ ''ngeren Zeitraum oder schauen Sie sp'' @ uni [0xE4] @ ''ter wieder vorbei.''),
     (''analytics.over_time'', ''Anfragen im Zeitverlauf''),
     (''analytics.over_time_hint'', ''Mit der Maus oder den Pfeiltasten einen Abschnitt ansehen.''),
     (''analytics.chart_aria'', ''Anfragen pro Zeitabschnitt, erlaubt und blockiert''),
     (''analytics.show_table'', ''Als Tabelle anzeigen''),
     (''analytics.time'', ''Zeit''),
     (''analytics.avg_time'', uni [0xD8] @ '' Zeit''),
     (''analytics.latency'', ''Upstream-Antwortzeit''),
     (''analytics.latency_hint'', ''Durchschnitt beantworteter weitergeleiteter Anfragen; L'' @ uni [0xFC] @ ''cken bedeuten keinen Upstream-Verkehr.''),
     (''analytics.latency_aria'', ''Durchschnittliche Upstream-Antwortzeit pro Zeitabschnitt''),
     (''analytics.query_types'', ''Abfragetypen''),
     (''analytics.sources'', ''Beantwortet von''),
     (''analytics.source_upstream'', ''Upstream''),
     (''analytics.source_cache'', ''Cache''),
     (''analytics.source_blocked'', ''Blockiert''),
     (''analytics.source_local'', ''Lokale Zonen und Umschreibungen''),
     (''analytics.source_refused'', ''Abgelehnt''),
     (''analytics.response_codes'', ''Antwortcodes''),
     (''analytics.top_blocked'', ''Meistblockierte Domains''),
     (''analytics.nothing_blocked'', ''Nichts blockiert in diesem Zeitraum''),
     (''analytics.upstreams'', ''Upstream-Nutzung''),
     (''analytics.upstreams_hint'', ''Weitergeleitete Anfragen je Resolver, SERVFAIL-Antworten und durchschnittliche Antwortzeit.''),
     (''analytics.no_upstream'', ''Kein Upstream-Verkehr in diesem Zeitraum''),
     (''analytics.failures'', ''Fehler''),
     (''updates.check_prompt'', ''Pr'' @ uni [0xFC] @ ''fen, ob eine neuere Version verf'' @ uni [0xFC] @ ''gbar ist.''),
     (''updates.checking'', ''Suche nach Updates'' @ uni [0x2026]),
     (''updates.starting'', ''Update wird gestartet'' @ uni [0x2026]),
     (''updates.updating_to'', ''Aktualisierung auf''),
     (''updates.completed_to'', ''Aktualisiert auf''),
     (''updates.failed_title'', ''Das Update wurde nicht abgeschlossen''),
     (''updates.failed_text'', ''Das Update ist fehlgeschlagen. Velora l'' @ uni [0xE4] @ ''uft mit der vorherigen Version weiter.''),
     (''updates.not_started'', ''Der Updater hat das Update nicht gestartet. Pr'' @ uni [0xFC] @ ''fen Sie, ob velora-updater.service l'' @ uni [0xE4] @ ''uft.''),
     (''updates.check_again'', ''Erneut pr'' @ uni [0xFC] @ ''fen''),
     (''updates.update_now'', ''Aktualisieren''),
     (''updates.reload'', ''Seite neu laden''),
     (''updates.reconnecting'', ''Velora startet neu. Warte auf die R'' @ uni [0xFC] @ ''ckkehr'' @ uni [0x2026]),
     (''updates.keep_open'', ''Sie k'' @ uni [0xF6] @ ''nnen diese Seite offen lassen; sie aktualisiert sich selbst. DNS antwortet bis zum Wechsel mit der laufenden Version.''),
     (''updates.completed_text'', ''Das Update ist abgeschlossen und hat die Integrit'' @ uni [0xE4] @ ''tspr'' @ uni [0xFC] @ ''fungen bestanden. Laden Sie die Seite neu, um die neue Oberfl'' @ uni [0xE4] @ ''che zu laden.''),
     (''settings.entry'', ''Eintrag''),
     (''settings.fix_fields'', ''Es wurde nichts ge'' @ uni [0xE4] @ ''ndert. Korrigieren Sie die markierten Felder und versuchen Sie es erneut.''),
     (''settings.restart_required'', ''Es wurde nichts ge'' @ uni [0xE4] @ ''ndert. Die markierten Felder wirken erst nach einem Neustart: Konfigurationsdatei bearbeiten und Velora DNS neu starten.''),
     (''settings.restart_field'', ''Erfordert einen Neustart''),
     (''settings.check'', ''Pr'' @ uni [0xFC] @ ''fen''),
     (''settings.check_ok'', ''Diese Einstellungen sind g'' @ uni [0xFC] @ ''ltig und k'' @ uni [0xF6] @ ''nnen ohne Neustart '' @ uni [0xFC] @ ''bernommen werden.''),
     (''restore.title'', ''Backup wiederherstellen''),
     (''restore.hint'', ''Laden Sie ein verschl'' @ uni [0xFC] @ ''sseltes Backup hoch, um es zuerst zu pr'' @ uni [0xFC] @ ''fen. Erst nach Best'' @ uni [0xE4] @ ''tigung startet Velora neu, legt eine Sicherheitskopie an und rollt automatisch zur'' @ uni [0xFC] @ ''ck, falls der Start misslingt.''),
     (''restore.file'', ''Backup-Datei (.vdns)''),
     (''restore.inspect'', ''Backup pr'' @ uni [0xFC] @ ''fen''),
     (''restore.inspecting'', ''Wird gepr'' @ uni [0xFC] @ ''ft'' @ uni [0x2026]),
     (''restore.inspect_failed'', ''Das Backup konnte nicht gepr'' @ uni [0xFC] @ ''ft werden.''),
     (''restore.review_title'', ''Backup ist g'' @ uni [0xFC] @ ''ltig''),
     (''restore.created'', ''Erstellt'')]\<close>

definition dict_de_8 :: text_table where
  \<open>dict_de_8 = [
     (''restore.version'', ''Velora-Version''),
     (''restore.schema'', ''Datenbankschema''),
     (''restore.contents'', ''Inhalt''),
     (''restore.zones'', ''Zonen''),
     (''restore.records'', ''Eintr'' @ uni [0xE4] @ ''ge''),
     (''restore.blocklists'', ''Blocklisten''),
     (''restore.rewrites'', ''Umschreibungen''),
     (''restore.forward_rules'', ''Weiterleitungsregeln''),
     (''restore.clients'', ''Clients''),
     (''restore.users'', ''Benutzer''),
     (''restore.listeners'', ''Listener''),
     (''restore.web'', ''Web''),
     (''restore.confirm'', ''Aktuelle Konfiguration und Daten durch dieses Backup ersetzen. Eine Sicherheitskopie des aktuellen Stands wird aufbewahrt.''),
     (''restore.restore'', ''Wiederherstellen und neu starten''),
     (''restore.schedule_failed'', ''Die Wiederherstellung konnte nicht gestartet werden.''),
     (''restore.manual_restart'', ''Die Wiederherstellung ist geplant. Starten Sie Velora DNS neu, um sie anzuwenden.''),
     (''restore.restarting'', ''Velora startet neu, um das Backup anzuwenden. Diese Seite aktualisiert sich danach.''),
     (''restore.signed_out'', ''Velora l'' @ uni [0xE4] @ ''uft wieder mit den wiederhergestellten Daten. Melden Sie sich mit einem Konto aus dem Backup an.''),
     (''restore.again'', ''Weiteres Backup wiederherstellen''),
     (''restore.backup_from'', ''Backup vom''),
     (''restore.safety_copy'', ''Vorheriger Stand gesichert in''),
     (''restore.state_completed'', ''Wiederherstellung abgeschlossen.''),
     (''restore.state_rolled_back'', ''Wiederherstellung zur'' @ uni [0xFC] @ ''ckgerollt.''),
     (''restore.state_failed'', ''Wiederherstellung fehlgeschlagen.''),
     (''restore.state_applied'', ''Wiederherstellung angewendet; warte auf Bereitschaft.''),
     (''restore.state_pending'', ''Wiederherstellung geplant.''),
     (''restore.passphrase'', ''Backup-Passphrase''),
     (''app.scrollable_table'', ''seitlich scrollbar''),
     (''palette.title'', ''Befehlspalette''),
     (''palette.placeholder'', ''Seiten, Zonen, Eintr'' @ uni [0xE4] @ ''ge, Clients suchen'' @ uni [0x2026]),
     (''palette.results'', ''Ergebnisse''),
     (''palette.pages'', ''Seiten''),
     (''palette.actions'', ''Aktionen''),
     (''palette.kind_zone'', ''Zonen''),
     (''palette.kind_record'', ''Eintr'' @ uni [0xE4] @ ''ge''),
     (''palette.kind_client'', ''Clients''),
     (''palette.kind_rewrite'', ''DNS-Umschreibungen''),
     (''palette.kind_forwarding'', ''Bedingte Weiterleitung''),
     (''palette.kind_blocklist'', ''Blocklisten''),
     (''palette.no_results'', ''Keine Treffer.''),
     (''palette.navigate'', ''navigieren''),
     (''palette.open'', uni [0xF6] @ ''ffnen''),
     (''palette.toggle'', uni [0xF6] @ ''ffnen oder schlie'' @ uni [0xDF] @ ''en''),
     (''palette.open_button'', ''Suchen''),
     (''palette.add_client'', ''Client hinzuf'' @ uni [0xFC] @ ''gen''),
     (''palette.create_backup'', ''Backup erstellen''),
     (''cluster.action_failed'', ''Die Cluster-Aktion ist fehlgeschlagen.''),
     (''cluster.never'', ''nie''),
     (''cluster.role'', ''Rolle''),
     (''cluster.role_standalone'', ''Eigenst'' @ uni [0xE4] @ ''ndig''),
     (''cluster.role_primary'', ''Cluster-Prim'' @ uni [0xE4] @ ''rknoten''),
     (''cluster.role_replica'', ''Cluster-Replikat''),
     (''cluster.replicas'', ''Replikate''),
     (''cluster.in_sync_count'', ''synchron''),
     (''cluster.revision'', ''Zonenrevision''),
     (''cluster.zones_replicated'', ''Zonen repliziert''),
     (''cluster.last_sync'', ''Letzte Synchronisierung''),
     (''cluster.sync_failed'', ''Letzte Synchronisierung fehlgeschlagen''),
     (''cluster.sync_ok'', ''Aktuell mit dem Prim'' @ uni [0xE4] @ ''rknoten''),
     (''cluster.members'', ''Replikate''),
     (''cluster.members_hint'', ''Knoten, die die Zonen dieses Prim'' @ uni [0xE4] @ ''rknotens '' @ uni [0xFC] @ ''bernehmen. Sie melden sich alle 30 Sekunden.''),
     (''cluster.add_node'', ''Knoten hinzuf'' @ uni [0xFC] @ ''gen''),
     (''cluster.token_title'', ''Beitrittstoken erstellt''),
     (''cluster.token_steps'', uni [0xD6] @ ''ffnen Sie auf dem neuen Knoten Cluster '' @ uni [0x2192] @ '' Cluster beitreten und geben Sie ein:''),
     (''cluster.token_expires'', ''Das Token l'' @ uni [0xE4] @ ''uft ab um''),
     (''cluster.token_once'', ''Es funktioniert einmal und wird nicht erneut angezeigt.''),
     (''cluster.copy_token'', ''Token kopieren''),
     (''cluster.copied'', ''Kopiert''),
     (''cluster.token_done'', ''Fertig''),
     (''cluster.no_members'', ''Noch keine Replikate''),
     (''cluster.no_members_text'', ''F'' @ uni [0xFC] @ ''gen Sie einen Knoten hinzu, um ein Beitrittstoken f'' @ uni [0xFC] @ ''r einen zweiten Velora-DNS-Server zu erstellen.''),
     (''cluster.status_in_sync'', ''Synchron''),
     (''cluster.status_behind'', ''Holt auf''),
     (''cluster.status_stale'', ''Antwortet nicht''),
     (''cluster.status_error'', ''Synchronisierungsfehler''),
     (''cluster.status_never_synced'', ''Wartet auf erste Synchronisierung''),
     (''cluster.remove'', ''Knoten entfernen''),
     (''cluster.remove_confirm'', ''Dieses Replikat entfernen? Es erh'' @ uni [0xE4] @ ''lt dann keine Zonenaktualisierungen mehr:''),
     (''cluster.removed'', ''Replikat entfernt.''),
     (''cluster.dissolve'', ''Cluster aufl'' @ uni [0xF6] @ ''sen''),
     (''cluster.dissolve_hint'', ''Widerruft alle Replikate und macht diesen Knoten wieder eigenst'' @ uni [0xE4] @ ''ndig. Replikate behalten ihre letzte Kopie der Zonen.''),
     (''cluster.dissolve_confirm'', ''Cluster aufl'' @ uni [0xF6] @ ''sen und alle Replikate widerrufen?''),
     (''cluster.dissolved'', ''Der Cluster wurde aufgel'' @ uni [0xF6] @ ''st.''),
     (''cluster.replica_title'', ''Repliziert vom Prim'' @ uni [0xE4] @ ''rknoten''),
     (''cluster.replica_hint'', ''Zonen auf diesem Knoten werden vom Prim'' @ uni [0xE4] @ ''rknoten kopiert und sind hier schreibgesch'' @ uni [0xFC] @ ''tzt. Andere Einstellungen bleiben lokal.''),
     (''cluster.replica_ok'', ''Die Replikation funktioniert.''),
     (''cluster.sync_now'', ''Jetzt synchronisieren''),
     (''cluster.leave'', ''Cluster verlassen''),
     (''cluster.leave_confirm'', ''Cluster verlassen? Dieser Knoten beh'' @ uni [0xE4] @ ''lt seine Zonen und ist wieder bearbeitbar.''),
     (''cluster.left'', ''Dieser Knoten hat den Cluster verlassen.''),
     (''cluster.primary_url'', ''Prim'' @ uni [0xE4] @ ''r-URL''),
     (''cluster.cluster_id'', ''Cluster-ID''),
     (''cluster.node_id'', ''Knoten-ID''),
     (''cluster.join_token'', ''Beitrittstoken''),
     (''cluster.standalone_title'', ''Dieser Knoten ist eigenst'' @ uni [0xE4] @ ''ndig''),
     (''cluster.standalone_viewer'', ''Ein Administrator kann einen Cluster erstellen oder diesen Knoten einem Cluster hinzuf'' @ uni [0xFC] @ ''gen.''),
     (''cluster.scope_note'', ''Ein Cluster h'' @ uni [0xE4] @ ''lt lokale Zonen auf mehreren Velora-DNS-Servern gleich: Ein Prim'' @ uni [0xE4] @ ''rknoten nimmt '' @ uni [0xC4] @ ''nderungen an, Replikate '' @ uni [0xFC] @ ''bernehmen sie alle 30 Sekunden. Es gibt kein automatisches Failover, andere Einstellungen bleiben pro Knoten.''),
     (''cluster.create_title'', ''Cluster erstellen''),
     (''cluster.create_hint'', ''Dieser Knoten wird Prim'' @ uni [0xE4] @ ''rknoten. Seine Zonen werden auf alle Replikate kopiert.''),
     (''cluster.node_name'', ''Knotenname''),
     (''cluster.advertised_url'', ''Adresse f'' @ uni [0xFC] @ ''r andere Knoten''),
     (''cluster.advertised_hint'', ''Die URL der Weboberfl'' @ uni [0xE4] @ ''che dieses Knotens aus Sicht der Replikate.''),
     (''cluster.allow_http'', ''Unverschl'' @ uni [0xFC] @ ''sseltes HTTP erlauben (nur vertrauensw'' @ uni [0xFC] @ ''rdiges Netz)''),
     (''cluster.skip_check'', ''Erreichbarkeitspr'' @ uni [0xFC] @ ''fung '' @ uni [0xFC] @ ''berspringen''),
     (''cluster.create'', ''Cluster erstellen''),
     (''cluster.created'', ''Der Cluster wurde erstellt. F'' @ uni [0xFC] @ ''gen Sie einen Knoten hinzu, um ein Replikat einzuladen.''),
     (''cluster.join_title'', ''Cluster beitreten''),
     (''cluster.join_hint'', ''Machen Sie diesen Knoten zum Replikat eines Prim'' @ uni [0xE4] @ ''rknotens. Erstellen Sie zuerst das Beitrittstoken auf dem Prim'' @ uni [0xE4] @ ''rknoten.''),
     (''cluster.join_warning'', ''Beim Beitritt werden die lokalen Zonen dieses Knotens durch die des Prim'' @ uni [0xE4] @ ''rknotens ersetzt. Andere Einstellungen bleiben unver'' @ uni [0xE4] @ ''ndert.''),
     (''cluster.join_confirm'', ''Cluster beitreten und die Zonen dieses Knotens durch die des Prim'' @ uni [0xE4] @ ''rknotens ersetzen?''),
     (''cluster.join'', ''Cluster beitreten''),
     (''cluster.joined'', ''Dieser Knoten ist dem Cluster beigetreten und '' @ uni [0xFC] @ ''bernimmt die Zonen des Prim'' @ uni [0xE4] @ ''rknotens.''),
     (''cluster.zones_read_only'', ''Dieser Knoten ist ein Cluster-Replikat. Zonen werden vom Prim'' @ uni [0xE4] @ ''rknoten kopiert und k'' @ uni [0xF6] @ ''nnen nur dort ge'' @ uni [0xE4] @ ''ndert werden.'')]\<close>

definition dict_de :: text_table where
  "dict_de = dict_de_1 @ dict_de_2 @ dict_de_3 @ dict_de_4 @ dict_de_5 @ dict_de_6 @ dict_de_7 @ dict_de_8"

lemma de_titles: "distinct (map snd (with_prefix ''app.title.'' dict_de))"
  by (simp only: dict_de_def dict_de_1_def dict_de_2_def dict_de_3_def dict_de_4_def dict_de_5_def dict_de_6_def dict_de_7_def dict_de_8_def group_eval) (simp add: uni_def unit_text_def)

lemma de_labels: "distinct (map snd (with_prefix ''app.nav.'' dict_de))"
  by (simp only: dict_de_def dict_de_1_def dict_de_2_def dict_de_3_def dict_de_4_def dict_de_5_def dict_de_6_def dict_de_7_def dict_de_8_def group_eval) (simp add: uni_def unit_text_def)

end
