(* ===== verification/Texts_Es.thy ===== *)
theory Texts_Es
  imports Texts
begin

text \<open>The Spanish table, \<open>i18n/es.ts\<close>.\<close>

definition dict_es_1 :: text_table where
  \<open>dict_es_1 = [
     (''app.skip_to_content'', ''Saltar al contenido''),
     (''app.workspace_label'', ''ESPACIO DE TRABAJO''),
     (''app.nav.events'', ''Eventos''),
     (''app.title.events'', ''Eventos''),
     (''events.unread'', ''sin leer''),
     (''events.empty'', ''A'' @ uni [0xFA] @ ''n no hay eventos del sistema.''),
     (''events.load_failed'', ''No se pudieron cargar los eventos''),
     (''events.mark_read'', ''Marcar como le'' @ uni [0xED] @ ''do''),
     (''events.repeated'', ''Repetido''),
     (''events.open'', ''Abrir''),
     (''events.info'', ''Info''),
     (''events.warning'', ''Advertencia''),
     (''events.critical'', ''Cr'' @ uni [0xED] @ ''tico''),
     (''app.nav.main'', ''Navegaci'' @ uni [0xF3] @ ''n principal''),
     (''app.nav.overview'', ''Resumen''),
     (''app.nav.zones'', ''Zonas locales''),
     (''app.nav.queries'', ''Registro de consultas''),
     (''app.nav.blocklists'', ''Listas de bloqueo''),
     (''app.nav.cache'', ''Cach'' @ uni [0xE9] @ '' DNS''),
     (''app.nav.settings'', ''Configuraci'' @ uni [0xF3] @ ''n''),
     (''app.nav.updates'', ''Actualizaciones''),
     (''app.nav.backup'', ''Copia de seguridad''),
     (''app.sign_out'', ''Cerrar sesi'' @ uni [0xF3] @ ''n''),
     (''app.nav.audit'', ''Registro de auditor'' @ uni [0xED] @ ''a''),
     (''app.title.audit'', ''Registro de auditor'' @ uni [0xED] @ ''a''),
     (''app.nav.diagnostics'', ''Diagn'' @ uni [0xF3] @ ''stico''),
     (''app.title.diagnostics'', ''Diagn'' @ uni [0xF3] @ ''stico''),
     (''app.local_resolver'', ''Resolvedor local''),
     (''app.self_hosted_foundation'', ''Autoalojado '' @ uni [0xB7] @ '' Fundaci'' @ uni [0xF3] @ ''n''),
     (''app.private_by_default'', ''Privado por defecto''),
     (''app.privacy.query_retention'', ''El historial de consultas tiene un per'' @ uni [0xED] @ ''odo de retenci'' @ uni [0xF3] @ ''n limitado.''),
     (''app.privacy.no_query_history'', ''No se recopila el historial de consultas.''),
     (''app.github_repo'', ''Repositorio de GitHub''),
     (''app.connecting'', ''Conectando'' @ uni [0x2026]),
     (''app.workspace'', ''Espacio de trabajo''),
     (''app.connection_lost'', ''Conexi'' @ uni [0xF3] @ ''n perdida''),
     (''app.resolver_online'', ''Resolvedor en l'' @ uni [0xED] @ ''nea''),
     (''app.title.overview'', ''Resumen de la red''),
     (''app.title.zones'', ''Zonas locales''),
     (''app.title.queries'', ''Registro de consultas''),
     (''app.title.blocklists'', ''Listas de bloqueo''),
     (''app.title.cache'', ''Cach'' @ uni [0xE9] @ '' DNS''),
     (''app.title.settings'', ''Configuraci'' @ uni [0xF3] @ ''n''),
     (''app.title.updates'', ''Actualizaciones''),
     (''app.title.backup'', ''Copia de seguridad y restauraci'' @ uni [0xF3] @ ''n''),
     (''app.eyebrow'', ''TU RED DE UN VISTAZO''),
     (''app.subtitle.overview'', ''Una vista clara de tu DNS, desde la solicitud hasta la respuesta.''),
     (''app.subtitle.default'', ''Inspecciona y administra tu fundaci'' @ uni [0xF3] @ ''n de resolvedor.''),
     (''app.refresh'', ''Actualizar''),
     (''app.error.showing_last'', ''Mostrando la '' @ uni [0xFA] @ ''ltima captura exitosa desde''),
     (''app.error.check_server'', ''Verifica que el servidor Velora est'' @ uni [0xE9] @ '' en ejecuci'' @ uni [0xF3] @ ''n.''),
     (''app.error.reach_server'', ''No se puede acceder al servidor''),
     (''app.viewer_readonly'', ''Has iniciado sesi'' @ uni [0xF3] @ ''n como espectador. Las acciones de administraci'' @ uni [0xF3] @ ''n son de solo lectura.''),
     (''app.connecting_panel'', ''Conectando a tu resolvedor'' @ uni [0x2026]),
     (''app.not_found'', ''P'' @ uni [0xE1] @ ''gina no encontrada.''),
     (''app.footer.independent'', ''Velora DNS '' @ uni [0xB7] @ '' Independiente. Autoalojado.''),
     (''app.footer.last_updated'', uni [0xDA] @ ''ltima actualizaci'' @ uni [0xF3] @ ''n''),
     (''app.footer.waiting'', ''Esperando al servidor''),
     (''diagnostics.title'', ''Estado del sistema''),
     (''diagnostics.report_hint'', ''La descarga contiene estados de componentes y datos de compilaci'' @ uni [0xF3] @ ''n, sin secretos ni registros de consultas.''),
     (''diagnostics.download'', ''Descargar informe''),
     (''diagnostics.loading'', ''Cargando diagn'' @ uni [0xF3] @ ''stico'' @ uni [0x2026]),
     (''diagnostics.load_failed'', ''No se pudo cargar el diagn'' @ uni [0xF3] @ ''stico''),
     (''diagnostics.upstreams'', ''Servidores ascendentes''),
     (''diagnostics.component'', ''Componente''),
     (''diagnostics.state'', ''Estado''),
     (''diagnostics.detail'', ''Detalle''),
     (''diagnostics.state.healthy'', ''Saludable''),
     (''diagnostics.state.degraded'', ''Degradado''),
     (''diagnostics.state.failed'', ''Fallido''),
     (''explain.title'', uni [0xBF] @ ''Por qu'' @ uni [0xE9] @ '' se dio esta respuesta?''),
     (''explain.hint'', ''Simulaci'' @ uni [0xF3] @ ''n del resolvedor para un nombre. No se consulta al upstream ni se registra, almacena en cach'' @ uni [0xE9] @ '' o cuenta nada.''),
     (''explain.name'', ''Nombre''),
     (''explain.type'', ''Tipo de registro''),
     (''explain.client'', ''Direcci'' @ uni [0xF3] @ ''n del cliente (opcional)''),
     (''explain.client_hint'', ''Aplica la pol'' @ uni [0xED] @ ''tica de filtrado de ese cliente.''),
     (''explain.submit'', ''Explicar''),
     (''explain.running'', ''Explicando'' @ uni [0x2026]),
     (''explain.failed'', ''No se pudo explicar esta consulta''),
     (''explain.result'', ''Explicaci'' @ uni [0xF3] @ ''n''),
     (''explain.winner'', ''Etapa decisiva''),
     (''explain.answers'', ''Respuesta''),
     (''explain.no_answers'', ''Sin registros de respuesta: la respuesta vendr'' @ uni [0xED] @ ''a de un resolvedor upstream, al que no se consulta.''),
     (''explain.steps'', ''Etapas consideradas''),
     (''explain.step'', ''Etapa''),
     (''explain.outcome'', ''Resultado''),
     (''explain.detail'', ''Detalle''),
     (''explain.cname_target'', ''Destino del CNAME''),
     (''explain.ttl'', ''TTL restante''),
     (''explain.matches'', ''Coincidencia''),
     (''explain.allowed_by'', ''Permitido por''),
     (''explain.not_contacted'', ''No se consult'' @ uni [0xF3] @ '' a ning'' @ uni [0xFA] @ ''n upstream.''),
     (''explain.scope.global'', ''Filtrado global''),
     (''explain.scope.client_policy'', ''Pol'' @ uni [0xED] @ ''tica del cliente''),
     (''explain.stage.filter'', ''Lista de bloqueo o pol'' @ uni [0xED] @ ''tica del cliente''),
     (''explain.stage.rewrite'', ''Reescritura DNS''),
     (''explain.stage.zone'', ''Zona local''),
     (''explain.stage.cache'', ''Cach'' @ uni [0xE9]),
     (''explain.stage.forwarding'', ''Regla de reenv'' @ uni [0xED] @ ''o condicional''),
     (''explain.stage.upstream'', ''Resolvedores upstream globales''),
     (''explain.stage.refused'', ''Rechazado''),
     (''explain.result.passed'', ''Pas'' @ uni [0xF3]),
     (''explain.result.allowed'', ''Permitido''),
     (''explain.result.blocked'', ''Bloqueado''),
     (''explain.result.no_match'', ''Sin coincidencia''),
     (''explain.result.answered'', ''Respondido''),
     (''explain.result.miss'', ''Fallo de cach'' @ uni [0xE9]),
     (''explain.result.hit'', ''Acierto''),
     (''explain.result.refused'', ''Rechazado''),
     (''explain.result.would_forward'', ''Se reenviar'' @ uni [0xED] @ ''a''),
     (''explain.result.error'', ''Error''),
     (''explain.source.local'', ''Respuesta local''),
     (''explain.source.cache'', ''Cach'' @ uni [0xE9]),
     (''explain.source.blocked'', ''Bloqueado''),
     (''explain.source.upstream'', ''Upstream''),
     (''explain.source.refused'', ''Rechazado''),
     (''audit.title'', ''Registro de auditor'' @ uni [0xED] @ ''a administrativa''),
     (''audit.hint'', ''Las acciones administrativas se conservan 90 d'' @ uni [0xED] @ ''as. Se excluyen secretos y cuerpos de solicitud.''),
     (''audit.actor'', ''Actor'')]\<close>

definition dict_es_2 :: text_table where
  \<open>dict_es_2 = [
     (''audit.action'', ''Acci'' @ uni [0xF3] @ ''n''),
     (''audit.result'', ''Resultado''),
     (''audit.all'', ''Todos''),
     (''audit.success'', uni [0xC9] @ ''xito''),
     (''audit.failure'', ''Fallo''),
     (''audit.filter'', ''Filtrar''),
     (''audit.time'', ''Hora''),
     (''audit.target'', ''Destino''),
     (''audit.empty'', ''No se encontraron eventos de auditor'' @ uni [0xED] @ ''a.''),
     (''audit.more'', ''Cargar m'' @ uni [0xE1] @ ''s''),
     (''audit.load_failed'', ''No se pudieron cargar los eventos de auditor'' @ uni [0xED] @ ''a''),
     (''auth.checking'', ''Verificando sesi'' @ uni [0xF3] @ ''n'' @ uni [0x2026]),
     (''auth.sign_in_title'', ''Iniciar sesi'' @ uni [0xF3] @ ''n en Velora DNS''),
     (''auth.username'', ''Usuario''),
     (''auth.password'', ''Contrase'' @ uni [0xF1] @ ''a''),
     (''auth.sign_in'', ''Iniciar sesi'' @ uni [0xF3] @ ''n''),
     (''auth.sign_in_failed'', ''Error al iniciar sesi'' @ uni [0xF3] @ ''n''),
     (''settings.server_configuration'', ''Configuraci'' @ uni [0xF3] @ ''n del servidor''),
     (''settings.language'', ''Idioma''),
     (''settings.theme'', ''Tema''),
     (''settings.theme_light'', ''Claro''),
     (''settings.theme_dark'', ''Oscuro''),
     (''settings.theme_auto'', ''Autom'' @ uni [0xE1] @ ''tico''),
     (''settings.theme_hint'', ''El modo autom'' @ uni [0xE1] @ ''tico sigue el esquema de color claro u oscuro de tu sistema operativo.''),
     (''settings.log_level'', ''Nivel de registro''),
     (''settings.rate_limiting'', ''Limitaci'' @ uni [0xF3] @ ''n de velocidad''),
     (''settings.rate_limit_hint'', ''La limitaci'' @ uni [0xF3] @ ''n de velocidad est'' @ uni [0xE1] @ '' deshabilitada por defecto. Act'' @ uni [0xED] @ ''vala para proteger al resolvedor contra inundaciones de solicitudes y altas tasas de consulta.''),
     (''settings.rate_limit_enabled'', ''Habilitar limitaci'' @ uni [0xF3] @ ''n de velocidad''),
     (''settings.rate_limit_global_qps'', ''Consultas globales por segundo''),
     (''settings.rate_limit_client_qps'', ''Consultas por segundo por cliente''),
     (''settings.rate_limit_burst'', ''Tolerancia de r'' @ uni [0xE1] @ ''faga''),
     (''settings.rate_limit_rejected_total'', ''Consultas rechazadas''),
     (''settings.rate_limit_last_rejected'', uni [0xDA] @ ''ltimo rechazo''),
     (''settings.save'', ''Guardar''),
     (''settings.rate_limit_load_failed'', ''No se pudieron cargar las configuraciones de limitaci'' @ uni [0xF3] @ ''n de velocidad''),
     (''settings.rate_limit_save_failed'', ''No se pudieron guardar las configuraciones de limitaci'' @ uni [0xF3] @ ''n de velocidad''),
     (''settings.rate_limit_saved'', ''Configuraci'' @ uni [0xF3] @ ''n de limitaci'' @ uni [0xF3] @ ''n de velocidad guardada.''),
     (''settings.rate_limit_loading'', ''Cargando configuraci'' @ uni [0xF3] @ ''n de limitaci'' @ uni [0xF3] @ ''n de velocidad'' @ uni [0x2026]),
     (''settings.edit_hint'', ''Estas configuraciones corresponden a las opciones del instalador r'' @ uni [0xE1] @ ''pido. Algunos cambios requieren un reinicio; los cambios de TTL de cach'' @ uni [0xE9] @ '' se aplican de inmediato.''),
     (''settings.dns_section'', ''Configuraci'' @ uni [0xF3] @ ''n DNS''),
     (''settings.cache_section'', ''Cach'' @ uni [0xE9] @ '' DNS''),
     (''settings.cache_ttl_label'', ''TTL de cach'' @ uni [0xE9] @ '' de respuestas upstream (segundos)''),
     (''settings.cache_ttl_hint'', ''86400 segundos = 24 horas. Rango: 0'' @ uni [0x2013] @ ''604800 segundos; 0 usa el TTL original de cada upstream. Los cambios en upstream pueden tardar en reflejarse. Cambiar esto limpia las respuestas en cach'' @ uni [0xE9] @ '' existentes. Las respuestas con TTL cero y DNSSEC firmado conservan su TTL original.''),
     (''settings.cache_ttl_invalid'', ''Ingresa un n'' @ uni [0xFA] @ ''mero entero de 0 a 604800 segundos.''),
     (''settings.dns_listen_label'', ''Direcciones de escucha DNS (separadas por comas)''),
     (''settings.dns_listen_warning'', ''Advertencia: 0.0.0.0 expone el DNS a tu red. Aseg'' @ uni [0xFA] @ ''rate de que el firewall permita solo clientes de confianza.''),
     (''settings.upstreams_label'', ''Servidores DNS upstream (separados por comas)''),
     (''settings.upstreams_hint'', ''Formato: IP:PUERTO (ej. 1.1.1.1:53). Los upstreams DoH usan https://host/dns-query''),
     (''settings.allowed_clients_label'', ''Redes de clientes permitidas (CIDRs separados por comas)''),
     (''settings.allowed_clients_hint'', ''Solo estas redes pueden consultar al resolvedor. Ejemplo: 192.168.1.0/24, 10.0.0.0/8''),
     (''settings.web_section'', ''Configuraci'' @ uni [0xF3] @ ''n de la interfaz web''),
     (''settings.web_listen_label'', ''Direcci'' @ uni [0xF3] @ ''n de escucha de la interfaz web (IP:puerto)''),
     (''settings.web_listen_warning'', ''Advertencia: 0.0.0.0 expone la interfaz web a tu red. Usa un firewall o autenticaci'' @ uni [0xF3] @ ''n.''),
     (''settings.allowed_hosts_label'', ''Hosts permitidos (separados por comas)''),
     (''settings.allowed_hosts_hint'', ''Cabeceras de host permitidas para acceder a la API de administraci'' @ uni [0xF3] @ ''n. Usa * para permitir todas (no recomendado en una LAN).''),
     (''settings.logging_section'', ''Registros y otros''),
     (''settings.enable_query_log'', ''Habilitar registro de consultas''),
     (''settings.save_configuration'', ''Guardar configuraci'' @ uni [0xF3] @ ''n''),
     (''settings.saving'', ''Guardando'' @ uni [0x2026]),
     (''settings.save_success'', ''Configuraci'' @ uni [0xF3] @ ''n guardada y aplicada.''),
     (''settings.save_failed'', ''Error al guardar la configuraci'' @ uni [0xF3] @ ''n''),
     (''dashboard.total_queries'', ''Consultas totales''),
     (''dashboard.since_start'', ''Desde el '' @ uni [0xFA] @ ''ltimo reinicio de estad'' @ uni [0xED] @ ''sticas''),
     (''dashboard.reset_statistics'', ''Restablecer estad'' @ uni [0xED] @ ''sticas''),
     (''dashboard.reset_confirm'', uni [0xBF] @ ''Restablecer todos los contadores de consultas, cach'' @ uni [0xE9] @ '' y l'' @ uni [0xED] @ ''mites de tasa? Esta acci'' @ uni [0xF3] @ ''n no se puede deshacer.''),
     (''dashboard.reset_failed'', ''No se pudieron restablecer las estad'' @ uni [0xED] @ ''sticas''),
     (''dashboard.qps'', ''Consultas / segundo''),
     (''dashboard.rolling_avg'', ''Promedio m'' @ uni [0xF3] @ ''vil de 60 segundos''),
     (''dashboard.cache_hit_rate'', ''Tasa de aciertos de cach'' @ uni [0xE9]),
     (''dashboard.answers_from_memory'', ''respuestas servidas desde la memoria''),
     (''dashboard.uptime'', ''Tiempo de actividad''),
     (''dashboard.process_lifetime'', ''Tiempo de vida del proceso actual''),
     (''dashboard.top_domains'', ''Principales dominios''),
     (''dashboard.top_clients'', ''Principales clientes''),
     (''dashboard.query_activity'', ''Actividad de consultas''),
     (''dashboard.live_samples'', ''Muestras en vivo de tu resolvedor''),
     (''dashboard.refresh_5s'', ''Actualizaci'' @ uni [0xF3] @ ''n cada 5s''),
     (''dashboard.queries_per_sec'', ''consultas / seg''),
     (''dashboard.chart_aria'', ''Tasa de consultas muestreada durante esta sesi'' @ uni [0xF3] @ ''n del navegador''),
     (''dashboard.session_samples'', ''Muestras de la sesi'' @ uni [0xF3] @ ''n''),
     (''dashboard.now'', ''Ahora''),
     (''dashboard.upstream_resolvers'', ''Resolvedores upstream''),
     (''dashboard.ordered_failover'', ''Failover ordenado con respaldo TCP''),
     (''dashboard.endpoint'', ''Endpoint''),
     (''dashboard.health'', ''Estado''),
     (''dashboard.upstream_unknown'', ''Desconocido''),
     (''dashboard.upstream_healthy'', ''Saludable''),
     (''dashboard.upstream_degraded'', ''Degradado''),
     (''dashboard.upstream_unavailable'', ''No disponible''),
     (''dashboard.priority'', ''Prioridad''),
     (''dashboard.attempt_timeout'', ''Tiempo de espera del intento''),
     (''dashboard.primary'', ''Principal''),
     (''dashboard.fallback'', ''Respaldo''),
     (''dashboard.config_shown'', ''Configuraci'' @ uni [0xF3] @ ''n mostrada. La accesibilidad se eval'' @ uni [0xFA] @ ''a en cada consulta.''),
     (''dashboard.retained_last_24h'', ''Consultas retenidas durante las '' @ uni [0xFA] @ ''ltimas 24 horas''),
     (''dashboard.unavailable_no_logging'', ''No disponible mientras el registro de consultas est'' @ uni [0xE1] @ '' deshabilitado.''),
     (''dashboard.loading_stats'', ''Cargando estad'' @ uni [0xED] @ ''sticas de consultas'' @ uni [0x2026]),
     (''dashboard.stats_load_failed'', ''No se pudieron cargar las estad'' @ uni [0xED] @ ''sticas de consultas''),
     (''dashboard.no_retained'', ''No hay consultas retenidas en esta ventana.''),
     (''cache.live_entries'', ''Entradas en vivo''),
     (''cache.capacity'', ''Capacidad''),
     (''cache.hits'', ''Aciertos de cach'' @ uni [0xE9]),
     (''cache.since_startup'', ''Desde el inicio del proceso''),
     (''cache.misses'', ''Fallos de cach'' @ uni [0xE9]),
     (''cache.includes_uncacheable'', ''Incluye solicitudes no cacheables''),
     (''cache.memory_cache'', ''Cach'' @ uni [0xE9] @ '' en memoria''),
     (''cache.description'', ''Las respuestas upstream positivas usan el TTL de cach'' @ uni [0xE9] @ '' configurado. Las respuestas con TTL cero, DNSSEC firmado y negativas conservan sus reglas originales. Las entradas menos usadas se eliminan al alcanzar la capacidad. El contenido de la cach'' @ uni [0xE9] @ '' nunca se almacena en SQLite.''),
     (''cache.clear_description'', ''Limpiar la cach'' @ uni [0xE9] @ '' elimina todas las respuestas actuales. Los contadores de aciertos y fallos se mantienen.''),
     (''cache.clearing'', ''Limpiando'' @ uni [0x2026]),
     (''cache.clear'', ''Limpiar cach'' @ uni [0xE9]),
     (''cache.cleared'', ''Cach'' @ uni [0xE9] @ '' limpiada. Las zonas locales permanecen activas; otras consultas usar'' @ uni [0xE1] @ ''n los resolvedores upstream.''),
     (''cache.flush_failed'', ''Error al vaciar la cach'' @ uni [0xE9]),
     (''cache.entries_title'', ''Entradas DNS en cach'' @ uni [0xE9]),
     (''cache.entries_description'', ''Respuestas actuales, las m'' @ uni [0xE1] @ ''s usadas primero.''),
     (''cache.entries_loading'', ''Cargando entradas de cach'' @ uni [0xE9, 0x2026]),
     (''cache.entries_load_failed'', ''No se pudieron cargar las entradas de cach'' @ uni [0xE9]),
     (''cache.entries_empty'', ''La cach'' @ uni [0xE9] @ '' est'' @ uni [0xE1] @ '' vac'' @ uni [0xED] @ ''a.''),
     (''cache.entries_scroll_hint'', ''Despl'' @ uni [0xE1] @ ''zate horizontalmente para ver todas las columnas.''),
     (''cache.entry_name'', ''Nombre'')]\<close>

definition dict_es_3 :: text_table where
  \<open>dict_es_3 = [
     (''cache.entry_type'', ''Tipo''),
     (''cache.entry_answer'', ''Respuesta''),
     (''cache.entry_status'', ''Estado''),
     (''cache.entry_ttl'', ''TTL restante''),
     (''cache.seconds'', ''s''),
     (''cache.previous'', ''Anterior''),
     (''cache.next'', ''Siguiente''),
     (''querylog.unavailable_title'', ''Historial de consultas no disponible''),
     (''querylog.unavailable_text'', ''Habilita el registro de consultas para recopilar e inspeccionar la actividad DNS futura.''),
     (''querylog.up_to_100'', ''Hasta 100 respuestas retenidas por p'' @ uni [0xE1] @ ''gina''),
     (''querylog.refresh'', ''Actualizar consultas''),
     (''querylog.filters_aria'', ''Filtros de consulta''),
     (''querylog.domain'', ''Dominio''),
     (''querylog.contains_example'', ''Contiene example.com''),
     (''querylog.client_ip'', ''IP del cliente''),
     (''querylog.exact_ip'', ''Direcci'' @ uni [0xF3] @ ''n IP exacta''),
     (''querylog.query_type'', ''Tipo de consulta''),
     (''querylog.all_types'', ''Todos los tipos''),
     (''querylog.source'', ''Origen''),
     (''querylog.all_sources'', ''Todos los or'' @ uni [0xED] @ ''genes''),
     (''querylog.apply_filters'', ''Aplicar filtros''),
     (''querylog.show_blocked'', ''Mostrar consultas bloqueadas''),
     (''querylog.error_stale'', ''Los resultados anteriores pueden estar desactualizados.''),
     (''querylog.loading'', ''Cargando registro de consultas'' @ uni [0x2026]),
     (''querylog.no_matches'', ''No se encontraron consultas''),
     (''querylog.no_matches_text'', ''Prueba con filtros diferentes o genera tr'' @ uni [0xE1] @ ''fico DNS con el registro habilitado.''),
     (''querylog.caption'', ''Registro de consultas DNS''),
     (''querylog.col_timestamp'', ''Marca de tiempo''),
     (''querylog.col_client'', ''Cliente''),
     (''querylog.col_domain'', ''Dominio''),
     (''querylog.col_type'', ''Tipo''),
     (''querylog.col_source'', ''Origen''),
     (''querylog.col_response'', ''Respuesta''),
     (''querylog.col_latency'', ''Latencia''),
     (''querylog.older'', ''Consultas anteriores''),
     (''querylog.load_failed'', ''No se pudo cargar el registro de consultas''),
     (''blocklists.count'', ''fuentes externas''),
     (''blocklists.count_one'', ''fuente externa''),
     (''blocklists.sources_label'', ''Fuentes de pol'' @ uni [0xED] @ ''ticas DNS''),
     (''blocklists.reload'', ''Recargar''),
     (''blocklists.add_source'', ''Agregar fuente''),
     (''blocklists.add_aria'', ''Agregar fuente de lista de bloqueo''),
     (''blocklists.add_title'', ''Agregar lista de bloqueo externa''),
     (''blocklists.add_text'', ''Solo se aceptan fuentes HTTP(S) p'' @ uni [0xFA] @ ''blicas. Las actualizaciones fallidas mantienen las reglas DNS anteriores activas.''),
     (''blocklists.name'', ''Nombre''),
     (''blocklists.source_url'', ''URL de la fuente''),
     (''blocklists.community_hosts'', ''Hosts comunitarios''),
     (''blocklists.adding'', ''Agregando'' @ uni [0x2026]),
     (''blocklists.cancel'', ''Cancelar''),
     (''blocklists.loading'', ''Cargando fuentes de listas de bloqueo'' @ uni [0x2026]),
     (''blocklists.empty_title'', ''Sin listas de bloqueo externas''),
     (''blocklists.empty_text'', ''Agrega una lista p'' @ uni [0xFA] @ ''blica de hosts o dominios de confianza para aplicar bloqueos DNS.''),
     (''blocklists.caption'', ''Fuentes de listas de bloqueo externas''),
     (''blocklists.col_source'', ''Fuente''),
     (''blocklists.col_status'', ''Estado''),
     (''blocklists.col_last_update'', uni [0xDA] @ ''ltima actualizaci'' @ uni [0xF3] @ ''n''),
     (''blocklists.update_failed'', ''Error en la actualizaci'' @ uni [0xF3] @ ''n''),
     (''blocklists.active'', ''ACTIVO''),
     (''blocklists.disabled'', ''DESACTIVADO''),
     (''blocklists.never'', ''Nunca''),
     (''blocklists.updating'', ''Actualizando'' @ uni [0x2026]),
     (''blocklists.update'', ''Actualizar''),
     (''blocklists.load_failed'', ''No se pudieron cargar las listas de bloqueo''),
     (''blocklists.add_failed'', ''No se pudo agregar la fuente''),
     (''blocklists.update_failed_msg'', ''No se pudo actualizar la fuente''),
     (''blocklists.col_domains'', ''Dominios''),
     (''blocklists.local'', ''Local''),
     (''blocklists.enable'', ''Habilitar''),
     (''blocklists.disable'', ''Deshabilitar''),
     (''blocklists.toggle_failed'', ''No se pudo cambiar el estado de la fuente''),
     (''blocklists.edit_content'', ''Editar contenido''),
     (''blocklists.edit_content_aria'', ''Editar contenido de la lista de bloqueo''),
     (''blocklists.edit_content_title'', ''Editar dominios de la lista de bloqueo''),
     (''blocklists.edit_content_text'', ''Ingresa un dominio por l'' @ uni [0xED] @ ''nea. Las l'' @ uni [0xED] @ ''neas que comienzan con 0.0.0.0 o un comentario se tratan como entradas de host.''),
     (''blocklists.domains_label'', ''Dominios''),
     (''blocklists.saving'', ''Guardando'' @ uni [0x2026]),
     (''blocklists.save'', ''Guardar''),
     (''blocklists.content_save_failed'', ''No se pudo guardar el contenido''),
     (''blocklists.delete'', ''Eliminar''),
     (''blocklists.confirm_delete'', ''Confirmar''),
     (''blocklists.delete_failed'', ''No se pudo eliminar la fuente''),
     (''zones.count'', ''zonas locales''),
     (''zones.count_one'', ''zona local''),
     (''zones.local_authority'', ''Autoridad local''),
     (''zones.reload'', ''Recargar zonas''),
     (''zones.add_zone'', ''Agregar zona''),
     (''zones.error_stale'', ''Mostrando las '' @ uni [0xFA] @ ''ltimas zonas cargadas. Recarga antes de hacer cambios.''),
     (''zones.error_retry'', ''Recarga para intentar de nuevo.''),
     (''zones.reload_before_retry'', ''Recarga las zonas antes de reintentar.''),
     (''zones.loading'', ''Cargando zonas locales'' @ uni [0x2026]),
     (''zones.empty_title'', ''Dale a tu red nombres familiares''),
     (''zones.empty_text'', ''Crea una zona como home.arpa, luego agrega registros para tu enrutador, servicios y dispositivos.''),
     (''zones.create_first'', ''Crea tu primera zona''),
     (''zones.filter_aria'', ''Filtrar zonas''),
     (''zones.filter_placeholder'', ''Buscar una zona'' @ uni [0x2026]),
     (''zones.nav_aria'', ''Zonas locales''),
     (''zones.records_custom'', ''registros personalizados''),
     (''zones.no_matching'', ''No hay zonas que coincidan.''),
     (''zones.authoritative_eyebrow'', ''ZONA AUTORITATIVA''),
     (''zones.revision'', ''Revisi'' @ uni [0xF3] @ ''n''),
     (''zones.add_record'', ''Agregar registro''),
     (''zones.delete_zone_aria'', ''Eliminar zona''),
     (''zones.primary_ns'', ''NS primario''),
     (''zones.contact'', ''Contacto''),
     (''zones.delete_record_confirm'', ''Eliminar registro''),
     (''zones.delete_zone_confirm'', ''y todos los''),
     (''zones.delete_zone_confirm2'', ''registros? Esto no se puede deshacer.''),
     (''zones.deleting'', ''Eliminando'' @ uni [0x2026]),
     (''zones.delete_record_perm'', ''Eliminar registro permanentemente''),
     (''zones.delete_zone_perm'', ''Eliminar zona permanentemente''),
     (''zones.cancel_deletion'', ''Cancelar eliminaci'' @ uni [0xF3] @ ''n''),
     (''zones.record_saved'', ''Registro guardado. Los cambios DNS est'' @ uni [0xE1] @ ''n activos.''),
     (''zones.record_deleted'', ''Registro eliminado. Los cambios DNS est'' @ uni [0xE1] @ ''n activos.''),
     (''zones.zone_deleted'', ''Zona y sus registros eliminados.''),
     (''zones.zone_created'', ''Zona creada. Agrega registros para comenzar a usarla.''),
     (''zones.delete_failed'', ''No se pudo eliminar''),
     (''zones.footnote'', ''Las respuestas locales tienen prioridad sobre el reenv'' @ uni [0xED] @ ''o. Los dispositivos pueden retener respuestas anteriores hasta que expire su TTL.''),
     (''zones.record_form_edit_aria'', ''Editar registro DNS''),
     (''zones.record_form_add_aria'', ''Agregar registro DNS'')]\<close>

definition dict_es_4 :: text_table where
  \<open>dict_es_4 = [
     (''zones.edit_record'', ''Editar registro''),
     (''zones.add_record_form'', ''Agregar registro''),
     (''zones.changes_apply'', ''Los cambios se aplican a''),
     (''zones.record_name'', ''Nombre del registro''),
     (''zones.router_or_at'', ''router o @''),
     (''zones.relative_name_hint'', ''Nombre relativo, @ para la zona, o un nombre absoluto que termine en punto.''),
     (''zones.record_type'', ''Tipo de registro''),
     (''zones.ttl_seconds'', ''TTL (segundos)''),
     (''zones.priority'', ''Prioridad''),
     (''zones.ipv4_address'', ''Direcci'' @ uni [0xF3] @ ''n IPv4''),
     (''zones.ipv6_address'', ''Direcci'' @ uni [0xF3] @ ''n IPv6''),
     (''zones.text_value'', ''Valor de texto''),
     (''zones.target_hostname'', ''Hostname de destino''),
     (''zones.invalid_ttl'', ''Ingresa valores v'' @ uni [0xE1] @ ''lidos de TTL y prioridad.''),
     (''zones.record_conflict'', ''Esta zona cambi'' @ uni [0xF3] @ '' en otro lugar. Tu borrador est'' @ uni [0xE1] @ '' sin cambios. Cierra este formulario y recarga las zonas antes de reintentar.''),
     (''zones.save_failed'', ''No se pudo guardar el registro''),
     (''zones.saving'', ''Guardando'' @ uni [0x2026]),
     (''zones.save_record'', ''Guardar registro''),
     (''zones.cancel'', ''Cancelar''),
     (''zones.no_records_title'', ''A'' @ uni [0xFA] @ ''n no hay registros personalizados''),
     (''zones.no_records_text'', ''Agrega tu primer registro. SOA y el NS de respaldo se gestionan autom'' @ uni [0xE1] @ ''ticamente.''),
     (''zones.records_aria'', ''Registros DNS para''),
     (''zones.col_name'', ''Nombre''),
     (''zones.col_type'', ''Tipo''),
     (''zones.col_value'', ''Valor''),
     (''zones.col_ttl'', ''TTL''),
     (''zones.col_actions'', ''Acciones''),
     (''zones.edit_aria'', ''Editar''),
     (''zones.delete_aria'', ''Eliminar''),
     (''zones.record_word'', ''registro''),
     (''zones.create_title'', ''Crear una zona local''),
     (''zones.create_text'', ''Velora responder'' @ uni [0xE1] @ '' para esta zona y mantendr'' @ uni [0xE1] @ '' los nombres desconocidos dentro de tu red.''),
     (''zones.zone_name'', ''Nombre de la zona''),
     (''zones.authority_settings'', ''Configuraci'' @ uni [0xF3] @ ''n de autoridad''),
     (''zones.primary_nameserver'', ''Servidor de nombres primario''),
     (''zones.contact_mailbox'', ''Contacto (bandeja DNS)''),
     (''zones.creating'', ''Creando'' @ uni [0x2026]),
     (''zones.create_zone'', ''Crear zona''),
     (''zones.create_zone_aria'', ''Crear zona DNS''),
     (''zones.create_failed'', ''No se pudo crear la zona''),
     (''zones.load_failed'', ''No se pudieron cargar las zonas''),
     (''updates.loading'', ''Cargando estado de actualizaci'' @ uni [0xF3] @ ''n...''),
     (''updates.viewer_readonly'', ''Has iniciado sesi'' @ uni [0xF3] @ ''n como espectador. Las solicitudes de actualizaci'' @ uni [0xF3] @ ''n son de solo lectura.''),
     (''updates.in_progress'', ''Actualizaci'' @ uni [0xF3] @ ''n en progreso...''),
     (''updates.history'', ''Historial de actualizaciones''),
     (''updates.no_history'', ''No hay actualizaciones registradas a'' @ uni [0xFA] @ ''n.''),
     (''updates.col_from'', ''Desde''),
     (''updates.col_to'', ''Hasta''),
     (''updates.col_state'', ''Estado''),
     (''updates.col_started'', ''Iniciada''),
     (''updates.state_idle'', ''Inactiva''),
     (''updates.state_downloading'', ''Descargando''),
     (''updates.state_verifying'', ''Verificando''),
     (''updates.state_installing'', ''Instalando''),
     (''updates.state_readiness'', ''Esperando disponibilidad''),
     (''updates.state_completed'', ''Completada''),
     (''updates.state_rolled_back'', ''Revertida''),
     (''updates.state_failed'', ''Fallida''),
     (''updates.load_failed'', ''Error al cargar el estado de actualizaci'' @ uni [0xF3] @ ''n''),
     (''updates.request_failed'', ''Error al solicitar actualizaci'' @ uni [0xF3] @ ''n''),
     (''updates.check'', ''Check for updates''),
     (''updates.available'', ''Update available''),
     (''updates.up_to_date'', ''The system is up to date.''),
     (''updates.progress'', ''Update progress''),
     (''updates.rollback_used'', ''The previous version was restored.''),
     (''updates.rollback_recovered'', ''The previous version was restored and is healthy.''),
     (''backup.sqlite_only'', ''La exportaci'' @ uni [0xF3] @ ''n cifrada solo admite instalaciones SQLite por ahora.''),
     (''backup.create_title'', ''Copia cifrada''),
     (''backup.create_hint'', ''Descarga una copia versionada de la configuraci'' @ uni [0xF3] @ ''n y los datos persistentes. Guarda la contrase'' @ uni [0xF1] @ ''a.''),
     (''backup.passphrase'', ''Contrase'' @ uni [0xF1] @ ''a''),
     (''backup.creating'', ''Creando'' @ uni [0x2026]),
     (''backup.create'', ''Crear y descargar''),
     (''backup.create_failed'', ''No se pudo crear la copia''),
     (''backup.restore_hint'', ''Restaura el archivo cifrado con el servicio detenido. El comando conserva una copia de seguridad de la instalaci'' @ uni [0xF3] @ ''n actual.''),
     (''backup.loading'', ''Cargando estado de copia de seguridad...''),
     (''backup.status_title'', ''Estado de la copia de seguridad''),
     (''backup.database'', ''Base de datos:''),
     (''backup.last_backup'', uni [0xDA] @ ''ltima copia:''),
     (''backup.no_backup'', ''No hay copia de seguridad registrada a'' @ uni [0xFA] @ ''n''),
     (''backup.verification_state'', ''Estado de verificaci'' @ uni [0xF3] @ ''n:''),
     (''backup.state_unknown'', ''Desconocido''),
     (''backup.state_unverified'', ''No verificada''),
     (''backup.state_verified'', ''Verificada''),
     (''backup.verify_title'', ''Verificar copia de seguridad''),
     (''backup.verify_text'', ''Coloca una copia de la seguridad junto a la base de datos del servidor para verificar su integridad.''),
     (''backup.file_name'', ''Nombre del archivo de copia''),
     (''backup.file_hint'', ''Coloca la copia de seguridad junto a la base de datos en el servidor Velora. Solo se usa el nombre del archivo; los archivos del navegador y otros directorios no pueden verificarse aqu'' @ uni [0xED] @ ''.''),
     (''backup.viewer_readonly'', ''Has iniciado sesi'' @ uni [0xF3] @ ''n como espectador. La verificaci'' @ uni [0xF3] @ ''n de copias de seguridad es de solo lectura.''),
     (''backup.verifying'', ''Verificando...''),
     (''backup.verify'', ''Verificar''),
     (''backup.valid'', ''La copia de seguridad es v'' @ uni [0xE1] @ ''lida''),
     (''backup.invalid'', ''La copia de seguridad no es v'' @ uni [0xE1] @ ''lida''),
     (''backup.schema_version'', ''Versi'' @ uni [0xF3] @ ''n del esquema:''),
     (''backup.records'', ''Registros:''),
     (''backup.instructions'', ''Restaurar desde la l'' @ uni [0xED] @ ''nea de comandos''),
     (''backup.native'', ''Instalaci'' @ uni [0xF3] @ ''n nativa''),
     (''backup.docker'', ''Docker Compose''),
     (''backup.online'', ''Copia de seguridad en l'' @ uni [0xED] @ ''nea (SQLite)''),
     (''backup.load_failed'', ''Error al cargar el estado de copia de seguridad''),
     (''backup.verify_failed'', ''La verificaci'' @ uni [0xF3] @ ''n fall'' @ uni [0xF3]),
     (''backup.step_stop_service'', ''Detener el servicio''),
     (''backup.step_create_backup'', ''Crear una copia consistente''),
     (''backup.step_restart_service'', ''Reiniciar el servicio''),
     (''backup.step_stop_container'', ''Detener el contenedor''),
     (''backup.step_backup_volume'', ''Respaldar el volumen''),
     (''backup.step_restart_container'', ''Reiniciar el contenedor''),
     (''backup.step_online_backup'', ''Usar la API de SQLite para una copia en l'' @ uni [0xED] @ ''nea consistente''),
     (''onboarding.welcome'', ''Bienvenido a Velora DNS''),
     (''onboarding.complete_steps'', ''Completa estos pasos para asegurar tu instalaci'' @ uni [0xF3] @ ''n''),
     (''onboarding.dismiss'', ''Omitir''),
     (''onboarding.change_credentials'', ''Cambiar credenciales iniciales''),
     (''onboarding.change_credentials_text'', ''La contrase'' @ uni [0xF1] @ ''a de administrador predeterminada debe cambiarse despu'' @ uni [0xE9] @ ''s del primer inicio de sesi'' @ uni [0xF3] @ ''n.''),
     (''onboarding.review_dns'', ''Revisar configuraci'' @ uni [0xF3] @ ''n DNS''),
     (''onboarding.review_dns_text'', ''Aseg'' @ uni [0xFA] @ ''rate de que los servidores upstream y los clientes permitidos est'' @ uni [0xE9] @ ''n correctamente configurados para tu red.''),
     (''onboarding.restrict_clients'', ''Restringir acceso de clientes''),
     (''onboarding.restrict_clients_text'', ''Configura los CIDRs de allowed_clients para limitar qu'' @ uni [0xE9] @ '' redes pueden usar tu resolvedor.''),
     (''onboarding.verify_db'', ''Verificar almacenamiento de la base de datos''),
     (''onboarding.verify_db_text'', ''Aseg'' @ uni [0xFA] @ ''rate de que la ruta de la base de datos est'' @ uni [0xE9] @ '' en un almacenamiento confiable con espacio suficiente.'')]\<close>

definition dict_es_5 :: text_table where
  \<open>dict_es_5 = [
     (''onboarding.update_policy'', ''Configurar pol'' @ uni [0xED] @ ''tica de actualizaciones''),
     (''onboarding.update_policy_text'', ''Revisa el centro de actualizaciones para entender c'' @ uni [0xF3] @ ''mo mantener tu instalaci'' @ uni [0xF3] @ ''n actualizada.''),
     (''app.nav.dhcp'', ''DHCP''),
     (''app.title.dhcp'', ''Servidor DHCP''),
     (''dhcp.loading'', ''Cargando datos de DHCP'' @ uni [0x2026]),
     (''dhcp.load_failed'', ''Unable to load DHCP data''),
     (''dhcp.create_pool_failed'', ''Unable to create pool''),
     (''dhcp.delete_pool_failed'', ''Unable to delete pool''),
     (''dhcp.create_reservation_failed'', ''Unable to create reservation''),
     (''dhcp.delete_reservation_failed'', ''Unable to delete reservation''),
     (''dhcp.delete_lease_failed'', ''Unable to delete lease''),
     (''dhcp.pools'', ''Pools de DHCP''),
     (''dhcp.add_pool'', ''Agregar pool''),
     (''dhcp.pool_name'', ''Nombre del pool''),
     (''dhcp.interface'', ''Interfaz''),
     (''dhcp.subnet_cidr'', ''Subred (CIDR)''),
     (''dhcp.subnet'', ''Subred''),
     (''dhcp.gateway'', ''Puerta de enlace''),
     (''dhcp.dns_servers'', ''Servidores DNS''),
     (''dhcp.lease_seconds'', ''Tiempo de concesi'' @ uni [0xF3] @ ''n (segundos)''),
     (''dhcp.leases_label'', ''Concesiones''),
     (''dhcp.create'', ''Crear''),
     (''dhcp.no_pools'', ''No hay pools de DHCP configurados. Crea uno para comenzar a asignar concesiones.''),
     (''dhcp.reservations'', ''Reservas est'' @ uni [0xE1] @ ''ticas''),
     (''dhcp.mac_address'', ''Direcci'' @ uni [0xF3] @ ''n MAC''),
     (''dhcp.ip_address'', ''Direcci'' @ uni [0xF3] @ ''n IP''),
     (''dhcp.hostname'', ''Hostname''),
     (''dhcp.add'', ''Agregar''),
     (''dhcp.active_leases'', ''Concesiones activas''),
     (''dhcp.expires'', ''Expira''),
     (''dhcp.no_leases'', ''No hay concesiones activas.''),
     (''dhcp.expired'', ''Expirada''),
     (''dhcp.confirm_delete_pool'', uni [0xBF] @ ''Eliminar este pool y todas sus reservas?''),
     (''dhcp.name'', ''Nombre''),
     (''app.nav.cluster'', ''Cl'' @ uni [0xFA] @ ''ster''),
     (''app.title.cluster'', ''Resumen del cl'' @ uni [0xFA] @ ''ster''),
     (''cluster.loading'', ''Cargando datos del cl'' @ uni [0xFA] @ ''ster'' @ uni [0x2026]),
     (''cluster.load_failed'', ''Unable to load cluster data''),
     (''cluster.name'', ''Nombre''),
     (''cluster.status'', ''Estado''),
     (''cluster.version'', ''Versi'' @ uni [0xF3] @ ''n''),
     (''cluster.last_seen'', uni [0xDA] @ ''ltima conexi'' @ uni [0xF3] @ ''n''),
     (''cluster.config_history'', ''Historial de configuraci'' @ uni [0xF3] @ ''n''),
     (''cluster.no_versions'', ''No hay versiones de configuraci'' @ uni [0xF3] @ ''n registradas.''),
     (''cluster.hash'', ''Hash''),
     (''cluster.applied_by'', ''Aplicado por''),
     (''cluster.applied_at'', ''Aplicado el''),
     (''app.nav.group_dns'', ''DNS''),
     (''app.nav.group_network'', ''Red''),
     (''app.nav.group_system'', ''Sistema''),
     (''app.menu_open'', ''Abrir navegaci'' @ uni [0xF3] @ ''n''),
     (''app.menu_close'', ''Cerrar navegaci'' @ uni [0xF3] @ ''n''),
     (''app.theme_to_dark'', ''Cambiar al tema oscuro''),
     (''app.theme_to_light'', ''Cambiar al tema claro''),
     (''app.signed_in_as'', ''Sesi'' @ uni [0xF3] @ ''n iniciada como''),
     (''app.subtitle.zones'', ''Nombres autoritativos para dispositivos y servicios de tu red.''),
     (''app.subtitle.queries'', ''Consultas recientes respondidas por este resolver.''),
     (''app.subtitle.blocklists'', ''Listas de dominios que se responden como bloqueados.''),
     (''app.subtitle.cache'', ''Respuestas guardadas en memoria para acelerar consultas repetidas.''),
     (''app.subtitle.settings'', ''Resolver, interfaz web y preferencias personales.''),
     (''app.subtitle.updates'', ''Versi'' @ uni [0xF3] @ ''n instalada, versiones disponibles e historial de actualizaciones.''),
     (''app.subtitle.backup'', ''Crea copias de seguridad cifradas y verifica las existentes.''),
     (''app.subtitle.dhcp'', ''Rangos de direcciones, reservas y concesiones activas.''),
     (''app.subtitle.cluster'', ''Mant'' @ uni [0xE9] @ ''n las zonas locales id'' @ uni [0xE9] @ ''nticas en varios servidores Velora DNS.''),
     (''app.subtitle.diagnostics'', ''Estado de los componentes y un informe de soporte para compartir.''),
     (''app.subtitle.events'', ''Cosas que requieren tu atenci'' @ uni [0xF3] @ ''n.''),
     (''app.subtitle.audit'', ''Qui'' @ uni [0xE9] @ ''n cambi'' @ uni [0xF3] @ '' qu'' @ uni [0xE9] @ '' y cu'' @ uni [0xE1] @ ''ndo.''),
     (''settings.preferences'', ''Preferencias''),
     (''dashboard.general_statistics'', ''Estad'' @ uni [0xED] @ ''sticas generales''),
     (''dashboard.blocked'', ''Bloqueadas por filtros''),
     (''dashboard.of_all_queries'', ''de todas las consultas''),
     (''dashboard.query_logging'', ''Registro de consultas''),
     (''dashboard.enabled'', ''Activado''),
     (''dashboard.disabled'', ''Desactivado''),
     (''dashboard.requests'', ''Solicitudes''),
     (''dashboard.domain'', ''Dominio''),
     (''dashboard.client'', ''Cliente''),
     (''dashboard.upstream_servers'', ''Servidores upstream''),
     (''dashboard.collecting_samples'', ''Recopilando muestras'' @ uni [0x2026]),
     (''cache.search_label'', ''Buscar por nombre''),
     (''cache.search_placeholder'', ''example.org''),
     (''cache.all_types'', ''Todos los tipos''),
     (''cache.remove_entry'', ''Quitar de la cach'' @ uni [0xE9]),
     (''cache.invalidate_title'', ''Invalidar un dominio''),
     (''cache.invalidate_text'', ''Quita las respuestas en cach'' @ uni [0xE9] @ '' de un nombre sin vaciar toda la cach'' @ uni [0xE9] @ ''.''),
     (''cache.domain'', ''Dominio''),
     (''cache.include_subdomains'', ''Incluir subdominios''),
     (''cache.invalidate'', ''Invalidar''),
     (''cache.removed_entries'', ''Entradas eliminadas de la cach'' @ uni [0xE9]),
     (''cache.invalidate_failed'', ''La invalidaci'' @ uni [0xF3] @ ''n fall'' @ uni [0xF3]),
     (''cache.flush_confirm'', uni [0xBF] @ ''Borrar todas las respuestas en cach'' @ uni [0xE9] @ ''? Se conservan los contadores de aciertos y fallos.''),
     (''cache.no_matches'', ''Ninguna entrada coincide con este filtro.''),
     (''blocklists.schedule'', ''Programaci'' @ uni [0xF3] @ ''n de actualizaci'' @ uni [0xF3] @ ''n''),
     (''blocklists.schedule_for'', ''Programaci'' @ uni [0xF3] @ ''n de actualizaci'' @ uni [0xF3] @ ''n de''),
     (''blocklists.manual'', ''Manual''),
     (''blocklists.every_1h'', ''Cada hora''),
     (''blocklists.every_6h'', ''Cada 6 horas''),
     (''blocklists.every_12h'', ''Cada 12 horas''),
     (''blocklists.every_24h'', ''Diariamente''),
     (''blocklists.every_7d'', ''Semanalmente''),
     (''blocklists.col_next_update'', ''Pr'' @ uni [0xF3] @ ''xima actualizaci'' @ uni [0xF3] @ ''n''),
     (''blocklists.due_now'', ''Pendiente ahora''),
     (''blocklists.never_updated'', ''Nunca actualizada''),
     (''blocklists.retry_count'', ''intentos fallidos''),
     (''blocklists.schedule_failed'', ''No se pudo cambiar la programaci'' @ uni [0xF3] @ ''n''),
     (''app.nav.forwarding'', ''Reenv'' @ uni [0xED] @ ''o condicional''),
     (''app.title.forwarding'', ''Reenv'' @ uni [0xED] @ ''o condicional''),
     (''app.subtitle.forwarding'', ''Env'' @ uni [0xED] @ ''a las consultas de dominios seleccionados a resolvers dedicados.''),
     (''forwarding.count'', ''reglas de reenv'' @ uni [0xED] @ ''o''),
     (''forwarding.add'', ''A'' @ uni [0xF1] @ ''adir regla''),
     (''forwarding.add_title'', ''Nueva regla de reenv'' @ uni [0xED] @ ''o''),
     (''forwarding.edit_title'', ''Editar regla de reenv'' @ uni [0xED] @ ''o''),
     (''forwarding.form_hint'', ''La regla tambi'' @ uni [0xE9] @ ''n cubre todos los nombres bajo el dominio. Gana la regla activa m'' @ uni [0xE1] @ ''s espec'' @ uni [0xED] @ ''fica.''),
     (''forwarding.domain'', ''Dominio''),
     (''forwarding.upstreams'', ''Resolvers''),
     (''forwarding.upstreams_hint'', ''De 1 a 4 direcciones como IP o IP:puerto, separadas por comas. Se usa el puerto 53 si se omite.''),
     (''forwarding.description'', ''Descripci'' @ uni [0xF3] @ ''n''),
     (''forwarding.enabled'', ''Activada''),
     (''forwarding.save'', ''Guardar regla'')]\<close>

definition dict_es_6 :: text_table where
  \<open>dict_es_6 = [
     (''forwarding.cancel'', ''Cancelar''),
     (''forwarding.empty_title'', ''No hay reglas de reenv'' @ uni [0xED] @ ''o''),
     (''forwarding.empty_text'', ''Todas las consultas usan los resolvers globales. A'' @ uni [0xF1] @ ''ade una regla para resolver un dominio como corp.example mediante un servidor DNS interno.''),
     (''forwarding.col_status'', ''Estado''),
     (''forwarding.test'', ''Probar''),
     (''forwarding.test_title'', ''Probar regla''),
     (''forwarding.test_hint'', ''Env'' @ uni [0xED] @ ''a una consulta solo por los resolvers de esta regla, sin cach'' @ uni [0xE9] @ ''.''),
     (''forwarding.test_name'', ''Nombre''),
     (''forwarding.test_type'', ''Tipo''),
     (''forwarding.run_test'', ''Ejecutar prueba''),
     (''forwarding.test_via'', ''v'' @ uni [0xED] @ ''a''),
     (''forwarding.no_answers'', ''Sin registros de respuesta''),
     (''forwarding.edit'', ''Editar''),
     (''forwarding.delete'', ''Eliminar''),
     (''forwarding.delete_confirm'', uni [0xBF] @ ''Eliminar la regla de reenv'' @ uni [0xED] @ ''o de''),
     (''forwarding.toggle'', ''Activar o desactivar la regla de''),
     (''forwarding.load_failed'', ''No se pudieron cargar las reglas''),
     (''forwarding.save_failed'', ''No se pudo guardar la regla''),
     (''forwarding.saved'', ''Regla guardada. Se borraron las respuestas en cach'' @ uni [0xE9] @ '' del dominio.''),
     (''forwarding.disabled'', ''Desactivada''),
     (''app.nav.rewrites'', ''Reescrituras DNS''),
     (''app.title.rewrites'', ''Reescrituras DNS''),
     (''app.subtitle.rewrites'', ''Responde nombres elegidos con direcciones o alias fijos.''),
     (''rewrites.count'', ''reescrituras''),
     (''rewrites.add'', ''A'' @ uni [0xF1] @ ''adir reescritura''),
     (''rewrites.add_title'', ''Nueva reescritura''),
     (''rewrites.edit_title'', ''Editar reescritura''),
     (''rewrites.form_hint'', ''Usa *.padre para todos los nombres bajo un dominio. Los nombres exactos ganan a los comodines.''),
     (''rewrites.name'', ''Nombre''),
     (''rewrites.type'', ''Tipo''),
     (''rewrites.value'', ''Respuesta''),
     (''rewrites.value_hint_A'', ''Direcci'' @ uni [0xF3] @ ''n IPv4''),
     (''rewrites.value_hint_AAAA'', ''Direcci'' @ uni [0xF3] @ ''n IPv6''),
     (''rewrites.value_hint_CNAME'', ''Nombre de host destino, resuelto normalmente''),
     (''rewrites.description'', ''Descripci'' @ uni [0xF3] @ ''n''),
     (''rewrites.enabled'', ''Activada''),
     (''rewrites.save'', ''Guardar reescritura''),
     (''rewrites.empty_title'', ''No hay reescrituras DNS''),
     (''rewrites.empty_text'', ''Asigna un nombre como nas.home a una direcci'' @ uni [0xF3] @ ''n sin crear una zona.''),
     (''rewrites.col_notes'', ''Notas''),
     (''rewrites.blocked_hint'', ''Bloqueado primero por una lista de bloqueo''),
     (''rewrites.overrides_hint'', ''Sustituye la zona local''),
     (''rewrites.edit'', ''Editar''),
     (''rewrites.delete'', ''Eliminar''),
     (''rewrites.delete_confirm'', uni [0xBF] @ ''Eliminar esta reescritura?''),
     (''rewrites.toggle'', ''Activar o desactivar la reescritura de''),
     (''rewrites.search'', ''Filtrar reescrituras''),
     (''rewrites.load_failed'', ''No se pudieron cargar las reescrituras''),
     (''rewrites.save_failed'', ''No se pudo guardar la reescritura''),
     (''rewrites.saved'', ''Reescritura guardada y aplicada.''),
     (''app.nav.clients'', ''Clientes''),
     (''app.title.clients'', ''Clientes y dispositivos''),
     (''app.subtitle.clients'', ''Asigna nombres a direcciones y redes que se usan en todo Velora.''),
     (''clients.count'', ''clientes''),
     (''clients.add'', ''A'' @ uni [0xF1] @ ''adir cliente''),
     (''clients.add_title'', ''Nuevo cliente''),
     (''clients.edit_title'', ''Editar cliente''),
     (''clients.form_hint'', ''Si las redes se solapan, gana la m'' @ uni [0xE1] @ ''s espec'' @ uni [0xED] @ ''fica. Asigna una direcci'' @ uni [0xF3] @ ''n fija a los dispositivos DHCP antes de nombrarlos.''),
     (''clients.name'', ''Nombre''),
     (''clients.addresses'', ''Direcciones''),
     (''clients.addresses_hint'', ''Direcciones IP o redes CIDR, separadas por comas.''),
     (''clients.group'', ''Grupo''),
     (''clients.description'', ''Descripci'' @ uni [0xF3] @ ''n''),
     (''clients.enabled'', ''Activado''),
     (''clients.save'', ''Guardar cliente''),
     (''clients.activity'', uni [0xDA] @ ''ltimas 24 horas''),
     (''clients.queries'', ''consultas''),
     (''clients.last_seen'', ''Visto por '' @ uni [0xFA] @ ''ltima vez''),
     (''clients.no_activity'', ''Sin consultas''),
     (''clients.view_queries'', ''Ver consultas''),
     (''clients.empty_title'', ''No hay clientes con nombre''),
     (''clients.empty_text'', ''Nombra dispositivos como una TV o Home Assistant para reconocerlos en el registro de consultas.''),
     (''clients.unnamed_title'', ''Vistos recientemente sin nombre''),
     (''clients.unnamed_text'', ''Direcciones m'' @ uni [0xE1] @ ''s activas de las '' @ uni [0xFA] @ ''ltimas 24 horas sin cliente.''),
     (''clients.name_it'', ''Nombrar dispositivo''),
     (''clients.edit'', ''Editar''),
     (''clients.delete'', ''Eliminar''),
     (''clients.delete_confirm'', uni [0xBF] @ ''Eliminar el cliente''),
     (''clients.toggle'', ''Activar o desactivar el cliente''),
     (''clients.load_failed'', ''No se pudieron cargar los clientes''),
     (''clients.save_failed'', ''No se pudo guardar el cliente''),
     (''clients.saved'', ''Cliente guardado.''),
     (''clients.logging_off'', ''Activa el registro de consultas para ver la actividad.''),
     (''app.nav.policies'', ''Pol'' @ uni [0xED] @ ''ticas por cliente''),
     (''app.title.policies'', ''Pol'' @ uni [0xED] @ ''ticas de filtrado por cliente''),
     (''app.subtitle.policies'', ''Elige c'' @ uni [0xF3] @ ''mo se aplica el bloqueo a cada cliente.''),
     (''policies.load_failed'', ''No se pudieron cargar las pol'' @ uni [0xED] @ ''ticas.''),
     (''policies.save_failed'', ''No se pudo guardar la pol'' @ uni [0xED] @ ''tica.''),
     (''policies.saved'', ''Pol'' @ uni [0xED] @ ''tica guardada.''),
     (''policies.lookup'', ''Comprobar direcci'' @ uni [0xF3] @ ''n''),
     (''policies.add'', ''A'' @ uni [0xF1] @ ''adir pol'' @ uni [0xED] @ ''tica''),
     (''policies.add_title'', ''Nueva pol'' @ uni [0xED] @ ''tica''),
     (''policies.edit_title'', ''Editar pol'' @ uni [0xED] @ ''tica''),
     (''policies.form_hint'', ''La red de cliente m'' @ uni [0xE1] @ ''s espec'' @ uni [0xED] @ ''fica decide qu'' @ uni [0xE9] @ '' pol'' @ uni [0xED] @ ''tica usa una direcci'' @ uni [0xF3] @ ''n.''),
     (''policies.client'', ''Cliente''),
     (''policies.mode'', ''Filtrado''),
     (''policies.mode_default'', ''Global''),
     (''policies.mode_disabled'', ''Sin filtrado''),
     (''policies.mode_custom'', ''Personalizado''),
     (''policies.mode_default_hint'', ''Las mismas listas de bloqueo y permitidos que el resto.''),
     (''policies.mode_disabled_hint'', ''No se bloquea nada para este cliente.''),
     (''policies.mode_custom_hint'', ''Solo las listas elegidas y tus propios dominios.''),
     (''policies.blocklists'', ''Listas de bloqueo''),
     (''policies.no_sources'', ''A'' @ uni [0xFA] @ ''n no hay listas de bloqueo.''),
     (''policies.globally_off'', ''desactivada globalmente''),
     (''policies.block'', ''Bloquear tambi'' @ uni [0xE9] @ ''n''),
     (''policies.allow'', ''Permitir siempre''),
     (''policies.domains_hint'', ''Un dominio por l'' @ uni [0xED] @ ''nea; incluye subdominios.''),
     (''policies.allow_hint'', ''Tiene prioridad sobre todas las listas para este cliente.''),
     (''policies.enabled'', ''Pol'' @ uni [0xED] @ ''tica activa''),
     (''policies.save'', ''Guardar pol'' @ uni [0xED] @ ''tica''),
     (''policies.empty_title'', ''No hay pol'' @ uni [0xED] @ ''ticas por cliente''),
     (''policies.empty_text'', ''Todos los clientes usan las listas globales. A'' @ uni [0xF1] @ ''ade una pol'' @ uni [0xED] @ ''tica para filtrar un dispositivo de forma m'' @ uni [0xE1] @ ''s estricta, m'' @ uni [0xE1] @ ''s laxa o nada.''),
     (''policies.need_clients'', ''Las pol'' @ uni [0xED] @ ''ticas se aplican a clientes con nombre. Primero nombra un dispositivo:''),
     (''policies.details'', ''Detalles''),
     (''policies.summary_disabled'', ''Todas las consultas se responden sin filtrar''),
     (''policies.summary_default'', ''Usa las listas globales''),
     (''policies.no_lists'', ''Sin listas''),
     (''policies.blocked_short'', ''bloqueados'')]\<close>

definition dict_es_7 :: text_table where
  \<open>dict_es_7 = [
     (''policies.allowed_short'', ''permitidos''),
     (''policies.paused'', ''En pausa''),
     (''policies.toggle'', ''Pol'' @ uni [0xED] @ ''tica activa''),
     (''policies.edit'', ''Editar pol'' @ uni [0xED] @ ''tica''),
     (''policies.delete'', ''Eliminar pol'' @ uni [0xED] @ ''tica''),
     (''policies.delete_confirm'', uni [0xBF] @ ''Eliminar la pol'' @ uni [0xED] @ ''tica de''),
     (''policies.no_policy'', ''(sin pol'' @ uni [0xED] @ ''tica, filtrado global)''),
     (''policies.unknown_address'', ''no coincide con ning'' @ uni [0xFA] @ ''n cliente y usa el filtrado global.''),
     (''app.nav.webhooks'', ''Webhooks''),
     (''app.title.webhooks'', ''Notificaciones por webhook''),
     (''app.subtitle.webhooks'', ''Env'' @ uni [0xED] @ ''a eventos importantes a otros sistemas.''),
     (''webhooks.load_failed'', ''No se pudieron cargar los webhooks.''),
     (''webhooks.save_failed'', ''No se pudo guardar el webhook.''),
     (''webhooks.saved'', ''Webhook guardado.''),
     (''webhooks.count'', ''webhooks''),
     (''webhooks.add'', ''A'' @ uni [0xF1] @ ''adir webhook''),
     (''webhooks.add_title'', ''Nuevo webhook''),
     (''webhooks.edit_title'', ''Editar webhook''),
     (''webhooks.form_hint'', ''Velora env'' @ uni [0xED] @ ''a una solicitud POST JSON por cada evento coincidente. El env'' @ uni [0xED] @ ''o se hace en segundo plano y nunca retrasa las respuestas DNS.''),
     (''webhooks.name'', ''Nombre''),
     (''webhooks.url'', ''URL''),
     (''webhooks.min_severity'', ''Gravedad m'' @ uni [0xED] @ ''nima''),
     (''webhooks.severity_info'', ''Informaci'' @ uni [0xF3] @ ''n''),
     (''webhooks.severity_warning'', ''Advertencia''),
     (''webhooks.severity_critical'', ''Cr'' @ uni [0xED] @ ''tico''),
     (''webhooks.token'', ''Token bearer''),
     (''webhooks.token_hint'', ''Opcional. Se env'' @ uni [0xED] @ ''a como cabecera Authorization y no vuelve a mostrarse.''),
     (''webhooks.token_stored'', ''Token guardado''),
     (''webhooks.token_change'', ''Cambiar''),
     (''webhooks.token_remove_hint'', ''D'' @ uni [0xE9] @ ''jalo vac'' @ uni [0xED] @ ''o para quitar el token''),
     (''webhooks.events'', ''Eventos''),
     (''webhooks.events_hint'', ''No selecciones ninguno para recibir todos los tipos.''),
     (''webhooks.all_events'', ''Todos los eventos''),
     (''webhooks.allow_private'', ''Permitir destino en red privada (por ejemplo Home Assistant en tu LAN)''),
     (''webhooks.enabled'', ''Webhook activo''),
     (''webhooks.save'', ''Guardar webhook''),
     (''webhooks.empty_title'', ''No hay webhooks''),
     (''webhooks.empty_text'', ''A'' @ uni [0xF1] @ ''ade un webhook para saber cu'' @ uni [0xE1] @ ''ndo falla un upstream, una lista no se actualiza o falla una copia.''),
     (''webhooks.last_delivery'', uni [0xDA] @ ''ltimo env'' @ uni [0xED] @ ''o''),
     (''webhooks.never'', ''A'' @ uni [0xFA] @ ''n no se ha enviado nada''),
     (''webhooks.failing'', ''Fallando''),
     (''webhooks.toggle'', ''Webhook activo''),
     (''webhooks.test'', ''Enviar prueba''),
     (''webhooks.test_ok'', ''Prueba entregada a''),
     (''webhooks.test_failed'', ''La prueba fall'' @ uni [0xF3] @ '' para''),
     (''webhooks.edit'', ''Editar webhook''),
     (''webhooks.delete'', ''Eliminar webhook''),
     (''webhooks.delete_confirm'', uni [0xBF] @ ''Eliminar el webhook''),
     (''app.nav.analytics'', ''Anal'' @ uni [0xED] @ ''tica''),
     (''app.title.analytics'', ''Anal'' @ uni [0xED] @ ''tica''),
     (''app.subtitle.analytics'', ''Actividad DNS y rendimiento del resolver a partir del historial conservado.''),
     (''analytics.load_failed'', ''No se pudo cargar la anal'' @ uni [0xED] @ ''tica.''),
     (''analytics.logging_off_title'', ''El registro de consultas est'' @ uni [0xE1] @ '' desactivado''),
     (''analytics.logging_off_text'', ''La anal'' @ uni [0xED] @ ''tica se basa en el historial de consultas. Activa el registro de consultas:''),
     (''analytics.range'', ''Intervalo''),
     (''analytics.range_1h'', ''1 hora''),
     (''analytics.range_24h'', ''24 horas''),
     (''analytics.range_7d'', ''7 d'' @ uni [0xED] @ ''as''),
     (''analytics.range_30d'', ''30 d'' @ uni [0xED] @ ''as''),
     (''analytics.history_limited'', ''El historial solo llega hasta''),
     (''analytics.queries'', ''Consultas''),
     (''analytics.blocked'', ''Bloqueadas''),
     (''analytics.allowed'', ''Permitidas''),
     (''analytics.cached'', ''Respuestas de cach'' @ uni [0xE9]),
     (''analytics.answers'', ''respuestas''),
     (''analytics.avg_upstream'', ''Tiempo medio upstream''),
     (''analytics.empty_title'', ''No hay consultas en este intervalo''),
     (''analytics.empty_text'', ''Elige un intervalo m'' @ uni [0xE1] @ ''s largo o vuelve cuando haya consultas.''),
     (''analytics.over_time'', ''Consultas en el tiempo''),
     (''analytics.over_time_hint'', ''Pasa el rat'' @ uni [0xF3] @ ''n o usa las flechas para ver un intervalo.''),
     (''analytics.chart_aria'', ''Consultas por intervalo, permitidas y bloqueadas''),
     (''analytics.show_table'', ''Ver como tabla''),
     (''analytics.time'', ''Hora''),
     (''analytics.avg_time'', ''Tiempo medio''),
     (''analytics.latency'', ''Tiempo de respuesta upstream''),
     (''analytics.latency_hint'', ''Media de consultas reenviadas respondidas; los huecos indican sin tr'' @ uni [0xE1] @ ''fico upstream.''),
     (''analytics.latency_aria'', ''Tiempo medio de respuesta upstream por intervalo''),
     (''analytics.query_types'', ''Tipos de consulta''),
     (''analytics.sources'', ''Respondidas por''),
     (''analytics.source_upstream'', ''Upstream''),
     (''analytics.source_cache'', ''Cach'' @ uni [0xE9]),
     (''analytics.source_blocked'', ''Bloqueadas''),
     (''analytics.source_local'', ''Zonas locales y reescrituras''),
     (''analytics.source_refused'', ''Rechazadas''),
     (''analytics.response_codes'', ''C'' @ uni [0xF3] @ ''digos de respuesta''),
     (''analytics.top_blocked'', ''Dominios m'' @ uni [0xE1] @ ''s bloqueados''),
     (''analytics.nothing_blocked'', ''Nada bloqueado en este intervalo''),
     (''analytics.upstreams'', ''Uso de upstreams''),
     (''analytics.upstreams_hint'', ''Consultas reenviadas por resolver, respuestas SERVFAIL y tiempo medio.''),
     (''analytics.no_upstream'', ''Sin tr'' @ uni [0xE1] @ ''fico upstream en este intervalo''),
     (''analytics.failures'', ''Fallos''),
     (''updates.check_prompt'', ''Comprueba si hay una versi'' @ uni [0xF3] @ ''n m'' @ uni [0xE1] @ ''s reciente.''),
     (''updates.checking'', ''Buscando actualizaciones'' @ uni [0x2026]),
     (''updates.starting'', ''Iniciando la actualizaci'' @ uni [0xF3] @ ''n'' @ uni [0x2026]),
     (''updates.updating_to'', ''Actualizando a''),
     (''updates.completed_to'', ''Actualizado a''),
     (''updates.failed_title'', ''La actualizaci'' @ uni [0xF3] @ ''n no se complet'' @ uni [0xF3]),
     (''updates.failed_text'', ''La actualizaci'' @ uni [0xF3] @ ''n fall'' @ uni [0xF3] @ ''. Velora sigue con la versi'' @ uni [0xF3] @ ''n anterior.''),
     (''updates.not_started'', ''El actualizador no inici'' @ uni [0xF3] @ '' la actualizaci'' @ uni [0xF3] @ ''n. Comprueba que velora-updater.service est'' @ uni [0xE9] @ '' activo.''),
     (''updates.check_again'', ''Comprobar de nuevo''),
     (''updates.update_now'', ''Actualizar''),
     (''updates.reload'', ''Recargar p'' @ uni [0xE1] @ ''gina''),
     (''updates.reconnecting'', ''Velora se est'' @ uni [0xE1] @ '' reiniciando. Esperando'' @ uni [0x2026]),
     (''updates.keep_open'', ''Puedes dejar esta p'' @ uni [0xE1] @ ''gina abierta; se actualiza sola. El DNS sigue respondiendo con la versi'' @ uni [0xF3] @ ''n actual hasta el cambio.''),
     (''updates.completed_text'', ''La actualizaci'' @ uni [0xF3] @ ''n termin'' @ uni [0xF3] @ '' y super'' @ uni [0xF3] @ '' las comprobaciones. Recarga la p'' @ uni [0xE1] @ ''gina para cargar la nueva interfaz.''),
     (''updates.release_date'', ''Publicada''),
     (''settings.entry'', ''Entrada''),
     (''settings.fix_fields'', ''No se cambi'' @ uni [0xF3] @ '' nada. Corrige los campos marcados e int'' @ uni [0xE9] @ ''ntalo de nuevo.''),
     (''settings.restart_required'', ''No se cambi'' @ uni [0xF3] @ '' nada. Los campos marcados requieren reiniciar: edita el archivo de configuraci'' @ uni [0xF3] @ ''n y reinicia Velora DNS.''),
     (''settings.restart_field'', ''Requiere reiniciar''),
     (''settings.check'', ''Comprobar''),
     (''settings.check_ok'', ''La configuraci'' @ uni [0xF3] @ ''n es v'' @ uni [0xE1] @ ''lida y puede aplicarse sin reiniciar.''),
     (''restore.title'', ''Restaurar una copia''),
     (''restore.hint'', ''Sube una copia cifrada para revisarla. Nada cambia hasta que confirmes; Velora se reinicia, guarda una copia de seguridad y revierte autom'' @ uni [0xE1] @ ''ticamente si no puede arrancar.''),
     (''restore.file'', ''Archivo de copia (.vdns)''),
     (''restore.inspect'', ''Revisar copia''),
     (''restore.inspecting'', ''Revisando'' @ uni [0x2026]),
     (''restore.inspect_failed'', ''No se pudo revisar la copia.''),
     (''restore.review_title'', ''La copia es v'' @ uni [0xE1] @ ''lida''),
     (''restore.created'', ''Creada'')]\<close>

definition dict_es_8 :: text_table where
  \<open>dict_es_8 = [
     (''restore.version'', ''Versi'' @ uni [0xF3] @ ''n de Velora''),
     (''restore.schema'', ''Esquema de base de datos''),
     (''restore.contents'', ''Contenido''),
     (''restore.zones'', ''zonas''),
     (''restore.records'', ''registros''),
     (''restore.blocklists'', ''listas''),
     (''restore.rewrites'', ''reescrituras''),
     (''restore.forward_rules'', ''reglas de reenv'' @ uni [0xED] @ ''o''),
     (''restore.clients'', ''clientes''),
     (''restore.users'', ''usuarios''),
     (''restore.listeners'', ''Escucha''),
     (''restore.web'', ''web''),
     (''restore.confirm'', ''Sustituir la configuraci'' @ uni [0xF3] @ ''n y los datos actuales por esta copia. Se conserva una copia de seguridad del estado actual.''),
     (''restore.restore'', ''Restaurar y reiniciar''),
     (''restore.schedule_failed'', ''No se pudo iniciar la restauraci'' @ uni [0xF3] @ ''n.''),
     (''restore.manual_restart'', ''La restauraci'' @ uni [0xF3] @ ''n est'' @ uni [0xE1] @ '' programada. Reinicia Velora DNS para aplicarla.''),
     (''restore.restarting'', ''Velora se reinicia para aplicar la copia. Esta p'' @ uni [0xE1] @ ''gina se actualizar'' @ uni [0xE1] @ '' al volver.''),
     (''restore.signed_out'', ''Velora ha vuelto con los datos restaurados. Inicia sesi'' @ uni [0xF3] @ ''n con una cuenta de la copia.''),
     (''restore.again'', ''Restaurar otra copia''),
     (''restore.backup_from'', ''Copia del''),
     (''restore.safety_copy'', ''Estado anterior guardado en''),
     (''restore.state_completed'', ''Restauraci'' @ uni [0xF3] @ ''n completada.''),
     (''restore.state_rolled_back'', ''Restauraci'' @ uni [0xF3] @ ''n revertida.''),
     (''restore.state_failed'', ''La restauraci'' @ uni [0xF3] @ ''n fall'' @ uni [0xF3] @ ''.''),
     (''restore.state_applied'', ''Restauraci'' @ uni [0xF3] @ ''n aplicada; esperando disponibilidad.''),
     (''restore.state_pending'', ''Restauraci'' @ uni [0xF3] @ ''n programada.''),
     (''restore.passphrase'', ''Frase de contrase'' @ uni [0xF1] @ ''a de la copia''),
     (''app.scrollable_table'', ''se desplaza horizontalmente''),
     (''palette.title'', ''Paleta de comandos''),
     (''palette.placeholder'', ''Buscar p'' @ uni [0xE1] @ ''ginas, zonas, registros, clientes'' @ uni [0x2026]),
     (''palette.results'', ''Resultados''),
     (''palette.pages'', ''P'' @ uni [0xE1] @ ''ginas''),
     (''palette.actions'', ''Acciones''),
     (''palette.kind_zone'', ''Zonas''),
     (''palette.kind_record'', ''Registros''),
     (''palette.kind_client'', ''Clientes''),
     (''palette.kind_rewrite'', ''Reescrituras DNS''),
     (''palette.kind_forwarding'', ''Reenv'' @ uni [0xED] @ ''o condicional''),
     (''palette.kind_blocklist'', ''Listas de bloqueo''),
     (''palette.no_results'', ''Sin coincidencias.''),
     (''palette.navigate'', ''navegar''),
     (''palette.open'', ''abrir''),
     (''palette.toggle'', ''abrir o cerrar''),
     (''palette.open_button'', ''Buscar''),
     (''palette.add_client'', ''A'' @ uni [0xF1] @ ''adir cliente''),
     (''palette.create_backup'', ''Crear copia de seguridad''),
     (''cluster.action_failed'', ''La acci'' @ uni [0xF3] @ ''n del cl'' @ uni [0xFA] @ ''ster fall'' @ uni [0xF3] @ ''.''),
     (''cluster.never'', ''nunca''),
     (''cluster.role'', ''Rol''),
     (''cluster.role_standalone'', ''Independiente''),
     (''cluster.role_primary'', ''Primario del cl'' @ uni [0xFA] @ ''ster''),
     (''cluster.role_replica'', ''R'' @ uni [0xE9] @ ''plica del cl'' @ uni [0xFA] @ ''ster''),
     (''cluster.replicas'', ''R'' @ uni [0xE9] @ ''plicas''),
     (''cluster.in_sync_count'', ''sincronizadas''),
     (''cluster.revision'', ''Revisi'' @ uni [0xF3] @ ''n de zonas''),
     (''cluster.zones_replicated'', ''zonas replicadas''),
     (''cluster.last_sync'', uni [0xDA] @ ''ltima sincronizaci'' @ uni [0xF3] @ ''n''),
     (''cluster.sync_failed'', ''La '' @ uni [0xFA] @ ''ltima sincronizaci'' @ uni [0xF3] @ ''n fall'' @ uni [0xF3]),
     (''cluster.sync_ok'', ''Al d'' @ uni [0xED] @ ''a con el primario''),
     (''cluster.members'', ''R'' @ uni [0xE9] @ ''plicas''),
     (''cluster.members_hint'', ''Nodos que copian las zonas de este primario. Se reportan cada 30 segundos.''),
     (''cluster.add_node'', ''A'' @ uni [0xF1] @ ''adir nodo''),
     (''cluster.token_title'', ''Token de uni'' @ uni [0xF3] @ ''n creado''),
     (''cluster.token_steps'', ''En el nodo nuevo, abre Cl'' @ uni [0xFA] @ ''ster '' @ uni [0x2192] @ '' Unirse a un cl'' @ uni [0xFA] @ ''ster e introduce:''),
     (''cluster.token_expires'', ''El token caduca a las''),
     (''cluster.token_once'', ''Funciona una sola vez y no se volver'' @ uni [0xE1] @ '' a mostrar.''),
     (''cluster.copy_token'', ''Copiar token''),
     (''cluster.copied'', ''Copiado''),
     (''cluster.token_done'', ''Listo''),
     (''cluster.no_members'', ''A'' @ uni [0xFA] @ ''n no hay r'' @ uni [0xE9] @ ''plicas''),
     (''cluster.no_members_text'', ''A'' @ uni [0xF1] @ ''ade un nodo para crear un token de uni'' @ uni [0xF3] @ ''n para un segundo servidor Velora DNS.''),
     (''cluster.status_in_sync'', ''Sincronizado''),
     (''cluster.status_behind'', ''Poni'' @ uni [0xE9] @ ''ndose al d'' @ uni [0xED] @ ''a''),
     (''cluster.status_stale'', ''No responde''),
     (''cluster.status_error'', ''Error de sincronizaci'' @ uni [0xF3] @ ''n''),
     (''cluster.status_never_synced'', ''Esperando la primera sincronizaci'' @ uni [0xF3] @ ''n''),
     (''cluster.remove'', ''Quitar nodo''),
     (''cluster.remove_confirm'', uni [0xBF] @ ''Quitar esta r'' @ uni [0xE9] @ ''plica? Dejar'' @ uni [0xE1] @ '' de recibir actualizaciones de zonas:''),
     (''cluster.removed'', ''R'' @ uni [0xE9] @ ''plica quitada.''),
     (''cluster.dissolve'', ''Disolver cl'' @ uni [0xFA] @ ''ster''),
     (''cluster.dissolve_hint'', ''Revoca todas las r'' @ uni [0xE9] @ ''plicas y vuelve a dejar este nodo independiente. Las r'' @ uni [0xE9] @ ''plicas conservan su '' @ uni [0xFA] @ ''ltima copia de las zonas.''),
     (''cluster.dissolve_confirm'', uni [0xBF] @ ''Disolver el cl'' @ uni [0xFA] @ ''ster y revocar todas las r'' @ uni [0xE9] @ ''plicas?''),
     (''cluster.dissolved'', ''El cl'' @ uni [0xFA] @ ''ster se disolvi'' @ uni [0xF3] @ ''.''),
     (''cluster.replica_title'', ''Replicando desde el primario''),
     (''cluster.replica_hint'', ''Las zonas de este nodo se copian del primario y aqu'' @ uni [0xED] @ '' son de solo lectura. El resto de ajustes siguen siendo locales.''),
     (''cluster.replica_ok'', ''La replicaci'' @ uni [0xF3] @ ''n funciona.''),
     (''cluster.sync_now'', ''Sincronizar ahora''),
     (''cluster.leave'', ''Salir del cl'' @ uni [0xFA] @ ''ster''),
     (''cluster.leave_confirm'', uni [0xBF] @ ''Salir del cl'' @ uni [0xFA] @ ''ster? Este nodo conserva sus zonas y vuelve a ser editable.''),
     (''cluster.left'', ''Este nodo sali'' @ uni [0xF3] @ '' del cl'' @ uni [0xFA] @ ''ster.''),
     (''cluster.primary_url'', ''URL del primario''),
     (''cluster.cluster_id'', ''ID del cl'' @ uni [0xFA] @ ''ster''),
     (''cluster.node_id'', ''ID del nodo''),
     (''cluster.join_token'', ''Token de uni'' @ uni [0xF3] @ ''n''),
     (''cluster.standalone_title'', ''Este nodo es independiente''),
     (''cluster.standalone_viewer'', ''Un administrador puede crear un cl'' @ uni [0xFA] @ ''ster o unir este nodo a uno.''),
     (''cluster.scope_note'', ''Un cl'' @ uni [0xFA] @ ''ster mantiene id'' @ uni [0xE9] @ ''nticas las zonas locales en varios servidores Velora DNS: un primario acepta cambios y las r'' @ uni [0xE9] @ ''plicas los copian cada 30 segundos. No hay conmutaci'' @ uni [0xF3] @ ''n autom'' @ uni [0xE1] @ ''tica y el resto de ajustes es por nodo.''),
     (''cluster.create_title'', ''Crear un cl'' @ uni [0xFA] @ ''ster''),
     (''cluster.create_hint'', ''Este nodo ser'' @ uni [0xE1] @ '' el primario. Sus zonas se copian a todas las r'' @ uni [0xE9] @ ''plicas.''),
     (''cluster.node_name'', ''Nombre del nodo''),
     (''cluster.advertised_url'', ''Direcci'' @ uni [0xF3] @ ''n que usan los dem'' @ uni [0xE1] @ ''s nodos''),
     (''cluster.advertised_hint'', ''La URL de la interfaz web de este nodo vista desde las r'' @ uni [0xE9] @ ''plicas.''),
     (''cluster.allow_http'', ''Permitir HTTP sin cifrar (solo red de confianza)''),
     (''cluster.skip_check'', ''Omitir la comprobaci'' @ uni [0xF3] @ ''n de accesibilidad''),
     (''cluster.create'', ''Crear cl'' @ uni [0xFA] @ ''ster''),
     (''cluster.created'', ''Se cre'' @ uni [0xF3] @ '' el cl'' @ uni [0xFA] @ ''ster. A'' @ uni [0xF1] @ ''ade un nodo para invitar una r'' @ uni [0xE9] @ ''plica.''),
     (''cluster.join_title'', ''Unirse a un cl'' @ uni [0xFA] @ ''ster''),
     (''cluster.join_hint'', ''Convierte este nodo en r'' @ uni [0xE9] @ ''plica de un primario. Crea antes el token de uni'' @ uni [0xF3] @ ''n en el primario.''),
     (''cluster.join_warning'', ''Al unirse, las zonas locales de este nodo se sustituyen por las del primario. Los dem'' @ uni [0xE1] @ ''s ajustes no cambian.''),
     (''cluster.join_confirm'', uni [0xBF] @ ''Unirse al cl'' @ uni [0xFA] @ ''ster y sustituir las zonas de este nodo por las del primario?''),
     (''cluster.join'', ''Unirse al cl'' @ uni [0xFA] @ ''ster''),
     (''cluster.joined'', ''Este nodo se uni'' @ uni [0xF3] @ '' al cl'' @ uni [0xFA] @ ''ster y est'' @ uni [0xE1] @ '' copiando las zonas del primario.''),
     (''cluster.zones_read_only'', ''Este nodo es una r'' @ uni [0xE9] @ ''plica del cl'' @ uni [0xFA] @ ''ster. Las zonas se copian del primario y solo pueden cambiarse all'' @ uni [0xED] @ ''.'')]\<close>

definition dict_es :: text_table where
  "dict_es = dict_es_1 @ dict_es_2 @ dict_es_3 @ dict_es_4 @ dict_es_5 @ dict_es_6 @ dict_es_7 @ dict_es_8"

lemma es_titles: "distinct (map snd (with_prefix ''app.title.'' dict_es))"
  by (simp only: dict_es_def dict_es_1_def dict_es_2_def dict_es_3_def dict_es_4_def dict_es_5_def dict_es_6_def dict_es_7_def dict_es_8_def group_eval) (simp add: uni_def unit_text_def)

lemma es_labels: "distinct (map snd (with_prefix ''app.nav.'' dict_es))"
  by (simp only: dict_es_def dict_es_1_def dict_es_2_def dict_es_3_def dict_es_4_def dict_es_5_def dict_es_6_def dict_es_7_def dict_es_8_def group_eval) (simp add: uni_def unit_text_def)

end
