(* ===== verification/Texts_PtBR.thy ===== *)
theory Texts_PtBR
  imports Texts
begin

text \<open>The Brazilian Portuguese table, \<open>i18n/pt-BR.ts\<close>.\<close>

definition dict_pt_BR_1 :: text_table where
  \<open>dict_pt_BR_1 = [
     (''app.skip_to_content'', ''Pular para o conte'' @ uni [0xFA] @ ''do''),
     (''app.workspace_label'', uni [0xC1] @ ''REA DE TRABALHO''),
     (''app.nav.events'', ''Eventos''),
     (''app.title.events'', ''Eventos''),
     (''events.unread'', ''n'' @ uni [0xE3] @ ''o lidos''),
     (''events.empty'', ''Ainda n'' @ uni [0xE3] @ ''o h'' @ uni [0xE1] @ '' eventos do sistema.''),
     (''events.load_failed'', ''N'' @ uni [0xE3] @ ''o foi poss'' @ uni [0xED] @ ''vel carregar os eventos''),
     (''events.mark_read'', ''Marcar como lido''),
     (''events.repeated'', ''Repetido''),
     (''events.open'', ''Abrir''),
     (''events.info'', ''Info''),
     (''events.warning'', ''Aviso''),
     (''events.critical'', ''Cr'' @ uni [0xED] @ ''tico''),
     (''app.nav.main'', ''Navega'' @ uni [0xE7, 0xE3] @ ''o principal''),
     (''app.nav.overview'', ''Vis'' @ uni [0xE3] @ ''o geral''),
     (''app.nav.zones'', ''Zonas locais''),
     (''app.nav.queries'', ''Registro de consultas''),
     (''app.nav.blocklists'', ''Listas de bloqueio''),
     (''app.nav.cache'', ''Cache DNS''),
     (''app.nav.settings'', ''Configura'' @ uni [0xE7, 0xF5] @ ''es''),
     (''app.nav.updates'', ''Atualiza'' @ uni [0xE7, 0xF5] @ ''es''),
     (''app.nav.backup'', ''Backup''),
     (''app.sign_out'', ''Sair''),
     (''app.nav.audit'', ''Registro de auditoria''),
     (''app.title.audit'', ''Registro de auditoria''),
     (''app.nav.diagnostics'', ''Diagn'' @ uni [0xF3] @ ''sticos''),
     (''app.title.diagnostics'', ''Diagn'' @ uni [0xF3] @ ''sticos''),
     (''app.local_resolver'', ''Resolvedor local''),
     (''app.self_hosted_foundation'', ''Auto-hospedado '' @ uni [0xB7] @ '' Funda'' @ uni [0xE7, 0xE3] @ ''o''),
     (''app.private_by_default'', ''Privado por padr'' @ uni [0xE3] @ ''o''),
     (''app.privacy.query_retention'', ''O hist'' @ uni [0xF3] @ ''rico de consultas possui um per'' @ uni [0xED] @ ''odo de reten'' @ uni [0xE7, 0xE3] @ ''o limitado.''),
     (''app.privacy.no_query_history'', ''O hist'' @ uni [0xF3] @ ''rico de consultas n'' @ uni [0xE3] @ ''o '' @ uni [0xE9] @ '' coletado.''),
     (''app.github_repo'', ''Reposit'' @ uni [0xF3] @ ''rio no GitHub''),
     (''app.connecting'', ''Conectando'' @ uni [0x2026]),
     (''app.workspace'', uni [0xC1] @ ''rea de trabalho''),
     (''app.connection_lost'', ''Conex'' @ uni [0xE3] @ ''o perdida''),
     (''app.resolver_online'', ''Resolvedor online''),
     (''app.title.overview'', ''Vis'' @ uni [0xE3] @ ''o geral da rede''),
     (''app.title.zones'', ''Zonas locais''),
     (''app.title.queries'', ''Registro de consultas''),
     (''app.title.blocklists'', ''Listas de bloqueio''),
     (''app.title.cache'', ''Cache DNS''),
     (''app.title.settings'', ''Configura'' @ uni [0xE7, 0xF5] @ ''es''),
     (''app.title.updates'', ''Atualiza'' @ uni [0xE7, 0xF5] @ ''es''),
     (''app.title.backup'', ''Backup e restaura'' @ uni [0xE7, 0xE3] @ ''o''),
     (''app.eyebrow'', ''SUA REDE DE UM OLHAR''),
     (''app.subtitle.overview'', ''Uma vis'' @ uni [0xE3] @ ''o clara do seu DNS, da solicita'' @ uni [0xE7, 0xE3] @ ''o '' @ uni [0xE0] @ '' resposta.''),
     (''app.subtitle.default'', ''Inspecione e gerencie sua funda'' @ uni [0xE7, 0xE3] @ ''o de resolvedor.''),
     (''app.refresh'', ''Atualizar''),
     (''app.error.showing_last'', ''Mostrando o '' @ uni [0xFA] @ ''ltimo snapshot bem-sucedido de''),
     (''app.error.check_server'', ''Verifique se o servidor Velora est'' @ uni [0xE1] @ '' em execu'' @ uni [0xE7, 0xE3] @ ''o.''),
     (''app.error.reach_server'', ''N'' @ uni [0xE3] @ ''o foi poss'' @ uni [0xED] @ ''vel acessar o servidor''),
     (''app.viewer_readonly'', ''Voc'' @ uni [0xEA] @ '' est'' @ uni [0xE1] @ '' conectado como visualizador. As a'' @ uni [0xE7, 0xF5] @ ''es de gerenciamento s'' @ uni [0xE3] @ ''o somente leitura.''),
     (''app.connecting_panel'', ''Conectando ao seu resolvedor'' @ uni [0x2026]),
     (''app.not_found'', ''P'' @ uni [0xE1] @ ''gina n'' @ uni [0xE3] @ ''o encontrada.''),
     (''app.footer.independent'', ''Velora DNS '' @ uni [0xB7] @ '' Independente. Auto-hospedado.''),
     (''app.footer.last_updated'', uni [0xDA] @ ''ltima atualiza'' @ uni [0xE7, 0xE3] @ ''o''),
     (''app.footer.waiting'', ''Aguardando o servidor''),
     (''diagnostics.title'', ''Sa'' @ uni [0xFA] @ ''de do sistema''),
     (''diagnostics.report_hint'', ''O download cont'' @ uni [0xE9] @ ''m estados dos componentes e dados da vers'' @ uni [0xE3] @ ''o, sem segredos ou logs de consultas.''),
     (''diagnostics.download'', ''Baixar relat'' @ uni [0xF3] @ ''rio''),
     (''diagnostics.loading'', ''Carregando diagn'' @ uni [0xF3] @ ''sticos'' @ uni [0x2026]),
     (''diagnostics.load_failed'', ''N'' @ uni [0xE3] @ ''o foi poss'' @ uni [0xED] @ ''vel carregar os diagn'' @ uni [0xF3] @ ''sticos''),
     (''diagnostics.upstreams'', ''Servidores upstream''),
     (''diagnostics.component'', ''Componente''),
     (''diagnostics.state'', ''Estado''),
     (''diagnostics.detail'', ''Detalhe''),
     (''diagnostics.state.healthy'', ''Saud'' @ uni [0xE1] @ ''vel''),
     (''diagnostics.state.degraded'', ''Degradado''),
     (''diagnostics.state.failed'', ''Falhou''),
     (''explain.title'', ''Por que esta resposta aconteceu?''),
     (''explain.hint'', ''Simula'' @ uni [0xE7, 0xE3] @ ''o do resolvedor para um nome. Nada '' @ uni [0xE9] @ '' consultado no upstream, registrado, colocado em cache ou contado.''),
     (''explain.name'', ''Nome''),
     (''explain.type'', ''Tipo de registro''),
     (''explain.client'', ''Endere'' @ uni [0xE7] @ ''o do cliente (opcional)''),
     (''explain.client_hint'', ''Aplica a pol'' @ uni [0xED] @ ''tica de filtragem desse cliente.''),
     (''explain.submit'', ''Explicar''),
     (''explain.running'', ''Explicando'' @ uni [0x2026]),
     (''explain.failed'', ''N'' @ uni [0xE3] @ ''o foi poss'' @ uni [0xED] @ ''vel explicar esta consulta''),
     (''explain.result'', ''Explica'' @ uni [0xE7, 0xE3] @ ''o''),
     (''explain.winner'', ''Etapa decisiva''),
     (''explain.answers'', ''Resposta''),
     (''explain.no_answers'', ''Sem registros de resposta: a resposta viria de um resolvedor upstream, que n'' @ uni [0xE3] @ ''o '' @ uni [0xE9] @ '' consultado.''),
     (''explain.steps'', ''Etapas consideradas''),
     (''explain.step'', ''Etapa''),
     (''explain.outcome'', ''Resultado''),
     (''explain.detail'', ''Detalhe''),
     (''explain.cname_target'', ''Destino do CNAME''),
     (''explain.ttl'', ''TTL restante''),
     (''explain.matches'', ''Correspond'' @ uni [0xEA] @ ''ncia''),
     (''explain.allowed_by'', ''Permitido por''),
     (''explain.not_contacted'', ''Nenhum upstream foi consultado.''),
     (''explain.scope.global'', ''Filtragem global''),
     (''explain.scope.client_policy'', ''Pol'' @ uni [0xED] @ ''tica do cliente''),
     (''explain.stage.filter'', ''Lista de bloqueio ou pol'' @ uni [0xED] @ ''tica do cliente''),
     (''explain.stage.rewrite'', ''Reescrita DNS''),
     (''explain.stage.zone'', ''Zona local''),
     (''explain.stage.cache'', ''Cache''),
     (''explain.stage.forwarding'', ''Regra de encaminhamento condicional''),
     (''explain.stage.upstream'', ''Resolvedores upstream globais''),
     (''explain.stage.refused'', ''Recusado''),
     (''explain.result.passed'', ''Passou''),
     (''explain.result.allowed'', ''Permitido''),
     (''explain.result.blocked'', ''Bloqueado''),
     (''explain.result.no_match'', ''Sem correspond'' @ uni [0xEA] @ ''ncia''),
     (''explain.result.answered'', ''Respondido''),
     (''explain.result.miss'', ''Falha de cache''),
     (''explain.result.hit'', ''Acerto''),
     (''explain.result.refused'', ''Recusado''),
     (''explain.result.would_forward'', ''Seria encaminhado''),
     (''explain.result.error'', ''Erro''),
     (''explain.source.local'', ''Resposta local''),
     (''explain.source.cache'', ''Cache''),
     (''explain.source.blocked'', ''Bloqueado''),
     (''explain.source.upstream'', ''Upstream''),
     (''explain.source.refused'', ''Recusado''),
     (''audit.title'', ''Registro de auditoria administrativa''),
     (''audit.hint'', ''As a'' @ uni [0xE7, 0xF5] @ ''es administrativas s'' @ uni [0xE3] @ ''o mantidas por 90 dias. Segredos e conte'' @ uni [0xFA] @ ''dos das solicita'' @ uni [0xE7, 0xF5] @ ''es s'' @ uni [0xE3] @ ''o exclu'' @ uni [0xED] @ ''dos.''),
     (''audit.actor'', ''Ator'')]\<close>

definition dict_pt_BR_2 :: text_table where
  \<open>dict_pt_BR_2 = [
     (''audit.action'', ''A'' @ uni [0xE7, 0xE3] @ ''o''),
     (''audit.result'', ''Resultado''),
     (''audit.all'', ''Todos''),
     (''audit.success'', ''Sucesso''),
     (''audit.failure'', ''Falha''),
     (''audit.filter'', ''Filtrar''),
     (''audit.time'', ''Hora''),
     (''audit.target'', ''Destino''),
     (''audit.empty'', ''Nenhum evento de auditoria encontrado.''),
     (''audit.more'', ''Carregar mais''),
     (''audit.load_failed'', ''N'' @ uni [0xE3] @ ''o foi poss'' @ uni [0xED] @ ''vel carregar os eventos de auditoria''),
     (''auth.checking'', ''Verificando sess'' @ uni [0xE3] @ ''o'' @ uni [0x2026]),
     (''auth.sign_in_title'', ''Entrar no Velora DNS''),
     (''auth.username'', ''Usu'' @ uni [0xE1] @ ''rio''),
     (''auth.password'', ''Senha''),
     (''auth.sign_in'', ''Entrar''),
     (''auth.sign_in_failed'', ''Falha ao entrar''),
     (''settings.server_configuration'', ''Configura'' @ uni [0xE7, 0xE3] @ ''o do servidor''),
     (''settings.language'', ''Idioma''),
     (''settings.theme'', ''Tema''),
     (''settings.theme_light'', ''Claro''),
     (''settings.theme_dark'', ''Escuro''),
     (''settings.theme_auto'', ''Autom'' @ uni [0xE1] @ ''tico''),
     (''settings.theme_hint'', ''O modo autom'' @ uni [0xE1] @ ''tico segue o esquema de cores claro ou escuro do seu sistema operacional.''),
     (''settings.log_level'', ''N'' @ uni [0xED] @ ''vel de log''),
     (''settings.rate_limiting'', ''Limita'' @ uni [0xE7, 0xE3] @ ''o de taxa''),
     (''settings.rate_limit_hint'', ''A limita'' @ uni [0xE7, 0xE3] @ ''o de taxa est'' @ uni [0xE1] @ '' desativada por padr'' @ uni [0xE3] @ ''o. Ative-a para proteger o resolvedor contra inunda'' @ uni [0xE7, 0xE3] @ ''o de solicitudes e altas taxas de consulta.''),
     (''settings.rate_limit_enabled'', ''Ativar limita'' @ uni [0xE7, 0xE3] @ ''o de taxa''),
     (''settings.rate_limit_global_qps'', ''Consultas globais por segundo''),
     (''settings.rate_limit_client_qps'', ''Consultas por segundo por cliente''),
     (''settings.rate_limit_burst'', ''Toler'' @ uni [0xE2] @ ''ncia de rajada''),
     (''settings.rate_limit_rejected_total'', ''Consultas rejeitadas''),
     (''settings.rate_limit_last_rejected'', uni [0xDA] @ ''ltima rejei'' @ uni [0xE7, 0xE3] @ ''o''),
     (''settings.save'', ''Salvar''),
     (''settings.rate_limit_load_failed'', ''N'' @ uni [0xE3] @ ''o foi poss'' @ uni [0xED] @ ''vel carregar as configura'' @ uni [0xE7, 0xF5] @ ''es de limita'' @ uni [0xE7, 0xE3] @ ''o de taxa''),
     (''settings.rate_limit_save_failed'', ''N'' @ uni [0xE3] @ ''o foi poss'' @ uni [0xED] @ ''vel salvar as configura'' @ uni [0xE7, 0xF5] @ ''es de limita'' @ uni [0xE7, 0xE3] @ ''o de taxa''),
     (''settings.rate_limit_saved'', ''Configura'' @ uni [0xE7, 0xF5] @ ''es de limita'' @ uni [0xE7, 0xE3] @ ''o de taxa salvas.''),
     (''settings.rate_limit_loading'', ''Carregando configura'' @ uni [0xE7, 0xF5] @ ''es de limita'' @ uni [0xE7, 0xE3] @ ''o de taxa'' @ uni [0x2026]),
     (''settings.edit_hint'', ''Essas configura'' @ uni [0xE7, 0xF5] @ ''es correspondem '' @ uni [0xE0] @ ''s op'' @ uni [0xE7, 0xF5] @ ''es do instalador r'' @ uni [0xE1] @ ''pido. Algumas altera'' @ uni [0xE7, 0xF5] @ ''es requerem rein'' @ uni [0xED] @ ''cio; altera'' @ uni [0xE7, 0xF5] @ ''es no TTL do cache s'' @ uni [0xE3] @ ''o aplicadas imediatamente.''),
     (''settings.dns_section'', ''Configura'' @ uni [0xE7, 0xF5] @ ''es DNS''),
     (''settings.cache_section'', ''Cache DNS''),
     (''settings.cache_ttl_label'', ''TTL do cache de respostas upstream (segundos)''),
     (''settings.cache_ttl_hint'', ''86400 segundos = 24 horas. Intervalo: 0'' @ uni [0x2013] @ ''604800 segundos; 0 usa o TTL original de cada upstream. Altera'' @ uni [0xE7, 0xF5] @ ''es nos upstreams podem levar tempo para refletir. Alterar isso limpa as respostas em cache existentes. Respostas com TTL zero e DNSSEC assinado mant'' @ uni [0xEA] @ ''m seu TTL original.''),
     (''settings.cache_ttl_invalid'', ''Digite um n'' @ uni [0xFA] @ ''mero inteiro de 0 a 604800 segundos.''),
     (''settings.dns_listen_label'', ''Endere'' @ uni [0xE7] @ ''os de escuta DNS (separados por v'' @ uni [0xED] @ ''rgula)''),
     (''settings.dns_listen_warning'', ''Aviso: 0.0.0.0 exp'' @ uni [0xF5] @ ''e o DNS '' @ uni [0xE0] @ '' sua rede. Certifique-se de que o firewall permita apenas clientes confi'' @ uni [0xE1] @ ''veis.''),
     (''settings.upstreams_label'', ''Servidores DNS upstream (separados por v'' @ uni [0xED] @ ''rgula)''),
     (''settings.upstreams_hint'', ''Formato: IP:PORTA (ex. 1.1.1.1:53). Upstreams DoH usam https://host/dns-query''),
     (''settings.allowed_clients_label'', ''Redes de clientes permitidas (CIDRs separados por v'' @ uni [0xED] @ ''rgula)''),
     (''settings.allowed_clients_hint'', ''Somente essas redes podem consultar o resolvedor. Exemplo: 192.168.1.0/24, 10.0.0.0/8''),
     (''settings.web_section'', ''Configura'' @ uni [0xE7, 0xF5] @ ''es da interface web''),
     (''settings.web_listen_label'', ''Endere'' @ uni [0xE7] @ ''o de escuta da interface web (IP:porta)''),
     (''settings.web_listen_warning'', ''Aviso: 0.0.0.0 exp'' @ uni [0xF5] @ ''e a interface web '' @ uni [0xE0] @ '' sua rede. Use um firewall ou autentica'' @ uni [0xE7, 0xE3] @ ''o.''),
     (''settings.allowed_hosts_label'', ''Hosts permitidos (separados por v'' @ uni [0xED] @ ''rgula)''),
     (''settings.allowed_hosts_hint'', ''Cabe'' @ uni [0xE7] @ ''alhos de host permitidos para acessar a API de gerenciamento. Use * para permitir todos (n'' @ uni [0xE3] @ ''o recomendado em uma LAN).''),
     (''settings.logging_section'', ''Logs e outros''),
     (''settings.enable_query_log'', ''Ativar registro de consultas''),
     (''settings.save_configuration'', ''Salvar configura'' @ uni [0xE7, 0xE3] @ ''o''),
     (''settings.saving'', ''Salvando'' @ uni [0x2026]),
     (''settings.save_success'', ''Configura'' @ uni [0xE7, 0xE3] @ ''o salva e aplicada.''),
     (''settings.save_failed'', ''Falha ao salvar a configura'' @ uni [0xE7, 0xE3] @ ''o''),
     (''dashboard.total_queries'', ''Total de consultas''),
     (''dashboard.since_start'', ''Desde a '' @ uni [0xFA] @ ''ltima redefini'' @ uni [0xE7, 0xE3] @ ''o das estat'' @ uni [0xED] @ ''sticas''),
     (''dashboard.reset_statistics'', ''Redefinir estat'' @ uni [0xED] @ ''sticas''),
     (''dashboard.reset_confirm'', ''Redefinir todos os contadores de consultas, cache e limite de taxa? Esta a'' @ uni [0xE7, 0xE3] @ ''o n'' @ uni [0xE3] @ ''o pode ser desfeita.''),
     (''dashboard.reset_failed'', ''N'' @ uni [0xE3] @ ''o foi poss'' @ uni [0xED] @ ''vel redefinir as estat'' @ uni [0xED] @ ''sticas''),
     (''dashboard.qps'', ''Consultas / segundo''),
     (''dashboard.rolling_avg'', ''M'' @ uni [0xE9] @ ''dia m'' @ uni [0xF3] @ ''vel de 60 segundos''),
     (''dashboard.cache_hit_rate'', ''Taxa de acerto do cache''),
     (''dashboard.answers_from_memory'', ''respostas servidas da mem'' @ uni [0xF3] @ ''ria''),
     (''dashboard.uptime'', ''Tempo de atividade''),
     (''dashboard.process_lifetime'', ''Tempo de vida do processo atual''),
     (''dashboard.top_domains'', ''Principais dom'' @ uni [0xED] @ ''nios''),
     (''dashboard.top_clients'', ''Principais clientes''),
     (''dashboard.query_activity'', ''Atividade de consultas''),
     (''dashboard.live_samples'', ''Amostras ao vivo do seu resolvedor''),
     (''dashboard.refresh_5s'', ''Atualiza'' @ uni [0xE7, 0xE3] @ ''o a cada 5s''),
     (''dashboard.queries_per_sec'', ''consultas / seg''),
     (''dashboard.chart_aria'', ''Taxa de consultas amostrada durante esta sess'' @ uni [0xE3] @ ''o do navegador''),
     (''dashboard.session_samples'', ''Amostras da sess'' @ uni [0xE3] @ ''o''),
     (''dashboard.now'', ''Agora''),
     (''dashboard.upstream_resolvers'', ''Resolvedores upstream''),
     (''dashboard.ordered_failover'', ''Failover ordenado com fallback TCP''),
     (''dashboard.endpoint'', ''Endpoint''),
     (''dashboard.health'', ''Sa'' @ uni [0xFA] @ ''de''),
     (''dashboard.upstream_unknown'', ''Desconhecido''),
     (''dashboard.upstream_healthy'', ''Saud'' @ uni [0xE1] @ ''vel''),
     (''dashboard.upstream_degraded'', ''Degradado''),
     (''dashboard.upstream_unavailable'', ''Indispon'' @ uni [0xED] @ ''vel''),
     (''dashboard.priority'', ''Prioridade''),
     (''dashboard.attempt_timeout'', ''Tempo limite da tentativa''),
     (''dashboard.primary'', ''Principal''),
     (''dashboard.fallback'', ''Fallback''),
     (''dashboard.config_shown'', ''Configura'' @ uni [0xE7, 0xE3] @ ''o exibida. A acessibilidade '' @ uni [0xE9] @ '' avaliada em cada consulta.''),
     (''dashboard.retained_last_24h'', ''Consultas retidas nas '' @ uni [0xFA] @ ''ltimas 24 horas''),
     (''dashboard.unavailable_no_logging'', ''Indispon'' @ uni [0xED] @ ''vel enquanto o registro de consultas estiver desativado.''),
     (''dashboard.loading_stats'', ''Carregando estat'' @ uni [0xED] @ ''sticas de consultas'' @ uni [0x2026]),
     (''dashboard.stats_load_failed'', ''N'' @ uni [0xE3] @ ''o foi poss'' @ uni [0xED] @ ''vel carregar as estat'' @ uni [0xED] @ ''sticas de consultas''),
     (''dashboard.no_retained'', ''Nenhuma consulta retida nesta janela.''),
     (''cache.live_entries'', ''Entradas ao vivo''),
     (''cache.capacity'', ''Capacidade''),
     (''cache.hits'', ''Acertos do cache''),
     (''cache.since_startup'', ''Desde a inicializa'' @ uni [0xE7, 0xE3] @ ''o do processo''),
     (''cache.misses'', ''Falhas do cache''),
     (''cache.includes_uncacheable'', ''Inclui solicita'' @ uni [0xE7, 0xF5] @ ''es n'' @ uni [0xE3] @ ''o cache'' @ uni [0xE1] @ ''veis''),
     (''cache.memory_cache'', ''Cache em mem'' @ uni [0xF3] @ ''ria''),
     (''cache.description'', ''Respostas upstream positivas usam o TTL de cache configurado. Respostas com TTL zero, DNSSEC assinado e negativas mant'' @ uni [0xEA] @ ''m suas regras originais. Entradas menos usadas s'' @ uni [0xE3] @ ''o removidas ao atingir a capacidade. O conte'' @ uni [0xFA] @ ''do do cache nunca '' @ uni [0xE9] @ '' armazenado no SQLite.''),
     (''cache.clear_description'', ''Limpar o cache remove todas as respostas atuais. Os contadores de acertos e falhas s'' @ uni [0xE3] @ ''o mantidos.''),
     (''cache.clearing'', ''Limpando'' @ uni [0x2026]),
     (''cache.clear'', ''Limpar cache''),
     (''cache.cleared'', ''Cache limpo. As zonas locais permanecem ativas; outras consultas usar'' @ uni [0xE3] @ ''o os resolvedores upstream.''),
     (''cache.flush_failed'', ''Falha ao esvaziar o cache''),
     (''cache.entries_title'', ''Entradas DNS em cache''),
     (''cache.entries_description'', ''Respostas atuais, as mais usadas primeiro.''),
     (''cache.entries_loading'', ''Carregando entradas do cache'' @ uni [0x2026]),
     (''cache.entries_load_failed'', ''N'' @ uni [0xE3] @ ''o foi poss'' @ uni [0xED] @ ''vel carregar as entradas do cache''),
     (''cache.entries_empty'', ''O cache est'' @ uni [0xE1] @ '' vazio.''),
     (''cache.entries_scroll_hint'', ''Role horizontalmente para ver todas as colunas.''),
     (''cache.entry_name'', ''Nome'')]\<close>

definition dict_pt_BR_3 :: text_table where
  \<open>dict_pt_BR_3 = [
     (''cache.entry_type'', ''Tipo''),
     (''cache.entry_answer'', ''Resposta''),
     (''cache.entry_status'', ''Status''),
     (''cache.entry_ttl'', ''TTL restante''),
     (''cache.seconds'', ''s''),
     (''cache.previous'', ''Anterior''),
     (''cache.next'', ''Pr'' @ uni [0xF3] @ ''ximo''),
     (''querylog.unavailable_title'', ''Hist'' @ uni [0xF3] @ ''rico de consultas indispon'' @ uni [0xED] @ ''vel''),
     (''querylog.unavailable_text'', ''Ative o registro de consultas para coletar e inspecionar a atividade DNS futura.''),
     (''querylog.up_to_100'', ''At'' @ uni [0xE9] @ '' 100 respostas retidas por p'' @ uni [0xE1] @ ''gina''),
     (''querylog.refresh'', ''Atualizar consultas''),
     (''querylog.filters_aria'', ''Filtros de consulta''),
     (''querylog.domain'', ''Dom'' @ uni [0xED] @ ''nio''),
     (''querylog.contains_example'', ''Cont'' @ uni [0xE9] @ ''m example.com''),
     (''querylog.client_ip'', ''IP do cliente''),
     (''querylog.exact_ip'', ''Endere'' @ uni [0xE7] @ ''o IP exato''),
     (''querylog.query_type'', ''Tipo de consulta''),
     (''querylog.all_types'', ''Todos os tipos''),
     (''querylog.source'', ''Origem''),
     (''querylog.all_sources'', ''Todas as origens''),
     (''querylog.apply_filters'', ''Aplicar filtros''),
     (''querylog.show_blocked'', ''Mostrar consultas bloqueadas''),
     (''querylog.error_stale'', ''Os resultados anteriores podem estar desatualizados.''),
     (''querylog.loading'', ''Carregando registro de consultas'' @ uni [0x2026]),
     (''querylog.no_matches'', ''Nenhuma consulta encontrada''),
     (''querylog.no_matches_text'', ''Tente filtros diferentes ou gere tr'' @ uni [0xE1] @ ''fego DNS com o registro ativado.''),
     (''querylog.caption'', ''Registro de consultas DNS''),
     (''querylog.col_timestamp'', ''Data/hora''),
     (''querylog.col_client'', ''Cliente''),
     (''querylog.col_domain'', ''Dom'' @ uni [0xED] @ ''nio''),
     (''querylog.col_type'', ''Tipo''),
     (''querylog.col_source'', ''Origem''),
     (''querylog.col_response'', ''Resposta''),
     (''querylog.col_latency'', ''Lat'' @ uni [0xEA] @ ''ncia''),
     (''querylog.older'', ''Consultas anteriores''),
     (''querylog.load_failed'', ''N'' @ uni [0xE3] @ ''o foi poss'' @ uni [0xED] @ ''vel carregar o registro de consultas''),
     (''blocklists.count'', ''fontes externas''),
     (''blocklists.count_one'', ''fonte externa''),
     (''blocklists.sources_label'', ''Fontes de pol'' @ uni [0xED] @ ''ticas DNS''),
     (''blocklists.reload'', ''Recarregar''),
     (''blocklists.add_source'', ''Adicionar fonte''),
     (''blocklists.add_aria'', ''Adicionar fonte de lista de bloqueio''),
     (''blocklists.add_title'', ''Adicionar lista de bloqueio externa''),
     (''blocklists.add_text'', ''Somente fontes HTTP(S) p'' @ uni [0xFA] @ ''blicas s'' @ uni [0xE3] @ ''o aceitas. Atualiza'' @ uni [0xE7, 0xF5] @ ''es com falha mant'' @ uni [0xEA] @ ''m as regras DNS anteriores ativas.''),
     (''blocklists.name'', ''Nome''),
     (''blocklists.source_url'', ''URL da fonte''),
     (''blocklists.community_hosts'', ''Hosts comunit'' @ uni [0xE1] @ ''rios''),
     (''blocklists.adding'', ''Adicionando'' @ uni [0x2026]),
     (''blocklists.cancel'', ''Cancelar''),
     (''blocklists.loading'', ''Carregando fontes de listas de bloqueio'' @ uni [0x2026]),
     (''blocklists.empty_title'', ''Nenhuma lista de bloqueio externa''),
     (''blocklists.empty_text'', ''Adicione uma lista p'' @ uni [0xFA] @ ''blica de hosts ou dom'' @ uni [0xED] @ ''nios confi'' @ uni [0xE1] @ ''vel para aplicar bloqueios DNS.''),
     (''blocklists.caption'', ''Fontes de listas de bloqueio externas''),
     (''blocklists.col_source'', ''Fonte''),
     (''blocklists.col_status'', ''Status''),
     (''blocklists.col_last_update'', uni [0xDA] @ ''ltima atualiza'' @ uni [0xE7, 0xE3] @ ''o''),
     (''blocklists.update_failed'', ''Falha na atualiza'' @ uni [0xE7, 0xE3] @ ''o''),
     (''blocklists.active'', ''ATIVO''),
     (''blocklists.disabled'', ''DESATIVADO''),
     (''blocklists.never'', ''Nunca''),
     (''blocklists.updating'', ''Atualizando'' @ uni [0x2026]),
     (''blocklists.update'', ''Atualizar''),
     (''blocklists.load_failed'', ''N'' @ uni [0xE3] @ ''o foi poss'' @ uni [0xED] @ ''vel carregar as listas de bloqueio''),
     (''blocklists.add_failed'', ''N'' @ uni [0xE3] @ ''o foi poss'' @ uni [0xED] @ ''vel adicionar a fonte''),
     (''blocklists.update_failed_msg'', ''N'' @ uni [0xE3] @ ''o foi poss'' @ uni [0xED] @ ''vel atualizar a fonte''),
     (''blocklists.col_domains'', ''Dom'' @ uni [0xED] @ ''nios''),
     (''blocklists.local'', ''Local''),
     (''blocklists.enable'', ''Ativar''),
     (''blocklists.disable'', ''Desativar''),
     (''blocklists.toggle_failed'', ''N'' @ uni [0xE3] @ ''o foi poss'' @ uni [0xED] @ ''vel alterar o estado da fonte''),
     (''blocklists.edit_content'', ''Editar conte'' @ uni [0xFA] @ ''do''),
     (''blocklists.edit_content_aria'', ''Editar conte'' @ uni [0xFA] @ ''do da lista de bloqueio''),
     (''blocklists.edit_content_title'', ''Editar dom'' @ uni [0xED] @ ''nios da lista de bloqueio''),
     (''blocklists.edit_content_text'', ''Digite um dom'' @ uni [0xED] @ ''nio por linha. Linhas iniciando com 0.0.0.0 ou um coment'' @ uni [0xE1] @ ''rio s'' @ uni [0xE3] @ ''o tratadas como entradas de host.''),
     (''blocklists.domains_label'', ''Dom'' @ uni [0xED] @ ''nios''),
     (''blocklists.saving'', ''Salvando'' @ uni [0x2026]),
     (''blocklists.save'', ''Salvar''),
     (''blocklists.content_save_failed'', ''N'' @ uni [0xE3] @ ''o foi poss'' @ uni [0xED] @ ''vel salvar o conte'' @ uni [0xFA] @ ''do''),
     (''blocklists.delete'', ''Excluir''),
     (''blocklists.confirm_delete'', ''Confirmar''),
     (''blocklists.delete_failed'', ''N'' @ uni [0xE3] @ ''o foi poss'' @ uni [0xED] @ ''vel excluir a fonte''),
     (''zones.count'', ''zonas locais''),
     (''zones.count_one'', ''zona local''),
     (''zones.local_authority'', ''Autoridade local''),
     (''zones.reload'', ''Recarregar zonas''),
     (''zones.add_zone'', ''Adicionar zona''),
     (''zones.error_stale'', ''Mostrando as '' @ uni [0xFA] @ ''ltimas zonas carregadas. Recarregue antes de fazer altera'' @ uni [0xE7, 0xF5] @ ''es.''),
     (''zones.error_retry'', ''Recarregue para tentar novamente.''),
     (''zones.reload_before_retry'', ''Recarregue as zonas antes de tentar novamente.''),
     (''zones.loading'', ''Carregando zonas locais'' @ uni [0x2026]),
     (''zones.empty_title'', ''D'' @ uni [0xEA] @ '' '' @ uni [0xE0] @ '' sua rede nomes familiares''),
     (''zones.empty_text'', ''Crie uma zona como home.arpa e adicione registros para seu roteador, servi'' @ uni [0xE7] @ ''os e dispositivos.''),
     (''zones.create_first'', ''Crie sua primeira zona''),
     (''zones.filter_aria'', ''Filtrar zonas''),
     (''zones.filter_placeholder'', ''Buscar uma zona'' @ uni [0x2026]),
     (''zones.nav_aria'', ''Zonas locais''),
     (''zones.records_custom'', ''registros personalizados''),
     (''zones.no_matching'', ''Nenhuma zona encontrada.''),
     (''zones.authoritative_eyebrow'', ''ZONA AUTORITATIVA''),
     (''zones.revision'', ''Revis'' @ uni [0xE3] @ ''o''),
     (''zones.add_record'', ''Adicionar registro''),
     (''zones.delete_zone_aria'', ''Excluir zona''),
     (''zones.primary_ns'', ''NS prim'' @ uni [0xE1] @ ''rio''),
     (''zones.contact'', ''Contato''),
     (''zones.delete_record_confirm'', ''Excluir registro''),
     (''zones.delete_zone_confirm'', ''e todos os''),
     (''zones.delete_zone_confirm2'', ''registros? Isso n'' @ uni [0xE3] @ ''o pode ser desfeito.''),
     (''zones.deleting'', ''Excluindo'' @ uni [0x2026]),
     (''zones.delete_record_perm'', ''Excluir registro permanentemente''),
     (''zones.delete_zone_perm'', ''Excluir zona permanentemente''),
     (''zones.cancel_deletion'', ''Cancelar exclus'' @ uni [0xE3] @ ''o''),
     (''zones.record_saved'', ''Registro salvo. As altera'' @ uni [0xE7, 0xF5] @ ''es DNS est'' @ uni [0xE3] @ ''o ativas.''),
     (''zones.record_deleted'', ''Registro exclu'' @ uni [0xED] @ ''do. As altera'' @ uni [0xE7, 0xF5] @ ''es DNS est'' @ uni [0xE3] @ ''o ativas.''),
     (''zones.zone_deleted'', ''Zona e seus registros exclu'' @ uni [0xED] @ ''dos.''),
     (''zones.zone_created'', ''Zona criada. Adicione registros para come'' @ uni [0xE7] @ ''ar a us'' @ uni [0xE1] @ ''-la.''),
     (''zones.delete_failed'', ''N'' @ uni [0xE3] @ ''o foi poss'' @ uni [0xED] @ ''vel excluir''),
     (''zones.footnote'', ''Respostas locais t'' @ uni [0xEA] @ ''m prioridade sobre o encaminhamento. Dispositivos podem reter respostas anteriores at'' @ uni [0xE9] @ '' que seu TTL expire.''),
     (''zones.record_form_edit_aria'', ''Editar registro DNS''),
     (''zones.record_form_add_aria'', ''Adicionar registro DNS'')]\<close>

definition dict_pt_BR_4 :: text_table where
  \<open>dict_pt_BR_4 = [
     (''zones.edit_record'', ''Editar registro''),
     (''zones.add_record_form'', ''Adicionar registro''),
     (''zones.changes_apply'', ''As altera'' @ uni [0xE7, 0xF5] @ ''es se aplicam a''),
     (''zones.record_name'', ''Nome do registro''),
     (''zones.router_or_at'', ''router ou @''),
     (''zones.relative_name_hint'', ''Nome relativo, @ para a zona, ou um nome absoluto terminando em ponto.''),
     (''zones.record_type'', ''Tipo de registro''),
     (''zones.ttl_seconds'', ''TTL (segundos)''),
     (''zones.priority'', ''Prioridade''),
     (''zones.ipv4_address'', ''Endere'' @ uni [0xE7] @ ''o IPv4''),
     (''zones.ipv6_address'', ''Endere'' @ uni [0xE7] @ ''o IPv6''),
     (''zones.text_value'', ''Valor de texto''),
     (''zones.target_hostname'', ''Hostname de destino''),
     (''zones.invalid_ttl'', ''Digite valores v'' @ uni [0xE1] @ ''lidos de TTL e prioridade.''),
     (''zones.record_conflict'', ''Esta zona foi alterada em outro lugar. Seu rascunho est'' @ uni [0xE1] @ '' inalterado. Feche este formul'' @ uni [0xE1] @ ''rio e recarregue as zonas antes de tentar novamente.''),
     (''zones.save_failed'', ''N'' @ uni [0xE3] @ ''o foi poss'' @ uni [0xED] @ ''vel salvar o registro''),
     (''zones.saving'', ''Salvando'' @ uni [0x2026]),
     (''zones.save_record'', ''Salvar registro''),
     (''zones.cancel'', ''Cancelar''),
     (''zones.no_records_title'', ''Nenhum registro personalizado ainda''),
     (''zones.no_records_text'', ''Adicione seu primeiro registro. SOA e o NS de fallback s'' @ uni [0xE3] @ ''o gerenciados automaticamente.''),
     (''zones.records_aria'', ''Registros DNS para''),
     (''zones.col_name'', ''Nome''),
     (''zones.col_type'', ''Tipo''),
     (''zones.col_value'', ''Valor''),
     (''zones.col_ttl'', ''TTL''),
     (''zones.col_actions'', ''A'' @ uni [0xE7, 0xF5] @ ''es''),
     (''zones.edit_aria'', ''Editar''),
     (''zones.delete_aria'', ''Excluir''),
     (''zones.record_word'', ''registro''),
     (''zones.create_title'', ''Criar uma zona local''),
     (''zones.create_text'', ''O Velora responder'' @ uni [0xE1] @ '' para esta zona e manter'' @ uni [0xE1] @ '' nomes desconhecidos dentro da sua rede.''),
     (''zones.zone_name'', ''Nome da zona''),
     (''zones.authority_settings'', ''Configura'' @ uni [0xE7, 0xF5] @ ''es de autoridade''),
     (''zones.primary_nameserver'', ''Servidor de nomes prim'' @ uni [0xE1] @ ''rio''),
     (''zones.contact_mailbox'', ''Contato (caixa de e-mail DNS)''),
     (''zones.creating'', ''Criando'' @ uni [0x2026]),
     (''zones.create_zone'', ''Criar zona''),
     (''zones.create_zone_aria'', ''Criar zona DNS''),
     (''zones.create_failed'', ''N'' @ uni [0xE3] @ ''o foi poss'' @ uni [0xED] @ ''vel criar a zona''),
     (''zones.load_failed'', ''N'' @ uni [0xE3] @ ''o foi poss'' @ uni [0xED] @ ''vel carregar as zonas''),
     (''updates.loading'', ''Carregando status da atualiza'' @ uni [0xE7, 0xE3] @ ''o...''),
     (''updates.viewer_readonly'', ''Voc'' @ uni [0xEA] @ '' est'' @ uni [0xE1] @ '' conectado como visualizador. Solicita'' @ uni [0xE7, 0xF5] @ ''es de atualiza'' @ uni [0xE7, 0xE3] @ ''o s'' @ uni [0xE3] @ ''o somente leitura.''),
     (''updates.in_progress'', ''Atualiza'' @ uni [0xE7, 0xE3] @ ''o em andamento...''),
     (''updates.history'', ''Hist'' @ uni [0xF3] @ ''rico de atualiza'' @ uni [0xE7, 0xF5] @ ''es''),
     (''updates.no_history'', ''Nenhuma atualiza'' @ uni [0xE7, 0xE3] @ ''o registrada ainda.''),
     (''updates.col_from'', ''De''),
     (''updates.col_to'', ''Para''),
     (''updates.col_state'', ''Estado''),
     (''updates.col_started'', ''Iniciada''),
     (''updates.state_idle'', ''Inativa''),
     (''updates.state_downloading'', ''Baixando''),
     (''updates.state_verifying'', ''Verificando''),
     (''updates.state_installing'', ''Instalando''),
     (''updates.state_readiness'', ''Aguardando prontid'' @ uni [0xE3] @ ''o''),
     (''updates.state_completed'', ''Conclu'' @ uni [0xED] @ ''da''),
     (''updates.state_rolled_back'', ''Revertida''),
     (''updates.state_failed'', ''Falhou''),
     (''updates.load_failed'', ''Falha ao carregar o status da atualiza'' @ uni [0xE7, 0xE3] @ ''o''),
     (''updates.request_failed'', ''Falha ao solicitar atualiza'' @ uni [0xE7, 0xE3] @ ''o''),
     (''updates.check'', ''Check for updates''),
     (''updates.available'', ''Update available''),
     (''updates.up_to_date'', ''The system is up to date.''),
     (''updates.progress'', ''Update progress''),
     (''updates.rollback_used'', ''The previous version was restored.''),
     (''updates.rollback_recovered'', ''The previous version was restored and is healthy.''),
     (''backup.sqlite_only'', ''A exporta'' @ uni [0xE7, 0xE3] @ ''o criptografada atualmente suporta apenas instala'' @ uni [0xE7, 0xF5] @ ''es SQLite.''),
     (''backup.create_title'', ''Backup criptografado''),
     (''backup.create_hint'', ''Baixe um backup versionado da configura'' @ uni [0xE7, 0xE3] @ ''o e dos dados persistentes. Guarde a senha.''),
     (''backup.passphrase'', ''Senha''),
     (''backup.creating'', ''Criando'' @ uni [0x2026]),
     (''backup.create'', ''Criar e baixar''),
     (''backup.create_failed'', ''N'' @ uni [0xE3] @ ''o foi poss'' @ uni [0xED] @ ''vel criar o backup''),
     (''backup.restore_hint'', ''Restaure o arquivo criptografado com o servi'' @ uni [0xE7] @ ''o parado. O comando mant'' @ uni [0xE9] @ ''m uma c'' @ uni [0xF3] @ ''pia de seguran'' @ uni [0xE7] @ ''a da instala'' @ uni [0xE7, 0xE3] @ ''o atual.''),
     (''backup.loading'', ''Carregando status do backup...''),
     (''backup.status_title'', ''Status do backup''),
     (''backup.database'', ''Banco de dados:''),
     (''backup.last_backup'', uni [0xDA] @ ''ltimo backup:''),
     (''backup.no_backup'', ''Nenhum backup registrado ainda''),
     (''backup.verification_state'', ''Estado da verifica'' @ uni [0xE7, 0xE3] @ ''o:''),
     (''backup.state_unknown'', ''Desconhecido''),
     (''backup.state_unverified'', ''N'' @ uni [0xE3] @ ''o verificado''),
     (''backup.state_verified'', ''Verificado''),
     (''backup.verify_title'', ''Verificar backup''),
     (''backup.verify_text'', ''Coloque uma c'' @ uni [0xF3] @ ''pia do backup ao lado do banco de dados do servidor para verificar sua integridade.''),
     (''backup.file_name'', ''Nome do arquivo de backup''),
     (''backup.file_hint'', ''Coloque o backup ao lado do banco de dados no servidor Velora. Somente o nome do arquivo '' @ uni [0xE9] @ '' usado; arquivos do navegador e outros diret'' @ uni [0xF3] @ ''rios n'' @ uni [0xE3] @ ''o podem ser verificados aqui.''),
     (''backup.viewer_readonly'', ''Voc'' @ uni [0xEA] @ '' est'' @ uni [0xE1] @ '' conectado como visualizador. A verifica'' @ uni [0xE7, 0xE3] @ ''o de backups '' @ uni [0xE9] @ '' somente leitura.''),
     (''backup.verifying'', ''Verificando...''),
     (''backup.verify'', ''Verificar''),
     (''backup.valid'', ''O backup '' @ uni [0xE9] @ '' v'' @ uni [0xE1] @ ''lido''),
     (''backup.invalid'', ''O backup '' @ uni [0xE9] @ '' inv'' @ uni [0xE1] @ ''lido''),
     (''backup.schema_version'', ''Vers'' @ uni [0xE3] @ ''o do esquema:''),
     (''backup.records'', ''Registros:''),
     (''backup.instructions'', ''Restaurar pela linha de comando''),
     (''backup.native'', ''Instala'' @ uni [0xE7, 0xE3] @ ''o nativa''),
     (''backup.docker'', ''Docker Compose''),
     (''backup.online'', ''Backup online (SQLite)''),
     (''backup.load_failed'', ''Falha ao carregar o status do backup''),
     (''backup.verify_failed'', ''A verifica'' @ uni [0xE7, 0xE3] @ ''o falhou''),
     (''backup.step_stop_service'', ''Parar o servi'' @ uni [0xE7] @ ''o''),
     (''backup.step_create_backup'', ''Criar um backup consistente''),
     (''backup.step_restart_service'', ''Reiniciar o servi'' @ uni [0xE7] @ ''o''),
     (''backup.step_stop_container'', ''Parar o cont'' @ uni [0xEA] @ ''iner''),
     (''backup.step_backup_volume'', ''Fazer backup do volume''),
     (''backup.step_restart_container'', ''Reiniciar o cont'' @ uni [0xEA] @ ''iner''),
     (''backup.step_online_backup'', ''Usar a API do SQLite para um backup online consistente''),
     (''onboarding.welcome'', ''Bem-vindo ao Velora DNS''),
     (''onboarding.complete_steps'', ''Complete estas etapas para proteger sua instala'' @ uni [0xE7, 0xE3] @ ''o''),
     (''onboarding.dismiss'', ''Dispensar''),
     (''onboarding.change_credentials'', ''Alterar credenciais iniciais''),
     (''onboarding.change_credentials_text'', ''A senha de administrador padr'' @ uni [0xE3] @ ''o deve ser alterada ap'' @ uni [0xF3] @ ''s o primeiro login.''),
     (''onboarding.review_dns'', ''Revisar configura'' @ uni [0xE7, 0xE3] @ ''o DNS''),
     (''onboarding.review_dns_text'', ''Verifique se os servidores upstream e os clientes permitidos est'' @ uni [0xE3] @ ''o configurados corretamente para sua rede.''),
     (''onboarding.restrict_clients'', ''Restringir acesso de clientes''),
     (''onboarding.restrict_clients_text'', ''Configure os CIDRs de allowed_clients para limitar quais redes podem usar seu resolvedor.''),
     (''onboarding.verify_db'', ''Verificar armazenamento do banco de dados''),
     (''onboarding.verify_db_text'', ''Verifique se o caminho do banco de dados est'' @ uni [0xE1] @ '' em um armazenamento confi'' @ uni [0xE1] @ ''vel com espa'' @ uni [0xE7] @ ''o suficiente.'')]\<close>

definition dict_pt_BR_5 :: text_table where
  \<open>dict_pt_BR_5 = [
     (''onboarding.update_policy'', ''Configurar pol'' @ uni [0xED] @ ''tica de atualiza'' @ uni [0xE7, 0xF5] @ ''es''),
     (''onboarding.update_policy_text'', ''Revise o centro de atualiza'' @ uni [0xE7, 0xF5] @ ''es para entender como manter sua instala'' @ uni [0xE7, 0xE3] @ ''o atualizada.''),
     (''app.nav.dhcp'', ''DHCP''),
     (''app.title.dhcp'', ''Servidor DHCP''),
     (''dhcp.loading'', ''Carregando dados do DHCP'' @ uni [0x2026]),
     (''dhcp.load_failed'', ''Unable to load DHCP data''),
     (''dhcp.create_pool_failed'', ''Unable to create pool''),
     (''dhcp.delete_pool_failed'', ''Unable to delete pool''),
     (''dhcp.create_reservation_failed'', ''Unable to create reservation''),
     (''dhcp.delete_reservation_failed'', ''Unable to delete reservation''),
     (''dhcp.delete_lease_failed'', ''Unable to delete lease''),
     (''dhcp.pools'', ''Pools de DHCP''),
     (''dhcp.add_pool'', ''Adicionar pool''),
     (''dhcp.pool_name'', ''Nome do pool''),
     (''dhcp.interface'', ''Interface''),
     (''dhcp.subnet_cidr'', ''Sub-rede (CIDR)''),
     (''dhcp.subnet'', ''Sub-rede''),
     (''dhcp.gateway'', ''Gateway''),
     (''dhcp.dns_servers'', ''Servidores DNS''),
     (''dhcp.lease_seconds'', ''Tempo de concess'' @ uni [0xE3] @ ''o (segundos)''),
     (''dhcp.leases_label'', ''Concess'' @ uni [0xF5] @ ''es''),
     (''dhcp.create'', ''Criar''),
     (''dhcp.no_pools'', ''Nenhum pool de DHCP configurado. Crie um para come'' @ uni [0xE7] @ ''ar a oferecer concess'' @ uni [0xF5] @ ''es.''),
     (''dhcp.reservations'', ''Reservas est'' @ uni [0xE1] @ ''ticas''),
     (''dhcp.mac_address'', ''Endere'' @ uni [0xE7] @ ''o MAC''),
     (''dhcp.ip_address'', ''Endere'' @ uni [0xE7] @ ''o IP''),
     (''dhcp.hostname'', ''Hostname''),
     (''dhcp.add'', ''Adicionar''),
     (''dhcp.active_leases'', ''Concess'' @ uni [0xF5] @ ''es ativas''),
     (''dhcp.expires'', ''Expira em''),
     (''dhcp.no_leases'', ''Nenhuma concess'' @ uni [0xE3] @ ''o ativa.''),
     (''dhcp.expired'', ''Expirada''),
     (''dhcp.confirm_delete_pool'', ''Excluir este pool e todas as suas reservas?''),
     (''dhcp.name'', ''Nome''),
     (''app.nav.cluster'', ''Cluster''),
     (''app.title.cluster'', ''Vis'' @ uni [0xE3] @ ''o geral do cluster''),
     (''cluster.loading'', ''Carregando dados do cluster'' @ uni [0x2026]),
     (''cluster.load_failed'', ''Unable to load cluster data''),
     (''cluster.name'', ''Nome''),
     (''cluster.status'', ''Status''),
     (''cluster.version'', ''Vers'' @ uni [0xE3] @ ''o''),
     (''cluster.last_seen'', uni [0xDA] @ ''ltima vista''),
     (''cluster.config_history'', ''Hist'' @ uni [0xF3] @ ''rico de configura'' @ uni [0xE7, 0xE3] @ ''o''),
     (''cluster.no_versions'', ''Nenhuma vers'' @ uni [0xE3] @ ''o de configura'' @ uni [0xE7, 0xE3] @ ''o registrada.''),
     (''cluster.hash'', ''Hash''),
     (''cluster.applied_by'', ''Aplicado por''),
     (''cluster.applied_at'', ''Aplicado em''),
     (''app.nav.group_dns'', ''DNS''),
     (''app.nav.group_network'', ''Rede''),
     (''app.nav.group_system'', ''Sistema''),
     (''app.menu_open'', ''Abrir navega'' @ uni [0xE7, 0xE3] @ ''o''),
     (''app.menu_close'', ''Fechar navega'' @ uni [0xE7, 0xE3] @ ''o''),
     (''app.theme_to_dark'', ''Mudar para o tema escuro''),
     (''app.theme_to_light'', ''Mudar para o tema claro''),
     (''app.signed_in_as'', ''Conectado como''),
     (''app.subtitle.zones'', ''Nomes autoritativos para dispositivos e servi'' @ uni [0xE7] @ ''os da sua rede.''),
     (''app.subtitle.queries'', ''Consultas recentes respondidas por este resolvedor.''),
     (''app.subtitle.blocklists'', ''Listas de dom'' @ uni [0xED] @ ''nios respondidas como bloqueadas.''),
     (''app.subtitle.cache'', ''Respostas mantidas em mem'' @ uni [0xF3] @ ''ria para acelerar consultas repetidas.''),
     (''app.subtitle.settings'', ''Resolvedor, interface web e prefer'' @ uni [0xEA] @ ''ncias pessoais.''),
     (''app.subtitle.updates'', ''Vers'' @ uni [0xE3] @ ''o instalada, vers'' @ uni [0xF5] @ ''es dispon'' @ uni [0xED] @ ''veis e hist'' @ uni [0xF3] @ ''rico de atualiza'' @ uni [0xE7, 0xF5] @ ''es.''),
     (''app.subtitle.backup'', ''Crie backups criptografados e verifique os existentes.''),
     (''app.subtitle.dhcp'', ''Pools de endere'' @ uni [0xE7] @ ''os, reservas e concess'' @ uni [0xF5] @ ''es ativas.''),
     (''app.subtitle.cluster'', ''Mantenha as zonas locais id'' @ uni [0xEA] @ ''nticas em v'' @ uni [0xE1] @ ''rios servidores Velora DNS.''),
     (''app.subtitle.diagnostics'', ''Sa'' @ uni [0xFA] @ ''de dos componentes e um relat'' @ uni [0xF3] @ ''rio de suporte compartilh'' @ uni [0xE1] @ ''vel.''),
     (''app.subtitle.events'', ''Itens que precisam da sua aten'' @ uni [0xE7, 0xE3] @ ''o.''),
     (''app.subtitle.audit'', ''Quem alterou o qu'' @ uni [0xEA] @ '', e quando.''),
     (''settings.preferences'', ''Prefer'' @ uni [0xEA] @ ''ncias''),
     (''dashboard.general_statistics'', ''Estat'' @ uni [0xED] @ ''sticas gerais''),
     (''dashboard.blocked'', ''Bloqueadas por filtros''),
     (''dashboard.of_all_queries'', ''de todas as consultas''),
     (''dashboard.query_logging'', ''Registro de consultas''),
     (''dashboard.enabled'', ''Ativado''),
     (''dashboard.disabled'', ''Desativado''),
     (''dashboard.requests'', ''Solicita'' @ uni [0xE7, 0xF5] @ ''es''),
     (''dashboard.domain'', ''Dom'' @ uni [0xED] @ ''nio''),
     (''dashboard.client'', ''Cliente''),
     (''dashboard.upstream_servers'', ''Servidores upstream''),
     (''dashboard.collecting_samples'', ''Coletando amostras'' @ uni [0x2026]),
     (''cache.search_label'', ''Pesquisar por nome''),
     (''cache.search_placeholder'', ''example.org''),
     (''cache.all_types'', ''Todos os tipos''),
     (''cache.remove_entry'', ''Remover do cache''),
     (''cache.invalidate_title'', ''Invalidar um dom'' @ uni [0xED] @ ''nio''),
     (''cache.invalidate_text'', ''Remove as respostas em cache de um nome sem limpar todo o cache.''),
     (''cache.domain'', ''Dom'' @ uni [0xED] @ ''nio''),
     (''cache.include_subdomains'', ''Incluir subdom'' @ uni [0xED] @ ''nios''),
     (''cache.invalidate'', ''Invalidar''),
     (''cache.removed_entries'', ''Entradas removidas do cache''),
     (''cache.invalidate_failed'', ''Falha na invalida'' @ uni [0xE7, 0xE3] @ ''o''),
     (''cache.flush_confirm'', ''Limpar todas as respostas em cache? Os contadores de acertos e falhas s'' @ uni [0xE3] @ ''o mantidos.''),
     (''cache.no_matches'', ''Nenhuma entrada corresponde a este filtro.''),
     (''blocklists.schedule'', ''Agendamento de atualiza'' @ uni [0xE7, 0xE3] @ ''o''),
     (''blocklists.schedule_for'', ''Agendamento de atualiza'' @ uni [0xE7, 0xE3] @ ''o de''),
     (''blocklists.manual'', ''Manual''),
     (''blocklists.every_1h'', ''A cada hora''),
     (''blocklists.every_6h'', ''A cada 6 horas''),
     (''blocklists.every_12h'', ''A cada 12 horas''),
     (''blocklists.every_24h'', ''Diariamente''),
     (''blocklists.every_7d'', ''Semanalmente''),
     (''blocklists.col_next_update'', ''Pr'' @ uni [0xF3] @ ''xima atualiza'' @ uni [0xE7, 0xE3] @ ''o''),
     (''blocklists.due_now'', ''Pendente agora''),
     (''blocklists.never_updated'', ''Nunca atualizada''),
     (''blocklists.retry_count'', ''tentativas com falha''),
     (''blocklists.schedule_failed'', ''N'' @ uni [0xE3] @ ''o foi poss'' @ uni [0xED] @ ''vel alterar o agendamento''),
     (''app.nav.forwarding'', ''Encaminhamento condicional''),
     (''app.title.forwarding'', ''Encaminhamento condicional''),
     (''app.subtitle.forwarding'', ''Envie consultas de dom'' @ uni [0xED] @ ''nios selecionados para resolvedores dedicados.''),
     (''forwarding.count'', ''regras de encaminhamento''),
     (''forwarding.add'', ''Adicionar regra''),
     (''forwarding.add_title'', ''Nova regra de encaminhamento''),
     (''forwarding.edit_title'', ''Editar regra de encaminhamento''),
     (''forwarding.form_hint'', ''A regra tamb'' @ uni [0xE9] @ ''m cobre todos os nomes abaixo do dom'' @ uni [0xED] @ ''nio. Vence a regra ativa mais espec'' @ uni [0xED] @ ''fica.''),
     (''forwarding.domain'', ''Dom'' @ uni [0xED] @ ''nio''),
     (''forwarding.upstreams'', ''Resolvedores''),
     (''forwarding.upstreams_hint'', ''De 1 a 4 endere'' @ uni [0xE7] @ ''os como IP ou IP:porta, separados por v'' @ uni [0xED] @ ''rgulas. A porta 53 '' @ uni [0xE9] @ '' usada se omitida.''),
     (''forwarding.description'', ''Descri'' @ uni [0xE7, 0xE3] @ ''o''),
     (''forwarding.enabled'', ''Ativada''),
     (''forwarding.save'', ''Salvar regra'')]\<close>

definition dict_pt_BR_6 :: text_table where
  \<open>dict_pt_BR_6 = [
     (''forwarding.cancel'', ''Cancelar''),
     (''forwarding.empty_title'', ''Nenhuma regra de encaminhamento''),
     (''forwarding.empty_text'', ''Todas as consultas usam os resolvedores globais. Adicione uma regra para resolver um dom'' @ uni [0xED] @ ''nio como corp.example por um servidor DNS interno.''),
     (''forwarding.col_status'', ''Status''),
     (''forwarding.test'', ''Testar''),
     (''forwarding.test_title'', ''Testar regra''),
     (''forwarding.test_hint'', ''Envia uma consulta apenas pelos resolvedores desta regra, sem cache.''),
     (''forwarding.test_name'', ''Nome''),
     (''forwarding.test_type'', ''Tipo''),
     (''forwarding.run_test'', ''Executar teste''),
     (''forwarding.test_via'', ''via''),
     (''forwarding.no_answers'', ''Sem registros de resposta''),
     (''forwarding.edit'', ''Editar''),
     (''forwarding.delete'', ''Excluir''),
     (''forwarding.delete_confirm'', ''Excluir a regra de encaminhamento de''),
     (''forwarding.toggle'', ''Ativar ou desativar a regra de''),
     (''forwarding.load_failed'', ''N'' @ uni [0xE3] @ ''o foi poss'' @ uni [0xED] @ ''vel carregar as regras''),
     (''forwarding.save_failed'', ''N'' @ uni [0xE3] @ ''o foi poss'' @ uni [0xED] @ ''vel salvar a regra''),
     (''forwarding.saved'', ''Regra salva. As respostas em cache do dom'' @ uni [0xED] @ ''nio foram removidas.''),
     (''forwarding.disabled'', ''Desativada''),
     (''app.nav.rewrites'', ''Reescritas de DNS''),
     (''app.title.rewrites'', ''Reescritas de DNS''),
     (''app.subtitle.rewrites'', ''Responda nomes escolhidos com endere'' @ uni [0xE7] @ ''os ou aliases fixos.''),
     (''rewrites.count'', ''reescritas''),
     (''rewrites.add'', ''Adicionar reescrita''),
     (''rewrites.add_title'', ''Nova reescrita''),
     (''rewrites.edit_title'', ''Editar reescrita''),
     (''rewrites.form_hint'', ''Use *.pai para todos os nomes abaixo de um dom'' @ uni [0xED] @ ''nio. Nomes exatos vencem curingas.''),
     (''rewrites.name'', ''Nome''),
     (''rewrites.type'', ''Tipo''),
     (''rewrites.value'', ''Resposta''),
     (''rewrites.value_hint_A'', ''Endere'' @ uni [0xE7] @ ''o IPv4''),
     (''rewrites.value_hint_AAAA'', ''Endere'' @ uni [0xE7] @ ''o IPv6''),
     (''rewrites.value_hint_CNAME'', ''Nome de host de destino, resolvido normalmente''),
     (''rewrites.description'', ''Descri'' @ uni [0xE7, 0xE3] @ ''o''),
     (''rewrites.enabled'', ''Ativada''),
     (''rewrites.save'', ''Salvar reescrita''),
     (''rewrites.empty_title'', ''Nenhuma reescrita de DNS''),
     (''rewrites.empty_text'', ''Associe um nome como nas.home a um endere'' @ uni [0xE7] @ ''o sem criar uma zona.''),
     (''rewrites.col_notes'', ''Observa'' @ uni [0xE7, 0xF5] @ ''es''),
     (''rewrites.blocked_hint'', ''Bloqueado primeiro por uma lista de bloqueio''),
     (''rewrites.overrides_hint'', ''Substitui a zona local''),
     (''rewrites.edit'', ''Editar''),
     (''rewrites.delete'', ''Excluir''),
     (''rewrites.delete_confirm'', ''Excluir esta reescrita?''),
     (''rewrites.toggle'', ''Ativar ou desativar a reescrita de''),
     (''rewrites.search'', ''Filtrar reescritas''),
     (''rewrites.load_failed'', ''N'' @ uni [0xE3] @ ''o foi poss'' @ uni [0xED] @ ''vel carregar as reescritas''),
     (''rewrites.save_failed'', ''N'' @ uni [0xE3] @ ''o foi poss'' @ uni [0xED] @ ''vel salvar a reescrita''),
     (''rewrites.saved'', ''Reescrita salva e aplicada.''),
     (''app.nav.clients'', ''Clientes''),
     (''app.title.clients'', ''Clientes e dispositivos''),
     (''app.subtitle.clients'', ''D'' @ uni [0xEA] @ '' nomes a endere'' @ uni [0xE7] @ ''os e redes usados em todo o Velora.''),
     (''clients.count'', ''clientes''),
     (''clients.add'', ''Adicionar cliente''),
     (''clients.add_title'', ''Novo cliente''),
     (''clients.edit_title'', ''Editar cliente''),
     (''clients.form_hint'', ''Se as redes se sobrep'' @ uni [0xF5] @ ''em, vence a mais espec'' @ uni [0xED] @ ''fica. D'' @ uni [0xEA] @ '' um endere'' @ uni [0xE7] @ ''o fixo a dispositivos DHCP antes de nome'' @ uni [0xE1] @ ''-los.''),
     (''clients.name'', ''Nome''),
     (''clients.addresses'', ''Endere'' @ uni [0xE7] @ ''os''),
     (''clients.addresses_hint'', ''Endere'' @ uni [0xE7] @ ''os IP ou redes CIDR, separados por v'' @ uni [0xED] @ ''rgulas.''),
     (''clients.group'', ''Grupo''),
     (''clients.description'', ''Descri'' @ uni [0xE7, 0xE3] @ ''o''),
     (''clients.enabled'', ''Ativado''),
     (''clients.save'', ''Salvar cliente''),
     (''clients.activity'', uni [0xDA] @ ''ltimas 24 horas''),
     (''clients.queries'', ''consultas''),
     (''clients.last_seen'', ''Visto pela '' @ uni [0xFA] @ ''ltima vez''),
     (''clients.no_activity'', ''Sem consultas''),
     (''clients.view_queries'', ''Ver consultas''),
     (''clients.empty_title'', ''Nenhum cliente nomeado''),
     (''clients.empty_text'', ''Nomeie dispositivos como uma TV ou Home Assistant para reconhec'' @ uni [0xEA] @ ''-los no registro de consultas.''),
     (''clients.unnamed_title'', ''Vistos recentemente sem nome''),
     (''clients.unnamed_text'', ''Endere'' @ uni [0xE7] @ ''os mais ativos nas '' @ uni [0xFA] @ ''ltimas 24 horas sem cliente.''),
     (''clients.name_it'', ''Nomear dispositivo''),
     (''clients.edit'', ''Editar''),
     (''clients.delete'', ''Excluir''),
     (''clients.delete_confirm'', ''Excluir o cliente''),
     (''clients.toggle'', ''Ativar ou desativar o cliente''),
     (''clients.load_failed'', ''N'' @ uni [0xE3] @ ''o foi poss'' @ uni [0xED] @ ''vel carregar os clientes''),
     (''clients.save_failed'', ''N'' @ uni [0xE3] @ ''o foi poss'' @ uni [0xED] @ ''vel salvar o cliente''),
     (''clients.saved'', ''Cliente salvo.''),
     (''clients.logging_off'', ''Ative o registro de consultas para ver a atividade.''),
     (''app.nav.policies'', ''Pol'' @ uni [0xED] @ ''ticas por cliente''),
     (''app.title.policies'', ''Pol'' @ uni [0xED] @ ''ticas de filtragem por cliente''),
     (''app.subtitle.policies'', ''Escolha como o bloqueio se aplica a cada cliente.''),
     (''policies.load_failed'', ''N'' @ uni [0xE3] @ ''o foi poss'' @ uni [0xED] @ ''vel carregar as pol'' @ uni [0xED] @ ''ticas.''),
     (''policies.save_failed'', ''N'' @ uni [0xE3] @ ''o foi poss'' @ uni [0xED] @ ''vel salvar a pol'' @ uni [0xED] @ ''tica.''),
     (''policies.saved'', ''Pol'' @ uni [0xED] @ ''tica salva.''),
     (''policies.lookup'', ''Verificar endere'' @ uni [0xE7] @ ''o''),
     (''policies.add'', ''Adicionar pol'' @ uni [0xED] @ ''tica''),
     (''policies.add_title'', ''Nova pol'' @ uni [0xED] @ ''tica''),
     (''policies.edit_title'', ''Editar pol'' @ uni [0xED] @ ''tica''),
     (''policies.form_hint'', ''A rede de cliente mais espec'' @ uni [0xED] @ ''fica decide qual pol'' @ uni [0xED] @ ''tica um endere'' @ uni [0xE7] @ ''o usa.''),
     (''policies.client'', ''Cliente''),
     (''policies.mode'', ''Filtragem''),
     (''policies.mode_default'', ''Global''),
     (''policies.mode_disabled'', ''Sem filtragem''),
     (''policies.mode_custom'', ''Personalizada''),
     (''policies.mode_default_hint'', ''As mesmas listas de bloqueio e permiss'' @ uni [0xE3] @ ''o que os demais.''),
     (''policies.mode_disabled_hint'', ''Nada '' @ uni [0xE9] @ '' bloqueado para este cliente.''),
     (''policies.mode_custom_hint'', ''Apenas as listas escolhidas e seus pr'' @ uni [0xF3] @ ''prios dom'' @ uni [0xED] @ ''nios.''),
     (''policies.blocklists'', ''Listas de bloqueio''),
     (''policies.no_sources'', ''Ainda n'' @ uni [0xE3] @ ''o h'' @ uni [0xE1] @ '' listas de bloqueio.''),
     (''policies.globally_off'', ''desativada globalmente''),
     (''policies.block'', ''Bloquear tamb'' @ uni [0xE9] @ ''m''),
     (''policies.allow'', ''Sempre permitir''),
     (''policies.domains_hint'', ''Um dom'' @ uni [0xED] @ ''nio por linha; subdom'' @ uni [0xED] @ ''nios inclu'' @ uni [0xED] @ ''dos.''),
     (''policies.allow_hint'', ''Tem prioridade sobre todas as listas para este cliente.''),
     (''policies.enabled'', ''Pol'' @ uni [0xED] @ ''tica ativa''),
     (''policies.save'', ''Salvar pol'' @ uni [0xED] @ ''tica''),
     (''policies.empty_title'', ''Nenhuma pol'' @ uni [0xED] @ ''tica por cliente''),
     (''policies.empty_text'', ''Todos os clientes usam as listas globais. Adicione uma pol'' @ uni [0xED] @ ''tica para filtrar um dispositivo de forma mais r'' @ uni [0xED] @ ''gida, mais branda ou n'' @ uni [0xE3] @ ''o filtrar.''),
     (''policies.need_clients'', ''As pol'' @ uni [0xED] @ ''ticas se aplicam a clientes nomeados. Nomeie um dispositivo primeiro:''),
     (''policies.details'', ''Detalhes''),
     (''policies.summary_disabled'', ''Todas as consultas s'' @ uni [0xE3] @ ''o respondidas sem filtro''),
     (''policies.summary_default'', ''Usa as listas globais''),
     (''policies.no_lists'', ''Sem listas''),
     (''policies.blocked_short'', ''bloqueados'')]\<close>

definition dict_pt_BR_7 :: text_table where
  \<open>dict_pt_BR_7 = [
     (''policies.allowed_short'', ''permitidos''),
     (''policies.paused'', ''Pausada''),
     (''policies.toggle'', ''Pol'' @ uni [0xED] @ ''tica ativa''),
     (''policies.edit'', ''Editar pol'' @ uni [0xED] @ ''tica''),
     (''policies.delete'', ''Excluir pol'' @ uni [0xED] @ ''tica''),
     (''policies.delete_confirm'', ''Remover a pol'' @ uni [0xED] @ ''tica de''),
     (''policies.no_policy'', ''(sem pol'' @ uni [0xED] @ ''tica, filtragem global)''),
     (''policies.unknown_address'', ''n'' @ uni [0xE3] @ ''o corresponde a nenhum cliente e usa a filtragem global.''),
     (''app.nav.webhooks'', ''Webhooks''),
     (''app.title.webhooks'', ''Notifica'' @ uni [0xE7, 0xF5] @ ''es por webhook''),
     (''app.subtitle.webhooks'', ''Envie eventos importantes para outros sistemas.''),
     (''webhooks.load_failed'', ''N'' @ uni [0xE3] @ ''o foi poss'' @ uni [0xED] @ ''vel carregar os webhooks.''),
     (''webhooks.save_failed'', ''N'' @ uni [0xE3] @ ''o foi poss'' @ uni [0xED] @ ''vel salvar o webhook.''),
     (''webhooks.saved'', ''Webhook salvo.''),
     (''webhooks.count'', ''webhooks''),
     (''webhooks.add'', ''Adicionar webhook''),
     (''webhooks.add_title'', ''Novo webhook''),
     (''webhooks.edit_title'', ''Editar webhook''),
     (''webhooks.form_hint'', ''O Velora envia uma requisi'' @ uni [0xE7, 0xE3] @ ''o POST JSON para cada evento correspondente. A entrega ocorre em segundo plano e nunca atrasa respostas DNS.''),
     (''webhooks.name'', ''Nome''),
     (''webhooks.url'', ''URL''),
     (''webhooks.min_severity'', ''Gravidade m'' @ uni [0xED] @ ''nima''),
     (''webhooks.severity_info'', ''Informa'' @ uni [0xE7, 0xE3] @ ''o''),
     (''webhooks.severity_warning'', ''Aviso''),
     (''webhooks.severity_critical'', ''Cr'' @ uni [0xED] @ ''tico''),
     (''webhooks.token'', ''Token bearer''),
     (''webhooks.token_hint'', ''Opcional. Enviado no cabe'' @ uni [0xE7] @ ''alho Authorization e nunca mais exibido.''),
     (''webhooks.token_stored'', ''Token armazenado''),
     (''webhooks.token_change'', ''Alterar''),
     (''webhooks.token_remove_hint'', ''Deixe vazio para remover o token''),
     (''webhooks.events'', ''Eventos''),
     (''webhooks.events_hint'', ''N'' @ uni [0xE3] @ ''o selecione nenhum para receber todos os tipos.''),
     (''webhooks.all_events'', ''Todos os eventos''),
     (''webhooks.allow_private'', ''Permitir destino em rede privada (por exemplo Home Assistant na sua LAN)''),
     (''webhooks.enabled'', ''Webhook ativo''),
     (''webhooks.save'', ''Salvar webhook''),
     (''webhooks.empty_title'', ''Nenhum webhook''),
     (''webhooks.empty_text'', ''Adicione um webhook para saber quando um upstream falha, uma lista n'' @ uni [0xE3] @ ''o atualiza ou um backup falha.''),
     (''webhooks.last_delivery'', uni [0xDA] @ ''ltima entrega''),
     (''webhooks.never'', ''Nada enviado ainda''),
     (''webhooks.failing'', ''Falhando''),
     (''webhooks.toggle'', ''Webhook ativo''),
     (''webhooks.test'', ''Enviar teste''),
     (''webhooks.test_ok'', ''Teste entregue a''),
     (''webhooks.test_failed'', ''O teste falhou para''),
     (''webhooks.edit'', ''Editar webhook''),
     (''webhooks.delete'', ''Excluir webhook''),
     (''webhooks.delete_confirm'', ''Excluir o webhook''),
     (''app.nav.analytics'', ''An'' @ uni [0xE1] @ ''lises''),
     (''app.title.analytics'', ''An'' @ uni [0xE1] @ ''lises''),
     (''app.subtitle.analytics'', ''Atividade DNS e desempenho do resolvedor a partir do hist'' @ uni [0xF3] @ ''rico retido.''),
     (''analytics.load_failed'', ''N'' @ uni [0xE3] @ ''o foi poss'' @ uni [0xED] @ ''vel carregar as an'' @ uni [0xE1] @ ''lises.''),
     (''analytics.logging_off_title'', ''O registro de consultas est'' @ uni [0xE1] @ '' desativado''),
     (''analytics.logging_off_text'', ''As an'' @ uni [0xE1] @ ''lises usam o hist'' @ uni [0xF3] @ ''rico de consultas. Ative o registro de consultas:''),
     (''analytics.range'', ''Per'' @ uni [0xED] @ ''odo''),
     (''analytics.range_1h'', ''1 hora''),
     (''analytics.range_24h'', ''24 horas''),
     (''analytics.range_7d'', ''7 dias''),
     (''analytics.range_30d'', ''30 dias''),
     (''analytics.history_limited'', ''O hist'' @ uni [0xF3] @ ''rico s'' @ uni [0xF3] @ '' vai at'' @ uni [0xE9]),
     (''analytics.queries'', ''Consultas''),
     (''analytics.blocked'', ''Bloqueadas''),
     (''analytics.allowed'', ''Permitidas''),
     (''analytics.cached'', ''Respostas do cache''),
     (''analytics.answers'', ''respostas''),
     (''analytics.avg_upstream'', ''Tempo m'' @ uni [0xE9] @ ''dio upstream''),
     (''analytics.empty_title'', ''Nenhuma consulta neste per'' @ uni [0xED] @ ''odo''),
     (''analytics.empty_text'', ''Escolha um per'' @ uni [0xED] @ ''odo maior ou volte quando houver consultas.''),
     (''analytics.over_time'', ''Consultas ao longo do tempo''),
     (''analytics.over_time_hint'', ''Passe o mouse ou use as setas para ver um intervalo.''),
     (''analytics.chart_aria'', ''Consultas por intervalo, permitidas e bloqueadas''),
     (''analytics.show_table'', ''Ver como tabela''),
     (''analytics.time'', ''Hora''),
     (''analytics.avg_time'', ''Tempo m'' @ uni [0xE9] @ ''dio''),
     (''analytics.latency'', ''Tempo de resposta upstream''),
     (''analytics.latency_hint'', ''M'' @ uni [0xE9] @ ''dia das consultas encaminhadas respondidas; lacunas indicam sem tr'' @ uni [0xE1] @ ''fego upstream.''),
     (''analytics.latency_aria'', ''Tempo m'' @ uni [0xE9] @ ''dio de resposta upstream por intervalo''),
     (''analytics.query_types'', ''Tipos de consulta''),
     (''analytics.sources'', ''Respondidas por''),
     (''analytics.source_upstream'', ''Upstream''),
     (''analytics.source_cache'', ''Cache''),
     (''analytics.source_blocked'', ''Bloqueadas''),
     (''analytics.source_local'', ''Zonas locais e reescritas''),
     (''analytics.source_refused'', ''Recusadas''),
     (''analytics.response_codes'', ''C'' @ uni [0xF3] @ ''digos de resposta''),
     (''analytics.top_blocked'', ''Dom'' @ uni [0xED] @ ''nios mais bloqueados''),
     (''analytics.nothing_blocked'', ''Nada bloqueado neste per'' @ uni [0xED] @ ''odo''),
     (''analytics.upstreams'', ''Uso de upstreams''),
     (''analytics.upstreams_hint'', ''Consultas encaminhadas por resolvedor, respostas SERVFAIL e tempo m'' @ uni [0xE9] @ ''dio.''),
     (''analytics.no_upstream'', ''Sem tr'' @ uni [0xE1] @ ''fego upstream neste per'' @ uni [0xED] @ ''odo''),
     (''analytics.failures'', ''Falhas''),
     (''updates.check_prompt'', ''Verifique se h'' @ uni [0xE1] @ '' uma vers'' @ uni [0xE3] @ ''o mais recente.''),
     (''updates.checking'', ''Procurando atualiza'' @ uni [0xE7, 0xF5] @ ''es'' @ uni [0x2026]),
     (''updates.starting'', ''Iniciando a atualiza'' @ uni [0xE7, 0xE3] @ ''o'' @ uni [0x2026]),
     (''updates.updating_to'', ''Atualizando para''),
     (''updates.completed_to'', ''Atualizado para''),
     (''updates.failed_title'', ''A atualiza'' @ uni [0xE7, 0xE3] @ ''o n'' @ uni [0xE3] @ ''o foi conclu'' @ uni [0xED] @ ''da''),
     (''updates.failed_text'', ''A atualiza'' @ uni [0xE7, 0xE3] @ ''o falhou. O Velora continua na vers'' @ uni [0xE3] @ ''o anterior.''),
     (''updates.not_started'', ''O atualizador n'' @ uni [0xE3] @ ''o iniciou a atualiza'' @ uni [0xE7, 0xE3] @ ''o. Verifique se velora-updater.service est'' @ uni [0xE1] @ '' em execu'' @ uni [0xE7, 0xE3] @ ''o.''),
     (''updates.check_again'', ''Verificar novamente''),
     (''updates.update_now'', ''Atualizar''),
     (''updates.reload'', ''Recarregar p'' @ uni [0xE1] @ ''gina''),
     (''updates.reconnecting'', ''O Velora est'' @ uni [0xE1] @ '' reiniciando. Aguardando'' @ uni [0x2026]),
     (''updates.keep_open'', ''Voc'' @ uni [0xEA] @ '' pode manter esta p'' @ uni [0xE1] @ ''gina aberta; ela se atualiza sozinha. O DNS continua respondendo pela vers'' @ uni [0xE3] @ ''o atual at'' @ uni [0xE9] @ '' a troca.''),
     (''updates.completed_text'', ''A atualiza'' @ uni [0xE7, 0xE3] @ ''o terminou e passou nas verifica'' @ uni [0xE7, 0xF5] @ ''es. Recarregue a p'' @ uni [0xE1] @ ''gina para carregar a nova interface.''),
     (''updates.release_date'', ''Lan'' @ uni [0xE7] @ ''ada''),
     (''settings.entry'', ''Entrada''),
     (''settings.fix_fields'', ''Nada foi alterado. Corrija os campos destacados e tente novamente.''),
     (''settings.restart_required'', ''Nada foi alterado. Os campos destacados exigem rein'' @ uni [0xED] @ ''cio: edite o arquivo de configura'' @ uni [0xE7, 0xE3] @ ''o e reinicie o Velora DNS.''),
     (''settings.restart_field'', ''Requer rein'' @ uni [0xED] @ ''cio''),
     (''settings.check'', ''Verificar''),
     (''settings.check_ok'', ''As configura'' @ uni [0xE7, 0xF5] @ ''es s'' @ uni [0xE3] @ ''o v'' @ uni [0xE1] @ ''lidas e podem ser aplicadas sem rein'' @ uni [0xED] @ ''cio.''),
     (''restore.title'', ''Restaurar um backup''),
     (''restore.hint'', ''Envie um backup criptografado para verific'' @ uni [0xE1] @ ''-lo. Nada muda at'' @ uni [0xE9] @ '' voc'' @ uni [0xEA] @ '' confirmar; o Velora reinicia, mant'' @ uni [0xE9] @ ''m uma c'' @ uni [0xF3] @ ''pia de seguran'' @ uni [0xE7] @ ''a e reverte automaticamente se n'' @ uni [0xE3] @ ''o iniciar.''),
     (''restore.file'', ''Arquivo de backup (.vdns)''),
     (''restore.inspect'', ''Verificar backup''),
     (''restore.inspecting'', ''Verificando'' @ uni [0x2026]),
     (''restore.inspect_failed'', ''N'' @ uni [0xE3] @ ''o foi poss'' @ uni [0xED] @ ''vel verificar o backup.''),
     (''restore.review_title'', ''O backup '' @ uni [0xE9] @ '' v'' @ uni [0xE1] @ ''lido''),
     (''restore.created'', ''Criado'')]\<close>

definition dict_pt_BR_8 :: text_table where
  \<open>dict_pt_BR_8 = [
     (''restore.version'', ''Vers'' @ uni [0xE3] @ ''o do Velora''),
     (''restore.schema'', ''Esquema do banco''),
     (''restore.contents'', ''Conte'' @ uni [0xFA] @ ''do''),
     (''restore.zones'', ''zonas''),
     (''restore.records'', ''registros''),
     (''restore.blocklists'', ''listas''),
     (''restore.rewrites'', ''reescritas''),
     (''restore.forward_rules'', ''regras de encaminhamento''),
     (''restore.clients'', ''clientes''),
     (''restore.users'', ''usu'' @ uni [0xE1] @ ''rios''),
     (''restore.listeners'', ''Escuta''),
     (''restore.web'', ''web''),
     (''restore.confirm'', ''Substituir a configura'' @ uni [0xE7, 0xE3] @ ''o e os dados atuais por este backup. Uma c'' @ uni [0xF3] @ ''pia de seguran'' @ uni [0xE7] @ ''a do estado atual '' @ uni [0xE9] @ '' mantida.''),
     (''restore.restore'', ''Restaurar e reiniciar''),
     (''restore.schedule_failed'', ''N'' @ uni [0xE3] @ ''o foi poss'' @ uni [0xED] @ ''vel iniciar a restaura'' @ uni [0xE7, 0xE3] @ ''o.''),
     (''restore.manual_restart'', ''A restaura'' @ uni [0xE7, 0xE3] @ ''o est'' @ uni [0xE1] @ '' agendada. Reinicie o Velora DNS para aplic'' @ uni [0xE1] @ ''-la.''),
     (''restore.restarting'', ''O Velora est'' @ uni [0xE1] @ '' reiniciando para aplicar o backup. Esta p'' @ uni [0xE1] @ ''gina ser'' @ uni [0xE1] @ '' atualizada ao voltar.''),
     (''restore.signed_out'', ''O Velora voltou com os dados restaurados. Entre com uma conta do backup.''),
     (''restore.again'', ''Restaurar outro backup''),
     (''restore.backup_from'', ''Backup de''),
     (''restore.safety_copy'', ''Estado anterior mantido em''),
     (''restore.state_completed'', ''Restaura'' @ uni [0xE7, 0xE3] @ ''o conclu'' @ uni [0xED] @ ''da.''),
     (''restore.state_rolled_back'', ''Restaura'' @ uni [0xE7, 0xE3] @ ''o revertida.''),
     (''restore.state_failed'', ''A restaura'' @ uni [0xE7, 0xE3] @ ''o falhou.''),
     (''restore.state_applied'', ''Restaura'' @ uni [0xE7, 0xE3] @ ''o aplicada; aguardando prontid'' @ uni [0xE3] @ ''o.''),
     (''restore.state_pending'', ''Restaura'' @ uni [0xE7, 0xE3] @ ''o agendada.''),
     (''restore.passphrase'', ''Frase-senha do backup''),
     (''app.scrollable_table'', ''rola na horizontal''),
     (''palette.title'', ''Paleta de comandos''),
     (''palette.placeholder'', ''Buscar p'' @ uni [0xE1] @ ''ginas, zonas, registros, clientes'' @ uni [0x2026]),
     (''palette.results'', ''Resultados''),
     (''palette.pages'', ''P'' @ uni [0xE1] @ ''ginas''),
     (''palette.actions'', ''A'' @ uni [0xE7, 0xF5] @ ''es''),
     (''palette.kind_zone'', ''Zonas''),
     (''palette.kind_record'', ''Registros''),
     (''palette.kind_client'', ''Clientes''),
     (''palette.kind_rewrite'', ''Reescritas DNS''),
     (''palette.kind_forwarding'', ''Encaminhamento condicional''),
     (''palette.kind_blocklist'', ''Listas de bloqueio''),
     (''palette.no_results'', ''Nenhum resultado.''),
     (''palette.navigate'', ''navegar''),
     (''palette.open'', ''abrir''),
     (''palette.toggle'', ''abrir ou fechar''),
     (''palette.open_button'', ''Buscar''),
     (''palette.add_client'', ''Adicionar cliente''),
     (''palette.create_backup'', ''Criar backup''),
     (''cluster.action_failed'', ''A a'' @ uni [0xE7, 0xE3] @ ''o do cluster falhou.''),
     (''cluster.never'', ''nunca''),
     (''cluster.role'', ''Fun'' @ uni [0xE7, 0xE3] @ ''o''),
     (''cluster.role_standalone'', ''Independente''),
     (''cluster.role_primary'', ''Prim'' @ uni [0xE1] @ ''rio do cluster''),
     (''cluster.role_replica'', ''R'' @ uni [0xE9] @ ''plica do cluster''),
     (''cluster.replicas'', ''R'' @ uni [0xE9] @ ''plicas''),
     (''cluster.in_sync_count'', ''sincronizadas''),
     (''cluster.revision'', ''Revis'' @ uni [0xE3] @ ''o das zonas''),
     (''cluster.zones_replicated'', ''zonas replicadas''),
     (''cluster.last_sync'', uni [0xDA] @ ''ltima sincroniza'' @ uni [0xE7, 0xE3] @ ''o''),
     (''cluster.sync_failed'', ''A '' @ uni [0xFA] @ ''ltima sincroniza'' @ uni [0xE7, 0xE3] @ ''o falhou''),
     (''cluster.sync_ok'', ''Atualizado com o prim'' @ uni [0xE1] @ ''rio''),
     (''cluster.members'', ''R'' @ uni [0xE9] @ ''plicas''),
     (''cluster.members_hint'', ''N'' @ uni [0xF3] @ ''s que copiam as zonas deste prim'' @ uni [0xE1] @ ''rio. Eles se reportam a cada 30 segundos.''),
     (''cluster.add_node'', ''Adicionar n'' @ uni [0xF3]),
     (''cluster.token_title'', ''Token de entrada criado''),
     (''cluster.token_steps'', ''No novo n'' @ uni [0xF3] @ '', abra Cluster '' @ uni [0x2192] @ '' Entrar em um cluster e informe:''),
     (''cluster.token_expires'', ''O token expira '' @ uni [0xE0] @ ''s''),
     (''cluster.token_once'', ''Funciona uma vez e n'' @ uni [0xE3] @ ''o ser'' @ uni [0xE1] @ '' exibido novamente.''),
     (''cluster.copy_token'', ''Copiar token''),
     (''cluster.copied'', ''Copiado''),
     (''cluster.token_done'', ''Conclu'' @ uni [0xED] @ ''do''),
     (''cluster.no_members'', ''Ainda n'' @ uni [0xE3] @ ''o h'' @ uni [0xE1] @ '' r'' @ uni [0xE9] @ ''plicas''),
     (''cluster.no_members_text'', ''Adicione um n'' @ uni [0xF3] @ '' para criar um token de entrada para um segundo servidor Velora DNS.''),
     (''cluster.status_in_sync'', ''Sincronizado''),
     (''cluster.status_behind'', ''Atualizando''),
     (''cluster.status_stale'', ''Sem resposta''),
     (''cluster.status_error'', ''Erro de sincroniza'' @ uni [0xE7, 0xE3] @ ''o''),
     (''cluster.status_never_synced'', ''Aguardando a primeira sincroniza'' @ uni [0xE7, 0xE3] @ ''o''),
     (''cluster.remove'', ''Remover n'' @ uni [0xF3]),
     (''cluster.remove_confirm'', ''Remover esta r'' @ uni [0xE9] @ ''plica? Ela deixar'' @ uni [0xE1] @ '' de receber atualiza'' @ uni [0xE7, 0xF5] @ ''es de zonas:''),
     (''cluster.removed'', ''R'' @ uni [0xE9] @ ''plica removida.''),
     (''cluster.dissolve'', ''Dissolver cluster''),
     (''cluster.dissolve_hint'', ''Revoga todas as r'' @ uni [0xE9] @ ''plicas e torna este n'' @ uni [0xF3] @ '' independente novamente. As r'' @ uni [0xE9] @ ''plicas mant'' @ uni [0xEA] @ ''m a '' @ uni [0xFA] @ ''ltima c'' @ uni [0xF3] @ ''pia das zonas.''),
     (''cluster.dissolve_confirm'', ''Dissolver o cluster e revogar todas as r'' @ uni [0xE9] @ ''plicas?''),
     (''cluster.dissolved'', ''O cluster foi dissolvido.''),
     (''cluster.replica_title'', ''Replicando do prim'' @ uni [0xE1] @ ''rio''),
     (''cluster.replica_hint'', ''As zonas deste n'' @ uni [0xF3] @ '' s'' @ uni [0xE3] @ ''o copiadas do prim'' @ uni [0xE1] @ ''rio e aqui s'' @ uni [0xE3] @ ''o somente leitura. As demais configura'' @ uni [0xE7, 0xF5] @ ''es continuam locais.''),
     (''cluster.replica_ok'', ''A replica'' @ uni [0xE7, 0xE3] @ ''o est'' @ uni [0xE1] @ '' funcionando.''),
     (''cluster.sync_now'', ''Sincronizar agora''),
     (''cluster.leave'', ''Sair do cluster''),
     (''cluster.leave_confirm'', ''Sair do cluster? Este n'' @ uni [0xF3] @ '' mant'' @ uni [0xE9] @ ''m suas zonas e volta a ser edit'' @ uni [0xE1] @ ''vel.''),
     (''cluster.left'', ''Este n'' @ uni [0xF3] @ '' saiu do cluster.''),
     (''cluster.primary_url'', ''URL do prim'' @ uni [0xE1] @ ''rio''),
     (''cluster.cluster_id'', ''ID do cluster''),
     (''cluster.node_id'', ''ID do n'' @ uni [0xF3]),
     (''cluster.join_token'', ''Token de entrada''),
     (''cluster.standalone_title'', ''Este n'' @ uni [0xF3] @ '' '' @ uni [0xE9] @ '' independente''),
     (''cluster.standalone_viewer'', ''Um administrador pode criar um cluster ou incluir este n'' @ uni [0xF3] @ '' em um.''),
     (''cluster.scope_note'', ''Um cluster mant'' @ uni [0xE9] @ ''m as zonas locais id'' @ uni [0xEA] @ ''nticas em v'' @ uni [0xE1] @ ''rios servidores Velora DNS: um prim'' @ uni [0xE1] @ ''rio aceita altera'' @ uni [0xE7, 0xF5] @ ''es e as r'' @ uni [0xE9] @ ''plicas as copiam a cada 30 segundos. N'' @ uni [0xE3] @ ''o h'' @ uni [0xE1] @ '' failover autom'' @ uni [0xE1] @ ''tico e as demais configura'' @ uni [0xE7, 0xF5] @ ''es s'' @ uni [0xE3] @ ''o por n'' @ uni [0xF3] @ ''.''),
     (''cluster.create_title'', ''Criar um cluster''),
     (''cluster.create_hint'', ''Este n'' @ uni [0xF3] @ '' se torna o prim'' @ uni [0xE1] @ ''rio. Suas zonas s'' @ uni [0xE3] @ ''o copiadas para todas as r'' @ uni [0xE9] @ ''plicas.''),
     (''cluster.node_name'', ''Nome do n'' @ uni [0xF3]),
     (''cluster.advertised_url'', ''Endere'' @ uni [0xE7] @ ''o usado pelos outros n'' @ uni [0xF3] @ ''s''),
     (''cluster.advertised_hint'', ''A URL da interface web deste n'' @ uni [0xF3] @ '' vista pelas r'' @ uni [0xE9] @ ''plicas.''),
     (''cluster.allow_http'', ''Permitir HTTP sem criptografia (apenas rede confi'' @ uni [0xE1] @ ''vel)''),
     (''cluster.skip_check'', ''Pular a verifica'' @ uni [0xE7, 0xE3] @ ''o de acesso''),
     (''cluster.create'', ''Criar cluster''),
     (''cluster.created'', ''O cluster foi criado. Adicione um n'' @ uni [0xF3] @ '' para convidar uma r'' @ uni [0xE9] @ ''plica.''),
     (''cluster.join_title'', ''Entrar em um cluster''),
     (''cluster.join_hint'', ''Torne este n'' @ uni [0xF3] @ '' uma r'' @ uni [0xE9] @ ''plica de um prim'' @ uni [0xE1] @ ''rio. Crie o token de entrada no prim'' @ uni [0xE1] @ ''rio antes.''),
     (''cluster.join_warning'', ''Ao entrar, as zonas locais deste n'' @ uni [0xF3] @ '' s'' @ uni [0xE3] @ ''o substitu'' @ uni [0xED] @ ''das pelas do prim'' @ uni [0xE1] @ ''rio. As demais configura'' @ uni [0xE7, 0xF5] @ ''es n'' @ uni [0xE3] @ ''o mudam.''),
     (''cluster.join_confirm'', ''Entrar no cluster e substituir as zonas deste n'' @ uni [0xF3] @ '' pelas do prim'' @ uni [0xE1] @ ''rio?''),
     (''cluster.join'', ''Entrar no cluster''),
     (''cluster.joined'', ''Este n'' @ uni [0xF3] @ '' entrou no cluster e est'' @ uni [0xE1] @ '' copiando as zonas do prim'' @ uni [0xE1] @ ''rio.''),
     (''cluster.zones_read_only'', ''Este n'' @ uni [0xF3] @ '' '' @ uni [0xE9] @ '' uma r'' @ uni [0xE9] @ ''plica do cluster. As zonas s'' @ uni [0xE3] @ ''o copiadas do prim'' @ uni [0xE1] @ ''rio e s'' @ uni [0xF3] @ '' podem ser alteradas l'' @ uni [0xE1] @ ''.'')]\<close>

definition dict_pt_BR :: text_table where
  "dict_pt_BR = dict_pt_BR_1 @ dict_pt_BR_2 @ dict_pt_BR_3 @ dict_pt_BR_4 @ dict_pt_BR_5 @ dict_pt_BR_6 @ dict_pt_BR_7 @ dict_pt_BR_8"

lemma pt_BR_titles: "distinct (map snd (with_prefix ''app.title.'' dict_pt_BR))"
  by (simp only: dict_pt_BR_def dict_pt_BR_1_def dict_pt_BR_2_def dict_pt_BR_3_def dict_pt_BR_4_def dict_pt_BR_5_def dict_pt_BR_6_def dict_pt_BR_7_def dict_pt_BR_8_def group_eval) (simp add: uni_def unit_text_def)

lemma pt_BR_labels: "distinct (map snd (with_prefix ''app.nav.'' dict_pt_BR))"
  by (simp only: dict_pt_BR_def dict_pt_BR_1_def dict_pt_BR_2_def dict_pt_BR_3_def dict_pt_BR_4_def dict_pt_BR_5_def dict_pt_BR_6_def dict_pt_BR_7_def dict_pt_BR_8_def group_eval) (simp add: uni_def unit_text_def)

end
