(* ===== verification/Texts_Pl.thy ===== *)
theory Texts_Pl
  imports Texts
begin

text \<open>The Polish table, \<open>i18n/pl.ts\<close>.\<close>

definition dict_pl_1 :: text_table where
  \<open>dict_pl_1 = [
     (''app.skip_to_content'', ''Przejd'' @ uni [0x17A] @ '' do tre'' @ uni [0x15B] @ ''ci''),
     (''app.workspace_label'', ''PRZESTRZE'' @ uni [0x143] @ '' ROBOCZA''),
     (''app.nav.events'', ''Zdarzenia''),
     (''app.title.events'', ''Zdarzenia''),
     (''events.unread'', ''nieprzeczytane''),
     (''events.empty'', ''Brak zdarze'' @ uni [0x144] @ '' systemowych.''),
     (''events.load_failed'', ''Nie uda'' @ uni [0x142] @ ''o si'' @ uni [0x119] @ '' wczyta'' @ uni [0x107] @ '' zdarze'' @ uni [0x144]),
     (''events.mark_read'', ''Oznacz jako przeczytane''),
     (''events.repeated'', ''Powt'' @ uni [0xF3] @ ''rzone''),
     (''events.open'', ''Otw'' @ uni [0xF3] @ ''rz''),
     (''events.info'', ''Informacja''),
     (''events.warning'', ''Ostrze'' @ uni [0x17C] @ ''enie''),
     (''events.critical'', ''Krytyczne''),
     (''app.nav.main'', ''Nawigacja g'' @ uni [0x142, 0xF3] @ ''wna''),
     (''app.nav.overview'', ''Przegl'' @ uni [0x105] @ ''d''),
     (''app.nav.zones'', ''Strefy lokalne''),
     (''app.nav.queries'', ''Dziennik zapyta'' @ uni [0x144]),
     (''app.nav.blocklists'', ''Listy blokowania''),
     (''app.nav.cache'', ''Cache DNS''),
     (''app.nav.settings'', ''Ustawienia''),
     (''app.nav.updates'', ''Aktualizacje''),
     (''app.nav.backup'', ''Kopia zapasowa''),
     (''app.sign_out'', ''Wyloguj si'' @ uni [0x119]),
     (''app.nav.audit'', ''Dziennik audytu''),
     (''app.title.audit'', ''Dziennik audytu''),
     (''app.nav.diagnostics'', ''Diagnostyka''),
     (''app.title.diagnostics'', ''Diagnostyka''),
     (''app.local_resolver'', ''Lokalny resolver''),
     (''app.self_hosted_foundation'', ''Self-hosted '' @ uni [0xB7] @ '' Foundation''),
     (''app.private_by_default'', ''Domy'' @ uni [0x15B] @ ''lnie prywatny''),
     (''app.privacy.query_retention'', ''Historia zapyta'' @ uni [0x144] @ '' ma ograniczony okres przechowywania.''),
     (''app.privacy.no_query_history'', ''Historia zapyta'' @ uni [0x144] @ '' nie jest zbierana.''),
     (''app.github_repo'', ''Repozytorium GitHub''),
     (''app.connecting'', uni [0x141, 0x105] @ ''czenie'' @ uni [0x2026]),
     (''app.workspace'', ''Przestrze'' @ uni [0x144] @ '' robocza''),
     (''app.connection_lost'', ''Utracono po'' @ uni [0x142, 0x105] @ ''czenie''),
     (''app.resolver_online'', ''Resolver online''),
     (''app.title.overview'', ''Przegl'' @ uni [0x105] @ ''d sieci''),
     (''app.title.zones'', ''Strefy lokalne''),
     (''app.title.queries'', ''Dziennik zapyta'' @ uni [0x144]),
     (''app.title.blocklists'', ''Listy blokowania''),
     (''app.title.cache'', ''Cache DNS''),
     (''app.title.settings'', ''Ustawienia''),
     (''app.title.updates'', ''Aktualizacje''),
     (''app.title.backup'', ''Kopia zapasowa i przywracanie''),
     (''app.eyebrow'', ''TWOJA SIE'' @ uni [0x106] @ '' W SKR'' @ uni [0xD3] @ ''CIE''),
     (''app.subtitle.overview'', ''Przejrzysty obraz Twojego DNS, od '' @ uni [0x17C, 0x105] @ ''dania po odpowied'' @ uni [0x17A] @ ''.''),
     (''app.subtitle.default'', ''Przegl'' @ uni [0x105] @ ''daj i zarz'' @ uni [0x105] @ ''dzaj swoim resolver foundation.''),
     (''app.refresh'', ''Od'' @ uni [0x15B] @ ''wie'' @ uni [0x17C]),
     (''app.error.showing_last'', ''Wy'' @ uni [0x15B] @ ''wietlanie ostatniego udanego migawki z''),
     (''app.error.check_server'', ''Sprawd'' @ uni [0x17A] @ '', czy serwer Velora jest uruchomiony.''),
     (''app.error.reach_server'', ''Nie mo'' @ uni [0x17C] @ ''na po'' @ uni [0x142, 0x105] @ ''czy'' @ uni [0x107] @ '' si'' @ uni [0x119] @ '' z serwerem''),
     (''app.viewer_readonly'', ''Zalogowano jako widz. Czynno'' @ uni [0x15B] @ ''ci zarz'' @ uni [0x105] @ ''dzania s'' @ uni [0x105] @ '' tylko do odczytu.''),
     (''app.connecting_panel'', uni [0x141, 0x105] @ ''czenie z resolverem'' @ uni [0x2026]),
     (''app.not_found'', ''Nie znaleziono strony.''),
     (''app.footer.independent'', ''Velora DNS '' @ uni [0xB7] @ '' Niezale'' @ uni [0x17C] @ ''ny. Self-hosted.''),
     (''app.footer.last_updated'', ''Ostatnia aktualizacja''),
     (''app.footer.waiting'', ''Oczekiwanie na serwer''),
     (''diagnostics.title'', ''Stan systemu''),
     (''diagnostics.report_hint'', ''Pobierany raport zawiera stan komponent'' @ uni [0xF3] @ ''w i informacje o kompilacji, bez sekret'' @ uni [0xF3] @ ''w i dziennik'' @ uni [0xF3] @ ''w zapyta'' @ uni [0x144] @ ''.''),
     (''diagnostics.download'', ''Pobierz raport''),
     (''diagnostics.loading'', uni [0x141] @ ''adowanie diagnostyki'' @ uni [0x2026]),
     (''diagnostics.load_failed'', ''Nie mo'' @ uni [0x17C] @ ''na za'' @ uni [0x142] @ ''adowa'' @ uni [0x107] @ '' diagnostyki''),
     (''diagnostics.upstreams'', ''Serwery nadrz'' @ uni [0x119] @ ''dne''),
     (''diagnostics.component'', ''Komponent''),
     (''diagnostics.state'', ''Stan''),
     (''diagnostics.detail'', ''Szczeg'' @ uni [0xF3, 0x142] @ ''y''),
     (''diagnostics.state.healthy'', ''Zdrowy''),
     (''diagnostics.state.degraded'', ''Pogorszony''),
     (''diagnostics.state.failed'', ''Awaria''),
     (''explain.title'', ''Dlaczego pad'' @ uni [0x142] @ ''a taka odpowied'' @ uni [0x17A] @ ''?''),
     (''explain.hint'', ''Pr'' @ uni [0xF3] @ ''ba dzia'' @ uni [0x142] @ ''ania resolvera dla jednej nazwy. Nic nie jest odpytywane u upstreamu, zapisywane w logu, buforowane ani liczone.''),
     (''explain.name'', ''Nazwa''),
     (''explain.type'', ''Typ rekordu''),
     (''explain.client'', ''Adres klienta (opcjonalnie)''),
     (''explain.client_hint'', ''Stosuje polityk'' @ uni [0x119] @ '' filtrowania tego klienta.''),
     (''explain.submit'', ''Wyja'' @ uni [0x15B] @ ''nij''),
     (''explain.running'', ''Wyja'' @ uni [0x15B] @ ''nianie'' @ uni [0x2026]),
     (''explain.failed'', ''Nie uda'' @ uni [0x142] @ ''o si'' @ uni [0x119] @ '' wyja'' @ uni [0x15B] @ ''ni'' @ uni [0x107] @ '' tego zapytania''),
     (''explain.result'', ''Wyja'' @ uni [0x15B] @ ''nienie''),
     (''explain.winner'', ''Etap rozstrzygaj'' @ uni [0x105] @ ''cy''),
     (''explain.answers'', ''Odpowied'' @ uni [0x17A]),
     (''explain.no_answers'', ''Brak rekord'' @ uni [0xF3] @ ''w odpowiedzi: odpowied'' @ uni [0x17A] @ '' pochodzi'' @ uni [0x142] @ ''aby z resolvera upstream, kt'' @ uni [0xF3] @ ''ry nie jest odpytywany.''),
     (''explain.steps'', ''Rozwa'' @ uni [0x17C] @ ''ane etapy''),
     (''explain.step'', ''Etap''),
     (''explain.outcome'', ''Wynik''),
     (''explain.detail'', ''Szczeg'' @ uni [0xF3, 0x142] @ ''y''),
     (''explain.cname_target'', ''Cel CNAME''),
     (''explain.ttl'', ''Pozosta'' @ uni [0x142] @ ''y TTL''),
     (''explain.matches'', ''Dopasowano''),
     (''explain.allowed_by'', ''Dozwolone przez''),
     (''explain.not_contacted'', ''Nie odpytano '' @ uni [0x17C] @ ''adnego upstreamu.''),
     (''explain.scope.global'', ''Filtrowanie globalne''),
     (''explain.scope.client_policy'', ''Polityka klienta''),
     (''explain.stage.filter'', ''Lista blokad lub polityka klienta''),
     (''explain.stage.rewrite'', ''Przepisanie DNS''),
     (''explain.stage.zone'', ''Strefa lokalna''),
     (''explain.stage.cache'', ''Pami'' @ uni [0x119, 0x107] @ '' podr'' @ uni [0x119] @ ''czna''),
     (''explain.stage.forwarding'', ''Regu'' @ uni [0x142] @ ''a przekazywania warunkowego''),
     (''explain.stage.upstream'', ''Globalne resolvery upstream''),
     (''explain.stage.refused'', ''Odrzucono''),
     (''explain.result.passed'', ''Przepuszczono''),
     (''explain.result.allowed'', ''Dozwolone''),
     (''explain.result.blocked'', ''Zablokowano''),
     (''explain.result.no_match'', ''Brak dopasowania''),
     (''explain.result.answered'', ''Odpowiedziano''),
     (''explain.result.miss'', ''Brak w pami'' @ uni [0x119] @ ''ci''),
     (''explain.result.hit'', ''Trafienie''),
     (''explain.result.refused'', ''Odrzucono''),
     (''explain.result.would_forward'', ''Zosta'' @ uni [0x142] @ ''oby przekazane''),
     (''explain.result.error'', ''B'' @ uni [0x142, 0x105] @ ''d''),
     (''explain.source.local'', ''Odpowied'' @ uni [0x17A] @ '' lokalna''),
     (''explain.source.cache'', ''Pami'' @ uni [0x119, 0x107] @ '' podr'' @ uni [0x119] @ ''czna''),
     (''explain.source.blocked'', ''Zablokowano''),
     (''explain.source.upstream'', ''Upstream''),
     (''explain.source.refused'', ''Odrzucono''),
     (''audit.title'', ''Dziennik audytu zarz'' @ uni [0x105] @ ''dzania''),
     (''audit.hint'', ''Dzia'' @ uni [0x142] @ ''ania administracyjne s'' @ uni [0x105] @ '' przechowywane przez 90 dni. Sekrety i tre'' @ uni [0x15B, 0x107] @ '' '' @ uni [0x17C, 0x105] @ ''da'' @ uni [0x144] @ '' s'' @ uni [0x105] @ '' wykluczone.''),
     (''audit.actor'', ''U'' @ uni [0x17C] @ ''ytkownik'')]\<close>

definition dict_pl_2 :: text_table where
  \<open>dict_pl_2 = [
     (''audit.action'', ''Dzia'' @ uni [0x142] @ ''anie''),
     (''audit.result'', ''Wynik''),
     (''audit.all'', ''Wszystkie''),
     (''audit.success'', ''Sukces''),
     (''audit.failure'', ''B'' @ uni [0x142, 0x105] @ ''d''),
     (''audit.filter'', ''Filtruj''),
     (''audit.time'', ''Czas''),
     (''audit.target'', ''Cel''),
     (''audit.empty'', ''Nie znaleziono zdarze'' @ uni [0x144] @ '' audytu.''),
     (''audit.more'', ''Za'' @ uni [0x142] @ ''aduj wi'' @ uni [0x119] @ ''cej''),
     (''audit.load_failed'', ''Nie mo'' @ uni [0x17C] @ ''na za'' @ uni [0x142] @ ''adowa'' @ uni [0x107] @ '' zdarze'' @ uni [0x144] @ '' audytu''),
     (''auth.checking'', ''Sprawdzanie sesji'' @ uni [0x2026]),
     (''auth.sign_in_title'', ''Zaloguj si'' @ uni [0x119] @ '' do Velora DNS''),
     (''auth.username'', ''Nazwa u'' @ uni [0x17C] @ ''ytkownika''),
     (''auth.password'', ''Has'' @ uni [0x142] @ ''o''),
     (''auth.sign_in'', ''Zaloguj si'' @ uni [0x119]),
     (''auth.sign_in_failed'', ''Logowanie nie powiod'' @ uni [0x142] @ ''o si'' @ uni [0x119]),
     (''settings.server_configuration'', ''Konfiguracja serwera''),
     (''settings.language'', ''J'' @ uni [0x119] @ ''zyk''),
     (''settings.theme'', ''Motyw''),
     (''settings.theme_light'', ''Jasny''),
     (''settings.theme_dark'', ''Ciemny''),
     (''settings.theme_auto'', ''Automatyczny''),
     (''settings.theme_hint'', ''Automatyczny prze'' @ uni [0x142, 0x105] @ ''cza mi'' @ uni [0x119] @ ''dzy jasnym i ciemnym schematem kolor'' @ uni [0xF3] @ ''w systemu operacyjnego.''),
     (''settings.log_level'', ''Poziom logowania''),
     (''settings.rate_limiting'', ''Ograniczanie szybko'' @ uni [0x15B] @ ''ci''),
     (''settings.rate_limit_hint'', ''Ograniczanie szybko'' @ uni [0x15B] @ ''ci jest domy'' @ uni [0x15B] @ ''lnie wy'' @ uni [0x142, 0x105] @ ''czone. W'' @ uni [0x142, 0x105] @ ''cz je, aby chroni'' @ uni [0x107] @ '' resolver przed powodzi'' @ uni [0x105] @ '' '' @ uni [0x17C, 0x105] @ ''da'' @ uni [0x144] @ '' i wysokimi cz'' @ uni [0x119] @ ''stotliwo'' @ uni [0x15B] @ ''ciami zapyta'' @ uni [0x144] @ ''.''),
     (''settings.rate_limit_enabled'', ''W'' @ uni [0x142, 0x105] @ ''cz ograniczanie szybko'' @ uni [0x15B] @ ''ci''),
     (''settings.rate_limit_global_qps'', ''Globalne zapytania na sekund'' @ uni [0x119]),
     (''settings.rate_limit_client_qps'', ''Zapytania na sekund'' @ uni [0x119] @ '' na klienta''),
     (''settings.rate_limit_burst'', ''Tolerancja szczyt'' @ uni [0xF3] @ ''w''),
     (''settings.rate_limit_rejected_total'', ''Odrzucone zapytania''),
     (''settings.rate_limit_last_rejected'', ''Ostatnie odrzucenie''),
     (''settings.save'', ''Zapisz''),
     (''settings.rate_limit_load_failed'', ''Nie mo'' @ uni [0x17C] @ ''na za'' @ uni [0x142] @ ''adowa'' @ uni [0x107] @ '' ustawie'' @ uni [0x144] @ '' ograniczania szybko'' @ uni [0x15B] @ ''ci''),
     (''settings.rate_limit_save_failed'', ''Nie mo'' @ uni [0x17C] @ ''na zapisa'' @ uni [0x107] @ '' ustawie'' @ uni [0x144] @ '' ograniczania szybko'' @ uni [0x15B] @ ''ci''),
     (''settings.rate_limit_saved'', ''Ustawienia ograniczania szybko'' @ uni [0x15B] @ ''ci zapisane.''),
     (''settings.rate_limit_loading'', uni [0x141] @ ''adowanie ustawie'' @ uni [0x144] @ '' ograniczania szybko'' @ uni [0x15B] @ ''ci'' @ uni [0x2026]),
     (''settings.edit_hint'', ''Te ustawienia odpowiadaj'' @ uni [0x105] @ '' opcjom szybkiej instalacji. Niekt'' @ uni [0xF3] @ ''re zmiany wymagaj'' @ uni [0x105] @ '' ponownego uruchomienia; zmiany TTL cache s'' @ uni [0x105] @ '' stosowane natychmiast.''),
     (''settings.dns_section'', ''Ustawienia DNS''),
     (''settings.cache_section'', ''Cache DNS''),
     (''settings.cache_ttl_label'', ''TTL cache odpowiedzi upstream (sekundy)''),
     (''settings.cache_ttl_hint'', ''86400 sekund = 24 godziny. Zakres: 0'' @ uni [0x2013] @ ''604800 sekund; 0 u'' @ uni [0x17C] @ ''ywa oryginalnego TTL ka'' @ uni [0x17C] @ ''dego upstreama. Zmiany upstream'' @ uni [0xF3] @ ''w mog'' @ uni [0x105] @ '' zaj'' @ uni [0x105, 0x107] @ '' tyle czasu, zanim stan'' @ uni [0x105] @ '' si'' @ uni [0x119] @ '' widoczne. Zmiana tego usuwa istniej'' @ uni [0x105] @ ''ce zcacheowane odpowiedzi. Odpowiedzi z TTL zero i podpisane DNSSEC zachowuj'' @ uni [0x105] @ '' sw'' @ uni [0xF3] @ ''j oryginalny TTL.''),
     (''settings.cache_ttl_invalid'', ''Wprowad'' @ uni [0x17A] @ '' liczb'' @ uni [0x119] @ '' ca'' @ uni [0x142] @ ''kowit'' @ uni [0x105] @ '' od 0 do 604800 sekund.''),
     (''settings.dns_listen_label'', ''Adresy nas'' @ uni [0x142] @ ''uchiwania DNS (oddzielone przecinkami)''),
     (''settings.dns_listen_warning'', ''Ostrze'' @ uni [0x17C] @ ''enie: 0.0.0.0 udost'' @ uni [0x119] @ ''pnia DNS w sieci. Upewnij si'' @ uni [0x119] @ '', '' @ uni [0x17C] @ ''e zezwala firewall tylko zaufanym klientom.''),
     (''settings.upstreams_label'', ''Serwery DNS upstream (oddzielone przecinkami)''),
     (''settings.upstreams_hint'', ''Format: IP:PORT (np. 1.1.1.1:53). Upstreamy DoH u'' @ uni [0x17C] @ ''ywaj'' @ uni [0x105] @ '' https://host/dns-query''),
     (''settings.allowed_clients_label'', ''Dozwolone sieci klient'' @ uni [0xF3] @ ''w (oddzielone przecinkami CIDR)''),
     (''settings.allowed_clients_hint'', ''Tylko te siecie mog'' @ uni [0x105] @ '' pyta'' @ uni [0x107] @ '' resolver. Przyk'' @ uni [0x142] @ ''ad: 192.168.1.0/24, 10.0.0.0/8''),
     (''settings.web_section'', ''Ustawienia interfejsu webowego''),
     (''settings.web_listen_label'', ''Adres nas'' @ uni [0x142] @ ''uchiwania interfejsu webowego (IP:port)''),
     (''settings.web_listen_warning'', ''Ostrze'' @ uni [0x17C] @ ''enie: 0.0.0.0 udost'' @ uni [0x119] @ ''pnia interfejs webowy w sieci. U'' @ uni [0x17C] @ ''yj zapory ogniowej lub uwierzytelniania.''),
     (''settings.allowed_hosts_label'', ''Dozwolone hosty (oddzielone przecinkami)''),
     (''settings.allowed_hosts_hint'', ''Nag'' @ uni [0x142, 0xF3] @ ''wki host'' @ uni [0xF3] @ ''w z dost'' @ uni [0x119] @ ''pem do API zarz'' @ uni [0x105] @ ''dzania. U'' @ uni [0x17C] @ ''yj *, aby zezwoli'' @ uni [0x107] @ '' wszystkim (niezalecane w sieci LAN).''),
     (''settings.logging_section'', ''Logowanie i inne''),
     (''settings.enable_query_log'', ''W'' @ uni [0x142, 0x105] @ ''cz logowanie zapyta'' @ uni [0x144]),
     (''settings.save_configuration'', ''Zapisz konfiguracj'' @ uni [0x119]),
     (''settings.saving'', ''Zapisywanie'' @ uni [0x2026]),
     (''settings.save_success'', ''Konfiguracja zapisana i zastosowana.''),
     (''settings.save_failed'', ''Nie uda'' @ uni [0x142] @ ''o si'' @ uni [0x119] @ '' zapisa'' @ uni [0x107] @ '' konfiguracji''),
     (''dashboard.total_queries'', uni [0x141, 0x105] @ ''czna liczba zapyta'' @ uni [0x144]),
     (''dashboard.since_start'', ''Od ostatniego wyzerowania statystyk''),
     (''dashboard.reset_statistics'', ''Wyzeruj statystyki''),
     (''dashboard.reset_confirm'', ''Wyzerowa'' @ uni [0x107] @ '' liczniki zapyta'' @ uni [0x144] @ '', pami'' @ uni [0x119] @ ''ci podr'' @ uni [0x119] @ ''cznej i limit'' @ uni [0xF3] @ ''w? Tej czynno'' @ uni [0x15B] @ ''ci nie mo'' @ uni [0x17C] @ ''na cofn'' @ uni [0x105, 0x107] @ ''.''),
     (''dashboard.reset_failed'', ''Nie uda'' @ uni [0x142] @ ''o si'' @ uni [0x119] @ '' wyzerowa'' @ uni [0x107] @ '' statystyk''),
     (''dashboard.qps'', ''Zapytania / sekund'' @ uni [0x119]),
     (''dashboard.rolling_avg'', uni [0x15A] @ ''rednia krocz'' @ uni [0x105] @ ''ca z 60 sekund''),
     (''dashboard.cache_hit_rate'', ''Wska'' @ uni [0x17A] @ ''nik trafie'' @ uni [0x144] @ '' cache''),
     (''dashboard.answers_from_memory'', ''odpowiedzi obs'' @ uni [0x142] @ ''u'' @ uni [0x17C] @ ''onych z pami'' @ uni [0x119] @ ''ci''),
     (''dashboard.uptime'', ''Czas pracy''),
     (''dashboard.process_lifetime'', ''Aktualny czas '' @ uni [0x17C] @ ''ycia procesu''),
     (''dashboard.top_domains'', ''Topowe domeny''),
     (''dashboard.top_clients'', ''Topowi klienci''),
     (''dashboard.query_activity'', ''Aktywno'' @ uni [0x15B, 0x107] @ '' zapyta'' @ uni [0x144]),
     (''dashboard.live_samples'', ''Pr'' @ uni [0xF3] @ ''bki na '' @ uni [0x17C] @ ''ywo z Twojego resolvera''),
     (''dashboard.refresh_5s'', ''Od'' @ uni [0x15B] @ ''wie'' @ uni [0x17C] @ ''anie co 5s''),
     (''dashboard.queries_per_sec'', ''zapyta'' @ uni [0x144] @ '' / sek''),
     (''dashboard.chart_aria'', ''Cz'' @ uni [0x119] @ ''stotliwo'' @ uni [0x15B, 0x107] @ '' zapyta'' @ uni [0x144] @ '' pr'' @ uni [0xF3] @ ''bkowana podczas tej sesji przegl'' @ uni [0x105] @ ''darki''),
     (''dashboard.session_samples'', ''Pr'' @ uni [0xF3] @ ''bki sesji''),
     (''dashboard.now'', ''Teraz''),
     (''dashboard.upstream_resolvers'', ''Resolvery upstream''),
     (''dashboard.ordered_failover'', ''Uporz'' @ uni [0x105] @ ''dkowany failover z fallback TCP''),
     (''dashboard.endpoint'', ''Endpoint''),
     (''dashboard.health'', ''Stan''),
     (''dashboard.upstream_unknown'', ''Nieznany''),
     (''dashboard.upstream_healthy'', ''Zdrowy''),
     (''dashboard.upstream_degraded'', ''Pogorszony''),
     (''dashboard.upstream_unavailable'', ''Niedost'' @ uni [0x119] @ ''pny''),
     (''dashboard.priority'', ''Priorytet''),
     (''dashboard.attempt_timeout'', ''Limit czasu pr'' @ uni [0xF3] @ ''by''),
     (''dashboard.primary'', ''G'' @ uni [0x142, 0xF3] @ ''wny''),
     (''dashboard.fallback'', ''Zapasowy''),
     (''dashboard.config_shown'', ''Konfiguracja wy'' @ uni [0x15B] @ ''wietlona. Dost'' @ uni [0x119] @ ''pno'' @ uni [0x15B, 0x107] @ '' jest oceniana przy ka'' @ uni [0x17C] @ ''dym zapytaniu.''),
     (''dashboard.retained_last_24h'', ''Zachowane zapytania w ci'' @ uni [0x105] @ ''gu ostatnich 24 godzin''),
     (''dashboard.unavailable_no_logging'', ''Niedost'' @ uni [0x119] @ ''pne, gdy logowanie zapyta'' @ uni [0x144] @ '' jest wy'' @ uni [0x142, 0x105] @ ''czone.''),
     (''dashboard.loading_stats'', uni [0x141] @ ''adowanie statystyk zapyta'' @ uni [0x144, 0x2026]),
     (''dashboard.stats_load_failed'', ''Nie mo'' @ uni [0x17C] @ ''na za'' @ uni [0x142] @ ''adowa'' @ uni [0x107] @ '' statystyk zapyta'' @ uni [0x144]),
     (''dashboard.no_retained'', ''Brak zachowanych zapyta'' @ uni [0x144] @ '' w tym oknie.''),
     (''cache.live_entries'', ''Aktywne wpisy''),
     (''cache.capacity'', ''Pojemno'' @ uni [0x15B, 0x107]),
     (''cache.hits'', ''Trafienia cache''),
     (''cache.since_startup'', ''Od uruchomienia procesu''),
     (''cache.misses'', ''Pud'' @ uni [0x142] @ ''a cache''),
     (''cache.includes_uncacheable'', ''Zawiera '' @ uni [0x17C, 0x105] @ ''dania niepodlegaj'' @ uni [0x105] @ ''ce cache'owaniu''),
     (''cache.memory_cache'', ''Cache pami'' @ uni [0x119] @ ''ci''),
     (''cache.description'', ''Pozytywne odpowiedzi upstream u'' @ uni [0x17C] @ ''ywaj'' @ uni [0x105] @ '' skonfigurowanego TTL cache. Odpowiedzi z TTL zero, podpisane DNSSEC i negatywne odpowiedzi zachowuj'' @ uni [0x105] @ '' swoje oryginalne zasady. Najrzadziej u'' @ uni [0x17C] @ ''ywane wpisy s'' @ uni [0x105] @ '' usuwane po osi'' @ uni [0x105] @ ''gni'' @ uni [0x119] @ ''ciu pojemno'' @ uni [0x15B] @ ''ci. Zawarto'' @ uni [0x15B, 0x107] @ '' cache nigdy nie jest przechowywana w SQLite.''),
     (''cache.clear_description'', ''Wyczyszczenie cache usuwa wszystkie bie'' @ uni [0x17C, 0x105] @ ''ce odpowiedzi. Liczniki trafie'' @ uni [0x144] @ '' i pud'' @ uni [0x142, 0xF3] @ ''w w cyklu '' @ uni [0x17C] @ ''ycia s'' @ uni [0x105] @ '' zachowane.''),
     (''cache.clearing'', ''Czyszczenie'' @ uni [0x2026]),
     (''cache.clear'', ''Wyczy'' @ uni [0x15B, 0x107] @ '' cache''),
     (''cache.cleared'', ''Cache wyczyszczone. Strefy lokalne pozostaj'' @ uni [0x105] @ '' aktywne; inne zapytania b'' @ uni [0x119] @ ''d'' @ uni [0x105] @ '' korzysta'' @ uni [0x107] @ '' z resolver'' @ uni [0xF3] @ ''w upstream.''),
     (''cache.flush_failed'', ''Nie uda'' @ uni [0x142] @ ''o si'' @ uni [0x119] @ '' wyczy'' @ uni [0x15B] @ ''ci'' @ uni [0x107] @ '' cache''),
     (''cache.entries_title'', ''Zcacheowane wpisy DNS''),
     (''cache.entries_description'', ''Bie'' @ uni [0x17C, 0x105] @ ''ce odpowiedzi, najpierw najcz'' @ uni [0x119, 0x15B] @ ''ciej u'' @ uni [0x17C] @ ''ywane.''),
     (''cache.entries_loading'', uni [0x141] @ ''adowanie wpis'' @ uni [0xF3] @ ''w cache'' @ uni [0x2026]),
     (''cache.entries_load_failed'', ''Nie mo'' @ uni [0x17C] @ ''na za'' @ uni [0x142] @ ''adowa'' @ uni [0x107] @ '' wpis'' @ uni [0xF3] @ ''w cache''),
     (''cache.entries_empty'', ''Cache jest puste.''),
     (''cache.entries_scroll_hint'', ''Przewi'' @ uni [0x144] @ '' w bok, aby zobaczy'' @ uni [0x107] @ '' wszystkie kolumny.''),
     (''cache.entry_name'', ''Nazwa'')]\<close>

definition dict_pl_3 :: text_table where
  \<open>dict_pl_3 = [
     (''cache.entry_type'', ''Typ''),
     (''cache.entry_answer'', ''Odpowied'' @ uni [0x17A]),
     (''cache.entry_status'', ''Status''),
     (''cache.entry_ttl'', ''Pozosta'' @ uni [0x142] @ ''y TTL''),
     (''cache.seconds'', ''s''),
     (''cache.previous'', ''Poprzednia''),
     (''cache.next'', ''Nast'' @ uni [0x119] @ ''pna''),
     (''querylog.unavailable_title'', ''Historia zapyta'' @ uni [0x144] @ '' niedost'' @ uni [0x119] @ ''pna''),
     (''querylog.unavailable_text'', ''W'' @ uni [0x142, 0x105] @ ''cz logowanie zapyta'' @ uni [0x144] @ '', aby zbiera'' @ uni [0x107] @ '' i przegl'' @ uni [0x105] @ ''da'' @ uni [0x107] @ '' przysz'' @ uni [0x142, 0x105] @ '' aktywno'' @ uni [0x15B, 0x107] @ '' DNS.''),
     (''querylog.up_to_100'', ''Do 100 zachowanych odpowiedzi na stron'' @ uni [0x119]),
     (''querylog.refresh'', ''Od'' @ uni [0x15B] @ ''wie'' @ uni [0x17C] @ '' zapytania''),
     (''querylog.filters_aria'', ''Filtry zapyta'' @ uni [0x144]),
     (''querylog.domain'', ''Domena''),
     (''querylog.contains_example'', ''Zawiera example.com''),
     (''querylog.client_ip'', ''IP klienta''),
     (''querylog.exact_ip'', ''Dok'' @ uni [0x142] @ ''adny adres IP''),
     (''querylog.query_type'', ''Typ zapytania''),
     (''querylog.all_types'', ''Wszystkie typy''),
     (''querylog.source'', uni [0x179] @ ''r'' @ uni [0xF3] @ ''d'' @ uni [0x142] @ ''o''),
     (''querylog.all_sources'', ''Wszystkie '' @ uni [0x17A] @ ''r'' @ uni [0xF3] @ ''d'' @ uni [0x142] @ ''a''),
     (''querylog.apply_filters'', ''Zastosuj filtry''),
     (''querylog.show_blocked'', ''Poka'' @ uni [0x17C] @ '' zablokowane zapytania''),
     (''querylog.error_stale'', ''Poprzednie wyniki mog'' @ uni [0x105] @ '' by'' @ uni [0x107] @ '' nieaktualne.''),
     (''querylog.loading'', uni [0x141] @ ''adowanie dziennika zapyta'' @ uni [0x144, 0x2026]),
     (''querylog.no_matches'', ''Brak pasuj'' @ uni [0x105] @ ''cych zapyta'' @ uni [0x144]),
     (''querylog.no_matches_text'', ''Spr'' @ uni [0xF3] @ ''buj innych filtr'' @ uni [0xF3] @ ''w lub wygeneruj ruch DNS z w'' @ uni [0x142, 0x105] @ ''czonym logowaniem.''),
     (''querylog.caption'', ''Dziennik zapyta'' @ uni [0x144] @ '' DNS''),
     (''querylog.col_timestamp'', ''Znacznik czasu''),
     (''querylog.col_client'', ''Klient''),
     (''querylog.col_domain'', ''Domena''),
     (''querylog.col_type'', ''Typ''),
     (''querylog.col_source'', uni [0x179] @ ''r'' @ uni [0xF3] @ ''d'' @ uni [0x142] @ ''o''),
     (''querylog.col_response'', ''Odpowied'' @ uni [0x17A]),
     (''querylog.col_latency'', ''Op'' @ uni [0xF3, 0x17A] @ ''nienie''),
     (''querylog.older'', ''Starsze zapytania''),
     (''querylog.load_failed'', ''Nie mo'' @ uni [0x17C] @ ''na za'' @ uni [0x142] @ ''adowa'' @ uni [0x107] @ '' dziennika zapyta'' @ uni [0x144]),
     (''blocklists.count'', ''zewn'' @ uni [0x119] @ ''trznych '' @ uni [0x17A] @ ''r'' @ uni [0xF3] @ ''de'' @ uni [0x142]),
     (''blocklists.count_one'', ''zewn'' @ uni [0x119] @ ''trzne '' @ uni [0x17A] @ ''r'' @ uni [0xF3] @ ''d'' @ uni [0x142] @ ''o''),
     (''blocklists.sources_label'', uni [0x179] @ ''r'' @ uni [0xF3] @ ''d'' @ uni [0x142] @ ''a polityk DNS''),
     (''blocklists.reload'', ''Prze'' @ uni [0x142] @ ''aduj''),
     (''blocklists.add_source'', ''Dodaj '' @ uni [0x17A] @ ''r'' @ uni [0xF3] @ ''d'' @ uni [0x142] @ ''o''),
     (''blocklists.add_aria'', ''Dodaj '' @ uni [0x17A] @ ''r'' @ uni [0xF3] @ ''d'' @ uni [0x142] @ ''o blokowania''),
     (''blocklists.add_title'', ''Dodaj zewn'' @ uni [0x119] @ ''trzn'' @ uni [0x105] @ '' list'' @ uni [0x119] @ '' blokowania''),
     (''blocklists.add_text'', ''Akceptowane s'' @ uni [0x105] @ '' tylko publiczne '' @ uni [0x17A] @ ''r'' @ uni [0xF3] @ ''d'' @ uni [0x142] @ ''a HTTP(S). Nieudane od'' @ uni [0x15B] @ ''wie'' @ uni [0x17C] @ ''enia zachowuj'' @ uni [0x105] @ '' poprzednie regu'' @ uni [0x142] @ ''y DNS.''),
     (''blocklists.name'', ''Nazwa''),
     (''blocklists.source_url'', ''URL '' @ uni [0x17A] @ ''r'' @ uni [0xF3] @ ''d'' @ uni [0x142] @ ''a''),
     (''blocklists.community_hosts'', ''Hosty spo'' @ uni [0x142] @ ''eczno'' @ uni [0x15B] @ ''ci''),
     (''blocklists.adding'', ''Dodawanie'' @ uni [0x2026]),
     (''blocklists.cancel'', ''Anuluj''),
     (''blocklists.loading'', uni [0x141] @ ''adowanie '' @ uni [0x17A] @ ''r'' @ uni [0xF3] @ ''de'' @ uni [0x142] @ '' blokowania'' @ uni [0x2026]),
     (''blocklists.empty_title'', ''Brak zewn'' @ uni [0x119] @ ''trznych list blokowania''),
     (''blocklists.empty_text'', ''Dodaj zaufan'' @ uni [0x105] @ '' publiczn'' @ uni [0x105] @ '' list'' @ uni [0x119] @ '' host'' @ uni [0xF3] @ ''w lub domen, aby zastosowa'' @ uni [0x107] @ '' blokowanie DNS.''),
     (''blocklists.caption'', ''Zewn'' @ uni [0x119] @ ''trzne '' @ uni [0x17A] @ ''r'' @ uni [0xF3] @ ''d'' @ uni [0x142] @ ''a blokowania''),
     (''blocklists.col_source'', uni [0x179] @ ''r'' @ uni [0xF3] @ ''d'' @ uni [0x142] @ ''o''),
     (''blocklists.col_status'', ''Status''),
     (''blocklists.col_last_update'', ''Ostatnia aktualizacja''),
     (''blocklists.update_failed'', ''Aktualizacja nie powiod'' @ uni [0x142] @ ''a si'' @ uni [0x119]),
     (''blocklists.active'', ''AKTYWNE''),
     (''blocklists.disabled'', ''WY'' @ uni [0x141, 0x104] @ ''CZONE''),
     (''blocklists.never'', ''Nigdy''),
     (''blocklists.updating'', ''Aktualizowanie'' @ uni [0x2026]),
     (''blocklists.update'', ''Aktualizuj''),
     (''blocklists.load_failed'', ''Nie mo'' @ uni [0x17C] @ ''na za'' @ uni [0x142] @ ''adowa'' @ uni [0x107] @ '' list blokowania''),
     (''blocklists.add_failed'', ''Nie mo'' @ uni [0x17C] @ ''na doda'' @ uni [0x107] @ '' '' @ uni [0x17A] @ ''r'' @ uni [0xF3] @ ''d'' @ uni [0x142] @ ''a''),
     (''blocklists.update_failed_msg'', ''Nie mo'' @ uni [0x17C] @ ''na zaktualizowa'' @ uni [0x107] @ '' '' @ uni [0x17A] @ ''r'' @ uni [0xF3] @ ''d'' @ uni [0x142] @ ''a''),
     (''blocklists.col_domains'', ''Domeny''),
     (''blocklists.local'', ''Lokalne''),
     (''blocklists.enable'', ''W'' @ uni [0x142, 0x105] @ ''cz''),
     (''blocklists.disable'', ''Wy'' @ uni [0x142, 0x105] @ ''cz''),
     (''blocklists.toggle_failed'', ''Nie mo'' @ uni [0x17C] @ ''na prze'' @ uni [0x142, 0x105] @ ''czy'' @ uni [0x107] @ '' '' @ uni [0x17A] @ ''r'' @ uni [0xF3] @ ''d'' @ uni [0x142] @ ''a''),
     (''blocklists.edit_content'', ''Edytuj zawarto'' @ uni [0x15B, 0x107]),
     (''blocklists.edit_content_aria'', ''Edytuj zawarto'' @ uni [0x15B, 0x107] @ '' listy blokowania''),
     (''blocklists.edit_content_title'', ''Edytuj domeny listy blokowania''),
     (''blocklists.edit_content_text'', ''Wprowad'' @ uni [0x17A] @ '' jedn'' @ uni [0x105] @ '' domen'' @ uni [0x119] @ '' w wierszu. Wiersze rozpoczynaj'' @ uni [0x105] @ ''ce si'' @ uni [0x119] @ '' od 0.0.0.0 lub komentarza s'' @ uni [0x105] @ '' traktowane jako wpisy host'' @ uni [0xF3] @ ''w.''),
     (''blocklists.domains_label'', ''Domeny''),
     (''blocklists.saving'', ''Zapisywanie'' @ uni [0x2026]),
     (''blocklists.save'', ''Zapisz''),
     (''blocklists.content_save_failed'', ''Nie mo'' @ uni [0x17C] @ ''na zapisa'' @ uni [0x107] @ '' zawarto'' @ uni [0x15B] @ ''ci''),
     (''blocklists.delete'', ''Usu'' @ uni [0x144]),
     (''blocklists.confirm_delete'', ''Potwierd'' @ uni [0x17A]),
     (''blocklists.delete_failed'', ''Nie mo'' @ uni [0x17C] @ ''na usun'' @ uni [0x105, 0x107] @ '' '' @ uni [0x17A] @ ''r'' @ uni [0xF3] @ ''d'' @ uni [0x142] @ ''a''),
     (''zones.count'', ''lokalnych stref''),
     (''zones.count_one'', ''lokalna strefa''),
     (''zones.local_authority'', ''Lokalna autorytacja''),
     (''zones.reload'', ''Prze'' @ uni [0x142] @ ''aduj strefy''),
     (''zones.add_zone'', ''Dodaj stref'' @ uni [0x119]),
     (''zones.error_stale'', ''Wy'' @ uni [0x15B] @ ''wietlanie ostatnio za'' @ uni [0x142] @ ''adowanych stref. Prze'' @ uni [0x142] @ ''aduj przed wprowadzaniem zmian.''),
     (''zones.error_retry'', ''Prze'' @ uni [0x142] @ ''aduj, aby spr'' @ uni [0xF3] @ ''bowa'' @ uni [0x107] @ '' ponownie.''),
     (''zones.reload_before_retry'', ''Prze'' @ uni [0x142] @ ''aduj strefy przed ponown'' @ uni [0x105] @ '' pr'' @ uni [0xF3] @ ''b'' @ uni [0x105] @ ''.''),
     (''zones.loading'', uni [0x141] @ ''adowanie lokalnych stref'' @ uni [0x2026]),
     (''zones.empty_title'', ''Nadaj swojej sieci znane nazwy''),
     (''zones.empty_text'', ''Utw'' @ uni [0xF3] @ ''rz stref'' @ uni [0x119] @ '', na przyk'' @ uni [0x142] @ ''ad home.arpa, a nast'' @ uni [0x119] @ ''pnie dodaj rekordy dla routera, us'' @ uni [0x142] @ ''ug i urz'' @ uni [0x105] @ ''dze'' @ uni [0x144] @ ''.''),
     (''zones.create_first'', ''Utw'' @ uni [0xF3] @ ''rz swoj'' @ uni [0x105] @ '' pierwsz'' @ uni [0x105] @ '' stref'' @ uni [0x119]),
     (''zones.filter_aria'', ''Filtruj strefy''),
     (''zones.filter_placeholder'', ''Znajd'' @ uni [0x17A] @ '' stref'' @ uni [0x119, 0x2026]),
     (''zones.nav_aria'', ''Strefy lokalne''),
     (''zones.records_custom'', ''niestandardowe rekordy''),
     (''zones.no_matching'', ''Brak pasuj'' @ uni [0x105] @ ''cych stref.''),
     (''zones.authoritative_eyebrow'', ''STREFA AUTORYTATYWNA''),
     (''zones.revision'', ''Rewizja''),
     (''zones.add_record'', ''Dodaj rekord''),
     (''zones.delete_zone_aria'', ''Usu'' @ uni [0x144] @ '' stref'' @ uni [0x119]),
     (''zones.primary_ns'', ''G'' @ uni [0x142, 0xF3] @ ''wny NS''),
     (''zones.contact'', ''Kontakt''),
     (''zones.delete_record_confirm'', ''Usu'' @ uni [0x144] @ '' rekord''),
     (''zones.delete_zone_confirm'', ''i wszystkie''),
     (''zones.delete_zone_confirm2'', ''rekordy? Tej operacji nie mo'' @ uni [0x17C] @ ''na cofn'' @ uni [0x105, 0x107] @ ''.''),
     (''zones.deleting'', ''Usuwanie'' @ uni [0x2026]),
     (''zones.delete_record_perm'', ''Usu'' @ uni [0x144] @ '' rekord trwale''),
     (''zones.delete_zone_perm'', ''Usu'' @ uni [0x144] @ '' stref'' @ uni [0x119] @ '' trwale''),
     (''zones.cancel_deletion'', ''Anuluj usuwanie''),
     (''zones.record_saved'', ''Rekord zapisany. Zmiany DNS s'' @ uni [0x105] @ '' aktywne.''),
     (''zones.record_deleted'', ''Rekord usuni'' @ uni [0x119] @ ''ty. Zmiany DNS s'' @ uni [0x105] @ '' aktywne.''),
     (''zones.zone_deleted'', ''Strefa i jej rekordy usuni'' @ uni [0x119] @ ''te.''),
     (''zones.zone_created'', ''Strefa utworzona. Dodaj rekordy, aby zacz'' @ uni [0x105, 0x107] @ '' z niej korzysta'' @ uni [0x107] @ ''.''),
     (''zones.delete_failed'', ''Nie mo'' @ uni [0x17C] @ ''na usun'' @ uni [0x105, 0x107]),
     (''zones.footnote'', ''Odpowiedzi lokalne maj'' @ uni [0x105] @ '' priorytet nad przekazywaniem. Urz'' @ uni [0x105] @ ''dzenia mog'' @ uni [0x105] @ '' zachowywa'' @ uni [0x107] @ '' poprzednie odpowiedzi do wyga'' @ uni [0x15B] @ ''ni'' @ uni [0x119] @ ''cia ich TTL.''),
     (''zones.record_form_edit_aria'', ''Edytuj rekord DNS''),
     (''zones.record_form_add_aria'', ''Dodaj rekord DNS'')]\<close>

definition dict_pl_4 :: text_table where
  \<open>dict_pl_4 = [
     (''zones.edit_record'', ''Edytuj rekord''),
     (''zones.add_record_form'', ''Dodaj rekord''),
     (''zones.changes_apply'', ''Zmiany dotycz'' @ uni [0x105]),
     (''zones.record_name'', ''Nazwa rekordu''),
     (''zones.router_or_at'', ''router lub @''),
     (''zones.relative_name_hint'', ''Nazwa wzgl'' @ uni [0x119] @ ''dna, @ dla strefy lub nazwa bezwzgl'' @ uni [0x119] @ ''dna ko'' @ uni [0x144] @ ''cz'' @ uni [0x105] @ ''ca si'' @ uni [0x119] @ '' kropk'' @ uni [0x105] @ ''.''),
     (''zones.record_type'', ''Typ rekordu''),
     (''zones.ttl_seconds'', ''TTL (sekundy)''),
     (''zones.priority'', ''Priorytet''),
     (''zones.ipv4_address'', ''Adres IPv4''),
     (''zones.ipv6_address'', ''Adres IPv6''),
     (''zones.text_value'', ''Warto'' @ uni [0x15B, 0x107] @ '' tekstowa''),
     (''zones.target_hostname'', ''Nazwa hosta docelowego''),
     (''zones.invalid_ttl'', ''Wprowad'' @ uni [0x17A] @ '' prawid'' @ uni [0x142] @ ''owe warto'' @ uni [0x15B] @ ''ci TTL i priorytetu.''),
     (''zones.record_conflict'', ''Ta strefa zosta'' @ uni [0x142] @ ''a zmodyfikowana w innym miejscu. Tw'' @ uni [0xF3] @ ''j szkic jest niezmieniony. Zamknij ten formularz i prze'' @ uni [0x142] @ ''aduj strefy przed ponown'' @ uni [0x105] @ '' pr'' @ uni [0xF3] @ ''b'' @ uni [0x105] @ ''.''),
     (''zones.save_failed'', ''Nie mo'' @ uni [0x17C] @ ''na zapisa'' @ uni [0x107] @ '' rekordu''),
     (''zones.saving'', ''Zapisywanie'' @ uni [0x2026]),
     (''zones.save_record'', ''Zapisz rekord''),
     (''zones.cancel'', ''Anuluj''),
     (''zones.no_records_title'', ''Brak niestandardowych rekord'' @ uni [0xF3] @ ''w''),
     (''zones.no_records_text'', ''Dodaj sw'' @ uni [0xF3] @ ''j pierwszy rekord. SOA i zapasowy NS apex s'' @ uni [0x105] @ '' zarz'' @ uni [0x105] @ ''dzane automatycznie.''),
     (''zones.records_aria'', ''Rekordy DNS dla''),
     (''zones.col_name'', ''Nazwa''),
     (''zones.col_type'', ''Typ''),
     (''zones.col_value'', ''Warto'' @ uni [0x15B, 0x107]),
     (''zones.col_ttl'', ''TTL''),
     (''zones.col_actions'', ''Akcje''),
     (''zones.edit_aria'', ''Edytuj''),
     (''zones.delete_aria'', ''Usu'' @ uni [0x144]),
     (''zones.record_word'', ''rekord''),
     (''zones.create_title'', ''Utw'' @ uni [0xF3] @ ''rz lokaln'' @ uni [0x105] @ '' stref'' @ uni [0x119]),
     (''zones.create_text'', ''Velora b'' @ uni [0x119] @ ''dzie odpowiada'' @ uni [0x107] @ '' na zapytania dla tej strefy i zachowywa'' @ uni [0x107] @ '' nieznane nazwy w Twojej sieci.''),
     (''zones.zone_name'', ''Nazwa strefy''),
     (''zones.authority_settings'', ''Ustawienia autorytacji''),
     (''zones.primary_nameserver'', ''G'' @ uni [0x142, 0xF3] @ ''wny nameserver''),
     (''zones.contact_mailbox'', ''Kontakt (skrzynka DNS)''),
     (''zones.creating'', ''Tworzenie'' @ uni [0x2026]),
     (''zones.create_zone'', ''Utw'' @ uni [0xF3] @ ''rz stref'' @ uni [0x119]),
     (''zones.create_zone_aria'', ''Utw'' @ uni [0xF3] @ ''rz stref'' @ uni [0x119] @ '' DNS''),
     (''zones.create_failed'', ''Nie mo'' @ uni [0x17C] @ ''na utworzy'' @ uni [0x107] @ '' strefy''),
     (''zones.load_failed'', ''Nie mo'' @ uni [0x17C] @ ''na za'' @ uni [0x142] @ ''adowa'' @ uni [0x107] @ '' stref''),
     (''updates.loading'', uni [0x141] @ ''adowanie statusu aktualizacji...''),
     (''updates.viewer_readonly'', ''Zalogowano jako widz. '' @ uni [0x17B, 0x105] @ ''dania aktualizacji s'' @ uni [0x105] @ '' tylko do odczytu.''),
     (''updates.in_progress'', ''Aktualizacja w toku...''),
     (''updates.history'', ''Historia aktualizacji''),
     (''updates.no_history'', ''Brak zarejestrowanych aktualizacji.''),
     (''updates.col_from'', ''Z''),
     (''updates.col_to'', ''Do''),
     (''updates.col_state'', ''Stan''),
     (''updates.col_started'', ''Rozpocz'' @ uni [0x119] @ ''to''),
     (''updates.state_idle'', ''Bezczynny''),
     (''updates.state_downloading'', ''Pobieranie''),
     (''updates.state_verifying'', ''Weryfikacja''),
     (''updates.state_installing'', ''Instalowanie''),
     (''updates.state_readiness'', ''Oczekiwanie na gotowo'' @ uni [0x15B, 0x107]),
     (''updates.state_completed'', ''Uko'' @ uni [0x144] @ ''czono''),
     (''updates.state_rolled_back'', ''Cofni'' @ uni [0x119] @ ''to''),
     (''updates.state_failed'', ''Nie powiod'' @ uni [0x142] @ ''o si'' @ uni [0x119]),
     (''updates.load_failed'', ''Nie uda'' @ uni [0x142] @ ''o si'' @ uni [0x119] @ '' za'' @ uni [0x142] @ ''adowa'' @ uni [0x107] @ '' statusu aktualizacji''),
     (''updates.request_failed'', ''Nie uda'' @ uni [0x142] @ ''o si'' @ uni [0x119] @ '' za'' @ uni [0x17C, 0x105] @ ''da'' @ uni [0x107] @ '' aktualizacji''),
     (''updates.check'', ''Check for updates''),
     (''updates.available'', ''Update available''),
     (''updates.up_to_date'', ''The system is up to date.''),
     (''updates.progress'', ''Update progress''),
     (''updates.rollback_used'', ''The previous version was restored.''),
     (''updates.rollback_recovered'', ''The previous version was restored and is healthy.''),
     (''backup.sqlite_only'', ''Zaszyfrowany eksport obs'' @ uni [0x142] @ ''uguje obecnie tylko instalacje SQLite.''),
     (''backup.create_title'', ''Zaszyfrowana kopia''),
     (''backup.create_hint'', ''Pobierz wersjonowan'' @ uni [0x105] @ '' kopi'' @ uni [0x119] @ '' konfiguracji i danych trwa'' @ uni [0x142] @ ''ych. Zachowaj has'' @ uni [0x142] @ ''o.''),
     (''backup.passphrase'', ''Has'' @ uni [0x142] @ ''o''),
     (''backup.creating'', ''Tworzenie'' @ uni [0x2026]),
     (''backup.create'', ''Utw'' @ uni [0xF3] @ ''rz i pobierz''),
     (''backup.create_failed'', ''Nie uda'' @ uni [0x142] @ ''o si'' @ uni [0x119] @ '' utworzy'' @ uni [0x107] @ '' kopii''),
     (''backup.restore_hint'', ''Przywr'' @ uni [0xF3, 0x107] @ '' zaszyfrowan'' @ uni [0x105] @ '' kopi'' @ uni [0x119] @ '' przy zatrzymanej us'' @ uni [0x142] @ ''udze. Polecenie zachowuje kopi'' @ uni [0x119] @ '' bezpiecze'' @ uni [0x144] @ ''stwa.''),
     (''backup.loading'', uni [0x141] @ ''adowanie statusu kopii zapasowej...''),
     (''backup.status_title'', ''Status kopii zapasowej''),
     (''backup.database'', ''Baza danych:''),
     (''backup.last_backup'', ''Ostatnia kopia:''),
     (''backup.no_backup'', ''Brak zarejestrowanej kopii zapasowej''),
     (''backup.verification_state'', ''Status weryfikacji:''),
     (''backup.state_unknown'', ''Nieznany''),
     (''backup.state_unverified'', ''Niezweryfikowany''),
     (''backup.state_verified'', ''Zweryfikowany''),
     (''backup.verify_title'', ''Weryfikuj kopi'' @ uni [0x119] @ '' zapasow'' @ uni [0x105]),
     (''backup.verify_text'', ''Umie'' @ uni [0x15B, 0x107] @ '' kopi'' @ uni [0x119] @ '' zapasow'' @ uni [0x105] @ '' obok bazy danych serwera, aby zweryfikowa'' @ uni [0x107] @ '' jej integralno'' @ uni [0x15B, 0x107] @ ''.''),
     (''backup.file_name'', ''Nazwa pliku kopii zapasowej''),
     (''backup.file_hint'', ''Umie'' @ uni [0x15B, 0x107] @ '' kopi'' @ uni [0x119] @ '' zapasow'' @ uni [0x105] @ '' obok bazy danych na serwerze Velora. U'' @ uni [0x17C] @ ''ywana jest tylko nazwa pliku; pliki przegl'' @ uni [0x105] @ ''darki i inne katalogi nie mog'' @ uni [0x105] @ '' by'' @ uni [0x107] @ '' tutaj sprawdzone.''),
     (''backup.viewer_readonly'', ''Zalogowano jako widz. Weryfikacja kopii zapasowej jest tylko do odczytu.''),
     (''backup.verifying'', ''Weryfikowanie...''),
     (''backup.verify'', ''Weryfikuj''),
     (''backup.valid'', ''Kopia zapasowa jest prawid'' @ uni [0x142] @ ''owa''),
     (''backup.invalid'', ''Kopia zapasowa jest nieprawid'' @ uni [0x142] @ ''owa''),
     (''backup.schema_version'', ''Wersja schematu:''),
     (''backup.records'', ''Rekordy:''),
     (''backup.instructions'', ''Przywracanie z wiersza polece'' @ uni [0x144]),
     (''backup.native'', ''Instalacja natywna''),
     (''backup.docker'', ''Docker Compose''),
     (''backup.online'', ''Kopia zapasowa online (SQLite)''),
     (''backup.load_failed'', ''Nie uda'' @ uni [0x142] @ ''o si'' @ uni [0x119] @ '' za'' @ uni [0x142] @ ''adowa'' @ uni [0x107] @ '' statusu kopii zapasowej''),
     (''backup.verify_failed'', ''Weryfikacja nie powiod'' @ uni [0x142] @ ''a si'' @ uni [0x119]),
     (''backup.step_stop_service'', ''Zatrzymaj us'' @ uni [0x142] @ ''ug'' @ uni [0x119]),
     (''backup.step_create_backup'', ''Utw'' @ uni [0xF3] @ ''rz sp'' @ uni [0xF3] @ ''jn'' @ uni [0x105] @ '' kopi'' @ uni [0x119] @ '' zapasow'' @ uni [0x105]),
     (''backup.step_restart_service'', ''Uruchom ponownie us'' @ uni [0x142] @ ''ug'' @ uni [0x119]),
     (''backup.step_stop_container'', ''Zatrzymaj kontener''),
     (''backup.step_backup_volume'', ''Utw'' @ uni [0xF3] @ ''rz kopi'' @ uni [0x119] @ '' zapasow'' @ uni [0x105] @ '' wolumenu''),
     (''backup.step_restart_container'', ''Uruchom ponownie kontener''),
     (''backup.step_online_backup'', ''U'' @ uni [0x17C] @ ''yj API kopii zapasowej SQLite do sp'' @ uni [0xF3] @ ''jnej kopii online''),
     (''onboarding.welcome'', ''Witaj w Velora DNS''),
     (''onboarding.complete_steps'', ''Uko'' @ uni [0x144] @ ''cz te kroki, aby zabezpieczy'' @ uni [0x107] @ '' swoj'' @ uni [0x105] @ '' instalacj'' @ uni [0x119]),
     (''onboarding.dismiss'', ''Odrzu'' @ uni [0x107]),
     (''onboarding.change_credentials'', ''Zmie'' @ uni [0x144] @ '' dane uwierzytelniaj'' @ uni [0x105] @ ''ce''),
     (''onboarding.change_credentials_text'', ''Domy'' @ uni [0x15B] @ ''lne has'' @ uni [0x142] @ ''o administratora powinno zosta'' @ uni [0x107] @ '' zmienione po pierwszym logowaniu.''),
     (''onboarding.review_dns'', ''Przejrzyj konfiguracj'' @ uni [0x119] @ '' DNS''),
     (''onboarding.review_dns_text'', ''Upewnij si'' @ uni [0x119] @ '', '' @ uni [0x17C] @ ''e serwery upstream i dozwoleni klienci s'' @ uni [0x105] @ '' poprawnie skonfigurowani dla Twojej sieci.''),
     (''onboarding.restrict_clients'', ''Ogranicz dost'' @ uni [0x119] @ ''p klient'' @ uni [0xF3] @ ''w''),
     (''onboarding.restrict_clients_text'', ''Skonfiguruj allowed_clients CIDR, aby ograniczy'' @ uni [0x107] @ '', kt'' @ uni [0xF3] @ ''re siecie mog'' @ uni [0x105] @ '' korzysta'' @ uni [0x107] @ '' z Twojego resolvera.''),
     (''onboarding.verify_db'', ''Zweryfikuj magazyn bazy danych''),
     (''onboarding.verify_db_text'', ''Upewnij si'' @ uni [0x119] @ '', '' @ uni [0x17C] @ ''e '' @ uni [0x15B] @ ''cie'' @ uni [0x17C] @ ''ka bazy danych znajduje si'' @ uni [0x119] @ '' na niezawodnym magazynie z odpowiedni'' @ uni [0x105] @ '' ilo'' @ uni [0x15B] @ ''ci'' @ uni [0x105] @ '' miejsca.'')]\<close>

definition dict_pl_5 :: text_table where
  \<open>dict_pl_5 = [
     (''onboarding.update_policy'', ''Skonfiguruj polityk'' @ uni [0x119] @ '' aktualizacji''),
     (''onboarding.update_policy_text'', ''Przejrzyj centrum aktualizacji, aby dowiedzie'' @ uni [0x107] @ '' si'' @ uni [0x119] @ '', jak utrzymywa'' @ uni [0x107] @ '' aktualno'' @ uni [0x15B, 0x107] @ '' instalacji.''),
     (''app.nav.dhcp'', ''DHCP''),
     (''app.title.dhcp'', ''Serwer DHCP''),
     (''dhcp.loading'', uni [0x141] @ ''adowanie danych DHCP'' @ uni [0x2026]),
     (''dhcp.load_failed'', ''Unable to load DHCP data''),
     (''dhcp.create_pool_failed'', ''Unable to create pool''),
     (''dhcp.delete_pool_failed'', ''Unable to delete pool''),
     (''dhcp.create_reservation_failed'', ''Unable to create reservation''),
     (''dhcp.delete_reservation_failed'', ''Unable to delete reservation''),
     (''dhcp.delete_lease_failed'', ''Unable to delete lease''),
     (''dhcp.pools'', ''Pule DHCP''),
     (''dhcp.add_pool'', ''Dodaj pul'' @ uni [0x119]),
     (''dhcp.pool_name'', ''Nazwa puli''),
     (''dhcp.interface'', ''Interfejs''),
     (''dhcp.subnet_cidr'', ''Podsie'' @ uni [0x107] @ '' (CIDR)''),
     (''dhcp.subnet'', ''Podsie'' @ uni [0x107]),
     (''dhcp.gateway'', ''Brama''),
     (''dhcp.dns_servers'', ''Serwery DNS''),
     (''dhcp.lease_seconds'', ''Czas dzier'' @ uni [0x17C] @ ''awy (sekundy)''),
     (''dhcp.leases_label'', ''Dzier'' @ uni [0x17C] @ ''awy''),
     (''dhcp.create'', ''Utw'' @ uni [0xF3] @ ''rz''),
     (''dhcp.no_pools'', ''Brak skonfigurowanych pul DHCP. Utw'' @ uni [0xF3] @ ''rz jedn'' @ uni [0x105] @ '', aby zacz'' @ uni [0x105, 0x107] @ '' przydziela'' @ uni [0x107] @ '' dzier'' @ uni [0x17C] @ ''awy.''),
     (''dhcp.reservations'', ''Rezerwacje statyczne''),
     (''dhcp.mac_address'', ''Adres MAC''),
     (''dhcp.ip_address'', ''Adres IP''),
     (''dhcp.hostname'', ''Nazwa hosta''),
     (''dhcp.add'', ''Dodaj''),
     (''dhcp.active_leases'', ''Aktywne dzier'' @ uni [0x17C] @ ''awy''),
     (''dhcp.expires'', ''Wygasa''),
     (''dhcp.no_leases'', ''Brak aktywnych dzier'' @ uni [0x17C] @ ''aw.''),
     (''dhcp.expired'', ''Wygas'' @ uni [0x142] @ ''e''),
     (''dhcp.confirm_delete_pool'', ''Usun'' @ uni [0x105, 0x107] @ '' t'' @ uni [0x119] @ '' pul'' @ uni [0x119] @ '' i wszystkie jej rezerwacje?''),
     (''dhcp.name'', ''Nazwa''),
     (''app.nav.cluster'', ''Klaster''),
     (''app.title.cluster'', ''Przegl'' @ uni [0x105] @ ''d klastra''),
     (''cluster.loading'', uni [0x141] @ ''adowanie danych klastra'' @ uni [0x2026]),
     (''cluster.load_failed'', ''Unable to load cluster data''),
     (''cluster.name'', ''Nazwa''),
     (''cluster.status'', ''Status''),
     (''cluster.version'', ''Wersja''),
     (''cluster.last_seen'', ''Ostatnio widziany''),
     (''cluster.config_history'', ''Historia konfiguracji''),
     (''cluster.no_versions'', ''Brak zarejestrowanych wersji konfiguracji.''),
     (''cluster.hash'', ''Hash''),
     (''cluster.applied_by'', ''Zastosowane przez''),
     (''cluster.applied_at'', ''Zastosowano o''),
     (''app.nav.group_dns'', ''DNS''),
     (''app.nav.group_network'', ''Sie'' @ uni [0x107]),
     (''app.nav.group_system'', ''System''),
     (''app.menu_open'', ''Otw'' @ uni [0xF3] @ ''rz nawigacj'' @ uni [0x119]),
     (''app.menu_close'', ''Zamknij nawigacj'' @ uni [0x119]),
     (''app.theme_to_dark'', ''Prze'' @ uni [0x142, 0x105] @ ''cz na ciemny motyw''),
     (''app.theme_to_light'', ''Prze'' @ uni [0x142, 0x105] @ ''cz na jasny motyw''),
     (''app.signed_in_as'', ''Zalogowano jako''),
     (''app.subtitle.zones'', ''Autorytatywne nazwy dla urz'' @ uni [0x105] @ ''dze'' @ uni [0x144] @ '' i us'' @ uni [0x142] @ ''ug w Twojej sieci.''),
     (''app.subtitle.queries'', ''Ostatnie zapytania obs'' @ uni [0x142] @ ''u'' @ uni [0x17C] @ ''one przez ten resolver.''),
     (''app.subtitle.blocklists'', ''Listy domen odpowiadane jako zablokowane.''),
     (''app.subtitle.cache'', ''Odpowiedzi w pami'' @ uni [0x119] @ ''ci przyspieszaj'' @ uni [0x105] @ ''ce powtarzane zapytania.''),
     (''app.subtitle.settings'', ''Resolver, interfejs WWW i preferencje osobiste.''),
     (''app.subtitle.updates'', ''Zainstalowana wersja, dost'' @ uni [0x119] @ ''pne wydania i historia aktualizacji.''),
     (''app.subtitle.backup'', ''Tw'' @ uni [0xF3] @ ''rz zaszyfrowane kopie zapasowe i weryfikuj istniej'' @ uni [0x105] @ ''ce.''),
     (''app.subtitle.dhcp'', ''Pule adres'' @ uni [0xF3] @ ''w, rezerwacje i aktywne dzier'' @ uni [0x17C] @ ''awy.''),
     (''app.subtitle.cluster'', ''Utrzymuj identyczne strefy lokalne na kilku serwerach Velora DNS.''),
     (''app.subtitle.diagnostics'', ''Stan komponent'' @ uni [0xF3] @ ''w i raport wsparcia do udost'' @ uni [0x119] @ ''pnienia.''),
     (''app.subtitle.events'', ''Sprawy wymagaj'' @ uni [0x105] @ ''ce Twojej uwagi.''),
     (''app.subtitle.audit'', ''Kto, co i kiedy zmieni'' @ uni [0x142] @ ''.''),
     (''settings.preferences'', ''Preferencje''),
     (''dashboard.general_statistics'', ''Statystyki og'' @ uni [0xF3] @ ''lne''),
     (''dashboard.blocked'', ''Zablokowane przez filtry''),
     (''dashboard.of_all_queries'', ''wszystkich zapyta'' @ uni [0x144]),
     (''dashboard.query_logging'', ''Dziennik zapyta'' @ uni [0x144]),
     (''dashboard.enabled'', ''W'' @ uni [0x142, 0x105] @ ''czony''),
     (''dashboard.disabled'', ''Wy'' @ uni [0x142, 0x105] @ ''czony''),
     (''dashboard.requests'', uni [0x17B, 0x105] @ ''dania''),
     (''dashboard.domain'', ''Domena''),
     (''dashboard.client'', ''Klient''),
     (''dashboard.upstream_servers'', ''Serwery nadrz'' @ uni [0x119] @ ''dne''),
     (''dashboard.collecting_samples'', ''Zbieranie pr'' @ uni [0xF3] @ ''bek'' @ uni [0x2026]),
     (''cache.search_label'', ''Szukaj wed'' @ uni [0x142] @ ''ug nazwy''),
     (''cache.search_placeholder'', ''example.org''),
     (''cache.all_types'', ''Wszystkie typy''),
     (''cache.remove_entry'', ''Usu'' @ uni [0x144] @ '' z pami'' @ uni [0x119] @ ''ci podr'' @ uni [0x119] @ ''cznej''),
     (''cache.invalidate_title'', ''Uniewa'' @ uni [0x17C] @ ''nij domen'' @ uni [0x119]),
     (''cache.invalidate_text'', ''Usu'' @ uni [0x144] @ '' odpowiedzi dla jednej nazwy bez czyszczenia ca'' @ uni [0x142] @ ''ej pami'' @ uni [0x119] @ ''ci podr'' @ uni [0x119] @ ''cznej.''),
     (''cache.domain'', ''Domena''),
     (''cache.include_subdomains'', ''Uwzgl'' @ uni [0x119] @ ''dnij subdomeny''),
     (''cache.invalidate'', ''Uniewa'' @ uni [0x17C] @ ''nij''),
     (''cache.removed_entries'', ''Usuni'' @ uni [0x119] @ ''te wpisy''),
     (''cache.invalidate_failed'', ''Uniewa'' @ uni [0x17C] @ ''nienie nie powiod'' @ uni [0x142] @ ''o si'' @ uni [0x119]),
     (''cache.flush_confirm'', ''Wyczy'' @ uni [0x15B] @ ''ci'' @ uni [0x107] @ '' wszystkie odpowiedzi? Liczniki trafie'' @ uni [0x144] @ '' i chybie'' @ uni [0x144] @ '' zostan'' @ uni [0x105] @ '' zachowane.''),
     (''cache.no_matches'', ''Brak wpis'' @ uni [0xF3] @ ''w pasuj'' @ uni [0x105] @ ''cych do filtra.''),
     (''blocklists.schedule'', ''Harmonogram aktualizacji''),
     (''blocklists.schedule_for'', ''Harmonogram aktualizacji dla''),
     (''blocklists.manual'', ''R'' @ uni [0x119] @ ''cznie''),
     (''blocklists.every_1h'', ''Co godzin'' @ uni [0x119]),
     (''blocklists.every_6h'', ''Co 6 godzin''),
     (''blocklists.every_12h'', ''Co 12 godzin''),
     (''blocklists.every_24h'', ''Codziennie''),
     (''blocklists.every_7d'', ''Co tydzie'' @ uni [0x144]),
     (''blocklists.col_next_update'', ''Nast'' @ uni [0x119] @ ''pna aktualizacja''),
     (''blocklists.due_now'', ''Teraz''),
     (''blocklists.never_updated'', ''Nigdy nie aktualizowano''),
     (''blocklists.retry_count'', ''nieudane pr'' @ uni [0xF3] @ ''by''),
     (''blocklists.schedule_failed'', ''Nie mo'' @ uni [0x17C] @ ''na zmieni'' @ uni [0x107] @ '' harmonogramu''),
     (''app.nav.forwarding'', ''Przekazywanie warunkowe''),
     (''app.title.forwarding'', ''Przekazywanie warunkowe''),
     (''app.subtitle.forwarding'', ''Wysy'' @ uni [0x142] @ ''aj zapytania dla wybranych domen do dedykowanych resolver'' @ uni [0xF3] @ ''w.''),
     (''forwarding.count'', ''regu'' @ uni [0x142] @ ''y przekazywania''),
     (''forwarding.add'', ''Dodaj regu'' @ uni [0x142, 0x119]),
     (''forwarding.add_title'', ''Nowa regu'' @ uni [0x142] @ ''a przekazywania''),
     (''forwarding.edit_title'', ''Edytuj regu'' @ uni [0x142, 0x119] @ '' przekazywania''),
     (''forwarding.form_hint'', ''Regu'' @ uni [0x142] @ ''a obejmuje te'' @ uni [0x17C] @ '' wszystkie nazwy poni'' @ uni [0x17C] @ ''ej domeny. Wygrywa najbardziej szczeg'' @ uni [0xF3, 0x142] @ ''owa aktywna regu'' @ uni [0x142] @ ''a.''),
     (''forwarding.domain'', ''Domena''),
     (''forwarding.upstreams'', ''Resolvery''),
     (''forwarding.upstreams_hint'', ''1'' @ uni [0x2013] @ ''4 adresy jako IP lub IP:port, oddzielone przecinkami. Domy'' @ uni [0x15B] @ ''lnie port 53.''),
     (''forwarding.description'', ''Opis''),
     (''forwarding.enabled'', ''W'' @ uni [0x142, 0x105] @ ''czona''),
     (''forwarding.save'', ''Zapisz regu'' @ uni [0x142, 0x119])]\<close>

definition dict_pl_6 :: text_table where
  \<open>dict_pl_6 = [
     (''forwarding.cancel'', ''Anuluj''),
     (''forwarding.empty_title'', ''Brak regu'' @ uni [0x142] @ '' przekazywania''),
     (''forwarding.empty_text'', ''Wszystkie zapytania u'' @ uni [0x17C] @ ''ywaj'' @ uni [0x105] @ '' globalnych resolver'' @ uni [0xF3] @ ''w. Dodaj regu'' @ uni [0x142, 0x119] @ '', aby rozwi'' @ uni [0x105] @ ''zywa'' @ uni [0x107] @ '' domen'' @ uni [0x119] @ '' np. corp.example przez wewn'' @ uni [0x119] @ ''trzny serwer DNS.''),
     (''forwarding.col_status'', ''Stan''),
     (''forwarding.test'', ''Testuj''),
     (''forwarding.test_title'', ''Testuj regu'' @ uni [0x142, 0x119]),
     (''forwarding.test_hint'', ''Wysy'' @ uni [0x142] @ ''a jedno zapytanie tylko przez resolvery tej regu'' @ uni [0x142] @ ''y, z pomini'' @ uni [0x119] @ ''ciem pami'' @ uni [0x119] @ ''ci podr'' @ uni [0x119] @ ''cznej.''),
     (''forwarding.test_name'', ''Nazwa''),
     (''forwarding.test_type'', ''Typ''),
     (''forwarding.run_test'', ''Uruchom test''),
     (''forwarding.test_via'', ''przez''),
     (''forwarding.no_answers'', ''Brak rekord'' @ uni [0xF3] @ ''w odpowiedzi''),
     (''forwarding.edit'', ''Edytuj''),
     (''forwarding.delete'', ''Usu'' @ uni [0x144]),
     (''forwarding.delete_confirm'', ''Usun'' @ uni [0x105, 0x107] @ '' regu'' @ uni [0x142, 0x119] @ '' przekazywania dla''),
     (''forwarding.toggle'', ''W'' @ uni [0x142, 0x105] @ ''cz lub wy'' @ uni [0x142, 0x105] @ ''cz regu'' @ uni [0x142, 0x119] @ '' dla''),
     (''forwarding.load_failed'', ''Nie mo'' @ uni [0x17C] @ ''na wczyta'' @ uni [0x107] @ '' regu'' @ uni [0x142]),
     (''forwarding.save_failed'', ''Nie mo'' @ uni [0x17C] @ ''na zapisa'' @ uni [0x107] @ '' regu'' @ uni [0x142] @ ''y''),
     (''forwarding.saved'', ''Regu'' @ uni [0x142] @ ''a zapisana. Wyczyszczono odpowiedzi dla domeny z pami'' @ uni [0x119] @ ''ci podr'' @ uni [0x119] @ ''cznej.''),
     (''forwarding.disabled'', ''Wy'' @ uni [0x142, 0x105] @ ''czona''),
     (''app.nav.rewrites'', ''Przepisania DNS''),
     (''app.title.rewrites'', ''Przepisania DNS''),
     (''app.subtitle.rewrites'', ''Odpowiadaj na wybrane nazwy sta'' @ uni [0x142] @ ''ymi adresami lub aliasami.''),
     (''rewrites.count'', ''przepisania''),
     (''rewrites.add'', ''Dodaj przepisanie''),
     (''rewrites.add_title'', ''Nowe przepisanie''),
     (''rewrites.edit_title'', ''Edytuj przepisanie''),
     (''rewrites.form_hint'', ''U'' @ uni [0x17C] @ ''yj *.rodzic, aby obj'' @ uni [0x105, 0x107] @ '' wszystkie nazwy poni'' @ uni [0x17C] @ ''ej domeny. Dok'' @ uni [0x142] @ ''adne nazwy maj'' @ uni [0x105] @ '' pierwsze'' @ uni [0x144] @ ''stwo przed symbolami wieloznacznymi.''),
     (''rewrites.name'', ''Nazwa''),
     (''rewrites.type'', ''Typ''),
     (''rewrites.value'', ''Odpowied'' @ uni [0x17A]),
     (''rewrites.value_hint_A'', ''Adres IPv4''),
     (''rewrites.value_hint_AAAA'', ''Adres IPv6''),
     (''rewrites.value_hint_CNAME'', ''Docelowa nazwa hosta, rozwi'' @ uni [0x105] @ ''zywana normalnie''),
     (''rewrites.description'', ''Opis''),
     (''rewrites.enabled'', ''W'' @ uni [0x142, 0x105] @ ''czone''),
     (''rewrites.save'', ''Zapisz przepisanie''),
     (''rewrites.empty_title'', ''Brak przepisa'' @ uni [0x144] @ '' DNS''),
     (''rewrites.empty_text'', ''Przypisz nazw'' @ uni [0x119] @ '', np. nas.home, do adresu bez tworzenia strefy.''),
     (''rewrites.col_notes'', ''Uwagi''),
     (''rewrites.blocked_hint'', ''Najpierw blokowane przez list'' @ uni [0x119] @ '' blokad''),
     (''rewrites.overrides_hint'', ''Zast'' @ uni [0x119] @ ''puje stref'' @ uni [0x119] @ '' lokaln'' @ uni [0x105]),
     (''rewrites.edit'', ''Edytuj''),
     (''rewrites.delete'', ''Usu'' @ uni [0x144]),
     (''rewrites.delete_confirm'', ''Usun'' @ uni [0x105, 0x107] @ '' to przepisanie?''),
     (''rewrites.toggle'', ''W'' @ uni [0x142, 0x105] @ ''cz lub wy'' @ uni [0x142, 0x105] @ ''cz przepisanie dla''),
     (''rewrites.search'', ''Filtruj przepisania''),
     (''rewrites.load_failed'', ''Nie mo'' @ uni [0x17C] @ ''na wczyta'' @ uni [0x107] @ '' przepisa'' @ uni [0x144]),
     (''rewrites.save_failed'', ''Nie mo'' @ uni [0x17C] @ ''na zapisa'' @ uni [0x107] @ '' przepisania''),
     (''rewrites.saved'', ''Przepisanie zapisane i zastosowane.''),
     (''app.nav.clients'', ''Klienci''),
     (''app.title.clients'', ''Klienci i urz'' @ uni [0x105] @ ''dzenia''),
     (''app.subtitle.clients'', ''Nadaj adresom i sieciom nazwy u'' @ uni [0x17C] @ ''ywane w ca'' @ uni [0x142] @ ''ym Velora.''),
     (''clients.count'', ''klient'' @ uni [0xF3] @ ''w''),
     (''clients.add'', ''Dodaj klienta''),
     (''clients.add_title'', ''Nowy klient''),
     (''clients.edit_title'', ''Edytuj klienta''),
     (''clients.form_hint'', ''Gdy sieci si'' @ uni [0x119] @ '' nak'' @ uni [0x142] @ ''adaj'' @ uni [0x105] @ '', wygrywa najbardziej szczeg'' @ uni [0xF3, 0x142] @ ''owa. Nadaj urz'' @ uni [0x105] @ ''dzeniom DHCP sta'' @ uni [0x142] @ ''y adres przed nazwaniem.''),
     (''clients.name'', ''Nazwa''),
     (''clients.addresses'', ''Adresy''),
     (''clients.addresses_hint'', ''Adresy IP lub sieci CIDR, oddzielone przecinkami.''),
     (''clients.group'', ''Grupa''),
     (''clients.description'', ''Opis''),
     (''clients.enabled'', ''W'' @ uni [0x142, 0x105] @ ''czony''),
     (''clients.save'', ''Zapisz klienta''),
     (''clients.activity'', ''Ostatnie 24 godziny''),
     (''clients.queries'', ''zapyta'' @ uni [0x144]),
     (''clients.last_seen'', ''Ostatnio widziany''),
     (''clients.no_activity'', ''Brak zapyta'' @ uni [0x144]),
     (''clients.view_queries'', ''Poka'' @ uni [0x17C] @ '' zapytania''),
     (''clients.empty_title'', ''Brak nazwanych klient'' @ uni [0xF3] @ ''w''),
     (''clients.empty_text'', ''Nazwij urz'' @ uni [0x105] @ ''dzenia, np. telewizor lub Home Assistant, aby '' @ uni [0x142] @ ''atwo je rozpozna'' @ uni [0x107] @ '' w dzienniku zapyta'' @ uni [0x144] @ ''.''),
     (''clients.unnamed_title'', ''Ostatnio widziane bez nazwy''),
     (''clients.unnamed_text'', ''Najaktywniejsze adresy z ostatnich 24 godzin bez klienta.''),
     (''clients.name_it'', ''Nazwij urz'' @ uni [0x105] @ ''dzenie''),
     (''clients.edit'', ''Edytuj''),
     (''clients.delete'', ''Usu'' @ uni [0x144]),
     (''clients.delete_confirm'', ''Usun'' @ uni [0x105, 0x107] @ '' klienta''),
     (''clients.toggle'', ''W'' @ uni [0x142, 0x105] @ ''cz lub wy'' @ uni [0x142, 0x105] @ ''cz klienta''),
     (''clients.load_failed'', ''Nie mo'' @ uni [0x17C] @ ''na wczyta'' @ uni [0x107] @ '' klient'' @ uni [0xF3] @ ''w''),
     (''clients.save_failed'', ''Nie mo'' @ uni [0x17C] @ ''na zapisa'' @ uni [0x107] @ '' klienta''),
     (''clients.saved'', ''Klient zapisany.''),
     (''clients.logging_off'', ''W'' @ uni [0x142, 0x105] @ ''cz dziennik zapyta'' @ uni [0x144] @ '', aby zobaczy'' @ uni [0x107] @ '' aktywno'' @ uni [0x15B, 0x107] @ '' klient'' @ uni [0xF3] @ ''w.''),
     (''app.nav.policies'', ''Zasady klient'' @ uni [0xF3] @ ''w''),
     (''app.title.policies'', ''Zasady filtrowania klient'' @ uni [0xF3] @ ''w''),
     (''app.subtitle.policies'', ''Okre'' @ uni [0x15B] @ ''l, jak blokowanie dzia'' @ uni [0x142] @ ''a dla poszczeg'' @ uni [0xF3] @ ''lnych klient'' @ uni [0xF3] @ ''w.''),
     (''policies.load_failed'', ''Nie uda'' @ uni [0x142] @ ''o si'' @ uni [0x119] @ '' wczyta'' @ uni [0x107] @ '' zasad.''),
     (''policies.save_failed'', ''Nie uda'' @ uni [0x142] @ ''o si'' @ uni [0x119] @ '' zapisa'' @ uni [0x107] @ '' zasady.''),
     (''policies.saved'', ''Zasada zapisana.''),
     (''policies.lookup'', ''Sprawd'' @ uni [0x17A] @ '' adres''),
     (''policies.add'', ''Dodaj zasad'' @ uni [0x119]),
     (''policies.add_title'', ''Nowa zasada''),
     (''policies.edit_title'', ''Edytuj zasad'' @ uni [0x119]),
     (''policies.form_hint'', ''O zasadzie dla adresu decyduje najbardziej szczeg'' @ uni [0xF3, 0x142] @ ''owa sie'' @ uni [0x107] @ '' klienta.''),
     (''policies.client'', ''Klient''),
     (''policies.mode'', ''Filtrowanie''),
     (''policies.mode_default'', ''Globalne''),
     (''policies.mode_disabled'', ''Bez filtrowania''),
     (''policies.mode_custom'', ''W'' @ uni [0x142] @ ''asne''),
     (''policies.mode_default_hint'', ''Te same listy blokowanych i dozwolonych co reszta.''),
     (''policies.mode_disabled_hint'', ''Nic nie jest blokowane dla tego klienta.''),
     (''policies.mode_custom_hint'', ''Tylko wybrane listy i w'' @ uni [0x142] @ ''asne domeny.''),
     (''policies.blocklists'', ''Listy blokowanych''),
     (''policies.no_sources'', ''Brak list blokowanych.''),
     (''policies.globally_off'', ''wy'' @ uni [0x142, 0x105] @ ''czona globalnie''),
     (''policies.block'', ''Blokuj r'' @ uni [0xF3] @ ''wnie'' @ uni [0x17C]),
     (''policies.allow'', ''Zawsze zezwalaj''),
     (''policies.domains_hint'', ''Jedna domena w wierszu; obejmuje subdomeny.''),
     (''policies.allow_hint'', ''Ma pierwsze'' @ uni [0x144] @ ''stwo przed wszystkimi listami dla tego klienta.''),
     (''policies.enabled'', ''Zasada aktywna''),
     (''policies.save'', ''Zapisz zasad'' @ uni [0x119]),
     (''policies.empty_title'', ''Brak zasad klient'' @ uni [0xF3] @ ''w''),
     (''policies.empty_text'', ''Wszyscy klienci u'' @ uni [0x17C] @ ''ywaj'' @ uni [0x105] @ '' globalnych list. Dodaj zasad'' @ uni [0x119] @ '', aby filtrowa'' @ uni [0x107] @ '' urz'' @ uni [0x105] @ ''dzenie ostrzej, '' @ uni [0x142] @ ''agodniej lub wcale.''),
     (''policies.need_clients'', ''Zasady dotycz'' @ uni [0x105] @ '' nazwanych klient'' @ uni [0xF3] @ ''w. Najpierw nazwij urz'' @ uni [0x105] @ ''dzenie:''),
     (''policies.details'', ''Szczeg'' @ uni [0xF3, 0x142] @ ''y''),
     (''policies.summary_disabled'', ''Wszystkie zapytania bez filtrowania''),
     (''policies.summary_default'', ''U'' @ uni [0x17C] @ ''ywa globalnych list''),
     (''policies.no_lists'', ''Bez list''),
     (''policies.blocked_short'', ''blokowane'')]\<close>

definition dict_pl_7 :: text_table where
  \<open>dict_pl_7 = [
     (''policies.allowed_short'', ''dozwolone''),
     (''policies.paused'', ''Wstrzymana''),
     (''policies.toggle'', ''Zasada aktywna''),
     (''policies.edit'', ''Edytuj zasad'' @ uni [0x119]),
     (''policies.delete'', ''Usu'' @ uni [0x144] @ '' zasad'' @ uni [0x119]),
     (''policies.delete_confirm'', ''Usun'' @ uni [0x105, 0x107] @ '' zasad'' @ uni [0x119] @ '' dla''),
     (''policies.no_policy'', ''(brak zasady, filtrowanie globalne)''),
     (''policies.unknown_address'', ''nie pasuje do '' @ uni [0x17C] @ ''adnego klienta i u'' @ uni [0x17C] @ ''ywa filtrowania globalnego.''),
     (''app.nav.webhooks'', ''Webhooki''),
     (''app.title.webhooks'', ''Powiadomienia webhook''),
     (''app.subtitle.webhooks'', ''Wysy'' @ uni [0x142] @ ''aj wa'' @ uni [0x17C] @ ''ne zdarzenia do innych system'' @ uni [0xF3] @ ''w.''),
     (''webhooks.load_failed'', ''Nie uda'' @ uni [0x142] @ ''o si'' @ uni [0x119] @ '' wczyta'' @ uni [0x107] @ '' webhook'' @ uni [0xF3] @ ''w.''),
     (''webhooks.save_failed'', ''Nie uda'' @ uni [0x142] @ ''o si'' @ uni [0x119] @ '' zapisa'' @ uni [0x107] @ '' webhooka.''),
     (''webhooks.saved'', ''Webhook zapisany.''),
     (''webhooks.count'', ''webhook'' @ uni [0xF3] @ ''w''),
     (''webhooks.add'', ''Dodaj webhook''),
     (''webhooks.add_title'', ''Nowy webhook''),
     (''webhooks.edit_title'', ''Edytuj webhook''),
     (''webhooks.form_hint'', ''Velora wysy'' @ uni [0x142] @ ''a '' @ uni [0x17C, 0x105] @ ''danie POST JSON dla ka'' @ uni [0x17C] @ ''dego pasuj'' @ uni [0x105] @ ''cego zdarzenia. Dostarczanie dzia'' @ uni [0x142] @ ''a w tle i nie op'' @ uni [0xF3, 0x17A] @ ''nia odpowiedzi DNS.''),
     (''webhooks.name'', ''Nazwa''),
     (''webhooks.url'', ''URL''),
     (''webhooks.min_severity'', ''Minimalna wa'' @ uni [0x17C] @ ''no'' @ uni [0x15B, 0x107]),
     (''webhooks.severity_info'', ''Informacja''),
     (''webhooks.severity_warning'', ''Ostrze'' @ uni [0x17C] @ ''enie''),
     (''webhooks.severity_critical'', ''Krytyczne''),
     (''webhooks.token'', ''Token bearer''),
     (''webhooks.token_hint'', ''Opcjonalny. Wysy'' @ uni [0x142] @ ''any w nag'' @ uni [0x142, 0xF3] @ ''wku Authorization; nie jest ponownie wy'' @ uni [0x15B] @ ''wietlany.''),
     (''webhooks.token_stored'', ''Token zapisany''),
     (''webhooks.token_change'', ''Zmie'' @ uni [0x144]),
     (''webhooks.token_remove_hint'', ''Pozostaw puste, aby usun'' @ uni [0x105, 0x107] @ '' token''),
     (''webhooks.events'', ''Zdarzenia''),
     (''webhooks.events_hint'', ''Nie zaznaczaj nic, aby otrzymywa'' @ uni [0x107] @ '' wszystkie typy.''),
     (''webhooks.all_events'', ''Wszystkie zdarzenia''),
     (''webhooks.allow_private'', ''Zezw'' @ uni [0xF3] @ ''l na cel w sieci prywatnej (np. Home Assistant w LAN)''),
     (''webhooks.enabled'', ''Webhook aktywny''),
     (''webhooks.save'', ''Zapisz webhook''),
     (''webhooks.empty_title'', ''Brak webhook'' @ uni [0xF3] @ ''w''),
     (''webhooks.empty_text'', ''Dodaj webhook, aby wiedzie'' @ uni [0x107] @ '', gdy upstream zawiedzie, lista nie od'' @ uni [0x15B] @ ''wie'' @ uni [0x17C] @ ''y si'' @ uni [0x119] @ '' lub kopia zapasowa si'' @ uni [0x119] @ '' nie uda.''),
     (''webhooks.last_delivery'', ''Ostatnie dostarczenie''),
     (''webhooks.never'', ''Nic jeszcze nie wys'' @ uni [0x142] @ ''ano''),
     (''webhooks.failing'', ''B'' @ uni [0x142, 0x119] @ ''dy''),
     (''webhooks.toggle'', ''Webhook aktywny''),
     (''webhooks.test'', ''Wy'' @ uni [0x15B] @ ''lij test''),
     (''webhooks.test_ok'', ''Test dostarczono do''),
     (''webhooks.test_failed'', ''Test nieudany dla''),
     (''webhooks.edit'', ''Edytuj webhook''),
     (''webhooks.delete'', ''Usu'' @ uni [0x144] @ '' webhook''),
     (''webhooks.delete_confirm'', ''Usun'' @ uni [0x105, 0x107] @ '' webhook''),
     (''app.nav.analytics'', ''Analityka''),
     (''app.title.analytics'', ''Analityka''),
     (''app.subtitle.analytics'', ''Aktywno'' @ uni [0x15B, 0x107] @ '' DNS i wydajno'' @ uni [0x15B, 0x107] @ '' resolvera na podstawie zachowanej historii.''),
     (''analytics.load_failed'', ''Nie uda'' @ uni [0x142] @ ''o si'' @ uni [0x119] @ '' wczyta'' @ uni [0x107] @ '' analityki.''),
     (''analytics.logging_off_title'', ''Rejestrowanie zapyta'' @ uni [0x144] @ '' jest wy'' @ uni [0x142, 0x105] @ ''czone''),
     (''analytics.logging_off_text'', ''Analityka korzysta z historii zapyta'' @ uni [0x144] @ ''. W'' @ uni [0x142, 0x105] @ ''cz rejestrowanie zapyta'' @ uni [0x144] @ '':''),
     (''analytics.range'', ''Zakres czasu''),
     (''analytics.range_1h'', ''1 godzina''),
     (''analytics.range_24h'', ''24 godziny''),
     (''analytics.range_7d'', ''7 dni''),
     (''analytics.range_30d'', ''30 dni''),
     (''analytics.history_limited'', ''Historia zapyta'' @ uni [0x144] @ '' si'' @ uni [0x119] @ ''ga tylko do''),
     (''analytics.queries'', ''Zapytania''),
     (''analytics.blocked'', ''Zablokowane''),
     (''analytics.allowed'', ''Dozwolone''),
     (''analytics.cached'', ''Odpowiedzi z cache''),
     (''analytics.answers'', ''odpowiedzi''),
     (''analytics.avg_upstream'', uni [0x15A] @ ''r. czas upstream''),
     (''analytics.empty_title'', ''Brak zapyta'' @ uni [0x144] @ '' w tym zakresie''),
     (''analytics.empty_text'', ''Wybierz d'' @ uni [0x142] @ ''u'' @ uni [0x17C] @ ''szy zakres lub wr'' @ uni [0xF3, 0x107] @ '' p'' @ uni [0xF3, 0x17A] @ ''niej.''),
     (''analytics.over_time'', ''Zapytania w czasie''),
     (''analytics.over_time_hint'', ''Najed'' @ uni [0x17A] @ '' kursorem lub u'' @ uni [0x17C] @ ''yj strza'' @ uni [0x142] @ ''ek.''),
     (''analytics.chart_aria'', ''Zapytania na przedzia'' @ uni [0x142] @ '', dozwolone i zablokowane''),
     (''analytics.show_table'', ''Poka'' @ uni [0x17C] @ '' jako tabel'' @ uni [0x119]),
     (''analytics.time'', ''Czas''),
     (''analytics.avg_time'', uni [0x15A] @ ''r. czas''),
     (''analytics.latency'', ''Czas odpowiedzi upstream''),
     (''analytics.latency_hint'', uni [0x15A] @ ''rednia odpowiedzianych przekazanych zapyta'' @ uni [0x144] @ ''; przerwy oznaczaj'' @ uni [0x105] @ '' brak ruchu.''),
     (''analytics.latency_aria'', uni [0x15A] @ ''redni czas odpowiedzi upstream na przedzia'' @ uni [0x142]),
     (''analytics.query_types'', ''Typy zapyta'' @ uni [0x144]),
     (''analytics.sources'', ''Odpowiedziane przez''),
     (''analytics.source_upstream'', ''Upstream''),
     (''analytics.source_cache'', ''Cache''),
     (''analytics.source_blocked'', ''Zablokowane''),
     (''analytics.source_local'', ''Strefy lokalne i przepisania''),
     (''analytics.source_refused'', ''Odrzucone''),
     (''analytics.response_codes'', ''Kody odpowiedzi''),
     (''analytics.top_blocked'', ''Najcz'' @ uni [0x119, 0x15B] @ ''ciej blokowane domeny''),
     (''analytics.nothing_blocked'', ''Nic nie zablokowano w tym zakresie''),
     (''analytics.upstreams'', ''U'' @ uni [0x17C] @ ''ycie upstream'' @ uni [0xF3] @ ''w''),
     (''analytics.upstreams_hint'', ''Przekazane zapytania na resolver, odpowiedzi SERVFAIL i '' @ uni [0x15B] @ ''redni czas.''),
     (''analytics.no_upstream'', ''Brak ruchu upstream w tym zakresie''),
     (''analytics.failures'', ''B'' @ uni [0x142, 0x119] @ ''dy''),
     (''updates.check_prompt'', ''Sprawd'' @ uni [0x17A] @ '', czy dost'' @ uni [0x119] @ ''pna jest nowsza wersja.''),
     (''updates.checking'', ''Sprawdzanie aktualizacji'' @ uni [0x2026]),
     (''updates.starting'', ''Uruchamianie aktualizacji'' @ uni [0x2026]),
     (''updates.updating_to'', ''Aktualizacja do''),
     (''updates.completed_to'', ''Zaktualizowano do''),
     (''updates.failed_title'', ''Aktualizacja nie zosta'' @ uni [0x142] @ ''a uko'' @ uni [0x144] @ ''czona''),
     (''updates.failed_text'', ''Aktualizacja nie powiod'' @ uni [0x142] @ ''a si'' @ uni [0x119] @ ''. Velora dzia'' @ uni [0x142] @ ''a na poprzedniej wersji.''),
     (''updates.not_started'', ''Aktualizator nie rozpocz'' @ uni [0x105, 0x142] @ '' aktualizacji. Sprawd'' @ uni [0x17A] @ '', czy dzia'' @ uni [0x142] @ ''a velora-updater.service.''),
     (''updates.check_again'', ''Sprawd'' @ uni [0x17A] @ '' ponownie''),
     (''updates.update_now'', ''Aktualizuj''),
     (''updates.reload'', ''Prze'' @ uni [0x142] @ ''aduj stron'' @ uni [0x119]),
     (''updates.reconnecting'', ''Velora uruchamia si'' @ uni [0x119] @ '' ponownie. Oczekiwanie'' @ uni [0x2026]),
     (''updates.keep_open'', ''Mo'' @ uni [0x17C] @ ''esz zostawi'' @ uni [0x107] @ '' t'' @ uni [0x119] @ '' stron'' @ uni [0x119] @ '' otwart'' @ uni [0x105] @ ''; od'' @ uni [0x15B] @ ''wie'' @ uni [0x17C] @ ''a si'' @ uni [0x119] @ '' sama. DNS odpowiada z bie'' @ uni [0x17C, 0x105] @ ''cej wersji do momentu prze'' @ uni [0x142, 0x105] @ ''czenia.''),
     (''updates.completed_text'', ''Aktualizacja zako'' @ uni [0x144] @ ''czona i sprawdzona. Prze'' @ uni [0x142] @ ''aduj stron'' @ uni [0x119] @ '', aby wczyta'' @ uni [0x107] @ '' nowy interfejs.''),
     (''updates.release_date'', ''Wydano''),
     (''settings.entry'', ''Pozycja''),
     (''settings.fix_fields'', ''Nic nie zmieniono. Popraw zaznaczone pola i spr'' @ uni [0xF3] @ ''buj ponownie.''),
     (''settings.restart_required'', ''Nic nie zmieniono. Zaznaczone pola wymagaj'' @ uni [0x105] @ '' restartu: edytuj plik konfiguracji i uruchom ponownie Velora DNS.''),
     (''settings.restart_field'', ''Wymaga restartu''),
     (''settings.check'', ''Sprawd'' @ uni [0x17A]),
     (''settings.check_ok'', ''Ustawienia s'' @ uni [0x105] @ '' poprawne i mo'' @ uni [0x17C] @ ''na je zastosowa'' @ uni [0x107] @ '' bez restartu.''),
     (''restore.title'', ''Przywr'' @ uni [0xF3, 0x107] @ '' kopi'' @ uni [0x119]),
     (''restore.hint'', ''Prze'' @ uni [0x15B] @ ''lij zaszyfrowan'' @ uni [0x105] @ '' kopi'' @ uni [0x119] @ '', aby j'' @ uni [0x105] @ '' najpierw sprawdzi'' @ uni [0x107] @ ''. Nic si'' @ uni [0x119] @ '' nie zmieni przed potwierdzeniem; Velora uruchomi si'' @ uni [0x119] @ '' ponownie, zachowa kopi'' @ uni [0x119] @ '' bezpiecze'' @ uni [0x144] @ ''stwa i wycofa zmiany, je'' @ uni [0x15B] @ ''li nie wystartuje.''),
     (''restore.file'', ''Plik kopii (.vdns)''),
     (''restore.inspect'', ''Sprawd'' @ uni [0x17A] @ '' kopi'' @ uni [0x119]),
     (''restore.inspecting'', ''Sprawdzanie'' @ uni [0x2026]),
     (''restore.inspect_failed'', ''Nie uda'' @ uni [0x142] @ ''o si'' @ uni [0x119] @ '' sprawdzi'' @ uni [0x107] @ '' kopii.''),
     (''restore.review_title'', ''Kopia jest poprawna''),
     (''restore.created'', ''Utworzono'')]\<close>

definition dict_pl_8 :: text_table where
  \<open>dict_pl_8 = [
     (''restore.version'', ''Wersja Velora''),
     (''restore.schema'', ''Schemat bazy''),
     (''restore.contents'', ''Zawarto'' @ uni [0x15B, 0x107]),
     (''restore.zones'', ''strefy''),
     (''restore.records'', ''rekordy''),
     (''restore.blocklists'', ''listy''),
     (''restore.rewrites'', ''przepisania''),
     (''restore.forward_rules'', ''regu'' @ uni [0x142] @ ''y przekazywania''),
     (''restore.clients'', ''klienci''),
     (''restore.users'', ''u'' @ uni [0x17C] @ ''ytkownicy''),
     (''restore.listeners'', ''Nas'' @ uni [0x142] @ ''uch''),
     (''restore.web'', ''WWW''),
     (''restore.confirm'', ''Zast'' @ uni [0x105] @ ''p bie'' @ uni [0x17C, 0x105] @ ''c'' @ uni [0x105] @ '' konfiguracj'' @ uni [0x119] @ '' i dane t'' @ uni [0x105] @ '' kopi'' @ uni [0x105] @ ''. Kopia bezpiecze'' @ uni [0x144] @ ''stwa bie'' @ uni [0x17C, 0x105] @ ''cego stanu zostanie zachowana.''),
     (''restore.restore'', ''Przywr'' @ uni [0xF3, 0x107] @ '' i uruchom ponownie''),
     (''restore.schedule_failed'', ''Nie uda'' @ uni [0x142] @ ''o si'' @ uni [0x119] @ '' rozpocz'' @ uni [0x105, 0x107] @ '' przywracania.''),
     (''restore.manual_restart'', ''Przywracanie zaplanowane. Uruchom ponownie Velora DNS, aby je zastosowa'' @ uni [0x107] @ ''.''),
     (''restore.restarting'', ''Velora uruchamia si'' @ uni [0x119] @ '' ponownie, aby zastosowa'' @ uni [0x107] @ '' kopi'' @ uni [0x119] @ ''. Strona od'' @ uni [0x15B] @ ''wie'' @ uni [0x17C] @ ''y si'' @ uni [0x119] @ '' po powrocie.''),
     (''restore.signed_out'', ''Velora dzia'' @ uni [0x142] @ ''a z przywr'' @ uni [0xF3] @ ''conymi danymi. Zaloguj si'' @ uni [0x119] @ '' kontem z kopii.''),
     (''restore.again'', ''Przywr'' @ uni [0xF3, 0x107] @ '' inn'' @ uni [0x105] @ '' kopi'' @ uni [0x119]),
     (''restore.backup_from'', ''Kopia z''),
     (''restore.safety_copy'', ''Poprzedni stan zachowano w''),
     (''restore.state_completed'', ''Przywracanie zako'' @ uni [0x144] @ ''czone.''),
     (''restore.state_rolled_back'', ''Przywracanie wycofane.''),
     (''restore.state_failed'', ''Przywracanie nie powiod'' @ uni [0x142] @ ''o si'' @ uni [0x119] @ ''.''),
     (''restore.state_applied'', ''Przywracanie zastosowane; oczekiwanie na gotowo'' @ uni [0x15B, 0x107] @ ''.''),
     (''restore.state_pending'', ''Przywracanie zaplanowane.''),
     (''restore.passphrase'', ''Has'' @ uni [0x142] @ ''o kopii''),
     (''app.scrollable_table'', ''przewijana w poziomie''),
     (''palette.title'', ''Paleta polece'' @ uni [0x144]),
     (''palette.placeholder'', ''Szukaj stron, stref, rekord'' @ uni [0xF3] @ ''w, klient'' @ uni [0xF3] @ ''w'' @ uni [0x2026]),
     (''palette.results'', ''Wyniki''),
     (''palette.pages'', ''Strony''),
     (''palette.actions'', ''Akcje''),
     (''palette.kind_zone'', ''Strefy''),
     (''palette.kind_record'', ''Rekordy''),
     (''palette.kind_client'', ''Klienci''),
     (''palette.kind_rewrite'', ''Przepisania DNS''),
     (''palette.kind_forwarding'', ''Przekazywanie warunkowe''),
     (''palette.kind_blocklist'', ''Listy blokowanych''),
     (''palette.no_results'', ''Brak wynik'' @ uni [0xF3] @ ''w.''),
     (''palette.navigate'', ''nawiguj''),
     (''palette.open'', ''otw'' @ uni [0xF3] @ ''rz''),
     (''palette.toggle'', ''otw'' @ uni [0xF3] @ ''rz lub zamknij''),
     (''palette.open_button'', ''Szukaj''),
     (''palette.add_client'', ''Dodaj klienta''),
     (''palette.create_backup'', ''Utw'' @ uni [0xF3] @ ''rz kopi'' @ uni [0x119]),
     (''cluster.action_failed'', ''Operacja klastra nie powiod'' @ uni [0x142] @ ''a si'' @ uni [0x119] @ ''.''),
     (''cluster.never'', ''nigdy''),
     (''cluster.role'', ''Rola''),
     (''cluster.role_standalone'', ''Samodzielny''),
     (''cluster.role_primary'', ''W'' @ uni [0x119] @ ''ze'' @ uni [0x142] @ '' g'' @ uni [0x142, 0xF3] @ ''wny klastra''),
     (''cluster.role_replica'', ''Replika klastra''),
     (''cluster.replicas'', ''Repliki''),
     (''cluster.in_sync_count'', ''zsynchronizowane''),
     (''cluster.revision'', ''Rewizja stref''),
     (''cluster.zones_replicated'', ''stref replikowanych''),
     (''cluster.last_sync'', ''Ostatnia synchronizacja''),
     (''cluster.sync_failed'', ''Ostatnia synchronizacja nieudana''),
     (''cluster.sync_ok'', ''Aktualne z w'' @ uni [0x119] @ ''z'' @ uni [0x142] @ ''em g'' @ uni [0x142, 0xF3] @ ''wnym''),
     (''cluster.members'', ''Repliki''),
     (''cluster.members_hint'', ''W'' @ uni [0x119] @ ''z'' @ uni [0x142] @ ''y kopiuj'' @ uni [0x105] @ ''ce strefy tego w'' @ uni [0x119] @ ''z'' @ uni [0x142] @ ''a g'' @ uni [0x142, 0xF3] @ ''wnego. Zg'' @ uni [0x142] @ ''aszaj'' @ uni [0x105] @ '' si'' @ uni [0x119] @ '' co 30 sekund.''),
     (''cluster.add_node'', ''Dodaj w'' @ uni [0x119] @ ''ze'' @ uni [0x142]),
     (''cluster.token_title'', ''Utworzono token do'' @ uni [0x142, 0x105] @ ''czenia''),
     (''cluster.token_steps'', ''Na nowym w'' @ uni [0x119, 0x17A] @ ''le otw'' @ uni [0xF3] @ ''rz Klaster '' @ uni [0x2192] @ '' Do'' @ uni [0x142, 0x105] @ ''cz do klastra i wpisz:''),
     (''cluster.token_expires'', ''Token wygasa o''),
     (''cluster.token_once'', ''Dzia'' @ uni [0x142] @ ''a jednorazowo i nie zostanie ponownie pokazany.''),
     (''cluster.copy_token'', ''Kopiuj token''),
     (''cluster.copied'', ''Skopiowano''),
     (''cluster.token_done'', ''Gotowe''),
     (''cluster.no_members'', ''Brak replik''),
     (''cluster.no_members_text'', ''Dodaj w'' @ uni [0x119] @ ''ze'' @ uni [0x142] @ '', aby utworzy'' @ uni [0x107] @ '' token do'' @ uni [0x142, 0x105] @ ''czenia dla drugiego serwera Velora DNS.''),
     (''cluster.status_in_sync'', ''Zsynchronizowany''),
     (''cluster.status_behind'', ''Nadrabia''),
     (''cluster.status_stale'', ''Nie odpowiada''),
     (''cluster.status_error'', ''B'' @ uni [0x142, 0x105] @ ''d synchronizacji''),
     (''cluster.status_never_synced'', ''Oczekuje na pierwsz'' @ uni [0x105] @ '' synchronizacj'' @ uni [0x119]),
     (''cluster.remove'', ''Usu'' @ uni [0x144] @ '' w'' @ uni [0x119] @ ''ze'' @ uni [0x142]),
     (''cluster.remove_confirm'', ''Usun'' @ uni [0x105, 0x107] @ '' t'' @ uni [0x119] @ '' replik'' @ uni [0x119] @ ''? Przestanie otrzymywa'' @ uni [0x107] @ '' aktualizacje stref:''),
     (''cluster.removed'', ''Replika usuni'' @ uni [0x119] @ ''ta.''),
     (''cluster.dissolve'', ''Rozwi'' @ uni [0x105, 0x17C] @ '' klaster''),
     (''cluster.dissolve_hint'', ''Uniewa'' @ uni [0x17C] @ ''nia wszystkie repliki i przywraca ten w'' @ uni [0x119] @ ''ze'' @ uni [0x142] @ '' jako samodzielny. Repliki zachowuj'' @ uni [0x105] @ '' ostatni'' @ uni [0x105] @ '' kopi'' @ uni [0x119] @ '' stref.''),
     (''cluster.dissolve_confirm'', ''Rozwi'' @ uni [0x105] @ ''za'' @ uni [0x107] @ '' klaster i uniewa'' @ uni [0x17C] @ ''ni'' @ uni [0x107] @ '' wszystkie repliki?''),
     (''cluster.dissolved'', ''Klaster zosta'' @ uni [0x142] @ '' rozwi'' @ uni [0x105] @ ''zany.''),
     (''cluster.replica_title'', ''Replikacja z w'' @ uni [0x119] @ ''z'' @ uni [0x142] @ ''a g'' @ uni [0x142, 0xF3] @ ''wnego''),
     (''cluster.replica_hint'', ''Strefy na tym w'' @ uni [0x119, 0x17A] @ ''le s'' @ uni [0x105] @ '' kopiowane z w'' @ uni [0x119] @ ''z'' @ uni [0x142] @ ''a g'' @ uni [0x142, 0xF3] @ ''wnego i s'' @ uni [0x105] @ '' tu tylko do odczytu. Pozosta'' @ uni [0x142] @ ''e ustawienia s'' @ uni [0x105] @ '' lokalne.''),
     (''cluster.replica_ok'', ''Replikacja dzia'' @ uni [0x142] @ ''a.''),
     (''cluster.sync_now'', ''Synchronizuj teraz''),
     (''cluster.leave'', ''Opu'' @ uni [0x15B, 0x107] @ '' klaster''),
     (''cluster.leave_confirm'', ''Opu'' @ uni [0x15B] @ ''ci'' @ uni [0x107] @ '' klaster? W'' @ uni [0x119] @ ''ze'' @ uni [0x142] @ '' zachowa strefy i zn'' @ uni [0xF3] @ ''w b'' @ uni [0x119] @ ''dzie edytowalny.''),
     (''cluster.left'', ''W'' @ uni [0x119] @ ''ze'' @ uni [0x142] @ '' opu'' @ uni [0x15B] @ ''ci'' @ uni [0x142] @ '' klaster.''),
     (''cluster.primary_url'', ''URL w'' @ uni [0x119] @ ''z'' @ uni [0x142] @ ''a g'' @ uni [0x142, 0xF3] @ ''wnego''),
     (''cluster.cluster_id'', ''ID klastra''),
     (''cluster.node_id'', ''ID w'' @ uni [0x119] @ ''z'' @ uni [0x142] @ ''a''),
     (''cluster.join_token'', ''Token do'' @ uni [0x142, 0x105] @ ''czenia''),
     (''cluster.standalone_title'', ''Ten w'' @ uni [0x119] @ ''ze'' @ uni [0x142] @ '' jest samodzielny''),
     (''cluster.standalone_viewer'', ''Administrator mo'' @ uni [0x17C] @ ''e utworzy'' @ uni [0x107] @ '' klaster lub do'' @ uni [0x142, 0x105] @ ''czy'' @ uni [0x107] @ '' do niego ten w'' @ uni [0x119] @ ''ze'' @ uni [0x142] @ ''.''),
     (''cluster.scope_note'', ''Klaster utrzymuje identyczne strefy lokalne na kilku serwerach Velora DNS: w'' @ uni [0x119] @ ''ze'' @ uni [0x142] @ '' g'' @ uni [0x142, 0xF3] @ ''wny przyjmuje zmiany, a repliki kopiuj'' @ uni [0x105] @ '' je co 30 sekund. Brak automatycznego prze'' @ uni [0x142, 0x105] @ ''czania; pozosta'' @ uni [0x142] @ ''e ustawienia s'' @ uni [0x105] @ '' per w'' @ uni [0x119] @ ''ze'' @ uni [0x142] @ ''.''),
     (''cluster.create_title'', ''Utw'' @ uni [0xF3] @ ''rz klaster''),
     (''cluster.create_hint'', ''Ten w'' @ uni [0x119] @ ''ze'' @ uni [0x142] @ '' stanie si'' @ uni [0x119] @ '' g'' @ uni [0x142, 0xF3] @ ''wny. Jego strefy zostan'' @ uni [0x105] @ '' skopiowane do replik.''),
     (''cluster.node_name'', ''Nazwa w'' @ uni [0x119] @ ''z'' @ uni [0x142] @ ''a''),
     (''cluster.advertised_url'', ''Adres u'' @ uni [0x17C] @ ''ywany przez inne w'' @ uni [0x119] @ ''z'' @ uni [0x142] @ ''y''),
     (''cluster.advertised_hint'', ''Adres URL interfejsu tego w'' @ uni [0x119] @ ''z'' @ uni [0x142] @ ''a widziany przez repliki.''),
     (''cluster.allow_http'', ''Zezw'' @ uni [0xF3] @ ''l na HTTP bez szyfrowania (tylko zaufana sie'' @ uni [0x107] @ '')''),
     (''cluster.skip_check'', ''Pomi'' @ uni [0x144] @ '' sprawdzanie dost'' @ uni [0x119] @ ''pno'' @ uni [0x15B] @ ''ci''),
     (''cluster.create'', ''Utw'' @ uni [0xF3] @ ''rz klaster''),
     (''cluster.created'', ''Klaster utworzony. Dodaj w'' @ uni [0x119] @ ''ze'' @ uni [0x142] @ '', aby zaprosi'' @ uni [0x107] @ '' replik'' @ uni [0x119] @ ''.''),
     (''cluster.join_title'', ''Do'' @ uni [0x142, 0x105] @ ''cz do klastra''),
     (''cluster.join_hint'', ''Uczy'' @ uni [0x144] @ '' ten w'' @ uni [0x119] @ ''ze'' @ uni [0x142] @ '' replik'' @ uni [0x105] @ '' w'' @ uni [0x119] @ ''z'' @ uni [0x142] @ ''a g'' @ uni [0x142, 0xF3] @ ''wnego. Najpierw utw'' @ uni [0xF3] @ ''rz token na w'' @ uni [0x119, 0x17A] @ ''le g'' @ uni [0x142, 0xF3] @ ''wnym.''),
     (''cluster.join_warning'', ''Do'' @ uni [0x142, 0x105] @ ''czenie zast'' @ uni [0x105] @ ''pi strefy lokalne tego w'' @ uni [0x119] @ ''z'' @ uni [0x142] @ ''a strefami w'' @ uni [0x119] @ ''z'' @ uni [0x142] @ ''a g'' @ uni [0x142, 0xF3] @ ''wnego. Inne ustawienia si'' @ uni [0x119] @ '' nie zmieni'' @ uni [0x105] @ ''.''),
     (''cluster.join_confirm'', ''Do'' @ uni [0x142, 0x105] @ ''czy'' @ uni [0x107] @ '' do klastra i zast'' @ uni [0x105] @ ''pi'' @ uni [0x107] @ '' strefy tego w'' @ uni [0x119] @ ''z'' @ uni [0x142] @ ''a strefami w'' @ uni [0x119] @ ''z'' @ uni [0x142] @ ''a g'' @ uni [0x142, 0xF3] @ ''wnego?''),
     (''cluster.join'', ''Do'' @ uni [0x142, 0x105] @ ''cz do klastra''),
     (''cluster.joined'', ''W'' @ uni [0x119] @ ''ze'' @ uni [0x142] @ '' do'' @ uni [0x142, 0x105] @ ''czy'' @ uni [0x142] @ '' do klastra i kopiuje strefy w'' @ uni [0x119] @ ''z'' @ uni [0x142] @ ''a g'' @ uni [0x142, 0xF3] @ ''wnego.''),
     (''cluster.zones_read_only'', ''Ten w'' @ uni [0x119] @ ''ze'' @ uni [0x142] @ '' jest replik'' @ uni [0x105] @ '' klastra. Strefy s'' @ uni [0x105] @ '' kopiowane z w'' @ uni [0x119] @ ''z'' @ uni [0x142] @ ''a g'' @ uni [0x142, 0xF3] @ ''wnego i mo'' @ uni [0x17C] @ ''na je zmienia'' @ uni [0x107] @ '' tylko tam.'')]\<close>

definition dict_pl :: text_table where
  "dict_pl = dict_pl_1 @ dict_pl_2 @ dict_pl_3 @ dict_pl_4 @ dict_pl_5 @ dict_pl_6 @ dict_pl_7 @ dict_pl_8"

lemma pl_titles: "distinct (map snd (with_prefix ''app.title.'' dict_pl))"
  by (simp only: dict_pl_def dict_pl_1_def dict_pl_2_def dict_pl_3_def dict_pl_4_def dict_pl_5_def dict_pl_6_def dict_pl_7_def dict_pl_8_def group_eval) (simp add: uni_def unit_text_def)

lemma pl_labels: "distinct (map snd (with_prefix ''app.nav.'' dict_pl))"
  by (simp only: dict_pl_def dict_pl_1_def dict_pl_2_def dict_pl_3_def dict_pl_4_def dict_pl_5_def dict_pl_6_def dict_pl_7_def dict_pl_8_def group_eval) (simp add: uni_def unit_text_def)

end
