(* ===== verification/Texts_Cs.thy ===== *)
theory Texts_Cs
  imports Texts
begin

text \<open>The Czech table, \<open>i18n/cs.ts\<close>.\<close>

definition dict_cs_1 :: text_table where
  \<open>dict_cs_1 = [
     (''app.skip_to_content'', ''P'' @ uni [0x159] @ ''esko'' @ uni [0x10D] @ ''it na obsah''),
     (''app.workspace_label'', ''PRACOVN'' @ uni [0xCD] @ '' PROSTOR''),
     (''app.nav.events'', ''Ud'' @ uni [0xE1] @ ''losti''),
     (''app.title.events'', ''Ud'' @ uni [0xE1] @ ''losti''),
     (''events.unread'', ''nep'' @ uni [0x159] @ ''e'' @ uni [0x10D] @ ''ten'' @ uni [0xE9]),
     (''events.empty'', ''Zat'' @ uni [0xED] @ ''m '' @ uni [0x17E, 0xE1] @ ''dn'' @ uni [0xE9] @ '' syst'' @ uni [0xE9] @ ''mov'' @ uni [0xE9] @ '' ud'' @ uni [0xE1] @ ''losti.''),
     (''events.load_failed'', ''Nepoda'' @ uni [0x159] @ ''ilo se na'' @ uni [0x10D, 0xED] @ ''st ud'' @ uni [0xE1] @ ''losti''),
     (''events.mark_read'', ''Ozna'' @ uni [0x10D] @ ''it jako p'' @ uni [0x159] @ ''e'' @ uni [0x10D] @ ''ten'' @ uni [0xE9]),
     (''events.repeated'', ''Opakov'' @ uni [0xE1] @ ''no''),
     (''events.open'', ''Otev'' @ uni [0x159, 0xED] @ ''t''),
     (''events.info'', ''Info''),
     (''events.warning'', ''Varov'' @ uni [0xE1] @ ''n'' @ uni [0xED]),
     (''events.critical'', ''Kritick'' @ uni [0xE9]),
     (''app.nav.main'', ''Hlavn'' @ uni [0xED] @ '' navigace''),
     (''app.nav.overview'', ''P'' @ uni [0x159] @ ''ehled''),
     (''app.nav.zones'', ''M'' @ uni [0xED] @ ''stn'' @ uni [0xED] @ '' z'' @ uni [0xF3] @ ''ny''),
     (''app.nav.queries'', ''Protokol dotaz'' @ uni [0x16F]),
     (''app.nav.blocklists'', ''Blokovac'' @ uni [0xED] @ '' seznamy''),
     (''app.nav.cache'', ''DNS cache''),
     (''app.nav.settings'', ''Nastaven'' @ uni [0xED]),
     (''app.nav.updates'', ''Aktualizace''),
     (''app.nav.backup'', ''Z'' @ uni [0xE1] @ ''loha''),
     (''app.sign_out'', ''Odhl'' @ uni [0xE1] @ ''sit se''),
     (''app.nav.audit'', ''Protokol auditu''),
     (''app.title.audit'', ''Protokol auditu''),
     (''app.nav.diagnostics'', ''Diagnostika''),
     (''app.title.diagnostics'', ''Diagnostika''),
     (''app.local_resolver'', ''M'' @ uni [0xED] @ ''stn'' @ uni [0xED] @ '' resolver''),
     (''app.self_hosted_foundation'', ''Vlastn'' @ uni [0xED] @ '' hosting '' @ uni [0xB7] @ '' Z'' @ uni [0xE1] @ ''klad''),
     (''app.private_by_default'', ''V'' @ uni [0xFD] @ ''choz'' @ uni [0xED] @ '' soukrom'' @ uni [0xED]),
     (''app.privacy.query_retention'', ''Historie dotaz'' @ uni [0x16F] @ '' m'' @ uni [0xE1] @ '' omezenou dobu uchov'' @ uni [0xE1] @ ''v'' @ uni [0xE1] @ ''n'' @ uni [0xED] @ ''.''),
     (''app.privacy.no_query_history'', ''Historie dotaz'' @ uni [0x16F] @ '' se neshroma'' @ uni [0x17E, 0x10F] @ ''uje.''),
     (''app.github_repo'', ''GitHub repozit'' @ uni [0xE1, 0x159]),
     (''app.connecting'', ''P'' @ uni [0x159] @ ''ipojov'' @ uni [0xE1] @ ''n'' @ uni [0xED, 0x2026]),
     (''app.workspace'', ''Pracovn'' @ uni [0xED] @ '' prostor''),
     (''app.connection_lost'', ''Spojen'' @ uni [0xED] @ '' ztraceno''),
     (''app.resolver_online'', ''Resolver online''),
     (''app.title.overview'', ''P'' @ uni [0x159] @ ''ehled s'' @ uni [0xED] @ ''t'' @ uni [0x11B]),
     (''app.title.zones'', ''M'' @ uni [0xED] @ ''stn'' @ uni [0xED] @ '' z'' @ uni [0xF3] @ ''ny''),
     (''app.title.queries'', ''Protokol dotaz'' @ uni [0x16F]),
     (''app.title.blocklists'', ''Blokovac'' @ uni [0xED] @ '' seznamy''),
     (''app.title.cache'', ''DNS cache''),
     (''app.title.settings'', ''Nastaven'' @ uni [0xED]),
     (''app.title.updates'', ''Aktualizace''),
     (''app.title.backup'', ''Z'' @ uni [0xE1] @ ''loha a obnoven'' @ uni [0xED]),
     (''app.eyebrow'', ''VA'' @ uni [0x160] @ ''E S'' @ uni [0xCD, 0x164] @ '' NA PRVN'' @ uni [0xCD] @ '' POHLED''),
     (''app.subtitle.overview'', ''P'' @ uni [0x159] @ ''ehledn'' @ uni [0xFD] @ '' pohled na va'' @ uni [0x161] @ ''e DNS, od po'' @ uni [0x17E] @ ''adavku po odpov'' @ uni [0x11B, 0x10F] @ ''.''),
     (''app.subtitle.default'', ''Prozkoumejte a spravujte sv'' @ uni [0x16F] @ ''j resolver.''),
     (''app.refresh'', ''Obnovit''),
     (''app.error.showing_last'', ''Zobrazuji posledn'' @ uni [0xED] @ '' '' @ uni [0xFA] @ ''sp'' @ uni [0x11B, 0x161] @ ''n'' @ uni [0xFD] @ '' sn'' @ uni [0xED] @ ''mek z''),
     (''app.error.check_server'', ''Zkontrolujte, zda b'' @ uni [0x11B, 0x17E, 0xED] @ '' server Velora.''),
     (''app.error.reach_server'', ''Nelze se p'' @ uni [0x159] @ ''ipojit k serveru''),
     (''app.viewer_readonly'', ''Jste p'' @ uni [0x159] @ ''ihl'' @ uni [0xE1, 0x161] @ ''eni jako prohl'' @ uni [0xED, 0x17E] @ ''e'' @ uni [0x10D] @ ''. Akce spr'' @ uni [0xE1] @ ''vy jsou pouze pro '' @ uni [0x10D] @ ''ten'' @ uni [0xED] @ ''.''),
     (''app.connecting_panel'', ''P'' @ uni [0x159] @ ''ipojov'' @ uni [0xE1] @ ''n'' @ uni [0xED] @ '' k resolveru'' @ uni [0x2026]),
     (''app.not_found'', ''Str'' @ uni [0xE1] @ ''nka nenalezena.''),
     (''app.footer.independent'', ''Velora DNS '' @ uni [0xB7] @ '' Nez'' @ uni [0xE1] @ ''visl'' @ uni [0xFD] @ ''. Vlastn'' @ uni [0xED] @ '' hosting.''),
     (''app.footer.last_updated'', ''Posledn'' @ uni [0xED] @ '' aktualizace''),
     (''app.footer.waiting'', uni [0x10C] @ ''ek'' @ uni [0xE1] @ ''n'' @ uni [0xED] @ '' na server''),
     (''diagnostics.title'', ''Stav syst'' @ uni [0xE9] @ ''mu''),
     (''diagnostics.report_hint'', ''Sta'' @ uni [0x17E] @ ''en'' @ uni [0xFD] @ '' p'' @ uni [0x159] @ ''ehled obsahuje stav komponent a informace o sestaven'' @ uni [0xED] @ '', bez tajn'' @ uni [0xFD] @ ''ch '' @ uni [0xFA] @ ''daj'' @ uni [0x16F] @ '' a protokol'' @ uni [0x16F] @ '' dotaz'' @ uni [0x16F] @ ''.''),
     (''diagnostics.download'', ''St'' @ uni [0xE1] @ ''hnout p'' @ uni [0x159] @ ''ehled''),
     (''diagnostics.loading'', ''Na'' @ uni [0x10D, 0xED] @ ''t'' @ uni [0xE1] @ ''n'' @ uni [0xED] @ '' diagnostiky'' @ uni [0x2026]),
     (''diagnostics.load_failed'', ''Diagnostiku nelze na'' @ uni [0x10D, 0xED] @ ''st''),
     (''diagnostics.upstreams'', ''Nad'' @ uni [0x159] @ ''azen'' @ uni [0xE9] @ '' servery''),
     (''diagnostics.component'', ''Komponenta''),
     (''diagnostics.state'', ''Stav''),
     (''diagnostics.detail'', ''Podrobnosti''),
     (''diagnostics.state.healthy'', ''V po'' @ uni [0x159, 0xE1] @ ''dku''),
     (''diagnostics.state.degraded'', ''Omezen'' @ uni [0xFD]),
     (''diagnostics.state.failed'', ''Selhal''),
     (''explain.title'', ''Pro'' @ uni [0x10D] @ '' p'' @ uni [0x159] @ ''i'' @ uni [0x161] @ ''la tato odpov'' @ uni [0x11B, 0x10F] @ ''?''),
     (''explain.hint'', ''Zku'' @ uni [0x161] @ ''ebn'' @ uni [0xED] @ '' pr'' @ uni [0x16F] @ ''chod resolveru pro jeden n'' @ uni [0xE1] @ ''zev. Nic se nedotazuje na upstream, neloguje, neukl'' @ uni [0xE1] @ ''d'' @ uni [0xE1] @ '' do mezipam'' @ uni [0x11B] @ ''ti ani nepo'' @ uni [0x10D, 0xED] @ ''t'' @ uni [0xE1] @ ''.''),
     (''explain.name'', ''N'' @ uni [0xE1] @ ''zev''),
     (''explain.type'', ''Typ z'' @ uni [0xE1] @ ''znamu''),
     (''explain.client'', ''Adresa klienta (voliteln'' @ uni [0xE9] @ '')''),
     (''explain.client_hint'', ''Pou'' @ uni [0x17E] @ ''ije filtra'' @ uni [0x10D] @ ''n'' @ uni [0xED] @ '' politiku tohoto klienta.''),
     (''explain.submit'', ''Vysv'' @ uni [0x11B] @ ''tlit''),
     (''explain.running'', ''Vysv'' @ uni [0x11B] @ ''tluji'' @ uni [0x2026]),
     (''explain.failed'', ''Tento dotaz se nepoda'' @ uni [0x159] @ ''ilo vysv'' @ uni [0x11B] @ ''tlit''),
     (''explain.result'', ''Vysv'' @ uni [0x11B] @ ''tlen'' @ uni [0xED]),
     (''explain.winner'', ''Rozhoduj'' @ uni [0xED] @ ''c'' @ uni [0xED] @ '' f'' @ uni [0xE1] @ ''ze''),
     (''explain.answers'', ''Odpov'' @ uni [0x11B, 0x10F]),
     (''explain.no_answers'', uni [0x17D, 0xE1] @ ''dn'' @ uni [0xE9] @ '' z'' @ uni [0xE1] @ ''znamy odpov'' @ uni [0x11B] @ ''di: odpov'' @ uni [0x11B, 0x10F] @ '' by p'' @ uni [0x159] @ ''i'' @ uni [0x161] @ ''la z upstream resolveru, na kter'' @ uni [0xFD] @ '' se nedotazuje.''),
     (''explain.steps'', ''Zva'' @ uni [0x17E] @ ''ovan'' @ uni [0xE9] @ '' f'' @ uni [0xE1] @ ''ze''),
     (''explain.step'', ''F'' @ uni [0xE1] @ ''ze''),
     (''explain.outcome'', ''V'' @ uni [0xFD] @ ''sledek''),
     (''explain.detail'', ''Podrobnosti''),
     (''explain.cname_target'', ''C'' @ uni [0xED] @ ''l CNAME''),
     (''explain.ttl'', ''Zb'' @ uni [0xFD] @ ''vaj'' @ uni [0xED] @ ''c'' @ uni [0xED] @ '' TTL''),
     (''explain.matches'', ''Shoda''),
     (''explain.allowed_by'', ''Povoleno pravidlem''),
     (''explain.not_contacted'', uni [0x17D, 0xE1] @ ''dn'' @ uni [0xFD] @ '' upstream nebyl dot'' @ uni [0xE1] @ ''z'' @ uni [0xE1] @ ''n.''),
     (''explain.scope.global'', ''Glob'' @ uni [0xE1] @ ''ln'' @ uni [0xED] @ '' filtrov'' @ uni [0xE1] @ ''n'' @ uni [0xED]),
     (''explain.scope.client_policy'', ''Politika klienta''),
     (''explain.stage.filter'', ''Blocklist nebo politika klienta''),
     (''explain.stage.rewrite'', ''P'' @ uni [0x159] @ ''epis DNS''),
     (''explain.stage.zone'', ''Lok'' @ uni [0xE1] @ ''ln'' @ uni [0xED] @ '' z'' @ uni [0xF3] @ ''na''),
     (''explain.stage.cache'', ''Mezipam'' @ uni [0x11B, 0x165]),
     (''explain.stage.forwarding'', ''Pravidlo podm'' @ uni [0xED] @ ''n'' @ uni [0x11B] @ ''n'' @ uni [0xE9] @ ''ho p'' @ uni [0x159] @ ''ed'' @ uni [0xE1] @ ''v'' @ uni [0xE1] @ ''n'' @ uni [0xED]),
     (''explain.stage.upstream'', ''Glob'' @ uni [0xE1] @ ''ln'' @ uni [0xED] @ '' upstream resolvery''),
     (''explain.stage.refused'', ''Odm'' @ uni [0xED] @ ''tnuto''),
     (''explain.result.passed'', ''Propu'' @ uni [0x161] @ ''t'' @ uni [0x11B] @ ''no''),
     (''explain.result.allowed'', ''Povoleno''),
     (''explain.result.blocked'', ''Blokov'' @ uni [0xE1] @ ''no''),
     (''explain.result.no_match'', ''Bez shody''),
     (''explain.result.answered'', ''Zodpov'' @ uni [0x11B] @ ''zeno''),
     (''explain.result.miss'', ''Minut'' @ uni [0xED]),
     (''explain.result.hit'', ''Z'' @ uni [0xE1] @ ''sah''),
     (''explain.result.refused'', ''Odm'' @ uni [0xED] @ ''tnuto''),
     (''explain.result.would_forward'', ''Bylo by p'' @ uni [0x159] @ ''ed'' @ uni [0xE1] @ ''no''),
     (''explain.result.error'', ''Chyba''),
     (''explain.source.local'', ''Lok'' @ uni [0xE1] @ ''ln'' @ uni [0xED] @ '' odpov'' @ uni [0x11B, 0x10F]),
     (''explain.source.cache'', ''Mezipam'' @ uni [0x11B, 0x165]),
     (''explain.source.blocked'', ''Blokov'' @ uni [0xE1] @ ''no''),
     (''explain.source.upstream'', ''Upstream''),
     (''explain.source.refused'', ''Odm'' @ uni [0xED] @ ''tnuto''),
     (''audit.title'', ''Protokol spr'' @ uni [0xE1] @ ''vy''),
     (''audit.hint'', ''Spr'' @ uni [0xE1] @ ''vcovsk'' @ uni [0xE9] @ '' akce se uchov'' @ uni [0xE1] @ ''vaj'' @ uni [0xED] @ '' 90 dn'' @ uni [0xED] @ ''. Tajn'' @ uni [0xE9] @ '' '' @ uni [0xFA] @ ''daje a obsah po'' @ uni [0x17E] @ ''adavk'' @ uni [0x16F] @ '' jsou vylou'' @ uni [0x10D] @ ''eny.''),
     (''audit.actor'', ''U'' @ uni [0x17E] @ ''ivatel'')]\<close>

definition dict_cs_2 :: text_table where
  \<open>dict_cs_2 = [
     (''audit.action'', ''Akce''),
     (''audit.result'', ''V'' @ uni [0xFD] @ ''sledek''),
     (''audit.all'', ''V'' @ uni [0x161] @ ''e''),
     (''audit.success'', uni [0xDA] @ ''sp'' @ uni [0x11B] @ ''ch''),
     (''audit.failure'', ''Selh'' @ uni [0xE1] @ ''n'' @ uni [0xED]),
     (''audit.filter'', ''Filtrovat''),
     (''audit.time'', uni [0x10C] @ ''as''),
     (''audit.target'', ''C'' @ uni [0xED] @ ''l''),
     (''audit.empty'', ''Nebyly nalezeny '' @ uni [0x17E, 0xE1] @ ''dn'' @ uni [0xE9] @ '' ud'' @ uni [0xE1] @ ''losti auditu.''),
     (''audit.more'', ''Na'' @ uni [0x10D, 0xED] @ ''st dal'' @ uni [0x161, 0xED]),
     (''audit.load_failed'', ''Ud'' @ uni [0xE1] @ ''losti auditu nelze na'' @ uni [0x10D, 0xED] @ ''st''),
     (''auth.checking'', ''Kontrola relace'' @ uni [0x2026]),
     (''auth.sign_in_title'', ''P'' @ uni [0x159] @ ''ihlaste se k Velora DNS''),
     (''auth.username'', ''U'' @ uni [0x17E] @ ''ivatelsk'' @ uni [0xE9] @ '' jm'' @ uni [0xE9] @ ''no''),
     (''auth.password'', ''Heslo''),
     (''auth.sign_in'', ''P'' @ uni [0x159] @ ''ihl'' @ uni [0xE1] @ ''sit se''),
     (''auth.sign_in_failed'', ''P'' @ uni [0x159] @ ''ihl'' @ uni [0xE1, 0x161] @ ''en'' @ uni [0xED] @ '' se nezda'' @ uni [0x159] @ ''ilo''),
     (''settings.server_configuration'', ''Konfigurace serveru''),
     (''settings.language'', ''Jazyk''),
     (''settings.theme'', ''Motiv''),
     (''settings.theme_light'', ''Sv'' @ uni [0x11B] @ ''tl'' @ uni [0xFD]),
     (''settings.theme_dark'', ''Tmav'' @ uni [0xFD]),
     (''settings.theme_auto'', ''Auto''),
     (''settings.theme_hint'', ''Automaticky sleduje sv'' @ uni [0x11B] @ ''tl'' @ uni [0xFD] @ '' nebo tmav'' @ uni [0xFD] @ '' re'' @ uni [0x17E] @ ''im va'' @ uni [0x161] @ ''eho opera'' @ uni [0x10D] @ ''n'' @ uni [0xED] @ ''ho syst'' @ uni [0xE9] @ ''mu.''),
     (''settings.log_level'', uni [0xDA] @ ''rove'' @ uni [0x148] @ '' logov'' @ uni [0xE1] @ ''n'' @ uni [0xED]),
     (''settings.rate_limiting'', ''Omezen'' @ uni [0xED] @ '' rychlosti''),
     (''settings.rate_limit_hint'', ''Omezen'' @ uni [0xED] @ '' rychlosti je ve v'' @ uni [0xFD] @ ''choz'' @ uni [0xED] @ ''m nastaven'' @ uni [0xED] @ '' vypnut'' @ uni [0xE9] @ ''. Zapn'' @ uni [0x11B] @ ''te ho pro ochranu resolveru p'' @ uni [0x159] @ ''ed z'' @ uni [0xE1] @ ''plavou po'' @ uni [0x17E] @ ''adavk'' @ uni [0x16F] @ '' a vysok'' @ uni [0xFD] @ ''mi frekvencemi dotaz'' @ uni [0x16F] @ ''.''),
     (''settings.rate_limit_enabled'', ''Zapnout omezen'' @ uni [0xED] @ '' rychlosti''),
     (''settings.rate_limit_global_qps'', ''Glob'' @ uni [0xE1] @ ''ln'' @ uni [0xED] @ '' dotazy za sekundu''),
     (''settings.rate_limit_client_qps'', ''Dotazy za sekundu na klienta''),
     (''settings.rate_limit_burst'', ''Povolen'' @ uni [0xFD] @ '' n'' @ uni [0xE1] @ ''r'' @ uni [0x16F] @ ''st''),
     (''settings.rate_limit_rejected_total'', ''Odm'' @ uni [0xED] @ ''tnut'' @ uni [0xE9] @ '' dotazy''),
     (''settings.rate_limit_last_rejected'', ''Posledn'' @ uni [0xED] @ '' odm'' @ uni [0xED] @ ''tnut'' @ uni [0xED]),
     (''settings.save'', ''Ulo'' @ uni [0x17E] @ ''it''),
     (''settings.rate_limit_load_failed'', ''Nelze na'' @ uni [0x10D, 0xED] @ ''st nastaven'' @ uni [0xED] @ '' omezen'' @ uni [0xED] @ '' rychlosti''),
     (''settings.rate_limit_save_failed'', ''Nelze ulo'' @ uni [0x17E] @ ''it nastaven'' @ uni [0xED] @ '' omezen'' @ uni [0xED] @ '' rychlosti''),
     (''settings.rate_limit_saved'', ''Nastaven'' @ uni [0xED] @ '' omezen'' @ uni [0xED] @ '' rychlosti ulo'' @ uni [0x17E] @ ''eno.''),
     (''settings.rate_limit_loading'', ''Na'' @ uni [0x10D, 0xED] @ ''t'' @ uni [0xE1] @ ''n'' @ uni [0xED] @ '' nastaven'' @ uni [0xED] @ '' omezen'' @ uni [0xED] @ '' rychlosti'' @ uni [0x2026]),
     (''settings.edit_hint'', ''Tato nastaven'' @ uni [0xED] @ '' odpov'' @ uni [0xED] @ ''daj'' @ uni [0xED] @ '' mo'' @ uni [0x17E] @ ''nostem rychl'' @ uni [0xE9] @ '' instalace. N'' @ uni [0x11B] @ ''kter'' @ uni [0xE9] @ '' zm'' @ uni [0x11B] @ ''ny vy'' @ uni [0x17E] @ ''aduj'' @ uni [0xED] @ '' restart; zm'' @ uni [0x11B] @ ''ny TTL cache se projev'' @ uni [0xED] @ '' okam'' @ uni [0x17E] @ ''it'' @ uni [0x11B] @ ''.''),
     (''settings.dns_section'', ''Nastaven'' @ uni [0xED] @ '' DNS''),
     (''settings.cache_section'', ''DNS cache''),
     (''settings.cache_ttl_label'', ''TTL cache nad'' @ uni [0x159] @ ''azen'' @ uni [0xFD] @ ''ch odpov'' @ uni [0x11B] @ ''d'' @ uni [0xED] @ '' (sekundy)''),
     (''settings.cache_ttl_hint'', ''86400 sekund = 24 hodiny. Rozsah: 0'' @ uni [0x2013] @ ''604800 sekund; 0 pou'' @ uni [0x17E] @ ''ije p'' @ uni [0x16F] @ ''vodn'' @ uni [0xED] @ '' TTL nad'' @ uni [0x159] @ ''azen'' @ uni [0xE9] @ ''ho serveru. Zm'' @ uni [0x11B] @ ''ny nad'' @ uni [0x159] @ ''azen'' @ uni [0xFD] @ ''ch server'' @ uni [0x16F] @ '' se mohou projevit a'' @ uni [0x17E] @ '' po uplynut'' @ uni [0xED] @ '' t'' @ uni [0xE9] @ ''to doby. Zm'' @ uni [0x11B] @ ''na vyma'' @ uni [0x17E] @ ''e existuj'' @ uni [0xED] @ ''c'' @ uni [0xED] @ '' odpov'' @ uni [0x11B] @ ''di v cache. Odpov'' @ uni [0x11B] @ ''di s nulov'' @ uni [0xFD] @ ''m TTL a podepsan'' @ uni [0xE9] @ '' DNSSEC si zachovaj'' @ uni [0xED] @ '' p'' @ uni [0x16F] @ ''vodn'' @ uni [0xED] @ '' TTL.''),
     (''settings.cache_ttl_invalid'', ''Zadejte cel'' @ uni [0xE9] @ '' '' @ uni [0x10D, 0xED] @ ''slo od 0 do 604800 sekund.''),
     (''settings.dns_listen_label'', ''DNS adresy naslouch'' @ uni [0xE1] @ ''n'' @ uni [0xED] @ '' (odd'' @ uni [0x11B] @ ''len'' @ uni [0xE9] @ '' '' @ uni [0x10D, 0xE1] @ ''rkou)''),
     (''settings.dns_listen_warning'', ''Upozorn'' @ uni [0x11B] @ ''n'' @ uni [0xED] @ '': 0.0.0.0 vystavuje DNS va'' @ uni [0x161, 0xED] @ '' s'' @ uni [0xED] @ ''ti. Ujist'' @ uni [0x11B] @ ''te se, '' @ uni [0x17E] @ ''e firewall povoluje pouze d'' @ uni [0x16F] @ ''v'' @ uni [0x11B] @ ''ryhodn'' @ uni [0xE9] @ '' klienty.''),
     (''settings.upstreams_label'', ''Nad'' @ uni [0x159] @ ''azen'' @ uni [0xE9] @ '' DNS servery (odd'' @ uni [0x11B] @ ''len'' @ uni [0xE9] @ '' '' @ uni [0x10D, 0xE1] @ ''rkou)''),
     (''settings.upstreams_hint'', ''Form'' @ uni [0xE1] @ ''t: IP:PORT (nap'' @ uni [0x159] @ ''. 1.1.1.1:53). DoH upstreamy pou'' @ uni [0x17E, 0xED] @ ''vaj'' @ uni [0xED] @ '' https://host/dns-query''),
     (''settings.allowed_clients_label'', ''Povolen'' @ uni [0xE9] @ '' klientsk'' @ uni [0xE9] @ '' s'' @ uni [0xED] @ ''t'' @ uni [0x11B] @ '' (CIDR odd'' @ uni [0x11B] @ ''len'' @ uni [0xE9] @ '' '' @ uni [0x10D, 0xE1] @ ''rkou)''),
     (''settings.allowed_clients_hint'', ''Pouze tyto s'' @ uni [0xED] @ ''t'' @ uni [0x11B] @ '' mohou resolveru pos'' @ uni [0xED] @ ''lat dotazy. P'' @ uni [0x159, 0xED] @ ''klad: 192.168.1.0/24, 10.0.0.0/8''),
     (''settings.web_section'', ''Nastaven'' @ uni [0xED] @ '' webov'' @ uni [0xE9] @ ''ho rozhran'' @ uni [0xED]),
     (''settings.web_listen_label'', ''Adresa webov'' @ uni [0xE9] @ ''ho rozhran'' @ uni [0xED] @ '' (IP:port)''),
     (''settings.web_listen_warning'', ''Upozorn'' @ uni [0x11B] @ ''n'' @ uni [0xED] @ '': 0.0.0.0 vystavuje webov'' @ uni [0xE9] @ '' rozhran'' @ uni [0xED] @ '' va'' @ uni [0x161, 0xED] @ '' s'' @ uni [0xED] @ ''ti. Pou'' @ uni [0x17E] @ ''ijte firewall nebo ov'' @ uni [0x11B, 0x159] @ ''en'' @ uni [0xED] @ ''.''),
     (''settings.allowed_hosts_label'', ''Povolen'' @ uni [0xED] @ '' hostitel'' @ uni [0xE9] @ '' (odd'' @ uni [0x11B] @ ''len'' @ uni [0xED] @ '' '' @ uni [0x10D, 0xE1] @ ''rkou)''),
     (''settings.allowed_hosts_hint'', ''Povolen'' @ uni [0xE9] @ '' host hlavi'' @ uni [0x10D] @ ''ky pro p'' @ uni [0x159, 0xED] @ ''stup ke spr'' @ uni [0xE1] @ ''v'' @ uni [0x11B] @ '' API. Pou'' @ uni [0x17E] @ ''ijte * pro povolen'' @ uni [0xED] @ '' v'' @ uni [0x161] @ ''ech (nedoporu'' @ uni [0x10D] @ ''uje se v LAN).''),
     (''settings.logging_section'', ''Logov'' @ uni [0xE1] @ ''n'' @ uni [0xED] @ '' a dal'' @ uni [0x161, 0xED]),
     (''settings.enable_query_log'', ''Zapnout logov'' @ uni [0xE1] @ ''n'' @ uni [0xED] @ '' dotaz'' @ uni [0x16F]),
     (''settings.save_configuration'', ''Ulo'' @ uni [0x17E] @ ''it konfiguraci''),
     (''settings.saving'', ''Ukl'' @ uni [0xE1] @ ''d'' @ uni [0xE1] @ ''n'' @ uni [0xED, 0x2026]),
     (''settings.save_success'', ''Konfigurace ulo'' @ uni [0x17E] @ ''ena a pou'' @ uni [0x17E] @ ''ita.''),
     (''settings.save_failed'', ''Nepoda'' @ uni [0x159] @ ''ilo se ulo'' @ uni [0x17E] @ ''it konfiguraci''),
     (''dashboard.total_queries'', ''Celkov'' @ uni [0xFD] @ '' po'' @ uni [0x10D] @ ''et dotaz'' @ uni [0x16F]),
     (''dashboard.since_start'', ''Od posledn'' @ uni [0xED] @ ''ho vynulov'' @ uni [0xE1] @ ''n'' @ uni [0xED] @ '' statistik''),
     (''dashboard.reset_statistics'', ''Vynulovat statistiky''),
     (''dashboard.reset_confirm'', ''Vynulovat po'' @ uni [0x10D, 0xED] @ ''tadla dotaz'' @ uni [0x16F] @ '', mezipam'' @ uni [0x11B] @ ''ti a omezen'' @ uni [0xED] @ '' rychlosti? Tuto akci nelze vr'' @ uni [0xE1] @ ''tit zp'' @ uni [0x11B] @ ''t.''),
     (''dashboard.reset_failed'', ''Statistiky se nepoda'' @ uni [0x159] @ ''ilo vynulovat''),
     (''dashboard.qps'', ''Dotazy / sekundu''),
     (''dashboard.rolling_avg'', ''Klouzav'' @ uni [0xFD] @ '' pr'' @ uni [0x16F] @ ''m'' @ uni [0x11B] @ ''r za 60 sekund''),
     (''dashboard.cache_hit_rate'', ''M'' @ uni [0xED] @ ''ra z'' @ uni [0xE1] @ ''sah'' @ uni [0x16F] @ '' cache''),
     (''dashboard.answers_from_memory'', ''odpov'' @ uni [0x11B] @ ''d'' @ uni [0xED] @ '' z pam'' @ uni [0x11B] @ ''ti''),
     (''dashboard.uptime'', ''Doba provozu''),
     (''dashboard.process_lifetime'', ''Aktu'' @ uni [0xE1] @ ''ln'' @ uni [0xED] @ '' doba b'' @ uni [0x11B] @ ''hu procesu''),
     (''dashboard.top_domains'', ''Nej'' @ uni [0x10D] @ ''ast'' @ uni [0x11B] @ ''j'' @ uni [0x161, 0xED] @ '' dom'' @ uni [0xE9] @ ''ny''),
     (''dashboard.top_clients'', ''Nej'' @ uni [0x10D] @ ''ast'' @ uni [0x11B] @ ''j'' @ uni [0x161, 0xED] @ '' klienti''),
     (''dashboard.query_activity'', ''Aktivita dotaz'' @ uni [0x16F]),
     (''dashboard.live_samples'', uni [0x17D] @ ''iv'' @ uni [0xE9] @ '' vzorky z va'' @ uni [0x161] @ ''eho resolveru''),
     (''dashboard.refresh_5s'', ''Obnoven'' @ uni [0xED] @ '' ka'' @ uni [0x17E] @ ''d'' @ uni [0xFD] @ ''ch 5 s''),
     (''dashboard.queries_per_sec'', ''dotaz'' @ uni [0x16F] @ '' / sek''),
     (''dashboard.chart_aria'', ''M'' @ uni [0xED] @ ''ra dotaz'' @ uni [0x16F] @ '' b'' @ uni [0x11B] @ ''hem t'' @ uni [0xE9] @ ''to relace prohl'' @ uni [0xED, 0x17E] @ ''e'' @ uni [0x10D] @ ''e''),
     (''dashboard.session_samples'', ''Vzorky relace''),
     (''dashboard.now'', ''Nyn'' @ uni [0xED]),
     (''dashboard.upstream_resolvers'', ''Nad'' @ uni [0x159] @ ''azen'' @ uni [0xE9] @ '' resolvery''),
     (''dashboard.ordered_failover'', uni [0x158] @ ''azen'' @ uni [0xFD] @ '' failover s TCP z'' @ uni [0xE1] @ ''lohou''),
     (''dashboard.endpoint'', ''Koncov'' @ uni [0xFD] @ '' bod''),
     (''dashboard.health'', ''Stav''),
     (''dashboard.upstream_unknown'', ''Nezn'' @ uni [0xE1] @ ''m'' @ uni [0xFD]),
     (''dashboard.upstream_healthy'', ''V po'' @ uni [0x159, 0xE1] @ ''dku''),
     (''dashboard.upstream_degraded'', ''Omezen'' @ uni [0xFD]),
     (''dashboard.upstream_unavailable'', ''Nedostupn'' @ uni [0xFD]),
     (''dashboard.priority'', ''Priorita''),
     (''dashboard.attempt_timeout'', uni [0x10C] @ ''asov'' @ uni [0xFD] @ '' limit pokusu''),
     (''dashboard.primary'', ''Prim'' @ uni [0xE1] @ ''rn'' @ uni [0xED]),
     (''dashboard.fallback'', ''Z'' @ uni [0xE1] @ ''lo'' @ uni [0x17E] @ ''n'' @ uni [0xED]),
     (''dashboard.config_shown'', ''Konfigurace zobrazena. Dosa'' @ uni [0x17E] @ ''itelnost se kontroluje p'' @ uni [0x159] @ ''i ka'' @ uni [0x17E] @ ''d'' @ uni [0xE9] @ ''m dotazu.''),
     (''dashboard.retained_last_24h'', ''Uchovan'' @ uni [0xE9] @ '' dotazy za posledn'' @ uni [0xED] @ ''ch 24 hodin''),
     (''dashboard.unavailable_no_logging'', ''Nedostupn'' @ uni [0xE9] @ '', kdy'' @ uni [0x17E] @ '' je logov'' @ uni [0xE1] @ ''n'' @ uni [0xED] @ '' dotaz'' @ uni [0x16F] @ '' vypnut'' @ uni [0xE9] @ ''.''),
     (''dashboard.loading_stats'', ''Na'' @ uni [0x10D, 0xED] @ ''t'' @ uni [0xE1] @ ''n'' @ uni [0xED] @ '' statistik dotaz'' @ uni [0x16F, 0x2026]),
     (''dashboard.stats_load_failed'', ''Nelze na'' @ uni [0x10D, 0xED] @ ''st statistiky dotaz'' @ uni [0x16F]),
     (''dashboard.no_retained'', uni [0x17D, 0xE1] @ ''dn'' @ uni [0xE9] @ '' uchovan'' @ uni [0xE9] @ '' dotazy v tomto obdob'' @ uni [0xED] @ ''.''),
     (''cache.live_entries'', ''Aktu'' @ uni [0xE1] @ ''ln'' @ uni [0xED] @ '' z'' @ uni [0xE1] @ ''znamy''),
     (''cache.capacity'', ''Kapacita''),
     (''cache.hits'', ''Z'' @ uni [0xE1] @ ''sahy cache''),
     (''cache.since_startup'', ''Od spu'' @ uni [0x161] @ ''t'' @ uni [0x11B] @ ''n'' @ uni [0xED] @ '' procesu''),
     (''cache.misses'', ''Minuty cache''),
     (''cache.includes_uncacheable'', ''Zahrnuje necacheovateln'' @ uni [0xE9] @ '' po'' @ uni [0x17E] @ ''adavky''),
     (''cache.memory_cache'', ''Cache v pam'' @ uni [0x11B] @ ''ti''),
     (''cache.description'', ''Pozitivn'' @ uni [0xED] @ '' odpov'' @ uni [0x11B] @ ''di nad'' @ uni [0x159] @ ''azen'' @ uni [0xFD] @ ''ch server'' @ uni [0x16F] @ '' pou'' @ uni [0x17E, 0xED] @ ''vaj'' @ uni [0xED] @ '' nakonfigurovan'' @ uni [0xFD] @ '' TTL cache. Odpov'' @ uni [0x11B] @ ''di s nulov'' @ uni [0xFD] @ ''m TTL, podepsan'' @ uni [0xE9] @ '' DNSSEC a negativn'' @ uni [0xED] @ '' odpov'' @ uni [0x11B] @ ''di si zachov'' @ uni [0xE1] @ ''vaj'' @ uni [0xED] @ '' p'' @ uni [0x16F] @ ''vodn'' @ uni [0xED] @ '' pravidla. Nejstar'' @ uni [0x161, 0xED] @ '' nepou'' @ uni [0x17E, 0xED] @ ''van'' @ uni [0xE9] @ '' z'' @ uni [0xE1] @ ''znamy se p'' @ uni [0x159] @ ''i dosa'' @ uni [0x17E] @ ''en'' @ uni [0xED] @ '' kapacity odstra'' @ uni [0x148] @ ''uj'' @ uni [0xED] @ ''. Obsah cache se nikdy neukl'' @ uni [0xE1] @ ''d'' @ uni [0xE1] @ '' do SQLite.''),
     (''cache.clear_description'', ''Vymaz'' @ uni [0xE1] @ ''n'' @ uni [0xED] @ '' cache odstran'' @ uni [0xED] @ '' v'' @ uni [0x161] @ ''echny aktu'' @ uni [0xE1] @ ''ln'' @ uni [0xED] @ '' odpov'' @ uni [0x11B] @ ''di. Po'' @ uni [0x10D, 0xED] @ ''tadla z'' @ uni [0xE1] @ ''sah'' @ uni [0x16F] @ '' a minut se zachovaj'' @ uni [0xED] @ ''.''),
     (''cache.clearing'', ''Maz'' @ uni [0xE1] @ ''n'' @ uni [0xED, 0x2026]),
     (''cache.clear'', ''Vymazat cache''),
     (''cache.cleared'', ''Cache vymaz'' @ uni [0xE1] @ ''na. M'' @ uni [0xED] @ ''stn'' @ uni [0xED] @ '' z'' @ uni [0xF3] @ ''ny z'' @ uni [0x16F] @ ''st'' @ uni [0xE1] @ ''vaj'' @ uni [0xED] @ '' aktivn'' @ uni [0xED] @ ''; ostatn'' @ uni [0xED] @ '' dotazy budou forwardov'' @ uni [0xE1] @ ''ny na nad'' @ uni [0x159] @ ''azen'' @ uni [0xE9] @ '' servery.''),
     (''cache.flush_failed'', ''Vymaz'' @ uni [0xE1] @ ''n'' @ uni [0xED] @ '' cache se nezda'' @ uni [0x159] @ ''ilo''),
     (''cache.entries_title'', ''Z'' @ uni [0xE1] @ ''znamy DNS cache''),
     (''cache.entries_description'', ''Aktu'' @ uni [0xE1] @ ''ln'' @ uni [0xED] @ '' odpov'' @ uni [0x11B] @ ''di, nejnov'' @ uni [0x11B] @ ''j'' @ uni [0x161, 0xED] @ '' jako prvn'' @ uni [0xED] @ ''.''),
     (''cache.entries_loading'', ''Na'' @ uni [0x10D, 0xED] @ ''t'' @ uni [0xE1] @ ''n'' @ uni [0xED] @ '' z'' @ uni [0xE1] @ ''znam'' @ uni [0x16F] @ '' cache'' @ uni [0x2026]),
     (''cache.entries_load_failed'', ''Nelze na'' @ uni [0x10D, 0xED] @ ''st z'' @ uni [0xE1] @ ''znamy cache''),
     (''cache.entries_empty'', ''Cache je pr'' @ uni [0xE1] @ ''zdn'' @ uni [0xE1] @ ''.''),
     (''cache.entries_scroll_hint'', ''P'' @ uni [0x159] @ ''ejd'' @ uni [0x11B] @ ''te stranou, abyste vid'' @ uni [0x11B] @ ''li v'' @ uni [0x161] @ ''echny sloupce.''),
     (''cache.entry_name'', ''N'' @ uni [0xE1] @ ''zev'')]\<close>

definition dict_cs_3 :: text_table where
  \<open>dict_cs_3 = [
     (''cache.entry_type'', ''Typ''),
     (''cache.entry_answer'', ''Odpov'' @ uni [0x11B, 0x10F]),
     (''cache.entry_status'', ''Stav''),
     (''cache.entry_ttl'', ''Zb'' @ uni [0xFD] @ ''vaj'' @ uni [0xED] @ ''c'' @ uni [0xED] @ '' TTL''),
     (''cache.seconds'', ''s''),
     (''cache.previous'', ''P'' @ uni [0x159] @ ''edchoz'' @ uni [0xED]),
     (''cache.next'', ''Dal'' @ uni [0x161, 0xED]),
     (''querylog.unavailable_title'', ''Historie dotaz'' @ uni [0x16F] @ '' nedostupn'' @ uni [0xE1]),
     (''querylog.unavailable_text'', ''Zapn'' @ uni [0x11B] @ ''te logov'' @ uni [0xE1] @ ''n'' @ uni [0xED] @ '' dotaz'' @ uni [0x16F] @ '' pro shroma'' @ uni [0x17E, 0x10F] @ ''ov'' @ uni [0xE1] @ ''n'' @ uni [0xED] @ '' a kontrolu budouc'' @ uni [0xED] @ '' DNS aktivity.''),
     (''querylog.up_to_100'', ''A'' @ uni [0x17E] @ '' 100 uchovan'' @ uni [0xFD] @ ''ch odpov'' @ uni [0x11B] @ ''d'' @ uni [0xED] @ '' na str'' @ uni [0xE1] @ ''nku''),
     (''querylog.refresh'', ''Obnovit dotazy''),
     (''querylog.filters_aria'', ''Filtry dotaz'' @ uni [0x16F]),
     (''querylog.domain'', ''Dom'' @ uni [0xE9] @ ''na''),
     (''querylog.contains_example'', ''Obsahuje example.com''),
     (''querylog.client_ip'', ''IP klienta''),
     (''querylog.exact_ip'', ''P'' @ uni [0x159] @ ''esn'' @ uni [0xE1] @ '' IP adresa''),
     (''querylog.query_type'', ''Typ dotazu''),
     (''querylog.all_types'', ''V'' @ uni [0x161] @ ''echny typy''),
     (''querylog.source'', ''Zdroj''),
     (''querylog.all_sources'', ''V'' @ uni [0x161] @ ''echny zdroje''),
     (''querylog.apply_filters'', ''Pou'' @ uni [0x17E, 0xED] @ ''t filtry''),
     (''querylog.show_blocked'', ''Zobrazit blokovan'' @ uni [0xE9] @ '' dotazy''),
     (''querylog.error_stale'', ''P'' @ uni [0x159] @ ''edchoz'' @ uni [0xED] @ '' v'' @ uni [0xFD] @ ''sledky mohou b'' @ uni [0xFD] @ ''t zastaral'' @ uni [0xE9] @ ''.''),
     (''querylog.loading'', ''Na'' @ uni [0x10D, 0xED] @ ''t'' @ uni [0xE1] @ ''n'' @ uni [0xED] @ '' protokolu dotaz'' @ uni [0x16F, 0x2026]),
     (''querylog.no_matches'', uni [0x17D, 0xE1] @ ''dn'' @ uni [0xE9] @ '' odpov'' @ uni [0xED] @ ''daj'' @ uni [0xED] @ ''c'' @ uni [0xED] @ '' dotazy''),
     (''querylog.no_matches_text'', ''Vyzkou'' @ uni [0x161] @ ''ejte jin'' @ uni [0xE9] @ '' filtry nebo generujte DNS provoz s zapnut'' @ uni [0xFD] @ ''m logov'' @ uni [0xE1] @ ''n'' @ uni [0xED] @ ''m.''),
     (''querylog.caption'', ''Protokol DNS dotaz'' @ uni [0x16F]),
     (''querylog.col_timestamp'', uni [0x10C] @ ''asov'' @ uni [0xE9] @ '' raz'' @ uni [0xED] @ ''tko''),
     (''querylog.col_client'', ''Klient''),
     (''querylog.col_domain'', ''Dom'' @ uni [0xE9] @ ''na''),
     (''querylog.col_type'', ''Typ''),
     (''querylog.col_source'', ''Zdroj''),
     (''querylog.col_response'', ''Odpov'' @ uni [0x11B, 0x10F]),
     (''querylog.col_latency'', ''Latence''),
     (''querylog.older'', ''Star'' @ uni [0x161, 0xED] @ '' dotazy''),
     (''querylog.load_failed'', ''Nelze na'' @ uni [0x10D, 0xED] @ ''st protokol dotaz'' @ uni [0x16F]),
     (''blocklists.count'', ''extern'' @ uni [0xED] @ ''ch zdroj'' @ uni [0x16F]),
     (''blocklists.count_one'', ''extern'' @ uni [0xED] @ '' zdroj''),
     (''blocklists.sources_label'', ''Zdroje DNS politik''),
     (''blocklists.reload'', ''Znovu na'' @ uni [0x10D, 0xED] @ ''st''),
     (''blocklists.add_source'', ''P'' @ uni [0x159] @ ''idat zdroj''),
     (''blocklists.add_aria'', ''P'' @ uni [0x159] @ ''idat zdroj blokovac'' @ uni [0xED] @ ''ho seznamu''),
     (''blocklists.add_title'', ''P'' @ uni [0x159] @ ''idat extern'' @ uni [0xED] @ '' blokovac'' @ uni [0xED] @ '' seznam''),
     (''blocklists.add_text'', ''P'' @ uni [0x159] @ ''ij'' @ uni [0xED] @ ''m'' @ uni [0xE1] @ ''ny jsou pouze ve'' @ uni [0x159] @ ''ejn'' @ uni [0xE9] @ '' HTTP(S) zdroje. Ne'' @ uni [0xFA] @ ''sp'' @ uni [0x11B, 0x161] @ ''n'' @ uni [0xE9] @ '' obnoven'' @ uni [0xED] @ '' ponech'' @ uni [0xE1] @ ''v'' @ uni [0xE1] @ '' p'' @ uni [0x159] @ ''edchoz'' @ uni [0xED] @ '' DNS pravidla aktivn'' @ uni [0xED] @ ''.''),
     (''blocklists.name'', ''N'' @ uni [0xE1] @ ''zev''),
     (''blocklists.source_url'', ''URL zdroje''),
     (''blocklists.community_hosts'', ''Komunitn'' @ uni [0xED] @ '' hostitel'' @ uni [0xE9]),
     (''blocklists.adding'', ''P'' @ uni [0x159] @ ''id'' @ uni [0xE1] @ ''v'' @ uni [0xE1] @ ''n'' @ uni [0xED, 0x2026]),
     (''blocklists.cancel'', ''Zru'' @ uni [0x161] @ ''it''),
     (''blocklists.loading'', ''Na'' @ uni [0x10D, 0xED] @ ''t'' @ uni [0xE1] @ ''n'' @ uni [0xED] @ '' zdroj'' @ uni [0x16F] @ '' blokovac'' @ uni [0xED] @ ''ch seznam'' @ uni [0x16F, 0x2026]),
     (''blocklists.empty_title'', uni [0x17D, 0xE1] @ ''dn'' @ uni [0xE9] @ '' extern'' @ uni [0xED] @ '' blokovac'' @ uni [0xED] @ '' seznamy''),
     (''blocklists.empty_text'', ''P'' @ uni [0x159] @ ''idejte d'' @ uni [0x16F] @ ''v'' @ uni [0x11B] @ ''ryhodn'' @ uni [0xFD] @ '' ve'' @ uni [0x159] @ ''ejn'' @ uni [0xFD] @ '' seznam hostitel'' @ uni [0x16F] @ '' nebo dom'' @ uni [0xE9] @ ''n pro aplikaci DNS blokov'' @ uni [0xE1] @ ''n'' @ uni [0xED] @ ''.''),
     (''blocklists.caption'', ''Zdroje extern'' @ uni [0xED] @ ''ch blokovac'' @ uni [0xED] @ ''ch seznam'' @ uni [0x16F]),
     (''blocklists.col_source'', ''Zdroj''),
     (''blocklists.col_status'', ''Stav''),
     (''blocklists.col_last_update'', ''Posledn'' @ uni [0xED] @ '' aktualizace''),
     (''blocklists.update_failed'', ''Aktualizace se nezda'' @ uni [0x159] @ ''ila''),
     (''blocklists.active'', ''AKTIVN'' @ uni [0xCD]),
     (''blocklists.disabled'', ''ZAK'' @ uni [0xC1] @ ''Z'' @ uni [0xC1] @ ''NO''),
     (''blocklists.never'', ''Nikdy''),
     (''blocklists.updating'', ''Aktualizace'' @ uni [0x2026]),
     (''blocklists.update'', ''Aktualizovat''),
     (''blocklists.load_failed'', ''Nelze na'' @ uni [0x10D, 0xED] @ ''st blokovac'' @ uni [0xED] @ '' seznamy''),
     (''blocklists.add_failed'', ''Nelze p'' @ uni [0x159] @ ''idat zdroj''),
     (''blocklists.update_failed_msg'', ''Nelze aktualizovat zdroj''),
     (''blocklists.col_domains'', ''Dom'' @ uni [0xE9] @ ''ny''),
     (''blocklists.local'', ''M'' @ uni [0xED] @ ''stn'' @ uni [0xED]),
     (''blocklists.enable'', ''Zapnout''),
     (''blocklists.disable'', ''Vypnout''),
     (''blocklists.toggle_failed'', ''Nelze p'' @ uni [0x159] @ ''epnout stav zdroje''),
     (''blocklists.edit_content'', ''Upravit obsah''),
     (''blocklists.edit_content_aria'', ''Upravit obsah blokovac'' @ uni [0xED] @ ''ho seznamu''),
     (''blocklists.edit_content_title'', ''Upravit dom'' @ uni [0xE9] @ ''ny blokovac'' @ uni [0xED] @ ''ho seznamu''),
     (''blocklists.edit_content_text'', ''Zadejte jednu dom'' @ uni [0xE9] @ ''nu na '' @ uni [0x159, 0xE1] @ ''dek. '' @ uni [0x158, 0xE1] @ ''dky za'' @ uni [0x10D, 0xED] @ ''naj'' @ uni [0xED] @ ''c'' @ uni [0xED] @ '' 0.0.0.0 nebo koment'' @ uni [0xE1, 0x159] @ ''em jsou pova'' @ uni [0x17E] @ ''ov'' @ uni [0xE1] @ ''ny za z'' @ uni [0xE1] @ ''znamy hostitel'' @ uni [0x16F] @ ''.''),
     (''blocklists.domains_label'', ''Dom'' @ uni [0xE9] @ ''ny''),
     (''blocklists.saving'', ''Ukl'' @ uni [0xE1] @ ''d'' @ uni [0xE1] @ ''n'' @ uni [0xED, 0x2026]),
     (''blocklists.save'', ''Ulo'' @ uni [0x17E] @ ''it''),
     (''blocklists.content_save_failed'', ''Nelze ulo'' @ uni [0x17E] @ ''it obsah''),
     (''blocklists.delete'', ''Smazat''),
     (''blocklists.confirm_delete'', ''Potvrdit''),
     (''blocklists.delete_failed'', ''Nelze smazat zdroj''),
     (''zones.count'', ''m'' @ uni [0xED] @ ''stn'' @ uni [0xED] @ ''ch z'' @ uni [0xF3] @ ''n''),
     (''zones.count_one'', ''m'' @ uni [0xED] @ ''stn'' @ uni [0xED] @ '' z'' @ uni [0xF3] @ ''na''),
     (''zones.local_authority'', ''M'' @ uni [0xED] @ ''stn'' @ uni [0xED] @ '' autorita''),
     (''zones.reload'', ''Znovu na'' @ uni [0x10D, 0xED] @ ''st z'' @ uni [0xF3] @ ''ny''),
     (''zones.add_zone'', ''P'' @ uni [0x159] @ ''idat z'' @ uni [0xF3] @ ''nu''),
     (''zones.error_stale'', ''Zobrazuji posledn'' @ uni [0xED] @ '' na'' @ uni [0x10D] @ ''ten'' @ uni [0xE9] @ '' z'' @ uni [0xF3] @ ''ny. Znovu na'' @ uni [0x10D] @ ''t'' @ uni [0x11B] @ ''te p'' @ uni [0x159] @ ''ed prov'' @ uni [0xE1] @ ''d'' @ uni [0x11B] @ ''n'' @ uni [0xED] @ ''m zm'' @ uni [0x11B] @ ''n.''),
     (''zones.error_retry'', ''Znovu na'' @ uni [0x10D] @ ''t'' @ uni [0x11B] @ ''te a zkuste znovu.''),
     (''zones.reload_before_retry'', ''Znovu na'' @ uni [0x10D] @ ''t'' @ uni [0x11B] @ ''te z'' @ uni [0xF3] @ ''ny p'' @ uni [0x159] @ ''ed opakov'' @ uni [0xE1] @ ''n'' @ uni [0xED] @ ''m.''),
     (''zones.loading'', ''Na'' @ uni [0x10D, 0xED] @ ''t'' @ uni [0xE1] @ ''n'' @ uni [0xED] @ '' m'' @ uni [0xED] @ ''stn'' @ uni [0xED] @ ''ch z'' @ uni [0xF3] @ ''n'' @ uni [0x2026]),
     (''zones.empty_title'', ''Dejte sv'' @ uni [0xE9] @ '' s'' @ uni [0xED] @ ''ti zn'' @ uni [0xE1] @ ''m'' @ uni [0xE1] @ '' jm'' @ uni [0xE9] @ ''na''),
     (''zones.empty_text'', ''Vytvo'' @ uni [0x159] @ ''te z'' @ uni [0xF3] @ ''nu jako home.arpa, pak p'' @ uni [0x159] @ ''idejte z'' @ uni [0xE1] @ ''znamy pro sv'' @ uni [0x16F] @ ''j router, slu'' @ uni [0x17E] @ ''by a za'' @ uni [0x159, 0xED] @ ''zen'' @ uni [0xED] @ ''.''),
     (''zones.create_first'', ''Vytvo'' @ uni [0x159] @ ''te svou prvn'' @ uni [0xED] @ '' z'' @ uni [0xF3] @ ''nu''),
     (''zones.filter_aria'', ''Filtrovat z'' @ uni [0xF3] @ ''ny''),
     (''zones.filter_placeholder'', ''Naj'' @ uni [0xED] @ ''t z'' @ uni [0xF3] @ ''nu'' @ uni [0x2026]),
     (''zones.nav_aria'', ''M'' @ uni [0xED] @ ''stn'' @ uni [0xED] @ '' z'' @ uni [0xF3] @ ''ny''),
     (''zones.records_custom'', ''vlastn'' @ uni [0xED] @ '' z'' @ uni [0xE1] @ ''znamy''),
     (''zones.no_matching'', uni [0x17D, 0xE1] @ ''dn'' @ uni [0xE9] @ '' odpov'' @ uni [0xED] @ ''daj'' @ uni [0xED] @ ''c'' @ uni [0xED] @ '' z'' @ uni [0xF3] @ ''ny.''),
     (''zones.authoritative_eyebrow'', ''AUTORITATIVN'' @ uni [0xCD] @ '' Z'' @ uni [0xD3] @ ''NA''),
     (''zones.revision'', ''Revize''),
     (''zones.add_record'', ''P'' @ uni [0x159] @ ''idat z'' @ uni [0xE1] @ ''znam''),
     (''zones.delete_zone_aria'', ''Smazat z'' @ uni [0xF3] @ ''nu''),
     (''zones.primary_ns'', ''Prim'' @ uni [0xE1] @ ''rn'' @ uni [0xED] @ '' NS''),
     (''zones.contact'', ''Kontakt''),
     (''zones.delete_record_confirm'', ''Smazat z'' @ uni [0xE1] @ ''znam''),
     (''zones.delete_zone_confirm'', ''a v'' @ uni [0x161] @ ''echny''),
     (''zones.delete_zone_confirm2'', ''z'' @ uni [0xE1] @ ''znamy? Tuto akci nelze vr'' @ uni [0xE1] @ ''tit zp'' @ uni [0x11B] @ ''t.''),
     (''zones.deleting'', ''Maz'' @ uni [0xE1] @ ''n'' @ uni [0xED, 0x2026]),
     (''zones.delete_record_perm'', ''Trvale smazat z'' @ uni [0xE1] @ ''znam''),
     (''zones.delete_zone_perm'', ''Trvale smazat z'' @ uni [0xF3] @ ''nu''),
     (''zones.cancel_deletion'', ''Zru'' @ uni [0x161] @ ''it smaz'' @ uni [0xE1] @ ''n'' @ uni [0xED]),
     (''zones.record_saved'', ''Z'' @ uni [0xE1] @ ''znam ulo'' @ uni [0x17E] @ ''en. Zm'' @ uni [0x11B] @ ''ny DNS jsou aktivn'' @ uni [0xED] @ ''.''),
     (''zones.record_deleted'', ''Z'' @ uni [0xE1] @ ''znam smaz'' @ uni [0xE1] @ ''n. Zm'' @ uni [0x11B] @ ''ny DNS jsou aktivn'' @ uni [0xED] @ ''.''),
     (''zones.zone_deleted'', ''Z'' @ uni [0xF3] @ ''na a jej'' @ uni [0xED] @ '' z'' @ uni [0xE1] @ ''znamy smaz'' @ uni [0xE1] @ ''ny.''),
     (''zones.zone_created'', ''Z'' @ uni [0xF3] @ ''na vytvo'' @ uni [0x159] @ ''ena. P'' @ uni [0x159] @ ''idejte z'' @ uni [0xE1] @ ''znamy pro jej'' @ uni [0xED] @ '' pou'' @ uni [0x17E, 0xED] @ ''v'' @ uni [0xE1] @ ''n'' @ uni [0xED] @ ''.''),
     (''zones.delete_failed'', ''Nelze smazat''),
     (''zones.footnote'', ''M'' @ uni [0xED] @ ''stn'' @ uni [0xED] @ '' odpov'' @ uni [0x11B] @ ''di maj'' @ uni [0xED] @ '' p'' @ uni [0x159] @ ''ednost p'' @ uni [0x159] @ ''ed forwardov'' @ uni [0xE1] @ ''n'' @ uni [0xED] @ ''m. Za'' @ uni [0x159, 0xED] @ ''zen'' @ uni [0xED] @ '' si mohou ponechat p'' @ uni [0x159] @ ''edchoz'' @ uni [0xED] @ '' odpov'' @ uni [0x11B] @ ''di, dokud nevypr'' @ uni [0x161, 0xED] @ '' jejich TTL.''),
     (''zones.record_form_edit_aria'', ''Upravit DNS z'' @ uni [0xE1] @ ''znam''),
     (''zones.record_form_add_aria'', ''P'' @ uni [0x159] @ ''idat DNS z'' @ uni [0xE1] @ ''znam'')]\<close>

definition dict_cs_4 :: text_table where
  \<open>dict_cs_4 = [
     (''zones.edit_record'', ''Upravit z'' @ uni [0xE1] @ ''znam''),
     (''zones.add_record_form'', ''P'' @ uni [0x159] @ ''idat z'' @ uni [0xE1] @ ''znam''),
     (''zones.changes_apply'', ''Zm'' @ uni [0x11B] @ ''ny se aplikuj'' @ uni [0xED] @ '' na''),
     (''zones.record_name'', ''N'' @ uni [0xE1] @ ''zev z'' @ uni [0xE1] @ ''znamu''),
     (''zones.router_or_at'', ''router nebo @''),
     (''zones.relative_name_hint'', ''Relativn'' @ uni [0xED] @ '' n'' @ uni [0xE1] @ ''zev, @ pro z'' @ uni [0xF3] @ ''nu, nebo absolutn'' @ uni [0xED] @ '' n'' @ uni [0xE1] @ ''zev kon'' @ uni [0x10D, 0xED] @ ''c'' @ uni [0xED] @ '' te'' @ uni [0x10D] @ ''kou.''),
     (''zones.record_type'', ''Typ z'' @ uni [0xE1] @ ''znamu''),
     (''zones.ttl_seconds'', ''TTL (sekundy)''),
     (''zones.priority'', ''Priorita''),
     (''zones.ipv4_address'', ''IPv4 adresa''),
     (''zones.ipv6_address'', ''IPv6 adresa''),
     (''zones.text_value'', ''Textov'' @ uni [0xE1] @ '' hodnota''),
     (''zones.target_hostname'', ''C'' @ uni [0xED] @ ''lov'' @ uni [0xFD] @ '' n'' @ uni [0xE1] @ ''zev hostitele''),
     (''zones.invalid_ttl'', ''Zadejte platn'' @ uni [0xE9] @ '' hodnoty TTL a priority.''),
     (''zones.record_conflict'', ''Tato z'' @ uni [0xF3] @ ''na byla zm'' @ uni [0x11B] @ ''n'' @ uni [0x11B] @ ''na jinde. V'' @ uni [0xE1, 0x161] @ '' n'' @ uni [0xE1] @ ''vrh z'' @ uni [0x16F] @ ''stal beze zm'' @ uni [0x11B] @ ''n. Zav'' @ uni [0x159] @ ''ete tento formul'' @ uni [0xE1, 0x159] @ '' a znovu na'' @ uni [0x10D] @ ''t'' @ uni [0x11B] @ ''te z'' @ uni [0xF3] @ ''ny p'' @ uni [0x159] @ ''ed opakov'' @ uni [0xE1] @ ''n'' @ uni [0xED] @ ''m.''),
     (''zones.save_failed'', ''Nelze ulo'' @ uni [0x17E] @ ''it z'' @ uni [0xE1] @ ''znam''),
     (''zones.saving'', ''Ukl'' @ uni [0xE1] @ ''d'' @ uni [0xE1] @ ''n'' @ uni [0xED, 0x2026]),
     (''zones.save_record'', ''Ulo'' @ uni [0x17E] @ ''it z'' @ uni [0xE1] @ ''znam''),
     (''zones.cancel'', ''Zru'' @ uni [0x161] @ ''it''),
     (''zones.no_records_title'', ''Zat'' @ uni [0xED] @ ''m '' @ uni [0x17E, 0xE1] @ ''dn'' @ uni [0xE9] @ '' vlastn'' @ uni [0xED] @ '' z'' @ uni [0xE1] @ ''znamy''),
     (''zones.no_records_text'', ''P'' @ uni [0x159] @ ''idejte sv'' @ uni [0x16F] @ ''j prvn'' @ uni [0xED] @ '' z'' @ uni [0xE1] @ ''znam. SOA a z'' @ uni [0xE1] @ ''lo'' @ uni [0x17E] @ ''n'' @ uni [0xED] @ '' apex NS jsou spravov'' @ uni [0xE1] @ ''ny automaticky.''),
     (''zones.records_aria'', ''DNS z'' @ uni [0xE1] @ ''znamy pro''),
     (''zones.col_name'', ''N'' @ uni [0xE1] @ ''zev''),
     (''zones.col_type'', ''Typ''),
     (''zones.col_value'', ''Hodnota''),
     (''zones.col_ttl'', ''TTL''),
     (''zones.col_actions'', ''Akce''),
     (''zones.edit_aria'', ''Upravit''),
     (''zones.delete_aria'', ''Smazat''),
     (''zones.record_word'', ''z'' @ uni [0xE1] @ ''znam''),
     (''zones.create_title'', ''Vytvo'' @ uni [0x159] @ ''it m'' @ uni [0xED] @ ''stn'' @ uni [0xED] @ '' z'' @ uni [0xF3] @ ''nu''),
     (''zones.create_text'', ''Velora bude odpov'' @ uni [0xED] @ ''dat pro tuto z'' @ uni [0xF3] @ ''nu a ponech'' @ uni [0xE1] @ '' nezn'' @ uni [0xE1] @ ''m'' @ uni [0xE9] @ '' n'' @ uni [0xE1] @ ''zvy ve va'' @ uni [0x161, 0xED] @ '' s'' @ uni [0xED] @ ''ti.''),
     (''zones.zone_name'', ''N'' @ uni [0xE1] @ ''zev z'' @ uni [0xF3] @ ''ny''),
     (''zones.authority_settings'', ''Nastaven'' @ uni [0xED] @ '' autority''),
     (''zones.primary_nameserver'', ''Prim'' @ uni [0xE1] @ ''rn'' @ uni [0xED] @ '' nameserver''),
     (''zones.contact_mailbox'', ''Kontakt (DNS schr'' @ uni [0xE1] @ ''nka)''),
     (''zones.creating'', ''Vytv'' @ uni [0xE1, 0x159] @ ''en'' @ uni [0xED, 0x2026]),
     (''zones.create_zone'', ''Vytvo'' @ uni [0x159] @ ''it z'' @ uni [0xF3] @ ''nu''),
     (''zones.create_zone_aria'', ''Vytvo'' @ uni [0x159] @ ''it DNS z'' @ uni [0xF3] @ ''nu''),
     (''zones.create_failed'', ''Nelze vytvo'' @ uni [0x159] @ ''it z'' @ uni [0xF3] @ ''nu''),
     (''zones.load_failed'', ''Nelze na'' @ uni [0x10D, 0xED] @ ''st z'' @ uni [0xF3] @ ''ny''),
     (''updates.loading'', ''Na'' @ uni [0x10D, 0xED] @ ''t'' @ uni [0xE1] @ ''n'' @ uni [0xED] @ '' stavu aktualizac'' @ uni [0xED, 0x2026]),
     (''updates.viewer_readonly'', ''Jste p'' @ uni [0x159] @ ''ihl'' @ uni [0xE1, 0x161] @ ''eni jako prohl'' @ uni [0xED, 0x17E] @ ''e'' @ uni [0x10D] @ ''. '' @ uni [0x17D, 0xE1] @ ''dosti o aktualizaci jsou pouze pro '' @ uni [0x10D] @ ''ten'' @ uni [0xED] @ ''.''),
     (''updates.in_progress'', ''Prob'' @ uni [0xED] @ ''h'' @ uni [0xE1] @ '' aktualizace'' @ uni [0x2026]),
     (''updates.history'', ''Historie aktualizac'' @ uni [0xED]),
     (''updates.no_history'', ''Zat'' @ uni [0xED] @ ''m nebyly zaznamen'' @ uni [0xE1] @ ''ny '' @ uni [0x17E, 0xE1] @ ''dn'' @ uni [0xE9] @ '' aktualizace.''),
     (''updates.col_from'', ''Z''),
     (''updates.col_to'', ''Do''),
     (''updates.col_state'', ''Stav''),
     (''updates.col_started'', ''Zah'' @ uni [0xE1] @ ''jeno''),
     (''updates.state_idle'', ''Ne'' @ uni [0x10D] @ ''inn'' @ uni [0xFD]),
     (''updates.state_downloading'', ''Stahov'' @ uni [0xE1] @ ''n'' @ uni [0xED]),
     (''updates.state_verifying'', ''Ov'' @ uni [0x11B, 0x159] @ ''ov'' @ uni [0xE1] @ ''n'' @ uni [0xED]),
     (''updates.state_installing'', ''Instalace''),
     (''updates.state_readiness'', uni [0x10C] @ ''ek'' @ uni [0xE1] @ ''n'' @ uni [0xED] @ '' na p'' @ uni [0x159] @ ''ipravenost''),
     (''updates.state_completed'', ''Dokon'' @ uni [0x10D] @ ''eno''),
     (''updates.state_rolled_back'', ''Vr'' @ uni [0xE1] @ ''ceno zp'' @ uni [0x11B] @ ''t''),
     (''updates.state_failed'', ''Nezda'' @ uni [0x159] @ ''ilo se''),
     (''updates.load_failed'', ''Nepoda'' @ uni [0x159] @ ''ilo se na'' @ uni [0x10D, 0xED] @ ''st stav aktualizac'' @ uni [0xED]),
     (''updates.request_failed'', ''Nepoda'' @ uni [0x159] @ ''ilo se po'' @ uni [0x17E, 0xE1] @ ''dat o aktualizaci''),
     (''updates.check'', ''Check for updates''),
     (''updates.available'', ''Update available''),
     (''updates.up_to_date'', ''The system is up to date.''),
     (''updates.progress'', ''Update progress''),
     (''updates.rollback_used'', ''The previous version was restored.''),
     (''updates.rollback_recovered'', ''The previous version was restored and is healthy.''),
     (''backup.sqlite_only'', uni [0x160] @ ''ifrovan'' @ uni [0xFD] @ '' export nyn'' @ uni [0xED] @ '' podporuje pouze instalace SQLite.''),
     (''backup.create_title'', uni [0x160] @ ''ifrovan'' @ uni [0xE1] @ '' z'' @ uni [0xE1] @ ''loha''),
     (''backup.create_hint'', ''St'' @ uni [0xE1] @ ''hn'' @ uni [0x11B] @ ''te verzovanou z'' @ uni [0xE1] @ ''lohu konfigurace a trval'' @ uni [0xFD] @ ''ch dat. Heslo bezpe'' @ uni [0x10D] @ ''n'' @ uni [0x11B] @ '' ulo'' @ uni [0x17E] @ ''te.''),
     (''backup.passphrase'', ''Heslo''),
     (''backup.creating'', ''Vytv'' @ uni [0xE1, 0x159] @ ''en'' @ uni [0xED, 0x2026]),
     (''backup.create'', ''Vytvo'' @ uni [0x159] @ ''it a st'' @ uni [0xE1] @ ''hnout''),
     (''backup.create_failed'', ''Z'' @ uni [0xE1] @ ''lohu se nepoda'' @ uni [0x159] @ ''ilo vytvo'' @ uni [0x159] @ ''it''),
     (''backup.restore_hint'', ''Obnovte '' @ uni [0x161] @ ''ifrovanou z'' @ uni [0xE1] @ ''lohu p'' @ uni [0x159] @ ''i zastaven'' @ uni [0xE9] @ '' slu'' @ uni [0x17E] @ ''b'' @ uni [0x11B] @ ''. P'' @ uni [0x159, 0xED] @ ''kaz zachov'' @ uni [0xE1] @ '' bezpe'' @ uni [0x10D] @ ''nostn'' @ uni [0xED] @ '' kopii.''),
     (''backup.loading'', ''Na'' @ uni [0x10D, 0xED] @ ''t'' @ uni [0xE1] @ ''n'' @ uni [0xED] @ '' stavu z'' @ uni [0xE1] @ ''lohy'' @ uni [0x2026]),
     (''backup.status_title'', ''Stav z'' @ uni [0xE1] @ ''lohy''),
     (''backup.database'', ''Datab'' @ uni [0xE1] @ ''ze:''),
     (''backup.last_backup'', ''Posledn'' @ uni [0xED] @ '' z'' @ uni [0xE1] @ ''loha:''),
     (''backup.no_backup'', ''Zat'' @ uni [0xED] @ ''m nebyla zaznamen'' @ uni [0xE1] @ ''na '' @ uni [0x17E, 0xE1] @ ''dn'' @ uni [0xE1] @ '' z'' @ uni [0xE1] @ ''loha''),
     (''backup.verification_state'', ''Stav ov'' @ uni [0x11B, 0x159] @ ''en'' @ uni [0xED] @ '':''),
     (''backup.state_unknown'', ''Nezn'' @ uni [0xE1] @ ''m'' @ uni [0xFD]),
     (''backup.state_unverified'', ''Neov'' @ uni [0x11B, 0x159] @ ''eno''),
     (''backup.state_verified'', ''Ov'' @ uni [0x11B, 0x159] @ ''eno''),
     (''backup.verify_title'', ''Ov'' @ uni [0x11B, 0x159] @ ''it z'' @ uni [0xE1] @ ''lohu''),
     (''backup.verify_text'', ''Um'' @ uni [0xED] @ ''st'' @ uni [0x11B] @ ''te kopii z'' @ uni [0xE1] @ ''lohy vedle datab'' @ uni [0xE1] @ ''ze serveru pro ov'' @ uni [0x11B, 0x159] @ ''en'' @ uni [0xED] @ '' jej'' @ uni [0xED] @ '' integrity.''),
     (''backup.file_name'', ''N'' @ uni [0xE1] @ ''zev souboru z'' @ uni [0xE1] @ ''lohy''),
     (''backup.file_hint'', ''Um'' @ uni [0xED] @ ''st'' @ uni [0x11B] @ ''te z'' @ uni [0xE1] @ ''lohu vedle datab'' @ uni [0xE1] @ ''ze na serveru Velora. Pou'' @ uni [0x17E, 0xED] @ ''v'' @ uni [0xE1] @ '' se pouze n'' @ uni [0xE1] @ ''zev souboru; soubory z prohl'' @ uni [0xED, 0x17E] @ ''e'' @ uni [0x10D] @ ''e a jin'' @ uni [0xE9] @ '' adres'' @ uni [0xE1, 0x159] @ ''e zde nelze kontrolovat.''),
     (''backup.viewer_readonly'', ''Jste p'' @ uni [0x159] @ ''ihl'' @ uni [0xE1, 0x161] @ ''eni jako prohl'' @ uni [0xED, 0x17E] @ ''e'' @ uni [0x10D] @ ''. Ov'' @ uni [0x11B, 0x159] @ ''ov'' @ uni [0xE1] @ ''n'' @ uni [0xED] @ '' z'' @ uni [0xE1] @ ''lohy je pouze pro '' @ uni [0x10D] @ ''ten'' @ uni [0xED] @ ''.''),
     (''backup.verifying'', ''Ov'' @ uni [0x11B, 0x159] @ ''ov'' @ uni [0xE1] @ ''n'' @ uni [0xED, 0x2026]),
     (''backup.verify'', ''Ov'' @ uni [0x11B, 0x159] @ ''it''),
     (''backup.valid'', ''Z'' @ uni [0xE1] @ ''loha je platn'' @ uni [0xE1]),
     (''backup.invalid'', ''Z'' @ uni [0xE1] @ ''loha je neplatn'' @ uni [0xE1]),
     (''backup.schema_version'', ''Verze sch'' @ uni [0xE9] @ ''matu:''),
     (''backup.records'', ''Z'' @ uni [0xE1] @ ''znamy:''),
     (''backup.instructions'', ''Obnova z p'' @ uni [0x159, 0xED] @ ''kazov'' @ uni [0xE9] @ '' '' @ uni [0x159, 0xE1] @ ''dky''),
     (''backup.native'', ''Nativn'' @ uni [0xED] @ '' instalace''),
     (''backup.docker'', ''Docker Compose''),
     (''backup.online'', ''Online z'' @ uni [0xE1] @ ''loha (SQLite)''),
     (''backup.load_failed'', ''Nepoda'' @ uni [0x159] @ ''ilo se na'' @ uni [0x10D, 0xED] @ ''st stav z'' @ uni [0xE1] @ ''lohy''),
     (''backup.verify_failed'', ''Ov'' @ uni [0x11B, 0x159] @ ''en'' @ uni [0xED] @ '' se nezda'' @ uni [0x159] @ ''ilo''),
     (''backup.step_stop_service'', ''Zastavte slu'' @ uni [0x17E] @ ''bu''),
     (''backup.step_create_backup'', ''Vytvo'' @ uni [0x159] @ ''te konzistentn'' @ uni [0xED] @ '' z'' @ uni [0xE1] @ ''lohu''),
     (''backup.step_restart_service'', ''Restartujte slu'' @ uni [0x17E] @ ''bu''),
     (''backup.step_stop_container'', ''Zastavte kontejner''),
     (''backup.step_backup_volume'', ''Z'' @ uni [0xE1] @ ''lohujte svazek''),
     (''backup.step_restart_container'', ''Restartujte kontejner''),
     (''backup.step_online_backup'', ''Pou'' @ uni [0x17E] @ ''ijte API z'' @ uni [0xE1] @ ''lohy SQLite pro konzistentn'' @ uni [0xED] @ '' online z'' @ uni [0xE1] @ ''lohu''),
     (''onboarding.welcome'', ''V'' @ uni [0xED] @ ''tejte v Velora DNS''),
     (''onboarding.complete_steps'', ''Dokon'' @ uni [0x10D] @ ''ete tyto kroky pro zabezpe'' @ uni [0x10D] @ ''en'' @ uni [0xED] @ '' instalace''),
     (''onboarding.dismiss'', ''Zav'' @ uni [0x159, 0xED] @ ''t''),
     (''onboarding.change_credentials'', ''Zm'' @ uni [0x11B] @ ''nit p'' @ uni [0x159] @ ''ihla'' @ uni [0x161] @ ''ovac'' @ uni [0xED] @ '' '' @ uni [0xFA] @ ''daje''),
     (''onboarding.change_credentials_text'', ''V'' @ uni [0xFD] @ ''choz'' @ uni [0xED] @ '' heslo spr'' @ uni [0xE1] @ ''vce by m'' @ uni [0x11B] @ ''lo b'' @ uni [0xFD] @ ''t zm'' @ uni [0x11B] @ ''n'' @ uni [0x11B] @ ''no po prvn'' @ uni [0xED] @ ''m p'' @ uni [0x159] @ ''ihl'' @ uni [0xE1, 0x161] @ ''en'' @ uni [0xED] @ ''.''),
     (''onboarding.review_dns'', ''Zkontrolovat konfiguraci DNS''),
     (''onboarding.review_dns_text'', ''Ujist'' @ uni [0x11B] @ ''te se, '' @ uni [0x17E] @ ''e nad'' @ uni [0x159] @ ''azen'' @ uni [0xE9] @ '' servery a povolen'' @ uni [0xED] @ '' klienti jsou spr'' @ uni [0xE1] @ ''vn'' @ uni [0x11B] @ '' nakonfigurov'' @ uni [0xE1] @ ''ni pro va'' @ uni [0x161] @ ''i s'' @ uni [0xED, 0x165] @ ''.''),
     (''onboarding.restrict_clients'', ''Omezit p'' @ uni [0x159, 0xED] @ ''stup klient'' @ uni [0x16F]),
     (''onboarding.restrict_clients_text'', ''Nakonfigurujte allowed_clients CIDR pro omezen'' @ uni [0xED] @ '' s'' @ uni [0xED] @ ''t'' @ uni [0xED] @ '', kter'' @ uni [0xE9] @ '' mohou pou'' @ uni [0x17E, 0xED] @ ''vat v'' @ uni [0xE1, 0x161] @ '' resolver.''),
     (''onboarding.verify_db'', ''Ov'' @ uni [0x11B, 0x159] @ ''it '' @ uni [0xFA] @ ''lo'' @ uni [0x17E] @ ''i'' @ uni [0x161] @ ''t'' @ uni [0x11B] @ '' datab'' @ uni [0xE1] @ ''ze''),
     (''onboarding.verify_db_text'', ''Ujist'' @ uni [0x11B] @ ''te se, '' @ uni [0x17E] @ ''e cesta k datab'' @ uni [0xE1] @ ''zi je na spolehliv'' @ uni [0xE9] @ ''m '' @ uni [0xFA] @ ''lo'' @ uni [0x17E] @ ''i'' @ uni [0x161] @ ''ti s dostate'' @ uni [0x10D] @ ''n'' @ uni [0xFD] @ ''m prostorem.'')]\<close>

definition dict_cs_5 :: text_table where
  \<open>dict_cs_5 = [
     (''onboarding.update_policy'', ''Nakonfigurovat politiku aktualizac'' @ uni [0xED]),
     (''onboarding.update_policy_text'', ''Prohl'' @ uni [0xE9] @ ''dn'' @ uni [0x11B] @ ''te si centrum aktualizac'' @ uni [0xED] @ '' a zjist'' @ uni [0x11B] @ ''te, jak udr'' @ uni [0x17E] @ ''ovat instalaci aktu'' @ uni [0xE1] @ ''ln'' @ uni [0xED] @ ''.''),
     (''app.nav.dhcp'', ''DHCP''),
     (''app.title.dhcp'', ''DHCP server''),
     (''dhcp.loading'', ''Na'' @ uni [0x10D, 0xED] @ ''t'' @ uni [0xE1] @ ''n'' @ uni [0xED] @ '' DHCP dat'' @ uni [0x2026]),
     (''dhcp.load_failed'', ''Unable to load DHCP data''),
     (''dhcp.create_pool_failed'', ''Unable to create pool''),
     (''dhcp.delete_pool_failed'', ''Unable to delete pool''),
     (''dhcp.create_reservation_failed'', ''Unable to create reservation''),
     (''dhcp.delete_reservation_failed'', ''Unable to delete reservation''),
     (''dhcp.delete_lease_failed'', ''Unable to delete lease''),
     (''dhcp.pools'', ''DHCP pooly''),
     (''dhcp.add_pool'', ''P'' @ uni [0x159] @ ''idat pool''),
     (''dhcp.pool_name'', ''N'' @ uni [0xE1] @ ''zev poolu''),
     (''dhcp.interface'', ''Rozhran'' @ uni [0xED]),
     (''dhcp.subnet_cidr'', ''Pods'' @ uni [0xED, 0x165] @ '' (CIDR)''),
     (''dhcp.subnet'', ''Pods'' @ uni [0xED, 0x165]),
     (''dhcp.gateway'', ''Br'' @ uni [0xE1] @ ''na''),
     (''dhcp.dns_servers'', ''DNS servery''),
     (''dhcp.lease_seconds'', ''Doba pron'' @ uni [0xE1] @ ''jmu (sekundy)''),
     (''dhcp.leases_label'', ''Pron'' @ uni [0xE1] @ ''jmy''),
     (''dhcp.create'', ''Vytvo'' @ uni [0x159] @ ''it''),
     (''dhcp.no_pools'', ''Nejsou nakonfigurov'' @ uni [0xE1] @ ''ny '' @ uni [0x17E, 0xE1] @ ''dn'' @ uni [0xE9] @ '' DHCP pooly. Vytvo'' @ uni [0x159] @ ''te jeden pro p'' @ uni [0x159] @ ''id'' @ uni [0x11B] @ ''lov'' @ uni [0xE1] @ ''n'' @ uni [0xED] @ '' pron'' @ uni [0xE1] @ ''jm'' @ uni [0x16F] @ ''.''),
     (''dhcp.reservations'', ''Statick'' @ uni [0xE9] @ '' rezervace''),
     (''dhcp.mac_address'', ''MAC adresa''),
     (''dhcp.ip_address'', ''IP adresa''),
     (''dhcp.hostname'', ''N'' @ uni [0xE1] @ ''zev hostitele''),
     (''dhcp.add'', ''P'' @ uni [0x159] @ ''idat''),
     (''dhcp.active_leases'', ''Aktivn'' @ uni [0xED] @ '' pron'' @ uni [0xE1] @ ''jmy''),
     (''dhcp.expires'', ''Vypr'' @ uni [0x161, 0xED]),
     (''dhcp.no_leases'', uni [0x17D, 0xE1] @ ''dn'' @ uni [0xE9] @ '' aktivn'' @ uni [0xED] @ '' pron'' @ uni [0xE1] @ ''jmy.''),
     (''dhcp.expired'', ''Vypr'' @ uni [0x161] @ ''elo''),
     (''dhcp.confirm_delete_pool'', ''Smazat tento pool a v'' @ uni [0x161] @ ''echny jeho rezervace?''),
     (''dhcp.name'', ''N'' @ uni [0xE1] @ ''zev''),
     (''app.nav.cluster'', ''Klast''),
     (''app.title.cluster'', ''P'' @ uni [0x159] @ ''ehled klastu''),
     (''cluster.loading'', ''Na'' @ uni [0x10D, 0xED] @ ''t'' @ uni [0xE1] @ ''n'' @ uni [0xED] @ '' dat klastu'' @ uni [0x2026]),
     (''cluster.load_failed'', ''Unable to load cluster data''),
     (''cluster.name'', ''N'' @ uni [0xE1] @ ''zev''),
     (''cluster.status'', ''Stav''),
     (''cluster.version'', ''Verze''),
     (''cluster.last_seen'', ''Naposledy vid'' @ uni [0x11B] @ ''n''),
     (''cluster.config_history'', ''Historie konfigurace''),
     (''cluster.no_versions'', ''Nejsou zaznamen'' @ uni [0xE1] @ ''ny '' @ uni [0x17E, 0xE1] @ ''dn'' @ uni [0xE9] @ '' verze konfigurace.''),
     (''cluster.hash'', ''Otisk''),
     (''cluster.applied_by'', ''Aplikoval''),
     (''cluster.applied_at'', ''Aplikov'' @ uni [0xE1] @ ''no v''),
     (''app.nav.group_dns'', ''DNS''),
     (''app.nav.group_network'', ''S'' @ uni [0xED, 0x165]),
     (''app.nav.group_system'', ''Syst'' @ uni [0xE9] @ ''m''),
     (''app.menu_open'', ''Otev'' @ uni [0x159, 0xED] @ ''t navigaci''),
     (''app.menu_close'', ''Zav'' @ uni [0x159, 0xED] @ ''t navigaci''),
     (''app.theme_to_dark'', ''P'' @ uni [0x159] @ ''epnout na tmav'' @ uni [0xFD] @ '' motiv''),
     (''app.theme_to_light'', ''P'' @ uni [0x159] @ ''epnout na sv'' @ uni [0x11B] @ ''tl'' @ uni [0xFD] @ '' motiv''),
     (''app.signed_in_as'', ''P'' @ uni [0x159] @ ''ihl'' @ uni [0xE1, 0x161] @ ''en jako''),
     (''app.subtitle.zones'', ''Autoritativn'' @ uni [0xED] @ '' n'' @ uni [0xE1] @ ''zvy pro za'' @ uni [0x159, 0xED] @ ''zen'' @ uni [0xED] @ '' a slu'' @ uni [0x17E] @ ''by ve va'' @ uni [0x161, 0xED] @ '' s'' @ uni [0xED] @ ''ti.''),
     (''app.subtitle.queries'', ''Ned'' @ uni [0xE1] @ ''vn'' @ uni [0xE9] @ '' dotazy zodpov'' @ uni [0x11B] @ ''zen'' @ uni [0xE9] @ '' t'' @ uni [0xED] @ ''mto resolverem.''),
     (''app.subtitle.blocklists'', ''Seznamy dom'' @ uni [0xE9] @ ''n, kter'' @ uni [0xE9] @ '' jsou zodpov'' @ uni [0x11B] @ ''zeny jako blokovan'' @ uni [0xE9] @ ''.''),
     (''app.subtitle.cache'', ''Odpov'' @ uni [0x11B] @ ''di v pam'' @ uni [0x11B] @ ''ti pro rychlej'' @ uni [0x161, 0xED] @ '' opakovan'' @ uni [0xE9] @ '' dotazy.''),
     (''app.subtitle.settings'', ''Resolver, webov'' @ uni [0xE9] @ '' rozhran'' @ uni [0xED] @ '' a osobn'' @ uni [0xED] @ '' p'' @ uni [0x159] @ ''edvolby.''),
     (''app.subtitle.updates'', ''Nainstalovan'' @ uni [0xE1] @ '' verze, dostupn'' @ uni [0xE1] @ '' vyd'' @ uni [0xE1] @ ''n'' @ uni [0xED] @ '' a historie aktualizac'' @ uni [0xED] @ ''.''),
     (''app.subtitle.backup'', ''Vytv'' @ uni [0xE1, 0x159] @ ''ejte '' @ uni [0x161] @ ''ifrovan'' @ uni [0xE9] @ '' z'' @ uni [0xE1] @ ''lohy a ov'' @ uni [0x11B, 0x159] @ ''ujte existuj'' @ uni [0xED] @ ''c'' @ uni [0xED] @ ''.''),
     (''app.subtitle.dhcp'', ''Rozsahy adres, rezervace a aktivn'' @ uni [0xED] @ '' z'' @ uni [0xE1] @ ''p'' @ uni [0x16F] @ ''j'' @ uni [0x10D] @ ''ky.''),
     (''app.subtitle.cluster'', ''Udr'' @ uni [0x17E] @ ''ujte m'' @ uni [0xED] @ ''stn'' @ uni [0xED] @ '' z'' @ uni [0xF3] @ ''ny shodn'' @ uni [0xE9] @ '' na v'' @ uni [0xED] @ ''ce serverech Velora DNS.''),
     (''app.subtitle.diagnostics'', ''Stav komponent a sd'' @ uni [0xED] @ ''liteln'' @ uni [0xE1] @ '' zpr'' @ uni [0xE1] @ ''va pro podporu.''),
     (''app.subtitle.events'', ''V'' @ uni [0x11B] @ ''ci, kter'' @ uni [0xE9] @ '' vy'' @ uni [0x17E] @ ''aduj'' @ uni [0xED] @ '' va'' @ uni [0x161] @ ''i pozornost.''),
     (''app.subtitle.audit'', ''Kdo co zm'' @ uni [0x11B] @ ''nil a kdy.''),
     (''settings.preferences'', ''P'' @ uni [0x159] @ ''edvolby''),
     (''dashboard.general_statistics'', ''Obecn'' @ uni [0xE9] @ '' statistiky''),
     (''dashboard.blocked'', ''Blokov'' @ uni [0xE1] @ ''no filtry''),
     (''dashboard.of_all_queries'', ''ze v'' @ uni [0x161] @ ''ech dotaz'' @ uni [0x16F]),
     (''dashboard.query_logging'', ''Protokol dotaz'' @ uni [0x16F]),
     (''dashboard.enabled'', ''Zapnuto''),
     (''dashboard.disabled'', ''Vypnuto''),
     (''dashboard.requests'', ''Po'' @ uni [0x17E] @ ''adavky''),
     (''dashboard.domain'', ''Dom'' @ uni [0xE9] @ ''na''),
     (''dashboard.client'', ''Klient''),
     (''dashboard.upstream_servers'', ''Nad'' @ uni [0x159] @ ''azen'' @ uni [0xE9] @ '' servery''),
     (''dashboard.collecting_samples'', ''Sb'' @ uni [0xED] @ ''r'' @ uni [0xE1] @ ''n'' @ uni [0xED] @ '' vzork'' @ uni [0x16F, 0x2026]),
     (''cache.search_label'', ''Hledat podle n'' @ uni [0xE1] @ ''zvu''),
     (''cache.search_placeholder'', ''example.org''),
     (''cache.all_types'', ''V'' @ uni [0x161] @ ''echny typy''),
     (''cache.remove_entry'', ''Odebrat z mezipam'' @ uni [0x11B] @ ''ti''),
     (''cache.invalidate_title'', ''Zneplatnit dom'' @ uni [0xE9] @ ''nu''),
     (''cache.invalidate_text'', ''Odebere odpov'' @ uni [0x11B] @ ''di pro jeden n'' @ uni [0xE1] @ ''zev bez vymaz'' @ uni [0xE1] @ ''n'' @ uni [0xED] @ '' cel'' @ uni [0xE9] @ '' mezipam'' @ uni [0x11B] @ ''ti.''),
     (''cache.domain'', ''Dom'' @ uni [0xE9] @ ''na''),
     (''cache.include_subdomains'', ''V'' @ uni [0x10D] @ ''etn'' @ uni [0x11B] @ '' subdom'' @ uni [0xE9] @ ''n''),
     (''cache.invalidate'', ''Zneplatnit''),
     (''cache.removed_entries'', ''Odebran'' @ uni [0xE9] @ '' polo'' @ uni [0x17E] @ ''ky''),
     (''cache.invalidate_failed'', ''Zneplatn'' @ uni [0x11B] @ ''n'' @ uni [0xED] @ '' selhalo''),
     (''cache.flush_confirm'', ''Vymazat v'' @ uni [0x161] @ ''echny odpov'' @ uni [0x11B] @ ''di v mezipam'' @ uni [0x11B] @ ''ti? Po'' @ uni [0x10D, 0xED] @ ''tadla z'' @ uni [0xE1] @ ''sah'' @ uni [0x16F] @ '' a chyb z'' @ uni [0x16F] @ ''stanou zachov'' @ uni [0xE1] @ ''na.''),
     (''cache.no_matches'', ''Filtru neodpov'' @ uni [0xED] @ ''daj'' @ uni [0xED] @ '' '' @ uni [0x17E, 0xE1] @ ''dn'' @ uni [0xE9] @ '' polo'' @ uni [0x17E] @ ''ky.''),
     (''blocklists.schedule'', ''Pl'' @ uni [0xE1] @ ''n aktualizac'' @ uni [0xED]),
     (''blocklists.schedule_for'', ''Pl'' @ uni [0xE1] @ ''n aktualizac'' @ uni [0xED] @ '' pro''),
     (''blocklists.manual'', ''Ru'' @ uni [0x10D] @ ''n'' @ uni [0x11B]),
     (''blocklists.every_1h'', ''Ka'' @ uni [0x17E] @ ''dou hodinu''),
     (''blocklists.every_6h'', ''Ka'' @ uni [0x17E] @ ''d'' @ uni [0xFD] @ ''ch 6 hodin''),
     (''blocklists.every_12h'', ''Ka'' @ uni [0x17E] @ ''d'' @ uni [0xFD] @ ''ch 12 hodin''),
     (''blocklists.every_24h'', ''Denn'' @ uni [0x11B]),
     (''blocklists.every_7d'', ''T'' @ uni [0xFD] @ ''dn'' @ uni [0x11B]),
     (''blocklists.col_next_update'', ''Dal'' @ uni [0x161, 0xED] @ '' aktualizace''),
     (''blocklists.due_now'', ''Nyn'' @ uni [0xED]),
     (''blocklists.never_updated'', ''Nikdy neaktualizov'' @ uni [0xE1] @ ''no''),
     (''blocklists.retry_count'', ''ne'' @ uni [0xFA] @ ''sp'' @ uni [0x11B, 0x161] @ ''n'' @ uni [0xE9] @ '' pokusy''),
     (''blocklists.schedule_failed'', ''Pl'' @ uni [0xE1] @ ''n nelze zm'' @ uni [0x11B] @ ''nit''),
     (''app.nav.forwarding'', ''Podm'' @ uni [0xED] @ ''n'' @ uni [0x11B] @ ''n'' @ uni [0xE9] @ '' p'' @ uni [0x159] @ ''epos'' @ uni [0xED] @ ''l'' @ uni [0xE1] @ ''n'' @ uni [0xED]),
     (''app.title.forwarding'', ''Podm'' @ uni [0xED] @ ''n'' @ uni [0x11B] @ ''n'' @ uni [0xE9] @ '' p'' @ uni [0x159] @ ''epos'' @ uni [0xED] @ ''l'' @ uni [0xE1] @ ''n'' @ uni [0xED]),
     (''app.subtitle.forwarding'', ''Pos'' @ uni [0xED] @ ''lejte dotazy pro vybran'' @ uni [0xE9] @ '' dom'' @ uni [0xE9] @ ''ny na vyhrazen'' @ uni [0xE9] @ '' resolvery.''),
     (''forwarding.count'', ''pravidla p'' @ uni [0x159] @ ''epos'' @ uni [0xED] @ ''l'' @ uni [0xE1] @ ''n'' @ uni [0xED]),
     (''forwarding.add'', ''P'' @ uni [0x159] @ ''idat pravidlo''),
     (''forwarding.add_title'', ''Nov'' @ uni [0xE9] @ '' pravidlo p'' @ uni [0x159] @ ''epos'' @ uni [0xED] @ ''l'' @ uni [0xE1] @ ''n'' @ uni [0xED]),
     (''forwarding.edit_title'', ''Upravit pravidlo p'' @ uni [0x159] @ ''epos'' @ uni [0xED] @ ''l'' @ uni [0xE1] @ ''n'' @ uni [0xED]),
     (''forwarding.form_hint'', ''Pravidlo plat'' @ uni [0xED] @ '' i pro v'' @ uni [0x161] @ ''echny n'' @ uni [0xE1] @ ''zvy pod dom'' @ uni [0xE9] @ ''nou. Vyhr'' @ uni [0xE1] @ ''v'' @ uni [0xE1] @ '' nejkonkr'' @ uni [0xE9] @ ''tn'' @ uni [0x11B] @ ''j'' @ uni [0x161, 0xED] @ '' aktivn'' @ uni [0xED] @ '' pravidlo.''),
     (''forwarding.domain'', ''Dom'' @ uni [0xE9] @ ''na''),
     (''forwarding.upstreams'', ''Resolvery''),
     (''forwarding.upstreams_hint'', ''1'' @ uni [0x2013] @ ''4 adresy jako IP nebo IP:port odd'' @ uni [0x11B] @ ''len'' @ uni [0xE9] @ '' '' @ uni [0x10D, 0xE1] @ ''rkami. Bez portu se pou'' @ uni [0x17E] @ ''ije 53.''),
     (''forwarding.description'', ''Popis''),
     (''forwarding.enabled'', ''Zapnuto''),
     (''forwarding.save'', ''Ulo'' @ uni [0x17E] @ ''it pravidlo'')]\<close>

definition dict_cs_6 :: text_table where
  \<open>dict_cs_6 = [
     (''forwarding.cancel'', ''Zru'' @ uni [0x161] @ ''it''),
     (''forwarding.empty_title'', uni [0x17D, 0xE1] @ ''dn'' @ uni [0xE1] @ '' pravidla p'' @ uni [0x159] @ ''epos'' @ uni [0xED] @ ''l'' @ uni [0xE1] @ ''n'' @ uni [0xED]),
     (''forwarding.empty_text'', ''V'' @ uni [0x161] @ ''echny dotazy pou'' @ uni [0x17E, 0xED] @ ''vaj'' @ uni [0xED] @ '' glob'' @ uni [0xE1] @ ''ln'' @ uni [0xED] @ '' resolvery. P'' @ uni [0x159] @ ''idejte pravidlo pro p'' @ uni [0x159] @ ''eklad dom'' @ uni [0xE9] @ ''ny jako corp.example p'' @ uni [0x159] @ ''es intern'' @ uni [0xED] @ '' DNS server.''),
     (''forwarding.col_status'', ''Stav''),
     (''forwarding.test'', ''Otestovat''),
     (''forwarding.test_title'', ''Otestovat pravidlo''),
     (''forwarding.test_hint'', ''Ode'' @ uni [0x161] @ ''le jeden dotaz jen p'' @ uni [0x159] @ ''es resolvery tohoto pravidla, bez mezipam'' @ uni [0x11B] @ ''ti.''),
     (''forwarding.test_name'', ''N'' @ uni [0xE1] @ ''zev''),
     (''forwarding.test_type'', ''Typ''),
     (''forwarding.run_test'', ''Spustit test''),
     (''forwarding.test_via'', ''p'' @ uni [0x159] @ ''es''),
     (''forwarding.no_answers'', uni [0x17D, 0xE1] @ ''dn'' @ uni [0xE9] @ '' z'' @ uni [0xE1] @ ''znamy odpov'' @ uni [0x11B] @ ''di''),
     (''forwarding.edit'', ''Upravit''),
     (''forwarding.delete'', ''Smazat''),
     (''forwarding.delete_confirm'', ''Smazat pravidlo p'' @ uni [0x159] @ ''epos'' @ uni [0xED] @ ''l'' @ uni [0xE1] @ ''n'' @ uni [0xED] @ '' pro''),
     (''forwarding.toggle'', ''Zapnout nebo vypnout pravidlo pro''),
     (''forwarding.load_failed'', ''Pravidla nelze na'' @ uni [0x10D, 0xED] @ ''st''),
     (''forwarding.save_failed'', ''Pravidlo nelze ulo'' @ uni [0x17E] @ ''it''),
     (''forwarding.saved'', ''Pravidlo ulo'' @ uni [0x17E] @ ''eno. Odpov'' @ uni [0x11B] @ ''di dom'' @ uni [0xE9] @ ''ny v mezipam'' @ uni [0x11B] @ ''ti byly vymaz'' @ uni [0xE1] @ ''ny.''),
     (''forwarding.disabled'', ''Vypnuto''),
     (''app.nav.rewrites'', ''P'' @ uni [0x159] @ ''episy DNS''),
     (''app.title.rewrites'', ''P'' @ uni [0x159] @ ''episy DNS''),
     (''app.subtitle.rewrites'', ''Odpov'' @ uni [0xED] @ ''dejte na vybran'' @ uni [0xE9] @ '' n'' @ uni [0xE1] @ ''zvy pevn'' @ uni [0xFD] @ ''mi adresami nebo aliasy.''),
     (''rewrites.count'', ''p'' @ uni [0x159] @ ''epis'' @ uni [0x16F]),
     (''rewrites.add'', ''P'' @ uni [0x159] @ ''idat p'' @ uni [0x159] @ ''epis''),
     (''rewrites.add_title'', ''Nov'' @ uni [0xFD] @ '' p'' @ uni [0x159] @ ''epis''),
     (''rewrites.edit_title'', ''Upravit p'' @ uni [0x159] @ ''epis''),
     (''rewrites.form_hint'', ''Pou'' @ uni [0x17E] @ ''ijte *.rodi'' @ uni [0x10D] @ '' pro v'' @ uni [0x161] @ ''echny n'' @ uni [0xE1] @ ''zvy pod dom'' @ uni [0xE9] @ ''nou. P'' @ uni [0x159] @ ''esn'' @ uni [0xE9] @ '' n'' @ uni [0xE1] @ ''zvy maj'' @ uni [0xED] @ '' p'' @ uni [0x159] @ ''ednost p'' @ uni [0x159] @ ''ed z'' @ uni [0xE1] @ ''stupn'' @ uni [0xFD] @ ''mi.''),
     (''rewrites.name'', ''N'' @ uni [0xE1] @ ''zev''),
     (''rewrites.type'', ''Typ''),
     (''rewrites.value'', ''Odpov'' @ uni [0x11B, 0x10F]),
     (''rewrites.value_hint_A'', ''Adresa IPv4''),
     (''rewrites.value_hint_AAAA'', ''Adresa IPv6''),
     (''rewrites.value_hint_CNAME'', ''C'' @ uni [0xED] @ ''lov'' @ uni [0xFD] @ '' n'' @ uni [0xE1] @ ''zev hostitele, p'' @ uni [0x159] @ ''elo'' @ uni [0x17E] @ ''en b'' @ uni [0x11B, 0x17E] @ ''n'' @ uni [0x11B]),
     (''rewrites.description'', ''Popis''),
     (''rewrites.enabled'', ''Zapnuto''),
     (''rewrites.save'', ''Ulo'' @ uni [0x17E] @ ''it p'' @ uni [0x159] @ ''epis''),
     (''rewrites.empty_title'', uni [0x17D, 0xE1] @ ''dn'' @ uni [0xE9] @ '' p'' @ uni [0x159] @ ''episy DNS''),
     (''rewrites.empty_text'', ''P'' @ uni [0x159] @ ''i'' @ uni [0x159] @ ''a'' @ uni [0x10F] @ ''te n'' @ uni [0xE1] @ ''zev jako nas.home k adrese bez vytvo'' @ uni [0x159] @ ''en'' @ uni [0xED] @ '' z'' @ uni [0xF3] @ ''ny.''),
     (''rewrites.col_notes'', ''Pozn'' @ uni [0xE1] @ ''mky''),
     (''rewrites.blocked_hint'', ''Nejprve blokov'' @ uni [0xE1] @ ''no seznamem blokov'' @ uni [0xE1] @ ''n'' @ uni [0xED]),
     (''rewrites.overrides_hint'', ''P'' @ uni [0x159] @ ''episuje m'' @ uni [0xED] @ ''stn'' @ uni [0xED] @ '' z'' @ uni [0xF3] @ ''nu''),
     (''rewrites.edit'', ''Upravit''),
     (''rewrites.delete'', ''Smazat''),
     (''rewrites.delete_confirm'', ''Smazat tento p'' @ uni [0x159] @ ''epis?''),
     (''rewrites.toggle'', ''Zapnout nebo vypnout p'' @ uni [0x159] @ ''epis pro''),
     (''rewrites.search'', ''Filtrovat p'' @ uni [0x159] @ ''episy''),
     (''rewrites.load_failed'', ''P'' @ uni [0x159] @ ''episy nelze na'' @ uni [0x10D, 0xED] @ ''st''),
     (''rewrites.save_failed'', ''P'' @ uni [0x159] @ ''epis nelze ulo'' @ uni [0x17E] @ ''it''),
     (''rewrites.saved'', ''P'' @ uni [0x159] @ ''epis ulo'' @ uni [0x17E] @ ''en a pou'' @ uni [0x17E] @ ''it.''),
     (''app.nav.clients'', ''Klienti''),
     (''app.title.clients'', ''Klienti a za'' @ uni [0x159, 0xED] @ ''zen'' @ uni [0xED]),
     (''app.subtitle.clients'', ''Pojmenujte adresy a s'' @ uni [0xED] @ ''t'' @ uni [0x11B] @ ''; n'' @ uni [0xE1] @ ''zvy se pou'' @ uni [0x17E] @ ''ij'' @ uni [0xED] @ '' v cel'' @ uni [0xE9] @ '' Velo'' @ uni [0x159] @ ''e.''),
     (''clients.count'', ''klient'' @ uni [0x16F]),
     (''clients.add'', ''P'' @ uni [0x159] @ ''idat klienta''),
     (''clients.add_title'', ''Nov'' @ uni [0xFD] @ '' klient''),
     (''clients.edit_title'', ''Upravit klienta''),
     (''clients.form_hint'', ''P'' @ uni [0x159] @ ''i p'' @ uni [0x159] @ ''ekryvu s'' @ uni [0xED] @ ''t'' @ uni [0xED] @ '' vyhr'' @ uni [0xE1] @ ''v'' @ uni [0xE1] @ '' nejkonkr'' @ uni [0xE9] @ ''tn'' @ uni [0x11B] @ ''j'' @ uni [0x161, 0xED] @ ''. Za'' @ uni [0x159, 0xED] @ ''zen'' @ uni [0xED] @ ''m s DHCP nejprve p'' @ uni [0x159] @ ''id'' @ uni [0x11B] @ ''lte pevnou adresu.''),
     (''clients.name'', ''N'' @ uni [0xE1] @ ''zev''),
     (''clients.addresses'', ''Adresy''),
     (''clients.addresses_hint'', ''IP adresy nebo s'' @ uni [0xED] @ ''t'' @ uni [0x11B] @ '' CIDR odd'' @ uni [0x11B] @ ''len'' @ uni [0xE9] @ '' '' @ uni [0x10D, 0xE1] @ ''rkami.''),
     (''clients.group'', ''Skupina''),
     (''clients.description'', ''Popis''),
     (''clients.enabled'', ''Zapnuto''),
     (''clients.save'', ''Ulo'' @ uni [0x17E] @ ''it klienta''),
     (''clients.activity'', ''Posledn'' @ uni [0xED] @ ''ch 24 hodin''),
     (''clients.queries'', ''dotaz'' @ uni [0x16F]),
     (''clients.last_seen'', ''Naposledy vid'' @ uni [0x11B] @ ''n''),
     (''clients.no_activity'', uni [0x17D, 0xE1] @ ''dn'' @ uni [0xE9] @ '' dotazy''),
     (''clients.view_queries'', ''Zobrazit dotazy''),
     (''clients.empty_title'', uni [0x17D, 0xE1] @ ''dn'' @ uni [0xED] @ '' pojmenovan'' @ uni [0xED] @ '' klienti''),
     (''clients.empty_text'', ''Pojmenujte za'' @ uni [0x159, 0xED] @ ''zen'' @ uni [0xED] @ '' jako televizi nebo Home Assistant, aby byla v protokolu dotaz'' @ uni [0x16F] @ '' snadno rozpoznateln'' @ uni [0xE1] @ ''.''),
     (''clients.unnamed_title'', ''Ned'' @ uni [0xE1] @ ''vno vid'' @ uni [0x11B] @ ''n'' @ uni [0xE9] @ '' bez n'' @ uni [0xE1] @ ''zvu''),
     (''clients.unnamed_text'', ''Nejaktivn'' @ uni [0x11B] @ ''j'' @ uni [0x161, 0xED] @ '' adresy za posledn'' @ uni [0xED] @ ''ch 24 hodin bez klienta.''),
     (''clients.name_it'', ''Pojmenovat za'' @ uni [0x159, 0xED] @ ''zen'' @ uni [0xED]),
     (''clients.edit'', ''Upravit''),
     (''clients.delete'', ''Smazat''),
     (''clients.delete_confirm'', ''Smazat klienta''),
     (''clients.toggle'', ''Zapnout nebo vypnout klienta''),
     (''clients.load_failed'', ''Klienty nelze na'' @ uni [0x10D, 0xED] @ ''st''),
     (''clients.save_failed'', ''Klienta nelze ulo'' @ uni [0x17E] @ ''it''),
     (''clients.saved'', ''Klient ulo'' @ uni [0x17E] @ ''en.''),
     (''clients.logging_off'', ''Pro zobrazen'' @ uni [0xED] @ '' aktivity zapn'' @ uni [0x11B] @ ''te protokol dotaz'' @ uni [0x16F] @ ''.''),
     (''app.nav.policies'', ''Z'' @ uni [0xE1] @ ''sady klient'' @ uni [0x16F]),
     (''app.title.policies'', ''Z'' @ uni [0xE1] @ ''sady filtrov'' @ uni [0xE1] @ ''n'' @ uni [0xED] @ '' klient'' @ uni [0x16F]),
     (''app.subtitle.policies'', ''Ur'' @ uni [0x10D] @ ''ete, jak se blokov'' @ uni [0xE1] @ ''n'' @ uni [0xED] @ '' uplatn'' @ uni [0xED] @ '' na jednotliv'' @ uni [0xE9] @ '' klienty.''),
     (''policies.load_failed'', ''Z'' @ uni [0xE1] @ ''sady se nepoda'' @ uni [0x159] @ ''ilo na'' @ uni [0x10D, 0xED] @ ''st.''),
     (''policies.save_failed'', ''Z'' @ uni [0xE1] @ ''sadu se nepoda'' @ uni [0x159] @ ''ilo ulo'' @ uni [0x17E] @ ''it.''),
     (''policies.saved'', ''Z'' @ uni [0xE1] @ ''sada ulo'' @ uni [0x17E] @ ''ena.''),
     (''policies.lookup'', ''Ov'' @ uni [0x11B, 0x159] @ ''it adresu''),
     (''policies.add'', ''P'' @ uni [0x159] @ ''idat z'' @ uni [0xE1] @ ''sadu''),
     (''policies.add_title'', ''Nov'' @ uni [0xE1] @ '' z'' @ uni [0xE1] @ ''sada''),
     (''policies.edit_title'', ''Upravit z'' @ uni [0xE1] @ ''sadu''),
     (''policies.form_hint'', ''O z'' @ uni [0xE1] @ ''sad'' @ uni [0x11B] @ '' pro adresu rozhoduje nejkonkr'' @ uni [0xE9] @ ''tn'' @ uni [0x11B] @ ''j'' @ uni [0x161, 0xED] @ '' s'' @ uni [0xED, 0x165] @ '' klienta.''),
     (''policies.client'', ''Klient''),
     (''policies.mode'', ''Filtrov'' @ uni [0xE1] @ ''n'' @ uni [0xED]),
     (''policies.mode_default'', ''Glob'' @ uni [0xE1] @ ''ln'' @ uni [0xED]),
     (''policies.mode_disabled'', ''Bez filtrov'' @ uni [0xE1] @ ''n'' @ uni [0xED]),
     (''policies.mode_custom'', ''Vlastn'' @ uni [0xED]),
     (''policies.mode_default_hint'', ''Stejn'' @ uni [0xE9] @ '' seznamy blokovan'' @ uni [0xFD] @ ''ch a povolen'' @ uni [0xFD] @ ''ch jako ostatn'' @ uni [0xED] @ ''.''),
     (''policies.mode_disabled_hint'', ''Pro tohoto klienta se nic neblokuje.''),
     (''policies.mode_custom_hint'', ''Pouze vybran'' @ uni [0xE9] @ '' seznamy a vlastn'' @ uni [0xED] @ '' dom'' @ uni [0xE9] @ ''ny.''),
     (''policies.blocklists'', ''Seznamy blokov'' @ uni [0xE1] @ ''n'' @ uni [0xED]),
     (''policies.no_sources'', ''Zat'' @ uni [0xED] @ ''m '' @ uni [0x17E, 0xE1] @ ''dn'' @ uni [0xE9] @ '' seznamy blokov'' @ uni [0xE1] @ ''n'' @ uni [0xED] @ ''.''),
     (''policies.globally_off'', ''glob'' @ uni [0xE1] @ ''ln'' @ uni [0x11B] @ '' vypnuto''),
     (''policies.block'', ''Tak'' @ uni [0xE9] @ '' blokovat''),
     (''policies.allow'', ''V'' @ uni [0x17E] @ ''dy povolit''),
     (''policies.domains_hint'', ''Jedna dom'' @ uni [0xE9] @ ''na na '' @ uni [0x159, 0xE1] @ ''dek; v'' @ uni [0x10D] @ ''etn'' @ uni [0x11B] @ '' subdom'' @ uni [0xE9] @ ''n.''),
     (''policies.allow_hint'', ''M'' @ uni [0xE1] @ '' p'' @ uni [0x159] @ ''ednost p'' @ uni [0x159] @ ''ed v'' @ uni [0x161] @ ''emi seznamy pro tohoto klienta.''),
     (''policies.enabled'', ''Z'' @ uni [0xE1] @ ''sada aktivn'' @ uni [0xED]),
     (''policies.save'', ''Ulo'' @ uni [0x17E] @ ''it z'' @ uni [0xE1] @ ''sadu''),
     (''policies.empty_title'', uni [0x17D, 0xE1] @ ''dn'' @ uni [0xE9] @ '' z'' @ uni [0xE1] @ ''sady klient'' @ uni [0x16F]),
     (''policies.empty_text'', ''V'' @ uni [0x161] @ ''ichni klienti pou'' @ uni [0x17E, 0xED] @ ''vaj'' @ uni [0xED] @ '' glob'' @ uni [0xE1] @ ''ln'' @ uni [0xED] @ '' seznamy. P'' @ uni [0x159] @ ''idejte z'' @ uni [0xE1] @ ''sadu pro p'' @ uni [0x159, 0xED] @ ''sn'' @ uni [0x11B] @ ''j'' @ uni [0x161, 0xED] @ '', m'' @ uni [0xED] @ ''rn'' @ uni [0x11B] @ ''j'' @ uni [0x161, 0xED] @ '' nebo '' @ uni [0x17E, 0xE1] @ ''dn'' @ uni [0xE9] @ '' filtrov'' @ uni [0xE1] @ ''n'' @ uni [0xED] @ '' za'' @ uni [0x159, 0xED] @ ''zen'' @ uni [0xED] @ ''.''),
     (''policies.need_clients'', ''Z'' @ uni [0xE1] @ ''sady plat'' @ uni [0xED] @ '' pro pojmenovan'' @ uni [0xE9] @ '' klienty. Nejprve pojmenujte za'' @ uni [0x159, 0xED] @ ''zen'' @ uni [0xED] @ '':''),
     (''policies.details'', ''Podrobnosti''),
     (''policies.summary_disabled'', ''V'' @ uni [0x161] @ ''echny dotazy bez filtrov'' @ uni [0xE1] @ ''n'' @ uni [0xED]),
     (''policies.summary_default'', ''Pou'' @ uni [0x17E, 0xED] @ ''v'' @ uni [0xE1] @ '' glob'' @ uni [0xE1] @ ''ln'' @ uni [0xED] @ '' seznamy''),
     (''policies.no_lists'', ''Bez seznam'' @ uni [0x16F]),
     (''policies.blocked_short'', ''blokov'' @ uni [0xE1] @ ''no'')]\<close>

definition dict_cs_7 :: text_table where
  \<open>dict_cs_7 = [
     (''policies.allowed_short'', ''povoleno''),
     (''policies.paused'', ''Pozastaveno''),
     (''policies.toggle'', ''Z'' @ uni [0xE1] @ ''sada aktivn'' @ uni [0xED]),
     (''policies.edit'', ''Upravit z'' @ uni [0xE1] @ ''sadu''),
     (''policies.delete'', ''Smazat z'' @ uni [0xE1] @ ''sadu''),
     (''policies.delete_confirm'', ''Odebrat z'' @ uni [0xE1] @ ''sadu pro''),
     (''policies.no_policy'', ''(bez z'' @ uni [0xE1] @ ''sady, glob'' @ uni [0xE1] @ ''ln'' @ uni [0xED] @ '' filtrov'' @ uni [0xE1] @ ''n'' @ uni [0xED] @ '')''),
     (''policies.unknown_address'', ''neodpov'' @ uni [0xED] @ ''d'' @ uni [0xE1] @ '' '' @ uni [0x17E, 0xE1] @ ''dn'' @ uni [0xE9] @ ''mu klientovi a pou'' @ uni [0x17E, 0xED] @ ''v'' @ uni [0xE1] @ '' glob'' @ uni [0xE1] @ ''ln'' @ uni [0xED] @ '' filtrov'' @ uni [0xE1] @ ''n'' @ uni [0xED] @ ''.''),
     (''app.nav.webhooks'', ''Webhooky''),
     (''app.title.webhooks'', ''Ozn'' @ uni [0xE1] @ ''men'' @ uni [0xED] @ '' p'' @ uni [0x159] @ ''es webhook''),
     (''app.subtitle.webhooks'', ''Pos'' @ uni [0xED] @ ''lejte d'' @ uni [0x16F] @ ''le'' @ uni [0x17E] @ ''it'' @ uni [0xE9] @ '' ud'' @ uni [0xE1] @ ''losti do jin'' @ uni [0xFD] @ ''ch syst'' @ uni [0xE9] @ ''m'' @ uni [0x16F] @ ''.''),
     (''webhooks.load_failed'', ''Webhooky se nepoda'' @ uni [0x159] @ ''ilo na'' @ uni [0x10D, 0xED] @ ''st.''),
     (''webhooks.save_failed'', ''Webhook se nepoda'' @ uni [0x159] @ ''ilo ulo'' @ uni [0x17E] @ ''it.''),
     (''webhooks.saved'', ''Webhook ulo'' @ uni [0x17E] @ ''en.''),
     (''webhooks.count'', ''webhook'' @ uni [0x16F]),
     (''webhooks.add'', ''P'' @ uni [0x159] @ ''idat webhook''),
     (''webhooks.add_title'', ''Nov'' @ uni [0xFD] @ '' webhook''),
     (''webhooks.edit_title'', ''Upravit webhook''),
     (''webhooks.form_hint'', ''Velora pro ka'' @ uni [0x17E] @ ''dou odpov'' @ uni [0xED] @ ''daj'' @ uni [0xED] @ ''c'' @ uni [0xED] @ '' ud'' @ uni [0xE1] @ ''lost ode'' @ uni [0x161] @ ''le po'' @ uni [0x17E] @ ''adavek JSON POST. Doru'' @ uni [0x10D] @ ''en'' @ uni [0xED] @ '' b'' @ uni [0x11B, 0x17E, 0xED] @ '' na pozad'' @ uni [0xED] @ '' a nikdy nezdr'' @ uni [0x17E] @ ''uje odpov'' @ uni [0x11B] @ ''di DNS.''),
     (''webhooks.name'', ''N'' @ uni [0xE1] @ ''zev''),
     (''webhooks.url'', ''URL''),
     (''webhooks.min_severity'', ''Minim'' @ uni [0xE1] @ ''ln'' @ uni [0xED] @ '' z'' @ uni [0xE1] @ ''va'' @ uni [0x17E] @ ''nost''),
     (''webhooks.severity_info'', ''Informace''),
     (''webhooks.severity_warning'', ''Varov'' @ uni [0xE1] @ ''n'' @ uni [0xED]),
     (''webhooks.severity_critical'', ''Kritick'' @ uni [0xE9]),
     (''webhooks.token'', ''Bearer token''),
     (''webhooks.token_hint'', ''Voliteln'' @ uni [0xE9] @ ''. Odes'' @ uni [0xED] @ ''l'' @ uni [0xE1] @ '' se v hlavi'' @ uni [0x10D] @ ''ce Authorization a u'' @ uni [0x17E] @ '' se nezobraz'' @ uni [0xED] @ ''.''),
     (''webhooks.token_stored'', ''Token ulo'' @ uni [0x17E] @ ''en''),
     (''webhooks.token_change'', ''Zm'' @ uni [0x11B] @ ''nit''),
     (''webhooks.token_remove_hint'', ''Ponechte pr'' @ uni [0xE1] @ ''zdn'' @ uni [0xE9] @ '' pro odebr'' @ uni [0xE1] @ ''n'' @ uni [0xED] @ '' tokenu''),
     (''webhooks.events'', ''Ud'' @ uni [0xE1] @ ''losti''),
     (''webhooks.events_hint'', ''Nevyberte nic, chcete-li p'' @ uni [0x159] @ ''ij'' @ uni [0xED] @ ''mat v'' @ uni [0x161] @ ''echny typy.''),
     (''webhooks.all_events'', ''V'' @ uni [0x161] @ ''echny ud'' @ uni [0xE1] @ ''losti''),
     (''webhooks.allow_private'', ''Povolit c'' @ uni [0xED] @ ''l v priv'' @ uni [0xE1] @ ''tn'' @ uni [0xED] @ '' s'' @ uni [0xED] @ ''ti (nap'' @ uni [0x159] @ ''. Home Assistant v LAN)''),
     (''webhooks.enabled'', ''Webhook aktivn'' @ uni [0xED]),
     (''webhooks.save'', ''Ulo'' @ uni [0x17E] @ ''it webhook''),
     (''webhooks.empty_title'', uni [0x17D, 0xE1] @ ''dn'' @ uni [0xE9] @ '' webhooky''),
     (''webhooks.empty_text'', ''P'' @ uni [0x159] @ ''idejte webhook a dozv'' @ uni [0xED] @ ''te se, kdy'' @ uni [0x17E] @ '' sel'' @ uni [0x17E] @ ''e upstream, seznam se neobnov'' @ uni [0xED] @ '' nebo sel'' @ uni [0x17E] @ ''e z'' @ uni [0xE1] @ ''loha.''),
     (''webhooks.last_delivery'', ''Posledn'' @ uni [0xED] @ '' doru'' @ uni [0x10D] @ ''en'' @ uni [0xED]),
     (''webhooks.never'', ''Zat'' @ uni [0xED] @ ''m nic neodesl'' @ uni [0xE1] @ ''no''),
     (''webhooks.failing'', ''Selh'' @ uni [0xE1] @ ''v'' @ uni [0xE1]),
     (''webhooks.toggle'', ''Webhook aktivn'' @ uni [0xED]),
     (''webhooks.test'', ''Odeslat test''),
     (''webhooks.test_ok'', ''Test doru'' @ uni [0x10D] @ ''en do''),
     (''webhooks.test_failed'', ''Test selhal pro''),
     (''webhooks.edit'', ''Upravit webhook''),
     (''webhooks.delete'', ''Smazat webhook''),
     (''webhooks.delete_confirm'', ''Smazat webhook''),
     (''app.nav.analytics'', ''Anal'' @ uni [0xFD] @ ''zy''),
     (''app.title.analytics'', ''Anal'' @ uni [0xFD] @ ''zy''),
     (''app.subtitle.analytics'', ''Aktivita DNS a v'' @ uni [0xFD] @ ''kon resolveru z uchovan'' @ uni [0xE9] @ '' historie dotaz'' @ uni [0x16F] @ ''.''),
     (''analytics.load_failed'', ''Anal'' @ uni [0xFD] @ ''zy se nepoda'' @ uni [0x159] @ ''ilo na'' @ uni [0x10D, 0xED] @ ''st.''),
     (''analytics.logging_off_title'', ''Protokol dotaz'' @ uni [0x16F] @ '' je vypnut'' @ uni [0xFD]),
     (''analytics.logging_off_text'', ''Anal'' @ uni [0xFD] @ ''zy vych'' @ uni [0xE1] @ ''zej'' @ uni [0xED] @ '' z historie dotaz'' @ uni [0x16F] @ ''. Zapn'' @ uni [0x11B] @ ''te protokol dotaz'' @ uni [0x16F] @ '':''),
     (''analytics.range'', uni [0x10C] @ ''asov'' @ uni [0xE9] @ '' obdob'' @ uni [0xED]),
     (''analytics.range_1h'', ''1 hodina''),
     (''analytics.range_24h'', ''24 hodin''),
     (''analytics.range_7d'', ''7 dn'' @ uni [0xED]),
     (''analytics.range_30d'', ''30 dn'' @ uni [0xED]),
     (''analytics.history_limited'', ''Historie dotaz'' @ uni [0x16F] @ '' sah'' @ uni [0xE1] @ '' jen do''),
     (''analytics.queries'', ''Dotazy''),
     (''analytics.blocked'', ''Blokov'' @ uni [0xE1] @ ''no''),
     (''analytics.allowed'', ''Povoleno''),
     (''analytics.cached'', ''Odpov'' @ uni [0x11B] @ ''di z cache''),
     (''analytics.answers'', ''odpov'' @ uni [0x11B] @ ''d'' @ uni [0xED]),
     (''analytics.avg_upstream'', ''Pr'' @ uni [0x16F] @ ''m. '' @ uni [0x10D] @ ''as upstreamu''),
     (''analytics.empty_title'', uni [0x17D, 0xE1] @ ''dn'' @ uni [0xE9] @ '' dotazy v tomto obdob'' @ uni [0xED]),
     (''analytics.empty_text'', ''Zvolte del'' @ uni [0x161, 0xED] @ '' obdob'' @ uni [0xED] @ '' nebo se vra'' @ uni [0x165] @ ''te pozd'' @ uni [0x11B] @ ''ji.''),
     (''analytics.over_time'', ''Dotazy v '' @ uni [0x10D] @ ''ase''),
     (''analytics.over_time_hint'', ''Naje'' @ uni [0x10F] @ ''te my'' @ uni [0x161, 0xED] @ '' nebo pou'' @ uni [0x17E] @ ''ijte '' @ uni [0x161] @ ''ipky.''),
     (''analytics.chart_aria'', ''Dotazy za interval, povolen'' @ uni [0xE9] @ '' a blokovan'' @ uni [0xE9]),
     (''analytics.show_table'', ''Zobrazit jako tabulku''),
     (''analytics.time'', uni [0x10C] @ ''as''),
     (''analytics.avg_time'', ''Pr'' @ uni [0x16F] @ ''m. '' @ uni [0x10D] @ ''as''),
     (''analytics.latency'', ''Doba odezvy upstreamu''),
     (''analytics.latency_hint'', ''Pr'' @ uni [0x16F] @ ''m'' @ uni [0x11B] @ ''r zodpov'' @ uni [0x11B] @ ''zen'' @ uni [0xFD] @ ''ch p'' @ uni [0x159] @ ''eposlan'' @ uni [0xFD] @ ''ch dotaz'' @ uni [0x16F] @ ''; mezery znamenaj'' @ uni [0xED] @ '' '' @ uni [0x17E, 0xE1] @ ''dn'' @ uni [0xFD] @ '' provoz.''),
     (''analytics.latency_aria'', ''Pr'' @ uni [0x16F] @ ''m'' @ uni [0x11B] @ ''rn'' @ uni [0xE1] @ '' doba odezvy upstreamu za interval''),
     (''analytics.query_types'', ''Typy dotaz'' @ uni [0x16F]),
     (''analytics.sources'', ''Zodpov'' @ uni [0x11B] @ ''zeno z''),
     (''analytics.source_upstream'', ''Upstream''),
     (''analytics.source_cache'', ''Cache''),
     (''analytics.source_blocked'', ''Blokov'' @ uni [0xE1] @ ''no''),
     (''analytics.source_local'', ''M'' @ uni [0xED] @ ''stn'' @ uni [0xED] @ '' z'' @ uni [0xF3] @ ''ny a p'' @ uni [0x159] @ ''episy''),
     (''analytics.source_refused'', ''Odm'' @ uni [0xED] @ ''tnuto''),
     (''analytics.response_codes'', ''K'' @ uni [0xF3] @ ''dy odpov'' @ uni [0x11B] @ ''d'' @ uni [0xED]),
     (''analytics.top_blocked'', ''Nej'' @ uni [0x10D] @ ''ast'' @ uni [0x11B] @ ''ji blokovan'' @ uni [0xE9] @ '' dom'' @ uni [0xE9] @ ''ny''),
     (''analytics.nothing_blocked'', ''V tomto obdob'' @ uni [0xED] @ '' nic blokov'' @ uni [0xE1] @ ''no''),
     (''analytics.upstreams'', ''Vyu'' @ uni [0x17E] @ ''it'' @ uni [0xED] @ '' upstream'' @ uni [0x16F]),
     (''analytics.upstreams_hint'', ''P'' @ uni [0x159] @ ''eposlan'' @ uni [0xE9] @ '' dotazy na resolver, odpov'' @ uni [0x11B] @ ''di SERVFAIL a pr'' @ uni [0x16F] @ ''m'' @ uni [0x11B] @ ''rn'' @ uni [0xFD] @ '' '' @ uni [0x10D] @ ''as.''),
     (''analytics.no_upstream'', ''V tomto obdob'' @ uni [0xED] @ '' '' @ uni [0x17E, 0xE1] @ ''dn'' @ uni [0xFD] @ '' provoz''),
     (''analytics.failures'', ''Chyby''),
     (''updates.check_prompt'', ''Zkontrolujte, zda je k dispozici nov'' @ uni [0x11B] @ ''j'' @ uni [0x161, 0xED] @ '' verze.''),
     (''updates.checking'', ''Hled'' @ uni [0xE1] @ ''n'' @ uni [0xED] @ '' aktualizac'' @ uni [0xED, 0x2026]),
     (''updates.starting'', ''Spou'' @ uni [0x161] @ ''t'' @ uni [0x11B] @ ''n'' @ uni [0xED] @ '' aktualizace'' @ uni [0x2026]),
     (''updates.updating_to'', ''Aktualizace na''),
     (''updates.completed_to'', ''Aktualizov'' @ uni [0xE1] @ ''no na''),
     (''updates.failed_title'', ''Aktualizace nebyla dokon'' @ uni [0x10D] @ ''ena''),
     (''updates.failed_text'', ''Aktualizace selhala. Velora b'' @ uni [0x11B, 0x17E, 0xED] @ '' na p'' @ uni [0x159] @ ''edchoz'' @ uni [0xED] @ '' verzi.''),
     (''updates.not_started'', ''Aktualiz'' @ uni [0xE1] @ ''tor nespustil aktualizaci. Ov'' @ uni [0x11B, 0x159] @ ''te, '' @ uni [0x17E] @ ''e b'' @ uni [0x11B, 0x17E, 0xED] @ '' velora-updater.service.''),
     (''updates.check_again'', ''Zkontrolovat znovu''),
     (''updates.update_now'', ''Aktualizovat''),
     (''updates.reload'', ''Znovu na'' @ uni [0x10D, 0xED] @ ''st str'' @ uni [0xE1] @ ''nku''),
     (''updates.reconnecting'', ''Velora se restartuje. '' @ uni [0x10C] @ ''ek'' @ uni [0xE1] @ ''n'' @ uni [0xED, 0x2026]),
     (''updates.keep_open'', ''Str'' @ uni [0xE1] @ ''nku m'' @ uni [0x16F, 0x17E] @ ''ete nechat otev'' @ uni [0x159] @ ''enou; aktualizuje se sama. DNS odpov'' @ uni [0xED] @ ''d'' @ uni [0xE1] @ '' z b'' @ uni [0x11B, 0x17E, 0xED] @ ''c'' @ uni [0xED] @ '' verze a'' @ uni [0x17E] @ '' do p'' @ uni [0x159] @ ''epnut'' @ uni [0xED] @ ''.''),
     (''updates.completed_text'', ''Aktualizace skon'' @ uni [0x10D] @ ''ila a pro'' @ uni [0x161] @ ''la kontrolami. Znovu na'' @ uni [0x10D] @ ''t'' @ uni [0x11B] @ ''te str'' @ uni [0xE1] @ ''nku pro nov'' @ uni [0xE9] @ '' rozhran'' @ uni [0xED] @ ''.''),
     (''updates.release_date'', ''Vyd'' @ uni [0xE1] @ ''no''),
     (''settings.entry'', ''Polo'' @ uni [0x17E] @ ''ka''),
     (''settings.fix_fields'', ''Nic se nezm'' @ uni [0x11B] @ ''nilo. Opravte zv'' @ uni [0xFD] @ ''razn'' @ uni [0x11B] @ ''n'' @ uni [0xE1] @ '' pole a zkuste to znovu.''),
     (''settings.restart_required'', ''Nic se nezm'' @ uni [0x11B] @ ''nilo. Zv'' @ uni [0xFD] @ ''razn'' @ uni [0x11B] @ ''n'' @ uni [0xE1] @ '' pole vy'' @ uni [0x17E] @ ''aduj'' @ uni [0xED] @ '' restart: upravte konfigura'' @ uni [0x10D] @ ''n'' @ uni [0xED] @ '' soubor a restartujte Velora DNS.''),
     (''settings.restart_field'', ''Vy'' @ uni [0x17E] @ ''aduje restart''),
     (''settings.check'', ''Ov'' @ uni [0x11B, 0x159] @ ''it''),
     (''settings.check_ok'', ''Nastaven'' @ uni [0xED] @ '' je platn'' @ uni [0xE9] @ '' a lze ho pou'' @ uni [0x17E, 0xED] @ ''t bez restartu.''),
     (''restore.title'', ''Obnovit z'' @ uni [0xE1] @ ''lohu''),
     (''restore.hint'', ''Nahrajte '' @ uni [0x161] @ ''ifrovanou z'' @ uni [0xE1] @ ''lohu a nejprve ji zkontrolujte. Nic se nezm'' @ uni [0x11B] @ ''n'' @ uni [0xED] @ '', dokud nepotvrd'' @ uni [0xED] @ ''te; Velora se restartuje, ponech'' @ uni [0xE1] @ '' bezpe'' @ uni [0x10D] @ ''nostn'' @ uni [0xED] @ '' kopii a p'' @ uni [0x159] @ ''i ne'' @ uni [0xFA] @ ''sp'' @ uni [0x11B, 0x161] @ ''n'' @ uni [0xE9] @ ''m startu v'' @ uni [0x161] @ ''e vr'' @ uni [0xE1] @ ''t'' @ uni [0xED] @ ''.''),
     (''restore.file'', ''Soubor z'' @ uni [0xE1] @ ''lohy (.vdns)''),
     (''restore.inspect'', ''Zkontrolovat z'' @ uni [0xE1] @ ''lohu''),
     (''restore.inspecting'', ''Kontrola'' @ uni [0x2026]),
     (''restore.inspect_failed'', ''Z'' @ uni [0xE1] @ ''lohu se nepoda'' @ uni [0x159] @ ''ilo zkontrolovat.''),
     (''restore.review_title'', ''Z'' @ uni [0xE1] @ ''loha je platn'' @ uni [0xE1]),
     (''restore.created'', ''Vytvo'' @ uni [0x159] @ ''eno'')]\<close>

definition dict_cs_8 :: text_table where
  \<open>dict_cs_8 = [
     (''restore.version'', ''Verze Velora''),
     (''restore.schema'', ''Sch'' @ uni [0xE9] @ ''ma datab'' @ uni [0xE1] @ ''ze''),
     (''restore.contents'', ''Obsah''),
     (''restore.zones'', ''z'' @ uni [0xF3] @ ''ny''),
     (''restore.records'', ''z'' @ uni [0xE1] @ ''znamy''),
     (''restore.blocklists'', ''seznamy''),
     (''restore.rewrites'', ''p'' @ uni [0x159] @ ''episy''),
     (''restore.forward_rules'', ''pravidla p'' @ uni [0x159] @ ''epos'' @ uni [0xED] @ ''l'' @ uni [0xE1] @ ''n'' @ uni [0xED]),
     (''restore.clients'', ''klienti''),
     (''restore.users'', ''u'' @ uni [0x17E] @ ''ivatel'' @ uni [0xE9]),
     (''restore.listeners'', ''Naslouch'' @ uni [0xE1] @ ''n'' @ uni [0xED]),
     (''restore.web'', ''web''),
     (''restore.confirm'', ''Nahradit aktu'' @ uni [0xE1] @ ''ln'' @ uni [0xED] @ '' konfiguraci a data touto z'' @ uni [0xE1] @ ''lohou. Bezpe'' @ uni [0x10D] @ ''nostn'' @ uni [0xED] @ '' kopie sou'' @ uni [0x10D] @ ''asn'' @ uni [0xE9] @ ''ho stavu z'' @ uni [0x16F] @ ''stane zachov'' @ uni [0xE1] @ ''na.''),
     (''restore.restore'', ''Obnovit a restartovat''),
     (''restore.schedule_failed'', ''Obnovu se nepoda'' @ uni [0x159] @ ''ilo spustit.''),
     (''restore.manual_restart'', ''Obnova je napl'' @ uni [0xE1] @ ''nov'' @ uni [0xE1] @ ''na. Restartujte Velora DNS.''),
     (''restore.restarting'', ''Velora se restartuje kv'' @ uni [0x16F] @ ''li obnov'' @ uni [0x11B] @ ''. Str'' @ uni [0xE1] @ ''nka se pot'' @ uni [0xE9] @ '' aktualizuje.''),
     (''restore.signed_out'', ''Velora b'' @ uni [0x11B, 0x17E, 0xED] @ '' s obnoven'' @ uni [0xFD] @ ''mi daty. P'' @ uni [0x159] @ ''ihlaste se '' @ uni [0xFA, 0x10D] @ ''tem ze z'' @ uni [0xE1] @ ''lohy.''),
     (''restore.again'', ''Obnovit jinou z'' @ uni [0xE1] @ ''lohu''),
     (''restore.backup_from'', ''Z'' @ uni [0xE1] @ ''loha z''),
     (''restore.safety_copy'', ''P'' @ uni [0x159] @ ''edchoz'' @ uni [0xED] @ '' stav ulo'' @ uni [0x17E] @ ''en v''),
     (''restore.state_completed'', ''Obnova dokon'' @ uni [0x10D] @ ''ena.''),
     (''restore.state_rolled_back'', ''Obnova vr'' @ uni [0xE1] @ ''cena.''),
     (''restore.state_failed'', ''Obnova selhala.''),
     (''restore.state_applied'', ''Obnova pou'' @ uni [0x17E] @ ''ita; '' @ uni [0x10D] @ ''ek'' @ uni [0xE1] @ '' se na p'' @ uni [0x159] @ ''ipravenost.''),
     (''restore.state_pending'', ''Obnova napl'' @ uni [0xE1] @ ''nov'' @ uni [0xE1] @ ''na.''),
     (''restore.passphrase'', ''Heslo z'' @ uni [0xE1] @ ''lohy''),
     (''app.scrollable_table'', ''posouv'' @ uni [0xE1] @ '' se do stran''),
     (''palette.title'', ''Paleta p'' @ uni [0x159, 0xED] @ ''kaz'' @ uni [0x16F]),
     (''palette.placeholder'', ''Hledat str'' @ uni [0xE1] @ ''nky, z'' @ uni [0xF3] @ ''ny, z'' @ uni [0xE1] @ ''znamy, klienty'' @ uni [0x2026]),
     (''palette.results'', ''V'' @ uni [0xFD] @ ''sledky''),
     (''palette.pages'', ''Str'' @ uni [0xE1] @ ''nky''),
     (''palette.actions'', ''Akce''),
     (''palette.kind_zone'', ''Z'' @ uni [0xF3] @ ''ny''),
     (''palette.kind_record'', ''Z'' @ uni [0xE1] @ ''znamy''),
     (''palette.kind_client'', ''Klienti''),
     (''palette.kind_rewrite'', ''P'' @ uni [0x159] @ ''episy DNS''),
     (''palette.kind_forwarding'', ''Podm'' @ uni [0xED] @ ''n'' @ uni [0x11B] @ ''n'' @ uni [0xE9] @ '' p'' @ uni [0x159] @ ''epos'' @ uni [0xED] @ ''l'' @ uni [0xE1] @ ''n'' @ uni [0xED]),
     (''palette.kind_blocklist'', ''Seznamy blokov'' @ uni [0xE1] @ ''n'' @ uni [0xED]),
     (''palette.no_results'', uni [0x17D, 0xE1] @ ''dn'' @ uni [0xE9] @ '' v'' @ uni [0xFD] @ ''sledky.''),
     (''palette.navigate'', ''proch'' @ uni [0xE1] @ ''zet''),
     (''palette.open'', ''otev'' @ uni [0x159, 0xED] @ ''t''),
     (''palette.toggle'', ''otev'' @ uni [0x159, 0xED] @ ''t nebo zav'' @ uni [0x159, 0xED] @ ''t''),
     (''palette.open_button'', ''Hledat''),
     (''palette.add_client'', ''P'' @ uni [0x159] @ ''idat klienta''),
     (''palette.create_backup'', ''Vytvo'' @ uni [0x159] @ ''it z'' @ uni [0xE1] @ ''lohu''),
     (''cluster.action_failed'', ''Akce clusteru selhala.''),
     (''cluster.never'', ''nikdy''),
     (''cluster.role'', ''Role''),
     (''cluster.role_standalone'', ''Samostatn'' @ uni [0xFD]),
     (''cluster.role_primary'', ''Prim'' @ uni [0xE1] @ ''rn'' @ uni [0xED] @ '' uzel clusteru''),
     (''cluster.role_replica'', ''Replika clusteru''),
     (''cluster.replicas'', ''Repliky''),
     (''cluster.in_sync_count'', ''synchronizov'' @ uni [0xE1] @ ''no''),
     (''cluster.revision'', ''Revize z'' @ uni [0xF3] @ ''n''),
     (''cluster.zones_replicated'', ''replikovan'' @ uni [0xFD] @ ''ch z'' @ uni [0xF3] @ ''n''),
     (''cluster.last_sync'', ''Posledn'' @ uni [0xED] @ '' synchronizace''),
     (''cluster.sync_failed'', ''Posledn'' @ uni [0xED] @ '' synchronizace selhala''),
     (''cluster.sync_ok'', ''Aktu'' @ uni [0xE1] @ ''ln'' @ uni [0xED] @ '' s prim'' @ uni [0xE1] @ ''rn'' @ uni [0xED] @ ''m uzlem''),
     (''cluster.members'', ''Repliky''),
     (''cluster.members_hint'', ''Uzly kop'' @ uni [0xED] @ ''ruj'' @ uni [0xED] @ ''c'' @ uni [0xED] @ '' z'' @ uni [0xF3] @ ''ny tohoto prim'' @ uni [0xE1] @ ''rn'' @ uni [0xED] @ ''ho uzlu. Hl'' @ uni [0xE1] @ ''s'' @ uni [0xED] @ '' se ka'' @ uni [0x17E] @ ''d'' @ uni [0xFD] @ ''ch 30 sekund.''),
     (''cluster.add_node'', ''P'' @ uni [0x159] @ ''idat uzel''),
     (''cluster.token_title'', ''Token pro p'' @ uni [0x159] @ ''ipojen'' @ uni [0xED] @ '' vytvo'' @ uni [0x159] @ ''en''),
     (''cluster.token_steps'', ''Na nov'' @ uni [0xE9] @ ''m uzlu otev'' @ uni [0x159] @ ''ete Cluster '' @ uni [0x2192] @ '' P'' @ uni [0x159] @ ''ipojit ke clusteru a zadejte:''),
     (''cluster.token_expires'', ''Token vypr'' @ uni [0x161, 0xED] @ '' v''),
     (''cluster.token_once'', ''Funguje jednou a znovu se nezobraz'' @ uni [0xED] @ ''.''),
     (''cluster.copy_token'', ''Kop'' @ uni [0xED] @ ''rovat token''),
     (''cluster.copied'', ''Zkop'' @ uni [0xED] @ ''rov'' @ uni [0xE1] @ ''no''),
     (''cluster.token_done'', ''Hotovo''),
     (''cluster.no_members'', ''Zat'' @ uni [0xED] @ ''m '' @ uni [0x17E, 0xE1] @ ''dn'' @ uni [0xE9] @ '' repliky''),
     (''cluster.no_members_text'', ''P'' @ uni [0x159] @ ''idejte uzel a vytvo'' @ uni [0x159] @ ''te token pro druh'' @ uni [0xFD] @ '' server Velora DNS.''),
     (''cluster.status_in_sync'', ''Synchronizov'' @ uni [0xE1] @ ''no''),
     (''cluster.status_behind'', ''Doh'' @ uni [0xE1] @ ''n'' @ uni [0xED]),
     (''cluster.status_stale'', ''Neodpov'' @ uni [0xED] @ ''d'' @ uni [0xE1]),
     (''cluster.status_error'', ''Chyba synchronizace''),
     (''cluster.status_never_synced'', uni [0x10C] @ ''ek'' @ uni [0xE1] @ '' na prvn'' @ uni [0xED] @ '' synchronizaci''),
     (''cluster.remove'', ''Odebrat uzel''),
     (''cluster.remove_confirm'', ''Odebrat tuto repliku? P'' @ uni [0x159] @ ''estane dost'' @ uni [0xE1] @ ''vat aktualizace z'' @ uni [0xF3] @ ''n:''),
     (''cluster.removed'', ''Replika odebr'' @ uni [0xE1] @ ''na.''),
     (''cluster.dissolve'', ''Zru'' @ uni [0x161] @ ''it cluster''),
     (''cluster.dissolve_hint'', ''Zru'' @ uni [0x161, 0xED] @ '' v'' @ uni [0x161] @ ''echny repliky a vr'' @ uni [0xE1] @ ''t'' @ uni [0xED] @ '' tento uzel do samostatn'' @ uni [0xE9] @ ''ho re'' @ uni [0x17E] @ ''imu. Repliky si ponechaj'' @ uni [0xED] @ '' posledn'' @ uni [0xED] @ '' kopii z'' @ uni [0xF3] @ ''n.''),
     (''cluster.dissolve_confirm'', ''Zru'' @ uni [0x161] @ ''it cluster a v'' @ uni [0x161] @ ''echny repliky?''),
     (''cluster.dissolved'', ''Cluster byl zru'' @ uni [0x161] @ ''en.''),
     (''cluster.replica_title'', ''Replikace z prim'' @ uni [0xE1] @ ''rn'' @ uni [0xED] @ ''ho uzlu''),
     (''cluster.replica_hint'', ''Z'' @ uni [0xF3] @ ''ny na tomto uzlu se kop'' @ uni [0xED] @ ''ruj'' @ uni [0xED] @ '' z prim'' @ uni [0xE1] @ ''rn'' @ uni [0xED] @ ''ho uzlu a jsou zde jen pro '' @ uni [0x10D] @ ''ten'' @ uni [0xED] @ ''. Ostatn'' @ uni [0xED] @ '' nastaven'' @ uni [0xED] @ '' z'' @ uni [0x16F] @ ''st'' @ uni [0xE1] @ ''vaj'' @ uni [0xED] @ '' m'' @ uni [0xED] @ ''stn'' @ uni [0xED] @ ''.''),
     (''cluster.replica_ok'', ''Replikace funguje.''),
     (''cluster.sync_now'', ''Synchronizovat nyn'' @ uni [0xED]),
     (''cluster.leave'', ''Opustit cluster''),
     (''cluster.leave_confirm'', ''Opustit cluster? Uzel si ponech'' @ uni [0xE1] @ '' z'' @ uni [0xF3] @ ''ny a bude op'' @ uni [0x11B] @ ''t upraviteln'' @ uni [0xFD] @ ''.''),
     (''cluster.left'', ''Uzel opustil cluster.''),
     (''cluster.primary_url'', ''URL prim'' @ uni [0xE1] @ ''rn'' @ uni [0xED] @ ''ho uzlu''),
     (''cluster.cluster_id'', ''ID clusteru''),
     (''cluster.node_id'', ''ID uzlu''),
     (''cluster.join_token'', ''Token pro p'' @ uni [0x159] @ ''ipojen'' @ uni [0xED]),
     (''cluster.standalone_title'', ''Tento uzel je samostatn'' @ uni [0xFD]),
     (''cluster.standalone_viewer'', ''Spr'' @ uni [0xE1] @ ''vce m'' @ uni [0x16F, 0x17E] @ ''e vytvo'' @ uni [0x159] @ ''it cluster nebo k n'' @ uni [0x11B] @ ''mu tento uzel p'' @ uni [0x159] @ ''ipojit.''),
     (''cluster.scope_note'', ''Cluster udr'' @ uni [0x17E] @ ''uje m'' @ uni [0xED] @ ''stn'' @ uni [0xED] @ '' z'' @ uni [0xF3] @ ''ny shodn'' @ uni [0xE9] @ '' na v'' @ uni [0xED] @ ''ce serverech Velora DNS: prim'' @ uni [0xE1] @ ''rn'' @ uni [0xED] @ '' uzel p'' @ uni [0x159] @ ''ij'' @ uni [0xED] @ ''m'' @ uni [0xE1] @ '' zm'' @ uni [0x11B] @ ''ny a repliky je kop'' @ uni [0xED] @ ''ruj'' @ uni [0xED] @ '' ka'' @ uni [0x17E] @ ''d'' @ uni [0xFD] @ ''ch 30 sekund. Automatick'' @ uni [0xE9] @ '' p'' @ uni [0x159] @ ''evzet'' @ uni [0xED] @ '' chyb'' @ uni [0xED] @ '' a ostatn'' @ uni [0xED] @ '' nastaven'' @ uni [0xED] @ '' jsou pro ka'' @ uni [0x17E] @ ''d'' @ uni [0xFD] @ '' uzel.''),
     (''cluster.create_title'', ''Vytvo'' @ uni [0x159] @ ''it cluster''),
     (''cluster.create_hint'', ''Tento uzel se stane prim'' @ uni [0xE1] @ ''rn'' @ uni [0xED] @ ''m. Jeho z'' @ uni [0xF3] @ ''ny se kop'' @ uni [0xED] @ ''ruj'' @ uni [0xED] @ '' do v'' @ uni [0x161] @ ''ech replik.''),
     (''cluster.node_name'', ''N'' @ uni [0xE1] @ ''zev uzlu''),
     (''cluster.advertised_url'', ''Adresa pro ostatn'' @ uni [0xED] @ '' uzly''),
     (''cluster.advertised_hint'', ''URL webov'' @ uni [0xE9] @ ''ho rozhran'' @ uni [0xED] @ '' tohoto uzlu z pohledu replik.''),
     (''cluster.allow_http'', ''Povolit ne'' @ uni [0x161] @ ''ifrovan'' @ uni [0xE9] @ '' HTTP (jen d'' @ uni [0x16F] @ ''v'' @ uni [0x11B] @ ''ryhodn'' @ uni [0xE1] @ '' s'' @ uni [0xED, 0x165] @ '')''),
     (''cluster.skip_check'', ''P'' @ uni [0x159] @ ''esko'' @ uni [0x10D] @ ''it kontrolu dostupnosti''),
     (''cluster.create'', ''Vytvo'' @ uni [0x159] @ ''it cluster''),
     (''cluster.created'', ''Cluster byl vytvo'' @ uni [0x159] @ ''en. P'' @ uni [0x159] @ ''idejte uzel a pozv'' @ uni [0x11B] @ ''te repliku.''),
     (''cluster.join_title'', ''P'' @ uni [0x159] @ ''ipojit ke clusteru''),
     (''cluster.join_hint'', ''Ud'' @ uni [0x11B] @ ''lejte z uzlu repliku prim'' @ uni [0xE1] @ ''rn'' @ uni [0xED] @ ''ho uzlu. Nejprve vytvo'' @ uni [0x159] @ ''te token na prim'' @ uni [0xE1] @ ''rn'' @ uni [0xED] @ ''m uzlu.''),
     (''cluster.join_warning'', ''P'' @ uni [0x159] @ ''ipojen'' @ uni [0xED] @ '' nahrad'' @ uni [0xED] @ '' m'' @ uni [0xED] @ ''stn'' @ uni [0xED] @ '' z'' @ uni [0xF3] @ ''ny tohoto uzlu z'' @ uni [0xF3] @ ''nami prim'' @ uni [0xE1] @ ''rn'' @ uni [0xED] @ ''ho uzlu. Ostatn'' @ uni [0xED] @ '' nastaven'' @ uni [0xED] @ '' se nem'' @ uni [0x11B] @ ''n'' @ uni [0xED] @ ''.''),
     (''cluster.join_confirm'', ''P'' @ uni [0x159] @ ''ipojit ke clusteru a nahradit z'' @ uni [0xF3] @ ''ny tohoto uzlu z'' @ uni [0xF3] @ ''nami prim'' @ uni [0xE1] @ ''rn'' @ uni [0xED] @ ''ho uzlu?''),
     (''cluster.join'', ''P'' @ uni [0x159] @ ''ipojit ke clusteru''),
     (''cluster.joined'', ''Uzel se p'' @ uni [0x159] @ ''ipojil ke clusteru a kop'' @ uni [0xED] @ ''ruje z'' @ uni [0xF3] @ ''ny prim'' @ uni [0xE1] @ ''rn'' @ uni [0xED] @ ''ho uzlu.''),
     (''cluster.zones_read_only'', ''Tento uzel je replikou clusteru. Z'' @ uni [0xF3] @ ''ny se kop'' @ uni [0xED] @ ''ruj'' @ uni [0xED] @ '' z prim'' @ uni [0xE1] @ ''rn'' @ uni [0xED] @ ''ho uzlu a lze je m'' @ uni [0x11B] @ ''nit jen tam.'')]\<close>

definition dict_cs :: text_table where
  "dict_cs = dict_cs_1 @ dict_cs_2 @ dict_cs_3 @ dict_cs_4 @ dict_cs_5 @ dict_cs_6 @ dict_cs_7 @ dict_cs_8"

lemma cs_titles: "distinct (map snd (with_prefix ''app.title.'' dict_cs))"
  by (simp only: dict_cs_def dict_cs_1_def dict_cs_2_def dict_cs_3_def dict_cs_4_def dict_cs_5_def dict_cs_6_def dict_cs_7_def dict_cs_8_def group_eval) (simp add: uni_def unit_text_def)

lemma cs_labels: "distinct (map snd (with_prefix ''app.nav.'' dict_cs))"
  by (simp only: dict_cs_def dict_cs_1_def dict_cs_2_def dict_cs_3_def dict_cs_4_def dict_cs_5_def dict_cs_6_def dict_cs_7_def dict_cs_8_def group_eval) (simp add: uni_def unit_text_def)

end
