(* ===== verification/Texts_Sv.thy ===== *)
theory Texts_Sv
  imports Texts
begin

text \<open>The Swedish table, \<open>i18n/sv.ts\<close>.\<close>

definition dict_sv_1 :: text_table where
  \<open>dict_sv_1 = [
     (''app.skip_to_content'', ''Hoppa till inneh'' @ uni [0xE5] @ ''ll''),
     (''app.workspace_label'', ''ARBETSYTA''),
     (''app.nav.events'', ''H'' @ uni [0xE4] @ ''ndelser''),
     (''app.title.events'', ''H'' @ uni [0xE4] @ ''ndelser''),
     (''events.unread'', ''ol'' @ uni [0xE4] @ ''sta''),
     (''events.empty'', ''Inga systemh'' @ uni [0xE4] @ ''ndelser '' @ uni [0xE4] @ ''nnu.''),
     (''events.load_failed'', ''Det gick inte att l'' @ uni [0xE4] @ ''sa in h'' @ uni [0xE4] @ ''ndelser''),
     (''events.mark_read'', ''Markera som l'' @ uni [0xE4] @ ''st''),
     (''events.repeated'', ''Upprepat''),
     (''events.open'', uni [0xD6] @ ''ppna''),
     (''events.info'', ''Info''),
     (''events.warning'', ''Varning''),
     (''events.critical'', ''Kritisk''),
     (''app.nav.main'', ''Huvudnavigering''),
     (''app.nav.overview'', uni [0xD6] @ ''versikt''),
     (''app.nav.zones'', ''Lokala zoner''),
     (''app.nav.queries'', ''Fr'' @ uni [0xE5] @ ''gelogg''),
     (''app.nav.blocklists'', ''Blockeringslistor''),
     (''app.nav.cache'', ''DNS-cache''),
     (''app.nav.settings'', ''Inst'' @ uni [0xE4] @ ''llningar''),
     (''app.nav.updates'', ''Uppdateringar''),
     (''app.nav.backup'', ''S'' @ uni [0xE4] @ ''kerhetskopiering''),
     (''app.sign_out'', ''Logga ut''),
     (''app.nav.audit'', ''Granskningslogg''),
     (''app.title.audit'', ''Granskningslogg''),
     (''app.nav.diagnostics'', ''Diagnostik''),
     (''app.title.diagnostics'', ''Diagnostik''),
     (''app.local_resolver'', ''Lokal resolver''),
     (''app.self_hosted_foundation'', ''Sj'' @ uni [0xE4] @ ''lvhostad '' @ uni [0xB7] @ '' Grund''),
     (''app.private_by_default'', ''Privat som standard''),
     (''app.privacy.query_retention'', ''Fr'' @ uni [0xE5] @ ''gehistoriken har begr'' @ uni [0xE4] @ ''nsad lagringstid.''),
     (''app.privacy.no_query_history'', ''Fr'' @ uni [0xE5] @ ''gehistorik samlas inte in.''),
     (''app.github_repo'', ''GitHub-f'' @ uni [0xF6] @ ''rr'' @ uni [0xE5] @ ''d''),
     (''app.connecting'', ''Ansluter'' @ uni [0x2026]),
     (''app.workspace'', ''Arbetsyta''),
     (''app.connection_lost'', ''Anslutning bruten''),
     (''app.resolver_online'', ''Resolver online''),
     (''app.title.overview'', ''N'' @ uni [0xE4] @ ''tverks'' @ uni [0xF6] @ ''versikt''),
     (''app.title.zones'', ''Lokala zoner''),
     (''app.title.queries'', ''Fr'' @ uni [0xE5] @ ''gelogg''),
     (''app.title.blocklists'', ''Blockeringslistor''),
     (''app.title.cache'', ''DNS-cache''),
     (''app.title.settings'', ''Inst'' @ uni [0xE4] @ ''llningar''),
     (''app.title.updates'', ''Uppdateringar''),
     (''app.title.backup'', ''S'' @ uni [0xE4] @ ''kerhetskopiering och '' @ uni [0xE5] @ ''terst'' @ uni [0xE4] @ ''llning''),
     (''app.eyebrow'', ''DITT N'' @ uni [0xC4] @ ''TVERK I '' @ uni [0xD6] @ ''VERSIKT''),
     (''app.subtitle.overview'', ''En tydlig vy av ditt DNS, fr'' @ uni [0xE5] @ ''n beg'' @ uni [0xE4] @ ''ran till svar.''),
     (''app.subtitle.default'', ''Inspektera och hantera din resolver.''),
     (''app.refresh'', ''Uppdatera''),
     (''app.error.showing_last'', ''Visar den senaste lyckade '' @ uni [0xF6] @ ''gonblicksbilden fr'' @ uni [0xE5] @ ''n''),
     (''app.error.check_server'', ''Kontrollera att Velora-servern k'' @ uni [0xF6] @ ''rs.''),
     (''app.error.reach_server'', ''Kan inte n'' @ uni [0xE5] @ '' servern''),
     (''app.viewer_readonly'', ''Du '' @ uni [0xE4] @ ''r inloggad som visare. Hanterings'' @ uni [0xE5] @ ''tg'' @ uni [0xE4] @ ''rder '' @ uni [0xE4] @ ''r skrivskyddade.''),
     (''app.connecting_panel'', ''Ansluter till din resolver'' @ uni [0x2026]),
     (''app.not_found'', ''Sidan hittades inte.''),
     (''app.footer.independent'', ''Velora DNS '' @ uni [0xB7] @ '' Oberoende. Sj'' @ uni [0xE4] @ ''lvhostad.''),
     (''app.footer.last_updated'', ''Senast uppdaterad''),
     (''app.footer.waiting'', ''V'' @ uni [0xE4] @ ''ntar p'' @ uni [0xE5] @ '' server''),
     (''diagnostics.title'', ''Systemh'' @ uni [0xE4] @ ''lsa''),
     (''diagnostics.report_hint'', ''Nedladdningen inneh'' @ uni [0xE5] @ ''ller komponentstatus och bygginformation, utan hemligheter eller fr'' @ uni [0xE5] @ ''geloggar.''),
     (''diagnostics.download'', ''Ladda ner rapport''),
     (''diagnostics.loading'', ''L'' @ uni [0xE4] @ ''ser in diagnostik'' @ uni [0x2026]),
     (''diagnostics.load_failed'', ''Det gick inte att l'' @ uni [0xE4] @ ''sa in diagnostik''),
     (''diagnostics.upstreams'', ''Uppstr'' @ uni [0xF6] @ ''msservrar''),
     (''diagnostics.component'', ''Komponent''),
     (''diagnostics.state'', ''Status''),
     (''diagnostics.detail'', ''Detaljer''),
     (''diagnostics.state.healthy'', ''Frisk''),
     (''diagnostics.state.degraded'', ''Nedsatt''),
     (''diagnostics.state.failed'', ''Misslyckad''),
     (''explain.title'', ''Varf'' @ uni [0xF6] @ ''r blev det detta svar?''),
     (''explain.hint'', ''Provk'' @ uni [0xF6] @ ''rning av resolvern f'' @ uni [0xF6] @ ''r ett namn. Inget fr'' @ uni [0xE5] @ ''gas hos upstream, loggas, cachas eller r'' @ uni [0xE4] @ ''knas.''),
     (''explain.name'', ''Namn''),
     (''explain.type'', ''Posttyp''),
     (''explain.client'', ''Klientadress (valfritt)''),
     (''explain.client_hint'', ''Till'' @ uni [0xE4] @ ''mpar den klientens filterpolicy.''),
     (''explain.submit'', ''F'' @ uni [0xF6] @ ''rklara''),
     (''explain.running'', ''F'' @ uni [0xF6] @ ''rklarar'' @ uni [0x2026]),
     (''explain.failed'', ''Det gick inte att f'' @ uni [0xF6] @ ''rklara fr'' @ uni [0xE5] @ ''gan''),
     (''explain.result'', ''F'' @ uni [0xF6] @ ''rklaring''),
     (''explain.winner'', ''Avg'' @ uni [0xF6] @ ''rande steg''),
     (''explain.answers'', ''Svar''),
     (''explain.no_answers'', ''Inga svarsposter: svaret skulle komma fr'' @ uni [0xE5] @ ''n en upstream-resolver, som inte tillfr'' @ uni [0xE5] @ ''gas.''),
     (''explain.steps'', uni [0xD6] @ ''verv'' @ uni [0xE4] @ ''gda steg''),
     (''explain.step'', ''Steg''),
     (''explain.outcome'', ''Utfall''),
     (''explain.detail'', ''Detaljer''),
     (''explain.cname_target'', ''CNAME-m'' @ uni [0xE5] @ ''l''),
     (''explain.ttl'', uni [0xC5] @ ''terst'' @ uni [0xE5] @ ''ende TTL''),
     (''explain.matches'', ''Tr'' @ uni [0xE4] @ ''ff''),
     (''explain.allowed_by'', ''Till'' @ uni [0xE5] @ ''ten av''),
     (''explain.not_contacted'', ''Ingen upstream tillfr'' @ uni [0xE5] @ ''gades.''),
     (''explain.scope.global'', ''Global filtrering''),
     (''explain.scope.client_policy'', ''Klientpolicy''),
     (''explain.stage.filter'', ''Blocklista eller klientpolicy''),
     (''explain.stage.rewrite'', ''DNS-omskrivning''),
     (''explain.stage.zone'', ''Lokal zon''),
     (''explain.stage.cache'', ''Cache''),
     (''explain.stage.forwarding'', ''Regel f'' @ uni [0xF6] @ ''r villkorad vidarebefordran''),
     (''explain.stage.upstream'', ''Globala upstream-resolvers''),
     (''explain.stage.refused'', ''Nekad''),
     (''explain.result.passed'', ''Sl'' @ uni [0xE4] @ ''pptes igenom''),
     (''explain.result.allowed'', ''Till'' @ uni [0xE5] @ ''ten''),
     (''explain.result.blocked'', ''Blockerad''),
     (''explain.result.no_match'', ''Ingen tr'' @ uni [0xE4] @ ''ff''),
     (''explain.result.answered'', ''Besvarad''),
     (''explain.result.miss'', ''Miss''),
     (''explain.result.hit'', ''Tr'' @ uni [0xE4] @ ''ff''),
     (''explain.result.refused'', ''Nekad''),
     (''explain.result.would_forward'', ''Skulle vidarebefordras''),
     (''explain.result.error'', ''Fel''),
     (''explain.source.local'', ''Lokalt svar''),
     (''explain.source.cache'', ''Cache''),
     (''explain.source.blocked'', ''Blockerad''),
     (''explain.source.upstream'', ''Upstream''),
     (''explain.source.refused'', ''Nekad''),
     (''audit.title'', ''Administrativ granskningslogg''),
     (''audit.hint'', ''Administrativa '' @ uni [0xE5] @ ''tg'' @ uni [0xE4] @ ''rder sparas i 90 dagar. Hemligheter och f'' @ uni [0xF6] @ ''rfr'' @ uni [0xE5] @ ''gningsinneh'' @ uni [0xE5] @ ''ll utesluts.''),
     (''audit.actor'', ''Anv'' @ uni [0xE4] @ ''ndare'')]\<close>

definition dict_sv_2 :: text_table where
  \<open>dict_sv_2 = [
     (''audit.action'', uni [0xC5] @ ''tg'' @ uni [0xE4] @ ''rd''),
     (''audit.result'', ''Resultat''),
     (''audit.all'', ''Alla''),
     (''audit.success'', ''Lyckad''),
     (''audit.failure'', ''Misslyckad''),
     (''audit.filter'', ''Filtrera''),
     (''audit.time'', ''Tid''),
     (''audit.target'', ''M'' @ uni [0xE5] @ ''l''),
     (''audit.empty'', ''Inga granskningsh'' @ uni [0xE4] @ ''ndelser hittades.''),
     (''audit.more'', ''L'' @ uni [0xE4] @ ''s in fler''),
     (''audit.load_failed'', ''Kunde inte l'' @ uni [0xE4] @ ''sa in granskningsh'' @ uni [0xE4] @ ''ndelser''),
     (''auth.checking'', ''Kontrollerar session'' @ uni [0x2026]),
     (''auth.sign_in_title'', ''Logga in p'' @ uni [0xE5] @ '' Velora DNS''),
     (''auth.username'', ''Anv'' @ uni [0xE4] @ ''ndarnamn''),
     (''auth.password'', ''L'' @ uni [0xF6] @ ''senord''),
     (''auth.sign_in'', ''Logga in''),
     (''auth.sign_in_failed'', ''Inloggningen misslyckades''),
     (''settings.server_configuration'', ''Serverkonfiguration''),
     (''settings.language'', ''Spr'' @ uni [0xE5] @ ''k''),
     (''settings.theme'', ''Tema''),
     (''settings.theme_light'', ''Ljust''),
     (''settings.theme_dark'', ''M'' @ uni [0xF6] @ ''rkt''),
     (''settings.theme_auto'', ''Auto''),
     (''settings.theme_hint'', ''Auto f'' @ uni [0xF6] @ ''ljer ditt operativsystems ljusa eller m'' @ uni [0xF6] @ ''rka f'' @ uni [0xE4] @ ''rgschema.''),
     (''settings.log_level'', ''Loggniv'' @ uni [0xE5]),
     (''settings.rate_limiting'', ''Hastighetsbegr'' @ uni [0xE4] @ ''nsning''),
     (''settings.rate_limit_hint'', ''Hastighetsbegr'' @ uni [0xE4] @ ''nsning '' @ uni [0xE4] @ ''r inaktiverad som standard. Aktivera den f'' @ uni [0xF6] @ ''r att skydda resolvern fr'' @ uni [0xE5] @ ''n k'' @ uni [0xE4] @ ''ll'' @ uni [0xF6] @ ''versv'' @ uni [0xE4] @ ''mning och h'' @ uni [0xF6] @ ''ga fr'' @ uni [0xE5] @ ''gefrekvenser.''),
     (''settings.rate_limit_enabled'', ''Aktivera hastighetsbegr'' @ uni [0xE4] @ ''nsning''),
     (''settings.rate_limit_global_qps'', ''Globala fr'' @ uni [0xE5] @ ''gor per sekund''),
     (''settings.rate_limit_client_qps'', ''Fr'' @ uni [0xE5] @ ''gor per sekund per klient''),
     (''settings.rate_limit_burst'', ''Till'' @ uni [0xE5] @ ''ten '' @ uni [0xF6] @ ''verskridning''),
     (''settings.rate_limit_rejected_total'', ''Avvisade fr'' @ uni [0xE5] @ ''gor''),
     (''settings.rate_limit_last_rejected'', ''Senaste avvisningen''),
     (''settings.save'', ''Spara''),
     (''settings.rate_limit_load_failed'', ''Kan inte ladda inst'' @ uni [0xE4] @ ''llningar f'' @ uni [0xF6] @ ''r hastighetsbegr'' @ uni [0xE4] @ ''nsning''),
     (''settings.rate_limit_save_failed'', ''Kan inte spara inst'' @ uni [0xE4] @ ''llningar f'' @ uni [0xF6] @ ''r hastighetsbegr'' @ uni [0xE4] @ ''nsning''),
     (''settings.rate_limit_saved'', ''Inst'' @ uni [0xE4] @ ''llningar f'' @ uni [0xF6] @ ''r hastighetsbegr'' @ uni [0xE4] @ ''nsning sparade.''),
     (''settings.rate_limit_loading'', ''Laddar inst'' @ uni [0xE4] @ ''llningar f'' @ uni [0xF6] @ ''r hastighetsbegr'' @ uni [0xE4] @ ''nsning'' @ uni [0x2026]),
     (''settings.edit_hint'', ''Dessa inst'' @ uni [0xE4] @ ''llningar motsvarar snabbstartalternativen. Vissa '' @ uni [0xE4] @ ''ndringar kr'' @ uni [0xE4] @ ''ver omstart; cache-TTL-'' @ uni [0xE4] @ ''ndringar till'' @ uni [0xE4] @ ''mpas omedelbart.''),
     (''settings.dns_section'', ''DNS-inst'' @ uni [0xE4] @ ''llningar''),
     (''settings.cache_section'', ''DNS-cache''),
     (''settings.cache_ttl_label'', ''Uppstr'' @ uni [0xF6] @ ''mssvars cache-TTL (sekunder)''),
     (''settings.cache_ttl_hint'', ''86400 sekunder = 24 timmar. Intervall: 0'' @ uni [0x2013] @ ''604800 sekunder; 0 anv'' @ uni [0xE4] @ ''nder varje uppstr'' @ uni [0xF6] @ ''msservers ursprungliga TTL. '' @ uni [0xC4] @ ''ndringar i uppstr'' @ uni [0xF6] @ ''msservrar kan ta l'' @ uni [0xE5] @ ''ng tid att synas. '' @ uni [0xC4] @ ''ndringar rensar befintliga cache-svar. Svar med noll-TTL och signerade DNSSEC beh'' @ uni [0xE5] @ ''ller sin ursprungliga TTL.''),
     (''settings.cache_ttl_invalid'', ''Ange ett heltal fr'' @ uni [0xE5] @ ''n 0 till 604800 sekunder.''),
     (''settings.dns_listen_label'', ''DNS-lyssnande adresser (kommaseparerade)''),
     (''settings.dns_listen_warning'', ''Varning: 0.0.0.0 exponerar DNS f'' @ uni [0xF6] @ ''r ditt n'' @ uni [0xE4] @ ''tverk. S'' @ uni [0xE4] @ ''kerst'' @ uni [0xE4] @ ''ll att brandv'' @ uni [0xE4] @ ''ggen bara till'' @ uni [0xE5] @ ''ter p'' @ uni [0xE5] @ ''litliga klienter.''),
     (''settings.upstreams_label'', ''Uppstr'' @ uni [0xF6] @ ''msservrar (kommaseparerade)''),
     (''settings.upstreams_hint'', ''Format: IP:PORT (t.ex. 1.1.1.1:53). DoH-uppstr'' @ uni [0xF6] @ ''mmar anv'' @ uni [0xE4] @ ''nder https://host/dns-query''),
     (''settings.allowed_clients_label'', ''Till'' @ uni [0xE5] @ ''tna klientn'' @ uni [0xE4] @ ''tverk (kommaseparerade CIDR:er)''),
     (''settings.allowed_clients_hint'', ''Bara dessa n'' @ uni [0xE4] @ ''tverk kan skicka fr'' @ uni [0xE5] @ ''gor till resolvern. Exempel: 192.168.1.0/24, 10.0.0.0/8''),
     (''settings.web_section'', ''Webbgr'' @ uni [0xE4] @ ''nssnittsinst'' @ uni [0xE4] @ ''llningar''),
     (''settings.web_listen_label'', ''Webbgr'' @ uni [0xE4] @ ''nssnittets lyssnande adress (IP:port)''),
     (''settings.web_listen_warning'', ''Varning: 0.0.0.0 exponerar webbgr'' @ uni [0xE4] @ ''nssnittet f'' @ uni [0xF6] @ ''r ditt n'' @ uni [0xE4] @ ''tverk. Anv'' @ uni [0xE4] @ ''nd en brandv'' @ uni [0xE4] @ ''gg eller autentisering.''),
     (''settings.allowed_hosts_label'', ''Till'' @ uni [0xE5] @ ''tna v'' @ uni [0xE4] @ ''rdar (kommaseparerade)''),
     (''settings.allowed_hosts_hint'', ''V'' @ uni [0xE4] @ ''rdhuvuden som f'' @ uni [0xE5] @ ''r '' @ uni [0xE5] @ ''tkomst till hanterings-APIet. Anv'' @ uni [0xE4] @ ''nd * f'' @ uni [0xF6] @ ''r att till'' @ uni [0xE5] @ ''ta alla (rekommenderas inte i LAN).''),
     (''settings.logging_section'', ''Loggning och '' @ uni [0xF6] @ ''vrigt''),
     (''settings.enable_query_log'', ''Aktivera fr'' @ uni [0xE5] @ ''geloggning''),
     (''settings.save_configuration'', ''Spara konfiguration''),
     (''settings.saving'', ''Sparar'' @ uni [0x2026]),
     (''settings.save_success'', ''Konfiguration sparad och till'' @ uni [0xE4] @ ''mpad.''),
     (''settings.save_failed'', ''Det gick inte att spara konfigurationen''),
     (''dashboard.total_queries'', ''Totalt antal fr'' @ uni [0xE5] @ ''gor''),
     (''dashboard.since_start'', ''Sedan statistiken senast nollst'' @ uni [0xE4] @ ''lldes''),
     (''dashboard.reset_statistics'', ''Nollst'' @ uni [0xE4] @ ''ll statistik''),
     (''dashboard.reset_confirm'', ''Nollst'' @ uni [0xE4] @ ''lla alla r'' @ uni [0xE4] @ ''knare f'' @ uni [0xF6] @ ''r fr'' @ uni [0xE5] @ ''gor, cache och hastighetsbegr'' @ uni [0xE4] @ ''nsning? Detta kan inte '' @ uni [0xE5] @ ''ngras.''),
     (''dashboard.reset_failed'', ''Det gick inte att nollst'' @ uni [0xE4] @ ''lla statistiken''),
     (''dashboard.qps'', ''Fr'' @ uni [0xE5] @ ''gor / sekund''),
     (''dashboard.rolling_avg'', ''Rullande 60-sekundersgenomsnitt''),
     (''dashboard.cache_hit_rate'', ''Cachetr'' @ uni [0xE4] @ ''ffar''),
     (''dashboard.answers_from_memory'', ''svar fr'' @ uni [0xE5] @ ''n minnet''),
     (''dashboard.uptime'', ''Drifttid''),
     (''dashboard.process_lifetime'', ''Aktuell processlivstid''),
     (''dashboard.top_domains'', ''Toppdom'' @ uni [0xE4] @ ''ner''),
     (''dashboard.top_clients'', ''Toppklienter''),
     (''dashboard.query_activity'', ''Fr'' @ uni [0xE5] @ ''geaktivitet''),
     (''dashboard.live_samples'', ''Liveprov fr'' @ uni [0xE5] @ ''n din resolver''),
     (''dashboard.refresh_5s'', ''Uppdatering var 5:e sekund''),
     (''dashboard.queries_per_sec'', ''fr'' @ uni [0xE5] @ ''gor / sek''),
     (''dashboard.chart_aria'', ''Fr'' @ uni [0xE5] @ ''gefrekvens under denna webbl'' @ uni [0xE4] @ ''sarsession''),
     (''dashboard.session_samples'', ''Sessionsprov''),
     (''dashboard.now'', ''Nu''),
     (''dashboard.upstream_resolvers'', ''Uppstr'' @ uni [0xF6] @ ''msresolvrar''),
     (''dashboard.ordered_failover'', ''Ordnad failover med TCP-s'' @ uni [0xE4] @ ''kerhetskopia''),
     (''dashboard.endpoint'', ''Slutpunkt''),
     (''dashboard.health'', ''H'' @ uni [0xE4] @ ''lsa''),
     (''dashboard.upstream_unknown'', ''Ok'' @ uni [0xE4] @ ''nd''),
     (''dashboard.upstream_healthy'', ''Frisk''),
     (''dashboard.upstream_degraded'', ''Nedsatt''),
     (''dashboard.upstream_unavailable'', ''Otillg'' @ uni [0xE4] @ ''nglig''),
     (''dashboard.priority'', ''Prioritet''),
     (''dashboard.attempt_timeout'', ''Timeout f'' @ uni [0xF6] @ ''r f'' @ uni [0xF6] @ ''rs'' @ uni [0xF6] @ ''k''),
     (''dashboard.primary'', ''Prim'' @ uni [0xE4] @ ''r''),
     (''dashboard.fallback'', ''Reserv''),
     (''dashboard.config_shown'', ''Konfiguration visad. N'' @ uni [0xE5] @ ''barhet bed'' @ uni [0xF6] @ ''ms vid varje fr'' @ uni [0xE5] @ ''ga.''),
     (''dashboard.retained_last_24h'', ''Beh'' @ uni [0xE5] @ ''llna fr'' @ uni [0xE5] @ ''gor under de senaste 24 timmarna''),
     (''dashboard.unavailable_no_logging'', ''Ej tillg'' @ uni [0xE4] @ ''ngligt n'' @ uni [0xE4] @ ''r fr'' @ uni [0xE5] @ ''geloggning '' @ uni [0xE4] @ ''r inaktiverad.''),
     (''dashboard.loading_stats'', ''Laddar fr'' @ uni [0xE5] @ ''gestatistik'' @ uni [0x2026]),
     (''dashboard.stats_load_failed'', ''Kan inte ladda fr'' @ uni [0xE5] @ ''gestatistik''),
     (''dashboard.no_retained'', ''Inga beh'' @ uni [0xE5] @ ''llna fr'' @ uni [0xE5] @ ''gor i detta f'' @ uni [0xF6] @ ''nster.''),
     (''cache.live_entries'', ''Aktuella poster''),
     (''cache.capacity'', ''Kapacitet''),
     (''cache.hits'', ''Cache tr'' @ uni [0xE4] @ ''ffar''),
     (''cache.since_startup'', ''Sedan processstart''),
     (''cache.misses'', ''Cache missar''),
     (''cache.includes_uncacheable'', ''Inkluderar icke-cachebara beg'' @ uni [0xE4] @ ''ran''),
     (''cache.memory_cache'', ''Minnescache''),
     (''cache.description'', ''Positiva svar fr'' @ uni [0xE5] @ ''n uppstr'' @ uni [0xF6] @ ''msservrar anv'' @ uni [0xE4] @ ''nder den konfigurerade cache-TTL:n. Svar med noll-TTL, signerade DNSSEC och negativa svar beh'' @ uni [0xE5] @ ''ller sina ursprungliga regler. Minst nyligen anv'' @ uni [0xE4] @ ''nda poster tas bort vid kapacitet. Cacheinneh'' @ uni [0xE5] @ ''ll lagras aldrig i SQLite.''),
     (''cache.clear_description'', ''Rensning av cache tar bort alla aktuella svar. Livstidstr'' @ uni [0xE4] @ ''ff- och missr'' @ uni [0xE4] @ ''kningar bevaras.''),
     (''cache.clearing'', ''Rensar'' @ uni [0x2026]),
     (''cache.clear'', ''Rensa cache''),
     (''cache.cleared'', ''Cache rensad. Lokala zoner f'' @ uni [0xF6] @ ''rblir aktiva; andra fr'' @ uni [0xE5] @ ''gor kommer att vidarebefordras till uppstr'' @ uni [0xF6] @ ''msservrar.''),
     (''cache.flush_failed'', ''Cache-flushning misslyckades''),
     (''cache.entries_title'', ''Cachade DNS-poster''),
     (''cache.entries_description'', ''Aktuella svar, senast anv'' @ uni [0xE4] @ ''nda f'' @ uni [0xF6] @ ''rst.''),
     (''cache.entries_loading'', ''Laddar cacheposter'' @ uni [0x2026]),
     (''cache.entries_load_failed'', ''Kan inte ladda cacheposter''),
     (''cache.entries_empty'', ''Cachen '' @ uni [0xE4] @ ''r tom.''),
     (''cache.entries_scroll_hint'', ''Scrolla '' @ uni [0xE5] @ ''t sidor f'' @ uni [0xF6] @ ''r att se alla kolumner.''),
     (''cache.entry_name'', ''Namn'')]\<close>

definition dict_sv_3 :: text_table where
  \<open>dict_sv_3 = [
     (''cache.entry_type'', ''Typ''),
     (''cache.entry_answer'', ''Svar''),
     (''cache.entry_status'', ''Status''),
     (''cache.entry_ttl'', ''TTL '' @ uni [0xE5] @ ''terst'' @ uni [0xE5] @ ''r''),
     (''cache.seconds'', ''s''),
     (''cache.previous'', ''F'' @ uni [0xF6] @ ''reg'' @ uni [0xE5] @ ''ende''),
     (''cache.next'', ''N'' @ uni [0xE4] @ ''sta''),
     (''querylog.unavailable_title'', ''Fr'' @ uni [0xE5] @ ''gehistorik otillg'' @ uni [0xE4] @ ''nglig''),
     (''querylog.unavailable_text'', ''Aktivera fr'' @ uni [0xE5] @ ''geloggning f'' @ uni [0xF6] @ ''r att samla in och inspektera framtida DNS-aktivitet.''),
     (''querylog.up_to_100'', ''Upp till 100 beh'' @ uni [0xE5] @ ''llna svar per sida''),
     (''querylog.refresh'', ''Uppdatera fr'' @ uni [0xE5] @ ''gor''),
     (''querylog.filters_aria'', ''Fr'' @ uni [0xE5] @ ''gefilter''),
     (''querylog.domain'', ''Dom'' @ uni [0xE4] @ ''n''),
     (''querylog.contains_example'', ''Inneh'' @ uni [0xE5] @ ''ller example.com''),
     (''querylog.client_ip'', ''Klient-IP''),
     (''querylog.exact_ip'', ''Exakt IP-adress''),
     (''querylog.query_type'', ''Fr'' @ uni [0xE5] @ ''getyp''),
     (''querylog.all_types'', ''Alla typer''),
     (''querylog.source'', ''K'' @ uni [0xE4] @ ''lla''),
     (''querylog.all_sources'', ''Alla k'' @ uni [0xE4] @ ''llor''),
     (''querylog.apply_filters'', ''Till'' @ uni [0xE4] @ ''mpa filter''),
     (''querylog.show_blocked'', ''Visa blockerade fr'' @ uni [0xE5] @ ''gor''),
     (''querylog.error_stale'', ''Tidigare resultat kan vara f'' @ uni [0xF6] @ ''r'' @ uni [0xE5] @ ''ldrade.''),
     (''querylog.loading'', ''Laddar fr'' @ uni [0xE5] @ ''gelogg'' @ uni [0x2026]),
     (''querylog.no_matches'', ''Inga matchande fr'' @ uni [0xE5] @ ''gor''),
     (''querylog.no_matches_text'', ''Prova andra filter eller generera DNS-trafik med loggning aktiverad.''),
     (''querylog.caption'', ''DNS-fr'' @ uni [0xE5] @ ''gelogg''),
     (''querylog.col_timestamp'', ''Tidsst'' @ uni [0xE4] @ ''mpel''),
     (''querylog.col_client'', ''Klient''),
     (''querylog.col_domain'', ''Dom'' @ uni [0xE4] @ ''n''),
     (''querylog.col_type'', ''Typ''),
     (''querylog.col_source'', ''K'' @ uni [0xE4] @ ''lla''),
     (''querylog.col_response'', ''Svar''),
     (''querylog.col_latency'', ''Latens''),
     (''querylog.older'', uni [0xC4] @ ''ldre fr'' @ uni [0xE5] @ ''gor''),
     (''querylog.load_failed'', ''Kan inte ladda fr'' @ uni [0xE5] @ ''gelogg''),
     (''blocklists.count'', ''externa k'' @ uni [0xE4] @ ''llor''),
     (''blocklists.count_one'', ''extern k'' @ uni [0xE4] @ ''lla''),
     (''blocklists.sources_label'', ''DNS-policyk'' @ uni [0xE4] @ ''llor''),
     (''blocklists.reload'', ''Ladda om''),
     (''blocklists.add_source'', ''L'' @ uni [0xE4] @ ''gg till k'' @ uni [0xE4] @ ''lla''),
     (''blocklists.add_aria'', ''L'' @ uni [0xE4] @ ''gg till blockeringslistk'' @ uni [0xE4] @ ''lla''),
     (''blocklists.add_title'', ''L'' @ uni [0xE4] @ ''gg till extern blockeringslista''),
     (''blocklists.add_text'', ''Endast offentliga HTTP(S)-k'' @ uni [0xE4] @ ''llor accepteras. Misslyckade uppdateringar beh'' @ uni [0xE5] @ ''ller tidigare DNS-regler aktiva.''),
     (''blocklists.name'', ''Namn''),
     (''blocklists.source_url'', ''K'' @ uni [0xE4] @ ''ll-URL''),
     (''blocklists.community_hosts'', ''Gemenskapens v'' @ uni [0xE4] @ ''rdar''),
     (''blocklists.adding'', ''L'' @ uni [0xE4] @ ''gger till'' @ uni [0x2026]),
     (''blocklists.cancel'', ''Avbryt''),
     (''blocklists.loading'', ''Laddar blockeringslistk'' @ uni [0xE4] @ ''llor'' @ uni [0x2026]),
     (''blocklists.empty_title'', ''Inga externa blockeringslistor''),
     (''blocklists.empty_text'', ''L'' @ uni [0xE4] @ ''gg till en p'' @ uni [0xE5] @ ''litlig offentlig v'' @ uni [0xE4] @ ''rd- eller dom'' @ uni [0xE4] @ ''nlista f'' @ uni [0xF6] @ ''r att till'' @ uni [0xE4] @ ''mpa DNS-blockering.''),
     (''blocklists.caption'', ''Externa blockeringslistk'' @ uni [0xE4] @ ''llor''),
     (''blocklists.col_source'', ''K'' @ uni [0xE4] @ ''lla''),
     (''blocklists.col_status'', ''Status''),
     (''blocklists.col_last_update'', ''Senast uppdaterad''),
     (''blocklists.update_failed'', ''Uppdatering misslyckades''),
     (''blocklists.active'', ''AKTIV''),
     (''blocklists.disabled'', ''INAKTIVERAD''),
     (''blocklists.never'', ''Aldrig''),
     (''blocklists.updating'', ''Uppdaterar'' @ uni [0x2026]),
     (''blocklists.update'', ''Uppdatera''),
     (''blocklists.load_failed'', ''Kan inte ladda blockeringslistor''),
     (''blocklists.add_failed'', ''Kan inte l'' @ uni [0xE4] @ ''gga till k'' @ uni [0xE4] @ ''lla''),
     (''blocklists.update_failed_msg'', ''Kan inte uppdatera k'' @ uni [0xE4] @ ''lla''),
     (''blocklists.col_domains'', ''Dom'' @ uni [0xE4] @ ''ner''),
     (''blocklists.local'', ''Lokal''),
     (''blocklists.enable'', ''Aktivera''),
     (''blocklists.disable'', ''Inaktivera''),
     (''blocklists.toggle_failed'', ''Kan inte v'' @ uni [0xE4] @ ''xla k'' @ uni [0xE4] @ ''llans status''),
     (''blocklists.edit_content'', ''Redigera inneh'' @ uni [0xE5] @ ''ll''),
     (''blocklists.edit_content_aria'', ''Redigera blockeringslistans inneh'' @ uni [0xE5] @ ''ll''),
     (''blocklists.edit_content_title'', ''Redigera blockeringslistans dom'' @ uni [0xE4] @ ''ner''),
     (''blocklists.edit_content_text'', ''Ange en dom'' @ uni [0xE4] @ ''n per rad. Rader som b'' @ uni [0xF6] @ ''rjar med 0.0.0.0 eller en kommentar behandlas som v'' @ uni [0xE4] @ ''rdposter.''),
     (''blocklists.domains_label'', ''Dom'' @ uni [0xE4] @ ''ner''),
     (''blocklists.saving'', ''Sparar'' @ uni [0x2026]),
     (''blocklists.save'', ''Spara''),
     (''blocklists.content_save_failed'', ''Kan inte spara inneh'' @ uni [0xE5] @ ''ll''),
     (''blocklists.delete'', ''Ta bort''),
     (''blocklists.confirm_delete'', ''Bekr'' @ uni [0xE4] @ ''fta''),
     (''blocklists.delete_failed'', ''Kan inte ta bort k'' @ uni [0xE4] @ ''lla''),
     (''zones.count'', ''lokala zoner''),
     (''zones.count_one'', ''lokal zon''),
     (''zones.local_authority'', ''Lokal auktoritet''),
     (''zones.reload'', ''Ladda om zoner''),
     (''zones.add_zone'', ''L'' @ uni [0xE4] @ ''gg till zon''),
     (''zones.error_stale'', ''Visar de senast laddade zonerna. Ladda om innan du g'' @ uni [0xF6] @ ''r '' @ uni [0xE4] @ ''ndringar.''),
     (''zones.error_retry'', ''Ladda om och f'' @ uni [0xF6] @ ''rs'' @ uni [0xF6] @ ''k igen.''),
     (''zones.reload_before_retry'', ''Ladda om zoner innan du f'' @ uni [0xF6] @ ''rs'' @ uni [0xF6] @ ''ker igen.''),
     (''zones.loading'', ''Laddar lokala zoner'' @ uni [0x2026]),
     (''zones.empty_title'', ''Ge ditt n'' @ uni [0xE4] @ ''tverk bekanta namn''),
     (''zones.empty_text'', ''Skapa en zon som home.arpa, l'' @ uni [0xE4] @ ''gg sedan till poster f'' @ uni [0xF6] @ ''r din router, tj'' @ uni [0xE4] @ ''nster och enheter.''),
     (''zones.create_first'', ''Skapa din f'' @ uni [0xF6] @ ''rsta zon''),
     (''zones.filter_aria'', ''Filtrera zoner''),
     (''zones.filter_placeholder'', ''Hitta en zon'' @ uni [0x2026]),
     (''zones.nav_aria'', ''Lokala zoner''),
     (''zones.records_custom'', ''anpassade poster''),
     (''zones.no_matching'', ''Inga matchande zoner.''),
     (''zones.authoritative_eyebrow'', ''AUKTORITATIV ZON''),
     (''zones.revision'', ''Revision''),
     (''zones.add_record'', ''L'' @ uni [0xE4] @ ''gg till post''),
     (''zones.delete_zone_aria'', ''Ta bort zon''),
     (''zones.primary_ns'', ''Prim'' @ uni [0xE4] @ ''r NS''),
     (''zones.contact'', ''Kontakt''),
     (''zones.delete_record_confirm'', ''Ta bort post''),
     (''zones.delete_zone_confirm'', ''och alla''),
     (''zones.delete_zone_confirm2'', ''poster? Denna '' @ uni [0xE5] @ ''tg'' @ uni [0xE4] @ ''rd kan inte '' @ uni [0xE5] @ ''ngras.''),
     (''zones.deleting'', ''Tar bort'' @ uni [0x2026]),
     (''zones.delete_record_perm'', ''Ta bort post permanent''),
     (''zones.delete_zone_perm'', ''Ta bort zon permanent''),
     (''zones.cancel_deletion'', ''Avbryt borttagning''),
     (''zones.record_saved'', ''Post sparad. DNS-'' @ uni [0xE4] @ ''ndringar '' @ uni [0xE4] @ ''r aktiva.''),
     (''zones.record_deleted'', ''Post borttagen. DNS-'' @ uni [0xE4] @ ''ndringar '' @ uni [0xE4] @ ''r aktiva.''),
     (''zones.zone_deleted'', ''Zon och dess poster borttagna.''),
     (''zones.zone_created'', ''Zon skapad. L'' @ uni [0xE4] @ ''gg till poster f'' @ uni [0xF6] @ ''r att b'' @ uni [0xF6] @ ''rja anv'' @ uni [0xE4] @ ''nda den.''),
     (''zones.delete_failed'', ''Kan inte ta bort''),
     (''zones.footnote'', ''Lokala svar har f'' @ uni [0xF6] @ ''retr'' @ uni [0xE4] @ ''de framf'' @ uni [0xF6] @ ''r vidarebefordran. Enheter kan beh'' @ uni [0xE5] @ ''lla tidigare svar tills deras TTL l'' @ uni [0xF6] @ ''per ut.''),
     (''zones.record_form_edit_aria'', ''Redigera DNS-post''),
     (''zones.record_form_add_aria'', ''L'' @ uni [0xE4] @ ''gg till DNS-post'')]\<close>

definition dict_sv_4 :: text_table where
  \<open>dict_sv_4 = [
     (''zones.edit_record'', ''Redigera post''),
     (''zones.add_record_form'', ''L'' @ uni [0xE4] @ ''gg till post''),
     (''zones.changes_apply'', uni [0xC4] @ ''ndringar till'' @ uni [0xE4] @ ''mpas p'' @ uni [0xE5]),
     (''zones.record_name'', ''Postnamn''),
     (''zones.router_or_at'', ''router eller @''),
     (''zones.relative_name_hint'', ''Relativt namn, @ f'' @ uni [0xF6] @ ''r zonen, eller ett absolut namn som slutar med en punkt.''),
     (''zones.record_type'', ''Posttyp''),
     (''zones.ttl_seconds'', ''TTL (sekunder)''),
     (''zones.priority'', ''Prioritet''),
     (''zones.ipv4_address'', ''IPv4-adress''),
     (''zones.ipv6_address'', ''IPv6-adress''),
     (''zones.text_value'', ''Textv'' @ uni [0xE4] @ ''rde''),
     (''zones.target_hostname'', ''M'' @ uni [0xE5] @ ''lv'' @ uni [0xE4] @ ''rdnamn''),
     (''zones.invalid_ttl'', ''Ange giltiga TTL- och prioritetsv'' @ uni [0xE4] @ ''rden.''),
     (''zones.record_conflict'', ''Denna zon '' @ uni [0xE4] @ ''ndrades annorst'' @ uni [0xE4] @ ''des. Ditt utkast '' @ uni [0xE4] @ ''r of'' @ uni [0xF6] @ ''r'' @ uni [0xE4] @ ''ndrat. St'' @ uni [0xE4] @ ''ng detta formul'' @ uni [0xE4] @ ''r och ladda om zoner innan du f'' @ uni [0xF6] @ ''rs'' @ uni [0xF6] @ ''ker igen.''),
     (''zones.save_failed'', ''Kan inte spara post''),
     (''zones.saving'', ''Sparar'' @ uni [0x2026]),
     (''zones.save_record'', ''Spara post''),
     (''zones.cancel'', ''Avbryt''),
     (''zones.no_records_title'', ''Inga anpassade poster '' @ uni [0xE4] @ ''nnu''),
     (''zones.no_records_text'', ''L'' @ uni [0xE4] @ ''gg till din f'' @ uni [0xF6] @ ''rsta post. SOA och reservapex NS hanteras automatiskt.''),
     (''zones.records_aria'', ''DNS-poster f'' @ uni [0xF6] @ ''r''),
     (''zones.col_name'', ''Namn''),
     (''zones.col_type'', ''Typ''),
     (''zones.col_value'', ''V'' @ uni [0xE4] @ ''rde''),
     (''zones.col_ttl'', ''TTL''),
     (''zones.col_actions'', uni [0xC5] @ ''tg'' @ uni [0xE4] @ ''rder''),
     (''zones.edit_aria'', ''Redigera''),
     (''zones.delete_aria'', ''Ta bort''),
     (''zones.record_word'', ''post''),
     (''zones.create_title'', ''Skapa en lokal zon''),
     (''zones.create_text'', ''Velora kommer att svara f'' @ uni [0xF6] @ ''r denna zon och beh'' @ uni [0xE5] @ ''lla ok'' @ uni [0xE4] @ ''nda namn i ditt n'' @ uni [0xE4] @ ''tverk.''),
     (''zones.zone_name'', ''Zonnamn''),
     (''zones.authority_settings'', ''Auktoritetsinst'' @ uni [0xE4] @ ''llningar''),
     (''zones.primary_nameserver'', ''Prim'' @ uni [0xE4] @ ''r namnservare''),
     (''zones.contact_mailbox'', ''Kontakt (DNS-brevl'' @ uni [0xE5] @ ''da)''),
     (''zones.creating'', ''Skapar'' @ uni [0x2026]),
     (''zones.create_zone'', ''Skapa zon''),
     (''zones.create_zone_aria'', ''Skapa DNS-zon''),
     (''zones.create_failed'', ''Kan inte skapa zon''),
     (''zones.load_failed'', ''Kan inte ladda zoner''),
     (''updates.loading'', ''Laddar uppdateringsstatus'' @ uni [0x2026]),
     (''updates.viewer_readonly'', ''Du '' @ uni [0xE4] @ ''r inloggad som visare. Uppdateringsf'' @ uni [0xF6] @ ''rfr'' @ uni [0xE5] @ ''gningar '' @ uni [0xE4] @ ''r skrivskyddade.''),
     (''updates.in_progress'', ''Uppdatering p'' @ uni [0xE5] @ ''g'' @ uni [0xE5] @ ''r'' @ uni [0x2026]),
     (''updates.history'', ''Uppdateringshistorik''),
     (''updates.no_history'', ''Inga uppdateringar registrerade '' @ uni [0xE4] @ ''nnu.''),
     (''updates.col_from'', ''Fr'' @ uni [0xE5] @ ''n''),
     (''updates.col_to'', ''Till''),
     (''updates.col_state'', ''Tillst'' @ uni [0xE5] @ ''nd''),
     (''updates.col_started'', ''Startad''),
     (''updates.state_idle'', ''Inaktiv''),
     (''updates.state_downloading'', ''H'' @ uni [0xE4] @ ''mtar''),
     (''updates.state_verifying'', ''Verifierar''),
     (''updates.state_installing'', ''Installerar''),
     (''updates.state_readiness'', ''V'' @ uni [0xE4] @ ''ntar p'' @ uni [0xE5] @ '' beredskap''),
     (''updates.state_completed'', ''Slutf'' @ uni [0xF6] @ ''rd''),
     (''updates.state_rolled_back'', uni [0xC5] @ ''terst'' @ uni [0xE4] @ ''lld''),
     (''updates.state_failed'', ''Misslyckades''),
     (''updates.load_failed'', ''Det gick inte att ladda uppdateringsstatus''),
     (''updates.request_failed'', ''Det gick inte att beg'' @ uni [0xE4] @ ''ra uppdatering''),
     (''updates.check'', ''Check for updates''),
     (''updates.available'', ''Update available''),
     (''updates.up_to_date'', ''The system is up to date.''),
     (''updates.progress'', ''Update progress''),
     (''updates.rollback_used'', ''The previous version was restored.''),
     (''updates.rollback_recovered'', ''The previous version was restored and is healthy.''),
     (''backup.sqlite_only'', ''Krypterad export st'' @ uni [0xF6] @ ''der f'' @ uni [0xF6] @ ''r n'' @ uni [0xE4] @ ''rvarande endast SQLite-installationer.''),
     (''backup.create_title'', ''Krypterad s'' @ uni [0xE4] @ ''kerhetskopia''),
     (''backup.create_hint'', ''Ladda ned en versionshanterad kopia av konfiguration och best'' @ uni [0xE4] @ ''ndiga data. F'' @ uni [0xF6] @ ''rvara l'' @ uni [0xF6] @ ''senordet s'' @ uni [0xE4] @ ''kert.''),
     (''backup.passphrase'', ''L'' @ uni [0xF6] @ ''senord''),
     (''backup.creating'', ''Skapar'' @ uni [0x2026]),
     (''backup.create'', ''Skapa och ladda ned''),
     (''backup.create_failed'', ''Det gick inte att skapa s'' @ uni [0xE4] @ ''kerhetskopian''),
     (''backup.restore_hint'', uni [0xC5] @ ''terst'' @ uni [0xE4] @ ''ll den krypterade kopian n'' @ uni [0xE4] @ ''r tj'' @ uni [0xE4] @ ''nsten '' @ uni [0xE4] @ ''r stoppad. Kommandot sparar en s'' @ uni [0xE4] @ ''kerhetskopia av den nuvarande installationen.''),
     (''backup.loading'', ''Laddar s'' @ uni [0xE4] @ ''kerhetskopia-status'' @ uni [0x2026]),
     (''backup.status_title'', ''S'' @ uni [0xE4] @ ''kerhetskopia-status''),
     (''backup.database'', ''Databas:''),
     (''backup.last_backup'', ''Senaste s'' @ uni [0xE4] @ ''kerhetskopian:''),
     (''backup.no_backup'', ''Ingen s'' @ uni [0xE4] @ ''kerhetskopia registrerad '' @ uni [0xE4] @ ''nnu''),
     (''backup.verification_state'', ''Verifieringsstatus:''),
     (''backup.state_unknown'', ''Ok'' @ uni [0xE4] @ ''nd''),
     (''backup.state_unverified'', ''Ej verifierad''),
     (''backup.state_verified'', ''Verifierad''),
     (''backup.verify_title'', ''Verifiera s'' @ uni [0xE4] @ ''kerhetskopia''),
     (''backup.verify_text'', ''Placera en kopia av s'' @ uni [0xE4] @ ''kerhetskopian intill serverdatabasen f'' @ uni [0xF6] @ ''r att verifiera dess integritet.''),
     (''backup.file_name'', ''Filnamn f'' @ uni [0xF6] @ ''r s'' @ uni [0xE4] @ ''kerhetskopia''),
     (''backup.file_hint'', ''Placera s'' @ uni [0xE4] @ ''kerhetskopian intill databasen p'' @ uni [0xE5] @ '' Velora-servern. Endast filnamnet anv'' @ uni [0xE4] @ ''nds; webbl'' @ uni [0xE4] @ ''sfiler och andra kataloger kan inte kontrolleras h'' @ uni [0xE4] @ ''r.''),
     (''backup.viewer_readonly'', ''Du '' @ uni [0xE4] @ ''r inloggad som visare. S'' @ uni [0xE4] @ ''kerhetskopiaverifiering '' @ uni [0xE4] @ ''r skrivskyddad.''),
     (''backup.verifying'', ''Verifierar'' @ uni [0x2026]),
     (''backup.verify'', ''Verifiera''),
     (''backup.valid'', ''S'' @ uni [0xE4] @ ''kerhetskopian '' @ uni [0xE4] @ ''r giltig''),
     (''backup.invalid'', ''S'' @ uni [0xE4] @ ''kerhetskopian '' @ uni [0xE4] @ ''r ogiltig''),
     (''backup.schema_version'', ''Schemaversion:''),
     (''backup.records'', ''Poster:''),
     (''backup.instructions'', uni [0xC5] @ ''terst'' @ uni [0xE4] @ ''ll fr'' @ uni [0xE5] @ ''n kommandoraden''),
     (''backup.native'', ''Nativ installation''),
     (''backup.docker'', ''Docker Compose''),
     (''backup.online'', ''Online-s'' @ uni [0xE4] @ ''kerhetskopia (SQLite)''),
     (''backup.load_failed'', ''Det gick inte att ladda s'' @ uni [0xE4] @ ''kerhetskopia-status''),
     (''backup.verify_failed'', ''Verifiering misslyckades''),
     (''backup.step_stop_service'', ''Stoppa tj'' @ uni [0xE4] @ ''nsten''),
     (''backup.step_create_backup'', ''Skapa en konsekvent s'' @ uni [0xE4] @ ''kerhetskopia''),
     (''backup.step_restart_service'', ''Starta om tj'' @ uni [0xE4] @ ''nsten''),
     (''backup.step_stop_container'', ''Stoppa beh'' @ uni [0xE5] @ ''llaren''),
     (''backup.step_backup_volume'', ''S'' @ uni [0xE4] @ ''kerhetskopiera volymen''),
     (''backup.step_restart_container'', ''Starta om beh'' @ uni [0xE5] @ ''llaren''),
     (''backup.step_online_backup'', ''Anv'' @ uni [0xE4] @ ''nd SQLite-s'' @ uni [0xE4] @ ''kerhetskopia-APIet f'' @ uni [0xF6] @ ''r en konsekvent online-s'' @ uni [0xE4] @ ''kerhetskopia''),
     (''onboarding.welcome'', ''V'' @ uni [0xE4] @ ''lkommen till Velora DNS''),
     (''onboarding.complete_steps'', ''Slutf'' @ uni [0xF6] @ ''r dessa steg f'' @ uni [0xF6] @ ''r att s'' @ uni [0xE4] @ ''kra din installation''),
     (''onboarding.dismiss'', ''St'' @ uni [0xE4] @ ''ng''),
     (''onboarding.change_credentials'', uni [0xC4] @ ''ndra inloggningsuppgifter''),
     (''onboarding.change_credentials_text'', ''Standardadministrat'' @ uni [0xF6] @ ''rsordet b'' @ uni [0xF6] @ ''r '' @ uni [0xE4] @ ''ndras efter f'' @ uni [0xF6] @ ''rsta inloggningen.''),
     (''onboarding.review_dns'', ''Granska DNS-konfiguration''),
     (''onboarding.review_dns_text'', ''S'' @ uni [0xE4] @ ''kerst'' @ uni [0xE4] @ ''ll att uppstr'' @ uni [0xF6] @ ''msservrar och till'' @ uni [0xE5] @ ''tna klienter '' @ uni [0xE4] @ ''r korrekt konfigurerade f'' @ uni [0xF6] @ ''r ditt n'' @ uni [0xE4] @ ''tverk.''),
     (''onboarding.restrict_clients'', ''Begr'' @ uni [0xE4] @ ''ns klient'' @ uni [0xE5] @ ''tkomst''),
     (''onboarding.restrict_clients_text'', ''Konfigurera allowed_clients CIDR:er f'' @ uni [0xF6] @ ''r att begr'' @ uni [0xE4] @ ''nsa vilka n'' @ uni [0xE4] @ ''tverk som kan anv'' @ uni [0xE4] @ ''nda din resolver.''),
     (''onboarding.verify_db'', ''Verifiera databaslagring''),
     (''onboarding.verify_db_text'', ''S'' @ uni [0xE4] @ ''kerst'' @ uni [0xE4] @ ''ll att databasv'' @ uni [0xE4] @ ''gen '' @ uni [0xE4] @ ''r p'' @ uni [0xE5] @ '' p'' @ uni [0xE5] @ ''litlig lagring med tillr'' @ uni [0xE4] @ ''ckligt utrymme.'')]\<close>

definition dict_sv_5 :: text_table where
  \<open>dict_sv_5 = [
     (''onboarding.update_policy'', ''Konfigurera uppdateringspolicy''),
     (''onboarding.update_policy_text'', ''Granska uppdateringscenter f'' @ uni [0xF6] @ ''r att f'' @ uni [0xF6] @ ''rst'' @ uni [0xE5] @ '' hur du h'' @ uni [0xE5] @ ''ller din installation aktuell.''),
     (''app.nav.dhcp'', ''DHCP''),
     (''app.title.dhcp'', ''DHCP-server''),
     (''dhcp.loading'', ''Laddar DHCP-data'' @ uni [0x2026]),
     (''dhcp.load_failed'', ''Unable to load DHCP data''),
     (''dhcp.create_pool_failed'', ''Unable to create pool''),
     (''dhcp.delete_pool_failed'', ''Unable to delete pool''),
     (''dhcp.create_reservation_failed'', ''Unable to create reservation''),
     (''dhcp.delete_reservation_failed'', ''Unable to delete reservation''),
     (''dhcp.delete_lease_failed'', ''Unable to delete lease''),
     (''dhcp.pools'', ''DHCP-pooler''),
     (''dhcp.add_pool'', ''L'' @ uni [0xE4] @ ''gg till pool''),
     (''dhcp.pool_name'', ''Poolnamn''),
     (''dhcp.interface'', ''Gr'' @ uni [0xE4] @ ''nssnitt''),
     (''dhcp.subnet_cidr'', ''Subn'' @ uni [0xE4] @ ''t (CIDR)''),
     (''dhcp.subnet'', ''Subn'' @ uni [0xE4] @ ''t''),
     (''dhcp.gateway'', ''Gateway''),
     (''dhcp.dns_servers'', ''DNS-servrar''),
     (''dhcp.lease_seconds'', ''Leasetid (sekunder)''),
     (''dhcp.leases_label'', ''Leaser''),
     (''dhcp.create'', ''Skapa''),
     (''dhcp.no_pools'', ''Inga DHCP-pooler konfigurerade. Skapa en f'' @ uni [0xF6] @ ''r att b'' @ uni [0xF6] @ ''rja utf'' @ uni [0xE4] @ ''rda leaser.''),
     (''dhcp.reservations'', ''Statiska reservationer''),
     (''dhcp.mac_address'', ''MAC-adress''),
     (''dhcp.ip_address'', ''IP-adress''),
     (''dhcp.hostname'', ''V'' @ uni [0xE4] @ ''rdnamn''),
     (''dhcp.add'', ''L'' @ uni [0xE4] @ ''gg till''),
     (''dhcp.active_leases'', ''Aktiva leaser''),
     (''dhcp.expires'', ''L'' @ uni [0xF6] @ ''per ut''),
     (''dhcp.no_leases'', ''Inga aktiva leaser.''),
     (''dhcp.expired'', ''L'' @ uni [0xF6] @ ''pt ut''),
     (''dhcp.confirm_delete_pool'', ''Ta bort denna pool och alla dess reservationer?''),
     (''dhcp.name'', ''Namn''),
     (''app.nav.cluster'', ''Kluster''),
     (''app.title.cluster'', ''Kluster'' @ uni [0xF6] @ ''versikt''),
     (''cluster.loading'', ''Laddar klusterdata'' @ uni [0x2026]),
     (''cluster.load_failed'', ''Unable to load cluster data''),
     (''cluster.name'', ''Namn''),
     (''cluster.status'', ''Status''),
     (''cluster.version'', ''Version''),
     (''cluster.last_seen'', ''Senast sedd''),
     (''cluster.config_history'', ''Konfigurationshistorik''),
     (''cluster.no_versions'', ''Inga konfigurationsversioner registrerade.''),
     (''cluster.hash'', ''Hash''),
     (''cluster.applied_by'', ''Till'' @ uni [0xE4] @ ''mpad av''),
     (''cluster.applied_at'', ''Till'' @ uni [0xE4] @ ''mpad vid''),
     (''app.nav.group_dns'', ''DNS''),
     (''app.nav.group_network'', ''N'' @ uni [0xE4] @ ''tverk''),
     (''app.nav.group_system'', ''System''),
     (''app.menu_open'', uni [0xD6] @ ''ppna navigering''),
     (''app.menu_close'', ''St'' @ uni [0xE4] @ ''ng navigering''),
     (''app.theme_to_dark'', ''Byt till m'' @ uni [0xF6] @ ''rkt tema''),
     (''app.theme_to_light'', ''Byt till ljust tema''),
     (''app.signed_in_as'', ''Inloggad som''),
     (''app.subtitle.zones'', ''Auktoritativa namn f'' @ uni [0xF6] @ ''r enheter och tj'' @ uni [0xE4] @ ''nster i ditt n'' @ uni [0xE4] @ ''tverk.''),
     (''app.subtitle.queries'', ''Senaste uppslag som besvarats av denna resolver.''),
     (''app.subtitle.blocklists'', ''Dom'' @ uni [0xE4] @ ''nlistor som besvaras som blockerade.''),
     (''app.subtitle.cache'', ''Svar i minnet f'' @ uni [0xF6] @ ''r snabbare upprepade uppslag.''),
     (''app.subtitle.settings'', ''Resolver, webbgr'' @ uni [0xE4] @ ''nssnitt och personliga inst'' @ uni [0xE4] @ ''llningar.''),
     (''app.subtitle.updates'', ''Installerad version, tillg'' @ uni [0xE4] @ ''ngliga versioner och uppdateringshistorik.''),
     (''app.subtitle.backup'', ''Skapa krypterade s'' @ uni [0xE4] @ ''kerhetskopior och verifiera befintliga.''),
     (''app.subtitle.dhcp'', ''Adresspooler, reservationer och aktiva l'' @ uni [0xE5] @ ''n.''),
     (''app.subtitle.cluster'', ''H'' @ uni [0xE5] @ ''ll lokala zoner identiska p'' @ uni [0xE5] @ '' flera Velora DNS-servrar.''),
     (''app.subtitle.diagnostics'', ''Komponenternas h'' @ uni [0xE4] @ ''lsa och en delbar supportrapport.''),
     (''app.subtitle.events'', ''Saker som beh'' @ uni [0xF6] @ ''ver din uppm'' @ uni [0xE4] @ ''rksamhet.''),
     (''app.subtitle.audit'', ''Vem '' @ uni [0xE4] @ ''ndrade vad, och n'' @ uni [0xE4] @ ''r.''),
     (''settings.preferences'', ''Inst'' @ uni [0xE4] @ ''llningar''),
     (''dashboard.general_statistics'', ''Allm'' @ uni [0xE4] @ ''n statistik''),
     (''dashboard.blocked'', ''Blockerade av filter''),
     (''dashboard.of_all_queries'', ''av alla f'' @ uni [0xF6] @ ''rfr'' @ uni [0xE5] @ ''gningar''),
     (''dashboard.query_logging'', ''Fr'' @ uni [0xE5] @ ''gelogg''),
     (''dashboard.enabled'', ''Aktiverad''),
     (''dashboard.disabled'', ''Inaktiverad''),
     (''dashboard.requests'', ''F'' @ uni [0xF6] @ ''rfr'' @ uni [0xE5] @ ''gningar''),
     (''dashboard.domain'', ''Dom'' @ uni [0xE4] @ ''n''),
     (''dashboard.client'', ''Klient''),
     (''dashboard.upstream_servers'', ''Uppstr'' @ uni [0xF6] @ ''msservrar''),
     (''dashboard.collecting_samples'', ''Samlar in m'' @ uni [0xE4] @ ''tv'' @ uni [0xE4] @ ''rden'' @ uni [0x2026]),
     (''cache.search_label'', ''S'' @ uni [0xF6] @ ''k p'' @ uni [0xE5] @ '' namn''),
     (''cache.search_placeholder'', ''example.org''),
     (''cache.all_types'', ''Alla typer''),
     (''cache.remove_entry'', ''Ta bort fr'' @ uni [0xE5] @ ''n cache''),
     (''cache.invalidate_title'', ''Ogiltigf'' @ uni [0xF6] @ ''rklara en dom'' @ uni [0xE4] @ ''n''),
     (''cache.invalidate_text'', ''Ta bort cachade svar f'' @ uni [0xF6] @ ''r ett namn utan att t'' @ uni [0xF6] @ ''mma hela cachen.''),
     (''cache.domain'', ''Dom'' @ uni [0xE4] @ ''n''),
     (''cache.include_subdomains'', ''Inkludera underdom'' @ uni [0xE4] @ ''ner''),
     (''cache.invalidate'', ''Ogiltigf'' @ uni [0xF6] @ ''rklara''),
     (''cache.removed_entries'', ''Borttagna cacheposter''),
     (''cache.invalidate_failed'', ''Ogiltigf'' @ uni [0xF6] @ ''rklaring misslyckades''),
     (''cache.flush_confirm'', ''Rensa alla cachade svar? R'' @ uni [0xE4] @ ''knare f'' @ uni [0xF6] @ ''r tr'' @ uni [0xE4] @ ''ffar och missar beh'' @ uni [0xE5] @ ''lls.''),
     (''cache.no_matches'', ''Inga cacheposter matchar filtret.''),
     (''blocklists.schedule'', ''Uppdateringsschema''),
     (''blocklists.schedule_for'', ''Uppdateringsschema f'' @ uni [0xF6] @ ''r''),
     (''blocklists.manual'', ''Manuellt''),
     (''blocklists.every_1h'', ''Varje timme''),
     (''blocklists.every_6h'', ''Var 6:e timme''),
     (''blocklists.every_12h'', ''Var 12:e timme''),
     (''blocklists.every_24h'', ''Dagligen''),
     (''blocklists.every_7d'', ''Varje vecka''),
     (''blocklists.col_next_update'', ''N'' @ uni [0xE4] @ ''sta uppdatering''),
     (''blocklists.due_now'', ''Nu''),
     (''blocklists.never_updated'', ''Aldrig uppdaterad''),
     (''blocklists.retry_count'', ''misslyckade f'' @ uni [0xF6] @ ''rs'' @ uni [0xF6] @ ''k''),
     (''blocklists.schedule_failed'', ''Det gick inte att '' @ uni [0xE4] @ ''ndra schemat''),
     (''app.nav.forwarding'', ''Villkorlig vidarebefordran''),
     (''app.title.forwarding'', ''Villkorlig vidarebefordran''),
     (''app.subtitle.forwarding'', ''Skicka f'' @ uni [0xF6] @ ''rfr'' @ uni [0xE5] @ ''gningar f'' @ uni [0xF6] @ ''r valda dom'' @ uni [0xE4] @ ''ner till egna resolvrar.''),
     (''forwarding.count'', ''vidarebefordringsregler''),
     (''forwarding.add'', ''L'' @ uni [0xE4] @ ''gg till regel''),
     (''forwarding.add_title'', ''Ny vidarebefordringsregel''),
     (''forwarding.edit_title'', ''Redigera vidarebefordringsregel''),
     (''forwarding.form_hint'', ''Regeln g'' @ uni [0xE4] @ ''ller '' @ uni [0xE4] @ ''ven alla namn under dom'' @ uni [0xE4] @ ''nen. Den mest specifika aktiva regeln vinner.''),
     (''forwarding.domain'', ''Dom'' @ uni [0xE4] @ ''n''),
     (''forwarding.upstreams'', ''Resolvrar''),
     (''forwarding.upstreams_hint'', ''1'' @ uni [0x2013] @ ''4 adresser som IP eller IP:port, separerade med kommatecken. Port 53 anv'' @ uni [0xE4] @ ''nds om den utel'' @ uni [0xE4] @ ''mnas.''),
     (''forwarding.description'', ''Beskrivning''),
     (''forwarding.enabled'', ''Aktiverad''),
     (''forwarding.save'', ''Spara regel'')]\<close>

definition dict_sv_6 :: text_table where
  \<open>dict_sv_6 = [
     (''forwarding.cancel'', ''Avbryt''),
     (''forwarding.empty_title'', ''Inga vidarebefordringsregler''),
     (''forwarding.empty_text'', ''Alla f'' @ uni [0xF6] @ ''rfr'' @ uni [0xE5] @ ''gningar anv'' @ uni [0xE4] @ ''nder de globala resolvrarna. L'' @ uni [0xE4] @ ''gg till en regel f'' @ uni [0xF6] @ ''r att sl'' @ uni [0xE5] @ '' upp en dom'' @ uni [0xE4] @ ''n som corp.example via en intern DNS-server.''),
     (''forwarding.col_status'', ''Status''),
     (''forwarding.test'', ''Testa''),
     (''forwarding.test_title'', ''Testa regel''),
     (''forwarding.test_hint'', ''Skickar en f'' @ uni [0xF6] @ ''rfr'' @ uni [0xE5] @ ''gan endast via regelns resolvrar, utan cache.''),
     (''forwarding.test_name'', ''Namn''),
     (''forwarding.test_type'', ''Typ''),
     (''forwarding.run_test'', ''K'' @ uni [0xF6] @ ''r test''),
     (''forwarding.test_via'', ''via''),
     (''forwarding.no_answers'', ''Inga svarsposter''),
     (''forwarding.edit'', ''Redigera''),
     (''forwarding.delete'', ''Ta bort''),
     (''forwarding.delete_confirm'', ''Ta bort vidarebefordringsregeln f'' @ uni [0xF6] @ ''r''),
     (''forwarding.toggle'', ''Aktivera eller inaktivera regeln f'' @ uni [0xF6] @ ''r''),
     (''forwarding.load_failed'', ''Det gick inte att l'' @ uni [0xE4] @ ''sa in reglerna''),
     (''forwarding.save_failed'', ''Det gick inte att spara regeln''),
     (''forwarding.saved'', ''Regeln sparades. Cachade svar f'' @ uni [0xF6] @ ''r dom'' @ uni [0xE4] @ ''nen rensades.''),
     (''forwarding.disabled'', ''Inaktiverad''),
     (''app.nav.rewrites'', ''DNS-omskrivningar''),
     (''app.title.rewrites'', ''DNS-omskrivningar''),
     (''app.subtitle.rewrites'', ''Besvara valda namn med fasta adresser eller alias.''),
     (''rewrites.count'', ''omskrivningar''),
     (''rewrites.add'', ''L'' @ uni [0xE4] @ ''gg till omskrivning''),
     (''rewrites.add_title'', ''Ny omskrivning''),
     (''rewrites.edit_title'', ''Redigera omskrivning''),
     (''rewrites.form_hint'', ''Anv'' @ uni [0xE4] @ ''nd *.f'' @ uni [0xF6] @ ''r'' @ uni [0xE4] @ ''lder f'' @ uni [0xF6] @ ''r alla namn under en dom'' @ uni [0xE4] @ ''n. Exakta namn vinner '' @ uni [0xF6] @ ''ver jokertecken.''),
     (''rewrites.name'', ''Namn''),
     (''rewrites.type'', ''Typ''),
     (''rewrites.value'', ''Svar''),
     (''rewrites.value_hint_A'', ''IPv4-adress''),
     (''rewrites.value_hint_AAAA'', ''IPv6-adress''),
     (''rewrites.value_hint_CNAME'', ''M'' @ uni [0xE5] @ ''lv'' @ uni [0xE4] @ ''rdnamn, sl'' @ uni [0xE5] @ ''s upp normalt''),
     (''rewrites.description'', ''Beskrivning''),
     (''rewrites.enabled'', ''Aktiverad''),
     (''rewrites.save'', ''Spara omskrivning''),
     (''rewrites.empty_title'', ''Inga DNS-omskrivningar''),
     (''rewrites.empty_text'', ''Koppla ett namn som nas.home till en adress utan att skapa en zon.''),
     (''rewrites.col_notes'', ''Anteckningar''),
     (''rewrites.blocked_hint'', ''Blockeras f'' @ uni [0xF6] @ ''rst av en blocklista''),
     (''rewrites.overrides_hint'', uni [0xC5] @ ''sidos'' @ uni [0xE4] @ ''tter lokal zon''),
     (''rewrites.edit'', ''Redigera''),
     (''rewrites.delete'', ''Ta bort''),
     (''rewrites.delete_confirm'', ''Ta bort omskrivningen?''),
     (''rewrites.toggle'', ''Aktivera eller inaktivera omskrivning f'' @ uni [0xF6] @ ''r''),
     (''rewrites.search'', ''Filtrera omskrivningar''),
     (''rewrites.load_failed'', ''Det gick inte att l'' @ uni [0xE4] @ ''sa in omskrivningar''),
     (''rewrites.save_failed'', ''Det gick inte att spara omskrivningen''),
     (''rewrites.saved'', ''Omskrivningen sparades och till'' @ uni [0xE4] @ ''mpades.''),
     (''app.nav.clients'', ''Klienter''),
     (''app.title.clients'', ''Klienter och enheter''),
     (''app.subtitle.clients'', ''Ge adresser och n'' @ uni [0xE4] @ ''tverk namn som anv'' @ uni [0xE4] @ ''nds i hela Velora.''),
     (''clients.count'', ''klienter''),
     (''clients.add'', ''L'' @ uni [0xE4] @ ''gg till klient''),
     (''clients.add_title'', ''Ny klient''),
     (''clients.edit_title'', ''Redigera klient''),
     (''clients.form_hint'', ''Vid '' @ uni [0xF6] @ ''verlappande n'' @ uni [0xE4] @ ''tverk vinner det mest specifika. Ge DHCP-enheter en fast adress innan du namnger dem.''),
     (''clients.name'', ''Namn''),
     (''clients.addresses'', ''Adresser''),
     (''clients.addresses_hint'', ''IP-adresser eller CIDR-n'' @ uni [0xE4] @ ''tverk, separerade med kommatecken.''),
     (''clients.group'', ''Grupp''),
     (''clients.description'', ''Beskrivning''),
     (''clients.enabled'', ''Aktiverad''),
     (''clients.save'', ''Spara klient''),
     (''clients.activity'', ''Senaste 24 timmarna''),
     (''clients.queries'', ''f'' @ uni [0xF6] @ ''rfr'' @ uni [0xE5] @ ''gningar''),
     (''clients.last_seen'', ''Senast sedd''),
     (''clients.no_activity'', ''Inga f'' @ uni [0xF6] @ ''rfr'' @ uni [0xE5] @ ''gningar''),
     (''clients.view_queries'', ''Visa f'' @ uni [0xF6] @ ''rfr'' @ uni [0xE5] @ ''gningar''),
     (''clients.empty_title'', ''Inga namngivna klienter''),
     (''clients.empty_text'', ''Namnge enheter som en tv eller Home Assistant s'' @ uni [0xE5] @ '' att de '' @ uni [0xE4] @ ''r l'' @ uni [0xE4] @ ''tta att k'' @ uni [0xE4] @ ''nna igen i fr'' @ uni [0xE5] @ ''geloggen.''),
     (''clients.unnamed_title'', ''Nyligen sedda utan namn''),
     (''clients.unnamed_text'', ''Mest aktiva adresser senaste 24 timmarna utan klient.''),
     (''clients.name_it'', ''Namnge enhet''),
     (''clients.edit'', ''Redigera''),
     (''clients.delete'', ''Ta bort''),
     (''clients.delete_confirm'', ''Ta bort klienten''),
     (''clients.toggle'', ''Aktivera eller inaktivera klient''),
     (''clients.load_failed'', ''Det gick inte att l'' @ uni [0xE4] @ ''sa in klienter''),
     (''clients.save_failed'', ''Det gick inte att spara klienten''),
     (''clients.saved'', ''Klienten sparades.''),
     (''clients.logging_off'', ''Aktivera fr'' @ uni [0xE5] @ ''geloggen f'' @ uni [0xF6] @ ''r att se klientaktivitet.''),
     (''app.nav.policies'', ''Klientpolicyer''),
     (''app.title.policies'', ''Filterpolicyer per klient''),
     (''app.subtitle.policies'', ''V'' @ uni [0xE4] @ ''lj hur blockering g'' @ uni [0xE4] @ ''ller f'' @ uni [0xF6] @ ''r enskilda klienter.''),
     (''policies.load_failed'', ''Policyerna kunde inte l'' @ uni [0xE4] @ ''sas in.''),
     (''policies.save_failed'', ''Policyn kunde inte sparas.''),
     (''policies.saved'', ''Policyn sparades.''),
     (''policies.lookup'', ''Kontrollera adress''),
     (''policies.add'', ''L'' @ uni [0xE4] @ ''gg till policy''),
     (''policies.add_title'', ''Ny policy''),
     (''policies.edit_title'', ''Redigera policy''),
     (''policies.form_hint'', ''Det mest specifika klientn'' @ uni [0xE4] @ ''tet avg'' @ uni [0xF6] @ ''r vilken policy en adress anv'' @ uni [0xE4] @ ''nder.''),
     (''policies.client'', ''Klient''),
     (''policies.mode'', ''Filtrering''),
     (''policies.mode_default'', ''Global''),
     (''policies.mode_disabled'', ''Ingen filtrering''),
     (''policies.mode_custom'', ''Anpassad''),
     (''policies.mode_default_hint'', ''Samma block- och till'' @ uni [0xE5] @ ''telselistor som alla andra.''),
     (''policies.mode_disabled_hint'', ''Inget blockeras f'' @ uni [0xF6] @ ''r den h'' @ uni [0xE4] @ ''r klienten.''),
     (''policies.mode_custom_hint'', ''Bara valda blocklistor plus egna dom'' @ uni [0xE4] @ ''ner.''),
     (''policies.blocklists'', ''Blocklistor''),
     (''policies.no_sources'', ''Inga blocklistor '' @ uni [0xE4] @ ''nnu.''),
     (''policies.globally_off'', ''av globalt''),
     (''policies.block'', ''Blockera '' @ uni [0xE4] @ ''ven''),
     (''policies.allow'', ''Till'' @ uni [0xE5] @ ''t alltid''),
     (''policies.domains_hint'', ''En dom'' @ uni [0xE4] @ ''n per rad; underdom'' @ uni [0xE4] @ ''ner ing'' @ uni [0xE5] @ ''r.''),
     (''policies.allow_hint'', ''G'' @ uni [0xE5] @ ''r f'' @ uni [0xF6] @ ''re alla blocklistor f'' @ uni [0xF6] @ ''r den h'' @ uni [0xE4] @ ''r klienten.''),
     (''policies.enabled'', ''Policyn '' @ uni [0xE4] @ ''r aktiv''),
     (''policies.save'', ''Spara policy''),
     (''policies.empty_title'', ''Inga klientpolicyer''),
     (''policies.empty_text'', ''Alla klienter anv'' @ uni [0xE4] @ ''nder de globala blocklistorna. L'' @ uni [0xE4] @ ''gg till en policy f'' @ uni [0xF6] @ ''r att filtrera en enhet striktare, mildare eller inte alls.''),
     (''policies.need_clients'', ''Policyer g'' @ uni [0xE4] @ ''ller namngivna klienter. Namnge en enhet f'' @ uni [0xF6] @ ''rst:''),
     (''policies.details'', ''Detaljer''),
     (''policies.summary_disabled'', ''Alla fr'' @ uni [0xE5] @ ''gor besvaras ofiltrerade''),
     (''policies.summary_default'', ''Anv'' @ uni [0xE4] @ ''nder de globala blocklistorna''),
     (''policies.no_lists'', ''Inga blocklistor''),
     (''policies.blocked_short'', ''blockerade'')]\<close>

definition dict_sv_7 :: text_table where
  \<open>dict_sv_7 = [
     (''policies.allowed_short'', ''till'' @ uni [0xE5] @ ''tna''),
     (''policies.paused'', ''Pausad''),
     (''policies.toggle'', ''Policy aktiv''),
     (''policies.edit'', ''Redigera policy''),
     (''policies.delete'', ''Ta bort policy''),
     (''policies.delete_confirm'', ''Ta bort policyn f'' @ uni [0xF6] @ ''r''),
     (''policies.no_policy'', ''(ingen policy, global filtrering)''),
     (''policies.unknown_address'', ''matchar ingen klient och anv'' @ uni [0xE4] @ ''nder global filtrering.''),
     (''app.nav.webhooks'', ''Webhooks''),
     (''app.title.webhooks'', ''Webhook-aviseringar''),
     (''app.subtitle.webhooks'', ''Skicka viktiga h'' @ uni [0xE4] @ ''ndelser till andra system.''),
     (''webhooks.load_failed'', ''Webhooks kunde inte l'' @ uni [0xE4] @ ''sas in.''),
     (''webhooks.save_failed'', ''Webhooken kunde inte sparas.''),
     (''webhooks.saved'', ''Webhooken sparades.''),
     (''webhooks.count'', ''webhooks''),
     (''webhooks.add'', ''L'' @ uni [0xE4] @ ''gg till webhook''),
     (''webhooks.add_title'', ''Ny webhook''),
     (''webhooks.edit_title'', ''Redigera webhook''),
     (''webhooks.form_hint'', ''Velora skickar en JSON POST-beg'' @ uni [0xE4] @ ''ran f'' @ uni [0xF6] @ ''r varje matchande h'' @ uni [0xE4] @ ''ndelse. Leveransen sker i bakgrunden och f'' @ uni [0xF6] @ ''rdr'' @ uni [0xF6] @ ''jer aldrig DNS-svar.''),
     (''webhooks.name'', ''Namn''),
     (''webhooks.url'', ''URL''),
     (''webhooks.min_severity'', ''L'' @ uni [0xE4] @ ''gsta allvarlighetsgrad''),
     (''webhooks.severity_info'', ''Info''),
     (''webhooks.severity_warning'', ''Varning''),
     (''webhooks.severity_critical'', ''Kritisk''),
     (''webhooks.token'', ''Bearer-token''),
     (''webhooks.token_hint'', ''Valfri. Skickas som Authorization-huvud och visas aldrig igen.''),
     (''webhooks.token_stored'', ''Token sparad''),
     (''webhooks.token_change'', uni [0xC4] @ ''ndra''),
     (''webhooks.token_remove_hint'', ''L'' @ uni [0xE4] @ ''mna tomt f'' @ uni [0xF6] @ ''r att ta bort token''),
     (''webhooks.events'', ''H'' @ uni [0xE4] @ ''ndelser''),
     (''webhooks.events_hint'', ''V'' @ uni [0xE4] @ ''lj inget f'' @ uni [0xF6] @ ''r att ta emot alla h'' @ uni [0xE4] @ ''ndelsetyper.''),
     (''webhooks.all_events'', ''Alla h'' @ uni [0xE4] @ ''ndelser''),
     (''webhooks.allow_private'', ''Till'' @ uni [0xE5] @ ''t m'' @ uni [0xE5] @ ''l i privat n'' @ uni [0xE4] @ ''tverk (t.ex. Home Assistant i ditt LAN)''),
     (''webhooks.enabled'', ''Webhook aktiv''),
     (''webhooks.save'', ''Spara webhook''),
     (''webhooks.empty_title'', ''Inga webhooks''),
     (''webhooks.empty_text'', ''L'' @ uni [0xE4] @ ''gg till en webhook f'' @ uni [0xF6] @ ''r att f'' @ uni [0xE5] @ '' veta n'' @ uni [0xE4] @ ''r en upstream slutar svara, en blocklista inte uppdateras eller en s'' @ uni [0xE4] @ ''kerhetskopia misslyckas.''),
     (''webhooks.last_delivery'', ''Senaste leverans''),
     (''webhooks.never'', ''Inget skickat '' @ uni [0xE4] @ ''nnu''),
     (''webhooks.failing'', ''Misslyckas''),
     (''webhooks.toggle'', ''Webhook aktiv''),
     (''webhooks.test'', ''Skicka test''),
     (''webhooks.test_ok'', ''Test levererat till''),
     (''webhooks.test_failed'', ''Testet misslyckades f'' @ uni [0xF6] @ ''r''),
     (''webhooks.edit'', ''Redigera webhook''),
     (''webhooks.delete'', ''Ta bort webhook''),
     (''webhooks.delete_confirm'', ''Ta bort webhooken''),
     (''app.nav.analytics'', ''Analys''),
     (''app.title.analytics'', ''Analys''),
     (''app.subtitle.analytics'', ''DNS-aktivitet och resolverprestanda fr'' @ uni [0xE5] @ ''n sparad fr'' @ uni [0xE5] @ ''gehistorik.''),
     (''analytics.load_failed'', ''Analysen kunde inte l'' @ uni [0xE4] @ ''sas in.''),
     (''analytics.logging_off_title'', ''Fr'' @ uni [0xE5] @ ''geloggning '' @ uni [0xE4] @ ''r av''),
     (''analytics.logging_off_text'', ''Analysen bygger p'' @ uni [0xE5] @ '' sparad fr'' @ uni [0xE5] @ ''gehistorik. Aktivera fr'' @ uni [0xE5] @ ''geloggning:''),
     (''analytics.range'', ''Tidsintervall''),
     (''analytics.range_1h'', ''1 timme''),
     (''analytics.range_24h'', ''24 timmar''),
     (''analytics.range_7d'', ''7 dagar''),
     (''analytics.range_30d'', ''30 dagar''),
     (''analytics.history_limited'', ''Fr'' @ uni [0xE5] @ ''gehistoriken g'' @ uni [0xE5] @ ''r bara tillbaka till''),
     (''analytics.queries'', ''Fr'' @ uni [0xE5] @ ''gor''),
     (''analytics.blocked'', ''Blockerade''),
     (''analytics.allowed'', ''Till'' @ uni [0xE5] @ ''tna''),
     (''analytics.cached'', ''Cachesvar''),
     (''analytics.answers'', ''svar''),
     (''analytics.avg_upstream'', ''Snittid upstream''),
     (''analytics.empty_title'', ''Inga fr'' @ uni [0xE5] @ ''gor i intervallet''),
     (''analytics.empty_text'', ''V'' @ uni [0xE4] @ ''lj ett l'' @ uni [0xE4] @ ''ngre intervall eller kom tillbaka senare.''),
     (''analytics.over_time'', ''Fr'' @ uni [0xE5] @ ''gor '' @ uni [0xF6] @ ''ver tid''),
     (''analytics.over_time_hint'', ''Hovra eller anv'' @ uni [0xE4] @ ''nd piltangenterna.''),
     (''analytics.chart_aria'', ''Fr'' @ uni [0xE5] @ ''gor per tidsintervall, till'' @ uni [0xE5] @ ''tna och blockerade''),
     (''analytics.show_table'', ''Visa som tabell''),
     (''analytics.time'', ''Tid''),
     (''analytics.avg_time'', ''Snittid''),
     (''analytics.latency'', ''Svarstid upstream''),
     (''analytics.latency_hint'', ''Snitt f'' @ uni [0xF6] @ ''r besvarade vidarebefordrade fr'' @ uni [0xE5] @ ''gor; luckor betyder ingen trafik.''),
     (''analytics.latency_aria'', ''Genomsnittlig svarstid per tidsintervall''),
     (''analytics.query_types'', ''Fr'' @ uni [0xE5] @ ''getyper''),
     (''analytics.sources'', ''Besvarade av''),
     (''analytics.source_upstream'', ''Upstream''),
     (''analytics.source_cache'', ''Cache''),
     (''analytics.source_blocked'', ''Blockerade''),
     (''analytics.source_local'', ''Lokala zoner och omskrivningar''),
     (''analytics.source_refused'', ''Nekade''),
     (''analytics.response_codes'', ''Svarskoder''),
     (''analytics.top_blocked'', ''Mest blockerade dom'' @ uni [0xE4] @ ''ner''),
     (''analytics.nothing_blocked'', ''Inget blockerat i intervallet''),
     (''analytics.upstreams'', ''Upstream-anv'' @ uni [0xE4] @ ''ndning''),
     (''analytics.upstreams_hint'', ''Vidarebefordrade fr'' @ uni [0xE5] @ ''gor per resolver, SERVFAIL-svar och snittid.''),
     (''analytics.no_upstream'', ''Ingen upstream-trafik i intervallet''),
     (''analytics.failures'', ''Fel''),
     (''updates.check_prompt'', ''Kontrollera om en nyare version finns.''),
     (''updates.checking'', ''S'' @ uni [0xF6] @ ''ker efter uppdateringar'' @ uni [0x2026]),
     (''updates.starting'', ''Startar uppdateringen'' @ uni [0x2026]),
     (''updates.updating_to'', ''Uppdaterar till''),
     (''updates.completed_to'', ''Uppdaterad till''),
     (''updates.failed_title'', ''Uppdateringen slutf'' @ uni [0xF6] @ ''rdes inte''),
     (''updates.failed_text'', ''Uppdateringen misslyckades. Velora k'' @ uni [0xF6] @ ''r vidare p'' @ uni [0xE5] @ '' tidigare version.''),
     (''updates.not_started'', ''Uppdateraren startade inte. Kontrollera att velora-updater.service k'' @ uni [0xF6] @ ''rs.''),
     (''updates.check_again'', ''Kontrollera igen''),
     (''updates.update_now'', ''Uppdatera''),
     (''updates.reload'', ''Ladda om sidan''),
     (''updates.reconnecting'', ''Velora startar om. V'' @ uni [0xE4] @ ''ntar'' @ uni [0x2026]),
     (''updates.keep_open'', ''Du kan l'' @ uni [0xE5] @ ''ta sidan vara '' @ uni [0xF6] @ ''ppen; den uppdateras automatiskt. DNS svarar fr'' @ uni [0xE5] @ ''n nuvarande version fram till bytet.''),
     (''updates.completed_text'', ''Uppdateringen '' @ uni [0xE4] @ ''r klar och godk'' @ uni [0xE4] @ ''nd. Ladda om sidan f'' @ uni [0xF6] @ ''r att h'' @ uni [0xE4] @ ''mta det nya gr'' @ uni [0xE4] @ ''nssnittet.''),
     (''updates.release_date'', ''Sl'' @ uni [0xE4] @ ''ppt''),
     (''settings.entry'', ''Post''),
     (''settings.fix_fields'', ''Inget '' @ uni [0xE4] @ ''ndrades. R'' @ uni [0xE4] @ ''tta de markerade f'' @ uni [0xE4] @ ''lten och f'' @ uni [0xF6] @ ''rs'' @ uni [0xF6] @ ''k igen.''),
     (''settings.restart_required'', ''Inget '' @ uni [0xE4] @ ''ndrades. De markerade f'' @ uni [0xE4] @ ''lten kr'' @ uni [0xE4] @ ''ver omstart: redigera konfigurationsfilen och starta om Velora DNS.''),
     (''settings.restart_field'', ''Kr'' @ uni [0xE4] @ ''ver omstart''),
     (''settings.check'', ''Kontrollera''),
     (''settings.check_ok'', ''Inst'' @ uni [0xE4] @ ''llningarna '' @ uni [0xE4] @ ''r giltiga och kan till'' @ uni [0xE4] @ ''mpas utan omstart.''),
     (''restore.title'', uni [0xC5] @ ''terst'' @ uni [0xE4] @ ''ll en s'' @ uni [0xE4] @ ''kerhetskopia''),
     (''restore.hint'', ''Ladda upp en krypterad s'' @ uni [0xE4] @ ''kerhetskopia f'' @ uni [0xF6] @ ''r att f'' @ uni [0xF6] @ ''rst kontrollera den. Inget '' @ uni [0xE4] @ ''ndras f'' @ uni [0xF6] @ ''rr'' @ uni [0xE4] @ ''n du bekr'' @ uni [0xE4] @ ''ftar; Velora startar om, sparar en s'' @ uni [0xE4] @ ''kerhetskopia och '' @ uni [0xE5] @ ''terst'' @ uni [0xE4] @ ''ller automatiskt om den inte kan starta.''),
     (''restore.file'', ''S'' @ uni [0xE4] @ ''kerhetskopia (.vdns)''),
     (''restore.inspect'', ''Kontrollera s'' @ uni [0xE4] @ ''kerhetskopia''),
     (''restore.inspecting'', ''Kontrollerar'' @ uni [0x2026]),
     (''restore.inspect_failed'', ''S'' @ uni [0xE4] @ ''kerhetskopian kunde inte kontrolleras.''),
     (''restore.review_title'', ''S'' @ uni [0xE4] @ ''kerhetskopian '' @ uni [0xE4] @ ''r giltig''),
     (''restore.created'', ''Skapad'')]\<close>

definition dict_sv_8 :: text_table where
  \<open>dict_sv_8 = [
     (''restore.version'', ''Velora-version''),
     (''restore.schema'', ''Databasschema''),
     (''restore.contents'', ''Inneh'' @ uni [0xE5] @ ''ll''),
     (''restore.zones'', ''zoner''),
     (''restore.records'', ''poster''),
     (''restore.blocklists'', ''blocklistor''),
     (''restore.rewrites'', ''omskrivningar''),
     (''restore.forward_rules'', ''vidarebefordringsregler''),
     (''restore.clients'', ''klienter''),
     (''restore.users'', ''anv'' @ uni [0xE4] @ ''ndare''),
     (''restore.listeners'', ''Lyssnare''),
     (''restore.web'', ''webb''),
     (''restore.confirm'', ''Ers'' @ uni [0xE4] @ ''tt nuvarande konfiguration och data med denna s'' @ uni [0xE4] @ ''kerhetskopia. En s'' @ uni [0xE4] @ ''kerhetskopia av nuvarande l'' @ uni [0xE4] @ ''ge sparas.''),
     (''restore.restore'', uni [0xC5] @ ''terst'' @ uni [0xE4] @ ''ll och starta om''),
     (''restore.schedule_failed'', uni [0xC5] @ ''terst'' @ uni [0xE4] @ ''llningen kunde inte startas.''),
     (''restore.manual_restart'', uni [0xC5] @ ''terst'' @ uni [0xE4] @ ''llningen '' @ uni [0xE4] @ ''r schemalagd. Starta om Velora DNS f'' @ uni [0xF6] @ ''r att till'' @ uni [0xE4] @ ''mpa den.''),
     (''restore.restarting'', ''Velora startar om f'' @ uni [0xF6] @ ''r att till'' @ uni [0xE4] @ ''mpa s'' @ uni [0xE4] @ ''kerhetskopian. Sidan uppdateras n'' @ uni [0xE4] @ ''r den '' @ uni [0xE4] @ ''r tillbaka.''),
     (''restore.signed_out'', ''Velora '' @ uni [0xE4] @ ''r tillbaka med '' @ uni [0xE5] @ ''terst'' @ uni [0xE4] @ ''llda data. Logga in med ett konto fr'' @ uni [0xE5] @ ''n s'' @ uni [0xE4] @ ''kerhetskopian.''),
     (''restore.again'', uni [0xC5] @ ''terst'' @ uni [0xE4] @ ''ll en annan s'' @ uni [0xE4] @ ''kerhetskopia''),
     (''restore.backup_from'', ''S'' @ uni [0xE4] @ ''kerhetskopia fr'' @ uni [0xE5] @ ''n''),
     (''restore.safety_copy'', ''Tidigare l'' @ uni [0xE4] @ ''ge sparat i''),
     (''restore.state_completed'', uni [0xC5] @ ''terst'' @ uni [0xE4] @ ''llningen '' @ uni [0xE4] @ ''r klar.''),
     (''restore.state_rolled_back'', uni [0xC5] @ ''terst'' @ uni [0xE4] @ ''llningen '' @ uni [0xE5] @ ''terkallades.''),
     (''restore.state_failed'', uni [0xC5] @ ''terst'' @ uni [0xE4] @ ''llningen misslyckades.''),
     (''restore.state_applied'', uni [0xC5] @ ''terst'' @ uni [0xE4] @ ''llning till'' @ uni [0xE4] @ ''mpad; v'' @ uni [0xE4] @ ''ntar p'' @ uni [0xE5] @ '' beredskap.''),
     (''restore.state_pending'', uni [0xC5] @ ''terst'' @ uni [0xE4] @ ''llning schemalagd.''),
     (''restore.passphrase'', ''L'' @ uni [0xF6] @ ''senfras f'' @ uni [0xF6] @ ''r s'' @ uni [0xE4] @ ''kerhetskopian''),
     (''app.scrollable_table'', ''rullar i sidled''),
     (''palette.title'', ''Kommandopalett''),
     (''palette.placeholder'', ''S'' @ uni [0xF6] @ ''k sidor, zoner, poster, klienter'' @ uni [0x2026]),
     (''palette.results'', ''Resultat''),
     (''palette.pages'', ''Sidor''),
     (''palette.actions'', uni [0xC5] @ ''tg'' @ uni [0xE4] @ ''rder''),
     (''palette.kind_zone'', ''Zoner''),
     (''palette.kind_record'', ''Poster''),
     (''palette.kind_client'', ''Klienter''),
     (''palette.kind_rewrite'', ''DNS-omskrivningar''),
     (''palette.kind_forwarding'', ''Villkorlig vidarebefordran''),
     (''palette.kind_blocklist'', ''Blocklistor''),
     (''palette.no_results'', ''Inga tr'' @ uni [0xE4] @ ''ffar.''),
     (''palette.navigate'', ''navigera''),
     (''palette.open'', uni [0xF6] @ ''ppna''),
     (''palette.toggle'', uni [0xF6] @ ''ppna eller st'' @ uni [0xE4] @ ''ng''),
     (''palette.open_button'', ''S'' @ uni [0xF6] @ ''k''),
     (''palette.add_client'', ''L'' @ uni [0xE4] @ ''gg till klient''),
     (''palette.create_backup'', ''Skapa s'' @ uni [0xE4] @ ''kerhetskopia''),
     (''cluster.action_failed'', ''Kluster'' @ uni [0xE5] @ ''tg'' @ uni [0xE4] @ ''rden misslyckades.''),
     (''cluster.never'', ''aldrig''),
     (''cluster.role'', ''Roll''),
     (''cluster.role_standalone'', ''Frist'' @ uni [0xE5] @ ''ende''),
     (''cluster.role_primary'', ''Klusterprim'' @ uni [0xE4] @ ''r''),
     (''cluster.role_replica'', ''Klusterreplik''),
     (''cluster.replicas'', ''Repliker''),
     (''cluster.in_sync_count'', ''synkade''),
     (''cluster.revision'', ''Zonrevision''),
     (''cluster.zones_replicated'', ''zoner replikerade''),
     (''cluster.last_sync'', ''Senaste synk''),
     (''cluster.sync_failed'', ''Senaste synk misslyckades''),
     (''cluster.sync_ok'', ''I fas med prim'' @ uni [0xE4] @ ''ren''),
     (''cluster.members'', ''Repliker''),
     (''cluster.members_hint'', ''Noder som kopierar prim'' @ uni [0xE4] @ ''rens zoner. De h'' @ uni [0xF6] @ ''r av sig var 30:e sekund.''),
     (''cluster.add_node'', ''L'' @ uni [0xE4] @ ''gg till nod''),
     (''cluster.token_title'', ''Anslutningstoken skapad''),
     (''cluster.token_steps'', uni [0xD6] @ ''ppna Kluster '' @ uni [0x2192] @ '' G'' @ uni [0xE5] @ '' med i ett kluster p'' @ uni [0xE5] @ '' den nya noden och ange:''),
     (''cluster.token_expires'', ''Token g'' @ uni [0xE5] @ ''r ut''),
     (''cluster.token_once'', ''Den fungerar en g'' @ uni [0xE5] @ ''ng och visas inte igen.''),
     (''cluster.copy_token'', ''Kopiera token''),
     (''cluster.copied'', ''Kopierad''),
     (''cluster.token_done'', ''Klar''),
     (''cluster.no_members'', ''Inga repliker '' @ uni [0xE4] @ ''nnu''),
     (''cluster.no_members_text'', ''L'' @ uni [0xE4] @ ''gg till en nod f'' @ uni [0xF6] @ ''r att skapa en anslutningstoken f'' @ uni [0xF6] @ ''r en andra Velora DNS-server.''),
     (''cluster.status_in_sync'', ''Synkad''),
     (''cluster.status_behind'', ''H'' @ uni [0xE4] @ ''mtar ikapp''),
     (''cluster.status_stale'', ''Svarar inte''),
     (''cluster.status_error'', ''Synkfel''),
     (''cluster.status_never_synced'', ''V'' @ uni [0xE4] @ ''ntar p'' @ uni [0xE5] @ '' f'' @ uni [0xF6] @ ''rsta synk''),
     (''cluster.remove'', ''Ta bort nod''),
     (''cluster.remove_confirm'', ''Ta bort repliken? Den slutar ta emot zonuppdateringar:''),
     (''cluster.removed'', ''Repliken togs bort.''),
     (''cluster.dissolve'', ''Uppl'' @ uni [0xF6] @ ''s klustret''),
     (''cluster.dissolve_hint'', uni [0xC5] @ ''terkallar alla repliker och g'' @ uni [0xF6] @ ''r noden frist'' @ uni [0xE5] @ ''ende igen. Replikerna beh'' @ uni [0xE5] @ ''ller sin senaste kopia av zonerna.''),
     (''cluster.dissolve_confirm'', ''Uppl'' @ uni [0xF6] @ ''sa klustret och '' @ uni [0xE5] @ ''terkalla alla repliker?''),
     (''cluster.dissolved'', ''Klustret uppl'' @ uni [0xF6] @ ''stes.''),
     (''cluster.replica_title'', ''Replikerar fr'' @ uni [0xE5] @ ''n prim'' @ uni [0xE4] @ ''ren''),
     (''cluster.replica_hint'', ''Zoner p'' @ uni [0xE5] @ '' noden kopieras fr'' @ uni [0xE5] @ ''n prim'' @ uni [0xE4] @ ''ren och '' @ uni [0xE4] @ ''r skrivskyddade h'' @ uni [0xE4] @ ''r. '' @ uni [0xD6] @ ''vriga inst'' @ uni [0xE4] @ ''llningar '' @ uni [0xE4] @ ''r lokala.''),
     (''cluster.replica_ok'', ''Replikeringen fungerar.''),
     (''cluster.sync_now'', ''Synka nu''),
     (''cluster.leave'', ''L'' @ uni [0xE4] @ ''mna klustret''),
     (''cluster.leave_confirm'', ''L'' @ uni [0xE4] @ ''mna klustret? Noden beh'' @ uni [0xE5] @ ''ller sina zoner och blir redigerbar igen.''),
     (''cluster.left'', ''Noden l'' @ uni [0xE4] @ ''mnade klustret.''),
     (''cluster.primary_url'', ''Prim'' @ uni [0xE4] @ ''rens URL''),
     (''cluster.cluster_id'', ''Kluster-ID''),
     (''cluster.node_id'', ''Nod-ID''),
     (''cluster.join_token'', ''Anslutningstoken''),
     (''cluster.standalone_title'', ''Noden '' @ uni [0xE4] @ ''r frist'' @ uni [0xE5] @ ''ende''),
     (''cluster.standalone_viewer'', ''En administrat'' @ uni [0xF6] @ ''r kan skapa ett kluster eller ansluta noden till ett.''),
     (''cluster.scope_note'', ''Ett kluster h'' @ uni [0xE5] @ ''ller lokala zoner identiska p'' @ uni [0xE5] @ '' flera Velora DNS-servrar: en prim'' @ uni [0xE4] @ ''r tar emot '' @ uni [0xE4] @ ''ndringar och repliker kopierar dem var 30:e sekund. Ingen automatisk failover; '' @ uni [0xF6] @ ''vriga inst'' @ uni [0xE4] @ ''llningar '' @ uni [0xE4] @ ''r per nod.''),
     (''cluster.create_title'', ''Skapa ett kluster''),
     (''cluster.create_hint'', ''Noden blir prim'' @ uni [0xE4] @ ''r. Dess zoner kopieras till alla repliker.''),
     (''cluster.node_name'', ''Nodnamn''),
     (''cluster.advertised_url'', ''Adress som andra noder anv'' @ uni [0xE4] @ ''nder''),
     (''cluster.advertised_hint'', ''Nodens webbgr'' @ uni [0xE4] @ ''nssnitt-URL sett fr'' @ uni [0xE5] @ ''n replikerna.''),
     (''cluster.allow_http'', ''Till'' @ uni [0xE5] @ ''t okrypterad HTTP (endast betrott n'' @ uni [0xE4] @ ''tverk)''),
     (''cluster.skip_check'', ''Hoppa '' @ uni [0xF6] @ ''ver n'' @ uni [0xE5] @ ''barhetskontrollen''),
     (''cluster.create'', ''Skapa kluster''),
     (''cluster.created'', ''Klustret skapades. L'' @ uni [0xE4] @ ''gg till en nod f'' @ uni [0xF6] @ ''r att bjuda in en replik.''),
     (''cluster.join_title'', ''G'' @ uni [0xE5] @ '' med i ett kluster''),
     (''cluster.join_hint'', ''G'' @ uni [0xF6] @ ''r noden till replik av en prim'' @ uni [0xE4] @ ''r. Skapa f'' @ uni [0xF6] @ ''rst anslutningstoken p'' @ uni [0xE5] @ '' prim'' @ uni [0xE4] @ ''ren.''),
     (''cluster.join_warning'', ''Vid anslutning ers'' @ uni [0xE4] @ ''tts nodens lokala zoner med prim'' @ uni [0xE4] @ ''rens. '' @ uni [0xD6] @ ''vriga inst'' @ uni [0xE4] @ ''llningar '' @ uni [0xE4] @ ''ndras inte.''),
     (''cluster.join_confirm'', ''G'' @ uni [0xE5] @ '' med i klustret och ers'' @ uni [0xE4] @ ''tt nodens zoner med prim'' @ uni [0xE4] @ ''rens?''),
     (''cluster.join'', ''G'' @ uni [0xE5] @ '' med i klustret''),
     (''cluster.joined'', ''Noden gick med i klustret och kopierar prim'' @ uni [0xE4] @ ''rens zoner.''),
     (''cluster.zones_read_only'', ''Noden '' @ uni [0xE4] @ ''r en klusterreplik. Zonerna kopieras fr'' @ uni [0xE5] @ ''n prim'' @ uni [0xE4] @ ''ren och kan bara '' @ uni [0xE4] @ ''ndras d'' @ uni [0xE4] @ ''r.'')]\<close>

definition dict_sv :: text_table where
  "dict_sv = dict_sv_1 @ dict_sv_2 @ dict_sv_3 @ dict_sv_4 @ dict_sv_5 @ dict_sv_6 @ dict_sv_7 @ dict_sv_8"

lemma sv_titles: "distinct (map snd (with_prefix ''app.title.'' dict_sv))"
  by (simp only: dict_sv_def dict_sv_1_def dict_sv_2_def dict_sv_3_def dict_sv_4_def dict_sv_5_def dict_sv_6_def dict_sv_7_def dict_sv_8_def group_eval) (simp add: uni_def unit_text_def)

lemma sv_labels: "distinct (map snd (with_prefix ''app.nav.'' dict_sv))"
  by (simp only: dict_sv_def dict_sv_1_def dict_sv_2_def dict_sv_3_def dict_sv_4_def dict_sv_5_def dict_sv_6_def dict_sv_7_def dict_sv_8_def group_eval) (simp add: uni_def unit_text_def)

end
