(* ===== verification/Texts_Ja.thy ===== *)
theory Texts_Ja
  imports Texts
begin

text \<open>The Japanese table, \<open>i18n/ja.ts\<close>.\<close>

definition dict_ja_1 :: text_table where
  \<open>dict_ja_1 = [
     (''app.skip_to_content'', uni [0x30B3, 0x30F3, 0x30C6, 0x30F3, 0x30C4, 0x3078, 0x30B9, 0x30AD, 0x30C3, 0x30D7]),
     (''app.workspace_label'', uni [0x30EF, 0x30FC, 0x30AF, 0x30B9, 0x30DA, 0x30FC, 0x30B9]),
     (''app.nav.events'', uni [0x30A4, 0x30D9, 0x30F3, 0x30C8]),
     (''app.title.events'', uni [0x30A4, 0x30D9, 0x30F3, 0x30C8]),
     (''events.unread'', uni [0x672A, 0x8AAD]),
     (''events.empty'', uni [0x30B7, 0x30B9, 0x30C6, 0x30E0, 0x30A4, 0x30D9, 0x30F3, 0x30C8, 0x306F, 0x307E, 0x3060, 0x3042, 0x308A, 0x307E, 0x305B, 0x3093, 0x3002]),
     (''events.load_failed'', uni [0x30A4, 0x30D9, 0x30F3, 0x30C8, 0x3092, 0x8AAD, 0x307F, 0x8FBC, 0x3081, 0x307E, 0x305B, 0x3093, 0x3067, 0x3057, 0x305F]),
     (''events.mark_read'', uni [0x65E2, 0x8AAD, 0x306B, 0x3059, 0x308B]),
     (''events.repeated'', uni [0x7E70, 0x308A, 0x8FD4, 0x3057]),
     (''events.open'', uni [0x958B, 0x304F]),
     (''events.info'', uni [0x60C5, 0x5831]),
     (''events.warning'', uni [0x8B66, 0x544A]),
     (''events.critical'', uni [0x91CD, 0x5927]),
     (''app.nav.main'', uni [0x30E1, 0x30A4, 0x30F3, 0x30CA, 0x30D3, 0x30B2, 0x30FC, 0x30B7, 0x30E7, 0x30F3]),
     (''app.nav.overview'', uni [0x6982, 0x8981]),
     (''app.nav.zones'', uni [0x30ED, 0x30FC, 0x30AB, 0x30EB, 0x30BE, 0x30FC, 0x30F3]),
     (''app.nav.queries'', uni [0x30AF, 0x30A8, 0x30EA, 0x30ED, 0x30B0]),
     (''app.nav.blocklists'', uni [0x30D6, 0x30ED, 0x30C3, 0x30AF, 0x30EA, 0x30B9, 0x30C8]),
     (''app.nav.cache'', ''DNS'' @ uni [0x30AD, 0x30E3, 0x30C3, 0x30B7, 0x30E5]),
     (''app.nav.settings'', uni [0x8A2D, 0x5B9A]),
     (''app.nav.updates'', uni [0x30A2, 0x30C3, 0x30D7, 0x30C7, 0x30FC, 0x30C8]),
     (''app.nav.backup'', uni [0x30D0, 0x30C3, 0x30AF, 0x30A2, 0x30C3, 0x30D7]),
     (''app.sign_out'', uni [0x30B5, 0x30A4, 0x30F3, 0x30A2, 0x30A6, 0x30C8]),
     (''app.nav.audit'', uni [0x76E3, 0x67FB, 0x30ED, 0x30B0]),
     (''app.title.audit'', uni [0x76E3, 0x67FB, 0x30ED, 0x30B0]),
     (''app.nav.diagnostics'', uni [0x8A3A, 0x65AD]),
     (''app.title.diagnostics'', uni [0x8A3A, 0x65AD]),
     (''app.local_resolver'', uni [0x30ED, 0x30FC, 0x30AB, 0x30EB, 0x30EA, 0x30BE, 0x30EB, 0x30D0, 0x30FC]),
     (''app.self_hosted_foundation'', uni [0x30BB, 0x30EB, 0x30D5, 0x30DB, 0x30B9, 0x30C8, 0x20, 0xB7, 0x20, 0x30D5, 0x30A1, 0x30A6, 0x30F3, 0x30C7, 0x30FC, 0x30B7, 0x30E7, 0x30F3]),
     (''app.private_by_default'', uni [0x30C7, 0x30D5, 0x30A9, 0x30EB, 0x30C8, 0x3067, 0x30D7, 0x30E9, 0x30A4, 0x30D9, 0x30FC, 0x30C8]),
     (''app.privacy.query_retention'', uni [0x30AF, 0x30A8, 0x30EA, 0x5C65, 0x6B74, 0x306F, 0x5236, 0x9650, 0x4ED8, 0x304D, 0x3067, 0x4FDD, 0x6301, 0x3055, 0x308C, 0x307E, 0x3059, 0x3002]),
     (''app.privacy.no_query_history'', uni [0x30AF, 0x30A8, 0x30EA, 0x5C65, 0x6B74, 0x306F, 0x53CE, 0x96C6, 0x3055, 0x308C, 0x307E, 0x305B, 0x3093, 0x3002]),
     (''app.github_repo'', ''GitHub'' @ uni [0x30EA, 0x30DD, 0x30B8, 0x30C8, 0x30EA]),
     (''app.connecting'', uni [0x63A5, 0x7D9A, 0x4E2D, 0x2026]),
     (''app.workspace'', uni [0x30EF, 0x30FC, 0x30AF, 0x30B9, 0x30DA, 0x30FC, 0x30B9]),
     (''app.connection_lost'', uni [0x63A5, 0x7D9A, 0x304C, 0x5931, 0x308F, 0x308C, 0x307E, 0x3057, 0x305F]),
     (''app.resolver_online'', uni [0x30EA, 0x30BE, 0x30EB, 0x30D0, 0x30FC, 0x30AA, 0x30F3, 0x30E9, 0x30A4, 0x30F3]),
     (''app.title.overview'', uni [0x30CD, 0x30C3, 0x30C8, 0x30EF, 0x30FC, 0x30AF, 0x6982, 0x8981]),
     (''app.title.zones'', uni [0x30ED, 0x30FC, 0x30AB, 0x30EB, 0x30BE, 0x30FC, 0x30F3]),
     (''app.title.queries'', uni [0x30AF, 0x30A8, 0x30EA, 0x30ED, 0x30B0]),
     (''app.title.blocklists'', uni [0x30D6, 0x30ED, 0x30C3, 0x30AF, 0x30EA, 0x30B9, 0x30C8]),
     (''app.title.cache'', ''DNS'' @ uni [0x30AD, 0x30E3, 0x30C3, 0x30B7, 0x30E5]),
     (''app.title.settings'', uni [0x8A2D, 0x5B9A]),
     (''app.title.updates'', uni [0x30A2, 0x30C3, 0x30D7, 0x30C7, 0x30FC, 0x30C8]),
     (''app.title.backup'', uni [0x30D0, 0x30C3, 0x30AF, 0x30A2, 0x30C3, 0x30D7, 0x3068, 0x5FA9, 0x5143]),
     (''app.eyebrow'', uni [0x30CD, 0x30C3, 0x30C8, 0x30EF, 0x30FC, 0x30AF, 0x306E, 0x5168, 0x4F53, 0x50CF]),
     (''app.subtitle.overview'', ''DNS'' @ uni [0x306E, 0x8981, 0x6C42, 0x304B, 0x3089, 0x5FDC, 0x7B54, 0x307E, 0x3067, 0x3001, 0x660E, 0x78BA, 0x306B, 0x628A, 0x63E1, 0x3067, 0x304D, 0x307E, 0x3059, 0x3002]),
     (''app.subtitle.default'', uni [0x30EA, 0x30BE, 0x30EB, 0x30D0, 0x30FC, 0x30D5, 0x30A1, 0x30A6, 0x30F3, 0x30C7, 0x30FC, 0x30B7, 0x30E7, 0x30F3, 0x3092, 0x78BA, 0x8A8D, 0x30FB, 0x7BA1, 0x7406, 0x3057, 0x307E, 0x3059, 0x3002]),
     (''app.refresh'', uni [0x66F4, 0x65B0]),
     (''app.error.showing_last'', uni [0x6700, 0x5F8C, 0x306B, 0x6210, 0x529F, 0x3057, 0x305F, 0x30B9, 0x30CA, 0x30C3, 0x30D7, 0x30B7, 0x30E7, 0x30C3, 0x30C8, 0x3092, 0x8868, 0x793A, 0x4E2D]),
     (''app.error.check_server'', ''Velora'' @ uni [0x30B5, 0x30FC, 0x30D0, 0x30FC, 0x304C, 0x5B9F, 0x884C, 0x4E2D, 0x3067, 0x3042, 0x308B, 0x3053, 0x3068, 0x3092, 0x78BA, 0x8A8D, 0x3057, 0x3066, 0x304F, 0x3060, 0x3055, 0x3044, 0x3002]),
     (''app.error.reach_server'', uni [0x30B5, 0x30FC, 0x30D0, 0x30FC, 0x306B, 0x63A5, 0x7D9A, 0x3067, 0x304D, 0x307E, 0x305B, 0x3093]),
     (''app.viewer_readonly'', uni [0x30D3, 0x30E5, 0x30FC, 0x30A2, 0x30FC, 0x3068, 0x3057, 0x3066, 0x30B5, 0x30A4, 0x30F3, 0x30A4, 0x30F3, 0x3057, 0x3066, 0x3044, 0x307E, 0x3059, 0x3002, 0x7BA1, 0x7406, 0x64CD, 0x4F5C, 0x306F, 0x8AAD, 0x307F, 0x53D6, 0x308A, 0x5C02, 0x7528, 0x3067, 0x3059, 0x3002]),
     (''app.connecting_panel'', uni [0x30EA, 0x30BE, 0x30EB, 0x30D0, 0x30FC, 0x306B, 0x63A5, 0x7D9A, 0x4E2D, 0x2026]),
     (''app.not_found'', uni [0x30DA, 0x30FC, 0x30B8, 0x304C, 0x898B, 0x3064, 0x304B, 0x308A, 0x307E, 0x305B, 0x3093, 0x3002]),
     (''app.footer.independent'', ''Velora DNS '' @ uni [0xB7] @ '' '' @ uni [0x72EC, 0x7ACB] @ '' '' @ uni [0xB7] @ '' '' @ uni [0x30BB, 0x30EB, 0x30D5, 0x30DB, 0x30B9, 0x30C8]),
     (''app.footer.last_updated'', uni [0x6700, 0x7D42, 0x66F4, 0x65B0]),
     (''app.footer.waiting'', uni [0x30B5, 0x30FC, 0x30D0, 0x30FC, 0x3092, 0x5F85, 0x6A5F, 0x4E2D]),
     (''diagnostics.title'', uni [0x30B7, 0x30B9, 0x30C6, 0x30E0, 0x306E, 0x72B6, 0x614B]),
     (''diagnostics.report_hint'', uni [0x30C0, 0x30A6, 0x30F3, 0x30ED, 0x30FC, 0x30C9, 0x306B, 0x306F, 0x30B3, 0x30F3, 0x30DD, 0x30FC, 0x30CD, 0x30F3, 0x30C8, 0x306E, 0x72B6, 0x614B, 0x3068, 0x30D3, 0x30EB, 0x30C9, 0x60C5, 0x5831, 0x304C, 0x542B, 0x307E, 0x308C, 0x307E, 0x3059, 0x3002, 0x79D8, 0x5BC6, 0x60C5, 0x5831, 0x3084, 0x30AF, 0x30A8, 0x30EA, 0x30ED, 0x30B0, 0x306F, 0x542B, 0x307E, 0x308C, 0x307E, 0x305B, 0x3093, 0x3002]),
     (''diagnostics.download'', uni [0x30EC, 0x30DD, 0x30FC, 0x30C8, 0x3092, 0x30C0, 0x30A6, 0x30F3, 0x30ED, 0x30FC, 0x30C9]),
     (''diagnostics.loading'', uni [0x8A3A, 0x65AD, 0x3092, 0x8AAD, 0x307F, 0x8FBC, 0x307F, 0x4E2D, 0x2026]),
     (''diagnostics.load_failed'', uni [0x8A3A, 0x65AD, 0x3092, 0x8AAD, 0x307F, 0x8FBC, 0x3081, 0x307E, 0x305B, 0x3093]),
     (''diagnostics.upstreams'', uni [0x4E0A, 0x6D41, 0x30B5, 0x30FC, 0x30D0, 0x30FC]),
     (''diagnostics.component'', uni [0x30B3, 0x30F3, 0x30DD, 0x30FC, 0x30CD, 0x30F3, 0x30C8]),
     (''diagnostics.state'', uni [0x72B6, 0x614B]),
     (''diagnostics.detail'', uni [0x8A73, 0x7D30]),
     (''diagnostics.state.healthy'', uni [0x6B63, 0x5E38]),
     (''diagnostics.state.degraded'', uni [0x4F4E, 0x4E0B]),
     (''diagnostics.state.failed'', uni [0x5931, 0x6557]),
     (''explain.title'', uni [0x306A, 0x305C, 0x3053, 0x306E, 0x5FDC, 0x7B54, 0x306B, 0x306A, 0x3063, 0x305F, 0x306E, 0x304B]),
     (''explain.hint'', ''1'' @ uni [0x3064, 0x306E, 0x540D, 0x524D, 0x306B, 0x3064, 0x3044, 0x3066, 0x30EA, 0x30BE, 0x30EB, 0x30D0, 0x30FC, 0x3092, 0x8A66, 0x884C, 0x3057, 0x307E, 0x3059, 0x3002, 0x4E0A, 0x6D41, 0x3078, 0x306E, 0x554F, 0x3044, 0x5408, 0x308F, 0x305B, 0x3001, 0x30ED, 0x30B0, 0x8A18, 0x9332, 0x3001, 0x30AD, 0x30E3, 0x30C3, 0x30B7, 0x30E5, 0x3001, 0x30AB, 0x30A6, 0x30F3, 0x30C8, 0x306F, 0x884C, 0x308F, 0x308C, 0x307E, 0x305B, 0x3093, 0x3002]),
     (''explain.name'', uni [0x540D, 0x524D]),
     (''explain.type'', uni [0x30EC, 0x30B3, 0x30FC, 0x30C9, 0x30BF, 0x30A4, 0x30D7]),
     (''explain.client'', uni [0x30AF, 0x30E9, 0x30A4, 0x30A2, 0x30F3, 0x30C8, 0x30A2, 0x30C9, 0x30EC, 0x30B9, 0xFF08, 0x4EFB, 0x610F, 0xFF09]),
     (''explain.client_hint'', uni [0x305D, 0x306E, 0x30AF, 0x30E9, 0x30A4, 0x30A2, 0x30F3, 0x30C8, 0x306E, 0x30D5, 0x30A3, 0x30EB, 0x30BF, 0x30EA, 0x30F3, 0x30B0, 0x30DD, 0x30EA, 0x30B7, 0x30FC, 0x3092, 0x9069, 0x7528, 0x3057, 0x307E, 0x3059, 0x3002]),
     (''explain.submit'', uni [0x8AAC, 0x660E, 0x3059, 0x308B]),
     (''explain.running'', uni [0x8AAC, 0x660E, 0x4E2D, 0x2026]),
     (''explain.failed'', uni [0x3053, 0x306E, 0x30AF, 0x30A8, 0x30EA, 0x3092, 0x8AAC, 0x660E, 0x3067, 0x304D, 0x307E, 0x305B, 0x3093, 0x3067, 0x3057, 0x305F]),
     (''explain.result'', uni [0x8AAC, 0x660E]),
     (''explain.winner'', uni [0x6C7A, 0x5B9A, 0x3057, 0x305F, 0x30B9, 0x30C6, 0x30FC, 0x30B8]),
     (''explain.answers'', uni [0x5FDC, 0x7B54]),
     (''explain.no_answers'', uni [0x5FDC, 0x7B54, 0x30EC, 0x30B3, 0x30FC, 0x30C9, 0x306A, 0x3057, 0x3A, 0x20, 0x5FDC, 0x7B54, 0x306F, 0x4E0A, 0x6D41, 0x30EA, 0x30BE, 0x30EB, 0x30D0, 0x30FC, 0x304B, 0x3089, 0x8FD4, 0x3055, 0x308C, 0x307E, 0x3059, 0x304C, 0x3001, 0x554F, 0x3044, 0x5408, 0x308F, 0x305B, 0x306F, 0x884C, 0x308F, 0x308C, 0x307E, 0x305B, 0x3093, 0x3002]),
     (''explain.steps'', uni [0x691C, 0x8A0E, 0x3055, 0x308C, 0x305F, 0x30B9, 0x30C6, 0x30FC, 0x30B8]),
     (''explain.step'', uni [0x30B9, 0x30C6, 0x30FC, 0x30B8]),
     (''explain.outcome'', uni [0x7D50, 0x679C]),
     (''explain.detail'', uni [0x8A73, 0x7D30]),
     (''explain.cname_target'', ''CNAME '' @ uni [0x306E, 0x5B9B, 0x5148]),
     (''explain.ttl'', uni [0x6B8B, 0x308A] @ '' TTL''),
     (''explain.matches'', uni [0x4E00, 0x81F4]),
     (''explain.allowed_by'', uni [0x8A31, 0x53EF, 0x3057, 0x305F, 0x30EB, 0x30FC, 0x30EB]),
     (''explain.not_contacted'', uni [0x4E0A, 0x6D41, 0x306B, 0x306F, 0x554F, 0x3044, 0x5408, 0x308F, 0x305B, 0x3066, 0x3044, 0x307E, 0x305B, 0x3093, 0x3002]),
     (''explain.scope.global'', uni [0x30B0, 0x30ED, 0x30FC, 0x30D0, 0x30EB, 0x30D5, 0x30A3, 0x30EB, 0x30BF, 0x30EA, 0x30F3, 0x30B0]),
     (''explain.scope.client_policy'', uni [0x30AF, 0x30E9, 0x30A4, 0x30A2, 0x30F3, 0x30C8, 0x30DD, 0x30EA, 0x30B7, 0x30FC]),
     (''explain.stage.filter'', uni [0x30D6, 0x30ED, 0x30C3, 0x30AF, 0x30EA, 0x30B9, 0x30C8, 0x307E, 0x305F, 0x306F, 0x30AF, 0x30E9, 0x30A4, 0x30A2, 0x30F3, 0x30C8, 0x30DD, 0x30EA, 0x30B7, 0x30FC]),
     (''explain.stage.rewrite'', ''DNS '' @ uni [0x30EA, 0x30E9, 0x30A4, 0x30C8]),
     (''explain.stage.zone'', uni [0x30ED, 0x30FC, 0x30AB, 0x30EB, 0x30BE, 0x30FC, 0x30F3]),
     (''explain.stage.cache'', uni [0x30AD, 0x30E3, 0x30C3, 0x30B7, 0x30E5]),
     (''explain.stage.forwarding'', uni [0x6761, 0x4EF6, 0x4ED8, 0x304D, 0x8EE2, 0x9001, 0x30EB, 0x30FC, 0x30EB]),
     (''explain.stage.upstream'', uni [0x30B0, 0x30ED, 0x30FC, 0x30D0, 0x30EB, 0x4E0A, 0x6D41, 0x30EA, 0x30BE, 0x30EB, 0x30D0, 0x30FC]),
     (''explain.stage.refused'', uni [0x62D2, 0x5426]),
     (''explain.result.passed'', uni [0x901A, 0x904E]),
     (''explain.result.allowed'', uni [0x8A31, 0x53EF]),
     (''explain.result.blocked'', uni [0x30D6, 0x30ED, 0x30C3, 0x30AF]),
     (''explain.result.no_match'', uni [0x4E00, 0x81F4, 0x306A, 0x3057]),
     (''explain.result.answered'', uni [0x5FDC, 0x7B54, 0x6E08, 0x307F]),
     (''explain.result.miss'', uni [0x30DF, 0x30B9]),
     (''explain.result.hit'', uni [0x30D2, 0x30C3, 0x30C8]),
     (''explain.result.refused'', uni [0x62D2, 0x5426]),
     (''explain.result.would_forward'', uni [0x8EE2, 0x9001, 0x3055, 0x308C, 0x308B]),
     (''explain.result.error'', uni [0x30A8, 0x30E9, 0x30FC]),
     (''explain.source.local'', uni [0x30ED, 0x30FC, 0x30AB, 0x30EB, 0x5FDC, 0x7B54]),
     (''explain.source.cache'', uni [0x30AD, 0x30E3, 0x30C3, 0x30B7, 0x30E5]),
     (''explain.source.blocked'', uni [0x30D6, 0x30ED, 0x30C3, 0x30AF]),
     (''explain.source.upstream'', uni [0x4E0A, 0x6D41]),
     (''explain.source.refused'', uni [0x62D2, 0x5426]),
     (''audit.title'', uni [0x7BA1, 0x7406, 0x76E3, 0x67FB, 0x30ED, 0x30B0]),
     (''audit.hint'', uni [0x7BA1, 0x7406, 0x64CD, 0x4F5C, 0x306F] @ ''90'' @ uni [0x65E5, 0x9593, 0x4FDD, 0x6301, 0x3055, 0x308C, 0x307E, 0x3059, 0x3002, 0x79D8, 0x5BC6, 0x60C5, 0x5831, 0x3068, 0x30EA, 0x30AF, 0x30A8, 0x30B9, 0x30C8, 0x672C, 0x6587, 0x306F, 0x542B, 0x307E, 0x308C, 0x307E, 0x305B, 0x3093, 0x3002]),
     (''audit.actor'', uni [0x5B9F, 0x884C, 0x8005])]\<close>

definition dict_ja_2 :: text_table where
  \<open>dict_ja_2 = [
     (''audit.action'', uni [0x64CD, 0x4F5C]),
     (''audit.result'', uni [0x7D50, 0x679C]),
     (''audit.all'', uni [0x3059, 0x3079, 0x3066]),
     (''audit.success'', uni [0x6210, 0x529F]),
     (''audit.failure'', uni [0x5931, 0x6557]),
     (''audit.filter'', uni [0x7D5E, 0x308A, 0x8FBC, 0x307F]),
     (''audit.time'', uni [0x6642, 0x523B]),
     (''audit.target'', uni [0x5BFE, 0x8C61]),
     (''audit.empty'', uni [0x76E3, 0x67FB, 0x30A4, 0x30D9, 0x30F3, 0x30C8, 0x304C, 0x3042, 0x308A, 0x307E, 0x305B, 0x3093, 0x3002]),
     (''audit.more'', uni [0x3055, 0x3089, 0x306B, 0x8AAD, 0x307F, 0x8FBC, 0x3080]),
     (''audit.load_failed'', uni [0x76E3, 0x67FB, 0x30A4, 0x30D9, 0x30F3, 0x30C8, 0x3092, 0x8AAD, 0x307F, 0x8FBC, 0x3081, 0x307E, 0x305B, 0x3093]),
     (''auth.checking'', uni [0x30BB, 0x30C3, 0x30B7, 0x30E7, 0x30F3, 0x3092, 0x78BA, 0x8A8D, 0x4E2D, 0x2026]),
     (''auth.sign_in_title'', ''Velora DNS'' @ uni [0x306B, 0x30B5, 0x30A4, 0x30F3, 0x30A4, 0x30F3]),
     (''auth.username'', uni [0x30E6, 0x30FC, 0x30B6, 0x30FC, 0x540D]),
     (''auth.password'', uni [0x30D1, 0x30B9, 0x30EF, 0x30FC, 0x30C9]),
     (''auth.sign_in'', uni [0x30B5, 0x30A4, 0x30F3, 0x30A4, 0x30F3]),
     (''auth.sign_in_failed'', uni [0x30B5, 0x30A4, 0x30F3, 0x30A4, 0x30F3, 0x306B, 0x5931, 0x6557, 0x3057, 0x307E, 0x3057, 0x305F]),
     (''settings.server_configuration'', uni [0x30B5, 0x30FC, 0x30D0, 0x30FC, 0x8A2D, 0x5B9A]),
     (''settings.language'', uni [0x8A00, 0x8A9E]),
     (''settings.theme'', uni [0x30C6, 0x30FC, 0x30DE]),
     (''settings.theme_light'', uni [0x30E9, 0x30A4, 0x30C8]),
     (''settings.theme_dark'', uni [0x30C0, 0x30FC, 0x30AF]),
     (''settings.theme_auto'', uni [0x81EA, 0x52D5]),
     (''settings.theme_hint'', uni [0x81EA, 0x52D5, 0x306F] @ ''OS'' @ uni [0x306E, 0x30E9, 0x30A4, 0x30C8, 0x2F, 0x30C0, 0x30FC, 0x30AF, 0x30AB, 0x30E9, 0x30FC, 0x30B9, 0x30AD, 0x30FC, 0x30E0, 0x306B, 0x5F93, 0x3044, 0x307E, 0x3059, 0x3002]),
     (''settings.log_level'', uni [0x30ED, 0x30B0, 0x30EC, 0x30D9, 0x30EB]),
     (''settings.rate_limiting'', uni [0x30EC, 0x30FC, 0x30C8, 0x5236, 0x9650]),
     (''settings.rate_limit_hint'', uni [0x30EC, 0x30FC, 0x30C8, 0x5236, 0x9650, 0x306F, 0x30C7, 0x30D5, 0x30A9, 0x30EB, 0x30C8, 0x3067, 0x7121, 0x52B9, 0x3067, 0x3059, 0x3002, 0x30EA, 0x30BE, 0x30EB, 0x30D0, 0x30FC, 0x3092, 0x30BD, 0x30FC, 0x30B9, 0x30D5, 0x30E9, 0x30C3, 0x30C9, 0x3084, 0x9AD8, 0x30AF, 0x30A8, 0x30EA, 0x30EC, 0x30FC, 0x30C8, 0x304B, 0x3089, 0x4FDD, 0x8B77, 0x3059, 0x308B, 0x305F, 0x3081, 0x306B, 0x6709, 0x52B9, 0x306B, 0x3057, 0x3066, 0x304F, 0x3060, 0x3055, 0x3044, 0x3002]),
     (''settings.rate_limit_enabled'', uni [0x30EC, 0x30FC, 0x30C8, 0x5236, 0x9650, 0x3092, 0x6709, 0x52B9, 0x306B, 0x3059, 0x308B]),
     (''settings.rate_limit_global_qps'', uni [0x30B0, 0x30ED, 0x30FC, 0x30D0, 0x30EB, 0x30AF, 0x30A8, 0x30EA, 0x2F, 0x79D2]),
     (''settings.rate_limit_client_qps'', uni [0x30AF, 0x30E9, 0x30A4, 0x30A2, 0x30F3, 0x30C8, 0x5225, 0x30AF, 0x30A8, 0x30EA, 0x2F, 0x79D2]),
     (''settings.rate_limit_burst'', uni [0x30D0, 0x30FC, 0x30B9, 0x30C8, 0x8A31, 0x5BB9, 0x91CF]),
     (''settings.rate_limit_rejected_total'', uni [0x62D2, 0x5426, 0x3055, 0x308C, 0x305F, 0x30AF, 0x30A8, 0x30EA]),
     (''settings.rate_limit_last_rejected'', uni [0x6700, 0x5F8C, 0x306E, 0x62D2, 0x5426]),
     (''settings.save'', uni [0x4FDD, 0x5B58]),
     (''settings.rate_limit_load_failed'', uni [0x30EC, 0x30FC, 0x30C8, 0x5236, 0x9650, 0x8A2D, 0x5B9A, 0x306E, 0x8AAD, 0x307F, 0x8FBC, 0x307F, 0x306B, 0x5931, 0x6557, 0x3057, 0x307E, 0x3057, 0x305F]),
     (''settings.rate_limit_save_failed'', uni [0x30EC, 0x30FC, 0x30C8, 0x5236, 0x9650, 0x8A2D, 0x5B9A, 0x306E, 0x4FDD, 0x5B58, 0x306B, 0x5931, 0x6557, 0x3057, 0x307E, 0x3057, 0x305F]),
     (''settings.rate_limit_saved'', uni [0x30EC, 0x30FC, 0x30C8, 0x5236, 0x9650, 0x8A2D, 0x5B9A, 0x3092, 0x4FDD, 0x5B58, 0x3057, 0x307E, 0x3057, 0x305F, 0x3002]),
     (''settings.rate_limit_loading'', uni [0x30EC, 0x30FC, 0x30C8, 0x5236, 0x9650, 0x8A2D, 0x5B9A, 0x3092, 0x8AAD, 0x307F, 0x8FBC, 0x307F, 0x4E2D, 0x2026]),
     (''settings.edit_hint'', uni [0x3053, 0x308C, 0x3089, 0x306E, 0x8A2D, 0x5B9A, 0x306F, 0x30AF, 0x30A4, 0x30C3, 0x30AF, 0x30B9, 0x30BF, 0x30FC, 0x30C8, 0x30A4, 0x30F3, 0x30B9, 0x30C8, 0x30FC, 0x30E9, 0x30FC, 0x30AA, 0x30D7, 0x30B7, 0x30E7, 0x30F3, 0x306B, 0x5BFE, 0x5FDC, 0x3057, 0x3066, 0x3044, 0x307E, 0x3059, 0x3002, 0x4E00, 0x90E8, 0x306E, 0x5909, 0x66F4, 0x306B, 0x306F, 0x518D, 0x8D77, 0x52D5, 0x304C, 0x5FC5, 0x8981, 0x3067, 0x3059, 0x3002, 0x30AD, 0x30E3, 0x30C3, 0x30B7, 0x30E5] @ ''TTL'' @ uni [0x306E, 0x5909, 0x66F4, 0x306F, 0x5373, 0x5EA7, 0x306B, 0x9069, 0x7528, 0x3055, 0x308C, 0x307E, 0x3059, 0x3002]),
     (''settings.dns_section'', ''DNS'' @ uni [0x8A2D, 0x5B9A]),
     (''settings.cache_section'', ''DNS'' @ uni [0x30AD, 0x30E3, 0x30C3, 0x30B7, 0x30E5]),
     (''settings.cache_ttl_label'', uni [0x30A2, 0x30C3, 0x30D7, 0x30B9, 0x30C8, 0x30EA, 0x30FC, 0x30E0, 0x56DE, 0x7B54, 0x30AD, 0x30E3, 0x30C3, 0x30B7, 0x30E5] @ ''TTL'' @ uni [0xFF08, 0x79D2, 0xFF09]),
     (''settings.cache_ttl_hint'', ''86400'' @ uni [0x79D2, 0x20] @ ''= 24'' @ uni [0x6642, 0x9593, 0x3002, 0x7BC4, 0x56F2, 0x3A, 0x20] @ ''0'' @ uni [0x301C] @ ''604800'' @ uni [0x79D2, 0x3002] @ ''0'' @ uni [0x306F, 0x5404, 0x30A2, 0x30C3, 0x30D7, 0x30B9, 0x30C8, 0x30EA, 0x30FC, 0x30E0, 0x306E, 0x5143, 0x306E] @ ''TTL'' @ uni [0x3092, 0x4F7F, 0x7528, 0x3057, 0x307E, 0x3059, 0x3002, 0x30A2, 0x30C3, 0x30D7, 0x30B9, 0x30C8, 0x30EA, 0x30FC, 0x30E0, 0x306E, 0x5909, 0x66F4, 0x304C, 0x53CD, 0x6620, 0x3055, 0x308C, 0x308B, 0x307E, 0x3067, 0x306B, 0x6642, 0x9593, 0x304C, 0x304B, 0x304B, 0x308B, 0x5834, 0x5408, 0x304C, 0x3042, 0x308A, 0x307E, 0x3059, 0x3002, 0x3053, 0x308C, 0x3092, 0x5909, 0x66F4, 0x3059, 0x308B, 0x3068, 0x3001, 0x65E2, 0x5B58, 0x306E, 0x30AD, 0x30E3, 0x30C3, 0x30B7, 0x30E5, 0x56DE, 0x7B54, 0x304C, 0x30AF, 0x30EA, 0x30A2, 0x3055, 0x308C, 0x307E, 0x3059, 0x3002] @ ''TTL'' @ uni [0x30BC, 0x30ED, 0x304A, 0x3088, 0x3073, 0x7F72, 0x540D, 0x6E08, 0x307F] @ ''DNSSEC'' @ uni [0x56DE, 0x7B54, 0x306F, 0x5143, 0x306E] @ ''TTL'' @ uni [0x3092, 0x4FDD, 0x6301, 0x3057, 0x307E, 0x3059, 0x3002]),
     (''settings.cache_ttl_invalid'', ''0'' @ uni [0x301C] @ ''604800'' @ uni [0x79D2, 0x306E, 0x6574, 0x6570, 0x3092, 0x5165, 0x529B, 0x3057, 0x3066, 0x304F, 0x3060, 0x3055, 0x3044, 0x3002]),
     (''settings.dns_listen_label'', ''DNS'' @ uni [0x30EA, 0x30C3, 0x30B9, 0x30F3, 0x30A2, 0x30C9, 0x30EC, 0x30B9, 0xFF08, 0x30AB, 0x30F3, 0x30DE, 0x533A, 0x5207, 0x308A, 0xFF09]),
     (''settings.dns_listen_warning'', uni [0x8B66, 0x544A, 0x3A, 0x20] @ ''0.0.0.0'' @ uni [0x306F] @ ''DNS'' @ uni [0x3092, 0x30CD, 0x30C3, 0x30C8, 0x30EF, 0x30FC, 0x30AF, 0x306B, 0x516C, 0x958B, 0x3057, 0x307E, 0x3059, 0x3002, 0x4FE1, 0x983C, 0x3067, 0x304D, 0x308B, 0x30AF, 0x30E9, 0x30A4, 0x30A2, 0x30F3, 0x30C8, 0x306E, 0x307F, 0x304C, 0x30A2, 0x30AF, 0x30BB, 0x30B9, 0x3067, 0x304D, 0x308B, 0x3088, 0x3046, 0x30D5, 0x30A1, 0x30A4, 0x30A2, 0x30A6, 0x30A9, 0x30FC, 0x30EB, 0x3092, 0x8A2D, 0x5B9A, 0x3057, 0x3066, 0x304F, 0x3060, 0x3055, 0x3044, 0x3002]),
     (''settings.upstreams_label'', uni [0x30A2, 0x30C3, 0x30D7, 0x30B9, 0x30C8, 0x30EA, 0x30FC, 0x30E0] @ ''DNS'' @ uni [0x30B5, 0x30FC, 0x30D0, 0x30FC, 0xFF08, 0x30AB, 0x30F3, 0x30DE, 0x533A, 0x5207, 0x308A, 0xFF09]),
     (''settings.upstreams_hint'', uni [0x5F62, 0x5F0F] @ '': IP:PORT'' @ uni [0xFF08, 0x4F8B] @ '': 1.1.1.1:53'' @ uni [0xFF09, 0x3002] @ ''DoH'' @ uni [0x30A2, 0x30C3, 0x30D7, 0x30B9, 0x30C8, 0x30EA, 0x30FC, 0x30E0, 0x306F] @ ''https://host/dns-query'' @ uni [0x3092, 0x4F7F, 0x7528]),
     (''settings.allowed_clients_label'', uni [0x8A31, 0x53EF, 0x3055, 0x308C, 0x305F, 0x30AF, 0x30E9, 0x30A4, 0x30A2, 0x30F3, 0x30C8, 0x30CD, 0x30C3, 0x30C8, 0x30EF, 0x30FC, 0x30AF, 0xFF08, 0x30AB, 0x30F3, 0x30DE, 0x533A, 0x5207, 0x308A] @ ''CIDR'' @ uni [0xFF09]),
     (''settings.allowed_clients_hint'', uni [0x3053, 0x308C, 0x3089, 0x306E, 0x30CD, 0x30C3, 0x30C8, 0x30EF, 0x30FC, 0x30AF, 0x306E, 0x307F, 0x304C, 0x30EA, 0x30BE, 0x30EB, 0x30D0, 0x30FC, 0x3092, 0x30AF, 0x30A8, 0x30EA, 0x3067, 0x304D, 0x307E, 0x3059, 0x3002, 0x4F8B] @ '': 192.168.1.0/24, 10.0.0.0/8''),
     (''settings.web_section'', ''Web UI'' @ uni [0x8A2D, 0x5B9A]),
     (''settings.web_listen_label'', ''Web UI'' @ uni [0x30EA, 0x30C3, 0x30B9, 0x30F3, 0x30A2, 0x30C9, 0x30EC, 0x30B9] @ '' (IP:port)''),
     (''settings.web_listen_warning'', uni [0x8B66, 0x544A, 0x3A, 0x20] @ ''0.0.0.0'' @ uni [0x306F] @ ''Web UI'' @ uni [0x3092, 0x30CD, 0x30C3, 0x30C8, 0x30EF, 0x30FC, 0x30AF, 0x306B, 0x516C, 0x958B, 0x3057, 0x307E, 0x3059, 0x3002, 0x30D5, 0x30A1, 0x30A4, 0x30A2, 0x30A6, 0x30A9, 0x30FC, 0x30EB, 0x307E, 0x305F, 0x306F, 0x8A8D, 0x8A3C, 0x3092, 0x4F7F, 0x7528, 0x3057, 0x3066, 0x304F, 0x3060, 0x3055, 0x3044, 0x3002]),
     (''settings.allowed_hosts_label'', uni [0x8A31, 0x53EF, 0x3055, 0x308C, 0x305F, 0x30DB, 0x30B9, 0x30C8, 0xFF08, 0x30AB, 0x30F3, 0x30DE, 0x533A, 0x5207, 0x308A, 0xFF09]),
     (''settings.allowed_hosts_hint'', uni [0x7BA1, 0x7406] @ ''API'' @ uni [0x3078, 0x306E, 0x30A2, 0x30AF, 0x30BB, 0x30B9, 0x3092, 0x8A31, 0x53EF, 0x3059, 0x308B, 0x30DB, 0x30B9, 0x30C8, 0x30D8, 0x30C3, 0x30C0, 0x30FC, 0x3002, 0x3059, 0x3079, 0x3066, 0x8A31, 0x53EF, 0x3059, 0x308B, 0x306B, 0x306F] @ ''*'' @ uni [0x3092, 0x4F7F, 0x7528, 0x3057, 0x307E, 0x3059, 0xFF08] @ ''LAN'' @ uni [0x3067, 0x306F, 0x975E, 0x63A8, 0x5968, 0xFF09, 0x3002]),
     (''settings.logging_section'', uni [0x30ED, 0x30B0, 0x305D, 0x306E, 0x4ED6]),
     (''settings.enable_query_log'', uni [0x30AF, 0x30A8, 0x30EA, 0x30ED, 0x30B0, 0x3092, 0x6709, 0x52B9, 0x306B, 0x3059, 0x308B]),
     (''settings.save_configuration'', uni [0x8A2D, 0x5B9A, 0x3092, 0x4FDD, 0x5B58]),
     (''settings.saving'', uni [0x4FDD, 0x5B58, 0x4E2D, 0x2026]),
     (''settings.save_success'', uni [0x8A2D, 0x5B9A, 0x3092, 0x4FDD, 0x5B58, 0x3057, 0x3066, 0x9069, 0x7528, 0x3057, 0x307E, 0x3057, 0x305F, 0x3002]),
     (''settings.save_failed'', uni [0x8A2D, 0x5B9A, 0x306E, 0x4FDD, 0x5B58, 0x306B, 0x5931, 0x6557, 0x3057, 0x307E, 0x3057, 0x305F]),
     (''dashboard.total_queries'', uni [0x7DCF, 0x30AF, 0x30A8, 0x30EA, 0x6570]),
     (''dashboard.since_start'', uni [0x7D71, 0x8A08, 0x306E, 0x6700, 0x7D42, 0x30EA, 0x30BB, 0x30C3, 0x30C8, 0x4EE5, 0x964D]),
     (''dashboard.reset_statistics'', uni [0x7D71, 0x8A08, 0x3092, 0x30EA, 0x30BB, 0x30C3, 0x30C8]),
     (''dashboard.reset_confirm'', uni [0x30AF, 0x30A8, 0x30EA, 0x3001, 0x30AD, 0x30E3, 0x30C3, 0x30B7, 0x30E5, 0x3001, 0x30EC, 0x30FC, 0x30C8, 0x5236, 0x9650, 0x306E, 0x30AB, 0x30A6, 0x30F3, 0x30BF, 0x30FC, 0x3092, 0x3059, 0x3079, 0x3066, 0x30EA, 0x30BB, 0x30C3, 0x30C8, 0x3057, 0x307E, 0x3059, 0x304B, 0xFF1F, 0x3053, 0x306E, 0x64CD, 0x4F5C, 0x306F, 0x5143, 0x306B, 0x623B, 0x305B, 0x307E, 0x305B, 0x3093, 0x3002]),
     (''dashboard.reset_failed'', uni [0x7D71, 0x8A08, 0x3092, 0x30EA, 0x30BB, 0x30C3, 0x30C8, 0x3067, 0x304D, 0x307E, 0x305B, 0x3093, 0x3067, 0x3057, 0x305F]),
     (''dashboard.qps'', uni [0x30AF, 0x30A8, 0x30EA, 0x2F, 0x79D2]),
     (''dashboard.rolling_avg'', ''60'' @ uni [0x79D2, 0x30ED, 0x30FC, 0x30EA, 0x30F3, 0x30B0, 0x5E73, 0x5747]),
     (''dashboard.cache_hit_rate'', uni [0x30AD, 0x30E3, 0x30C3, 0x30B7, 0x30E5, 0x30D2, 0x30C3, 0x30C8, 0x7387]),
     (''dashboard.answers_from_memory'', uni [0x30E1, 0x30E2, 0x30EA, 0x304B, 0x3089, 0x63D0, 0x4F9B, 0x3055, 0x308C, 0x305F, 0x56DE, 0x7B54]),
     (''dashboard.uptime'', uni [0x7A3C, 0x50CD, 0x6642, 0x9593]),
     (''dashboard.process_lifetime'', uni [0x73FE, 0x5728, 0x306E, 0x30D7, 0x30ED, 0x30BB, 0x30B9, 0x7A3C, 0x50CD, 0x6642, 0x9593]),
     (''dashboard.top_domains'', uni [0x4E0A, 0x4F4D, 0x30C9, 0x30E1, 0x30A4, 0x30F3]),
     (''dashboard.top_clients'', uni [0x4E0A, 0x4F4D, 0x30AF, 0x30E9, 0x30A4, 0x30A2, 0x30F3, 0x30C8]),
     (''dashboard.query_activity'', uni [0x30AF, 0x30A8, 0x30EA, 0x30A2, 0x30AF, 0x30C6, 0x30A3, 0x30D3, 0x30C6, 0x30A3]),
     (''dashboard.live_samples'', uni [0x30EA, 0x30BE, 0x30EB, 0x30D0, 0x30FC, 0x304B, 0x3089, 0x306E, 0x30E9, 0x30A4, 0x30D6, 0x30B5, 0x30F3, 0x30D7, 0x30EB]),
     (''dashboard.refresh_5s'', ''5'' @ uni [0x79D2, 0x3054, 0x3068, 0x306B, 0x66F4, 0x65B0]),
     (''dashboard.queries_per_sec'', uni [0x30AF, 0x30A8, 0x30EA, 0x2F, 0x79D2]),
     (''dashboard.chart_aria'', uni [0x3053, 0x306E, 0x30D6, 0x30E9, 0x30A6, 0x30B6, 0x30BB, 0x30C3, 0x30B7, 0x30E7, 0x30F3, 0x4E2D, 0x306E, 0x30AF, 0x30A8, 0x30EA, 0x30EC, 0x30FC, 0x30C8]),
     (''dashboard.session_samples'', uni [0x30BB, 0x30C3, 0x30B7, 0x30E7, 0x30F3, 0x30B5, 0x30F3, 0x30D7, 0x30EB]),
     (''dashboard.now'', uni [0x73FE, 0x5728]),
     (''dashboard.upstream_resolvers'', uni [0x30A2, 0x30C3, 0x30D7, 0x30B9, 0x30C8, 0x30EA, 0x30FC, 0x30E0, 0x30EA, 0x30BE, 0x30EB, 0x30D0, 0x30FC]),
     (''dashboard.ordered_failover'', ''TCP'' @ uni [0x30D5, 0x30A9, 0x30FC, 0x30EB, 0x30D0, 0x30C3, 0x30AF, 0x4ED8, 0x304D, 0x9806, 0x6B21, 0x30D5, 0x30A7, 0x30A4, 0x30EB, 0x30AA, 0x30FC, 0x30D0, 0x30FC]),
     (''dashboard.endpoint'', uni [0x30A8, 0x30F3, 0x30C9, 0x30DD, 0x30A4, 0x30F3, 0x30C8]),
     (''dashboard.health'', uni [0x72B6, 0x614B]),
     (''dashboard.upstream_unknown'', uni [0x4E0D, 0x660E]),
     (''dashboard.upstream_healthy'', uni [0x6B63, 0x5E38]),
     (''dashboard.upstream_degraded'', uni [0x4F4E, 0x4E0B]),
     (''dashboard.upstream_unavailable'', uni [0x5229, 0x7528, 0x4E0D, 0x53EF]),
     (''dashboard.priority'', uni [0x512A, 0x5148, 0x5EA6]),
     (''dashboard.attempt_timeout'', uni [0x8A66, 0x884C, 0x30BF, 0x30A4, 0x30E0, 0x30A2, 0x30A6, 0x30C8]),
     (''dashboard.primary'', uni [0x30D7, 0x30E9, 0x30A4, 0x30DE, 0x30EA]),
     (''dashboard.fallback'', uni [0x30D5, 0x30A9, 0x30FC, 0x30EB, 0x30D0, 0x30C3, 0x30AF]),
     (''dashboard.config_shown'', uni [0x8A2D, 0x5B9A, 0x3092, 0x8868, 0x793A, 0x4E2D, 0x3002, 0x5230, 0x9054, 0x53EF, 0x80FD, 0x6027, 0x306F, 0x5404, 0x30AF, 0x30A8, 0x30EA, 0x3067, 0x8A55, 0x4FA1, 0x3055, 0x308C, 0x307E, 0x3059, 0x3002]),
     (''dashboard.retained_last_24h'', uni [0x904E, 0x53BB] @ ''24'' @ uni [0x6642, 0x9593, 0x306B, 0x4FDD, 0x6301, 0x3055, 0x308C, 0x305F, 0x30AF, 0x30A8, 0x30EA]),
     (''dashboard.unavailable_no_logging'', uni [0x30AF, 0x30A8, 0x30EA, 0x30ED, 0x30B0, 0x304C, 0x7121, 0x52B9, 0x306A, 0x5834, 0x5408, 0x306F, 0x5229, 0x7528, 0x3067, 0x304D, 0x307E, 0x305B, 0x3093, 0x3002]),
     (''dashboard.loading_stats'', uni [0x30AF, 0x30A8, 0x30EA, 0x7D71, 0x8A08, 0x3092, 0x8AAD, 0x307F, 0x8FBC, 0x307F, 0x4E2D, 0x2026]),
     (''dashboard.stats_load_failed'', uni [0x30AF, 0x30A8, 0x30EA, 0x7D71, 0x8A08, 0x306E, 0x8AAD, 0x307F, 0x8FBC, 0x307F, 0x306B, 0x5931, 0x6557, 0x3057, 0x307E, 0x3057, 0x305F]),
     (''dashboard.no_retained'', uni [0x3053, 0x306E, 0x671F, 0x9593, 0x306B, 0x4FDD, 0x6301, 0x3055, 0x308C, 0x305F, 0x30AF, 0x30A8, 0x30EA, 0x306F, 0x3042, 0x308A, 0x307E, 0x305B, 0x3093, 0x3002]),
     (''cache.live_entries'', uni [0x30E9, 0x30A4, 0x30D6, 0x30A8, 0x30F3, 0x30C8, 0x30EA]),
     (''cache.capacity'', uni [0x5BB9, 0x91CF]),
     (''cache.hits'', uni [0x30AD, 0x30E3, 0x30C3, 0x30B7, 0x30E5, 0x30D2, 0x30C3, 0x30C8]),
     (''cache.since_startup'', uni [0x30D7, 0x30ED, 0x30BB, 0x30B9, 0x958B, 0x59CB, 0x4EE5, 0x964D]),
     (''cache.misses'', uni [0x30AD, 0x30E3, 0x30C3, 0x30B7, 0x30E5, 0x30DF, 0x30B9]),
     (''cache.includes_uncacheable'', uni [0x30AD, 0x30E3, 0x30C3, 0x30B7, 0x30E5, 0x4E0D, 0x53EF, 0x30EA, 0x30AF, 0x30A8, 0x30B9, 0x30C8, 0x3092, 0x542B, 0x3080]),
     (''cache.memory_cache'', uni [0x30E1, 0x30E2, 0x30EA, 0x30AD, 0x30E3, 0x30C3, 0x30B7, 0x30E5]),
     (''cache.description'', uni [0x6B63, 0x306E, 0x30A2, 0x30C3, 0x30D7, 0x30B9, 0x30C8, 0x30EA, 0x30FC, 0x30E0, 0x56DE, 0x7B54, 0x306F, 0x8A2D, 0x5B9A, 0x3055, 0x308C, 0x305F, 0x30AD, 0x30E3, 0x30C3, 0x30B7, 0x30E5] @ ''TTL'' @ uni [0x3092, 0x4F7F, 0x7528, 0x3057, 0x307E, 0x3059, 0x3002] @ ''TTL'' @ uni [0x30BC, 0x30ED, 0x3001, 0x7F72, 0x540D, 0x6E08, 0x307F] @ ''DNSSEC'' @ uni [0x3001, 0x304A, 0x3088, 0x3073, 0x8CA0, 0x306E, 0x56DE, 0x7B54, 0x306F, 0x5143, 0x306E, 0x30EB, 0x30FC, 0x30EB, 0x3092, 0x4FDD, 0x6301, 0x3057, 0x307E, 0x3059, 0x3002, 0x5BB9, 0x91CF, 0x306B, 0x9054, 0x3059, 0x308B, 0x3068] @ ''Least Recently Used'' @ uni [0x30A8, 0x30F3, 0x30C8, 0x30EA, 0x304C, 0x524A, 0x9664, 0x3055, 0x308C, 0x307E, 0x3059, 0x3002, 0x30AD, 0x30E3, 0x30C3, 0x30B7, 0x30E5, 0x5185, 0x5BB9, 0x306F] @ ''SQLite'' @ uni [0x306B, 0x4FDD, 0x5B58, 0x3055, 0x308C, 0x307E, 0x305B, 0x3093, 0x3002]),
     (''cache.clear_description'', uni [0x30AD, 0x30E3, 0x30C3, 0x30B7, 0x30E5, 0x3092, 0x30AF, 0x30EA, 0x30A2, 0x3059, 0x308B, 0x3068, 0x3001, 0x73FE, 0x5728, 0x306E, 0x3059, 0x3079, 0x3066, 0x306E, 0x56DE, 0x7B54, 0x304C, 0x524A, 0x9664, 0x3055, 0x308C, 0x307E, 0x3059, 0x3002, 0x30D2, 0x30C3, 0x30C8, 0x2F, 0x30DF, 0x30B9, 0x30AB, 0x30A6, 0x30F3, 0x30BF, 0x30FC, 0x306F, 0x4FDD, 0x6301, 0x3055, 0x308C, 0x307E, 0x3059, 0x3002]),
     (''cache.clearing'', uni [0x30AF, 0x30EA, 0x30A2, 0x4E2D, 0x2026]),
     (''cache.clear'', uni [0x30AD, 0x30E3, 0x30C3, 0x30B7, 0x30E5, 0x3092, 0x30AF, 0x30EA, 0x30A2]),
     (''cache.cleared'', uni [0x30AD, 0x30E3, 0x30C3, 0x30B7, 0x30E5, 0x3092, 0x30AF, 0x30EA, 0x30A2, 0x3057, 0x307E, 0x3057, 0x305F, 0x3002, 0x30ED, 0x30FC, 0x30AB, 0x30EB, 0x30BE, 0x30FC, 0x30F3, 0x306F, 0x5F15, 0x304D, 0x7D9A, 0x304D, 0x6709, 0x52B9, 0x3067, 0x3059, 0x3002, 0x4ED6, 0x306E, 0x30AF, 0x30A8, 0x30EA, 0x306F, 0x30A2, 0x30C3, 0x30D7, 0x30B9, 0x30C8, 0x30EA, 0x30FC, 0x30E0, 0x30EA, 0x30BE, 0x30EB, 0x30D0, 0x30FC, 0x3092, 0x4F7F, 0x7528, 0x3057, 0x307E, 0x3059, 0x3002]),
     (''cache.flush_failed'', uni [0x30AD, 0x30E3, 0x30C3, 0x30B7, 0x30E5, 0x30AF, 0x30EA, 0x30A2, 0x306B, 0x5931, 0x6557, 0x3057, 0x307E, 0x3057, 0x305F]),
     (''cache.entries_title'', uni [0x30AD, 0x30E3, 0x30C3, 0x30B7, 0x30E5] @ ''DNS'' @ uni [0x30A8, 0x30F3, 0x30C8, 0x30EA]),
     (''cache.entries_description'', uni [0x73FE, 0x5728, 0x306E, 0x56DE, 0x7B54, 0xFF08, 0x6700, 0x8FD1, 0x4F7F, 0x7528, 0x9806, 0xFF09, 0x3002]),
     (''cache.entries_loading'', uni [0x30AD, 0x30E3, 0x30C3, 0x30B7, 0x30E5, 0x30A8, 0x30F3, 0x30C8, 0x30EA, 0x3092, 0x8AAD, 0x307F, 0x8FBC, 0x307F, 0x4E2D, 0x2026]),
     (''cache.entries_load_failed'', uni [0x30AD, 0x30E3, 0x30C3, 0x30B7, 0x30E5, 0x30A8, 0x30F3, 0x30C8, 0x30EA, 0x306E, 0x8AAD, 0x307F, 0x8FBC, 0x307F, 0x306B, 0x5931, 0x6557, 0x3057, 0x307E, 0x3057, 0x305F]),
     (''cache.entries_empty'', uni [0x30AD, 0x30E3, 0x30C3, 0x30B7, 0x30E5, 0x306F, 0x7A7A, 0x3067, 0x3059, 0x3002]),
     (''cache.entries_scroll_hint'', uni [0x6A2A, 0x306B, 0x30B9, 0x30AF, 0x30ED, 0x30FC, 0x30EB, 0x3057, 0x3066, 0x5168, 0x5217, 0x8868, 0x793A, 0x3002]),
     (''cache.entry_name'', uni [0x540D, 0x524D])]\<close>

definition dict_ja_3 :: text_table where
  \<open>dict_ja_3 = [
     (''cache.entry_type'', uni [0x30BF, 0x30A4, 0x30D7]),
     (''cache.entry_answer'', uni [0x56DE, 0x7B54]),
     (''cache.entry_status'', uni [0x30B9, 0x30C6, 0x30FC, 0x30BF, 0x30B9]),
     (''cache.entry_ttl'', uni [0x6B8B, 0x308A] @ ''TTL''),
     (''cache.seconds'', uni [0x79D2]),
     (''cache.previous'', uni [0x524D, 0x3078]),
     (''cache.next'', uni [0x6B21, 0x3078]),
     (''querylog.unavailable_title'', uni [0x30AF, 0x30A8, 0x30EA, 0x5C65, 0x6B74, 0x304C, 0x5229, 0x7528, 0x3067, 0x304D, 0x307E, 0x305B, 0x3093]),
     (''querylog.unavailable_text'', ''DNS'' @ uni [0x30A2, 0x30AF, 0x30C6, 0x30A3, 0x30D3, 0x30C6, 0x30A3, 0x3092, 0x53CE, 0x96C6, 0x30FB, 0x78BA, 0x8A8D, 0x3059, 0x308B, 0x306B, 0x306F, 0x30AF, 0x30A8, 0x30EA, 0x30ED, 0x30B0, 0x3092, 0x6709, 0x52B9, 0x306B, 0x3057, 0x3066, 0x304F, 0x3060, 0x3055, 0x3044, 0x3002]),
     (''querylog.up_to_100'', ''1'' @ uni [0x30DA, 0x30FC, 0x30B8, 0x3042, 0x305F, 0x308A, 0x6700, 0x5927] @ ''100'' @ uni [0x4EF6, 0x306E, 0x4FDD, 0x6301, 0x3055, 0x308C, 0x305F, 0x30EC, 0x30B9, 0x30DD, 0x30F3, 0x30B9]),
     (''querylog.refresh'', uni [0x30AF, 0x30A8, 0x30EA, 0x3092, 0x66F4, 0x65B0]),
     (''querylog.filters_aria'', uni [0x30AF, 0x30A8, 0x30EA, 0x30D5, 0x30A3, 0x30EB, 0x30BF, 0x30FC]),
     (''querylog.domain'', uni [0x30C9, 0x30E1, 0x30A4, 0x30F3]),
     (''querylog.contains_example'', ''example.com'' @ uni [0x3092, 0x542B, 0x3080]),
     (''querylog.client_ip'', uni [0x30AF, 0x30E9, 0x30A4, 0x30A2, 0x30F3, 0x30C8] @ ''IP''),
     (''querylog.exact_ip'', uni [0x6B63, 0x78BA, 0x306A] @ ''IP'' @ uni [0x30A2, 0x30C9, 0x30EC, 0x30B9]),
     (''querylog.query_type'', uni [0x30AF, 0x30A8, 0x30EA, 0x30BF, 0x30A4, 0x30D7]),
     (''querylog.all_types'', uni [0x3059, 0x3079, 0x3066, 0x306E, 0x30BF, 0x30A4, 0x30D7]),
     (''querylog.source'', uni [0x30BD, 0x30FC, 0x30B9]),
     (''querylog.all_sources'', uni [0x3059, 0x3079, 0x3066, 0x306E, 0x30BD, 0x30FC, 0x30B9]),
     (''querylog.apply_filters'', uni [0x30D5, 0x30A3, 0x30EB, 0x30BF, 0x30FC, 0x3092, 0x9069, 0x7528]),
     (''querylog.show_blocked'', uni [0x30D6, 0x30ED, 0x30C3, 0x30AF, 0x3055, 0x308C, 0x305F, 0x30AF, 0x30A8, 0x30EA, 0x3092, 0x8868, 0x793A]),
     (''querylog.error_stale'', uni [0x4EE5, 0x524D, 0x306E, 0x7D50, 0x679C, 0x304C, 0x53E4, 0x304F, 0x306A, 0x3063, 0x3066, 0x3044, 0x308B, 0x53EF, 0x80FD, 0x6027, 0x304C, 0x3042, 0x308A, 0x307E, 0x3059, 0x3002]),
     (''querylog.loading'', uni [0x30AF, 0x30A8, 0x30EA, 0x30ED, 0x30B0, 0x3092, 0x8AAD, 0x307F, 0x8FBC, 0x307F, 0x4E2D, 0x2026]),
     (''querylog.no_matches'', uni [0x4E00, 0x81F4, 0x3059, 0x308B, 0x30AF, 0x30A8, 0x30EA, 0x304C, 0x3042, 0x308A, 0x307E, 0x305B, 0x3093]),
     (''querylog.no_matches_text'', uni [0x7570, 0x306A, 0x308B, 0x30D5, 0x30A3, 0x30EB, 0x30BF, 0x30FC, 0x3092, 0x8A66, 0x3059, 0x304B, 0x3001, 0x30ED, 0x30B0, 0x3092, 0x6709, 0x52B9, 0x306B, 0x3057, 0x3066] @ ''DNS'' @ uni [0x30C8, 0x30E9, 0x30D5, 0x30A3, 0x30C3, 0x30AF, 0x3092, 0x751F, 0x6210, 0x3057, 0x3066, 0x304F, 0x3060, 0x3055, 0x3044, 0x3002]),
     (''querylog.caption'', ''DNS'' @ uni [0x30AF, 0x30A8, 0x30EA, 0x30ED, 0x30B0]),
     (''querylog.col_timestamp'', uni [0x30BF, 0x30A4, 0x30E0, 0x30B9, 0x30BF, 0x30F3, 0x30D7]),
     (''querylog.col_client'', uni [0x30AF, 0x30E9, 0x30A4, 0x30A2, 0x30F3, 0x30C8]),
     (''querylog.col_domain'', uni [0x30C9, 0x30E1, 0x30A4, 0x30F3]),
     (''querylog.col_type'', uni [0x30BF, 0x30A4, 0x30D7]),
     (''querylog.col_source'', uni [0x30BD, 0x30FC, 0x30B9]),
     (''querylog.col_response'', uni [0x30EC, 0x30B9, 0x30DD, 0x30F3, 0x30B9]),
     (''querylog.col_latency'', uni [0x30EC, 0x30A4, 0x30C6, 0x30F3, 0x30B7]),
     (''querylog.older'', uni [0x53E4, 0x3044, 0x30AF, 0x30A8, 0x30EA]),
     (''querylog.load_failed'', uni [0x30AF, 0x30A8, 0x30EA, 0x30ED, 0x30B0, 0x306E, 0x8AAD, 0x307F, 0x8FBC, 0x307F, 0x306B, 0x5931, 0x6557, 0x3057, 0x307E, 0x3057, 0x305F]),
     (''blocklists.count'', uni [0x5916, 0x90E8, 0x30BD, 0x30FC, 0x30B9]),
     (''blocklists.count_one'', uni [0x5916, 0x90E8, 0x30BD, 0x30FC, 0x30B9]),
     (''blocklists.sources_label'', ''DNS'' @ uni [0x30DD, 0x30EA, 0x30B7, 0x30FC, 0x30BD, 0x30FC, 0x30B9]),
     (''blocklists.reload'', uni [0x518D, 0x8AAD, 0x307F, 0x8FBC, 0x307F]),
     (''blocklists.add_source'', uni [0x30BD, 0x30FC, 0x30B9, 0x3092, 0x8FFD, 0x52A0]),
     (''blocklists.add_aria'', uni [0x30D6, 0x30ED, 0x30C3, 0x30AF, 0x30EA, 0x30B9, 0x30C8, 0x30BD, 0x30FC, 0x30B9, 0x3092, 0x8FFD, 0x52A0]),
     (''blocklists.add_title'', uni [0x5916, 0x90E8, 0x30D6, 0x30ED, 0x30C3, 0x30AF, 0x30EA, 0x30B9, 0x30C8, 0x3092, 0x8FFD, 0x52A0]),
     (''blocklists.add_text'', uni [0x30D1, 0x30D6, 0x30EA, 0x30C3, 0x30AF] @ ''HTTP(S)'' @ uni [0x30BD, 0x30FC, 0x30B9, 0x306E, 0x307F, 0x53D7, 0x3051, 0x4ED8, 0x3051, 0x307E, 0x3059, 0x3002, 0x66F4, 0x65B0, 0x306B, 0x5931, 0x6557, 0x3057, 0x305F, 0x5834, 0x5408, 0x3001, 0x4EE5, 0x524D, 0x306E] @ ''DNS'' @ uni [0x30EB, 0x30FC, 0x30EB, 0x304C, 0x5F15, 0x304D, 0x7D9A, 0x304D, 0x6709, 0x52B9, 0x3067, 0x3059, 0x3002]),
     (''blocklists.name'', uni [0x540D, 0x524D]),
     (''blocklists.source_url'', uni [0x30BD, 0x30FC, 0x30B9] @ ''URL''),
     (''blocklists.community_hosts'', uni [0x30B3, 0x30DF, 0x30E5, 0x30CB, 0x30C6, 0x30A3, 0x30DB, 0x30B9, 0x30C8]),
     (''blocklists.adding'', uni [0x8FFD, 0x52A0, 0x4E2D, 0x2026]),
     (''blocklists.cancel'', uni [0x30AD, 0x30E3, 0x30F3, 0x30BB, 0x30EB]),
     (''blocklists.loading'', uni [0x30D6, 0x30ED, 0x30C3, 0x30AF, 0x30EA, 0x30B9, 0x30C8, 0x30BD, 0x30FC, 0x30B9, 0x3092, 0x8AAD, 0x307F, 0x8FBC, 0x307F, 0x4E2D, 0x2026]),
     (''blocklists.empty_title'', uni [0x5916, 0x90E8, 0x30D6, 0x30ED, 0x30C3, 0x30AF, 0x30EA, 0x30B9, 0x30C8, 0x304C, 0x3042, 0x308A, 0x307E, 0x305B, 0x3093]),
     (''blocklists.empty_text'', uni [0x4FE1, 0x983C, 0x3067, 0x304D, 0x308B, 0x30D1, 0x30D6, 0x30EA, 0x30C3, 0x30AF, 0x30DB, 0x30B9, 0x30C8, 0x307E, 0x305F, 0x306F, 0x30C9, 0x30E1, 0x30A4, 0x30F3, 0x30EA, 0x30B9, 0x30C8, 0x3092, 0x8FFD, 0x52A0, 0x3057, 0x3066] @ ''DNS'' @ uni [0x30D6, 0x30ED, 0x30C3, 0x30AF, 0x3092, 0x9069, 0x7528, 0x3057, 0x307E, 0x3059, 0x3002]),
     (''blocklists.caption'', uni [0x5916, 0x90E8, 0x30D6, 0x30ED, 0x30C3, 0x30AF, 0x30EA, 0x30B9, 0x30C8, 0x30BD, 0x30FC, 0x30B9]),
     (''blocklists.col_source'', uni [0x30BD, 0x30FC, 0x30B9]),
     (''blocklists.col_status'', uni [0x30B9, 0x30C6, 0x30FC, 0x30BF, 0x30B9]),
     (''blocklists.col_last_update'', uni [0x6700, 0x7D42, 0x66F4, 0x65B0]),
     (''blocklists.update_failed'', uni [0x66F4, 0x65B0, 0x306B, 0x5931, 0x6557]),
     (''blocklists.active'', uni [0x6709, 0x52B9]),
     (''blocklists.disabled'', uni [0x7121, 0x52B9]),
     (''blocklists.never'', uni [0x306A, 0x3057]),
     (''blocklists.updating'', uni [0x66F4, 0x65B0, 0x4E2D, 0x2026]),
     (''blocklists.update'', uni [0x66F4, 0x65B0]),
     (''blocklists.load_failed'', uni [0x30D6, 0x30ED, 0x30C3, 0x30AF, 0x30EA, 0x30B9, 0x30C8, 0x306E, 0x8AAD, 0x307F, 0x8FBC, 0x307F, 0x306B, 0x5931, 0x6557, 0x3057, 0x307E, 0x3057, 0x305F]),
     (''blocklists.add_failed'', uni [0x30BD, 0x30FC, 0x30B9, 0x306E, 0x8FFD, 0x52A0, 0x306B, 0x5931, 0x6557, 0x3057, 0x307E, 0x3057, 0x305F]),
     (''blocklists.update_failed_msg'', uni [0x30BD, 0x30FC, 0x30B9, 0x306E, 0x66F4, 0x65B0, 0x306B, 0x5931, 0x6557, 0x3057, 0x307E, 0x3057, 0x305F]),
     (''blocklists.col_domains'', uni [0x30C9, 0x30E1, 0x30A4, 0x30F3]),
     (''blocklists.local'', uni [0x30ED, 0x30FC, 0x30AB, 0x30EB]),
     (''blocklists.enable'', uni [0x6709, 0x52B9, 0x306B, 0x3059, 0x308B]),
     (''blocklists.disable'', uni [0x7121, 0x52B9, 0x306B, 0x3059, 0x308B]),
     (''blocklists.toggle_failed'', uni [0x30BD, 0x30FC, 0x30B9, 0x306E, 0x5207, 0x308A, 0x66FF, 0x3048, 0x306B, 0x5931, 0x6557, 0x3057, 0x307E, 0x3057, 0x305F]),
     (''blocklists.edit_content'', uni [0x30B3, 0x30F3, 0x30C6, 0x30F3, 0x30C4, 0x3092, 0x7DE8, 0x96C6]),
     (''blocklists.edit_content_aria'', uni [0x30D6, 0x30ED, 0x30C3, 0x30AF, 0x30EA, 0x30B9, 0x30C8, 0x30B3, 0x30F3, 0x30C6, 0x30F3, 0x30C4, 0x3092, 0x7DE8, 0x96C6]),
     (''blocklists.edit_content_title'', uni [0x30D6, 0x30ED, 0x30C3, 0x30AF, 0x30EA, 0x30B9, 0x30C8, 0x30C9, 0x30E1, 0x30A4, 0x30F3, 0x3092, 0x7DE8, 0x96C6]),
     (''blocklists.edit_content_text'', ''1'' @ uni [0x884C, 0x306B] @ ''1'' @ uni [0x30C9, 0x30E1, 0x30A4, 0x30F3, 0x3092, 0x5165, 0x529B, 0x3057, 0x3066, 0x304F, 0x3060, 0x3055, 0x3044, 0x3002] @ ''0.0.0.0'' @ uni [0x3067, 0x59CB, 0x307E, 0x308B, 0x884C, 0x307E, 0x305F, 0x306F, 0x30B3, 0x30E1, 0x30F3, 0x30C8, 0x884C, 0x306F, 0x30DB, 0x30B9, 0x30C8, 0x30A8, 0x30F3, 0x30C8, 0x30EA, 0x3068, 0x3057, 0x3066, 0x6271, 0x308F, 0x308C, 0x307E, 0x3059, 0x3002]),
     (''blocklists.domains_label'', uni [0x30C9, 0x30E1, 0x30A4, 0x30F3]),
     (''blocklists.saving'', uni [0x4FDD, 0x5B58, 0x4E2D, 0x2026]),
     (''blocklists.save'', uni [0x4FDD, 0x5B58]),
     (''blocklists.content_save_failed'', uni [0x30B3, 0x30F3, 0x30C6, 0x30F3, 0x30C4, 0x306E, 0x4FDD, 0x5B58, 0x306B, 0x5931, 0x6557, 0x3057, 0x307E, 0x3057, 0x305F]),
     (''blocklists.delete'', uni [0x524A, 0x9664]),
     (''blocklists.confirm_delete'', uni [0x78BA, 0x8A8D]),
     (''blocklists.delete_failed'', uni [0x30BD, 0x30FC, 0x30B9, 0x306E, 0x524A, 0x9664, 0x306B, 0x5931, 0x6557, 0x3057, 0x307E, 0x3057, 0x305F]),
     (''zones.count'', uni [0x30ED, 0x30FC, 0x30AB, 0x30EB, 0x30BE, 0x30FC, 0x30F3]),
     (''zones.count_one'', uni [0x30ED, 0x30FC, 0x30AB, 0x30EB, 0x30BE, 0x30FC, 0x30F3]),
     (''zones.local_authority'', uni [0x30ED, 0x30FC, 0x30AB, 0x30EB, 0x6A29, 0x5A01]),
     (''zones.reload'', uni [0x30BE, 0x30FC, 0x30F3, 0x3092, 0x518D, 0x8AAD, 0x307F, 0x8FBC, 0x307F]),
     (''zones.add_zone'', uni [0x30BE, 0x30FC, 0x30F3, 0x3092, 0x8FFD, 0x52A0]),
     (''zones.error_stale'', uni [0x6700, 0x5F8C, 0x306B, 0x8AAD, 0x307F, 0x8FBC, 0x307E, 0x308C, 0x305F, 0x30BE, 0x30FC, 0x30F3, 0x3092, 0x8868, 0x793A, 0x4E2D, 0x3002, 0x5909, 0x66F4, 0x524D, 0x306B, 0x518D, 0x8AAD, 0x307F, 0x8FBC, 0x307F, 0x3057, 0x3066, 0x304F, 0x3060, 0x3055, 0x3044, 0x3002]),
     (''zones.error_retry'', uni [0x518D, 0x8AAD, 0x307F, 0x8FBC, 0x307F, 0x3057, 0x3066, 0x518D, 0x8A66, 0x884C, 0x3057, 0x3066, 0x304F, 0x3060, 0x3055, 0x3044, 0x3002]),
     (''zones.reload_before_retry'', uni [0x518D, 0x8A66, 0x884C, 0x524D, 0x306B, 0x30BE, 0x30FC, 0x30F3, 0x3092, 0x518D, 0x8AAD, 0x307F, 0x8FBC, 0x307F, 0x3057, 0x3066, 0x304F, 0x3060, 0x3055, 0x3044, 0x3002]),
     (''zones.loading'', uni [0x30ED, 0x30FC, 0x30AB, 0x30EB, 0x30BE, 0x30FC, 0x30F3, 0x3092, 0x8AAD, 0x307F, 0x8FBC, 0x307F, 0x4E2D, 0x2026]),
     (''zones.empty_title'', uni [0x30CD, 0x30C3, 0x30C8, 0x30EF, 0x30FC, 0x30AF, 0x306B, 0x99B4, 0x67D3, 0x307F, 0x306E, 0x3042, 0x308B, 0x540D, 0x524D, 0x3092, 0x3064, 0x3051, 0x307E, 0x3057, 0x3087, 0x3046]),
     (''zones.empty_text'', ''home.arpa'' @ uni [0x306A, 0x3069, 0x306E, 0x30BE, 0x30FC, 0x30F3, 0x3092, 0x4F5C, 0x6210, 0x3057, 0x3001, 0x30EB, 0x30FC, 0x30BF, 0x30FC, 0x3001, 0x30B5, 0x30FC, 0x30D3, 0x30B9, 0x3001, 0x30C7, 0x30D0, 0x30A4, 0x30B9, 0x306E, 0x30EC, 0x30B3, 0x30FC, 0x30C9, 0x3092, 0x8FFD, 0x52A0, 0x3057, 0x307E, 0x3059, 0x3002]),
     (''zones.create_first'', uni [0x6700, 0x521D, 0x306E, 0x30BE, 0x30FC, 0x30F3, 0x3092, 0x4F5C, 0x6210]),
     (''zones.filter_aria'', uni [0x30BE, 0x30FC, 0x30F3, 0x3092, 0x30D5, 0x30A3, 0x30EB, 0x30BF, 0x30FC]),
     (''zones.filter_placeholder'', uni [0x30BE, 0x30FC, 0x30F3, 0x3092, 0x691C, 0x7D22, 0x2026]),
     (''zones.nav_aria'', uni [0x30ED, 0x30FC, 0x30AB, 0x30EB, 0x30BE, 0x30FC, 0x30F3]),
     (''zones.records_custom'', uni [0x30AB, 0x30B9, 0x30BF, 0x30E0, 0x30EC, 0x30B3, 0x30FC, 0x30C9]),
     (''zones.no_matching'', uni [0x4E00, 0x81F4, 0x3059, 0x308B, 0x30BE, 0x30FC, 0x30F3, 0x304C, 0x3042, 0x308A, 0x307E, 0x305B, 0x3093, 0x3002]),
     (''zones.authoritative_eyebrow'', uni [0x6A29, 0x5A01, 0x30BE, 0x30FC, 0x30F3]),
     (''zones.revision'', uni [0x30EA, 0x30D3, 0x30B8, 0x30E7, 0x30F3]),
     (''zones.add_record'', uni [0x30EC, 0x30B3, 0x30FC, 0x30C9, 0x3092, 0x8FFD, 0x52A0]),
     (''zones.delete_zone_aria'', uni [0x30BE, 0x30FC, 0x30F3, 0x3092, 0x524A, 0x9664]),
     (''zones.primary_ns'', uni [0x30D7, 0x30E9, 0x30A4, 0x30DE, 0x30EA] @ ''NS''),
     (''zones.contact'', uni [0x9023, 0x7D61, 0x5148]),
     (''zones.delete_record_confirm'', uni [0x30EC, 0x30B3, 0x30FC, 0x30C9, 0x3092, 0x524A, 0x9664]),
     (''zones.delete_zone_confirm'', uni [0x304A, 0x3088, 0x3073, 0x3059, 0x3079, 0x3066, 0x306E]),
     (''zones.delete_zone_confirm2'', uni [0x30EC, 0x30B3, 0x30FC, 0x30C9, 0xFF1F, 0x3053, 0x306E, 0x64CD, 0x4F5C, 0x306F, 0x53D6, 0x308A, 0x6D88, 0x305B, 0x307E, 0x305B, 0x3093, 0x3002]),
     (''zones.deleting'', uni [0x524A, 0x9664, 0x4E2D, 0x2026]),
     (''zones.delete_record_perm'', uni [0x30EC, 0x30B3, 0x30FC, 0x30C9, 0x3092, 0x5B8C, 0x5168, 0x306B, 0x524A, 0x9664]),
     (''zones.delete_zone_perm'', uni [0x30BE, 0x30FC, 0x30F3, 0x3092, 0x5B8C, 0x5168, 0x306B, 0x524A, 0x9664]),
     (''zones.cancel_deletion'', uni [0x524A, 0x9664, 0x3092, 0x30AD, 0x30E3, 0x30F3, 0x30BB, 0x30EB]),
     (''zones.record_saved'', uni [0x30EC, 0x30B3, 0x30FC, 0x30C9, 0x3092, 0x4FDD, 0x5B58, 0x3057, 0x307E, 0x3057, 0x305F, 0x3002] @ ''DNS'' @ uni [0x5909, 0x66F4, 0x304C, 0x6709, 0x52B9, 0x3067, 0x3059, 0x3002]),
     (''zones.record_deleted'', uni [0x30EC, 0x30B3, 0x30FC, 0x30C9, 0x3092, 0x524A, 0x9664, 0x3057, 0x307E, 0x3057, 0x305F, 0x3002] @ ''DNS'' @ uni [0x5909, 0x66F4, 0x304C, 0x6709, 0x52B9, 0x3067, 0x3059, 0x3002]),
     (''zones.zone_deleted'', uni [0x30BE, 0x30FC, 0x30F3, 0x3068, 0x305D, 0x306E, 0x30EC, 0x30B3, 0x30FC, 0x30C9, 0x304C, 0x524A, 0x9664, 0x3055, 0x308C, 0x307E, 0x3057, 0x305F, 0x3002]),
     (''zones.zone_created'', uni [0x30BE, 0x30FC, 0x30F3, 0x3092, 0x4F5C, 0x6210, 0x3057, 0x307E, 0x3057, 0x305F, 0x3002, 0x30EC, 0x30B3, 0x30FC, 0x30C9, 0x3092, 0x8FFD, 0x52A0, 0x3057, 0x3066, 0x4F7F, 0x3044, 0x59CB, 0x3081, 0x307E, 0x3057, 0x3087, 0x3046, 0x3002]),
     (''zones.delete_failed'', uni [0x524A, 0x9664, 0x306B, 0x5931, 0x6557, 0x3057, 0x307E, 0x3057, 0x305F]),
     (''zones.footnote'', uni [0x30ED, 0x30FC, 0x30AB, 0x30EB, 0x56DE, 0x7B54, 0x306F, 0x8EE2, 0x9001, 0x3088, 0x308A, 0x512A, 0x5148, 0x3055, 0x308C, 0x307E, 0x3059, 0x3002, 0x30C7, 0x30D0, 0x30A4, 0x30B9, 0x306F] @ ''TTL'' @ uni [0x304C, 0x671F, 0x9650, 0x5207, 0x308C, 0x306B, 0x306A, 0x308B, 0x307E, 0x3067, 0x4EE5, 0x524D, 0x306E, 0x56DE, 0x7B54, 0x3092, 0x4FDD, 0x6301, 0x3059, 0x308B, 0x5834, 0x5408, 0x304C, 0x3042, 0x308A, 0x307E, 0x3059, 0x3002]),
     (''zones.record_form_edit_aria'', ''DNS'' @ uni [0x30EC, 0x30B3, 0x30FC, 0x30C9, 0x3092, 0x7DE8, 0x96C6]),
     (''zones.record_form_add_aria'', ''DNS'' @ uni [0x30EC, 0x30B3, 0x30FC, 0x30C9, 0x3092, 0x8FFD, 0x52A0])]\<close>

definition dict_ja_4 :: text_table where
  \<open>dict_ja_4 = [
     (''zones.edit_record'', uni [0x30EC, 0x30B3, 0x30FC, 0x30C9, 0x3092, 0x7DE8, 0x96C6]),
     (''zones.add_record_form'', uni [0x30EC, 0x30B3, 0x30FC, 0x30C9, 0x3092, 0x8FFD, 0x52A0]),
     (''zones.changes_apply'', uni [0x5909, 0x66F4, 0x306E, 0x9069, 0x7528, 0x5148]),
     (''zones.record_name'', uni [0x30EC, 0x30B3, 0x30FC, 0x30C9, 0x540D]),
     (''zones.router_or_at'', ''router '' @ uni [0x307E, 0x305F, 0x306F] @ '' @''),
     (''zones.relative_name_hint'', uni [0x76F8, 0x5BFE, 0x540D, 0x3001, 0x30BE, 0x30FC, 0x30F3, 0x306E, 0x5834, 0x5408, 0x306F] @ ''@'' @ uni [0x3001, 0x307E, 0x305F, 0x306F, 0x30C9, 0x30C3, 0x30C8, 0x3067, 0x7D42, 0x308F, 0x308B, 0x7D76, 0x5BFE, 0x540D, 0x3002]),
     (''zones.record_type'', uni [0x30EC, 0x30B3, 0x30FC, 0x30C9, 0x30BF, 0x30A4, 0x30D7]),
     (''zones.ttl_seconds'', ''TTL'' @ uni [0xFF08, 0x79D2, 0xFF09]),
     (''zones.priority'', uni [0x512A, 0x5148, 0x5EA6]),
     (''zones.ipv4_address'', ''IPv4'' @ uni [0x30A2, 0x30C9, 0x30EC, 0x30B9]),
     (''zones.ipv6_address'', ''IPv6'' @ uni [0x30A2, 0x30C9, 0x30EC, 0x30B9]),
     (''zones.text_value'', uni [0x30C6, 0x30AD, 0x30B9, 0x30C8, 0x5024]),
     (''zones.target_hostname'', uni [0x30BF, 0x30FC, 0x30B2, 0x30C3, 0x30C8, 0x30DB, 0x30B9, 0x30C8, 0x540D]),
     (''zones.invalid_ttl'', uni [0x6709, 0x52B9, 0x306A] @ ''TTL'' @ uni [0x3068, 0x512A, 0x5148, 0x5EA6, 0x306E, 0x5024, 0x3092, 0x5165, 0x529B, 0x3057, 0x3066, 0x304F, 0x3060, 0x3055, 0x3044, 0x3002]),
     (''zones.record_conflict'', uni [0x3053, 0x306E, 0x30BE, 0x30FC, 0x30F3, 0x306F, 0x5225, 0x306E, 0x5834, 0x6240, 0x3067, 0x5909, 0x66F4, 0x3055, 0x308C, 0x307E, 0x3057, 0x305F, 0x3002, 0x30C9, 0x30E9, 0x30D5, 0x30C8, 0x306F, 0x5909, 0x66F4, 0x3055, 0x308C, 0x3066, 0x3044, 0x307E, 0x305B, 0x3093, 0x3002, 0x30D5, 0x30A9, 0x30FC, 0x30E0, 0x3092, 0x9589, 0x3058, 0x3066, 0x30BE, 0x30FC, 0x30F3, 0x3092, 0x518D, 0x8AAD, 0x307F, 0x8FBC, 0x307F, 0x3057, 0x3066, 0x304B, 0x3089, 0x518D, 0x8A66, 0x884C, 0x3057, 0x3066, 0x304F, 0x3060, 0x3055, 0x3044, 0x3002]),
     (''zones.save_failed'', uni [0x30EC, 0x30B3, 0x30FC, 0x30C9, 0x306E, 0x4FDD, 0x5B58, 0x306B, 0x5931, 0x6557, 0x3057, 0x307E, 0x3057, 0x305F]),
     (''zones.saving'', uni [0x4FDD, 0x5B58, 0x4E2D, 0x2026]),
     (''zones.save_record'', uni [0x30EC, 0x30B3, 0x30FC, 0x30C9, 0x3092, 0x4FDD, 0x5B58]),
     (''zones.cancel'', uni [0x30AD, 0x30E3, 0x30F3, 0x30BB, 0x30EB]),
     (''zones.no_records_title'', uni [0x30AB, 0x30B9, 0x30BF, 0x30E0, 0x30EC, 0x30B3, 0x30FC, 0x30C9, 0x306F, 0x307E, 0x3060, 0x3042, 0x308A, 0x307E, 0x305B, 0x3093]),
     (''zones.no_records_text'', uni [0x6700, 0x521D, 0x306E, 0x30EC, 0x30B3, 0x30FC, 0x30C9, 0x3092, 0x8FFD, 0x52A0, 0x3057, 0x3066, 0x304F, 0x3060, 0x3055, 0x3044, 0x3002] @ ''SOA'' @ uni [0x3068, 0x30D5, 0x30A9, 0x30FC, 0x30EB, 0x30D0, 0x30C3, 0x30AF, 0x306E, 0x9802, 0x70B9] @ ''NS'' @ uni [0x306F, 0x81EA, 0x52D5, 0x3067, 0x7BA1, 0x7406, 0x3055, 0x308C, 0x307E, 0x3059, 0x3002]),
     (''zones.records_aria'', uni [0x306E] @ ''DNS'' @ uni [0x30EC, 0x30B3, 0x30FC, 0x30C9]),
     (''zones.col_name'', uni [0x540D, 0x524D]),
     (''zones.col_type'', uni [0x30BF, 0x30A4, 0x30D7]),
     (''zones.col_value'', uni [0x5024]),
     (''zones.col_ttl'', ''TTL''),
     (''zones.col_actions'', uni [0x64CD, 0x4F5C]),
     (''zones.edit_aria'', uni [0x7DE8, 0x96C6]),
     (''zones.delete_aria'', uni [0x524A, 0x9664]),
     (''zones.record_word'', uni [0x30EC, 0x30B3, 0x30FC, 0x30C9]),
     (''zones.create_title'', uni [0x30ED, 0x30FC, 0x30AB, 0x30EB, 0x30BE, 0x30FC, 0x30F3, 0x3092, 0x4F5C, 0x6210]),
     (''zones.create_text'', ''Velora'' @ uni [0x304C, 0x3053, 0x306E, 0x30BE, 0x30FC, 0x30F3, 0x306B, 0x5FDC, 0x7B54, 0x3057, 0x3001, 0x4E0D, 0x660E, 0x306A, 0x540D, 0x524D, 0x3092, 0x30CD, 0x30C3, 0x30C8, 0x30EF, 0x30FC, 0x30AF, 0x5185, 0x306B, 0x4FDD, 0x6301, 0x3057, 0x307E, 0x3059, 0x3002]),
     (''zones.zone_name'', uni [0x30BE, 0x30FC, 0x30F3, 0x540D]),
     (''zones.authority_settings'', uni [0x6A29, 0x5A01, 0x8A2D, 0x5B9A]),
     (''zones.primary_nameserver'', uni [0x30D7, 0x30E9, 0x30A4, 0x30DE, 0x30EA, 0x30CD, 0x30FC, 0x30E0, 0x30B5, 0x30FC, 0x30D0, 0x30FC]),
     (''zones.contact_mailbox'', uni [0x9023, 0x7D61, 0x5148, 0xFF08] @ ''DNS'' @ uni [0x30E1, 0x30FC, 0x30EB, 0x30DC, 0x30C3, 0x30AF, 0x30B9, 0xFF09]),
     (''zones.creating'', uni [0x4F5C, 0x6210, 0x4E2D, 0x2026]),
     (''zones.create_zone'', uni [0x30BE, 0x30FC, 0x30F3, 0x3092, 0x4F5C, 0x6210]),
     (''zones.create_zone_aria'', ''DNS'' @ uni [0x30BE, 0x30FC, 0x30F3, 0x3092, 0x4F5C, 0x6210]),
     (''zones.create_failed'', uni [0x30BE, 0x30FC, 0x30F3, 0x306E, 0x4F5C, 0x6210, 0x306B, 0x5931, 0x6557, 0x3057, 0x307E, 0x3057, 0x305F]),
     (''zones.load_failed'', uni [0x30BE, 0x30FC, 0x30F3, 0x306E, 0x8AAD, 0x307F, 0x8FBC, 0x307F, 0x306B, 0x5931, 0x6557, 0x3057, 0x307E, 0x3057, 0x305F]),
     (''updates.loading'', uni [0x30A2, 0x30C3, 0x30D7, 0x30C7, 0x30FC, 0x30C8, 0x72B6, 0x6CC1, 0x3092, 0x8AAD, 0x307F, 0x8FBC, 0x307F, 0x4E2D, 0x2E, 0x2E, 0x2E]),
     (''updates.viewer_readonly'', uni [0x30D3, 0x30E5, 0x30FC, 0x30A2, 0x30FC, 0x3068, 0x3057, 0x3066, 0x30B5, 0x30A4, 0x30F3, 0x30A4, 0x30F3, 0x3057, 0x3066, 0x3044, 0x307E, 0x3059, 0x3002, 0x30A2, 0x30C3, 0x30D7, 0x30C7, 0x30FC, 0x30C8, 0x30EA, 0x30AF, 0x30A8, 0x30B9, 0x30C8, 0x306F, 0x8AAD, 0x307F, 0x53D6, 0x308A, 0x5C02, 0x7528, 0x3067, 0x3059, 0x3002]),
     (''updates.in_progress'', uni [0x30A2, 0x30C3, 0x30D7, 0x30C7, 0x30FC, 0x30C8, 0x9032, 0x884C, 0x4E2D, 0x2E, 0x2E, 0x2E]),
     (''updates.history'', uni [0x30A2, 0x30C3, 0x30D7, 0x30C7, 0x30FC, 0x30C8, 0x5C65, 0x6B74]),
     (''updates.no_history'', uni [0x307E, 0x3060, 0x30A2, 0x30C3, 0x30D7, 0x30C7, 0x30FC, 0x30C8, 0x306E, 0x8A18, 0x9332, 0x304C, 0x3042, 0x308A, 0x307E, 0x305B, 0x3093, 0x3002]),
     (''updates.col_from'', ''From''),
     (''updates.col_to'', ''To''),
     (''updates.col_state'', uni [0x30B9, 0x30C6, 0x30FC, 0x30C8]),
     (''updates.col_started'', uni [0x958B, 0x59CB]),
     (''updates.state_idle'', uni [0x30A2, 0x30A4, 0x30C9, 0x30EB]),
     (''updates.state_downloading'', uni [0x30C0, 0x30A6, 0x30F3, 0x30ED, 0x30FC, 0x30C9, 0x4E2D]),
     (''updates.state_verifying'', uni [0x691C, 0x8A3C, 0x4E2D]),
     (''updates.state_installing'', uni [0x30A4, 0x30F3, 0x30B9, 0x30C8, 0x30FC, 0x30EB, 0x4E2D]),
     (''updates.state_readiness'', uni [0x6E96, 0x5099, 0x5B8C, 0x4E86, 0x3092, 0x5F85, 0x6A5F, 0x4E2D]),
     (''updates.state_completed'', uni [0x5B8C, 0x4E86]),
     (''updates.state_rolled_back'', uni [0x30ED, 0x30FC, 0x30EB, 0x30D0, 0x30C3, 0x30AF, 0x6E08, 0x307F]),
     (''updates.state_failed'', uni [0x5931, 0x6557]),
     (''updates.load_failed'', uni [0x30A2, 0x30C3, 0x30D7, 0x30C7, 0x30FC, 0x30C8, 0x72B6, 0x6CC1, 0x306E, 0x8AAD, 0x307F, 0x8FBC, 0x307F, 0x306B, 0x5931, 0x6557, 0x3057, 0x307E, 0x3057, 0x305F]),
     (''updates.request_failed'', uni [0x30A2, 0x30C3, 0x30D7, 0x30C7, 0x30FC, 0x30C8, 0x30EA, 0x30AF, 0x30A8, 0x30B9, 0x30C8, 0x306B, 0x5931, 0x6557, 0x3057, 0x307E, 0x3057, 0x305F]),
     (''updates.check'', ''Check for updates''),
     (''updates.available'', ''Update available''),
     (''updates.up_to_date'', ''The system is up to date.''),
     (''updates.progress'', ''Update progress''),
     (''updates.rollback_used'', ''The previous version was restored.''),
     (''updates.rollback_recovered'', ''The previous version was restored and is healthy.''),
     (''backup.sqlite_only'', uni [0x6697, 0x53F7, 0x5316, 0x30A8, 0x30AF, 0x30B9, 0x30DD, 0x30FC, 0x30C8, 0x306F, 0x73FE, 0x5728, 0x20] @ ''SQLite '' @ uni [0x74B0, 0x5883, 0x306E, 0x307F, 0x5BFE, 0x5FDC, 0x3057, 0x3066, 0x3044, 0x307E, 0x3059, 0x3002]),
     (''backup.create_title'', uni [0x6697, 0x53F7, 0x5316, 0x30D0, 0x30C3, 0x30AF, 0x30A2, 0x30C3, 0x30D7]),
     (''backup.create_hint'', uni [0x8A2D, 0x5B9A, 0x3068, 0x6C38, 0x7D9A, 0x30C7, 0x30FC, 0x30BF, 0x306E, 0x30D0, 0x30FC, 0x30B8, 0x30E7, 0x30F3, 0x4ED8, 0x304D, 0x30D0, 0x30C3, 0x30AF, 0x30A2, 0x30C3, 0x30D7, 0x3092, 0x30C0, 0x30A6, 0x30F3, 0x30ED, 0x30FC, 0x30C9, 0x3057, 0x307E, 0x3059, 0x3002, 0x30D1, 0x30B9, 0x30EF, 0x30FC, 0x30C9, 0x3092, 0x5B89, 0x5168, 0x306B, 0x4FDD, 0x7BA1, 0x3057, 0x3066, 0x304F, 0x3060, 0x3055, 0x3044, 0x3002]),
     (''backup.passphrase'', uni [0x30D1, 0x30B9, 0x30EF, 0x30FC, 0x30C9]),
     (''backup.creating'', uni [0x4F5C, 0x6210, 0x4E2D, 0x2026]),
     (''backup.create'', uni [0x4F5C, 0x6210, 0x3057, 0x3066, 0x30C0, 0x30A6, 0x30F3, 0x30ED, 0x30FC, 0x30C9]),
     (''backup.create_failed'', uni [0x30D0, 0x30C3, 0x30AF, 0x30A2, 0x30C3, 0x30D7, 0x3092, 0x4F5C, 0x6210, 0x3067, 0x304D, 0x307E, 0x305B, 0x3093, 0x3067, 0x3057, 0x305F]),
     (''backup.restore_hint'', uni [0x30B5, 0x30FC, 0x30D3, 0x30B9, 0x3092, 0x505C, 0x6B62, 0x3057, 0x3066, 0x304B, 0x3089, 0x6697, 0x53F7, 0x5316, 0x30D0, 0x30C3, 0x30AF, 0x30A2, 0x30C3, 0x30D7, 0x3092, 0x5FA9, 0x5143, 0x3057, 0x3066, 0x304F, 0x3060, 0x3055, 0x3044, 0x3002, 0x30B3, 0x30DE, 0x30F3, 0x30C9, 0x306F, 0x73FE, 0x5728, 0x306E, 0x74B0, 0x5883, 0x306E, 0x5B89, 0x5168, 0x30B3, 0x30D4, 0x30FC, 0x3092, 0x6B8B, 0x3057, 0x307E, 0x3059, 0x3002]),
     (''backup.loading'', uni [0x30D0, 0x30C3, 0x30AF, 0x30A2, 0x30C3, 0x30D7, 0x72B6, 0x6CC1, 0x3092, 0x8AAD, 0x307F, 0x8FBC, 0x307F, 0x4E2D, 0x2E, 0x2E, 0x2E]),
     (''backup.status_title'', uni [0x30D0, 0x30C3, 0x30AF, 0x30A2, 0x30C3, 0x30D7, 0x30B9, 0x30C6, 0x30FC, 0x30BF, 0x30B9]),
     (''backup.database'', uni [0x30C7, 0x30FC, 0x30BF, 0x30D9, 0x30FC, 0x30B9, 0x3A]),
     (''backup.last_backup'', uni [0x6700, 0x7D42, 0x30D0, 0x30C3, 0x30AF, 0x30A2, 0x30C3, 0x30D7, 0x3A]),
     (''backup.no_backup'', uni [0x307E, 0x3060, 0x30D0, 0x30C3, 0x30AF, 0x30A2, 0x30C3, 0x30D7, 0x306E, 0x8A18, 0x9332, 0x304C, 0x3042, 0x308A, 0x307E, 0x305B, 0x3093]),
     (''backup.verification_state'', uni [0x691C, 0x8A3C, 0x30B9, 0x30C6, 0x30FC, 0x30C8, 0x3A]),
     (''backup.state_unknown'', uni [0x4E0D, 0x660E]),
     (''backup.state_unverified'', uni [0x672A, 0x691C, 0x8A3C]),
     (''backup.state_verified'', uni [0x691C, 0x8A3C, 0x6E08, 0x307F]),
     (''backup.verify_title'', uni [0x30D0, 0x30C3, 0x30AF, 0x30A2, 0x30C3, 0x30D7, 0x3092, 0x691C, 0x8A3C]),
     (''backup.verify_text'', uni [0x30D0, 0x30C3, 0x30AF, 0x30A2, 0x30C3, 0x30D7, 0x306E, 0x30B3, 0x30D4, 0x30FC, 0x3092, 0x30B5, 0x30FC, 0x30D0, 0x30FC, 0x30C7, 0x30FC, 0x30BF, 0x30D9, 0x30FC, 0x30B9, 0x306E, 0x6A2A, 0x306B, 0x914D, 0x7F6E, 0x3057, 0x3066, 0x6574, 0x5408, 0x6027, 0x3092, 0x691C, 0x8A3C, 0x3057, 0x307E, 0x3059, 0x3002]),
     (''backup.file_name'', uni [0x30D0, 0x30C3, 0x30AF, 0x30A2, 0x30C3, 0x30D7, 0x30D5, 0x30A1, 0x30A4, 0x30EB, 0x540D]),
     (''backup.file_hint'', uni [0x30D0, 0x30C3, 0x30AF, 0x30A2, 0x30C3, 0x30D7, 0x3092] @ ''Velora'' @ uni [0x30B5, 0x30FC, 0x30D0, 0x30FC, 0x306E, 0x30C7, 0x30FC, 0x30BF, 0x30D9, 0x30FC, 0x30B9, 0x306E, 0x6A2A, 0x306B, 0x914D, 0x7F6E, 0x3057, 0x3066, 0x304F, 0x3060, 0x3055, 0x3044, 0x3002, 0x30D5, 0x30A1, 0x30A4, 0x30EB, 0x540D, 0x306E, 0x307F, 0x304C, 0x4F7F, 0x7528, 0x3055, 0x308C, 0x307E, 0x3059, 0x3002, 0x30D6, 0x30E9, 0x30A6, 0x30B6, 0x30D5, 0x30A1, 0x30A4, 0x30EB, 0x3084, 0x4ED6, 0x306E, 0x30C7, 0x30A3, 0x30EC, 0x30AF, 0x30C8, 0x30EA, 0x306F, 0x3053, 0x3053, 0x3067, 0x306F, 0x78BA, 0x8A8D, 0x3067, 0x304D, 0x307E, 0x305B, 0x3093, 0x3002]),
     (''backup.viewer_readonly'', uni [0x30D3, 0x30E5, 0x30FC, 0x30A2, 0x30FC, 0x3068, 0x3057, 0x3066, 0x30B5, 0x30A4, 0x30F3, 0x30A4, 0x30F3, 0x3057, 0x3066, 0x3044, 0x307E, 0x3059, 0x3002, 0x30D0, 0x30C3, 0x30AF, 0x30A2, 0x30C3, 0x30D7, 0x691C, 0x8A3C, 0x306F, 0x8AAD, 0x307F, 0x53D6, 0x308A, 0x5C02, 0x7528, 0x3067, 0x3059, 0x3002]),
     (''backup.verifying'', uni [0x691C, 0x8A3C, 0x4E2D] @ ''...''),
     (''backup.verify'', uni [0x691C, 0x8A3C]),
     (''backup.valid'', uni [0x30D0, 0x30C3, 0x30AF, 0x30A2, 0x30C3, 0x30D7, 0x306F, 0x6709, 0x52B9, 0x3067, 0x3059]),
     (''backup.invalid'', uni [0x30D0, 0x30C3, 0x30AF, 0x30A2, 0x30C3, 0x30D7, 0x306F, 0x7121, 0x52B9, 0x3067, 0x3059]),
     (''backup.schema_version'', uni [0x30B9, 0x30AD, 0x30FC, 0x30DE, 0x30D0, 0x30FC, 0x30B8, 0x30E7, 0x30F3, 0x3A]),
     (''backup.records'', uni [0x30EC, 0x30B3, 0x30FC, 0x30C9, 0x6570, 0x3A]),
     (''backup.instructions'', uni [0x30B3, 0x30DE, 0x30F3, 0x30C9, 0x30E9, 0x30A4, 0x30F3, 0x304B, 0x3089, 0x5FA9, 0x5143]),
     (''backup.native'', uni [0x30CD, 0x30A4, 0x30C6, 0x30A3, 0x30D6, 0x30A4, 0x30F3, 0x30B9, 0x30C8, 0x30FC, 0x30EB]),
     (''backup.docker'', ''Docker Compose''),
     (''backup.online'', uni [0x30AA, 0x30F3, 0x30E9, 0x30A4, 0x30F3, 0x30D0, 0x30C3, 0x30AF, 0x30A2, 0x30C3, 0x30D7, 0x20, 0x28] @ ''SQLite)''),
     (''backup.load_failed'', uni [0x30D0, 0x30C3, 0x30AF, 0x30A2, 0x30C3, 0x30D7, 0x72B6, 0x6CC1, 0x306E, 0x8AAD, 0x307F, 0x8FBC, 0x307F, 0x306B, 0x5931, 0x6557, 0x3057, 0x307E, 0x3057, 0x305F]),
     (''backup.verify_failed'', uni [0x691C, 0x8A3C, 0x306B, 0x5931, 0x6557, 0x3057, 0x307E, 0x3057, 0x305F]),
     (''backup.step_stop_service'', uni [0x30B5, 0x30FC, 0x30D3, 0x30B9, 0x3092, 0x505C, 0x6B62]),
     (''backup.step_create_backup'', uni [0x6574, 0x5408, 0x6027, 0x306E, 0x3042, 0x308B, 0x30D0, 0x30C3, 0x30AF, 0x30A2, 0x30C3, 0x30D7, 0x3092, 0x4F5C, 0x6210]),
     (''backup.step_restart_service'', uni [0x30B5, 0x30FC, 0x30D3, 0x30B9, 0x3092, 0x518D, 0x8D77, 0x52D5]),
     (''backup.step_stop_container'', uni [0x30B3, 0x30F3, 0x30C6, 0x30CA, 0x3092, 0x505C, 0x6B62]),
     (''backup.step_backup_volume'', uni [0x30DC, 0x30EA, 0x30E5, 0x30FC, 0x30E0, 0x3092, 0x30D0, 0x30C3, 0x30AF, 0x30A2, 0x30C3, 0x30D7]),
     (''backup.step_restart_container'', uni [0x30B3, 0x30F3, 0x30C6, 0x30CA, 0x3092, 0x518D, 0x8D77, 0x52D5]),
     (''backup.step_online_backup'', ''SQLite'' @ uni [0x30D0, 0x30C3, 0x30AF, 0x30A2, 0x30C3, 0x30D7] @ ''API'' @ uni [0x3092, 0x4F7F, 0x7528, 0x3057, 0x3066, 0x6574, 0x5408, 0x6027, 0x306E, 0x3042, 0x308B, 0x30AA, 0x30F3, 0x30E9, 0x30A4, 0x30F3, 0x30D0, 0x30C3, 0x30AF, 0x30A2, 0x30C3, 0x30D7, 0x3092, 0x4F5C, 0x6210]),
     (''onboarding.welcome'', ''Velora DNS'' @ uni [0x3078, 0x3088, 0x3046, 0x3053, 0x305D]),
     (''onboarding.complete_steps'', uni [0x30A4, 0x30F3, 0x30B9, 0x30C8, 0x30FC, 0x30EB, 0x3092, 0x4FDD, 0x8B77, 0x3059, 0x308B, 0x305F, 0x3081, 0x306B, 0x4EE5, 0x4E0B, 0x306E, 0x30B9, 0x30C6, 0x30C3, 0x30D7, 0x3092, 0x5B8C, 0x4E86, 0x3057, 0x3066, 0x304F, 0x3060, 0x3055, 0x3044]),
     (''onboarding.dismiss'', uni [0x9589, 0x3058, 0x308B]),
     (''onboarding.change_credentials'', uni [0x30D6, 0x30FC, 0x30C8, 0x30B9, 0x30C8, 0x30E9, 0x30C3, 0x30D7, 0x8A8D, 0x8A3C, 0x60C5, 0x5831, 0x3092, 0x5909, 0x66F4]),
     (''onboarding.change_credentials_text'', uni [0x30C7, 0x30D5, 0x30A9, 0x30EB, 0x30C8, 0x306E, 0x7BA1, 0x7406, 0x8005, 0x30D1, 0x30B9, 0x30EF, 0x30FC, 0x30C9, 0x306F, 0x521D, 0x56DE, 0x30ED, 0x30B0, 0x30A4, 0x30F3, 0x5F8C, 0x306B, 0x5909, 0x66F4, 0x3057, 0x3066, 0x304F, 0x3060, 0x3055, 0x3044, 0x3002]),
     (''onboarding.review_dns'', ''DNS'' @ uni [0x8A2D, 0x5B9A, 0x3092, 0x78BA, 0x8A8D]),
     (''onboarding.review_dns_text'', uni [0x30CD, 0x30C3, 0x30C8, 0x30EF, 0x30FC, 0x30AF, 0x306B, 0x5BFE, 0x3057, 0x3066, 0x30A2, 0x30C3, 0x30D7, 0x30B9, 0x30C8, 0x30EA, 0x30FC, 0x30E0, 0x30B5, 0x30FC, 0x30D0, 0x30FC, 0x3068, 0x8A31, 0x53EF, 0x3055, 0x308C, 0x305F, 0x30AF, 0x30E9, 0x30A4, 0x30A2, 0x30F3, 0x30C8, 0x304C, 0x6B63, 0x3057, 0x304F, 0x8A2D, 0x5B9A, 0x3055, 0x308C, 0x3066, 0x3044, 0x308B, 0x3053, 0x3068, 0x3092, 0x78BA, 0x8A8D, 0x3057, 0x3066, 0x304F, 0x3060, 0x3055, 0x3044, 0x3002]),
     (''onboarding.restrict_clients'', uni [0x30AF, 0x30E9, 0x30A4, 0x30A2, 0x30F3, 0x30C8, 0x30A2, 0x30AF, 0x30BB, 0x30B9, 0x3092, 0x5236, 0x9650]),
     (''onboarding.restrict_clients_text'', ''allowed_clients CIDR'' @ uni [0x3092, 0x8A2D, 0x5B9A, 0x3057, 0x3066, 0x3001, 0x30EA, 0x30BE, 0x30EB, 0x30D0, 0x30FC, 0x3092, 0x4F7F, 0x7528, 0x3067, 0x304D, 0x308B, 0x30CD, 0x30C3, 0x30C8, 0x30EF, 0x30FC, 0x30AF, 0x3092, 0x5236, 0x9650, 0x3057, 0x307E, 0x3059, 0x3002]),
     (''onboarding.verify_db'', uni [0x30C7, 0x30FC, 0x30BF, 0x30D9, 0x30FC, 0x30B9, 0x30B9, 0x30C8, 0x30EC, 0x30FC, 0x30B8, 0x3092, 0x691C, 0x8A3C]),
     (''onboarding.verify_db_text'', uni [0x30C7, 0x30FC, 0x30BF, 0x30D9, 0x30FC, 0x30B9, 0x30D1, 0x30B9, 0x304C, 0x5341, 0x5206, 0x306A, 0x5BB9, 0x91CF, 0x3092, 0x6301, 0x3064, 0x4FE1, 0x983C, 0x3067, 0x304D, 0x308B, 0x30B9, 0x30C8, 0x30EC, 0x30FC, 0x30B8, 0x306B, 0x3042, 0x308B, 0x3053, 0x3068, 0x3092, 0x78BA, 0x8A8D, 0x3057, 0x3066, 0x304F, 0x3060, 0x3055, 0x3044, 0x3002])]\<close>

definition dict_ja_5 :: text_table where
  \<open>dict_ja_5 = [
     (''onboarding.update_policy'', uni [0x30A2, 0x30C3, 0x30D7, 0x30C7, 0x30FC, 0x30C8, 0x30DD, 0x30EA, 0x30B7, 0x30FC, 0x3092, 0x8A2D, 0x5B9A]),
     (''onboarding.update_policy_text'', uni [0x30A2, 0x30C3, 0x30D7, 0x30C7, 0x30FC, 0x30C8, 0x30BB, 0x30F3, 0x30BF, 0x30FC, 0x3092, 0x78BA, 0x8A8D, 0x3057, 0x3066, 0x3001, 0x30A4, 0x30F3, 0x30B9, 0x30C8, 0x30FC, 0x30EB, 0x3092, 0x6700, 0x65B0, 0x306E, 0x72B6, 0x614B, 0x306B, 0x4FDD, 0x3064, 0x65B9, 0x6CD5, 0x3092, 0x7406, 0x89E3, 0x3057, 0x3066, 0x304F, 0x3060, 0x3055, 0x3044, 0x3002]),
     (''app.nav.dhcp'', ''DHCP''),
     (''app.title.dhcp'', ''DHCP'' @ uni [0x30B5, 0x30FC, 0x30D0, 0x30FC]),
     (''dhcp.loading'', ''DHCP'' @ uni [0x30C7, 0x30FC, 0x30BF, 0x3092, 0x8AAD, 0x307F, 0x8FBC, 0x307F, 0x4E2D, 0x2026]),
     (''dhcp.load_failed'', ''Unable to load DHCP data''),
     (''dhcp.create_pool_failed'', ''Unable to create pool''),
     (''dhcp.delete_pool_failed'', ''Unable to delete pool''),
     (''dhcp.create_reservation_failed'', ''Unable to create reservation''),
     (''dhcp.delete_reservation_failed'', ''Unable to delete reservation''),
     (''dhcp.delete_lease_failed'', ''Unable to delete lease''),
     (''dhcp.pools'', ''DHCP'' @ uni [0x30D7, 0x30FC, 0x30EB]),
     (''dhcp.add_pool'', uni [0x30D7, 0x30FC, 0x30EB, 0x3092, 0x8FFD, 0x52A0]),
     (''dhcp.pool_name'', uni [0x30D7, 0x30FC, 0x30EB, 0x540D]),
     (''dhcp.interface'', uni [0x30A4, 0x30F3, 0x30BF, 0x30FC, 0x30D5, 0x30A7, 0x30FC, 0x30B9]),
     (''dhcp.subnet_cidr'', uni [0x30B5, 0x30D6, 0x30CD, 0x30C3, 0x30C8] @ '' (CIDR)''),
     (''dhcp.subnet'', uni [0x30B5, 0x30D6, 0x30CD, 0x30C3, 0x30C8]),
     (''dhcp.gateway'', uni [0x30B2, 0x30FC, 0x30C8, 0x30A6, 0x30A7, 0x30A4]),
     (''dhcp.dns_servers'', ''DNS'' @ uni [0x30B5, 0x30FC, 0x30D0, 0x30FC]),
     (''dhcp.lease_seconds'', uni [0x30EA, 0x30FC, 0x30B9, 0x6642, 0x9593, 0xFF08, 0x79D2, 0xFF09]),
     (''dhcp.leases_label'', uni [0x30EA, 0x30FC, 0x30B9]),
     (''dhcp.create'', uni [0x4F5C, 0x6210]),
     (''dhcp.no_pools'', ''DHCP'' @ uni [0x30D7, 0x30FC, 0x30EB, 0x304C, 0x8A2D, 0x5B9A, 0x3055, 0x308C, 0x3066, 0x3044, 0x307E, 0x305B, 0x3093, 0x3002, 0x30EA, 0x30FC, 0x30B9, 0x3092, 0x63D0, 0x4F9B, 0x3059, 0x308B, 0x306B, 0x306F, 0x30D7, 0x30FC, 0x30EB, 0x3092, 0x4F5C, 0x6210, 0x3057, 0x3066, 0x304F, 0x3060, 0x3055, 0x3044, 0x3002]),
     (''dhcp.reservations'', uni [0x30B9, 0x30BF, 0x30C6, 0x30A3, 0x30C3, 0x30AF, 0x4E88, 0x7D04]),
     (''dhcp.mac_address'', ''MAC'' @ uni [0x30A2, 0x30C9, 0x30EC, 0x30B9]),
     (''dhcp.ip_address'', ''IP'' @ uni [0x30A2, 0x30C9, 0x30EC, 0x30B9]),
     (''dhcp.hostname'', uni [0x30DB, 0x30B9, 0x30C8, 0x540D]),
     (''dhcp.add'', uni [0x8FFD, 0x52A0]),
     (''dhcp.active_leases'', uni [0x30A2, 0x30AF, 0x30C6, 0x30A3, 0x30D6, 0x30EA, 0x30FC, 0x30B9]),
     (''dhcp.expires'', uni [0x6709, 0x52B9, 0x671F, 0x9650]),
     (''dhcp.no_leases'', uni [0x30A2, 0x30AF, 0x30C6, 0x30A3, 0x30D6, 0x306A, 0x30EA, 0x30FC, 0x30B9, 0x306F, 0x3042, 0x308A, 0x307E, 0x305B, 0x3093, 0x3002]),
     (''dhcp.expired'', uni [0x671F, 0x9650, 0x5207, 0x308C]),
     (''dhcp.confirm_delete_pool'', uni [0x3053, 0x306E, 0x30D7, 0x30FC, 0x30EB, 0x3068, 0x3059, 0x3079, 0x3066, 0x306E, 0x4E88, 0x7D04, 0x3092, 0x524A, 0x9664, 0x3057, 0x307E, 0x3059, 0x304B, 0xFF1F]),
     (''dhcp.name'', uni [0x540D, 0x524D]),
     (''app.nav.cluster'', uni [0x30AF, 0x30E9, 0x30B9, 0x30BF, 0x30FC]),
     (''app.title.cluster'', uni [0x30AF, 0x30E9, 0x30B9, 0x30BF, 0x30FC, 0x6982, 0x8981]),
     (''cluster.loading'', uni [0x30AF, 0x30E9, 0x30B9, 0x30BF, 0x30FC, 0x30C7, 0x30FC, 0x30BF, 0x3092, 0x8AAD, 0x307F, 0x8FBC, 0x307F, 0x4E2D, 0x2026]),
     (''cluster.load_failed'', ''Unable to load cluster data''),
     (''cluster.name'', uni [0x540D, 0x524D]),
     (''cluster.status'', uni [0x30B9, 0x30C6, 0x30FC, 0x30BF, 0x30B9]),
     (''cluster.version'', uni [0x30D0, 0x30FC, 0x30B8, 0x30E7, 0x30F3]),
     (''cluster.last_seen'', uni [0x6700, 0x7D42, 0x78BA, 0x8A8D]),
     (''cluster.config_history'', uni [0x8A2D, 0x5B9A, 0x5C65, 0x6B74]),
     (''cluster.no_versions'', uni [0x8A2D, 0x5B9A, 0x30D0, 0x30FC, 0x30B8, 0x30E7, 0x30F3, 0x306E, 0x8A18, 0x9332, 0x304C, 0x3042, 0x308A, 0x307E, 0x305B, 0x3093, 0x3002]),
     (''cluster.hash'', uni [0x30CF, 0x30C3, 0x30B7, 0x30E5]),
     (''cluster.applied_by'', uni [0x9069, 0x7528, 0x8005]),
     (''cluster.applied_at'', uni [0x9069, 0x7528, 0x65E5, 0x6642]),
     (''app.nav.group_dns'', ''DNS''),
     (''app.nav.group_network'', uni [0x30CD, 0x30C3, 0x30C8, 0x30EF, 0x30FC, 0x30AF]),
     (''app.nav.group_system'', uni [0x30B7, 0x30B9, 0x30C6, 0x30E0]),
     (''app.menu_open'', uni [0x30CA, 0x30D3, 0x30B2, 0x30FC, 0x30B7, 0x30E7, 0x30F3, 0x3092, 0x958B, 0x304F]),
     (''app.menu_close'', uni [0x30CA, 0x30D3, 0x30B2, 0x30FC, 0x30B7, 0x30E7, 0x30F3, 0x3092, 0x9589, 0x3058, 0x308B]),
     (''app.theme_to_dark'', uni [0x30C0, 0x30FC, 0x30AF, 0x30C6, 0x30FC, 0x30DE, 0x306B, 0x5207, 0x308A, 0x66FF, 0x3048]),
     (''app.theme_to_light'', uni [0x30E9, 0x30A4, 0x30C8, 0x30C6, 0x30FC, 0x30DE, 0x306B, 0x5207, 0x308A, 0x66FF, 0x3048]),
     (''app.signed_in_as'', uni [0x30B5, 0x30A4, 0x30F3, 0x30A4, 0x30F3, 0x4E2D, 0x3A]),
     (''app.subtitle.zones'', uni [0x30CD, 0x30C3, 0x30C8, 0x30EF, 0x30FC, 0x30AF, 0x4E0A, 0x306E, 0x30C7, 0x30D0, 0x30A4, 0x30B9, 0x3084, 0x30B5, 0x30FC, 0x30D3, 0x30B9, 0x306E, 0x6A29, 0x5A01, 0x540D, 0x3002]),
     (''app.subtitle.queries'', uni [0x3053, 0x306E, 0x30EA, 0x30BE, 0x30EB, 0x30D0, 0x30FC, 0x304C, 0x5FDC, 0x7B54, 0x3057, 0x305F, 0x6700, 0x8FD1, 0x306E, 0x30AF, 0x30A8, 0x30EA, 0x3002]),
     (''app.subtitle.blocklists'', uni [0x30D6, 0x30ED, 0x30C3, 0x30AF, 0x3068, 0x3057, 0x3066, 0x5FDC, 0x7B54, 0x3059, 0x308B, 0x30C9, 0x30E1, 0x30A4, 0x30F3, 0x30EA, 0x30B9, 0x30C8, 0x3002]),
     (''app.subtitle.cache'', uni [0x7E70, 0x308A, 0x8FD4, 0x3057, 0x306E, 0x554F, 0x3044, 0x5408, 0x308F, 0x305B, 0x3092, 0x9AD8, 0x901F, 0x5316, 0x3059, 0x308B, 0x30E1, 0x30E2, 0x30EA, 0x4E0A, 0x306E, 0x5FDC, 0x7B54, 0x3002]),
     (''app.subtitle.settings'', uni [0x30EA, 0x30BE, 0x30EB, 0x30D0, 0x30FC, 0x3001] @ ''Web '' @ uni [0x30A4, 0x30F3, 0x30BF, 0x30FC, 0x30D5, 0x30A7, 0x30FC, 0x30B9, 0x3001, 0x500B, 0x4EBA, 0x8A2D, 0x5B9A, 0x3002]),
     (''app.subtitle.updates'', uni [0x30A4, 0x30F3, 0x30B9, 0x30C8, 0x30FC, 0x30EB, 0x6E08, 0x307F, 0x30D0, 0x30FC, 0x30B8, 0x30E7, 0x30F3, 0x3001, 0x5229, 0x7528, 0x53EF, 0x80FD, 0x306A, 0x30EA, 0x30EA, 0x30FC, 0x30B9, 0x3001, 0x66F4, 0x65B0, 0x5C65, 0x6B74, 0x3002]),
     (''app.subtitle.backup'', uni [0x6697, 0x53F7, 0x5316, 0x30D0, 0x30C3, 0x30AF, 0x30A2, 0x30C3, 0x30D7, 0x306E, 0x4F5C, 0x6210, 0x3068, 0x65E2, 0x5B58, 0x30D0, 0x30C3, 0x30AF, 0x30A2, 0x30C3, 0x30D7, 0x306E, 0x691C, 0x8A3C, 0x3002]),
     (''app.subtitle.dhcp'', uni [0x30A2, 0x30C9, 0x30EC, 0x30B9, 0x30D7, 0x30FC, 0x30EB, 0x3001, 0x4E88, 0x7D04, 0x3001, 0x30A2, 0x30AF, 0x30C6, 0x30A3, 0x30D6, 0x306A, 0x30EA, 0x30FC, 0x30B9, 0x3002]),
     (''app.subtitle.cluster'', uni [0x8907, 0x6570, 0x306E, 0x20] @ ''Velora DNS '' @ uni [0x30B5, 0x30FC, 0x30D0, 0x30FC, 0x3067, 0x30ED, 0x30FC, 0x30AB, 0x30EB, 0x30BE, 0x30FC, 0x30F3, 0x3092, 0x540C, 0x4E00, 0x306B, 0x4FDD, 0x3061, 0x307E, 0x3059, 0x3002]),
     (''app.subtitle.diagnostics'', uni [0x30B3, 0x30F3, 0x30DD, 0x30FC, 0x30CD, 0x30F3, 0x30C8, 0x306E, 0x72B6, 0x614B, 0x3068, 0x5171, 0x6709, 0x53EF, 0x80FD, 0x306A, 0x30B5, 0x30DD, 0x30FC, 0x30C8, 0x30EC, 0x30DD, 0x30FC, 0x30C8, 0x3002]),
     (''app.subtitle.events'', uni [0x5BFE, 0x5FDC, 0x304C, 0x5FC5, 0x8981, 0x306A, 0x9805, 0x76EE, 0x3002]),
     (''app.subtitle.audit'', uni [0x8AB0, 0x304C, 0x3001, 0x4F55, 0x3092, 0x3001, 0x3044, 0x3064, 0x5909, 0x66F4, 0x3057, 0x305F, 0x304B, 0x3002]),
     (''settings.preferences'', uni [0x500B, 0x4EBA, 0x8A2D, 0x5B9A]),
     (''dashboard.general_statistics'', uni [0x5168, 0x822C, 0x7D71, 0x8A08]),
     (''dashboard.blocked'', uni [0x30D5, 0x30A3, 0x30EB, 0x30BF, 0x30FC, 0x3067, 0x30D6, 0x30ED, 0x30C3, 0x30AF]),
     (''dashboard.of_all_queries'', uni [0x5168, 0x30AF, 0x30A8, 0x30EA, 0x4E2D]),
     (''dashboard.query_logging'', uni [0x30AF, 0x30A8, 0x30EA, 0x30ED, 0x30B0]),
     (''dashboard.enabled'', uni [0x6709, 0x52B9]),
     (''dashboard.disabled'', uni [0x7121, 0x52B9]),
     (''dashboard.requests'', uni [0x30EA, 0x30AF, 0x30A8, 0x30B9, 0x30C8]),
     (''dashboard.domain'', uni [0x30C9, 0x30E1, 0x30A4, 0x30F3]),
     (''dashboard.client'', uni [0x30AF, 0x30E9, 0x30A4, 0x30A2, 0x30F3, 0x30C8]),
     (''dashboard.upstream_servers'', uni [0x4E0A, 0x6D41, 0x30B5, 0x30FC, 0x30D0, 0x30FC]),
     (''dashboard.collecting_samples'', uni [0x30B5, 0x30F3, 0x30D7, 0x30EB, 0x3092, 0x53CE, 0x96C6, 0x4E2D, 0x2026]),
     (''cache.search_label'', uni [0x540D, 0x524D, 0x3067, 0x691C, 0x7D22]),
     (''cache.search_placeholder'', ''example.org''),
     (''cache.all_types'', uni [0x3059, 0x3079, 0x3066, 0x306E, 0x30BF, 0x30A4, 0x30D7]),
     (''cache.remove_entry'', uni [0x30AD, 0x30E3, 0x30C3, 0x30B7, 0x30E5, 0x304B, 0x3089, 0x524A, 0x9664]),
     (''cache.invalidate_title'', uni [0x30C9, 0x30E1, 0x30A4, 0x30F3, 0x3092, 0x7121, 0x52B9, 0x5316]),
     (''cache.invalidate_text'', uni [0x30AD, 0x30E3, 0x30C3, 0x30B7, 0x30E5, 0x5168, 0x4F53, 0x3092, 0x6D88, 0x53BB, 0x305B, 0x305A, 0x306B, 0x3001] @ ''1'' @ uni [0x3064, 0x306E, 0x540D, 0x524D, 0x306E, 0x30AD, 0x30E3, 0x30C3, 0x30B7, 0x30E5, 0x6E08, 0x307F, 0x5FDC, 0x7B54, 0x3092, 0x524A, 0x9664, 0x3057, 0x307E, 0x3059, 0x3002]),
     (''cache.domain'', uni [0x30C9, 0x30E1, 0x30A4, 0x30F3]),
     (''cache.include_subdomains'', uni [0x30B5, 0x30D6, 0x30C9, 0x30E1, 0x30A4, 0x30F3, 0x3092, 0x542B, 0x3081, 0x308B]),
     (''cache.invalidate'', uni [0x7121, 0x52B9, 0x5316]),
     (''cache.removed_entries'', uni [0x524A, 0x9664, 0x3055, 0x308C, 0x305F, 0x30AD, 0x30E3, 0x30C3, 0x30B7, 0x30E5, 0x30A8, 0x30F3, 0x30C8, 0x30EA]),
     (''cache.invalidate_failed'', uni [0x7121, 0x52B9, 0x5316, 0x306B, 0x5931, 0x6557, 0x3057, 0x307E, 0x3057, 0x305F]),
     (''cache.flush_confirm'', uni [0x3059, 0x3079, 0x3066, 0x306E, 0x30AD, 0x30E3, 0x30C3, 0x30B7, 0x30E5, 0x6E08, 0x307F, 0x5FDC, 0x7B54, 0x3092, 0x6D88, 0x53BB, 0x3057, 0x307E, 0x3059, 0x304B, 0xFF1F, 0x30D2, 0x30C3, 0x30C8, 0x6570, 0x3068, 0x30DF, 0x30B9, 0x6570, 0x306F, 0x4FDD, 0x6301, 0x3055, 0x308C, 0x307E, 0x3059, 0x3002]),
     (''cache.no_matches'', uni [0x3053, 0x306E, 0x30D5, 0x30A3, 0x30EB, 0x30BF, 0x30FC, 0x306B, 0x4E00, 0x81F4, 0x3059, 0x308B, 0x30A8, 0x30F3, 0x30C8, 0x30EA, 0x306F, 0x3042, 0x308A, 0x307E, 0x305B, 0x3093, 0x3002]),
     (''blocklists.schedule'', uni [0x66F4, 0x65B0, 0x30B9, 0x30B1, 0x30B8, 0x30E5, 0x30FC, 0x30EB]),
     (''blocklists.schedule_for'', uni [0x66F4, 0x65B0, 0x30B9, 0x30B1, 0x30B8, 0x30E5, 0x30FC, 0x30EB, 0x3A]),
     (''blocklists.manual'', uni [0x624B, 0x52D5]),
     (''blocklists.every_1h'', ''1'' @ uni [0x6642, 0x9593, 0x3054, 0x3068]),
     (''blocklists.every_6h'', ''6'' @ uni [0x6642, 0x9593, 0x3054, 0x3068]),
     (''blocklists.every_12h'', ''12'' @ uni [0x6642, 0x9593, 0x3054, 0x3068]),
     (''blocklists.every_24h'', uni [0x6BCE, 0x65E5]),
     (''blocklists.every_7d'', uni [0x6BCE, 0x9031]),
     (''blocklists.col_next_update'', uni [0x6B21, 0x56DE, 0x66F4, 0x65B0]),
     (''blocklists.due_now'', uni [0x307E, 0x3082, 0x306A, 0x304F]),
     (''blocklists.never_updated'', uni [0x672A, 0x66F4, 0x65B0]),
     (''blocklists.retry_count'', uni [0x5931, 0x6557, 0x3057, 0x305F, 0x8A66, 0x884C]),
     (''blocklists.schedule_failed'', uni [0x30B9, 0x30B1, 0x30B8, 0x30E5, 0x30FC, 0x30EB, 0x3092, 0x5909, 0x66F4, 0x3067, 0x304D, 0x307E, 0x305B, 0x3093]),
     (''app.nav.forwarding'', uni [0x6761, 0x4EF6, 0x4ED8, 0x304D, 0x8EE2, 0x9001]),
     (''app.title.forwarding'', uni [0x6761, 0x4EF6, 0x4ED8, 0x304D, 0x8EE2, 0x9001]),
     (''app.subtitle.forwarding'', uni [0x9078, 0x629E, 0x3057, 0x305F, 0x30C9, 0x30E1, 0x30A4, 0x30F3, 0x306E, 0x30AF, 0x30A8, 0x30EA, 0x3092, 0x5C02, 0x7528, 0x30EA, 0x30BE, 0x30EB, 0x30D0, 0x30FC, 0x306B, 0x9001, 0x4FE1, 0x3057, 0x307E, 0x3059, 0x3002]),
     (''forwarding.count'', uni [0x4EF6, 0x306E, 0x8EE2, 0x9001, 0x30EB, 0x30FC, 0x30EB]),
     (''forwarding.add'', uni [0x30EB, 0x30FC, 0x30EB, 0x3092, 0x8FFD, 0x52A0]),
     (''forwarding.add_title'', uni [0x65B0, 0x3057, 0x3044, 0x8EE2, 0x9001, 0x30EB, 0x30FC, 0x30EB]),
     (''forwarding.edit_title'', uni [0x8EE2, 0x9001, 0x30EB, 0x30FC, 0x30EB, 0x3092, 0x7DE8, 0x96C6]),
     (''forwarding.form_hint'', uni [0x30EB, 0x30FC, 0x30EB, 0x306F, 0x30C9, 0x30E1, 0x30A4, 0x30F3, 0x914D, 0x4E0B, 0x306E, 0x3059, 0x3079, 0x3066, 0x306E, 0x540D, 0x524D, 0x306B, 0x3082, 0x9069, 0x7528, 0x3055, 0x308C, 0x307E, 0x3059, 0x3002, 0x6700, 0x3082, 0x5177, 0x4F53, 0x7684, 0x306A, 0x6709, 0x52B9, 0x30EB, 0x30FC, 0x30EB, 0x304C, 0x512A, 0x5148, 0x3055, 0x308C, 0x307E, 0x3059, 0x3002]),
     (''forwarding.domain'', uni [0x30C9, 0x30E1, 0x30A4, 0x30F3]),
     (''forwarding.upstreams'', uni [0x30EA, 0x30BE, 0x30EB, 0x30D0, 0x30FC]),
     (''forwarding.upstreams_hint'', ''IP '' @ uni [0x307E, 0x305F, 0x306F, 0x20] @ ''IP:'' @ uni [0x30DD, 0x30FC, 0x30C8, 0x5F62, 0x5F0F, 0x3067] @ ''1'' @ uni [0x301C] @ ''4'' @ uni [0x4EF6, 0x3001, 0x30AB, 0x30F3, 0x30DE, 0x533A, 0x5207, 0x308A, 0x3002, 0x30DD, 0x30FC, 0x30C8, 0x7701, 0x7565, 0x6642, 0x306F] @ ''53'' @ uni [0x3002]),
     (''forwarding.description'', uni [0x8AAC, 0x660E]),
     (''forwarding.enabled'', uni [0x6709, 0x52B9]),
     (''forwarding.save'', uni [0x30EB, 0x30FC, 0x30EB, 0x3092, 0x4FDD, 0x5B58])]\<close>

definition dict_ja_6 :: text_table where
  \<open>dict_ja_6 = [
     (''forwarding.cancel'', uni [0x30AD, 0x30E3, 0x30F3, 0x30BB, 0x30EB]),
     (''forwarding.empty_title'', uni [0x8EE2, 0x9001, 0x30EB, 0x30FC, 0x30EB, 0x306F, 0x3042, 0x308A, 0x307E, 0x305B, 0x3093]),
     (''forwarding.empty_text'', uni [0x3059, 0x3079, 0x3066, 0x306E, 0x30AF, 0x30A8, 0x30EA, 0x306F, 0x30B0, 0x30ED, 0x30FC, 0x30D0, 0x30EB, 0x4E0A, 0x6D41, 0x30EA, 0x30BE, 0x30EB, 0x30D0, 0x30FC, 0x3092, 0x4F7F, 0x7528, 0x3057, 0x307E, 0x3059, 0x3002] @ ''corp.example '' @ uni [0x306A, 0x3069, 0x306E, 0x30C9, 0x30E1, 0x30A4, 0x30F3, 0x3092, 0x5185, 0x90E8, 0x20] @ ''DNS '' @ uni [0x30B5, 0x30FC, 0x30D0, 0x30FC, 0x3067, 0x89E3, 0x6C7A, 0x3059, 0x308B, 0x306B, 0x306F, 0x30EB, 0x30FC, 0x30EB, 0x3092, 0x8FFD, 0x52A0, 0x3057, 0x307E, 0x3059, 0x3002]),
     (''forwarding.col_status'', uni [0x72B6, 0x614B]),
     (''forwarding.test'', uni [0x30C6, 0x30B9, 0x30C8]),
     (''forwarding.test_title'', uni [0x30EB, 0x30FC, 0x30EB, 0x3092, 0x30C6, 0x30B9, 0x30C8]),
     (''forwarding.test_hint'', uni [0x30AD, 0x30E3, 0x30C3, 0x30B7, 0x30E5, 0x3092, 0x4F7F, 0x308F, 0x305A, 0x3001, 0x3053, 0x306E, 0x30EB, 0x30FC, 0x30EB, 0x306E, 0x30EA, 0x30BE, 0x30EB, 0x30D0, 0x30FC, 0x3060, 0x3051, 0x306B, 0x30AF, 0x30A8, 0x30EA, 0x3092] @ ''1'' @ uni [0x56DE, 0x9001, 0x4FE1, 0x3057, 0x307E, 0x3059, 0x3002]),
     (''forwarding.test_name'', uni [0x540D, 0x524D]),
     (''forwarding.test_type'', uni [0x30BF, 0x30A4, 0x30D7]),
     (''forwarding.run_test'', uni [0x30C6, 0x30B9, 0x30C8, 0x3092, 0x5B9F, 0x884C]),
     (''forwarding.test_via'', uni [0x7D4C, 0x7531]),
     (''forwarding.no_answers'', uni [0x5FDC, 0x7B54, 0x30EC, 0x30B3, 0x30FC, 0x30C9, 0x306A, 0x3057]),
     (''forwarding.edit'', uni [0x7DE8, 0x96C6]),
     (''forwarding.delete'', uni [0x524A, 0x9664]),
     (''forwarding.delete_confirm'', uni [0x6B21, 0x306E, 0x8EE2, 0x9001, 0x30EB, 0x30FC, 0x30EB, 0x3092, 0x524A, 0x9664, 0x3057, 0x307E, 0x3059, 0x304B, 0x3A]),
     (''forwarding.toggle'', uni [0x30EB, 0x30FC, 0x30EB, 0x306E, 0x6709, 0x52B9, 0x2F, 0x7121, 0x52B9, 0x3A]),
     (''forwarding.load_failed'', uni [0x8EE2, 0x9001, 0x30EB, 0x30FC, 0x30EB, 0x3092, 0x8AAD, 0x307F, 0x8FBC, 0x3081, 0x307E, 0x305B, 0x3093]),
     (''forwarding.save_failed'', uni [0x30EB, 0x30FC, 0x30EB, 0x3092, 0x4FDD, 0x5B58, 0x3067, 0x304D, 0x307E, 0x305B, 0x3093]),
     (''forwarding.saved'', uni [0x8EE2, 0x9001, 0x30EB, 0x30FC, 0x30EB, 0x3092, 0x4FDD, 0x5B58, 0x3057, 0x307E, 0x3057, 0x305F, 0x3002, 0x30C9, 0x30E1, 0x30A4, 0x30F3, 0x306E, 0x30AD, 0x30E3, 0x30C3, 0x30B7, 0x30E5, 0x6E08, 0x307F, 0x5FDC, 0x7B54, 0x306F, 0x6D88, 0x53BB, 0x3055, 0x308C, 0x307E, 0x3057, 0x305F, 0x3002]),
     (''forwarding.disabled'', uni [0x7121, 0x52B9]),
     (''app.nav.rewrites'', ''DNS '' @ uni [0x66F8, 0x304D, 0x63DB, 0x3048]),
     (''app.title.rewrites'', ''DNS '' @ uni [0x66F8, 0x304D, 0x63DB, 0x3048]),
     (''app.subtitle.rewrites'', uni [0x9078, 0x629E, 0x3057, 0x305F, 0x540D, 0x524D, 0x306B, 0x56FA, 0x5B9A, 0x30A2, 0x30C9, 0x30EC, 0x30B9, 0x307E, 0x305F, 0x306F, 0x30A8, 0x30A4, 0x30EA, 0x30A2, 0x30B9, 0x3067, 0x5FDC, 0x7B54, 0x3057, 0x307E, 0x3059, 0x3002]),
     (''rewrites.count'', uni [0x4EF6, 0x306E, 0x66F8, 0x304D, 0x63DB, 0x3048]),
     (''rewrites.add'', uni [0x66F8, 0x304D, 0x63DB, 0x3048, 0x3092, 0x8FFD, 0x52A0]),
     (''rewrites.add_title'', uni [0x65B0, 0x3057, 0x3044, 0x66F8, 0x304D, 0x63DB, 0x3048]),
     (''rewrites.edit_title'', uni [0x66F8, 0x304D, 0x63DB, 0x3048, 0x3092, 0x7DE8, 0x96C6]),
     (''rewrites.form_hint'', ''*.parent '' @ uni [0x3067, 0x30C9, 0x30E1, 0x30A4, 0x30F3, 0x914D, 0x4E0B, 0x306E, 0x3059, 0x3079, 0x3066, 0x306E, 0x540D, 0x524D, 0x306B, 0x4E00, 0x81F4, 0x3057, 0x307E, 0x3059, 0x3002, 0x5B8C, 0x5168, 0x4E00, 0x81F4, 0x304C, 0x30EF, 0x30A4, 0x30EB, 0x30C9, 0x30AB, 0x30FC, 0x30C9, 0x3088, 0x308A, 0x512A, 0x5148, 0x3055, 0x308C, 0x307E, 0x3059, 0x3002]),
     (''rewrites.name'', uni [0x540D, 0x524D]),
     (''rewrites.type'', uni [0x30BF, 0x30A4, 0x30D7]),
     (''rewrites.value'', uni [0x5FDC, 0x7B54]),
     (''rewrites.value_hint_A'', ''IPv4 '' @ uni [0x30A2, 0x30C9, 0x30EC, 0x30B9]),
     (''rewrites.value_hint_AAAA'', ''IPv6 '' @ uni [0x30A2, 0x30C9, 0x30EC, 0x30B9]),
     (''rewrites.value_hint_CNAME'', uni [0x901A, 0x5E38, 0x3069, 0x304A, 0x308A, 0x89E3, 0x6C7A, 0x3055, 0x308C, 0x308B, 0x30BF, 0x30FC, 0x30B2, 0x30C3, 0x30C8, 0x30DB, 0x30B9, 0x30C8, 0x540D]),
     (''rewrites.description'', uni [0x8AAC, 0x660E]),
     (''rewrites.enabled'', uni [0x6709, 0x52B9]),
     (''rewrites.save'', uni [0x66F8, 0x304D, 0x63DB, 0x3048, 0x3092, 0x4FDD, 0x5B58]),
     (''rewrites.empty_title'', ''DNS '' @ uni [0x66F8, 0x304D, 0x63DB, 0x3048, 0x306F, 0x3042, 0x308A, 0x307E, 0x305B, 0x3093]),
     (''rewrites.empty_text'', uni [0x30BE, 0x30FC, 0x30F3, 0x3092, 0x4F5C, 0x6210, 0x305B, 0x305A, 0x306B, 0x20] @ ''nas.home '' @ uni [0x306A, 0x3069, 0x306E, 0x540D, 0x524D, 0x3092, 0x30A2, 0x30C9, 0x30EC, 0x30B9, 0x306B, 0x5272, 0x308A, 0x5F53, 0x3066, 0x307E, 0x3059, 0x3002]),
     (''rewrites.col_notes'', uni [0x30E1, 0x30E2]),
     (''rewrites.blocked_hint'', uni [0x5148, 0x306B, 0x30D6, 0x30ED, 0x30C3, 0x30AF, 0x30EA, 0x30B9, 0x30C8, 0x3067, 0x30D6, 0x30ED, 0x30C3, 0x30AF, 0x3055, 0x308C, 0x307E, 0x3059]),
     (''rewrites.overrides_hint'', uni [0x30ED, 0x30FC, 0x30AB, 0x30EB, 0x30BE, 0x30FC, 0x30F3, 0x3092, 0x4E0A, 0x66F8, 0x304D]),
     (''rewrites.edit'', uni [0x7DE8, 0x96C6]),
     (''rewrites.delete'', uni [0x524A, 0x9664]),
     (''rewrites.delete_confirm'', uni [0x3053, 0x306E, 0x66F8, 0x304D, 0x63DB, 0x3048, 0x3092, 0x524A, 0x9664, 0x3057, 0x307E, 0x3059, 0x304B, 0xFF1F]),
     (''rewrites.toggle'', uni [0x66F8, 0x304D, 0x63DB, 0x3048, 0x306E, 0x6709, 0x52B9, 0x2F, 0x7121, 0x52B9, 0x3A]),
     (''rewrites.search'', uni [0x66F8, 0x304D, 0x63DB, 0x3048, 0x3092, 0x7D5E, 0x308A, 0x8FBC, 0x307F]),
     (''rewrites.load_failed'', uni [0x66F8, 0x304D, 0x63DB, 0x3048, 0x3092, 0x8AAD, 0x307F, 0x8FBC, 0x3081, 0x307E, 0x305B, 0x3093]),
     (''rewrites.save_failed'', uni [0x66F8, 0x304D, 0x63DB, 0x3048, 0x3092, 0x4FDD, 0x5B58, 0x3067, 0x304D, 0x307E, 0x305B, 0x3093]),
     (''rewrites.saved'', uni [0x66F8, 0x304D, 0x63DB, 0x3048, 0x3092, 0x4FDD, 0x5B58, 0x3057, 0x3066, 0x9069, 0x7528, 0x3057, 0x307E, 0x3057, 0x305F, 0x3002]),
     (''app.nav.clients'', uni [0x30AF, 0x30E9, 0x30A4, 0x30A2, 0x30F3, 0x30C8]),
     (''app.title.clients'', uni [0x30AF, 0x30E9, 0x30A4, 0x30A2, 0x30F3, 0x30C8, 0x3068, 0x30C7, 0x30D0, 0x30A4, 0x30B9]),
     (''app.subtitle.clients'', uni [0x30A2, 0x30C9, 0x30EC, 0x30B9, 0x3068, 0x30CD, 0x30C3, 0x30C8, 0x30EF, 0x30FC, 0x30AF, 0x306B, 0x20] @ ''Velora '' @ uni [0x5168, 0x4F53, 0x3067, 0x4F7F, 0x3046, 0x540D, 0x524D, 0x3092, 0x4ED8, 0x3051, 0x307E, 0x3059, 0x3002]),
     (''clients.count'', uni [0x4EF6, 0x306E, 0x30AF, 0x30E9, 0x30A4, 0x30A2, 0x30F3, 0x30C8]),
     (''clients.add'', uni [0x30AF, 0x30E9, 0x30A4, 0x30A2, 0x30F3, 0x30C8, 0x3092, 0x8FFD, 0x52A0]),
     (''clients.add_title'', uni [0x65B0, 0x3057, 0x3044, 0x30AF, 0x30E9, 0x30A4, 0x30A2, 0x30F3, 0x30C8]),
     (''clients.edit_title'', uni [0x30AF, 0x30E9, 0x30A4, 0x30A2, 0x30F3, 0x30C8, 0x3092, 0x7DE8, 0x96C6]),
     (''clients.form_hint'', uni [0x30CD, 0x30C3, 0x30C8, 0x30EF, 0x30FC, 0x30AF, 0x304C, 0x91CD, 0x306A, 0x308B, 0x5834, 0x5408, 0x306F, 0x6700, 0x3082, 0x5177, 0x4F53, 0x7684, 0x306A, 0x3082, 0x306E, 0x304C, 0x512A, 0x5148, 0x3055, 0x308C, 0x307E, 0x3059, 0x3002] @ ''DHCP '' @ uni [0x30C7, 0x30D0, 0x30A4, 0x30B9, 0x306F, 0x540D, 0x524D, 0x3092, 0x4ED8, 0x3051, 0x308B, 0x524D, 0x306B, 0x56FA, 0x5B9A, 0x30A2, 0x30C9, 0x30EC, 0x30B9, 0x3092, 0x5272, 0x308A, 0x5F53, 0x3066, 0x3066, 0x304F, 0x3060, 0x3055, 0x3044, 0x3002]),
     (''clients.name'', uni [0x540D, 0x524D]),
     (''clients.addresses'', uni [0x30A2, 0x30C9, 0x30EC, 0x30B9]),
     (''clients.addresses_hint'', ''IP '' @ uni [0x30A2, 0x30C9, 0x30EC, 0x30B9, 0x307E, 0x305F, 0x306F, 0x20] @ ''CIDR '' @ uni [0x30CD, 0x30C3, 0x30C8, 0x30EF, 0x30FC, 0x30AF, 0x3092, 0x30AB, 0x30F3, 0x30DE, 0x533A, 0x5207, 0x308A, 0x3067, 0x3002]),
     (''clients.group'', uni [0x30B0, 0x30EB, 0x30FC, 0x30D7]),
     (''clients.description'', uni [0x8AAC, 0x660E]),
     (''clients.enabled'', uni [0x6709, 0x52B9]),
     (''clients.save'', uni [0x30AF, 0x30E9, 0x30A4, 0x30A2, 0x30F3, 0x30C8, 0x3092, 0x4FDD, 0x5B58]),
     (''clients.activity'', uni [0x904E, 0x53BB] @ ''24'' @ uni [0x6642, 0x9593]),
     (''clients.queries'', uni [0x30AF, 0x30A8, 0x30EA]),
     (''clients.last_seen'', uni [0x6700, 0x7D42, 0x78BA, 0x8A8D]),
     (''clients.no_activity'', uni [0x30AF, 0x30A8, 0x30EA, 0x306A, 0x3057]),
     (''clients.view_queries'', uni [0x30AF, 0x30A8, 0x30EA, 0x3092, 0x8868, 0x793A]),
     (''clients.empty_title'', uni [0x540D, 0x524D, 0x4ED8, 0x304D, 0x30AF, 0x30E9, 0x30A4, 0x30A2, 0x30F3, 0x30C8, 0x306F, 0x3042, 0x308A, 0x307E, 0x305B, 0x3093]),
     (''clients.empty_text'', uni [0x30C6, 0x30EC, 0x30D3, 0x3084, 0x20] @ ''Home Assistant '' @ uni [0x306A, 0x3069, 0x306E, 0x30C7, 0x30D0, 0x30A4, 0x30B9, 0x306B, 0x540D, 0x524D, 0x3092, 0x4ED8, 0x3051, 0x308B, 0x3068, 0x3001, 0x30AF, 0x30A8, 0x30EA, 0x30ED, 0x30B0, 0x3067, 0x898B, 0x5206, 0x3051, 0x3084, 0x3059, 0x304F, 0x306A, 0x308A, 0x307E, 0x3059, 0x3002]),
     (''clients.unnamed_title'', uni [0x6700, 0x8FD1, 0x898B, 0x3064, 0x304B, 0x3063, 0x305F, 0x540D, 0x524D, 0x306E, 0x306A, 0x3044, 0x30A2, 0x30C9, 0x30EC, 0x30B9]),
     (''clients.unnamed_text'', uni [0x904E, 0x53BB] @ ''24'' @ uni [0x6642, 0x9593, 0x3067, 0x3069, 0x306E, 0x30AF, 0x30E9, 0x30A4, 0x30A2, 0x30F3, 0x30C8, 0x306B, 0x3082, 0x4E00, 0x81F4, 0x3057, 0x306A, 0x3044, 0x6700, 0x3082, 0x6D3B, 0x767A, 0x306A, 0x30A2, 0x30C9, 0x30EC, 0x30B9, 0x3002]),
     (''clients.name_it'', uni [0x3053, 0x306E, 0x30C7, 0x30D0, 0x30A4, 0x30B9, 0x306B, 0x540D, 0x524D, 0x3092, 0x4ED8, 0x3051, 0x308B]),
     (''clients.edit'', uni [0x7DE8, 0x96C6]),
     (''clients.delete'', uni [0x524A, 0x9664]),
     (''clients.delete_confirm'', uni [0x30AF, 0x30E9, 0x30A4, 0x30A2, 0x30F3, 0x30C8, 0x3092, 0x524A, 0x9664, 0x3057, 0x307E, 0x3059, 0x304B, 0x3A]),
     (''clients.toggle'', uni [0x30AF, 0x30E9, 0x30A4, 0x30A2, 0x30F3, 0x30C8, 0x306E, 0x6709, 0x52B9, 0x2F, 0x7121, 0x52B9]),
     (''clients.load_failed'', uni [0x30AF, 0x30E9, 0x30A4, 0x30A2, 0x30F3, 0x30C8, 0x3092, 0x8AAD, 0x307F, 0x8FBC, 0x3081, 0x307E, 0x305B, 0x3093]),
     (''clients.save_failed'', uni [0x30AF, 0x30E9, 0x30A4, 0x30A2, 0x30F3, 0x30C8, 0x3092, 0x4FDD, 0x5B58, 0x3067, 0x304D, 0x307E, 0x305B, 0x3093]),
     (''clients.saved'', uni [0x30AF, 0x30E9, 0x30A4, 0x30A2, 0x30F3, 0x30C8, 0x3092, 0x4FDD, 0x5B58, 0x3057, 0x307E, 0x3057, 0x305F, 0x3002]),
     (''clients.logging_off'', uni [0x30AF, 0x30E9, 0x30A4, 0x30A2, 0x30F3, 0x30C8, 0x306E, 0x30A2, 0x30AF, 0x30C6, 0x30A3, 0x30D3, 0x30C6, 0x30A3, 0x3092, 0x898B, 0x308B, 0x306B, 0x306F, 0x30AF, 0x30A8, 0x30EA, 0x30ED, 0x30B0, 0x3092, 0x6709, 0x52B9, 0x306B, 0x3057, 0x3066, 0x304F, 0x3060, 0x3055, 0x3044, 0x3002]),
     (''app.nav.policies'', uni [0x30AF, 0x30E9, 0x30A4, 0x30A2, 0x30F3, 0x30C8, 0x30DD, 0x30EA, 0x30B7, 0x30FC]),
     (''app.title.policies'', uni [0x30AF, 0x30E9, 0x30A4, 0x30A2, 0x30F3, 0x30C8, 0x5225, 0x30D5, 0x30A3, 0x30EB, 0x30BF, 0x30EA, 0x30F3, 0x30B0, 0x30DD, 0x30EA, 0x30B7, 0x30FC]),
     (''app.subtitle.policies'', uni [0x30AF, 0x30E9, 0x30A4, 0x30A2, 0x30F3, 0x30C8, 0x3054, 0x3068, 0x306E, 0x30D6, 0x30ED, 0x30C3, 0x30AF, 0x65B9, 0x6CD5, 0x3092, 0x9078, 0x629E, 0x3057, 0x307E, 0x3059, 0x3002]),
     (''policies.load_failed'', uni [0x30DD, 0x30EA, 0x30B7, 0x30FC, 0x3092, 0x8AAD, 0x307F, 0x8FBC, 0x3081, 0x307E, 0x305B, 0x3093, 0x3067, 0x3057, 0x305F, 0x3002]),
     (''policies.save_failed'', uni [0x30DD, 0x30EA, 0x30B7, 0x30FC, 0x3092, 0x4FDD, 0x5B58, 0x3067, 0x304D, 0x307E, 0x305B, 0x3093, 0x3067, 0x3057, 0x305F, 0x3002]),
     (''policies.saved'', uni [0x30DD, 0x30EA, 0x30B7, 0x30FC, 0x3092, 0x4FDD, 0x5B58, 0x3057, 0x307E, 0x3057, 0x305F, 0x3002]),
     (''policies.lookup'', uni [0x30A2, 0x30C9, 0x30EC, 0x30B9, 0x3092, 0x78BA, 0x8A8D]),
     (''policies.add'', uni [0x30DD, 0x30EA, 0x30B7, 0x30FC, 0x3092, 0x8FFD, 0x52A0]),
     (''policies.add_title'', uni [0x65B0, 0x3057, 0x3044, 0x30DD, 0x30EA, 0x30B7, 0x30FC]),
     (''policies.edit_title'', uni [0x30DD, 0x30EA, 0x30B7, 0x30FC, 0x3092, 0x7DE8, 0x96C6]),
     (''policies.form_hint'', uni [0x30A2, 0x30C9, 0x30EC, 0x30B9, 0x306B, 0x9069, 0x7528, 0x3055, 0x308C, 0x308B, 0x30DD, 0x30EA, 0x30B7, 0x30FC, 0x306F, 0x3001, 0x6700, 0x3082, 0x5177, 0x4F53, 0x7684, 0x306A, 0x30AF, 0x30E9, 0x30A4, 0x30A2, 0x30F3, 0x30C8, 0x30CD, 0x30C3, 0x30C8, 0x30EF, 0x30FC, 0x30AF, 0x3067, 0x6C7A, 0x307E, 0x308A, 0x307E, 0x3059, 0x3002]),
     (''policies.client'', uni [0x30AF, 0x30E9, 0x30A4, 0x30A2, 0x30F3, 0x30C8]),
     (''policies.mode'', uni [0x30D5, 0x30A3, 0x30EB, 0x30BF, 0x30EA, 0x30F3, 0x30B0]),
     (''policies.mode_default'', uni [0x30B0, 0x30ED, 0x30FC, 0x30D0, 0x30EB]),
     (''policies.mode_disabled'', uni [0x30D5, 0x30A3, 0x30EB, 0x30BF, 0x30EA, 0x30F3, 0x30B0, 0x306A, 0x3057]),
     (''policies.mode_custom'', uni [0x30AB, 0x30B9, 0x30BF, 0x30E0]),
     (''policies.mode_default_hint'', uni [0x4ED6, 0x306E, 0x30AF, 0x30E9, 0x30A4, 0x30A2, 0x30F3, 0x30C8, 0x3068, 0x540C, 0x3058, 0x30D6, 0x30ED, 0x30C3, 0x30AF, 0x30EA, 0x30B9, 0x30C8, 0x3068, 0x8A31, 0x53EF, 0x30EA, 0x30B9, 0x30C8, 0x3092, 0x4F7F, 0x3044, 0x307E, 0x3059, 0x3002]),
     (''policies.mode_disabled_hint'', uni [0x3053, 0x306E, 0x30AF, 0x30E9, 0x30A4, 0x30A2, 0x30F3, 0x30C8, 0x3067, 0x306F, 0x4F55, 0x3082, 0x30D6, 0x30ED, 0x30C3, 0x30AF, 0x3057, 0x307E, 0x305B, 0x3093, 0x3002]),
     (''policies.mode_custom_hint'', uni [0x9078, 0x629E, 0x3057, 0x305F, 0x30D6, 0x30ED, 0x30C3, 0x30AF, 0x30EA, 0x30B9, 0x30C8, 0x3068, 0x72EC, 0x81EA, 0x306E, 0x30C9, 0x30E1, 0x30A4, 0x30F3, 0x306E, 0x307F, 0x3002]),
     (''policies.blocklists'', uni [0x30D6, 0x30ED, 0x30C3, 0x30AF, 0x30EA, 0x30B9, 0x30C8]),
     (''policies.no_sources'', uni [0x30D6, 0x30ED, 0x30C3, 0x30AF, 0x30EA, 0x30B9, 0x30C8, 0x306F, 0x307E, 0x3060, 0x3042, 0x308A, 0x307E, 0x305B, 0x3093, 0x3002]),
     (''policies.globally_off'', uni [0x5168, 0x4F53, 0x3067, 0x306F, 0x7121, 0x52B9]),
     (''policies.block'', uni [0x8FFD, 0x52A0, 0x3067, 0x30D6, 0x30ED, 0x30C3, 0x30AF]),
     (''policies.allow'', uni [0x5E38, 0x306B, 0x8A31, 0x53EF]),
     (''policies.domains_hint'', ''1 '' @ uni [0x884C, 0x306B, 0x20] @ ''1 '' @ uni [0x30C9, 0x30E1, 0x30A4, 0x30F3, 0x3002, 0x30B5, 0x30D6, 0x30C9, 0x30E1, 0x30A4, 0x30F3, 0x3082, 0x542B, 0x307F, 0x307E, 0x3059, 0x3002]),
     (''policies.allow_hint'', uni [0x3053, 0x306E, 0x30AF, 0x30E9, 0x30A4, 0x30A2, 0x30F3, 0x30C8, 0x3067, 0x306F, 0x3059, 0x3079, 0x3066, 0x306E, 0x30D6, 0x30ED, 0x30C3, 0x30AF, 0x30EA, 0x30B9, 0x30C8, 0x3088, 0x308A, 0x512A, 0x5148, 0x3055, 0x308C, 0x307E, 0x3059, 0x3002]),
     (''policies.enabled'', uni [0x30DD, 0x30EA, 0x30B7, 0x30FC, 0x3092, 0x6709, 0x52B9, 0x306B, 0x3059, 0x308B]),
     (''policies.save'', uni [0x30DD, 0x30EA, 0x30B7, 0x30FC, 0x3092, 0x4FDD, 0x5B58]),
     (''policies.empty_title'', uni [0x30AF, 0x30E9, 0x30A4, 0x30A2, 0x30F3, 0x30C8, 0x30DD, 0x30EA, 0x30B7, 0x30FC, 0x306F, 0x3042, 0x308A, 0x307E, 0x305B, 0x3093]),
     (''policies.empty_text'', uni [0x3059, 0x3079, 0x3066, 0x306E, 0x30AF, 0x30E9, 0x30A4, 0x30A2, 0x30F3, 0x30C8, 0x304C, 0x30B0, 0x30ED, 0x30FC, 0x30D0, 0x30EB, 0x306E, 0x30D6, 0x30ED, 0x30C3, 0x30AF, 0x30EA, 0x30B9, 0x30C8, 0x3092, 0x4F7F, 0x7528, 0x3057, 0x3066, 0x3044, 0x307E, 0x3059, 0x3002, 0x30DD, 0x30EA, 0x30B7, 0x30FC, 0x3092, 0x8FFD, 0x52A0, 0x3059, 0x308B, 0x3068, 0x3001, 0x30C7, 0x30D0, 0x30A4, 0x30B9, 0x3054, 0x3068, 0x306B, 0x3088, 0x308A, 0x53B3, 0x3057, 0x304F, 0x3001, 0x3088, 0x308A, 0x7DE9, 0x304F, 0x3001, 0x307E, 0x305F, 0x306F, 0x30D5, 0x30A3, 0x30EB, 0x30BF, 0x30EA, 0x30F3, 0x30B0, 0x306A, 0x3057, 0x306B, 0x3067, 0x304D, 0x307E, 0x3059, 0x3002]),
     (''policies.need_clients'', uni [0x30DD, 0x30EA, 0x30B7, 0x30FC, 0x306F, 0x540D, 0x524D, 0x4ED8, 0x304D, 0x30AF, 0x30E9, 0x30A4, 0x30A2, 0x30F3, 0x30C8, 0x306B, 0x9069, 0x7528, 0x3055, 0x308C, 0x307E, 0x3059, 0x3002, 0x307E, 0x305A, 0x30C7, 0x30D0, 0x30A4, 0x30B9, 0x306B, 0x540D, 0x524D, 0x3092, 0x4ED8, 0x3051, 0x3066, 0x304F, 0x3060, 0x3055, 0x3044, 0x3A]),
     (''policies.details'', uni [0x8A73, 0x7D30]),
     (''policies.summary_disabled'', uni [0x3059, 0x3079, 0x3066, 0x306E, 0x30AF, 0x30A8, 0x30EA, 0x3092, 0x30D5, 0x30A3, 0x30EB, 0x30BF, 0x30EA, 0x30F3, 0x30B0, 0x305B, 0x305A, 0x306B, 0x5FDC, 0x7B54, 0x3057, 0x307E, 0x3059]),
     (''policies.summary_default'', uni [0x30B0, 0x30ED, 0x30FC, 0x30D0, 0x30EB, 0x306E, 0x30D6, 0x30ED, 0x30C3, 0x30AF, 0x30EA, 0x30B9, 0x30C8, 0x3092, 0x4F7F, 0x7528]),
     (''policies.no_lists'', uni [0x30D6, 0x30ED, 0x30C3, 0x30AF, 0x30EA, 0x30B9, 0x30C8, 0x306A, 0x3057]),
     (''policies.blocked_short'', uni [0x4EF6, 0x30D6, 0x30ED, 0x30C3, 0x30AF])]\<close>

definition dict_ja_7 :: text_table where
  \<open>dict_ja_7 = [
     (''policies.allowed_short'', uni [0x4EF6, 0x8A31, 0x53EF]),
     (''policies.paused'', uni [0x4E00, 0x6642, 0x505C, 0x6B62]),
     (''policies.toggle'', uni [0x30DD, 0x30EA, 0x30B7, 0x30FC, 0x6709, 0x52B9]),
     (''policies.edit'', uni [0x30DD, 0x30EA, 0x30B7, 0x30FC, 0x3092, 0x7DE8, 0x96C6]),
     (''policies.delete'', uni [0x30DD, 0x30EA, 0x30B7, 0x30FC, 0x3092, 0x524A, 0x9664]),
     (''policies.delete_confirm'', uni [0x6B21, 0x306E, 0x30DD, 0x30EA, 0x30B7, 0x30FC, 0x3092, 0x524A, 0x9664, 0x3057, 0x307E, 0x3059, 0x304B, 0x3A]),
     (''policies.no_policy'', ''('' @ uni [0x30DD, 0x30EA, 0x30B7, 0x30FC, 0x306A, 0x3057, 0x3001, 0x30B0, 0x30ED, 0x30FC, 0x30D0, 0x30EB, 0x30D5, 0x30A3, 0x30EB, 0x30BF, 0x30EA, 0x30F3, 0x30B0, 0x29]),
     (''policies.unknown_address'', uni [0x306F, 0x3069, 0x306E, 0x30AF, 0x30E9, 0x30A4, 0x30A2, 0x30F3, 0x30C8, 0x306B, 0x3082, 0x4E00, 0x81F4, 0x305B, 0x305A, 0x3001, 0x30B0, 0x30ED, 0x30FC, 0x30D0, 0x30EB, 0x30D5, 0x30A3, 0x30EB, 0x30BF, 0x30EA, 0x30F3, 0x30B0, 0x3092, 0x4F7F, 0x7528, 0x3057, 0x307E, 0x3059, 0x3002]),
     (''app.nav.webhooks'', ''Webhook''),
     (''app.title.webhooks'', ''Webhook '' @ uni [0x901A, 0x77E5]),
     (''app.subtitle.webhooks'', uni [0x91CD, 0x8981, 0x306A, 0x30A4, 0x30D9, 0x30F3, 0x30C8, 0x3092, 0x4ED6, 0x306E, 0x30B7, 0x30B9, 0x30C6, 0x30E0, 0x3078, 0x9001, 0x4FE1, 0x3057, 0x307E, 0x3059, 0x3002]),
     (''webhooks.load_failed'', ''Webhook '' @ uni [0x3092, 0x8AAD, 0x307F, 0x8FBC, 0x3081, 0x307E, 0x305B, 0x3093, 0x3067, 0x3057, 0x305F, 0x3002]),
     (''webhooks.save_failed'', ''Webhook '' @ uni [0x3092, 0x4FDD, 0x5B58, 0x3067, 0x304D, 0x307E, 0x305B, 0x3093, 0x3067, 0x3057, 0x305F, 0x3002]),
     (''webhooks.saved'', ''Webhook '' @ uni [0x3092, 0x4FDD, 0x5B58, 0x3057, 0x307E, 0x3057, 0x305F, 0x3002]),
     (''webhooks.count'', uni [0x4EF6, 0x306E] @ '' Webhook''),
     (''webhooks.add'', ''Webhook '' @ uni [0x3092, 0x8FFD, 0x52A0]),
     (''webhooks.add_title'', uni [0x65B0, 0x3057, 0x3044] @ '' Webhook''),
     (''webhooks.edit_title'', ''Webhook '' @ uni [0x3092, 0x7DE8, 0x96C6]),
     (''webhooks.form_hint'', uni [0x4E00, 0x81F4, 0x3059, 0x308B, 0x30A4, 0x30D9, 0x30F3, 0x30C8, 0x3054, 0x3068, 0x306B, 0x20] @ ''JSON '' @ uni [0x306E, 0x20] @ ''POST '' @ uni [0x30EA, 0x30AF, 0x30A8, 0x30B9, 0x30C8, 0x3092, 0x9001, 0x4FE1, 0x3057, 0x307E, 0x3059, 0x3002, 0x914D, 0x4FE1, 0x306F, 0x30D0, 0x30C3, 0x30AF, 0x30B0, 0x30E9, 0x30A6, 0x30F3, 0x30C9, 0x3067, 0x884C, 0x308F, 0x308C, 0x3001] @ ''DNS '' @ uni [0x5FDC, 0x7B54, 0x3092, 0x9045, 0x3089, 0x305B, 0x307E, 0x305B, 0x3093, 0x3002]),
     (''webhooks.name'', uni [0x540D, 0x524D]),
     (''webhooks.url'', ''URL''),
     (''webhooks.min_severity'', uni [0x6700, 0x5C0F, 0x91CD, 0x5927, 0x5EA6]),
     (''webhooks.severity_info'', uni [0x60C5, 0x5831]),
     (''webhooks.severity_warning'', uni [0x8B66, 0x544A]),
     (''webhooks.severity_critical'', uni [0x91CD, 0x5927]),
     (''webhooks.token'', ''Bearer '' @ uni [0x30C8, 0x30FC, 0x30AF, 0x30F3]),
     (''webhooks.token_hint'', uni [0x4EFB, 0x610F, 0x3002] @ ''Authorization '' @ uni [0x30D8, 0x30C3, 0x30C0, 0x30FC, 0x3067, 0x9001, 0x4FE1, 0x3055, 0x308C, 0x3001, 0x518D, 0x8868, 0x793A, 0x3055, 0x308C, 0x307E, 0x305B, 0x3093, 0x3002]),
     (''webhooks.token_stored'', uni [0x30C8, 0x30FC, 0x30AF, 0x30F3, 0x4FDD, 0x5B58, 0x6E08, 0x307F]),
     (''webhooks.token_change'', uni [0x5909, 0x66F4]),
     (''webhooks.token_remove_hint'', uni [0x7A7A, 0x306B, 0x3059, 0x308B, 0x3068, 0x30C8, 0x30FC, 0x30AF, 0x30F3, 0x3092, 0x524A, 0x9664, 0x3057, 0x307E, 0x3059]),
     (''webhooks.events'', uni [0x30A4, 0x30D9, 0x30F3, 0x30C8]),
     (''webhooks.events_hint'', uni [0x4F55, 0x3082, 0x9078, 0x629E, 0x3057, 0x306A, 0x3044, 0x3068, 0x3059, 0x3079, 0x3066, 0x306E, 0x7A2E, 0x985E, 0x3092, 0x53D7, 0x4FE1, 0x3057, 0x307E, 0x3059, 0x3002]),
     (''webhooks.all_events'', uni [0x3059, 0x3079, 0x3066, 0x306E, 0x30A4, 0x30D9, 0x30F3, 0x30C8]),
     (''webhooks.allow_private'', uni [0x30D7, 0x30E9, 0x30A4, 0x30D9, 0x30FC, 0x30C8, 0x30CD, 0x30C3, 0x30C8, 0x30EF, 0x30FC, 0x30AF, 0x5B9B, 0x3066, 0x3092, 0x8A31, 0x53EF] @ '' (LAN '' @ uni [0x4E0A, 0x306E] @ '' Home Assistant '' @ uni [0x306A, 0x3069] @ '')''),
     (''webhooks.enabled'', ''Webhook '' @ uni [0x3092, 0x6709, 0x52B9, 0x306B, 0x3059, 0x308B]),
     (''webhooks.save'', ''Webhook '' @ uni [0x3092, 0x4FDD, 0x5B58]),
     (''webhooks.empty_title'', ''Webhook '' @ uni [0x306F, 0x3042, 0x308A, 0x307E, 0x305B, 0x3093]),
     (''webhooks.empty_text'', ''Webhook '' @ uni [0x3092, 0x8FFD, 0x52A0, 0x3059, 0x308B, 0x3068, 0x3001, 0x30A2, 0x30C3, 0x30D7, 0x30B9, 0x30C8, 0x30EA, 0x30FC, 0x30E0, 0x306E, 0x969C, 0x5BB3, 0x3001, 0x30D6, 0x30ED, 0x30C3, 0x30AF, 0x30EA, 0x30B9, 0x30C8, 0x66F4, 0x65B0, 0x3084, 0x30D0, 0x30C3, 0x30AF, 0x30A2, 0x30C3, 0x30D7, 0x306E, 0x5931, 0x6557, 0x3092, 0x901A, 0x77E5, 0x3067, 0x304D, 0x307E, 0x3059, 0x3002]),
     (''webhooks.last_delivery'', uni [0x6700, 0x7D42, 0x914D, 0x4FE1]),
     (''webhooks.never'', uni [0x672A, 0x9001, 0x4FE1]),
     (''webhooks.failing'', uni [0x5931, 0x6557, 0x4E2D]),
     (''webhooks.toggle'', ''Webhook '' @ uni [0x6709, 0x52B9]),
     (''webhooks.test'', uni [0x30C6, 0x30B9, 0x30C8, 0x9001, 0x4FE1]),
     (''webhooks.test_ok'', uni [0x30C6, 0x30B9, 0x30C8, 0x3092, 0x914D, 0x4FE1, 0x3057, 0x307E, 0x3057, 0x305F, 0x3A]),
     (''webhooks.test_failed'', uni [0x30C6, 0x30B9, 0x30C8, 0x5931, 0x6557, 0x3A]),
     (''webhooks.edit'', ''Webhook '' @ uni [0x3092, 0x7DE8, 0x96C6]),
     (''webhooks.delete'', ''Webhook '' @ uni [0x3092, 0x524A, 0x9664]),
     (''webhooks.delete_confirm'', uni [0x6B21, 0x306E] @ '' Webhook '' @ uni [0x3092, 0x524A, 0x9664, 0x3057, 0x307E, 0x3059, 0x304B] @ '':''),
     (''app.nav.analytics'', uni [0x5206, 0x6790]),
     (''app.title.analytics'', uni [0x5206, 0x6790]),
     (''app.subtitle.analytics'', uni [0x4FDD, 0x6301, 0x3055, 0x308C, 0x305F, 0x30AF, 0x30A8, 0x30EA, 0x5C65, 0x6B74, 0x304B, 0x3089, 0x898B, 0x308B, 0x20] @ ''DNS '' @ uni [0x30A2, 0x30AF, 0x30C6, 0x30A3, 0x30D3, 0x30C6, 0x30A3, 0x3068, 0x30EA, 0x30BE, 0x30EB, 0x30D0, 0x30FC, 0x6027, 0x80FD, 0x3002]),
     (''analytics.load_failed'', uni [0x5206, 0x6790, 0x3092, 0x8AAD, 0x307F, 0x8FBC, 0x3081, 0x307E, 0x305B, 0x3093, 0x3067, 0x3057, 0x305F, 0x3002]),
     (''analytics.logging_off_title'', uni [0x30AF, 0x30A8, 0x30EA, 0x30ED, 0x30B0, 0x306F, 0x7121, 0x52B9, 0x3067, 0x3059]),
     (''analytics.logging_off_text'', uni [0x5206, 0x6790, 0x306F, 0x4FDD, 0x6301, 0x3055, 0x308C, 0x305F, 0x30AF, 0x30A8, 0x30EA, 0x5C65, 0x6B74, 0x304B, 0x3089, 0x4F5C, 0x6210, 0x3055, 0x308C, 0x307E, 0x3059, 0x3002, 0x30AF, 0x30A8, 0x30EA, 0x30ED, 0x30B0, 0x3092, 0x6709, 0x52B9, 0x306B, 0x3057, 0x3066, 0x304F, 0x3060, 0x3055, 0x3044, 0x3A]),
     (''analytics.range'', uni [0x671F, 0x9593]),
     (''analytics.range_1h'', ''1 '' @ uni [0x6642, 0x9593]),
     (''analytics.range_24h'', ''24 '' @ uni [0x6642, 0x9593]),
     (''analytics.range_7d'', ''7 '' @ uni [0x65E5]),
     (''analytics.range_30d'', ''30 '' @ uni [0x65E5]),
     (''analytics.history_limited'', uni [0x30AF, 0x30A8, 0x30EA, 0x5C65, 0x6B74, 0x306F, 0x3053, 0x306E, 0x6642, 0x70B9, 0x307E, 0x3067, 0x3057, 0x304B, 0x3042, 0x308A, 0x307E, 0x305B, 0x3093, 0x3A]),
     (''analytics.queries'', uni [0x30AF, 0x30A8, 0x30EA]),
     (''analytics.blocked'', uni [0x30D6, 0x30ED, 0x30C3, 0x30AF]),
     (''analytics.allowed'', uni [0x8A31, 0x53EF]),
     (''analytics.cached'', uni [0x30AD, 0x30E3, 0x30C3, 0x30B7, 0x30E5, 0x5FDC, 0x7B54]),
     (''analytics.answers'', uni [0x4EF6, 0x306E, 0x5FDC, 0x7B54]),
     (''analytics.avg_upstream'', uni [0x5E73, 0x5747, 0x30A2, 0x30C3, 0x30D7, 0x30B9, 0x30C8, 0x30EA, 0x30FC, 0x30E0, 0x6642, 0x9593]),
     (''analytics.empty_title'', uni [0x3053, 0x306E, 0x671F, 0x9593, 0x306E, 0x30AF, 0x30A8, 0x30EA, 0x306F, 0x3042, 0x308A, 0x307E, 0x305B, 0x3093]),
     (''analytics.empty_text'', uni [0x3088, 0x308A, 0x9577, 0x3044, 0x671F, 0x9593, 0x3092, 0x9078, 0x3076, 0x304B, 0x3001, 0x5F8C, 0x3067, 0x3082, 0x3046, 0x4E00, 0x5EA6, 0x78BA, 0x8A8D, 0x3057, 0x3066, 0x304F, 0x3060, 0x3055, 0x3044, 0x3002]),
     (''analytics.over_time'', uni [0x30AF, 0x30A8, 0x30EA, 0x306E, 0x63A8, 0x79FB]),
     (''analytics.over_time_hint'', uni [0x30DE, 0x30A6, 0x30B9, 0x307E, 0x305F, 0x306F, 0x77E2, 0x5370, 0x30AD, 0x30FC, 0x3067, 0x533A, 0x9593, 0x3092, 0x78BA, 0x8A8D, 0x3067, 0x304D, 0x307E, 0x3059, 0x3002]),
     (''analytics.chart_aria'', uni [0x6642, 0x9593, 0x533A, 0x9593, 0x3054, 0x3068, 0x306E, 0x30AF, 0x30A8, 0x30EA, 0x20, 0x28, 0x8A31, 0x53EF, 0x3068, 0x30D6, 0x30ED, 0x30C3, 0x30AF, 0x29]),
     (''analytics.show_table'', uni [0x8868, 0x3067, 0x8868, 0x793A]),
     (''analytics.time'', uni [0x6642, 0x523B]),
     (''analytics.avg_time'', uni [0x5E73, 0x5747, 0x6642, 0x9593]),
     (''analytics.latency'', uni [0x30A2, 0x30C3, 0x30D7, 0x30B9, 0x30C8, 0x30EA, 0x30FC, 0x30E0, 0x5FDC, 0x7B54, 0x6642, 0x9593]),
     (''analytics.latency_hint'', uni [0x8EE2, 0x9001, 0x3055, 0x308C, 0x5FDC, 0x7B54, 0x3055, 0x308C, 0x305F, 0x30AF, 0x30A8, 0x30EA, 0x306E, 0x5E73, 0x5747, 0x3002, 0x9014, 0x5207, 0x308C, 0x306F, 0x30A2, 0x30C3, 0x30D7, 0x30B9, 0x30C8, 0x30EA, 0x30FC, 0x30E0, 0x901A, 0x4FE1, 0x306A, 0x3057, 0x3002]),
     (''analytics.latency_aria'', uni [0x6642, 0x9593, 0x533A, 0x9593, 0x3054, 0x3068, 0x306E, 0x5E73, 0x5747, 0x30A2, 0x30C3, 0x30D7, 0x30B9, 0x30C8, 0x30EA, 0x30FC, 0x30E0, 0x5FDC, 0x7B54, 0x6642, 0x9593]),
     (''analytics.query_types'', uni [0x30AF, 0x30A8, 0x30EA, 0x30BF, 0x30A4, 0x30D7]),
     (''analytics.sources'', uni [0x5FDC, 0x7B54, 0x5143]),
     (''analytics.source_upstream'', uni [0x30A2, 0x30C3, 0x30D7, 0x30B9, 0x30C8, 0x30EA, 0x30FC, 0x30E0]),
     (''analytics.source_cache'', uni [0x30AD, 0x30E3, 0x30C3, 0x30B7, 0x30E5]),
     (''analytics.source_blocked'', uni [0x30D6, 0x30ED, 0x30C3, 0x30AF]),
     (''analytics.source_local'', uni [0x30ED, 0x30FC, 0x30AB, 0x30EB, 0x30BE, 0x30FC, 0x30F3, 0x3068, 0x66F8, 0x304D, 0x63DB, 0x3048]),
     (''analytics.source_refused'', uni [0x62D2, 0x5426]),
     (''analytics.response_codes'', uni [0x5FDC, 0x7B54, 0x30B3, 0x30FC, 0x30C9]),
     (''analytics.top_blocked'', uni [0x30D6, 0x30ED, 0x30C3, 0x30AF, 0x4E0A, 0x4F4D, 0x30C9, 0x30E1, 0x30A4, 0x30F3]),
     (''analytics.nothing_blocked'', uni [0x3053, 0x306E, 0x671F, 0x9593, 0x306E, 0x30D6, 0x30ED, 0x30C3, 0x30AF, 0x306F, 0x3042, 0x308A, 0x307E, 0x305B, 0x3093]),
     (''analytics.upstreams'', uni [0x30A2, 0x30C3, 0x30D7, 0x30B9, 0x30C8, 0x30EA, 0x30FC, 0x30E0, 0x5229, 0x7528, 0x72B6, 0x6CC1]),
     (''analytics.upstreams_hint'', uni [0x30EA, 0x30BE, 0x30EB, 0x30D0, 0x30FC, 0x3054, 0x3068, 0x306E, 0x8EE2, 0x9001, 0x30AF, 0x30A8, 0x30EA, 0x3001] @ ''SERVFAIL '' @ uni [0x5FDC, 0x7B54, 0x3001, 0x5E73, 0x5747, 0x5FDC, 0x7B54, 0x6642, 0x9593, 0x3002]),
     (''analytics.no_upstream'', uni [0x3053, 0x306E, 0x671F, 0x9593, 0x306E, 0x30A2, 0x30C3, 0x30D7, 0x30B9, 0x30C8, 0x30EA, 0x30FC, 0x30E0, 0x901A, 0x4FE1, 0x306F, 0x3042, 0x308A, 0x307E, 0x305B, 0x3093]),
     (''analytics.failures'', uni [0x5931, 0x6557]),
     (''updates.check_prompt'', uni [0x65B0, 0x3057, 0x3044, 0x30D0, 0x30FC, 0x30B8, 0x30E7, 0x30F3, 0x304C, 0x3042, 0x308B, 0x304B, 0x78BA, 0x8A8D, 0x3057, 0x307E, 0x3059, 0x3002]),
     (''updates.checking'', uni [0x66F4, 0x65B0, 0x3092, 0x78BA, 0x8A8D, 0x3057, 0x3066, 0x3044, 0x307E, 0x3059, 0x2026]),
     (''updates.starting'', uni [0x66F4, 0x65B0, 0x3092, 0x958B, 0x59CB, 0x3057, 0x3066, 0x3044, 0x307E, 0x3059, 0x2026]),
     (''updates.updating_to'', uni [0x66F4, 0x65B0, 0x5148, 0x3A]),
     (''updates.completed_to'', uni [0x66F4, 0x65B0, 0x5B8C, 0x4E86, 0x3A]),
     (''updates.failed_title'', uni [0x66F4, 0x65B0, 0x304C, 0x5B8C, 0x4E86, 0x3057, 0x307E, 0x305B, 0x3093, 0x3067, 0x3057, 0x305F]),
     (''updates.failed_text'', uni [0x66F4, 0x65B0, 0x306B, 0x5931, 0x6557, 0x3057, 0x307E, 0x3057, 0x305F, 0x3002, 0x4EE5, 0x524D, 0x306E, 0x30D0, 0x30FC, 0x30B8, 0x30E7, 0x30F3, 0x3067, 0x52D5, 0x4F5C, 0x3092, 0x7D9A, 0x3051, 0x307E, 0x3059, 0x3002]),
     (''updates.not_started'', uni [0x66F4, 0x65B0, 0x304C, 0x958B, 0x59CB, 0x3055, 0x308C, 0x307E, 0x305B, 0x3093, 0x3067, 0x3057, 0x305F, 0x3002] @ ''velora-updater.service '' @ uni [0x304C, 0x52D5, 0x4F5C, 0x3057, 0x3066, 0x3044, 0x308B, 0x304B, 0x78BA, 0x8A8D, 0x3057, 0x3066, 0x304F, 0x3060, 0x3055, 0x3044, 0x3002]),
     (''updates.check_again'', uni [0x518D, 0x78BA, 0x8A8D]),
     (''updates.update_now'', uni [0x66F4, 0x65B0]),
     (''updates.reload'', uni [0x30DA, 0x30FC, 0x30B8, 0x3092, 0x518D, 0x8AAD, 0x307F, 0x8FBC, 0x307F]),
     (''updates.reconnecting'', ''Velora '' @ uni [0x3092, 0x518D, 0x8D77, 0x52D5, 0x3057, 0x3066, 0x3044, 0x307E, 0x3059, 0x3002, 0x5FA9, 0x5E30, 0x3092, 0x5F85, 0x3063, 0x3066, 0x3044, 0x307E, 0x3059, 0x2026]),
     (''updates.keep_open'', uni [0x3053, 0x306E, 0x30DA, 0x30FC, 0x30B8, 0x306F, 0x958B, 0x3044, 0x305F, 0x307E, 0x307E, 0x3067, 0x69CB, 0x3044, 0x307E, 0x305B, 0x3093, 0x3002, 0x81EA, 0x52D5, 0x3067, 0x66F4, 0x65B0, 0x3055, 0x308C, 0x307E, 0x3059, 0x3002, 0x5207, 0x308A, 0x66FF, 0x3048, 0x307E, 0x3067, 0x20] @ ''DNS '' @ uni [0x306F, 0x73FE, 0x5728, 0x306E, 0x30D0, 0x30FC, 0x30B8, 0x30E7, 0x30F3, 0x3067, 0x5FDC, 0x7B54, 0x3057, 0x307E, 0x3059, 0x3002]),
     (''updates.completed_text'', uni [0x66F4, 0x65B0, 0x304C, 0x5B8C, 0x4E86, 0x3057, 0x3001, 0x30D8, 0x30EB, 0x30B9, 0x30C1, 0x30A7, 0x30C3, 0x30AF, 0x306B, 0x5408, 0x683C, 0x3057, 0x307E, 0x3057, 0x305F, 0x3002, 0x65B0, 0x3057, 0x3044, 0x753B, 0x9762, 0x3092, 0x8AAD, 0x307F, 0x8FBC, 0x3080, 0x306B, 0x306F, 0x30DA, 0x30FC, 0x30B8, 0x3092, 0x518D, 0x8AAD, 0x307F, 0x8FBC, 0x307F, 0x3057, 0x3066, 0x304F, 0x3060, 0x3055, 0x3044, 0x3002]),
     (''updates.release_date'', uni [0x30EA, 0x30EA, 0x30FC, 0x30B9, 0x65E5]),
     (''settings.entry'', uni [0x9805, 0x76EE]),
     (''settings.fix_fields'', uni [0x4F55, 0x3082, 0x5909, 0x66F4, 0x3055, 0x308C, 0x3066, 0x3044, 0x307E, 0x305B, 0x3093, 0x3002, 0x5F37, 0x8ABF, 0x8868, 0x793A, 0x3055, 0x308C, 0x305F, 0x9805, 0x76EE, 0x3092, 0x4FEE, 0x6B63, 0x3057, 0x3066, 0x518D, 0x8A66, 0x884C, 0x3057, 0x3066, 0x304F, 0x3060, 0x3055, 0x3044, 0x3002]),
     (''settings.restart_required'', uni [0x4F55, 0x3082, 0x5909, 0x66F4, 0x3055, 0x308C, 0x3066, 0x3044, 0x307E, 0x305B, 0x3093, 0x3002, 0x5F37, 0x8ABF, 0x8868, 0x793A, 0x3055, 0x308C, 0x305F, 0x9805, 0x76EE, 0x306F, 0x518D, 0x8D77, 0x52D5, 0x5F8C, 0x306B, 0x53CD, 0x6620, 0x3055, 0x308C, 0x307E, 0x3059, 0x3002, 0x8A2D, 0x5B9A, 0x30D5, 0x30A1, 0x30A4, 0x30EB, 0x3092, 0x7DE8, 0x96C6, 0x3057, 0x3066, 0x20] @ ''Velora DNS '' @ uni [0x3092, 0x518D, 0x8D77, 0x52D5, 0x3057, 0x3066, 0x304F, 0x3060, 0x3055, 0x3044, 0x3002]),
     (''settings.restart_field'', uni [0x518D, 0x8D77, 0x52D5, 0x304C, 0x5FC5, 0x8981]),
     (''settings.check'', uni [0x78BA, 0x8A8D]),
     (''settings.check_ok'', uni [0x3053, 0x306E, 0x8A2D, 0x5B9A, 0x306F, 0x6709, 0x52B9, 0x3067, 0x3001, 0x518D, 0x8D77, 0x52D5, 0x306A, 0x3057, 0x3067, 0x9069, 0x7528, 0x3067, 0x304D, 0x307E, 0x3059, 0x3002]),
     (''restore.title'', uni [0x30D0, 0x30C3, 0x30AF, 0x30A2, 0x30C3, 0x30D7, 0x3092, 0x5FA9, 0x5143]),
     (''restore.hint'', uni [0x6697, 0x53F7, 0x5316, 0x3055, 0x308C, 0x305F, 0x30D0, 0x30C3, 0x30AF, 0x30A2, 0x30C3, 0x30D7, 0x3092, 0x30A2, 0x30C3, 0x30D7, 0x30ED, 0x30FC, 0x30C9, 0x3057, 0x3066, 0x78BA, 0x8A8D, 0x3057, 0x307E, 0x3059, 0x3002, 0x78BA, 0x5B9A, 0x3059, 0x308B, 0x307E, 0x3067, 0x4F55, 0x3082, 0x5909, 0x308F, 0x308A, 0x307E, 0x305B, 0x3093, 0x3002, 0x78BA, 0x5B9A, 0x5F8C, 0x20] @ ''Velora '' @ uni [0x306F, 0x518D, 0x8D77, 0x52D5, 0x3057, 0x3001, 0x5B89, 0x5168, 0x7528, 0x30B3, 0x30D4, 0x30FC, 0x3092, 0x4FDD, 0x6301, 0x3057, 0x3001, 0x8D77, 0x52D5, 0x3067, 0x304D, 0x306A, 0x3051, 0x308C, 0x3070, 0x81EA, 0x52D5, 0x3067, 0x5143, 0x306B, 0x623B, 0x3057, 0x307E, 0x3059, 0x3002]),
     (''restore.file'', uni [0x30D0, 0x30C3, 0x30AF, 0x30A2, 0x30C3, 0x30D7, 0x30D5, 0x30A1, 0x30A4, 0x30EB, 0x20, 0x28, 0x2E] @ ''vdns)''),
     (''restore.inspect'', uni [0x30D0, 0x30C3, 0x30AF, 0x30A2, 0x30C3, 0x30D7, 0x3092, 0x78BA, 0x8A8D]),
     (''restore.inspecting'', uni [0x78BA, 0x8A8D, 0x4E2D, 0x2026]),
     (''restore.inspect_failed'', uni [0x30D0, 0x30C3, 0x30AF, 0x30A2, 0x30C3, 0x30D7, 0x3092, 0x78BA, 0x8A8D, 0x3067, 0x304D, 0x307E, 0x305B, 0x3093, 0x3067, 0x3057, 0x305F, 0x3002]),
     (''restore.review_title'', uni [0x30D0, 0x30C3, 0x30AF, 0x30A2, 0x30C3, 0x30D7, 0x306F, 0x6709, 0x52B9, 0x3067, 0x3059]),
     (''restore.created'', uni [0x4F5C, 0x6210, 0x65E5, 0x6642])]\<close>

definition dict_ja_8 :: text_table where
  \<open>dict_ja_8 = [
     (''restore.version'', ''Velora '' @ uni [0x30D0, 0x30FC, 0x30B8, 0x30E7, 0x30F3]),
     (''restore.schema'', uni [0x30C7, 0x30FC, 0x30BF, 0x30D9, 0x30FC, 0x30B9, 0x30B9, 0x30AD, 0x30FC, 0x30DE]),
     (''restore.contents'', uni [0x5185, 0x5BB9]),
     (''restore.zones'', uni [0x30BE, 0x30FC, 0x30F3]),
     (''restore.records'', uni [0x30EC, 0x30B3, 0x30FC, 0x30C9]),
     (''restore.blocklists'', uni [0x30D6, 0x30ED, 0x30C3, 0x30AF, 0x30EA, 0x30B9, 0x30C8]),
     (''restore.rewrites'', uni [0x66F8, 0x304D, 0x63DB, 0x3048]),
     (''restore.forward_rules'', uni [0x8EE2, 0x9001, 0x30EB, 0x30FC, 0x30EB]),
     (''restore.clients'', uni [0x30AF, 0x30E9, 0x30A4, 0x30A2, 0x30F3, 0x30C8]),
     (''restore.users'', uni [0x30E6, 0x30FC, 0x30B6, 0x30FC]),
     (''restore.listeners'', uni [0x5F85, 0x3061, 0x53D7, 0x3051]),
     (''restore.web'', ''Web''),
     (''restore.confirm'', uni [0x73FE, 0x5728, 0x306E, 0x8A2D, 0x5B9A, 0x3068, 0x30C7, 0x30FC, 0x30BF, 0x3092, 0x3053, 0x306E, 0x30D0, 0x30C3, 0x30AF, 0x30A2, 0x30C3, 0x30D7, 0x3067, 0x7F6E, 0x304D, 0x63DB, 0x3048, 0x307E, 0x3059, 0x3002, 0x73FE, 0x5728, 0x306E, 0x72B6, 0x614B, 0x306E, 0x5B89, 0x5168, 0x7528, 0x30B3, 0x30D4, 0x30FC, 0x306F, 0x4FDD, 0x6301, 0x3055, 0x308C, 0x307E, 0x3059, 0x3002]),
     (''restore.restore'', uni [0x5FA9, 0x5143, 0x3057, 0x3066, 0x518D, 0x8D77, 0x52D5]),
     (''restore.schedule_failed'', uni [0x5FA9, 0x5143, 0x3092, 0x958B, 0x59CB, 0x3067, 0x304D, 0x307E, 0x305B, 0x3093, 0x3067, 0x3057, 0x305F, 0x3002]),
     (''restore.manual_restart'', uni [0x5FA9, 0x5143, 0x3092, 0x4E88, 0x7D04, 0x3057, 0x307E, 0x3057, 0x305F, 0x3002, 0x9069, 0x7528, 0x3059, 0x308B, 0x306B, 0x306F, 0x20] @ ''Velora DNS '' @ uni [0x3092, 0x518D, 0x8D77, 0x52D5, 0x3057, 0x3066, 0x304F, 0x3060, 0x3055, 0x3044, 0x3002]),
     (''restore.restarting'', uni [0x30D0, 0x30C3, 0x30AF, 0x30A2, 0x30C3, 0x30D7, 0x3092, 0x9069, 0x7528, 0x3059, 0x308B, 0x305F, 0x3081, 0x518D, 0x8D77, 0x52D5, 0x3057, 0x3066, 0x3044, 0x307E, 0x3059, 0x3002, 0x5FA9, 0x5E30, 0x3059, 0x308B, 0x3068, 0x3053, 0x306E, 0x30DA, 0x30FC, 0x30B8, 0x304C, 0x66F4, 0x65B0, 0x3055, 0x308C, 0x307E, 0x3059, 0x3002]),
     (''restore.signed_out'', uni [0x5FA9, 0x5143, 0x3057, 0x305F, 0x30C7, 0x30FC, 0x30BF, 0x3067, 0x20] @ ''Velora '' @ uni [0x304C, 0x8D77, 0x52D5, 0x3057, 0x307E, 0x3057, 0x305F, 0x3002, 0x30D0, 0x30C3, 0x30AF, 0x30A2, 0x30C3, 0x30D7, 0x5185, 0x306E, 0x30A2, 0x30AB, 0x30A6, 0x30F3, 0x30C8, 0x3067, 0x518D, 0x5EA6, 0x30B5, 0x30A4, 0x30F3, 0x30A4, 0x30F3, 0x3057, 0x3066, 0x304F, 0x3060, 0x3055, 0x3044, 0x3002]),
     (''restore.again'', uni [0x5225, 0x306E, 0x30D0, 0x30C3, 0x30AF, 0x30A2, 0x30C3, 0x30D7, 0x3092, 0x5FA9, 0x5143]),
     (''restore.backup_from'', uni [0x30D0, 0x30C3, 0x30AF, 0x30A2, 0x30C3, 0x30D7, 0x3A]),
     (''restore.safety_copy'', uni [0x4EE5, 0x524D, 0x306E, 0x72B6, 0x614B, 0x306E, 0x4FDD, 0x5B58, 0x5148, 0x3A]),
     (''restore.state_completed'', uni [0x5FA9, 0x5143, 0x304C, 0x5B8C, 0x4E86, 0x3057, 0x307E, 0x3057, 0x305F, 0x3002]),
     (''restore.state_rolled_back'', uni [0x5FA9, 0x5143, 0x306F, 0x5143, 0x306B, 0x623B, 0x3055, 0x308C, 0x307E, 0x3057, 0x305F, 0x3002]),
     (''restore.state_failed'', uni [0x5FA9, 0x5143, 0x306B, 0x5931, 0x6557, 0x3057, 0x307E, 0x3057, 0x305F, 0x3002]),
     (''restore.state_applied'', uni [0x5FA9, 0x5143, 0x3092, 0x9069, 0x7528, 0x3057, 0x307E, 0x3057, 0x305F, 0x3002, 0x6E96, 0x5099, 0x5B8C, 0x4E86, 0x3092, 0x5F85, 0x3063, 0x3066, 0x3044, 0x307E, 0x3059, 0x3002]),
     (''restore.state_pending'', uni [0x5FA9, 0x5143, 0x3092, 0x4E88, 0x7D04, 0x3057, 0x307E, 0x3057, 0x305F, 0x3002]),
     (''restore.passphrase'', uni [0x30D0, 0x30C3, 0x30AF, 0x30A2, 0x30C3, 0x30D7, 0x306E, 0x30D1, 0x30B9, 0x30D5, 0x30EC, 0x30FC, 0x30BA]),
     (''app.scrollable_table'', uni [0x6A2A, 0x30B9, 0x30AF, 0x30ED, 0x30FC, 0x30EB, 0x53EF, 0x80FD]),
     (''palette.title'', uni [0x30B3, 0x30DE, 0x30F3, 0x30C9, 0x30D1, 0x30EC, 0x30C3, 0x30C8]),
     (''palette.placeholder'', uni [0x30DA, 0x30FC, 0x30B8, 0x3001, 0x30BE, 0x30FC, 0x30F3, 0x3001, 0x30EC, 0x30B3, 0x30FC, 0x30C9, 0x3001, 0x30AF, 0x30E9, 0x30A4, 0x30A2, 0x30F3, 0x30C8, 0x3092, 0x691C, 0x7D22, 0x2026]),
     (''palette.results'', uni [0x7D50, 0x679C]),
     (''palette.pages'', uni [0x30DA, 0x30FC, 0x30B8]),
     (''palette.actions'', uni [0x30A2, 0x30AF, 0x30B7, 0x30E7, 0x30F3]),
     (''palette.kind_zone'', uni [0x30BE, 0x30FC, 0x30F3]),
     (''palette.kind_record'', uni [0x30EC, 0x30B3, 0x30FC, 0x30C9]),
     (''palette.kind_client'', uni [0x30AF, 0x30E9, 0x30A4, 0x30A2, 0x30F3, 0x30C8]),
     (''palette.kind_rewrite'', ''DNS '' @ uni [0x66F8, 0x304D, 0x63DB, 0x3048]),
     (''palette.kind_forwarding'', uni [0x6761, 0x4EF6, 0x4ED8, 0x304D, 0x8EE2, 0x9001]),
     (''palette.kind_blocklist'', uni [0x30D6, 0x30ED, 0x30C3, 0x30AF, 0x30EA, 0x30B9, 0x30C8]),
     (''palette.no_results'', uni [0x4E00, 0x81F4, 0x3059, 0x308B, 0x9805, 0x76EE, 0x306F, 0x3042, 0x308A, 0x307E, 0x305B, 0x3093, 0x3002]),
     (''palette.navigate'', uni [0x79FB, 0x52D5]),
     (''palette.open'', uni [0x958B, 0x304F]),
     (''palette.toggle'', uni [0x958B, 0x9589]),
     (''palette.open_button'', uni [0x691C, 0x7D22]),
     (''palette.add_client'', uni [0x30AF, 0x30E9, 0x30A4, 0x30A2, 0x30F3, 0x30C8, 0x3092, 0x8FFD, 0x52A0]),
     (''palette.create_backup'', uni [0x30D0, 0x30C3, 0x30AF, 0x30A2, 0x30C3, 0x30D7, 0x3092, 0x4F5C, 0x6210]),
     (''cluster.action_failed'', uni [0x30AF, 0x30E9, 0x30B9, 0x30BF, 0x30FC, 0x64CD, 0x4F5C, 0x306B, 0x5931, 0x6557, 0x3057, 0x307E, 0x3057, 0x305F, 0x3002]),
     (''cluster.never'', uni [0x306A, 0x3057]),
     (''cluster.role'', uni [0x30ED, 0x30FC, 0x30EB]),
     (''cluster.role_standalone'', uni [0x30B9, 0x30BF, 0x30F3, 0x30C9, 0x30A2, 0x30ED, 0x30F3]),
     (''cluster.role_primary'', uni [0x30AF, 0x30E9, 0x30B9, 0x30BF, 0x30FC, 0x30D7, 0x30E9, 0x30A4, 0x30DE, 0x30EA]),
     (''cluster.role_replica'', uni [0x30AF, 0x30E9, 0x30B9, 0x30BF, 0x30FC, 0x30EC, 0x30D7, 0x30EA, 0x30AB]),
     (''cluster.replicas'', uni [0x30EC, 0x30D7, 0x30EA, 0x30AB]),
     (''cluster.in_sync_count'', uni [0x540C, 0x671F, 0x6E08, 0x307F]),
     (''cluster.revision'', uni [0x30BE, 0x30FC, 0x30F3, 0x30EA, 0x30D3, 0x30B8, 0x30E7, 0x30F3]),
     (''cluster.zones_replicated'', uni [0x4EF6, 0x306E, 0x30BE, 0x30FC, 0x30F3, 0x3092, 0x8907, 0x88FD]),
     (''cluster.last_sync'', uni [0x6700, 0x7D42, 0x540C, 0x671F]),
     (''cluster.sync_failed'', uni [0x524D, 0x56DE, 0x306E, 0x540C, 0x671F, 0x306B, 0x5931, 0x6557]),
     (''cluster.sync_ok'', uni [0x30D7, 0x30E9, 0x30A4, 0x30DE, 0x30EA, 0x3068, 0x540C, 0x671F, 0x6E08, 0x307F]),
     (''cluster.members'', uni [0x30EC, 0x30D7, 0x30EA, 0x30AB]),
     (''cluster.members_hint'', uni [0x3053, 0x306E, 0x30D7, 0x30E9, 0x30A4, 0x30DE, 0x30EA, 0x306E, 0x30BE, 0x30FC, 0x30F3, 0x3092, 0x8907, 0x88FD, 0x3059, 0x308B, 0x30CE, 0x30FC, 0x30C9, 0x3002] @ ''30 '' @ uni [0x79D2, 0x3054, 0x3068, 0x306B, 0x78BA, 0x8A8D, 0x3057, 0x307E, 0x3059, 0x3002]),
     (''cluster.add_node'', uni [0x30CE, 0x30FC, 0x30C9, 0x3092, 0x8FFD, 0x52A0]),
     (''cluster.token_title'', uni [0x53C2, 0x52A0, 0x30C8, 0x30FC, 0x30AF, 0x30F3, 0x3092, 0x4F5C, 0x6210, 0x3057, 0x307E, 0x3057, 0x305F]),
     (''cluster.token_steps'', uni [0x65B0, 0x3057, 0x3044, 0x30CE, 0x30FC, 0x30C9, 0x3067, 0x300C, 0x30AF, 0x30E9, 0x30B9, 0x30BF, 0x30FC, 0x20, 0x2192, 0x20, 0x30AF, 0x30E9, 0x30B9, 0x30BF, 0x30FC, 0x306B, 0x53C2, 0x52A0, 0x300D, 0x3092, 0x958B, 0x304D, 0x3001, 0x6B21, 0x3092, 0x5165, 0x529B, 0x3057, 0x307E, 0x3059, 0x3A]),
     (''cluster.token_expires'', uni [0x30C8, 0x30FC, 0x30AF, 0x30F3, 0x306E, 0x6709, 0x52B9, 0x671F, 0x9650, 0x3A]),
     (''cluster.token_once'', uni [0x4E00, 0x5EA6, 0x3060, 0x3051, 0x4F7F, 0x7528, 0x3067, 0x304D, 0x3001, 0x518D, 0x8868, 0x793A, 0x3055, 0x308C, 0x307E, 0x305B, 0x3093, 0x3002]),
     (''cluster.copy_token'', uni [0x30C8, 0x30FC, 0x30AF, 0x30F3, 0x3092, 0x30B3, 0x30D4, 0x30FC]),
     (''cluster.copied'', uni [0x30B3, 0x30D4, 0x30FC, 0x3057, 0x307E, 0x3057, 0x305F]),
     (''cluster.token_done'', uni [0x5B8C, 0x4E86]),
     (''cluster.no_members'', uni [0x30EC, 0x30D7, 0x30EA, 0x30AB, 0x306F, 0x307E, 0x3060, 0x3042, 0x308A, 0x307E, 0x305B, 0x3093]),
     (''cluster.no_members_text'', uni [0x30CE, 0x30FC, 0x30C9, 0x3092, 0x8FFD, 0x52A0, 0x3057, 0x3066, 0x3001] @ ''2 '' @ uni [0x53F0, 0x76EE, 0x306E, 0x20] @ ''Velora DNS '' @ uni [0x30B5, 0x30FC, 0x30D0, 0x30FC, 0x7528, 0x306E, 0x53C2, 0x52A0, 0x30C8, 0x30FC, 0x30AF, 0x30F3, 0x3092, 0x4F5C, 0x6210, 0x3057, 0x307E, 0x3059, 0x3002]),
     (''cluster.status_in_sync'', uni [0x540C, 0x671F, 0x6E08, 0x307F]),
     (''cluster.status_behind'', uni [0x8FFD, 0x5F93, 0x4E2D]),
     (''cluster.status_stale'', uni [0x5FDC, 0x7B54, 0x306A, 0x3057]),
     (''cluster.status_error'', uni [0x540C, 0x671F, 0x30A8, 0x30E9, 0x30FC]),
     (''cluster.status_never_synced'', uni [0x521D, 0x56DE, 0x540C, 0x671F, 0x5F85, 0x3061]),
     (''cluster.remove'', uni [0x30CE, 0x30FC, 0x30C9, 0x3092, 0x524A, 0x9664]),
     (''cluster.remove_confirm'', uni [0x3053, 0x306E, 0x30EC, 0x30D7, 0x30EA, 0x30AB, 0x3092, 0x524A, 0x9664, 0x3057, 0x307E, 0x3059, 0x304B, 0x3F, 0x20, 0x30BE, 0x30FC, 0x30F3, 0x66F4, 0x65B0, 0x3092, 0x53D7, 0x3051, 0x53D6, 0x3089, 0x306A, 0x304F, 0x306A, 0x308A, 0x307E, 0x3059, 0x3A]),
     (''cluster.removed'', uni [0x30EC, 0x30D7, 0x30EA, 0x30AB, 0x3092, 0x524A, 0x9664, 0x3057, 0x307E, 0x3057, 0x305F, 0x3002]),
     (''cluster.dissolve'', uni [0x30AF, 0x30E9, 0x30B9, 0x30BF, 0x30FC, 0x3092, 0x89E3, 0x6563]),
     (''cluster.dissolve_hint'', uni [0x3059, 0x3079, 0x3066, 0x306E, 0x30EC, 0x30D7, 0x30EA, 0x30AB, 0x3092, 0x7121, 0x52B9, 0x5316, 0x3057, 0x3001, 0x3053, 0x306E, 0x30CE, 0x30FC, 0x30C9, 0x3092, 0x30B9, 0x30BF, 0x30F3, 0x30C9, 0x30A2, 0x30ED, 0x30F3, 0x306B, 0x623B, 0x3057, 0x307E, 0x3059, 0x3002, 0x30EC, 0x30D7, 0x30EA, 0x30AB, 0x306F, 0x6700, 0x5F8C, 0x306E, 0x30BE, 0x30FC, 0x30F3, 0x30B3, 0x30D4, 0x30FC, 0x3092, 0x4FDD, 0x6301, 0x3057, 0x307E, 0x3059, 0x3002]),
     (''cluster.dissolve_confirm'', uni [0x30AF, 0x30E9, 0x30B9, 0x30BF, 0x30FC, 0x3092, 0x89E3, 0x6563, 0x3057, 0x3001, 0x3059, 0x3079, 0x3066, 0x306E, 0x30EC, 0x30D7, 0x30EA, 0x30AB, 0x3092, 0x7121, 0x52B9, 0x5316, 0x3057, 0x307E, 0x3059, 0x304B, 0x3F]),
     (''cluster.dissolved'', uni [0x30AF, 0x30E9, 0x30B9, 0x30BF, 0x30FC, 0x3092, 0x89E3, 0x6563, 0x3057, 0x307E, 0x3057, 0x305F, 0x3002]),
     (''cluster.replica_title'', uni [0x30D7, 0x30E9, 0x30A4, 0x30DE, 0x30EA, 0x304B, 0x3089, 0x8907, 0x88FD, 0x4E2D]),
     (''cluster.replica_hint'', uni [0x3053, 0x306E, 0x30CE, 0x30FC, 0x30C9, 0x306E, 0x30BE, 0x30FC, 0x30F3, 0x306F, 0x30D7, 0x30E9, 0x30A4, 0x30DE, 0x30EA, 0x304B, 0x3089, 0x8907, 0x88FD, 0x3055, 0x308C, 0x3001, 0x3053, 0x3053, 0x3067, 0x306F, 0x8AAD, 0x307F, 0x53D6, 0x308A, 0x5C02, 0x7528, 0x3067, 0x3059, 0x3002, 0x305D, 0x306E, 0x4ED6, 0x306E, 0x8A2D, 0x5B9A, 0x306F, 0x30ED, 0x30FC, 0x30AB, 0x30EB, 0x306E, 0x307E, 0x307E, 0x3067, 0x3059, 0x3002]),
     (''cluster.replica_ok'', uni [0x8907, 0x88FD, 0x306F, 0x6B63, 0x5E38, 0x3067, 0x3059, 0x3002]),
     (''cluster.sync_now'', uni [0x4ECA, 0x3059, 0x3050, 0x540C, 0x671F]),
     (''cluster.leave'', uni [0x30AF, 0x30E9, 0x30B9, 0x30BF, 0x30FC, 0x304B, 0x3089, 0x96E2, 0x8131]),
     (''cluster.leave_confirm'', uni [0x30AF, 0x30E9, 0x30B9, 0x30BF, 0x30FC, 0x304B, 0x3089, 0x96E2, 0x8131, 0x3057, 0x307E, 0x3059, 0x304B, 0x3F, 0x20, 0x3053, 0x306E, 0x30CE, 0x30FC, 0x30C9, 0x306F, 0x73FE, 0x5728, 0x306E, 0x30BE, 0x30FC, 0x30F3, 0x3092, 0x4FDD, 0x6301, 0x3057, 0x3001, 0x518D, 0x3073, 0x7DE8, 0x96C6, 0x53EF, 0x80FD, 0x306B, 0x306A, 0x308A, 0x307E, 0x3059, 0x3002]),
     (''cluster.left'', uni [0x3053, 0x306E, 0x30CE, 0x30FC, 0x30C9, 0x306F, 0x30AF, 0x30E9, 0x30B9, 0x30BF, 0x30FC, 0x304B, 0x3089, 0x96E2, 0x8131, 0x3057, 0x307E, 0x3057, 0x305F, 0x3002]),
     (''cluster.primary_url'', uni [0x30D7, 0x30E9, 0x30A4, 0x30DE, 0x30EA, 0x306E, 0x20] @ ''URL''),
     (''cluster.cluster_id'', uni [0x30AF, 0x30E9, 0x30B9, 0x30BF, 0x30FC, 0x20] @ ''ID''),
     (''cluster.node_id'', uni [0x30CE, 0x30FC, 0x30C9] @ '' ID''),
     (''cluster.join_token'', uni [0x53C2, 0x52A0, 0x30C8, 0x30FC, 0x30AF, 0x30F3]),
     (''cluster.standalone_title'', uni [0x3053, 0x306E, 0x30CE, 0x30FC, 0x30C9, 0x306F, 0x30B9, 0x30BF, 0x30F3, 0x30C9, 0x30A2, 0x30ED, 0x30F3, 0x3067, 0x3059]),
     (''cluster.standalone_viewer'', uni [0x7BA1, 0x7406, 0x8005, 0x306F, 0x30AF, 0x30E9, 0x30B9, 0x30BF, 0x30FC, 0x3092, 0x4F5C, 0x6210, 0x3059, 0x308B, 0x304B, 0x3001, 0x3053, 0x306E, 0x30CE, 0x30FC, 0x30C9, 0x3092, 0x30AF, 0x30E9, 0x30B9, 0x30BF, 0x30FC, 0x306B, 0x53C2, 0x52A0, 0x3055, 0x305B, 0x3089, 0x308C, 0x307E, 0x3059, 0x3002]),
     (''cluster.scope_note'', uni [0x30AF, 0x30E9, 0x30B9, 0x30BF, 0x30FC, 0x306F, 0x8907, 0x6570, 0x306E, 0x20] @ ''Velora DNS '' @ uni [0x30B5, 0x30FC, 0x30D0, 0x30FC, 0x9593, 0x3067, 0x30ED, 0x30FC, 0x30AB, 0x30EB, 0x30BE, 0x30FC, 0x30F3, 0x3092, 0x540C, 0x4E00, 0x306B, 0x4FDD, 0x3061, 0x307E, 0x3059, 0x3002, 0x30D7, 0x30E9, 0x30A4, 0x30DE, 0x30EA, 0x304C, 0x5909, 0x66F4, 0x3092, 0x53D7, 0x3051, 0x4ED8, 0x3051, 0x3001, 0x30EC, 0x30D7, 0x30EA, 0x30AB, 0x304C, 0x20] @ ''30 '' @ uni [0x79D2, 0x3054, 0x3068, 0x306B, 0x8907, 0x88FD, 0x3057, 0x307E, 0x3059, 0x3002, 0x81EA, 0x52D5, 0x30D5, 0x30A7, 0x30A4, 0x30EB, 0x30AA, 0x30FC, 0x30D0, 0x30FC, 0x306F, 0x306A, 0x304F, 0x3001, 0x305D, 0x306E, 0x4ED6, 0x306E, 0x8A2D, 0x5B9A, 0x306F, 0x30CE, 0x30FC, 0x30C9, 0x3054, 0x3068, 0x3067, 0x3059, 0x3002]),
     (''cluster.create_title'', uni [0x30AF, 0x30E9, 0x30B9, 0x30BF, 0x30FC, 0x3092, 0x4F5C, 0x6210]),
     (''cluster.create_hint'', uni [0x3053, 0x306E, 0x30CE, 0x30FC, 0x30C9, 0x304C, 0x30D7, 0x30E9, 0x30A4, 0x30DE, 0x30EA, 0x306B, 0x306A, 0x308A, 0x3001, 0x305D, 0x306E, 0x30BE, 0x30FC, 0x30F3, 0x304C, 0x3059, 0x3079, 0x3066, 0x306E, 0x30EC, 0x30D7, 0x30EA, 0x30AB, 0x306B, 0x8907, 0x88FD, 0x3055, 0x308C, 0x307E, 0x3059, 0x3002]),
     (''cluster.node_name'', uni [0x30CE, 0x30FC, 0x30C9, 0x540D]),
     (''cluster.advertised_url'', uni [0x4ED6, 0x306E, 0x30CE, 0x30FC, 0x30C9, 0x304C, 0x4F7F, 0x3046, 0x30A2, 0x30C9, 0x30EC, 0x30B9]),
     (''cluster.advertised_hint'', uni [0x30EC, 0x30D7, 0x30EA, 0x30AB, 0x304B, 0x3089, 0x898B, 0x305F, 0x3053, 0x306E, 0x30CE, 0x30FC, 0x30C9, 0x306E, 0x20] @ ''Web '' @ uni [0x753B, 0x9762, 0x306E, 0x20] @ ''URL'' @ uni [0x3002]),
     (''cluster.allow_http'', uni [0x6697, 0x53F7, 0x5316, 0x306A, 0x3057, 0x306E, 0x20] @ ''HTTP '' @ uni [0x3092, 0x8A31, 0x53EF, 0x20, 0x28, 0x4FE1, 0x983C, 0x3067, 0x304D, 0x308B, 0x30CD, 0x30C3, 0x30C8, 0x30EF, 0x30FC, 0x30AF, 0x306E, 0x307F, 0x29]),
     (''cluster.skip_check'', uni [0x5230, 0x9054, 0x6027, 0x30C1, 0x30A7, 0x30C3, 0x30AF, 0x3092, 0x7701, 0x7565]),
     (''cluster.create'', uni [0x30AF, 0x30E9, 0x30B9, 0x30BF, 0x30FC, 0x3092, 0x4F5C, 0x6210]),
     (''cluster.created'', uni [0x30AF, 0x30E9, 0x30B9, 0x30BF, 0x30FC, 0x3092, 0x4F5C, 0x6210, 0x3057, 0x307E, 0x3057, 0x305F, 0x3002, 0x30CE, 0x30FC, 0x30C9, 0x3092, 0x8FFD, 0x52A0, 0x3057, 0x3066, 0x30EC, 0x30D7, 0x30EA, 0x30AB, 0x3092, 0x62DB, 0x5F85, 0x3057, 0x3066, 0x304F, 0x3060, 0x3055, 0x3044, 0x3002]),
     (''cluster.join_title'', uni [0x30AF, 0x30E9, 0x30B9, 0x30BF, 0x30FC, 0x306B, 0x53C2, 0x52A0]),
     (''cluster.join_hint'', uni [0x3053, 0x306E, 0x30CE, 0x30FC, 0x30C9, 0x3092, 0x65E2, 0x5B58, 0x30D7, 0x30E9, 0x30A4, 0x30DE, 0x30EA, 0x306E, 0x30EC, 0x30D7, 0x30EA, 0x30AB, 0x306B, 0x3057, 0x307E, 0x3059, 0x3002, 0x5148, 0x306B, 0x30D7, 0x30E9, 0x30A4, 0x30DE, 0x30EA, 0x3067, 0x53C2, 0x52A0, 0x30C8, 0x30FC, 0x30AF, 0x30F3, 0x3092, 0x4F5C, 0x6210, 0x3057, 0x3066, 0x304F, 0x3060, 0x3055, 0x3044, 0x3002]),
     (''cluster.join_warning'', uni [0x53C2, 0x52A0, 0x3059, 0x308B, 0x3068, 0x3001, 0x3053, 0x306E, 0x30CE, 0x30FC, 0x30C9, 0x306E, 0x30ED, 0x30FC, 0x30AB, 0x30EB, 0x30BE, 0x30FC, 0x30F3, 0x306F, 0x30D7, 0x30E9, 0x30A4, 0x30DE, 0x30EA, 0x306E, 0x3082, 0x306E, 0x3067, 0x7F6E, 0x304D, 0x63DB, 0x3048, 0x3089, 0x308C, 0x307E, 0x3059, 0x3002, 0x305D, 0x306E, 0x4ED6, 0x306E, 0x8A2D, 0x5B9A, 0x306F, 0x5909, 0x308F, 0x308A, 0x307E, 0x305B, 0x3093, 0x3002]),
     (''cluster.join_confirm'', uni [0x30AF, 0x30E9, 0x30B9, 0x30BF, 0x30FC, 0x306B, 0x53C2, 0x52A0, 0x3057, 0x3001, 0x3053, 0x306E, 0x30CE, 0x30FC, 0x30C9, 0x306E, 0x30BE, 0x30FC, 0x30F3, 0x3092, 0x30D7, 0x30E9, 0x30A4, 0x30DE, 0x30EA, 0x306E, 0x3082, 0x306E, 0x3067, 0x7F6E, 0x304D, 0x63DB, 0x3048, 0x307E, 0x3059, 0x304B, 0x3F]),
     (''cluster.join'', uni [0x30AF, 0x30E9, 0x30B9, 0x30BF, 0x30FC, 0x306B, 0x53C2, 0x52A0]),
     (''cluster.joined'', uni [0x3053, 0x306E, 0x30CE, 0x30FC, 0x30C9, 0x306F, 0x30AF, 0x30E9, 0x30B9, 0x30BF, 0x30FC, 0x306B, 0x53C2, 0x52A0, 0x3057, 0x3001, 0x30D7, 0x30E9, 0x30A4, 0x30DE, 0x30EA, 0x306E, 0x30BE, 0x30FC, 0x30F3, 0x3092, 0x8907, 0x88FD, 0x3057, 0x3066, 0x3044, 0x307E, 0x3059, 0x3002]),
     (''cluster.zones_read_only'', uni [0x3053, 0x306E, 0x30CE, 0x30FC, 0x30C9, 0x306F, 0x30AF, 0x30E9, 0x30B9, 0x30BF, 0x30FC, 0x30EC, 0x30D7, 0x30EA, 0x30AB, 0x3067, 0x3059, 0x3002, 0x30BE, 0x30FC, 0x30F3, 0x306F, 0x30D7, 0x30E9, 0x30A4, 0x30DE, 0x30EA, 0x304B, 0x3089, 0x8907, 0x88FD, 0x3055, 0x308C, 0x3001, 0x30D7, 0x30E9, 0x30A4, 0x30DE, 0x30EA, 0x3067, 0x306E, 0x307F, 0x5909, 0x66F4, 0x3067, 0x304D, 0x307E, 0x3059, 0x3002])]\<close>

definition dict_ja :: text_table where
  "dict_ja = dict_ja_1 @ dict_ja_2 @ dict_ja_3 @ dict_ja_4 @ dict_ja_5 @ dict_ja_6 @ dict_ja_7 @ dict_ja_8"

lemma ja_titles: "distinct (map snd (with_prefix ''app.title.'' dict_ja))"
  by (simp only: dict_ja_def dict_ja_1_def dict_ja_2_def dict_ja_3_def dict_ja_4_def dict_ja_5_def dict_ja_6_def dict_ja_7_def dict_ja_8_def group_eval) (simp add: uni_def unit_text_def)

lemma ja_labels: "distinct (map snd (with_prefix ''app.nav.'' dict_ja))"
  by (simp only: dict_ja_def dict_ja_1_def dict_ja_2_def dict_ja_3_def dict_ja_4_def dict_ja_5_def dict_ja_6_def dict_ja_7_def dict_ja_8_def group_eval) (simp add: uni_def unit_text_def)

end
