(* ===== verification/Texts_Ko.thy ===== *)
theory Texts_Ko
  imports Texts
begin

text \<open>The Korean table, \<open>i18n/ko.ts\<close>.\<close>

definition dict_ko_1 :: text_table where
  \<open>dict_ko_1 = [
     (''app.skip_to_content'', uni [0xCF58, 0xD150, 0xCE20, 0xB85C, 0x20, 0xAC74, 0xB108, 0xB6F0, 0xAE30]),
     (''app.workspace_label'', uni [0xC791, 0xC5C5, 0x20, 0xACF5, 0xAC04]),
     (''app.nav.events'', uni [0xC774, 0xBCA4, 0xD2B8]),
     (''app.title.events'', uni [0xC774, 0xBCA4, 0xD2B8]),
     (''events.unread'', uni [0xC77D, 0xC9C0, 0x20, 0xC54A, 0xC74C]),
     (''events.empty'', uni [0xC544, 0xC9C1, 0x20, 0xC2DC, 0xC2A4, 0xD15C, 0x20, 0xC774, 0xBCA4, 0xD2B8, 0xAC00, 0x20, 0xC5C6, 0xC2B5, 0xB2C8, 0xB2E4, 0x2E]),
     (''events.load_failed'', uni [0xC774, 0xBCA4, 0xD2B8, 0xB97C, 0x20, 0xBD88, 0xB7EC, 0xC62C, 0x20, 0xC218, 0x20, 0xC5C6, 0xC2B5, 0xB2C8, 0xB2E4]),
     (''events.mark_read'', uni [0xC77D, 0xC74C, 0xC73C, 0xB85C, 0x20, 0xD45C, 0xC2DC]),
     (''events.repeated'', uni [0xBC18, 0xBCF5]),
     (''events.open'', uni [0xC5F4, 0xAE30]),
     (''events.info'', uni [0xC815, 0xBCF4]),
     (''events.warning'', uni [0xACBD, 0xACE0]),
     (''events.critical'', uni [0xC2EC, 0xAC01]),
     (''app.nav.main'', uni [0xBA54, 0xC778, 0x20, 0xB0B4, 0xBE44, 0xAC8C, 0xC774, 0xC158]),
     (''app.nav.overview'', uni [0xAC1C, 0xC694]),
     (''app.nav.zones'', uni [0xB85C, 0xCEEC, 0x20, 0xC874]),
     (''app.nav.queries'', uni [0xCFFC, 0xB9AC, 0x20, 0xB85C, 0xADF8]),
     (''app.nav.blocklists'', uni [0xCC28, 0xB2E8, 0x20, 0xBAA9, 0xB85D]),
     (''app.nav.cache'', ''DNS '' @ uni [0xCE90, 0xC2DC]),
     (''app.nav.settings'', uni [0xC124, 0xC815]),
     (''app.nav.updates'', uni [0xC5C5, 0xB370, 0xC774, 0xD2B8]),
     (''app.nav.backup'', uni [0xBC31, 0xC5C5]),
     (''app.sign_out'', uni [0xB85C, 0xADF8, 0xC544, 0xC6C3]),
     (''app.nav.audit'', uni [0xAC10, 0xC0AC, 0x20, 0xB85C, 0xADF8]),
     (''app.title.audit'', uni [0xAC10, 0xC0AC, 0x20, 0xB85C, 0xADF8]),
     (''app.nav.diagnostics'', uni [0xC9C4, 0xB2E8]),
     (''app.title.diagnostics'', uni [0xC9C4, 0xB2E8]),
     (''app.local_resolver'', uni [0xB85C, 0xCEEC, 0x20, 0xB9AC, 0xC878, 0xBC84]),
     (''app.self_hosted_foundation'', uni [0xC140, 0xD504, 0x20, 0xD638, 0xC2A4, 0xD2B8, 0x20, 0xB7, 0x20, 0xD30C, 0xC6B4, 0xB370, 0xC774, 0xC158]),
     (''app.private_by_default'', uni [0xAE30, 0xBCF8, 0xC801, 0xC73C, 0xB85C, 0x20, 0xD504, 0xB77C, 0xC774, 0xBE57]),
     (''app.privacy.query_retention'', uni [0xCFFC, 0xB9AC, 0x20, 0xAE30, 0xB85D, 0xC740, 0x20, 0xC81C, 0xD55C, 0xB41C, 0x20, 0xAE30, 0xAC04, 0x20, 0xB3D9, 0xC548, 0x20, 0xBCF4, 0xC874, 0xB429, 0xB2C8, 0xB2E4, 0x2E]),
     (''app.privacy.no_query_history'', uni [0xCFFC, 0xB9AC, 0x20, 0xAE30, 0xB85D, 0xC740, 0x20, 0xC218, 0xC9D1, 0xB418, 0xC9C0, 0x20, 0xC54A, 0xC2B5, 0xB2C8, 0xB2E4, 0x2E]),
     (''app.github_repo'', ''GitHub '' @ uni [0xB9AC, 0xD3EC, 0xC9C0, 0xD1A0, 0xB9AC]),
     (''app.connecting'', uni [0xC5F0, 0xACB0, 0x20, 0xC911, 0x2026]),
     (''app.workspace'', uni [0xC791, 0xC5C5, 0x20, 0xACF5, 0xAC04]),
     (''app.connection_lost'', uni [0xC5F0, 0xACB0, 0xC774, 0x20, 0xB04A, 0xC5B4, 0xC84C, 0xC2B5, 0xB2C8, 0xB2E4]),
     (''app.resolver_online'', uni [0xB9AC, 0xC878, 0xBC84, 0x20, 0xC628, 0xB77C, 0xC778]),
     (''app.title.overview'', uni [0xB124, 0xD2B8, 0xC6CC, 0xD06C, 0x20, 0xAC1C, 0xC694]),
     (''app.title.zones'', uni [0xB85C, 0xCEEC, 0x20, 0xC874]),
     (''app.title.queries'', uni [0xCFFC, 0xB9AC, 0x20, 0xB85C, 0xADF8]),
     (''app.title.blocklists'', uni [0xCC28, 0xB2E8, 0x20, 0xBAA9, 0xB85D]),
     (''app.title.cache'', ''DNS '' @ uni [0xCE90, 0xC2DC]),
     (''app.title.settings'', uni [0xC124, 0xC815]),
     (''app.title.updates'', uni [0xC5C5, 0xB370, 0xC774, 0xD2B8]),
     (''app.title.backup'', uni [0xBC31, 0xC5C5, 0x20, 0xBC0F, 0x20, 0xBCF5, 0xC6D0]),
     (''app.eyebrow'', uni [0xB0B4, 0x20, 0xB124, 0xD2B8, 0xC6CC, 0xD06C, 0x20, 0xD55C, 0xB208, 0xC5D0, 0x20, 0xBCF4, 0xAE30]),
     (''app.subtitle.overview'', ''DNS '' @ uni [0xC694, 0xCCAD, 0xC5D0, 0xC11C, 0x20, 0xC751, 0xB2F5, 0xAE4C, 0xC9C0, 0x20, 0xBA85, 0xD655, 0xD558, 0xAC8C, 0x20, 0xD30C, 0xC545, 0xD560, 0x20, 0xC218, 0x20, 0xC788, 0xC2B5, 0xB2C8, 0xB2E4, 0x2E]),
     (''app.subtitle.default'', uni [0xB9AC, 0xC878, 0xBC84, 0x20, 0xD30C, 0xC6B4, 0xB370, 0xC774, 0xC158, 0xC744, 0x20, 0xD655, 0xC778, 0xD558, 0xACE0, 0x20, 0xAD00, 0xB9AC, 0xD569, 0xB2C8, 0xB2E4, 0x2E]),
     (''app.refresh'', uni [0xC0C8, 0xB85C, 0xACE0, 0xCE68]),
     (''app.error.showing_last'', uni [0xB9C8, 0xC9C0, 0xB9C9, 0x20, 0xC131, 0xACF5, 0x20, 0xC2A4, 0xB0C5, 0xC0F7, 0xC744, 0x20, 0xD45C, 0xC2DC, 0xD558, 0xB294, 0x20, 0xC911]),
     (''app.error.check_server'', ''Velora '' @ uni [0xC11C, 0xBC84, 0xAC00, 0x20, 0xC2E4, 0xD589, 0x20, 0xC911, 0xC778, 0xC9C0, 0x20, 0xD655, 0xC778, 0xD558, 0xC138, 0xC694, 0x2E]),
     (''app.error.reach_server'', uni [0xC11C, 0xBC84, 0xC5D0, 0x20, 0xC5F0, 0xACB0, 0xD560, 0x20, 0xC218, 0x20, 0xC5C6, 0xC2B5, 0xB2C8, 0xB2E4]),
     (''app.viewer_readonly'', uni [0xBDF0, 0xC5B4, 0xB85C, 0x20, 0xB85C, 0xADF8, 0xC778, 0xD588, 0xC2B5, 0xB2C8, 0xB2E4, 0x2E, 0x20, 0xAD00, 0xB9AC, 0x20, 0xC791, 0xC5C5, 0xC740, 0x20, 0xC77D, 0xAE30, 0x20, 0xC804, 0xC6A9, 0xC785, 0xB2C8, 0xB2E4, 0x2E]),
     (''app.connecting_panel'', uni [0xB9AC, 0xC878, 0xBC84, 0xC5D0, 0x20, 0xC5F0, 0xACB0, 0x20, 0xC911, 0x2026]),
     (''app.not_found'', uni [0xD398, 0xC774, 0xC9C0, 0xB97C, 0x20, 0xCC3E, 0xC744, 0x20, 0xC218, 0x20, 0xC5C6, 0xC2B5, 0xB2C8, 0xB2E4, 0x2E]),
     (''app.footer.independent'', ''Velora DNS '' @ uni [0xB7] @ '' '' @ uni [0xB3C5, 0xB9BD] @ '' '' @ uni [0xB7] @ '' '' @ uni [0xC140, 0xD504] @ '' '' @ uni [0xD638, 0xC2A4, 0xD2B8]),
     (''app.footer.last_updated'', uni [0xB9C8, 0xC9C0, 0xB9C9, 0x20, 0xC5C5, 0xB370, 0xC774, 0xD2B8]),
     (''app.footer.waiting'', uni [0xC11C, 0xBC84, 0x20, 0xB300, 0xAE30, 0x20, 0xC911]),
     (''diagnostics.title'', uni [0xC2DC, 0xC2A4, 0xD15C, 0x20, 0xC0C1, 0xD0DC]),
     (''diagnostics.report_hint'', uni [0xB2E4, 0xC6B4, 0xB85C, 0xB4DC, 0xC5D0, 0xB294, 0x20, 0xAD6C, 0xC131, 0x20, 0xC694, 0xC18C, 0x20, 0xC0C1, 0xD0DC, 0xC640, 0x20, 0xBE4C, 0xB4DC, 0x20, 0xC815, 0xBCF4, 0xAC00, 0x20, 0xD3EC, 0xD568, 0xB418, 0xBA70, 0x20, 0xBE44, 0xBC00, 0x20, 0xC815, 0xBCF4, 0xB098, 0x20, 0xCFFC, 0xB9AC, 0x20, 0xB85C, 0xADF8, 0xB294, 0x20, 0xD3EC, 0xD568, 0xB418, 0xC9C0, 0x20, 0xC54A, 0xC2B5, 0xB2C8, 0xB2E4, 0x2E]),
     (''diagnostics.download'', uni [0xBCF4, 0xACE0, 0xC11C, 0x20, 0xB2E4, 0xC6B4, 0xB85C, 0xB4DC]),
     (''diagnostics.loading'', uni [0xC9C4, 0xB2E8, 0x20, 0xBD88, 0xB7EC, 0xC624, 0xB294, 0x20, 0xC911, 0x2026]),
     (''diagnostics.load_failed'', uni [0xC9C4, 0xB2E8, 0xC744, 0x20, 0xBD88, 0xB7EC, 0xC62C, 0x20, 0xC218, 0x20, 0xC5C6, 0xC2B5, 0xB2C8, 0xB2E4]),
     (''diagnostics.upstreams'', uni [0xC5C5, 0xC2A4, 0xD2B8, 0xB9BC, 0x20, 0xC11C, 0xBC84]),
     (''diagnostics.component'', uni [0xAD6C, 0xC131, 0x20, 0xC694, 0xC18C]),
     (''diagnostics.state'', uni [0xC0C1, 0xD0DC]),
     (''diagnostics.detail'', uni [0xC138, 0xBD80, 0x20, 0xC815, 0xBCF4]),
     (''diagnostics.state.healthy'', uni [0xC815, 0xC0C1]),
     (''diagnostics.state.degraded'', uni [0xC800, 0xD558]),
     (''diagnostics.state.failed'', uni [0xC2E4, 0xD328]),
     (''explain.title'', uni [0xC774, 0x20, 0xC751, 0xB2F5, 0xC774, 0x20, 0xB098, 0xC628, 0x20, 0xC774, 0xC720]),
     (''explain.hint'', uni [0xC774, 0xB984, 0x20, 0xD558, 0xB098, 0xC5D0, 0x20, 0xB300, 0xD574, 0x20, 0xB9AC, 0xC878, 0xBC84, 0xB97C, 0x20, 0xC2DC, 0xD5D8, 0x20, 0xC2E4, 0xD589, 0xD569, 0xB2C8, 0xB2E4, 0x2E, 0x20, 0xC5C5, 0xC2A4, 0xD2B8, 0xB9BC, 0x20, 0xC870, 0xD68C, 0x2C, 0x20, 0xB85C, 0xADF8, 0x20, 0xAE30, 0xB85D, 0x2C, 0x20, 0xCE90, 0xC2DC, 0x2C, 0x20, 0xC9D1, 0xACC4, 0xB294, 0x20, 0xC77C, 0xC5B4, 0xB098, 0xC9C0, 0x20, 0xC54A, 0xC2B5, 0xB2C8, 0xB2E4, 0x2E]),
     (''explain.name'', uni [0xC774, 0xB984]),
     (''explain.type'', uni [0xB808, 0xCF54, 0xB4DC, 0x20, 0xC720, 0xD615]),
     (''explain.client'', uni [0xD074, 0xB77C, 0xC774, 0xC5B8, 0xD2B8, 0x20, 0xC8FC, 0xC18C, 0x28, 0xC120, 0xD0DD, 0x29]),
     (''explain.client_hint'', uni [0xD574, 0xB2F9, 0x20, 0xD074, 0xB77C, 0xC774, 0xC5B8, 0xD2B8, 0xC758, 0x20, 0xD544, 0xD130, 0xB9C1, 0x20, 0xC815, 0xCC45, 0xC744, 0x20, 0xC801, 0xC6A9, 0xD569, 0xB2C8, 0xB2E4, 0x2E]),
     (''explain.submit'', uni [0xC124, 0xBA85]),
     (''explain.running'', uni [0xC124, 0xBA85, 0x20, 0xC911, 0x2026]),
     (''explain.failed'', uni [0xC774, 0x20, 0xCFFC, 0xB9AC, 0xB97C, 0x20, 0xC124, 0xBA85, 0xD558, 0xC9C0, 0x20, 0xBABB, 0xD588, 0xC2B5, 0xB2C8, 0xB2E4]),
     (''explain.result'', uni [0xC124, 0xBA85]),
     (''explain.winner'', uni [0xACB0, 0xC815, 0x20, 0xB2E8, 0xACC4]),
     (''explain.answers'', uni [0xC751, 0xB2F5]),
     (''explain.no_answers'', uni [0xC751, 0xB2F5, 0x20, 0xB808, 0xCF54, 0xB4DC, 0x20, 0xC5C6, 0xC74C, 0x3A, 0x20, 0xC751, 0xB2F5, 0xC740, 0x20, 0xC5C5, 0xC2A4, 0xD2B8, 0xB9BC, 0x20, 0xB9AC, 0xC878, 0xBC84, 0xC5D0, 0xC11C, 0x20, 0xC624, 0xC9C0, 0xB9CC, 0x20, 0xC870, 0xD68C, 0xD558, 0xC9C0, 0x20, 0xC54A, 0xC2B5, 0xB2C8, 0xB2E4, 0x2E]),
     (''explain.steps'', uni [0xAC80, 0xD1A0, 0xD55C, 0x20, 0xB2E8, 0xACC4]),
     (''explain.step'', uni [0xB2E8, 0xACC4]),
     (''explain.outcome'', uni [0xACB0, 0xACFC]),
     (''explain.detail'', uni [0xC0C1, 0xC138]),
     (''explain.cname_target'', ''CNAME '' @ uni [0xB300, 0xC0C1]),
     (''explain.ttl'', uni [0xB0A8, 0xC740] @ '' TTL''),
     (''explain.matches'', uni [0xC77C, 0xCE58]),
     (''explain.allowed_by'', uni [0xD5C8, 0xC6A9, 0xD55C, 0x20, 0xADDC, 0xCE59]),
     (''explain.not_contacted'', uni [0xC5C5, 0xC2A4, 0xD2B8, 0xB9BC, 0xC5D0, 0x20, 0xC870, 0xD68C, 0xD558, 0xC9C0, 0x20, 0xC54A, 0xC558, 0xC2B5, 0xB2C8, 0xB2E4, 0x2E]),
     (''explain.scope.global'', uni [0xC804, 0xC5ED, 0x20, 0xD544, 0xD130, 0xB9C1]),
     (''explain.scope.client_policy'', uni [0xD074, 0xB77C, 0xC774, 0xC5B8, 0xD2B8, 0x20, 0xC815, 0xCC45]),
     (''explain.stage.filter'', uni [0xCC28, 0xB2E8, 0x20, 0xBAA9, 0xB85D, 0x20, 0xB610, 0xB294, 0x20, 0xD074, 0xB77C, 0xC774, 0xC5B8, 0xD2B8, 0x20, 0xC815, 0xCC45]),
     (''explain.stage.rewrite'', ''DNS '' @ uni [0xC7AC, 0xC791, 0xC131]),
     (''explain.stage.zone'', uni [0xB85C, 0xCEEC, 0x20, 0xC601, 0xC5ED]),
     (''explain.stage.cache'', uni [0xCE90, 0xC2DC]),
     (''explain.stage.forwarding'', uni [0xC870, 0xAC74, 0xBD80, 0x20, 0xC804, 0xB2EC, 0x20, 0xADDC, 0xCE59]),
     (''explain.stage.upstream'', uni [0xC804, 0xC5ED, 0x20, 0xC5C5, 0xC2A4, 0xD2B8, 0xB9BC, 0x20, 0xB9AC, 0xC878, 0xBC84]),
     (''explain.stage.refused'', uni [0xAC70, 0xBD80, 0xB428]),
     (''explain.result.passed'', uni [0xD1B5, 0xACFC]),
     (''explain.result.allowed'', uni [0xD5C8, 0xC6A9]),
     (''explain.result.blocked'', uni [0xCC28, 0xB2E8]),
     (''explain.result.no_match'', uni [0xC77C, 0xCE58, 0x20, 0xC5C6, 0xC74C]),
     (''explain.result.answered'', uni [0xC751, 0xB2F5, 0xD568]),
     (''explain.result.miss'', uni [0xBBF8, 0xC2A4]),
     (''explain.result.hit'', uni [0xD788, 0xD2B8]),
     (''explain.result.refused'', uni [0xAC70, 0xBD80, 0xB428]),
     (''explain.result.would_forward'', uni [0xC804, 0xB2EC, 0xB420, 0x20, 0xC608, 0xC815]),
     (''explain.result.error'', uni [0xC624, 0xB958]),
     (''explain.source.local'', uni [0xB85C, 0xCEEC, 0x20, 0xC751, 0xB2F5]),
     (''explain.source.cache'', uni [0xCE90, 0xC2DC]),
     (''explain.source.blocked'', uni [0xCC28, 0xB2E8]),
     (''explain.source.upstream'', uni [0xC5C5, 0xC2A4, 0xD2B8, 0xB9BC]),
     (''explain.source.refused'', uni [0xAC70, 0xBD80, 0xB428]),
     (''audit.title'', uni [0xAD00, 0xB9AC, 0x20, 0xAC10, 0xC0AC, 0x20, 0xB85C, 0xADF8]),
     (''audit.hint'', uni [0xAD00, 0xB9AC, 0x20, 0xC791, 0xC5C5, 0xC740, 0x20] @ ''90'' @ uni [0xC77C, 0x20, 0xB3D9, 0xC548, 0x20, 0xBCF4, 0xAD00, 0xB429, 0xB2C8, 0xB2E4, 0x2E, 0x20, 0xBE44, 0xBC00, 0x20, 0xC815, 0xBCF4, 0xC640, 0x20, 0xC694, 0xCCAD, 0x20, 0xBCF8, 0xBB38, 0xC740, 0x20, 0xC81C, 0xC678, 0xB429, 0xB2C8, 0xB2E4, 0x2E]),
     (''audit.actor'', uni [0xC0AC, 0xC6A9, 0xC790])]\<close>

definition dict_ko_2 :: text_table where
  \<open>dict_ko_2 = [
     (''audit.action'', uni [0xC791, 0xC5C5]),
     (''audit.result'', uni [0xACB0, 0xACFC]),
     (''audit.all'', uni [0xC804, 0xCCB4]),
     (''audit.success'', uni [0xC131, 0xACF5]),
     (''audit.failure'', uni [0xC2E4, 0xD328]),
     (''audit.filter'', uni [0xD544, 0xD130]),
     (''audit.time'', uni [0xC2DC, 0xAC04]),
     (''audit.target'', uni [0xB300, 0xC0C1]),
     (''audit.empty'', uni [0xAC10, 0xC0AC, 0x20, 0xC774, 0xBCA4, 0xD2B8, 0xAC00, 0x20, 0xC5C6, 0xC2B5, 0xB2C8, 0xB2E4, 0x2E]),
     (''audit.more'', uni [0xB354, 0x20, 0xBCF4, 0xAE30]),
     (''audit.load_failed'', uni [0xAC10, 0xC0AC, 0x20, 0xC774, 0xBCA4, 0xD2B8, 0xB97C, 0x20, 0xBD88, 0xB7EC, 0xC62C, 0x20, 0xC218, 0x20, 0xC5C6, 0xC2B5, 0xB2C8, 0xB2E4]),
     (''auth.checking'', uni [0xC138, 0xC158, 0x20, 0xD655, 0xC778, 0x20, 0xC911, 0x2026]),
     (''auth.sign_in_title'', ''Velora DNS '' @ uni [0xB85C, 0xADF8, 0xC778]),
     (''auth.username'', uni [0xC0AC, 0xC6A9, 0xC790, 0x20, 0xC774, 0xB984]),
     (''auth.password'', uni [0xBE44, 0xBC00, 0xBC88, 0xD638]),
     (''auth.sign_in'', uni [0xB85C, 0xADF8, 0xC778]),
     (''auth.sign_in_failed'', uni [0xB85C, 0xADF8, 0xC778, 0xC5D0, 0x20, 0xC2E4, 0xD328, 0xD588, 0xC2B5, 0xB2C8, 0xB2E4]),
     (''settings.server_configuration'', uni [0xC11C, 0xBC84, 0x20, 0xC124, 0xC815]),
     (''settings.language'', uni [0xC5B8, 0xC5B4]),
     (''settings.theme'', uni [0xD14C, 0xB9C8]),
     (''settings.theme_light'', uni [0xB77C, 0xC774, 0xD2B8]),
     (''settings.theme_dark'', uni [0xB2E4, 0xD06C]),
     (''settings.theme_auto'', uni [0xC790, 0xB3D9]),
     (''settings.theme_hint'', uni [0xC790, 0xB3D9, 0xC740, 0x20] @ ''OS'' @ uni [0xC758, 0x20, 0xB77C, 0xC774, 0xD2B8, 0x2F, 0xB2E4, 0xD06C, 0x20, 0xC0C9, 0x20, 0xAD6C, 0xC131, 0xD45C, 0xB97C, 0x20, 0xB530, 0xB985, 0xB2C8, 0xB2E4, 0x2E]),
     (''settings.log_level'', uni [0xB85C, 0xADF8, 0x20, 0xB808, 0xBCA8]),
     (''settings.rate_limiting'', uni [0xB808, 0xC774, 0xD2B8, 0x20, 0xB9AC, 0xBC0B]),
     (''settings.rate_limit_hint'', uni [0xB808, 0xC774, 0xD2B8, 0x20, 0xB9AC, 0xBC0B, 0xC740, 0x20, 0xAE30, 0xBCF8, 0xC801, 0xC73C, 0xB85C, 0x20, 0xBE44, 0xD65C, 0xC131, 0xD654, 0xB418, 0xC5B4, 0x20, 0xC788, 0xC2B5, 0xB2C8, 0xB2E4, 0x2E, 0x20, 0xB9AC, 0xC878, 0xBC84, 0xB97C, 0x20, 0xC18C, 0xC2A4, 0x20, 0xD50C, 0xB7EC, 0xB4DC, 0xC640, 0x20, 0xB192, 0xC740, 0x20, 0xCFFC, 0xB9AC, 0x20, 0xC18D, 0xB3C4, 0xB85C, 0xBD80, 0xD130, 0x20, 0xBCF4, 0xD638, 0xD558, 0xB824, 0xBA74, 0x20, 0xD65C, 0xC131, 0xD654, 0xD558, 0xC138, 0xC694, 0x2E]),
     (''settings.rate_limit_enabled'', uni [0xB808, 0xC774, 0xD2B8, 0x20, 0xB9AC, 0xBC0B, 0x20, 0xD65C, 0xC131, 0xD654]),
     (''settings.rate_limit_global_qps'', uni [0xAE00, 0xB85C, 0xBC8C, 0x20, 0xCFFC, 0xB9AC, 0x2F, 0xCD08]),
     (''settings.rate_limit_client_qps'', uni [0xD074, 0xB77C, 0xC774, 0xC5B8, 0xD2B8, 0xBCC4, 0x20, 0xCFFC, 0xB9AC, 0x2F, 0xCD08]),
     (''settings.rate_limit_burst'', uni [0xBC84, 0xC2A4, 0xD2B8, 0x20, 0xD5C8, 0xC6A9, 0xB7C9]),
     (''settings.rate_limit_rejected_total'', uni [0xAC70, 0xBD80, 0xB41C, 0x20, 0xCFFC, 0xB9AC]),
     (''settings.rate_limit_last_rejected'', uni [0xCD5C, 0xADFC, 0x20, 0xAC70, 0xBD80]),
     (''settings.save'', uni [0xC800, 0xC7A5]),
     (''settings.rate_limit_load_failed'', uni [0xB808, 0xC774, 0xD2B8, 0x20, 0xB9AC, 0xBC0B, 0x20, 0xC124, 0xC815, 0xC744, 0x20, 0xBD88, 0xB7EC, 0xC624, 0xC9C0, 0x20, 0xBABB, 0xD588, 0xC2B5, 0xB2C8, 0xB2E4]),
     (''settings.rate_limit_save_failed'', uni [0xB808, 0xC774, 0xD2B8, 0x20, 0xB9AC, 0xBC0B, 0x20, 0xC124, 0xC815, 0xC744, 0x20, 0xC800, 0xC7A5, 0xD558, 0xC9C0, 0x20, 0xBABB, 0xD588, 0xC2B5, 0xB2C8, 0xB2E4]),
     (''settings.rate_limit_saved'', uni [0xB808, 0xC774, 0xD2B8, 0x20, 0xB9AC, 0xBC0B, 0x20, 0xC124, 0xC815, 0xC774, 0x20, 0xC800, 0xC7A5, 0xB418, 0xC5C8, 0xC2B5, 0xB2C8, 0xB2E4, 0x2E]),
     (''settings.rate_limit_loading'', uni [0xB808, 0xC774, 0xD2B8, 0x20, 0xB9AC, 0xBC0B, 0x20, 0xC124, 0xC815, 0x20, 0xBD88, 0xB7EC, 0xC624, 0xB294, 0x20, 0xC911, 0x2026]),
     (''settings.edit_hint'', uni [0xC774, 0x20, 0xC124, 0xC815, 0xC740, 0x20, 0xBE60, 0xB978, 0x20, 0xC2DC, 0xC791, 0x20, 0xC124, 0xCE58, 0x20, 0xD504, 0xB85C, 0xADF8, 0xB7A8, 0x20, 0xC635, 0xC158, 0xC5D0, 0x20, 0xD574, 0xB2F9, 0xD569, 0xB2C8, 0xB2E4, 0x2E, 0x20, 0xC77C, 0xBD80, 0x20, 0xBCC0, 0xACBD, 0xC5D0, 0xB294, 0x20, 0xB2E4, 0xC2DC, 0x20, 0xC2DC, 0xC791, 0xC774, 0x20, 0xD544, 0xC694, 0xD569, 0xB2C8, 0xB2E4, 0x2E, 0x20, 0xCE90, 0xC2DC, 0x20] @ ''TTL '' @ uni [0xBCC0, 0xACBD, 0xC740, 0x20, 0xC989, 0xC2DC, 0x20, 0xC801, 0xC6A9, 0xB429, 0xB2C8, 0xB2E4, 0x2E]),
     (''settings.dns_section'', ''DNS '' @ uni [0xC124, 0xC815]),
     (''settings.cache_section'', ''DNS '' @ uni [0xCE90, 0xC2DC]),
     (''settings.cache_ttl_label'', uni [0xC5C5, 0xC2A4, 0xD2B8, 0xB9BC] @ '' '' @ uni [0xC751, 0xB2F5] @ '' '' @ uni [0xCE90, 0xC2DC] @ '' TTL ('' @ uni [0xCD08] @ '')''),
     (''settings.cache_ttl_hint'', ''86400'' @ uni [0xCD08, 0x20] @ ''= 24'' @ uni [0xC2DC, 0xAC04, 0x2E, 0x20, 0xBC94, 0xC704, 0x3A, 0x20] @ ''0'' @ uni [0x2013] @ ''604800'' @ uni [0xCD08, 0x2E, 0x20] @ ''0'' @ uni [0xC740, 0x20, 0xAC01, 0x20, 0xC5C5, 0xC2A4, 0xD2B8, 0xB9BC, 0xC758, 0x20, 0xC6D0, 0xB798, 0x20] @ ''TTL'' @ uni [0xC744, 0x20, 0xC0AC, 0xC6A9, 0xD569, 0xB2C8, 0xB2E4, 0x2E, 0x20, 0xC5C5, 0xC2A4, 0xD2B8, 0xB9BC, 0x20, 0xBCC0, 0xACBD, 0xC774, 0x20, 0xBC18, 0xC601, 0xB418, 0xB294, 0x20, 0xB370, 0x20, 0xC2DC, 0xAC04, 0xC774, 0x20, 0xAC78, 0xB9B4, 0x20, 0xC218, 0x20, 0xC788, 0xC2B5, 0xB2C8, 0xB2E4, 0x2E, 0x20, 0xC774, 0xB97C, 0x20, 0xBCC0, 0xACBD, 0xD558, 0xBA74, 0x20, 0xAE30, 0xC874, 0x20, 0xCE90, 0xC2DC, 0x20, 0xC751, 0xB2F5, 0xC774, 0x20, 0xC0AD, 0xC81C, 0xB429, 0xB2C8, 0xB2E4, 0x2E, 0x20] @ ''TTL 0 '' @ uni [0xBC0F, 0x20, 0xC11C, 0xBA85, 0xB41C, 0x20] @ ''DNSSEC '' @ uni [0xC751, 0xB2F5, 0xC740, 0x20, 0xC6D0, 0xB798, 0x20] @ ''TTL'' @ uni [0xC744, 0x20, 0xC720, 0xC9C0, 0xD569, 0xB2C8, 0xB2E4, 0x2E]),
     (''settings.cache_ttl_invalid'', ''0'' @ uni [0xC5D0, 0xC11C, 0x20] @ ''604800'' @ uni [0xCD08, 0x20, 0xC0AC, 0xC774, 0xC758, 0x20, 0xC815, 0xC218, 0xB97C, 0x20, 0xC785, 0xB825, 0xD558, 0xC138, 0xC694, 0x2E]),
     (''settings.dns_listen_label'', ''DNS '' @ uni [0xC218, 0xC2E0] @ '' '' @ uni [0xC8FC, 0xC18C] @ '' ('' @ uni [0xC27C, 0xD45C, 0xB85C] @ '' '' @ uni [0xAD6C, 0xBD84] @ '')''),
     (''settings.dns_listen_warning'', uni [0xACBD, 0xACE0, 0x3A, 0x20] @ ''0.0.0.0'' @ uni [0xC740, 0x20] @ ''DNS'' @ uni [0xB97C, 0x20, 0xB124, 0xD2B8, 0xC6CC, 0xD06C, 0xC5D0, 0x20, 0xB178, 0xCD9C, 0xD569, 0xB2C8, 0xB2E4, 0x2E, 0x20, 0xC2E0, 0xB8B0, 0xD560, 0x20, 0xC218, 0x20, 0xC788, 0xB294, 0x20, 0xD074, 0xB77C, 0xC774, 0xC5B8, 0xD2B8, 0xB9CC, 0x20, 0xC811, 0xADFC, 0xD560, 0x20, 0xC218, 0x20, 0xC788, 0xB3C4, 0xB85D, 0x20, 0xBC29, 0xD654, 0xBCBD, 0xC744, 0x20, 0xC124, 0xC815, 0xD558, 0xC138, 0xC694, 0x2E]),
     (''settings.upstreams_label'', uni [0xC5C5, 0xC2A4, 0xD2B8, 0xB9BC, 0x20] @ ''DNS '' @ uni [0xC11C, 0xBC84, 0x20, 0x28, 0xC27C, 0xD45C, 0xB85C, 0x20, 0xAD6C, 0xBD84, 0x29]),
     (''settings.upstreams_hint'', uni [0xD615, 0xC2DD] @ '': IP:PORT ('' @ uni [0xC608] @ '': 1.1.1.1:53). DoH '' @ uni [0xC5C5, 0xC2A4, 0xD2B8, 0xB9BC, 0xC740] @ '' https://host/dns-query '' @ uni [0xC0AC, 0xC6A9]),
     (''settings.allowed_clients_label'', uni [0xD5C8, 0xC6A9, 0xB41C, 0x20, 0xD074, 0xB77C, 0xC774, 0xC5B8, 0xD2B8, 0x20, 0xB124, 0xD2B8, 0xC6CC, 0xD06C, 0x20, 0x28, 0xC27C, 0xD45C, 0xB85C, 0x20, 0xAD6C, 0xBD84, 0x20] @ ''CIDR)''),
     (''settings.allowed_clients_hint'', uni [0xC774, 0xB7EC, 0xD55C] @ '' '' @ uni [0xB124, 0xD2B8, 0xC6CC, 0xD06C, 0xB9CC] @ '' '' @ uni [0xB9AC, 0xC878, 0xBC84, 0xC5D0] @ '' '' @ uni [0xCFFC, 0xB9AC, 0xD560] @ '' '' @ uni [0xC218] @ '' '' @ uni [0xC788, 0xC2B5, 0xB2C8, 0xB2E4] @ ''. '' @ uni [0xC608] @ '': 192.168.1.0/24, 10.0.0.0/8''),
     (''settings.web_section'', ''Web UI '' @ uni [0xC124, 0xC815]),
     (''settings.web_listen_label'', ''Web UI '' @ uni [0xC218, 0xC2E0] @ '' '' @ uni [0xC8FC, 0xC18C] @ '' (IP:port)''),
     (''settings.web_listen_warning'', uni [0xACBD, 0xACE0, 0x3A, 0x20] @ ''0.0.0.0'' @ uni [0xC740, 0x20] @ ''Web UI'' @ uni [0xB97C, 0x20, 0xB124, 0xD2B8, 0xC6CC, 0xD06C, 0xC5D0, 0x20, 0xB178, 0xCD9C, 0xD569, 0xB2C8, 0xB2E4, 0x2E, 0x20, 0xBC29, 0xD654, 0xBCBD, 0x20, 0xB610, 0xB294, 0x20, 0xC778, 0xC99D, 0xC744, 0x20, 0xC0AC, 0xC6A9, 0xD558, 0xC138, 0xC694, 0x2E]),
     (''settings.allowed_hosts_label'', uni [0xD5C8, 0xC6A9, 0xB41C, 0x20, 0xD638, 0xC2A4, 0xD2B8, 0x20, 0x28, 0xC27C, 0xD45C, 0xB85C, 0x20, 0xAD6C, 0xBD84, 0x29]),
     (''settings.allowed_hosts_hint'', uni [0xAD00, 0xB9AC, 0x20] @ ''API'' @ uni [0xC5D0, 0x20, 0xC811, 0xADFC, 0xD560, 0x20, 0xC218, 0x20, 0xC788, 0xB294, 0x20, 0xD638, 0xC2A4, 0xD2B8, 0x20, 0xD5E4, 0xB354, 0x2E, 0x20, 0xBAA8, 0xB4E0, 0x20, 0xAC83, 0xC744, 0x20, 0xD5C8, 0xC6A9, 0xD558, 0xB824, 0xBA74, 0x20] @ ''*'' @ uni [0xB97C, 0x20, 0xC0AC, 0xC6A9, 0xD558, 0xC138, 0xC694, 0x20, 0x28] @ ''LAN'' @ uni [0xC5D0, 0xC11C, 0xB294, 0x20, 0xAD8C, 0xC7A5, 0xD558, 0xC9C0, 0x20, 0xC54A, 0xC74C, 0x29, 0x2E]),
     (''settings.logging_section'', uni [0xB85C, 0xAE45, 0x20, 0xBC0F, 0x20, 0xAE30, 0xD0C0]),
     (''settings.enable_query_log'', uni [0xCFFC, 0xB9AC, 0x20, 0xB85C, 0xAE45, 0x20, 0xD65C, 0xC131, 0xD654]),
     (''settings.save_configuration'', uni [0xC124, 0xC815, 0x20, 0xC800, 0xC7A5]),
     (''settings.saving'', uni [0xC800, 0xC7A5, 0x20, 0xC911, 0x2026]),
     (''settings.save_success'', uni [0xC124, 0xC815, 0xC774, 0x20, 0xC800, 0xC7A5, 0xB418, 0xACE0, 0x20, 0xC801, 0xC6A9, 0xB418, 0xC5C8, 0xC2B5, 0xB2C8, 0xB2E4, 0x2E]),
     (''settings.save_failed'', uni [0xC124, 0xC815, 0x20, 0xC800, 0xC7A5, 0xC5D0, 0x20, 0xC2E4, 0xD328, 0xD588, 0xC2B5, 0xB2C8, 0xB2E4]),
     (''dashboard.total_queries'', uni [0xCD1D, 0x20, 0xCFFC, 0xB9AC, 0x20, 0xC218]),
     (''dashboard.since_start'', uni [0xD1B5, 0xACC4, 0x20, 0xB9C8, 0xC9C0, 0xB9C9, 0x20, 0xCD08, 0xAE30, 0xD654, 0x20, 0xC774, 0xD6C4]),
     (''dashboard.reset_statistics'', uni [0xD1B5, 0xACC4, 0x20, 0xCD08, 0xAE30, 0xD654]),
     (''dashboard.reset_confirm'', uni [0xCFFC, 0xB9AC, 0x2C, 0x20, 0xCE90, 0xC2DC, 0x2C, 0x20, 0xC18D, 0xB3C4, 0x20, 0xC81C, 0xD55C, 0x20, 0xCE74, 0xC6B4, 0xD130, 0xB97C, 0x20, 0xBAA8, 0xB450, 0x20, 0xCD08, 0xAE30, 0xD654, 0xD558, 0xC2DC, 0xACA0, 0xC2B5, 0xB2C8, 0xAE4C, 0x3F, 0x20, 0xC774, 0x20, 0xC791, 0xC5C5, 0xC740, 0x20, 0xB418, 0xB3CC, 0xB9B4, 0x20, 0xC218, 0x20, 0xC5C6, 0xC2B5, 0xB2C8, 0xB2E4, 0x2E]),
     (''dashboard.reset_failed'', uni [0xD1B5, 0xACC4, 0xB97C, 0x20, 0xCD08, 0xAE30, 0xD654, 0xD560, 0x20, 0xC218, 0x20, 0xC5C6, 0xC2B5, 0xB2C8, 0xB2E4]),
     (''dashboard.qps'', uni [0xCFFC, 0xB9AC, 0x2F, 0xCD08]),
     (''dashboard.rolling_avg'', ''60'' @ uni [0xCD08, 0x20, 0xC774, 0xB3D9, 0x20, 0xD3C9, 0xADE0]),
     (''dashboard.cache_hit_rate'', uni [0xCE90, 0xC2DC, 0x20, 0xD788, 0xD2B8, 0xC728]),
     (''dashboard.answers_from_memory'', uni [0xBA54, 0xBAA8, 0xB9AC, 0xC5D0, 0xC11C, 0x20, 0xC81C, 0xACF5, 0xB41C, 0x20, 0xC751, 0xB2F5]),
     (''dashboard.uptime'', uni [0xAC00, 0xB3D9, 0x20, 0xC2DC, 0xAC04]),
     (''dashboard.process_lifetime'', uni [0xD604, 0xC7AC, 0x20, 0xD504, 0xB85C, 0xC138, 0xC2A4, 0x20, 0xC218, 0xBA85]),
     (''dashboard.top_domains'', uni [0xC0C1, 0xC704, 0x20, 0xB3C4, 0xBA54, 0xC778]),
     (''dashboard.top_clients'', uni [0xC0C1, 0xC704, 0x20, 0xD074, 0xB77C, 0xC774, 0xC5B8, 0xD2B8]),
     (''dashboard.query_activity'', uni [0xCFFC, 0xB9AC, 0x20, 0xD65C, 0xB3D9]),
     (''dashboard.live_samples'', uni [0xB9AC, 0xC878, 0xBC84, 0xC5D0, 0xC11C, 0x20, 0xAC00, 0xC838, 0xC628, 0x20, 0xC2E4, 0xC2DC, 0xAC04, 0x20, 0xC0D8, 0xD50C]),
     (''dashboard.refresh_5s'', ''5'' @ uni [0xCD08, 0xB9C8, 0xB2E4, 0x20, 0xC0C8, 0xB85C, 0xACE0, 0xCE68]),
     (''dashboard.queries_per_sec'', uni [0xCFFC, 0xB9AC, 0x2F, 0xCD08]),
     (''dashboard.chart_aria'', uni [0xC774, 0x20, 0xBE0C, 0xB77C, 0xC6B0, 0xC800, 0x20, 0xC138, 0xC158, 0x20, 0xB3D9, 0xC548, 0x20, 0xC0D8, 0xD50C, 0xB9C1, 0xB41C, 0x20, 0xCFFC, 0xB9AC, 0x20, 0xC18D, 0xB3C4]),
     (''dashboard.session_samples'', uni [0xC138, 0xC158, 0x20, 0xC0D8, 0xD50C]),
     (''dashboard.now'', uni [0xD604, 0xC7AC]),
     (''dashboard.upstream_resolvers'', uni [0xC5C5, 0xC2A4, 0xD2B8, 0xB9BC, 0x20, 0xB9AC, 0xC878, 0xBC84]),
     (''dashboard.ordered_failover'', ''TCP '' @ uni [0xD3F4, 0xBC31, 0xC774, 0x20, 0xC788, 0xB294, 0x20, 0xC21C, 0xCC28, 0x20, 0xD398, 0xC77C, 0xC624, 0xBC84]),
     (''dashboard.endpoint'', uni [0xC5D4, 0xB4DC, 0xD3EC, 0xC778, 0xD2B8]),
     (''dashboard.health'', uni [0xC0C1, 0xD0DC]),
     (''dashboard.upstream_unknown'', uni [0xC54C, 0x20, 0xC218, 0x20, 0xC5C6, 0xC74C]),
     (''dashboard.upstream_healthy'', uni [0xC815, 0xC0C1]),
     (''dashboard.upstream_degraded'', uni [0xC800, 0xD558]),
     (''dashboard.upstream_unavailable'', uni [0xC0AC, 0xC6A9, 0x20, 0xBD88, 0xAC00]),
     (''dashboard.priority'', uni [0xC6B0, 0xC120, 0xC21C, 0xC704]),
     (''dashboard.attempt_timeout'', uni [0xC2DC, 0xB3C4, 0x20, 0xD0C0, 0xC784, 0xC544, 0xC6C3]),
     (''dashboard.primary'', uni [0xD504, 0xB77C, 0xC774, 0xBA38, 0xB9AC]),
     (''dashboard.fallback'', uni [0xD3F4, 0xBC31]),
     (''dashboard.config_shown'', uni [0xC124, 0xC815, 0xC774, 0x20, 0xD45C, 0xC2DC, 0xB429, 0xB2C8, 0xB2E4, 0x2E, 0x20, 0xB3C4, 0xB2EC, 0x20, 0xAC00, 0xB2A5, 0xC131, 0xC740, 0x20, 0xAC01, 0x20, 0xCFFC, 0xB9AC, 0xB9C8, 0xB2E4, 0x20, 0xD3C9, 0xAC00, 0xB429, 0xB2C8, 0xB2E4, 0x2E]),
     (''dashboard.retained_last_24h'', uni [0xC9C0, 0xB09C, 0x20] @ ''24'' @ uni [0xC2DC, 0xAC04, 0x20, 0xB3D9, 0xC548, 0x20, 0xBCF4, 0xC874, 0xB41C, 0x20, 0xCFFC, 0xB9AC]),
     (''dashboard.unavailable_no_logging'', uni [0xCFFC, 0xB9AC, 0x20, 0xB85C, 0xAE45, 0xC774, 0x20, 0xBE44, 0xD65C, 0xC131, 0xD654, 0xB41C, 0x20, 0xACBD, 0xC6B0, 0x20, 0xC0AC, 0xC6A9, 0xD560, 0x20, 0xC218, 0x20, 0xC5C6, 0xC2B5, 0xB2C8, 0xB2E4, 0x2E]),
     (''dashboard.loading_stats'', uni [0xCFFC, 0xB9AC, 0x20, 0xD1B5, 0xACC4, 0x20, 0xBD88, 0xB7EC, 0xC624, 0xB294, 0x20, 0xC911, 0x2026]),
     (''dashboard.stats_load_failed'', uni [0xCFFC, 0xB9AC, 0x20, 0xD1B5, 0xACC4, 0xB97C, 0x20, 0xBD88, 0xB7EC, 0xC624, 0xC9C0, 0x20, 0xBABB, 0xD588, 0xC2B5, 0xB2C8, 0xB2E4]),
     (''dashboard.no_retained'', uni [0xC774, 0x20, 0xAE30, 0xAC04, 0xC5D0, 0x20, 0xBCF4, 0xC874, 0xB41C, 0x20, 0xCFFC, 0xB9AC, 0xAC00, 0x20, 0xC5C6, 0xC2B5, 0xB2C8, 0xB2E4, 0x2E]),
     (''cache.live_entries'', uni [0xC2E4, 0xC2DC, 0xAC04, 0x20, 0xD56D, 0xBAA9]),
     (''cache.capacity'', uni [0xC6A9, 0xB7C9]),
     (''cache.hits'', uni [0xCE90, 0xC2DC, 0x20, 0xD788, 0xD2B8]),
     (''cache.since_startup'', uni [0xD504, 0xB85C, 0xC138, 0xC2A4, 0x20, 0xC2DC, 0xC791, 0x20, 0xC774, 0xD6C4]),
     (''cache.misses'', uni [0xCE90, 0xC2DC, 0x20, 0xBBF8, 0xC2A4]),
     (''cache.includes_uncacheable'', uni [0xCE90, 0xC2DC, 0x20, 0xBD88, 0xAC00, 0xB2A5, 0xD55C, 0x20, 0xC694, 0xCCAD, 0x20, 0xD3EC, 0xD568]),
     (''cache.memory_cache'', uni [0xBA54, 0xBAA8, 0xB9AC, 0x20, 0xCE90, 0xC2DC]),
     (''cache.description'', uni [0xC591, 0xC758, 0x20, 0xC5C5, 0xC2A4, 0xD2B8, 0xB9BC, 0x20, 0xC751, 0xB2F5, 0xC740, 0x20, 0xC124, 0xC815, 0xB41C, 0x20, 0xCE90, 0xC2DC, 0x20] @ ''TTL'' @ uni [0xC744, 0x20, 0xC0AC, 0xC6A9, 0xD569, 0xB2C8, 0xB2E4, 0x2E, 0x20] @ ''TTL 0, '' @ uni [0xC11C, 0xBA85, 0xB41C, 0x20] @ ''DNSSEC '' @ uni [0xBC0F, 0x20, 0xC74C, 0xC758, 0x20, 0xC751, 0xB2F5, 0xC740, 0x20, 0xC6D0, 0xB798, 0x20, 0xADDC, 0xCE59, 0xC744, 0x20, 0xC720, 0xC9C0, 0xD569, 0xB2C8, 0xB2E4, 0x2E, 0x20, 0xC6A9, 0xB7C9, 0xC5D0, 0x20, 0xB3C4, 0xB2EC, 0xD558, 0xBA74, 0x20, 0xAC00, 0xC7A5, 0x20, 0xC624, 0xB798, 0x20, 0xC0AC, 0xC6A9, 0xB418, 0xC9C0, 0x20, 0xC54A, 0xC740, 0x20, 0xD56D, 0xBAA9, 0xC774, 0x20, 0xC0AD, 0xC81C, 0xB429, 0xB2C8, 0xB2E4, 0x2E, 0x20, 0xCE90, 0xC2DC, 0x20, 0xB0B4, 0xC6A9, 0xC740, 0x20] @ ''SQLite'' @ uni [0xC5D0, 0x20, 0xC800, 0xC7A5, 0xB418, 0xC9C0, 0x20, 0xC54A, 0xC2B5, 0xB2C8, 0xB2E4, 0x2E]),
     (''cache.clear_description'', uni [0xCE90, 0xC2DC, 0xB97C, 0x20, 0xC9C0, 0xC6B0, 0xBA74, 0x20, 0xD604, 0xC7AC, 0x20, 0xBAA8, 0xB4E0, 0x20, 0xC751, 0xB2F5, 0xC774, 0x20, 0xC0AD, 0xC81C, 0xB429, 0xB2C8, 0xB2E4, 0x2E, 0x20, 0xD788, 0xD2B8, 0x2F, 0xBBF8, 0xC2A4, 0x20, 0xCE74, 0xC6B4, 0xD130, 0xB294, 0x20, 0xC720, 0xC9C0, 0xB429, 0xB2C8, 0xB2E4, 0x2E]),
     (''cache.clearing'', uni [0xC9C0, 0xC6B0, 0xB294, 0x20, 0xC911, 0x2026]),
     (''cache.clear'', uni [0xCE90, 0xC2DC, 0x20, 0xC9C0, 0xC6B0, 0xAE30]),
     (''cache.cleared'', uni [0xCE90, 0xC2DC, 0xAC00, 0x20, 0xC9C0, 0xC6CC, 0xC84C, 0xC2B5, 0xB2C8, 0xB2E4, 0x2E, 0x20, 0xB85C, 0xCEEC, 0x20, 0xC874, 0xC740, 0x20, 0xACC4, 0xC18D, 0x20, 0xD65C, 0xC131, 0x20, 0xC0C1, 0xD0DC, 0xC785, 0xB2C8, 0xB2E4, 0x2E, 0x20, 0xB2E4, 0xB978, 0x20, 0xCFFC, 0xB9AC, 0xB294, 0x20, 0xC5C5, 0xC2A4, 0xD2B8, 0xB9BC, 0x20, 0xB9AC, 0xC878, 0xBC84, 0xB97C, 0x20, 0xC0AC, 0xC6A9, 0xD569, 0xB2C8, 0xB2E4, 0x2E]),
     (''cache.flush_failed'', uni [0xCE90, 0xC2DC, 0x20, 0xC9C0, 0xC6B0, 0xAE30, 0xC5D0, 0x20, 0xC2E4, 0xD328, 0xD588, 0xC2B5, 0xB2C8, 0xB2E4]),
     (''cache.entries_title'', uni [0xCE90, 0xC2DC, 0xB41C] @ '' DNS '' @ uni [0xD56D, 0xBAA9]),
     (''cache.entries_description'', uni [0xD604, 0xC7AC, 0x20, 0xC751, 0xB2F5, 0x20, 0x28, 0xCD5C, 0xADFC, 0x20, 0xC0AC, 0xC6A9, 0x20, 0xC21C, 0x29, 0x2E]),
     (''cache.entries_loading'', uni [0xCE90, 0xC2DC, 0x20, 0xD56D, 0xBAA9, 0x20, 0xBD88, 0xB7EC, 0xC624, 0xB294, 0x20, 0xC911, 0x2026]),
     (''cache.entries_load_failed'', uni [0xCE90, 0xC2DC, 0x20, 0xD56D, 0xBAA9, 0xC744, 0x20, 0xBD88, 0xB7EC, 0xC624, 0xC9C0, 0x20, 0xBABB, 0xD588, 0xC2B5, 0xB2C8, 0xB2E4]),
     (''cache.entries_empty'', uni [0xCE90, 0xC2DC, 0xAC00, 0x20, 0xBE44, 0xC5B4, 0x20, 0xC788, 0xC2B5, 0xB2C8, 0xB2E4, 0x2E]),
     (''cache.entries_scroll_hint'', uni [0xAC00, 0xB85C, 0xB85C, 0x20, 0xC2A4, 0xD06C, 0xB864, 0xD558, 0xC5EC, 0x20, 0xBAA8, 0xB4E0, 0x20, 0xC5F4, 0xC744, 0x20, 0xD45C, 0xC2DC, 0xD569, 0xB2C8, 0xB2E4, 0x2E]),
     (''cache.entry_name'', uni [0xC774, 0xB984])]\<close>

definition dict_ko_3 :: text_table where
  \<open>dict_ko_3 = [
     (''cache.entry_type'', uni [0xC720, 0xD615]),
     (''cache.entry_answer'', uni [0xC751, 0xB2F5]),
     (''cache.entry_status'', uni [0xC0C1, 0xD0DC]),
     (''cache.entry_ttl'', uni [0xB0A8, 0xC740] @ '' TTL''),
     (''cache.seconds'', uni [0xCD08]),
     (''cache.previous'', uni [0xC774, 0xC804]),
     (''cache.next'', uni [0xB2E4, 0xC74C]),
     (''querylog.unavailable_title'', uni [0xCFFC, 0xB9AC, 0x20, 0xAE30, 0xB85D, 0xC744, 0x20, 0xC0AC, 0xC6A9, 0xD560, 0x20, 0xC218, 0x20, 0xC5C6, 0xC2B5, 0xB2C8, 0xB2E4]),
     (''querylog.unavailable_text'', ''DNS '' @ uni [0xD65C, 0xB3D9, 0xC744, 0x20, 0xC218, 0xC9D1, 0xD558, 0xACE0, 0x20, 0xD655, 0xC778, 0xD558, 0xB824, 0xBA74, 0x20, 0xCFFC, 0xB9AC, 0x20, 0xB85C, 0xAE45, 0xC744, 0x20, 0xD65C, 0xC131, 0xD654, 0xD558, 0xC138, 0xC694, 0x2E]),
     (''querylog.up_to_100'', uni [0xD398, 0xC774, 0xC9C0, 0xB2F9, 0x20, 0xCD5C, 0xB300, 0x20] @ ''100'' @ uni [0xAC1C, 0xC758, 0x20, 0xBCF4, 0xC874, 0xB41C, 0x20, 0xC751, 0xB2F5]),
     (''querylog.refresh'', uni [0xCFFC, 0xB9AC, 0x20, 0xC0C8, 0xB85C, 0xACE0, 0xCE68]),
     (''querylog.filters_aria'', uni [0xCFFC, 0xB9AC, 0x20, 0xD544, 0xD130]),
     (''querylog.domain'', uni [0xB3C4, 0xBA54, 0xC778]),
     (''querylog.contains_example'', ''example.com '' @ uni [0xD3EC, 0xD568]),
     (''querylog.client_ip'', uni [0xD074, 0xB77C, 0xC774, 0xC5B8, 0xD2B8, 0x20] @ ''IP''),
     (''querylog.exact_ip'', uni [0xC815, 0xD655, 0xD55C, 0x20] @ ''IP '' @ uni [0xC8FC, 0xC18C]),
     (''querylog.query_type'', uni [0xCFFC, 0xB9AC, 0x20, 0xC720, 0xD615]),
     (''querylog.all_types'', uni [0xBAA8, 0xB4E0, 0x20, 0xC720, 0xD615]),
     (''querylog.source'', uni [0xC18C, 0xC2A4]),
     (''querylog.all_sources'', uni [0xBAA8, 0xB4E0, 0x20, 0xC18C, 0xC2A4]),
     (''querylog.apply_filters'', uni [0xD544, 0xD130, 0x20, 0xC801, 0xC6A9]),
     (''querylog.show_blocked'', uni [0xCC28, 0xB2E8, 0xB41C, 0x20, 0xCFFC, 0xB9AC, 0x20, 0xD45C, 0xC2DC]),
     (''querylog.error_stale'', uni [0xC774, 0xC804, 0x20, 0xACB0, 0xACFC, 0xAC00, 0x20, 0xC624, 0xB798, 0xB418, 0xC5C8, 0xC744, 0x20, 0xC218, 0x20, 0xC788, 0xC2B5, 0xB2C8, 0xB2E4, 0x2E]),
     (''querylog.loading'', uni [0xCFFC, 0xB9AC, 0x20, 0xB85C, 0xADF8, 0x20, 0xBD88, 0xB7EC, 0xC624, 0xB294, 0x20, 0xC911, 0x2026]),
     (''querylog.no_matches'', uni [0xC77C, 0xCE58, 0xD558, 0xB294, 0x20, 0xCFFC, 0xB9AC, 0xAC00, 0x20, 0xC5C6, 0xC2B5, 0xB2C8, 0xB2E4]),
     (''querylog.no_matches_text'', uni [0xB2E4, 0xB978, 0x20, 0xD544, 0xD130, 0xB97C, 0x20, 0xC2DC, 0xB3C4, 0xD558, 0xAC70, 0xB098, 0x20, 0xB85C, 0xAE45, 0xC744, 0x20, 0xD65C, 0xC131, 0xD654, 0xD558, 0xC5EC, 0x20] @ ''DNS '' @ uni [0xD2B8, 0xB798, 0xD53D, 0xC744, 0x20, 0xC0DD, 0xC131, 0xD558, 0xC138, 0xC694, 0x2E]),
     (''querylog.caption'', ''DNS '' @ uni [0xCFFC, 0xB9AC] @ '' '' @ uni [0xB85C, 0xADF8]),
     (''querylog.col_timestamp'', uni [0xD0C0, 0xC784, 0xC2A4, 0xD0EC, 0xD504]),
     (''querylog.col_client'', uni [0xD074, 0xB77C, 0xC774, 0xC5B8, 0xD2B8]),
     (''querylog.col_domain'', uni [0xB3C4, 0xBA54, 0xC778]),
     (''querylog.col_type'', uni [0xC720, 0xD615]),
     (''querylog.col_source'', uni [0xC18C, 0xC2A4]),
     (''querylog.col_response'', uni [0xC751, 0xB2F5]),
     (''querylog.col_latency'', uni [0xB808, 0xC774, 0xD134, 0xC2DC]),
     (''querylog.older'', uni [0xC774, 0xC804, 0x20, 0xCFFC, 0xB9AC]),
     (''querylog.load_failed'', uni [0xCFFC, 0xB9AC, 0x20, 0xB85C, 0xADF8, 0xB97C, 0x20, 0xBD88, 0xB7EC, 0xC624, 0xC9C0, 0x20, 0xBABB, 0xD588, 0xC2B5, 0xB2C8, 0xB2E4]),
     (''blocklists.count'', uni [0xC678, 0xBD80, 0x20, 0xC18C, 0xC2A4]),
     (''blocklists.count_one'', uni [0xC678, 0xBD80, 0x20, 0xC18C, 0xC2A4]),
     (''blocklists.sources_label'', ''DNS '' @ uni [0xC815, 0xCC45] @ '' '' @ uni [0xC18C, 0xC2A4]),
     (''blocklists.reload'', uni [0xC0C8, 0xB85C, 0xACE0, 0xCE68]),
     (''blocklists.add_source'', uni [0xC18C, 0xC2A4, 0x20, 0xCD94, 0xAC00]),
     (''blocklists.add_aria'', uni [0xCC28, 0xB2E8, 0x20, 0xBAA9, 0xB85D, 0x20, 0xC18C, 0xC2A4, 0x20, 0xCD94, 0xAC00]),
     (''blocklists.add_title'', uni [0xC678, 0xBD80, 0x20, 0xCC28, 0xB2E8, 0x20, 0xBAA9, 0xB85D, 0x20, 0xCD94, 0xAC00]),
     (''blocklists.add_text'', uni [0xACF5, 0xAC1C, 0x20] @ ''HTTP(S) '' @ uni [0xC18C, 0xC2A4, 0xB9CC, 0x20, 0xD5C8, 0xC6A9, 0xB429, 0xB2C8, 0xB2E4, 0x2E, 0x20, 0xC0C8, 0xB85C, 0xACE0, 0xCE68, 0xC5D0, 0x20, 0xC2E4, 0xD328, 0xD558, 0xBA74, 0x20, 0xC774, 0xC804, 0x20] @ ''DNS '' @ uni [0xADDC, 0xCE59, 0xC774, 0x20, 0xACC4, 0xC18D, 0x20, 0xD65C, 0xC131, 0x20, 0xC0C1, 0xD0DC, 0xC785, 0xB2C8, 0xB2E4, 0x2E]),
     (''blocklists.name'', uni [0xC774, 0xB984]),
     (''blocklists.source_url'', uni [0xC18C, 0xC2A4] @ '' URL''),
     (''blocklists.community_hosts'', uni [0xCEE4, 0xBBA4, 0xB2C8, 0xD2F0, 0x20, 0xD638, 0xC2A4, 0xD2B8]),
     (''blocklists.adding'', uni [0xCD94, 0xAC00, 0x20, 0xC911, 0x2026]),
     (''blocklists.cancel'', uni [0xCDE8, 0xC18C]),
     (''blocklists.loading'', uni [0xCC28, 0xB2E8, 0x20, 0xBAA9, 0xB85D, 0x20, 0xC18C, 0xC2A4, 0x20, 0xBD88, 0xB7EC, 0xC624, 0xB294, 0x20, 0xC911, 0x2026]),
     (''blocklists.empty_title'', uni [0xC678, 0xBD80, 0x20, 0xCC28, 0xB2E8, 0x20, 0xBAA9, 0xB85D, 0xC774, 0x20, 0xC5C6, 0xC2B5, 0xB2C8, 0xB2E4]),
     (''blocklists.empty_text'', uni [0xC2E0, 0xB8B0, 0xD560, 0x20, 0xC218, 0x20, 0xC788, 0xB294, 0x20, 0xACF5, 0xAC1C, 0x20, 0xD638, 0xC2A4, 0xD2B8, 0x20, 0xB610, 0xB294, 0x20, 0xB3C4, 0xBA54, 0xC778, 0x20, 0xBAA9, 0xB85D, 0xC744, 0x20, 0xCD94, 0xAC00, 0xD558, 0xC5EC, 0x20] @ ''DNS '' @ uni [0xCC28, 0xB2E8, 0xC744, 0x20, 0xC801, 0xC6A9, 0xD569, 0xB2C8, 0xB2E4, 0x2E]),
     (''blocklists.caption'', uni [0xC678, 0xBD80, 0x20, 0xCC28, 0xB2E8, 0x20, 0xBAA9, 0xB85D, 0x20, 0xC18C, 0xC2A4]),
     (''blocklists.col_source'', uni [0xC18C, 0xC2A4]),
     (''blocklists.col_status'', uni [0xC0C1, 0xD0DC]),
     (''blocklists.col_last_update'', uni [0xB9C8, 0xC9C0, 0xB9C9, 0x20, 0xC5C5, 0xB370, 0xC774, 0xD2B8]),
     (''blocklists.update_failed'', uni [0xC5C5, 0xB370, 0xC774, 0xD2B8, 0x20, 0xC2E4, 0xD328]),
     (''blocklists.active'', uni [0xD65C, 0xC131]),
     (''blocklists.disabled'', uni [0xBE44, 0xD65C, 0xC131]),
     (''blocklists.never'', uni [0xC5C6, 0xC74C]),
     (''blocklists.updating'', uni [0xC5C5, 0xB370, 0xC774, 0xD2B8, 0x20, 0xC911, 0x2026]),
     (''blocklists.update'', uni [0xC5C5, 0xB370, 0xC774, 0xD2B8]),
     (''blocklists.load_failed'', uni [0xCC28, 0xB2E8, 0x20, 0xBAA9, 0xB85D, 0xC744, 0x20, 0xBD88, 0xB7EC, 0xC624, 0xC9C0, 0x20, 0xBABB, 0xD588, 0xC2B5, 0xB2C8, 0xB2E4]),
     (''blocklists.add_failed'', uni [0xC18C, 0xC2A4, 0xB97C, 0x20, 0xCD94, 0xAC00, 0xD558, 0xC9C0, 0x20, 0xBABB, 0xD588, 0xC2B5, 0xB2C8, 0xB2E4]),
     (''blocklists.update_failed_msg'', uni [0xC18C, 0xC2A4, 0xB97C, 0x20, 0xC5C5, 0xB370, 0xC774, 0xD2B8, 0xD558, 0xC9C0, 0x20, 0xBABB, 0xD588, 0xC2B5, 0xB2C8, 0xB2E4]),
     (''blocklists.col_domains'', uni [0xB3C4, 0xBA54, 0xC778]),
     (''blocklists.local'', uni [0xB85C, 0xCEEC]),
     (''blocklists.enable'', uni [0xD65C, 0xC131, 0xD654]),
     (''blocklists.disable'', uni [0xBE44, 0xD65C, 0xC131, 0xD654]),
     (''blocklists.toggle_failed'', uni [0xC18C, 0xC2A4, 0xB97C, 0x20, 0xC804, 0xD658, 0xD558, 0xC9C0, 0x20, 0xBABB, 0xD588, 0xC2B5, 0xB2C8, 0xB2E4]),
     (''blocklists.edit_content'', uni [0xCF58, 0xD150, 0xCE20, 0x20, 0xD3B8, 0xC9D1]),
     (''blocklists.edit_content_aria'', uni [0xCC28, 0xB2E8, 0x20, 0xBAA9, 0xB85D, 0x20, 0xCF58, 0xD150, 0xCE20, 0x20, 0xD3B8, 0xC9D1]),
     (''blocklists.edit_content_title'', uni [0xCC28, 0xB2E8, 0x20, 0xBAA9, 0xB85D, 0x20, 0xB3C4, 0xBA54, 0xC778, 0x20, 0xD3B8, 0xC9D1]),
     (''blocklists.edit_content_text'', uni [0xD55C, 0x20, 0xC904, 0xC5D0, 0x20, 0xD558, 0xB098, 0xC758, 0x20, 0xB3C4, 0xBA54, 0xC778, 0xC744, 0x20, 0xC785, 0xB825, 0xD558, 0xC138, 0xC694, 0x2E, 0x20] @ ''0.0.0.0'' @ uni [0xC73C, 0xB85C, 0x20, 0xC2DC, 0xC791, 0xD558, 0xB294, 0x20, 0xC904, 0x20, 0xB610, 0xB294, 0x20, 0xC8FC, 0xC11D, 0xC740, 0x20, 0xD638, 0xC2A4, 0xD2B8, 0x20, 0xD56D, 0xBAA9, 0xC73C, 0xB85C, 0x20, 0xCC98, 0xB9AC, 0xB429, 0xB2C8, 0xB2E4, 0x2E]),
     (''blocklists.domains_label'', uni [0xB3C4, 0xBA54, 0xC778]),
     (''blocklists.saving'', uni [0xC800, 0xC7A5, 0x20, 0xC911, 0x2026]),
     (''blocklists.save'', uni [0xC800, 0xC7A5]),
     (''blocklists.content_save_failed'', uni [0xCF58, 0xD150, 0xCE20, 0xB97C, 0x20, 0xC800, 0xC7A5, 0xD558, 0xC9C0, 0x20, 0xBABB, 0xD588, 0xC2B5, 0xB2C8, 0xB2E4]),
     (''blocklists.delete'', uni [0xC0AD, 0xC81C]),
     (''blocklists.confirm_delete'', uni [0xD655, 0xC778]),
     (''blocklists.delete_failed'', uni [0xC18C, 0xC2A4, 0xB97C, 0x20, 0xC0AD, 0xC81C, 0xD558, 0xC9C0, 0x20, 0xBABB, 0xD588, 0xC2B5, 0xB2C8, 0xB2E4]),
     (''zones.count'', uni [0xB85C, 0xCEEC, 0x20, 0xC874]),
     (''zones.count_one'', uni [0xB85C, 0xCEEC, 0x20, 0xC874]),
     (''zones.local_authority'', uni [0xB85C, 0xCEEC, 0x20, 0xAD8C, 0xC704]),
     (''zones.reload'', uni [0xC874, 0x20, 0xC0C8, 0xB85C, 0xACE0, 0xCE68]),
     (''zones.add_zone'', uni [0xC874, 0x20, 0xCD94, 0xAC00]),
     (''zones.error_stale'', uni [0xB9C8, 0xC9C0, 0xB9C9, 0xC73C, 0xB85C, 0x20, 0xB85C, 0xB4DC, 0xB41C, 0x20, 0xC874, 0xC744, 0x20, 0xD45C, 0xC2DC, 0xD569, 0xB2C8, 0xB2E4, 0x2E, 0x20, 0xBCC0, 0xACBD, 0x20, 0xC804, 0xC5D0, 0x20, 0xC0C8, 0xB85C, 0xACE0, 0xCE68, 0xD558, 0xC138, 0xC694, 0x2E]),
     (''zones.error_retry'', uni [0xC0C8, 0xB85C, 0xACE0, 0xCE68, 0xD558, 0xC5EC, 0x20, 0xB2E4, 0xC2DC, 0x20, 0xC2DC, 0xB3C4, 0xD558, 0xC138, 0xC694, 0x2E]),
     (''zones.reload_before_retry'', uni [0xC7AC, 0xC2DC, 0xB3C4, 0x20, 0xC804, 0xC5D0, 0x20, 0xC874, 0xC744, 0x20, 0xC0C8, 0xB85C, 0xACE0, 0xCE68, 0xD558, 0xC138, 0xC694, 0x2E]),
     (''zones.loading'', uni [0xB85C, 0xCEEC, 0x20, 0xC874, 0x20, 0xBD88, 0xB7EC, 0xC624, 0xB294, 0x20, 0xC911, 0x2026]),
     (''zones.empty_title'', uni [0xB124, 0xD2B8, 0xC6CC, 0xD06C, 0xC5D0, 0x20, 0xC775, 0xC219, 0xD55C, 0x20, 0xC774, 0xB984, 0xC744, 0x20, 0xC9C0, 0xC815, 0xD558, 0xC138, 0xC694]),
     (''zones.empty_text'', ''home.arpa'' @ uni [0xC640, 0x20, 0xAC19, 0xC740, 0x20, 0xC874, 0xC744, 0x20, 0xB9CC, 0xB4E4, 0xACE0, 0x20, 0xB77C, 0xC6B0, 0xD130, 0x2C, 0x20, 0xC11C, 0xBE44, 0xC2A4, 0x2C, 0x20, 0xB514, 0xBC14, 0xC774, 0xC2A4, 0xC758, 0x20, 0xB808, 0xCF54, 0xB4DC, 0xB97C, 0x20, 0xCD94, 0xAC00, 0xD569, 0xB2C8, 0xB2E4, 0x2E]),
     (''zones.create_first'', uni [0xCCAB, 0x20, 0xBC88, 0xC9F8, 0x20, 0xC874, 0x20, 0xB9CC, 0xB4E4, 0xAE30]),
     (''zones.filter_aria'', uni [0xC874, 0x20, 0xD544, 0xD130]),
     (''zones.filter_placeholder'', uni [0xC874, 0x20, 0xAC80, 0xC0C9, 0x2026]),
     (''zones.nav_aria'', uni [0xB85C, 0xCEEC, 0x20, 0xC874]),
     (''zones.records_custom'', uni [0xC0AC, 0xC6A9, 0xC790, 0x20, 0xC815, 0xC758, 0x20, 0xB808, 0xCF54, 0xB4DC]),
     (''zones.no_matching'', uni [0xC77C, 0xCE58, 0xD558, 0xB294, 0x20, 0xC874, 0xC774, 0x20, 0xC5C6, 0xC2B5, 0xB2C8, 0xB2E4, 0x2E]),
     (''zones.authoritative_eyebrow'', uni [0xAD8C, 0xC704, 0x20, 0xC874]),
     (''zones.revision'', uni [0xB9AC, 0xBE44, 0xC804]),
     (''zones.add_record'', uni [0xB808, 0xCF54, 0xB4DC, 0x20, 0xCD94, 0xAC00]),
     (''zones.delete_zone_aria'', uni [0xC874, 0x20, 0xC0AD, 0xC81C]),
     (''zones.primary_ns'', uni [0xD504, 0xB77C, 0xC774, 0xBA38, 0xB9AC, 0x20] @ ''NS''),
     (''zones.contact'', uni [0xC5F0, 0xB77D, 0xCC98]),
     (''zones.delete_record_confirm'', uni [0xB808, 0xCF54, 0xB4DC, 0x20, 0xC0AD, 0xC81C]),
     (''zones.delete_zone_confirm'', uni [0xBC0F, 0x20, 0xBAA8, 0xB4E0]),
     (''zones.delete_zone_confirm2'', uni [0xB808, 0xCF54, 0xB4DC, 0x3F, 0x20, 0xC774, 0x20, 0xC791, 0xC5C5, 0xC740, 0x20, 0xB418, 0xB3CC, 0xB9B4, 0x20, 0xC218, 0x20, 0xC5C6, 0xC2B5, 0xB2C8, 0xB2E4, 0x2E]),
     (''zones.deleting'', uni [0xC0AD, 0xC81C, 0x20, 0xC911, 0x2026]),
     (''zones.delete_record_perm'', uni [0xB808, 0xCF54, 0xB4DC, 0x20, 0xC644, 0xC804, 0xD788, 0x20, 0xC0AD, 0xC81C]),
     (''zones.delete_zone_perm'', uni [0xC874, 0x20, 0xC644, 0xC804, 0xD788, 0x20, 0xC0AD, 0xC81C]),
     (''zones.cancel_deletion'', uni [0xC0AD, 0xC81C, 0x20, 0xCDE8, 0xC18C]),
     (''zones.record_saved'', uni [0xB808, 0xCF54, 0xB4DC, 0xAC00, 0x20, 0xC800, 0xC7A5, 0xB418, 0xC5C8, 0xC2B5, 0xB2C8, 0xB2E4, 0x2E, 0x20] @ ''DNS '' @ uni [0xBCC0, 0xACBD, 0x20, 0xC0AC, 0xD56D, 0xC774, 0x20, 0xC801, 0xC6A9, 0xB429, 0xB2C8, 0xB2E4, 0x2E]),
     (''zones.record_deleted'', uni [0xB808, 0xCF54, 0xB4DC, 0xAC00, 0x20, 0xC0AD, 0xC81C, 0xB418, 0xC5C8, 0xC2B5, 0xB2C8, 0xB2E4, 0x2E, 0x20] @ ''DNS '' @ uni [0xBCC0, 0xACBD, 0x20, 0xC0AC, 0xD56D, 0xC774, 0x20, 0xC801, 0xC6A9, 0xB429, 0xB2C8, 0xB2E4, 0x2E]),
     (''zones.zone_deleted'', uni [0xC874, 0xACFC, 0x20, 0xD574, 0xB2F9, 0x20, 0xB808, 0xCF54, 0xB4DC, 0xAC00, 0x20, 0xC0AD, 0xC81C, 0xB418, 0xC5C8, 0xC2B5, 0xB2C8, 0xB2E4, 0x2E]),
     (''zones.zone_created'', uni [0xC874, 0xC774, 0x20, 0xC0DD, 0xC131, 0xB418, 0xC5C8, 0xC2B5, 0xB2C8, 0xB2E4, 0x2E, 0x20, 0xB808, 0xCF54, 0xB4DC, 0xB97C, 0x20, 0xCD94, 0xAC00, 0xD558, 0xC5EC, 0x20, 0xC0AC, 0xC6A9, 0xC744, 0x20, 0xC2DC, 0xC791, 0xD558, 0xC138, 0xC694, 0x2E]),
     (''zones.delete_failed'', uni [0xC0AD, 0xC81C, 0xC5D0, 0x20, 0xC2E4, 0xD328, 0xD588, 0xC2B5, 0xB2C8, 0xB2E4]),
     (''zones.footnote'', uni [0xB85C, 0xCEEC, 0x20, 0xC751, 0xB2F5, 0xC740, 0x20, 0xD3EC, 0xC6CC, 0xB529, 0xBCF4, 0xB2E4, 0x20, 0xC6B0, 0xC120, 0xD569, 0xB2C8, 0xB2E4, 0x2E, 0x20, 0xB514, 0xBC14, 0xC774, 0xC2A4, 0xB294, 0x20] @ ''TTL'' @ uni [0xC774, 0x20, 0xB9CC, 0xB8CC, 0xB420, 0x20, 0xB54C, 0xAE4C, 0xC9C0, 0x20, 0xC774, 0xC804, 0x20, 0xC751, 0xB2F5, 0xC744, 0x20, 0xC720, 0xC9C0, 0xD560, 0x20, 0xC218, 0x20, 0xC788, 0xC2B5, 0xB2C8, 0xB2E4, 0x2E]),
     (''zones.record_form_edit_aria'', ''DNS '' @ uni [0xB808, 0xCF54, 0xB4DC] @ '' '' @ uni [0xD3B8, 0xC9D1]),
     (''zones.record_form_add_aria'', ''DNS '' @ uni [0xB808, 0xCF54, 0xB4DC] @ '' '' @ uni [0xCD94, 0xAC00])]\<close>

definition dict_ko_4 :: text_table where
  \<open>dict_ko_4 = [
     (''zones.edit_record'', uni [0xB808, 0xCF54, 0xB4DC, 0x20, 0xD3B8, 0xC9D1]),
     (''zones.add_record_form'', uni [0xB808, 0xCF54, 0xB4DC, 0x20, 0xCD94, 0xAC00]),
     (''zones.changes_apply'', uni [0xBCC0, 0xACBD, 0x20, 0xC0AC, 0xD56D, 0x20, 0xC801, 0xC6A9, 0x20, 0xB300, 0xC0C1]),
     (''zones.record_name'', uni [0xB808, 0xCF54, 0xB4DC, 0x20, 0xC774, 0xB984]),
     (''zones.router_or_at'', ''router '' @ uni [0xB610, 0xB294] @ '' @''),
     (''zones.relative_name_hint'', uni [0xC0C1, 0xB300, 0x20, 0xC774, 0xB984, 0x2C, 0x20, 0xC874, 0xC758, 0x20, 0xACBD, 0xC6B0, 0x20] @ ''@, '' @ uni [0xB610, 0xB294, 0x20, 0xB9C8, 0xCE68, 0xD45C, 0xB85C, 0x20, 0xB05D, 0xB098, 0xB294, 0x20, 0xC808, 0xB300, 0x20, 0xC774, 0xB984, 0x2E]),
     (''zones.record_type'', uni [0xB808, 0xCF54, 0xB4DC, 0x20, 0xC720, 0xD615]),
     (''zones.ttl_seconds'', ''TTL ('' @ uni [0xCD08] @ '')''),
     (''zones.priority'', uni [0xC6B0, 0xC120, 0xC21C, 0xC704]),
     (''zones.ipv4_address'', ''IPv4 '' @ uni [0xC8FC, 0xC18C]),
     (''zones.ipv6_address'', ''IPv6 '' @ uni [0xC8FC, 0xC18C]),
     (''zones.text_value'', uni [0xD14D, 0xC2A4, 0xD2B8, 0x20, 0xAC12]),
     (''zones.target_hostname'', uni [0xB300, 0xC0C1, 0x20, 0xD638, 0xC2A4, 0xD2B8, 0x20, 0xC774, 0xB984]),
     (''zones.invalid_ttl'', uni [0xC720, 0xD6A8, 0xD55C, 0x20] @ ''TTL'' @ uni [0xACFC, 0x20, 0xC6B0, 0xC120, 0xC21C, 0xC704, 0x20, 0xAC12, 0xC744, 0x20, 0xC785, 0xB825, 0xD558, 0xC138, 0xC694, 0x2E]),
     (''zones.record_conflict'', uni [0xC774, 0x20, 0xC874, 0xC774, 0x20, 0xB2E4, 0xB978, 0x20, 0xACF3, 0xC5D0, 0xC11C, 0x20, 0xBCC0, 0xACBD, 0xB418, 0xC5C8, 0xC2B5, 0xB2C8, 0xB2E4, 0x2E, 0x20, 0xCD08, 0xC548, 0xC740, 0x20, 0xBCC0, 0xACBD, 0xB418, 0xC9C0, 0x20, 0xC54A, 0xC558, 0xC2B5, 0xB2C8, 0xB2E4, 0x2E, 0x20, 0xC774, 0x20, 0xC591, 0xC2DD, 0xC744, 0x20, 0xB2EB, 0xACE0, 0x20, 0xC874, 0xC744, 0x20, 0xC0C8, 0xB85C, 0xACE0, 0xCE68, 0xD55C, 0x20, 0xD6C4, 0x20, 0xB2E4, 0xC2DC, 0x20, 0xC2DC, 0xB3C4, 0xD558, 0xC138, 0xC694, 0x2E]),
     (''zones.save_failed'', uni [0xB808, 0xCF54, 0xB4DC, 0xB97C, 0x20, 0xC800, 0xC7A5, 0xD558, 0xC9C0, 0x20, 0xBABB, 0xD588, 0xC2B5, 0xB2C8, 0xB2E4]),
     (''zones.saving'', uni [0xC800, 0xC7A5, 0x20, 0xC911, 0x2026]),
     (''zones.save_record'', uni [0xB808, 0xCF54, 0xB4DC, 0x20, 0xC800, 0xC7A5]),
     (''zones.cancel'', uni [0xCDE8, 0xC18C]),
     (''zones.no_records_title'', uni [0xC544, 0xC9C1, 0x20, 0xC0AC, 0xC6A9, 0xC790, 0x20, 0xC815, 0xC758, 0x20, 0xB808, 0xCF54, 0xB4DC, 0xAC00, 0x20, 0xC5C6, 0xC2B5, 0xB2C8, 0xB2E4]),
     (''zones.no_records_text'', uni [0xCCAB, 0x20, 0xBC88, 0xC9F8, 0x20, 0xB808, 0xCF54, 0xB4DC, 0xB97C, 0x20, 0xCD94, 0xAC00, 0xD558, 0xC138, 0xC694, 0x2E, 0x20] @ ''SOA'' @ uni [0xC640, 0x20, 0xD3F4, 0xBC31, 0x20, 0xC815, 0xC810, 0x20] @ ''NS'' @ uni [0xB294, 0x20, 0xC790, 0xB3D9, 0xC73C, 0xB85C, 0x20, 0xAD00, 0xB9AC, 0xB429, 0xB2C8, 0xB2E4, 0x2E]),
     (''zones.records_aria'', ''DNS '' @ uni [0xB808, 0xCF54, 0xB4DC]),
     (''zones.col_name'', uni [0xC774, 0xB984]),
     (''zones.col_type'', uni [0xC720, 0xD615]),
     (''zones.col_value'', uni [0xAC12]),
     (''zones.col_ttl'', ''TTL''),
     (''zones.col_actions'', uni [0xC791, 0xC5C5]),
     (''zones.edit_aria'', uni [0xD3B8, 0xC9D1]),
     (''zones.delete_aria'', uni [0xC0AD, 0xC81C]),
     (''zones.record_word'', uni [0xB808, 0xCF54, 0xB4DC]),
     (''zones.create_title'', uni [0xB85C, 0xCEEC, 0x20, 0xC874, 0x20, 0xC0DD, 0xC131]),
     (''zones.create_text'', ''Velora'' @ uni [0xAC00, 0x20, 0xC774, 0x20, 0xC874, 0xC5D0, 0x20, 0xC751, 0xB2F5, 0xD558, 0xACE0, 0x20, 0xB124, 0xD2B8, 0xC6CC, 0xD06C, 0x20, 0xB0B4, 0xC758, 0x20, 0xC54C, 0x20, 0xC218, 0x20, 0xC5C6, 0xB294, 0x20, 0xC774, 0xB984, 0xC744, 0x20, 0xC720, 0xC9C0, 0xD569, 0xB2C8, 0xB2E4, 0x2E]),
     (''zones.zone_name'', uni [0xC874, 0x20, 0xC774, 0xB984]),
     (''zones.authority_settings'', uni [0xAD8C, 0xC704, 0x20, 0xC124, 0xC815]),
     (''zones.primary_nameserver'', uni [0xD504, 0xB77C, 0xC774, 0xBA38, 0xB9AC, 0x20, 0xB124, 0xC784, 0xC11C, 0xBC84]),
     (''zones.contact_mailbox'', uni [0xC5F0, 0xB77D, 0xCC98] @ '' (DNS '' @ uni [0xBA54, 0xC77C, 0xD568] @ '')''),
     (''zones.creating'', uni [0xC0DD, 0xC131, 0x20, 0xC911, 0x2026]),
     (''zones.create_zone'', uni [0xC874, 0x20, 0xC0DD, 0xC131]),
     (''zones.create_zone_aria'', ''DNS '' @ uni [0xC874] @ '' '' @ uni [0xC0DD, 0xC131]),
     (''zones.create_failed'', uni [0xC874, 0xC744, 0x20, 0xC0DD, 0xC131, 0xD558, 0xC9C0, 0x20, 0xBABB, 0xD588, 0xC2B5, 0xB2C8, 0xB2E4]),
     (''zones.load_failed'', uni [0xC874, 0xC744, 0x20, 0xBD88, 0xB7EC, 0xC624, 0xC9C0, 0x20, 0xBABB, 0xD588, 0xC2B5, 0xB2C8, 0xB2E4]),
     (''updates.loading'', uni [0xC5C5, 0xB370, 0xC774, 0xD2B8, 0x20, 0xC0C1, 0xD0DC, 0x20, 0xBD88, 0xB7EC, 0xC624, 0xB294, 0x20, 0xC911, 0x2E, 0x2E, 0x2E]),
     (''updates.viewer_readonly'', uni [0xBDF0, 0xC5B4, 0xB85C, 0x20, 0xB85C, 0xADF8, 0xC778, 0xD588, 0xC2B5, 0xB2C8, 0xB2E4, 0x2E, 0x20, 0xC5C5, 0xB370, 0xC774, 0xD2B8, 0x20, 0xC694, 0xCCAD, 0xC740, 0x20, 0xC77D, 0xAE30, 0x20, 0xC804, 0xC6A9, 0xC785, 0xB2C8, 0xB2E4, 0x2E]),
     (''updates.in_progress'', uni [0xC5C5, 0xB370, 0xC774, 0xD2B8, 0x20, 0xC9C4, 0xD589, 0x20, 0xC911, 0x2E, 0x2E, 0x2E]),
     (''updates.history'', uni [0xC5C5, 0xB370, 0xC774, 0xD2B8, 0x20, 0xAE30, 0xB85D]),
     (''updates.no_history'', uni [0xC544, 0xC9C1, 0x20, 0xAE30, 0xB85D, 0xB41C, 0x20, 0xC5C5, 0xB370, 0xC774, 0xD2B8, 0xAC00, 0x20, 0xC5C6, 0xC2B5, 0xB2C8, 0xB2E4, 0x2E]),
     (''updates.col_from'', ''From''),
     (''updates.col_to'', ''To''),
     (''updates.col_state'', uni [0xC0C1, 0xD0DC]),
     (''updates.col_started'', uni [0xC2DC, 0xC791]),
     (''updates.state_idle'', uni [0xB300, 0xAE30]),
     (''updates.state_downloading'', uni [0xB2E4, 0xC6B4, 0xB85C, 0xB4DC, 0x20, 0xC911]),
     (''updates.state_verifying'', uni [0xAC80, 0xC99D, 0x20, 0xC911]),
     (''updates.state_installing'', uni [0xC124, 0xCE58, 0x20, 0xC911]),
     (''updates.state_readiness'', uni [0xC900, 0xBE44, 0x20, 0xB300, 0xAE30, 0x20, 0xC911]),
     (''updates.state_completed'', uni [0xC644, 0xB8CC]),
     (''updates.state_rolled_back'', uni [0xB864, 0xBC31, 0xB428]),
     (''updates.state_failed'', uni [0xC2E4, 0xD328]),
     (''updates.load_failed'', uni [0xC5C5, 0xB370, 0xC774, 0xD2B8, 0x20, 0xC0C1, 0xD0DC, 0xB97C, 0x20, 0xBD88, 0xB7EC, 0xC624, 0xC9C0, 0x20, 0xBABB, 0xD588, 0xC2B5, 0xB2C8, 0xB2E4]),
     (''updates.request_failed'', uni [0xC5C5, 0xB370, 0xC774, 0xD2B8, 0x20, 0xC694, 0xCCAD, 0xC5D0, 0x20, 0xC2E4, 0xD328, 0xD588, 0xC2B5, 0xB2C8, 0xB2E4]),
     (''updates.check'', ''Check for updates''),
     (''updates.available'', ''Update available''),
     (''updates.up_to_date'', ''The system is up to date.''),
     (''updates.progress'', ''Update progress''),
     (''updates.rollback_used'', ''The previous version was restored.''),
     (''updates.rollback_recovered'', ''The previous version was restored and is healthy.''),
     (''backup.sqlite_only'', uni [0xC554, 0xD638, 0xD654, 0x20, 0xB0B4, 0xBCF4, 0xB0B4, 0xAE30, 0xB294, 0x20, 0xD604, 0xC7AC, 0x20] @ ''SQLite '' @ uni [0xC124, 0xCE58, 0xB9CC, 0x20, 0xC9C0, 0xC6D0, 0xD569, 0xB2C8, 0xB2E4, 0x2E]),
     (''backup.create_title'', uni [0xC554, 0xD638, 0xD654, 0x20, 0xBC31, 0xC5C5]),
     (''backup.create_hint'', uni [0xC124, 0xC815, 0xACFC, 0x20, 0xC601, 0xAD6C, 0x20, 0xB370, 0xC774, 0xD130, 0xC758, 0x20, 0xBC84, 0xC804, 0x20, 0xBC31, 0xC5C5, 0xC744, 0x20, 0xB2E4, 0xC6B4, 0xB85C, 0xB4DC, 0xD569, 0xB2C8, 0xB2E4, 0x2E, 0x20, 0xC554, 0xD638, 0xB97C, 0x20, 0xC548, 0xC804, 0xD558, 0xAC8C, 0x20, 0xBCF4, 0xAD00, 0xD558, 0xC138, 0xC694, 0x2E]),
     (''backup.passphrase'', uni [0xC554, 0xD638]),
     (''backup.creating'', uni [0xC0DD, 0xC131, 0x20, 0xC911, 0x2026]),
     (''backup.create'', uni [0xC0DD, 0xC131, 0x20, 0xBC0F, 0x20, 0xB2E4, 0xC6B4, 0xB85C, 0xB4DC]),
     (''backup.create_failed'', uni [0xBC31, 0xC5C5, 0xC744, 0x20, 0xC0DD, 0xC131, 0xD560, 0x20, 0xC218, 0x20, 0xC5C6, 0xC2B5, 0xB2C8, 0xB2E4]),
     (''backup.restore_hint'', uni [0xC11C, 0xBE44, 0xC2A4, 0xB97C, 0x20, 0xC911, 0xC9C0, 0xD55C, 0x20, 0xC0C1, 0xD0DC, 0xC5D0, 0xC11C, 0x20, 0xC554, 0xD638, 0xD654, 0x20, 0xBC31, 0xC5C5, 0xC744, 0x20, 0xBCF5, 0xC6D0, 0xD558, 0xC138, 0xC694, 0x2E, 0x20, 0xBA85, 0xB839, 0xC740, 0x20, 0xD604, 0xC7AC, 0x20, 0xC124, 0xCE58, 0xC758, 0x20, 0xC548, 0xC804, 0x20, 0xBCF5, 0xC0AC, 0xBCF8, 0xC744, 0x20, 0xBCF4, 0xAD00, 0xD569, 0xB2C8, 0xB2E4, 0x2E]),
     (''backup.loading'', uni [0xBC31, 0xC5C5, 0x20, 0xC0C1, 0xD0DC, 0x20, 0xBD88, 0xB7EC, 0xC624, 0xB294, 0x20, 0xC911, 0x2E, 0x2E, 0x2E]),
     (''backup.status_title'', uni [0xBC31, 0xC5C5, 0x20, 0xC0C1, 0xD0DC]),
     (''backup.database'', uni [0xB370, 0xC774, 0xD130, 0xBCA0, 0xC774, 0xC2A4, 0x3A]),
     (''backup.last_backup'', uni [0xB9C8, 0xC9C0, 0xB9C9, 0x20, 0xBC31, 0xC5C5, 0x3A]),
     (''backup.no_backup'', uni [0xC544, 0xC9C1, 0x20, 0xAE30, 0xB85D, 0xB41C, 0x20, 0xBC31, 0xC5C5, 0xC774, 0x20, 0xC5C6, 0xC2B5, 0xB2C8, 0xB2E4]),
     (''backup.verification_state'', uni [0xAC80, 0xC99D, 0x20, 0xC0C1, 0xD0DC, 0x3A]),
     (''backup.state_unknown'', uni [0xC54C, 0x20, 0xC218, 0x20, 0xC5C6, 0xC74C]),
     (''backup.state_unverified'', uni [0xBBF8, 0xAC80, 0xC99D]),
     (''backup.state_verified'', uni [0xAC80, 0xC99D, 0xB428]),
     (''backup.verify_title'', uni [0xBC31, 0xC5C5, 0x20, 0xAC80, 0xC99D]),
     (''backup.verify_text'', uni [0xBC31, 0xC5C5, 0x20, 0xC0AC, 0xBCF8, 0xC744, 0x20, 0xC11C, 0xBC84, 0x20, 0xB370, 0xC774, 0xD130, 0xBCA0, 0xC774, 0xC2A4, 0x20, 0xC606, 0xC5D0, 0x20, 0xBC30, 0xCE58, 0xD558, 0xC5EC, 0x20, 0xBB34, 0xACB0, 0xC131, 0xC744, 0x20, 0xAC80, 0xC99D, 0xD569, 0xB2C8, 0xB2E4, 0x2E]),
     (''backup.file_name'', uni [0xBC31, 0xC5C5, 0x20, 0xD30C, 0xC77C, 0x20, 0xC774, 0xB984]),
     (''backup.file_hint'', uni [0xBC31, 0xC5C5, 0xC744, 0x20] @ ''Velora '' @ uni [0xC11C, 0xBC84, 0xC758, 0x20, 0xB370, 0xC774, 0xD130, 0xBCA0, 0xC774, 0xC2A4, 0x20, 0xC606, 0xC5D0, 0x20, 0xBC30, 0xCE58, 0xD558, 0xC138, 0xC694, 0x2E, 0x20, 0xD30C, 0xC77C, 0x20, 0xC774, 0xB984, 0xB9CC, 0x20, 0xC0AC, 0xC6A9, 0xB429, 0xB2C8, 0xB2E4, 0x2E, 0x20, 0xBE0C, 0xB77C, 0xC6B0, 0xC800, 0x20, 0xD30C, 0xC77C, 0xC774, 0xB098, 0x20, 0xB2E4, 0xB978, 0x20, 0xB514, 0xB809, 0xD1A0, 0xB9AC, 0xB294, 0x20, 0xC5EC, 0xAE30, 0xC11C, 0x20, 0xD655, 0xC778, 0xD560, 0x20, 0xC218, 0x20, 0xC5C6, 0xC2B5, 0xB2C8, 0xB2E4, 0x2E]),
     (''backup.viewer_readonly'', uni [0xBDF0, 0xC5B4, 0xB85C, 0x20, 0xB85C, 0xADF8, 0xC778, 0xD588, 0xC2B5, 0xB2C8, 0xB2E4, 0x2E, 0x20, 0xBC31, 0xC5C5, 0x20, 0xAC80, 0xC99D, 0xC740, 0x20, 0xC77D, 0xAE30, 0x20, 0xC804, 0xC6A9, 0xC785, 0xB2C8, 0xB2E4, 0x2E]),
     (''backup.verifying'', uni [0xAC80, 0xC99D] @ '' '' @ uni [0xC911] @ ''...''),
     (''backup.verify'', uni [0xAC80, 0xC99D]),
     (''backup.valid'', uni [0xBC31, 0xC5C5, 0xC774, 0x20, 0xC720, 0xD6A8, 0xD569, 0xB2C8, 0xB2E4]),
     (''backup.invalid'', uni [0xBC31, 0xC5C5, 0xC774, 0x20, 0xC720, 0xD6A8, 0xD558, 0xC9C0, 0x20, 0xC54A, 0xC2B5, 0xB2C8, 0xB2E4]),
     (''backup.schema_version'', uni [0xC2A4, 0xD0A4, 0xB9C8, 0x20, 0xBC84, 0xC804, 0x3A]),
     (''backup.records'', uni [0xB808, 0xCF54, 0xB4DC, 0x20, 0xC218, 0x3A]),
     (''backup.instructions'', uni [0xBA85, 0xB839, 0xC904, 0xB85C, 0x20, 0xBCF5, 0xC6D0]),
     (''backup.native'', uni [0xB124, 0xC774, 0xD2F0, 0xBE0C, 0x20, 0xC124, 0xCE58]),
     (''backup.docker'', ''Docker Compose''),
     (''backup.online'', uni [0xC628, 0xB77C, 0xC778] @ '' '' @ uni [0xBC31, 0xC5C5] @ '' (SQLite)''),
     (''backup.load_failed'', uni [0xBC31, 0xC5C5, 0x20, 0xC0C1, 0xD0DC, 0xB97C, 0x20, 0xBD88, 0xB7EC, 0xC624, 0xC9C0, 0x20, 0xBABB, 0xD588, 0xC2B5, 0xB2C8, 0xB2E4]),
     (''backup.verify_failed'', uni [0xAC80, 0xC99D, 0xC5D0, 0x20, 0xC2E4, 0xD328, 0xD588, 0xC2B5, 0xB2C8, 0xB2E4]),
     (''backup.step_stop_service'', uni [0xC11C, 0xBE44, 0xC2A4, 0x20, 0xC911, 0xC9C0]),
     (''backup.step_create_backup'', uni [0xC77C, 0xAD00, 0xB41C, 0x20, 0xBC31, 0xC5C5, 0x20, 0xC0DD, 0xC131]),
     (''backup.step_restart_service'', uni [0xC11C, 0xBE44, 0xC2A4, 0x20, 0xB2E4, 0xC2DC, 0x20, 0xC2DC, 0xC791]),
     (''backup.step_stop_container'', uni [0xCEE8, 0xD14C, 0xC774, 0xB108, 0x20, 0xC911, 0xC9C0]),
     (''backup.step_backup_volume'', uni [0xBCFC, 0xB968, 0x20, 0xBC31, 0xC5C5]),
     (''backup.step_restart_container'', uni [0xCEE8, 0xD14C, 0xC774, 0xB108, 0x20, 0xB2E4, 0xC2DC, 0x20, 0xC2DC, 0xC791]),
     (''backup.step_online_backup'', ''SQLite '' @ uni [0xBC31, 0xC5C5, 0x20] @ ''API'' @ uni [0xB97C, 0x20, 0xC0AC, 0xC6A9, 0xD558, 0xC5EC, 0x20, 0xC77C, 0xAD00, 0xB41C, 0x20, 0xC628, 0xB77C, 0xC778, 0x20, 0xBC31, 0xC5C5, 0x20, 0xC0DD, 0xC131]),
     (''onboarding.welcome'', ''Velora DNS'' @ uni [0xC5D0] @ '' '' @ uni [0xC624, 0xC2E0] @ '' '' @ uni [0xAC83, 0xC744] @ '' '' @ uni [0xD658, 0xC601, 0xD569, 0xB2C8, 0xB2E4]),
     (''onboarding.complete_steps'', uni [0xC124, 0xCE58, 0xB97C, 0x20, 0xBCF4, 0xD638, 0xD558, 0xAE30, 0x20, 0xC704, 0xD574, 0x20, 0xB2E4, 0xC74C, 0x20, 0xB2E8, 0xACC4, 0xB97C, 0x20, 0xC644, 0xB8CC, 0xD558, 0xC138, 0xC694]),
     (''onboarding.dismiss'', uni [0xB2EB, 0xAE30]),
     (''onboarding.change_credentials'', uni [0xBD80, 0xD2B8, 0xC2A4, 0xD2B8, 0xB7A9, 0x20, 0xC778, 0xC99D, 0x20, 0xC815, 0xBCF4, 0x20, 0xBCC0, 0xACBD]),
     (''onboarding.change_credentials_text'', uni [0xAE30, 0xBCF8, 0x20, 0xAD00, 0xB9AC, 0xC790, 0x20, 0xBE44, 0xBC00, 0xBC88, 0xD638, 0xB294, 0x20, 0xCCAB, 0x20, 0xB85C, 0xADF8, 0xC778, 0x20, 0xD6C4, 0x20, 0xBCC0, 0xACBD, 0xD574, 0xC57C, 0x20, 0xD569, 0xB2C8, 0xB2E4, 0x2E]),
     (''onboarding.review_dns'', ''DNS '' @ uni [0xC124, 0xC815] @ '' '' @ uni [0xD655, 0xC778]),
     (''onboarding.review_dns_text'', uni [0xB124, 0xD2B8, 0xC6CC, 0xD06C, 0xC5D0, 0x20, 0xB300, 0xD574, 0x20, 0xC5C5, 0xC2A4, 0xD2B8, 0xB9BC, 0x20, 0xC11C, 0xBC84, 0xC640, 0x20, 0xD5C8, 0xC6A9, 0xB41C, 0x20, 0xD074, 0xB77C, 0xC774, 0xC5B8, 0xD2B8, 0xAC00, 0x20, 0xC62C, 0xBC14, 0xB974, 0xAC8C, 0x20, 0xAD6C, 0xC131, 0xB418, 0xC5B4, 0x20, 0xC788, 0xB294, 0xC9C0, 0x20, 0xD655, 0xC778, 0xD558, 0xC138, 0xC694, 0x2E]),
     (''onboarding.restrict_clients'', uni [0xD074, 0xB77C, 0xC774, 0xC5B8, 0xD2B8, 0x20, 0xC811, 0xADFC, 0x20, 0xC81C, 0xD55C]),
     (''onboarding.restrict_clients_text'', ''allowed_clients CIDR'' @ uni [0xC744] @ '' '' @ uni [0xAD6C, 0xC131, 0xD558, 0xC5EC] @ '' '' @ uni [0xB9AC, 0xC878, 0xBC84, 0xB97C] @ '' '' @ uni [0xC0AC, 0xC6A9, 0xD560] @ '' '' @ uni [0xC218] @ '' '' @ uni [0xC788, 0xB294] @ '' '' @ uni [0xB124, 0xD2B8, 0xC6CC, 0xD06C, 0xB97C] @ '' '' @ uni [0xC81C, 0xD55C, 0xD569, 0xB2C8, 0xB2E4] @ ''.''),
     (''onboarding.verify_db'', uni [0xB370, 0xC774, 0xD130, 0xBCA0, 0xC774, 0xC2A4, 0x20, 0xC2A4, 0xD1A0, 0xB9AC, 0xC9C0, 0x20, 0xAC80, 0xC99D]),
     (''onboarding.verify_db_text'', uni [0xB370, 0xC774, 0xD130, 0xBCA0, 0xC774, 0xC2A4, 0x20, 0xACBD, 0xB85C, 0xAC00, 0x20, 0xCDA9, 0xBD84, 0xD55C, 0x20, 0xACF5, 0xAC04, 0xC774, 0x20, 0xC788, 0xB294, 0x20, 0xC2E0, 0xB8B0, 0xD560, 0x20, 0xC218, 0x20, 0xC788, 0xB294, 0x20, 0xC2A4, 0xD1A0, 0xB9AC, 0xC9C0, 0xC5D0, 0x20, 0xC788, 0xB294, 0xC9C0, 0x20, 0xD655, 0xC778, 0xD558, 0xC138, 0xC694, 0x2E])]\<close>

definition dict_ko_5 :: text_table where
  \<open>dict_ko_5 = [
     (''onboarding.update_policy'', uni [0xC5C5, 0xB370, 0xC774, 0xD2B8, 0x20, 0xC815, 0xCC45, 0x20, 0xAD6C, 0xC131]),
     (''onboarding.update_policy_text'', uni [0xC5C5, 0xB370, 0xC774, 0xD2B8, 0x20, 0xC13C, 0xD130, 0xB97C, 0x20, 0xD655, 0xC778, 0xD558, 0xC5EC, 0x20, 0xC124, 0xCE58, 0xB97C, 0x20, 0xCD5C, 0xC2E0, 0x20, 0xC0C1, 0xD0DC, 0xB85C, 0x20, 0xC720, 0xC9C0, 0xD558, 0xB294, 0x20, 0xBC29, 0xBC95, 0xC744, 0x20, 0xC774, 0xD574, 0xD558, 0xC138, 0xC694, 0x2E]),
     (''app.nav.dhcp'', ''DHCP''),
     (''app.title.dhcp'', ''DHCP '' @ uni [0xC11C, 0xBC84]),
     (''dhcp.loading'', ''DHCP '' @ uni [0xB370, 0xC774, 0xD130, 0x20, 0xBD88, 0xB7EC, 0xC624, 0xB294, 0x20, 0xC911, 0x2026]),
     (''dhcp.load_failed'', ''Unable to load DHCP data''),
     (''dhcp.create_pool_failed'', ''Unable to create pool''),
     (''dhcp.delete_pool_failed'', ''Unable to delete pool''),
     (''dhcp.create_reservation_failed'', ''Unable to create reservation''),
     (''dhcp.delete_reservation_failed'', ''Unable to delete reservation''),
     (''dhcp.delete_lease_failed'', ''Unable to delete lease''),
     (''dhcp.pools'', ''DHCP '' @ uni [0xD480]),
     (''dhcp.add_pool'', uni [0xD480, 0x20, 0xCD94, 0xAC00]),
     (''dhcp.pool_name'', uni [0xD480, 0x20, 0xC774, 0xB984]),
     (''dhcp.interface'', uni [0xC778, 0xD130, 0xD398, 0xC774, 0xC2A4]),
     (''dhcp.subnet_cidr'', uni [0xC11C, 0xBE0C, 0xB137] @ '' (CIDR)''),
     (''dhcp.subnet'', uni [0xC11C, 0xBE0C, 0xB137]),
     (''dhcp.gateway'', uni [0xAC8C, 0xC774, 0xD2B8, 0xC6E8, 0xC774]),
     (''dhcp.dns_servers'', ''DNS '' @ uni [0xC11C, 0xBC84]),
     (''dhcp.lease_seconds'', uni [0xC784, 0xB300, 0x20, 0xC2DC, 0xAC04, 0x20, 0x28, 0xCD08, 0x29]),
     (''dhcp.leases_label'', uni [0xC784, 0xB300]),
     (''dhcp.create'', uni [0xC0DD, 0xC131]),
     (''dhcp.no_pools'', ''DHCP '' @ uni [0xD480, 0xC774, 0x20, 0xAD6C, 0xC131, 0xB418, 0xC9C0, 0x20, 0xC54A, 0xC558, 0xC2B5, 0xB2C8, 0xB2E4, 0x2E, 0x20, 0xC784, 0xB300, 0xB97C, 0x20, 0xC81C, 0xACF5, 0xD558, 0xB824, 0xBA74, 0x20, 0xD480, 0xC744, 0x20, 0xB9CC, 0xB4DC, 0xC138, 0xC694, 0x2E]),
     (''dhcp.reservations'', uni [0xC815, 0xC801, 0x20, 0xC608, 0xC57D]),
     (''dhcp.mac_address'', ''MAC '' @ uni [0xC8FC, 0xC18C]),
     (''dhcp.ip_address'', ''IP '' @ uni [0xC8FC, 0xC18C]),
     (''dhcp.hostname'', uni [0xD638, 0xC2A4, 0xD2B8, 0x20, 0xC774, 0xB984]),
     (''dhcp.add'', uni [0xCD94, 0xAC00]),
     (''dhcp.active_leases'', uni [0xD65C, 0xC131, 0x20, 0xC784, 0xB300]),
     (''dhcp.expires'', uni [0xB9CC, 0xB8CC]),
     (''dhcp.no_leases'', uni [0xD65C, 0xC131, 0x20, 0xC784, 0xB300, 0xAC00, 0x20, 0xC5C6, 0xC2B5, 0xB2C8, 0xB2E4, 0x2E]),
     (''dhcp.expired'', uni [0xB9CC, 0xB8CC, 0xB428]),
     (''dhcp.confirm_delete_pool'', uni [0xC774, 0x20, 0xD480, 0xACFC, 0x20, 0xBAA8, 0xB4E0, 0x20, 0xC608, 0xC57D, 0xC744, 0x20, 0xC0AD, 0xC81C, 0xD558, 0xC2DC, 0xACA0, 0xC2B5, 0xB2C8, 0xAE4C, 0x3F]),
     (''dhcp.name'', uni [0xC774, 0xB984]),
     (''app.nav.cluster'', uni [0xD074, 0xB7EC, 0xC2A4, 0xD130]),
     (''app.title.cluster'', uni [0xD074, 0xB7EC, 0xC2A4, 0xD130, 0x20, 0xAC1C, 0xC694]),
     (''cluster.loading'', uni [0xD074, 0xB7EC, 0xC2A4, 0xD130, 0x20, 0xB370, 0xC774, 0xD130, 0x20, 0xBD88, 0xB7EC, 0xC624, 0xB294, 0x20, 0xC911, 0x2026]),
     (''cluster.load_failed'', ''Unable to load cluster data''),
     (''cluster.name'', uni [0xC774, 0xB984]),
     (''cluster.status'', uni [0xC0C1, 0xD0DC]),
     (''cluster.version'', uni [0xBC84, 0xC804]),
     (''cluster.last_seen'', uni [0xB9C8, 0xC9C0, 0xB9C9, 0x20, 0xD655, 0xC778]),
     (''cluster.config_history'', uni [0xAD6C, 0xC131, 0x20, 0xAE30, 0xB85D]),
     (''cluster.no_versions'', uni [0xAE30, 0xB85D, 0xB41C, 0x20, 0xAD6C, 0xC131, 0x20, 0xBC84, 0xC804, 0xC774, 0x20, 0xC5C6, 0xC2B5, 0xB2C8, 0xB2E4, 0x2E]),
     (''cluster.hash'', uni [0xD574, 0xC2DC]),
     (''cluster.applied_by'', uni [0xC801, 0xC6A9, 0xC790]),
     (''cluster.applied_at'', uni [0xC801, 0xC6A9, 0x20, 0xC2DC, 0xC810]),
     (''app.nav.group_dns'', ''DNS''),
     (''app.nav.group_network'', uni [0xB124, 0xD2B8, 0xC6CC, 0xD06C]),
     (''app.nav.group_system'', uni [0xC2DC, 0xC2A4, 0xD15C]),
     (''app.menu_open'', uni [0xD0D0, 0xC0C9, 0x20, 0xC5F4, 0xAE30]),
     (''app.menu_close'', uni [0xD0D0, 0xC0C9, 0x20, 0xB2EB, 0xAE30]),
     (''app.theme_to_dark'', uni [0xB2E4, 0xD06C, 0x20, 0xD14C, 0xB9C8, 0xB85C, 0x20, 0xC804, 0xD658]),
     (''app.theme_to_light'', uni [0xB77C, 0xC774, 0xD2B8, 0x20, 0xD14C, 0xB9C8, 0xB85C, 0x20, 0xC804, 0xD658]),
     (''app.signed_in_as'', uni [0xB85C, 0xADF8, 0xC778, 0x20, 0xACC4, 0xC815]),
     (''app.subtitle.zones'', uni [0xB124, 0xD2B8, 0xC6CC, 0xD06C, 0xC758, 0x20, 0xC7A5, 0xCE58, 0xC640, 0x20, 0xC11C, 0xBE44, 0xC2A4, 0xB97C, 0x20, 0xC704, 0xD55C, 0x20, 0xAD8C, 0xD55C, 0x20, 0xC788, 0xB294, 0x20, 0xC774, 0xB984, 0x2E]),
     (''app.subtitle.queries'', uni [0xC774, 0x20, 0xB9AC, 0xC878, 0xBC84, 0xAC00, 0x20, 0xC751, 0xB2F5, 0xD55C, 0x20, 0xCD5C, 0xADFC, 0x20, 0xC870, 0xD68C, 0x2E]),
     (''app.subtitle.blocklists'', uni [0xCC28, 0xB2E8, 0xC73C, 0xB85C, 0x20, 0xC751, 0xB2F5, 0xD558, 0xB294, 0x20, 0xB3C4, 0xBA54, 0xC778, 0x20, 0xBAA9, 0xB85D, 0x2E]),
     (''app.subtitle.cache'', uni [0xBC18, 0xBCF5, 0x20, 0xC870, 0xD68C, 0xB97C, 0x20, 0xBE60, 0xB974, 0xAC8C, 0x20, 0xD558, 0xB294, 0x20, 0xBA54, 0xBAA8, 0xB9AC, 0x20, 0xB0B4, 0x20, 0xC751, 0xB2F5, 0x2E]),
     (''app.subtitle.settings'', uni [0xB9AC, 0xC878, 0xBC84, 0x2C, 0x20, 0xC6F9, 0x20, 0xC778, 0xD130, 0xD398, 0xC774, 0xC2A4, 0x20, 0xBC0F, 0x20, 0xAC1C, 0xC778, 0x20, 0xC124, 0xC815, 0x2E]),
     (''app.subtitle.updates'', uni [0xC124, 0xCE58, 0xB41C, 0x20, 0xBC84, 0xC804, 0x2C, 0x20, 0xC0AC, 0xC6A9, 0x20, 0xAC00, 0xB2A5, 0xD55C, 0x20, 0xB9B4, 0xB9AC, 0xC2A4, 0x20, 0xBC0F, 0x20, 0xC5C5, 0xB370, 0xC774, 0xD2B8, 0x20, 0xAE30, 0xB85D, 0x2E]),
     (''app.subtitle.backup'', uni [0xC554, 0xD638, 0xD654, 0xB41C, 0x20, 0xBC31, 0xC5C5, 0xC744, 0x20, 0xB9CC, 0xB4E4, 0xACE0, 0x20, 0xAE30, 0xC874, 0x20, 0xBC31, 0xC5C5, 0xC744, 0x20, 0xD655, 0xC778, 0xD569, 0xB2C8, 0xB2E4, 0x2E]),
     (''app.subtitle.dhcp'', uni [0xC8FC, 0xC18C, 0x20, 0xD480, 0x2C, 0x20, 0xC608, 0xC57D, 0x20, 0xBC0F, 0x20, 0xD65C, 0xC131, 0x20, 0xC784, 0xB300, 0x2E]),
     (''app.subtitle.cluster'', uni [0xC5EC, 0xB7EC, 0x20] @ ''Velora DNS '' @ uni [0xC11C, 0xBC84, 0xC5D0, 0xC11C, 0x20, 0xB85C, 0xCEEC, 0x20, 0xC601, 0xC5ED, 0xC744, 0x20, 0xB3D9, 0xC77C, 0xD558, 0xAC8C, 0x20, 0xC720, 0xC9C0, 0xD569, 0xB2C8, 0xB2E4, 0x2E]),
     (''app.subtitle.diagnostics'', uni [0xAD6C, 0xC131, 0x20, 0xC694, 0xC18C, 0x20, 0xC0C1, 0xD0DC, 0xC640, 0x20, 0xACF5, 0xC720, 0x20, 0xAC00, 0xB2A5, 0xD55C, 0x20, 0xC9C0, 0xC6D0, 0x20, 0xBCF4, 0xACE0, 0xC11C, 0x2E]),
     (''app.subtitle.events'', uni [0xC8FC, 0xC758, 0xAC00, 0x20, 0xD544, 0xC694, 0xD55C, 0x20, 0xD56D, 0xBAA9, 0x2E]),
     (''app.subtitle.audit'', uni [0xB204, 0xAC00, 0x20, 0xBB34, 0xC5C7, 0xC744, 0x20, 0xC5B8, 0xC81C, 0x20, 0xBCC0, 0xACBD, 0xD588, 0xB294, 0xC9C0, 0x2E]),
     (''settings.preferences'', uni [0xD658, 0xACBD, 0xC124, 0xC815]),
     (''dashboard.general_statistics'', uni [0xC77C, 0xBC18, 0x20, 0xD1B5, 0xACC4]),
     (''dashboard.blocked'', uni [0xD544, 0xD130, 0xB85C, 0x20, 0xCC28, 0xB2E8, 0xB428]),
     (''dashboard.of_all_queries'', uni [0xC804, 0xCCB4, 0x20, 0xCFFC, 0xB9AC, 0x20, 0xC911]),
     (''dashboard.query_logging'', uni [0xCFFC, 0xB9AC, 0x20, 0xB85C, 0xADF8]),
     (''dashboard.enabled'', uni [0xC0AC, 0xC6A9]),
     (''dashboard.disabled'', uni [0xC0AC, 0xC6A9, 0x20, 0xC548, 0x20, 0xD568]),
     (''dashboard.requests'', uni [0xC694, 0xCCAD]),
     (''dashboard.domain'', uni [0xB3C4, 0xBA54, 0xC778]),
     (''dashboard.client'', uni [0xD074, 0xB77C, 0xC774, 0xC5B8, 0xD2B8]),
     (''dashboard.upstream_servers'', uni [0xC5C5, 0xC2A4, 0xD2B8, 0xB9BC, 0x20, 0xC11C, 0xBC84]),
     (''dashboard.collecting_samples'', uni [0xC0D8, 0xD50C, 0x20, 0xC218, 0xC9D1, 0x20, 0xC911, 0x2026]),
     (''cache.search_label'', uni [0xC774, 0xB984, 0xC73C, 0xB85C, 0x20, 0xAC80, 0xC0C9]),
     (''cache.search_placeholder'', ''example.org''),
     (''cache.all_types'', uni [0xBAA8, 0xB4E0, 0x20, 0xC720, 0xD615]),
     (''cache.remove_entry'', uni [0xCE90, 0xC2DC, 0xC5D0, 0xC11C, 0x20, 0xC81C, 0xAC70]),
     (''cache.invalidate_title'', uni [0xB3C4, 0xBA54, 0xC778, 0x20, 0xBB34, 0xD6A8, 0xD654]),
     (''cache.invalidate_text'', uni [0xC804, 0xCCB4, 0x20, 0xCE90, 0xC2DC, 0xB97C, 0x20, 0xC9C0, 0xC6B0, 0xC9C0, 0x20, 0xC54A, 0xACE0, 0x20, 0xD55C, 0x20, 0xC774, 0xB984, 0xC758, 0x20, 0xCE90, 0xC2DC, 0xB41C, 0x20, 0xC751, 0xB2F5, 0xC744, 0x20, 0xC81C, 0xAC70, 0xD569, 0xB2C8, 0xB2E4, 0x2E]),
     (''cache.domain'', uni [0xB3C4, 0xBA54, 0xC778]),
     (''cache.include_subdomains'', uni [0xD558, 0xC704, 0x20, 0xB3C4, 0xBA54, 0xC778, 0x20, 0xD3EC, 0xD568]),
     (''cache.invalidate'', uni [0xBB34, 0xD6A8, 0xD654]),
     (''cache.removed_entries'', uni [0xC81C, 0xAC70, 0xB41C, 0x20, 0xCE90, 0xC2DC, 0x20, 0xD56D, 0xBAA9]),
     (''cache.invalidate_failed'', uni [0xBB34, 0xD6A8, 0xD654, 0x20, 0xC2E4, 0xD328]),
     (''cache.flush_confirm'', uni [0xCE90, 0xC2DC, 0xB41C, 0x20, 0xBAA8, 0xB4E0, 0x20, 0xC751, 0xB2F5, 0xC744, 0x20, 0xC9C0, 0xC6B0, 0xC2DC, 0xACA0, 0xC2B5, 0xB2C8, 0xAE4C, 0x3F, 0x20, 0xC801, 0xC911, 0x20, 0xBC0F, 0x20, 0xC2E4, 0xD328, 0x20, 0xCE74, 0xC6B4, 0xD130, 0xB294, 0x20, 0xC720, 0xC9C0, 0xB429, 0xB2C8, 0xB2E4, 0x2E]),
     (''cache.no_matches'', uni [0xC774, 0x20, 0xD544, 0xD130, 0xC640, 0x20, 0xC77C, 0xCE58, 0xD558, 0xB294, 0x20, 0xD56D, 0xBAA9, 0xC774, 0x20, 0xC5C6, 0xC2B5, 0xB2C8, 0xB2E4, 0x2E]),
     (''blocklists.schedule'', uni [0xC5C5, 0xB370, 0xC774, 0xD2B8, 0x20, 0xC77C, 0xC815]),
     (''blocklists.schedule_for'', uni [0xC5C5, 0xB370, 0xC774, 0xD2B8, 0x20, 0xC77C, 0xC815, 0x3A]),
     (''blocklists.manual'', uni [0xC218, 0xB3D9]),
     (''blocklists.every_1h'', uni [0xB9E4, 0xC2DC, 0xAC04]),
     (''blocklists.every_6h'', ''6'' @ uni [0xC2DC, 0xAC04, 0xB9C8, 0xB2E4]),
     (''blocklists.every_12h'', ''12'' @ uni [0xC2DC, 0xAC04, 0xB9C8, 0xB2E4]),
     (''blocklists.every_24h'', uni [0xB9E4, 0xC77C]),
     (''blocklists.every_7d'', uni [0xB9E4, 0xC8FC]),
     (''blocklists.col_next_update'', uni [0xB2E4, 0xC74C, 0x20, 0xC5C5, 0xB370, 0xC774, 0xD2B8]),
     (''blocklists.due_now'', uni [0xC9C0, 0xAE08, 0x20, 0xC608, 0xC815]),
     (''blocklists.never_updated'', uni [0xC5C5, 0xB370, 0xC774, 0xD2B8, 0x20, 0xC548, 0x20, 0xB428]),
     (''blocklists.retry_count'', uni [0xC2E4, 0xD328, 0xD55C, 0x20, 0xC2DC, 0xB3C4]),
     (''blocklists.schedule_failed'', uni [0xC77C, 0xC815, 0xC744, 0x20, 0xBCC0, 0xACBD, 0xD560, 0x20, 0xC218, 0x20, 0xC5C6, 0xC2B5, 0xB2C8, 0xB2E4]),
     (''app.nav.forwarding'', uni [0xC870, 0xAC74, 0xBD80, 0x20, 0xC804, 0xB2EC]),
     (''app.title.forwarding'', uni [0xC870, 0xAC74, 0xBD80, 0x20, 0xC804, 0xB2EC]),
     (''app.subtitle.forwarding'', uni [0xC120, 0xD0DD, 0xD55C, 0x20, 0xB3C4, 0xBA54, 0xC778, 0xC758, 0x20, 0xCFFC, 0xB9AC, 0xB97C, 0x20, 0xC804, 0xC6A9, 0x20, 0xB9AC, 0xC878, 0xBC84, 0xB85C, 0x20, 0xBCF4, 0xB0C5, 0xB2C8, 0xB2E4, 0x2E]),
     (''forwarding.count'', uni [0xAC1C, 0xC758, 0x20, 0xC804, 0xB2EC, 0x20, 0xADDC, 0xCE59]),
     (''forwarding.add'', uni [0xADDC, 0xCE59, 0x20, 0xCD94, 0xAC00]),
     (''forwarding.add_title'', uni [0xC0C8, 0x20, 0xC804, 0xB2EC, 0x20, 0xADDC, 0xCE59]),
     (''forwarding.edit_title'', uni [0xC804, 0xB2EC, 0x20, 0xADDC, 0xCE59, 0x20, 0xD3B8, 0xC9D1]),
     (''forwarding.form_hint'', uni [0xADDC, 0xCE59, 0xC740, 0x20, 0xB3C4, 0xBA54, 0xC778, 0x20, 0xC544, 0xB798, 0xC758, 0x20, 0xBAA8, 0xB4E0, 0x20, 0xC774, 0xB984, 0xC5D0, 0xB3C4, 0x20, 0xC801, 0xC6A9, 0xB429, 0xB2C8, 0xB2E4, 0x2E, 0x20, 0xAC00, 0xC7A5, 0x20, 0xAD6C, 0xCCB4, 0xC801, 0xC778, 0x20, 0xD65C, 0xC131, 0x20, 0xADDC, 0xCE59, 0xC774, 0x20, 0xC6B0, 0xC120, 0xD569, 0xB2C8, 0xB2E4, 0x2E]),
     (''forwarding.domain'', uni [0xB3C4, 0xBA54, 0xC778]),
     (''forwarding.upstreams'', uni [0xB9AC, 0xC878, 0xBC84]),
     (''forwarding.upstreams_hint'', ''IP '' @ uni [0xB610, 0xB294, 0x20] @ ''IP:'' @ uni [0xD3EC, 0xD2B8, 0x20, 0xD615, 0xC2DD, 0xC73C, 0xB85C, 0x20] @ ''1~4'' @ uni [0xAC1C, 0x2C, 0x20, 0xC27C, 0xD45C, 0xB85C, 0x20, 0xAD6C, 0xBD84, 0x2E, 0x20, 0xD3EC, 0xD2B8, 0xB97C, 0x20, 0xC0DD, 0xB7B5, 0xD558, 0xBA74, 0x20] @ ''53'' @ uni [0xC744, 0x20, 0xC0AC, 0xC6A9, 0xD569, 0xB2C8, 0xB2E4, 0x2E]),
     (''forwarding.description'', uni [0xC124, 0xBA85]),
     (''forwarding.enabled'', uni [0xC0AC, 0xC6A9]),
     (''forwarding.save'', uni [0xADDC, 0xCE59, 0x20, 0xC800, 0xC7A5])]\<close>

definition dict_ko_6 :: text_table where
  \<open>dict_ko_6 = [
     (''forwarding.cancel'', uni [0xCDE8, 0xC18C]),
     (''forwarding.empty_title'', uni [0xC804, 0xB2EC, 0x20, 0xADDC, 0xCE59, 0x20, 0xC5C6, 0xC74C]),
     (''forwarding.empty_text'', uni [0xBAA8, 0xB4E0, 0x20, 0xCFFC, 0xB9AC, 0xB294, 0x20, 0xC804, 0xC5ED, 0x20, 0xC5C5, 0xC2A4, 0xD2B8, 0xB9BC, 0x20, 0xB9AC, 0xC878, 0xBC84, 0xB97C, 0x20, 0xC0AC, 0xC6A9, 0xD569, 0xB2C8, 0xB2E4, 0x2E, 0x20] @ ''corp.example '' @ uni [0xAC19, 0xC740, 0x20, 0xB3C4, 0xBA54, 0xC778, 0xC744, 0x20, 0xB0B4, 0xBD80, 0x20] @ ''DNS '' @ uni [0xC11C, 0xBC84, 0xB85C, 0x20, 0xD655, 0xC778, 0xD558, 0xB824, 0xBA74, 0x20, 0xADDC, 0xCE59, 0xC744, 0x20, 0xCD94, 0xAC00, 0xD558, 0xC138, 0xC694, 0x2E]),
     (''forwarding.col_status'', uni [0xC0C1, 0xD0DC]),
     (''forwarding.test'', uni [0xD14C, 0xC2A4, 0xD2B8]),
     (''forwarding.test_title'', uni [0xADDC, 0xCE59, 0x20, 0xD14C, 0xC2A4, 0xD2B8]),
     (''forwarding.test_hint'', uni [0xCE90, 0xC2DC, 0xB97C, 0x20, 0xAC70, 0xCE58, 0xC9C0, 0x20, 0xC54A, 0xACE0, 0x20, 0xC774, 0x20, 0xADDC, 0xCE59, 0xC758, 0x20, 0xB9AC, 0xC878, 0xBC84, 0xB85C, 0xB9CC, 0x20, 0xCFFC, 0xB9AC, 0xB97C, 0x20, 0xD55C, 0x20, 0xBC88, 0x20, 0xBCF4, 0xB0C5, 0xB2C8, 0xB2E4, 0x2E]),
     (''forwarding.test_name'', uni [0xC774, 0xB984]),
     (''forwarding.test_type'', uni [0xC720, 0xD615]),
     (''forwarding.run_test'', uni [0xD14C, 0xC2A4, 0xD2B8, 0x20, 0xC2E4, 0xD589]),
     (''forwarding.test_via'', uni [0xACBD, 0xC720]),
     (''forwarding.no_answers'', uni [0xC751, 0xB2F5, 0x20, 0xB808, 0xCF54, 0xB4DC, 0x20, 0xC5C6, 0xC74C]),
     (''forwarding.edit'', uni [0xD3B8, 0xC9D1]),
     (''forwarding.delete'', uni [0xC0AD, 0xC81C]),
     (''forwarding.delete_confirm'', uni [0xB2E4, 0xC74C, 0x20, 0xC804, 0xB2EC, 0x20, 0xADDC, 0xCE59, 0xC744, 0x20, 0xC0AD, 0xC81C, 0xD558, 0xC2DC, 0xACA0, 0xC2B5, 0xB2C8, 0xAE4C, 0x3A]),
     (''forwarding.toggle'', uni [0xADDC, 0xCE59, 0x20, 0xC0AC, 0xC6A9, 0x2F, 0xC0AC, 0xC6A9, 0x20, 0xC548, 0x20, 0xD568, 0x3A]),
     (''forwarding.load_failed'', uni [0xC804, 0xB2EC, 0x20, 0xADDC, 0xCE59, 0xC744, 0x20, 0xBD88, 0xB7EC, 0xC62C, 0x20, 0xC218, 0x20, 0xC5C6, 0xC2B5, 0xB2C8, 0xB2E4]),
     (''forwarding.save_failed'', uni [0xADDC, 0xCE59, 0xC744, 0x20, 0xC800, 0xC7A5, 0xD560, 0x20, 0xC218, 0x20, 0xC5C6, 0xC2B5, 0xB2C8, 0xB2E4]),
     (''forwarding.saved'', uni [0xC804, 0xB2EC, 0x20, 0xADDC, 0xCE59, 0xC744, 0x20, 0xC800, 0xC7A5, 0xD588, 0xC2B5, 0xB2C8, 0xB2E4, 0x2E, 0x20, 0xB3C4, 0xBA54, 0xC778, 0xC758, 0x20, 0xCE90, 0xC2DC, 0xB41C, 0x20, 0xC751, 0xB2F5, 0xC774, 0x20, 0xC0AD, 0xC81C, 0xB418, 0xC5C8, 0xC2B5, 0xB2C8, 0xB2E4, 0x2E]),
     (''forwarding.disabled'', uni [0xC0AC, 0xC6A9, 0x20, 0xC548, 0x20, 0xD568]),
     (''app.nav.rewrites'', ''DNS '' @ uni [0xC7AC, 0xC791, 0xC131]),
     (''app.title.rewrites'', ''DNS '' @ uni [0xC7AC, 0xC791, 0xC131]),
     (''app.subtitle.rewrites'', uni [0xC120, 0xD0DD, 0xD55C, 0x20, 0xC774, 0xB984, 0xC5D0, 0x20, 0xACE0, 0xC815, 0x20, 0xC8FC, 0xC18C, 0xB098, 0x20, 0xBCC4, 0xCE6D, 0xC73C, 0xB85C, 0x20, 0xC751, 0xB2F5, 0xD569, 0xB2C8, 0xB2E4, 0x2E]),
     (''rewrites.count'', uni [0xAC1C, 0xC758, 0x20, 0xC7AC, 0xC791, 0xC131]),
     (''rewrites.add'', uni [0xC7AC, 0xC791, 0xC131, 0x20, 0xCD94, 0xAC00]),
     (''rewrites.add_title'', uni [0xC0C8, 0x20, 0xC7AC, 0xC791, 0xC131]),
     (''rewrites.edit_title'', uni [0xC7AC, 0xC791, 0xC131, 0x20, 0xD3B8, 0xC9D1]),
     (''rewrites.form_hint'', ''*.parent'' @ uni [0xB97C, 0x20, 0xC0AC, 0xC6A9, 0xD558, 0xBA74, 0x20, 0xB3C4, 0xBA54, 0xC778, 0x20, 0xC544, 0xB798, 0x20, 0xBAA8, 0xB4E0, 0x20, 0xC774, 0xB984, 0xACFC, 0x20, 0xC77C, 0xCE58, 0xD569, 0xB2C8, 0xB2E4, 0x2E, 0x20, 0xC815, 0xD655, 0xD55C, 0x20, 0xC774, 0xB984, 0xC774, 0x20, 0xC640, 0xC77C, 0xB4DC, 0xCE74, 0xB4DC, 0xBCF4, 0xB2E4, 0x20, 0xC6B0, 0xC120, 0xD569, 0xB2C8, 0xB2E4, 0x2E]),
     (''rewrites.name'', uni [0xC774, 0xB984]),
     (''rewrites.type'', uni [0xC720, 0xD615]),
     (''rewrites.value'', uni [0xC751, 0xB2F5]),
     (''rewrites.value_hint_A'', ''IPv4 '' @ uni [0xC8FC, 0xC18C]),
     (''rewrites.value_hint_AAAA'', ''IPv6 '' @ uni [0xC8FC, 0xC18C]),
     (''rewrites.value_hint_CNAME'', uni [0xC815, 0xC0C1, 0xC801, 0xC73C, 0xB85C, 0x20, 0xD655, 0xC778, 0xB418, 0xB294, 0x20, 0xB300, 0xC0C1, 0x20, 0xD638, 0xC2A4, 0xD2B8, 0x20, 0xC774, 0xB984]),
     (''rewrites.description'', uni [0xC124, 0xBA85]),
     (''rewrites.enabled'', uni [0xC0AC, 0xC6A9]),
     (''rewrites.save'', uni [0xC7AC, 0xC791, 0xC131, 0x20, 0xC800, 0xC7A5]),
     (''rewrites.empty_title'', ''DNS '' @ uni [0xC7AC, 0xC791, 0xC131] @ '' '' @ uni [0xC5C6, 0xC74C]),
     (''rewrites.empty_text'', uni [0xC601, 0xC5ED, 0xC744, 0x20, 0xB9CC, 0xB4E4, 0xC9C0, 0x20, 0xC54A, 0xACE0, 0x20] @ ''nas.home '' @ uni [0xAC19, 0xC740, 0x20, 0xC774, 0xB984, 0xC744, 0x20, 0xC8FC, 0xC18C, 0xC5D0, 0x20, 0xB9E4, 0xD551, 0xD569, 0xB2C8, 0xB2E4, 0x2E]),
     (''rewrites.col_notes'', uni [0xCC38, 0xACE0]),
     (''rewrites.blocked_hint'', uni [0xCC28, 0xB2E8, 0x20, 0xBAA9, 0xB85D, 0xC774, 0x20, 0xBA3C, 0xC800, 0x20, 0xCC28, 0xB2E8, 0xD569, 0xB2C8, 0xB2E4]),
     (''rewrites.overrides_hint'', uni [0xB85C, 0xCEEC, 0x20, 0xC601, 0xC5ED, 0xC744, 0x20, 0xB36E, 0xC5B4, 0xC500]),
     (''rewrites.edit'', uni [0xD3B8, 0xC9D1]),
     (''rewrites.delete'', uni [0xC0AD, 0xC81C]),
     (''rewrites.delete_confirm'', uni [0xC774, 0x20, 0xC7AC, 0xC791, 0xC131, 0xC744, 0x20, 0xC0AD, 0xC81C, 0xD558, 0xC2DC, 0xACA0, 0xC2B5, 0xB2C8, 0xAE4C, 0x3F]),
     (''rewrites.toggle'', uni [0xC7AC, 0xC791, 0xC131, 0x20, 0xC0AC, 0xC6A9, 0x2F, 0xC0AC, 0xC6A9, 0x20, 0xC548, 0x20, 0xD568, 0x3A]),
     (''rewrites.search'', uni [0xC7AC, 0xC791, 0xC131, 0x20, 0xD544, 0xD130]),
     (''rewrites.load_failed'', uni [0xC7AC, 0xC791, 0xC131, 0xC744, 0x20, 0xBD88, 0xB7EC, 0xC62C, 0x20, 0xC218, 0x20, 0xC5C6, 0xC2B5, 0xB2C8, 0xB2E4]),
     (''rewrites.save_failed'', uni [0xC7AC, 0xC791, 0xC131, 0xC744, 0x20, 0xC800, 0xC7A5, 0xD560, 0x20, 0xC218, 0x20, 0xC5C6, 0xC2B5, 0xB2C8, 0xB2E4]),
     (''rewrites.saved'', uni [0xC7AC, 0xC791, 0xC131, 0xC744, 0x20, 0xC800, 0xC7A5, 0xD558, 0xACE0, 0x20, 0xC801, 0xC6A9, 0xD588, 0xC2B5, 0xB2C8, 0xB2E4, 0x2E]),
     (''app.nav.clients'', uni [0xD074, 0xB77C, 0xC774, 0xC5B8, 0xD2B8]),
     (''app.title.clients'', uni [0xD074, 0xB77C, 0xC774, 0xC5B8, 0xD2B8, 0x20, 0xBC0F, 0x20, 0xC7A5, 0xCE58]),
     (''app.subtitle.clients'', uni [0xC8FC, 0xC18C, 0xC640, 0x20, 0xB124, 0xD2B8, 0xC6CC, 0xD06C, 0xC5D0, 0x20] @ ''Velora '' @ uni [0xC804, 0xCCB4, 0xC5D0, 0xC11C, 0x20, 0xC4F0, 0xC774, 0xB294, 0x20, 0xC774, 0xB984, 0xC744, 0x20, 0xC9C0, 0xC815, 0xD569, 0xB2C8, 0xB2E4, 0x2E]),
     (''clients.count'', uni [0xAC1C, 0xC758, 0x20, 0xD074, 0xB77C, 0xC774, 0xC5B8, 0xD2B8]),
     (''clients.add'', uni [0xD074, 0xB77C, 0xC774, 0xC5B8, 0xD2B8, 0x20, 0xCD94, 0xAC00]),
     (''clients.add_title'', uni [0xC0C8, 0x20, 0xD074, 0xB77C, 0xC774, 0xC5B8, 0xD2B8]),
     (''clients.edit_title'', uni [0xD074, 0xB77C, 0xC774, 0xC5B8, 0xD2B8, 0x20, 0xD3B8, 0xC9D1]),
     (''clients.form_hint'', uni [0xB124, 0xD2B8, 0xC6CC, 0xD06C, 0xAC00, 0x20, 0xACB9, 0xCE58, 0xBA74, 0x20, 0xAC00, 0xC7A5, 0x20, 0xAD6C, 0xCCB4, 0xC801, 0xC778, 0x20, 0xAC83, 0xC774, 0x20, 0xC6B0, 0xC120, 0xD569, 0xB2C8, 0xB2E4, 0x2E, 0x20] @ ''DHCP '' @ uni [0xC7A5, 0xCE58, 0xC5D0, 0xB294, 0x20, 0xC774, 0xB984, 0xC744, 0x20, 0xC9C0, 0xC815, 0xD558, 0xAE30, 0x20, 0xC804, 0xC5D0, 0x20, 0xACE0, 0xC815, 0x20, 0xC8FC, 0xC18C, 0xB97C, 0x20, 0xD560, 0xB2F9, 0xD558, 0xC138, 0xC694, 0x2E]),
     (''clients.name'', uni [0xC774, 0xB984]),
     (''clients.addresses'', uni [0xC8FC, 0xC18C]),
     (''clients.addresses_hint'', ''IP '' @ uni [0xC8FC, 0xC18C, 0x20, 0xB610, 0xB294, 0x20] @ ''CIDR '' @ uni [0xB124, 0xD2B8, 0xC6CC, 0xD06C, 0xB97C, 0x20, 0xC27C, 0xD45C, 0xB85C, 0x20, 0xAD6C, 0xBD84, 0x2E]),
     (''clients.group'', uni [0xADF8, 0xB8F9]),
     (''clients.description'', uni [0xC124, 0xBA85]),
     (''clients.enabled'', uni [0xC0AC, 0xC6A9]),
     (''clients.save'', uni [0xD074, 0xB77C, 0xC774, 0xC5B8, 0xD2B8, 0x20, 0xC800, 0xC7A5]),
     (''clients.activity'', uni [0xCD5C, 0xADFC, 0x20] @ ''24'' @ uni [0xC2DC, 0xAC04]),
     (''clients.queries'', uni [0xCFFC, 0xB9AC]),
     (''clients.last_seen'', uni [0xB9C8, 0xC9C0, 0xB9C9, 0x20, 0xD655, 0xC778]),
     (''clients.no_activity'', uni [0xCFFC, 0xB9AC, 0x20, 0xC5C6, 0xC74C]),
     (''clients.view_queries'', uni [0xCFFC, 0xB9AC, 0x20, 0xBCF4, 0xAE30]),
     (''clients.empty_title'', uni [0xC774, 0xB984, 0xC774, 0x20, 0xC9C0, 0xC815, 0xB41C, 0x20, 0xD074, 0xB77C, 0xC774, 0xC5B8, 0xD2B8, 0x20, 0xC5C6, 0xC74C]),
     (''clients.empty_text'', ''TV'' @ uni [0xB098, 0x20] @ ''Home Assistant '' @ uni [0xAC19, 0xC740, 0x20, 0xC7A5, 0xCE58, 0xC5D0, 0x20, 0xC774, 0xB984, 0xC744, 0x20, 0xC9C0, 0xC815, 0xD558, 0xBA74, 0x20, 0xCFFC, 0xB9AC, 0x20, 0xB85C, 0xADF8, 0xC5D0, 0xC11C, 0x20, 0xC27D, 0xAC8C, 0x20, 0xC54C, 0xC544, 0xBCFC, 0x20, 0xC218, 0x20, 0xC788, 0xC2B5, 0xB2C8, 0xB2E4, 0x2E]),
     (''clients.unnamed_title'', uni [0xCD5C, 0xADFC, 0x20, 0xD655, 0xC778, 0xB41C, 0x20, 0xC774, 0xB984, 0x20, 0xC5C6, 0xB294, 0x20, 0xC8FC, 0xC18C]),
     (''clients.unnamed_text'', uni [0xCD5C, 0xADFC, 0x20] @ ''24'' @ uni [0xC2DC, 0xAC04, 0x20, 0xB3D9, 0xC548, 0x20, 0xC5B4, 0xB5A4, 0x20, 0xD074, 0xB77C, 0xC774, 0xC5B8, 0xD2B8, 0xC640, 0xB3C4, 0x20, 0xC77C, 0xCE58, 0xD558, 0xC9C0, 0x20, 0xC54A, 0xB294, 0x20, 0xAC00, 0xC7A5, 0x20, 0xD65C, 0xBC1C, 0xD55C, 0x20, 0xC8FC, 0xC18C, 0x2E]),
     (''clients.name_it'', uni [0xC774, 0x20, 0xC7A5, 0xCE58, 0x20, 0xC774, 0xB984, 0x20, 0xC9C0, 0xC815]),
     (''clients.edit'', uni [0xD3B8, 0xC9D1]),
     (''clients.delete'', uni [0xC0AD, 0xC81C]),
     (''clients.delete_confirm'', uni [0xD074, 0xB77C, 0xC774, 0xC5B8, 0xD2B8, 0xB97C, 0x20, 0xC0AD, 0xC81C, 0xD558, 0xC2DC, 0xACA0, 0xC2B5, 0xB2C8, 0xAE4C, 0x3A]),
     (''clients.toggle'', uni [0xD074, 0xB77C, 0xC774, 0xC5B8, 0xD2B8, 0x20, 0xC0AC, 0xC6A9, 0x2F, 0xC0AC, 0xC6A9, 0x20, 0xC548, 0x20, 0xD568]),
     (''clients.load_failed'', uni [0xD074, 0xB77C, 0xC774, 0xC5B8, 0xD2B8, 0xB97C, 0x20, 0xBD88, 0xB7EC, 0xC62C, 0x20, 0xC218, 0x20, 0xC5C6, 0xC2B5, 0xB2C8, 0xB2E4]),
     (''clients.save_failed'', uni [0xD074, 0xB77C, 0xC774, 0xC5B8, 0xD2B8, 0xB97C, 0x20, 0xC800, 0xC7A5, 0xD560, 0x20, 0xC218, 0x20, 0xC5C6, 0xC2B5, 0xB2C8, 0xB2E4]),
     (''clients.saved'', uni [0xD074, 0xB77C, 0xC774, 0xC5B8, 0xD2B8, 0xB97C, 0x20, 0xC800, 0xC7A5, 0xD588, 0xC2B5, 0xB2C8, 0xB2E4, 0x2E]),
     (''clients.logging_off'', uni [0xD074, 0xB77C, 0xC774, 0xC5B8, 0xD2B8, 0x20, 0xD65C, 0xB3D9, 0xC744, 0x20, 0xBCF4, 0xB824, 0xBA74, 0x20, 0xCFFC, 0xB9AC, 0x20, 0xB85C, 0xADF8, 0xB97C, 0x20, 0xC0AC, 0xC6A9, 0xD558, 0xC138, 0xC694, 0x2E]),
     (''app.nav.policies'', uni [0xD074, 0xB77C, 0xC774, 0xC5B8, 0xD2B8, 0x20, 0xC815, 0xCC45]),
     (''app.title.policies'', uni [0xD074, 0xB77C, 0xC774, 0xC5B8, 0xD2B8, 0xBCC4, 0x20, 0xD544, 0xD130, 0xB9C1, 0x20, 0xC815, 0xCC45]),
     (''app.subtitle.policies'', uni [0xD074, 0xB77C, 0xC774, 0xC5B8, 0xD2B8, 0xBCC4, 0x20, 0xCC28, 0xB2E8, 0x20, 0xBC29, 0xC2DD, 0xC744, 0x20, 0xC120, 0xD0DD, 0xD569, 0xB2C8, 0xB2E4, 0x2E]),
     (''policies.load_failed'', uni [0xC815, 0xCC45, 0xC744, 0x20, 0xBD88, 0xB7EC, 0xC624, 0xC9C0, 0x20, 0xBABB, 0xD588, 0xC2B5, 0xB2C8, 0xB2E4, 0x2E]),
     (''policies.save_failed'', uni [0xC815, 0xCC45, 0xC744, 0x20, 0xC800, 0xC7A5, 0xD558, 0xC9C0, 0x20, 0xBABB, 0xD588, 0xC2B5, 0xB2C8, 0xB2E4, 0x2E]),
     (''policies.saved'', uni [0xC815, 0xCC45, 0xC744, 0x20, 0xC800, 0xC7A5, 0xD588, 0xC2B5, 0xB2C8, 0xB2E4, 0x2E]),
     (''policies.lookup'', uni [0xC8FC, 0xC18C, 0x20, 0xD655, 0xC778]),
     (''policies.add'', uni [0xC815, 0xCC45, 0x20, 0xCD94, 0xAC00]),
     (''policies.add_title'', uni [0xC0C8, 0x20, 0xC815, 0xCC45]),
     (''policies.edit_title'', uni [0xC815, 0xCC45, 0x20, 0xD3B8, 0xC9D1]),
     (''policies.form_hint'', uni [0xC8FC, 0xC18C, 0xC5D0, 0x20, 0xC801, 0xC6A9, 0xB418, 0xB294, 0x20, 0xC815, 0xCC45, 0xC740, 0x20, 0xAC00, 0xC7A5, 0x20, 0xAD6C, 0xCCB4, 0xC801, 0xC778, 0x20, 0xD074, 0xB77C, 0xC774, 0xC5B8, 0xD2B8, 0x20, 0xB124, 0xD2B8, 0xC6CC, 0xD06C, 0xAC00, 0x20, 0xACB0, 0xC815, 0xD569, 0xB2C8, 0xB2E4, 0x2E]),
     (''policies.client'', uni [0xD074, 0xB77C, 0xC774, 0xC5B8, 0xD2B8]),
     (''policies.mode'', uni [0xD544, 0xD130, 0xB9C1]),
     (''policies.mode_default'', uni [0xC804, 0xC5ED]),
     (''policies.mode_disabled'', uni [0xD544, 0xD130, 0xB9C1, 0x20, 0xC548, 0x20, 0xD568]),
     (''policies.mode_custom'', uni [0xC0AC, 0xC6A9, 0xC790, 0x20, 0xC9C0, 0xC815]),
     (''policies.mode_default_hint'', uni [0xB2E4, 0xB978, 0x20, 0xD074, 0xB77C, 0xC774, 0xC5B8, 0xD2B8, 0xC640, 0x20, 0xAC19, 0xC740, 0x20, 0xCC28, 0xB2E8, 0xB7, 0xD5C8, 0xC6A9, 0x20, 0xBAA9, 0xB85D, 0xC744, 0x20, 0xC0AC, 0xC6A9, 0xD569, 0xB2C8, 0xB2E4, 0x2E]),
     (''policies.mode_disabled_hint'', uni [0xC774, 0x20, 0xD074, 0xB77C, 0xC774, 0xC5B8, 0xD2B8, 0xC5D0, 0xC11C, 0xB294, 0x20, 0xC544, 0xBB34, 0xAC83, 0xB3C4, 0x20, 0xCC28, 0xB2E8, 0xD558, 0xC9C0, 0x20, 0xC54A, 0xC2B5, 0xB2C8, 0xB2E4, 0x2E]),
     (''policies.mode_custom_hint'', uni [0xC120, 0xD0DD, 0xD55C, 0x20, 0xCC28, 0xB2E8, 0x20, 0xBAA9, 0xB85D, 0xACFC, 0x20, 0xC9C1, 0xC811, 0x20, 0xC9C0, 0xC815, 0xD55C, 0x20, 0xB3C4, 0xBA54, 0xC778, 0xB9CC, 0x20, 0xC0AC, 0xC6A9, 0xD569, 0xB2C8, 0xB2E4, 0x2E]),
     (''policies.blocklists'', uni [0xCC28, 0xB2E8, 0x20, 0xBAA9, 0xB85D]),
     (''policies.no_sources'', uni [0xC544, 0xC9C1, 0x20, 0xCC28, 0xB2E8, 0x20, 0xBAA9, 0xB85D, 0xC774, 0x20, 0xC5C6, 0xC2B5, 0xB2C8, 0xB2E4, 0x2E]),
     (''policies.globally_off'', uni [0xC804, 0xC5ED, 0x20, 0xBE44, 0xD65C, 0xC131]),
     (''policies.block'', uni [0xCD94, 0xAC00, 0x20, 0xCC28, 0xB2E8]),
     (''policies.allow'', uni [0xD56D, 0xC0C1, 0x20, 0xD5C8, 0xC6A9]),
     (''policies.domains_hint'', uni [0xD55C, 0x20, 0xC904, 0xC5D0, 0x20, 0xB3C4, 0xBA54, 0xC778, 0x20, 0xD558, 0xB098, 0x2C, 0x20, 0xD558, 0xC704, 0x20, 0xB3C4, 0xBA54, 0xC778, 0x20, 0xD3EC, 0xD568, 0x2E]),
     (''policies.allow_hint'', uni [0xC774, 0x20, 0xD074, 0xB77C, 0xC774, 0xC5B8, 0xD2B8, 0xC5D0, 0xC11C, 0xB294, 0x20, 0xBAA8, 0xB4E0, 0x20, 0xCC28, 0xB2E8, 0x20, 0xBAA9, 0xB85D, 0xBCF4, 0xB2E4, 0x20, 0xC6B0, 0xC120, 0xD569, 0xB2C8, 0xB2E4, 0x2E]),
     (''policies.enabled'', uni [0xC815, 0xCC45, 0x20, 0xD65C, 0xC131]),
     (''policies.save'', uni [0xC815, 0xCC45, 0x20, 0xC800, 0xC7A5]),
     (''policies.empty_title'', uni [0xD074, 0xB77C, 0xC774, 0xC5B8, 0xD2B8, 0x20, 0xC815, 0xCC45, 0x20, 0xC5C6, 0xC74C]),
     (''policies.empty_text'', uni [0xBAA8, 0xB4E0, 0x20, 0xD074, 0xB77C, 0xC774, 0xC5B8, 0xD2B8, 0xAC00, 0x20, 0xC804, 0xC5ED, 0x20, 0xCC28, 0xB2E8, 0x20, 0xBAA9, 0xB85D, 0xC744, 0x20, 0xC0AC, 0xC6A9, 0xD569, 0xB2C8, 0xB2E4, 0x2E, 0x20, 0xC815, 0xCC45, 0xC744, 0x20, 0xCD94, 0xAC00, 0xD574, 0x20, 0xAE30, 0xAE30, 0xBCC4, 0xB85C, 0x20, 0xB354, 0x20, 0xC5C4, 0xACA9, 0xD558, 0xAC8C, 0x2C, 0x20, 0xB290, 0xC2A8, 0xD558, 0xAC8C, 0x2C, 0x20, 0xB610, 0xB294, 0x20, 0xD544, 0xD130, 0xB9C1, 0x20, 0xC5C6, 0xC774, 0x20, 0xC124, 0xC815, 0xD558, 0xC138, 0xC694, 0x2E]),
     (''policies.need_clients'', uni [0xC815, 0xCC45, 0xC740, 0x20, 0xC774, 0xB984, 0xC774, 0x20, 0xC9C0, 0xC815, 0xB41C, 0x20, 0xD074, 0xB77C, 0xC774, 0xC5B8, 0xD2B8, 0xC5D0, 0x20, 0xC801, 0xC6A9, 0xB429, 0xB2C8, 0xB2E4, 0x2E, 0x20, 0xBA3C, 0xC800, 0x20, 0xAE30, 0xAE30, 0x20, 0xC774, 0xB984, 0xC744, 0x20, 0xC9C0, 0xC815, 0xD558, 0xC138, 0xC694, 0x3A]),
     (''policies.details'', uni [0xC138, 0xBD80, 0x20, 0xC815, 0xBCF4]),
     (''policies.summary_disabled'', uni [0xBAA8, 0xB4E0, 0x20, 0xCFFC, 0xB9AC, 0xB97C, 0x20, 0xD544, 0xD130, 0xB9C1, 0x20, 0xC5C6, 0xC774, 0x20, 0xC751, 0xB2F5, 0xD569, 0xB2C8, 0xB2E4]),
     (''policies.summary_default'', uni [0xC804, 0xC5ED, 0x20, 0xCC28, 0xB2E8, 0x20, 0xBAA9, 0xB85D, 0x20, 0xC0AC, 0xC6A9]),
     (''policies.no_lists'', uni [0xCC28, 0xB2E8, 0x20, 0xBAA9, 0xB85D, 0x20, 0xC5C6, 0xC74C]),
     (''policies.blocked_short'', uni [0xAC1C, 0x20, 0xCC28, 0xB2E8])]\<close>

definition dict_ko_7 :: text_table where
  \<open>dict_ko_7 = [
     (''policies.allowed_short'', uni [0xAC1C, 0x20, 0xD5C8, 0xC6A9]),
     (''policies.paused'', uni [0xC77C, 0xC2DC, 0x20, 0xC911, 0xC9C0]),
     (''policies.toggle'', uni [0xC815, 0xCC45, 0x20, 0xD65C, 0xC131]),
     (''policies.edit'', uni [0xC815, 0xCC45, 0x20, 0xD3B8, 0xC9D1]),
     (''policies.delete'', uni [0xC815, 0xCC45, 0x20, 0xC0AD, 0xC81C]),
     (''policies.delete_confirm'', uni [0xB2E4, 0xC74C, 0xC758, 0x20, 0xC815, 0xCC45, 0xC744, 0x20, 0xC0AD, 0xC81C, 0xD560, 0xAE4C, 0xC694, 0x3A]),
     (''policies.no_policy'', ''('' @ uni [0xC815, 0xCC45, 0x20, 0xC5C6, 0xC74C, 0x2C, 0x20, 0xC804, 0xC5ED, 0x20, 0xD544, 0xD130, 0xB9C1, 0x29]),
     (''policies.unknown_address'', uni [0xC740, 0x28, 0xB294, 0x29, 0x20, 0xC5B4, 0xB5A4, 0x20, 0xD074, 0xB77C, 0xC774, 0xC5B8, 0xD2B8, 0xC640, 0xB3C4, 0x20, 0xC77C, 0xCE58, 0xD558, 0xC9C0, 0x20, 0xC54A, 0xC544, 0x20, 0xC804, 0xC5ED, 0x20, 0xD544, 0xD130, 0xB9C1, 0xC744, 0x20, 0xC0AC, 0xC6A9, 0xD569, 0xB2C8, 0xB2E4, 0x2E]),
     (''app.nav.webhooks'', uni [0xC6F9, 0xD6C5]),
     (''app.title.webhooks'', uni [0xC6F9, 0xD6C5, 0x20, 0xC54C, 0xB9BC]),
     (''app.subtitle.webhooks'', uni [0xC911, 0xC694, 0xD55C, 0x20, 0xC774, 0xBCA4, 0xD2B8, 0xB97C, 0x20, 0xB2E4, 0xB978, 0x20, 0xC2DC, 0xC2A4, 0xD15C, 0xC73C, 0xB85C, 0x20, 0xBCF4, 0xB0C5, 0xB2C8, 0xB2E4, 0x2E]),
     (''webhooks.load_failed'', uni [0xC6F9, 0xD6C5, 0xC744, 0x20, 0xBD88, 0xB7EC, 0xC624, 0xC9C0, 0x20, 0xBABB, 0xD588, 0xC2B5, 0xB2C8, 0xB2E4, 0x2E]),
     (''webhooks.save_failed'', uni [0xC6F9, 0xD6C5, 0xC744, 0x20, 0xC800, 0xC7A5, 0xD558, 0xC9C0, 0x20, 0xBABB, 0xD588, 0xC2B5, 0xB2C8, 0xB2E4, 0x2E]),
     (''webhooks.saved'', uni [0xC6F9, 0xD6C5, 0xC744, 0x20, 0xC800, 0xC7A5, 0xD588, 0xC2B5, 0xB2C8, 0xB2E4, 0x2E]),
     (''webhooks.count'', uni [0xAC1C, 0x20, 0xC6F9, 0xD6C5]),
     (''webhooks.add'', uni [0xC6F9, 0xD6C5, 0x20, 0xCD94, 0xAC00]),
     (''webhooks.add_title'', uni [0xC0C8, 0x20, 0xC6F9, 0xD6C5]),
     (''webhooks.edit_title'', uni [0xC6F9, 0xD6C5, 0x20, 0xD3B8, 0xC9D1]),
     (''webhooks.form_hint'', uni [0xC77C, 0xCE58, 0xD558, 0xB294, 0x20, 0xC774, 0xBCA4, 0xD2B8, 0xB9C8, 0xB2E4, 0x20] @ ''JSON POST '' @ uni [0xC694, 0xCCAD, 0xC744, 0x20, 0xBCF4, 0xB0C5, 0xB2C8, 0xB2E4, 0x2E, 0x20, 0xC804, 0xC1A1, 0xC740, 0x20, 0xBC31, 0xADF8, 0xB77C, 0xC6B4, 0xB4DC, 0xC5D0, 0xC11C, 0x20, 0xC774, 0xB8E8, 0xC5B4, 0xC838, 0x20] @ ''DNS '' @ uni [0xC751, 0xB2F5, 0xC744, 0x20, 0xC9C0, 0xC5F0, 0xC2DC, 0xD0A4, 0xC9C0, 0x20, 0xC54A, 0xC2B5, 0xB2C8, 0xB2E4, 0x2E]),
     (''webhooks.name'', uni [0xC774, 0xB984]),
     (''webhooks.url'', ''URL''),
     (''webhooks.min_severity'', uni [0xCD5C, 0xC18C, 0x20, 0xC2EC, 0xAC01, 0xB3C4]),
     (''webhooks.severity_info'', uni [0xC815, 0xBCF4]),
     (''webhooks.severity_warning'', uni [0xACBD, 0xACE0]),
     (''webhooks.severity_critical'', uni [0xC2EC, 0xAC01]),
     (''webhooks.token'', ''Bearer '' @ uni [0xD1A0, 0xD070]),
     (''webhooks.token_hint'', uni [0xC120, 0xD0DD] @ '' '' @ uni [0xC0AC, 0xD56D] @ ''. Authorization '' @ uni [0xD5E4, 0xB354, 0xB85C] @ '' '' @ uni [0xC804, 0xC1A1, 0xB418, 0xBA70] @ '' '' @ uni [0xB2E4, 0xC2DC] @ '' '' @ uni [0xD45C, 0xC2DC, 0xB418, 0xC9C0] @ '' '' @ uni [0xC54A, 0xC2B5, 0xB2C8, 0xB2E4] @ ''.''),
     (''webhooks.token_stored'', uni [0xD1A0, 0xD070, 0x20, 0xC800, 0xC7A5, 0xB428]),
     (''webhooks.token_change'', uni [0xBCC0, 0xACBD]),
     (''webhooks.token_remove_hint'', uni [0xBE44, 0xC6CC, 0x20, 0xB450, 0xBA74, 0x20, 0xD1A0, 0xD070, 0xC744, 0x20, 0xC0AD, 0xC81C, 0xD569, 0xB2C8, 0xB2E4]),
     (''webhooks.events'', uni [0xC774, 0xBCA4, 0xD2B8]),
     (''webhooks.events_hint'', uni [0xC544, 0xBB34, 0xAC83, 0xB3C4, 0x20, 0xC120, 0xD0DD, 0xD558, 0xC9C0, 0x20, 0xC54A, 0xC73C, 0xBA74, 0x20, 0xBAA8, 0xB4E0, 0x20, 0xC720, 0xD615, 0xC744, 0x20, 0xBC1B, 0xC2B5, 0xB2C8, 0xB2E4, 0x2E]),
     (''webhooks.all_events'', uni [0xBAA8, 0xB4E0, 0x20, 0xC774, 0xBCA4, 0xD2B8]),
     (''webhooks.allow_private'', uni [0xC0AC, 0xC124] @ '' '' @ uni [0xB124, 0xD2B8, 0xC6CC, 0xD06C] @ '' '' @ uni [0xB300, 0xC0C1] @ '' '' @ uni [0xD5C8, 0xC6A9] @ '' ('' @ uni [0xC608] @ '': LAN'' @ uni [0xC758] @ '' Home Assistant)''),
     (''webhooks.enabled'', uni [0xC6F9, 0xD6C5, 0x20, 0xD65C, 0xC131]),
     (''webhooks.save'', uni [0xC6F9, 0xD6C5, 0x20, 0xC800, 0xC7A5]),
     (''webhooks.empty_title'', uni [0xC6F9, 0xD6C5, 0x20, 0xC5C6, 0xC74C]),
     (''webhooks.empty_text'', uni [0xC6F9, 0xD6C5, 0xC744, 0x20, 0xCD94, 0xAC00, 0xD558, 0xBA74, 0x20, 0xC5C5, 0xC2A4, 0xD2B8, 0xB9BC, 0x20, 0xC7A5, 0xC560, 0x2C, 0x20, 0xCC28, 0xB2E8, 0x20, 0xBAA9, 0xB85D, 0x20, 0xAC31, 0xC2E0, 0x20, 0xC2E4, 0xD328, 0x2C, 0x20, 0xBC31, 0xC5C5, 0x20, 0xC2E4, 0xD328, 0xB97C, 0x20, 0xC54C, 0xB9BC, 0xBC1B, 0xC744, 0x20, 0xC218, 0x20, 0xC788, 0xC2B5, 0xB2C8, 0xB2E4, 0x2E]),
     (''webhooks.last_delivery'', uni [0xB9C8, 0xC9C0, 0xB9C9, 0x20, 0xC804, 0xC1A1]),
     (''webhooks.never'', uni [0xC544, 0xC9C1, 0x20, 0xC804, 0xC1A1, 0x20, 0xC5C6, 0xC74C]),
     (''webhooks.failing'', uni [0xC2E4, 0xD328, 0x20, 0xC911]),
     (''webhooks.toggle'', uni [0xC6F9, 0xD6C5, 0x20, 0xD65C, 0xC131]),
     (''webhooks.test'', uni [0xD14C, 0xC2A4, 0xD2B8, 0x20, 0xC804, 0xC1A1]),
     (''webhooks.test_ok'', uni [0xD14C, 0xC2A4, 0xD2B8, 0x20, 0xC804, 0xC1A1, 0x20, 0xC644, 0xB8CC, 0x3A]),
     (''webhooks.test_failed'', uni [0xD14C, 0xC2A4, 0xD2B8, 0x20, 0xC2E4, 0xD328, 0x3A]),
     (''webhooks.edit'', uni [0xC6F9, 0xD6C5, 0x20, 0xD3B8, 0xC9D1]),
     (''webhooks.delete'', uni [0xC6F9, 0xD6C5, 0x20, 0xC0AD, 0xC81C]),
     (''webhooks.delete_confirm'', uni [0xB2E4, 0xC74C, 0x20, 0xC6F9, 0xD6C5, 0xC744, 0x20, 0xC0AD, 0xC81C, 0xD560, 0xAE4C, 0xC694, 0x3A]),
     (''app.nav.analytics'', uni [0xBD84, 0xC11D]),
     (''app.title.analytics'', uni [0xBD84, 0xC11D]),
     (''app.subtitle.analytics'', uni [0xBCF4, 0xAD00, 0xB41C, 0x20, 0xCFFC, 0xB9AC, 0x20, 0xAE30, 0xB85D, 0x20, 0xAE30, 0xBC18, 0xC758, 0x20] @ ''DNS '' @ uni [0xD65C, 0xB3D9, 0xACFC, 0x20, 0xB9AC, 0xC878, 0xBC84, 0x20, 0xC131, 0xB2A5, 0x2E]),
     (''analytics.load_failed'', uni [0xBD84, 0xC11D, 0xC744, 0x20, 0xBD88, 0xB7EC, 0xC624, 0xC9C0, 0x20, 0xBABB, 0xD588, 0xC2B5, 0xB2C8, 0xB2E4, 0x2E]),
     (''analytics.logging_off_title'', uni [0xCFFC, 0xB9AC, 0x20, 0xAE30, 0xB85D, 0xC774, 0x20, 0xAEBC, 0xC838, 0x20, 0xC788, 0xC2B5, 0xB2C8, 0xB2E4]),
     (''analytics.logging_off_text'', uni [0xBD84, 0xC11D, 0xC740, 0x20, 0xBCF4, 0xAD00, 0xB41C, 0x20, 0xCFFC, 0xB9AC, 0x20, 0xAE30, 0xB85D, 0xC73C, 0xB85C, 0x20, 0xB9CC, 0xB4E4, 0xC5B4, 0xC9D1, 0xB2C8, 0xB2E4, 0x2E, 0x20, 0xCFFC, 0xB9AC, 0x20, 0xAE30, 0xB85D, 0xC744, 0x20, 0xCF1C, 0xC138, 0xC694, 0x3A]),
     (''analytics.range'', uni [0xAE30, 0xAC04]),
     (''analytics.range_1h'', ''1'' @ uni [0xC2DC, 0xAC04]),
     (''analytics.range_24h'', ''24'' @ uni [0xC2DC, 0xAC04]),
     (''analytics.range_7d'', ''7'' @ uni [0xC77C]),
     (''analytics.range_30d'', ''30'' @ uni [0xC77C]),
     (''analytics.history_limited'', uni [0xCFFC, 0xB9AC, 0x20, 0xAE30, 0xB85D, 0xC740, 0x20, 0xB2E4, 0xC74C, 0x20, 0xC2DC, 0xC810, 0xAE4C, 0xC9C0, 0xB9CC, 0x20, 0xC788, 0xC2B5, 0xB2C8, 0xB2E4, 0x3A]),
     (''analytics.queries'', uni [0xCFFC, 0xB9AC]),
     (''analytics.blocked'', uni [0xCC28, 0xB2E8]),
     (''analytics.allowed'', uni [0xD5C8, 0xC6A9]),
     (''analytics.cached'', uni [0xCE90, 0xC2DC, 0x20, 0xC751, 0xB2F5]),
     (''analytics.answers'', uni [0xAC1C, 0x20, 0xC751, 0xB2F5]),
     (''analytics.avg_upstream'', uni [0xD3C9, 0xADE0, 0x20, 0xC5C5, 0xC2A4, 0xD2B8, 0xB9BC, 0x20, 0xC2DC, 0xAC04]),
     (''analytics.empty_title'', uni [0xC774, 0x20, 0xAE30, 0xAC04, 0xC5D0, 0x20, 0xCFFC, 0xB9AC, 0xAC00, 0x20, 0xC5C6, 0xC2B5, 0xB2C8, 0xB2E4]),
     (''analytics.empty_text'', uni [0xB354, 0x20, 0xAE34, 0x20, 0xAE30, 0xAC04, 0xC744, 0x20, 0xC120, 0xD0DD, 0xD558, 0xAC70, 0xB098, 0x20, 0xB098, 0xC911, 0xC5D0, 0x20, 0xB2E4, 0xC2DC, 0x20, 0xD655, 0xC778, 0xD558, 0xC138, 0xC694, 0x2E]),
     (''analytics.over_time'', uni [0xC2DC, 0xAC04, 0xBCC4, 0x20, 0xCFFC, 0xB9AC]),
     (''analytics.over_time_hint'', uni [0xB9C8, 0xC6B0, 0xC2A4, 0xB098, 0x20, 0xD654, 0xC0B4, 0xD45C, 0x20, 0xD0A4, 0xB85C, 0x20, 0xAD6C, 0xAC04, 0xC744, 0x20, 0xD655, 0xC778, 0xD558, 0xC138, 0xC694, 0x2E]),
     (''analytics.chart_aria'', uni [0xC2DC, 0xAC04, 0x20, 0xAD6C, 0xAC04, 0xBCC4, 0x20, 0xCFFC, 0xB9AC, 0x20, 0x28, 0xD5C8, 0xC6A9, 0x20, 0xBC0F, 0x20, 0xCC28, 0xB2E8, 0x29]),
     (''analytics.show_table'', uni [0xD45C, 0xB85C, 0x20, 0xBCF4, 0xAE30]),
     (''analytics.time'', uni [0xC2DC, 0xAC04]),
     (''analytics.avg_time'', uni [0xD3C9, 0xADE0, 0x20, 0xC2DC, 0xAC04]),
     (''analytics.latency'', uni [0xC5C5, 0xC2A4, 0xD2B8, 0xB9BC, 0x20, 0xC751, 0xB2F5, 0x20, 0xC2DC, 0xAC04]),
     (''analytics.latency_hint'', uni [0xC804, 0xB2EC, 0xB418, 0xC5B4, 0x20, 0xC751, 0xB2F5, 0xB41C, 0x20, 0xCFFC, 0xB9AC, 0xC758, 0x20, 0xD3C9, 0xADE0, 0xC774, 0xBA70, 0x2C, 0x20, 0xBE48, 0x20, 0xAD6C, 0xAC04, 0xC740, 0x20, 0xC5C5, 0xC2A4, 0xD2B8, 0xB9BC, 0x20, 0xD2B8, 0xB798, 0xD53D, 0xC774, 0x20, 0xC5C6, 0xC74C, 0xC744, 0x20, 0xB73B, 0xD569, 0xB2C8, 0xB2E4, 0x2E]),
     (''analytics.latency_aria'', uni [0xC2DC, 0xAC04, 0x20, 0xAD6C, 0xAC04, 0xBCC4, 0x20, 0xD3C9, 0xADE0, 0x20, 0xC5C5, 0xC2A4, 0xD2B8, 0xB9BC, 0x20, 0xC751, 0xB2F5, 0x20, 0xC2DC, 0xAC04]),
     (''analytics.query_types'', uni [0xCFFC, 0xB9AC, 0x20, 0xC720, 0xD615]),
     (''analytics.sources'', uni [0xC751, 0xB2F5, 0x20, 0xCD9C, 0xCC98]),
     (''analytics.source_upstream'', uni [0xC5C5, 0xC2A4, 0xD2B8, 0xB9BC]),
     (''analytics.source_cache'', uni [0xCE90, 0xC2DC]),
     (''analytics.source_blocked'', uni [0xCC28, 0xB2E8]),
     (''analytics.source_local'', uni [0xB85C, 0xCEEC, 0x20, 0xC601, 0xC5ED, 0x20, 0xBC0F, 0x20, 0xC7AC, 0xC791, 0xC131]),
     (''analytics.source_refused'', uni [0xAC70, 0xBD80]),
     (''analytics.response_codes'', uni [0xC751, 0xB2F5, 0x20, 0xCF54, 0xB4DC]),
     (''analytics.top_blocked'', uni [0xAC00, 0xC7A5, 0x20, 0xB9CE, 0xC774, 0x20, 0xCC28, 0xB2E8, 0xB41C, 0x20, 0xB3C4, 0xBA54, 0xC778]),
     (''analytics.nothing_blocked'', uni [0xC774, 0x20, 0xAE30, 0xAC04, 0xC5D0, 0x20, 0xCC28, 0xB2E8, 0x20, 0xC5C6, 0xC74C]),
     (''analytics.upstreams'', uni [0xC5C5, 0xC2A4, 0xD2B8, 0xB9BC, 0x20, 0xC0AC, 0xC6A9, 0xB7C9]),
     (''analytics.upstreams_hint'', uni [0xB9AC, 0xC878, 0xBC84, 0xBCC4] @ '' '' @ uni [0xC804, 0xB2EC] @ '' '' @ uni [0xCFFC, 0xB9AC] @ '', SERVFAIL '' @ uni [0xC751, 0xB2F5] @ '', '' @ uni [0xD3C9, 0xADE0] @ '' '' @ uni [0xC751, 0xB2F5] @ '' '' @ uni [0xC2DC, 0xAC04] @ ''.''),
     (''analytics.no_upstream'', uni [0xC774, 0x20, 0xAE30, 0xAC04, 0xC5D0, 0x20, 0xC5C5, 0xC2A4, 0xD2B8, 0xB9BC, 0x20, 0xD2B8, 0xB798, 0xD53D, 0x20, 0xC5C6, 0xC74C]),
     (''analytics.failures'', uni [0xC2E4, 0xD328]),
     (''updates.check_prompt'', uni [0xC0C8, 0x20, 0xBC84, 0xC804, 0xC774, 0x20, 0xC788, 0xB294, 0xC9C0, 0x20, 0xD655, 0xC778, 0xD569, 0xB2C8, 0xB2E4, 0x2E]),
     (''updates.checking'', uni [0xC5C5, 0xB370, 0xC774, 0xD2B8, 0x20, 0xD655, 0xC778, 0x20, 0xC911, 0x2026]),
     (''updates.starting'', uni [0xC5C5, 0xB370, 0xC774, 0xD2B8, 0xB97C, 0x20, 0xC2DC, 0xC791, 0xD558, 0xB294, 0x20, 0xC911, 0x2026]),
     (''updates.updating_to'', uni [0xC5C5, 0xB370, 0xC774, 0xD2B8, 0x20, 0xB300, 0xC0C1, 0x3A]),
     (''updates.completed_to'', uni [0xC5C5, 0xB370, 0xC774, 0xD2B8, 0x20, 0xC644, 0xB8CC, 0x3A]),
     (''updates.failed_title'', uni [0xC5C5, 0xB370, 0xC774, 0xD2B8, 0xAC00, 0x20, 0xC644, 0xB8CC, 0xB418, 0xC9C0, 0x20, 0xC54A, 0xC558, 0xC2B5, 0xB2C8, 0xB2E4]),
     (''updates.failed_text'', uni [0xC5C5, 0xB370, 0xC774, 0xD2B8, 0xC5D0, 0x20, 0xC2E4, 0xD328, 0xD588, 0xC2B5, 0xB2C8, 0xB2E4, 0x2E, 0x20, 0xC774, 0xC804, 0x20, 0xBC84, 0xC804, 0xC73C, 0xB85C, 0x20, 0xACC4, 0xC18D, 0x20, 0xC2E4, 0xD589, 0xB429, 0xB2C8, 0xB2E4, 0x2E]),
     (''updates.not_started'', uni [0xC5C5, 0xB370, 0xC774, 0xD2B8, 0xAC00] @ '' '' @ uni [0xC2DC, 0xC791, 0xB418, 0xC9C0] @ '' '' @ uni [0xC54A, 0xC558, 0xC2B5, 0xB2C8, 0xB2E4] @ ''. velora-updater.service'' @ uni [0xAC00] @ '' '' @ uni [0xC2E4, 0xD589] @ '' '' @ uni [0xC911, 0xC778, 0xC9C0] @ '' '' @ uni [0xD655, 0xC778, 0xD558, 0xC138, 0xC694] @ ''.''),
     (''updates.check_again'', uni [0xB2E4, 0xC2DC, 0x20, 0xD655, 0xC778]),
     (''updates.update_now'', uni [0xC5C5, 0xB370, 0xC774, 0xD2B8]),
     (''updates.reload'', uni [0xD398, 0xC774, 0xC9C0, 0x20, 0xC0C8, 0xB85C, 0xACE0, 0xCE68]),
     (''updates.reconnecting'', ''Velora'' @ uni [0xB97C, 0x20, 0xB2E4, 0xC2DC, 0x20, 0xC2DC, 0xC791, 0xD558, 0xB294, 0x20, 0xC911, 0xC785, 0xB2C8, 0xB2E4, 0x2E, 0x20, 0xAE30, 0xB2E4, 0xB9AC, 0xB294, 0x20, 0xC911, 0x2026]),
     (''updates.keep_open'', uni [0xC774, 0x20, 0xD398, 0xC774, 0xC9C0, 0xB97C, 0x20, 0xC5F4, 0xC5B4, 0x20, 0xB450, 0xBA74, 0x20, 0xC790, 0xB3D9, 0xC73C, 0xB85C, 0x20, 0xAC31, 0xC2E0, 0xB429, 0xB2C8, 0xB2E4, 0x2E, 0x20, 0xC804, 0xD658, 0x20, 0xC804, 0xAE4C, 0xC9C0, 0x20] @ ''DNS'' @ uni [0xB294, 0x20, 0xD604, 0xC7AC, 0x20, 0xBC84, 0xC804, 0xC73C, 0xB85C, 0x20, 0xC751, 0xB2F5, 0xD569, 0xB2C8, 0xB2E4, 0x2E]),
     (''updates.completed_text'', uni [0xC5C5, 0xB370, 0xC774, 0xD2B8, 0xAC00, 0x20, 0xC644, 0xB8CC, 0xB418, 0xC5B4, 0x20, 0xC0C1, 0xD0DC, 0x20, 0xC810, 0xAC80, 0xC744, 0x20, 0xD1B5, 0xACFC, 0xD588, 0xC2B5, 0xB2C8, 0xB2E4, 0x2E, 0x20, 0xC0C8, 0x20, 0xD654, 0xBA74, 0xC744, 0x20, 0xBD88, 0xB7EC, 0xC624, 0xB824, 0xBA74, 0x20, 0xD398, 0xC774, 0xC9C0, 0xB97C, 0x20, 0xC0C8, 0xB85C, 0xACE0, 0xCE68, 0xD558, 0xC138, 0xC694, 0x2E]),
     (''updates.release_date'', uni [0xCD9C, 0xC2DC, 0xC77C]),
     (''settings.entry'', uni [0xD56D, 0xBAA9]),
     (''settings.fix_fields'', uni [0xC544, 0xBB34, 0xAC83, 0xB3C4, 0x20, 0xBCC0, 0xACBD, 0xB418, 0xC9C0, 0x20, 0xC54A, 0xC558, 0xC2B5, 0xB2C8, 0xB2E4, 0x2E, 0x20, 0xD45C, 0xC2DC, 0xB41C, 0x20, 0xD56D, 0xBAA9, 0xC744, 0x20, 0xACE0, 0xCE5C, 0x20, 0xB4A4, 0x20, 0xB2E4, 0xC2DC, 0x20, 0xC2DC, 0xB3C4, 0xD558, 0xC138, 0xC694, 0x2E]),
     (''settings.restart_required'', uni [0xC544, 0xBB34, 0xAC83, 0xB3C4, 0x20, 0xBCC0, 0xACBD, 0xB418, 0xC9C0, 0x20, 0xC54A, 0xC558, 0xC2B5, 0xB2C8, 0xB2E4, 0x2E, 0x20, 0xD45C, 0xC2DC, 0xB41C, 0x20, 0xD56D, 0xBAA9, 0xC740, 0x20, 0xC7AC, 0xC2DC, 0xC791, 0x20, 0xD6C4, 0x20, 0xC801, 0xC6A9, 0xB429, 0xB2C8, 0xB2E4, 0x2E, 0x20, 0xC124, 0xC815, 0x20, 0xD30C, 0xC77C, 0xC744, 0x20, 0xC218, 0xC815, 0xD558, 0xACE0, 0x20] @ ''Velora DNS'' @ uni [0xB97C, 0x20, 0xB2E4, 0xC2DC, 0x20, 0xC2DC, 0xC791, 0xD558, 0xC138, 0xC694, 0x2E]),
     (''settings.restart_field'', uni [0xC7AC, 0xC2DC, 0xC791, 0x20, 0xD544, 0xC694]),
     (''settings.check'', uni [0xD655, 0xC778]),
     (''settings.check_ok'', uni [0xC774, 0x20, 0xC124, 0xC815, 0xC740, 0x20, 0xC720, 0xD6A8, 0xD558, 0xBA70, 0x20, 0xC7AC, 0xC2DC, 0xC791, 0x20, 0xC5C6, 0xC774, 0x20, 0xC801, 0xC6A9, 0xD560, 0x20, 0xC218, 0x20, 0xC788, 0xC2B5, 0xB2C8, 0xB2E4, 0x2E]),
     (''restore.title'', uni [0xBC31, 0xC5C5, 0x20, 0xBCF5, 0xC6D0]),
     (''restore.hint'', uni [0xC554, 0xD638, 0xD654, 0xB41C, 0x20, 0xBC31, 0xC5C5, 0xC744, 0x20, 0xC5C5, 0xB85C, 0xB4DC, 0xD574, 0x20, 0xBA3C, 0xC800, 0x20, 0xD655, 0xC778, 0xD558, 0xC138, 0xC694, 0x2E, 0x20, 0xD655, 0xC778, 0xD558, 0xAE30, 0x20, 0xC804, 0xC5D0, 0xB294, 0x20, 0xC544, 0xBB34, 0xAC83, 0xB3C4, 0x20, 0xBC14, 0xB00C, 0xC9C0, 0x20, 0xC54A, 0xC73C, 0xBA70, 0x2C, 0x20, 0xC774, 0xD6C4, 0x20] @ ''Velora'' @ uni [0xAC00, 0x20, 0xC7AC, 0xC2DC, 0xC791, 0xD558, 0xACE0, 0x20, 0xC548, 0xC804, 0x20, 0xC0AC, 0xBCF8, 0xC744, 0x20, 0xBCF4, 0xAD00, 0xD558, 0xBA70, 0x20, 0xC2DC, 0xC791, 0xD558, 0xC9C0, 0x20, 0xBABB, 0xD558, 0xBA74, 0x20, 0xC790, 0xB3D9, 0xC73C, 0xB85C, 0x20, 0xB418, 0xB3CC, 0xB9BD, 0xB2C8, 0xB2E4, 0x2E]),
     (''restore.file'', uni [0xBC31, 0xC5C5] @ '' '' @ uni [0xD30C, 0xC77C] @ '' (.vdns)''),
     (''restore.inspect'', uni [0xBC31, 0xC5C5, 0x20, 0xD655, 0xC778]),
     (''restore.inspecting'', uni [0xD655, 0xC778, 0x20, 0xC911, 0x2026]),
     (''restore.inspect_failed'', uni [0xBC31, 0xC5C5, 0xC744, 0x20, 0xD655, 0xC778, 0xD558, 0xC9C0, 0x20, 0xBABB, 0xD588, 0xC2B5, 0xB2C8, 0xB2E4, 0x2E]),
     (''restore.review_title'', uni [0xBC31, 0xC5C5, 0xC774, 0x20, 0xC720, 0xD6A8, 0xD569, 0xB2C8, 0xB2E4]),
     (''restore.created'', uni [0xC0DD, 0xC131])]\<close>

definition dict_ko_8 :: text_table where
  \<open>dict_ko_8 = [
     (''restore.version'', ''Velora '' @ uni [0xBC84, 0xC804]),
     (''restore.schema'', uni [0xB370, 0xC774, 0xD130, 0xBCA0, 0xC774, 0xC2A4, 0x20, 0xC2A4, 0xD0A4, 0xB9C8]),
     (''restore.contents'', uni [0xB0B4, 0xC6A9]),
     (''restore.zones'', uni [0xC601, 0xC5ED]),
     (''restore.records'', uni [0xB808, 0xCF54, 0xB4DC]),
     (''restore.blocklists'', uni [0xCC28, 0xB2E8, 0x20, 0xBAA9, 0xB85D]),
     (''restore.rewrites'', uni [0xC7AC, 0xC791, 0xC131]),
     (''restore.forward_rules'', uni [0xC804, 0xB2EC, 0x20, 0xADDC, 0xCE59]),
     (''restore.clients'', uni [0xD074, 0xB77C, 0xC774, 0xC5B8, 0xD2B8]),
     (''restore.users'', uni [0xC0AC, 0xC6A9, 0xC790]),
     (''restore.listeners'', uni [0xC218, 0xC2E0, 0x20, 0xC8FC, 0xC18C]),
     (''restore.web'', uni [0xC6F9]),
     (''restore.confirm'', uni [0xD604, 0xC7AC, 0x20, 0xC124, 0xC815, 0xACFC, 0x20, 0xB370, 0xC774, 0xD130, 0xB97C, 0x20, 0xC774, 0x20, 0xBC31, 0xC5C5, 0xC73C, 0xB85C, 0x20, 0xBC14, 0xAFC9, 0xB2C8, 0xB2E4, 0x2E, 0x20, 0xD604, 0xC7AC, 0x20, 0xC0C1, 0xD0DC, 0xC758, 0x20, 0xC548, 0xC804, 0x20, 0xC0AC, 0xBCF8, 0xC740, 0x20, 0xBCF4, 0xAD00, 0xB429, 0xB2C8, 0xB2E4, 0x2E]),
     (''restore.restore'', uni [0xBCF5, 0xC6D0, 0x20, 0xD6C4, 0x20, 0xC7AC, 0xC2DC, 0xC791]),
     (''restore.schedule_failed'', uni [0xBCF5, 0xC6D0, 0xC744, 0x20, 0xC2DC, 0xC791, 0xD558, 0xC9C0, 0x20, 0xBABB, 0xD588, 0xC2B5, 0xB2C8, 0xB2E4, 0x2E]),
     (''restore.manual_restart'', uni [0xBCF5, 0xC6D0, 0xC774, 0x20, 0xC608, 0xC57D, 0xB418, 0xC5C8, 0xC2B5, 0xB2C8, 0xB2E4, 0x2E, 0x20, 0xC801, 0xC6A9, 0xD558, 0xB824, 0xBA74, 0x20] @ ''Velora DNS'' @ uni [0xB97C, 0x20, 0xB2E4, 0xC2DC, 0x20, 0xC2DC, 0xC791, 0xD558, 0xC138, 0xC694, 0x2E]),
     (''restore.restarting'', uni [0xBC31, 0xC5C5, 0xC744, 0x20, 0xC801, 0xC6A9, 0xD558, 0xAE30, 0x20, 0xC704, 0xD574, 0x20, 0xB2E4, 0xC2DC, 0x20, 0xC2DC, 0xC791, 0xD558, 0xB294, 0x20, 0xC911, 0xC785, 0xB2C8, 0xB2E4, 0x2E, 0x20, 0xB3CC, 0xC544, 0xC624, 0xBA74, 0x20, 0xC774, 0x20, 0xD398, 0xC774, 0xC9C0, 0xAC00, 0x20, 0xAC31, 0xC2E0, 0xB429, 0xB2C8, 0xB2E4, 0x2E]),
     (''restore.signed_out'', uni [0xBCF5, 0xC6D0, 0xB41C, 0x20, 0xB370, 0xC774, 0xD130, 0xB85C, 0x20] @ ''Velora'' @ uni [0xAC00, 0x20, 0xB2E4, 0xC2DC, 0x20, 0xC2DC, 0xC791, 0xB418, 0xC5C8, 0xC2B5, 0xB2C8, 0xB2E4, 0x2E, 0x20, 0xBC31, 0xC5C5, 0xC5D0, 0x20, 0xC788, 0xB294, 0x20, 0xACC4, 0xC815, 0xC73C, 0xB85C, 0x20, 0xB2E4, 0xC2DC, 0x20, 0xB85C, 0xADF8, 0xC778, 0xD558, 0xC138, 0xC694, 0x2E]),
     (''restore.again'', uni [0xB2E4, 0xB978, 0x20, 0xBC31, 0xC5C5, 0x20, 0xBCF5, 0xC6D0]),
     (''restore.backup_from'', uni [0xBC31, 0xC5C5, 0x3A]),
     (''restore.safety_copy'', uni [0xC774, 0xC804, 0x20, 0xC0C1, 0xD0DC, 0x20, 0xBCF4, 0xAD00, 0x20, 0xC704, 0xCE58, 0x3A]),
     (''restore.state_completed'', uni [0xBCF5, 0xC6D0, 0xC774, 0x20, 0xC644, 0xB8CC, 0xB418, 0xC5C8, 0xC2B5, 0xB2C8, 0xB2E4, 0x2E]),
     (''restore.state_rolled_back'', uni [0xBCF5, 0xC6D0, 0xC774, 0x20, 0xB864, 0xBC31, 0xB418, 0xC5C8, 0xC2B5, 0xB2C8, 0xB2E4, 0x2E]),
     (''restore.state_failed'', uni [0xBCF5, 0xC6D0, 0xC5D0, 0x20, 0xC2E4, 0xD328, 0xD588, 0xC2B5, 0xB2C8, 0xB2E4, 0x2E]),
     (''restore.state_applied'', uni [0xBCF5, 0xC6D0, 0xC774, 0x20, 0xC801, 0xC6A9, 0xB418, 0xC5C8, 0xC2B5, 0xB2C8, 0xB2E4, 0x2E, 0x20, 0xC900, 0xBE44, 0xB97C, 0x20, 0xAE30, 0xB2E4, 0xB9AC, 0xB294, 0x20, 0xC911, 0x2E]),
     (''restore.state_pending'', uni [0xBCF5, 0xC6D0, 0xC774, 0x20, 0xC608, 0xC57D, 0xB418, 0xC5C8, 0xC2B5, 0xB2C8, 0xB2E4, 0x2E]),
     (''restore.passphrase'', uni [0xBC31, 0xC5C5, 0x20, 0xC554, 0xD638, 0x20, 0xBB38, 0xAD6C]),
     (''app.scrollable_table'', uni [0xAC00, 0xB85C, 0xB85C, 0x20, 0xC2A4, 0xD06C, 0xB864, 0xB428]),
     (''palette.title'', uni [0xBA85, 0xB839, 0x20, 0xD314, 0xB808, 0xD2B8]),
     (''palette.placeholder'', uni [0xD398, 0xC774, 0xC9C0, 0x2C, 0x20, 0xC601, 0xC5ED, 0x2C, 0x20, 0xB808, 0xCF54, 0xB4DC, 0x2C, 0x20, 0xD074, 0xB77C, 0xC774, 0xC5B8, 0xD2B8, 0x20, 0xAC80, 0xC0C9, 0x2026]),
     (''palette.results'', uni [0xACB0, 0xACFC]),
     (''palette.pages'', uni [0xD398, 0xC774, 0xC9C0]),
     (''palette.actions'', uni [0xC791, 0xC5C5]),
     (''palette.kind_zone'', uni [0xC601, 0xC5ED]),
     (''palette.kind_record'', uni [0xB808, 0xCF54, 0xB4DC]),
     (''palette.kind_client'', uni [0xD074, 0xB77C, 0xC774, 0xC5B8, 0xD2B8]),
     (''palette.kind_rewrite'', ''DNS '' @ uni [0xC7AC, 0xC791, 0xC131]),
     (''palette.kind_forwarding'', uni [0xC870, 0xAC74, 0xBD80, 0x20, 0xC804, 0xB2EC]),
     (''palette.kind_blocklist'', uni [0xCC28, 0xB2E8, 0x20, 0xBAA9, 0xB85D]),
     (''palette.no_results'', uni [0xC77C, 0xCE58, 0x20, 0xD56D, 0xBAA9, 0x20, 0xC5C6, 0xC74C, 0x2E]),
     (''palette.navigate'', uni [0xC774, 0xB3D9]),
     (''palette.open'', uni [0xC5F4, 0xAE30]),
     (''palette.toggle'', uni [0xC5F4, 0xAE30, 0x2F, 0xB2EB, 0xAE30]),
     (''palette.open_button'', uni [0xAC80, 0xC0C9]),
     (''palette.add_client'', uni [0xD074, 0xB77C, 0xC774, 0xC5B8, 0xD2B8, 0x20, 0xCD94, 0xAC00]),
     (''palette.create_backup'', uni [0xBC31, 0xC5C5, 0x20, 0xB9CC, 0xB4E4, 0xAE30]),
     (''cluster.action_failed'', uni [0xD074, 0xB7EC, 0xC2A4, 0xD130, 0x20, 0xC791, 0xC5C5, 0xC5D0, 0x20, 0xC2E4, 0xD328, 0xD588, 0xC2B5, 0xB2C8, 0xB2E4, 0x2E]),
     (''cluster.never'', uni [0xC5C6, 0xC74C]),
     (''cluster.role'', uni [0xC5ED, 0xD560]),
     (''cluster.role_standalone'', uni [0xB2E8, 0xB3C5]),
     (''cluster.role_primary'', uni [0xD074, 0xB7EC, 0xC2A4, 0xD130, 0x20, 0xAE30, 0xBCF8, 0x20, 0xB178, 0xB4DC]),
     (''cluster.role_replica'', uni [0xD074, 0xB7EC, 0xC2A4, 0xD130, 0x20, 0xBCF5, 0xC81C, 0xBCF8]),
     (''cluster.replicas'', uni [0xBCF5, 0xC81C, 0xBCF8]),
     (''cluster.in_sync_count'', uni [0xB3D9, 0xAE30, 0xD654, 0xB428]),
     (''cluster.revision'', uni [0xC601, 0xC5ED, 0x20, 0xB9AC, 0xBE44, 0xC804]),
     (''cluster.zones_replicated'', uni [0xAC1C, 0x20, 0xC601, 0xC5ED, 0x20, 0xBCF5, 0xC81C, 0xB428]),
     (''cluster.last_sync'', uni [0xB9C8, 0xC9C0, 0xB9C9, 0x20, 0xB3D9, 0xAE30, 0xD654]),
     (''cluster.sync_failed'', uni [0xB9C8, 0xC9C0, 0xB9C9, 0x20, 0xB3D9, 0xAE30, 0xD654, 0x20, 0xC2E4, 0xD328]),
     (''cluster.sync_ok'', uni [0xAE30, 0xBCF8, 0x20, 0xB178, 0xB4DC, 0xC640, 0x20, 0xCD5C, 0xC2E0, 0x20, 0xC0C1, 0xD0DC]),
     (''cluster.members'', uni [0xBCF5, 0xC81C, 0xBCF8]),
     (''cluster.members_hint'', uni [0xC774, 0x20, 0xAE30, 0xBCF8, 0x20, 0xB178, 0xB4DC, 0xC758, 0x20, 0xC601, 0xC5ED, 0xC744, 0x20, 0xBCF5, 0xC81C, 0xD558, 0xB294, 0x20, 0xB178, 0xB4DC, 0xC785, 0xB2C8, 0xB2E4, 0x2E, 0x20] @ ''30'' @ uni [0xCD08, 0xB9C8, 0xB2E4, 0x20, 0xD655, 0xC778, 0xD569, 0xB2C8, 0xB2E4, 0x2E]),
     (''cluster.add_node'', uni [0xB178, 0xB4DC, 0x20, 0xCD94, 0xAC00]),
     (''cluster.token_title'', uni [0xCC38, 0xAC00, 0x20, 0xD1A0, 0xD070, 0x20, 0xC0DD, 0xC131, 0xB428]),
     (''cluster.token_steps'', uni [0xC0C8, 0x20, 0xB178, 0xB4DC, 0xC5D0, 0xC11C, 0x20, 0xD074, 0xB7EC, 0xC2A4, 0xD130, 0x20, 0x2192, 0x20, 0xD074, 0xB7EC, 0xC2A4, 0xD130, 0x20, 0xCC38, 0xAC00, 0xB97C, 0x20, 0xC5F4, 0xACE0, 0x20, 0xB2E4, 0xC74C, 0xC744, 0x20, 0xC785, 0xB825, 0xD558, 0xC138, 0xC694, 0x3A]),
     (''cluster.token_expires'', uni [0xD1A0, 0xD070, 0x20, 0xB9CC, 0xB8CC, 0x3A]),
     (''cluster.token_once'', uni [0xD55C, 0x20, 0xBC88, 0xB9CC, 0x20, 0xC0AC, 0xC6A9, 0xD560, 0x20, 0xC218, 0x20, 0xC788, 0xC73C, 0xBA70, 0x20, 0xB2E4, 0xC2DC, 0x20, 0xD45C, 0xC2DC, 0xB418, 0xC9C0, 0x20, 0xC54A, 0xC2B5, 0xB2C8, 0xB2E4, 0x2E]),
     (''cluster.copy_token'', uni [0xD1A0, 0xD070, 0x20, 0xBCF5, 0xC0AC]),
     (''cluster.copied'', uni [0xBCF5, 0xC0AC, 0xB428]),
     (''cluster.token_done'', uni [0xC644, 0xB8CC]),
     (''cluster.no_members'', uni [0xC544, 0xC9C1, 0x20, 0xBCF5, 0xC81C, 0xBCF8, 0x20, 0xC5C6, 0xC74C]),
     (''cluster.no_members_text'', uni [0xB178, 0xB4DC, 0xB97C, 0x20, 0xCD94, 0xAC00, 0xD574, 0x20, 0xB450, 0x20, 0xBC88, 0xC9F8, 0x20] @ ''Velora DNS '' @ uni [0xC11C, 0xBC84, 0xC6A9, 0x20, 0xCC38, 0xAC00, 0x20, 0xD1A0, 0xD070, 0xC744, 0x20, 0xB9CC, 0xB4DC, 0xC138, 0xC694, 0x2E]),
     (''cluster.status_in_sync'', uni [0xB3D9, 0xAE30, 0xD654, 0xB428]),
     (''cluster.status_behind'', uni [0xB530, 0xB77C, 0xC7A1, 0xB294, 0x20, 0xC911]),
     (''cluster.status_stale'', uni [0xC751, 0xB2F5, 0x20, 0xC5C6, 0xC74C]),
     (''cluster.status_error'', uni [0xB3D9, 0xAE30, 0xD654, 0x20, 0xC624, 0xB958]),
     (''cluster.status_never_synced'', uni [0xCCAB, 0x20, 0xB3D9, 0xAE30, 0xD654, 0x20, 0xB300, 0xAE30, 0x20, 0xC911]),
     (''cluster.remove'', uni [0xB178, 0xB4DC, 0x20, 0xC81C, 0xAC70]),
     (''cluster.remove_confirm'', uni [0xC774, 0x20, 0xBCF5, 0xC81C, 0xBCF8, 0xC744, 0x20, 0xC81C, 0xAC70, 0xD560, 0xAE4C, 0xC694, 0x3F, 0x20, 0xC601, 0xC5ED, 0x20, 0xC5C5, 0xB370, 0xC774, 0xD2B8, 0xB97C, 0x20, 0xB354, 0x20, 0xC774, 0xC0C1, 0x20, 0xBC1B, 0xC9C0, 0x20, 0xC54A, 0xC2B5, 0xB2C8, 0xB2E4, 0x3A]),
     (''cluster.removed'', uni [0xBCF5, 0xC81C, 0xBCF8, 0xC744, 0x20, 0xC81C, 0xAC70, 0xD588, 0xC2B5, 0xB2C8, 0xB2E4, 0x2E]),
     (''cluster.dissolve'', uni [0xD074, 0xB7EC, 0xC2A4, 0xD130, 0x20, 0xD574, 0xCCB4]),
     (''cluster.dissolve_hint'', uni [0xBAA8, 0xB4E0, 0x20, 0xBCF5, 0xC81C, 0xBCF8, 0xC744, 0x20, 0xD574, 0xC81C, 0xD558, 0xACE0, 0x20, 0xC774, 0x20, 0xB178, 0xB4DC, 0xB97C, 0x20, 0xB2E4, 0xC2DC, 0x20, 0xB2E8, 0xB3C5, 0xC73C, 0xB85C, 0x20, 0xB9CC, 0xB4ED, 0xB2C8, 0xB2E4, 0x2E, 0x20, 0xBCF5, 0xC81C, 0xBCF8, 0xC740, 0x20, 0xB9C8, 0xC9C0, 0xB9C9, 0x20, 0xC601, 0xC5ED, 0x20, 0xC0AC, 0xBCF8, 0xC744, 0x20, 0xC720, 0xC9C0, 0xD569, 0xB2C8, 0xB2E4, 0x2E]),
     (''cluster.dissolve_confirm'', uni [0xD074, 0xB7EC, 0xC2A4, 0xD130, 0xB97C, 0x20, 0xD574, 0xCCB4, 0xD558, 0xACE0, 0x20, 0xBAA8, 0xB4E0, 0x20, 0xBCF5, 0xC81C, 0xBCF8, 0xC744, 0x20, 0xD574, 0xC81C, 0xD560, 0xAE4C, 0xC694, 0x3F]),
     (''cluster.dissolved'', uni [0xD074, 0xB7EC, 0xC2A4, 0xD130, 0xB97C, 0x20, 0xD574, 0xCCB4, 0xD588, 0xC2B5, 0xB2C8, 0xB2E4, 0x2E]),
     (''cluster.replica_title'', uni [0xAE30, 0xBCF8, 0x20, 0xB178, 0xB4DC, 0xC5D0, 0xC11C, 0x20, 0xBCF5, 0xC81C, 0x20, 0xC911]),
     (''cluster.replica_hint'', uni [0xC774, 0x20, 0xB178, 0xB4DC, 0xC758, 0x20, 0xC601, 0xC5ED, 0xC740, 0x20, 0xAE30, 0xBCF8, 0x20, 0xB178, 0xB4DC, 0xC5D0, 0xC11C, 0x20, 0xBCF5, 0xC81C, 0xB418, 0xBA70, 0x20, 0xC5EC, 0xAE30, 0xC11C, 0xB294, 0x20, 0xC77D, 0xAE30, 0x20, 0xC804, 0xC6A9, 0xC785, 0xB2C8, 0xB2E4, 0x2E, 0x20, 0xB2E4, 0xB978, 0x20, 0xC124, 0xC815, 0xC740, 0x20, 0xB85C, 0xCEEC, 0xB85C, 0x20, 0xC720, 0xC9C0, 0xB429, 0xB2C8, 0xB2E4, 0x2E]),
     (''cluster.replica_ok'', uni [0xBCF5, 0xC81C, 0xAC00, 0x20, 0xC815, 0xC0C1, 0x20, 0xB3D9, 0xC791, 0x20, 0xC911, 0xC785, 0xB2C8, 0xB2E4, 0x2E]),
     (''cluster.sync_now'', uni [0xC9C0, 0xAE08, 0x20, 0xB3D9, 0xAE30, 0xD654]),
     (''cluster.leave'', uni [0xD074, 0xB7EC, 0xC2A4, 0xD130, 0x20, 0xD0C8, 0xD1F4]),
     (''cluster.leave_confirm'', uni [0xD074, 0xB7EC, 0xC2A4, 0xD130, 0xB97C, 0x20, 0xD0C8, 0xD1F4, 0xD560, 0xAE4C, 0xC694, 0x3F, 0x20, 0xC774, 0x20, 0xB178, 0xB4DC, 0xB294, 0x20, 0xD604, 0xC7AC, 0x20, 0xC601, 0xC5ED, 0xC744, 0x20, 0xC720, 0xC9C0, 0xD558, 0xBA70, 0x20, 0xB2E4, 0xC2DC, 0x20, 0xD3B8, 0xC9D1, 0xD560, 0x20, 0xC218, 0x20, 0xC788, 0xC2B5, 0xB2C8, 0xB2E4, 0x2E]),
     (''cluster.left'', uni [0xC774, 0x20, 0xB178, 0xB4DC, 0xAC00, 0x20, 0xD074, 0xB7EC, 0xC2A4, 0xD130, 0xB97C, 0x20, 0xD0C8, 0xD1F4, 0xD588, 0xC2B5, 0xB2C8, 0xB2E4, 0x2E]),
     (''cluster.primary_url'', uni [0xAE30, 0xBCF8] @ '' '' @ uni [0xB178, 0xB4DC] @ '' URL''),
     (''cluster.cluster_id'', uni [0xD074, 0xB7EC, 0xC2A4, 0xD130, 0x20] @ ''ID''),
     (''cluster.node_id'', uni [0xB178, 0xB4DC] @ '' ID''),
     (''cluster.join_token'', uni [0xCC38, 0xAC00, 0x20, 0xD1A0, 0xD070]),
     (''cluster.standalone_title'', uni [0xC774, 0x20, 0xB178, 0xB4DC, 0xB294, 0x20, 0xB2E8, 0xB3C5, 0xC785, 0xB2C8, 0xB2E4]),
     (''cluster.standalone_viewer'', uni [0xAD00, 0xB9AC, 0xC790, 0xB294, 0x20, 0xD074, 0xB7EC, 0xC2A4, 0xD130, 0xB97C, 0x20, 0xB9CC, 0xB4E4, 0xAC70, 0xB098, 0x20, 0xC774, 0x20, 0xB178, 0xB4DC, 0xB97C, 0x20, 0xD074, 0xB7EC, 0xC2A4, 0xD130, 0xC5D0, 0x20, 0xCC38, 0xAC00, 0xC2DC, 0xD0AC, 0x20, 0xC218, 0x20, 0xC788, 0xC2B5, 0xB2C8, 0xB2E4, 0x2E]),
     (''cluster.scope_note'', uni [0xD074, 0xB7EC, 0xC2A4, 0xD130, 0xB294, 0x20, 0xC5EC, 0xB7EC, 0x20] @ ''Velora DNS '' @ uni [0xC11C, 0xBC84, 0xC758, 0x20, 0xB85C, 0xCEEC, 0x20, 0xC601, 0xC5ED, 0xC744, 0x20, 0xB3D9, 0xC77C, 0xD558, 0xAC8C, 0x20, 0xC720, 0xC9C0, 0xD569, 0xB2C8, 0xB2E4, 0x2E, 0x20, 0xAE30, 0xBCF8, 0x20, 0xB178, 0xB4DC, 0xAC00, 0x20, 0xBCC0, 0xACBD, 0xC744, 0x20, 0xBC1B, 0xACE0, 0x20, 0xBCF5, 0xC81C, 0xBCF8, 0xC774, 0x20] @ ''30'' @ uni [0xCD08, 0xB9C8, 0xB2E4, 0x20, 0xBCF5, 0xC0AC, 0xD569, 0xB2C8, 0xB2E4, 0x2E, 0x20, 0xC790, 0xB3D9, 0x20, 0xC7A5, 0xC560, 0x20, 0xC870, 0xCE58, 0xB294, 0x20, 0xC5C6, 0xC73C, 0xBA70, 0x20, 0xB2E4, 0xB978, 0x20, 0xC124, 0xC815, 0xC740, 0x20, 0xB178, 0xB4DC, 0xBCC4, 0xC785, 0xB2C8, 0xB2E4, 0x2E]),
     (''cluster.create_title'', uni [0xD074, 0xB7EC, 0xC2A4, 0xD130, 0x20, 0xB9CC, 0xB4E4, 0xAE30]),
     (''cluster.create_hint'', uni [0xC774, 0x20, 0xB178, 0xB4DC, 0xAC00, 0x20, 0xAE30, 0xBCF8, 0x20, 0xB178, 0xB4DC, 0xAC00, 0x20, 0xB418, 0xBA70, 0x20, 0xC601, 0xC5ED, 0xC774, 0x20, 0xBAA8, 0xB4E0, 0x20, 0xBCF5, 0xC81C, 0xBCF8, 0xC5D0, 0x20, 0xBCF5, 0xC0AC, 0xB429, 0xB2C8, 0xB2E4, 0x2E]),
     (''cluster.node_name'', uni [0xB178, 0xB4DC, 0x20, 0xC774, 0xB984]),
     (''cluster.advertised_url'', uni [0xB2E4, 0xB978, 0x20, 0xB178, 0xB4DC, 0xAC00, 0x20, 0xC0AC, 0xC6A9, 0xD560, 0x20, 0xC8FC, 0xC18C]),
     (''cluster.advertised_hint'', uni [0xBCF5, 0xC81C, 0xBCF8, 0xC5D0, 0xC11C, 0x20, 0xBCF4, 0xC774, 0xB294, 0x20, 0xC774, 0x20, 0xB178, 0xB4DC, 0xC758, 0x20, 0xC6F9, 0x20, 0xC778, 0xD130, 0xD398, 0xC774, 0xC2A4, 0x20] @ ''URL.''),
     (''cluster.allow_http'', uni [0xC554, 0xD638, 0xD654, 0xB418, 0xC9C0, 0x20, 0xC54A, 0xC740, 0x20] @ ''HTTP '' @ uni [0xD5C8, 0xC6A9, 0x20, 0x28, 0xC2E0, 0xB8B0, 0xD560, 0x20, 0xC218, 0x20, 0xC788, 0xB294, 0x20, 0xB124, 0xD2B8, 0xC6CC, 0xD06C, 0xB9CC, 0x29]),
     (''cluster.skip_check'', uni [0xB3C4, 0xB2EC, 0x20, 0xAC00, 0xB2A5, 0xC131, 0x20, 0xD655, 0xC778, 0x20, 0xAC74, 0xB108, 0xB6F0, 0xAE30]),
     (''cluster.create'', uni [0xD074, 0xB7EC, 0xC2A4, 0xD130, 0x20, 0xB9CC, 0xB4E4, 0xAE30]),
     (''cluster.created'', uni [0xD074, 0xB7EC, 0xC2A4, 0xD130, 0xB97C, 0x20, 0xB9CC, 0xB4E4, 0xC5C8, 0xC2B5, 0xB2C8, 0xB2E4, 0x2E, 0x20, 0xB178, 0xB4DC, 0xB97C, 0x20, 0xCD94, 0xAC00, 0xD574, 0x20, 0xBCF5, 0xC81C, 0xBCF8, 0xC744, 0x20, 0xCD08, 0xB300, 0xD558, 0xC138, 0xC694, 0x2E]),
     (''cluster.join_title'', uni [0xD074, 0xB7EC, 0xC2A4, 0xD130, 0x20, 0xCC38, 0xAC00]),
     (''cluster.join_hint'', uni [0xC774, 0x20, 0xB178, 0xB4DC, 0xB97C, 0x20, 0xAE30, 0xC874, 0x20, 0xAE30, 0xBCF8, 0x20, 0xB178, 0xB4DC, 0xC758, 0x20, 0xBCF5, 0xC81C, 0xBCF8, 0xC73C, 0xB85C, 0x20, 0xB9CC, 0xB4ED, 0xB2C8, 0xB2E4, 0x2E, 0x20, 0xBA3C, 0xC800, 0x20, 0xAE30, 0xBCF8, 0x20, 0xB178, 0xB4DC, 0xC5D0, 0xC11C, 0x20, 0xCC38, 0xAC00, 0x20, 0xD1A0, 0xD070, 0xC744, 0x20, 0xB9CC, 0xB4DC, 0xC138, 0xC694, 0x2E]),
     (''cluster.join_warning'', uni [0xCC38, 0xAC00, 0xD558, 0xBA74, 0x20, 0xC774, 0x20, 0xB178, 0xB4DC, 0xC758, 0x20, 0xB85C, 0xCEEC, 0x20, 0xC601, 0xC5ED, 0xC774, 0x20, 0xAE30, 0xBCF8, 0x20, 0xB178, 0xB4DC, 0xC758, 0x20, 0xC601, 0xC5ED, 0xC73C, 0xB85C, 0x20, 0xB300, 0xCCB4, 0xB429, 0xB2C8, 0xB2E4, 0x2E, 0x20, 0xB2E4, 0xB978, 0x20, 0xC124, 0xC815, 0xC740, 0x20, 0xBC14, 0xB00C, 0xC9C0, 0x20, 0xC54A, 0xC2B5, 0xB2C8, 0xB2E4, 0x2E]),
     (''cluster.join_confirm'', uni [0xD074, 0xB7EC, 0xC2A4, 0xD130, 0xC5D0, 0x20, 0xCC38, 0xAC00, 0xD558, 0xACE0, 0x20, 0xC774, 0x20, 0xB178, 0xB4DC, 0xC758, 0x20, 0xC601, 0xC5ED, 0xC744, 0x20, 0xAE30, 0xBCF8, 0x20, 0xB178, 0xB4DC, 0x20, 0xAC83, 0xC73C, 0xB85C, 0x20, 0xBC14, 0xAFC0, 0xAE4C, 0xC694, 0x3F]),
     (''cluster.join'', uni [0xD074, 0xB7EC, 0xC2A4, 0xD130, 0x20, 0xCC38, 0xAC00]),
     (''cluster.joined'', uni [0xC774, 0x20, 0xB178, 0xB4DC, 0xAC00, 0x20, 0xD074, 0xB7EC, 0xC2A4, 0xD130, 0xC5D0, 0x20, 0xCC38, 0xAC00, 0xD574, 0x20, 0xAE30, 0xBCF8, 0x20, 0xB178, 0xB4DC, 0xC758, 0x20, 0xC601, 0xC5ED, 0xC744, 0x20, 0xBCF5, 0xC0AC, 0xD558, 0xACE0, 0x20, 0xC788, 0xC2B5, 0xB2C8, 0xB2E4, 0x2E]),
     (''cluster.zones_read_only'', uni [0xC774, 0x20, 0xB178, 0xB4DC, 0xB294, 0x20, 0xD074, 0xB7EC, 0xC2A4, 0xD130, 0x20, 0xBCF5, 0xC81C, 0xBCF8, 0xC785, 0xB2C8, 0xB2E4, 0x2E, 0x20, 0xC601, 0xC5ED, 0xC740, 0x20, 0xAE30, 0xBCF8, 0x20, 0xB178, 0xB4DC, 0xC5D0, 0xC11C, 0x20, 0xBCF5, 0xC0AC, 0xB418, 0xBA70, 0x20, 0xADF8, 0xACF3, 0xC5D0, 0xC11C, 0xB9CC, 0x20, 0xBCC0, 0xACBD, 0xD560, 0x20, 0xC218, 0x20, 0xC788, 0xC2B5, 0xB2C8, 0xB2E4, 0x2E])]\<close>

definition dict_ko :: text_table where
  "dict_ko = dict_ko_1 @ dict_ko_2 @ dict_ko_3 @ dict_ko_4 @ dict_ko_5 @ dict_ko_6 @ dict_ko_7 @ dict_ko_8"

lemma ko_titles: "distinct (map snd (with_prefix ''app.title.'' dict_ko))"
  by (simp only: dict_ko_def dict_ko_1_def dict_ko_2_def dict_ko_3_def dict_ko_4_def dict_ko_5_def dict_ko_6_def dict_ko_7_def dict_ko_8_def group_eval) (simp add: uni_def unit_text_def)

lemma ko_labels: "distinct (map snd (with_prefix ''app.nav.'' dict_ko))"
  by (simp only: dict_ko_def dict_ko_1_def dict_ko_2_def dict_ko_3_def dict_ko_4_def dict_ko_5_def dict_ko_6_def dict_ko_7_def dict_ko_8_def group_eval) (simp add: uni_def unit_text_def)

end
