(* ===== verification/Translations.thy ===== *)
theory Translations
  imports I18n Texts_En Texts_De Texts_Es Texts_PtBR Texts_Nl Texts_Pl Texts_Cs Texts_Sv Texts_Ja Texts_Ko
begin

text \<open>
  The \<open>dictionaries\<close> of \<open>i18n/index.ts\<close> on the ten tables, and how the keys of the tables compare: all have the
  same keys. German has one entry in another place than English; the other eight have theirs in the same order as
  each other, with one entry in another place than English.
\<close>

definition dictionaries :: "language \<Rightarrow> dictionary" where
  "dictionaries l = object_literal (case l of
      En \<Rightarrow> dict_en | De \<Rightarrow> dict_de | Es \<Rightarrow> dict_es | PtBR \<Rightarrow> dict_pt_BR | Nl \<Rightarrow> dict_nl
    | Pl \<Rightarrow> dict_pl | Cs \<Rightarrow> dict_cs | Sv \<Rightarrow> dict_sv | Ja \<Rightarrow> dict_ja | Ko \<Rightarrow> dict_ko)"

section \<open>The keys of the tables\<close>

lemmas en_parts = dict_en_1_def dict_en_2_def dict_en_3_def dict_en_4_def dict_en_5_def dict_en_6_def dict_en_7_def dict_en_8_def
lemmas de_parts = dict_de_1_def dict_de_2_def dict_de_3_def dict_de_4_def dict_de_5_def dict_de_6_def dict_de_7_def dict_de_8_def
lemmas es_parts = dict_es_1_def dict_es_2_def dict_es_3_def dict_es_4_def dict_es_5_def dict_es_6_def dict_es_7_def dict_es_8_def
lemmas pt_BR_parts = dict_pt_BR_1_def dict_pt_BR_2_def dict_pt_BR_3_def dict_pt_BR_4_def dict_pt_BR_5_def dict_pt_BR_6_def dict_pt_BR_7_def dict_pt_BR_8_def
lemmas nl_parts = dict_nl_1_def dict_nl_2_def dict_nl_3_def dict_nl_4_def dict_nl_5_def dict_nl_6_def dict_nl_7_def dict_nl_8_def
lemmas pl_parts = dict_pl_1_def dict_pl_2_def dict_pl_3_def dict_pl_4_def dict_pl_5_def dict_pl_6_def dict_pl_7_def dict_pl_8_def
lemmas cs_parts = dict_cs_1_def dict_cs_2_def dict_cs_3_def dict_cs_4_def dict_cs_5_def dict_cs_6_def dict_cs_7_def dict_cs_8_def
lemmas sv_parts = dict_sv_1_def dict_sv_2_def dict_sv_3_def dict_sv_4_def dict_sv_5_def dict_sv_6_def dict_sv_7_def dict_sv_8_def
lemmas ja_parts = dict_ja_1_def dict_ja_2_def dict_ja_3_def dict_ja_4_def dict_ja_5_def dict_ja_6_def dict_ja_7_def dict_ja_8_def
lemmas ko_parts = dict_ko_1_def dict_ko_2_def dict_ko_3_def dict_ko_4_def dict_ko_5_def dict_ko_6_def dict_ko_7_def dict_ko_8_def

text \<open>German: one key of the fourth part is eight places earlier.\<close>

lemma de_keys:
  "map fst dict_de_1 = map fst dict_en_1" "map fst dict_de_2 = map fst dict_en_2" "map fst dict_de_3 = map fst dict_en_3"
  "map fst dict_de_5 = map fst dict_en_5" "map fst dict_de_6 = map fst dict_en_6" "map fst dict_de_7 = map fst dict_en_7"
  "map fst dict_de_8 = map fst dict_en_8"
  by (simp_all only: en_parts de_parts key_eval)

lemma de_keys_4: "map fst dict_de_4 = moved 38 30 (map fst dict_en_4)"
  by (simp only: dict_en_4_def dict_de_4_def key_eval moved_def) simp

lemma de_same_keys: "set (map fst dict_de) = set (map fst dict_en)"
proof -
  have "set (map fst dict_de_4) = set (map fst dict_en_4)"
    unfolding de_keys_4 by (rule set_moved) (simp_all add: dict_en_4_def)
  then show ?thesis by (simp only: dict_de_def dict_en_def map_append set_append de_keys)
qed

text \<open>Spanish: one key of the fourth part is in the seventh part instead.\<close>

definition displaced :: jstring where
  "displaced = ''updates.release_date''"

lemma es_keys:
  "map fst dict_es_1 = without [displaced] (map fst dict_en_1)" "map fst dict_es_2 = without [displaced] (map fst dict_en_2)"
  "map fst dict_es_3 = without [displaced] (map fst dict_en_3)" "map fst dict_es_4 = without [displaced] (map fst dict_en_4)"
  "map fst dict_es_5 = without [displaced] (map fst dict_en_5)" "map fst dict_es_6 = without [displaced] (map fst dict_en_6)"
  "map fst dict_es_8 = without [displaced] (map fst dict_en_8)"
  by (simp_all only: en_parts es_parts displaced_def gone_eval)

lemma es_keys_7:
  "map fst dict_es_7 = take 105 (without [displaced] (map fst dict_en_7)) @ displaced # drop 105 (without [displaced] (map fst dict_en_7))"
  by (simp only: dict_en_7_def dict_es_7_def displaced_def gone_eval) simp

lemma displaced_key: "displaced \<in> set (map fst dict_en)"
proof -
  have "listed displaced (map fst dict_en_4)"
    by (simp only: dict_en_4_def displaced_def gone_eval)
  then show ?thesis by (simp add: listed_set dict_en_def)
qed

lemma es_same_keys: "set (map fst dict_es) = set (map fst dict_en)"
proof (rule set_replaced)
  have "set (map fst dict_es_7) = insert displaced (set (map fst dict_en_7) - {displaced})"
    by (simp only: es_keys_7 set_inserted set_without list.set)
  then show "set (map fst dict_es) = insert displaced (set (map fst dict_en) - {displaced})"
    by (simp only: dict_es_def dict_en_def map_append set_append es_keys set_without list.set Un_insert_left Un_insert_right Un_Diff)
qed (rule displaced_key)

text \<open>The other tables have the keys of the Spanish one, one for one.\<close>

lemma pt_BR_keys: "map fst dict_pt_BR = map fst dict_es"
  by (simp only: dict_pt_BR_def dict_es_def pt_BR_parts es_parts map_append key_eval)

lemma nl_keys: "map fst dict_nl = map fst dict_es"
  by (simp only: dict_nl_def dict_es_def nl_parts es_parts map_append key_eval)

lemma pl_keys: "map fst dict_pl = map fst dict_es"
  by (simp only: dict_pl_def dict_es_def pl_parts es_parts map_append key_eval)

lemma cs_keys: "map fst dict_cs = map fst dict_es"
  by (simp only: dict_cs_def dict_es_def cs_parts es_parts map_append key_eval)

lemma sv_keys: "map fst dict_sv = map fst dict_es"
  by (simp only: dict_sv_def dict_es_def sv_parts es_parts map_append key_eval)

lemma ja_keys: "map fst dict_ja = map fst dict_es"
  by (simp only: dict_ja_def dict_es_def ja_parts es_parts map_append key_eval)

lemma ko_keys: "map fst dict_ko = map fst dict_es"
  by (simp only: dict_ko_def dict_es_def ko_parts es_parts map_append key_eval)

lemmas same_as_es = pt_BR_keys nl_keys pl_keys cs_keys sv_keys ja_keys ko_keys

lemma dictionaries_dom: "dom (dictionaries l) = dom (dictionaries En)"
  by (cases l) (simp_all only: dictionaries_def dom_object_literal language.case de_same_keys same_as_es es_same_keys)

end
