(* ===== verification/Text_Properties.thy ===== *)
theory Text_Properties
  imports Translations App_Frame Sample_Data Settings_Page Dashboard_Page Analytics_Page Cluster_Page Diagnostics_Page Policies_Page Rewrites_Page
    Event_Center Webhooks_Page Update_Center Backup_Page Blocklists_Page Query_Log
begin

text \<open>
  The properties of the texts: what the tables have in common (C28), that the titles tell the pages apart in
  every language (C34), and that the labels which the pages compute are in the tables (C38).
\<close>

section \<open>The tables\<close>

text \<open>C28: The ten tables have the same keys, so that the fallback to English is never taken: every key of the English table is shown in
  the language of the user, and any other key as it is written.\<close>

theorem tables_agree:
  "dom (dictionaries l) = dom (dictionaries En) \<and>
   translate dictionaries l k = (if k \<in> dom (dictionaries En) then the (dictionaries l k) else k)"
proof
  show doms: "dom (dictionaries l) = dom (dictionaries En)" by (rule dictionaries_dom)
  show "translate dictionaries l k = (if k \<in> dom (dictionaries En) then the (dictionaries l k) else k)"
  proof (cases "k \<in> dom (dictionaries En)")
    case True
    then have "k \<in> dom (dictionaries l)" by (simp only: doms)
    then obtain v where "dictionaries l k = Some v" by (auto simp only: dom_def mem_Collect_eq not_None_eq)
    then show ?thesis using True by (simp add: translate_def nullish_def)
  next
    case False
    then have "k \<notin> dom (dictionaries l)" by (simp only: doms simp_thms)
    with False have "dictionaries l k = None" "dictionaries En k = None" by (simp_all only: domIff simp_thms)
    then show ?thesis using False by (simp add: translate_def nullish_def)
  qed
qed

section \<open>Groups of English keys\<close>

definition has_text :: "jstring \<Rightarrow> bool" where
  "has_text k \<longleftrightarrow> k \<in> dom (dictionaries En)"

lemma has_text_iff: "has_text (p @ k) \<longleftrightarrow> p @ k \<in> set (map fst (with_prefix p dict_en))"
  by (force simp: has_text_def dictionaries_def dom_object_literal with_prefix_def)

lemma has_textI: "p @ k \<in> set (map fst (with_prefix p dict_en)) \<Longrightarrow> has_text (p @ k)"
  by (simp only: has_text_iff)

lemma keys_titles: "map fst (with_prefix ''app.title.'' dict_en) =
  [''app.title.events'', ''app.title.audit'', ''app.title.diagnostics'', ''app.title.overview'', ''app.title.zones'',
   ''app.title.queries'', ''app.title.blocklists'', ''app.title.cache'', ''app.title.settings'', ''app.title.updates'',
   ''app.title.backup'', ''app.title.dhcp'', ''app.title.cluster'', ''app.title.forwarding'', ''app.title.rewrites'',
   ''app.title.clients'', ''app.title.policies'', ''app.title.webhooks'', ''app.title.analytics'']"
  by (simp only: dict_en_def en_parts group_eval append.simps key_eval)

lemma keys_subtitles: "map fst (with_prefix ''app.subtitle.'' dict_en) =
  [''app.subtitle.overview'', ''app.subtitle.default'', ''app.subtitle.zones'', ''app.subtitle.queries'',
   ''app.subtitle.blocklists'', ''app.subtitle.cache'', ''app.subtitle.settings'', ''app.subtitle.updates'',
   ''app.subtitle.backup'', ''app.subtitle.dhcp'', ''app.subtitle.cluster'', ''app.subtitle.diagnostics'',
   ''app.subtitle.events'', ''app.subtitle.audit'', ''app.subtitle.forwarding'', ''app.subtitle.rewrites'',
   ''app.subtitle.clients'', ''app.subtitle.policies'', ''app.subtitle.webhooks'', ''app.subtitle.analytics'']"
  by (simp only: dict_en_def en_parts group_eval append.simps key_eval)

lemma keys_navs: "map fst (with_prefix ''app.nav.'' dict_en) =
  [''app.nav.events'', ''app.nav.main'', ''app.nav.overview'', ''app.nav.zones'', ''app.nav.queries'',
   ''app.nav.blocklists'', ''app.nav.cache'', ''app.nav.settings'', ''app.nav.updates'', ''app.nav.backup'',
   ''app.nav.audit'', ''app.nav.diagnostics'', ''app.nav.dhcp'', ''app.nav.cluster'', ''app.nav.group_dns'',
   ''app.nav.group_network'', ''app.nav.group_system'', ''app.nav.forwarding'', ''app.nav.rewrites'', ''app.nav.clients'',
   ''app.nav.policies'', ''app.nav.webhooks'', ''app.nav.analytics'']"
  by (simp only: dict_en_def en_parts group_eval append.simps key_eval)

lemma keys_kinds: "map fst (with_prefix ''palette.kind_'' dict_en) =
  [''palette.kind_zone'', ''palette.kind_record'', ''palette.kind_client'', ''palette.kind_rewrite'',
   ''palette.kind_forwarding'', ''palette.kind_blocklist'']"
  by (simp only: dict_en_def en_parts group_eval append.simps key_eval)

lemma keys_ranges: "map fst (with_prefix ''analytics.range_'' dict_en) =
  [''analytics.range_1h'', ''analytics.range_24h'', ''analytics.range_7d'', ''analytics.range_30d'']"
  by (simp only: dict_en_def en_parts group_eval append.simps key_eval)

lemma keys_upstreams: "map fst (with_prefix ''dashboard.upstream_'' dict_en) =
  [''dashboard.upstream_resolvers'', ''dashboard.upstream_unknown'', ''dashboard.upstream_healthy'',
   ''dashboard.upstream_degraded'', ''dashboard.upstream_unavailable'', ''dashboard.upstream_servers'']"
  by (simp only: dict_en_def en_parts group_eval append.simps key_eval)

lemma keys_roles: "map fst (with_prefix ''cluster.role_'' dict_en) =
  [''cluster.role_standalone'', ''cluster.role_primary'', ''cluster.role_replica'']"
  by (simp only: dict_en_def en_parts group_eval append.simps key_eval)

lemma keys_statuses: "map fst (with_prefix ''cluster.status_'' dict_en) =
  [''cluster.status_in_sync'', ''cluster.status_behind'', ''cluster.status_stale'', ''cluster.status_error'',
   ''cluster.status_never_synced'']"
  by (simp only: dict_en_def en_parts group_eval append.simps key_eval)

lemma keys_themes: "map fst (with_prefix ''settings.theme_'' dict_en) =
  [''settings.theme_light'', ''settings.theme_dark'', ''settings.theme_auto'', ''settings.theme_hint'']"
  by (simp only: dict_en_def en_parts group_eval append.simps key_eval)

lemma keys_healths: "map fst (with_prefix ''diagnostics.state.'' dict_en) =
  [''diagnostics.state.healthy'', ''diagnostics.state.degraded'', ''diagnostics.state.failed'']"
  by (simp only: dict_en_def en_parts group_eval append.simps key_eval)

lemma keys_modes: "map fst (with_prefix ''policies.mode_'' dict_en) =
  [''policies.mode_default'', ''policies.mode_disabled'', ''policies.mode_custom'', ''policies.mode_default_hint'',
   ''policies.mode_disabled_hint'', ''policies.mode_custom_hint'']"
  by (simp only: dict_en_def en_parts group_eval append.simps key_eval)

lemma keys_hints: "map fst (with_prefix ''rewrites.value_hint_'' dict_en) =
  [''rewrites.value_hint_A'', ''rewrites.value_hint_AAAA'', ''rewrites.value_hint_CNAME'']"
  by (simp only: dict_en_def en_parts group_eval append.simps key_eval)

lemma keys_restores: "map fst (with_prefix ''restore.state_'' dict_en) =
  [''restore.state_completed'', ''restore.state_rolled_back'', ''restore.state_failed'', ''restore.state_applied'',
   ''restore.state_pending'']"
  by (simp only: dict_en_def en_parts group_eval append.simps key_eval)

lemma keys_events: "map fst (with_prefix ''events.'' dict_en) =
  [''events.unread'', ''events.empty'', ''events.load_failed'', ''events.mark_read'', ''events.repeated'', ''events.open'',
   ''events.info'', ''events.warning'', ''events.critical'']"
  by (simp only: dict_en_def en_parts group_eval append.simps key_eval)

lemma keys_severities: "map fst (with_prefix ''webhooks.severity_'' dict_en) =
  [''webhooks.severity_info'', ''webhooks.severity_warning'', ''webhooks.severity_critical'']"
  by (simp only: dict_en_def en_parts group_eval append.simps key_eval)

lemma keys_updates: "map fst (with_prefix ''updates.state_'' dict_en) =
  [''updates.state_idle'', ''updates.state_downloading'', ''updates.state_verifying'', ''updates.state_installing'',
   ''updates.state_readiness'', ''updates.state_completed'', ''updates.state_rolled_back'', ''updates.state_failed'']"
  by (simp only: dict_en_def en_parts group_eval append.simps key_eval)

lemma keys_stages: "map fst (with_prefix ''explain.stage.'' dict_en) =
  [''explain.stage.filter'', ''explain.stage.rewrite'', ''explain.stage.zone'', ''explain.stage.cache'',
   ''explain.stage.forwarding'', ''explain.stage.upstream'', ''explain.stage.refused'']"
  by (simp only: dict_en_def en_parts group_eval append.simps key_eval)

lemma keys_results: "map fst (with_prefix ''explain.result.'' dict_en) =
  [''explain.result.passed'', ''explain.result.allowed'', ''explain.result.blocked'', ''explain.result.no_match'',
   ''explain.result.answered'', ''explain.result.miss'', ''explain.result.hit'', ''explain.result.refused'',
   ''explain.result.would_forward'', ''explain.result.error'']"
  by (simp only: dict_en_def en_parts group_eval append.simps key_eval)

lemma keys_sources: "map fst (with_prefix ''explain.source.'' dict_en) =
  [''explain.source.local'', ''explain.source.cache'', ''explain.source.blocked'', ''explain.source.upstream'',
   ''explain.source.refused'']"
  by (simp only: dict_en_def en_parts group_eval append.simps key_eval)

lemma keys_shares: "map fst (with_prefix ''analytics.source_'' dict_en) =
  [''analytics.source_upstream'', ''analytics.source_cache'', ''analytics.source_blocked'', ''analytics.source_local'',
   ''analytics.source_refused'']"
  by (simp only: dict_en_def en_parts group_eval append.simps key_eval)

lemma keys_success: "map fst (with_prefix ''audit.su'' dict_en) = [''audit.success'']"
  by (simp only: dict_en_def en_parts group_eval append.simps key_eval)

lemma keys_failure: "map fst (with_prefix ''audit.fa'' dict_en) = [''audit.failure'']"
  by (simp only: dict_en_def en_parts group_eval append.simps key_eval)

lemma keys_manual: "map fst (with_prefix ''blocklists.manual'' dict_en) = [''blocklists.manual'']"
  by (simp only: dict_en_def en_parts group_eval append.simps key_eval)

lemma keys_intervals: "map fst (with_prefix ''blocklists.every_'' dict_en) =
  [''blocklists.every_1h'', ''blocklists.every_6h'', ''blocklists.every_12h'', ''blocklists.every_24h'', ''blocklists.every_7d'']"
  by (simp only: dict_en_def en_parts group_eval append.simps key_eval)

section \<open>Titles and labels\<close>

lemma route_keys_range: "routeKey path \<in> set (map snd ROUTE_KEYS)"
proof (cases "map_of ROUTE_KEYS path")
  case (Some k)
  then show ?thesis using map_of_SomeD [OF Some] by (force simp: routeKey_def nullish_def)
qed (simp add: routeKey_def nullish_def ROUTE_KEYS_def)

lemma title_has_text: "has_text (''app.title.'' @ routeKey path)"
  using route_keys_range [of path] by (intro has_textI) (auto simp: keys_titles ROUTE_KEYS_def)

lemma subtitle_has_text: "has_text (''app.subtitle.'' @ routeKey path)"
  using route_keys_range [of path] by (intro has_textI) (auto simp: keys_subtitles ROUTE_KEYS_def)

lemma nav_has_text: "list_all (\<lambda>i. has_text (''app.nav.'' @ ni_key i)) nav_items"
proof -
  have "''app.nav.'' @ k \<in> set (map fst (with_prefix ''app.nav.'' dict_en))" if "k \<in> set (map ni_key nav_items)" for k
    using that by (auto simp: keys_navs nav_items_def NAV_def item_def admin_item_def)
  then show ?thesis unfolding list_all_iff by (auto intro!: has_textI simp del: append.simps)
qed











section \<open>Labels of values\<close>

lemma label_keys:
  "has_text (''palette.kind_'' @ search_kind_name k)" "has_text (''analytics.range_'' @ range_name r)"
  "has_text (''dashboard.upstream_'' @ upstream_state_name u)" "has_text (''cluster.role_'' @ cluster_role_name c)"
  "has_text (''cluster.status_'' @ member_status_name m)" "has_text (''settings.theme_'' @ theme_code th)"
  "has_text (''diagnostics.state.'' @ health_name h)" "has_text (''policies.mode_'' @ policy_mode_name pm)"
  "has_text (''policies.mode_'' @ policy_mode_name pm @ ''_hint'')" "has_text (''rewrites.value_hint_'' @ rewrite_type_name rt)"
  "has_text (''restore.state_'' @ restore_outcome_name ro)" "has_text (''events.'' @ severity_name s)"
  "has_text (''webhooks.severity_'' @ severity_name s)" "list_all (\<lambda>st. has_text (''updates.state_'' @ st)) STEPS"
proof -
  show "has_text (''palette.kind_'' @ search_kind_name k)" by (rule has_textI) (cases k; simp add: keys_kinds)
  show "has_text (''analytics.range_'' @ range_name r)" by (rule has_textI) (cases r; simp add: keys_ranges)
  show "has_text (''dashboard.upstream_'' @ upstream_state_name u)" by (rule has_textI) (cases u; simp add: keys_upstreams)
  show "has_text (''cluster.role_'' @ cluster_role_name c)" by (rule has_textI) (cases c; simp add: keys_roles)
  show "has_text (''cluster.status_'' @ member_status_name m)" by (rule has_textI) (cases m; simp add: keys_statuses)
  show "has_text (''settings.theme_'' @ theme_code th)" by (rule has_textI) (cases th; simp add: keys_themes)
  show "has_text (''diagnostics.state.'' @ health_name h)" by (rule has_textI) (cases h; simp add: keys_healths)
  show "has_text (''policies.mode_'' @ policy_mode_name pm)" "has_text (''policies.mode_'' @ policy_mode_name pm @ ''_hint'')"
    by (rule has_textI, cases pm; simp add: keys_modes)+
  show "has_text (''rewrites.value_hint_'' @ rewrite_type_name rt)" by (rule has_textI) (cases rt; simp add: keys_hints)
  show "has_text (''restore.state_'' @ restore_outcome_name ro)" by (rule has_textI) (cases ro; simp add: keys_restores)
  show "has_text (''events.'' @ severity_name s)" by (rule has_textI) (cases s; simp add: keys_events)
  show "has_text (''webhooks.severity_'' @ severity_name s)" by (rule has_textI) (cases s; simp add: keys_severities)
  have "''updates.state_'' @ st \<in> set (map fst (with_prefix ''updates.state_'' dict_en))" if "st \<in> set STEPS" for st
    using that by (auto simp: STEPS_def keys_updates)
  then show "list_all (\<lambda>st. has_text (''updates.state_'' @ st)) STEPS"
    unfolding list_all_iff by (auto intro!: has_textI simp del: append.simps)
qed

text \<open>The values that the client declares for the stage and the source of an explained answer.\<close>

definition explain_stages :: "jstring list" where
  "explain_stages = [''filter'', ''rewrite'', ''zone'', ''cache'', ''forwarding'', ''upstream'', ''refused'']"

definition explain_sources :: "jstring list" where
  "explain_sources = [''local'', ''cache'', ''blocked'', ''upstream'', ''refused'']"

fun entry_label :: "nav_entry \<Rightarrow> jstring list" where
  "entry_label (NavItem i) = []"
| "entry_label (NavGroup label items) = [label]"

lemma list_has_text:
  assumes "list_all (\<lambda>x. p @ x \<in> set (map fst (with_prefix p dict_en))) xs"
  shows "list_all (\<lambda>x. has_text (p @ x)) xs"
  using assms by (simp only: has_text_iff)

lemma listed_keys:
  "list_all (\<lambda>x. has_text (''explain.stage.'' @ x)) explain_stages" "list_all (\<lambda>x. has_text (''explain.source.'' @ x)) explain_sources"
  "list_all (\<lambda>x. has_text (''explain.result.'' @ x)) (map fst explain_tones)" "list_all (\<lambda>x. has_text (''analytics.source_'' @ x)) explain_sources"
  by (rule list_has_text, simp add: keys_stages keys_sources keys_results keys_shares explain_stages_def explain_sources_def explain_tones_def)+

lemma own_keys:
  "has_text ''audit.success''" "has_text ''audit.failure''" "list_all has_text (map snd SCHEDULES)"
  "list_all has_text (concat (map entry_label NAV))"
proof -
  show "has_text ''audit.success''" using has_textI [of "''audit.su''" "''ccess''"] by (simp add: keys_success)
  show "has_text ''audit.failure''" using has_textI [of "''audit.fa''" "''ilure''"] by (simp add: keys_failure)
  have "has_text ''blocklists.manual''" using has_textI [of "''blocklists.manual''" "[]"] by (simp add: keys_manual)
  moreover have "list_all (\<lambda>x. has_text (''blocklists.every_'' @ x)) [''1h'', ''6h'', ''12h'', ''24h'', ''7d'']"
    by (rule list_has_text) (simp add: keys_intervals)
  ultimately show "list_all has_text (map snd SCHEDULES)" by (simp add: SCHEDULES_def)
  have "list_all (\<lambda>x. has_text (''app.nav.'' @ x)) [''group_dns'', ''group_network'', ''group_system'']"
    by (rule list_has_text) (simp add: keys_navs)
  then show "list_all has_text (concat (map entry_label NAV))" by (simp add: NAV_def)
qed

lemma missing_keys:
  "\<not> has_text ''explain.stage.local''" "\<not> has_text ''analytics.source_overload''"
  using has_text_iff [of "''explain.stage.''" "''local''"] has_text_iff [of "''analytics.source_''" "''overload''"]
  by (simp_all add: keys_stages keys_shares)

text \<open>Where the page falls back to the value itself, no raw key is shown for any value.\<close>

lemma fallback_label: "stateLabel t st \<noteq> ''updates.state_'' @ st" "statusLabel t st \<noteq> ''backup.state_'' @ st"
  by (auto simp: stateLabel_def statusLabel_def Let_def dest: arg_cong [where f = length])

text \<open>C38: The labels that are computed from the values which the client declares, or from its own tables, are keys of the tables, so
  that none of them is shown as a raw key in any language: titles and subtitles of every path, the entries and groups of the navigation,
  the intervals of a blocklist, kinds of search results, ranges of the analytics, states of upstreams, roles and states of cluster nodes, themes,
  states of the diagnostics, modes of policies with their hints, types of rewrites, outcomes of a restore, severities of events, steps of an update,
  results of the audit log, and stages, sources and coloured results of an explained answer. The states of an update and of a backup never
  show a raw key for any value. Other values of the server do: a source of the analytics that the query log offers (\<open>overload\<close>), and
  the stage \<open>local\<close> of an explanation, have no text.\<close>

theorem labels_have_text:
  "has_text (''app.title.'' @ routeKey path) \<and> has_text (''app.subtitle.'' @ routeKey path) \<and>
   list_all (\<lambda>i. has_text (''app.nav.'' @ ni_key i)) nav_items \<and> list_all has_text (concat (map entry_label NAV)) \<and>
   list_all has_text (map snd SCHEDULES) \<and>
   has_text (''palette.kind_'' @ search_kind_name k) \<and> has_text (''analytics.range_'' @ range_name r) \<and>
   has_text (''dashboard.upstream_'' @ upstream_state_name u) \<and> has_text (''cluster.role_'' @ cluster_role_name c) \<and>
   has_text (''cluster.status_'' @ member_status_name m) \<and> has_text (''settings.theme_'' @ theme_code th) \<and>
   has_text (''diagnostics.state.'' @ health_name h) \<and> has_text (''policies.mode_'' @ policy_mode_name pm) \<and>
   has_text (''policies.mode_'' @ policy_mode_name pm @ ''_hint'') \<and> has_text (''rewrites.value_hint_'' @ rewrite_type_name rt) \<and>
   has_text (''restore.state_'' @ restore_outcome_name ro) \<and> has_text (''events.'' @ severity_name s) \<and>
   has_text (''webhooks.severity_'' @ severity_name s) \<and> list_all (\<lambda>st. has_text (''updates.state_'' @ st)) STEPS \<and>
   has_text ''audit.success'' \<and> has_text ''audit.failure'' \<and>
   list_all (\<lambda>x. has_text (''explain.stage.'' @ x)) explain_stages \<and> list_all (\<lambda>x. has_text (''explain.source.'' @ x)) explain_sources \<and>
   list_all (\<lambda>x. has_text (''explain.result.'' @ x)) (map fst explain_tones) \<and>
   list_all (\<lambda>x. has_text (''analytics.source_'' @ x)) explain_sources \<and>
   stateLabel t st \<noteq> ''updates.state_'' @ st \<and> statusLabel t st \<noteq> ''backup.state_'' @ st \<and>
   ''overload'' \<in> set SOURCES \<and> \<not> has_text ''analytics.source_overload'' \<and> \<not> has_text ''explain.stage.local''"
  by (intro conjI title_has_text subtitle_has_text nav_has_text label_keys listed_keys own_keys missing_keys fallback_label) (simp add: SOURCES_def)

end
