(* ===== verification/Spec2Isabelle.thy ===== *)
theory Spec2Isabelle
  imports Routed_Pages Zone_Properties Session_Properties Shell_Properties Page_Properties Text_Properties
begin

text \<open>
  The web client of Velora DNS (\<open>src/web/src\<close>), a React application in TypeScript that manages
  a DNS server through its HTTP API.

  \<^bold>\<open>The program.\<close> \<open>AuthGate.tsx\<close> shows the application to a user the server has confirmed. \<open>App.tsx\<close>
  is its frame: navigation, routes, roles, the command palette (\<open>components/CommandPalette.tsx\<close>) and
  keyboard handling; it polls the server's state through \<open>useSnapshot.ts\<close> and mounts one page. Every
  page keeps its own state, sends requests through \<open>api.ts\<close> and the \<open>api-*.ts\<close> modules, and
  renders from its state and the props that restrict it. \<open>LanguageProvider.tsx\<close> keeps language and
  theme in step with the server, local storage and the document.

  \<^bold>\<open>How it is modelled.\<close> A component is a record of its state, one function per handler and per
  continuation of a promise, and a rendering function from props and state to a tree (theory \<open>Dom\<close>)
  whose attributes carry the handlers as messages. What is in flight (requests with their abort
  flags, timers) is part of the state, so that answers can arrive in any order. Theory \<open>Ui\<close> turns
  these into a machine: a step is one handler that the rendered page lets the user trigger (HTML's rules
  for disabled controls, fieldsets and form submission), or one step of the environment. Numbers are
  unbounded rationals rounded to double precision where the sources compute with them
  (\<open>Js_Number\<close>, \<open>Charts\<close>); strings are lists of Latin-1 characters, and the string functions the sources
  use are in \<open>Prelude\<close>. The text of every label goes through the translation function, an argument of
  every rendering function; \<open>Translations\<close> has the real one. Text outside Latin-1 only occurs in what is rendered
  and is given by its code units.

  \<^bold>\<open>The contracts.\<close> The locales of \<open>Ui\<close> are what a page is held to: an invariant of all reachable states
  (\<open>page_machine\<close>), at most one change in flight (\<open>single_flight_page\<close>), no change in a read-only session
  (\<open>read_only_page\<close>), and the refinement of a lock that is free or held by one change (\<open>locked_page\<close>).
  \<open>poller\<close> and \<open>phase_poller\<close> are the two ways in which the sources poll, \<open>crud_client\<close> the load-and-run
  core of four pages, \<open>typed_page\<close> the type of the requests. Each is interpreted on the pages themselves.

  \<^bold>\<open>The theories.\<close>
  \<^item> \<open>Prelude\<close>, \<open>Js_Number\<close>: strings, splitting and joining, percent encoding, array helpers,
    \<open>Number(s)\<close>, \<open>Number.isInteger\<close>, \<open>toFixed\<close>, rounding to doubles.
  \<^item> \<open>Dom\<close>, \<open>Ui\<close>, \<open>Components\<close>: the rendered tree, what a user can trigger, the page contracts,
    \<open>Badge\<close>, \<open>EmptyState\<close>, \<open>Loading\<close>, \<open>Stat\<close>, \<open>toneFor\<close>.
  \<^item> \<open>Api\<close>, \<open>Api_Resources\<close>, \<open>Api_Admin\<close>: \<open>request\<close> (headers, CSRF token, revision, decoding of
    answers and errors), the session, the data types and the call of each exported function.
    \<open>Requests\<close>, \<open>Page_Requests\<close>: when a call is well-formed, and that every page's changes are. C12 to C14.
  \<^item> \<open>I18n\<close>: languages, themes, the provider and its effects. C18, C19. \<open>Auth_Gate\<close>: the cookie check
    and the sign-in form. C15, C16. \<open>Snapshot\<close>: the polling contract, \<open>useSnapshot\<close> and the onboarding
    checklist. C20, C21. These properties are in \<open>Session_Properties\<close>.
  \<^item> \<open>Zone_Types\<close>, \<open>Use_Zones\<close>, \<open>Zone_Forms\<close>, \<open>Zones_Page\<close>: the zones page with its hook, its
    two forms and its table; C1 to C9 in \<open>Zone_Properties\<close> (C8: what each field of the record form holds after a refused
    save; C9: answers that are overtaken by a reload or a change of language, however many and in whatever order).
  \<^item> \<open>Command_Palette\<close>, \<open>App_Shell\<close>, \<open>App_Frame\<close>, \<open>Scroll_Regions\<close>: search, options and keys of the
    palette; navigation data, routes, roles and menus; the frame with its effects, actions and environment;
    focusable table wrappers. \<open>Program\<close>: \<open>main.tsx\<close>, the gate and the application behind it as one machine. C17,
    C31 to C33, C35, C36 and C40, in \<open>Shell_Properties\<close>.
  \<^item> \<open>Texts\<close>, \<open>Texts_En\<close> to \<open>Texts_Ko\<close>, \<open>Translations\<close>: the ten translation tables with every entry, and how their
    keys compare. C28, C34 and C38, in \<open>Text_Properties\<close>.
  \<^item> \<open>Crud\<close> with \<open>Clients_Page\<close>, \<open>Rewrites_Page\<close>, \<open>Policies_Page\<close>, \<open>Webhooks_Page\<close>;
    \<open>Forwarding_Page\<close>, \<open>Blocklists_Page\<close>, \<open>Query_Log\<close>, \<open>Cache_Page\<close>, \<open>DHCP_Page\<close>, \<open>Cluster_Page\<close>,
    \<open>Settings_Page\<close>, \<open>Update_Center\<close> and \<open>Restore_Panel\<close> (on \<open>Phase_Poller\<close>), \<open>Backup_Page\<close>,
    \<open>Event_Center\<close>, \<open>Audit_Log\<close>, \<open>Diagnostics_Page\<close> (with the answer explainer), \<open>Dashboard_Page\<close> and
    \<open>Analytics_Page\<close> (on \<open>Charts\<close>): one page each. C22 to C27, C29, C30, C37 and C39, in \<open>Page_Properties\<close>.
  \<^item> \<open>Routed_Pages\<close>: the pages behind the routes with the props they get there; below, C10 to C12 put the
    routes, the roles and the contracts of the pages together. \<open>Sample_Data\<close>: inputs for the witnesses.

  \<^bold>\<open>What the properties show.\<close> A viewer cannot send a change from any page that takes a restriction, however actions
  and answers interleave (C1, C10); the changes guarded by a busy flag never overlap and refine a lock (C2, C11); stale answers are
  ignored (C9, C29, C30); forms send only what passes their checks and a form saved unchanged sends the resource back unchanged
  (C4 to C6, C24, C25, C27); a refused save keeps the form (C8); requests are well-formed and carry the
  token and the revision (C3, C12); the answers of the server are read back as it writes them, errors and the fields they name included (C13,
  C14, C26); polling neither stops nor doubles, and ends when an update is over (C20, C22); a restore needs its confirmation (C23);
  the application runs exactly for the user the gate has confirmed, with that user's token (C15 to C17); \<open>Enter\<close> in the palette does what
  the highlighted option says (C31); navigation and routes agree (C33) and privileges grow with the role (C35); every language has every
  text, titles tell the routed pages apart and the labels of declared values are not missing (C28, C34, C38); the dashboard's line stays in its
  box in double precision (C39). C19, C32, C37 and C40, the last clause of C34 and the last two of C38 state behaviours that the sources do not
  intend.

  The right-hand sides of C8, C13, C26 and C31 are written out (texts, fields and places), not given by the functions of the model that compute
  them, so that they fix what those functions do. The encoders \<open>error_envelope\<close> and \<open>written_error\<close>, the table \<open>api_path\<close> and the
  observers \<open>subnodes\<close>, \<open>answered\<close> and \<open>older_answers\<close> are part of the specification, not of the program.

  \<^bold>\<open>Arguments that stand for code outside the repository.\<close> The router's path matching, the collation of
  \<open>localeCompare\<close>, number and date formatting, the engine's error messages and the answers of the server. The
  pages are proved for any translation function, so the dictionaries are an argument there too. No definition uses fuel: every function of the model
  terminates. C22 bounds the polls of an update by sixteen, the half minute of \<open>START_TIMEOUT_MS\<close> at the
  intervals of the timers.

  \<^bold>\<open>Limits.\<close> A change of language during a session is a step of the frame, of the polling machines and of the pages
  that load again on it; the texts of a page's machine are those of one translation function. A server answer is taken to have the declared
  type, as the sources take it, except for the error envelope. \<open>Settings\<close>, \<open>Webhooks\<close> and \<open>EventCenter\<close> take
  no restricting prop, so C10 says nothing of them; \<open>DHCP\<close>, \<open>UpdateCenter\<close>, \<open>EventCenter\<close> and the rate limit of
  \<open>Settings\<close> have no busy flag, so C11 says nothing of them. A request of the restore panel is followed while the panel is on display.
  C24 is about the lists and the time to live; the address of the web interface is sent as typed.

  \<^bold>\<open>Not modelled.\<close> The build configuration, scrolling, icons' geometry and style sheets, and the Go server.
\<close>

section \<open>The application as a whole\<close>

text \<open>C10: Whatever the path, the page that a viewer is shown never sends a change, in any interleaving of the viewer's actions, timers and
  server answers, for every page that takes a restriction: dashboard, cache, zones, blocklists, policies, clients, rewrites,
  forwarding, updates, backup and restore, DHCP and cluster. On a cluster replica the same holds of the zones page for
  every user.\<close>

theorem viewers_never_write:
  assumes "has_role Viewer user \<or> app_replica (Some d) \<and> (\<exists>ro. route rmatch user d path = R_Zones ro)"
  shows "route_quiet (route rmatch user d path)"
proof (rule restricted_quiet)
  show "write_props_off (route rmatch user d path)"
    using assms viewer_route [of user rmatch d path] replica_route [of d rmatch user path] by (auto simp: app_readOnly_def)
qed

theorem viewers_never_write_witness:
  "cr_runs (crud_timer (clients_mount True None)) = []"
proof -
  have r: "route (=) (Some demo_viewer) demo_snapshot ''/clients'' = R_Clients True True"
    by (simp add: route_def routes_def app_readOnly_def has_role_def demo_viewer_def query_logging_def demo_snapshot_def Let_def)
  have "ui_reach (\<lambda>s. \<exists>n. s = clients_mount True n) (clients_view id demo_formats [] True True) (clients_update id)
      (crud_env (id ''clients.load_failed'') (id ''clients.save_failed'')) (crud_timer (clients_mount True None))"
    by (rule ui_reach.stepped [OF ui_reach.mounted]) (auto intro: ui_step.environment crud_env.timer_fires)
  moreover have "route_quiet (R_Clients True True)"
    using viewers_never_write [of "Some demo_viewer" demo_snapshot "(=)" "''/clients''"] r by (simp add: has_role_def demo_viewer_def)
  ultimately show ?thesis unfolding route_quiet.simps page_quiet_def by blast
qed

text \<open>C11: For each busy flag of the page behind any route, the changes that it guards refine a lock: in every reachable state at most one of them is
  being made, and a step takes the free lock, releases it or leaves it alone, so that such a change never displaces another. The groups are:
  the reset on the dashboard; the changes of the cache, zones and blocklists pages; those of policies, clients, rewrites and webhooks
  (from the request to the end of the reload that follows); those of forwarding with its test; checking and saving the configuration on the
  settings page; creating a backup, verifying one, and in the restore panel on display uploading a bundle and scheduling a restore, each with
  a lock of its own; those of the cluster; and the question of the answer explainer. Changes of different groups can overlap, and saving the rate
  limit, updates, DHCP and events have no busy flag.\<close>

theorem changes_refine_lock: "route_locked (route rmatch user d path)"
  by (rule all_locked)

text \<open>C12: In every reachable state of the page behind any route every change in flight is a well-formed request: a path of the versioned
  API in the characters a URL may have, a method the server knows, and no body and no revision on a read. This includes the changes without a
  busy flag (the rate limit and the preferences on the settings page, updates, DHCP and marking events as read) and excepts
  the upload of a bundle, which is a multipart form; the pages for queries, audit and analytics make no change. The requests built from what a user types
  (filters, searches, an address) are well-formed too.\<close>

theorem requests_typed:
  "route_typed (route rmatch user d path) \<and> list_all wf_call ([get_call (query_path qf), get_call (audit_path af before),
     get_call (entries_path off cf), searchResources_call q, effectivePolicy_call ip] @ analytics_calls rng)"
  by (simp add: all_typed wf_reads)

end
